(* ===== verification/Prelude.thy ===== *)
theory Prelude
  imports Main "HOL-Library.Multiset" "HOL-Library.List_Lexorder" "HOL-Library.Char_ord"
begin

section \<open>Shared vocabulary: identifiers, results, tables\<close>

text \<open>
  What every component of the development uses: the type of identifiers (Go strings, UUIDs in
  practice), the result of an operation that returns a Go \<open>error\<close>, and the meaning of the SQL
  statements that the handlers build with squirrel (\<open>SELECT\<close>, \<open>UPDATE\<close>, \<open>DELETE\<close>,
  \<open>COUNT\<close>, \<open>MAX\<close>, \<open>ORDER BY\<close>) on a table given as the list of its rows. The order of
  the list is the order in which the database happens to return rows when the statement has no
  \<open>ORDER BY\<close>; no lemma fixes it, so every property holds for each such order.
\<close>

named_theorems handler_defs \<open>definitions of handlers and their guards\<close>
named_theorems sql_simps \<open>rewrite rules of the SQL statements\<close>
named_theorems ok_intros \<open>operations that keep the integrity constraints of the schema\<close>

type_synonym id = string

subsection \<open>Results\<close>

text \<open>A Go function returning \<open>(T, error)\<close> is a value of \<open>'e + 'a\<close>; \<open>Inl\<close> is the error.\<close>

definition and_then :: "'e + 'a \<Rightarrow> ('a \<Rightarrow> 'e + 'b) \<Rightarrow> 'e + 'b" where
  "and_then m f = (case m of Inl e \<Rightarrow> Inl e | Inr x \<Rightarrow> f x)"

lemma and_then_simps [simp]:
  "and_then (Inl e) f = Inl e"
  "and_then (Inr x) f = f x"
  by (simp_all add: and_then_def)

lemma and_then_eq_Inr: "and_then m f = Inr y \<longleftrightarrow> (\<exists>x. m = Inr x \<and> f x = Inr y)"
  by (cases m) auto

lemma and_then_eq_Inl: "and_then m f = Inl e \<longleftrightarrow> m = Inl e \<or> (\<exists>x. m = Inr x \<and> f x = Inl e)"
  by (cases m) auto

subsection \<open>SQL statements on one table\<close>

definition sql_first :: "('r \<Rightarrow> bool) \<Rightarrow> 'r list \<Rightarrow> 'r option" where
  "sql_first p rows = List.find p rows"

definition sql_select :: "('r \<Rightarrow> bool) \<Rightarrow> 'r list \<Rightarrow> 'r list" where
  "sql_select p rows = filter p rows"

definition sql_count :: "('r \<Rightarrow> bool) \<Rightarrow> 'r list \<Rightarrow> int" where
  "sql_count p rows = int (length (filter p rows))"

definition sql_max :: "('r \<Rightarrow> int) \<Rightarrow> ('r \<Rightarrow> bool) \<Rightarrow> 'r list \<Rightarrow> int option" where
  "sql_max f p rows = (case map f (filter p rows) of [] \<Rightarrow> None | x # xs \<Rightarrow> Some (fold max xs x))"

definition sql_update :: "('r \<Rightarrow> bool) \<Rightarrow> ('r \<Rightarrow> 'r) \<Rightarrow> 'r list \<Rightarrow> 'r list" where
  "sql_update p f rows = map (\<lambda>r. if p r then f r else r) rows"

definition sql_delete :: "('r \<Rightarrow> bool) \<Rightarrow> 'r list \<Rightarrow> 'r list" where
  "sql_delete p rows = filter (\<lambda>r. \<not> p r) rows"

definition sql_insert :: "'r \<Rightarrow> 'r list \<Rightarrow> 'r list" where
  "sql_insert r rows = rows @ [r]"

definition order_by :: "('r \<Rightarrow> 'k::linorder) \<Rightarrow> 'r list \<Rightarrow> 'r list" where
  "order_by f rows = sort_key f rows"

lemma sql_first_Some: "sql_first p rows = Some r \<Longrightarrow> r \<in> set rows \<and> p r"
  by (auto simp: sql_first_def find_Some_iff)

lemma sql_first_None [sql_simps]: "sql_first p rows = None \<longleftrightarrow> (\<forall>r \<in> set rows. \<not> p r)"
  by (auto simp: sql_first_def find_None_iff)

lemma sql_first_notNone: "sql_first p rows \<noteq> None \<longleftrightarrow> (\<exists>r \<in> set rows. p r)"
  by (auto simp: sql_first_def find_None_iff)

lemma sql_first_simps [simp]:
  "sql_first p [] = None"
  "sql_first p (r # rows) = (if p r then Some r else sql_first p rows)"
  by (simp_all add: sql_first_def)

lemma sql_first_exists:
  "(case sql_first p rows of None \<Rightarrow> False | Some r \<Rightarrow> True) \<longleftrightarrow> (\<exists>r \<in> set rows. p r)"
  by (induction rows) auto

lemma sql_first_append:
  "sql_first p (xs @ ys) = (case sql_first p xs of None \<Rightarrow> sql_first p ys | Some r \<Rightarrow> Some r)"
  by (induction xs) auto

lemma set_sql_select [simp]: "set (sql_select p rows) = {r \<in> set rows. p r}"
  by (auto simp: sql_select_def)

lemma set_sql_delete [simp]: "set (sql_delete p rows) = {r \<in> set rows. \<not> p r}"
  by (auto simp: sql_delete_def)

lemma set_sql_insert [simp]: "set (sql_insert r rows) = insert r (set rows)"
  by (auto simp: sql_insert_def)

lemma set_sql_update: "set (sql_update p f rows) = (\<lambda>r. if p r then f r else r) ` set rows"
  by (auto simp: sql_update_def)

lemma sql_update_other: "r \<in> set rows \<Longrightarrow> \<not> p r \<Longrightarrow> r \<in> set (sql_update p f rows)"
  by (force simp: set_sql_update image_iff)

lemma ball_sql_update [simp]:
  "(\<forall>r \<in> set (sql_update p f rows). Q r) \<longleftrightarrow> (\<forall>r \<in> set rows. Q (if p r then f r else r))"
  by (auto simp: sql_update_def)

lemma bex_sql_update [simp]:
  "(\<exists>r \<in> set (sql_update p f rows). Q r) \<longleftrightarrow> (\<exists>r \<in> set rows. Q (if p r then f r else r))"
  by (auto simp: sql_update_def)

lemma set_order_by [simp]: "set (order_by f rows) = set rows"
  by (simp add: order_by_def)

lemma length_order_by [simp]: "length (order_by f rows) = length rows"
  by (simp add: order_by_def)

lemma sorted_order_by: "sorted (map f (order_by f rows))"
  by (simp add: order_by_def)

lemma distinct_order_by: "distinct (map g (order_by f rows)) \<longleftrightarrow> distinct (map g rows)"
proof -
  have "mset (map g (order_by f rows)) = mset (map g rows)"
    by (simp add: order_by_def)
  then show ?thesis by (metis mset_eq_imp_distinct_iff)
qed

lemma map_sql_update [sql_simps]:
  "(\<And>r. g (f r) = g r) \<Longrightarrow> map g (sql_update p f rows) = map g rows"
  by (simp add: sql_update_def)

lemma image_sql_update:
  assumes "\<And>r. g (f r) = g r"
  shows "g ` set (sql_update p f rows) = g ` set rows"
  using map_sql_update [of g f p rows] assms by (metis list.set_map)

lemma distinct_sql_delete [intro]: "distinct (map g rows) \<Longrightarrow> distinct (map g (sql_delete p rows))"
  by (simp add: sql_delete_def distinct_map_filter)

lemma distinct_sql_select: "distinct (map g rows) \<Longrightarrow> distinct (map g (sql_select p rows))"
  by (simp add: sql_select_def distinct_map_filter)

lemma distinct_sql_insert [simp]:
  "distinct (map g (sql_insert r rows)) \<longleftrightarrow> distinct (map g rows) \<and> g r \<notin> g ` set rows"
  by (auto simp: sql_insert_def)

lemma sql_first_update [sql_simps]:
  "(\<And>r. q (f r) \<longleftrightarrow> q r) \<Longrightarrow>
   sql_first q (sql_update p f rows) = map_option (\<lambda>r. if p r then f r else r) (sql_first q rows)"
  by (induction rows) (auto simp: sql_update_def)

lemma sql_first_delete_other [sql_simps]:
  "(\<And>r. q r \<Longrightarrow> \<not> p r) \<Longrightarrow> sql_first q (sql_delete p rows) = sql_first q rows"
  by (induction rows) (auto simp: sql_delete_def)

lemma sql_first_delete_same [sql_simps]:
  "(\<And>r. q r \<Longrightarrow> p r) \<Longrightarrow> sql_first q (sql_delete p rows) = None"
  by (auto simp: sql_first_None)

text \<open>Joins: every pair of matching rows, and for a left join the rows without a match once.\<close>

definition inner_join :: "('r \<Rightarrow> 't \<Rightarrow> bool) \<Rightarrow> 'r list \<Rightarrow> 't list \<Rightarrow> ('r \<times> 't) list" where
  "inner_join on xs ys = concat (map (\<lambda>x. map (Pair x) (filter (on x) ys)) xs)"

definition left_join :: "('r \<Rightarrow> 't \<Rightarrow> bool) \<Rightarrow> 'r list \<Rightarrow> 't list \<Rightarrow> ('r \<times> 't option) list" where
  "left_join on xs ys = concat (map (\<lambda>x. case filter (on x) ys of
     [] \<Rightarrow> [(x, None)] | m # ms \<Rightarrow> map (\<lambda>y. (x, Some y)) (m # ms)) xs)"

lemma set_inner_join: "set (inner_join on xs ys) = {(x, y). x \<in> set xs \<and> y \<in> set ys \<and> on x y}"
  by (auto simp: inner_join_def)

lemma set_left_join:
  "set (left_join on xs ys) = {(x, Some y) | x y. x \<in> set xs \<and> y \<in> set ys \<and> on x y} \<union>
     {(x, None) | x. x \<in> set xs \<and> (\<forall>y \<in> set ys. \<not> on x y)}"
proof -
  have "set (case filter (on x) ys of [] \<Rightarrow> [(x, None)] | m # ms \<Rightarrow> map (\<lambda>y. (x, Some y)) (m # ms)) =
      {(x, Some y) | y. y \<in> set ys \<and> on x y} \<union> (if \<forall>y \<in> set ys. \<not> on x y then {(x, None)} else {})" for x
  proof (cases "filter (on x) ys")
    case Nil
    then show ?thesis by (auto simp: filter_empty_conv)
  next
    case (Cons m ms)
    have "set (m # ms) = {y \<in> set ys. on x y}" by (simp flip: Cons)
    then show ?thesis by (auto simp: Cons)
  qed
  then show ?thesis by (fastforce simp: left_join_def split: if_splits)
qed

text \<open>With a key that no two rows share, the first row with a key is the row with that key.\<close>

lemma sql_first_key:
  "distinct (map g rows) \<Longrightarrow> r \<in> set rows \<Longrightarrow> sql_first (\<lambda>x. g x = g r) rows = Some r"
  by (induction rows) (auto simp: image_iff)

lemma sql_first_key_and:
  "distinct (map g rows) \<Longrightarrow> r \<in> set rows \<Longrightarrow> p r \<Longrightarrow> sql_first (\<lambda>x. g x = g r \<and> p x) rows = Some r"
  by (induction rows) (auto simp: image_iff)

lemma distinct_key_eq:
  "distinct (map g rows) \<Longrightarrow> x \<in> set rows \<Longrightarrow> y \<in> set rows \<Longrightarrow> g x = g y \<Longrightarrow> x = y"
  by (simp add: distinct_map inj_on_def)

text \<open>A left join along a foreign key adds to each row the one row that it refers to.\<close>

lemma filter_key:
  "distinct (map g ys) \<Longrightarrow> filter (\<lambda>y. k = g y) ys = (case sql_first (\<lambda>y. g y = k) ys of None \<Rightarrow> [] | Some y \<Rightarrow> [y])"
proof (induction ys)
  case (Cons y ys)
  have "filter (\<lambda>x. k = g x) ys = []" if "g y = k"
    using Cons.prems that by (auto simp: filter_empty_conv image_iff)
  then show ?case using Cons by auto
qed simp

lemma left_join_key:
  "distinct (map g ys) \<Longrightarrow>
   left_join (\<lambda>x y. f x = g y) xs ys = map (\<lambda>x. (x, sql_first (\<lambda>y. g y = f x) ys)) xs"
  by (induction xs) (auto simp: left_join_def filter_key split: option.splits)

lemma insort_key_map: "insort_key f (h x) (map h xs) = map h (insort_key (f \<circ> h) x xs)"
  by (induction xs) auto

lemma order_by_map: "order_by f (map h xs) = map h (order_by (f \<circ> h) xs)"
  by (induction xs) (simp_all add: order_by_def insort_key_map comp_def)

lemma sql_select_map: "sql_select p (map h xs) = map h (sql_select (p \<circ> h) xs)"
  by (simp add: sql_select_def filter_map)

lemma sql_count_nonneg [simp]: "0 \<le> sql_count p rows"
  by (simp add: sql_count_def)

lemma sql_count_zero: "sql_count p rows = 0 \<longleftrightarrow> (\<forall>r \<in> set rows. \<not> p r)"
  by (auto simp: sql_count_def filter_empty_conv)

lemma sql_count_pos: "0 < sql_count p rows \<longleftrightarrow> (\<exists>r \<in> set rows. p r)"
proof -
  have "0 < sql_count p rows \<longleftrightarrow> sql_count p rows \<noteq> 0"
    using sql_count_nonneg [of p rows] by linarith
  then show ?thesis by (simp add: sql_count_zero)
qed

lemma fold_max_Max: "fold max xs x = Max (insert x (set xs))" for x :: int
  by (metis List.finite_set Max.set_eq_fold list.simps(15))

lemma sql_max_None: "sql_max f p rows = None \<longleftrightarrow> (\<forall>r \<in> set rows. \<not> p r)"
proof -
  have "sql_max f p rows = None \<longleftrightarrow> filter p rows = []"
    by (cases "filter p rows") (simp_all add: sql_max_def)
  then show ?thesis by (simp add: filter_empty_conv)
qed

lemma sql_max_Some:
  "sql_max f p rows = Some m \<Longrightarrow> m = Max (f ` {r \<in> set rows. p r}) \<and> {r \<in> set rows. p r} \<noteq> {}"
proof -
  assume a: "sql_max f p rows = Some m"
  obtain x xs where xs: "map f (filter p rows) = x # xs" and m: "m = fold max xs x"
    using a by (auto simp: sql_max_def split: list.splits)
  have "f ` {r \<in> set rows. p r} = insert x (set xs)"
    using arg_cong [OF xs, of set] by auto
  then show ?thesis using m by (auto simp: fold_max_Max)
qed

subsection \<open>Tables of a database\<close>

text \<open>
  The interface by which a component uses one table of the database: reading the rows, writing
  them back, and the key that identifies a row. The laws are those of a field of a store; the
  lemmas are what a handler relies on after an \<open>INSERT\<close>, \<open>UPDATE\<close> or \<open>DELETE\<close>.
\<close>

locale keyed_table =
  fixes rows :: "'d \<Rightarrow> 'r list"
    and put :: "'r list \<Rightarrow> 'd \<Rightarrow> 'd"
    and pkey :: "'r \<Rightarrow> 'k"
  assumes rows_put: "rows (put xs d) = xs"
    and put_rows: "put (rows d) d = d"
    and put_put: "put xs (put ys d) = put xs d"
begin

lemma get_after_insert:
  assumes "pkey r \<notin> pkey ` set (rows d)"
  shows "sql_first (\<lambda>x. pkey x = k) (rows (put (sql_insert r (rows d)) d)) =
    (if k = pkey r then Some r else sql_first (\<lambda>x. pkey x = k) (rows d))"
proof (cases "k = pkey r")
  case True
  then have "sql_first (\<lambda>x. pkey x = k) (rows d) = None"
    using assms by (auto simp: sql_first_None image_iff)
  then show ?thesis using True by (simp add: rows_put sql_insert_def sql_first_append)
next
  case False
  then show ?thesis
    by (auto simp: rows_put sql_insert_def sql_first_append split: option.splits)
qed

lemma get_after_delete:
  "sql_first (\<lambda>x. pkey x = k) (rows (put (sql_delete (\<lambda>x. pkey x = k') (rows d)) d)) =
    (if k = k' then None else sql_first (\<lambda>x. pkey x = k) (rows d))"
proof (cases "k = k'")
  case True
  then show ?thesis by (simp add: rows_put sql_first_delete_same)
next
  case False
  have "sql_first (\<lambda>x. pkey x = k) (sql_delete (\<lambda>x. pkey x = k') (rows d)) =
    sql_first (\<lambda>x. pkey x = k) (rows d)"
    by (rule sql_first_delete_other) (use False in auto)
  then show ?thesis using False by (simp add: rows_put)
qed

lemma get_after_update:
  assumes "\<And>r. pkey (f r) = pkey r"
  shows "sql_first (\<lambda>x. pkey x = k) (rows (put (sql_update (\<lambda>x. pkey x = k') f (rows d)) d)) =
    (if k = k' then map_option f (sql_first (\<lambda>x. pkey x = k) (rows d))
     else sql_first (\<lambda>x. pkey x = k) (rows d))"
proof -
  have "sql_first (\<lambda>x. pkey x = k) (sql_update (\<lambda>x. pkey x = k') f (rows d)) =
    map_option (\<lambda>r. if pkey r = k' then f r else r) (sql_first (\<lambda>x. pkey x = k) (rows d))"
    by (rule sql_first_update) (simp add: assms)
  then show ?thesis
    by (cases "sql_first (\<lambda>x. pkey x = k) (rows d)") (auto simp: rows_put dest: sql_first_Some)
qed

lemma insert_then_delete:
  assumes "pkey r \<notin> pkey ` set (rows d)"
  shows "put (sql_delete (\<lambda>x. pkey x = pkey r) (rows (put (sql_insert r (rows d)) d)))
    (put (sql_insert r (rows d)) d) = d"
proof -
  have "sql_delete (\<lambda>x. pkey x = pkey r) (sql_insert r (rows d)) = rows d"
    using assms by (auto simp: sql_delete_def sql_insert_def image_iff intro!: filter_True)
  then show ?thesis by (simp add: rows_put put_put put_rows)
qed

end

end
