(* ===== verification/Errors.thy ===== *)
theory Errors
  imports Prelude
begin

section \<open>Errors and HTTP error responses\<close>

text \<open>
  The error values of \<open>lib/errors/errors.go\<close>, their \<open>Is\<close> methods, and the helpers of
  \<open>restapi/handlers/errors.go\<close> by which every \<open>Handle\<close> method turns an error into a
  response. The constructors carry \<open>GivenMessage\<close>. \<open>NoRows\<close>, \<open>PqError\<close> and
  \<open>ScanError\<close> are the values of \<open>database/sql\<close> and \<open>lib/pq\<close> that the handlers
  inspect or pass on: no row, a violated constraint (SQLSTATE code and constraint name), and a NULL
  that does not fit the Go field. \<open>Panic\<close> is an index out of range, which the recovery
  middleware turns into an internal error, and \<open>OtherErr\<close> is any error built with
  \<open>errors.New\<close> or \<open>fmt.Errorf\<close>.
\<close>

datatype err =
    ErrNotFound
  | ErrInvalid
  | ErrForbidden
  | ErrConflict
  | ErrPreconditionFailed
  | ErrRaceLimitExceeded
  | ErrSessionLimitExceeded
  | ErrGenericPreconditionFailed string
  | ErrSessionNotFound string
  | ErrSomethingNotFound string
  | ErrUserProfileNotFound string
  | ErrRulesNotFound string
  | ErrRaceNotFound string
  | ErrInvalidSomething string
  | ErrInvalidAccessLevel string
  | ErrInvalidSession string
  | ErrInvalidMember string
  | ErrAlreadyExists string
  | ErrInvalidRace string
  | ErrRaceInUse string
  | ErrPlayersNotReady string
  | ErrSessionAlreadyStarted string
  | ErrLastManager string
  | ErrNotAMember string
  | ErrSessionNotStarted string
  | ErrPlayerShouldNotBeReady string
  | ErrRaceLimitExceededError string
  | ErrSessionLimitExceededError string
  | NoRows
  | PqError string string
  | ScanError
  | Panic
  | OtherErr string

text \<open>The constructors whose result type is not the one their name announces, as in the source.\<close>

definition NewErrSomethingNotFound :: "string \<Rightarrow> err" where
  "NewErrSomethingNotFound msg = ErrSessionNotFound msg"

definition NewErrPreconditionFailed :: "string \<Rightarrow> err" where
  "NewErrPreconditionFailed msg = ErrGenericPreconditionFailed msg"

definition NewErrSessionLimitExceeded :: "string \<Rightarrow> err" where
  "NewErrSessionLimitExceeded msg = ErrSessionLimitExceededError msg"

definition NewErrRaceLimitExceeded :: "string \<Rightarrow> err" where
  "NewErrRaceLimitExceeded msg = ErrRaceLimitExceededError msg"

text \<open>The sentinel that the \<open>Is\<close> method of a typed error compares its target with.\<close>

fun err_class :: "err \<Rightarrow> err option" where
  "err_class (ErrGenericPreconditionFailed _) = Some ErrPreconditionFailed"
| "err_class (ErrSessionNotFound _) = Some ErrNotFound"
| "err_class (ErrSomethingNotFound _) = Some ErrNotFound"
| "err_class (ErrUserProfileNotFound _) = Some ErrNotFound"
| "err_class (ErrRulesNotFound _) = Some ErrNotFound"
| "err_class (ErrRaceNotFound _) = Some ErrNotFound"
| "err_class (ErrInvalidSomething _) = Some ErrInvalid"
| "err_class (ErrInvalidAccessLevel _) = Some ErrInvalid"
| "err_class (ErrInvalidSession _) = Some ErrInvalid"
| "err_class (ErrInvalidMember _) = Some ErrInvalid"
| "err_class (ErrAlreadyExists _) = Some ErrConflict"
| "err_class (ErrInvalidRace _) = Some ErrInvalid"
| "err_class (ErrRaceInUse _) = Some ErrConflict"
| "err_class (ErrPlayersNotReady _) = Some ErrPreconditionFailed"
| "err_class (ErrSessionAlreadyStarted _) = Some ErrPreconditionFailed"
| "err_class (ErrLastManager _) = Some ErrPreconditionFailed"
| "err_class (ErrNotAMember _) = Some ErrPreconditionFailed"
| "err_class (ErrSessionNotStarted _) = Some ErrPreconditionFailed"
| "err_class (ErrPlayerShouldNotBeReady _) = Some ErrPreconditionFailed"
| "err_class (ErrRaceLimitExceededError _) = Some ErrRaceLimitExceeded"
| "err_class (ErrSessionLimitExceededError _) = Some ErrSessionLimitExceeded"
| "err_class _ = None"

text \<open>
  \<open>errors.Is err target\<close>: equality, or the \<open>Is\<close> method of \<open>err\<close>, which is
  \<open>errors.Is target class\<close>.
\<close>

definition errors_Is :: "err \<Rightarrow> err \<Rightarrow> bool" where
  "errors_Is e target =
    (e = target \<or>
     (case err_class e of None \<Rightarrow> False
      | Some c \<Rightarrow> target = c \<or> err_class target = Some c))"

text \<open>The \<open>Error\<close> method.\<close>

fun Error_msg :: "err \<Rightarrow> string" where
  "Error_msg ErrNotFound = ''generic not found error''"
| "Error_msg ErrInvalid = ''generic invalid error''"
| "Error_msg ErrForbidden = ''forbidden''"
| "Error_msg ErrConflict = ''conflict''"
| "Error_msg ErrPreconditionFailed = ''precondition failed''"
| "Error_msg ErrRaceLimitExceeded = ''race limit exceeded''"
| "Error_msg ErrSessionLimitExceeded = ''session limit exceeded''"
| "Error_msg (ErrGenericPreconditionFailed m) = m"
| "Error_msg (ErrSessionNotFound m) = m"
| "Error_msg (ErrSomethingNotFound m) = m"
| "Error_msg (ErrUserProfileNotFound m) = m"
| "Error_msg (ErrRulesNotFound m) = m"
| "Error_msg (ErrRaceNotFound m) = m"
| "Error_msg (ErrInvalidSomething m) = m"
| "Error_msg (ErrInvalidAccessLevel m) = m"
| "Error_msg (ErrInvalidSession m) = m"
| "Error_msg (ErrInvalidMember m) = m"
| "Error_msg (ErrAlreadyExists m) = m"
| "Error_msg (ErrInvalidRace m) = m"
| "Error_msg (ErrRaceInUse m) = m"
| "Error_msg (ErrPlayersNotReady m) = m"
| "Error_msg (ErrSessionAlreadyStarted m) = m"
| "Error_msg (ErrLastManager m) = m"
| "Error_msg (ErrNotAMember m) = m"
| "Error_msg (ErrSessionNotStarted m) = m"
| "Error_msg (ErrPlayerShouldNotBeReady m) = m"
| "Error_msg (ErrRaceLimitExceededError m) = m"
| "Error_msg (ErrSessionLimitExceededError m) = m"
| "Error_msg NoRows = ''sql: no rows in result set''"
| "Error_msg (PqError c k) = k"
| "Error_msg ScanError = ''converting NULL to string is unsupported''"
| "Error_msg Panic = ''runtime error: index out of range''"
| "Error_msg (OtherErr m) = m"

text \<open>
  The five sentinels that the \<open>Handle\<close> methods switch on are pairwise different classes: an
  error matches at most one of them, so the order of the cases of a switch does not matter.
\<close>

definition is_sentinel :: "err \<Rightarrow> bool" where
  "is_sentinel t = (t \<in> {ErrNotFound, ErrInvalid, ErrForbidden, ErrConflict, ErrPreconditionFailed,
     ErrRaceLimitExceeded, ErrSessionLimitExceeded})"

lemma sentinel_has_no_class: "is_sentinel t \<Longrightarrow> err_class t = None"
  by (auto simp: is_sentinel_def)

lemma errors_Is_sentinel: "is_sentinel t \<Longrightarrow> errors_Is e t \<longleftrightarrow> e = t \<or> err_class e = Some t"
  by (auto simp: errors_Is_def sentinel_has_no_class split: option.splits)

lemma err_class_sentinel: "err_class e = Some t \<Longrightarrow> is_sentinel t"
  by (cases e rule: err_class.cases) (auto simp: is_sentinel_def)

lemma errors_Is_unique:
  assumes "is_sentinel t" "is_sentinel u" "errors_Is e t" "errors_Is e u"
  shows "t = u"
  using assms by (auto simp: errors_Is_sentinel sentinel_has_no_class)

subsection \<open>Responses\<close>

text \<open>
  What \<open>Handle\<close> returns: the success responder with its payload, or an error responder with a
  status code and the message of its body; an internal error has no body, because every handler
  passes \<open>debug = false\<close>.
\<close>

datatype 'a response =
    Success (status: nat) (payload: 'a)
  | Failure (status: nat) (message: "string option")

text \<open>One case of the \<open>switch\<close> of a \<open>Handle\<close> method: sentinel, status code, message.\<close>

type_synonym switch_case = "err \<times> nat \<times> (err \<Rightarrow> string)"

definition verbotten :: string where
  "verbotten = ''verbotten''"

abbreviation case_forbidden :: switch_case where
  "case_forbidden \<equiv> (ErrForbidden, 403, \<lambda>_. verbotten)"

abbreviation case_not_found :: switch_case where
  "case_not_found \<equiv> (ErrNotFound, 404, Error_msg)"

abbreviation case_invalid :: switch_case where
  "case_invalid \<equiv> (ErrInvalid, 400, Error_msg)"

abbreviation case_conflict :: switch_case where
  "case_conflict \<equiv> (ErrConflict, 409, Error_msg)"

abbreviation case_precondition :: switch_case where
  "case_precondition \<equiv> (ErrPreconditionFailed, 412, Error_msg)"

abbreviation case_session_limit :: switch_case where
  "case_session_limit \<equiv> (ErrSessionLimitExceeded, 429, Error_msg)"

abbreviation case_race_limit :: switch_case where
  "case_race_limit \<equiv> (ErrRaceLimitExceeded, 429, Error_msg)"

definition InternalError :: "err \<Rightarrow> 'a response" where
  "InternalError e = Failure 500 None"

fun switch_error :: "switch_case list \<Rightarrow> err \<Rightarrow> 'a response" where
  "switch_error [] e = InternalError e"
| "switch_error ((t, code, msg) # cs) e =
    (if errors_Is e t then Failure code (Some (msg e)) else switch_error cs e)"

lemma switch_error_Failure: "\<exists>c m. switch_error cs e = Failure c m"
  by (induction cs) (auto simp: InternalError_def)

lemma switch_error_not_Success [simp]: "switch_error cs e \<noteq> Success c x" "Success c x \<noteq> switch_error cs e"
  by (metis switch_error_Failure response.distinct(1))+

text \<open>A switch answers with the code of the class of the error, and with 500 otherwise.\<close>

lemma switch_error_status:
  assumes "\<forall>c \<in> set cs. is_sentinel (fst c)"
  shows "status (switch_error cs e) =
    (case List.find (\<lambda>c. e = fst c \<or> err_class e = Some (fst c)) cs of
       None \<Rightarrow> 500 | Some c \<Rightarrow> fst (snd c))"
  using assms
  by (induction cs) (auto simp: InternalError_def errors_Is_sentinel split: prod.splits)

lemma errors_Is_simps [simp]:
  "errors_Is ErrForbidden t \<longleftrightarrow> t = ErrForbidden"
  "errors_Is NoRows t \<longleftrightarrow> t = NoRows"
  "errors_Is Panic t \<longleftrightarrow> t = Panic"
  "errors_Is (PqError c k) t \<longleftrightarrow> t = PqError c k"
  "errors_Is (ErrSessionNotFound m) ErrNotFound"
  "\<not> errors_Is (ErrSessionNotFound m) ErrForbidden"
  by (auto simp: errors_Is_def)

end
