(* ===== verification/Database.thy ===== *)
theory Database
  imports Errors
begin

section \<open>The relational schema\<close>

text \<open>
  The tables of \<open>migration/scripts\<close> with the row types of \<open>models/*_db.go\<close>: one record per
  row type, a database that is one list of rows per table, and one operation per statement form that
  changes a table. Each \<open>INSERT\<close> enforces the constraints that the migrations declare, in the
  order in which PostgreSQL checks them (\<open>CHECK\<close>, then the primary key and \<open>UNIQUE\<close>, then
  foreign keys), and fails with the SQLSTATE code and the name of the violated constraint; each
  \<open>DELETE\<close> performs the \<open>ON DELETE\<close> actions. \<open>db_ok\<close> is the integrity that the schema
  declares; every operation keeps it. Timestamps (\<open>assigned_at\<close>) are left out. Row types carry
  a prefix per type because HOL record selectors are global.
\<close>

subsection \<open>Row types\<close>

datatype session_state = Pending | Starting | Started | Archived

datatype user_state = UserPending | UserActive | UserInactive

record SessionDB =
  S_ID :: id
  S_Name :: string
  S_Private :: bool
  S_RulesIsSet :: bool
  S_State :: session_state
  S_RulesetID :: "id option"

record UserProfileSessionRelDB =
  R_UserProfileID :: id
  R_SessionID :: id
  R_IsManager :: bool

record RaceDB =
  Ra_ID :: id
  Ra_NamePlural :: string
  Ra_NameSingular :: string
  Ra_UserID :: id
  Ra_Data :: string

record SessionPlayerRaceDB =
  P_ID :: id
  P_SessionID :: id
  P_UserProfileID :: id
  P_RaceID :: id
  P_IsBot :: bool
  P_BotLevel :: "int option"
  P_PlayerOrder :: int
  P_Ready :: bool
  P_AIControlType :: "string option"

record InvitationDB =
  I_ID :: id
  I_SessionID :: id
  I_UserProfileID :: id
  I_InviterID :: id

record Ruleset =
  AcceleratedBbsPlay :: bool
  ComputerPlayersFormAlliances :: bool
  Density :: int
  GalaxyClumping :: bool
  MaximumMinerals :: bool
  NoRandomEvents :: bool
  PublicPlayerScores :: bool
  RandomSeed :: int
  SlowerTechAdvances :: bool
  StartingDistance :: int
  UniverseSize :: int
  VcAtLeastxYears :: int
  VcAttainTech :: bool
  VcAttainTechFieldsValue :: int
  VcAttainTechTechValue :: int
  VcExceedNextPlayerScore :: bool
  VcExceedNextPlayerScoreValue :: int
  VcExceedScore :: bool
  VcExceedScoreValue :: int
  VcHasProductionCapacity :: bool
  VcHasProductionCapacityValue :: int
  VcHaveHighestScore :: bool
  VcHaveHighestScoreValue :: int
  VcOwnsCapitalShips :: bool
  VcOwnsCapitalShipsValue :: int
  VcOwnsPercentOfPlanets :: bool
  VcOwnsPercentOfPlanetsValue :: int
  VcWinnerMustMeet :: int

record RulesetDB =
  RS_ID :: id
  RS_SessionID :: id
  RS_Ruleset :: Ruleset

record SessionFilesDB =
  F_ID :: id
  F_SessionID :: id
  F_Year :: int
  F_Universe :: string
  F_HostFile :: string
  F_Turns :: "string list"
  F_Orders :: "string list"

record UserProfileDB =
  U_ID :: id
  U_Email :: string
  U_State :: user_state
  U_IsManager :: bool
  U_Nickname :: string
  U_APIKey :: "string option"
  U_SerialKey :: "string option"
  U_RegistrationMessage :: "string option"

record SerialKeyDB =
  K_Key :: string
  K_UserProfileID :: "id option"

record db =
  sessions :: "SessionDB list"
  rels :: "UserProfileSessionRelDB list"
  races :: "RaceDB list"
  sprs :: "SessionPlayerRaceDB list"
  invitations :: "InvitationDB list"
  rulesets :: "RulesetDB list"
  files :: "SessionFilesDB list"
  users :: "UserProfileDB list"
  serials :: "SerialKeyDB list"

subsection \<open>Constraints\<close>

text \<open>SQLSTATE codes of \<open>lib/pq\<close> that occur: unique, foreign key and check violation.\<close>

definition unique_violation :: "string \<Rightarrow> err" where
  "unique_violation c = PqError ''23505'' c"

definition foreign_key_violation :: "string \<Rightarrow> err" where
  "foreign_key_violation c = PqError ''23503'' c"

definition check_violation :: "string \<Rightarrow> err" where
  "check_violation c = PqError ''23514'' c"

text \<open>
  An integer that the column cannot hold is SQLSTATE 22003, before any constraint is looked at. The integer
  columns are \<open>INTEGER\<close>, of 32 bits; the fields of the models have 64.
\<close>

definition int4 :: "int \<Rightarrow> bool" where
  "int4 n = (- (2 ^ 31) \<le> n \<and> n < 2 ^ 31)"

definition out_of_range :: err where
  "out_of_range = PqError ''22003'' ''''"

text \<open>\<open>enforce\<close> reports the first constraint that does not hold.\<close>

fun enforce :: "(bool \<times> err) list \<Rightarrow> 'd \<Rightarrow> err + 'd" where
  "enforce [] d = Inr d"
| "enforce ((ok, e) # cs) d = (if ok then enforce cs d else Inl e)"

lemma enforce_Inr: "enforce cs d = Inr d' \<longleftrightarrow> (\<forall>c \<in> set cs. fst c) \<and> d' = d"
  by (induction cs d rule: enforce.induct) (auto split: if_splits)

declare enforce.simps [simp del]

text \<open>A key occurs in a column; a nullable foreign key is NULL or occurs.\<close>

definition occurs :: "('r \<Rightarrow> 'k) \<Rightarrow> 'k \<Rightarrow> 'r list \<Rightarrow> bool" where
  "occurs f k rows = list_ex (\<lambda>r. f r = k) rows"

fun occurs_opt :: "('r \<Rightarrow> 'k) \<Rightarrow> 'k option \<Rightarrow> 'r list \<Rightarrow> bool" where
  "occurs_opt f None rows = True"
| "occurs_opt f (Some k) rows = occurs f k rows"

lemma occurs_iff: "occurs f k rows \<longleftrightarrow> k \<in> f ` set rows"
  by (auto simp: occurs_def list_ex_iff)

lemma occurs_opt_iff: "occurs_opt f k rows \<longleftrightarrow> (\<forall>v. k = Some v \<longrightarrow> v \<in> f ` set rows)"
  by (cases k) (auto simp: occurs_iff)

text \<open>
  Checks of \<open>session_player_race\<close> (0006), \<open>ruleset\<close> (0008) and \<open>session_file\<close> (0009). The four
  constraints named after the starting distance and the universe size test the density, as in the
  migration. A NULL bot level passes its check.
\<close>

definition spr_check :: "SessionPlayerRaceDB \<Rightarrow> bool" where
  "spr_check r = ((case P_BotLevel r of None \<Rightarrow> True | Some l \<Rightarrow> l \<le> 4) \<and> P_PlayerOrder r \<le> 15)"

definition ruleset_checks :: "RulesetDB \<Rightarrow> (bool \<times> err) list" where
  "ruleset_checks r = (let rs = RS_Ruleset r in
    [(VcOwnsCapitalShipsValue rs \<le> 300, check_violation ''check_capital_ships_max''),
     (10 \<le> VcOwnsCapitalShipsValue rs, check_violation ''check_capital_ships_min''),
     (Density rs \<le> 3, check_violation ''check_density_max''),
     (0 \<le> Density rs, check_violation ''check_density_min''),
     (Density rs \<le> 3, check_violation ''check_starting_distance_max''),
     (0 \<le> Density rs, check_violation ''check_starting_distance_min''),
     (Density rs \<le> 4, check_violation ''check_universe_size_max''),
     (0 \<le> Density rs, check_violation ''check_universe_size_min'')])"

definition ruleset_check :: "RulesetDB \<Rightarrow> bool" where
  "ruleset_check r = list_all fst (ruleset_checks r)"

subsection \<open>Insertions\<close>

definition insert_session :: "SessionDB \<Rightarrow> db \<Rightarrow> err + db" where
  "insert_session r d = enforce
    [(\<not> occurs S_ID (S_ID r) (sessions d), unique_violation ''session_pkey''),
     (occurs_opt RS_ID (S_RulesetID r) (rulesets d),
       foreign_key_violation ''session_ruleset_id_fkey'')]
    (d\<lparr>sessions := sql_insert r (sessions d)\<rparr>)"

definition rel_key :: "UserProfileSessionRelDB \<Rightarrow> id \<times> id" where
  "rel_key r = (R_UserProfileID r, R_SessionID r)"

definition insert_rel :: "UserProfileSessionRelDB \<Rightarrow> db \<Rightarrow> err + db" where
  "insert_rel r d = enforce
    [(\<not> occurs rel_key (rel_key r) (rels d), unique_violation ''user_profile_session_rel_pkey''),
     (occurs U_ID (R_UserProfileID r) (users d),
       foreign_key_violation ''user_profile_session_rel_user_profile_id_fkey''),
     (occurs S_ID (R_SessionID r) (sessions d),
       foreign_key_violation ''user_profile_session_rel_session_id_fkey'')]
    (d\<lparr>rels := sql_insert r (rels d)\<rparr>)"

definition insert_race :: "RaceDB \<Rightarrow> db \<Rightarrow> err + db" where
  "insert_race r d = enforce
    [(\<not> occurs Ra_ID (Ra_ID r) (races d), unique_violation ''race_pkey''),
     (occurs U_ID (Ra_UserID r) (users d), foreign_key_violation ''race_user_id_fkey'')]
    (d\<lparr>races := sql_insert r (races d)\<rparr>)"

definition insert_spr :: "SessionPlayerRaceDB \<Rightarrow> db \<Rightarrow> err + db" where
  "insert_spr r d = enforce
    [(case P_BotLevel r of None \<Rightarrow> True | Some l \<Rightarrow> l \<le> 4,
       check_violation ''bot_level_should_be_lower_or_equal_to_4''),
     (P_PlayerOrder r \<le> 15, check_violation ''player_order_should_be_lower_or_equal_to_15''),
     (\<not> occurs P_ID (P_ID r) (sprs d), unique_violation ''session_player_race_pkey''),
     (occurs U_ID (P_UserProfileID r) (users d),
       foreign_key_violation ''session_player_race_user_profile_id_fkey''),
     (occurs S_ID (P_SessionID r) (sessions d),
       foreign_key_violation ''session_player_race_session_id_fkey''),
     (occurs Ra_ID (P_RaceID r) (races d),
       foreign_key_violation ''session_player_race_race_id_fkey'')]
    (d\<lparr>sprs := sql_insert r (sprs d)\<rparr>)"

definition invitation_key :: "InvitationDB \<Rightarrow> id \<times> id" where
  "invitation_key r = (I_SessionID r, I_UserProfileID r)"

definition insert_invitation :: "InvitationDB \<Rightarrow> db \<Rightarrow> err + db" where
  "insert_invitation r d = enforce
    [(\<not> occurs I_ID (I_ID r) (invitations d), unique_violation ''invitation_pkey''),
     (\<not> occurs invitation_key (invitation_key r) (invitations d),
       unique_violation ''invitation_session_id_user_profile_id_key''),
     (occurs U_ID (I_UserProfileID r) (users d),
       foreign_key_violation ''invitation_user_profile_id_fkey''),
     (occurs S_ID (I_SessionID r) (sessions d),
       foreign_key_violation ''invitation_session_id_fkey''),
     (occurs U_ID (I_InviterID r) (users d),
       foreign_key_violation ''invitation_inviter_id_fkey'')]
    (d\<lparr>invitations := sql_insert r (invitations d)\<rparr>)"

definition ruleset_ints :: "Ruleset \<Rightarrow> int list" where
  "ruleset_ints rs = map (\<lambda>f. f rs) [Density, RandomSeed, StartingDistance, UniverseSize,
     VcAtLeastxYears, VcAttainTechFieldsValue, VcAttainTechTechValue, VcExceedNextPlayerScoreValue,
     VcExceedScoreValue, VcHasProductionCapacityValue, VcHaveHighestScoreValue,
     VcOwnsCapitalShipsValue, VcOwnsPercentOfPlanetsValue, VcWinnerMustMeet]"

definition insert_ruleset :: "RulesetDB \<Rightarrow> db \<Rightarrow> err + db" where
  "insert_ruleset r d = enforce
    ((list_all int4 (ruleset_ints (RS_Ruleset r)), out_of_range) #
     ruleset_checks r @
     [(\<not> occurs RS_ID (RS_ID r) (rulesets d), unique_violation ''ruleset_pkey''),
      (occurs S_ID (RS_SessionID r) (sessions d),
        foreign_key_violation ''ruleset_session_id_fkey'')])
    (d\<lparr>rulesets := sql_insert r (rulesets d)\<rparr>)"

definition file_key :: "SessionFilesDB \<Rightarrow> id \<times> int" where
  "file_key r = (F_SessionID r, F_Year r)"

definition insert_file :: "SessionFilesDB \<Rightarrow> db \<Rightarrow> err + db" where
  "insert_file r d = enforce
    [(2400 \<le> F_Year r, check_violation ''check_year_min''),
     (\<not> occurs F_ID (F_ID r) (files d), unique_violation ''session_file_pkey''),
     (\<not> occurs file_key (file_key r) (files d), unique_violation ''session_file_session_id_year_key''),
     (occurs S_ID (F_SessionID r) (sessions d),
       foreign_key_violation ''session_file_session_id_fkey'')]
    (d\<lparr>files := sql_insert r (files d)\<rparr>)"

definition insert_user :: "UserProfileDB \<Rightarrow> db \<Rightarrow> err + db" where
  "insert_user r d = enforce
    [(\<not> occurs U_ID (U_ID r) (users d), unique_violation ''user_profile_pkey''),
     (\<not> occurs U_Nickname (U_Nickname r) (users d), unique_violation ''user_profile_nickname_key''),
     (\<not> occurs U_Email (U_Email r) (users d), unique_violation ''user_profile_email_unique''),
     (occurs_opt K_Key (U_SerialKey r) (serials d),
       foreign_key_violation ''user_profile_serial_key_fkey'')]
    (d\<lparr>users := sql_insert r (users d)\<rparr>)"

definition insert_serial :: "SerialKeyDB \<Rightarrow> db \<Rightarrow> err + db" where
  "insert_serial r d = enforce
    [(\<not> occurs K_Key (K_Key r) (serials d), unique_violation ''serial_key_pkey''),
     (occurs_opt U_ID (K_UserProfileID r) (users d),
       foreign_key_violation ''serial_key_user_profile_id_fkey'')]
    (d\<lparr>serials := sql_insert r (serials d)\<rparr>)"

subsection \<open>Deletions, with their cascades\<close>

text \<open>
  Removing a session removes its rulesets, so it fails when another session still refers to one of
  them (\<open>session.ruleset_id\<close> has no \<open>ON DELETE\<close> action, 0014).
\<close>

definition delete_sessions :: "(SessionDB \<Rightarrow> bool) \<Rightarrow> db \<Rightarrow> err + db" where
  "delete_sessions p d = (let gone = map S_ID (sql_select p (sessions d));
                              kept = sql_delete (\<lambda>r. RS_SessionID r \<in> set gone) (rulesets d) in enforce
    [(list_all (\<lambda>s. occurs_opt RS_ID (S_RulesetID s) kept) (sql_delete p (sessions d)),
       foreign_key_violation ''session_ruleset_id_fkey'')]
    (d\<lparr>sessions := sql_delete p (sessions d),
      rels := sql_delete (\<lambda>r. R_SessionID r \<in> set gone) (rels d),
      sprs := sql_delete (\<lambda>r. P_SessionID r \<in> set gone) (sprs d),
      invitations := sql_delete (\<lambda>r. I_SessionID r \<in> set gone) (invitations d),
      rulesets := kept,
      files := sql_delete (\<lambda>r. F_SessionID r \<in> set gone) (files d)\<rparr>))"

definition delete_rels :: "(UserProfileSessionRelDB \<Rightarrow> bool) \<Rightarrow> db \<Rightarrow> db" where
  "delete_rels p d = d\<lparr>rels := sql_delete p (rels d)\<rparr>"

definition delete_sprs :: "(SessionPlayerRaceDB \<Rightarrow> bool) \<Rightarrow> db \<Rightarrow> db" where
  "delete_sprs p d = d\<lparr>sprs := sql_delete p (sprs d)\<rparr>"

definition delete_races :: "(RaceDB \<Rightarrow> bool) \<Rightarrow> db \<Rightarrow> db" where
  "delete_races p d = (let gone = map Ra_ID (sql_select p (races d)) in
    d\<lparr>races := sql_delete p (races d),
      sprs := sql_delete (\<lambda>r. P_RaceID r \<in> set gone) (sprs d)\<rparr>)"

definition delete_invitations :: "(InvitationDB \<Rightarrow> bool) \<Rightarrow> db \<Rightarrow> db" where
  "delete_invitations p d = d\<lparr>invitations := sql_delete p (invitations d)\<rparr>"

definition delete_users :: "(UserProfileDB \<Rightarrow> bool) \<Rightarrow> db \<Rightarrow> db" where
  "delete_users p d = (let gone = map U_ID (sql_select p (users d));
                           d1 = delete_races (\<lambda>r. Ra_UserID r \<in> set gone) d in
    d1\<lparr>users := sql_delete p (users d1),
       rels := sql_delete (\<lambda>r. R_UserProfileID r \<in> set gone) (rels d1),
       sprs := sql_delete (\<lambda>r. P_UserProfileID r \<in> set gone) (sprs d1),
       invitations := sql_delete (\<lambda>r. I_UserProfileID r \<in> set gone \<or> I_InviterID r \<in> set gone)
         (invitations d1),
       serials := sql_update (\<lambda>k. \<exists>u \<in> set gone. K_UserProfileID k = Some u)
         (\<lambda>k. k\<lparr>K_UserProfileID := None\<rparr>) (serials d1)\<rparr>)"

subsection \<open>Updates\<close>

text \<open>
  An \<open>UPDATE\<close> of the rows that match a condition. The handlers only assign columns that no key
  contains, with two exceptions that have an error of their own: a player order is checked
  (0006), and a nickname or an email is unique.
\<close>

definition update_sessions :: "(SessionDB \<Rightarrow> bool) \<Rightarrow> (SessionDB \<Rightarrow> SessionDB) \<Rightarrow> db \<Rightarrow> db" where
  "update_sessions p f d = d\<lparr>sessions := sql_update p f (sessions d)\<rparr>"

definition update_session_row :: "SessionDB \<Rightarrow> db \<Rightarrow> err + db" where
  "update_session_row s d = enforce
    [(\<not> occurs S_ID (S_ID s) (sessions d) \<or> occurs_opt RS_ID (S_RulesetID s) (rulesets d),
       foreign_key_violation ''session_ruleset_id_fkey'')]
    (d\<lparr>sessions := sql_update (\<lambda>r. S_ID r = S_ID s) (\<lambda>_. s) (sessions d)\<rparr>)"

definition update_rels ::
    "(UserProfileSessionRelDB \<Rightarrow> bool) \<Rightarrow> (UserProfileSessionRelDB \<Rightarrow> UserProfileSessionRelDB) \<Rightarrow>
     db \<Rightarrow> db" where
  "update_rels p f d = d\<lparr>rels := sql_update p f (rels d)\<rparr>"

definition update_sprs ::
    "(SessionPlayerRaceDB \<Rightarrow> bool) \<Rightarrow> (SessionPlayerRaceDB \<Rightarrow> SessionPlayerRaceDB) \<Rightarrow>
     db \<Rightarrow> err + db" where
  "update_sprs p f d = enforce
    [(list_all (\<lambda>r. case P_BotLevel (f r) of None \<Rightarrow> True | Some l \<Rightarrow> l \<le> 4) (sql_select p (sprs d)),
       check_violation ''bot_level_should_be_lower_or_equal_to_4''),
     (list_all (\<lambda>r. P_PlayerOrder (f r) \<le> 15) (sql_select p (sprs d)),
       check_violation ''player_order_should_be_lower_or_equal_to_15'')]
    (d\<lparr>sprs := sql_update p f (sprs d)\<rparr>)"

definition update_rulesets :: "(RulesetDB \<Rightarrow> bool) \<Rightarrow> (RulesetDB \<Rightarrow> RulesetDB) \<Rightarrow> db \<Rightarrow> err + db" where
  "update_rulesets p f d = enforce
    (concat (map (\<lambda>r. ruleset_checks (f r)) (sql_select p (rulesets d))))
    (d\<lparr>rulesets := sql_update p f (rulesets d)\<rparr>)"

definition update_files :: "(SessionFilesDB \<Rightarrow> bool) \<Rightarrow> (SessionFilesDB \<Rightarrow> SessionFilesDB) \<Rightarrow> db \<Rightarrow> db" where
  "update_files p f d = d\<lparr>files := sql_update p f (files d)\<rparr>"

definition update_user_row :: "UserProfileDB \<Rightarrow> db \<Rightarrow> err + db" where
  "update_user_row u d = (let others = sql_delete (\<lambda>r. U_ID r = U_ID u) (users d) in enforce
    [(\<not> occurs U_ID (U_ID u) (users d) \<or> \<not> occurs U_Nickname (U_Nickname u) others,
       unique_violation ''user_profile_nickname_key''),
     (\<not> occurs U_ID (U_ID u) (users d) \<or> \<not> occurs U_Email (U_Email u) others,
       unique_violation ''user_profile_email_unique''),
     (\<not> occurs U_ID (U_ID u) (users d) \<or> occurs_opt K_Key (U_SerialKey u) (serials d),
       foreign_key_violation ''user_profile_serial_key_fkey'')]
    (d\<lparr>users := sql_update (\<lambda>r. U_ID r = U_ID u) (\<lambda>_. u) (users d)\<rparr>))"

definition update_serials :: "(SerialKeyDB \<Rightarrow> bool) \<Rightarrow> id option \<Rightarrow> db \<Rightarrow> err + db" where
  "update_serials p u d = enforce
    [(sql_select p (serials d) = [] \<or> occurs_opt U_ID u (users d),
       foreign_key_violation ''serial_key_user_profile_id_fkey'')]
    (d\<lparr>serials := sql_update p (\<lambda>k. k\<lparr>K_UserProfileID := u\<rparr>) (serials d)\<rparr>)"

subsection \<open>Integrity\<close>

text \<open>What the schema promises: primary keys and \<open>UNIQUE\<close> columns, foreign keys, checks.\<close>

definition keys_ok :: "db \<Rightarrow> bool" where
  "keys_ok d = (distinct (map S_ID (sessions d)) \<and> distinct (map rel_key (rels d)) \<and>
    distinct (map Ra_ID (races d)) \<and> distinct (map P_ID (sprs d)) \<and>
    distinct (map I_ID (invitations d)) \<and> distinct (map invitation_key (invitations d)) \<and>
    distinct (map RS_ID (rulesets d)) \<and> distinct (map F_ID (files d)) \<and>
    distinct (map file_key (files d)) \<and> distinct (map U_ID (users d)) \<and>
    distinct (map U_Nickname (users d)) \<and> distinct (map U_Email (users d)) \<and>
    distinct (map K_Key (serials d)))"

definition checks_ok :: "db \<Rightarrow> bool" where
  "checks_ok d = ((\<forall>r \<in> set (sprs d). spr_check r) \<and> (\<forall>r \<in> set (rulesets d). ruleset_check r) \<and>
    (\<forall>r \<in> set (files d). 2400 \<le> F_Year r))"

text \<open>A foreign key: each value of the column occurs in the key column it refers to.\<close>

definition fkey :: "('r \<Rightarrow> 'k) \<Rightarrow> 'r list \<Rightarrow> ('t \<Rightarrow> 'k) \<Rightarrow> 't list \<Rightarrow> bool" where
  "fkey f rows g targets = (\<forall>r \<in> set rows. f r \<in> g ` set targets)"

definition fkey_opt :: "('r \<Rightarrow> 'k option) \<Rightarrow> 'r list \<Rightarrow> ('t \<Rightarrow> 'k) \<Rightarrow> 't list \<Rightarrow> bool" where
  "fkey_opt f rows g targets =
    (\<forall>r \<in> set rows. case f r of None \<Rightarrow> True | Some k \<Rightarrow> k \<in> g ` set targets)"

lemma fkey_opt_iff:
  "fkey_opt f rows g targets \<longleftrightarrow> (\<forall>r \<in> set rows. \<forall>k. f r = Some k \<longrightarrow> k \<in> g ` set targets)"
  unfolding fkey_opt_def by (intro ball_cong refl) (simp split: option.splits)

definition session_refs :: "db \<Rightarrow> bool" where
  "session_refs d = (fkey R_SessionID (rels d) S_ID (sessions d) \<and>
    fkey P_SessionID (sprs d) S_ID (sessions d) \<and>
    fkey I_SessionID (invitations d) S_ID (sessions d) \<and>
    fkey RS_SessionID (rulesets d) S_ID (sessions d) \<and>
    fkey F_SessionID (files d) S_ID (sessions d))"

definition user_refs :: "db \<Rightarrow> bool" where
  "user_refs d = (fkey R_UserProfileID (rels d) U_ID (users d) \<and>
    fkey Ra_UserID (races d) U_ID (users d) \<and>
    fkey P_UserProfileID (sprs d) U_ID (users d) \<and>
    fkey I_UserProfileID (invitations d) U_ID (users d) \<and>
    fkey I_InviterID (invitations d) U_ID (users d) \<and>
    fkey_opt K_UserProfileID (serials d) U_ID (users d))"

definition other_refs :: "db \<Rightarrow> bool" where
  "other_refs d = (fkey P_RaceID (sprs d) Ra_ID (races d) \<and>
    fkey_opt S_RulesetID (sessions d) RS_ID (rulesets d) \<and>
    fkey_opt U_SerialKey (users d) K_Key (serials d))"

definition db_ok :: "db \<Rightarrow> bool" where
  "db_ok d = (keys_ok d \<and> checks_ok d \<and> session_refs d \<and> user_refs d \<and> other_refs d)"

lemmas db_ok_parts = db_ok_def keys_ok_def checks_ok_def session_refs_def user_refs_def other_refs_def

lemma ruleset_check_iff: "ruleset_check r \<longleftrightarrow> (\<forall>c \<in> set (ruleset_checks r). fst c)"
  by (simp add: ruleset_check_def list_all_iff)

lemma fkey_insert [simp]:
  "fkey f (sql_insert r rows) g targets \<longleftrightarrow> f r \<in> g ` set targets \<and> fkey f rows g targets"
  "fkey_opt h (sql_insert r rows) g targets \<longleftrightarrow>
     (\<forall>k. h r = Some k \<longrightarrow> k \<in> g ` set targets) \<and> fkey_opt h rows g targets"
  by (auto simp: fkey_def fkey_opt_iff)

lemma fkey_insert_target [simp]:
  "fkey f rows g targets \<Longrightarrow> fkey f rows g (sql_insert t targets)"
  "fkey_opt h rows g targets \<Longrightarrow> fkey_opt h rows g (sql_insert t targets)"
  by (auto simp: fkey_def fkey_opt_iff)

lemma fkey_delete [simp]:
  "fkey f rows g targets \<Longrightarrow> fkey f (sql_delete p rows) g targets"
  "fkey_opt h rows g targets \<Longrightarrow> fkey_opt h (sql_delete p rows) g targets"
  by (auto simp: fkey_def fkey_opt_iff)

lemma fkey_cascade:
  "fkey f rows g targets \<Longrightarrow> (\<And>r. f r \<in> set (map g (sql_select p targets)) \<Longrightarrow> q r) \<Longrightarrow>
   fkey f (sql_delete q rows) g (sql_delete p targets)"
  by (fastforce simp: fkey_def)

lemma fkey_set_null:
  assumes "fkey_opt h rows g targets" "\<And>r. h (u r) = None"
  shows "fkey_opt h (sql_update (\<lambda>r. \<exists>k \<in> set (map g (sql_select p targets)). h r = Some k) u rows)
    g (sql_delete p targets)"
  using assms by (fastforce simp: fkey_opt_iff)

lemma fkey_update:
  "(\<And>r. f (u r) = f r) \<Longrightarrow> fkey f (sql_update p u rows) g targets = fkey f rows g targets"
  "(\<And>r. h (u r) = h r) \<Longrightarrow> fkey_opt h (sql_update p u rows) g targets = fkey_opt h rows g targets"
  by (simp_all add: fkey_def fkey_opt_iff)

lemma fkey_update_target:
  "(\<And>r. g (u r) = g r) \<Longrightarrow> fkey f rows g (sql_update p u targets) = fkey f rows g targets"
  "(\<And>r. g (u r) = g r) \<Longrightarrow> fkey_opt h rows g (sql_update p u targets) = fkey_opt h rows g targets"
  by (simp_all add: fkey_def fkey_opt_iff image_sql_update)

lemma insert_session_ok [ok_intros]: "db_ok d \<Longrightarrow> insert_session r d = Inr d' \<Longrightarrow> db_ok d'"
  by (simp add: insert_session_def enforce_Inr occurs_iff occurs_opt_iff db_ok_parts)

lemma insert_rel_ok [ok_intros]: "db_ok d \<Longrightarrow> insert_rel r d = Inr d' \<Longrightarrow> db_ok d'"
  by (simp add: insert_rel_def enforce_Inr occurs_iff db_ok_parts)

lemma insert_race_ok [ok_intros]: "db_ok d \<Longrightarrow> insert_race r d = Inr d' \<Longrightarrow> db_ok d'"
  by (simp add: insert_race_def enforce_Inr occurs_iff db_ok_parts)

lemma insert_spr_ok [ok_intros]: "db_ok d \<Longrightarrow> insert_spr r d = Inr d' \<Longrightarrow> db_ok d'"
  by (simp add: insert_spr_def enforce_Inr occurs_iff db_ok_parts spr_check_def)

lemma insert_invitation_ok [ok_intros]: "db_ok d \<Longrightarrow> insert_invitation r d = Inr d' \<Longrightarrow> db_ok d'"
  by (simp add: insert_invitation_def enforce_Inr occurs_iff db_ok_parts)

lemma insert_ruleset_ok [ok_intros]: "db_ok d \<Longrightarrow> insert_ruleset r d = Inr d' \<Longrightarrow> db_ok d'"
  by (simp add: insert_ruleset_def enforce_Inr occurs_iff db_ok_parts ruleset_check_iff)

lemma insert_file_ok [ok_intros]: "db_ok d \<Longrightarrow> insert_file r d = Inr d' \<Longrightarrow> db_ok d'"
  by (simp add: insert_file_def enforce_Inr occurs_iff db_ok_parts)

lemma insert_user_ok [ok_intros]: "db_ok d \<Longrightarrow> insert_user r d = Inr d' \<Longrightarrow> db_ok d'"
  by (simp add: insert_user_def enforce_Inr occurs_iff occurs_opt_iff db_ok_parts)

lemma insert_serial_ok [ok_intros]: "db_ok d \<Longrightarrow> insert_serial r d = Inr d' \<Longrightarrow> db_ok d'"
  by (simp add: insert_serial_def enforce_Inr occurs_iff occurs_opt_iff db_ok_parts)

text \<open>Deletions: the cascade removes exactly the rows whose foreign key would dangle.\<close>

lemma list_all_occurs_opt:
  "list_all (\<lambda>s. occurs_opt g (h s) targets) rows \<longleftrightarrow> fkey_opt h rows g targets"
  by (auto simp: list_all_iff occurs_opt_iff fkey_opt_iff)

lemma delete_sessions_ok [ok_intros]: "db_ok d \<Longrightarrow> delete_sessions p d = Inr d' \<Longrightarrow> db_ok d'"
  unfolding delete_sessions_def Let_def enforce_Inr
  by (simp add: db_ok_parts list_all_occurs_opt distinct_sql_delete fkey_cascade del: set_map)

lemma delete_rels_ok [ok_intros]: "db_ok d \<Longrightarrow> db_ok (delete_rels p d)"
  by (simp add: delete_rels_def db_ok_parts distinct_sql_delete)

lemma delete_sprs_ok [ok_intros]: "db_ok d \<Longrightarrow> db_ok (delete_sprs p d)"
  by (simp add: delete_sprs_def db_ok_parts distinct_sql_delete)

lemma delete_invitations_ok [ok_intros]: "db_ok d \<Longrightarrow> db_ok (delete_invitations p d)"
  by (simp add: delete_invitations_def db_ok_parts distinct_sql_delete)

lemma delete_races_ok [ok_intros]: "db_ok d \<Longrightarrow> db_ok (delete_races p d)"
  by (simp add: delete_races_def Let_def db_ok_parts distinct_sql_delete fkey_cascade del: set_map)

lemma delete_users_ok [ok_intros]: "db_ok d \<Longrightarrow> db_ok (delete_users p d)"
  unfolding delete_users_def delete_races_def Let_def
  by (simp add: db_ok_parts distinct_sql_delete fkey_cascade fkey_set_null map_sql_update fkey_update_target
      del: set_map)

text \<open>Updates that leave the key columns alone.\<close>

lemma update_sessions_ok [ok_intros]:
  "db_ok d \<Longrightarrow> (\<And>s. S_ID (f s) = S_ID s) \<Longrightarrow> (\<And>s. S_RulesetID (f s) = S_RulesetID s) \<Longrightarrow>
   db_ok (update_sessions p f d)"
  by (simp add: update_sessions_def db_ok_parts map_sql_update fkey_update fkey_update_target)

lemma update_rels_ok [ok_intros]:
  "db_ok d \<Longrightarrow> (\<And>s. R_UserProfileID (f s) = R_UserProfileID s) \<Longrightarrow>
   (\<And>s. R_SessionID (f s) = R_SessionID s) \<Longrightarrow> db_ok (update_rels p f d)"
  by (simp add: update_rels_def db_ok_parts map_sql_update fkey_update rel_key_def)

lemma update_files_ok [ok_intros]:
  "db_ok d \<Longrightarrow> (\<And>s. F_ID (f s) = F_ID s) \<Longrightarrow> (\<And>s. F_SessionID (f s) = F_SessionID s) \<Longrightarrow>
   (\<And>s. F_Year (f s) = F_Year s) \<Longrightarrow> db_ok (update_files p f d)"
  by (simp add: update_files_def db_ok_parts map_sql_update fkey_update file_key_def)

lemma update_sprs_ok [ok_intros]:
  "db_ok d \<Longrightarrow> update_sprs p f d = Inr d' \<Longrightarrow> (\<And>s. P_ID (f s) = P_ID s) \<Longrightarrow>
   (\<And>s. P_SessionID (f s) = P_SessionID s) \<Longrightarrow> (\<And>s. P_UserProfileID (f s) = P_UserProfileID s) \<Longrightarrow>
   (\<And>s. P_RaceID (f s) = P_RaceID s) \<Longrightarrow> db_ok d'"
  by (simp add: update_sprs_def enforce_Inr db_ok_parts map_sql_update fkey_update list_all_iff spr_check_def)

lemma update_rulesets_ok [ok_intros]:
  "db_ok d \<Longrightarrow> update_rulesets p f d = Inr d' \<Longrightarrow> (\<And>s. RS_ID (f s) = RS_ID s) \<Longrightarrow>
   (\<And>s. RS_SessionID (f s) = RS_SessionID s) \<Longrightarrow> db_ok d'"
  by (simp add: update_rulesets_def enforce_Inr db_ok_parts map_sql_update fkey_update fkey_update_target
      ruleset_check_iff)

lemma fkey_opt_assign:
  "fkey_opt h rows g targets \<Longrightarrow> sql_select p rows = [] \<or> occurs_opt g u targets \<Longrightarrow>
   (\<And>r. h (f r) = u) \<Longrightarrow> fkey_opt h (sql_update p f rows) g targets"
  by (auto simp: fkey_opt_iff occurs_opt_iff sql_select_def filter_empty_conv)

lemma update_serials_ok [ok_intros]:
  "db_ok d \<Longrightarrow> update_serials p u d = Inr d' \<Longrightarrow> db_ok d'"
  by (simp add: update_serials_def enforce_Inr db_ok_parts map_sql_update fkey_update_target
      fkey_opt_assign [where u = u])

text \<open>Replacing a row by another one with the same primary key.\<close>

lemma map_replace_keys: "map k (sql_update (\<lambda>r. k r = k v) (\<lambda>_. v) rows) = map k rows"
  by (simp add: sql_update_def)

lemma map_replace_keys_eq: "k v = c \<Longrightarrow> map k (sql_update (\<lambda>r. k r = c) (\<lambda>_. v) rows) = map k rows"
  by (simp add: sql_update_def)

lemma distinct_replace_row:
  assumes "distinct (map k rows)" "distinct (map g rows)"
    and "k v \<notin> k ` set rows \<or> g v \<notin> g ` set (sql_delete (\<lambda>r. k r = k v) rows)"
  shows "distinct (map g (sql_update (\<lambda>r. k r = k v) (\<lambda>_. v) rows))"
  using assms
  by (induction rows) (auto simp: sql_update_def sql_delete_def image_iff, blast)

lemma fkey_replace_row:
  "fkey f rows g targets \<Longrightarrow> f v \<in> g ` set targets \<Longrightarrow> fkey f (sql_update p (\<lambda>_. v) rows) g targets"
  by (simp add: fkey_def)

lemma fkey_replace_target:
  assumes "fkey f rows k targets"
  shows "fkey f rows k (sql_update (\<lambda>r. k r = k v) (\<lambda>_. v) targets)"
  using assms unfolding fkey_def by (metis map_replace_keys list.set_map)

lemma fkey_opt_replace_target:
  assumes "fkey_opt f rows k targets"
  shows "fkey_opt f rows k (sql_update (\<lambda>r. k r = k v) (\<lambda>_. v) targets)"
  using assms unfolding fkey_opt_iff by (metis map_replace_keys list.set_map)

lemma fkey_opt_replace_row:
  assumes "fkey_opt h rows g targets" "k v \<notin> k ` set rows \<or> occurs_opt g (h v) targets"
  shows "fkey_opt h (sql_update (\<lambda>r. k r = k v) (\<lambda>_. v) rows) g targets"
  using assms by (auto simp: fkey_opt_iff occurs_opt_iff) (metis imageI)

lemma update_session_row_ok [ok_intros]:
  "db_ok d \<Longrightarrow> update_session_row s d = Inr d' \<Longrightarrow> db_ok d'"
  by (simp add: update_session_row_def enforce_Inr db_ok_parts map_replace_keys fkey_replace_target
      occurs_iff fkey_opt_replace_row)

lemma update_user_row_ok [ok_intros]:
  "db_ok d \<Longrightarrow> update_user_row u d = Inr d' \<Longrightarrow> db_ok d'"
  by (simp add: update_user_row_def enforce_Inr Let_def db_ok_parts map_replace_keys fkey_replace_target
      occurs_iff fkey_opt_replace_row fkey_opt_replace_target distinct_replace_row del: set_sql_delete)

subsection \<open>The tables as instances of the table interface\<close>

interpretation sessions_t: keyed_table sessions "\<lambda>xs d. d\<lparr>sessions := xs\<rparr>" S_ID
  by unfold_locales simp_all

interpretation rels_t: keyed_table rels "\<lambda>xs d. d\<lparr>rels := xs\<rparr>" rel_key
  by unfold_locales simp_all

interpretation races_t: keyed_table races "\<lambda>xs d. d\<lparr>races := xs\<rparr>" Ra_ID
  by unfold_locales simp_all

interpretation sprs_t: keyed_table sprs "\<lambda>xs d. d\<lparr>sprs := xs\<rparr>" P_ID
  by unfold_locales simp_all

interpretation invitations_t: keyed_table invitations "\<lambda>xs d. d\<lparr>invitations := xs\<rparr>" I_ID
  by unfold_locales simp_all

interpretation rulesets_t: keyed_table rulesets "\<lambda>xs d. d\<lparr>rulesets := xs\<rparr>" RS_ID
  by unfold_locales simp_all

interpretation files_t: keyed_table files "\<lambda>xs d. d\<lparr>files := xs\<rparr>" F_ID
  by unfold_locales simp_all

interpretation users_t: keyed_table users "\<lambda>xs d. d\<lparr>users := xs\<rparr>" U_ID
  by unfold_locales simp_all

interpretation serials_t: keyed_table serials "\<lambda>xs d. d\<lparr>serials := xs\<rparr>" K_Key
  by unfold_locales simp_all

end
