(* ===== verification/Notify.thy ===== *)
theory Notify
  imports Database
begin

section \<open>Notifications\<close>

text \<open>
  \<open>lib/notify\<close>: the messages that handlers publish once their transaction is committed. A message
  is a value of \<open>ResourceChange\<close>; \<open>Publish\<close> and \<open>PublishWithMetadata\<close> return the message that
  is handed to NATS. Timestamps are left out, and a failed publication is only logged by the
  handlers, so the model keeps the list of messages a request hands over.
\<close>

datatype resource_type = TSession | TSessionTurn | TOrderStatus | TInvitation | TRace | TRuleset
  | TSessionPlayerRace | TPendingRegistration | TPlayerControl

datatype resource_action = Created | Updated | Deleted | Ready | MemberLeft | Approved | Rejected

datatype metadata =
    NoMeta
  | SessionDeleteMeta "id list" bool
  | SessionMemberLeftMeta id bool
  | InvitationDeleteMeta id
  | SessionTurnMeta int
  | OrderStatusMeta int
  | PlayerControlMeta id int "string option"
  | RegistrationApprovalMeta id string

record ResourceChange =
  N_Type :: resource_type
  N_ID :: id
  N_Action :: resource_action
  N_Metadata :: metadata

definition Publish :: "resource_type \<Rightarrow> id \<Rightarrow> resource_action \<Rightarrow> ResourceChange" where
  "Publish t i a = \<lparr>N_Type = t, N_ID = i, N_Action = a, N_Metadata = NoMeta\<rparr>"

definition PublishWithMetadata :: "resource_type \<Rightarrow> id \<Rightarrow> resource_action \<Rightarrow> metadata \<Rightarrow> ResourceChange" where
  "PublishWithMetadata t i a m = \<lparr>N_Type = t, N_ID = i, N_Action = a, N_Metadata = m\<rparr>"

definition PublishSessionUpdate :: "id \<Rightarrow> ResourceChange" where
  "PublishSessionUpdate s = Publish TSession s Updated"

definition PublishSessionCreate :: "id \<Rightarrow> ResourceChange" where
  "PublishSessionCreate s = Publish TSession s Created"

definition PublishSessionDelete :: "id \<Rightarrow> id list \<Rightarrow> bool \<Rightarrow> ResourceChange" where
  "PublishSessionDelete s members priv =
    PublishWithMetadata TSession s Deleted (SessionDeleteMeta members priv)"

definition PublishSessionMemberLeft :: "id \<Rightarrow> id \<Rightarrow> bool \<Rightarrow> ResourceChange" where
  "PublishSessionMemberLeft s u priv =
    PublishWithMetadata TSession s MemberLeft (SessionMemberLeftMeta u priv)"

definition PublishInvitationCreate :: "id \<Rightarrow> ResourceChange" where
  "PublishInvitationCreate i = Publish TInvitation i Created"

definition PublishInvitationDelete :: "id \<Rightarrow> id \<Rightarrow> ResourceChange" where
  "PublishInvitationDelete i u = PublishWithMetadata TInvitation i Deleted (InvitationDeleteMeta u)"

definition PublishRaceCreate :: "id \<Rightarrow> ResourceChange" where
  "PublishRaceCreate r = Publish TRace r Created"

definition PublishRaceDelete :: "id \<Rightarrow> ResourceChange" where
  "PublishRaceDelete r = Publish TRace r Deleted"

definition PublishSessionPlayerRaceCreate :: "id \<Rightarrow> ResourceChange" where
  "PublishSessionPlayerRaceCreate p = Publish TSessionPlayerRace p Created"

definition PublishSessionPlayerRaceUpdate :: "id \<Rightarrow> ResourceChange" where
  "PublishSessionPlayerRaceUpdate p = Publish TSessionPlayerRace p Updated"

definition PublishSessionPlayerRaceDelete :: "id \<Rightarrow> ResourceChange" where
  "PublishSessionPlayerRaceDelete p = Publish TSessionPlayerRace p Deleted"

definition PublishSessionTurnReady :: "id \<Rightarrow> int \<Rightarrow> ResourceChange" where
  "PublishSessionTurnReady s y = PublishWithMetadata TSessionTurn s Ready (SessionTurnMeta y)"

definition PublishOrderStatusUpdate :: "id \<Rightarrow> int \<Rightarrow> ResourceChange" where
  "PublishOrderStatusUpdate s y = PublishWithMetadata TOrderStatus s Updated (OrderStatusMeta y)"

definition PublishPlayerControlUpdate :: "id \<Rightarrow> int \<Rightarrow> string option \<Rightarrow> ResourceChange" where
  "PublishPlayerControlUpdate s i ai =
    PublishWithMetadata TPlayerControl s Updated (PlayerControlMeta s i ai)"

definition PublishPendingRegistrationCreate :: "id \<Rightarrow> ResourceChange" where
  "PublishPendingRegistrationCreate u = Publish TPendingRegistration u Created"

definition PublishPendingRegistrationApprove :: "id \<Rightarrow> string \<Rightarrow> ResourceChange" where
  "PublishPendingRegistrationApprove u nick =
    PublishWithMetadata TPendingRegistration u Approved (RegistrationApprovalMeta u nick)"

definition PublishPendingRegistrationReject :: "id \<Rightarrow> ResourceChange" where
  "PublishPendingRegistrationReject u = Publish TPendingRegistration u Rejected"

subsection \<open>Requests\<close>

text \<open>
  What a handler does in its database transaction: an error, after which the deferred rollback
  restores the database and nothing is published, or a value with the database to commit and the
  messages to publish. \<open>respond\<close> is the frame of the \<open>Handle\<close> methods: \<open>switch\<close> on the error,
  or the success responder with its status code.
\<close>

type_synonym 'a tx = "err + 'a \<times> db \<times> ResourceChange list"

type_synonym 'a reply = "'a response \<times> db \<times> ResourceChange list"

definition respond :: "switch_case list \<Rightarrow> nat \<Rightarrow> db \<Rightarrow> 'a tx \<Rightarrow> 'a reply" where
  "respond cases code d r = (case r of
     Inl e \<Rightarrow> (switch_error cases e, d, [])
   | Inr (x, d', ns) \<Rightarrow> (Success code x, d', ns))"

lemma respond_simps [simp]:
  "respond cs c d (Inl e) = (switch_error cs e, d, [])"
  "respond cs c d (Inr (x, d', ns)) = (Success c x, d', ns)"
  by (simp_all add: respond_def)

lemma respond_Success:
  "respond cs c d r = (Success c' x, d', ns) \<longleftrightarrow> c' = c \<and> r = Inr (x, d', ns)"
  by (auto simp: respond_def split: sum.splits)

lemma respond_Failure:
  fixes r :: "'a tx"
  shows "respond cs c d r = (Failure st m, d', ns) \<longleftrightarrow>
    (\<exists>e. r = Inl e \<and> (switch_error cs e :: 'a response) = Failure st m \<and> d' = d \<and> ns = [])"
  by (auto simp: respond_def split: sum.splits)

lemma respond_framed [simp]: "\<exists>cases code. respond cs c d r = respond cases code d r"
  by blast

subsection \<open>The contract of a request handler\<close>

text \<open>
  A request handler is a transaction \<open>handle\<close> and the reply built from it. The contract has two
  laws: the reply is framed by \<open>respond\<close>, and the transaction keeps a property \<open>ok\<close> of the
  database. It follows that a request that fails changes nothing and publishes nothing, and that
  any sequence of requests keeps the property. A guarded request also promises that its transaction
  succeeds for authorised callers only.
\<close>

locale request =
  fixes handle :: "'p \<Rightarrow> db \<Rightarrow> 'a tx"
    and reply :: "'p \<Rightarrow> db \<Rightarrow> 'a reply"
    and ok :: "db \<Rightarrow> bool"
  assumes framed: "\<exists>cases code. reply p d = respond cases code d (handle p d)"
    and keeps: "ok d \<Longrightarrow> handle p d = Inr (x, d', ns) \<Longrightarrow> ok d'"
begin

lemma failure_changes_nothing: "reply p d = (Failure st m, d', ns) \<Longrightarrow> d' = d \<and> ns = []"
  using framed [of p d] by (metis respond_Failure)

lemma success_is_committed: "reply p d = (Success c x, d', ns) \<Longrightarrow> handle p d = Inr (x, d', ns)"
  using framed [of p d] by (metis respond_Success)

lemma reply_keeps: "ok d \<Longrightarrow> reply p d = (r, d', ns) \<Longrightarrow> ok d'"
  by (cases r) (auto dest: failure_changes_nothing success_is_committed keeps)

fun serve :: "'p list \<Rightarrow> db \<Rightarrow> db" where
  "serve [] d = d"
| "serve (p # ps) d = serve ps (fst (snd (reply p d)))"

lemma serve_keeps: "ok d \<Longrightarrow> ok (serve ps d)"
proof (induction ps arbitrary: d)
  case (Cons p ps)
  then show ?case by (cases "reply p d") (auto dest: reply_keeps)
qed simp

end

locale guarded_request = request +
  fixes authorize :: "'a \<Rightarrow> db \<Rightarrow> bool"
  assumes authorised: "handle p d = Inr (x, d', ns) \<Longrightarrow> authorize p d"
begin

lemma unauthorised_changes_nothing:
  assumes "\<not> authorize p d"
  shows "\<exists>st m. reply p d = (Failure st m, d, [])"
proof (cases "handle p d")
  case (Inl e)
  then show ?thesis
    using framed [of p d] switch_error_Failure by fastforce
next
  case (Inr r)
  then show ?thesis using assms authorised by (metis prod_cases3)
qed

end

end
