(* ===== verification/Access.thy ===== *)
theory Access
  imports Notify
begin

section \<open>Queries and access rules shared by the handlers\<close>

text \<open>
  \<open>restapi/handlers/query_helpers.go\<close> and the queries of \<open>models/session_db.go\<close>. A helper that
  returns \<open>(bool, error)\<close> and maps \<open>sql.ErrNoRows\<close> to \<open>false\<close> is a bool-valued function. The
  players of a session are kept in the order of their \<open>player_order\<close>; \<open>NormalizePlayerOrders\<close>
  makes these orders contiguous and \<open>ValidatePlayerOrder\<close> accepts exactly the permutations of
  \<open>0, ..., n-1\<close>.
\<close>

subsection \<open>The caller\<close>

text \<open>\<open>models.Principal\<close>: the authenticated user, from \<open>auth/auth.go\<close>.\<close>

record Principal =
  Subject :: id
  IsGlobalManager :: bool
  IsPending :: bool
  NickName :: string

subsection \<open>Row queries\<close>

definition get_session :: "id \<Rightarrow> db \<Rightarrow> err + SessionDB" where
  "get_session sid d = (case sql_first (\<lambda>s. S_ID s = sid) (sessions d) of
     None \<Rightarrow> Inl NoRows | Some s \<Rightarrow> Inr s)"

definition sessionMembersFilter :: "id \<Rightarrow> id \<Rightarrow> UserProfileSessionRelDB \<Rightarrow> bool" where
  "sessionMembersFilter uid sid r = (R_SessionID r = sid \<and> R_UserProfileID r = uid)"

definition IsMemberOfAnySession :: "id \<Rightarrow> db \<Rightarrow> bool" where
  "IsMemberOfAnySession uid d = (case sql_first (\<lambda>r. R_UserProfileID r = uid) (rels d) of
     None \<Rightarrow> False | Some r \<Rightarrow> True)"

definition IsSessionMember :: "id \<Rightarrow> id \<Rightarrow> db \<Rightarrow> bool" where
  "IsSessionMember uid sid d = (case sql_first (sessionMembersFilter uid sid) (rels d) of
     None \<Rightarrow> False | Some r \<Rightarrow> True)"

definition IsSessionManager :: "id \<Rightarrow> id \<Rightarrow> db \<Rightarrow> bool" where
  "IsSessionManager uid sid d = (case sql_first (sessionMembersFilter uid sid) (rels d) of
     None \<Rightarrow> False | Some r \<Rightarrow> R_IsManager r)"

definition IsSessionPublic :: "id \<Rightarrow> db \<Rightarrow> bool" where
  "IsSessionPublic sid d = (case sql_first (\<lambda>s. S_ID s = sid) (sessions d) of
     None \<Rightarrow> False | Some s \<Rightarrow> \<not> S_Private s)"

definition IsInvitedToSession :: "id \<Rightarrow> id \<Rightarrow> db \<Rightarrow> bool" where
  "IsInvitedToSession uid sid d =
    (case sql_first (\<lambda>i. I_UserProfileID i = uid \<and> I_SessionID i = sid) (invitations d) of
       None \<Rightarrow> False | Some i \<Rightarrow> True)"

definition CanAccessSession :: "id \<Rightarrow> id \<Rightarrow> db \<Rightarrow> bool" where
  "CanAccessSession uid sid d =
    (if IsSessionPublic sid d then True
     else if IsSessionMember uid sid d then True
     else IsInvitedToSession uid sid d)"

definition userProfileSessionRelationQuery :: "id \<Rightarrow> id \<Rightarrow> db \<Rightarrow> UserProfileSessionRelDB list" where
  "userProfileSessionRelationQuery uid sid d =
    sql_select (\<lambda>r. R_UserProfileID r = uid \<and> R_SessionID r = sid) (rels d)"

definition sessionPlayerRaceQuery :: "id \<Rightarrow> id \<Rightarrow> db \<Rightarrow> SessionPlayerRaceDB list" where
  "sessionPlayerRaceQuery uid sid d =
    sql_select (\<lambda>r. P_UserProfileID r = uid \<and> P_SessionID r = sid) (sprs d)"

definition sessionPlayerRaceForSessionQuery :: "id \<Rightarrow> db \<Rightarrow> SessionPlayerRaceDB list" where
  "sessionPlayerRaceForSessionQuery sid d = sql_select (\<lambda>r. P_SessionID r = sid) (sprs d)"

definition sessionPlayerRaceByOrderQuery :: "id \<Rightarrow> int \<Rightarrow> db \<Rightarrow> SessionPlayerRaceDB list" where
  "sessionPlayerRaceByOrderQuery sid i d =
    sql_select (\<lambda>r. P_SessionID r = sid \<and> P_PlayerOrder r = i) (sprs d)"

text \<open>\<open>ORDER BY year DESC LIMIT 1\<close>.\<close>

definition lastSessionFilesQuery :: "id \<Rightarrow> db \<Rightarrow> SessionFilesDB list" where
  "lastSessionFilesQuery sid d =
    take 1 (order_by (\<lambda>f. - F_Year f) (sql_select (\<lambda>f. F_SessionID f = sid) (files d)))"

definition invitationQuery :: "id \<Rightarrow> id \<Rightarrow> db \<Rightarrow> InvitationDB list" where
  "invitationQuery uid iid d =
    sql_select (\<lambda>i. I_ID i = iid \<and> I_UserProfileID i = uid) (invitations d)"

text \<open>\<open>sqlH.Get\<close>: the first row of a query, or \<open>sql.ErrNoRows\<close>.\<close>

definition get_row :: "'r list \<Rightarrow> err + 'r" where
  "get_row rows = (case rows of [] \<Rightarrow> Inl NoRows | r # _ \<Rightarrow> Inr r)"

definition IsPlayerReady :: "id \<Rightarrow> id \<Rightarrow> db \<Rightarrow> bool" where
  "IsPlayerReady sid uid d =
    (case sql_first (\<lambda>r. P_SessionID r = sid \<and> P_UserProfileID r = uid) (sprs d) of
       None \<Rightarrow> False | Some r \<Rightarrow> P_Ready r)"

definition GetUserInvitedSessionIDs :: "id \<Rightarrow> db \<Rightarrow> id set" where
  "GetUserInvitedSessionIDs uid d =
    set (map I_SessionID (sql_select (\<lambda>i. I_UserProfileID i = uid) (invitations d)))"

definition GetSessionInviteeIDs :: "id \<Rightarrow> db \<Rightarrow> id list" where
  "GetSessionInviteeIDs sid d =
    map I_UserProfileID (sql_select (\<lambda>i. I_SessionID i = sid) (invitations d))"

subsection \<open>The API view of a session\<close>

record SessionPlayer =
  SP_ID :: id
  SP_UserProfileID :: id
  SP_Ready :: bool
  SP_PlayerOrder :: int
  SP_IsBot :: bool
  SP_BotLevel :: "int option"
  SP_BotRaceName :: "string option"

text \<open>
  \<open>models.Session\<close>. The state is \<open>None\<close> when the Go string is empty: a value a client can send but
  the enum column cannot hold.
\<close>

record Session =
  ID :: id
  Name :: string
  Private :: bool
  RulesIsSet :: bool
  State :: "session_state option"
  Members :: "id list"
  Managers :: "id list"
  Players :: "SessionPlayer list"
  PendingInvitation :: bool

definition MembersID :: "id \<Rightarrow> db \<Rightarrow> id list" where
  "MembersID sid d =
    map R_UserProfileID (sql_select (\<lambda>r. R_SessionID r = sid \<and> R_IsManager r = False) (rels d))"

definition ManagersID :: "id \<Rightarrow> db \<Rightarrow> id list" where
  "ManagersID sid d =
    map R_UserProfileID (sql_select (\<lambda>r. R_SessionID r = sid \<and> R_IsManager r = True) (rels d))"

definition SessionPlayerRaces :: "id \<Rightarrow> db \<Rightarrow> SessionPlayerRaceDB list" where
  "SessionPlayerRaces sid d = order_by P_PlayerOrder (sql_select (\<lambda>r. P_SessionID r = sid) (sprs d))"

definition PlayersID :: "id \<Rightarrow> db \<Rightarrow> id list" where
  "PlayersID sid d = map P_UserProfileID
    (order_by P_PlayerOrder (sql_select (\<lambda>r. P_SessionID r = sid) (sprs d)))"

text \<open>The left join with \<open>race\<close>: the name is only kept for bots.\<close>

definition session_player :: "db \<Rightarrow> SessionPlayerRaceDB \<Rightarrow> SessionPlayer" where
  "session_player d r = \<lparr>SP_ID = P_ID r, SP_UserProfileID = P_UserProfileID r, SP_Ready = P_Ready r,
     SP_PlayerOrder = P_PlayerOrder r, SP_IsBot = P_IsBot r, SP_BotLevel = P_BotLevel r,
     SP_BotRaceName = (if P_IsBot r
       then map_option Ra_NamePlural (sql_first (\<lambda>x. Ra_ID x = P_RaceID r) (races d)) else None)\<rparr>"

definition PlayersInfo :: "id \<Rightarrow> db \<Rightarrow> SessionPlayer list" where
  "PlayersInfo sid d = map (session_player d)
    (order_by P_PlayerOrder (sql_select (\<lambda>r. P_SessionID r = sid) (sprs d)))"

definition FromDB :: "SessionDB \<Rightarrow> db \<Rightarrow> Session" where
  "FromDB s d = \<lparr>ID = S_ID s, Name = S_Name s, Private = S_Private s, RulesIsSet = S_RulesIsSet s,
     State = Some (S_State s), Members = MembersID (S_ID s) d, Managers = ManagersID (S_ID s) d,
     Players = PlayersInfo (S_ID s) d, PendingInvitation = False\<rparr>"

text \<open>
  \<open>PlayerRaces\<close>: the races of the human players, found by the owner of the race and not by the id
  of the race.
\<close>

definition PlayerRaces :: "SessionPlayerRaceDB list \<Rightarrow> db \<Rightarrow> RaceDB list" where
  "PlayerRaces ps d = (let raceIDs = map P_RaceID (filter (\<lambda>p. \<not> P_IsBot p) ps);
                           racesDB = sql_select (\<lambda>r. Ra_ID r \<in> set raceIDs) (races d) in
     concat (map (\<lambda>p. filter (\<lambda>r. Ra_UserID r = P_UserProfileID p) racesDB)
       (filter (\<lambda>p. \<not> P_IsBot p) ps)))"

definition get_ruleset :: "id \<Rightarrow> db \<Rightarrow> err + Ruleset" where
  "get_ruleset sid d = (case sql_first (\<lambda>r. RS_SessionID r = sid) (rulesets d) of
     None \<Rightarrow> Inl NoRows | Some r \<Rightarrow> Inr (RS_Ruleset r))"

subsection \<open>Facts about the queries\<close>

lemma get_session_Inr: "get_session sid d = Inr s \<Longrightarrow> s \<in> set (sessions d) \<and> S_ID s = sid"
  by (auto simp: get_session_def split: option.splits dest: sql_first_Some)

lemma get_session_Inl: "get_session sid d = Inl e \<longleftrightarrow> e = NoRows \<and> sid \<notin> S_ID ` set (sessions d)"
  by (auto simp: get_session_def sql_first_None split: option.splits dest: sql_first_Some)

lemma IsSessionMember_iff:
  "IsSessionMember uid sid d \<longleftrightarrow> (uid, sid) \<in> rel_key ` set (rels d)"
  by (auto simp: IsSessionMember_def sql_first_exists sessionMembersFilter_def rel_key_def)

lemma IsSessionManager_iff:
  assumes "distinct (map rel_key (rels d))"
  shows "IsSessionManager uid sid d \<longleftrightarrow>
    \<lparr>R_UserProfileID = uid, R_SessionID = sid, R_IsManager = True\<rparr> \<in> set (rels d)"
proof -
  let ?f = "sessionMembersFilter uid sid"
  let ?m = "\<lparr>R_UserProfileID = uid, R_SessionID = sid, R_IsManager = True\<rparr>"
  have f: "?f = (\<lambda>r. rel_key r = rel_key ?m)"
    by (auto simp: sessionMembersFilter_def rel_key_def)
  show ?thesis
  proof (cases "?m \<in> set (rels d)")
    case True
    then have "sql_first ?f (rels d) = Some ?m"
      unfolding f by (rule sql_first_key [OF assms])
    then show ?thesis using True by (simp add: IsSessionManager_def)
  next
    case False
    have "\<not> R_IsManager r" if "sql_first ?f (rels d) = Some r" for r
      using sql_first_Some [OF that] False
      by (cases r) (auto simp: sessionMembersFilter_def)
    then show ?thesis using False by (auto simp: IsSessionManager_def split: option.splits)
  qed
qed

lemma IsSessionManagerI:
  assumes "distinct (map rel_key (rels d))" "r \<in> set (rels d)" "R_IsManager r"
  shows "IsSessionManager (R_UserProfileID r) (R_SessionID r) d"
  using assms by (cases r) (simp add: IsSessionManager_iff)

lemma IsInvitedToSession_iff:
  "IsInvitedToSession uid sid d \<longleftrightarrow> (sid, uid) \<in> invitation_key ` set (invitations d)"
  by (auto simp: IsInvitedToSession_def sql_first_exists invitation_key_def)

lemma CanAccessSession_iff:
  "CanAccessSession uid sid d \<longleftrightarrow>
    IsSessionPublic sid d \<or> IsSessionMember uid sid d \<or> IsInvitedToSession uid sid d"
  by (simp add: CanAccessSession_def)

lemma get_row_Inr: "get_row rows = Inr r \<Longrightarrow> r \<in> set rows"
  by (auto simp: get_row_def split: list.splits)

end
