(* ===== verification/Base64.thy ===== *)
theory Base64
  imports Access "HOL-Library.Word"
begin

section \<open>Base64\<close>

text \<open>
  Race files, turn files and order files are binary files that the database and the API carry as
  text: \<open>B64Encode\<close> and \<open>B64Decode\<close> of \<open>lib/stars\<close>, \<open>RawData\<close> and \<open>RaceFromRaw\<close> of
  \<open>models/race_helper.go\<close>, all over \<open>base64.StdEncoding\<close>. The standard library is modelled as
  far as these functions use it: the alphabet with padding, and the decoder, which skips carriage
  returns and line feeds, wants the padding complete and nothing after it, and does not check that
  the unused low bits of the last digit are zero.
\<close>

type_synonym bytes = "8 word list"

subsection \<open>\<open>base64.StdEncoding\<close>\<close>

definition alphabet :: string where
  "alphabet = ''ABCDEFGHIJKLMNOPQRSTUVWXYZabcdefghijklmnopqrstuvwxyz0123456789+/''"

definition b64_char :: "nat \<Rightarrow> char" where
  "b64_char k = alphabet ! k"

fun digit_index :: "char \<Rightarrow> string \<Rightarrow> nat option" where
  "digit_index c [] = None"
| "digit_index c (x # xs) = (if x = c then Some 0 else map_option Suc (digit_index c xs))"

definition b64_digit :: "char \<Rightarrow> nat option" where
  "b64_digit c = digit_index c alphabet"

definition pad :: char where
  "pad = CHR ''=''"

definition is_newline :: "char \<Rightarrow> bool" where
  "is_newline c = (c = CHR 0x0A \<or> c = CHR 0x0D)"

fun base64_Encode :: "bytes \<Rightarrow> string" where
  "base64_Encode [] = []"
| "base64_Encode [a] = [b64_char (unat a div 4), b64_char (unat a mod 4 * 16), pad, pad]"
| "base64_Encode [a, b] = [b64_char (unat a div 4), b64_char (unat a mod 4 * 16 + unat b div 16),
     b64_char (unat b mod 16 * 4), pad]"
| "base64_Encode (a # b # c # bs) = [b64_char (unat a div 4),
     b64_char (unat a mod 4 * 16 + unat b div 16), b64_char (unat b mod 16 * 4 + unat c div 64),
     b64_char (unat c mod 64)] @ base64_Encode bs"

text \<open>The bytes of two, three or four digits.\<close>

definition byte :: "nat \<Rightarrow> 8 word" where
  "byte k = word_of_nat k"

fun quantum :: "nat list \<Rightarrow> bytes" where
  "quantum [p, q] = [byte (p * 4 + q div 16)]"
| "quantum [p, q, r] = [byte (p * 4 + q div 16), byte (q mod 16 * 16 + r div 4)]"
| "quantum [p, q, r, s] = [byte (p * 4 + q div 16), byte (q mod 16 * 16 + r div 4),
     byte (r mod 4 * 64 + s)]"
| "quantum _ = []"

text \<open>
  \<open>Decode\<close>: the digits of the current quantum are in \<open>acc\<close>; \<open>None\<close> is \<open>CorruptInputError\<close>.
\<close>

fun base64_Decode :: "nat list \<Rightarrow> string \<Rightarrow> bytes option" where
  "base64_Decode acc [] = (if acc = [] then Some [] else None)"
| "base64_Decode acc (c # cs) =
    (case b64_digit c of
       Some v \<Rightarrow> (if length acc = 3 then map_option (\<lambda>bs. quantum (acc @ [v]) @ bs) (base64_Decode [] cs)
                  else base64_Decode (acc @ [v]) cs)
     | None \<Rightarrow>
        if is_newline c then base64_Decode acc cs
        else if c \<noteq> pad then None
        else if length acc = 2 then
          (case dropWhile is_newline cs of
             [] \<Rightarrow> None
           | c2 # cs2 \<Rightarrow> (if c2 \<noteq> pad then None
               else if dropWhile is_newline cs2 = [] then Some (quantum acc) else None))
        else if length acc = 3 then
          (if dropWhile is_newline cs = [] then Some (quantum acc) else None)
        else None)"

subsection \<open>The functions of the program\<close>

definition CorruptInputError :: err where
  "CorruptInputError = OtherErr ''illegal base64 data''"

definition B64Encode :: "bytes \<Rightarrow> string" where
  "B64Encode bs = base64_Encode bs"

definition B64Decode :: "string \<Rightarrow> err + bytes" where
  "B64Decode s = (case base64_Decode [] s of None \<Rightarrow> Inl CorruptInputError | Some bs \<Rightarrow> Inr bs)"

definition RawData :: "RaceDB \<Rightarrow> err + bytes" where
  "RawData r = (case base64_Decode [] (Ra_Data r) of None \<Rightarrow> Inl CorruptInputError | Some bs \<Rightarrow> Inr bs)"

text \<open>\<open>&Race{Data: ...}\<close>: the other fields keep their zero value.\<close>

definition RaceFromRaw :: "bytes \<Rightarrow> RaceDB" where
  "RaceFromRaw raw = \<lparr>Ra_ID = '''', Ra_NamePlural = '''', Ra_NameSingular = '''', Ra_UserID = '''',
     Ra_Data = base64_Encode raw\<rparr>"

subsection \<open>Decoding inverts encoding\<close>

lemma digit_index_nth: "distinct xs \<Longrightarrow> k < length xs \<Longrightarrow> digit_index (xs ! k) xs = Some k"
proof (induction xs arbitrary: k)
  case (Cons x xs)
  then show ?case by (cases k) auto
qed simp

lemma alphabet_facts: "distinct alphabet" "length alphabet = 64" "pad \<notin> set alphabet"
  "\<forall>c \<in> set alphabet. \<not> is_newline c"
  by code_simp+

lemma b64_digit_char [simp]: "k < 64 \<Longrightarrow> b64_digit (b64_char k) = Some k"
  unfolding b64_digit_def b64_char_def by (rule digit_index_nth) (simp_all add: alphabet_facts)

lemma digit_index_None: "c \<notin> set xs \<Longrightarrow> digit_index c xs = None"
  by (induction xs) auto

lemma b64_digit_pad [simp]: "b64_digit pad = None" "\<not> is_newline pad"
  by (simp_all add: b64_digit_def digit_index_None alphabet_facts) (simp add: is_newline_def pad_def)

lemma unat_byte: "unat (a :: 8 word) < 256"
  using unsigned_less [of a] by simp

lemma byte_unat [simp]: "byte (unat a) = a"
  by (simp add: byte_def)

lemma byte_digits [simp]:
  "unat (a :: 8 word) div 4 < 64" "unat a mod 4 * 16 < 64"
  "unat a mod 4 * 16 + unat (b :: 8 word) div 16 < 64" "unat b mod 16 * 4 < 64"
  "unat b mod 16 * 4 + unat (c :: 8 word) div 64 < 64" "unat c mod 64 < 64"
  using unat_byte [of a] unat_byte [of b] unat_byte [of c] by linarith+

lemma digit_split: "q < k \<Longrightarrow> (p * k + q) div k = p" "q < k \<Longrightarrow> (p * k + q) mod k = q" for p q k :: nat
  by (simp_all add: div_mult_self3)

lemma digits_join [simp]:
  fixes x y z :: nat
  shows "x div 4 * 4 + x mod 4 * 16 div 16 = x"
    "y < 256 \<Longrightarrow> x div 4 * 4 + (x mod 4 * 16 + y div 16) div 16 = x"
    "y < 256 \<Longrightarrow> (x mod 4 * 16 + y div 16) mod 16 * 16 + y mod 16 * 4 div 4 = y"
    "y < 256 \<Longrightarrow> z < 256 \<Longrightarrow>
       (x mod 4 * 16 + y div 16) mod 16 * 16 + (y mod 16 * 4 + z div 64) div 4 = y"
    "z < 256 \<Longrightarrow> (y mod 16 * 4 + z div 64) mod 4 * 64 + z mod 64 = z"
proof -
  have lt: "y div 16 < 16" if "y < 256" for y :: nat using that by simp
  have lt': "z div 64 < 4" if "z < 256" for z :: nat using that by simp
  show "x div 4 * 4 + x mod 4 * 16 div 16 = x" by simp
  show "x div 4 * 4 + (x mod 4 * 16 + y div 16) div 16 = x" if "y < 256"
    by (simp only: digit_split [OF lt [OF that]] div_mult_mod_eq)
  show "(x mod 4 * 16 + y div 16) mod 16 * 16 + y mod 16 * 4 div 4 = y" if "y < 256"
    by (simp only: digit_split [OF lt [OF that]]) simp
  show "(x mod 4 * 16 + y div 16) mod 16 * 16 + (y mod 16 * 4 + z div 64) div 4 = y"
    if "y < 256" "z < 256"
    by (simp only: digit_split [OF lt [OF that(1)]] digit_split [OF lt' [OF that(2)]] div_mult_mod_eq)
  show "(y mod 16 * 4 + z div 64) mod 4 * 64 + z mod 64 = z" if "z < 256"
    by (simp only: digit_split [OF lt' [OF that]] div_mult_mod_eq)
qed

lemma quantum_digits [simp]:
  "quantum [unat a div 4, unat a mod 4 * 16] = [a]"
  "quantum [unat a div 4, unat a mod 4 * 16 + unat b div 16, unat b mod 16 * 4] = [a, b]"
  "quantum [unat a div 4, unat a mod 4 * 16 + unat b div 16, unat b mod 16 * 4 + unat c div 64,
     unat c mod 64] = [a, b, c]"
  by (simp_all only: quantum.simps digits_join unat_byte byte_unat)

declare quantum.simps [simp del]

lemma base64_round_trip: "base64_Decode [] (base64_Encode bs) = Some bs"
  by (induction bs rule: base64_Encode.induct) simp_all

text \<open>
  Binary data survives the database: what \<open>B64Encode\<close> writes, \<open>B64Decode\<close> reads back
  unchanged, for every file content (also the empty one), and the stored text has four characters
  for each started group of three bytes.
\<close>

lemma B64_round_trip:
  "B64Decode (B64Encode bs) = Inr bs \<and> RawData (RaceFromRaw bs) = Inr bs \<and>
   length (B64Encode bs) = 4 * ((length bs + 2) div 3)"
proof -
  have "length (base64_Encode bs) = 4 * ((length bs + 2) div 3)"
    proof (induction bs rule: base64_Encode.induct)
    case (4 a b c bs)
    then show ?case using div_add_self2 [of 3 "length bs + 2"] by simp
  qed simp_all
  then show ?thesis by (simp add: B64Decode_def B64Encode_def RawData_def RaceFromRaw_def base64_round_trip)
qed

end
