(* ===== verification/Examples.thy ===== *)
theory Examples
  imports Access
begin

section \<open>Small databases for the concrete instances\<close>

text \<open>
  Databases on which the witnesses apply the properties: users \<open>u\<close>, \<open>v\<close> and \<open>w\<close>, one session
  \<open>s\<close>, players \<open>a\<close> and \<open>b\<close>.
\<close>

definition empty_db :: db where
  "empty_db = \<lparr>sessions = [], rels = [], races = [], sprs = [], invitations = [], rulesets = [],
     files = [], users = [], serials = []\<rparr>"

definition example_player :: "id \<Rightarrow> id \<Rightarrow> int \<Rightarrow> SessionPlayerRaceDB" where
  "example_player i u k = \<lparr>P_ID = i, P_SessionID = ''s'', P_UserProfileID = u, P_RaceID = ''r'',
     P_IsBot = False, P_BotLevel = None, P_PlayerOrder = k, P_Ready = False, P_AIControlType = None\<rparr>"

definition example_user :: "id \<Rightarrow> UserProfileDB" where
  "example_user u = \<lparr>U_ID = u, U_Email = u, U_State = UserActive, U_IsManager = False, U_Nickname = u,
     U_APIKey = Some u, U_SerialKey = None, U_RegistrationMessage = None\<rparr>"

definition example_session :: "session_state \<Rightarrow> bool \<Rightarrow> SessionDB" where
  "example_session st priv = \<lparr>S_ID = ''s'', S_Name = ''game'', S_Private = priv, S_RulesIsSet = False,
     S_State = st, S_RulesetID = None\<rparr>"

definition example_rel :: "id \<Rightarrow> bool \<Rightarrow> UserProfileSessionRelDB" where
  "example_rel u m = \<lparr>R_UserProfileID = u, R_SessionID = ''s'', R_IsManager = m\<rparr>"

definition example_race :: RaceDB where
  "example_race = \<lparr>Ra_ID = ''r'', Ra_NamePlural = ''R'', Ra_NameSingular = ''R'', Ra_UserID = ''u'',
     Ra_Data = ''''\<rparr>"

definition example_invitation :: "id \<Rightarrow> InvitationDB" where
  "example_invitation u = \<lparr>I_ID = ''i'', I_SessionID = ''s'', I_UserProfileID = u, I_InviterID = ''u''\<rparr>"

definition example_principal :: "id \<Rightarrow> Principal" where
  "example_principal u = \<lparr>Subject = u, IsGlobalManager = False, IsPending = False, NickName = u\<rparr>"

text \<open>
  \<open>u\<close> manages the session, \<open>v\<close> is a member, \<open>w\<close> is invited; \<open>u\<close> and \<open>v\<close> are players, with the
  orders 3 and 7.
\<close>

definition example_db :: "session_state \<Rightarrow> bool \<Rightarrow> db" where
  "example_db st priv = empty_db\<lparr>
     sessions := [example_session st priv],
     rels := [example_rel ''u'' True, example_rel ''v'' False],
     races := [example_race],
     sprs := [example_player ''b'' ''v'' 7, example_player ''a'' ''u'' 3],
     invitations := [example_invitation ''w''],
     users := [example_user ''u'', example_user ''v'', example_user ''w'']\<rparr>"

lemmas example_defs = example_db_def empty_db_def example_session_def example_rel_def example_race_def
  example_player_def example_user_def example_invitation_def example_principal_def

lemma example_db_ok: "db_ok (example_db st priv)"
  by code_simp

text \<open>The rules of the first game in the tests of the repository, with no value for capital ships.\<close>

definition shire_ruleset :: Ruleset where
  "shire_ruleset = \<lparr>AcceleratedBbsPlay = False, ComputerPlayersFormAlliances = False, Density = 2,
     GalaxyClumping = False, MaximumMinerals = False, NoRandomEvents = False,
     PublicPlayerScores = False, RandomSeed = 0, SlowerTechAdvances = False, StartingDistance = 2,
     UniverseSize = 2, VcAtLeastxYears = 100, VcAttainTech = True, VcAttainTechFieldsValue = 4,
     VcAttainTechTechValue = 26, VcExceedNextPlayerScore = False, VcExceedNextPlayerScoreValue = 0,
     VcExceedScore = False, VcExceedScoreValue = 0, VcHasProductionCapacity = False,
     VcHasProductionCapacityValue = 0, VcHaveHighestScore = False, VcHaveHighestScoreValue = 0,
     VcOwnsCapitalShips = False, VcOwnsCapitalShipsValue = 0, VcOwnsPercentOfPlanets = False,
     VcOwnsPercentOfPlanetsValue = 0, VcWinnerMustMeet = 1\<rparr>"

end
