(* ===== verification/PlayerOrder.thy ===== *)
theory PlayerOrder
  imports Examples
begin

section \<open>Player orders\<close>

text \<open>
  The order of a player is his index in the turn and order files of a game, so the orders of a
  started session have to be \<open>0, ..., n-1\<close>. This theory holds the two functions of
  \<open>query_helpers.go\<close> that see to it: \<open>NormalizePlayerOrders\<close>, which renumbers the players of a
  session row by row, and \<open>ValidatePlayerOrder\<close>, which checks the orders a manager sends.
\<close>

subsection \<open>NormalizePlayerOrders\<close>

fun needsNormalization :: "int \<Rightarrow> SessionPlayerRaceDB list \<Rightarrow> bool" where
  "needsNormalization i [] = False"
| "needsNormalization i (p # ps) =
    (if P_PlayerOrder p \<noteq> i then True else needsNormalization (i + 1) ps)"

fun normalize_loop :: "int \<Rightarrow> SessionPlayerRaceDB list \<Rightarrow> db \<Rightarrow> err + SessionPlayerRaceDB list \<times> db" where
  "normalize_loop i [] d = Inr ([], d)"
| "normalize_loop i (p # ps) d =
    (if P_PlayerOrder p \<noteq> i then
       (case update_sprs (\<lambda>r. P_ID r = P_ID p) (\<lambda>r. r\<lparr>P_PlayerOrder := i\<rparr>) d of
          Inl e \<Rightarrow> Inl e
        | Inr d1 \<Rightarrow>
            (case normalize_loop (i + 1) ps d1 of
               Inl e \<Rightarrow> Inl e
             | Inr (qs, d2) \<Rightarrow> Inr (p\<lparr>P_PlayerOrder := i\<rparr> # qs, d2)))
     else
       (case normalize_loop (i + 1) ps d of
          Inl e \<Rightarrow> Inl e
        | Inr (qs, d2) \<Rightarrow> Inr (p # qs, d2)))"

definition NormalizePlayerOrders ::
    "SessionPlayerRaceDB list \<Rightarrow> db \<Rightarrow> err + SessionPlayerRaceDB list \<times> db" where
  "NormalizePlayerOrders ps d =
    (if \<not> needsNormalization 0 ps then Inr (ps, d) else normalize_loop 0 ps d)"

text \<open>What the loop computes: the players in the given sequence, numbered from \<open>i\<close>.\<close>

fun renumber :: "int \<Rightarrow> SessionPlayerRaceDB list \<Rightarrow> SessionPlayerRaceDB list" where
  "renumber i [] = []"
| "renumber i (p # ps) = p\<lparr>P_PlayerOrder := i\<rparr> # renumber (i + 1) ps"

fun new_order :: "int \<Rightarrow> SessionPlayerRaceDB list \<Rightarrow> id \<Rightarrow> int option" where
  "new_order i [] k = None"
| "new_order i (p # ps) k = (if P_ID p = k then Some i else new_order (i + 1) ps k)"

definition reorder_row :: "(id \<Rightarrow> int option) \<Rightarrow> SessionPlayerRaceDB \<Rightarrow> SessionPlayerRaceDB" where
  "reorder_row ord r = (case ord (P_ID r) of None \<Rightarrow> r | Some i \<Rightarrow> r\<lparr>P_PlayerOrder := i\<rparr>)"

lemma reorder_row_keeps [simp]:
  "P_ID (reorder_row ord r) = P_ID r"
  "P_SessionID (reorder_row ord r) = P_SessionID r"
  "P_UserProfileID (reorder_row ord r) = P_UserProfileID r"
  "P_RaceID (reorder_row ord r) = P_RaceID r"
  "P_IsBot (reorder_row ord r) = P_IsBot r"
  by (simp_all add: reorder_row_def split: option.splits)

lemma new_order_None: "new_order i ps k = None \<longleftrightarrow> k \<notin> P_ID ` set ps"
  by (induction ps arbitrary: i) auto

lemma length_renumber [simp]: "length (renumber i ps) = length ps"
  by (induction ps arbitrary: i) auto

lemma renumber_orders: "map P_PlayerOrder (renumber i ps) = [i..i + int (length ps) - 1]"
proof (induction ps arbitrary: i)
  case (Cons p ps)
  then show ?case by (simp add: upto_rec1 algebra_simps)
qed simp

lemma renumber_keeps:
  "map P_ID (renumber i ps) = map P_ID ps"
  "map P_UserProfileID (renumber i ps) = map P_UserProfileID ps"
  "map P_SessionID (renumber i ps) = map P_SessionID ps"
  by (induction ps arbitrary: i) auto

lemma renumber_reorder:
  "distinct (map P_ID ps) \<Longrightarrow> renumber i ps = map (reorder_row (new_order i ps)) ps"
proof (induction ps arbitrary: i)
  case (Cons p ps)
  have "map (reorder_row (new_order i (p # ps))) ps = map (reorder_row (new_order (i + 1) ps)) ps"
    using Cons.prems by (auto simp: reorder_row_def image_iff)
  then show ?case using Cons by (simp add: reorder_row_def)
qed simp

lemma renumber_same: "\<not> needsNormalization i ps \<Longrightarrow> renumber i ps = ps"
  by (induction i ps rule: needsNormalization.induct) (auto split: if_splits)

lemma reorder_row_Cons:
  assumes "P_ID p \<notin> P_ID ` set ps"
  shows "reorder_row (new_order (i + 1) ps) (if P_ID r = P_ID p then r\<lparr>P_PlayerOrder := i\<rparr> else r) =
    reorder_row (new_order i (p # ps)) r"
proof -
  have "new_order (i + 1) ps (P_ID p) = None"
    using assms by (simp add: new_order_None)
  then show ?thesis by (auto simp: reorder_row_def)
qed

lemma normalize_loop_result:
  assumes "distinct (map P_ID ps)" "distinct (map P_ID (sprs d))" "set ps \<subseteq> set (sprs d)"
    and "normalize_loop i ps d = Inr (qs, d')"
  shows "qs = renumber i ps \<and> d' = d\<lparr>sprs := map (reorder_row (new_order i ps)) (sprs d)\<rparr>"
  using assms
proof (induction i ps d arbitrary: qs d' rule: normalize_loop.induct)
  case (1 i d)
  then show ?case by (simp add: reorder_row_def)
next
  case (2 i p ps d)
  let ?f = "\<lambda>r. if P_ID r = P_ID p then r\<lparr>P_PlayerOrder := i\<rparr> else r"
  let ?d1 = "d\<lparr>sprs := map ?f (sprs d)\<rparr>"
  have p: "P_ID p \<notin> P_ID ` set ps" "distinct (map P_ID ps)" "p \<in> set (sprs d)" "set ps \<subseteq> set (sprs d)"
    using 2 by auto
  have rows: "map (reorder_row (new_order (i + 1) ps)) (map ?f (sprs d)) =
      map (reorder_row (new_order i (p # ps))) (sprs d)"
    using p(1) by (simp add: reorder_row_Cons del: new_order.simps)
  have ids: "distinct (map P_ID (map ?f (sprs d)))"
  proof -
    have "map P_ID (map ?f (sprs d)) = map P_ID (sprs d)" by simp
    then show ?thesis using 2 by (simp only:)
  qed
  have sub: "set ps \<subseteq> set (map ?f (sprs d))"
    using p by (force simp: image_iff)
  show ?case
  proof (cases "P_PlayerOrder p = i")
    case True
    have same: "map ?f (sprs d) = sprs d"
    proof (rule map_idI)
      fix r assume "r \<in> set (sprs d)"
      then have "r = p" if "P_ID r = P_ID p"
        using that p(3) 2(4) by (auto dest: distinct_key_eq)
      then show "?f r = r" using True by auto
    qed
    obtain qs' where loop: "normalize_loop (i + 1) ps d = Inr (qs', d')" and qs: "qs = p # qs'"
      using 2(6) True by (auto split: sum.splits)
    have "qs' = renumber (i + 1) ps \<and> d' = d\<lparr>sprs := map (reorder_row (new_order (i + 1) ps)) (sprs d)\<rparr>"
      using 2(2) [OF _ p(2) 2(4) p(4) loop] True by simp
    then show ?thesis using rows [unfolded same] qs True by (simp del: new_order.simps)
  next
    case False
    obtain qs' where loop: "normalize_loop (i + 1) ps ?d1 = Inr (qs', d')"
      and qs: "qs = p\<lparr>P_PlayerOrder := i\<rparr> # qs'"
      and up: "update_sprs (\<lambda>r. P_ID r = P_ID p) (\<lambda>r. r\<lparr>P_PlayerOrder := i\<rparr>) d = Inr ?d1"
      using 2(6) False by (auto simp: update_sprs_def enforce_Inr sql_update_def split: sum.splits)
    have "qs' = renumber (i + 1) ps \<and>
      d' = ?d1\<lparr>sprs := map (reorder_row (new_order (i + 1) ps)) (sprs ?d1)\<rparr>"
      using 2(1) [OF False up p(2) _ _ loop] ids sub by simp
    then show ?thesis using rows qs by (simp del: new_order.simps)
  qed
qed

text \<open>The two branches of \<open>NormalizePlayerOrders\<close> have one result.\<close>

lemma NormalizePlayerOrders_result:
  assumes "distinct (map P_ID ps)" "distinct (map P_ID (sprs d))" "set ps \<subseteq> set (sprs d)"
    and "NormalizePlayerOrders ps d = Inr (qs, d')"
  shows "qs = renumber 0 ps \<and> d' = d\<lparr>sprs := map (reorder_row (new_order 0 ps)) (sprs d)\<rparr>"
proof (cases "needsNormalization 0 ps")
  case True
  then show ?thesis
    using assms normalize_loop_result by (simp add: NormalizePlayerOrders_def)
next
  case False
  have "map (reorder_row (new_order 0 ps)) (sprs d) = sprs d"
  proof (rule map_idI)
    fix r assume r: "r \<in> set (sprs d)"
    show "reorder_row (new_order 0 ps) r = r"
    proof (cases "new_order 0 ps (P_ID r)")
      case (Some i)
      then have "\<not> P_ID r \<notin> P_ID ` set ps" using new_order_None [of 0 ps "P_ID r"] by simp
      then obtain p where p: "p \<in> set ps" "P_ID p = P_ID r" by auto
      have "p = r" using distinct_key_eq [OF assms(2)] assms(3) p r by blast
      moreover have "\<forall>q \<in> set ps. reorder_row (new_order 0 ps) q = q"
        using renumber_reorder [OF assms(1), of 0] renumber_same [OF False]
        by (metis list.map_ident map_eq_conv)
      ultimately show ?thesis using p(1) by blast
    qed (simp add: reorder_row_def)
  qed
  then show ?thesis
    using False assms(4) by (simp add: NormalizePlayerOrders_def renumber_same)
qed

text \<open>A list sorted by strictly increasing keys is what sorting any permutation of it gives.\<close>

lemma order_by_perm:
  fixes ys :: "'a list"
  assumes "mset ys = mset xs" "sorted (map f ys)" "distinct (map f ys)"
  shows "order_by f xs = ys"
proof -
  have "inj_on f (set ys)" using assms(3) by (simp add: distinct_map)
  then have "inj_on f (set xs)" using assms(1) by (metis set_mset_mset)
  then show ?thesis
    unfolding order_by_def using assms by (intro sort_key_inj_key_eq) auto
qed

lemma select_map_rows:
  "(\<And>r. P_SessionID (g r) = P_SessionID r) \<Longrightarrow>
   sql_select (\<lambda>r. P_SessionID r = sid) (map g rows) = map g (sql_select (\<lambda>r. P_SessionID r = sid) rows)"
  by (simp add: sql_select_def filter_map comp_def)

lemma SessionPlayerRaces_rows:
  "mset (SessionPlayerRaces sid d) = mset (sql_select (\<lambda>r. P_SessionID r = sid) (sprs d))"
  "set (SessionPlayerRaces sid d) = {r \<in> set (sprs d). P_SessionID r = sid}"
  by (simp_all add: SessionPlayerRaces_def order_by_def)

lemma SessionPlayerRaces_distinct:
  "distinct (map P_ID (sprs d)) \<Longrightarrow> distinct (map P_ID (SessionPlayerRaces sid d))"
  by (simp add: SessionPlayerRaces_def distinct_order_by distinct_sql_select)

lemma SessionPlayerRaces_normalized:
  assumes "distinct (map P_ID (sprs d))"
    and "NormalizePlayerOrders (SessionPlayerRaces sid d) d = Inr (qs, d')"
  shows "SessionPlayerRaces sid d' = qs"
proof -
  let ?ps = "SessionPlayerRaces sid d"
  let ?g = "reorder_row (new_order 0 ?ps)"
  have res: "qs = renumber 0 ?ps" "d' = d\<lparr>sprs := map ?g (sprs d)\<rparr>"
    using NormalizePlayerOrders_result [OF SessionPlayerRaces_distinct assms(1) _ assms(2)] assms(1)
    by (auto simp: SessionPlayerRaces_rows)
  have qs: "qs = map ?g ?ps"
    using res(1) assms(1) by (simp add: renumber_reorder SessionPlayerRaces_distinct)
  have orders: "map P_PlayerOrder qs = [0..int (length ?ps) - 1]"
    by (simp add: res(1) renumber_orders)
  have "mset qs = mset (sql_select (\<lambda>r. P_SessionID r = sid) (sprs d'))"
    by (simp add: res(2) qs select_map_rows SessionPlayerRaces_rows)
  then show ?thesis
    unfolding SessionPlayerRaces_def
    by (intro order_by_perm) (simp_all add: orders del: map_eq_conv)
qed

lemma normalize_loop_total:
  assumes "\<forall>r \<in> set (sprs d). spr_check r" "i + int (length ps) \<le> 16"
  shows "\<exists>r. normalize_loop i ps d = Inr r"
  using assms
proof (induction i ps d rule: normalize_loop.induct)
  case (2 i p ps d)
  let ?up = "update_sprs (\<lambda>r. P_ID r = P_ID p) (\<lambda>r. r\<lparr>P_PlayerOrder := i\<rparr>) d"
  let ?d1 = "d\<lparr>sprs := sql_update (\<lambda>r. P_ID r = P_ID p) (\<lambda>r. r\<lparr>P_PlayerOrder := i\<rparr>) (sprs d)\<rparr>"
  have up: "?up = Inr ?d1"
    using 2 by (simp add: update_sprs_def enforce_Inr list_all_iff spr_check_def)
  have checks: "\<forall>r \<in> set (sprs ?d1). spr_check r"
    using 2 by (simp add: spr_check_def)
  show ?case
  proof (cases "P_PlayerOrder p = i")
    case True
    then show ?thesis using 2 by (auto split: prod.splits)
  next
    case False
    then obtain r where "normalize_loop (i + 1) ps ?d1 = Inr r"
      using 2(1) [OF False up checks] 2(4) by auto
    then show ?thesis using up False by (cases r) simp
  qed
qed simp

lemma NormalizePlayerOrders_total:
  "\<forall>r \<in> set (sprs d). spr_check r \<Longrightarrow> length ps \<le> 16 \<Longrightarrow> \<exists>qs d'. NormalizePlayerOrders ps d = Inr (qs, d')"
  using normalize_loop_total [of d 0 ps] by (simp add: NormalizePlayerOrders_def)

lemma NormalizePlayerOrders_parts:
  assumes "db_ok d"
    and "NormalizePlayerOrders (SessionPlayerRaces sid d) d = Inr (qs, d')"
  shows "SessionPlayerRaces sid d' = qs \<and>
    map P_PlayerOrder qs = [0..int (length qs) - 1] \<and>
    map P_ID qs = map P_ID (SessionPlayerRaces sid d) \<and>
    (\<forall>other. other \<noteq> sid \<longrightarrow> SessionPlayerRaces other d' = SessionPlayerRaces other d)"
proof -
  let ?ps = "SessionPlayerRaces sid d"
  have ids: "distinct (map P_ID (sprs d))" using assms(1) by (simp add: db_ok_parts)
  have res: "qs = renumber 0 ?ps" "d' = d\<lparr>sprs := map (reorder_row (new_order 0 ?ps)) (sprs d)\<rparr>"
    using NormalizePlayerOrders_result [OF SessionPlayerRaces_distinct [OF ids] ids _ assms(2)]
    by (auto simp: SessionPlayerRaces_rows)
  have other: "SessionPlayerRaces other d' = SessionPlayerRaces other d" if "other \<noteq> sid" for other
  proof -
    have "reorder_row (new_order 0 ?ps) r = r"
      if r: "r \<in> set (sprs d)" "P_SessionID r = other" for r
    proof -
      have "P_ID r \<notin> P_ID ` set ?ps"
        using r \<open>other \<noteq> sid\<close> ids distinct_key_eq by (fastforce simp: SessionPlayerRaces_rows)
      then have "new_order 0 ?ps (P_ID r) = None" by (simp add: new_order_None)
      then show ?thesis by (simp add: reorder_row_def)
    qed
    then have "map (reorder_row (new_order 0 ?ps)) (sql_select (\<lambda>r. P_SessionID r = other) (sprs d)) =
      sql_select (\<lambda>r. P_SessionID r = other) (sprs d)"
      by (intro map_idI) simp
    then show ?thesis by (simp add: SessionPlayerRaces_def res(2) select_map_rows)
  qed
  show ?thesis
    using SessionPlayerRaces_normalized [OF ids assms(2)] other
    by (simp add: res(1) renumber_orders renumber_keeps)
qed


text \<open>
  \<^bold>\<open>C6\<close>: \<open>NormalizePlayerOrders\<close> succeeds on the players of a session, up to the sixteen that the
  schema allows. Afterwards the players of the session are the same ones in the same sequence, their
  orders are exactly \<open>0, ..., n-1\<close>, the returned slice is what the database now holds, and the
  players of the other sessions are untouched.
\<close>

theorem NormalizePlayerOrders_contiguous:
  assumes "db_ok d" "length (SessionPlayerRaces sid d) \<le> 16"
  shows "\<exists>qs d'. NormalizePlayerOrders (SessionPlayerRaces sid d) d = Inr (qs, d') \<and>
    SessionPlayerRaces sid d' = qs \<and>
    map P_PlayerOrder qs = [0..int (length qs) - 1] \<and>
    map P_ID qs = map P_ID (SessionPlayerRaces sid d) \<and>
    (\<forall>other. other \<noteq> sid \<longrightarrow> SessionPlayerRaces other d' = SessionPlayerRaces other d)"
proof -
  have "\<forall>r \<in> set (sprs d). spr_check r" using assms(1) by (simp add: db_ok_def checks_ok_def)
  then obtain qs d' where "NormalizePlayerOrders (SessionPlayerRaces sid d) d = Inr (qs, d')"
    using NormalizePlayerOrders_total assms(2) by blast
  then show ?thesis using NormalizePlayerOrders_parts [OF assms(1)] by blast
qed

lemma example_db_players:
  "SessionPlayerRaces ''s'' (example_db st priv) = [example_player ''a'' ''u'' 3, example_player ''b'' ''v'' 7]"
  by code_simp

theorem NormalizePlayerOrders_contiguous_witness:
  "\<exists>qs d'. NormalizePlayerOrders (SessionPlayerRaces ''s'' (example_db Pending False)) (example_db Pending False) = Inr (qs, d') \<and>
    map P_PlayerOrder qs = [0..int (length qs) - 1] \<and> map P_ID qs = [''a'', ''b'']"
  using NormalizePlayerOrders_contiguous [OF example_db_ok [of Pending False], of "''s''"]
  by (auto simp: example_db_players example_player_def)

subsection \<open>ValidatePlayerOrder\<close>

text \<open>\<open>models.PlayerOrder\<close>, and \<open>%d\<close> of \<open>fmt.Sprintf\<close> on a non-negative number.\<close>

record PlayerOrderReq =
  PO_UserProfileID :: id
  PO_PlayerOrder :: int

fun decimal :: "nat \<Rightarrow> string" where
  "decimal n = (if n < 10 then [char_of (48 + n)] else decimal (n div 10) @ [char_of (48 + n mod 10)])"

declare decimal.simps [simp del]

fun collect_orders :: "int \<Rightarrow> int set \<Rightarrow> PlayerOrderReq list \<Rightarrow> err + int set" where
  "collect_orders n orders [] = Inr orders"
| "collect_orders n orders (p # ps) =
    (if PO_PlayerOrder p < 0 then Inl (ErrInvalidSomething ''player order must be non-negative'')
     else if n \<le> PO_PlayerOrder p
       then Inl (ErrInvalidSomething ''player order must be less than the number of players'')
     else if PO_PlayerOrder p \<in> orders then Inl (ErrInvalidSomething ''duplicate player order'')
     else collect_orders n (insert (PO_PlayerOrder p) orders) ps)"

definition missing_order :: "int \<Rightarrow> err" where
  "missing_order i = ErrInvalidSomething (''player order has gaps: missing order '' @ decimal (nat i))"

definition ValidatePlayerOrder :: "PlayerOrderReq list \<Rightarrow> err + unit" where
  "ValidatePlayerOrder ps =
    (if ps = [] then Inr ()
     else case collect_orders (int (length ps)) {} ps of
       Inl e \<Rightarrow> Inl e
     | Inr orders \<Rightarrow>
         (case List.find (\<lambda>i. i \<notin> orders) [0..int (length ps) - 1] of
            Some i \<Rightarrow> Inl (missing_order i)
          | None \<Rightarrow> Inr ()))"

lemma collect_orders_Inr:
  "collect_orders n orders ps = Inr res \<longleftrightarrow>
    distinct (map PO_PlayerOrder ps) \<and> PO_PlayerOrder ` set ps \<subseteq> {0..<n} \<and>
    PO_PlayerOrder ` set ps \<inter> orders = {} \<and> res = orders \<union> PO_PlayerOrder ` set ps"
  by (induction ps arbitrary: orders) auto

text \<open>Orders that pass the loop are all of \<open>0, ..., n-1\<close>, so the search for a gap finds none.\<close>

lemma distinct_orders_full:
  assumes "distinct (map PO_PlayerOrder ps)" "PO_PlayerOrder ` set ps \<subseteq> {0..<int (length ps)}"
  shows "PO_PlayerOrder ` set ps = {0..<int (length ps)}"
proof (rule card_subset_eq)
  have "card (PO_PlayerOrder ` set ps) = length ps"
    using distinct_card [OF assms(1)] by simp
  then show "card (PO_PlayerOrder ` set ps) = card {0..<int (length ps)}" by simp
qed (use assms in auto)

lemma ValidatePlayerOrder_cases:
  "ValidatePlayerOrder ps =
    (case collect_orders (int (length ps)) {} ps of Inl e \<Rightarrow> Inl e | Inr _ \<Rightarrow> Inr ())"
proof (cases "collect_orders (int (length ps)) {} ps")
  case (Inr orders)
  then have "orders = {0..<int (length ps)}"
    using distinct_orders_full by (auto simp: collect_orders_Inr)
  then have "List.find (\<lambda>i. i \<notin> orders) [0..int (length ps) - 1] = None"
    by (auto simp: find_None_iff)
  then show ?thesis using Inr by (simp add: ValidatePlayerOrder_def)
qed (auto simp: ValidatePlayerOrder_def)

lemma mset_upto_iff: "mset xs = mset [0..n - 1] \<longleftrightarrow> distinct xs \<and> set xs = {0..<n}" for n :: int
proof -
  have "set [0..n - 1] = {0..<n}" by auto
  then show ?thesis
    by (metis distinct_upto mset_eq_imp_distinct_iff set_eq_iff_mset_eq_distinct mset_eq_setD)
qed

lemma collect_orders_Inl:
  "collect_orders n orders ps = Inl e \<Longrightarrow> errors_Is e ErrInvalid \<and> e \<noteq> missing_order i"
  by (induction ps arbitrary: orders) (auto simp: errors_Is_def missing_order_def split: if_splits)

text \<open>
  \<^bold>\<open>C7\<close>: \<open>ValidatePlayerOrder\<close> accepts a list of player orders exactly when it is a
  permutation of \<open>0, ..., n-1\<close>; every refusal is a bad request, and the final search for a gap
  never is the reason.
\<close>

theorem ValidatePlayerOrder_permutation:
  "case ValidatePlayerOrder ps of
     Inr _ \<Rightarrow> mset (map PO_PlayerOrder ps) = mset [0..int (length ps) - 1]
   | Inl e \<Rightarrow> mset (map PO_PlayerOrder ps) \<noteq> mset [0..int (length ps) - 1] \<and>
       errors_Is e ErrInvalid \<and> (\<forall>i. e \<noteq> missing_order i)"
proof (cases "collect_orders (int (length ps)) {} ps")
  case (Inl e)
  have "\<not> (distinct (map PO_PlayerOrder ps) \<and> set (map PO_PlayerOrder ps) = {0..<int (length ps)})"
    using Inl collect_orders_Inr [of "int (length ps)" "{}" ps] by fastforce
  then show ?thesis
    using Inl collect_orders_Inl by (auto simp: ValidatePlayerOrder_cases mset_upto_iff simp del: mset_map)
next
  case (Inr orders)
  then have "distinct (map PO_PlayerOrder ps) \<and> set (map PO_PlayerOrder ps) = {0..<int (length ps)}"
    using distinct_orders_full by (auto simp: collect_orders_Inr)
  then show ?thesis using Inr by (simp add: ValidatePlayerOrder_cases mset_upto_iff del: mset_map)
qed

end
