(* ===== verification/GameFiles.thy ===== *)
theory GameFiles
  imports Base64 PlayerOrder
begin

section \<open>Game files and the game definition\<close>

text \<open>
  \<open>lib/stars/gamefiles.go\<close>, \<open>lib/stars/gameinput.go\<close>, \<open>models/session_files_db.go\<close> and
  \<open>lib/racefiles/processor.go\<close>: the binary files of one turn, their form in the database, the
  definition file from which Stars! creates a game, and the treatment of race files. The houston
  library, which reads the formats of Stars!, is the parameter \<open>houston\<close>.
\<close>

subsection \<open>The parameter: houston\<close>

text \<open>
  \<open>FileData(b).FileHeader()\<close> gives the year, the player index and the submitted flag of a turn or
  order file; \<open>AnalyzeRaceFileBytes\<close> gives \<open>NeedsRepair\<close> and \<open>HasPassword\<close>;
  \<open>RepairRaceFileBytes\<close> gives the repaired data and \<open>Success\<close>; \<open>RemoveRacePasswordBytes\<close>
  gives the cleaned data, \<open>Success\<close> and \<open>PasswordRemoved\<close>; \<open>ValidateRaceData\<close> gives the
  messages of its validation errors; \<open>BlockList\<close> gives the blocks of a race file. Of a block only
  its kind matters here: a player block with its validity and its two names, a block that announces
  itself as a player block and is none, or another one.
\<close>

datatype block = PlayerBlock bool string string | NotAPlayerBlock | OtherBlock

record file_header =
  Year :: int
  PlayerIndex :: int
  TurnSubmitted :: bool

record houston =
  FileHeader :: "bytes \<Rightarrow> err + file_header"
  AnalyzeRaceFileBytes :: "bytes \<Rightarrow> err + bool \<times> bool"
  RepairRaceFileBytes :: "bytes \<Rightarrow> err + bytes \<times> bool"
  RemoveRacePasswordBytes :: "bytes \<Rightarrow> err + bytes \<times> bool \<times> bool"
  ValidateRaceData :: "bytes \<Rightarrow> string list"
  BlockList :: "bytes \<Rightarrow> err + block list"

subsection \<open>Game files\<close>

record GameFiles =
  G_Universe :: bytes
  G_HostFile :: bytes
  G_Turns :: "bytes list"
  G_Orders :: "bytes list"

fun TurnListToBytes :: "string list \<Rightarrow> err + bytes list" where
  "TurnListToBytes [] = Inr []"
| "TurnListToBytes (t # ts) = and_then (B64Decode t) (\<lambda>turn.
     and_then (TurnListToBytes ts) (\<lambda>res. Inr (turn # res)))"

fun OrderListToBytes :: "string list \<Rightarrow> err + bytes list" where
  "OrderListToBytes [] = Inr []"
| "OrderListToBytes (t # ts) = and_then (B64Decode t) (\<lambda>order.
     and_then (OrderListToBytes ts) (\<lambda>res. Inr (order # res)))"

definition NewGameFilesFromSessionFiles :: "SessionFilesDB \<Rightarrow> err + GameFiles" where
  "NewGameFilesFromSessionFiles s =
    and_then (B64Decode (F_Universe s)) (\<lambda>universe.
    and_then (B64Decode (F_HostFile s)) (\<lambda>hostfile.
    and_then (TurnListToBytes (F_Turns s)) (\<lambda>turns.
    and_then (OrderListToBytes (F_Orders s)) (\<lambda>orders.
    Inr \<lparr>G_Universe = universe, G_HostFile = hostfile, G_Turns = turns, G_Orders = orders\<rparr>))))"

definition HydrateSessionFiles :: "houston \<Rightarrow> GameFiles \<Rightarrow> SessionFilesDB \<Rightarrow> err + SessionFilesDB" where
  "HydrateSessionFiles hs g s =
    and_then (FileHeader hs (G_HostFile g)) (\<lambda>header.
    Inr (s\<lparr>F_Year := Year header, F_Universe := B64Encode (G_Universe g),
      F_HostFile := B64Encode (G_HostFile g), F_Turns := map B64Encode (G_Turns g),
      F_Orders := map B64Encode (G_Orders g)\<rparr>))"

text \<open>The zero value of \<open>models.SessionFilesDB\<close>.\<close>

definition empty_session_files :: SessionFilesDB where
  "empty_session_files = \<lparr>F_ID = '''', F_SessionID = '''', F_Year = 0, F_Universe = '''',
     F_HostFile = '''', F_Turns = [], F_Orders = []\<rparr>"

text \<open>\<open>ReadyPlayers\<close>: one flag per slot of \<open>Orders\<close>.\<close>

definition ReadyPlayers :: "SessionFilesDB \<Rightarrow> bool list" where
  "ReadyPlayers s = map (\<lambda>order. order \<noteq> '''') (F_Orders s)"

record TurnFiles =
  TF_SessionID :: id
  TF_Year :: int
  TF_Universe :: string
  TF_Turn :: string

text \<open>Reading a slice: an index out of range panics.\<close>

definition slice_get :: "'a list \<Rightarrow> int \<Rightarrow> err + 'a" where
  "slice_get xs i = (if 0 \<le> i \<and> i < int (length xs) then Inr (xs ! nat i) else Inl Panic)"

definition ToTurnFiles :: "SessionFilesDB \<Rightarrow> int \<Rightarrow> err + TurnFiles" where
  "ToTurnFiles s playerOrder =
    and_then (slice_get (F_Turns s) playerOrder) (\<lambda>turn.
    Inr \<lparr>TF_SessionID = F_SessionID s, TF_Year = F_Year s, TF_Universe = F_Universe s, TF_Turn = turn\<rparr>)"

subsection \<open>The game definition\<close>

definition decimal_int :: "int \<Rightarrow> string" where
  "decimal_int i = (if i < 0 then ''-'' @ decimal (nat (- i)) else decimal (nat i))"

definition windowsSep :: string where
  "windowsSep = [CHR 0x5C]"

definition saveDirDriveLetter :: string where
  "saveDirDriveLetter = ''s:''"

definition universeBaseFilename :: string where
  "universeBaseFilename = ''game.xy''"

definition hostBaseFilename :: string where
  "hostBaseFilename = ''game.hst''"

definition turnBaseFilename :: string where
  "turnBaseFilename = ''game.m''"

definition orderBaseFilename :: string where
  "orderBaseFilename = ''game.x''"

record GameInput =
  GI_BaseDir :: string
  GI_SessionID :: id
  GI_SessionName :: string
  GI_NumberOfPlayers :: int
  GI_RuleSet :: Ruleset
  GI_Players :: "SessionPlayerRaceDB list"
  GI_Races :: "string list"
  GI_UniverseFilename :: string

definition gameDir :: "string \<Rightarrow> id \<Rightarrow> string" where
  "gameDir baseDir sid = baseDir @ windowsSep @ sid"

definition gameFile :: "string \<Rightarrow> id \<Rightarrow> string \<Rightarrow> string" where
  "gameFile baseDir sid fn = gameDir baseDir sid @ windowsSep @ fn"

text \<open>The bot level is a pointer: dereferencing \<open>nil\<close> panics.\<close>

definition botLine :: "SessionPlayerRaceDB \<Rightarrow> err + string" where
  "botLine pr = (case P_BotLevel pr of
     None \<Rightarrow> Inl Panic
   | Some level \<Rightarrow> Inr (''# '' @ P_RaceID pr @ '' '' @ decimal_int level))"

definition raceFilename :: "int \<Rightarrow> string" where
  "raceFilename playerOrder = ''game.r'' @ decimal_int (playerOrder + 1)"

definition playerLine :: "string \<Rightarrow> id \<Rightarrow> SessionPlayerRaceDB \<Rightarrow> string" where
  "playerLine baseDir sid pr = gameFile baseDir sid (raceFilename (P_PlayerOrder pr))"

fun computeRaces :: "string \<Rightarrow> id \<Rightarrow> SessionPlayerRaceDB list \<Rightarrow> err + string list" where
  "computeRaces baseDir sid [] = Inr []"
| "computeRaces baseDir sid (p # ps) =
    and_then (if P_IsBot p then botLine p else Inr (playerLine baseDir sid p)) (\<lambda>line.
    and_then (computeRaces baseDir sid ps) (\<lambda>lines. Inr (line # lines)))"

definition NewGameInput ::
    "id \<Rightarrow> string \<Rightarrow> Ruleset \<Rightarrow> SessionPlayerRaceDB list \<Rightarrow> err + GameInput" where
  "NewGameInput sid sessionName r ps =
    and_then (computeRaces saveDirDriveLetter sid ps) (\<lambda>lines.
    Inr \<lparr>GI_BaseDir = saveDirDriveLetter, GI_SessionID = sid, GI_SessionName = sessionName,
      GI_NumberOfPlayers = int (length ps), GI_RuleSet = r, GI_Players = ps, GI_Races = lines,
      GI_UniverseFilename = gameFile saveDirDriveLetter sid universeBaseFilename\<rparr>)"

text \<open>
  \<open>Content\<close>: the template \<open>resources/gameinput.tmpl\<close>. A \<open>with\<close> on an integer prints it after a
  space unless it is zero.
\<close>

definition starsbool :: "bool \<Rightarrow> string" where
  "starsbool b = (if b then ''1'' else ''0'')"

definition with_int :: "int \<Rightarrow> string" where
  "with_int v = (if v = 0 then [] else '' '' @ decimal_int v)"

definition newline :: string where
  "newline = [CHR 0x0A]"

fun spaced :: "string list \<Rightarrow> string" where
  "spaced [] = []"
| "spaced [w] = w"
| "spaced (w # v # ws) = w @ '' '' @ spaced (v # ws)"

definition definition_lines :: "GameInput \<Rightarrow> string list" where
  "definition_lines g = (let r = GI_RuleSet g in
    [GI_SessionName g,
     spaced [decimal_int (UniverseSize r), decimal_int (Density r), decimal_int (StartingDistance r)]
       @ with_int (RandomSeed r),
     spaced (map starsbool [MaximumMinerals r, SlowerTechAdvances r, AcceleratedBbsPlay r,
       NoRandomEvents r, ComputerPlayersFormAlliances r, PublicPlayerScores r, GalaxyClumping r]),
     decimal_int (GI_NumberOfPlayers g)]
    @ GI_Races g @
    [starsbool (VcOwnsPercentOfPlanets r) @ with_int (VcOwnsPercentOfPlanetsValue r),
     starsbool (VcAttainTech r) @ with_int (VcAttainTechTechValue r) @ with_int (VcAttainTechFieldsValue r),
     starsbool (VcExceedScore r) @ with_int (VcExceedScoreValue r),
     starsbool (VcExceedNextPlayerScore r) @ with_int (VcExceedNextPlayerScoreValue r),
     starsbool (VcHasProductionCapacity r) @ with_int (VcHasProductionCapacityValue r),
     starsbool (VcOwnsCapitalShips r) @ with_int (VcOwnsCapitalShipsValue r),
     starsbool (VcHaveHighestScore r) @ with_int (VcHaveHighestScoreValue r),
     spaced [decimal_int (VcWinnerMustMeet r), decimal_int (VcAtLeastxYears r)]])"

definition Content :: "GameInput \<Rightarrow> string" where
  "Content g = concat (map (\<lambda>line. line @ newline) (definition_lines g)) @ GI_UniverseFilename g"

subsection \<open>Race files\<close>

record ProcessorOptions =
  StripPassword :: bool
  FixCorrupted :: bool

record Analysis =
  NeedsRepair :: bool
  WasRepaired :: bool
  RepairError :: string
  HasPassword :: bool
  PasswordStripped :: bool

definition repair_step :: "houston \<Rightarrow> ProcessorOptions \<Rightarrow> bytes \<Rightarrow> Analysis \<Rightarrow> bytes \<times> Analysis" where
  "repair_step hs opts data analysis =
    (case AnalyzeRaceFileBytes hs data of
       Inl e \<Rightarrow> (data, analysis)
     | Inr (needsRepair, hasPassword) \<Rightarrow>
        let a = analysis\<lparr>NeedsRepair := needsRepair, HasPassword := hasPassword\<rparr> in
        if needsRepair \<and> FixCorrupted opts then
          (case RepairRaceFileBytes hs data of
             Inl e \<Rightarrow> (data, a\<lparr>RepairError := Error_msg e\<rparr>)
           | Inr (repaired, success) \<Rightarrow>
              if success then (repaired, a\<lparr>WasRepaired := True\<rparr>)
              else (data, a\<lparr>RepairError := ''repair was not successful''\<rparr>))
        else (data, a))"

definition strip_step :: "houston \<Rightarrow> ProcessorOptions \<Rightarrow> bytes \<times> Analysis \<Rightarrow> bytes \<times> Analysis" where
  "strip_step hs opts ra = (case ra of (result, analysis) \<Rightarrow>
    if StripPassword opts then
      (case RemoveRacePasswordBytes hs result of
         Inl e \<Rightarrow> (result, analysis)
       | Inr (cleaned, success, removed) \<Rightarrow>
          if success \<and> removed then (cleaned, analysis\<lparr>PasswordStripped := True\<rparr>)
          else (result, analysis))
    else (result, analysis))"

definition ProcessData :: "houston \<Rightarrow> bytes \<Rightarrow> ProcessorOptions \<Rightarrow> bytes \<times> Analysis" where
  "ProcessData hs data opts =
    strip_step hs opts (repair_step hs opts data
      \<lparr>NeedsRepair = False, WasRepaired = False, RepairError = '''', HasPassword = False,
       PasswordStripped = False\<rparr>)"

subsection \<open>The database holds the game files unchanged\<close>

lemma B64Decode_Encode [simp]: "B64Decode (B64Encode bs) = Inr bs"
  by (simp add: B64Decode_def B64Encode_def base64_round_trip)

lemma lists_round_trip [simp]:
  "TurnListToBytes (map B64Encode ts) = Inr ts"
  "OrderListToBytes (map B64Encode ts) = Inr ts"
  by (induction ts) simp_all

lemma B64Encode_empty [simp]: "B64Encode bs = [] \<longleftrightarrow> bs = []"
  by (cases bs rule: base64_Encode.cases) (simp_all add: B64Encode_def)

text \<open>
  \<^bold>\<open>C20\<close> The row that \<open>HydrateSessionFiles\<close> fills holds the game files: converting it
  back gives the same universe, host file, turns and orders, in the same slots. The year is the one
  in the header of the host file, id and session of the row are untouched, and a slot of the orders
  counts as ready exactly when its file is not empty.
\<close>

theorem HydrateSessionFiles_round_trip:
  assumes "HydrateSessionFiles hs g s = Inr s'"
  shows "NewGameFilesFromSessionFiles s' = Inr g \<and>
    map_sum id Year (FileHeader hs (G_HostFile g)) = Inr (F_Year s') \<and>
    F_ID s' = F_ID s \<and> F_SessionID s' = F_SessionID s \<and>
    ReadyPlayers s' = map (\<lambda>order. order \<noteq> []) (G_Orders g)"
  using assms
  by (auto simp: HydrateSessionFiles_def NewGameFilesFromSessionFiles_def and_then_eq_Inr ReadyPlayers_def)

definition example_houston :: houston where
  "example_houston = \<lparr>
     FileHeader = (\<lambda>b. case b of y # i # _ \<Rightarrow>
         Inr \<lparr>Year = 2400 + int (unat y), PlayerIndex = int (unat i), TurnSubmitted = True\<rparr>
       | _ \<Rightarrow> Inl (OtherErr ''short file'')),
     AnalyzeRaceFileBytes = (\<lambda>b. Inr (b = [], False)),
     RepairRaceFileBytes = (\<lambda>b. Inr ([1], True)),
     RemoveRacePasswordBytes = (\<lambda>b. Inr (b, True, False)),
     ValidateRaceData = (\<lambda>b. []),
     BlockList = (\<lambda>b. Inr [OtherBlock, PlayerBlock True ''Hobbits'' ''Hobbit''])\<rparr>"

theorem HydrateSessionFiles_round_trip_witness:
  "let g = \<lparr>G_Universe = [1, 2, 3, 4], G_HostFile = [7, 0, 255], G_Turns = [[5], []], G_Orders = [[], [9]]\<rparr> in
   case HydrateSessionFiles example_houston g empty_session_files of
     Inl e \<Rightarrow> False
   | Inr s' \<Rightarrow> NewGameFilesFromSessionFiles s' = Inr g \<and> F_Year s' = 2407"
proof -
  let ?g = "\<lparr>G_Universe = [1, 2, 3, 4], G_HostFile = [7, 0, 255], G_Turns = [[5], []], G_Orders = [[], [9]]\<rparr>"
  have h: "FileHeader example_houston (G_HostFile ?g) =
      Inr \<lparr>Year = 2407, PlayerIndex = 0, TurnSubmitted = True\<rparr>"
    by (simp add: example_houston_def)
  obtain s' where s': "HydrateSessionFiles example_houston ?g empty_session_files = Inr s'"
    unfolding HydrateSessionFiles_def h by simp
  show ?thesis
    using HydrateSessionFiles_round_trip [OF s', unfolded h] by (simp add: s' Let_def)
qed

subsection \<open>The game definition\<close>

text \<open>
  The fixture of \<open>gameinput_test.go\<close>: two human players and a bot. The model prints the file that
  the test expects.
\<close>

definition shire_players :: "SessionPlayerRaceDB list" where
  "shire_players = [
     \<lparr>P_ID = ''spr1'', P_SessionID = ''shireID'', P_UserProfileID = ''merryID'', P_RaceID = ''hobbitsID'',
      P_IsBot = False, P_BotLevel = None, P_PlayerOrder = 0, P_Ready = False, P_AIControlType = None\<rparr>,
     \<lparr>P_ID = ''spr2'', P_SessionID = ''shireID'', P_UserProfileID = ''gollumID'', P_RaceID = ''halflingsID'',
      P_IsBot = False, P_BotLevel = None, P_PlayerOrder = 1, P_Ready = False, P_AIControlType = None\<rparr>,
     \<lparr>P_ID = ''1'', P_SessionID = ''shireID'', P_UserProfileID = ''system'', P_RaceID = ''1'',
      P_IsBot = True, P_BotLevel = Some 1, P_PlayerOrder = 2, P_Ready = False, P_AIControlType = None\<rparr>]"

lemma Content_of_the_shire:
  "map_sum id Content (NewGameInput ''shireID'' ''The Shire'' shire_ruleset shire_players) = Inr
    (concat (map (\<lambda>line. line @ newline)
       [''The Shire'', ''2 2 2'', ''0 0 0 0 0 0 0'', ''3'',
        ''s:'' @ windowsSep @ ''shireID'' @ windowsSep @ ''game.r1'',
        ''s:'' @ windowsSep @ ''shireID'' @ windowsSep @ ''game.r2'',
        ''# 1 1'', ''0'', ''1 26 4'', ''0'', ''0'', ''0'', ''0'', ''0'', ''1 100''])
     @ ''s:'' @ windowsSep @ ''shireID'' @ windowsSep @ ''game.xy'')"
  by code_simp

text \<open>Each player has one line, in the given sequence.\<close>

lemma computeRaces_nth:
  "computeRaces b sid ps = Inr lines \<Longrightarrow> length lines = length ps \<and>
   (\<forall>i < length ps. (if P_IsBot (ps ! i) then botLine (ps ! i) else Inr (playerLine b sid (ps ! i)))
      = Inr (lines ! i))"
proof (induction ps arbitrary: lines)
  case (Cons p ps)
  then obtain line rest where *: "(if P_IsBot p then botLine p else Inr (playerLine b sid p)) = Inr line"
    "computeRaces b sid ps = Inr rest" "lines = line # rest"
    by (auto simp: and_then_eq_Inr)
  show ?case using Cons.IH [OF *(2)] *(1,3) by (auto simp: nth_Cons split: nat.split)
qed simp

lemma computeRaces_total:
  "\<forall>p \<in> set ps. P_IsBot p \<longrightarrow> P_BotLevel p \<noteq> None \<Longrightarrow> \<exists>lines. computeRaces b sid ps = Inr lines"
proof (induction ps)
  case (Cons p ps)
  then show ?case by (cases "P_BotLevel p") (auto simp: botLine_def)
qed simp

subsection \<open>Race files\<close>

text \<open>
  \<open>ProcessData\<close> changes a race file only as far as the options ask for it. A repaired file is what
  \<open>RepairRaceFileBytes\<close> made of a file in need of repair, a stripped file is what
  \<open>RemoveRacePasswordBytes\<close> made of the (repaired) file; the analysis says truly which of the two
  happened, and with neither of the two the data is returned as it came.
\<close>

lemma ProcessData_only_what_was_asked:
  "case ProcessData hs data opts of (result, a) \<Rightarrow>
    (WasRepaired a \<longrightarrow> FixCorrupted opts \<and> NeedsRepair a \<and> RepairError a = '''') \<and>
    (PasswordStripped a \<longrightarrow> StripPassword opts) \<and>
    (\<not> WasRepaired a \<and> \<not> PasswordStripped a \<longrightarrow> result = data) \<and>
    (WasRepaired a \<and> \<not> PasswordStripped a \<longrightarrow> RepairRaceFileBytes hs data = Inr (result, True)) \<and>
    (\<not> WasRepaired a \<and> PasswordStripped a \<longrightarrow> RemoveRacePasswordBytes hs data = Inr (result, True, True)) \<and>
    (WasRepaired a \<and> PasswordStripped a \<longrightarrow> (\<exists>repaired. RepairRaceFileBytes hs data = Inr (repaired, True) \<and>
       RemoveRacePasswordBytes hs repaired = Inr (result, True, True)))"
  by (auto simp: ProcessData_def repair_step_def strip_step_def Let_def
      split: sum.splits prod.splits if_splits)

end
