(* ===== verification/Runner.thy ===== *)
theory Runner
  imports GameFiles
begin

section \<open>Running Stars!\<close>

text \<open>
  \<open>lib/stars/newgame.go\<close>, the \<open>GenTurn\<close> part of \<open>newturn.go\<close> and \<open>CleanupSessionDir\<close> of
  \<open>runner.go\<close>: the files of a session are laid out in its save directory, the Windows program
  is run on them under wine, and the files of the next turn are read back. The state is the save
  directory: one directory per session id, or none, each a map from file names to contents. The run
  of the program is the parameter \<open>wine\<close>: its arguments and the save directory before give an error
  or none, and the save directory after. A file is opened with \<open>O_RDWR|O_CREATE\<close>, so writing to
  it replaces its beginning and leaves the rest. Failures of the file system itself (a full disk, a
  missing permission) are left out; a directory or file that is missing is an error.
\<close>

subsection \<open>The save directory\<close>

type_synonym dir = "string \<rightharpoonup> bytes"

type_synonym fs = "id \<rightharpoonup> dir"

type_synonym 'a io = "fs \<Rightarrow> (err + 'a) \<times> fs"

type_synonym wine = "string list \<Rightarrow> fs \<Rightarrow> err option \<times> fs"

definition io_return :: "'a \<Rightarrow> 'a io" where
  "io_return x f = (Inr x, f)"

definition io_lift :: "err + 'a \<Rightarrow> 'a io" where
  "io_lift r f = (r, f)"

definition io_then :: "'a io \<Rightarrow> ('a \<Rightarrow> 'b io) \<Rightarrow> 'b io" where
  "io_then m k f = (case m f of (Inl e, f1) \<Rightarrow> (Inl e, f1) | (Inr x, f1) \<Rightarrow> k x f1)"

lemma io_then_Inr:
  "io_then m k f = (Inr y, f2) \<longleftrightarrow> (\<exists>x f1. m f = (Inr x, f1) \<and> k x f1 = (Inr y, f2))"
  by (auto simp: io_then_def split: prod.splits sum.splits)

lemma io_simps [simp]:
  "io_return x f = (Inr y, f1) \<longleftrightarrow> y = x \<and> f1 = f"
  "io_lift r f = (Inr y, f1) \<longleftrightarrow> r = Inr y \<and> f1 = f"
  by (auto simp: io_return_def io_lift_def)

definition ErrNotExist :: err where
  "ErrNotExist = OtherErr ''no such file or directory''"

definition MkdirAll :: "id \<Rightarrow> unit io" where
  "MkdirAll sid f = (Inr (), case f sid of None \<Rightarrow> f(sid \<mapsto> Map.empty) | Some m \<Rightarrow> f)"

text \<open>Writing from the start of a file that is not truncated.\<close>

definition overwrite :: "bytes \<Rightarrow> bytes \<Rightarrow> bytes" where
  "overwrite content old = content @ drop (length content) old"

definition WriteFile :: "id \<Rightarrow> string \<Rightarrow> bytes \<Rightarrow> unit io" where
  "WriteFile sid name content f = (case f sid of
     None \<Rightarrow> (Inl ErrNotExist, f)
   | Some m \<Rightarrow> (Inr (), f(sid \<mapsto> m(name \<mapsto> overwrite content (case m name of None \<Rightarrow> [] | Some old \<Rightarrow> old)))))"

definition ReadFile :: "id \<Rightarrow> string \<Rightarrow> bytes io" where
  "ReadFile sid name f = (case f sid of
     None \<Rightarrow> (Inl ErrNotExist, f)
   | Some m \<Rightarrow> (case m name of None \<Rightarrow> (Inl ErrNotExist, f) | Some content \<Rightarrow> (Inr content, f)))"

definition CleanupSessionDir :: "bool \<Rightarrow> id \<Rightarrow> unit io" where
  "CleanupSessionDir preserveSaveFiles sid f = (Inr (), if preserveSaveFiles then f else f(sid := None))"

subsection \<open>Reading the files of a turn\<close>

definition turnFilename :: "int \<Rightarrow> string" where
  "turnFilename playerOrder = turnBaseFilename @ decimal_int (playerOrder + 1)"

definition readPlayerTurn :: "id \<Rightarrow> SessionPlayerRaceDB \<Rightarrow> bytes io" where
  "readPlayerTurn sid player = ReadFile sid (turnFilename (P_PlayerOrder player))"

fun max_order :: "int \<Rightarrow> SessionPlayerRaceDB list \<Rightarrow> int" where
  "max_order m [] = m"
| "max_order m (p # ps) = max_order (if P_PlayerOrder p > m then P_PlayerOrder p else m) ps"

text \<open>Assigning to an index out of range of the slice panics.\<close>

definition slice_set :: "'a list \<Rightarrow> int \<Rightarrow> 'a \<Rightarrow> err + 'a list" where
  "slice_set xs i x = (if 0 \<le> i \<and> i < int (length xs) then Inr (xs[nat i := x]) else Inl Panic)"

fun collect_turns :: "id \<Rightarrow> SessionPlayerRaceDB list \<Rightarrow> bytes list \<Rightarrow> bytes list io" where
  "collect_turns sid [] turns = io_return turns"
| "collect_turns sid (p # ps) turns =
    io_then (readPlayerTurn sid p) (\<lambda>content.
    io_then (io_lift (slice_set turns (P_PlayerOrder p) content)) (\<lambda>turns1.
    collect_turns sid ps turns1))"

definition gameFilesForTurn :: "id \<Rightarrow> SessionPlayerRaceDB list \<Rightarrow> GameFiles io" where
  "gameFilesForTurn sid players =
    io_then (ReadFile sid universeBaseFilename) (\<lambda>universe.
    io_then (ReadFile sid hostBaseFilename) (\<lambda>host.
    io_then (collect_turns sid players (replicate (nat (max_order 0 players + 1)) [])) (\<lambda>turns.
    io_return \<lparr>G_Universe = universe, G_HostFile = host, G_Turns = turns, G_Orders = []\<rparr>)))"

subsection \<open>NewGame\<close>

fun newRaceFiles :: "SessionPlayerRaceDB list \<Rightarrow> RaceDB list \<Rightarrow> err + (int \<times> bytes) list" where
  "newRaceFiles [] rs = Inr []"
| "newRaceFiles (p # ps) rs =
    (if P_IsBot p then newRaceFiles ps rs
     else (case sql_first (\<lambda>r. Ra_ID r = P_RaceID p) rs of
       None \<Rightarrow> Inl (OtherErr ''player race not found'')
     | Some r \<Rightarrow> and_then (RawData r) (\<lambda>data.
         and_then (newRaceFiles ps rs) (\<lambda>rf. Inr ((P_PlayerOrder p, data) # rf)))))"

definition saveRaceFile :: "houston \<Rightarrow> ProcessorOptions \<Rightarrow> id \<Rightarrow> int \<times> bytes \<Rightarrow> unit io" where
  "saveRaceFile hs opts sid rf =
    WriteFile sid (raceFilename (fst rf)) (fst (ProcessData hs (snd rf) opts))"

fun saveRaceFilesToSessionDir ::
    "houston \<Rightarrow> ProcessorOptions \<Rightarrow> id \<Rightarrow> (int \<times> bytes) list \<Rightarrow> unit io" where
  "saveRaceFilesToSessionDir hs opts sid [] = io_return ()"
| "saveRaceFilesToSessionDir hs opts sid (rf # rfs) =
    io_then (saveRaceFile hs opts sid rf) (\<lambda>_. saveRaceFilesToSessionDir hs opts sid rfs)"

definition wSessionSaveDir :: "id \<Rightarrow> string" where
  "wSessionSaveDir sid = saveDirDriveLetter @ windowsSep @ sid"

fun wPathJoin :: "string list \<Rightarrow> string" where
  "wPathJoin [] = []"
| "wPathJoin [s] = s"
| "wPathJoin (s # t # ss) = s @ windowsSep @ wPathJoin (t # ss)"

definition wStarsExecutablePath :: string where
  "wStarsExecutablePath = wPathJoin [''x:'', ''stars.exe'']"

definition gameDefName :: string where
  "gameDefName = ''game.def''"

definition RunWine :: "wine \<Rightarrow> string list \<Rightarrow> unit io" where
  "RunWine wine args f = (case wine args f of
     (None, f1) \<Rightarrow> (Inr (), f1) | (Some e, f1) \<Rightarrow> (Inl e, f1))"

definition bytes_of :: "string \<Rightarrow> bytes" where
  "bytes_of s = map of_char s"

definition newGame :: "wine \<Rightarrow> id \<Rightarrow> string \<Rightarrow> unit io" where
  "newGame wine sid content =
    io_then (WriteFile sid gameDefName (bytes_of content)) (\<lambda>_.
    RunWine wine [wStarsExecutablePath, ''-a'', wPathJoin [wSessionSaveDir sid, gameDefName]])"

definition NewGame :: "houston \<Rightarrow> ProcessorOptions \<Rightarrow> wine \<Rightarrow> id \<Rightarrow> GameInput \<Rightarrow>
    SessionPlayerRaceDB list \<Rightarrow> RaceDB list \<Rightarrow> GameFiles io" where
  "NewGame hs opts wine sid gameInput players rs =
    io_then (MkdirAll sid) (\<lambda>_.
    io_then (io_lift (newRaceFiles players rs)) (\<lambda>raceFiles.
    io_then (saveRaceFilesToSessionDir hs opts sid raceFiles) (\<lambda>_.
    io_then (newGame wine sid (Content gameInput)) (\<lambda>_.
    gameFilesForTurn sid players))))"

subsection \<open>GenTurn\<close>

definition orderFilename :: "int \<Rightarrow> string" where
  "orderFilename playerOrder = orderBaseFilename @ decimal_int (playerOrder + 1)"

definition saveOrderFile :: "id \<Rightarrow> bytes \<Rightarrow> int \<Rightarrow> unit io" where
  "saveOrderFile sid content playerOrder = WriteFile sid (orderFilename playerOrder) content"

fun saveOrderFiles :: "id \<Rightarrow> int \<Rightarrow> bytes list \<Rightarrow> unit io" where
  "saveOrderFiles sid idx [] = io_return ()"
| "saveOrderFiles sid idx (orderFile # rest) =
    io_then (if orderFile \<noteq> [] then saveOrderFile sid orderFile idx else io_return ()) (\<lambda>_.
    saveOrderFiles sid (idx + 1) rest)"

definition saveOrderFilesToSessionDir :: "id \<Rightarrow> bytes list \<Rightarrow> unit io" where
  "saveOrderFilesToSessionDir sid orderFiles = saveOrderFiles sid 0 orderFiles"

definition saveUniverseFile :: "id \<Rightarrow> bytes \<Rightarrow> unit io" where
  "saveUniverseFile sid content = WriteFile sid universeBaseFilename content"

definition saveHostFile :: "id \<Rightarrow> bytes \<Rightarrow> unit io" where
  "saveHostFile sid content = WriteFile sid hostBaseFilename content"

definition newTurn :: "wine \<Rightarrow> id \<Rightarrow> unit io" where
  "newTurn wine sid =
    RunWine wine [wStarsExecutablePath, ''-g'', wPathJoin [wSessionSaveDir sid, hostBaseFilename]]"

definition GenTurn :: "wine \<Rightarrow> id \<Rightarrow> GameFiles \<Rightarrow> SessionPlayerRaceDB list \<Rightarrow> GameFiles io" where
  "GenTurn wine sid gameFiles players =
    io_then (MkdirAll sid) (\<lambda>_.
    io_then (saveOrderFilesToSessionDir sid (G_Orders gameFiles)) (\<lambda>_.
    io_then (saveUniverseFile sid (G_Universe gameFiles)) (\<lambda>_.
    io_then (saveHostFile sid (G_HostFile gameFiles)) (\<lambda>_.
    io_then (newTurn wine sid) (\<lambda>_.
    gameFilesForTurn sid players)))))"

subsection \<open>File names\<close>

definition number_of :: "string \<Rightarrow> nat" where
  "number_of s = fold (\<lambda>c n. n * 10 + (of_char c - 48)) s 0"

lemma number_of_decimal: "number_of (decimal n) = n"
proof (induction n rule: decimal.induct)
  case (1 n)
  show ?case
  proof (cases "n < 10")
    case True
    then show ?thesis by (subst decimal.simps) (simp add: number_of_def)
  next
    case False
    have "of_char (char_of (48 + n mod 10) :: char) = 48 + n mod 10"
      by (simp add: of_char_of)
    then show ?thesis
      using False 1 [OF False] by (subst decimal.simps) (simp add: number_of_def)
  qed
qed

lemma decimal_int_inj: "0 \<le> i \<Longrightarrow> 0 \<le> j \<Longrightarrow> decimal_int i = decimal_int j \<Longrightarrow> i = j"
  using number_of_decimal by (metis decimal_int_def int_nat_eq not_less)

lemma raceFilename_inj: "0 \<le> i \<Longrightarrow> 0 \<le> j \<Longrightarrow> raceFilename i = raceFilename j \<longleftrightarrow> i = j"
  using decimal_int_inj [of "i + 1" "j + 1"] by (auto simp: raceFilename_def)

lemma orderFilename_inj: "0 \<le> i \<Longrightarrow> 0 \<le> j \<Longrightarrow> orderFilename i = orderFilename j \<longleftrightarrow> i = j"
  using decimal_int_inj [of "i + 1" "j + 1"] by (auto simp: orderFilename_def)

lemma decimal_int_not_y [simp]: "decimal_int i \<noteq> ''y''" "''y'' \<noteq> decimal_int i"
proof -
  have *: "decimal n \<noteq> ''y''" for n
  proof
    assume *: "decimal n = ''y''"
    then have "n = number_of ''y''" by (metis number_of_decimal)
    also have "\<dots> = 73" by code_simp
    finally have "decimal 73 = ''y''" using * by simp
    moreover have "decimal 73 \<noteq> ''y''" by code_simp
    ultimately show False by simp
  qed
  then show "decimal_int i \<noteq> ''y''" "''y'' \<noteq> decimal_int i"
    using * [symmetric] by (auto simp: decimal_int_def)
qed

lemma file_names_differ [simp]:
  "raceFilename i \<noteq> gameDefName" "gameDefName \<noteq> raceFilename i"
  "orderFilename i \<noteq> universeBaseFilename" "universeBaseFilename \<noteq> orderFilename i"
  "orderFilename i \<noteq> hostBaseFilename" "hostBaseFilename \<noteq> orderFilename i"
  "hostBaseFilename \<noteq> universeBaseFilename" "universeBaseFilename \<noteq> hostBaseFilename"
  by (simp_all add: raceFilename_def gameDefName_def orderFilename_def universeBaseFilename_def
      hostBaseFilename_def orderBaseFilename_def)

subsection \<open>Writing a group of files\<close>

fun write_all :: "id \<Rightarrow> (string \<times> bytes) list \<Rightarrow> unit io" where
  "write_all sid [] = io_return ()"
| "write_all sid (p # ps) = io_then (WriteFile sid (fst p) (snd p)) (\<lambda>_. write_all sid ps)"

definition stale :: "dir \<Rightarrow> string \<Rightarrow> bytes" where
  "stale m n = (case m n of None \<Rightarrow> [] | Some old \<Rightarrow> old)"

text \<open>The directory after all files of the group are written.\<close>

definition written :: "(string \<times> bytes) list \<Rightarrow> dir \<Rightarrow> dir" where
  "written ps m = (\<lambda>n. case map_of ps n of None \<Rightarrow> m n | Some c \<Rightarrow> Some (overwrite c (stale m n)))"

lemma write_all_written:
  assumes "f sid = Some m" "distinct (map fst ps)"
  shows "write_all sid ps f = (Inr (), f(sid \<mapsto> written ps m))"
  using assms
proof (induction ps arbitrary: f m)
  case Nil
  then show ?case by (simp add: io_return_def written_def fun_upd_idem)
next
  case (Cons p ps)
  let ?m = "m(fst p \<mapsto> overwrite (snd p) (stale m (fst p)))"
  have "WriteFile sid (fst p) (snd p) f = (Inr (), f(sid \<mapsto> ?m))"
    using Cons.prems by (simp add: WriteFile_def stale_def)
  moreover have "written ps ?m = written (p # ps) m"
  proof
    fix n
    have "map_of ps (fst p) = None" using Cons.prems(2) by (simp add: map_of_eq_None_iff)
    then show "written ps ?m n = written (p # ps) m n"
      by (cases p; cases "n = fst p") (auto simp: written_def stale_def split: option.split)
  qed
  moreover have "write_all sid ps (f(sid \<mapsto> ?m)) = (Inr (), (f(sid \<mapsto> ?m))(sid \<mapsto> written ps ?m))"
    by (rule Cons.IH [OF fun_upd_same]) (use Cons.prems(2) in simp)
  ultimately show ?case by (simp add: io_then_def fun_eq_iff)
qed

lemma overwrite_empty [simp]: "overwrite c [] = c"
  by (simp add: overwrite_def)

lemma written_fresh: "written ps Map.empty = map_of ps"
  by (simp add: written_def stale_def fun_eq_iff split: option.splits)

definition race_entry :: "houston \<Rightarrow> ProcessorOptions \<Rightarrow> int \<times> bytes \<Rightarrow> string \<times> bytes" where
  "race_entry hs opts rf = (raceFilename (fst rf), fst (ProcessData hs (snd rf) opts))"

lemma saveRaceFiles_write_all:
  "saveRaceFilesToSessionDir hs opts sid rfs = write_all sid (map (race_entry hs opts) rfs)"
  by (induction rfs) (simp_all add: saveRaceFile_def race_entry_def)

fun order_entries :: "int \<Rightarrow> bytes list \<Rightarrow> (string \<times> bytes) list" where
  "order_entries i [] = []"
| "order_entries i (x # xs) = (if x \<noteq> [] then [(orderFilename i, x)] else []) @ order_entries (i + 1) xs"

lemma io_return_then [simp]: "io_then (io_return x) k = k x"
  by (simp add: io_then_def io_return_def fun_eq_iff)

lemma saveOrderFiles_write_all: "saveOrderFiles sid i xs = write_all sid (order_entries i xs)"
  by (induction xs arbitrary: i) (simp_all add: saveOrderFile_def)

lemma order_entries_names:
  "0 \<le> i \<Longrightarrow> n \<in> fst ` set (order_entries i xs) \<Longrightarrow> \<exists>j \<ge> i. n = orderFilename j"
proof (induction xs arbitrary: i)
  case (Cons x xs)
  consider "n = orderFilename i" | "n \<in> fst ` set (order_entries (i + 1) xs)"
    using Cons.prems(2) by (auto split: if_splits)
  then show ?case
  proof cases
    case 2
    then obtain j where "j \<ge> i + 1" "n = orderFilename j" using Cons.IH [of "i + 1"] Cons.prems(1) by auto
    then show ?thesis by (intro exI [of _ j]) simp
  qed auto
qed simp

lemma order_entries_later: "0 \<le> i \<Longrightarrow> orderFilename i \<notin> fst ` set (order_entries (i + 1) xs)"
proof
  assume "0 \<le> i" "orderFilename i \<in> fst ` set (order_entries (i + 1) xs)"
  then obtain j where "j \<ge> i + 1" "orderFilename i = orderFilename j"
    using order_entries_names [of "i + 1" "orderFilename i" xs] by auto
  then show False using \<open>0 \<le> i\<close> by (simp add: orderFilename_inj)
qed

lemma order_entries_distinct: "0 \<le> i \<Longrightarrow> distinct (map fst (order_entries i xs))"
proof (induction xs arbitrary: i)
  case (Cons x xs)
  then show ?case using order_entries_later [of i xs] by simp
qed simp

lemma map_of_order_entries:
  "0 \<le> i \<Longrightarrow> k < length xs \<Longrightarrow>
   map_of (order_entries i xs) (orderFilename (i + int k)) = (if xs ! k = [] then None else Some (xs ! k))"
proof (induction xs arbitrary: i k)
  case (Cons x xs)
  show ?case
  proof (cases k)
    case 0
    have "map_of (order_entries (i + 1) xs) (orderFilename i) = None"
      using order_entries_later Cons.prems(1) by (simp add: map_of_eq_None_iff)
    then show ?thesis using 0 by simp
  next
    case (Suc k')
    have "orderFilename i \<noteq> orderFilename (i + 1 + int k')"
      using Cons.prems(1) by (simp add: orderFilename_inj)
    then show ?thesis
      using Cons.IH [of "i + 1" k'] Cons.prems Suc by (simp add: add.assoc)
  qed
qed simp

subsection \<open>What Stars! reads and what is read back\<close>

lemma MkdirAll_result:
  "\<exists>m. MkdirAll sid f = (Inr (), f(sid \<mapsto> m)) \<and> m = (case f sid of None \<Rightarrow> Map.empty | Some m \<Rightarrow> m)"
  by (auto simp: MkdirAll_def fun_upd_idem split: option.split)

lemma ReadFile_Inr:
  "ReadFile sid n f = (Inr c, f1) \<longleftrightarrow> f1 = f \<and> (\<exists>m. f sid = Some m \<and> m n = Some c)"
  by (auto simp: ReadFile_def split: option.splits)

lemma WriteFile_at:
  "f sid = Some m \<Longrightarrow> WriteFile sid n c f = (r, f1) \<longleftrightarrow>
    r = Inr () \<and> f1 = f(sid \<mapsto> m(n \<mapsto> overwrite c (stale m n)))"
  by (auto simp: WriteFile_def stale_def)

lemma RunWine_Inr: "RunWine wine args f = (Inr (), f1) \<longleftrightarrow> wine args f = (None, f1)"
  by (auto simp: RunWine_def split: prod.splits option.splits)

lemma max_order_ge: "m \<le> max_order m ps \<and> (\<forall>p \<in> set ps. P_PlayerOrder p \<le> max_order m ps)"
  by (induction m ps rule: max_order.induct) (auto split: if_splits)

text \<open>Each player of a group with different orders finds its file in the slot of its order.\<close>

lemma collect_turns_Inr:
  assumes "collect_turns sid ps turns f = (Inr ts, f1)" "distinct (map P_PlayerOrder ps)"
  shows "f1 = f \<and> length ts = length turns \<and>
    (\<forall>p \<in> set ps. 0 \<le> P_PlayerOrder p \<and> P_PlayerOrder p < int (length turns) \<and>
       ReadFile sid (turnFilename (P_PlayerOrder p)) f = (Inr (ts ! nat (P_PlayerOrder p)), f)) \<and>
    (\<forall>i < length turns. int i \<notin> P_PlayerOrder ` set ps \<longrightarrow> ts ! i = turns ! i)"
  using assms
proof (induction ps arbitrary: turns)
  case (Cons p ps)
  obtain content turns1 where rd: "ReadFile sid (turnFilename (P_PlayerOrder p)) f = (Inr content, f)"
    and set: "slice_set turns (P_PlayerOrder p) content = Inr turns1"
    and rest: "collect_turns sid ps turns1 f = (Inr ts, f1)"
    using Cons.prems(1) by (auto simp: io_then_Inr readPlayerTurn_def ReadFile_Inr)
  have t1: "turns1 = turns[nat (P_PlayerOrder p) := content]" "0 \<le> P_PlayerOrder p"
    "P_PlayerOrder p < int (length turns)"
    using set by (auto simp: slice_set_def split: if_splits)
  have "distinct (map P_PlayerOrder ps)" using Cons.prems(2) by simp
  note ih = Cons.IH [OF rest this]
  have "P_PlayerOrder p \<notin> P_PlayerOrder ` set ps" using Cons.prems(2) by simp
  then have "ts ! nat (P_PlayerOrder p) = content" using ih t1 by simp
  moreover have "ts ! i = turns ! i" if "i < length turns" "int i \<notin> P_PlayerOrder ` set (p # ps)" for i
    using ih that t1 by (auto simp: nth_list_update)
  ultimately show ?case using ih rd t1 by auto
qed simp

lemma gameFilesForTurn_Inr:
  assumes "gameFilesForTurn sid players f = (Inr gf, f1)" "distinct (map P_PlayerOrder players)"
  shows "f1 = f \<and> (\<exists>m. f sid = Some m \<and> m universeBaseFilename = Some (G_Universe gf) \<and>
    m hostBaseFilename = Some (G_HostFile gf) \<and> G_Orders gf = [] \<and>
    (\<forall>p \<in> set players. 0 \<le> P_PlayerOrder p \<and> P_PlayerOrder p < int (length (G_Turns gf)) \<and>
      m (turnFilename (P_PlayerOrder p)) = Some (G_Turns gf ! nat (P_PlayerOrder p))))"
proof -
  obtain turns m where m: "f sid = Some m" "m universeBaseFilename = Some (G_Universe gf)"
    "m hostBaseFilename = Some (G_HostFile gf)" "G_Orders gf = []" "turns = G_Turns gf"
    and col: "collect_turns sid players (replicate (nat (max_order 0 players + 1)) []) f = (Inr turns, f1)"
    using assms(1) by (auto simp: gameFilesForTurn_def io_then_Inr ReadFile_Inr)
  show ?thesis
    using collect_turns_Inr [OF col assms(2)] m by (auto simp: ReadFile_Inr)
qed

lemma newRaceFiles_Inr:
  "newRaceFiles ps rs = Inr rfs \<Longrightarrow>
    map fst rfs = map P_PlayerOrder (filter (\<lambda>p. \<not> P_IsBot p) ps) \<and>
    (\<forall>p \<in> set ps. \<not> P_IsBot p \<longrightarrow> (\<exists>r data. r \<in> set rs \<and> Ra_ID r = P_RaceID p \<and>
       RawData r = Inr data \<and> (P_PlayerOrder p, data) \<in> set rfs))"
proof (induction ps arbitrary: rfs)
  case (Cons p ps)
  show ?case
  proof (cases "P_IsBot p")
    case True
    then show ?thesis using Cons by simp
  next
    case False
    then obtain r data rest where r: "sql_first (\<lambda>r. Ra_ID r = P_RaceID p) rs = Some r"
      "RawData r = Inr data" "newRaceFiles ps rs = Inr rest" "rfs = (P_PlayerOrder p, data) # rest"
      using Cons.prems by (auto simp: and_then_eq_Inr split: option.splits)
    show ?thesis using Cons.IH [OF r(3)] r False sql_first_Some [OF r(1)] by auto blast
  qed
qed simp

definition session_dir :: "id \<Rightarrow> fs \<Rightarrow> dir" where
  "session_dir sid f = (case f sid of None \<Rightarrow> Map.empty | Some m \<Rightarrow> m)"

lemma write_all_after_mkdir:
  "distinct (map fst ps) \<Longrightarrow> write_all sid ps (f(sid \<mapsto> session_dir sid f)) =
    (Inr (), f(sid \<mapsto> written ps (session_dir sid f)))"
  using write_all_written [of "f(sid \<mapsto> session_dir sid f)" sid "session_dir sid f" ps] by simp

lemma MkdirAll_then: "io_then (MkdirAll sid) k f = k () (f(sid \<mapsto> session_dir sid f))"
  using MkdirAll_result [of sid f] by (auto simp: io_then_def session_dir_def)

definition new_game_args :: "id \<Rightarrow> string list" where
  "new_game_args sid = [wStarsExecutablePath, ''-a'', wPathJoin [wSessionSaveDir sid, gameDefName]]"

text \<open>
  The whole of \<open>NewGame\<close>: \<open>rfs\<close> are the race files, \<open>fin\<close> is the save directory in which
  Stars! runs, \<open>m\<close> the directory of the session there and \<open>m'\<close> afterwards.
\<close>

lemma NewGame_parts:
  assumes run: "NewGame hs opts wine sid gi players rs f = (Inr gf, f')"
    and orders: "distinct (map P_PlayerOrder players)" "\<forall>p \<in> set players. 0 \<le> P_PlayerOrder p"
  obtains rfs m m' where "newRaceFiles players rs = Inr rfs"
    "m = (written (map (race_entry hs opts) rfs) (session_dir sid f))
       (gameDefName \<mapsto> overwrite (bytes_of (Content gi)) (stale (session_dir sid f) gameDefName))"
    "wine (new_game_args sid) (f(sid \<mapsto> m)) = (None, f')"
    "distinct (map fst (map (race_entry hs opts) rfs))"
    "f' sid = Some m'" "gameFilesForTurn sid players f' = (Inr gf, f')"
proof -
  let ?d = "session_dir sid f"
  obtain rfs fa fb where rfs: "newRaceFiles players rs = Inr rfs"
    and sv: "saveRaceFilesToSessionDir hs opts sid rfs (f(sid \<mapsto> ?d)) = (Inr (), fa)"
    and ng: "newGame wine sid (Content gi) fa = (Inr (), fb)"
    and gft: "gameFilesForTurn sid players fb = (Inr gf, f')"
    using run by (auto simp: NewGame_def MkdirAll_then io_then_Inr)
  let ?es = "map (race_entry hs opts) rfs"
  have "distinct (map fst rfs)" "\<forall>i \<in> set (map fst rfs). 0 \<le> i"
    using newRaceFiles_Inr [OF rfs] orders by (auto simp: distinct_map inj_on_def)
  then have dist: "distinct (map fst ?es)"
    by (auto simp: race_entry_def distinct_map inj_on_def raceFilename_inj)
  have fa: "fa = f(sid \<mapsto> written ?es ?d)"
    using sv write_all_after_mkdir [OF dist, of sid f] by (simp add: saveRaceFiles_write_all)
  have "map_of ?es gameDefName = None"
    by (auto simp: map_of_eq_None_iff race_entry_def)
  then have "newGame wine sid (Content gi) fa =
    RunWine wine (new_game_args sid) (f(sid \<mapsto> (written ?es ?d)
       (gameDefName \<mapsto> overwrite (bytes_of (Content gi)) (stale ?d gameDefName))))"
    by (simp add: newGame_def fa io_then_def WriteFile_def written_def stale_def new_game_args_def)
  then have "wine (new_game_args sid) (f(sid \<mapsto> (written ?es ?d)
       (gameDefName \<mapsto> overwrite (bytes_of (Content gi)) (stale ?d gameDefName)))) = (None, fb)"
    using ng RunWine_Inr by metis
  moreover have fb: "fb = f'" using gameFilesForTurn_Inr [OF gft orders(1)] by simp
  moreover obtain m' where m': "f' sid = Some m'"
    using gameFilesForTurn_Inr [OF gft orders(1)] fb by blast
  ultimately show ?thesis
    by (intro that [OF rfs refl _ dist m']) (simp_all only: gft [unfolded fb])
qed

definition new_turn_args :: "id \<Rightarrow> string list" where
  "new_turn_args sid = [wStarsExecutablePath, ''-g'', wPathJoin [wSessionSaveDir sid, hostBaseFilename]]"

lemma GenTurn_parts:
  assumes run: "GenTurn wine sid g players f = (Inr gf, f')"
    and orders: "distinct (map P_PlayerOrder players)"
  obtains m where "m = (written (order_entries 0 (G_Orders g)) (session_dir sid f))
       (universeBaseFilename \<mapsto> overwrite (G_Universe g) (stale (session_dir sid f) universeBaseFilename),
        hostBaseFilename \<mapsto> overwrite (G_HostFile g) (stale (session_dir sid f) hostBaseFilename))"
    "wine (new_turn_args sid) (f(sid \<mapsto> m)) = (None, f')"
    "gameFilesForTurn sid players f' = (Inr gf, f')"
proof -
  let ?d = "session_dir sid f" and ?es = "order_entries 0 (G_Orders g)"
  obtain fa fb fc fd where so: "saveOrderFilesToSessionDir sid (G_Orders g) (f(sid \<mapsto> ?d)) = (Inr (), fa)"
    and su: "saveUniverseFile sid (G_Universe g) fa = (Inr (), fb)"
    and sh: "saveHostFile sid (G_HostFile g) fb = (Inr (), fc)"
    and nt: "newTurn wine sid fc = (Inr (), fd)"
    and gft: "gameFilesForTurn sid players fd = (Inr gf, f')"
    using run by (auto simp: GenTurn_def MkdirAll_then io_then_Inr)
  have fa: "fa = f(sid \<mapsto> written ?es ?d)"
    using so write_all_after_mkdir [of ?es sid f]
    by (simp add: saveOrderFilesToSessionDir_def saveOrderFiles_write_all order_entries_distinct)
  have none: "map_of ?es universeBaseFilename = None" "map_of ?es hostBaseFilename = None"
    using order_entries_names [of 0 _ "G_Orders g"] by (fastforce simp: map_of_eq_None_iff)+
  let ?m = "(written ?es ?d)
       (universeBaseFilename \<mapsto> overwrite (G_Universe g) (stale ?d universeBaseFilename),
        hostBaseFilename \<mapsto> overwrite (G_HostFile g) (stale ?d hostBaseFilename))"
  have written: "written ?es ?d universeBaseFilename = ?d universeBaseFilename"
    "written ?es ?d hostBaseFilename = ?d hostBaseFilename"
    using none by (simp_all add: written_def)
  have "fb = f(sid \<mapsto> (written ?es ?d)
       (universeBaseFilename \<mapsto> overwrite (G_Universe g) (stale ?d universeBaseFilename)))"
    using su written WriteFile_at [of fa sid "written ?es ?d"]
    by (simp add: saveUniverseFile_def fa stale_def)
  then have "fc = f(sid \<mapsto> ?m)"
    using sh written WriteFile_at [of fb sid]
    by (simp add: saveHostFile_def stale_def)
  then have "wine (new_turn_args sid) (f(sid \<mapsto> ?m)) = (None, fd)"
    using nt RunWine_Inr by (metis newTurn_def new_turn_args_def)
  moreover have "fd = f'" using gameFilesForTurn_Inr [OF gft orders] by simp
  ultimately show ?thesis using that gft by blast
qed

subsection \<open>Properties\<close>

text \<open>
  \<^bold>\<open>C14\<close> What Stars! is given to create a game, when the session has no save
  directory left: the directory holds the game definition and, for each human player, one
  race file, named after the player order as the definition says, with the processed data of the
  race the player chose; nothing else. If the call succeeds, the universe and the host file it
  returns are those Stars! left, and the turn in slot \<open>k\<close> is the file of the player of order \<open>k\<close>.
\<close>

theorem NewGame_correct:
  assumes run: "NewGame hs opts wine sid gi players rs f = (Inr gf, f')"
    and orders: "distinct (map P_PlayerOrder players)" "\<forall>p \<in> set players. 0 \<le> P_PlayerOrder p"
    and fresh: "f sid = None"
  shows "\<exists>m m'. wine (new_game_args sid) (f(sid \<mapsto> m)) = (None, f') \<and> f' sid = Some m' \<and>
    m gameDefName = Some (bytes_of (Content gi)) \<and>
    (\<forall>p \<in> set players. \<not> P_IsBot p \<longrightarrow> (\<exists>r data. r \<in> set rs \<and> Ra_ID r = P_RaceID p \<and> RawData r = Inr data \<and>
       m (raceFilename (P_PlayerOrder p)) = Some (fst (ProcessData hs data opts)))) \<and>
    dom m = insert gameDefName {raceFilename (P_PlayerOrder p) |p. p \<in> set players \<and> \<not> P_IsBot p} \<and>
    m' universeBaseFilename = Some (G_Universe gf) \<and> m' hostBaseFilename = Some (G_HostFile gf) \<and>
    (\<forall>p \<in> set players. m' (turnFilename (P_PlayerOrder p)) = Some (G_Turns gf ! nat (P_PlayerOrder p)))"
proof -
  obtain rfs m m' where rfs: "newRaceFiles players rs = Inr rfs"
    and m: "m = (written (map (race_entry hs opts) rfs) (session_dir sid f))
       (gameDefName \<mapsto> overwrite (bytes_of (Content gi)) (stale (session_dir sid f) gameDefName))"
    and w: "wine (new_game_args sid) (f(sid \<mapsto> m)) = (None, f')"
    and dist: "distinct (map fst (map (race_entry hs opts) rfs))"
    and m': "f' sid = Some m'" "gameFilesForTurn sid players f' = (Inr gf, f')"
    using run orders by (rule NewGame_parts)
  have d: "session_dir sid f = Map.empty" using fresh by (simp add: session_dir_def)
  have m: "m = (map_of (map (race_entry hs opts) rfs))(gameDefName \<mapsto> bytes_of (Content gi))"
    unfolding m d written_fresh by (simp add: stale_def)
  have "fst ` set rfs = {P_PlayerOrder p |p. p \<in> set players \<and> \<not> P_IsBot p}"
    using arg_cong [OF conjunct1 [OF newRaceFiles_Inr [OF rfs]], of set] by auto
  moreover have "dom m = insert gameDefName (raceFilename ` fst ` set rfs)"
    by (simp add: m dom_map_of_conv_image_fst race_entry_def image_image)
  ultimately have dom: "dom m = insert gameDefName {raceFilename (P_PlayerOrder p) |p. p \<in> set players \<and> \<not> P_IsBot p}"
    by (simp only: setcompr_eq_image image_image)
  have "m (raceFilename i) = Some (fst (ProcessData hs data opts))" if "(i, data) \<in> set rfs" for i data
  proof -
    have "(raceFilename i, fst (ProcessData hs data opts)) \<in> set (map (race_entry hs opts) rfs)"
      using that by (force simp: race_entry_def)
    then show ?thesis using dist by (simp add: m del: set_map)
  qed
  then have humans: "\<forall>p \<in> set players. \<not> P_IsBot p \<longrightarrow> (\<exists>r data. r \<in> set rs \<and> Ra_ID r = P_RaceID p \<and>
      RawData r = Inr data \<and> m (raceFilename (P_PlayerOrder p)) = Some (fst (ProcessData hs data opts)))"
    using newRaceFiles_Inr [OF rfs] by blast
  have out: "m' universeBaseFilename = Some (G_Universe gf) \<and> m' hostBaseFilename = Some (G_HostFile gf) \<and>
    (\<forall>p \<in> set players. m' (turnFilename (P_PlayerOrder p)) = Some (G_Turns gf ! nat (P_PlayerOrder p)))"
    using gameFilesForTurn_Inr [OF m'(2) orders(1)] m'(1) by auto
  have "m gameDefName = Some (bytes_of (Content gi))" by (simp add: m)
  then show ?thesis using w m'(1) humans dom out by blast
qed

text \<open>A run of Stars! that leaves a universe, a host file and the turns of two players.\<close>

definition example_wine :: wine where
  "example_wine args f = (None, f(''s'' := map_option (\<lambda>m. m(universeBaseFilename \<mapsto> [1],
     hostBaseFilename \<mapsto> [7, 0], ''game.m1'' \<mapsto> [11], ''game.m2'' \<mapsto> [12])) (f ''s'')))"

definition example_players :: "SessionPlayerRaceDB list" where
  "example_players = [example_player ''a'' ''u'' 0, (example_player ''b'' ''v'' 1)\<lparr>P_IsBot := True\<rparr>]"

definition example_opts :: ProcessorOptions where
  "example_opts = \<lparr>StripPassword = False, FixCorrupted = False\<rparr>"

definition example_input :: GameInput where
  "example_input = \<lparr>GI_BaseDir = ''s:'', GI_SessionID = ''s'', GI_SessionName = ''game'', GI_NumberOfPlayers = 2,
     GI_RuleSet = shire_ruleset, GI_Players = example_players, GI_Races = [], GI_UniverseFilename = ''''\<rparr>"

theorem NewGame_correct_witness:
  "\<exists>gf f' m m'. NewGame example_houston example_opts example_wine ''s'' example_input example_players
      [example_race\<lparr>Ra_Data := ''BQ==''\<rparr>] Map.empty = (Inr gf, f') \<and>
    example_wine (new_game_args ''s'') [''s'' \<mapsto> m] = (None, f') \<and>
    m ''game.r1'' = Some [5] \<and> f' ''s'' = Some m' \<and> m' ''game.m2'' = Some (G_Turns gf ! 1)"
proof -
  let ?rs = "[example_race\<lparr>Ra_Data := ''BQ==''\<rparr>]"
  let ?run = "NewGame example_houston example_opts example_wine ''s'' example_input example_players ?rs Map.empty"
  have "isl (fst ?run) = False" by code_simp
  then obtain gf f' where run: "?run = (Inr gf, f')" by (cases ?run; cases "fst ?run") auto
  have ps: "distinct (map P_PlayerOrder example_players)" "\<forall>p \<in> set example_players. 0 \<le> P_PlayerOrder p"
    by code_simp+
  have race: "RawData (example_race\<lparr>Ra_Data := ''BQ==''\<rparr>) = Inr [5]" by code_simp
  have pd: "fst (ProcessData example_houston [5] example_opts) = [5]" by code_simp
  have "raceFilename 0 = ''game.r1''" "turnFilename 1 = ''game.m2''" by code_simp+
  then show ?thesis
    using NewGame_correct [OF run ps] run race pd
    by (fastforce simp: example_players_def example_player_def)
qed

text \<open>
  What happens when an earlier generation failed and left its files (the
  directory is only removed after a success): the race file that Stars! reads is the new data
  followed by the tail of the old file, so a shorter race file is corrupted.
\<close>

lemma NewGame_after_failure_mixes_race_files:
  assumes run: "NewGame hs opts wine sid gi players rs f = (Inr gf, f')"
    and orders: "distinct (map P_PlayerOrder players)" "\<forall>p \<in> set players. 0 \<le> P_PlayerOrder p"
    and left: "f sid = Some m0" "m0 (raceFilename (P_PlayerOrder p)) = Some old"
    and human: "p \<in> set players" "\<not> P_IsBot p"
  shows "\<exists>m r data new. wine (new_game_args sid) (f(sid \<mapsto> m)) = (None, f') \<and>
    r \<in> set rs \<and> Ra_ID r = P_RaceID p \<and> RawData r = Inr data \<and>
    new = fst (ProcessData hs data opts) \<and>
    m (raceFilename (P_PlayerOrder p)) = Some (new @ drop (length new) old) \<and>
    (length new < length old \<longrightarrow> m (raceFilename (P_PlayerOrder p)) \<noteq> Some new)"
proof -
  obtain rfs m m' where rfs: "newRaceFiles players rs = Inr rfs"
    and m: "m = (written (map (race_entry hs opts) rfs) (session_dir sid f))
       (gameDefName \<mapsto> overwrite (bytes_of (Content gi)) (stale (session_dir sid f) gameDefName))"
    and w: "wine (new_game_args sid) (f(sid \<mapsto> m)) = (None, f')"
    and dist: "distinct (map fst (map (race_entry hs opts) rfs))"
    and m': "f' sid = Some m'" "gameFilesForTurn sid players f' = (Inr gf, f')"
    using run orders by (rule NewGame_parts)
  obtain r data where r: "r \<in> set rs" "Ra_ID r = P_RaceID p" "RawData r = Inr data"
    "(P_PlayerOrder p, data) \<in> set rfs"
    using newRaceFiles_Inr [OF rfs] human by blast
  let ?new = "fst (ProcessData hs data opts)"
  have "(raceFilename (P_PlayerOrder p), ?new) \<in> set (map (race_entry hs opts) rfs)"
    using r(4) by (force simp: race_entry_def)
  then have "map_of (map (race_entry hs opts) rfs) (raceFilename (P_PlayerOrder p)) = Some ?new"
    using dist by simp
  then have "m (raceFilename (P_PlayerOrder p)) = Some (overwrite ?new old)"
    using left by (simp add: m written_def stale_def session_dir_def)
  then have content: "m (raceFilename (P_PlayerOrder p)) = Some (?new @ drop (length ?new) old)"
    by (simp add: overwrite_def)
  then have "length ?new < length old \<longrightarrow> m (raceFilename (P_PlayerOrder p)) \<noteq> Some ?new"
    by simp
  then show ?thesis using w r(1-3) content by blast
qed

lemma NewGame_after_failure_mixes_race_files_witness:
  "\<exists>gf f' m. NewGame example_houston example_opts example_wine ''s'' example_input example_players
      [example_race\<lparr>Ra_Data := ''BQ==''\<rparr>] [''s'' \<mapsto> [''game.r1'' \<mapsto> [8, 9]]] = (Inr gf, f') \<and>
    example_wine (new_game_args ''s'') [''s'' \<mapsto> m] = (None, f') \<and> m ''game.r1'' = Some [5, 9]"
proof -
  let ?rs = "[example_race\<lparr>Ra_Data := ''BQ==''\<rparr>]" and ?f = "[''s'' \<mapsto> [''game.r1'' \<mapsto> [8, 9]]] :: fs"
  let ?run = "NewGame example_houston example_opts example_wine ''s'' example_input example_players ?rs ?f"
  have "isl (fst ?run) = False" by code_simp
  then obtain gf f' where run: "?run = (Inr gf, f')" by (cases ?run; cases "fst ?run") auto
  have ps: "distinct (map P_PlayerOrder example_players)" "\<forall>p \<in> set example_players. 0 \<le> P_PlayerOrder p"
    by code_simp+
  have p: "example_player ''a'' ''u'' 0 \<in> set example_players" "\<not> P_IsBot (example_player ''a'' ''u'' 0)"
    "P_PlayerOrder (example_player ''a'' ''u'' 0) = 0" "raceFilename 0 = ''game.r1''"
    by code_simp+
  have left: "?f ''s'' = Some [''game.r1'' \<mapsto> [8, 9]]"
    "[''game.r1'' \<mapsto> [8, 9]] (raceFilename (P_PlayerOrder (example_player ''a'' ''u'' 0))) = Some [8, 9]"
    by (simp_all add: p)
  have race: "RawData (example_race\<lparr>Ra_Data := ''BQ==''\<rparr>) = Inr [5]" by code_simp
  have pd: "fst (ProcessData example_houston [5] example_opts) = [5]" by code_simp
  obtain m r data new where m: "example_wine (new_game_args ''s'') (?f(''s'' \<mapsto> m)) = (None, f')"
    and r: "r \<in> set ?rs" "RawData r = Inr data" "new = fst (ProcessData example_houston data example_opts)"
    and file1: "m (raceFilename (P_PlayerOrder (example_player ''a'' ''u'' 0))) = Some (new @ drop (length new) [8, 9])"
    using NewGame_after_failure_mixes_race_files [OF run ps left p(1,2)] by blast
  have "new = [5]" using r race pd by simp
  then have "m ''game.r1'' = Some [5, 9]" using file1 p(3,4) by simp
  then show ?thesis using run m by auto
qed

text \<open>
  \<^bold>\<open>C21\<close> What Stars! is given to generate a turn, when the session has no save
  directory left: universe, host file, and one order file for each slot of the orders that is not
  empty, named after the slot; nothing else. The universe, the host file and the turns
  returned are those Stars! left, each turn in the slot of its player's order, and no orders.
\<close>

theorem GenTurn_correct:
  assumes run: "GenTurn wine sid g players f = (Inr gf, f')"
    and orders: "distinct (map P_PlayerOrder players)" and fresh: "f sid = None"
  shows "\<exists>m m'. wine (new_turn_args sid) (f(sid \<mapsto> m)) = (None, f') \<and> f' sid = Some m' \<and>
    m universeBaseFilename = Some (G_Universe g) \<and> m hostBaseFilename = Some (G_HostFile g) \<and>
    (\<forall>k < length (G_Orders g). m (orderFilename (int k)) =
       (if G_Orders g ! k = [] then None else Some (G_Orders g ! k))) \<and>
    dom m = {universeBaseFilename, hostBaseFilename} \<union> fst ` set (order_entries 0 (G_Orders g)) \<and>
    m' universeBaseFilename = Some (G_Universe gf) \<and> m' hostBaseFilename = Some (G_HostFile gf) \<and>
    G_Orders gf = [] \<and>
    (\<forall>p \<in> set players. m' (turnFilename (P_PlayerOrder p)) = Some (G_Turns gf ! nat (P_PlayerOrder p)))"
proof -
  obtain m where m: "m = (written (order_entries 0 (G_Orders g)) (session_dir sid f))
       (universeBaseFilename \<mapsto> overwrite (G_Universe g) (stale (session_dir sid f) universeBaseFilename),
        hostBaseFilename \<mapsto> overwrite (G_HostFile g) (stale (session_dir sid f) hostBaseFilename))"
    and w: "wine (new_turn_args sid) (f(sid \<mapsto> m)) = (None, f')"
    and gft: "gameFilesForTurn sid players f' = (Inr gf, f')"
    using run orders by (rule GenTurn_parts)
  have d: "session_dir sid f = Map.empty" using fresh by (simp add: session_dir_def)
  have m: "m = (map_of (order_entries 0 (G_Orders g)))
      (universeBaseFilename \<mapsto> G_Universe g, hostBaseFilename \<mapsto> G_HostFile g)"
    unfolding m d written_fresh by (simp add: stale_def)
  have orders: "\<forall>k < length (G_Orders g). m (orderFilename (int k)) =
       (if G_Orders g ! k = [] then None else Some (G_Orders g ! k))"
    using map_of_order_entries [of 0 _ "G_Orders g"] by (simp add: m)
  have "dom m = {universeBaseFilename, hostBaseFilename} \<union> fst ` set (order_entries 0 (G_Orders g))"
    by (auto simp: m dom_map_of_conv_image_fst)
  moreover have "m universeBaseFilename = Some (G_Universe g)" "m hostBaseFilename = Some (G_HostFile g)"
    by (simp_all add: m)
  ultimately show ?thesis
    using w orders gameFilesForTurn_Inr [OF gft assms(2)] by blast
qed

theorem GenTurn_correct_witness:
  "\<exists>gf f' m. GenTurn example_wine ''s'' \<lparr>G_Universe = [1], G_HostFile = [6, 0], G_Turns = [], G_Orders = [[], [3]]\<rparr>
      example_players Map.empty = (Inr gf, f') \<and>
    example_wine (new_turn_args ''s'') [''s'' \<mapsto> m] = (None, f') \<and>
    m (orderFilename 0) = None \<and> m (orderFilename 1) = Some [3] \<and> G_Orders gf = []"
proof -
  let ?g = "\<lparr>G_Universe = [1], G_HostFile = [6, 0], G_Turns = [], G_Orders = [[], [3]]\<rparr>"
  let ?run = "GenTurn example_wine ''s'' ?g example_players Map.empty"
  have "isl (fst ?run) = False" by code_simp
  then obtain gf f' where run: "?run = (Inr gf, f')" by (cases ?run; cases "fst ?run") auto
  have ps: "distinct (map P_PlayerOrder example_players)" by code_simp
  obtain m where m: "example_wine (new_turn_args ''s'') [''s'' \<mapsto> m] = (None, f')" "G_Orders gf = []"
    "\<forall>k < length (G_Orders ?g). m (orderFilename (int k)) =
       (if G_Orders ?g ! k = [] then None else Some (G_Orders ?g ! k))"
    using GenTurn_correct [OF run ps] by blast
  have "m (orderFilename 0) = None" "m (orderFilename 1) = Some [3]"
    using m(3) [rule_format, of 0] m(3) [rule_format, of 1] by simp_all
  then show ?thesis using run m by blast
qed

end
