(* ===== verification/Relations.thy ===== *)
theory Relations
  imports Examples
begin

section \<open>Members and managers of a session\<close>

text \<open>
  \<open>lib/relations.go\<close>, \<open>lib/session.go\<close> and \<open>models/user_profile_rel.go\<close>: how the list of members
  and the list of managers that a client sends become rows of \<open>user_profile_session_rel\<close>. The
  statement is \<open>INSERT ... ON CONFLICT (user_profile_id, session_id) DO UPDATE\<close>, which PostgreSQL
  refuses (SQLSTATE 21000) when two of its rows have the same key, followed by a \<open>DELETE\<close> of the
  rows that are no longer wanted.
\<close>

definition ToUserProfileSessionRelDB :: "id \<Rightarrow> id list \<Rightarrow> id list \<Rightarrow> UserProfileSessionRelDB list" where
  "ToUserProfileSessionRelDB sid members managers =
    map (\<lambda>m. \<lparr>R_UserProfileID = m, R_SessionID = sid, R_IsManager = False\<rparr>) members @
    map (\<lambda>m. \<lparr>R_UserProfileID = m, R_SessionID = sid, R_IsManager = True\<rparr>) managers"

subsection \<open>The upsert\<close>

definition upsert_rel ::
    "UserProfileSessionRelDB \<Rightarrow> UserProfileSessionRelDB list \<Rightarrow> UserProfileSessionRelDB list" where
  "upsert_rel v rows =
    (if occurs rel_key (rel_key v) rows
     then sql_update (\<lambda>r. rel_key r = rel_key v) (\<lambda>r. r\<lparr>R_IsManager := R_IsManager v\<rparr>) rows
     else sql_insert v rows)"

definition cardinality_violation :: err where
  "cardinality_violation = PqError ''21000'' ''''"

definition upsert_rels :: "UserProfileSessionRelDB list \<Rightarrow> db \<Rightarrow> err + db" where
  "upsert_rels vs d = enforce
    [(distinct (map rel_key vs), cardinality_violation),
     (list_all (\<lambda>v. occurs U_ID (R_UserProfileID v) (users d)) vs,
       foreign_key_violation ''user_profile_session_rel_user_profile_id_fkey''),
     (list_all (\<lambda>v. occurs S_ID (R_SessionID v) (sessions d)) vs,
       foreign_key_violation ''user_profile_session_rel_session_id_fkey'')]
    (d\<lparr>rels := fold upsert_rel vs (rels d)\<rparr>)"

text \<open>The two columns between which \<open>syncUserProfileSessionRelations\<close> relates.\<close>

datatype rel_column = UserProfileIDColumn | SessionIDColumn

fun column_value :: "rel_column \<Rightarrow> UserProfileSessionRelDB \<Rightarrow> id" where
  "column_value UserProfileIDColumn r = R_UserProfileID r"
| "column_value SessionIDColumn r = R_SessionID r"

fun set_column :: "rel_column \<Rightarrow> id \<Rightarrow> UserProfileSessionRelDB \<Rightarrow> UserProfileSessionRelDB" where
  "set_column UserProfileIDColumn k r = r\<lparr>R_UserProfileID := k\<rparr>"
| "set_column SessionIDColumn k r = r\<lparr>R_SessionID := k\<rparr>"

definition syncUserProfileSessionRelations ::
    "rel_column \<Rightarrow> rel_column \<Rightarrow> id \<Rightarrow> UserProfileSessionRelDB list \<Rightarrow> db \<Rightarrow> err + db" where
  "syncUserProfileSessionRelations colFrom colIDTo colFromValue colToValues d =
    and_then
      (if colToValues \<noteq> []
       then upsert_rels (map (set_column colFrom colFromValue) colToValues) d
       else Inr d)
      (\<lambda>d1. Inr (delete_rels (\<lambda>r. column_value colFrom r = colFromValue \<and>
          list_all (\<lambda>v. column_value colIDTo r \<noteq> column_value colIDTo v) colToValues) d1))"

definition InitSession :: "id \<Rightarrow> UserProfileSessionRelDB list \<Rightarrow> db \<Rightarrow> err + db" where
  "InitSession sid relations d =
    syncUserProfileSessionRelations SessionIDColumn UserProfileIDColumn sid relations d"

subsection \<open>What is stored\<close>

lemma rel_key_update [simp]: "rel_key (r\<lparr>R_IsManager := b\<rparr>) = rel_key r"
  by (simp add: rel_key_def)

lemma rel_eq_iff: "r = s \<longleftrightarrow> rel_key r = rel_key s \<and> R_IsManager r = R_IsManager s"
  for r s :: UserProfileSessionRelDB
  by (cases r; cases s) (auto simp: rel_key_def)

lemma keys_upsert_rel: "rel_key ` set (upsert_rel v rows) = insert (rel_key v) (rel_key ` set rows)"
  by (auto simp: upsert_rel_def occurs_iff image_sql_update)

lemma distinct_upsert_rel:
  "distinct (map rel_key rows) \<Longrightarrow> distinct (map rel_key (upsert_rel v rows))"
  by (simp add: upsert_rel_def occurs_iff map_sql_update)

text \<open>An upsert replaces the row with the key, if there is one, and leaves the others.\<close>

lemma set_upsert_rel:
  "set (upsert_rel v rows) = insert v {r \<in> set rows. rel_key r \<noteq> rel_key v}"
proof (cases "occurs rel_key (rel_key v) rows")
  case True
  have "r\<lparr>R_IsManager := R_IsManager v\<rparr> = v" if "rel_key r = rel_key v" for r
    using that by (simp add: rel_eq_iff)
  then show ?thesis
    using True by (fastforce simp: upsert_rel_def set_sql_update occurs_iff image_iff)
next
  case False
  then show ?thesis by (auto simp: upsert_rel_def occurs_iff image_iff)
qed

lemma distinct_fold_upsert:
  "distinct (map rel_key rows) \<Longrightarrow> distinct (map rel_key (fold upsert_rel vs rows))"
  by (induction vs arbitrary: rows) (auto simp: distinct_upsert_rel)

lemma set_fold_upsert:
  "distinct (map rel_key vs) \<Longrightarrow>
   set (fold upsert_rel vs rows) = set vs \<union> {r \<in> set rows. rel_key r \<notin> rel_key ` set vs}"
proof (induction vs arbitrary: rows)
  case (Cons v vs)
  then show ?case by (fastforce simp: set_upsert_rel image_iff)
qed simp

lemma upsert_rels_ok [ok_intros]:
  assumes "db_ok d" "upsert_rels vs d = Inr d'"
  shows "db_ok d'"
proof -
  have vs: "distinct (map rel_key vs)" "\<forall>v \<in> set vs. R_UserProfileID v \<in> U_ID ` set (users d)"
    "\<forall>v \<in> set vs. R_SessionID v \<in> S_ID ` set (sessions d)"
    and d': "d' = d\<lparr>rels := fold upsert_rel vs (rels d)\<rparr>"
    using assms(2) by (simp_all add: upsert_rels_def enforce_Inr list_all_iff occurs_iff)
  have "fkey R_SessionID (fold upsert_rel vs (rels d)) S_ID (sessions d)"
    "fkey R_UserProfileID (fold upsert_rel vs (rels d)) U_ID (users d)"
    using assms(1) vs by (auto simp: fkey_def set_fold_upsert db_ok_parts)
  then show ?thesis using assms(1) by (simp add: d' db_ok_parts distinct_fold_upsert)
qed

lemma syncUserProfileSessionRelations_ok [ok_intros]:
  "db_ok d \<Longrightarrow> syncUserProfileSessionRelations a b k vs d = Inr d' \<Longrightarrow> db_ok d'"
  by (auto simp: syncUserProfileSessionRelations_def and_then_eq_Inr split: if_splits
      intro!: delete_rels_ok dest: upsert_rels_ok)

lemma InitSession_ok [ok_intros]: "db_ok d \<Longrightarrow> InitSession sid vs d = Inr d' \<Longrightarrow> db_ok d'"
  unfolding InitSession_def by (rule syncUserProfileSessionRelations_ok)

lemma distinct_relations:
  "\<forall>v \<in> set vs. R_SessionID v = sid \<Longrightarrow>
   distinct (map rel_key vs) \<longleftrightarrow> distinct (map R_UserProfileID vs)"
  by (auto simp: distinct_map inj_on_def rel_key_def)

text \<open>
  The specification of \<open>InitSession\<close>: for relations of one session that name each user once, and
  only existing users, the session ends up with exactly these relations, and no other session is
  touched.
\<close>

lemma InitSession_spec:
  assumes "\<forall>v \<in> set vs. R_SessionID v = sid" "sid \<in> S_ID ` set (sessions d)"
  shows "(case InitSession sid vs d of
     Inl e \<Rightarrow> \<not> distinct (map R_UserProfileID vs) \<or> \<not> R_UserProfileID ` set vs \<subseteq> U_ID ` set (users d)
   | Inr d' \<Rightarrow> distinct (map R_UserProfileID vs) \<and> R_UserProfileID ` set vs \<subseteq> U_ID ` set (users d) \<and>
       set (rels d') = set vs \<union> {r \<in> set (rels d). R_SessionID r \<noteq> sid} \<and>
       d' = d\<lparr>rels := rels d'\<rparr>)"
proof -
  have same: "map (set_column SessionIDColumn sid) vs = vs"
    using assms(1) by (intro map_idI) (simp add: UserProfileSessionRelDB.surjective)
  have keys: "distinct (map rel_key vs) \<longleftrightarrow> distinct (map R_UserProfileID vs)"
    by (rule distinct_relations [OF assms(1)])
  show ?thesis
  proof (cases "vs = []")
    case True
    then show ?thesis
      by (auto simp: InitSession_def syncUserProfileSessionRelations_def delete_rels_def)
  next
    case False
    show ?thesis
    proof (cases "upsert_rels vs d")
      case (Inl e)
      have "upsert_rels vs d \<noteq> Inr (d\<lparr>rels := fold upsert_rel vs (rels d)\<rparr>)"
        using Inl by simp
      then have "\<not> (distinct (map rel_key vs) \<and> R_UserProfileID ` set vs \<subseteq> U_ID ` set (users d))"
        using assms unfolding upsert_rels_def enforce_Inr
        by (auto simp: list_all_iff occurs_iff)
      then show ?thesis
        using False Inl by (simp add: InitSession_def syncUserProfileSessionRelations_def same keys)
    next
      case (Inr d1)
      then have d1: "distinct (map rel_key vs)" "R_UserProfileID ` set vs \<subseteq> U_ID ` set (users d)"
        "d1 = d\<lparr>rels := fold upsert_rel vs (rels d)\<rparr>"
        by (auto simp: upsert_rels_def enforce_Inr list_all_iff occurs_iff)
      have "set (rels (delete_rels (\<lambda>r. R_SessionID r = sid \<and>
            list_all (\<lambda>v. R_UserProfileID r \<noteq> R_UserProfileID v) vs) d1)) =
          set vs \<union> {r \<in> set (rels d). R_SessionID r \<noteq> sid}"
        using assms(1) d1(1)
        by (auto simp: d1(3) delete_rels_def set_fold_upsert list_all_iff rel_key_def image_iff)
      then show ?thesis
        using False Inr d1
        by (simp add: InitSession_def syncUserProfileSessionRelations_def same keys delete_rels_def)
    qed
  qed
qed

lemma InitSession_Inr:
  assumes "InitSession sid vs d = Inr d'" "\<forall>v \<in> set vs. R_SessionID v = sid"
    "sid \<in> S_ID ` set (sessions d)"
  shows "distinct (map R_UserProfileID vs) \<and> R_UserProfileID ` set vs \<subseteq> U_ID ` set (users d) \<and>
    set (rels d') = set vs \<union> {r \<in> set (rels d). R_SessionID r \<noteq> sid} \<and> d' = d\<lparr>rels := rels d'\<rparr>"
  using InitSession_spec [OF assms(2,3)] assms(1) by simp

end
