(* ===== verification/Sessions.thy ===== *)
theory Sessions
  imports Relations
begin

section \<open>Sessions: create, update, delete, archive, read, list\<close>

text \<open>
  \<open>session_create.go\<close>, \<open>session_update.go\<close>, \<open>session_delete.go\<close>, \<open>session_archive.go\<close>,
  \<open>session_read.go\<close> and \<open>sessions_list.go\<close> of \<open>restapi/handlers\<close>. For each handler the model has
  its \<open>Authorize\<close>, its \<open>handle\<close> (the transaction) and its \<open>Handle\<close> (the reply). \<open>uuid.V4\<close> is an
  argument: the identifier that the call returned.
\<close>

subsection \<open>The membership limit\<close>

text \<open>\<open>session.Options\<close>: \<open>None\<close> stands for a nil pointer, otherwise the configured limit.\<close>

type_synonym session_options = "int option"

definition membership_count :: "id \<Rightarrow> db \<Rightarrow> int" where
  "membership_count uid d = int (length (filter
     (\<lambda>(r, s). R_UserProfileID r = uid \<and> S_State s \<noteq> Archived)
     (inner_join (\<lambda>r s. S_ID s = R_SessionID r) (rels d) (sessions d))))"

definition limit_exceeded :: "session_options \<Rightarrow> Principal \<Rightarrow> db \<Rightarrow> bool" where
  "limit_exceeded opts pr d = (case opts of None \<Rightarrow> False
     | Some limit \<Rightarrow> \<not> IsGlobalManager pr \<and> limit \<le> membership_count (Subject pr) d)"

subsection \<open>SessionCreate\<close>

definition SessionCreate_Authorize :: "Principal \<Rightarrow> bool" where
  "SessionCreate_Authorize pr = (if IsPending pr then False else True)"

text \<open>\<open>slices.Delete(s, i, j)\<close> of the Go library removes \<open>s[i:j]\<close>.\<close>

definition slices_Delete :: "'a list \<Rightarrow> nat \<Rightarrow> nat \<Rightarrow> 'a list" where
  "slices_Delete xs i j = take i xs @ drop j xs"

text \<open>The loop over the members: at the first index that holds the creator, as written.\<close>

fun index_of :: "'a \<Rightarrow> 'a list \<Rightarrow> nat option" where
  "index_of x [] = None"
| "index_of x (y # ys) = (if y = x then Some 0 else map_option Suc (index_of x ys))"

definition drop_creator :: "id \<Rightarrow> id list \<Rightarrow> id list" where
  "drop_creator uid ms = (case index_of uid ms of None \<Rightarrow> ms | Some i \<Rightarrow> slices_Delete ms i i)"

text \<open>The row of \<open>models.SessionDB\<close> for an API session, with \<open>RulesetID = nil\<close>.\<close>

definition to_SessionDB :: "Session \<Rightarrow> session_state \<Rightarrow> SessionDB" where
  "to_SessionDB s st = \<lparr>S_ID = ID s, S_Name = Name s, S_Private = Private s, S_RulesIsSet = RulesIsSet s,
     S_State = st, S_RulesetID = None\<rparr>"

definition prepare_session :: "Principal \<Rightarrow> id \<Rightarrow> Session \<Rightarrow> Session" where
  "prepare_session pr uuid s =
    s\<lparr>ID := uuid, Members := drop_creator (Subject pr) (Members s),
      Managers := (if Subject pr \<in> set (Managers s) then Managers s else Managers s @ [Subject pr])\<rparr>"

definition SessionCreate_handle ::
    "session_options \<Rightarrow> id \<Rightarrow> Session \<Rightarrow> Principal \<Rightarrow> db \<Rightarrow> Session tx" where
  "SessionCreate_handle opts uuid body pr d =
    (if \<not> SessionCreate_Authorize pr then Inl ErrForbidden
     else if limit_exceeded opts pr d
       then Inl (NewErrSessionLimitExceeded ''session membership limit exceeded'')
     else let session = prepare_session pr uuid body in
       and_then (insert_session (to_SessionDB session Pending) d) (\<lambda>d1.
       and_then (InitSession (ID session)
           (ToUserProfileSessionRelDB (ID session) (Members session) (Managers session)) d1) (\<lambda>d2.
       Inr (session\<lparr>State := Some Pending\<rparr>, d2, [PublishSessionCreate (ID session)]))))"

definition SessionCreate_Handle ::
    "session_options \<Rightarrow> id \<Rightarrow> Session \<Rightarrow> Principal \<Rightarrow> db \<Rightarrow> Session reply" where
  "SessionCreate_Handle opts uuid body pr d =
    respond [case_forbidden, case_not_found, case_invalid, case_session_limit] 201 d
      (SessionCreate_handle opts uuid body pr d)"

subsection \<open>SessionUpdate\<close>

definition SessionUpdate_Authorize :: "id \<Rightarrow> Principal \<Rightarrow> db \<Rightarrow> bool" where
  "SessionUpdate_Authorize sid pr d =
    (if IsPending pr then False
     else if IsGlobalManager pr then True
     else IsSessionManager (Subject pr) sid d)"

text \<open>
  \<open>sqlH.Upsert\<close> writes every column of the row, including the nil ruleset. A state that the enum
  does not have is refused with SQLSTATE 22P02.
\<close>

definition upsert_session :: "Session \<Rightarrow> db \<Rightarrow> err + db" where
  "upsert_session s d = (case State s of
     None \<Rightarrow> Inl (PqError ''22P02'' '''')
   | Some st \<Rightarrow>
       if occurs S_ID (ID s) (sessions d) then update_session_row (to_SessionDB s st) d
       else insert_session (to_SessionDB s st) d)"

definition SessionUpdate_handle :: "id \<Rightarrow> Session \<Rightarrow> Principal \<Rightarrow> db \<Rightarrow> Session tx" where
  "SessionUpdate_handle sid body pr d =
    (if \<not> SessionUpdate_Authorize sid pr d then Inl ErrForbidden
     else
       and_then (upsert_session body d) (\<lambda>d1.
       and_then (InitSession (ID body)
           (ToUserProfileSessionRelDB (ID body) (Members body) (Managers body)) d1) (\<lambda>d2.
       Inr (body, d2, []))))"

definition SessionUpdate_Handle :: "id \<Rightarrow> Session \<Rightarrow> Principal \<Rightarrow> db \<Rightarrow> Session reply" where
  "SessionUpdate_Handle sid body pr d =
    respond [case_forbidden, case_not_found, case_invalid] 200 d (SessionUpdate_handle sid body pr d)"

text \<open>
  \<open>Session.ContextValidate\<close> (\<open>models/session.go\<close>), which the generated parameter binding applies to
  the body of a request before the handler sees it: the read-only fields have to be empty.
\<close>

definition ContextValidate_Session :: "Session \<Rightarrow> bool" where
  "ContextValidate_Session s = (ID s = '''' \<and> \<not> PendingInvitation s \<and> Players s = [])"

subsection \<open>SessionDelete\<close>

definition SessionDelete_Authorize :: "id \<Rightarrow> Principal \<Rightarrow> db \<Rightarrow> bool" where
  "SessionDelete_Authorize sid pr d =
    (if IsPending pr then False
     else if IsGlobalManager pr then True
     else IsSessionManager (Subject pr) sid d)"

definition getSessionMemberIDs :: "id \<Rightarrow> db \<Rightarrow> id list" where
  "getSessionMemberIDs sid d = map R_UserProfileID (sql_select (\<lambda>r. R_SessionID r = sid) (rels d))"

definition SessionDelete_handle :: "id \<Rightarrow> Principal \<Rightarrow> db \<Rightarrow> unit tx" where
  "SessionDelete_handle sid pr d =
    (case get_session sid d of
       Inl e \<Rightarrow> (if errors_Is e NoRows then Inl (ErrSessionNotFound (''session not found: '' @ sid)) else Inl e)
     | Inr s \<Rightarrow>
        if \<not> SessionDelete_Authorize sid pr d then Inl ErrForbidden
        else let notifyUserIDs = getSessionMemberIDs sid d @ GetSessionInviteeIDs sid d in
          and_then (delete_sessions (\<lambda>r. S_ID r = sid) d) (\<lambda>d1.
          if sql_count (\<lambda>r. S_ID r = sid) (sessions d) = 0
            then Inl (ErrSessionNotFound (''session not found: '' @ sid))
          else Inr ((), d1, [PublishSessionDelete sid notifyUserIDs (S_Private s)])))"

definition SessionDelete_Handle :: "id \<Rightarrow> Principal \<Rightarrow> db \<Rightarrow> unit reply" where
  "SessionDelete_Handle sid pr d =
    respond [case_forbidden, case_not_found] 204 d (SessionDelete_handle sid pr d)"

subsection \<open>SessionArchive\<close>

definition SessionArchive_Authorize :: "id \<Rightarrow> Principal \<Rightarrow> db \<Rightarrow> bool" where
  "SessionArchive_Authorize sid pr d =
    (if IsPending pr then False
     else if IsGlobalManager pr then True
     else IsSessionManager (Subject pr) sid d)"

definition SessionArchive_handle :: "id \<Rightarrow> Principal \<Rightarrow> db \<Rightarrow> Session tx" where
  "SessionArchive_handle sid pr d =
    (case get_session sid d of
       Inl e \<Rightarrow> (if errors_Is e NoRows then Inl (ErrSessionNotFound (''session not found: '' @ sid)) else Inl e)
     | Inr s \<Rightarrow>
        if \<not> SessionArchive_Authorize sid pr d then Inl ErrForbidden
        else if S_State s \<noteq> Started
          then Inl (NewErrPreconditionFailed ''can only archive sessions that are started'')
        else let s1 = s\<lparr>S_State := Archived\<rparr> in
          and_then (update_session_row s1 d) (\<lambda>d1.
          Inr (FromDB s1 d1, d1, [PublishSessionUpdate sid])))"

definition SessionArchive_Handle :: "id \<Rightarrow> Principal \<Rightarrow> db \<Rightarrow> Session reply" where
  "SessionArchive_Handle sid pr d =
    respond [case_forbidden, case_not_found, case_precondition] 200 d (SessionArchive_handle sid pr d)"

subsection \<open>SessionRead\<close>

definition SessionRead_Authorize :: "id \<Rightarrow> Principal \<Rightarrow> db \<Rightarrow> bool" where
  "SessionRead_Authorize sid pr d =
    (if IsGlobalManager pr then True else CanAccessSession (Subject pr) sid d)"

definition SessionRead_handle :: "id \<Rightarrow> Principal \<Rightarrow> db \<Rightarrow> Session tx" where
  "SessionRead_handle sid pr d =
    (if \<not> SessionRead_Authorize sid pr d then Inl ErrForbidden
     else case get_session sid d of
       Inl e \<Rightarrow> (if errors_Is e NoRows
         then Inl (ErrSessionNotFound (''session not found with ID: '' @ sid)) else Inl e)
     | Inr s \<Rightarrow> let session = FromDB s d in
        if \<not> IsGlobalManager pr \<and> \<not> IsSessionMember (Subject pr) sid d
        then Inr (session\<lparr>PendingInvitation := IsInvitedToSession (Subject pr) sid d\<rparr>, d, [])
        else Inr (session, d, []))"

definition SessionRead_Handle :: "id \<Rightarrow> Principal \<Rightarrow> db \<Rightarrow> Session reply" where
  "SessionRead_Handle sid pr d =
    respond [case_forbidden, case_not_found, case_invalid] 200 d (SessionRead_handle sid pr d)"

subsection \<open>SessionsList\<close>

text \<open>The condition of the query on a row of the two left joins, as the \<open>sq.Or\<close> is written.\<close>

definition list_filter ::
    "id \<Rightarrow> (SessionDB \<times> UserProfileSessionRelDB option) \<times> InvitationDB option \<Rightarrow> bool" where
  "list_filter uid row = (case row of ((s, upsr), iv) \<Rightarrow>
     S_Private s = False \<or>
     (S_Private s = True \<and> (case upsr of None \<Rightarrow> False | Some r \<Rightarrow> R_UserProfileID r = uid)) \<or>
     (S_Private s = True \<and> iv \<noteq> None))"

definition list_query :: "bool \<Rightarrow> Principal \<Rightarrow> db \<Rightarrow> SessionDB list" where
  "list_query includeArchived pr d =
    (let base = sql_select (\<lambda>s. includeArchived \<or> S_State s \<noteq> Archived) (sessions d) in
     order_by S_ID
      (if IsGlobalManager pr then base
       else remdups (map (fst \<circ> fst) (sql_select (list_filter (Subject pr))
         (left_join (\<lambda>row i. S_ID (fst row) = I_SessionID i \<and> I_UserProfileID i = Subject pr)
           (left_join (\<lambda>s r. S_ID s = R_SessionID r) base (rels d)) (invitations d))))))"

definition flag_pending :: "Principal \<Rightarrow> id set \<Rightarrow> Session \<Rightarrow> Session" where
  "flag_pending pr invited s =
    (if ID s \<in> invited \<and> Subject pr \<notin> set (Members s) \<and> Subject pr \<notin> set (Managers s)
     then s\<lparr>PendingInvitation := True\<rparr> else s)"

definition SessionsList_handle :: "bool \<Rightarrow> Principal \<Rightarrow> db \<Rightarrow> Session list" where
  "SessionsList_handle includeArchived pr d =
    map (\<lambda>s. if IsGlobalManager pr then FromDB s d
             else flag_pending pr (GetUserInvitedSessionIDs (Subject pr) d) (FromDB s d))
      (list_query includeArchived pr d)"

subsection \<open>Each handler keeps the integrity of the database\<close>

lemma SessionCreate_keeps:
  "db_ok d \<Longrightarrow> SessionCreate_handle opts uuid body pr d = Inr (x, d', ns) \<Longrightarrow> db_ok d'"
  by (auto simp: SessionCreate_handle_def Let_def and_then_eq_Inr split: if_splits
      dest: insert_session_ok InitSession_ok)

lemma upsert_session_ok [ok_intros]: "db_ok d \<Longrightarrow> upsert_session s d = Inr d' \<Longrightarrow> db_ok d'"
  by (auto simp: upsert_session_def split: option.splits if_splits
      dest: insert_session_ok update_session_row_ok)

lemma SessionUpdate_keeps:
  "db_ok d \<Longrightarrow> SessionUpdate_handle sid body pr d = Inr (x, d', ns) \<Longrightarrow> db_ok d'"
  by (auto simp: SessionUpdate_handle_def and_then_eq_Inr split: if_splits
      dest: upsert_session_ok InitSession_ok)

lemma SessionDelete_keeps:
  "db_ok d \<Longrightarrow> SessionDelete_handle sid pr d = Inr (x, d', ns) \<Longrightarrow> db_ok d'"
  by (auto simp: SessionDelete_handle_def Let_def and_then_eq_Inr split: if_splits sum.splits
      dest: delete_sessions_ok)

lemma SessionArchive_keeps:
  "db_ok d \<Longrightarrow> SessionArchive_handle sid pr d = Inr (x, d', ns) \<Longrightarrow> db_ok d'"
  by (auto simp: SessionArchive_handle_def Let_def and_then_eq_Inr split: if_splits sum.splits
      dest: update_session_row_ok)

lemma SessionRead_keeps:
  "db_ok d \<Longrightarrow> SessionRead_handle sid pr d = Inr (x, d', ns) \<Longrightarrow> db_ok d'"
  by (auto simp: SessionRead_handle_def Let_def split: if_splits sum.splits)

lemma SessionCreate_authorized:
  "SessionCreate_handle opts uuid body pr d = Inr (x, d', ns) \<Longrightarrow> SessionCreate_Authorize pr"
  by (auto simp: SessionCreate_handle_def split: if_splits sum.splits)

lemma SessionUpdate_authorized:
  "SessionUpdate_handle sid body pr d = Inr (x, d', ns) \<Longrightarrow> SessionUpdate_Authorize sid pr d"
  by (auto simp: SessionUpdate_handle_def split: if_splits sum.splits)

lemma SessionDelete_authorized:
  "SessionDelete_handle sid pr d = Inr (x, d', ns) \<Longrightarrow> SessionDelete_Authorize sid pr d"
  by (auto simp: SessionDelete_handle_def split: if_splits sum.splits)

lemma SessionArchive_authorized:
  "SessionArchive_handle sid pr d = Inr (x, d', ns) \<Longrightarrow> SessionArchive_Authorize sid pr d"
  by (auto simp: SessionArchive_handle_def split: if_splits sum.splits)

lemma SessionRead_authorized:
  "SessionRead_handle sid pr d = Inr (x, d', ns) \<Longrightarrow> SessionRead_Authorize sid pr d"
  by (auto simp: SessionRead_handle_def split: if_splits sum.splits)

interpretation create_req: guarded_request
  "\<lambda>(opts, uuid, body, pr). SessionCreate_handle opts uuid body pr"
  "\<lambda>(opts, uuid, body, pr). SessionCreate_Handle opts uuid body pr"
  db_ok "\<lambda>(opts, uuid, body, pr) d. SessionCreate_Authorize pr"
  by unfold_locales (auto simp: SessionCreate_Handle_def dest: SessionCreate_keeps SessionCreate_authorized)

interpretation update_req: guarded_request
  "\<lambda>(sid, body, pr). SessionUpdate_handle sid body pr"
  "\<lambda>(sid, body, pr). SessionUpdate_Handle sid body pr"
  db_ok "\<lambda>(sid, body, pr) d. SessionUpdate_Authorize sid pr d"
  by unfold_locales (auto simp: SessionUpdate_Handle_def dest: SessionUpdate_keeps SessionUpdate_authorized)

interpretation delete_req: guarded_request
  "\<lambda>(sid, pr). SessionDelete_handle sid pr"
  "\<lambda>(sid, pr). SessionDelete_Handle sid pr"
  db_ok "\<lambda>(sid, pr) d. SessionDelete_Authorize sid pr d"
  by unfold_locales (auto simp: SessionDelete_Handle_def dest: SessionDelete_keeps SessionDelete_authorized)

interpretation archive_req: guarded_request
  "\<lambda>(sid, pr). SessionArchive_handle sid pr"
  "\<lambda>(sid, pr). SessionArchive_Handle sid pr"
  db_ok "\<lambda>(sid, pr) d. SessionArchive_Authorize sid pr d"
  by unfold_locales (auto simp: SessionArchive_Handle_def dest: SessionArchive_keeps SessionArchive_authorized)

interpretation read_req: guarded_request
  "\<lambda>(sid, pr). SessionRead_handle sid pr"
  "\<lambda>(sid, pr). SessionRead_Handle sid pr"
  db_ok "\<lambda>(sid, pr) d. SessionRead_Authorize sid pr d"
  by unfold_locales (auto simp: SessionRead_Handle_def dest: SessionRead_keeps SessionRead_authorized)

subsection \<open>Creation\<close>

lemma index_of_Some: "x \<in> set xs \<Longrightarrow> \<exists>i. index_of x xs = Some i \<and> i < length xs \<and> xs ! i = x"
  by (induction xs) auto

text \<open>As written, the loop removes nothing.\<close>

lemma drop_creator_id: "drop_creator u ms = ms"
  by (simp add: drop_creator_def slices_Delete_def split: option.splits)

lemma prepare_session_simps [simp]:
  "ID (prepare_session pr uuid s) = uuid"
  "Name (prepare_session pr uuid s) = Name s"
  "Private (prepare_session pr uuid s) = Private s"
  "RulesIsSet (prepare_session pr uuid s) = RulesIsSet s"
  "Members (prepare_session pr uuid s) = Members s"
  "Managers (prepare_session pr uuid s) =
    (if Subject pr \<in> set (Managers s) then Managers s else Managers s @ [Subject pr])"
  by (simp_all add: prepare_session_def drop_creator_id)

lemma relations_session: "\<forall>v \<in> set (ToUserProfileSessionRelDB sid ms gs). R_SessionID v = sid"
  by (auto simp: ToUserProfileSessionRelDB_def)

lemma relations_users: "map R_UserProfileID (ToUserProfileSessionRelDB sid ms gs) = ms @ gs"
  by (simp add: ToUserProfileSessionRelDB_def comp_def)

lemma insert_session_Inr:
  "insert_session s d = Inr d' \<longleftrightarrow> S_ID s \<notin> S_ID ` set (sessions d) \<and>
    occurs_opt RS_ID (S_RulesetID s) (rulesets d) \<and> d' = d\<lparr>sessions := sql_insert s (sessions d)\<rparr>"
  by (simp add: insert_session_def enforce_Inr occurs_iff)

text \<open>
  \<^bold>\<open>C8\<close>: a session that was created is a new pending session, the creator is one of its
  managers, its relations are exactly the members and managers of the request with the creator, the
  caller was under the membership limit, and nothing else in the database changed.
\<close>

theorem SessionCreate_correct:
  assumes "db_ok d" "SessionCreate_handle opts uuid body pr d = Inr (x, d', ns)"
  shows "sessions d' = sessions d @ [to_SessionDB (body\<lparr>ID := uuid\<rparr>) Pending] \<and>
    uuid \<notin> S_ID ` set (sessions d) \<and>
    IsSessionManager (Subject pr) uuid d' \<and>
    set (rels d') = set (rels d) \<union> set (ToUserProfileSessionRelDB uuid (Members body)
      (if Subject pr \<in> set (Managers body) then Managers body else Managers body @ [Subject pr])) \<and>
    d' = d\<lparr>sessions := sessions d', rels := rels d'\<rparr> \<and>
    \<not> limit_exceeded opts pr d \<and> ns = [PublishSessionCreate uuid]"
proof -
  let ?s = "prepare_session pr uuid body"
  let ?vs = "ToUserProfileSessionRelDB uuid (Members ?s) (Managers ?s)"
  obtain d1 where ins: "insert_session (to_SessionDB ?s Pending) d = Inr d1"
    and init: "InitSession uuid ?vs d1 = Inr d'" and lim: "\<not> limit_exceeded opts pr d"
    and ns: "ns = [PublishSessionCreate uuid]"
    using assms(2) by (auto simp: SessionCreate_handle_def Let_def and_then_eq_Inr split: if_splits)
  have row: "to_SessionDB ?s Pending = to_SessionDB (body\<lparr>ID := uuid\<rparr>) Pending"
    by (simp add: to_SessionDB_def)
  have d1: "uuid \<notin> S_ID ` set (sessions d)"
    "d1 = d\<lparr>sessions := sessions d @ [to_SessionDB (body\<lparr>ID := uuid\<rparr>) Pending]\<rparr>"
    using ins by (simp_all add: insert_session_Inr row sql_insert_def to_SessionDB_def)
  have "uuid \<in> S_ID ` set (sessions d1)" by (simp add: d1(2) to_SessionDB_def)
  then have spec: "set (rels d') = set ?vs \<union> {r \<in> set (rels d1). R_SessionID r \<noteq> uuid}"
    "d' = d1\<lparr>rels := rels d'\<rparr>"
    using InitSession_Inr [OF init relations_session] by blast+
  have none: "{r \<in> set (rels d1). R_SessionID r \<noteq> uuid} = set (rels d)"
    using d1 assms(1) by (fastforce simp: db_ok_def session_refs_def fkey_def)
  have ok: "db_ok d'" using SessionCreate_keeps [OF assms] .
  have "\<lparr>R_UserProfileID = Subject pr, R_SessionID = uuid, R_IsManager = True\<rparr> \<in> set (rels d')"
    by (auto simp: spec(1) ToUserProfileSessionRelDB_def)
  then have "IsSessionManager (Subject pr) uuid d'"
    using ok by (simp add: IsSessionManager_iff db_ok_parts)
  moreover have sess: "sessions d' = sessions d1"
    using arg_cong [OF spec(2), of sessions] by simp
  moreover have "d1\<lparr>rels := rels d'\<rparr> = d\<lparr>sessions := sessions d', rels := rels d'\<rparr>"
    by (simp add: sess d1(2))
  with spec(2) have "d' = d\<lparr>sessions := sessions d', rels := rels d'\<rparr>"
    by (rule trans)
  ultimately show ?thesis using spec(1) none d1 lim ns by auto
qed

text \<open>
  A creator who lists himself among the members, which the code means to allow by taking
  him out of the list, never gets the session: the request ends in an internal error.
\<close>

lemma SessionCreate_creator_listed_as_member:
  assumes "\<not> IsPending pr" "\<not> limit_exceeded opts pr d" "Subject pr \<in> set (Members body)"
  shows "SessionCreate_Handle opts uuid body pr d = (Failure 500 None, d, [])"
proof -
  let ?s = "prepare_session pr uuid body"
  let ?vs = "ToUserProfileSessionRelDB uuid (Members ?s) (Managers ?s)"
  have "\<not> distinct (map R_UserProfileID ?vs)"
    using assms(3) by (auto simp: relations_users)
  then have "\<not> distinct (map rel_key ?vs)"
    by (simp add: distinct_relations [OF relations_session])
  moreover have "?vs \<noteq> []" using assms(3) by (auto simp: ToUserProfileSessionRelDB_def)
  moreover have "map (set_column SessionIDColumn uuid) ?vs = ?vs"
    by (simp add: ToUserProfileSessionRelDB_def)
  ultimately have "InitSession uuid ?vs d1 = Inl cardinality_violation" for d1
    by (simp add: InitSession_def syncUserProfileSessionRelations_def upsert_rels_def enforce.simps)
  moreover have "\<exists>c k. e = PqError c k" if "insert_session r d = Inl e" for e r
    using that by (auto simp: insert_session_def enforce.simps unique_violation_def
        foreign_key_violation_def split: if_splits)
  ultimately show ?thesis
    using assms(1,2) by (cases "insert_session (to_SessionDB ?s Pending) d")
      (force simp: SessionCreate_Handle_def SessionCreate_handle_def SessionCreate_Authorize_def Let_def
        cardinality_violation_def InternalError_def)+
qed

theorem SessionCreate_correct_witness:
  "\<exists>x d' ns. SessionCreate_handle (Some 10) ''n''
      \<lparr>ID = '''', Name = ''new'', Private = True, RulesIsSet = False, State = None, Members = [''v''],
        Managers = [], Players = [], PendingInvitation = False\<rparr>
      (example_principal ''u'') (example_db Pending False) = Inr (x, d', ns) \<and>
    IsSessionManager ''u'' ''n'' d' \<and> ns = [PublishSessionCreate ''n'']"
proof -
  let ?body = "\<lparr>ID = '''', Name = ''new'', Private = True, RulesIsSet = False, State = None,
    Members = [''v''], Managers = [], Players = [], PendingInvitation = False\<rparr> :: Session"
  let ?run = "SessionCreate_handle (Some 10) ''n'' ?body (example_principal ''u'') (example_db Pending False)"
  have "isl ?run = False" by code_simp
  then obtain x d' ns where "?run = Inr (x, d', ns)" by (cases ?run) auto
  then show ?thesis
    using SessionCreate_correct [OF example_db_ok, of "Some 10" "''n''" ?body "example_principal ''u''"]
    by (auto simp: example_principal_def)
qed

subsection \<open>Listing and reading agree\<close>

lemma get_session_key:
  assumes "distinct (map S_ID (sessions d))" "s \<in> set (sessions d)"
  shows "get_session (S_ID s) d = Inr s"
  using sql_first_key [OF assms] by (simp add: get_session_def)

lemma IsSessionPublic_key:
  assumes "distinct (map S_ID (sessions d))" "s \<in> set (sessions d)"
  shows "IsSessionPublic (S_ID s) d \<longleftrightarrow> \<not> S_Private s"
  using sql_first_key [OF assms] by (simp add: IsSessionPublic_def)

lemma list_join_iff:
  "(\<exists>row \<in> set (left_join (\<lambda>row i. S_ID (fst row) = I_SessionID i \<and> I_UserProfileID i = uid)
       (left_join (\<lambda>s r. S_ID s = R_SessionID r) base (rels d)) (invitations d)).
      list_filter uid row \<and> fst (fst row) = s) \<longleftrightarrow>
   s \<in> set base \<and> (\<not> S_Private s \<or> IsSessionMember uid (S_ID s) d \<or> IsInvitedToSession uid (S_ID s) d)"
  (is "?lhs \<longleftrightarrow> ?rhs")
proof
  assume ?lhs
  then show ?rhs
    by (auto simp: set_left_join list_filter_def IsSessionMember_iff IsInvitedToSession_iff rel_key_def
        invitation_key_def image_iff split: option.splits)
next
  assume r: ?rhs
  let ?j1 = "left_join (\<lambda>s r. S_ID s = R_SessionID r) base (rels d)"
  let ?on = "\<lambda>row i. S_ID (fst row) = I_SessionID i \<and> I_UserProfileID i = uid"
  have row2: "\<exists>io. (p, io) \<in> set (left_join ?on ?j1 (invitations d)) \<and>
      (io = None \<longleftrightarrow> \<not> IsInvitedToSession uid (S_ID (fst p)) d)" if "p \<in> set ?j1" for p
  proof (cases "\<exists>i \<in> set (invitations d). ?on p i")
    case True
    then obtain i where "i \<in> set (invitations d)" "?on p i" by blast
    then have "(p, Some i) \<in> set (left_join ?on ?j1 (invitations d))" "IsInvitedToSession uid (S_ID (fst p)) d"
      using that by (auto simp: set_left_join IsInvitedToSession_iff invitation_key_def)
    then show ?thesis by blast
  next
    case False
    then have "(p, None) \<in> set (left_join ?on ?j1 (invitations d))" "\<not> IsInvitedToSession uid (S_ID (fst p)) d"
      using that by (auto simp: set_left_join IsInvitedToSession_iff invitation_key_def)
    then show ?thesis by blast
  qed
  have "\<exists>ro. (s, ro) \<in> set ?j1"
    using r by (cases "\<exists>x \<in> set (rels d). S_ID s = R_SessionID x") (auto simp: set_left_join)
  moreover have "\<exists>x. (s, Some x) \<in> set ?j1 \<and> R_UserProfileID x = uid" if "IsSessionMember uid (S_ID s) d"
    using r that by (auto simp: set_left_join IsSessionMember_iff rel_key_def)
  ultimately obtain ro where ro: "(s, ro) \<in> set ?j1"
    "IsSessionMember uid (S_ID s) d \<longrightarrow> (\<exists>x. ro = Some x \<and> R_UserProfileID x = uid)" by metis
  obtain io where io: "((s, ro), io) \<in> set (left_join ?on ?j1 (invitations d))"
    "io = None \<longleftrightarrow> \<not> IsInvitedToSession uid (S_ID s) d"
    using row2 [OF ro(1)] by auto
  then have "list_filter uid ((s, ro), io)" using r ro by (auto simp: list_filter_def)
  then show ?lhs using io(1) by force
qed

lemma set_list_query:
  assumes "distinct (map S_ID (sessions d))"
  shows "set (list_query incl pr d) =
    {s \<in> set (sessions d). (incl \<or> S_State s \<noteq> Archived) \<and> SessionRead_Authorize (S_ID s) pr d}"
proof (cases "IsGlobalManager pr")
  case True
  then show ?thesis by (auto simp: list_query_def SessionRead_Authorize_def)
next
  case False
  let ?base = "sql_select (\<lambda>s. incl \<or> S_State s \<noteq> Archived) (sessions d)"
  have eq: "set (list_query incl pr d) =
      {s. s \<in> set ?base \<and> (\<not> S_Private s \<or> IsSessionMember (Subject pr) (S_ID s) d \<or>
        IsInvitedToSession (Subject pr) (S_ID s) d)}"
    using False unfolding list_join_iff [symmetric, of _ ?base]
    by (force simp: list_query_def Let_def)
  have auth: "SessionRead_Authorize (S_ID s) pr d \<longleftrightarrow> \<not> S_Private s \<or> IsSessionMember (Subject pr) (S_ID s) d \<or>
        IsInvitedToSession (Subject pr) (S_ID s) d" if "s \<in> set (sessions d)" for s
    using False by (simp add: SessionRead_Authorize_def CanAccessSession_iff IsSessionPublic_key [OF assms that])
  show ?thesis unfolding eq using auth by auto
qed

lemma not_listed_as_member:
  "Subject pr \<notin> set (Members (FromDB s d)) \<and> Subject pr \<notin> set (Managers (FromDB s d)) \<longleftrightarrow>
   \<not> IsSessionMember (Subject pr) (S_ID s) d"
  by (auto simp: FromDB_def MembersID_def ManagersID_def IsSessionMember_iff rel_key_def image_iff) blast

text \<open>
  Listing and reading agree. The session list of a caller consists of exactly what
  reading each session would answer him, for the sessions that he may read and that are not archived
  (or all of them on request): the join of the list query and the step-by-step check of the read
  handler are the same access rule, and the pending-invitation flag is the same too. No session
  occurs twice in the query, and the ids are in order.
\<close>

lemma SessionsList_agrees_with_SessionRead:
  assumes "db_ok d"
  shows "set (SessionsList_handle incl pr d) =
      {x. \<exists>s \<in> set (sessions d). (incl \<or> S_State s \<noteq> Archived) \<and>
        SessionRead_handle (S_ID s) pr d = Inr (x, d, [])} \<and>
    distinct (list_query incl pr d) \<and> sorted (map ID (SessionsList_handle incl pr d))"
proof -
  have keys: "distinct (map S_ID (sessions d))" using assms by (simp add: db_ok_parts)
  have invited: "S_ID s \<in> GetUserInvitedSessionIDs (Subject pr) d \<longleftrightarrow> IsInvitedToSession (Subject pr) (S_ID s) d"
    for s :: SessionDB
    by (auto simp: GetUserInvitedSessionIDs_def IsInvitedToSession_iff invitation_key_def image_iff)
  let ?show = "\<lambda>s. if IsGlobalManager pr then FromDB s d
     else flag_pending pr (GetUserInvitedSessionIDs (Subject pr) d) (FromDB s d)"
  have id: "ID (FromDB s d) = S_ID s" "ID (?show s) = S_ID s" for s
    by (simp_all add: FromDB_def flag_pending_def)
  have read: "SessionRead_handle (S_ID s) pr d = Inr (x, d, []) \<longleftrightarrow>
      SessionRead_Authorize (S_ID s) pr d \<and> x = ?show s" if "s \<in> set (sessions d)" for s x
  proof -
    have "PendingInvitation (FromDB s d) = False" by (simp add: FromDB_def)
    then have same: "(FromDB s d)\<lparr>PendingInvitation := False\<rparr> = FromDB s d" by simp
    show ?thesis
      using get_session_key [OF keys that] same
      by (auto simp: SessionRead_handle_def Let_def flag_pending_def id(1) invited
          not_listed_as_member conj_assoc)
  qed
  have "sorted (map S_ID (list_query incl pr d))" "distinct (list_query incl pr d)"
    using distinct_order_by [of id] keys
    by (auto simp: list_query_def Let_def sorted_order_by sql_select_def distinct_map)
  moreover have "set (SessionsList_handle incl pr d) = ?show ` set (list_query incl pr d)"
    by (simp add: SessionsList_handle_def)
  ultimately show ?thesis
    by (auto simp: set_list_query [OF keys] read SessionsList_handle_def comp_def id(2) simp del: id(1))
qed

lemma SessionsList_agrees_with_SessionRead_witness:
  "\<exists>x \<in> set (SessionsList_handle False (example_principal ''w'') (example_db Pending True)).
     ID x = ''s'' \<and> PendingInvitation x"
proof -
  let ?d = "example_db Pending True" and ?pr = "example_principal ''w''"
  let ?run = "SessionRead_handle ''s'' ?pr ?d"
  have run: "?run = Inr (fst (projr ?run), ?d, [])" "ID (fst (projr ?run)) = ''s''"
    "PendingInvitation (fst (projr ?run))"
    by code_simp+
  have "example_session Pending True \<in> set (sessions ?d)" "S_ID (example_session Pending True) = ''s''"
    by (simp_all add: example_defs)
  then have "fst (projr ?run) \<in> set (SessionsList_handle False ?pr ?d)"
    using SessionsList_agrees_with_SessionRead [OF example_db_ok, of False ?pr Pending True] run(1)
    by (force simp: example_session_def)
  then show ?thesis using run by blast
qed

subsection \<open>Archiving, deleting\<close>

text \<open>
  Archiving succeeds exactly for an authorised caller on a started session; it moves
  that session to the archived state, keeps its other columns and changes no other row of any table.
\<close>

lemma SessionArchive_correct:
  assumes "db_ok d" "s \<in> set (sessions d)"
  shows "case SessionArchive_handle (S_ID s) pr d of
      Inr (x, d', ns) \<Rightarrow> SessionArchive_Authorize (S_ID s) pr d \<and> S_State s = Started \<and>
        d' = d\<lparr>sessions := sql_update (\<lambda>r. S_ID r = S_ID s) (\<lambda>r. r\<lparr>S_State := Archived\<rparr>) (sessions d)\<rparr> \<and>
        State x = Some Archived \<and> ns = [PublishSessionUpdate (S_ID s)]
    | Inl e \<Rightarrow> \<not> SessionArchive_Authorize (S_ID s) pr d \<and> e = ErrForbidden \<or>
        S_State s \<noteq> Started \<and> errors_Is e ErrPreconditionFailed"
proof -
  have keys: "distinct (map S_ID (sessions d))" using assms(1) by (simp add: db_ok_parts)
  have row: "sql_update (\<lambda>r. S_ID r = S_ID s) (\<lambda>_. s\<lparr>S_State := Archived\<rparr>) (sessions d) =
      sql_update (\<lambda>r. S_ID r = S_ID s) (\<lambda>r. r\<lparr>S_State := Archived\<rparr>) (sessions d)"
    using distinct_key_eq [OF keys _ assms(2)] by (auto simp: sql_update_def)
  have "occurs_opt RS_ID (S_RulesetID s) (rulesets d)"
    using assms by (auto simp: db_ok_def other_refs_def fkey_opt_iff occurs_opt_iff)
  then have "update_session_row (s\<lparr>S_State := Archived\<rparr>) d =
      Inr (d\<lparr>sessions := sql_update (\<lambda>r. S_ID r = S_ID s) (\<lambda>r. r\<lparr>S_State := Archived\<rparr>) (sessions d)\<rparr>)"
    by (simp add: update_session_row_def enforce.simps row)
  then show ?thesis
    by (simp add: SessionArchive_handle_def get_session_key [OF keys assms(2)] Let_def FromDB_def
        NewErrPreconditionFailed_def errors_Is_def)
qed

text \<open>
  \<^bold>\<open>C9\<close>: deleting a session removes every row that belongs to it (its relations, players,
  invitations, rules and turn files) and keeps every row of the other sessions; the notification
  names every former member and every invitee.
\<close>

theorem SessionDelete_correct:
  assumes "db_ok d" "SessionDelete_handle sid pr d = Inr (x, d', ns)"
  shows "sessions d' = sql_delete (\<lambda>s. S_ID s = sid) (sessions d) \<and>
    rels d' = sql_delete (\<lambda>r. R_SessionID r = sid) (rels d) \<and>
    sprs d' = sql_delete (\<lambda>r. P_SessionID r = sid) (sprs d) \<and>
    invitations d' = sql_delete (\<lambda>i. I_SessionID i = sid) (invitations d) \<and>
    rulesets d' = sql_delete (\<lambda>r. RS_SessionID r = sid) (rulesets d) \<and>
    files d' = sql_delete (\<lambda>f. F_SessionID f = sid) (files d) \<and>
    races d' = races d \<and> users d' = users d \<and> serials d' = serials d \<and>
    (\<exists>priv ids. ns = [PublishSessionDelete sid ids priv] \<and>
      set ids = {u. IsSessionMember u sid d \<or> IsInvitedToSession u sid d})"
proof -
  obtain s where s: "get_session sid d = Inr s" and del: "delete_sessions (\<lambda>r. S_ID r = sid) d = Inr d'"
    and ns: "ns = [PublishSessionDelete sid (getSessionMemberIDs sid d @ GetSessionInviteeIDs sid d) (S_Private s)]"
    using assms(2) by (auto simp: SessionDelete_handle_def Let_def and_then_eq_Inr split: sum.splits if_splits)
  have gone: "(\<lambda>x. sid) ` {r \<in> set (sessions d). S_ID r = sid} = {sid}"
    using get_session_Inr [OF s] by auto
  have ids: "set (getSessionMemberIDs sid d @ GetSessionInviteeIDs sid d) =
      {u. IsSessionMember u sid d \<or> IsInvitedToSession u sid d}"
    by (auto simp: getSessionMemberIDs_def GetSessionInviteeIDs_def IsSessionMember_iff
        IsInvitedToSession_iff rel_key_def invitation_key_def)
  have "\<exists>priv ids. ns = [PublishSessionDelete sid ids priv] \<and>
      set ids = {u. IsSessionMember u sid d \<or> IsInvitedToSession u sid d}"
    using ns ids by blast
  then show ?thesis
    using del by (simp add: delete_sessions_def enforce_Inr Let_def gone)
qed

theorem SessionDelete_correct_witness:
  "\<exists>x d' ns. SessionDelete_handle ''s'' (example_principal ''u'') (example_db Pending False) = Inr (x, d', ns) \<and>
    sprs d' = [] \<and> rels d' = []"
proof -
  let ?run = "SessionDelete_handle ''s'' (example_principal ''u'') (example_db Pending False)"
  have "isl ?run = False" by code_simp
  then obtain x d' ns where "?run = Inr (x, d', ns)" by (cases ?run) auto
  then show ?thesis
    using SessionDelete_correct [OF example_db_ok] by (auto simp: example_defs sql_delete_def)
qed

subsection \<open>Updating\<close>

text \<open>
  Over HTTP a session update never updates the session it addresses. The body has to
  pass \<open>ContextValidate\<close>, which demands an empty id, and the handler writes the row and the
  relations of the session that the body names; so every session with a non-empty id keeps its row,
  its members and its managers, whatever a manager sends.
\<close>

lemma SessionUpdate_over_http_updates_nothing:
  assumes "ContextValidate_Session body" "SessionUpdate_Handle sid body pr d = (r, d', ns)"
    "s \<in> set (sessions d)" "S_ID s \<noteq> ''''"
  shows "s \<in> set (sessions d') \<and>
    {x \<in> set (rels d'). R_SessionID x = S_ID s} = {x \<in> set (rels d). R_SessionID x = S_ID s}"
proof (cases r)
  case (Failure c m)
  then show ?thesis
    using assms update_req.failure_changes_nothing [of "(sid, body, pr)" d c m d' ns] by simp
next
  case (Success c x)
  then have "SessionUpdate_handle sid body pr d = Inr (x, d', ns)"
    using assms(2) update_req.success_is_committed [of "(sid, body, pr)" d c x d' ns] by simp
  then obtain d1 where up: "upsert_session body d = Inr d1"
    and init: "InitSession (ID body) (ToUserProfileSessionRelDB (ID body) (Members body) (Managers body)) d1 = Inr d'"
    by (auto simp: SessionUpdate_handle_def and_then_eq_Inr split: if_splits)
  have id: "ID body = ''''" using assms(1) by (simp add: ContextValidate_Session_def)
  obtain st where st: "State body = Some st"
    using up by (auto simp: upsert_session_def split: option.splits)
  have d1: "s \<in> set (sessions d1) \<and> rels d1 = rels d \<and> '''' \<in> S_ID ` set (sessions d1)"
  proof (cases "occurs S_ID '''' (sessions d)")
    case True
    let ?row = "to_SessionDB body st"
    have row: "S_ID ?row = ''''" by (simp add: to_SessionDB_def id)
    have d1: "d1 = d\<lparr>sessions := sql_update (\<lambda>r. S_ID r = S_ID ?row) (\<lambda>_. ?row) (sessions d)\<rparr>"
      using up st True by (simp add: upsert_session_def id update_session_row_def enforce_Inr)
    have "S_ID ` set (sessions d1) = S_ID ` set (sessions d)"
      using map_replace_keys [of S_ID ?row "sessions d"] by (simp add: d1) (metis list.set_map)
    then show ?thesis
      using True row assms(3,4) by (simp add: d1 sql_update_other occurs_iff)
  next
    case False
    then show ?thesis
      using up st assms(3) by (simp add: upsert_session_def id insert_session_Inr to_SessionDB_def)
  qed
  have "set (rels d') = set (ToUserProfileSessionRelDB (ID body) (Members body) (Managers body)) \<union>
      {r \<in> set (rels d1). R_SessionID r \<noteq> ID body}" "d' = d1\<lparr>rels := rels d'\<rparr>"
    using InitSession_Inr [OF init relations_session] d1 id by simp_all
  moreover from this(2) have "sessions d' = sessions d1"
    by (metis db.select_convs(1) db.surjective db.update_convs(2))
  ultimately show ?thesis
    using d1 assms(4) id relations_session [of "ID body"] by auto
qed

lemma SessionUpdate_over_http_updates_nothing_witness:
  "let body = \<lparr>ID = '''', Name = ''renamed'', Private = True, RulesIsSet = False, State = Some Pending,
        Members = [], Managers = [''u''], Players = [], PendingInvitation = False\<rparr>;
       r = SessionUpdate_Handle ''s'' body (example_principal ''u'') (example_db Pending False) in
     status (fst r) = 200 \<and> example_session Pending False \<in> set (sessions (fst (snd r)))"
proof -
  let ?body = "\<lparr>ID = '''', Name = ''renamed'', Private = True, RulesIsSet = False, State = Some Pending,
    Members = [], Managers = [''u''], Players = [], PendingInvitation = False\<rparr> :: Session"
  let ?d = "example_db Pending False"
  let ?r = "SessionUpdate_Handle ''s'' ?body (example_principal ''u'') ?d"
  have valid: "ContextValidate_Session ?body" by (simp add: ContextValidate_Session_def)
  have s: "example_session Pending False \<in> set (sessions ?d)" "S_ID (example_session Pending False) \<noteq> ''''"
    by (simp_all add: example_defs)
  have "status (fst ?r) = 200" by code_simp
  then show ?thesis
    using SessionUpdate_over_http_updates_nothing
      [OF valid, of "''s''" "example_principal ''u''" ?d "fst ?r" "fst (snd ?r)" "snd (snd ?r)"] s
    by (simp add: Let_def)
qed

end
