(* ===== verification/Membership.thy ===== *)
theory Membership
  imports Sessions
begin

section \<open>Membership: join, quit, promote\<close>

text \<open>
  \<open>session_join.go\<close>, \<open>session_quit.go\<close> and \<open>session_promote_member.go\<close>, and the invariant that
  every session has a manager.
\<close>

subsection \<open>SessionJoin\<close>

definition SessionJoin_Authorize :: "id \<Rightarrow> Principal \<Rightarrow> db \<Rightarrow> bool" where
  "SessionJoin_Authorize sid pr d =
    (if IsPending pr then False
     else if IsGlobalManager pr then True
     else if IsSessionPublic sid d then True
     else if IsInvitedToSession (Subject pr) sid d then True
     else False)"

text \<open>The two names that a duplicate membership is reported under, and what join makes of them.\<close>

definition join_error :: "id \<Rightarrow> id \<Rightarrow> err \<Rightarrow> err" where
  "join_error uid sid e = (case e of
     PqError code c \<Rightarrow>
       if c = ''user_profile_session_rel_user_profile_id_session_id_key'' \<or>
          c = ''user_profile_session_rel_pkey''
       then ErrAlreadyExists
         (''session membership already exists for user: '' @ uid @ '' and session: '' @ sid)
       else e
   | _ \<Rightarrow> e)"

definition SessionJoin_handle :: "session_options \<Rightarrow> id \<Rightarrow> Principal \<Rightarrow> db \<Rightarrow> Session tx" where
  "SessionJoin_handle opts sid pr d =
    (if \<not> SessionJoin_Authorize sid pr d then Inl ErrForbidden
     else if limit_exceeded opts pr d
       then Inl (NewErrSessionLimitExceeded ''session membership limit exceeded'')
     else case get_session sid d of
       Inl e \<Rightarrow> (if errors_Is e NoRows
         then Inl (ErrSessionNotFound (''session not found with ID: '' @ sid)) else Inl e)
     | Inr s \<Rightarrow>
        if S_State s \<noteq> Pending
          then Inl (ErrSessionAlreadyStarted ''cannot join a session that is not pending'')
        else case insert_rel \<lparr>R_UserProfileID = Subject pr, R_SessionID = sid, R_IsManager = False\<rparr> d of
          Inl e \<Rightarrow> Inl (join_error (Subject pr) sid e)
        | Inr d1 \<Rightarrow> let session = FromDB s d1 in
           (case sql_first (\<lambda>i. I_UserProfileID i = Subject pr \<and> I_SessionID i = sid) (invitations d1) of
              None \<Rightarrow> Inr (session, d1, [PublishSessionUpdate sid])
            | Some i \<Rightarrow> Inr (session, delete_invitations (\<lambda>x. I_ID x = I_ID i) d1,
                PublishSessionUpdate sid #
                (if I_ID i \<noteq> '''' then [PublishInvitationDelete (I_ID i) (Subject pr)] else []))))"

definition SessionJoin_Handle :: "session_options \<Rightarrow> id \<Rightarrow> Principal \<Rightarrow> db \<Rightarrow> Session reply" where
  "SessionJoin_Handle opts sid pr d =
    respond [case_forbidden, case_conflict, case_not_found, case_invalid, case_precondition,
      case_session_limit] 200 d (SessionJoin_handle opts sid pr d)"

subsection \<open>SessionQuit\<close>

definition SessionQuit_Authorize :: "Principal \<Rightarrow> bool" where
  "SessionQuit_Authorize pr = (if IsPending pr then False else True)"

definition countOtherManagers :: "id \<Rightarrow> id \<Rightarrow> db \<Rightarrow> int" where
  "countOtherManagers sid excludeUserID d =
    sql_count (\<lambda>r. R_SessionID r = sid \<and> R_IsManager r = True \<and> R_UserProfileID r \<noteq> excludeUserID)
      (rels d)"

definition SessionQuit_handle :: "id \<Rightarrow> Principal \<Rightarrow> db \<Rightarrow> unit tx" where
  "SessionQuit_handle sid pr d =
    (if \<not> SessionQuit_Authorize pr then Inl ErrForbidden
     else case get_session sid d of
       Inl e \<Rightarrow> (if errors_Is e NoRows
         then Inl (ErrSessionNotFound (''session not found with ID: '' @ sid)) else Inl e)
     | Inr s \<Rightarrow>
        if S_State s \<noteq> Pending
          then Inl (ErrSessionAlreadyStarted ''cannot leave session: session has already started'')
        else case sql_first (\<lambda>r. R_UserProfileID r = Subject pr \<and> R_SessionID r = sid) (rels d) of
          None \<Rightarrow> Inl (NewErrSomethingNotFound ''user is not a member of this session'')
        | Some r \<Rightarrow>
           if R_IsManager r \<and> countOtherManagers sid (Subject pr) d = 0
             then Inl (ErrLastManager ''cannot leave session: you are the only manager'')
           else if IsPlayerReady sid (Subject pr) d
             then Inl (ErrPlayerShouldNotBeReady ''cannot leave session: you are marked as ready'')
           else let d1 = delete_sprs (\<lambda>p. P_UserProfileID p = Subject pr \<and> P_SessionID p = sid) d;
                    d2 = delete_rels (\<lambda>x. R_UserProfileID x = Subject pr \<and> R_SessionID x = sid) d1 in
             Inr ((), d2, [PublishSessionMemberLeft sid (Subject pr) (S_Private s)]))"

definition SessionQuit_Handle :: "id \<Rightarrow> Principal \<Rightarrow> db \<Rightarrow> unit reply" where
  "SessionQuit_Handle sid pr d =
    respond [case_forbidden, case_not_found, case_precondition] 204 d (SessionQuit_handle sid pr d)"

subsection \<open>SessionPromoteMember\<close>

definition SessionPromoteMember_Authorize :: "id \<Rightarrow> Principal \<Rightarrow> db \<Rightarrow> bool" where
  "SessionPromoteMember_Authorize sid pr d =
    (if IsPending pr then False
     else if IsGlobalManager pr then True
     else IsSessionManager (Subject pr) sid d)"

definition SessionPromoteMember_handle :: "id \<Rightarrow> id \<Rightarrow> Principal \<Rightarrow> db \<Rightarrow> unit tx" where
  "SessionPromoteMember_handle sid target pr d =
    (case get_session sid d of
       Inl e \<Rightarrow> (if errors_Is e NoRows
         then Inl (ErrSessionNotFound (''session not found with ID: '' @ sid)) else Inl e)
     | Inr s \<Rightarrow>
        if \<not> SessionPromoteMember_Authorize sid pr d then Inl ErrForbidden
        else case sql_first (\<lambda>r. R_UserProfileID r = target \<and> R_SessionID r = sid) (rels d) of
          None \<Rightarrow> Inl (ErrNotAMember ''user is not a member of this session'')
        | Some r \<Rightarrow>
           if R_IsManager r then Inr ((), d, [])
           else Inr ((), update_rels (\<lambda>x. R_UserProfileID x = target \<and> R_SessionID x = sid)
                  (\<lambda>x. x\<lparr>R_IsManager := True\<rparr>) d, [PublishSessionUpdate sid]))"

definition SessionPromoteMember_Handle :: "id \<Rightarrow> id \<Rightarrow> Principal \<Rightarrow> db \<Rightarrow> unit reply" where
  "SessionPromoteMember_Handle sid target pr d =
    respond [case_forbidden, case_not_found, case_precondition] 204 d
      (SessionPromoteMember_handle sid target pr d)"

subsection \<open>The request contract\<close>

lemma SessionJoin_keeps:
  "db_ok d \<Longrightarrow> SessionJoin_handle opts sid pr d = Inr (x, d', ns) \<Longrightarrow> db_ok d'"
  by (auto simp: SessionJoin_handle_def Let_def split: if_splits sum.splits option.splits
      dest: insert_rel_ok intro: delete_invitations_ok)

lemma SessionJoin_authorized:
  "SessionJoin_handle opts sid pr d = Inr (x, d', ns) \<Longrightarrow> SessionJoin_Authorize sid pr d"
  by (auto simp: SessionJoin_handle_def split: if_splits)

lemma SessionQuit_keeps:
  "db_ok d \<Longrightarrow> SessionQuit_handle sid pr d = Inr (x, d', ns) \<Longrightarrow> db_ok d'"
  by (auto simp: SessionQuit_handle_def Let_def split: if_splits sum.splits option.splits
      intro: delete_rels_ok delete_sprs_ok)

lemma SessionQuit_authorized:
  "SessionQuit_handle sid pr d = Inr (x, d', ns) \<Longrightarrow> SessionQuit_Authorize pr"
  by (auto simp: SessionQuit_handle_def split: if_splits)

lemma SessionPromoteMember_keeps:
  "db_ok d \<Longrightarrow> SessionPromoteMember_handle sid t pr d = Inr (x, d', ns) \<Longrightarrow> db_ok d'"
  by (auto simp: SessionPromoteMember_handle_def split: if_splits sum.splits option.splits
      intro: update_rels_ok)

lemma SessionPromoteMember_authorized:
  "SessionPromoteMember_handle sid t pr d = Inr (x, d', ns) \<Longrightarrow> SessionPromoteMember_Authorize sid pr d"
  by (auto simp: SessionPromoteMember_handle_def split: if_splits sum.splits)

interpretation join_req: guarded_request
  "\<lambda>(opts, sid, pr). SessionJoin_handle opts sid pr"
  "\<lambda>(opts, sid, pr). SessionJoin_Handle opts sid pr"
  db_ok "\<lambda>(opts, sid, pr) d. SessionJoin_Authorize sid pr d"
  by unfold_locales (auto simp: SessionJoin_Handle_def dest: SessionJoin_keeps SessionJoin_authorized)

interpretation quit_req: guarded_request
  "\<lambda>(sid, pr). SessionQuit_handle sid pr"
  "\<lambda>(sid, pr). SessionQuit_Handle sid pr"
  db_ok "\<lambda>(sid, pr) d. SessionQuit_Authorize pr"
  by unfold_locales (auto simp: SessionQuit_Handle_def dest: SessionQuit_keeps SessionQuit_authorized)

interpretation promote_req: guarded_request
  "\<lambda>(sid, t, pr). SessionPromoteMember_handle sid t pr"
  "\<lambda>(sid, t, pr). SessionPromoteMember_Handle sid t pr"
  db_ok "\<lambda>(sid, t, pr) d. SessionPromoteMember_Authorize sid pr d"
  by unfold_locales
    (auto simp: SessionPromoteMember_Handle_def
      dest: SessionPromoteMember_keeps SessionPromoteMember_authorized)

subsection \<open>What joining and quitting do\<close>

text \<open>Deleting the invitation that was found deletes all invitations with its key.\<close>

lemma delete_found_invitation:
  assumes "db_ok d" "i \<in> set (invitations d)"
  shows "sql_delete (\<lambda>x. I_ID x = I_ID i) (invitations d) =
    sql_delete (\<lambda>x. invitation_key x = invitation_key i) (invitations d)"
proof -
  have "distinct (map I_ID (invitations d))" "distinct (map invitation_key (invitations d))"
    using assms(1) by (simp_all add: db_ok_parts)
  then have "I_ID x = I_ID i \<longleftrightarrow> invitation_key x = invitation_key i" if "x \<in> set (invitations d)" for x
    using that assms(2) distinct_key_eq by metis
  then show ?thesis by (auto simp: sql_delete_def intro: filter_cong)
qed

lemma insert_rel_Inr:
  "insert_rel r d = Inr d' \<longleftrightarrow> rel_key r \<notin> rel_key ` set (rels d) \<and> R_UserProfileID r \<in> U_ID ` set (users d) \<and>
     R_SessionID r \<in> S_ID ` set (sessions d) \<and> d' = d\<lparr>rels := sql_insert r (rels d)\<rparr>"
  by (simp add: insert_rel_def enforce_Inr occurs_iff)

text \<open>
  A user who joins was allowed to (the session is public or he was invited, and it is
  pending), was not a member before and is a plain member afterwards; his invitation to the session is
  consumed, all other invitations and all other tables stay as they were.
\<close>

lemma SessionJoin_correct:
  assumes "db_ok d" "SessionJoin_handle opts sid pr d = Inr (x, d', ns)"
  shows "SessionJoin_Authorize sid pr d \<and> \<not> limit_exceeded opts pr d \<and>
    (\<exists>s \<in> set (sessions d). S_ID s = sid \<and> S_State s = Pending) \<and>
    \<not> IsSessionMember (Subject pr) sid d \<and>
    d' = d\<lparr>rels := rels d @ [\<lparr>R_UserProfileID = Subject pr, R_SessionID = sid, R_IsManager = False\<rparr>],
           invitations := sql_delete (\<lambda>i. invitation_key i = (sid, Subject pr)) (invitations d)\<rparr>"
proof -
  let ?new = "\<lparr>R_UserProfileID = Subject pr, R_SessionID = sid, R_IsManager = False\<rparr>"
  let ?q = "\<lambda>i. I_UserProfileID i = Subject pr \<and> I_SessionID i = sid"
  obtain s d1 where a: "SessionJoin_Authorize sid pr d" "\<not> limit_exceeded opts pr d"
    "get_session sid d = Inr s" "S_State s = Pending" "insert_rel ?new d = Inr d1"
    using assms(2) by (auto simp: SessionJoin_handle_def split: if_splits sum.splits)
  have d1: "rel_key ?new \<notin> rel_key ` set (rels d)" "d1 = d\<lparr>rels := sql_insert ?new (rels d)\<rparr>"
    using a(5) by (simp_all add: insert_rel_Inr)
  have inv: "d' = d1\<lparr>invitations := sql_delete (\<lambda>i. invitation_key i = (sid, Subject pr)) (invitations d)\<rparr>"
  proof (cases "sql_first ?q (invitations d)")
    case None
    then have "sql_delete (\<lambda>i. invitation_key i = (sid, Subject pr)) (invitations d) = invitations d"
      by (auto simp: sql_first_None sql_delete_def invitation_key_def intro!: filter_True)
    moreover have "d' = d1" using assms(2) a None d1 by (simp add: SessionJoin_handle_def Let_def)
    ultimately show ?thesis by (simp add: d1(2))
  next
    case (Some i)
    then have i: "i \<in> set (invitations d)" "invitation_key i = (sid, Subject pr)"
      using sql_first_Some [OF Some] by (auto simp: invitation_key_def)
    have "d' = delete_invitations (\<lambda>x. I_ID x = I_ID i) d1"
      using assms(2) a Some d1 by (simp add: SessionJoin_handle_def Let_def)
    then show ?thesis
      using delete_found_invitation [OF assms(1) i(1)] i(2) by (simp add: delete_invitations_def d1(2))
  qed
  have "\<not> IsSessionMember (Subject pr) sid d"
    using d1(1) by (simp add: IsSessionMember_iff rel_key_def)
  then show ?thesis
    using a get_session_Inr [OF a(3)] inv d1(2) by (auto simp: sql_insert_def)
qed

lemma SessionJoin_correct_witness:
  "\<exists>x d' ns. SessionJoin_handle (Some 10) ''s'' (example_principal ''w'') (example_db Pending True) = Inr (x, d', ns) \<and>
    invitations d' = [] \<and> \<not> IsSessionMember ''w'' ''s'' (example_db Pending True)"
proof -
  let ?run = "SessionJoin_handle (Some 10) ''s'' (example_principal ''w'') (example_db Pending True)"
  have "isl ?run = False" by code_simp
  then obtain x d' ns where run: "?run = Inr (x, d', ns)" by (cases ?run) auto
  then show ?thesis
    using SessionJoin_correct [OF example_db_ok run]
    by (auto simp: example_defs sql_delete_def invitation_key_def)
qed

text \<open>
  \<^bold>\<open>C10\<close>: a user who quits is no member and no player of the session any more; this is only
  possible while the session is pending and he is not marked as ready, and a manager leaves only when
  another manager remains. Nothing else changes.
\<close>

theorem SessionQuit_correct:
  assumes "db_ok d" "SessionQuit_handle sid pr d = Inr (x, d', ns)"
  shows "(\<exists>s \<in> set (sessions d). S_ID s = sid \<and> S_State s = Pending) \<and>
    IsSessionMember (Subject pr) sid d \<and> \<not> IsSessionMember (Subject pr) sid d' \<and>
    \<not> IsPlayerReady sid (Subject pr) d \<and>
    (IsSessionManager (Subject pr) sid d \<longrightarrow> (\<exists>u. u \<noteq> Subject pr \<and> IsSessionManager u sid d')) \<and>
    d' = d\<lparr>rels := sql_delete (\<lambda>r. rel_key r = (Subject pr, sid)) (rels d),
           sprs := sql_delete (\<lambda>p. P_UserProfileID p = Subject pr \<and> P_SessionID p = sid) (sprs d)\<rparr>"
proof -
  let ?me = "\<lambda>r. R_UserProfileID r = Subject pr \<and> R_SessionID r = sid"
  obtain s r where a: "get_session sid d = Inr s" "S_State s = Pending"
    "sql_first ?me (rels d) = Some r" "\<not> IsPlayerReady sid (Subject pr) d"
    "R_IsManager r \<Longrightarrow> countOtherManagers sid (Subject pr) d \<noteq> 0"
    using assms(2) by (auto simp: SessionQuit_handle_def split: if_splits sum.splits option.splits)
  have d': "d' = d\<lparr>rels := sql_delete ?me (rels d),
      sprs := sql_delete (\<lambda>p. P_UserProfileID p = Subject pr \<and> P_SessionID p = sid) (sprs d)\<rparr>"
    using assms(2) a by (auto simp: SessionQuit_handle_def Let_def delete_rels_def delete_sprs_def split: if_splits)
  have keys: "distinct (map rel_key (rels d))" and keys': "distinct (map rel_key (rels d'))"
    using assms(1) SessionQuit_keeps [OF assms] by (simp_all add: db_ok_parts)
  have me: "?me = (\<lambda>r. rel_key r = (Subject pr, sid))" by (auto simp: rel_key_def)
  have r: "r \<in> set (rels d)" "?me r" using sql_first_Some [OF a(3)] by simp_all
  have manager: "\<exists>u. u \<noteq> Subject pr \<and> IsSessionManager u sid d'" if "IsSessionManager (Subject pr) sid d"
  proof -
    have "\<lparr>R_UserProfileID = Subject pr, R_SessionID = sid, R_IsManager = True\<rparr> \<in> set (rels d)"
      using that by (simp add: IsSessionManager_iff [OF keys])
    then have "r = \<lparr>R_UserProfileID = Subject pr, R_SessionID = sid, R_IsManager = True\<rparr>"
      by (intro distinct_key_eq [OF keys r(1)]) (use r(2) in \<open>simp_all add: rel_key_def\<close>)
    then have "R_IsManager r" by simp
    then obtain o' where o': "o' \<in> set (rels d)" "R_SessionID o' = sid" "R_IsManager o'"
      "R_UserProfileID o' \<noteq> Subject pr"
      using a(5) by (auto simp: countOtherManagers_def sql_count_zero)
    then have "o' \<in> set (rels d')" by (simp add: d')
    then show ?thesis using IsSessionManagerI [OF keys'] o' by blast
  qed
  have "rel_key r = (Subject pr, sid)" using r(2) by (simp add: rel_key_def)
  then have "IsSessionMember (Subject pr) sid d"
    using r(1) by (metis IsSessionMember_iff image_eqI)
  moreover have "\<not> IsSessionMember (Subject pr) sid d'"
    by (auto simp: IsSessionMember_iff rel_key_def d')
  ultimately show ?thesis
    using a get_session_Inr [OF a(1)] manager d' me by auto
qed

theorem SessionQuit_correct_witness:
  "\<exists>x d' ns. SessionQuit_handle ''s'' (example_principal ''v'') (example_db Pending False) = Inr (x, d', ns) \<and>
    IsSessionMember ''v'' ''s'' (example_db Pending False) \<and> \<not> IsSessionMember ''v'' ''s'' d'"
proof -
  let ?run = "SessionQuit_handle ''s'' (example_principal ''v'') (example_db Pending False)"
  have "isl ?run = False" by code_simp
  then obtain x d' ns where run: "?run = Inr (x, d', ns)" by (cases ?run) auto
  then show ?thesis
    using SessionQuit_correct [OF example_db_ok run] by (auto simp: example_principal_def)
qed

subsection \<open>Every session has a manager\<close>

definition managed :: "db \<Rightarrow> bool" where
  "managed d = (\<forall>s \<in> set (sessions d). \<exists>r \<in> set (rels d). R_SessionID r = S_ID s \<and> R_IsManager r)"

text \<open>A database in which every session has a manager, and which satisfies the schema.\<close>

definition well_managed :: "db \<Rightarrow> bool" where
  "well_managed d = (db_ok d \<and> managed d)"

lemma managed_same_ids:
  "managed d \<Longrightarrow> S_ID ` set (sessions d') \<subseteq> S_ID ` set (sessions d) \<Longrightarrow> set (rels d) \<subseteq> set (rels d') \<Longrightarrow> managed d'"
  by (fastforce simp: managed_def subset_iff image_iff)

lemma SessionCreate_managed:
  assumes "well_managed d" "SessionCreate_handle opts uuid body pr d = Inr (x, d', ns)"
  shows "well_managed d'"
proof -
  have ok: "db_ok d" "managed d" using assms(1) by (simp_all add: well_managed_def)
  obtain d1 where ins: "insert_session (to_SessionDB (prepare_session pr uuid body) Pending) d = Inr d1"
    and init: "InitSession uuid (ToUserProfileSessionRelDB uuid (Members body)
        (Managers (prepare_session pr uuid body))) d1 = Inr d'"
    using assms(2) by (auto simp: SessionCreate_handle_def Let_def and_then_eq_Inr split: if_splits)
  have d1: "d1 = d\<lparr>sessions := sql_insert (to_SessionDB (prepare_session pr uuid body) Pending) (sessions d)\<rparr>"
    "uuid \<notin> S_ID ` set (sessions d)"
    using ins by (simp_all add: insert_session_Inr to_SessionDB_def)
  have rels: "set (rels d') = set (ToUserProfileSessionRelDB uuid (Members body)
      (Managers (prepare_session pr uuid body))) \<union> {r \<in> set (rels d). R_SessionID r \<noteq> uuid}"
    "d' = d1\<lparr>rels := rels d'\<rparr>"
    using InitSession_Inr [OF init relations_session] d1 by (simp_all add: to_SessionDB_def)
  have sess: "sessions d' = sessions d1" using arg_cong [OF rels(2), of sessions] by simp
  have new: "\<exists>r \<in> set (rels d'). R_SessionID r = uuid \<and> R_IsManager r"
    by (rule bexI [of _ "\<lparr>R_UserProfileID = Subject pr, R_SessionID = uuid, R_IsManager = True\<rparr>"])
      (auto simp: rels(1) ToUserProfileSessionRelDB_def)
  have old: "\<exists>r \<in> set (rels d'). R_SessionID r = S_ID s \<and> R_IsManager r" if s: "s \<in> set (sessions d)" for s
  proof -
    obtain r where "r \<in> set (rels d)" "R_SessionID r = S_ID s" "R_IsManager r"
      using ok(2) s by (auto simp: managed_def)
    moreover have "S_ID s \<noteq> uuid" using s d1(2) by auto
    ultimately show ?thesis by (auto simp: rels(1))
  qed
  have "managed d'"
    using new old by (auto simp: managed_def sess d1(1) to_SessionDB_def)
  then show ?thesis using SessionCreate_keeps [OF ok(1) assms(2)] by (simp add: well_managed_def)
qed

lemma SessionDelete_managed:
  assumes "well_managed d" "SessionDelete_handle sid pr d = Inr (x, d', ns)"
  shows "well_managed d'"
proof -
  obtain s where s: "get_session sid d = Inr s" and del: "delete_sessions (\<lambda>r. S_ID r = sid) d = Inr d'"
    using assms(2) by (auto simp: SessionDelete_handle_def Let_def and_then_eq_Inr split: sum.splits if_splits)
  have gone: "(\<lambda>x. sid) ` {r \<in> set (sessions d). S_ID r = sid} = {sid}"
    using get_session_Inr [OF s] by auto
  have "managed d'"
    using assms(1) del
    by (simp add: delete_sessions_def enforce_Inr Let_def gone managed_def well_managed_def) metis
  then show ?thesis
    using SessionDelete_keeps assms by (auto simp: well_managed_def)
qed

lemma SessionArchive_managed:
  assumes "well_managed d" "SessionArchive_handle sid pr d = Inr (x, d', ns)"
  shows "well_managed d'"
proof -
  obtain s where "update_session_row (s\<lparr>S_State := Archived\<rparr>) d = Inr d'"
    using assms(2) by (auto simp: SessionArchive_handle_def Let_def and_then_eq_Inr split: sum.splits if_splits)
  then have d': "d' = d\<lparr>sessions := sql_update (\<lambda>r. S_ID r = S_ID (s\<lparr>S_State := Archived\<rparr>))
      (\<lambda>_. s\<lparr>S_State := Archived\<rparr>) (sessions d)\<rparr>"
    by (simp add: update_session_row_def enforce_Inr)
  have "map S_ID (sessions d') = map S_ID (sessions d)"
    by (simp add: d' map_replace_keys_eq)
  then have "S_ID ` set (sessions d') = S_ID ` set (sessions d)" by (metis list.set_map)
  then have "managed d'"
    using assms(1) managed_same_ids [of d d'] by (simp add: well_managed_def d')
  then show ?thesis using SessionArchive_keeps assms by (auto simp: well_managed_def)
qed

lemma SessionJoin_managed:
  assumes "well_managed d" "SessionJoin_handle opts sid pr d = Inr (x, d', ns)"
  shows "well_managed d'"
proof -
  obtain d1 where "insert_rel \<lparr>R_UserProfileID = Subject pr, R_SessionID = sid, R_IsManager = False\<rparr> d = Inr d1"
    "sessions d' = sessions d1" "rels d' = rels d1"
    using assms(2) by (auto simp: SessionJoin_handle_def Let_def delete_invitations_def
        split: if_splits sum.splits option.splits)
  then show ?thesis
    using assms SessionJoin_keeps managed_same_ids [of d d'] by (auto simp: well_managed_def insert_rel_Inr)
qed

lemma SessionPromoteMember_managed:
  assumes "well_managed d" "SessionPromoteMember_handle sid t pr d = Inr (x, d', ns)"
  shows "well_managed d'"
proof -
  have "d' = d \<or> d' = update_rels (\<lambda>x. R_UserProfileID x = t \<and> R_SessionID x = sid) (\<lambda>x. x\<lparr>R_IsManager := True\<rparr>) d"
    using assms(2) by (auto simp: SessionPromoteMember_handle_def split: if_splits sum.splits option.splits)
  then have "managed d'"
    using assms(1) by (elim disjE) (simp_all add: well_managed_def managed_def update_rels_def, metis)
  then show ?thesis using assms SessionPromoteMember_keeps by (auto simp: well_managed_def)
qed

lemma SessionQuit_managed:
  assumes "well_managed d" "SessionQuit_handle sid pr d = Inr (x, d', ns)"
  shows "well_managed d'"
proof -
  let ?me = "\<lambda>r. R_UserProfileID r = Subject pr \<and> R_SessionID r = sid"
  have ok: "db_ok d" "managed d" using assms(1) by (simp_all add: well_managed_def)
  obtain r where r: "sql_first ?me (rels d) = Some r"
    and other: "R_IsManager r \<Longrightarrow> countOtherManagers sid (Subject pr) d \<noteq> 0"
    and d': "sessions d' = sessions d" "rels d' = sql_delete ?me (rels d)"
    using assms(2) by (auto simp: SessionQuit_handle_def Let_def delete_rels_def delete_sprs_def
        split: if_splits sum.splits option.splits)
  have "\<exists>x \<in> set (rels d'). R_SessionID x = S_ID s \<and> R_IsManager x" if s: "s \<in> set (sessions d)" for s
  proof -
    obtain m where m: "m \<in> set (rels d)" "R_SessionID m = S_ID s" "R_IsManager m"
      using ok(2) s by (auto simp: managed_def)
    show ?thesis
    proof (cases "?me m")
      case False
      then show ?thesis using m d'(2) by auto
    next
      case True
      have "r = m"
        using sql_first_Some [OF r] True m(1) ok(1)
        by (intro distinct_key_eq [of rel_key "rels d"]) (simp_all add: rel_key_def db_ok_parts)
      then have "countOtherManagers sid (Subject pr) d \<noteq> 0" using other m(3) by blast
      then show ?thesis
        using True m(2) d'(2) by (auto simp: countOtherManagers_def sql_count_zero)
    qed
  qed
  then have "managed d'" by (simp add: managed_def d'(1))
  then show ?thesis using SessionQuit_keeps [OF ok(1) assms(2)] by (simp add: well_managed_def)
qed

end
