(* ===== verification/Invitations.thy ===== *)
theory Invitations
  imports Membership
begin

section \<open>Invitations\<close>

text \<open>
  \<open>invitation_create.go\<close>, \<open>invitation_accept.go\<close>, \<open>invitation_decline.go\<close>,
  \<open>invitation_list.go\<close> and \<open>invitation_sent_list.go\<close>: how a manager invites a user to a session,
  and how the invitee turns the invitation into a membership or removes it.
\<close>

record Invitation =
  Inv_ID :: id
  Inv_SessionID :: id
  Inv_UserProfileID :: id
  Inv_InviterID :: id
  Inv_SessionName :: string
  Inv_InviterNickname :: string
  Inv_InviteeNickname :: string

text \<open>\<open>GetByPKey\<close> on \<open>user_profile\<close>: a NULL \<open>apikey\<close> does not scan into the Go string.\<close>

definition scan_user :: "UserProfileDB \<Rightarrow> err + UserProfileDB" where
  "scan_user u = (if U_APIKey u = None then Inl ScanError else Inr u)"

definition get_user :: "id \<Rightarrow> db \<Rightarrow> err + UserProfileDB" where
  "get_user uid d = (case sql_first (\<lambda>u. U_ID u = uid) (users d) of
     None \<Rightarrow> Inl NoRows | Some u \<Rightarrow> scan_user u)"

subsection \<open>InvitationCreate\<close>

definition InvitationCreate_Authorize :: "id \<Rightarrow> Invitation \<Rightarrow> Principal \<Rightarrow> db \<Rightarrow> bool" where
  "InvitationCreate_Authorize sid body pr d =
    (if IsPending pr then False
     else if IsGlobalManager pr then True
     else if sid \<noteq> Inv_SessionID body then False
     else case get_row (userProfileSessionRelationQuery (Subject pr) sid d) of
       Inl e \<Rightarrow> False
     | Inr r \<Rightarrow> R_IsManager r)"

definition to_InvitationDB :: "Invitation \<Rightarrow> InvitationDB" where
  "to_InvitationDB i = \<lparr>I_ID = Inv_ID i, I_SessionID = Inv_SessionID i,
     I_UserProfileID = Inv_UserProfileID i, I_InviterID = Inv_InviterID i\<rparr>"

definition invitation_error :: "id \<Rightarrow> id \<Rightarrow> err \<Rightarrow> err" where
  "invitation_error uid sid e = (case e of
     PqError code c \<Rightarrow>
       if c = ''invitation_session_id_user_profile_id_key''
       then ErrAlreadyExists (''invitation already exists for user: '' @ uid @ ''and session: '' @ sid)
       else e
   | _ \<Rightarrow> e)"

definition InvitationCreate_handle :: "id \<Rightarrow> id \<Rightarrow> Invitation \<Rightarrow> Principal \<Rightarrow> db \<Rightarrow> Invitation tx" where
  "InvitationCreate_handle uuid sid body pr d =
    (if \<not> InvitationCreate_Authorize sid body pr d then Inl ErrForbidden
     else case get_session sid d of
       Inl e \<Rightarrow> (if errors_Is e NoRows then Inl (ErrSessionNotFound ''session not found'') else Inl e)
     | Inr s \<Rightarrow> (case get_user (Subject pr) d of
         Inl e \<Rightarrow> (if errors_Is e NoRows
           then Inl (ErrUserProfileNotFound ''inviter user profile not found'') else Inl e)
       | Inr inviter \<Rightarrow>
          let invitation = body\<lparr>Inv_ID := uuid, Inv_SessionID := sid, Inv_InviterID := Subject pr,
                Inv_SessionName := S_Name s, Inv_InviterNickname := U_Nickname inviter\<rparr> in
          (case insert_invitation (to_InvitationDB invitation) d of
             Inl e \<Rightarrow> Inl (invitation_error (Subject pr) sid e)
           | Inr d1 \<Rightarrow> Inr (invitation, d1, [PublishInvitationCreate uuid]))))"

definition InvitationCreate_Handle :: "id \<Rightarrow> id \<Rightarrow> Invitation \<Rightarrow> Principal \<Rightarrow> db \<Rightarrow> Invitation reply" where
  "InvitationCreate_Handle uuid sid body pr d =
    respond [case_forbidden, case_conflict, case_not_found, case_invalid] 201 d
      (InvitationCreate_handle uuid sid body pr d)"

subsection \<open>InvitationAccept\<close>

definition InvitationAccept_Authorize :: "id \<Rightarrow> Principal \<Rightarrow> db \<Rightarrow> bool" where
  "InvitationAccept_Authorize iid pr d =
    (if IsPending pr then False
     else if IsGlobalManager pr then True
     else case get_row (invitationQuery (Subject pr) iid d) of Inl e \<Rightarrow> False | Inr i \<Rightarrow> True)"

definition accept_error :: "id \<Rightarrow> id \<Rightarrow> err \<Rightarrow> err" where
  "accept_error uid sid e = (case e of
     PqError code c \<Rightarrow>
       if c = ''user_profile_session_rel_user_profile_id_session_id_key''
       then ErrAlreadyExists
         (''session membership already exists for user: '' @ uid @ ''and session: '' @ sid)
       else e
   | _ \<Rightarrow> e)"

definition InvitationAccept_handle :: "id \<Rightarrow> Principal \<Rightarrow> db \<Rightarrow> Session tx" where
  "InvitationAccept_handle iid pr d =
    (if \<not> InvitationAccept_Authorize iid pr d then Inl ErrForbidden
     else case get_row (invitationQuery (Subject pr) iid d) of
       Inl e \<Rightarrow> (if errors_Is e NoRows then Inl ErrForbidden else Inl e)
     | Inr i \<Rightarrow> let sid = I_SessionID i in
        (case get_session sid d of
           Inl e \<Rightarrow> (if errors_Is e NoRows then Inl (ErrSessionNotFound ''session not found'') else Inl e)
         | Inr s \<Rightarrow>
            if S_State s \<noteq> Pending
              then Inl (ErrSessionAlreadyStarted ''cannot accept invitation to a session that is not pending'')
            else case insert_rel \<lparr>R_UserProfileID = Subject pr, R_SessionID = sid, R_IsManager = False\<rparr> d of
              Inl e \<Rightarrow> Inl (accept_error (Subject pr) sid e)
            | Inr d1 \<Rightarrow> let session = FromDB s d1 in
               if sql_count (\<lambda>x. I_ID x = iid) (invitations d1) = 0 then Inl ErrNotFound
               else Inr (session, delete_invitations (\<lambda>x. I_ID x = iid) d1,
                 [PublishInvitationDelete iid (I_UserProfileID i), PublishSessionUpdate sid])))"

definition InvitationAccept_Handle :: "id \<Rightarrow> Principal \<Rightarrow> db \<Rightarrow> Session reply" where
  "InvitationAccept_Handle iid pr d =
    respond [case_forbidden, case_conflict, case_not_found, case_invalid, case_precondition] 200 d
      (InvitationAccept_handle iid pr d)"

subsection \<open>InvitationDecline\<close>

definition InvitationDecline_Authorize :: "id \<Rightarrow> Principal \<Rightarrow> db \<Rightarrow> bool" where
  "InvitationDecline_Authorize iid pr d =
    (if IsPending pr then False
     else if IsGlobalManager pr then True
     else case get_row (invitationQuery (Subject pr) iid d) of Inl e \<Rightarrow> False | Inr i \<Rightarrow> True)"

definition InvitationDecline_handle :: "id \<Rightarrow> Principal \<Rightarrow> db \<Rightarrow> unit tx" where
  "InvitationDecline_handle iid pr d =
    (if \<not> InvitationDecline_Authorize iid pr d then Inl ErrForbidden
     else case sql_first (\<lambda>i. I_ID i = iid) (invitations d) of
       None \<Rightarrow> Inl ErrNotFound
     | Some i \<Rightarrow> Inr ((), delete_invitations (\<lambda>x. I_ID x = iid) d,
         [PublishInvitationDelete iid (I_UserProfileID i)]))"

definition InvitationDecline_Handle :: "id \<Rightarrow> Principal \<Rightarrow> db \<Rightarrow> unit reply" where
  "InvitationDecline_Handle iid pr d =
    respond [case_forbidden, (ErrNotFound, 404, \<lambda>_. ''invitation not found'')] 204 d
      (InvitationDecline_handle iid pr d)"

subsection \<open>The two lists\<close>

text \<open>\<open>sqlH.Select\<close> into Go strings: a NULL in a joined column is an error.\<close>

definition scan_rows :: "('r \<Rightarrow> 'a option) \<Rightarrow> 'r list \<Rightarrow> err + 'a list" where
  "scan_rows f rows = (if list_all (\<lambda>r. f r \<noteq> None) rows then Inr (map (the \<circ> f) rows) else Inl ScanError)"

fun list_row ::
    "((InvitationDB \<times> SessionDB option) \<times> UserProfileDB option) \<times> UserProfileDB option \<Rightarrow> Invitation option" where
  "list_row (((i, Some s), Some inviter), Some invitee) =
     Some \<lparr>Inv_ID = I_ID i, Inv_SessionID = I_SessionID i, Inv_UserProfileID = I_UserProfileID i,
       Inv_InviterID = I_InviterID i, Inv_SessionName = S_Name s,
       Inv_InviterNickname = U_Nickname inviter, Inv_InviteeNickname = U_Nickname invitee\<rparr>"
| "list_row _ = None"

definition InvitationList_handle :: "Principal \<Rightarrow> db \<Rightarrow> err + Invitation list" where
  "InvitationList_handle pr d = scan_rows list_row
    (order_by (\<lambda>row. I_ID (fst (fst (fst row))))
      (sql_select (\<lambda>row. I_UserProfileID (fst (fst (fst row))) = Subject pr)
        (left_join (\<lambda>row u. I_UserProfileID (fst (fst row)) = U_ID u)
          (left_join (\<lambda>row u. I_InviterID (fst row) = U_ID u)
            (left_join (\<lambda>i s. I_SessionID i = S_ID s) (invitations d) (sessions d)) (users d)) (users d))))"

fun sent_row :: "(InvitationDB \<times> SessionDB option) \<times> UserProfileDB option \<Rightarrow> Invitation option" where
  "sent_row ((i, Some s), Some u) =
     Some \<lparr>Inv_ID = I_ID i, Inv_SessionID = I_SessionID i, Inv_UserProfileID = I_UserProfileID i,
       Inv_InviterID = I_InviterID i, Inv_SessionName = S_Name s,
       Inv_InviterNickname = '''', Inv_InviteeNickname = U_Nickname u\<rparr>"
| "sent_row _ = None"

definition InvitationSentList_handle :: "Principal \<Rightarrow> db \<Rightarrow> err + Invitation list" where
  "InvitationSentList_handle pr d = scan_rows sent_row
    (order_by (\<lambda>row. I_ID (fst (fst row)))
      (sql_select (\<lambda>row. I_InviterID (fst (fst row)) = Subject pr)
        (left_join (\<lambda>row u. I_UserProfileID (fst row) = U_ID u)
          (left_join (\<lambda>i s. I_SessionID i = S_ID s) (invitations d) (sessions d)) (users d))))"

subsection \<open>The request contract\<close>

lemma InvitationCreate_keeps:
  "db_ok d \<Longrightarrow> InvitationCreate_handle uuid sid body pr d = Inr (x, d', ns) \<Longrightarrow> db_ok d'"
  by (auto simp: InvitationCreate_handle_def Let_def split: if_splits sum.splits dest: insert_invitation_ok)

lemma InvitationCreate_authorized:
  "InvitationCreate_handle uuid sid body pr d = Inr (x, d', ns) \<Longrightarrow> InvitationCreate_Authorize sid body pr d"
  by (auto simp: InvitationCreate_handle_def split: if_splits)

lemma InvitationAccept_keeps:
  "db_ok d \<Longrightarrow> InvitationAccept_handle iid pr d = Inr (x, d', ns) \<Longrightarrow> db_ok d'"
  by (auto simp: InvitationAccept_handle_def Let_def split: if_splits sum.splits
      dest: insert_rel_ok intro: delete_invitations_ok)

lemma InvitationAccept_authorized:
  "InvitationAccept_handle iid pr d = Inr (x, d', ns) \<Longrightarrow> InvitationAccept_Authorize iid pr d"
  by (auto simp: InvitationAccept_handle_def split: if_splits)

lemma InvitationDecline_keeps:
  "db_ok d \<Longrightarrow> InvitationDecline_handle iid pr d = Inr (x, d', ns) \<Longrightarrow> db_ok d'"
  by (auto simp: InvitationDecline_handle_def split: if_splits option.splits intro: delete_invitations_ok)

lemma InvitationDecline_authorized:
  "InvitationDecline_handle iid pr d = Inr (x, d', ns) \<Longrightarrow> InvitationDecline_Authorize iid pr d"
  by (auto simp: InvitationDecline_handle_def split: if_splits)

interpretation invite_req: guarded_request
  "\<lambda>(uuid, sid, body, pr). InvitationCreate_handle uuid sid body pr"
  "\<lambda>(uuid, sid, body, pr). InvitationCreate_Handle uuid sid body pr"
  db_ok "\<lambda>(uuid, sid, body, pr) d. InvitationCreate_Authorize sid body pr d"
  by unfold_locales
    (auto simp: InvitationCreate_Handle_def dest: InvitationCreate_keeps InvitationCreate_authorized)

interpretation accept_req: guarded_request
  "\<lambda>(iid, pr). InvitationAccept_handle iid pr" "\<lambda>(iid, pr). InvitationAccept_Handle iid pr"
  db_ok "\<lambda>(iid, pr) d. InvitationAccept_Authorize iid pr d"
  by unfold_locales
    (auto simp: InvitationAccept_Handle_def dest: InvitationAccept_keeps InvitationAccept_authorized)

interpretation decline_req: guarded_request
  "\<lambda>(iid, pr). InvitationDecline_handle iid pr" "\<lambda>(iid, pr). InvitationDecline_Handle iid pr"
  db_ok "\<lambda>(iid, pr) d. InvitationDecline_Authorize iid pr d"
  by unfold_locales
    (auto simp: InvitationDecline_Handle_def dest: InvitationDecline_keeps InvitationDecline_authorized)

subsection \<open>Accepting is joining\<close>

lemma get_row_select:
  "get_row (sql_select p rows) = (case sql_first p rows of None \<Rightarrow> Inl NoRows | Some r \<Rightarrow> Inr r)"
  by (induction rows) (auto simp: get_row_def sql_select_def)

lemma invitationQuery_own:
  assumes "db_ok d" "i \<in> set (invitations d)"
  shows "get_row (invitationQuery (I_UserProfileID i) (I_ID i) d) = Inr i"
proof -
  have "distinct (map I_ID (invitations d))" using assms(1) by (simp add: db_ok_parts)
  from sql_first_key_and [OF this assms(2), of "\<lambda>x. I_UserProfileID x = I_UserProfileID i"] show ?thesis
    by (simp add: invitationQuery_def get_row_select)
qed

lemma own_invitation_first:
  assumes "db_ok d" "i \<in> set (invitations d)"
  shows "sql_first (\<lambda>x. I_UserProfileID x = I_UserProfileID i \<and> I_SessionID x = I_SessionID i) (invitations d) = Some i"
proof -
  have "distinct (map invitation_key (invitations d))" using assms(1) by (simp add: db_ok_parts)
  from sql_first_key [OF this assms(2)] show ?thesis
    by (simp add: invitation_key_def conj_commute)
qed

text \<open>
  For an invited user, accepting the invitation and joining the session without a
  membership limit either both fail or both succeed, and then leave the same database and answer the
  same session. (Accepting checks no membership limit, so the two routes differ for a user over it.)
\<close>

lemma InvitationAccept_is_SessionJoin:
  assumes "db_ok d" "i \<in> set (invitations d)" "I_UserProfileID i = Subject pr"
  shows "map_sum (\<lambda>_. ()) (\<lambda>(x, d', ns). (x, d')) (InvitationAccept_handle (I_ID i) pr d) =
    map_sum (\<lambda>_. ()) (\<lambda>(x, d', ns). (x, d')) (SessionJoin_handle None (I_SessionID i) pr d)"
proof -
  let ?sid = "I_SessionID i"
  have own: "get_row (invitationQuery (Subject pr) (I_ID i) d) = Inr i"
    using invitationQuery_own [OF assms(1,2)] assms(3) by simp
  have first: "sql_first (\<lambda>x. I_UserProfileID x = Subject pr \<and> I_SessionID x = ?sid) (invitations d) = Some i"
    using own_invitation_first [OF assms(1,2)] assms(3) by simp
  then have "IsInvitedToSession (Subject pr) ?sid d"
    by (simp add: IsInvitedToSession_def)
  then have auth: "InvitationAccept_Authorize (I_ID i) pr d \<longleftrightarrow> SessionJoin_Authorize ?sid pr d"
    by (simp add: InvitationAccept_Authorize_def SessionJoin_Authorize_def own)
  have count: "sql_count (\<lambda>x. I_ID x = I_ID i) (invitations d) \<noteq> 0"
    using assms(2) by (auto simp: sql_count_zero)
  note defs = InvitationAccept_handle_def SessionJoin_handle_def auth own Let_def limit_exceeded_def
  show ?thesis
  proof (cases "insert_rel \<lparr>R_UserProfileID = Subject pr, R_SessionID = ?sid, R_IsManager = False\<rparr> d")
    case (Inl e)
    then show ?thesis by (auto simp: defs split: sum.splits)
  next
    case (Inr d1)
    then have "invitations d1 = invitations d" by (simp add: insert_rel_Inr)
    then show ?thesis using Inr first count by (auto simp: defs split: sum.splits)
  qed
qed

lemma InvitationAccept_is_SessionJoin_witness:
  "map_sum (\<lambda>_. ()) (\<lambda>(x, d', ns). (x, d'))
      (InvitationAccept_handle ''i'' (example_principal ''w'') (example_db Pending True)) =
    map_sum (\<lambda>_. ()) (\<lambda>(x, d', ns). (x, d'))
      (SessionJoin_handle None ''s'' (example_principal ''w'') (example_db Pending True))"
  using InvitationAccept_is_SessionJoin [OF example_db_ok [of Pending True], of "example_invitation ''w''"
      "example_principal ''w''"]
  by (simp add: example_defs)

text \<open>
  A member who also holds an invitation and accepts it gets an internal error, while
  the same duplicate membership through the join handler is reported as a conflict: the accept handler
  looks for a constraint name that the schema does not have.
\<close>

lemma InvitationAccept_duplicate_is_internal_error:
  assumes "db_ok d" "i \<in> set (invitations d)" "I_UserProfileID i = Subject pr" "\<not> IsPending pr"
    "get_session (I_SessionID i) d = Inr s" "S_State s = Pending"
    "IsSessionMember (Subject pr) (I_SessionID i) d"
  shows "InvitationAccept_Handle (I_ID i) pr d = (Failure 500 None, d, []) \<and>
    status (fst (SessionJoin_Handle None (I_SessionID i) pr d)) = 409"
proof -
  let ?sid = "I_SessionID i"
  let ?new = "\<lparr>R_UserProfileID = Subject pr, R_SessionID = ?sid, R_IsManager = False\<rparr>"
  have own: "get_row (invitationQuery (Subject pr) (I_ID i) d) = Inr i"
    using invitationQuery_own [OF assms(1,2)] assms(3) by simp
  have "IsInvitedToSession (Subject pr) ?sid d"
    using own_invitation_first [OF assms(1,2)] assms(3) by (simp add: IsInvitedToSession_def)
  then have auth: "InvitationAccept_Authorize (I_ID i) pr d" "SessionJoin_Authorize ?sid pr d"
    using assms(4) by (simp_all add: InvitationAccept_Authorize_def SessionJoin_Authorize_def own)
  have "insert_rel ?new d = Inl (unique_violation ''user_profile_session_rel_pkey'')"
    using assms(7) by (simp add: insert_rel_def enforce.simps occurs_iff IsSessionMember_iff rel_key_def)
  then show ?thesis
    using auth assms(5,6) own
    by (simp add: InvitationAccept_Handle_def SessionJoin_Handle_def InvitationAccept_handle_def
        SessionJoin_handle_def limit_exceeded_def unique_violation_def accept_error_def join_error_def
        InternalError_def errors_Is_def)
qed

subsection \<open>The lists are complete\<close>

lemma fkey_first:
  "fkey f rows g targets \<Longrightarrow> r \<in> set rows \<Longrightarrow> \<exists>t. sql_first (\<lambda>t. g t = f r) targets = Some t"
  by (cases "sql_first (\<lambda>t. g t = f r) targets") (force simp: fkey_def sql_first_None)+

text \<open>
  The invitation list of a user never fails, and consists of exactly his
  invitations, in the order of their ids, each once.
\<close>

lemma InvitationList_complete:
  assumes "db_ok d"
  shows "\<exists>l. InvitationList_handle pr d = Inr l \<and>
    map to_InvitationDB l = order_by I_ID (sql_select (\<lambda>i. I_UserProfileID i = Subject pr) (invitations d))"
proof -
  have keys: "distinct (map S_ID (sessions d))" "distinct (map U_ID (users d))"
    using assms by (simp_all add: db_ok_parts)
  let ?row = "\<lambda>i. (((i, sql_first (\<lambda>s. S_ID s = I_SessionID i) (sessions d)),
      sql_first (\<lambda>u. U_ID u = I_InviterID i) (users d)),
      sql_first (\<lambda>u. U_ID u = I_UserProfileID i) (users d))"
  let ?mine = "order_by I_ID (sql_select (\<lambda>i. I_UserProfileID i = Subject pr) (invitations d))"
  have rows: "InvitationList_handle pr d = scan_rows list_row (map ?row ?mine)"
    by (simp add: InvitationList_handle_def left_join_key [OF keys(1)] left_join_key [OF keys(2)]
        sql_select_map order_by_map comp_def)
  have "\<exists>x. list_row (?row i) = Some x \<and> to_InvitationDB x = i" if "i \<in> set ?mine" for i
  proof -
    have i: "i \<in> set (invitations d)" using that by simp
    obtain s u v where "sql_first (\<lambda>s. S_ID s = I_SessionID i) (sessions d) = Some s"
      "sql_first (\<lambda>u. U_ID u = I_InviterID i) (users d) = Some u"
      "sql_first (\<lambda>u. U_ID u = I_UserProfileID i) (users d) = Some v"
      using assms fkey_first [OF _ i] unfolding db_ok_def session_refs_def user_refs_def by metis
    then show ?thesis by (simp add: to_InvitationDB_def)
  qed
  then have "\<forall>i \<in> set ?mine. list_row (?row i) \<noteq> None \<and> to_InvitationDB (the (list_row (?row i))) = i"
    by fastforce
  then show ?thesis
    unfolding rows scan_rows_def by (auto simp: list_all_iff comp_def intro: map_idI)
qed

lemma InvitationList_complete_witness:
  "\<exists>l. InvitationList_handle (example_principal ''w'') (example_db Pending True) = Inr l \<and>
    map to_InvitationDB l = [example_invitation ''w'']"
  using InvitationList_complete [OF example_db_ok [of Pending True], of "example_principal ''w''"]
  by (simp add: example_defs sql_select_def order_by_def)

end
