(* ===== verification/Players.thy ===== *)
theory Players
  imports Invitations PlayerOrder
begin

section \<open>Players of a session\<close>

text \<open>
  \<open>session_player_race_create.go\<close>, \<open>session_player_race_delete.go\<close>,
  \<open>session_player_race_set_ready.go\<close>, \<open>session_player_race_get.go\<close>, \<open>reorder_players.go\<close> and
  \<open>lib/race/bot.go\<close>: how a member enters a race into a session, how managers add bots, and how
  players leave, become ready and are reordered. The body of a request is a
  \<open>SessionPlayerRaceDB\<close> whose \<open>AIControlType\<close> is not read.
\<close>

definition SystemUserID :: id where
  "SystemUserID = ''system''"

definition ValidBotRaceIDs :: "id list" where
  "ValidBotRaceIDs = [''0'', ''1'', ''2'', ''3'', ''4'', ''5'', ''6'']"

definition IsValidBotRaceID :: "id \<Rightarrow> bool" where
  "IsValidBotRaceID r = (r \<in> set ValidBotRaceIDs)"

definition get_spr :: "id \<Rightarrow> db \<Rightarrow> err + SessionPlayerRaceDB" where
  "get_spr i d = (case sql_first (\<lambda>r. P_ID r = i) (sprs d) of None \<Rightarrow> Inl NoRows | Some r \<Rightarrow> Inr r)"

subsection \<open>SessionPlayerRaceCreate\<close>

definition SessionPlayerRaceCreate_Authorize :: "id \<Rightarrow> SessionPlayerRaceDB \<Rightarrow> Principal \<Rightarrow> db \<Rightarrow> bool" where
  "SessionPlayerRaceCreate_Authorize sid body pr d =
    (if IsPending pr then False
     else let manager = IsSessionManager (Subject pr) sid d in
       if P_IsBot body then (if IsGlobalManager pr \<or> manager then True else False)
       else if IsGlobalManager pr then True
       else let member = IsSessionMember (Subject pr) sid d in
         if \<not> member \<and> \<not> manager then False
         else case sql_first (\<lambda>r. Ra_ID r = P_RaceID body \<and> Ra_UserID r = Subject pr) (races d) of
           None \<Rightarrow> False
         | Some r \<Rightarrow> True)"

definition getNextPlayerOrder :: "id \<Rightarrow> db \<Rightarrow> int" where
  "getNextPlayerOrder sid d = (case sql_max P_PlayerOrder (\<lambda>r. P_SessionID r = sid) (sprs d) of
     None \<Rightarrow> 0 | Some m \<Rightarrow> m + 1)"

text \<open>\<open>UPDATE session_player_race SET race_id, bot_level WHERE id\<close>.\<close>

definition update_spr_race :: "id \<Rightarrow> id \<Rightarrow> int option \<Rightarrow> db \<Rightarrow> err + db" where
  "update_spr_race i race level d = enforce
    [(case level of None \<Rightarrow> True | Some l \<Rightarrow> l \<le> 4,
       check_violation ''bot_level_should_be_lower_or_equal_to_4''),
     (occurs Ra_ID race (races d), foreign_key_violation ''session_player_race_race_id_fkey'')]
    (d\<lparr>sprs := sql_update (\<lambda>r. P_ID r = i) (\<lambda>r. r\<lparr>P_RaceID := race, P_BotLevel := level\<rparr>) (sprs d)\<rparr>)"

definition spr_update_existing ::
    "id \<Rightarrow> SessionPlayerRaceDB \<Rightarrow> Principal \<Rightarrow> db \<Rightarrow> SessionPlayerRaceDB tx" where
  "spr_update_existing sid body pr d =
    (case get_spr (P_ID body) d of
       Inl e \<Rightarrow> (if errors_Is e NoRows
         then Inl (NewErrSomethingNotFound (''player not found with id: '' @ P_ID body)) else Inl e)
     | Inr existing \<Rightarrow>
        if P_SessionID existing \<noteq> sid
          then Inl (ErrInvalidSomething ''player does not belong to this session'')
        else if \<not> P_IsBot existing \<and> P_UserProfileID existing \<noteq> Subject pr then Inl ErrForbidden
        else if P_IsBot existing \<noteq> P_IsBot body
          then Inl (ErrInvalidSomething ''cannot change player type between bot and human'')
        else if \<not> P_IsBot existing \<and> P_Ready existing
          then Inl (ErrInvalidSomething ''cannot update race while player is ready'')
        else and_then (update_spr_race (P_ID existing) (P_RaceID body) (P_BotLevel body) d) (\<lambda>d1.
          Inr (existing\<lparr>P_RaceID := P_RaceID body, P_BotLevel := P_BotLevel body\<rparr>, d1,
            [PublishSessionPlayerRaceUpdate (P_ID existing)])))"

definition spr_create_new ::
    "id \<Rightarrow> id \<Rightarrow> SessionPlayerRaceDB \<Rightarrow> Principal \<Rightarrow> db \<Rightarrow> SessionPlayerRaceDB tx" where
  "spr_create_new uuid sid body pr d =
    (let spr0 = body\<lparr>P_ID := uuid, P_SessionID := sid, P_AIControlType := None\<rparr> in
     if \<not> P_IsBot body \<and>
        0 < sql_count (\<lambda>r. P_SessionID r = sid \<and> P_UserProfileID r = Subject pr) (sprs d)
     then Inl (ErrInvalidSomething ''player already registered in this session'')
     else let spr1 = (if P_IsBot body then spr0\<lparr>P_UserProfileID := SystemUserID, P_Ready := True\<rparr>
                      else spr0\<lparr>P_UserProfileID := Subject pr\<rparr>);
              spr2 = spr1\<lparr>P_PlayerOrder := getNextPlayerOrder sid d\<rparr> in
       and_then (insert_spr spr2 d) (\<lambda>d1. Inr (spr2, d1, [PublishSessionPlayerRaceCreate uuid])))"

definition SessionPlayerRaceCreate_handle ::
    "id \<Rightarrow> id \<Rightarrow> SessionPlayerRaceDB \<Rightarrow> Principal \<Rightarrow> db \<Rightarrow> SessionPlayerRaceDB tx" where
  "SessionPlayerRaceCreate_handle uuid sid body pr d =
    (if P_IsBot body \<and> \<not> IsValidBotRaceID (P_RaceID body)
       then Inl (ErrInvalidSomething ''invalid bot race ID, must be 0-6'')
     else if P_IsBot body \<and> P_BotLevel body = None
       then Inl (ErrInvalidSomething ''bot_level is required for bot players'')
     else if \<not> SessionPlayerRaceCreate_Authorize sid body pr d then Inl ErrForbidden
     else if P_ID body \<noteq> '''' then spr_update_existing sid body pr d
     else spr_create_new uuid sid body pr d)"

definition SessionPlayerRaceCreate_Handle ::
    "id \<Rightarrow> id \<Rightarrow> SessionPlayerRaceDB \<Rightarrow> Principal \<Rightarrow> db \<Rightarrow> SessionPlayerRaceDB reply" where
  "SessionPlayerRaceCreate_Handle uuid sid body pr d =
    respond [case_forbidden, case_not_found, case_invalid] 200 d
      (SessionPlayerRaceCreate_handle uuid sid body pr d)"

subsection \<open>SessionPlayerRaceDelete\<close>

definition SessionPlayerRaceDelete_canDelete :: "SessionPlayerRaceDB \<Rightarrow> id \<Rightarrow> Principal \<Rightarrow> db \<Rightarrow> bool" where
  "SessionPlayerRaceDelete_canDelete spr sid pr d =
    (if IsGlobalManager pr \<or> IsSessionManager (Subject pr) sid d then True
     else if \<not> P_IsBot spr \<and> P_UserProfileID spr = Subject pr then True
     else False)"

definition SessionPlayerRaceDelete_handle :: "id \<Rightarrow> id \<Rightarrow> Principal \<Rightarrow> db \<Rightarrow> unit tx" where
  "SessionPlayerRaceDelete_handle sid pid pr d =
    (case get_spr pid d of
       Inl e \<Rightarrow> (if errors_Is e NoRows
         then Inl (NewErrSomethingNotFound (''player race not found with id: '' @ pid)) else Inl e)
     | Inr spr \<Rightarrow>
        if P_SessionID spr \<noteq> sid then Inl (NewErrSomethingNotFound ''player race not found in this session'')
        else if \<not> SessionPlayerRaceDelete_canDelete spr sid pr d then Inl ErrForbidden
        else if \<not> P_IsBot spr \<and> P_Ready spr
          then Inl (ErrInvalidSomething ''cannot remove a ready player, they must unready first'')
        else let d1 = delete_sprs (\<lambda>r. P_ID r = pid) d in
          and_then (NormalizePlayerOrders (SessionPlayerRaces sid d1) d1) (\<lambda>(qs, d2).
          Inr ((), d2, [PublishSessionPlayerRaceDelete pid])))"

definition SessionPlayerRaceDelete_Handle :: "id \<Rightarrow> id \<Rightarrow> Principal \<Rightarrow> db \<Rightarrow> unit reply" where
  "SessionPlayerRaceDelete_Handle sid pid pr d =
    respond [case_forbidden, case_not_found, case_invalid] 204 d
      (SessionPlayerRaceDelete_handle sid pid pr d)"

subsection \<open>SessionPlayerRaceSetReady\<close>

definition SessionPlayerRaceSetReady_Authorize :: "Principal \<Rightarrow> SessionPlayerRaceDB \<Rightarrow> bool" where
  "SessionPlayerRaceSetReady_Authorize pr spr =
    (if IsPending pr then False
     else if IsGlobalManager pr then True
     else if P_UserProfileID spr \<noteq> Subject pr then False
     else True)"

text \<open>\<open>sqlH.Update\<close> of a row that was read in the same transaction.\<close>

definition update_spr_row :: "SessionPlayerRaceDB \<Rightarrow> db \<Rightarrow> err + db" where
  "update_spr_row spr d = update_sprs (\<lambda>r. P_ID r = P_ID spr) (\<lambda>_. spr) d"

definition SessionPlayerRaceSetReady_handle :: "id \<Rightarrow> bool \<Rightarrow> Principal \<Rightarrow> db \<Rightarrow> SessionPlayerRaceDB tx" where
  "SessionPlayerRaceSetReady_handle sid ready pr d =
    (case get_row (sql_select (\<lambda>r. P_SessionID r = sid \<and> P_UserProfileID r = Subject pr) (sprs d)) of
       Inl e \<Rightarrow> (if errors_Is e NoRows
         then Inl (NewErrSomethingNotFound (''no race registered for this user in session: '' @ sid)) else Inl e)
     | Inr spr \<Rightarrow>
        if \<not> SessionPlayerRaceSetReady_Authorize pr spr then Inl ErrForbidden
        else let spr1 = spr\<lparr>P_Ready := ready\<rparr> in
          and_then (update_spr_row spr1 d) (\<lambda>d1.
          Inr (spr1, d1, [PublishSessionPlayerRaceUpdate (P_ID spr1)])))"

definition SessionPlayerRaceSetReady_Handle :: "id \<Rightarrow> bool \<Rightarrow> Principal \<Rightarrow> db \<Rightarrow> SessionPlayerRaceDB reply" where
  "SessionPlayerRaceSetReady_Handle sid ready pr d =
    respond [case_forbidden, (ErrNotFound, 400, Error_msg)] 200 d
      (SessionPlayerRaceSetReady_handle sid ready pr d)"

subsection \<open>SessionPlayerRaceGet\<close>

definition get_race :: "id \<Rightarrow> db \<Rightarrow> err + RaceDB" where
  "get_race rid d = (case sql_first (\<lambda>r. Ra_ID r = rid) (races d) of None \<Rightarrow> Inl NoRows | Some r \<Rightarrow> Inr r)"

definition SessionPlayerRaceGet_handle :: "id \<Rightarrow> Principal \<Rightarrow> db \<Rightarrow> RaceDB tx" where
  "SessionPlayerRaceGet_handle sid pr d =
    (case get_row (sessionPlayerRaceQuery (Subject pr) sid d) of
       Inl e \<Rightarrow> (if errors_Is e NoRows
         then Inl (NewErrSomethingNotFound ''no race set for this session'') else Inl e)
     | Inr spr \<Rightarrow> (case get_race (P_RaceID spr) d of
         Inl e \<Rightarrow> (if errors_Is e NoRows
           then Inl (ErrRaceNotFound (''race not found with ID: '' @ P_RaceID spr)) else Inl e)
       | Inr race \<Rightarrow> Inr (race, d, [])))"

definition SessionPlayerRaceGet_Handle :: "id \<Rightarrow> Principal \<Rightarrow> db \<Rightarrow> RaceDB reply" where
  "SessionPlayerRaceGet_Handle sid pr d =
    respond [case_forbidden, case_not_found] 200 d (SessionPlayerRaceGet_handle sid pr d)"

subsection \<open>ReorderPlayers\<close>

definition ReorderPlayers_Authorize :: "id \<Rightarrow> Principal \<Rightarrow> db \<Rightarrow> bool" where
  "ReorderPlayers_Authorize sid pr d =
    (if IsPending pr then False
     else if IsGlobalManager pr then True
     else case get_row (userProfileSessionRelationQuery (Subject pr) sid d) of
       Inl e \<Rightarrow> False
     | Inr r \<Rightarrow> R_IsManager r)"

fun reorder_loop :: "PlayerOrderReq list \<Rightarrow> db \<Rightarrow> err + db" where
  "reorder_loop [] d = Inr d"
| "reorder_loop (p # ps) d =
    (case update_sprs (\<lambda>r. P_UserProfileID r = PO_UserProfileID p)
        (\<lambda>r. r\<lparr>P_PlayerOrder := PO_PlayerOrder p\<rparr>) d of
       Inl e \<Rightarrow> Inl e
     | Inr d1 \<Rightarrow> reorder_loop ps d1)"

definition ReorderPlayers_handle :: "id \<Rightarrow> PlayerOrderReq list \<Rightarrow> Principal \<Rightarrow> db \<Rightarrow> PlayerOrderReq list tx" where
  "ReorderPlayers_handle sid players pr d =
    (if \<not> ReorderPlayers_Authorize sid pr d then Inl ErrForbidden
     else case ValidatePlayerOrder players of
       Inl e \<Rightarrow> Inl e
     | Inr _ \<Rightarrow> and_then (reorder_loop players d) (\<lambda>d1. Inr (players, d1, [PublishSessionUpdate sid])))"

definition ReorderPlayers_Handle :: "id \<Rightarrow> PlayerOrderReq list \<Rightarrow> Principal \<Rightarrow> db \<Rightarrow> PlayerOrderReq list reply" where
  "ReorderPlayers_Handle sid players pr d =
    respond [case_forbidden, case_not_found, case_invalid] 200 d (ReorderPlayers_handle sid players pr d)"

subsection \<open>The request contract\<close>

lemma update_spr_race_ok [ok_intros]:
  "db_ok d \<Longrightarrow> update_spr_race i race l d = Inr d' \<Longrightarrow> db_ok d'"
  by (simp add: update_spr_race_def enforce_Inr occurs_iff db_ok_parts map_sql_update fkey_update spr_check_def)
    (simp add: fkey_def)

lemma update_spr_row_ok:
  assumes "db_ok d" "update_spr_row spr d = Inr d'" "old \<in> set (sprs d)" "P_SessionID spr = P_SessionID old"
    "P_UserProfileID spr = P_UserProfileID old" "P_RaceID spr = P_RaceID old"
    "P_BotLevel spr = P_BotLevel old" "P_PlayerOrder spr = P_PlayerOrder old"
  shows "db_ok d'"
proof -
  have "spr_check spr" using assms by (simp add: spr_check_def db_ok_def checks_ok_def)
  moreover have "P_SessionID spr \<in> S_ID ` set (sessions d)" "P_UserProfileID spr \<in> U_ID ` set (users d)"
    "P_RaceID spr \<in> Ra_ID ` set (races d)"
    using assms by (simp_all add: db_ok_parts fkey_def)
  ultimately show ?thesis
    using assms(1,2)
    by (simp add: update_spr_row_def update_sprs_def enforce_Inr db_ok_parts map_replace_keys fkey_replace_row)
qed

lemma normalize_loop_ok [ok_intros]:
  "db_ok d \<Longrightarrow> normalize_loop i ps d = Inr (qs, d') \<Longrightarrow> db_ok d'"
proof (induction i ps d arbitrary: qs d' rule: normalize_loop.induct)
  case (2 i p ps d)
  show ?case
  proof (cases "P_PlayerOrder p = i")
    case True
    then show ?thesis using 2 by (auto split: sum.splits)
  next
    case False
    then obtain d1 qs' where up: "update_sprs (\<lambda>r. P_ID r = P_ID p) (\<lambda>r. r\<lparr>P_PlayerOrder := i\<rparr>) d = Inr d1"
      and rest: "normalize_loop (i + 1) ps d1 = Inr (qs', d')"
      using 2(4) by (auto split: sum.splits)
    have "db_ok d1" using 2(3) up by (rule update_sprs_ok) simp_all
    then show ?thesis using 2(1) [OF False up] rest by blast
  qed
qed simp

lemma NormalizePlayerOrders_ok [ok_intros]:
  "db_ok d \<Longrightarrow> NormalizePlayerOrders ps d = Inr (qs, d') \<Longrightarrow> db_ok d'"
  by (auto simp: NormalizePlayerOrders_def split: if_splits dest: normalize_loop_ok)

lemma reorder_loop_ok [ok_intros]: "db_ok d \<Longrightarrow> reorder_loop ps d = Inr d' \<Longrightarrow> db_ok d'"
proof (induction ps d rule: reorder_loop.induct)
  case (2 p ps d)
  obtain d1 where up: "update_sprs (\<lambda>r. P_UserProfileID r = PO_UserProfileID p)
      (\<lambda>r. r\<lparr>P_PlayerOrder := PO_PlayerOrder p\<rparr>) d = Inr d1" and rest: "reorder_loop ps d1 = Inr d'"
    using 2(3) by (auto split: sum.splits)
  have "db_ok d1" using 2(2) up by (rule update_sprs_ok) simp_all
  then show ?case using 2(1) [OF up] rest by blast
qed simp

lemma SessionPlayerRaceCreate_keeps:
  "db_ok d \<Longrightarrow> SessionPlayerRaceCreate_handle uuid sid body pr d = Inr (x, d', ns) \<Longrightarrow> db_ok d'"
  by (auto simp: SessionPlayerRaceCreate_handle_def spr_update_existing_def spr_create_new_def Let_def
      and_then_eq_Inr split: if_splits sum.splits dest: update_spr_race_ok insert_spr_ok)

lemma SessionPlayerRaceCreate_authorized:
  "SessionPlayerRaceCreate_handle uuid sid body pr d = Inr (x, d', ns) \<Longrightarrow>
   SessionPlayerRaceCreate_Authorize sid body pr d"
  by (auto simp: SessionPlayerRaceCreate_handle_def split: if_splits)

lemma SessionPlayerRaceDelete_keeps:
  "db_ok d \<Longrightarrow> SessionPlayerRaceDelete_handle sid pid pr d = Inr (x, d', ns) \<Longrightarrow> db_ok d'"
  by (auto simp: SessionPlayerRaceDelete_handle_def Let_def and_then_eq_Inr split: if_splits sum.splits
      dest: NormalizePlayerOrders_ok [OF delete_sprs_ok])

lemma SessionPlayerRaceSetReady_keeps:
  assumes "db_ok d" "SessionPlayerRaceSetReady_handle sid ready pr d = Inr (x, d', ns)"
  shows "db_ok d'"
proof -
  obtain spr where "get_row (sql_select (\<lambda>r. P_SessionID r = sid \<and> P_UserProfileID r = Subject pr) (sprs d)) = Inr spr"
    and up: "update_spr_row (spr\<lparr>P_Ready := ready\<rparr>) d = Inr d'"
    using assms(2) by (auto simp: SessionPlayerRaceSetReady_handle_def Let_def and_then_eq_Inr
        split: if_splits sum.splits)
  then have "spr \<in> set (sprs d)" using get_row_Inr by fastforce
  then show ?thesis using update_spr_row_ok [OF assms(1) up] by simp
qed

lemma SessionPlayerRaceGet_keeps:
  "db_ok d \<Longrightarrow> SessionPlayerRaceGet_handle sid pr d = Inr (x, d', ns) \<Longrightarrow> db_ok d'"
  by (auto simp: SessionPlayerRaceGet_handle_def split: sum.splits if_splits)

lemma ReorderPlayers_keeps:
  "db_ok d \<Longrightarrow> ReorderPlayers_handle sid players pr d = Inr (x, d', ns) \<Longrightarrow> db_ok d'"
  by (auto simp: ReorderPlayers_handle_def and_then_eq_Inr split: if_splits sum.splits dest: reorder_loop_ok)

lemma ReorderPlayers_authorized:
  "ReorderPlayers_handle sid players pr d = Inr (x, d', ns) \<Longrightarrow> ReorderPlayers_Authorize sid pr d"
  by (auto simp: ReorderPlayers_handle_def split: if_splits)

interpretation spr_create_req: guarded_request
  "\<lambda>(uuid, sid, body, pr). SessionPlayerRaceCreate_handle uuid sid body pr"
  "\<lambda>(uuid, sid, body, pr). SessionPlayerRaceCreate_Handle uuid sid body pr"
  db_ok "\<lambda>(uuid, sid, body, pr) d. SessionPlayerRaceCreate_Authorize sid body pr d"
  by unfold_locales (auto simp: SessionPlayerRaceCreate_Handle_def
      dest: SessionPlayerRaceCreate_keeps SessionPlayerRaceCreate_authorized)

interpretation spr_delete_req: request
  "\<lambda>(sid, pid, pr). SessionPlayerRaceDelete_handle sid pid pr"
  "\<lambda>(sid, pid, pr). SessionPlayerRaceDelete_Handle sid pid pr" db_ok
  by unfold_locales (auto simp: SessionPlayerRaceDelete_Handle_def dest: SessionPlayerRaceDelete_keeps)

interpretation set_ready_req: request
  "\<lambda>(sid, ready, pr). SessionPlayerRaceSetReady_handle sid ready pr"
  "\<lambda>(sid, ready, pr). SessionPlayerRaceSetReady_Handle sid ready pr" db_ok
  by unfold_locales (auto simp: SessionPlayerRaceSetReady_Handle_def dest: SessionPlayerRaceSetReady_keeps)

interpretation spr_get_req: request
  "\<lambda>(sid, pr). SessionPlayerRaceGet_handle sid pr"
  "\<lambda>(sid, pr). SessionPlayerRaceGet_Handle sid pr" db_ok
  by unfold_locales (auto simp: SessionPlayerRaceGet_Handle_def dest: SessionPlayerRaceGet_keeps)

interpretation reorder_req: guarded_request
  "\<lambda>(sid, players, pr). ReorderPlayers_handle sid players pr"
  "\<lambda>(sid, players, pr). ReorderPlayers_Handle sid players pr"
  db_ok "\<lambda>(sid, players, pr) d. ReorderPlayers_Authorize sid pr d"
  by unfold_locales (auto simp: ReorderPlayers_Handle_def dest: ReorderPlayers_keeps ReorderPlayers_authorized)

subsection \<open>Orders stay contiguous\<close>

definition contiguous :: "id \<Rightarrow> db \<Rightarrow> bool" where
  "contiguous sid d = (map P_PlayerOrder (SessionPlayerRaces sid d) =
     [0..int (length (SessionPlayerRaces sid d)) - 1])"

lemma getNextPlayerOrder_contiguous:
  assumes "contiguous sid d"
  shows "getNextPlayerOrder sid d = int (length (SessionPlayerRaces sid d))"
proof -
  let ?n = "int (length (SessionPlayerRaces sid d))"
  have orders: "P_PlayerOrder ` {r \<in> set (sprs d). P_SessionID r = sid} = {0..?n - 1}"
    using arg_cong [OF assms [unfolded contiguous_def], of set] by (simp add: SessionPlayerRaces_rows)
  show ?thesis
  proof (cases "sql_max P_PlayerOrder (\<lambda>r. P_SessionID r = sid) (sprs d)")
    case None
    then have "{r \<in> set (sprs d). P_SessionID r = sid} = {}" by (auto simp: sql_max_None)
    then have "SessionPlayerRaces sid d = []"
      using SessionPlayerRaces_rows(2) [of sid d] by (metis set_empty)
    then show ?thesis using None by (simp add: getNextPlayerOrder_def)
  next
    case (Some m)
    have m: "m = Max {0..?n - 1}" "{0..?n - 1} \<noteq> {}"
      using sql_max_Some [OF Some] orders by auto
    then have "m = ?n - 1" by (auto intro!: Max_eqI)
    then show ?thesis using Some by (simp add: getNextPlayerOrder_def)
  qed
qed

lemma SessionPlayerRaces_append:
  assumes "sprs d' = sprs d @ [x]" "P_SessionID x = sid" "contiguous sid d"
    "P_PlayerOrder x = int (length (SessionPlayerRaces sid d))"
  shows "SessionPlayerRaces sid d' = SessionPlayerRaces sid d @ [x] \<and> contiguous sid d'"
proof -
  let ?ps = "SessionPlayerRaces sid d"
  have orders: "map P_PlayerOrder (?ps @ [x]) = [0..int (length (?ps @ [x])) - 1]"
    using assms(3,4) by (simp add: contiguous_def upto_rec2)
  have "mset (?ps @ [x]) = mset (sql_select (\<lambda>r. P_SessionID r = sid) (sprs d'))"
    using assms(1,2) by (simp add: SessionPlayerRaces_rows sql_select_def)
  then have "SessionPlayerRaces sid d' = ?ps @ [x]"
    unfolding SessionPlayerRaces_def [of sid d']
    by (rule order_by_perm) (simp_all only: orders distinct_upto sorted_upto)
  then show ?thesis using orders by (simp add: contiguous_def)
qed

text \<open>
  A player who enters a session whose orders are contiguous gets the next order, goes
  to the end of the sequence of players and leaves the orders contiguous; there was room (the order is
  at most 15), a human enters as himself and was not a player before, and the players of the other
  sessions do not change.
\<close>

lemma SessionPlayerRaceCreate_appends:
  assumes "db_ok d" "contiguous sid d" "P_ID body = ''''"
    "SessionPlayerRaceCreate_handle uuid sid body pr d = Inr (x, d', ns)"
  shows "SessionPlayerRaces sid d' = SessionPlayerRaces sid d @ [x] \<and> contiguous sid d' \<and>
    P_PlayerOrder x = int (length (SessionPlayerRaces sid d)) \<and> P_PlayerOrder x \<le> 15 \<and>
    (if P_IsBot body then P_UserProfileID x = SystemUserID \<and> P_Ready x
     else P_UserProfileID x = Subject pr \<and> Subject pr \<notin> P_UserProfileID ` set (SessionPlayerRaces sid d)) \<and>
    d' = d\<lparr>sprs := sprs d @ [x]\<rparr>"
proof -
  have new: "spr_create_new uuid sid body pr d = Inr (x, d', ns)"
    using assms(3,4) by (auto simp: SessionPlayerRaceCreate_handle_def split: if_splits)
  have x: "P_SessionID x = sid" "P_PlayerOrder x = int (length (SessionPlayerRaces sid d))"
    "P_UserProfileID x = (if P_IsBot body then SystemUserID else Subject pr)" "P_IsBot body \<Longrightarrow> P_Ready x"
    using new getNextPlayerOrder_contiguous [OF assms(2)]
    by (auto simp: spr_create_new_def Let_def and_then_eq_Inr split: if_splits)
  have d': "d' = d\<lparr>sprs := sprs d @ [x]\<rparr>" "P_PlayerOrder x \<le> 15"
    using new by (auto simp: spr_create_new_def Let_def and_then_eq_Inr insert_spr_def enforce_Inr
        sql_insert_def split: if_splits)
  have human: "\<not> P_IsBot body \<Longrightarrow> Subject pr \<notin> P_UserProfileID ` set (SessionPlayerRaces sid d)"
    using new by (auto simp: spr_create_new_def Let_def sql_count_pos SessionPlayerRaces_rows split: if_splits)
  show ?thesis
    using SessionPlayerRaces_append [of d' d x sid] x d' human assms(2) by simp
qed

lemma SessionPlayerRaceCreate_appends_witness:
  "let d = (example_db Pending False)\<lparr>sprs := [example_player ''a'' ''u'' 0]\<rparr>;
       bot = \<lparr>P_ID = '''', P_SessionID = '''', P_UserProfileID = '''', P_RaceID = ''r'', P_IsBot = False,
         P_BotLevel = None, P_PlayerOrder = 9, P_Ready = False, P_AIControlType = None\<rparr> in
   \<exists>x d' ns. SessionPlayerRaceCreate_handle ''n'' ''s'' bot ((example_principal ''v'')\<lparr>IsGlobalManager := True\<rparr>) d =
      Inr (x, d', ns) \<and> P_PlayerOrder x = 1 \<and> contiguous ''s'' d'"
proof -
  let ?d = "(example_db Pending False)\<lparr>sprs := [example_player ''a'' ''u'' 0]\<rparr>"
  let ?body = "\<lparr>P_ID = '''', P_SessionID = '''', P_UserProfileID = '''', P_RaceID = ''r'', P_IsBot = False,
    P_BotLevel = None, P_PlayerOrder = 9, P_Ready = False, P_AIControlType = None\<rparr> :: SessionPlayerRaceDB"
  let ?run = "SessionPlayerRaceCreate_handle ''n'' ''s'' ?body ((example_principal ''v'')\<lparr>IsGlobalManager := True\<rparr>) ?d"
  have ok: "db_ok ?d" "contiguous ''s'' ?d" "length (SessionPlayerRaces ''s'' ?d) = 1" "isl ?run = False"
    by code_simp+
  then obtain x d' ns where run: "?run = Inr (x, d', ns)" by (cases ?run) auto
  have id: "P_ID ?body = ''''" by simp
  have "contiguous ''s'' d'" "P_PlayerOrder x = int (length (SessionPlayerRaces ''s'' ?d))"
    using SessionPlayerRaceCreate_appends [OF ok(1,2) id run] by blast+
  then show ?thesis unfolding Let_def using run ok(3) by (intro exI conjI) simp_all
qed

text \<open>
  \<^bold>\<open>C11\<close>: removing a player removes exactly that player from the sequence of players of the
  session, keeps the order of the others, and closes the gap: the orders are contiguous afterwards,
  whatever they were before. The players of the other sessions do not change.
\<close>

theorem SessionPlayerRaceDelete_closes_gap:
  assumes "db_ok d" "SessionPlayerRaceDelete_handle sid pid pr d = Inr (x, d', ns)"
  shows "map P_ID (SessionPlayerRaces sid d') = filter (\<lambda>i. i \<noteq> pid) (map P_ID (SessionPlayerRaces sid d)) \<and>
    contiguous sid d' \<and>
    (\<forall>other. other \<noteq> sid \<longrightarrow> SessionPlayerRaces other d' = SessionPlayerRaces other d)"
proof -
  let ?d1 = "delete_sprs (\<lambda>r. P_ID r = pid) d"
  obtain spr qs where spr: "get_spr pid d = Inr spr" "P_SessionID spr = sid"
    and norm: "NormalizePlayerOrders (SessionPlayerRaces sid ?d1) ?d1 = Inr (qs, d')"
    using assms(2) by (auto simp: SessionPlayerRaceDelete_handle_def Let_def and_then_eq_Inr
        split: if_splits sum.splits)
  have row: "spr \<in> set (sprs d)" "P_ID spr = pid"
    using spr(1) by (auto simp: get_spr_def split: option.splits dest: sql_first_Some)
  have rest: "SessionPlayerRaces s ?d1 = filter (\<lambda>r. P_ID r \<noteq> pid) (SessionPlayerRaces s d)" for s
    by (simp add: SessionPlayerRaces_def delete_sprs_def sql_delete_def sql_select_def order_by_def
        filter_sort conj_commute)
  have "db_ok ?d1" using assms(1) by (rule delete_sprs_ok)
  from NormalizePlayerOrders_parts [OF this norm]
  have parts: "SessionPlayerRaces sid d' = qs" "map P_PlayerOrder qs = [0..int (length qs) - 1]"
    "map P_ID qs = map P_ID (SessionPlayerRaces sid ?d1)"
    "\<And>other. other \<noteq> sid \<Longrightarrow> SessionPlayerRaces other d' = SessionPlayerRaces other ?d1" by blast+
  have other: "SessionPlayerRaces other ?d1 = SessionPlayerRaces other d" if "other \<noteq> sid" for other
  proof -
    have "P_ID r \<noteq> pid" if "r \<in> set (SessionPlayerRaces other d)" for r
      using that \<open>other \<noteq> sid\<close> row spr(2) assms(1) distinct_key_eq [of P_ID "sprs d" r spr]
      by (auto simp: SessionPlayerRaces_rows db_ok_parts)
    then show ?thesis by (simp add: rest)
  qed
  have "map P_ID (SessionPlayerRaces sid ?d1) = filter (\<lambda>i. i \<noteq> pid) (map P_ID (SessionPlayerRaces sid d))"
    by (simp add: rest filter_map comp_def)
  then show ?thesis using parts other by (simp add: contiguous_def)
qed

theorem SessionPlayerRaceDelete_closes_gap_witness:
  "\<exists>x d' ns. SessionPlayerRaceDelete_handle ''s'' ''a'' (example_principal ''u'') (example_db Pending False) =
      Inr (x, d', ns) \<and> contiguous ''s'' d' \<and> map P_ID (SessionPlayerRaces ''s'' d') = [''b'']"
proof -
  let ?run = "SessionPlayerRaceDelete_handle ''s'' ''a'' (example_principal ''u'') (example_db Pending False)"
  have "isl ?run = False" by code_simp
  then obtain x d' ns where run: "?run = Inr (x, d', ns)" by (cases ?run) auto
  then show ?thesis
    using SessionPlayerRaceDelete_closes_gap [OF example_db_ok run]
    by (simp add: example_db_players example_player_def)
qed

subsection \<open>Reordering\<close>

definition requested_order :: "PlayerOrderReq list \<Rightarrow> SessionPlayerRaceDB \<Rightarrow> SessionPlayerRaceDB" where
  "requested_order ps r = (case List.find (\<lambda>p. PO_UserProfileID p = P_UserProfileID r) (rev ps) of
     None \<Rightarrow> r | Some p \<Rightarrow> r\<lparr>P_PlayerOrder := PO_PlayerOrder p\<rparr>)"

lemma find_append: "List.find p (xs @ ys) = (case List.find p xs of None \<Rightarrow> List.find p ys | Some x \<Rightarrow> Some x)"
  by (induction xs) auto

lemma reorder_loop_result:
  "reorder_loop ps d = Inr d' \<Longrightarrow> d' = d\<lparr>sprs := map (requested_order ps) (sprs d)\<rparr>"
proof (induction ps d rule: reorder_loop.induct)
  case (1 d)
  then show ?case by (simp add: requested_order_def)
next
  case (2 p ps d)
  let ?f = "\<lambda>r. if P_UserProfileID r = PO_UserProfileID p then r\<lparr>P_PlayerOrder := PO_PlayerOrder p\<rparr> else r"
  obtain d1 where up: "update_sprs (\<lambda>r. P_UserProfileID r = PO_UserProfileID p)
      (\<lambda>r. r\<lparr>P_PlayerOrder := PO_PlayerOrder p\<rparr>) d = Inr d1" and rest: "reorder_loop ps d1 = Inr d'"
    using 2(2) by (auto split: sum.splits)
  have d1: "d1 = d\<lparr>sprs := map ?f (sprs d)\<rparr>"
    using up by (simp add: update_sprs_def enforce_Inr sql_update_def)
  have "requested_order ps (?f r) = requested_order (p # ps) r" for r
    by (auto simp: requested_order_def find_append split: option.splits)
  then show ?case using 2(1) [OF up rest] by (simp add: d1)
qed

text \<open>
  What reordering does. For a permutation of \<open>0, ..., n-1\<close> sent by a manager of the
  session, every player row of every user in the request gets the requested order, in every session:
  the session of the request is checked for the authorisation but the update does not mention it, so
  the orders of the other games of these users change as well.
\<close>

lemma ReorderPlayers_effect:
  assumes "ReorderPlayers_handle sid ps pr d = Inr (x, d', ns)"
  shows "ReorderPlayers_Authorize sid pr d \<and>
    mset (map PO_PlayerOrder ps) = mset [0..int (length ps) - 1] \<and>
    d' = d\<lparr>sprs := map (requested_order ps) (sprs d)\<rparr> \<and> ns = [PublishSessionUpdate sid]"
proof -
  obtain u where v: "ValidatePlayerOrder ps = Inr u" and loop: "reorder_loop ps d = Inr d'"
    and rest: "ReorderPlayers_Authorize sid pr d" "ns = [PublishSessionUpdate sid]"
    using assms by (auto simp: ReorderPlayers_handle_def and_then_eq_Inr split: if_splits sum.splits)
  have "distinct (map PO_PlayerOrder ps) \<and> PO_PlayerOrder ` set ps \<subseteq> {0..<int (length ps)}"
    using v by (auto simp: ValidatePlayerOrder_cases collect_orders_Inr split: sum.splits)
  then have "mset (map PO_PlayerOrder ps) = mset [0..int (length ps) - 1]"
    using distinct_orders_full [of ps] by (simp add: mset_upto_iff del: mset_map)
  then show ?thesis using rest reorder_loop_result [OF loop] by blast
qed

text \<open>Swapping the players of session \<open>s\<close> gives \<open>u\<close>, alone in session \<open>t\<close>, the order 1 there.\<close>

definition example_two_games :: db where
  "example_two_games = (let d = example_db Pending False in
     d\<lparr>sessions := sessions d @ [(example_session Started False)\<lparr>S_ID := ''t''\<rparr>],
       sprs := [example_player ''a'' ''u'' 0, example_player ''b'' ''v'' 1,
         (example_player ''c'' ''u'' 0)\<lparr>P_SessionID := ''t''\<rparr>]\<rparr>)"

lemma ReorderPlayers_effect_witness:
  "\<exists>x d' ns. ReorderPlayers_handle ''s''
      [\<lparr>PO_UserProfileID = ''u'', PO_PlayerOrder = 1\<rparr>, \<lparr>PO_UserProfileID = ''v'', PO_PlayerOrder = 0\<rparr>]
      (example_principal ''u'') example_two_games = Inr (x, d', ns) \<and>
    contiguous ''t'' example_two_games \<and> \<not> contiguous ''t'' d'"
proof -
  let ?ps = "[\<lparr>PO_UserProfileID = ''u'', PO_PlayerOrder = 1\<rparr>, \<lparr>PO_UserProfileID = ''v'', PO_PlayerOrder = 0\<rparr>]"
  let ?run = "ReorderPlayers_handle ''s'' ?ps (example_principal ''u'') example_two_games"
  have "isl ?run = False" by code_simp
  then obtain x d' ns where run: "?run = Inr (x, d', ns)" by (cases ?run) auto
  have "d' = example_two_games\<lparr>sprs := map (requested_order ?ps) (sprs example_two_games)\<rparr>"
    using ReorderPlayers_effect [OF run] by blast
  moreover have "contiguous ''t'' example_two_games"
    "\<not> contiguous ''t'' (example_two_games\<lparr>sprs := map (requested_order ?ps) (sprs example_two_games)\<rparr>)"
    by code_simp+
  ultimately show ?thesis using run by blast
qed

end
