(* ===== verification/GameCreate.thy ===== *)
theory GameCreate
  imports Runner Players
begin

section \<open>Starting a game\<close>

text \<open>
  \<open>restapi/handlers/game_create.go\<close>: a manager starts the game of a session. The handler works in
  three phases, of which the first and the third are transactions of their own: it checks the
  session and moves it to the state \<open>Starting\<close>, lets Stars! generate the game, and stores the
  files and moves the session to \<open>Started\<close>. When the second or third phase fails, a further
  transaction moves the session back to \<open>Pending\<close>. A panic is no failure in this sense: nothing
  moves the session back. The state is the database and the save directory.

  The transactions are opened and committed with the context of the request, which is cancelled when the
  client goes away: then the third phase fails, and so does the transaction that moves the session back.
\<close>

definition GameCreate_Authorize :: "id \<Rightarrow> Principal \<Rightarrow> db \<Rightarrow> bool" where
  "GameCreate_Authorize sid pr d =
    (if IsPending pr then False
     else if IsGlobalManager pr then True
     else case get_row (userProfileSessionRelationQuery (Subject pr) sid d) of
       Inl e \<Rightarrow> False
     | Inr r \<Rightarrow> R_IsManager r)"

subsection \<open>Phase 1\<close>

text \<open>The validation messages of the races, and \<open>strings.Join\<close>.\<close>

definition race_messages :: "houston \<Rightarrow> RaceDB \<Rightarrow> string list" where
  "race_messages hs race = (case RawData race of
     Inl e \<Rightarrow> [''race '' @ Ra_NamePlural race @ '': failed to decode data'']
   | Inr rawData \<Rightarrow> map (\<lambda>ve. ''race '' @ Ra_NamePlural race @ '': '' @ ve) (ValidateRaceData hs rawData))"

fun join :: "string \<Rightarrow> string list \<Rightarrow> string" where
  "join sep [] = []"
| "join sep [s] = s"
| "join sep (s # t # ss) = s @ sep @ join sep (t # ss)"

text \<open>What phase 1 hands to the other phases: the local variables of \<open>handle\<close>.\<close>

record generation =
  Gen_Session :: SessionDB
  Gen_Players :: "SessionPlayerRaceDB list"
  Gen_Ruleset :: Ruleset
  Gen_Races :: "RaceDB list"

definition check_pending :: "session_state \<Rightarrow> err + unit" where
  "check_pending st = (case st of
     Starting \<Rightarrow> Inl (ErrInvalidSomething ''game generation is already in progress'')
   | Started \<Rightarrow> Inl (ErrInvalidSomething ''session is already started'')
   | Archived \<Rightarrow> Inl (ErrInvalidSomething ''cannot start an archived session'')
   | Pending \<Rightarrow> Inr ())"

definition GameCreate_phase1 :: "houston \<Rightarrow> id \<Rightarrow> db \<Rightarrow> err + generation \<times> db" where
  "GameCreate_phase1 hs sid d =
    (case get_session sid d of
       Inl e \<Rightarrow> (if errors_Is e NoRows then Inl (ErrSessionNotFound (''session not found: '' @ sid)) else Inl e)
     | Inr s \<Rightarrow>
        and_then (check_pending (S_State s)) (\<lambda>_.
        and_then (NormalizePlayerOrders (SessionPlayerRaces (S_ID s) d) d) (\<lambda>(ps, d1).
        if \<not> list_all P_Ready ps
          then Inl (ErrPlayersNotReady ''all players must be ready before starting the game'')
        else and_then (get_ruleset (S_ID s) d1) (\<lambda>ruleset.
          let rs = PlayerRaces ps d1; msgs = concat (map (race_messages hs) rs) in
          if msgs \<noteq> [] then Inl (ErrInvalidRace (''race validation failed: '' @ join ''; '' msgs))
          else let s1 = s\<lparr>S_State := Starting\<rparr> in
            and_then (update_session_row s1 d1) (\<lambda>d2.
            Inr (\<lparr>Gen_Session = s1, Gen_Players = ps, Gen_Ruleset = ruleset, Gen_Races = rs\<rparr>, d2))))))"

subsection \<open>Phase 2\<close>

definition GameCreate_phase2 ::
    "houston \<Rightarrow> ProcessorOptions \<Rightarrow> wine \<Rightarrow> id \<Rightarrow> generation \<Rightarrow> SessionFilesDB io" where
  "GameCreate_phase2 hs opts wine sid g =
    io_then (io_lift (NewGameInput sid (S_Name (Gen_Session g)) (Gen_Ruleset g) (Gen_Players g))) (\<lambda>gi.
    io_then (NewGame hs opts wine sid gi (Gen_Players g) (Gen_Races g)) (\<lambda>gameFiles.
    io_lift (HydrateSessionFiles hs gameFiles empty_session_files)))"

subsection \<open>Phase 3\<close>

text \<open>
  What the context of the request does to the transactions of these phases: the error with which the one of
  phase 3 is not opened or not committed, if it fails, and whether the one of the revert is opened and
  committed. Phase 1 runs when the request arrives.
\<close>

record request_context =
  Ctx_store :: "err option"
  Ctx_revert :: bool

definition live_context :: request_context where
  "live_context = \<lparr>Ctx_store = None, Ctx_revert = True\<rparr>"

definition GameCreate_phase3 ::
    "err option \<Rightarrow> id \<Rightarrow> id \<Rightarrow> generation \<Rightarrow> SessionFilesDB \<Rightarrow> db \<Rightarrow> err + SessionFilesDB \<times> db" where
  "GameCreate_phase3 cancelled uuid sid g sf d =
    (let sf1 = sf\<lparr>F_ID := uuid, F_SessionID := sid\<rparr> in
     case cancelled of
       Some e \<Rightarrow> Inl e
     | None \<Rightarrow>
        and_then (insert_file sf1 d) (\<lambda>d1.
        and_then (update_session_row ((Gen_Session g)\<lparr>S_State := Started\<rparr>) d1) (\<lambda>d2.
        Inr (sf1, d2))))"

definition revertSessionState :: "bool \<Rightarrow> id \<Rightarrow> session_state \<Rightarrow> db \<Rightarrow> db" where
  "revertSessionState live sid st d =
    (if \<not> live then d
     else case get_session sid d of
       Inl e \<Rightarrow> d
     | Inr s \<Rightarrow> (case update_session_row (s\<lparr>S_State := st\<rparr>) d of Inl e \<Rightarrow> d | Inr d' \<Rightarrow> d'))"

text \<open>
  The order of the caller; a caller who does not play is given order 0, the order of another player.
\<close>

definition caller_order :: "Principal \<Rightarrow> SessionPlayerRaceDB list \<Rightarrow> int" where
  "caller_order pr ps = (case sql_first (\<lambda>p. P_UserProfileID p = Subject pr) ps of
     None \<Rightarrow> 0 | Some p \<Rightarrow> P_PlayerOrder p)"

subsection \<open>The handler\<close>

text \<open>
  The phases after the first one, from the database that phase 3 finds. The result is an error or the
  turn files, the database, the save directory and the notifications.
\<close>

definition GameCreate_finish ::
    "bool \<Rightarrow> request_context \<Rightarrow> id \<Rightarrow> id \<Rightarrow> Principal \<Rightarrow> generation \<Rightarrow> (err + SessionFilesDB) \<times> fs \<Rightarrow> db \<Rightarrow>
     (err + TurnFiles) \<times> db \<times> fs \<times> ResourceChange list" where
  "GameCreate_finish preserve ctx uuid sid pr g p2 d =
    (case p2 of
       (Inl e, f) \<Rightarrow> (Inl e, if e = Panic then d else revertSessionState (Ctx_revert ctx) sid Pending d, f, [])
     | (Inr sf, f) \<Rightarrow> (case GameCreate_phase3 (Ctx_store ctx) uuid sid g sf d of
         Inl e \<Rightarrow> (Inl e, revertSessionState (Ctx_revert ctx) sid Pending d, f, [])
       | Inr (sf1, d1) \<Rightarrow>
          (ToTurnFiles sf1 (caller_order pr (Gen_Players g)), d1,
           snd (CleanupSessionDir preserve sid f),
           [PublishSessionUpdate sid, PublishSessionTurnReady sid (F_Year sf1)])))"

definition GameCreate_handle ::
    "houston \<Rightarrow> ProcessorOptions \<Rightarrow> bool \<Rightarrow> wine \<Rightarrow> request_context \<Rightarrow> id \<Rightarrow> id \<Rightarrow> Principal \<Rightarrow> db \<times> fs \<Rightarrow>
     (err + TurnFiles) \<times> db \<times> fs \<times> ResourceChange list" where
  "GameCreate_handle hs opts preserve wine ctx uuid sid pr df = (case df of (d, f) \<Rightarrow>
    if \<not> GameCreate_Authorize sid pr d then (Inl ErrForbidden, d, f, [])
    else case GameCreate_phase1 hs sid d of
      Inl e \<Rightarrow> (Inl e, d, f, [])
    | Inr (g, d1) \<Rightarrow>
        GameCreate_finish preserve ctx uuid sid pr g (GameCreate_phase2 hs opts wine sid g f) d1)"

definition GameCreate_Handle ::
    "houston \<Rightarrow> ProcessorOptions \<Rightarrow> bool \<Rightarrow> wine \<Rightarrow> request_context \<Rightarrow> id \<Rightarrow> id \<Rightarrow> Principal \<Rightarrow> db \<times> fs \<Rightarrow>
     TurnFiles response \<times> db \<times> fs \<times> ResourceChange list" where
  "GameCreate_Handle hs opts preserve wine ctx uuid sid pr df =
    (case GameCreate_handle hs opts preserve wine ctx uuid sid pr df of
       (Inl e, w) \<Rightarrow> (switch_error [case_forbidden, case_not_found, case_invalid, case_precondition] e, w)
     | (Inr x, w) \<Rightarrow> (Success 201 x, w))"

subsection \<open>Facts about the phases\<close>

lemma check_pending_Inr [simp]: "check_pending st = Inr () \<longleftrightarrow> st = Pending"
  by (cases st) (simp_all add: check_pending_def)

lemma GameCreate_phase1_Inr:
  assumes "GameCreate_phase1 hs sid d = Inr (g, d2)"
  obtains s ps d1 where "s \<in> set (sessions d)" "S_ID s = sid" "S_State s = Pending"
    "NormalizePlayerOrders (SessionPlayerRaces sid d) d = Inr (ps, d1)" "\<forall>p \<in> set ps. P_Ready p"
    "get_ruleset sid d1 = Inr (Gen_Ruleset g)" "Gen_Races g = PlayerRaces ps d1"
    "\<forall>r \<in> set (PlayerRaces ps d1). race_messages hs r = []"
    "Gen_Session g = s\<lparr>S_State := Starting\<rparr>" "Gen_Players g = ps"
    "update_session_row (s\<lparr>S_State := Starting\<rparr>) d1 = Inr d2"
proof -
  obtain s where s: "get_session sid d = Inr s"
    using assms by (auto simp: GameCreate_phase1_def split: sum.splits if_splits)
  have id: "s \<in> set (sessions d)" "S_ID s = sid" using get_session_Inr [OF s] by auto
  obtain ps d1 ruleset where *: "S_State s = Pending"
    "NormalizePlayerOrders (SessionPlayerRaces sid d) d = Inr (ps, d1)" "list_all P_Ready ps"
    "get_ruleset sid d1 = Inr ruleset" "concat (map (race_messages hs) (PlayerRaces ps d1)) = []"
    "update_session_row (s\<lparr>S_State := Starting\<rparr>) d1 = Inr d2"
    "g = \<lparr>Gen_Session = s\<lparr>S_State := Starting\<rparr>, Gen_Players = ps, Gen_Ruleset = ruleset,
      Gen_Races = PlayerRaces ps d1\<rparr>"
    using assms by (auto simp: GameCreate_phase1_def s id and_then_eq_Inr Let_def split: if_splits)
  show ?thesis
    by (rule that [OF id *(1,2)]) (use * in \<open>auto simp: list_all_iff\<close>)
qed

lemma GameCreate_phase1_ok [ok_intros]:
  "db_ok d \<Longrightarrow> GameCreate_phase1 hs sid d = Inr (g, d2) \<Longrightarrow> db_ok d2"
  by (erule GameCreate_phase1_Inr) (blast intro: NormalizePlayerOrders_ok update_session_row_ok)

lemma GameCreate_phase3_ok [ok_intros]:
  "db_ok d \<Longrightarrow> GameCreate_phase3 cancelled uuid sid g sf d = Inr (sf1, d2) \<Longrightarrow> db_ok d2"
  by (auto simp: GameCreate_phase3_def Let_def and_then_eq_Inr split: option.splits dest: insert_file_ok update_session_row_ok)

lemma revertSessionState_ok [ok_intros]: "db_ok d \<Longrightarrow> db_ok (revertSessionState live sid st d)"
  by (auto simp: revertSessionState_def split: sum.splits dest: update_session_row_ok)

lemma GameCreate_finish_ok [ok_intros]:
  "db_ok d \<Longrightarrow> GameCreate_finish preserve ctx uuid sid pr g p2 d = (r, d', f', ns) \<Longrightarrow> db_ok d'"
  by (auto simp: GameCreate_finish_def split: prod.splits sum.splits if_splits
      dest: GameCreate_phase3_ok intro: revertSessionState_ok)

lemma GameCreate_handle_ok [ok_intros]:
  "db_ok d \<Longrightarrow> GameCreate_handle hs opts preserve wine ctx uuid sid pr (d, f) = (r, d', f', ns) \<Longrightarrow> db_ok d'"
  by (auto simp: GameCreate_handle_def split: if_splits sum.splits dest: GameCreate_phase1_ok GameCreate_finish_ok)

subsection \<open>The row of the session\<close>

definition set_state :: "id \<Rightarrow> session_state \<Rightarrow> db \<Rightarrow> db" where
  "set_state sid st d =
    d\<lparr>sessions := sql_update (\<lambda>r. S_ID r = sid) (\<lambda>r. r\<lparr>S_State := st\<rparr>) (sessions d)\<rparr>"

lemma set_state_twice [simp]: "set_state sid st (set_state sid st' d) = set_state sid st d"
  by (simp add: set_state_def sql_update_def)

lemma set_state_same:
  assumes "distinct (map S_ID (sessions d))" "s \<in> set (sessions d)" "S_ID s = sid" "S_State s = st"
  shows "set_state sid st d = d"
proof -
  have "r\<lparr>S_State := st\<rparr> = r" if "r \<in> set (sessions d)" "S_ID r = sid" for r
    using distinct_key_eq [OF assms(1) that(1) assms(2)] that(2) assms(3,4) by (cases s) simp
  then have "sql_update (\<lambda>r. S_ID r = sid) (\<lambda>r. r\<lparr>S_State := st\<rparr>) (sessions d) = sessions d"
    unfolding sql_update_def by (intro map_idI) auto
  then show ?thesis by (simp add: set_state_def)
qed

lemma update_session_row_state:
  assumes "db_ok d" "s \<in> set (sessions d)"
  shows "update_session_row (s\<lparr>S_State := st\<rparr>) d = Inr (set_state (S_ID s) st d)"
proof -
  have keys: "distinct (map S_ID (sessions d))" using assms(1) by (simp add: db_ok_parts)
  have "occurs_opt RS_ID (S_RulesetID s) (rulesets d)"
    using assms by (auto simp: db_ok_def other_refs_def fkey_opt_iff occurs_opt_iff)
  moreover have "sql_update (\<lambda>r. S_ID r = S_ID s) (\<lambda>_. s\<lparr>S_State := st\<rparr>) (sessions d) =
      sql_update (\<lambda>r. S_ID r = S_ID s) (\<lambda>r. r\<lparr>S_State := st\<rparr>) (sessions d)"
    using distinct_key_eq [OF keys _ assms(2)] by (auto simp: sql_update_def)
  ultimately show ?thesis by (simp add: update_session_row_def enforce.simps set_state_def)
qed

lemma revert_after_set_state:
  assumes "db_ok d" "s \<in> set (sessions d)" "S_ID s = sid" "S_State s = Pending"
  shows "revertSessionState True sid Pending (set_state sid st d) = d"
proof -
  let ?d = "set_state sid st d"
  have ok: "db_ok ?d"
    using update_session_row_ok [OF assms(1) update_session_row_state [OF assms(1,2)]] assms(3) by simp
  have mem: "s\<lparr>S_State := st\<rparr> \<in> set (sessions ?d)"
    using assms(2,3) by (force simp: set_state_def set_sql_update)
  have keys: "distinct (map S_ID (sessions ?d))" "distinct (map S_ID (sessions d))"
    using ok assms(1) by (simp_all add: db_ok_parts)
  have "get_session sid ?d = Inr (s\<lparr>S_State := st\<rparr>)"
    using get_session_key [OF keys(1) mem] assms(3) by simp
  then show ?thesis
    using update_session_row_state [OF ok mem, of Pending] set_state_same [OF keys(2) assms(2-4)] assms(3)
    by (simp add: revertSessionState_def)
qed

lemma SessionPlayerRaces_set_state [simp]: "SessionPlayerRaces k (set_state sid st d) = SessionPlayerRaces k d"
  by (simp add: set_state_def SessionPlayerRaces_def)

lemma NormalizePlayerOrders_frame:
  assumes "db_ok d" "NormalizePlayerOrders (SessionPlayerRaces sid d) d = Inr (ps, d1)"
  shows "d1 = d\<lparr>sprs := sprs d1\<rparr>"
proof -
  have "distinct (map P_ID (sprs d))" using assms(1) by (simp add: db_ok_parts)
  then show ?thesis
    using NormalizePlayerOrders_result [OF SessionPlayerRaces_distinct _ _ assms(2)]
    by (auto simp: SessionPlayerRaces_rows)
qed

text \<open>Phase 1 normalises the player orders and marks the session as starting; nothing else changes.\<close>

lemma phase1_effect:
  assumes "db_ok d" "GameCreate_phase1 hs sid d = Inr (g, d2)"
  obtains s d1 where "s \<in> set (sessions d)" "S_ID s = sid" "S_State s = Pending"
    "d1 = d\<lparr>sprs := sprs d1\<rparr>" "db_ok d1" "SessionPlayerRaces sid d1 = Gen_Players g"
    "map P_PlayerOrder (Gen_Players g) = [0..int (length (Gen_Players g)) - 1]"
    "map P_ID (Gen_Players g) = map P_ID (SessionPlayerRaces sid d)"
    "\<forall>p \<in> set (Gen_Players g). P_Ready p"
    "Gen_Session g = s\<lparr>S_State := Starting\<rparr>" "d2 = set_state sid Starting d1"
    "Gen_Races g = PlayerRaces (Gen_Players g) d1" "get_ruleset sid d = Inr (Gen_Ruleset g)"
proof (rule GameCreate_phase1_Inr [OF assms(2)])
  fix s ps d1
  assume s: "s \<in> set (sessions d)" "S_ID s = sid" "S_State s = Pending"
    and norm: "NormalizePlayerOrders (SessionPlayerRaces sid d) d = Inr (ps, d1)"
    and rest: "\<forall>p \<in> set ps. P_Ready p" "get_ruleset sid d1 = Inr (Gen_Ruleset g)"
      "Gen_Races g = PlayerRaces ps d1" "Gen_Session g = s\<lparr>S_State := Starting\<rparr>" "Gen_Players g = ps"
    and up: "update_session_row (s\<lparr>S_State := Starting\<rparr>) d1 = Inr d2"
  note parts = NormalizePlayerOrders_parts [OF assms(1) norm]
  have frame: "d1 = d\<lparr>sprs := sprs d1\<rparr>" using NormalizePlayerOrders_frame [OF assms(1) norm] .
  then have same: "sessions d1 = sessions d" "rulesets d1 = rulesets d" by (metis db.select_convs db.surjective db.update_convs)+
  have ok: "db_ok d1" using NormalizePlayerOrders_ok [OF assms(1) norm] .
  have "d2 = set_state sid Starting d1"
    using up update_session_row_state [OF ok, of s Starting] s same by simp
  moreover have "get_ruleset sid d = Inr (Gen_Ruleset g)" using rest(2) same by (simp add: get_ruleset_def)
  ultimately show thesis
    using that [OF s frame ok] parts rest by simp
qed

subsection \<open>Properties\<close>

lemma caller_order_cases:
  assumes "\<forall>p \<in> set ps. 0 \<le> P_PlayerOrder p" "k = nat (caller_order pr ps)"
  shows "if \<exists>p \<in> set ps. P_UserProfileID p = Subject pr
    then \<exists>p \<in> set ps. P_UserProfileID p = Subject pr \<and> P_PlayerOrder p = int k
    else k = 0"
proof (cases "sql_first (\<lambda>p. P_UserProfileID p = Subject pr) ps")
  case (Some p)
  then have "p \<in> set ps" "P_UserProfileID p = Subject pr" by (auto dest: sql_first_Some)
  then show ?thesis using assms Some by (auto simp: caller_order_def intro!: bexI [of _ p])
next
  case None
  then have "caller_order pr ps = 0" by (simp add: caller_order_def)
  then show ?thesis using None assms(2) by (auto simp: sql_first_None)
qed

text \<open>
  \<^bold>\<open>C12\<close> A successful start, with no other request in between: the caller was authorised, the session
  was pending and all its players ready. Afterwards the session is started, its players are the
  same, renumbered without gaps, one new row holds the files of the first turn, and nothing else in
  the database changed. A caller who plays receives the turn in the slot of his own order; a manager who
  does not play receives the turn in slot 0, which is the turn of the first player. The save
  directory is gone unless it is to be kept, and the two notifications are out.
\<close>

theorem GameCreate_correct:
  assumes "db_ok d" "GameCreate_handle hs opts preserve wine ctx uuid sid pr (d, f) = (Inr t, d', f', ns)"
  shows "GameCreate_Authorize sid pr d \<and> (\<exists>s sf gf k.
    s \<in> set (sessions d) \<and> S_ID s = sid \<and> S_State s = Pending \<and>
    (\<forall>p \<in> set (SessionPlayerRaces sid d'). P_Ready p) \<and>
    map P_ID (SessionPlayerRaces sid d') = map P_ID (SessionPlayerRaces sid d) \<and>
    map P_PlayerOrder (SessionPlayerRaces sid d') = [0..int (length (SessionPlayerRaces sid d')) - 1] \<and>
    files d' = files d @ [sf] \<and> F_ID sf = uuid \<and> F_SessionID sf = sid \<and>
    NewGameFilesFromSessionFiles sf = Inr gf \<and> G_Orders gf = [] \<and>
    d' = (set_state sid Started d)\<lparr>sprs := sprs d', files := files d'\<rparr> \<and>
    TF_Year t = F_Year sf \<and> k < length (G_Turns gf) \<and> TF_Turn t = B64Encode (G_Turns gf ! k) \<and>
    (if \<exists>p \<in> set (SessionPlayerRaces sid d'). P_UserProfileID p = Subject pr
     then \<exists>p \<in> set (SessionPlayerRaces sid d'). P_UserProfileID p = Subject pr \<and> P_PlayerOrder p = int k
     else k = 0) \<and>
    (\<not> preserve \<longrightarrow> f' sid = None) \<and>
    ns = [PublishSessionUpdate sid, PublishSessionTurnReady sid (F_Year sf)])"
proof -
  obtain g d2 where auth: "GameCreate_Authorize sid pr d" and p1: "GameCreate_phase1 hs sid d = Inr (g, d2)"
    and fin: "GameCreate_finish preserve ctx uuid sid pr g (GameCreate_phase2 hs opts wine sid g f) d2 = (Inr t, d', f', ns)"
    using assms(2) by (auto simp: GameCreate_handle_def split: if_splits sum.splits)
  obtain s d1 where s: "s \<in> set (sessions d)" "S_ID s = sid" "S_State s = Pending"
    and d1: "d1 = d\<lparr>sprs := sprs d1\<rparr>" "db_ok d1" "SessionPlayerRaces sid d1 = Gen_Players g"
    and ps: "map P_PlayerOrder (Gen_Players g) = [0..int (length (Gen_Players g)) - 1]"
      "map P_ID (Gen_Players g) = map P_ID (SessionPlayerRaces sid d)" "\<forall>p \<in> set (Gen_Players g). P_Ready p"
    and g: "Gen_Session g = s\<lparr>S_State := Starting\<rparr>" and d2: "d2 = set_state sid Starting d1"
    by (rule phase1_effect [OF assms(1) p1])
  obtain sf0 fa sf where p2: "GameCreate_phase2 hs opts wine sid g f = (Inr sf0, fa)"
    and p3: "GameCreate_phase3 (Ctx_store ctx) uuid sid g sf0 d2 = Inr (sf, d')"
    and t: "ToTurnFiles sf (caller_order pr (Gen_Players g)) = Inr t"
    and f': "f' = snd (CleanupSessionDir preserve sid fa)"
    and ns: "ns = [PublishSessionUpdate sid, PublishSessionTurnReady sid (F_Year sf)]"
    using fin by (auto simp: GameCreate_finish_def split: prod.splits sum.splits if_splits)
  obtain gi gf fb where "NewGame hs opts wine sid gi (Gen_Players g) (Gen_Races g) f = (Inr gf, fb)"
    and hyd: "HydrateSessionFiles hs gf empty_session_files = Inr sf0"
    using p2 by (auto simp: GameCreate_phase2_def io_then_Inr)
  then have no_orders: "G_Orders gf = []"
    by (auto simp: NewGame_def gameFilesForTurn_def io_then_Inr)
  obtain d3 where ins: "insert_file sf d2 = Inr d3" and sf: "sf = sf0\<lparr>F_ID := uuid, F_SessionID := sid\<rparr>"
    and up: "update_session_row (s\<lparr>S_State := Started\<rparr>) d3 = Inr d'"
    using p3 by (auto simp: GameCreate_phase3_def Let_def and_then_eq_Inr g split: option.splits)
  have "db_ok d2" using GameCreate_phase1_ok [OF assms(1) p1] .
  then have d3: "db_ok d3" "d3 = d2\<lparr>files := files d2 @ [sf]\<rparr>"
    using insert_file_ok [OF _ ins] ins by (simp_all add: insert_file_def enforce_Inr sql_insert_def)
  have sess: "sessions d1 = sessions d" "files d1 = files d"
    using d1(1) by (metis db.select_convs db.surjective db.update_convs)+
  have "s\<lparr>S_State := Starting\<rparr> \<in> set (sessions d3)"
    using s d2 d3(2) sess by (force simp: set_state_def set_sql_update)
  from update_session_row_state [OF d3(1) this, of Started] up
  have d': "d' = set_state sid Started d3" using s(2) by simp
  have players: "SessionPlayerRaces sid d' = Gen_Players g"
    using d1(3) by (simp add: d' d3(2) d2) (simp add: set_state_def SessionPlayerRaces_def)
  have "d' = (set_state sid Started d)\<lparr>sprs := sprs d', files := files d'\<rparr>"
    by (subst d', subst d3(2), subst d2, subst d1(1))
      (simp add: set_state_def sql_update_def d' d3(2) d2 sess)
  moreover have "files d' = files d @ [sf]"
    by (simp add: d' d3(2) d2 set_state_def sess)
  moreover have "NewGameFilesFromSessionFiles sf = Inr gf" "F_Turns sf = map B64Encode (G_Turns gf)"
    using hyd by (auto simp: sf HydrateSessionFiles_def NewGameFilesFromSessionFiles_def and_then_eq_Inr)
  moreover have "TF_Year t = F_Year sf \<and> nat (caller_order pr (Gen_Players g)) < length (G_Turns gf) \<and>
      TF_Turn t = B64Encode (G_Turns gf ! nat (caller_order pr (Gen_Players g)))"
    using t calculation(4)
    by (auto simp: ToTurnFiles_def and_then_eq_Inr slice_get_def nat_less_iff split: if_splits)
  moreover define k where "k = nat (caller_order pr (Gen_Players g))"
  moreover have "\<not> preserve \<longrightarrow> f' sid = None" by (simp add: f' CleanupSessionDir_def)
  moreover have "\<forall>k \<in> set (map P_PlayerOrder (Gen_Players g)). 0 \<le> k" unfolding ps(1) by simp
  then have caller: "if \<exists>p \<in> set (Gen_Players g). P_UserProfileID p = Subject pr
    then \<exists>p \<in> set (Gen_Players g). P_UserProfileID p = Subject pr \<and> P_PlayerOrder p = int k else k = 0"
    by (intro caller_order_cases) (auto simp: k_def)
  ultimately have "TF_Year t = F_Year sf \<and> k < length (G_Turns gf) \<and> TF_Turn t = B64Encode (G_Turns gf ! k)"
    "d' = (set_state sid Started d)\<lparr>sprs := sprs d', files := files d'\<rparr>" "files d' = files d @ [sf]"
    "NewGameFilesFromSessionFiles sf = Inr gf" "\<not> preserve \<longrightarrow> f' sid = None" by simp_all
  then show ?thesis
    using auth s ps players ns no_orders sf caller
    by (intro conjI exI [of _ s] exI [of _ sf] exI [of _ gf] exI [of _ k]) simp_all
qed

text \<open>The session of the examples, ready to start: both players play the race of \<open>u\<close>.\<close>

definition ready_db :: db where
  "ready_db = (example_db Pending True)\<lparr>
     races := [example_race\<lparr>Ra_Data := ''BQ==''\<rparr>],
     sprs := [(example_player ''b'' ''v'' 7)\<lparr>P_IsBot := True, P_BotLevel := Some 2, P_Ready := True\<rparr>,
       (example_player ''a'' ''u'' 3)\<lparr>P_Ready := True\<rparr>],
     rulesets := [\<lparr>RS_ID = ''q'', RS_SessionID = ''s'',
       RS_Ruleset = shire_ruleset\<lparr>VcOwnsCapitalShipsValue := 100\<rparr>\<rparr>]\<rparr>"

lemma ready_db_ok: "db_ok ready_db"
  by code_simp

theorem GameCreate_correct_witness:
  "\<exists>t d' f' ns. GameCreate_handle example_houston example_opts False example_wine live_context ''f'' ''s''
      (example_principal ''u'') (ready_db, Map.empty) = (Inr t, d', f', ns) \<and>
    map P_PlayerOrder (SessionPlayerRaces ''s'' d') = [0..int (length (SessionPlayerRaces ''s'' d')) - 1] \<and>
    f' ''s'' = None"
proof -
  let ?run = "GameCreate_handle example_houston example_opts False example_wine live_context ''f'' ''s''
      (example_principal ''u'') (ready_db, Map.empty)"
  have "isl (fst ?run) = False" by code_simp
  then obtain t d' f' ns where run: "?run = (Inr t, d', f', ns)"
    by (cases ?run; cases "fst ?run") auto
  show ?thesis using GameCreate_correct [OF ready_db_ok run] run by blast
qed

lemma starting_is_refused:
  assumes "db_ok d" "\<exists>s \<in> set (sessions d). S_ID s = sid \<and> S_State s = Starting" "GameCreate_Authorize sid pr d"
  shows "GameCreate_handle hs opts preserve wine ctx uuid sid pr (d, f) =
    (Inl (ErrInvalidSomething ''game generation is already in progress''), d, f, [])"
proof -
  obtain s where s: "s \<in> set (sessions d)" "S_ID s = sid" "S_State s = Starting" using assms(2) by blast
  have "get_session sid d = Inr s" using get_session_key [OF _ s(1)] s(2) assms(1) by (simp add: db_ok_parts)
  then show ?thesis using assms(3) s(3) by (simp add: GameCreate_handle_def GameCreate_phase1_def check_pending_def)
qed

text \<open>
  \<^bold>\<open>C13\<close> A start that fails with an error, other than a panic of a handler: nothing is published and no
  player is added or removed. Where the check of the session (phase 1) refuses it or the context of the request
  lives until the session is moved back, the database is as it was, up to the player orders of the session,
  which may now be contiguous: a session that was pending is pending again and can be started later. Where the
  context is cancelled during the generation, that is where the client goes away, the
  session is left in the state \<open>Starting\<close>, and every later start of it is refused.
\<close>

theorem GameCreate_failure_restores:
  assumes "db_ok d" "GameCreate_handle hs opts preserve wine ctx uuid sid pr (d, f) = (Inl e, d', f', ns)"
    and "e \<noteq> Panic"
  shows "ns = [] \<and> map P_ID (SessionPlayerRaces sid d') = map P_ID (SessionPlayerRaces sid d) \<and>
    (if Ctx_revert ctx \<or> \<not> GameCreate_Authorize sid pr d \<or> isl (GameCreate_phase1 hs sid d)
     then d' = d\<lparr>sprs := sprs d'\<rparr>
     else d' = (set_state sid Starting d)\<lparr>sprs := sprs d'\<rparr> \<and>
       (\<forall>hs' wine' pr' ctx' uuid' f''. GameCreate_Authorize sid pr' d' \<longrightarrow>
         GameCreate_handle hs' opts preserve wine' ctx' uuid' sid pr' (d', f'') =
           (Inl (ErrInvalidSomething ''game generation is already in progress''), d', f'', [])))"
proof -
  show ?thesis
  proof (cases "GameCreate_Authorize sid pr d \<and> \<not> isl (GameCreate_phase1 hs sid d)")
    case False
    then have "d' = d" "ns = []"
      using assms(2) by (auto simp: GameCreate_handle_def split: if_splits sum.splits)
    then show ?thesis using False by auto
  next
    case True
    then obtain g d2 where auth: "GameCreate_Authorize sid pr d" and p1: "GameCreate_phase1 hs sid d = Inr (g, d2)"
      by (cases "GameCreate_phase1 hs sid d") auto
    obtain s d1 where s: "s \<in> set (sessions d)" "S_ID s = sid" "S_State s = Pending"
      and d1: "d1 = d\<lparr>sprs := sprs d1\<rparr>" "db_ok d1" "SessionPlayerRaces sid d1 = Gen_Players g"
      and ids: "map P_ID (Gen_Players g) = map P_ID (SessionPlayerRaces sid d)"
      and d2: "d2 = set_state sid Starting d1"
      by (rule phase1_effect [OF assms(1) p1])
    have same: "sessions d1 = sessions d" using d1(1) by (metis db.select_convs(1) db.surjective db.update_convs(4))
    then have s1: "s \<in> set (sessions d1)" using s(1) by simp
    have "GameCreate_finish preserve ctx uuid sid pr g (GameCreate_phase2 hs opts wine sid g f) d2
        = (Inl e, d', f', ns)"
      using assms(2) auth p1 by (simp add: GameCreate_handle_def)
    moreover have "ToTurnFiles sf k \<noteq> Inl e" for sf k
      using assms(3) by (auto simp: ToTurnFiles_def slice_get_def and_then_eq_Inl split: if_splits)
    ultimately have d': "d' = revertSessionState (Ctx_revert ctx) sid Pending d2" and ns: "ns = []"
      using assms(3) by (auto simp: GameCreate_finish_def split: prod.splits sum.splits if_splits)
    show ?thesis
    proof (cases "Ctx_revert ctx")
      case True
      then have "d' = d1" using revert_after_set_state [OF d1(2) s1 s(2,3)] d' d2 by simp
      then show ?thesis using d1 ids ns True by simp
    next
      case False
      then have d': "d' = set_state sid Starting d1" using d' d2 by (simp add: revertSessionState_def)
      then have "d' = (set_state sid Starting d)\<lparr>sprs := sprs d'\<rparr>"
        by (subst d', subst d1(1)) (simp add: set_state_def same)
      moreover have ok: "db_ok d'" using GameCreate_phase1_ok [OF assms(1) p1] by (simp add: d' d2)
      moreover have starting: "\<exists>s \<in> set (sessions d'). S_ID s = sid \<and> S_State s = Starting"
      proof (rule bexI [of _ "s\<lparr>S_State := Starting\<rparr>"])
        show "s\<lparr>S_State := Starting\<rparr> \<in> set (sessions d')"
          using s1 s(2) by (force simp: d' set_state_def set_sql_update)
      qed (simp add: s)
      moreover have "GameCreate_handle hs' opts preserve wine' ctx' uuid' sid pr' (d', f'') =
           (Inl (ErrInvalidSomething ''game generation is already in progress''), d', f'', [])"
        if "GameCreate_Authorize sid pr' d'" for hs' wine' pr' ctx' uuid' f''
        using starting_is_refused [OF ok starting that] .
      ultimately show ?thesis using ids d1(3) ns False True by (simp add: d')
    qed
  qed
qed

definition failing_wine :: wine where
  "failing_wine args f = (Some (OtherErr ''wine timed out''), f)"

definition cancelled_context :: request_context where
  "cancelled_context = \<lparr>Ctx_store = Some (OtherErr ''context canceled''), Ctx_revert = False\<rparr>"

theorem GameCreate_failure_restores_witness:
  "(\<exists>d' f' ns. GameCreate_handle example_houston example_opts False failing_wine live_context ''f'' ''s''
      (example_principal ''u'') (ready_db, Map.empty) = (Inl (OtherErr ''wine timed out''), d', f', ns) \<and>
      ns = [] \<and> sessions d' = sessions ready_db) \<and>
   (\<exists>d' f' ns. GameCreate_handle example_houston example_opts False example_wine cancelled_context ''f'' ''s''
      (example_principal ''u'') (ready_db, Map.empty) = (Inl (OtherErr ''context canceled''), d', f', ns) \<and>
      ns = [] \<and> sessions d' = sessions (set_state ''s'' Starting ready_db))"
proof (intro conjI)
  let ?run = "GameCreate_handle example_houston example_opts False failing_wine live_context ''f'' ''s''
      (example_principal ''u'') (ready_db, Map.empty)"
  have "fst ?run = Inl (OtherErr ''wine timed out'')" by code_simp
  then obtain d' f' ns where run: "?run = (Inl (OtherErr ''wine timed out''), d', f', ns)"
    by (cases ?run) auto
  have same: "d' = ready_db\<lparr>sprs := sprs d'\<rparr>" and ns: "ns = []"
    using GameCreate_failure_restores [OF ready_db_ok run] by (simp_all add: live_context_def)
  have "sessions d' = sessions ready_db" by (subst same) simp
  then show "\<exists>d' f' ns. ?run = (Inl (OtherErr ''wine timed out''), d', f', ns) \<and> ns = [] \<and> sessions d' = sessions ready_db"
    using run ns by simp
next
  let ?run = "GameCreate_handle example_houston example_opts False example_wine cancelled_context ''f'' ''s''
      (example_principal ''u'') (ready_db, Map.empty)"
  have "fst ?run = Inl (OtherErr ''context canceled'')" by code_simp
  then obtain d' f' ns where run: "?run = (Inl (OtherErr ''context canceled''), d', f', ns)"
    by (cases ?run) auto
  have "GameCreate_Authorize ''s'' (example_principal ''u'') ready_db"
    "\<not> isl (GameCreate_phase1 example_houston ''s'' ready_db)" by code_simp+
  then have same: "d' = (set_state ''s'' Starting ready_db)\<lparr>sprs := sprs d'\<rparr>" and ns: "ns = []"
    using GameCreate_failure_restores [OF ready_db_ok run] by (simp_all add: cancelled_context_def)
  have "sessions d' = sessions (set_state ''s'' Starting ready_db)" by (subst same) simp
  then show "\<exists>d' f' ns. ?run = (Inl (OtherErr ''context canceled''), d', f', ns) \<and> ns = [] \<and>
      sessions d' = sessions (set_state ''s'' Starting ready_db)"
    using run ns by simp
qed

end
