(* ===== verification/Turns.thy ===== *)
theory Turns
  imports GameCreate
begin

section \<open>Turns\<close>

text \<open>
  \<open>turn_submit.go\<close>, \<open>turn_get.go\<close>, \<open>turn_latest.go\<close>, \<open>orders_status.go\<close> and the turn generator
  of \<open>lib/stars/newturn.go\<close> with \<open>lib/sessionSubmitter\<close>: players fetch their turn files and
  submit their orders; when the last order has come in, a message \<open>Turn.NeedsGeneration\<close> makes the
  generator run Stars! and store the files of the next year.
\<close>

subsection \<open>TurnSubmit\<close>

definition TurnSubmit_Authorize :: "id \<Rightarrow> Principal \<Rightarrow> db \<Rightarrow> bool" where
  "TurnSubmit_Authorize sid pr d =
    (if IsGlobalManager pr then True
     else case get_row (userProfileSessionRelationQuery (Subject pr) sid d) of
       Inl e \<Rightarrow> False
     | Inr r \<Rightarrow> True)"

text \<open>\<open>NeedsGenerationMsg\<close>, the message that \<open>Sub\<close> publishes.\<close>

record NeedsGenerationMsg =
  M_SessionID :: id
  M_Year :: int

definition genMsg :: "id \<Rightarrow> int \<Rightarrow> NeedsGenerationMsg" where
  "genMsg sid year = \<lparr>M_SessionID = sid, M_Year = year\<rparr>"

text \<open>\<open>TurnDetails\<close>, with the messages handed to the submitter.\<close>

record TurnDetails =
  TD_SessionID :: id
  TD_Year :: int
  TD_PlayerOrder :: int
  TD_Messages :: "NeedsGenerationMsg list"

definition store_order :: "string \<Rightarrow> int \<Rightarrow> SessionFilesDB \<Rightarrow> err + SessionFilesDB" where
  "store_order b64 playerOrder sf =
    (if F_Orders sf = []
     then Inr (sf\<lparr>F_Orders := map (\<lambda>i. if int i = playerOrder then b64 else '''') [0..<length (F_Turns sf)]\<rparr>)
     else and_then (slice_get (F_Orders sf) playerOrder) (\<lambda>order.
       if order = '''' then Inr (sf\<lparr>F_Orders := (F_Orders sf)[nat playerOrder := b64]\<rparr>)
       else Inl (ErrInvalidSomething ''cannot submit twice your orders'')))"

text \<open>
  The loop over the players: \<open>i\<close> is the position of the row in the result of the query. Reading the
  flag of a position beyond the slice panics.
\<close>

fun all_ready :: "int \<Rightarrow> SessionPlayerRaceDB list \<Rightarrow> bool list \<Rightarrow> err + bool" where
  "all_ready i [] readyPlayers = Inr True"
| "all_ready i (race # rest) readyPlayers =
    (if P_IsBot race then all_ready (i + 1) rest readyPlayers
     else if P_AIControlType race \<noteq> None then all_ready (i + 1) rest readyPlayers
     else and_then (slice_get readyPlayers i) (\<lambda>r.
       if \<not> r then Inr False else all_ready (i + 1) rest readyPlayers))"

definition allPlayersReady :: "id \<Rightarrow> SessionFilesDB \<Rightarrow> db \<Rightarrow> err + bool" where
  "allPlayersReady sid sf d =
    (let readyPlayers = ReadyPlayers sf in
     if readyPlayers = [] then Inr False
     else all_ready 0 (sessionPlayerRaceForSessionQuery sid d) readyPlayers)"

definition check_order_file :: "file_header \<Rightarrow> int \<Rightarrow> err + unit" where
  "check_order_file header playerOrder =
    (if PlayerIndex header \<noteq> playerOrder
       then Inl (ErrInvalidSomething (''invalid player index in order file, is: '' @ decimal_int (PlayerIndex header)
         @ '', should be: '' @ decimal_int playerOrder))
     else if \<not> TurnSubmitted header
       then Inl (ErrInvalidSomething ''you should save and submit your turn in stars! before sending it'')
     else Inr ())"

definition TurnSubmit_handle ::
    "houston \<Rightarrow> id \<Rightarrow> int \<Rightarrow> string \<Rightarrow> Principal \<Rightarrow> db \<Rightarrow> TurnDetails tx" where
  "TurnSubmit_handle hs sid year b64 pr d =
    (if \<not> TurnSubmit_Authorize sid pr d then Inl ErrForbidden
     else and_then (get_row (sessionPlayerRaceQuery (Subject pr) sid d)) (\<lambda>spr.
      case B64Decode b64 of
        Inl e \<Rightarrow> Inl (ErrInvalidSomething (''invalid turn file: '' @ Error_msg e))
      | Inr data \<Rightarrow>
         and_then (FileHeader hs data) (\<lambda>header.
         and_then (check_order_file header (P_PlayerOrder spr)) (\<lambda>_.
         and_then (get_row (lastSessionFilesQuery sid d)) (\<lambda>sf.
         if F_Year sf \<noteq> Year header
           then Inl (ErrInvalidSomething (''turn year is not matching our awaiting year, got ''
             @ decimal_int (Year header) @ '', wanted '' @ decimal_int (F_Year sf)))
         else and_then (store_order b64 (P_PlayerOrder spr) sf) (\<lambda>sf1.
           let d1 = update_files (\<lambda>f. F_ID f = F_ID sf1) (\<lambda>f. f\<lparr>F_Orders := F_Orders sf1\<rparr>) d in
           and_then (allPlayersReady sid sf1 d1) (\<lambda>ready.
           Inr (\<lparr>TD_SessionID = sid, TD_Year = Year header, TD_PlayerOrder = P_PlayerOrder spr,
                 TD_Messages = (if ready then [genMsg sid year] else [])\<rparr>,
             d1, [PublishOrderStatusUpdate sid (F_Year sf1)]))))))))"

definition TurnSubmit_Handle ::
    "houston \<Rightarrow> id \<Rightarrow> int \<Rightarrow> string \<Rightarrow> Principal \<Rightarrow> db \<Rightarrow> TurnDetails reply" where
  "TurnSubmit_Handle hs sid year b64 pr d =
    respond [case_forbidden, case_not_found, case_invalid] 200 d (TurnSubmit_handle hs sid year b64 pr d)"

subsection \<open>TurnGet, TurnLatest\<close>

definition sessionFilesQueryByYear :: "id \<Rightarrow> int \<Rightarrow> db \<Rightarrow> SessionFilesDB list" where
  "sessionFilesQueryByYear sid year d = sql_select (\<lambda>f. F_SessionID f = sid \<and> F_Year f = year) (files d)"

definition TurnGet_Authorize :: "id \<Rightarrow> Principal \<Rightarrow> db \<Rightarrow> bool" where
  "TurnGet_Authorize sid pr d =
    (if IsGlobalManager pr then True
     else case get_row (userProfileSessionRelationQuery (Subject pr) sid d) of
       Inl e \<Rightarrow> False
     | Inr r \<Rightarrow> True)"

definition TurnGet_handle :: "id \<Rightarrow> int \<Rightarrow> Principal \<Rightarrow> int \<Rightarrow> db \<Rightarrow> TurnFiles tx" where
  "TurnGet_handle sid year pr playerOrder d =
    (case get_row (sessionFilesQueryByYear sid year d) of
       Inl e \<Rightarrow> (if errors_Is e NoRows
         then Inl (NewErrSomethingNotFound (''session files not found with session ID: '' @ sid)) else Inl e)
     | Inr sf \<Rightarrow> and_then (get_row (sessionPlayerRaceQuery (Subject pr) sid d)) (\<lambda>spr.
         and_then (ToTurnFiles sf playerOrder) (\<lambda>t. Inr (t, d, []))))"

text \<open>The authorisation and the query of the caller's player are in \<open>Handle\<close>.\<close>

definition TurnGet_Handle :: "id \<Rightarrow> int \<Rightarrow> Principal \<Rightarrow> db \<Rightarrow> TurnFiles reply" where
  "TurnGet_Handle sid year pr d =
    (if \<not> TurnGet_Authorize sid pr d then (Failure 403 (Some verbotten), d, [])
     else case get_row (sessionPlayerRaceQuery (Subject pr) sid d) of
       Inl e \<Rightarrow> (InternalError e, d, [])
     | Inr spr \<Rightarrow> respond [case_forbidden, case_not_found, case_invalid] 200 d
         (TurnGet_handle sid year pr (P_PlayerOrder spr) d))"

definition TurnLatest_Authorize :: "id \<Rightarrow> Principal \<Rightarrow> db \<Rightarrow> bool" where
  "TurnLatest_Authorize sid pr d =
    (if IsGlobalManager pr then True else IsSessionMember (Subject pr) sid d)"

definition TurnLatest_handle :: "id \<Rightarrow> Principal \<Rightarrow> db \<Rightarrow> TurnFiles tx" where
  "TurnLatest_handle sid pr d =
    (if \<not> TurnLatest_Authorize sid pr d then Inl ErrForbidden
     else case get_row (sessionPlayerRaceQuery (Subject pr) sid d) of
       Inl e \<Rightarrow> (if errors_Is e NoRows then Inl ErrForbidden else Inl e)
     | Inr spr \<Rightarrow> (case get_row (lastSessionFilesQuery sid d) of
         Inl e \<Rightarrow> (if errors_Is e NoRows
           then Inl (NewErrSomethingNotFound (''no turns found for session: '' @ sid)) else Inl e)
       | Inr sf \<Rightarrow> and_then (ToTurnFiles sf (P_PlayerOrder spr)) (\<lambda>t. Inr (t, d, []))))"

definition TurnLatest_Handle :: "id \<Rightarrow> Principal \<Rightarrow> db \<Rightarrow> TurnFiles reply" where
  "TurnLatest_Handle sid pr d = respond [case_forbidden, case_not_found] 200 d (TurnLatest_handle sid pr d)"

subsection \<open>OrdersStatus\<close>

record PlayerOrderStatus =
  PS_PlayerOrder :: int
  PS_Nickname :: string
  PS_IsBot :: bool
  PS_AiControlType :: "string option"
  PS_Submitted :: bool

definition OrdersStatus_Authorize :: "id \<Rightarrow> Principal \<Rightarrow> db \<Rightarrow> bool" where
  "OrdersStatus_Authorize sid pr d =
    (if IsGlobalManager pr then True else IsSessionMember (Subject pr) sid d)"

text \<open>A negative index below the length panics; a player of an order beyond the slice has not submitted.\<close>

definition submitted_flag :: "bool list \<Rightarrow> int \<Rightarrow> err + bool" where
  "submitted_flag readyPlayers k =
    (if k < int (length readyPlayers) then slice_get readyPlayers k else Inr False)"

fun order_statuses :: "db \<Rightarrow> bool list \<Rightarrow> SessionPlayerRaceDB list \<Rightarrow> err + PlayerOrderStatus list" where
  "order_statuses d readyPlayers [] = Inr []"
| "order_statuses d readyPlayers (p # ps) =
    and_then (submitted_flag readyPlayers (P_PlayerOrder p)) (\<lambda>submitted.
    and_then (order_statuses d readyPlayers ps) (\<lambda>rest.
    Inr (\<lparr>PS_PlayerOrder = P_PlayerOrder p,
          PS_Nickname = (case sql_first (\<lambda>u. U_ID u = P_UserProfileID p) (users d) of
             None \<Rightarrow> ''Bot'' | Some u \<Rightarrow> U_Nickname u),
          PS_IsBot = (P_BotLevel p \<noteq> None), PS_AiControlType = P_AIControlType p,
          PS_Submitted = submitted\<rparr> # rest)))"

definition OrdersStatus_handle :: "id \<Rightarrow> int \<Rightarrow> Principal \<Rightarrow> db \<Rightarrow> PlayerOrderStatus list tx" where
  "OrdersStatus_handle sid year pr d =
    (if \<not> OrdersStatus_Authorize sid pr d then Inl ErrForbidden
     else case get_row (sessionFilesQueryByYear sid year d) of
       Inl e \<Rightarrow> (if errors_Is e NoRows
         then Inl (NewErrSomethingNotFound ''no turn files found for session and year'') else Inl e)
     | Inr sf \<Rightarrow> and_then (order_statuses d (ReadyPlayers sf) (SessionPlayerRaces sid d)) (\<lambda>result.
         Inr (result, d, [])))"

definition OrdersStatus_Handle :: "id \<Rightarrow> int \<Rightarrow> Principal \<Rightarrow> db \<Rightarrow> PlayerOrderStatus list reply" where
  "OrdersStatus_Handle sid year pr d =
    respond [case_forbidden, case_not_found] 200 d (OrdersStatus_handle sid year pr d)"

subsection \<open>The turn generator\<close>

text \<open>
  \<open>genTurn\<close>: the whole transaction, with the run of Stars! inside. The directory is removed after the
  commit only.
\<close>

definition genTurn :: "houston \<Rightarrow> bool \<Rightarrow> wine \<Rightarrow> id \<Rightarrow> id \<Rightarrow> int \<Rightarrow> db \<times> fs \<Rightarrow> (err + unit) \<times> db \<times> fs" where
  "genTurn hs preserve wine uuid sid year df = (case df of (d, f) \<Rightarrow>
    case get_session sid d of
      Inl e \<Rightarrow> (Inl (if errors_Is e NoRows then ErrSessionNotFound (''session not found: '' @ sid) else e), d, f)
    | Inr s \<Rightarrow> (case and_then (get_row (sessionFilesQueryByYear sid year d)) NewGameFilesFromSessionFiles of
        Inl e \<Rightarrow> (Inl e, d, f)
      | Inr inputGF \<Rightarrow> (case GenTurn wine sid inputGF (SessionPlayerRaces (S_ID s) d) f of
          (Inl e, f1) \<Rightarrow> (Inl e, d, f1)
        | (Inr gf, f1) \<Rightarrow>
           (case and_then (HydrateSessionFiles hs gf empty_session_files) (\<lambda>sf.
              insert_file (sf\<lparr>F_ID := uuid, F_SessionID := sid\<rparr>) d) of
              Inl e \<Rightarrow> (Inl e, d, f1)
            | Inr d1 \<Rightarrow> (Inr (), d1, snd (CleanupSessionDir preserve sid f1))))))"

definition needsGeneration ::
    "houston \<Rightarrow> bool \<Rightarrow> wine \<Rightarrow> id \<Rightarrow> NeedsGenerationMsg \<Rightarrow> db \<times> fs \<Rightarrow> (err + unit) \<times> db \<times> fs \<times> ResourceChange list" where
  "needsGeneration hs preserve wine uuid msg df =
    (case genTurn hs preserve wine uuid (M_SessionID msg) (M_Year msg) df of
       (Inl e, d1, f1) \<Rightarrow> (Inl e, d1, f1, [])
     | (Inr _, d1, f1) \<Rightarrow>
        (Inr (), d1, f1, [PublishSessionTurnReady (M_SessionID msg) (M_Year msg + 1)]))"

subsection \<open>The request contract\<close>

lemma TurnSubmit_Inr:
  assumes "TurnSubmit_handle hs sid year b64 pr d = Inr (x, d', ns)"
  obtains p data header sf sf1 ready where "TurnSubmit_Authorize sid pr d"
    "get_row (sessionPlayerRaceQuery (Subject pr) sid d) = Inr p" "B64Decode b64 = Inr data"
    "FileHeader hs data = Inr header" "check_order_file header (P_PlayerOrder p) = Inr ()"
    "get_row (lastSessionFilesQuery sid d) = Inr sf" "F_Year sf = Year header"
    "store_order b64 (P_PlayerOrder p) sf = Inr sf1"
    "d' = update_files (\<lambda>f. F_ID f = F_ID sf1) (\<lambda>f. f\<lparr>F_Orders := F_Orders sf1\<rparr>) d"
    "allPlayersReady sid sf1 d' = Inr ready"
    "x = \<lparr>TD_SessionID = sid, TD_Year = Year header, TD_PlayerOrder = P_PlayerOrder p,
       TD_Messages = (if ready then [genMsg sid year] else [])\<rparr>"
    "ns = [PublishOrderStatusUpdate sid (F_Year sf1)]"
proof (cases "B64Decode b64")
  case (Inr data)
  with assms that show ?thesis
    by (auto simp: TurnSubmit_handle_def Let_def and_then_eq_Inr split: if_splits)
next
  case (Inl e)
  with assms show ?thesis
    by (auto simp: TurnSubmit_handle_def and_then_eq_Inr split: if_splits)
qed

lemma TurnSubmit_keeps:
  assumes "db_ok d" "TurnSubmit_handle hs sid year b64 pr d = Inr (x, d', ns)"
  shows "db_ok d'"
  by (rule TurnSubmit_Inr [OF assms(2)]) (simp add: update_files_ok assms(1))

lemma TurnSubmit_authorized:
  "TurnSubmit_handle hs sid year b64 pr d = Inr (x, d', ns) \<Longrightarrow> TurnSubmit_Authorize sid pr d"
  by (auto simp: TurnSubmit_handle_def split: if_splits)

lemma readers_keep:
  "TurnLatest_handle sid pr d = Inr (t, d', ns) \<Longrightarrow> d' = d \<and> ns = [] \<and> TurnLatest_Authorize sid pr d"
  "OrdersStatus_handle sid year pr d = Inr (x, d', ns) \<Longrightarrow> d' = d \<and> ns = [] \<and> OrdersStatus_Authorize sid pr d"
  "TurnGet_handle sid year pr k d = Inr (t, d', ns) \<Longrightarrow> d' = d \<and> ns = []"
  by (auto simp: TurnLatest_handle_def OrdersStatus_handle_def TurnGet_handle_def and_then_eq_Inr
      split: if_splits sum.splits)

interpretation turn_submit_req: guarded_request
  "\<lambda>(hs, sid, year, b64, pr). TurnSubmit_handle hs sid year b64 pr"
  "\<lambda>(hs, sid, year, b64, pr). TurnSubmit_Handle hs sid year b64 pr" db_ok
  "\<lambda>(hs, sid, year, b64, pr) d. TurnSubmit_Authorize sid pr d"
  by unfold_locales (auto simp: TurnSubmit_Handle_def dest: TurnSubmit_keeps TurnSubmit_authorized)

interpretation turn_latest_req: guarded_request
  "\<lambda>(sid, pr). TurnLatest_handle sid pr" "\<lambda>(sid, pr). TurnLatest_Handle sid pr" db_ok
  "\<lambda>(sid, pr) d. TurnLatest_Authorize sid pr d"
  by unfold_locales (auto simp: TurnLatest_Handle_def dest: readers_keep)

interpretation orders_status_req: guarded_request
  "\<lambda>(sid, year, pr). OrdersStatus_handle sid year pr" "\<lambda>(sid, year, pr). OrdersStatus_Handle sid year pr" db_ok
  "\<lambda>(sid, year, pr) d. OrdersStatus_Authorize sid pr d"
  by unfold_locales (auto simp: OrdersStatus_Handle_def dest: readers_keep)

lemma genTurn_ok [ok_intros]:
  "db_ok d \<Longrightarrow> genTurn hs preserve wine uuid sid year (d, f) = (r, d', f') \<Longrightarrow> db_ok d'"
  by (auto simp: genTurn_def and_then_eq_Inr split: sum.splits prod.splits dest: insert_file_ok)

subsection \<open>Submitting orders\<close>

lemma get_row_iff: "get_row rows = Inr r \<longleftrightarrow> (\<exists>rest. rows = r # rest)"
  by (auto simp: get_row_def split: list.splits)

lemma lastSessionFiles_latest:
  assumes "get_row (lastSessionFilesQuery sid d) = Inr sf"
  shows "sf \<in> set (files d) \<and> F_SessionID sf = sid \<and>
    (\<forall>f \<in> set (files d). F_SessionID f = sid \<longrightarrow> F_Year f \<le> F_Year sf)"
proof -
  let ?q = "sort_key (\<lambda>f. - F_Year f) (sql_select (\<lambda>f. F_SessionID f = sid) (files d))"
  obtain rest where q: "?q = sf # rest"
    using assms by (auto simp: get_row_iff lastSessionFilesQuery_def order_by_def take_Suc split: list.splits)
       (cases ?q, auto simp: get_row_iff lastSessionFilesQuery_def order_by_def)
  have "sorted (map (\<lambda>f. - F_Year f) (sf # rest))" using sorted_sort_key q by metis
  moreover have "set (sf # rest) = {f \<in> set (files d). F_SessionID f = sid}"
    using arg_cong [OF q, of set] by simp
  ultimately show ?thesis by (auto simp: insert_ident)
qed

lemma store_order_Inr:
  assumes "store_order b64 k sf = Inr sf1" "0 \<le> k" "k < int (length (F_Turns sf)) \<or> F_Orders sf \<noteq> []"
  shows "sf1 = sf\<lparr>F_Orders := F_Orders sf1\<rparr> \<and> nat k < length (F_Orders sf1) \<and> F_Orders sf1 ! nat k = b64 \<and>
    length (F_Orders sf1) = (if F_Orders sf = [] then length (F_Turns sf) else length (F_Orders sf)) \<and>
    (\<forall>i < length (F_Orders sf1). i \<noteq> nat k \<longrightarrow>
       F_Orders sf1 ! i = (if F_Orders sf = [] then '''' else F_Orders sf ! i)) \<and>
    (F_Orders sf \<noteq> [] \<longrightarrow> F_Orders sf ! nat k = '''')"
  using assms
  by (auto simp: store_order_def and_then_eq_Inr slice_get_def nat_less_iff split: if_splits)

text \<open>
  \<^bold>\<open>C15\<close> An accepted order file: the caller plays in the session, the file decodes, names the caller's own
  player and the year of the latest files of the session, is marked as submitted, and the caller's
  slot was empty. Its text is then in exactly that slot of the latest files; the other slots, all other
  files and all other tables are unchanged. (The player order must be one of the game's.)
\<close>

theorem TurnSubmit_correct:
  assumes "db_ok d" "TurnSubmit_handle hs sid year b64 pr d = Inr (x, d', ns)"
    and slots: "\<forall>p \<in> set (sprs d). \<forall>f \<in> set (files d). P_SessionID p = sid \<and> F_SessionID f = sid \<longrightarrow>
      0 \<le> P_PlayerOrder p \<and> P_PlayerOrder p < int (length (F_Turns f))"
  shows "TurnSubmit_Authorize sid pr d \<and> (\<exists>p sf sf1 data header.
    p \<in> set (sprs d) \<and> P_SessionID p = sid \<and> P_UserProfileID p = Subject pr \<and>
    sf \<in> set (files d) \<and> F_SessionID sf = sid \<and>
    (\<forall>f \<in> set (files d). F_SessionID f = sid \<longrightarrow> F_Year f \<le> F_Year sf) \<and>
    B64Decode b64 = Inr data \<and> FileHeader hs data = Inr header \<and> Year header = F_Year sf \<and>
    PlayerIndex header = P_PlayerOrder p \<and> TurnSubmitted header \<and>
    (F_Orders sf \<noteq> [] \<longrightarrow> F_Orders sf ! nat (P_PlayerOrder p) = '''') \<and>
    sf1 = sf\<lparr>F_Orders := F_Orders sf1\<rparr> \<and> F_Orders sf1 ! nat (P_PlayerOrder p) = b64 \<and>
    (\<forall>i < length (F_Orders sf1). i \<noteq> nat (P_PlayerOrder p) \<longrightarrow>
       F_Orders sf1 ! i = (if F_Orders sf = [] then '''' else F_Orders sf ! i)) \<and>
    d' = d\<lparr>files := sql_update (\<lambda>f. F_ID f = F_ID sf) (\<lambda>_. sf1) (files d)\<rparr> \<and>
    ns = [PublishOrderStatusUpdate sid (F_Year sf)])"
proof (rule TurnSubmit_Inr [OF assms(2)])
  fix p data header sf sf1 ready
  assume auth: "TurnSubmit_Authorize sid pr d" and p: "get_row (sessionPlayerRaceQuery (Subject pr) sid d) = Inr p"
    and ord: "B64Decode b64 = Inr data" "FileHeader hs data = Inr header"
      "check_order_file header (P_PlayerOrder p) = Inr ()"
    and sf: "get_row (lastSessionFilesQuery sid d) = Inr sf" "F_Year sf = Year header"
    and st: "store_order b64 (P_PlayerOrder p) sf = Inr sf1"
    and d': "d' = update_files (\<lambda>f. F_ID f = F_ID sf1) (\<lambda>f. f\<lparr>F_Orders := F_Orders sf1\<rparr>) d"
    and ns: "ns = [PublishOrderStatusUpdate sid (F_Year sf1)]"
  have pin: "p \<in> set (sprs d)" "P_SessionID p = sid" "P_UserProfileID p = Subject pr"
    using get_row_Inr [OF p] by (auto simp: sessionPlayerRaceQuery_def)
  note latest = lastSessionFiles_latest [OF sf(1)]
  have k: "0 \<le> P_PlayerOrder p" "P_PlayerOrder p < int (length (F_Turns sf))"
    using slots pin latest by auto
  note stored = store_order_Inr [OF st k(1)]
  have sf1: "sf1 = sf\<lparr>F_Orders := F_Orders sf1\<rparr>" using stored k by blast
  then have same: "F_ID sf1 = F_ID sf" "F_Year sf1 = F_Year sf"
    by (metis SessionFilesDB.select_convs SessionFilesDB.surjective SessionFilesDB.update_convs)+
  have "sql_update (\<lambda>f. F_ID f = F_ID sf1) (\<lambda>f. f\<lparr>F_Orders := F_Orders sf1\<rparr>) (files d) =
      sql_update (\<lambda>f. F_ID f = F_ID sf) (\<lambda>_. sf1) (files d)"
  proof -
    have "f\<lparr>F_Orders := F_Orders sf1\<rparr> = sf1" if "f \<in> set (files d)" "F_ID f = F_ID sf" for f
      using distinct_key_eq [of F_ID "files d" f sf] that latest sf1 assms(1) by (simp add: db_ok_parts)
    then show ?thesis by (auto simp: sql_update_def same)
  qed
  then show ?thesis
    using auth pin latest ord sf stored k sf1 d' ns same
    by (intro conjI exI [of _ p] exI [of _ sf] exI [of _ sf1] exI [of _ data] exI [of _ header])
      (simp_all add: update_files_def check_order_file_def split: if_splits)
qed

text \<open>
  A game in the year 2407 with a human player of order 0 and a bot of order 1. The argument is the order
  in which the database returns the two players.
\<close>

definition played_db :: "SessionPlayerRaceDB list \<Rightarrow> db" where
  "played_db ps = (example_db Started True)\<lparr>
     races := [example_race\<lparr>Ra_Data := ''BQ==''\<rparr>], sprs := ps,
     files := [\<lparr>F_ID = ''f'', F_SessionID = ''s'', F_Year = 2407, F_Universe = ''AQ=='', F_HostFile = ''BwA='',
       F_Turns = [''CQ=='', ''CQ==''], F_Orders = []\<rparr>]\<rparr>"

definition human :: SessionPlayerRaceDB where
  "human = (example_player ''a'' ''u'' 0)\<lparr>P_Ready := True\<rparr>"

definition bot :: SessionPlayerRaceDB where
  "bot = (example_player ''b'' ''v'' 1)\<lparr>P_IsBot := True, P_BotLevel := Some 2, P_Ready := True\<rparr>"

lemma played_db_ok: "db_ok (played_db [human, bot])" "db_ok (played_db [bot, human])"
  by code_simp+

text \<open>An order file of the player 0 for the year 2407, in base64.\<close>

definition example_order :: string where
  "example_order = ''BwAq''"

theorem TurnSubmit_correct_witness:
  "\<exists>x d' sf1. TurnSubmit_handle example_houston ''s'' 2407 example_order (example_principal ''u'')
      (played_db [human, bot]) = Inr (x, d', [PublishOrderStatusUpdate ''s'' 2407]) \<and>
    files d' = [sf1] \<and> F_Orders sf1 ! 0 = example_order"
proof -
  let ?d = "played_db [human, bot]"
  let ?run = "TurnSubmit_handle example_houston ''s'' 2407 example_order (example_principal ''u'') ?d"
  have "isl ?run = False" by code_simp
  then obtain x d' ns where run: "?run = Inr (x, d', ns)" by (cases ?run) auto
  have "list_all (\<lambda>p. list_all (\<lambda>f. 0 \<le> P_PlayerOrder p \<and> P_PlayerOrder p < int (length (F_Turns f))) (files ?d)) (sprs ?d)"
    by code_simp
  then have slots: "\<forall>p \<in> set (sprs ?d). \<forall>f \<in> set (files ?d). P_SessionID p = ''s'' \<and> F_SessionID f = ''s'' \<longrightarrow>
      0 \<le> P_PlayerOrder p \<and> P_PlayerOrder p < int (length (F_Turns f))"
    by (simp add: list_all_iff)
  obtain p sf sf1 where p: "p \<in> set (sprs ?d)" "P_UserProfileID p = ''u''" and sf: "sf \<in> set (files ?d)"
    and stored: "F_Orders sf1 ! nat (P_PlayerOrder p) = example_order"
    and d': "d' = ?d\<lparr>files := sql_update (\<lambda>f. F_ID f = F_ID sf) (\<lambda>_. sf1) (files ?d)\<rparr>"
    and ns: "ns = [PublishOrderStatusUpdate ''s'' (F_Year sf)]"
    using TurnSubmit_correct [OF played_db_ok(1) run slots] by (auto simp: example_principal_def)
  have "P_PlayerOrder p = 0" using p by (auto simp: played_db_def human_def bot_def example_player_def)
  moreover have "F_Year sf = 2407" using sf by (simp add: played_db_def)
  moreover have "files d' = [sf1]" using sf by (auto simp: d' played_db_def sql_update_def)
  ultimately show ?thesis using run ns stored by auto
qed

subsection \<open>When a turn is generated\<close>

definition must_submit :: "SessionPlayerRaceDB \<Rightarrow> bool" where
  "must_submit p = (\<not> P_IsBot p \<and> P_AIControlType p = None)"

lemma all_ready_Inr:
  "0 \<le> i \<Longrightarrow> i + int (length ps) \<le> int (length flags) \<Longrightarrow>
   all_ready i ps flags = Inr (\<forall>k < length ps. must_submit (ps ! k) \<longrightarrow> flags ! (nat i + k))"
proof (induction ps arbitrary: i)
  case (Cons p ps)
  have get: "slice_get flags i = Inr (flags ! nat i)"
    using Cons.prems by (simp add: slice_get_def)
  have step: "(\<forall>k < length (p # ps). must_submit ((p # ps) ! k) \<longrightarrow> flags ! (nat i + k)) \<longleftrightarrow>
      (must_submit p \<longrightarrow> flags ! nat i) \<and>
      (\<forall>k < length ps. must_submit (ps ! k) \<longrightarrow> flags ! (nat (i + 1) + k))"
    using Cons.prems(1) by (auto simp: nth_Cons nat_add_distrib split: nat.splits)
  have "i + 1 + int (length ps) \<le> int (length flags)" using Cons.prems(2) by simp
  then show ?case
    using Cons.IH [of "i + 1"] Cons.prems(1) unfolding step
    by (cases "must_submit p") (auto simp: get must_submit_def)
qed simp

text \<open>Storing orders leaves the latest files the latest.\<close>

lemma sort_key_map_same: "(\<And>x. k (f x) = k x) \<Longrightarrow> sort_key k (map f xs) = map f (sort_key k xs)"
proof (induction xs)
  case (Cons x xs)
  have "insort_key k (f x) (map f ys) = map f (insort_key k x ys)" for ys
    by (induction ys) (simp_all add: Cons.prems)
  then show ?case using Cons by simp
qed simp

lemma sql_select_update:
  "(\<And>r. Q (f r) = Q r) \<Longrightarrow> sql_select Q (sql_update P f rows) = sql_update P f (sql_select Q rows)"
  by (induction rows) (simp_all add: sql_select_def sql_update_def)

lemma lastSessionFiles_update:
  assumes "\<And>r. F_Year (f r) = F_Year r" "\<And>r. F_SessionID (f r) = F_SessionID r"
    "get_row (lastSessionFilesQuery sid d) = Inr sf"
  shows "get_row (lastSessionFilesQuery sid (update_files P f d)) = Inr (if P sf then f sf else sf)"
proof -
  have "sql_select (\<lambda>f. F_SessionID f = sid) (files (update_files P f d)) =
      map (\<lambda>r. if P r then f r else r) (sql_select (\<lambda>f. F_SessionID f = sid) (files d))"
    using sql_select_update [of "\<lambda>f. F_SessionID f = sid" f P "files d"] assms(2)
    by (simp add: update_files_def sql_update_def)
  then have "lastSessionFilesQuery sid (update_files P f d) =
      map (\<lambda>r. if P r then f r else r) (lastSessionFilesQuery sid d)"
    using assms(1) by (simp add: lastSessionFilesQuery_def order_by_def sort_key_map_same take_map)
  then show ?thesis using assms(3) by (auto simp: get_row_iff)
qed

lemma TurnSubmit_trigger:
  assumes run: "TurnSubmit_handle hs sid year b64 pr d = Inr (x, d', ns)"
    and sf: "get_row (lastSessionFilesQuery sid d) = Inr sf"
    and players: "map P_PlayerOrder (sessionPlayerRaceForSessionQuery sid d) = map int [0..<length (F_Turns sf)]"
    and turns: "F_Turns sf \<noteq> []" "F_Orders sf \<noteq> [] \<longrightarrow> length (F_Orders sf) = length (F_Turns sf)"
  obtains sf1 where "sf1 \<in> set (files d')" "F_ID sf1 = F_ID sf"
    "TD_Messages x = (if \<forall>p \<in> set (sessionPlayerRaceForSessionQuery sid d).
        must_submit p \<longrightarrow> F_Orders sf1 ! nat (P_PlayerOrder p) \<noteq> '''' then [genMsg sid year] else [])"
    "get_row (lastSessionFilesQuery sid d') = Inr sf1" "length (F_Orders sf1) = length (F_Turns sf)"
    "sessionPlayerRaceForSessionQuery sid d' = sessionPlayerRaceForSessionQuery sid d"
proof (rule TurnSubmit_Inr [OF run])
  fix p data header sf2 sf1 ready
  assume p: "get_row (sessionPlayerRaceQuery (Subject pr) sid d) = Inr p"
    and sf2: "get_row (lastSessionFilesQuery sid d) = Inr sf2"
    and st: "store_order b64 (P_PlayerOrder p) sf2 = Inr sf1"
    and d': "d' = update_files (\<lambda>f. F_ID f = F_ID sf1) (\<lambda>f. f\<lparr>F_Orders := F_Orders sf1\<rparr>) d"
    and ready: "allPlayersReady sid sf1 d' = Inr ready"
    and x: "x = \<lparr>TD_SessionID = sid, TD_Year = Year header, TD_PlayerOrder = P_PlayerOrder p,
       TD_Messages = (if ready then [genMsg sid year] else [])\<rparr>"
  have sf2: "sf2 = sf" using sf sf2 by simp
  let ?rows = "sessionPlayerRaceForSessionQuery sid d" and ?n = "length (F_Turns sf)"
  have "p \<in> set ?rows"
    using get_row_Inr [OF p] by (auto simp: sessionPlayerRaceQuery_def sessionPlayerRaceForSessionQuery_def)
  then have "P_PlayerOrder p \<in> set (map int [0..<?n])" using players by (metis image_eqI set_map)
  then have k: "0 \<le> P_PlayerOrder p" "P_PlayerOrder p < int ?n" by auto
  have stored: "sf1 = sf\<lparr>F_Orders := F_Orders sf1\<rparr>" "length (F_Orders sf1) = ?n"
    using store_order_Inr [OF st k(1)] k turns sf2 by auto
  have id: "F_ID sf1 = F_ID sf" using stored(1) by (metis SessionFilesDB.select_convs(1) SessionFilesDB.surjective SessionFilesDB.update_convs(7))
  have len: "length ?rows = ?n" using arg_cong [OF players, of length] by simp
  have "P_PlayerOrder (?rows ! i) = int i" if "i < ?n" for i
    using nth_map [of i ?rows P_PlayerOrder] that len players by simp
  with len have rows: "length ?rows = ?n" "\<And>i. i < ?n \<Longrightarrow> P_PlayerOrder (?rows ! i) = int i" by auto
  have same: "sessionPlayerRaceForSessionQuery sid d' = ?rows"
    by (simp add: d' update_files_def sessionPlayerRaceForSessionQuery_def)
  have "F_Orders sf1 \<noteq> []" using stored(2) turns(1) by auto
  then have "ready = (\<forall>i < ?n. must_submit (?rows ! i) \<longrightarrow> ReadyPlayers sf1 ! i)"
    using ready all_ready_Inr [of 0 ?rows "ReadyPlayers sf1"] stored(2) rows(1) turns(1)
    by (auto simp: allPlayersReady_def same ReadyPlayers_def)
  also have "\<dots> = (\<forall>q \<in> set ?rows. must_submit q \<longrightarrow> F_Orders sf1 ! nat (P_PlayerOrder q) \<noteq> '''')"
    using rows stored(2) by (simp add: ReadyPlayers_def all_set_conv_all_nth)
  finally have ready: "ready = \<dots>" .
  have "sf \<in> set (files d)" using lastSessionFiles_latest [OF sf] by simp
  then have "sf1 \<in> set (files d')"
    using stored(1) id by (force simp: d' update_files_def set_sql_update)
  moreover have "get_row (lastSessionFilesQuery sid d') = Inr sf1"
    using lastSessionFiles_update [OF _ _ sf, of "\<lambda>f. f\<lparr>F_Orders := F_Orders sf1\<rparr>" "\<lambda>f. F_ID f = F_ID sf1"]
      stored(1) id by (simp add: d')
  ultimately show thesis using id x ready stored(2) same by (intro that [of sf1]) simp_all
qed

text \<open>
  \<^bold>\<open>C16\<close> When the database happens to return the players of the session in the sequence of their
  orders, an accepted order file triggers the generation of the turn exactly when every player who
  has to submit (no bot, not under the control of an AI) has now submitted.
\<close>

theorem TurnSubmit_triggers_generation:
  assumes run: "TurnSubmit_handle hs sid year b64 pr d = Inr (x, d', ns)"
    and sf: "get_row (lastSessionFilesQuery sid d) = Inr sf"
    and players: "map P_PlayerOrder (sessionPlayerRaceForSessionQuery sid d) = map int [0..<length (F_Turns sf)]"
    and turns: "F_Turns sf \<noteq> []" "F_Orders sf \<noteq> [] \<longrightarrow> length (F_Orders sf) = length (F_Turns sf)"
  shows "\<exists>sf1 \<in> set (files d'). F_ID sf1 = F_ID sf \<and>
    TD_Messages x = (if \<forall>p \<in> set (sessionPlayerRaceForSessionQuery sid d).
        must_submit p \<longrightarrow> F_Orders sf1 ! nat (P_PlayerOrder p) \<noteq> '''' then [genMsg sid year] else [])"
proof (rule TurnSubmit_trigger [OF assms])
  fix sf1
  assume "sf1 \<in> set (files d')" "F_ID sf1 = F_ID sf"
    "TD_Messages x = (if \<forall>p \<in> set (sessionPlayerRaceForSessionQuery sid d).
        must_submit p \<longrightarrow> F_Orders sf1 ! nat (P_PlayerOrder p) \<noteq> '''' then [genMsg sid year] else [])"
  then show ?thesis by blast
qed

theorem TurnSubmit_triggers_generation_witness:
  "\<exists>x d' ns. TurnSubmit_handle example_houston ''s'' 2407 example_order (example_principal ''u'')
      (played_db [human, bot]) = Inr (x, d', ns) \<and> TD_Messages x = [genMsg ''s'' 2407]"
proof -
  let ?d = "played_db [human, bot]"
  let ?run = "TurnSubmit_handle example_houston ''s'' 2407 example_order (example_principal ''u'') ?d"
  have "isl ?run = False \<and> (case ?run of Inr (x, d', ns) \<Rightarrow> map F_Orders (files d') = [[example_order, '''']])"
    by code_simp
  then obtain x d' ns where run: "?run = Inr (x, d', ns)" and f': "map F_Orders (files d') = [[example_order, '''']]"
    by (cases ?run) auto
  let ?sf = "hd (files ?d)"
  have sf: "get_row (lastSessionFilesQuery ''s'' ?d) = Inr ?sf"
    "map P_PlayerOrder (sessionPlayerRaceForSessionQuery ''s'' ?d) = map int [0..<length (F_Turns ?sf)]"
    "F_Turns ?sf \<noteq> []" "F_Orders ?sf = []" "sessionPlayerRaceForSessionQuery ''s'' ?d = [human, bot]"
    "must_submit bot = False" "P_PlayerOrder human = 0" "example_order \<noteq> ''''"
    by code_simp+
  obtain sf1 where sf1: "sf1 \<in> set (files d')" and msgs: "TD_Messages x = (if \<forall>p \<in> set [human, bot].
        must_submit p \<longrightarrow> F_Orders sf1 ! nat (P_PlayerOrder p) \<noteq> '''' then [genMsg ''s'' 2407] else [])"
    using TurnSubmit_triggers_generation [OF run sf(1,2,3)] sf(4,5) by auto
  have "F_Orders sf1 \<in> set (map F_Orders (files d'))" using sf1 by simp
  then have "F_Orders sf1 = [example_order, '''']" using f' by simp
  then have "TD_Messages x = [genMsg ''s'' 2407]" using msgs sf(6-8) by simp
  then show ?thesis using run by blast
qed

text \<open>
  Nobody who has to submit can trigger the generation a second time: the submission that asked for the turn
  leaves orders in the slot of everyone who has to submit, and a slot is written once.
\<close>

lemma TurnSubmit_asks_once:
  assumes run: "TurnSubmit_handle hs sid year b64 pr d = Inr (x, d', ns)" "TD_Messages x \<noteq> []"
    and sf: "get_row (lastSessionFilesQuery sid d) = Inr sf"
    and players: "map P_PlayerOrder (sessionPlayerRaceForSessionQuery sid d) = map int [0..<length (F_Turns sf)]"
    and turns: "F_Turns sf \<noteq> []" "F_Orders sf \<noteq> [] \<longrightarrow> length (F_Orders sf) = length (F_Turns sf)"
    and again: "TurnSubmit_handle hs' sid year' b64' pr' d' = Inr y"
    and p: "get_row (sessionPlayerRaceQuery (Subject pr') sid d') = Inr p"
  shows "\<not> must_submit p"
proof
  assume must: "must_submit p"
  obtain x1 d1 ns1 where y: "y = (x1, d1, ns1)" by (cases y)
  note again = again [unfolded y]
  show False
  proof (rule TurnSubmit_trigger [OF run(1) sf players turns])
    fix sf1
    assume msgs: "TD_Messages x = (if \<forall>p \<in> set (sessionPlayerRaceForSessionQuery sid d).
        must_submit p \<longrightarrow> F_Orders sf1 ! nat (P_PlayerOrder p) \<noteq> '''' then [genMsg sid year] else [])"
      and sf1: "get_row (lastSessionFilesQuery sid d') = Inr sf1" "length (F_Orders sf1) = length (F_Turns sf)"
      and rows: "sessionPlayerRaceForSessionQuery sid d' = sessionPlayerRaceForSessionQuery sid d"
    have "p \<in> set (sessionPlayerRaceForSessionQuery sid d')"
      using get_row_Inr [OF p] by (auto simp: sessionPlayerRaceQuery_def sessionPlayerRaceForSessionQuery_def)
    then have mem: "p \<in> set (sessionPlayerRaceForSessionQuery sid d)" using rows by simp
    then have "P_PlayerOrder p \<in> set (map int [0..<length (F_Turns sf)])" using players by (metis image_eqI set_map)
    then have k: "0 \<le> P_PlayerOrder p" by auto
    have slot: "F_Orders sf1 ! nat (P_PlayerOrder p) \<noteq> ''''" using msgs run(2) must mem by (auto split: if_splits)
    show False
    proof (rule TurnSubmit_Inr [OF again])
      fix p2 sf2 sf3
      assume "get_row (sessionPlayerRaceQuery (Subject pr') sid d') = Inr p2"
        "get_row (lastSessionFilesQuery sid d') = Inr sf2" "store_order b64' (P_PlayerOrder p2) sf2 = Inr sf3"
      then have "store_order b64' (P_PlayerOrder p) sf1 = Inr sf3" using p sf1(1) by simp
      moreover have "F_Orders sf1 \<noteq> []" using sf1(2) turns(1) by auto
      ultimately show False using slot k
        by (auto simp: store_order_def and_then_eq_Inr slice_get_def split: if_splits)
    qed
  qed
qed

definition everyone_submitted :: "db \<Rightarrow> bool" where
  "everyone_submitted d = list_all (\<lambda>sf. list_all (\<lambda>p.
     must_submit p \<longrightarrow> F_Orders sf ! nat (P_PlayerOrder p) \<noteq> '''') (sprs d)) (files d)"

text \<open>
  The condition on the sequence of the rows is needed. The handler tests the slot at the
  \<^emph>\<open>position\<close> of a row, and the query has no \<open>ORDER BY\<close>: in a game of one human and one bot whose
  rows the database returns bot first, the only human submits, his orders are stored, and no
  message goes out; a second submission is refused, so the turn is never generated.
\<close>

lemma TurnSubmit_may_never_generate:
  "\<exists>d x d' ns. db_ok d \<and>
    TurnSubmit_handle example_houston ''s'' 2407 example_order (example_principal ''u'') d = Inr (x, d', ns) \<and>
    everyone_submitted d' \<and> TD_Messages x = [] \<and>
    TurnSubmit_handle example_houston ''s'' 2407 example_order (example_principal ''u'') d' =
      Inl (ErrInvalidSomething ''cannot submit twice your orders'')"
proof -
  let ?d = "played_db [bot, human]"
  let ?submit = "TurnSubmit_handle example_houston ''s'' 2407 example_order (example_principal ''u'')"
  have "case ?submit ?d of Inl e \<Rightarrow> False | Inr (x, d', ns) \<Rightarrow> everyone_submitted d' \<and> TD_Messages x = [] \<and>
      (case ?submit d' of Inl e \<Rightarrow> e = ErrInvalidSomething ''cannot submit twice your orders'' | Inr _ \<Rightarrow> False)"
    by code_simp
  then obtain x d' ns where "?submit ?d = Inr (x, d', ns)" "everyone_submitted d'" "TD_Messages x = []"
    "?submit d' = Inl (ErrInvalidSomething ''cannot submit twice your orders'')"
    by (auto split: sum.splits)
  then show ?thesis
    using played_db_ok(2) by (intro exI [of _ ?d] exI [of _ x] exI [of _ d'] exI [of _ ns]) simp
qed

subsection \<open>Reading turns\<close>

lemma ToTurnFiles_Inr:
  "ToTurnFiles sf k = Inr t \<Longrightarrow> 0 \<le> k \<and> k < int (length (F_Turns sf)) \<and> TF_Turn t = F_Turns sf ! nat k \<and>
    TF_Year t = F_Year sf \<and> TF_SessionID t = F_SessionID sf \<and> TF_Universe t = F_Universe sf"
  by (auto simp: ToTurnFiles_def and_then_eq_Inr slice_get_def split: if_splits)

lemma InternalError_not_Success [simp]: "InternalError e \<noteq> Success c x"
  by (simp add: InternalError_def)

text \<open>
  \<^bold>\<open>C19\<close> What \<open>TurnGet\<close> (for any year) and \<open>TurnLatest\<close> answer with status 200
  is a turn of the asked session, taken from the slot of a player who is the caller, and both
  only read. \<open>TurnLatest\<close> takes it from the files of the latest year, and \<open>TurnGet\<close> from the year asked.
\<close>

theorem turn_files_are_private:
  assumes "TurnLatest_Handle sid pr d = (Success 200 t, d', ns) \<and> latest \<or>
    TurnGet_Handle sid year pr d = (Success 200 t, d', ns) \<and> \<not> latest"
  shows "d' = d \<and> ns = [] \<and> (\<exists>p sf. p \<in> set (sprs d) \<and> P_SessionID p = sid \<and> P_UserProfileID p = Subject pr \<and>
    sf \<in> set (files d) \<and> F_SessionID sf = sid \<and>
    (if latest then \<forall>f \<in> set (files d). F_SessionID f = sid \<longrightarrow> F_Year f \<le> F_Year sf else F_Year sf = year) \<and>
    TF_SessionID t = sid \<and> TF_Year t = F_Year sf \<and> TF_Turn t = F_Turns sf ! nat (P_PlayerOrder p))"
  using assms
proof
  assume "TurnLatest_Handle sid pr d = (Success 200 t, d', ns) \<and> latest"
  then have run: "TurnLatest_handle sid pr d = Inr (t, d', ns)" and latest
    by (auto simp: TurnLatest_Handle_def respond_Success)
  obtain p sf where p: "get_row (sessionPlayerRaceQuery (Subject pr) sid d) = Inr p"
    and sf: "get_row (lastSessionFilesQuery sid d) = Inr sf" and t: "ToTurnFiles sf (P_PlayerOrder p) = Inr t"
    using run by (auto simp: TurnLatest_handle_def and_then_eq_Inr split: if_splits sum.splits)
  show ?thesis
    using readers_keep(1) [OF run] get_row_Inr [OF p] lastSessionFiles_latest [OF sf] ToTurnFiles_Inr [OF t]
      \<open>latest\<close>
    by (intro conjI exI [of _ p] exI [of _ sf]) (auto simp: sessionPlayerRaceQuery_def)
next
  assume "TurnGet_Handle sid year pr d = (Success 200 t, d', ns) \<and> \<not> latest"
  then obtain p where p: "get_row (sessionPlayerRaceQuery (Subject pr) sid d) = Inr p"
    and run: "TurnGet_handle sid year pr (P_PlayerOrder p) d = Inr (t, d', ns)" and "\<not> latest"
    by (auto simp: TurnGet_Handle_def respond_Success split: if_splits sum.splits)
  obtain sf where sf: "get_row (sessionFilesQueryByYear sid year d) = Inr sf"
    and t: "ToTurnFiles sf (P_PlayerOrder p) = Inr t"
    using run by (auto simp: TurnGet_handle_def and_then_eq_Inr split: if_splits sum.splits)
  show ?thesis
    using readers_keep(3) [OF run] get_row_Inr [OF p] get_row_Inr [OF sf] ToTurnFiles_Inr [OF t] \<open>\<not> latest\<close>
    by (intro conjI exI [of _ p] exI [of _ sf]) (auto simp: sessionPlayerRaceQuery_def sessionFilesQueryByYear_def)
qed

theorem turn_files_are_private_witness:
  "\<exists>t. TurnLatest_Handle ''s'' (example_principal ''u'') (played_db [human, bot]) =
      (Success 200 t, played_db [human, bot], []) \<and> TF_Turn t = ''CQ=='' \<and> TF_Year t = 2407"
proof -
  let ?run = "TurnLatest_Handle ''s'' (example_principal ''u'') (played_db [human, bot])"
  have "case fst ?run of Success c t \<Rightarrow> c = 200 | _ \<Rightarrow> False" by code_simp
  then obtain t d' ns where run: "?run = (Success 200 t, d', ns)"
    by (cases ?run) (auto split: response.splits)
  show ?thesis
    using turn_files_are_private [of _ _ _ _ _ _ True 0, OF disjI1, OF conjI, OF run TrueI] run
    by (auto simp: played_db_def human_def bot_def example_player_def example_principal_def)
qed

lemma submitted_flag_total:
  "0 \<le> k \<Longrightarrow> submitted_flag flags k = Inr (nat k < length flags \<and> flags ! nat k)"
  by (auto simp: submitted_flag_def slice_get_def)

lemma order_statuses_total:
  "\<forall>p \<in> set ps. 0 \<le> P_PlayerOrder p \<Longrightarrow> \<exists>rs. order_statuses d flags ps = Inr rs \<and>
    map PS_PlayerOrder rs = map P_PlayerOrder ps \<and> map PS_AiControlType rs = map P_AIControlType ps \<and>
    map PS_Submitted rs = map (\<lambda>p. nat (P_PlayerOrder p) < length flags \<and> flags ! nat (P_PlayerOrder p)) ps"
proof (induction ps)
  case (Cons p ps)
  then show ?case by (fastforce simp: submitted_flag_total)
qed simp

text \<open>
  The order status: a member of the session (or a global manager) gets one line per player, in the
  sequence of the player orders, and the line says that the player has submitted exactly when the
  slot of that player's order holds a file.
\<close>

lemma OrdersStatus_correct:
  assumes auth: "OrdersStatus_Authorize sid pr d"
    and sf: "get_row (sessionFilesQueryByYear sid year d) = Inr sf"
    and orders: "\<forall>p \<in> set (sprs d). 0 \<le> P_PlayerOrder p"
  shows "\<exists>rs. OrdersStatus_Handle sid year pr d = (Success 200 rs, d, []) \<and>
    map PS_PlayerOrder rs = map P_PlayerOrder (SessionPlayerRaces sid d) \<and>
    map PS_Submitted rs = map (\<lambda>p. nat (P_PlayerOrder p) < length (F_Orders sf) \<and>
      F_Orders sf ! nat (P_PlayerOrder p) \<noteq> '''') (SessionPlayerRaces sid d)"
proof -
  have "\<forall>p \<in> set (SessionPlayerRaces sid d). 0 \<le> P_PlayerOrder p"
    using orders by (auto simp: SessionPlayerRaces_def order_by_def)
  from order_statuses_total [OF this, of d "ReadyPlayers sf"]
  obtain rs where rs: "order_statuses d (ReadyPlayers sf) (SessionPlayerRaces sid d) = Inr rs"
    "map PS_PlayerOrder rs = map P_PlayerOrder (SessionPlayerRaces sid d)"
    "map PS_Submitted rs = map (\<lambda>p. nat (P_PlayerOrder p) < length (ReadyPlayers sf) \<and>
       ReadyPlayers sf ! nat (P_PlayerOrder p)) (SessionPlayerRaces sid d)"
    by blast
  have "OrdersStatus_Handle sid year pr d = (Success 200 rs, d, [])"
    by (simp add: OrdersStatus_Handle_def OrdersStatus_handle_def auth sf rs(1))
  then show ?thesis using rs(2,3) by (auto simp: ReadyPlayers_def intro!: exI [of _ rs])
qed

lemma OrdersStatus_correct_witness:
  "\<exists>rs. OrdersStatus_Handle ''s'' 2407 (example_principal ''u'') (played_db [bot, human]) =
      (Success 200 rs, played_db [bot, human], []) \<and> map PS_PlayerOrder rs = [0, 1] \<and>
    map PS_Submitted rs = [False, False]"
proof -
  let ?d = "played_db [bot, human]"
  have *: "OrdersStatus_Authorize ''s'' (example_principal ''u'') ?d"
    "get_row (sessionFilesQueryByYear ''s'' 2407 ?d) = Inr (hd (files ?d))"
    "list_all (\<lambda>p. 0 \<le> P_PlayerOrder p) (sprs ?d)"
    "map P_PlayerOrder (SessionPlayerRaces ''s'' ?d) = [0, 1]" "F_Orders (hd (files ?d)) = []"
    by code_simp+
  have "length (SessionPlayerRaces ''s'' ?d) = 2" using arg_cong [OF *(4), of length] by simp
  then have "map (\<lambda>p. False) (SessionPlayerRaces ''s'' ?d) = [False, False]"
    by (auto simp: numeral_2_eq_2 length_Suc_conv)
  then show ?thesis
    using OrdersStatus_correct [OF *(1,2) *(3)[unfolded list_all_iff]] *(4,5) by simp
qed

subsection \<open>Generating a turn\<close>

lemma genTurn_Inr:
  assumes "genTurn hs preserve wine uuid sid year (d, f) = (Inr u, d', f')"
  obtains sf0 g gf f1 sf where "get_row (sessionFilesQueryByYear sid year d) = Inr sf0"
    "NewGameFilesFromSessionFiles sf0 = Inr g"
    "GenTurn wine sid g (SessionPlayerRaces sid d) f = (Inr gf, f1)"
    "HydrateSessionFiles hs gf empty_session_files = Inr sf"
    "insert_file (sf\<lparr>F_ID := uuid, F_SessionID := sid\<rparr>) d = Inr d'"
    "f' = snd (CleanupSessionDir preserve sid f1)"
proof -
  obtain s where s: "get_session sid d = Inr s"
    using assms by (auto simp: genTurn_def split: sum.splits)
  then have [simp]: "S_ID s = sid" using get_session_Inr by blast
  show ?thesis
    using assms that by (auto simp: genTurn_def s and_then_eq_Inr split: sum.splits prod.splits)
qed

lemma OrderListToBytes_nth:
  "OrderListToBytes xs = Inr bs \<Longrightarrow> length bs = length xs \<and> (\<forall>k < length xs. B64Decode (xs ! k) = Inr (bs ! k))"
proof (induction xs arbitrary: bs)
  case (Cons x xs)
  then show ?case by (auto simp: and_then_eq_Inr nth_Cons split: nat.splits)
qed simp

text \<open>
  \<^bold>\<open>C17\<close> A generated turn, when no save directory of the session is left (a failed generation leaves one, and
  its order files would be read again) and the player orders of the session are distinct: Stars! ran on the universe, the host
  file and the submitted orders that the database holds for the year of the message, each order file under the number of its
  slot. The only change of the database is one new row with the files Stars! left, the turn of each
  player in the slot of its order, and no orders yet; its year is the one in the new host file, and
  no row of the session had that year. The directory is removed unless it is to be kept.
\<close>

theorem genTurn_correct:
  assumes "db_ok d" "genTurn hs preserve wine uuid sid year (d, f) = (Inr u, d', f')" "f sid = None"
    and orders: "distinct (map P_PlayerOrder (SessionPlayerRaces sid d))"
  shows "\<exists>sf0 sf gf m m' f1. sf0 \<in> set (files d) \<and> F_SessionID sf0 = sid \<and> F_Year sf0 = year \<and>
    wine (new_turn_args sid) (f(sid \<mapsto> m)) = (None, f1) \<and>
    Inr (the (m universeBaseFilename)) = B64Decode (F_Universe sf0) \<and>
    Inr (the (m hostBaseFilename)) = B64Decode (F_HostFile sf0) \<and>
    (\<forall>k < length (F_Orders sf0). B64Decode (F_Orders sf0 ! k) =
       Inr (case m (orderFilename (int k)) of None \<Rightarrow> [] | Some order \<Rightarrow> order)) \<and>
    d' = d\<lparr>files := files d @ [sf]\<rparr> \<and> F_ID sf = uuid \<and> F_SessionID sf = sid \<and>
    (\<forall>f \<in> set (files d). F_SessionID f = sid \<longrightarrow> F_Year f \<noteq> F_Year sf) \<and>
    map_sum id Year (FileHeader hs (G_HostFile gf)) = Inr (F_Year sf) \<and>
    NewGameFilesFromSessionFiles sf = Inr gf \<and> G_Orders gf = [] \<and>
    f1 sid = Some m' \<and> m' universeBaseFilename = Some (G_Universe gf) \<and> m' hostBaseFilename = Some (G_HostFile gf) \<and>
    (\<forall>p \<in> set (SessionPlayerRaces sid d). m' (turnFilename (P_PlayerOrder p)) = Some (G_Turns gf ! nat (P_PlayerOrder p))) \<and>
    (\<not> preserve \<longrightarrow> f' sid = None)"
proof (rule genTurn_Inr [OF assms(2)])
  fix sf0 g gf f1 sf
  assume sf0: "get_row (sessionFilesQueryByYear sid year d) = Inr sf0"
    and g: "NewGameFilesFromSessionFiles sf0 = Inr g"
    and run: "GenTurn wine sid g (SessionPlayerRaces sid d) f = (Inr gf, f1)"
    and hyd: "HydrateSessionFiles hs gf empty_session_files = Inr sf"
    and ins: "insert_file (sf\<lparr>F_ID := uuid, F_SessionID := sid\<rparr>) d = Inr d'"
    and f': "f' = snd (CleanupSessionDir preserve sid f1)"
  let ?sf = "sf\<lparr>F_ID := uuid, F_SessionID := sid\<rparr>"
  let ?d = "session_dir sid f"
  obtain m where m: "m = (written (order_entries 0 (G_Orders g)) ?d)
       (universeBaseFilename \<mapsto> overwrite (G_Universe g) (stale ?d universeBaseFilename),
        hostBaseFilename \<mapsto> overwrite (G_HostFile g) (stale ?d hostBaseFilename))"
    and w: "wine (new_turn_args sid) (f(sid \<mapsto> m)) = (None, f1)"
    and gft: "gameFilesForTurn sid (SessionPlayerRaces sid d) f1 = (Inr gf, f1)"
    using run orders by (rule GenTurn_parts)
  have "?d = Map.empty" using assms(3) by (simp add: session_dir_def)
  then have m: "m = (map_of (order_entries 0 (G_Orders g)))
      (universeBaseFilename \<mapsto> G_Universe g, hostBaseFilename \<mapsto> G_HostFile g)"
    unfolding m by (simp add: written_fresh stale_def)
  have input: "B64Decode (F_Universe sf0) = Inr (G_Universe g)" "B64Decode (F_HostFile sf0) = Inr (G_HostFile g)"
    "OrderListToBytes (F_Orders sf0) = Inr (G_Orders g)"
    using g by (auto simp: NewGameFilesFromSessionFiles_def and_then_eq_Inr)
  have slots: "\<forall>k < length (F_Orders sf0). B64Decode (F_Orders sf0 ! k) =
      Inr (case m (orderFilename (int k)) of None \<Rightarrow> [] | Some order \<Rightarrow> order)"
    using OrderListToBytes_nth [OF input(3)] map_of_order_entries [of 0 _ "G_Orders g"] by (simp add: m)
  have universe: "Inr (the (m universeBaseFilename)) = B64Decode (F_Universe sf0)"
    "Inr (the (m hostBaseFilename)) = B64Decode (F_HostFile sf0)"
    by (simp_all add: m input)
  have "sf0 \<in> set (files d)" "F_SessionID sf0 = sid" "F_Year sf0 = year"
    using get_row_Inr [OF sf0] by (auto simp: sessionFilesQueryByYear_def)
  moreover have "d' = d\<lparr>files := files d @ [?sf]\<rparr>"
    "\<forall>f \<in> set (files d). F_SessionID f = sid \<longrightarrow> F_Year f \<noteq> F_Year ?sf"
    using ins by (auto simp: insert_file_def enforce_Inr occurs_iff file_key_def sql_insert_def image_iff)
  moreover have "map_sum id Year (FileHeader hs (G_HostFile gf)) = Inr (F_Year ?sf)"
    "NewGameFilesFromSessionFiles ?sf = Inr gf" "G_Orders gf = []"
    using hyd gameFilesForTurn_Inr [OF gft orders]
    by (auto simp: HydrateSessionFiles_def NewGameFilesFromSessionFiles_def and_then_eq_Inr)
  moreover have "\<not> preserve \<longrightarrow> f' sid = None" by (simp add: f' CleanupSessionDir_def)
  moreover obtain m' where "f1 sid = Some m'" "m' universeBaseFilename = Some (G_Universe gf)"
    "m' hostBaseFilename = Some (G_HostFile gf)"
    "\<forall>p \<in> set (SessionPlayerRaces sid d). m' (turnFilename (P_PlayerOrder p)) = Some (G_Turns gf ! nat (P_PlayerOrder p))"
    using gameFilesForTurn_Inr [OF gft orders] by blast
  ultimately show ?thesis
    using w slots universe
    by (intro exI [of _ sf0] exI [of _ ?sf] exI [of _ gf] exI [of _ m] exI [of _ m'] exI [of _ f1])
      (simp del: fun_upd_apply)
qed

text \<open>A run of Stars! that leaves the files of the next year.\<close>

definition next_year_wine :: wine where
  "next_year_wine args f = (None, f(''s'' := map_option (\<lambda>m. m(universeBaseFilename \<mapsto> [1],
     hostBaseFilename \<mapsto> [8, 0], ''game.m1'' \<mapsto> [11], ''game.m2'' \<mapsto> [12])) (f ''s'')))"

theorem genTurn_correct_witness:
  "\<exists>d' f' sf. genTurn example_houston False next_year_wine ''g'' ''s'' 2407 (played_db [human, bot], Map.empty) =
      (Inr (), d', f') \<and> files d' = files (played_db [human, bot]) @ [sf] \<and> F_Year sf = 2408 \<and> f' ''s'' = None"
proof -
  let ?run = "genTurn example_houston False next_year_wine ''g'' ''s'' 2407 (played_db [human, bot], Map.empty)"
  have *: "isl (fst ?run) = False \<and> map F_Year (files (fst (snd ?run))) = [2407, 2408]" by code_simp
  then obtain d' f' where run: "?run = (Inr (), d', f')" and years: "map F_Year (files d') = [2407, 2408]"
    by (cases ?run; cases "fst ?run") auto
  have dist: "distinct (map P_PlayerOrder (SessionPlayerRaces ''s'' (played_db [human, bot])))"
    and len: "length (files (played_db [human, bot])) = 1"
    by code_simp+
  obtain sf where sf: "d' = (played_db [human, bot])\<lparr>files := files (played_db [human, bot]) @ [sf]\<rparr>"
    and "\<not> False \<longrightarrow> f' ''s'' = None"
    using genTurn_correct [OF played_db_ok(1) run _ dist] by blast
  moreover have "F_Year sf = 2408" using years len sf by (auto simp: length_Suc_conv)
  ultimately show ?thesis using run by auto
qed



end
