(* ===== verification/Rules.thy ===== *)
theory Rules
  imports Players
begin

section \<open>Rules of a session\<close>

text \<open>
  \<open>rules_create.go\<close> and \<open>rules_read.go\<close>: the managers set the rules of the game while the session is
  pending. The first call inserts a row and records it in the session, later calls replace the row.
  The value for capital ships is clamped to the range that the schema checks.
\<close>

definition RulesCreate_Authorize :: "id \<Rightarrow> Principal \<Rightarrow> db \<Rightarrow> bool" where
  "RulesCreate_Authorize sid pr d =
    (if IsGlobalManager pr then True else IsSessionManager (Subject pr) sid d)"

definition clamp_capital_ships :: "int \<Rightarrow> int" where
  "clamp_capital_ships v = (if v < 10 then 10 else if v > 300 then 300 else v)"

text \<open>The field by field copy of the body.\<close>

definition copy_ruleset :: "Ruleset \<Rightarrow> Ruleset" where
  "copy_ruleset p = \<lparr>
     AcceleratedBbsPlay = AcceleratedBbsPlay p,
     ComputerPlayersFormAlliances = ComputerPlayersFormAlliances p,
     Density = Density p,
     GalaxyClumping = GalaxyClumping p,
     MaximumMinerals = MaximumMinerals p,
     NoRandomEvents = NoRandomEvents p,
     PublicPlayerScores = PublicPlayerScores p,
     RandomSeed = RandomSeed p,
     SlowerTechAdvances = SlowerTechAdvances p,
     StartingDistance = StartingDistance p,
     UniverseSize = UniverseSize p,
     VcAtLeastxYears = VcAtLeastxYears p,
     VcAttainTech = VcAttainTech p,
     VcAttainTechFieldsValue = VcAttainTechFieldsValue p,
     VcAttainTechTechValue = VcAttainTechTechValue p,
     VcExceedNextPlayerScore = VcExceedNextPlayerScore p,
     VcExceedNextPlayerScoreValue = VcExceedNextPlayerScoreValue p,
     VcExceedScore = VcExceedScore p,
     VcExceedScoreValue = VcExceedScoreValue p,
     VcHasProductionCapacity = VcHasProductionCapacity p,
     VcHasProductionCapacityValue = VcHasProductionCapacityValue p,
     VcHaveHighestScore = VcHaveHighestScore p,
     VcHaveHighestScoreValue = VcHaveHighestScoreValue p,
     VcOwnsCapitalShips = VcOwnsCapitalShips p,
     VcOwnsCapitalShipsValue = clamp_capital_ships (VcOwnsCapitalShipsValue p),
     VcOwnsPercentOfPlanets = VcOwnsPercentOfPlanets p,
     VcOwnsPercentOfPlanetsValue = VcOwnsPercentOfPlanetsValue p,
     VcWinnerMustMeet = VcWinnerMustMeet p\<rparr>"

text \<open>\<open>sqlH.Update\<close> of a row with the primary key of an existing one.\<close>

definition update_ruleset_row :: "RulesetDB \<Rightarrow> db \<Rightarrow> err + db" where
  "update_ruleset_row r d =
    (if \<not> list_all int4 (ruleset_ints (RS_Ruleset r)) then Inl out_of_range
     else update_rulesets (\<lambda>x. RS_ID x = RS_ID r) (\<lambda>_. r) d)"

definition RulesCreate_handle :: "id \<Rightarrow> id \<Rightarrow> Ruleset \<Rightarrow> Principal \<Rightarrow> db \<Rightarrow> Ruleset tx" where
  "RulesCreate_handle uuid sid body pr d =
    (if \<not> RulesCreate_Authorize sid pr d then Inl ErrForbidden
     else case get_session sid d of
       Inl e \<Rightarrow> (if errors_Is e NoRows
         then Inl (ErrSessionNotFound (''session not found with ID: '' @ sid)) else Inl e)
     | Inr s \<Rightarrow>
        if S_State s \<noteq> Pending
          then Inl (ErrSessionAlreadyStarted ''cannot modify rules for a session that is not pending'')
        else let rules = copy_ruleset body in
          (case sql_first (\<lambda>r. RS_SessionID r = sid) (rulesets d) of
             Some existing \<Rightarrow>
               and_then (update_ruleset_row
                 \<lparr>RS_ID = RS_ID existing, RS_SessionID = sid, RS_Ruleset = rules\<rparr> d) (\<lambda>d1.
               Inr (rules, d1, [PublishSessionUpdate sid]))
           | None \<Rightarrow>
               and_then (insert_ruleset \<lparr>RS_ID = uuid, RS_SessionID = sid, RS_Ruleset = rules\<rparr> d) (\<lambda>d1.
               and_then (update_session_row (s\<lparr>S_RulesIsSet := True, S_RulesetID := Some uuid\<rparr>) d1) (\<lambda>d2.
               Inr (rules, d2, [PublishSessionUpdate sid])))))"

definition RulesCreate_Handle :: "id \<Rightarrow> id \<Rightarrow> Ruleset \<Rightarrow> Principal \<Rightarrow> db \<Rightarrow> Ruleset reply" where
  "RulesCreate_Handle uuid sid body pr d =
    respond [case_forbidden, case_not_found, case_invalid, case_precondition] 200 d
      (RulesCreate_handle uuid sid body pr d)"

definition RulesRead_Authorize :: "id \<Rightarrow> Principal \<Rightarrow> db \<Rightarrow> bool" where
  "RulesRead_Authorize sid pr d =
    (if IsGlobalManager pr then True
     else if IsSessionPublic sid d then True
     else IsSessionMember (Subject pr) sid d)"

definition RulesRead_handle :: "id \<Rightarrow> Principal \<Rightarrow> db \<Rightarrow> Ruleset tx" where
  "RulesRead_handle sid pr d =
    (if \<not> RulesRead_Authorize sid pr d then Inl ErrForbidden
     else case get_ruleset sid d of
       Inl e \<Rightarrow> (if errors_Is e NoRows
         then Inl (ErrRulesNotFound (''rules not found for session ID: '' @ sid)) else Inl e)
     | Inr rules \<Rightarrow> Inr (rules, d, []))"

definition RulesRead_Handle :: "id \<Rightarrow> Principal \<Rightarrow> db \<Rightarrow> Ruleset reply" where
  "RulesRead_Handle sid pr d =
    respond [case_forbidden, case_not_found, case_invalid] 200 d (RulesRead_handle sid pr d)"

subsection \<open>The request contract\<close>

lemma RulesCreate_authorized:
  "RulesCreate_handle uuid sid body pr d = Inr (x, d', ns) \<Longrightarrow> RulesCreate_Authorize sid pr d"
  by (auto simp: RulesCreate_handle_def split: if_splits)

lemma update_ruleset_row_ok:
  assumes "db_ok d" "update_ruleset_row r d = Inr d'" "old \<in> set (rulesets d)"
    "RS_ID old = RS_ID r" "RS_SessionID old = RS_SessionID r"
  shows "db_ok d'"
proof -
  have "fkey RS_SessionID (rulesets d) S_ID (sessions d)" using assms(1) by (simp add: db_ok_parts)
  then have "RS_SessionID r \<in> S_ID ` set (sessions d)" using assms(3,5) by (metis fkey_def)
  moreover have "\<forall>c \<in> set (ruleset_checks r). fst c"
    using assms(2-4) by (auto simp: update_ruleset_row_def update_rulesets_def enforce_Inr split: if_splits)
  ultimately show ?thesis
    using assms(1,2)
    by (simp add: update_ruleset_row_def update_rulesets_def enforce_Inr db_ok_parts map_replace_keys
        fkey_replace_row fkey_opt_replace_target ruleset_check_iff split: if_splits)
qed

text \<open>The two ways in which the rules are stored.\<close>

lemma RulesCreate_Inr:
  assumes "RulesCreate_handle uuid sid body pr d = Inr (x, d', ns)"
  obtains s where "s \<in> set (sessions d)" "S_ID s = sid" "S_State s = Pending" "x = copy_ruleset body"
    "ns = [PublishSessionUpdate sid]"
    "(\<exists>old. sql_first (\<lambda>r. RS_SessionID r = sid) (rulesets d) = Some old \<and>
       update_ruleset_row \<lparr>RS_ID = RS_ID old, RS_SessionID = sid, RS_Ruleset = x\<rparr> d = Inr d') \<or>
     (sql_first (\<lambda>r. RS_SessionID r = sid) (rulesets d) = None \<and>
       (\<exists>d1. insert_ruleset \<lparr>RS_ID = uuid, RS_SessionID = sid, RS_Ruleset = x\<rparr> d = Inr d1 \<and>
         update_session_row (s\<lparr>S_RulesIsSet := True, S_RulesetID := Some uuid\<rparr>) d1 = Inr d'))"
proof -
  obtain s where s: "get_session sid d = Inr s"
    using assms by (auto simp: RulesCreate_handle_def split: if_splits sum.splits)
  note id = get_session_Inr [OF s]
  show ?thesis
    using assms id that [of s]
    by (auto simp: RulesCreate_handle_def s Let_def and_then_eq_Inr split: if_splits option.splits)
qed

lemma RulesCreate_keeps:
  assumes "db_ok d" "RulesCreate_handle uuid sid body pr d = Inr (x, d', ns)"
  shows "db_ok d'"
proof (rule RulesCreate_Inr [OF assms(2)], elim disjE exE conjE)
  fix old assume "sql_first (\<lambda>r. RS_SessionID r = sid) (rulesets d) = Some old"
    and "update_ruleset_row \<lparr>RS_ID = RS_ID old, RS_SessionID = sid, RS_Ruleset = x\<rparr> d = Inr d'"
  then show ?thesis using update_ruleset_row_ok [OF assms(1)] sql_first_Some by fastforce
next
  fix s d1 assume "insert_ruleset \<lparr>RS_ID = uuid, RS_SessionID = sid, RS_Ruleset = x\<rparr> d = Inr d1"
    "update_session_row (s\<lparr>S_RulesIsSet := True, S_RulesetID := Some uuid\<rparr>) d1 = Inr d'"
  then show ?thesis using insert_ruleset_ok [OF assms(1)] update_session_row_ok by blast
qed

interpretation rules_create_req: guarded_request
  "\<lambda>(uuid, sid, body, pr). RulesCreate_handle uuid sid body pr"
  "\<lambda>(uuid, sid, body, pr). RulesCreate_Handle uuid sid body pr" db_ok
  "\<lambda>(uuid, sid, body, pr) d. RulesCreate_Authorize sid pr d"
  by unfold_locales (auto simp: RulesCreate_Handle_def dest: RulesCreate_keeps RulesCreate_authorized)

lemma RulesRead_reads:
  "RulesRead_handle sid pr d = Inr (x, d', ns) \<Longrightarrow> d' = d \<and> ns = [] \<and> RulesRead_Authorize sid pr d"
  by (auto simp: RulesRead_handle_def split: if_splits sum.splits)

interpretation rules_read_req: guarded_request
  "\<lambda>(sid, pr). RulesRead_handle sid pr" "\<lambda>(sid, pr). RulesRead_Handle sid pr" db_ok
  "\<lambda>(sid, pr) d. RulesRead_Authorize sid pr d"
  by unfold_locales (auto simp: RulesRead_Handle_def dest: RulesRead_reads)

subsection \<open>Rules are read back as they were set\<close>

lemma clamp_capital_ships_range: "10 \<le> clamp_capital_ships v \<and> clamp_capital_ships v \<le> 300"
  by (simp add: clamp_capital_ships_def)

lemma sql_first_update_hit:
  "sql_first p rows = Some old \<Longrightarrow> q old \<Longrightarrow> p v \<Longrightarrow> (\<And>r. r \<in> set rows \<Longrightarrow> q r \<Longrightarrow> p r) \<Longrightarrow>
   sql_first p (sql_update q (\<lambda>_. v) rows) = Some v"
  by (induction rows) (auto simp: sql_update_def split: if_splits)

lemma sql_first_update_miss:
  "\<not> p v \<Longrightarrow> (\<And>r. r \<in> set rows \<Longrightarrow> q r \<Longrightarrow> \<not> p r) \<Longrightarrow>
   sql_first p (sql_update q (\<lambda>_. v) rows) = sql_first p rows"
  by (induction rows) (auto simp: sql_update_def)

text \<open>
  Rules set while the session is pending are the rules that are read afterwards, by everyone
  who may read them, and the rules from which a game would be generated: all fields as sent, but
  the value for capital ships clamped to 10..300. The rules of other sessions do not change, whether
  a row existed before or not.
\<close>

lemma RulesCreate_then_RulesRead:
  assumes "db_ok d" "RulesCreate_handle uuid sid body pr d = Inr (x, d', ns)"
    and "RulesRead_Authorize sid reader d'"
  shows "RulesRead_handle sid reader d' = Inr (x, d', []) \<and> get_ruleset sid d' = Inr x \<and>
    x = copy_ruleset body \<and> 10 \<le> VcOwnsCapitalShipsValue x \<and> VcOwnsCapitalShipsValue x \<le> 300 \<and>
    x\<lparr>VcOwnsCapitalShipsValue := VcOwnsCapitalShipsValue body\<rparr> = body \<and>
    (\<exists>s \<in> set (sessions d). S_ID s = sid \<and> S_State s = Pending) \<and>
    (\<forall>other. other \<noteq> sid \<longrightarrow> get_ruleset other d' = get_ruleset other d)"
proof (rule RulesCreate_Inr [OF assms(2)])
  fix s
  assume s: "s \<in> set (sessions d)" "S_ID s = sid" "S_State s = Pending" and x: "x = copy_ruleset body"
    and cases: "(\<exists>old. sql_first (\<lambda>r. RS_SessionID r = sid) (rulesets d) = Some old \<and>
       update_ruleset_row \<lparr>RS_ID = RS_ID old, RS_SessionID = sid, RS_Ruleset = x\<rparr> d = Inr d') \<or>
     (sql_first (\<lambda>r. RS_SessionID r = sid) (rulesets d) = None \<and>
       (\<exists>d1. insert_ruleset \<lparr>RS_ID = uuid, RS_SessionID = sid, RS_Ruleset = x\<rparr> d = Inr d1 \<and>
         update_session_row (s\<lparr>S_RulesIsSet := True, S_RulesetID := Some uuid\<rparr>) d1 = Inr d'))"
  have stored: "sql_first (\<lambda>r. RS_SessionID r = k) (rulesets d') =
      (if k = sid then Some \<lparr>RS_ID = i, RS_SessionID = sid, RS_Ruleset = x\<rparr>
       else sql_first (\<lambda>r. RS_SessionID r = k) (rulesets d))"
    if "i = (case sql_first (\<lambda>r. RS_SessionID r = sid) (rulesets d) of None \<Rightarrow> uuid | Some old \<Rightarrow> RS_ID old)" for k i
    using cases
  proof (elim disjE exE conjE)
    fix old assume old: "sql_first (\<lambda>r. RS_SessionID r = sid) (rulesets d) = Some old"
      and up: "update_ruleset_row \<lparr>RS_ID = RS_ID old, RS_SessionID = sid, RS_Ruleset = x\<rparr> d = Inr d'"
    let ?v = "\<lparr>RS_ID = RS_ID old, RS_SessionID = sid, RS_Ruleset = x\<rparr>"
    have r: "rulesets d' = sql_update (\<lambda>r. RS_ID r = RS_ID old) (\<lambda>_. ?v) (rulesets d)"
      using up by (simp add: update_ruleset_row_def update_rulesets_def enforce_Inr split: if_splits)
    have same: "RS_SessionID r = sid" if "r \<in> set (rulesets d)" "RS_ID r = RS_ID old" for r
      using distinct_key_eq [of RS_ID "rulesets d" r old] that sql_first_Some [OF old] assms(1)
      by (simp add: db_ok_parts)
    have "sql_first (\<lambda>r. RS_SessionID r = sid) (rulesets d') = Some ?v"
      unfolding r by (rule sql_first_update_hit [OF old]) (use same in auto)
    moreover have "sql_first (\<lambda>r. RS_SessionID r = k) (rulesets d') =
        sql_first (\<lambda>r. RS_SessionID r = k) (rulesets d)" if "k \<noteq> sid"
      unfolding r by (rule sql_first_update_miss) (use same that in auto)
    ultimately show ?thesis using old that by simp
  next
    fix d1 assume new: "sql_first (\<lambda>r. RS_SessionID r = sid) (rulesets d) = None"
      and ins: "insert_ruleset \<lparr>RS_ID = uuid, RS_SessionID = sid, RS_Ruleset = x\<rparr> d = Inr d1"
      "update_session_row (s\<lparr>S_RulesIsSet := True, S_RulesetID := Some uuid\<rparr>) d1 = Inr d'"
    then have "rulesets d' = rulesets d @ [\<lparr>RS_ID = uuid, RS_SessionID = sid, RS_Ruleset = x\<rparr>]"
      by (auto simp: insert_ruleset_def update_session_row_def enforce_Inr sql_insert_def)
    then show ?thesis using new that by (auto simp: sql_first_append split: option.splits)
  qed
  then have "get_ruleset sid d' = Inr x" "other \<noteq> sid \<Longrightarrow> get_ruleset other d' = get_ruleset other d" for other
    by (simp_all add: get_ruleset_def)
  moreover have "10 \<le> VcOwnsCapitalShipsValue x \<and> VcOwnsCapitalShipsValue x \<le> 300"
    using clamp_capital_ships_range by (simp add: x copy_ruleset_def)
  moreover have "x\<lparr>VcOwnsCapitalShipsValue := VcOwnsCapitalShipsValue body\<rparr> = body"
    by (simp add: x copy_ruleset_def)
  ultimately show ?thesis using assms(3) s x by (auto simp: RulesRead_handle_def)
qed

lemma RulesCreate_then_RulesRead_witness:
  "\<exists>x d'. RulesCreate_handle ''q'' ''s'' shire_ruleset (example_principal ''u'') (example_db Pending True) =
      Inr (x, d', [PublishSessionUpdate ''s'']) \<and>
    RulesRead_handle ''s'' (example_principal ''v'') d' = Inr (x, d', []) \<and> Density x = 2"
proof -
  let ?run = "RulesCreate_handle ''q'' ''s'' shire_ruleset (example_principal ''u'') (example_db Pending True)"
  have *: "case ?run of Inl e \<Rightarrow> False | Inr (x, d', ns) \<Rightarrow>
      RulesRead_Authorize ''s'' (example_principal ''v'') d' \<and> ns = [PublishSessionUpdate ''s'']"
    by code_simp
  then obtain x d' where run: "?run = Inr (x, d', [PublishSessionUpdate ''s''])"
    and reader: "RulesRead_Authorize ''s'' (example_principal ''v'') d'"
    by (cases ?run) auto
  note read = RulesCreate_then_RulesRead [OF example_db_ok run reader]
  have "Density x = 2" using read by (simp add: copy_ruleset_def shire_ruleset_def)
  then show ?thesis using run read by blast
qed

end
