(* ===== verification/Control.thy ===== *)
theory Control
  imports Turns
begin

section \<open>Control of players: AI and human\<close>

text \<open>
  \<open>session_player_switch_to_ai.go\<close>, \<open>session_player_switch_to_human.go\<close> and
  \<open>session_player_control.go\<close>: a manager hands a human player of a running game over to an AI, and
  back. The control is kept in two places, in the host file of the latest year and in the
  column \<open>ai_control_type\<close> of the player. The host file is read and changed by the houston package
  \<open>playerchanger\<close>, a parameter.
\<close>

record host_player =
  HP_Number :: int
  HP_IsHuman :: bool

text \<open>
  \<open>ReadPlayersFromBytes\<close> gives the players of a host file (with \<open>StatusType == PlayerStatusHuman\<close>),
  \<open>GetPlayer\<close> finds a player by number, \<open>ParseAIExpertType\<close> reads the name of an AI,
  \<open>ChangeToAIBytes\<close> and \<open>ChangeToHumanBytes\<close> give the changed host file.
\<close>

record playerchanger =
  ReadPlayers :: "bytes \<Rightarrow> err + host_player list"
  GetPlayer :: "host_player list \<Rightarrow> int \<Rightarrow> host_player option"
  ParseAIExpertType :: "string \<Rightarrow> err + nat"
  ChangeToAIBytes :: "bytes \<Rightarrow> int \<Rightarrow> nat \<Rightarrow> err + bytes"
  ChangeToHumanBytes :: "bytes \<Rightarrow> int \<Rightarrow> err + bytes"

definition control_Authorize :: "id \<Rightarrow> Principal \<Rightarrow> db \<Rightarrow> bool" where
  "control_Authorize sid pr d =
    (if IsGlobalManager pr then True else IsSessionManager (Subject pr) sid d)"

subsection \<open>SessionPlayerSwitchToAI\<close>

text \<open>An error of a Go function with a message in front, as \<open>NewErrInvalidSomething\<close>.\<close>

definition invalid_with :: "string \<Rightarrow> err + 'a \<Rightarrow> err + 'a" where
  "invalid_with msg r = (case r of Inl e \<Rightarrow> Inl (ErrInvalidSomething (msg @ Error_msg e)) | Inr x \<Rightarrow> Inr x)"

lemma invalid_with_Inr [simp]: "invalid_with msg r = Inr x \<longleftrightarrow> r = Inr x"
  by (cases r) (simp_all add: invalid_with_def)

text \<open>The loop that counts the other human players.\<close>

fun human_count :: "int \<Rightarrow> host_player list \<Rightarrow> int" where
  "human_count playerOrder [] = 0"
| "human_count playerOrder (p # ps) =
    (if HP_IsHuman p \<and> HP_Number p \<noteq> playerOrder then 1 else 0) + human_count playerOrder ps"

definition check_switch_to_AI :: "playerchanger \<Rightarrow> host_player list \<Rightarrow> int \<Rightarrow> err + unit" where
  "check_switch_to_AI pc players playerOrder =
    (if human_count playerOrder players = 0
       then Inl (NewErrPreconditionFailed ''cannot switch the last human player to AI'')
     else case GetPlayer pc players playerOrder of
       None \<Rightarrow> Inl (NewErrPreconditionFailed ''player not found in game'')
     | Some target \<Rightarrow>
        if \<not> HP_IsHuman target then Inl (NewErrPreconditionFailed ''player is already AI or inactive'')
        else Inr ())"

definition updateAIControlType :: "id \<Rightarrow> int \<Rightarrow> string option \<Rightarrow> db \<Rightarrow> err + db" where
  "updateAIControlType sid playerOrder aiType d =
    and_then (get_row (sessionPlayerRaceByOrderQuery sid playerOrder d)) (\<lambda>spr.
    update_sprs (\<lambda>r. P_ID r = P_ID spr) (\<lambda>r. r\<lparr>P_AIControlType := aiType\<rparr>) d)"

definition update_host_file :: "SessionFilesDB \<Rightarrow> bytes \<Rightarrow> db \<Rightarrow> db" where
  "update_host_file sf hst d =
    update_files (\<lambda>f. F_ID f = F_ID sf) (\<lambda>f. f\<lparr>F_HostFile := B64Encode hst\<rparr>) d"

text \<open>The transaction. The value is what the readiness check after the commit works on.\<close>

definition SwitchToAI_handle ::
    "playerchanger \<Rightarrow> id \<Rightarrow> int \<Rightarrow> string \<Rightarrow> Principal \<Rightarrow> db \<Rightarrow> (SessionFilesDB \<times> SessionPlayerRaceDB list) tx" where
  "SwitchToAI_handle pc sid playerOrder aiType pr d =
    (if \<not> control_Authorize sid pr d then Inl ErrForbidden
     else case get_row (lastSessionFilesQuery sid d) of
       Inl e \<Rightarrow> (if errors_Is e NoRows
         then Inl (NewErrPreconditionFailed ''game not started: no session files found for session'') else Inl e)
     | Inr sf \<Rightarrow>
        and_then (invalid_with ''failed to decode host file: '' (B64Decode (F_HostFile sf))) (\<lambda>hstData.
        and_then (invalid_with ''invalid AI type: '' (ParseAIExpertType pc aiType)) (\<lambda>ai.
        and_then (invalid_with ''failed to read player info: '' (ReadPlayers pc hstData)) (\<lambda>players.
        and_then (check_switch_to_AI pc players playerOrder) (\<lambda>_.
        and_then (invalid_with ''failed to switch player to AI: '' (ChangeToAIBytes pc hstData playerOrder ai)) (\<lambda>hst.
        let d1 = update_host_file sf hst d in
        and_then (updateAIControlType sid playerOrder (Some aiType) d1) (\<lambda>d2.
        Inr ((sf\<lparr>F_HostFile := B64Encode hst\<rparr>, sessionPlayerRaceForSessionQuery sid d2), d2,
          [PublishPlayerControlUpdate sid playerOrder (Some aiType)]))))))))"

text \<open>
  The readiness check: the slot of the player's order. A negative index panics.
\<close>

fun remaining_ready :: "int \<Rightarrow> SessionPlayerRaceDB list \<Rightarrow> bool list \<Rightarrow> err + bool" where
  "remaining_ready switched [] flags = Inr True"
| "remaining_ready switched (race # rest) flags =
    (if P_IsBot race \<or> P_PlayerOrder race = switched \<or> P_AIControlType race \<noteq> None
       then remaining_ready switched rest flags
     else if P_PlayerOrder race \<ge> int (length flags) then Inr False
     else and_then (slice_get flags (P_PlayerOrder race)) (\<lambda>r.
       if \<not> r then Inr False else remaining_ready switched rest flags))"

definition checkAndTriggerTurnGeneration ::
    "id \<Rightarrow> SessionFilesDB \<Rightarrow> SessionPlayerRaceDB list \<Rightarrow> int \<Rightarrow> err + ResourceChange list \<times> NeedsGenerationMsg list" where
  "checkAndTriggerTurnGeneration sid sf players switched =
    (let readyPlayers = ReadyPlayers sf in
     if readyPlayers = [] then Inr ([], [])
     else and_then (remaining_ready switched players readyPlayers) (\<lambda>allPlayersReady.
       if allPlayersReady then Inr ([PublishOrderStatusUpdate sid (F_Year sf)], [genMsg sid (F_Year sf)])
       else Inr ([], [])))"

text \<open>
  The reply with the messages to the turn generator. The check runs after the commit: a panic in it
  is an internal error that leaves the switch in the database.
\<close>

definition SwitchToAI_Handle ::
    "playerchanger \<Rightarrow> id \<Rightarrow> int \<Rightarrow> string \<Rightarrow> Principal \<Rightarrow> db \<Rightarrow> unit reply \<times> NeedsGenerationMsg list" where
  "SwitchToAI_Handle pc sid playerOrder aiType pr d =
    (case SwitchToAI_handle pc sid playerOrder aiType pr d of
       Inl e \<Rightarrow> ((switch_error [case_forbidden, case_not_found, case_precondition, case_invalid] e, d, []), [])
     | Inr ((sf, players), d', ns) \<Rightarrow>
        (case checkAndTriggerTurnGeneration sid sf players playerOrder of
           Inl e \<Rightarrow> ((InternalError e, d', ns), [])
         | Inr (ns', msgs) \<Rightarrow> ((Success 204 (), d', ns @ ns'), msgs)))"

subsection \<open>SessionPlayerSwitchToHuman\<close>

definition SwitchToHuman_handle :: "playerchanger \<Rightarrow> id \<Rightarrow> int \<Rightarrow> Principal \<Rightarrow> db \<Rightarrow> unit tx" where
  "SwitchToHuman_handle pc sid playerOrder pr d =
    (if \<not> control_Authorize sid pr d then Inl ErrForbidden
     else case get_row (sessionPlayerRaceByOrderQuery sid playerOrder d) of
       Inl e \<Rightarrow> (if errors_Is e NoRows
         then Inl (NewErrPreconditionFailed ''player not found in session'') else Inl e)
     | Inr spr \<Rightarrow>
        if P_IsBot spr
          then Inl (NewErrPreconditionFailed ''cannot switch bot player to human control: no real user associated'')
        else if P_AIControlType spr = None
          then Inl (NewErrPreconditionFailed ''player is already human controlled'')
        else (case get_row (lastSessionFilesQuery sid d) of
          Inl e \<Rightarrow> (if errors_Is e NoRows
            then Inl (NewErrPreconditionFailed ''game not started: no session files found for session'') else Inl e)
        | Inr sf \<Rightarrow>
           and_then (invalid_with ''failed to decode host file: '' (B64Decode (F_HostFile sf))) (\<lambda>hstData.
           and_then (invalid_with ''failed to switch player to human: '' (ChangeToHumanBytes pc hstData playerOrder)) (\<lambda>hst.
           let d1 = update_host_file sf hst d in
           and_then (update_sprs (\<lambda>r. P_ID r = P_ID spr) (\<lambda>r. r\<lparr>P_AIControlType := None\<rparr>) d1) (\<lambda>d2.
           Inr ((), d2, [PublishPlayerControlUpdate sid playerOrder None]))))))"

definition SwitchToHuman_Handle :: "playerchanger \<Rightarrow> id \<Rightarrow> int \<Rightarrow> Principal \<Rightarrow> db \<Rightarrow> unit reply" where
  "SwitchToHuman_Handle pc sid playerOrder pr d =
    respond [case_forbidden, case_not_found, case_precondition, case_invalid] 204 d
      (SwitchToHuman_handle pc sid playerOrder pr d)"

subsection \<open>SessionPlayerControl\<close>

record PlayerControlStatus =
  PC_PlayerOrder :: int
  PC_UserProfileID :: id
  PC_Nickname :: string
  PC_IsBot :: bool
  PC_AiControlType :: "string option"
  PC_ControlStatus :: string

definition control_status :: "string option \<Rightarrow> string" where
  "control_status ai = (case ai of None \<Rightarrow> ''human'' | Some t \<Rightarrow> ''ai'')"

text \<open>
  A row of the left join with \<open>user_profile\<close>: without a user the nickname is NULL, which does not
  scan into a Go string.
\<close>

fun control_rows :: "db \<Rightarrow> SessionPlayerRaceDB list \<Rightarrow> err + PlayerControlStatus list" where
  "control_rows d [] = Inr []"
| "control_rows d (p # ps) =
    (case sql_first (\<lambda>u. U_ID u = P_UserProfileID p) (users d) of
       None \<Rightarrow> Inl ScanError
     | Some u \<Rightarrow> and_then (control_rows d ps) (\<lambda>rest.
         Inr (\<lparr>PC_PlayerOrder = P_PlayerOrder p, PC_UserProfileID = P_UserProfileID p,
               PC_Nickname = U_Nickname u, PC_IsBot = P_IsBot p, PC_AiControlType = P_AIControlType p,
               PC_ControlStatus = control_status (P_AIControlType p)\<rparr> # rest)))"

definition SessionPlayerControl_handle :: "id \<Rightarrow> Principal \<Rightarrow> db \<Rightarrow> PlayerControlStatus list tx" where
  "SessionPlayerControl_handle sid pr d =
    (if \<not> control_Authorize sid pr d then Inl ErrForbidden
     else case get_session sid d of
       Inl e \<Rightarrow> (if errors_Is e NoRows
         then Inl (ErrSessionNotFound (''session not found with ID: '' @ sid)) else Inl e)
     | Inr s \<Rightarrow> and_then (control_rows d (SessionPlayerRaces sid d)) (\<lambda>players. Inr (players, d, [])))"

definition SessionPlayerControl_Handle :: "id \<Rightarrow> Principal \<Rightarrow> db \<Rightarrow> PlayerControlStatus list reply" where
  "SessionPlayerControl_Handle sid pr d =
    respond [case_forbidden, case_not_found] 200 d (SessionPlayerControl_handle sid pr d)"

subsection \<open>The request contract\<close>

lemma update_host_file_ok [ok_intros]: "db_ok d \<Longrightarrow> db_ok (update_host_file sf hst d)"
  unfolding update_host_file_def by (rule update_files_ok) simp_all

lemma updateAIControlType_ok [ok_intros]:
  assumes "db_ok d" "updateAIControlType sid k ai d = Inr d'"
  shows "db_ok d'"
proof -
  obtain spr :: SessionPlayerRaceDB where "update_sprs (\<lambda>r. P_ID r = P_ID spr) (\<lambda>r. r\<lparr>P_AIControlType := ai\<rparr>) d = Inr d'"
    using assms(2) unfolding updateAIControlType_def and_then_eq_Inr by blast
  then show ?thesis by (rule update_sprs_ok [OF assms(1)]) simp_all
qed

lemma SwitchToAI_Inr:
  assumes "SwitchToAI_handle pc sid k ai pr d = Inr ((sf', rows), d', ns)"
  obtains sf hstData t players hst where "control_Authorize sid pr d"
    "get_row (lastSessionFilesQuery sid d) = Inr sf" "B64Decode (F_HostFile sf) = Inr hstData"
    "ParseAIExpertType pc ai = Inr t" "ReadPlayers pc hstData = Inr players"
    "check_switch_to_AI pc players k = Inr ()" "ChangeToAIBytes pc hstData k t = Inr hst"
    "updateAIControlType sid k (Some ai) (update_host_file sf hst d) = Inr d'"
    "sf' = sf\<lparr>F_HostFile := B64Encode hst\<rparr>" "rows = sessionPlayerRaceForSessionQuery sid d'"
    "ns = [PublishPlayerControlUpdate sid k (Some ai)]"
proof -
  obtain sf where auth: "control_Authorize sid pr d" and sf: "get_row (lastSessionFilesQuery sid d) = Inr sf"
    using assms by (auto simp: SwitchToAI_handle_def split: if_splits sum.splits)
  from assms obtain hstData t players hst where *: "B64Decode (F_HostFile sf) = Inr hstData"
    "ParseAIExpertType pc ai = Inr t" "ReadPlayers pc hstData = Inr players"
    "check_switch_to_AI pc players k = Inr ()" "ChangeToAIBytes pc hstData k t = Inr hst"
    "updateAIControlType sid k (Some ai) (update_host_file sf hst d) = Inr d'"
    "sf' = sf\<lparr>F_HostFile := B64Encode hst\<rparr>" "rows = sessionPlayerRaceForSessionQuery sid d'"
    "ns = [PublishPlayerControlUpdate sid k (Some ai)]"
    by (auto simp: SwitchToAI_handle_def auth sf Let_def and_then_eq_Inr)
  show ?thesis by (rule that [OF auth sf *])
qed

lemma SwitchToAI_keeps:
  assumes "db_ok d" "SwitchToAI_handle pc sid k ai pr d = Inr (x, d', ns)"
  shows "db_ok d'"
proof -
  obtain sf' rows where "x = (sf', rows)" by (cases x)
  with assms(2) have "SwitchToAI_handle pc sid k ai pr d = Inr ((sf', rows), d', ns)" by simp
  then show ?thesis
    by (rule SwitchToAI_Inr) (blast intro: updateAIControlType_ok update_host_file_ok assms(1))
qed

lemma SwitchToHuman_Inr:
  assumes "SwitchToHuman_handle pc sid k pr d = Inr (u, d', ns)"
  obtains spr sf hstData hst where "control_Authorize sid pr d"
    "get_row (sessionPlayerRaceByOrderQuery sid k d) = Inr spr" "\<not> P_IsBot spr" "P_AIControlType spr \<noteq> None"
    "get_row (lastSessionFilesQuery sid d) = Inr sf" "B64Decode (F_HostFile sf) = Inr hstData"
    "ChangeToHumanBytes pc hstData k = Inr hst"
    "update_sprs (\<lambda>r. P_ID r = P_ID spr) (\<lambda>r. r\<lparr>P_AIControlType := None\<rparr>) (update_host_file sf hst d) = Inr d'"
    "ns = [PublishPlayerControlUpdate sid k None]"
proof -
  obtain spr where auth: "control_Authorize sid pr d"
    and spr: "get_row (sessionPlayerRaceByOrderQuery sid k d) = Inr spr" "\<not> P_IsBot spr" "P_AIControlType spr \<noteq> None"
    using assms by (auto simp: SwitchToHuman_handle_def split: if_splits sum.splits)
  obtain sf where sf: "get_row (lastSessionFilesQuery sid d) = Inr sf"
    using assms by (auto simp: SwitchToHuman_handle_def auth spr split: sum.splits if_splits)
  from assms obtain hstData hst where *: "B64Decode (F_HostFile sf) = Inr hstData"
    "ChangeToHumanBytes pc hstData k = Inr hst"
    "update_sprs (\<lambda>r. P_ID r = P_ID spr) (\<lambda>r. r\<lparr>P_AIControlType := None\<rparr>) (update_host_file sf hst d) = Inr d'"
    "ns = [PublishPlayerControlUpdate sid k None]"
    by (auto simp: SwitchToHuman_handle_def auth spr sf Let_def and_then_eq_Inr)
  show ?thesis by (rule that [OF auth spr sf *])
qed

lemma SwitchToHuman_keeps:
  assumes "db_ok d" "SwitchToHuman_handle pc sid k pr d = Inr (u, d', ns)"
  shows "db_ok d'"
  by (rule SwitchToHuman_Inr [OF assms(2)]) (erule update_sprs_ok [OF update_host_file_ok [OF assms(1)]], simp_all)

lemma SwitchToHuman_authorized:
  "SwitchToHuman_handle pc sid k pr d = Inr (u, d', ns) \<Longrightarrow> control_Authorize sid pr d"
  by (erule SwitchToHuman_Inr)

lemma SessionPlayerControl_reads:
  "SessionPlayerControl_handle sid pr d = Inr (x, d', ns) \<Longrightarrow> d' = d \<and> ns = [] \<and> control_Authorize sid pr d"
  by (auto simp: SessionPlayerControl_handle_def and_then_eq_Inr split: if_splits sum.splits)

interpretation switch_to_human_req: guarded_request
  "\<lambda>(pc, sid, k, pr). SwitchToHuman_handle pc sid k pr" "\<lambda>(pc, sid, k, pr). SwitchToHuman_Handle pc sid k pr"
  db_ok "\<lambda>(pc, sid, k, pr) d. control_Authorize sid pr d"
  by unfold_locales (auto simp: SwitchToHuman_Handle_def dest: SwitchToHuman_keeps SwitchToHuman_authorized)

interpretation player_control_req: guarded_request
  "\<lambda>(sid, pr). SessionPlayerControl_handle sid pr" "\<lambda>(sid, pr). SessionPlayerControl_Handle sid pr"
  db_ok "\<lambda>(sid, pr) d. control_Authorize sid pr d"
  by unfold_locales (auto simp: SessionPlayerControl_Handle_def dest: SessionPlayerControl_reads)

lemma SwitchToAI_Handle_keeps:
  "db_ok d \<Longrightarrow> SwitchToAI_Handle pc sid k ai pr d = ((r, d', ns), msgs) \<Longrightarrow> db_ok d'"
  by (auto simp: SwitchToAI_Handle_def split: sum.splits prod.splits dest: SwitchToAI_keeps)

subsection \<open>Properties\<close>

lemma human_count_pos: "0 \<le> human_count k ps \<and> (human_count k ps \<noteq> 0 \<longleftrightarrow> (\<exists>p \<in> set ps. HP_IsHuman p \<and> HP_Number p \<noteq> k))"
  by (induction ps) auto

text \<open>The effect of the two switches on the rows: the host file of one row and the control of one player.\<close>

lemma updateAIControlType_Inr:
  assumes "updateAIControlType sid k ai d = Inr d'"
  obtains spr where "spr \<in> set (sprs d)" "P_SessionID spr = sid" "P_PlayerOrder spr = k"
    "get_row (sessionPlayerRaceByOrderQuery sid k d) = Inr spr"
    "d' = d\<lparr>sprs := sql_update (\<lambda>r. P_ID r = P_ID spr) (\<lambda>r. r\<lparr>P_AIControlType := ai\<rparr>) (sprs d)\<rparr>"
proof -
  obtain spr where spr: "get_row (sessionPlayerRaceByOrderQuery sid k d) = Inr spr"
    and up: "update_sprs (\<lambda>r. P_ID r = P_ID spr) (\<lambda>r. r\<lparr>P_AIControlType := ai\<rparr>) d = Inr d'"
    using assms by (auto simp: updateAIControlType_def and_then_eq_Inr)
  show ?thesis
    using that [of spr] spr up get_row_Inr [OF spr]
    by (simp add: sessionPlayerRaceByOrderQuery_def update_sprs_def enforce_Inr)
qed

text \<open>
  \<^bold>\<open>C22\<close> Handing a player to an AI: only for a manager, only for a player who is human in the host file
  of the latest year, and only if another human player remains there. The host file of that year
  becomes the one houston made, the control type of the player of that order is recorded, and nothing
  else in the database changes.
\<close>

theorem SwitchToAI_correct:
  assumes "db_ok d" "SwitchToAI_handle pc sid k ai pr d = Inr (x, d', ns)"
  shows "control_Authorize sid pr d \<and> (\<exists>sf hst players t new spr.
    sf \<in> set (files d) \<and> F_SessionID sf = sid \<and>
    (\<forall>f \<in> set (files d). F_SessionID f = sid \<longrightarrow> F_Year f \<le> F_Year sf) \<and>
    B64Decode (F_HostFile sf) = Inr hst \<and> ReadPlayers pc hst = Inr players \<and> ParseAIExpertType pc ai = Inr t \<and>
    (\<exists>other \<in> set players. HP_IsHuman other \<and> HP_Number other \<noteq> k) \<and>
    map_option HP_IsHuman (GetPlayer pc players k) = Some True \<and> ChangeToAIBytes pc hst k t = Inr new \<and>
    spr \<in> set (sprs d) \<and> P_SessionID spr = sid \<and> P_PlayerOrder spr = k \<and>
    d' = d\<lparr>files := sql_update (\<lambda>f. F_ID f = F_ID sf) (\<lambda>f. f\<lparr>F_HostFile := B64Encode new\<rparr>) (files d),
          sprs := sql_update (\<lambda>r. P_ID r = P_ID spr) (\<lambda>r. r\<lparr>P_AIControlType := Some ai\<rparr>) (sprs d)\<rparr> \<and>
    ns = [PublishPlayerControlUpdate sid k (Some ai)])"
proof -
  obtain sf' rows where "x = (sf', rows)" by (cases x)
  with assms(2) have run: "SwitchToAI_handle pc sid k ai pr d = Inr ((sf', rows), d', ns)" by simp
  show ?thesis
  proof (rule SwitchToAI_Inr [OF run])
    fix sf hst t players new
    assume auth: "control_Authorize sid pr d" and sf: "get_row (lastSessionFilesQuery sid d) = Inr sf"
      and hst: "B64Decode (F_HostFile sf) = Inr hst" "ParseAIExpertType pc ai = Inr t" "ReadPlayers pc hst = Inr players"
        "ChangeToAIBytes pc hst k t = Inr new"
      and chk: "check_switch_to_AI pc players k = Inr ()"
      and up: "updateAIControlType sid k (Some ai) (update_host_file sf new d) = Inr d'"
      and ns: "ns = [PublishPlayerControlUpdate sid k (Some ai)]"
    obtain spr where spr: "spr \<in> set (sprs (update_host_file sf new d))" "P_SessionID spr = sid" "P_PlayerOrder spr = k"
      "d' = (update_host_file sf new d)\<lparr>sprs := sql_update (\<lambda>r. P_ID r = P_ID spr)
          (\<lambda>r. r\<lparr>P_AIControlType := Some ai\<rparr>) (sprs (update_host_file sf new d))\<rparr>"
      by (rule updateAIControlType_Inr [OF up])
    have "human_count k players \<noteq> 0" "map_option HP_IsHuman (GetPlayer pc players k) = Some True"
      using chk by (auto simp: check_switch_to_AI_def split: if_splits option.splits)
    moreover have "d' = d\<lparr>files := sql_update (\<lambda>f. F_ID f = F_ID sf) (\<lambda>f. f\<lparr>F_HostFile := B64Encode new\<rparr>) (files d),
          sprs := sql_update (\<lambda>r. P_ID r = P_ID spr) (\<lambda>r. r\<lparr>P_AIControlType := Some ai\<rparr>) (sprs d)\<rparr>"
      using spr(4) by (simp add: update_host_file_def update_files_def)
    moreover have "spr \<in> set (sprs d)" using spr(1) by (simp add: update_host_file_def update_files_def)
    ultimately show ?thesis
      using auth lastSessionFiles_latest [OF sf] hst human_count_pos spr(2,3) ns by blast
  qed
qed

text \<open>A host file lists the human players by number; a changed file is one of the two below.\<close>

definition example_changer :: playerchanger where
  "example_changer = \<lparr>
     ReadPlayers = (\<lambda>b. Inr (map (\<lambda>i. \<lparr>HP_Number = int i, HP_IsHuman = (i < length b \<and> b ! i = 0)\<rparr>) [0..<length b])),
     GetPlayer = (\<lambda>ps k. sql_first (\<lambda>p. HP_Number p = k) ps),
     ParseAIExpertType = (\<lambda>s. if s = ''HE'' then Inr 0 else Inl (OtherErr s)),
     ChangeToAIBytes = (\<lambda>b k t. Inr (b[nat k := 1])),
     ChangeToHumanBytes = (\<lambda>b k. Inr (b[nat k := 0]))\<rparr>"

definition two_humans :: "string list \<Rightarrow> db" where
  "two_humans orders = (played_db [(example_player ''b'' ''v'' 1)\<lparr>P_Ready := True\<rparr>, human])\<lparr>
     files := [\<lparr>F_ID = ''f'', F_SessionID = ''s'', F_Year = 2407, F_Universe = ''AQ=='', F_HostFile = B64Encode [0, 0],
       F_Turns = [''CQ=='', ''CQ==''], F_Orders = orders\<rparr>]\<rparr>"

lemma two_humans_ok: "db_ok (two_humans [])" "db_ok (two_humans [''BwAq'', ''''])"
  by code_simp+

theorem SwitchToAI_correct_witness:
  "\<exists>x d'. SwitchToAI_handle example_changer ''s'' 1 ''HE'' (example_principal ''u'') (two_humans []) =
      Inr (x, d', [PublishPlayerControlUpdate ''s'' 1 (Some ''HE'')])"
proof -
  let ?run = "SwitchToAI_handle example_changer ''s'' 1 ''HE'' (example_principal ''u'') (two_humans [])"
  have "isl ?run = False" by code_simp
  then obtain x d' ns where run: "?run = Inr (x, d', ns)" by (cases ?run) auto
  show ?thesis using SwitchToAI_correct [OF two_humans_ok(1) run] run by blast
qed

lemma remaining_ready_Inr:
  assumes "\<forall>p \<in> set ps. 0 \<le> P_PlayerOrder p"
  shows "remaining_ready k ps flags = Inr (\<forall>p \<in> set ps. must_submit p \<and> P_PlayerOrder p \<noteq> k \<longrightarrow>
    nat (P_PlayerOrder p) < length flags \<and> flags ! nat (P_PlayerOrder p))"
  using assms
proof (induction ps)
  case (Cons p ps)
  then show ?case
    by (cases "must_submit p \<and> P_PlayerOrder p \<noteq> k"; cases "nat (P_PlayerOrder p) < length flags")
      (auto simp: must_submit_def slice_get_def)
qed simp

text \<open>
  After a player is handed to an AI the turn is generated at once exactly when some orders have
  been started for the year and every remaining player who has to submit has done so. Here each
  player's own slot is looked up, so the answer does not depend on the sequence of the rows.
\<close>

lemma SwitchToAI_triggers_generation:
  assumes run: "SwitchToAI_handle pc sid k ai pr d = Inr ((sf, rows), d', ns)"
    and orders: "distinct (map P_PlayerOrder (sessionPlayerRaceForSessionQuery sid d'))"
      "\<forall>p \<in> set (sprs d'). 0 \<le> P_PlayerOrder p"
  shows "\<exists>ns'. SwitchToAI_Handle pc sid k ai pr d = ((Success 204 (), d', ns @ ns'),
    if F_Orders sf \<noteq> [] \<and> (\<forall>p \<in> set (sprs d'). P_SessionID p = sid \<and> must_submit p \<longrightarrow>
        nat (P_PlayerOrder p) < length (F_Orders sf) \<and> F_Orders sf ! nat (P_PlayerOrder p) \<noteq> '''')
    then [genMsg sid (F_Year sf)] else [])"
proof (rule SwitchToAI_Inr [OF run])
  fix sf0 hst
  assume up: "updateAIControlType sid k (Some ai) (update_host_file sf0 hst d) = Inr d'"
    and rows: "rows = sessionPlayerRaceForSessionQuery sid d'"
  let ?d = "update_host_file sf0 hst d"
  obtain spr where spr: "spr \<in> set (sprs ?d)" "P_SessionID spr = sid" "P_PlayerOrder spr = k"
    "d' = ?d\<lparr>sprs := sql_update (\<lambda>r. P_ID r = P_ID spr) (\<lambda>r. r\<lparr>P_AIControlType := Some ai\<rparr>) (sprs ?d)\<rparr>"
    by (rule updateAIControlType_Inr [OF up])
  let ?new = "spr\<lparr>P_AIControlType := Some ai\<rparr>"
  have new: "?new \<in> set rows"
    using spr by (force simp: rows sessionPlayerRaceForSessionQuery_def set_sql_update)
  have switched: "\<not> must_submit p" if "p \<in> set rows" "P_PlayerOrder p = k" for p
  proof -
    have "p = ?new"
      using distinct_key_eq [of P_PlayerOrder rows p ?new] orders(1) new that spr(3) rows by simp
    then show ?thesis by (simp add: must_submit_def)
  qed
  have nonneg: "\<forall>p \<in> set rows. 0 \<le> P_PlayerOrder p"
    using orders(2) by (simp add: rows sessionPlayerRaceForSessionQuery_def)
  have "remaining_ready k rows (ReadyPlayers sf) = Inr (\<forall>p \<in> set (sprs d'). P_SessionID p = sid \<and> must_submit p \<longrightarrow>
        nat (P_PlayerOrder p) < length (F_Orders sf) \<and> F_Orders sf ! nat (P_PlayerOrder p) \<noteq> '''')"
    unfolding remaining_ready_Inr [OF nonneg] using switched
    by (auto simp: rows sessionPlayerRaceForSessionQuery_def ReadyPlayers_def)
  then show ?thesis
    by (simp add: SwitchToAI_Handle_def run checkAndTriggerTurnGeneration_def Let_def)
      (simp add: ReadyPlayers_def)
qed

lemma SwitchToAI_triggers_generation_witness:
  "\<exists>d' ns. SwitchToAI_Handle example_changer ''s'' 1 ''HE'' (example_principal ''u'') (two_humans [''BwAq'', '''']) =
      ((Success 204 (), d', ns), [genMsg ''s'' 2407])"
proof -
  let ?d = "two_humans [''BwAq'', '''']"
  let ?run = "SwitchToAI_handle example_changer ''s'' 1 ''HE'' (example_principal ''u'') ?d"
  have *: "case ?run of Inl e \<Rightarrow> False | Inr ((sf, rows), d', ns) \<Rightarrow>
      distinct (map P_PlayerOrder (sessionPlayerRaceForSessionQuery ''s'' d')) \<and>
      list_all (\<lambda>p. 0 \<le> P_PlayerOrder p) (sprs d') \<and> F_Year sf = 2407 \<and> F_Orders sf \<noteq> [] \<and>
      list_all (\<lambda>p. P_SessionID p = ''s'' \<and> must_submit p \<longrightarrow> nat (P_PlayerOrder p) < length (F_Orders sf) \<and>
        F_Orders sf ! nat (P_PlayerOrder p) \<noteq> '''') (sprs d')"
    by code_simp
  then obtain sf rows d' ns where run: "?run = Inr ((sf, rows), d', ns)"
    by (cases ?run) auto
  note facts = * [unfolded run list_all_iff, simplified]
  show ?thesis
    using SwitchToAI_triggers_generation [OF run] facts by auto
qed

end
