(* ===== verification/Races.thy ===== *)
theory Races
  imports Players GameFiles
begin

section \<open>Races\<close>

text \<open>
  \<open>race_create.go\<close>, \<open>race_delete.go\<close>, \<open>race_read.go\<close>, \<open>races_list.go\<close>, \<open>lib/race.go\<close> and
  \<open>lib/race/options.go\<close>: a user uploads the race file with which he plays. The file is repaired and
  its password removed if the options ask for it, its names are read from its blocks, and houston
  validates it. The parser and the validation are the parameter \<open>houston\<close> of the theory \<open>GameFiles\<close>.
\<close>

subsection \<open>Reading a race file\<close>

text \<open>The loop of \<open>ParseRaceData\<close>: the names are those of the last valid player block.\<close>

fun parse_blocks :: "block list \<Rightarrow> RaceDB \<Rightarrow> err + RaceDB" where
  "parse_blocks [] race = Inr race"
| "parse_blocks (PlayerBlock valid plural singular # bl) race =
    parse_blocks bl (if valid then race\<lparr>Ra_NamePlural := plural, Ra_NameSingular := singular\<rparr> else race)"
| "parse_blocks (NotAPlayerBlock # bl) race = Inl (OtherErr ''failed to assert player block'')"
| "parse_blocks (OtherBlock # bl) race = parse_blocks bl race"

definition ParseRaceData :: "houston \<Rightarrow> RaceDB \<Rightarrow> bytes \<Rightarrow> err + RaceDB" where
  "ParseRaceData hs race rawData = and_then (BlockList hs rawData) (\<lambda>bl. parse_blocks bl race)"

definition empty_race :: RaceDB where
  "empty_race = \<lparr>Ra_ID = '''', Ra_NamePlural = '''', Ra_NameSingular = '''', Ra_UserID = '''', Ra_Data = ''''\<rparr>"

definition RaceFromString :: "houston \<Rightarrow> string \<Rightarrow> ProcessorOptions \<Rightarrow> err + RaceDB \<times> Analysis" where
  "RaceFromString hs data opts =
    (let r = empty_race\<lparr>Ra_Data := data\<rparr> in
     and_then (RawData r) (\<lambda>rawData.
       (case ProcessData hs rawData opts of (processedData, analysis) \<Rightarrow>
         let r1 = (if WasRepaired analysis \<or> PasswordStripped analysis
                     then r\<lparr>Ra_Data := B64Encode processedData\<rparr> else r) in
         and_then (ParseRaceData hs r1 processedData) (\<lambda>r2. Inr (r2, analysis)))))"

text \<open>The variant for a file that was read from disk.\<close>

definition RaceFromReader :: "houston \<Rightarrow> bytes \<Rightarrow> ProcessorOptions \<Rightarrow> err + RaceDB \<times> Analysis" where
  "RaceFromReader hs rawData opts =
    (case ProcessData hs rawData opts of (processedData, analysis) \<Rightarrow>
       let race = RaceFromRaw rawData;
           race1 = (if WasRepaired analysis \<or> PasswordStripped analysis
                      then race\<lparr>Ra_Data := B64Encode processedData\<rparr> else race) in
       and_then (ParseRaceData hs race1 processedData) (\<lambda>race2. Inr (race2, analysis)))"

subsection \<open>RaceCreate\<close>

record race_Options =
  PendingUserLimit :: int
  ApprovedUserLimit :: int

definition race_NewOptions :: race_Options where
  "race_NewOptions = \<lparr>PendingUserLimit = 3, ApprovedUserLimit = 50\<rparr>"

text \<open>The four handlers authorise on the user in the path.\<close>

definition race_Authorize :: "id \<Rightarrow> Principal \<Rightarrow> bool" where
  "race_Authorize uid pr = (if IsGlobalManager pr then True else if uid = Subject pr then True else False)"

text \<open>No limit applies when the handler was built without options.\<close>

definition race_limit_reached :: "race_Options option \<Rightarrow> Principal \<Rightarrow> db \<Rightarrow> bool" where
  "race_limit_reached opts pr d = (case opts of None \<Rightarrow> False
   | Some o' \<Rightarrow>
      let count = sql_count (\<lambda>r. Ra_UserID r = Subject pr) (races d);
          limit = (if IsPending pr then PendingUserLimit o' else ApprovedUserLimit o') in
      limit \<le> count)"

fun join_semicolon :: "string list \<Rightarrow> string" where
  "join_semicolon [] = ''''"
| "join_semicolon [s] = s"
| "join_semicolon (s # ss) = s @ ''; '' @ join_semicolon ss"

text \<open>
  \<open>race_failed\<close>: an error value of \<open>RaceFromString\<close> becomes an invalid race, with the message appended.
\<close>

definition race_failed :: "string \<Rightarrow> err + 'a \<Rightarrow> err + 'a" where
  "race_failed msg r = (case r of Inl e \<Rightarrow> Inl (ErrInvalidRace (msg @ Error_msg e)) | Inr x \<Rightarrow> Inr x)"

definition RaceCreate_handle ::
    "houston \<Rightarrow> ProcessorOptions \<Rightarrow> race_Options option \<Rightarrow> id \<Rightarrow> id \<Rightarrow> string \<Rightarrow> Principal \<Rightarrow> db \<Rightarrow> RaceDB tx" where
  "RaceCreate_handle hs popts opts uuid uid data pr d =
    (if \<not> race_Authorize uid pr then Inl ErrForbidden
     else if race_limit_reached opts pr d then Inl (NewErrRaceLimitExceeded ''race upload limit exceeded'')
     else
       and_then (race_failed ''failed to parse race file:'' (RaceFromString hs data popts)) (\<lambda>(race, analysis).
       and_then (race_failed ''failed to decode race data: '' (B64Decode (Ra_Data race))) (\<lambda>rawData.
       let validationErrs = ValidateRaceData hs rawData in
       if validationErrs \<noteq> [] then Inl (ErrInvalidRace (''race validation failed: '' @ join_semicolon validationErrs))
       else let race1 = race\<lparr>Ra_ID := uuid, Ra_UserID := Subject pr\<rparr> in
         and_then (insert_race race1 d) (\<lambda>d1. Inr (race1, d1, [PublishRaceCreate uuid])))))"

definition RaceCreate_Handle ::
    "houston \<Rightarrow> ProcessorOptions \<Rightarrow> race_Options option \<Rightarrow> id \<Rightarrow> id \<Rightarrow> string \<Rightarrow> Principal \<Rightarrow> db \<Rightarrow> RaceDB reply" where
  "RaceCreate_Handle hs popts opts uuid uid data pr d =
    respond [case_forbidden, case_not_found, case_invalid, case_race_limit] 201 d
      (RaceCreate_handle hs popts opts uuid uid data pr d)"

subsection \<open>RaceDelete, RaceRead, RacesList\<close>

definition RaceDelete_handle :: "id \<Rightarrow> id \<Rightarrow> Principal \<Rightarrow> db \<Rightarrow> unit tx" where
  "RaceDelete_handle uid raceID pr d =
    (if \<not> race_Authorize uid pr then Inl ErrForbidden
     else if sql_count (\<lambda>p. P_RaceID p = raceID) (sprs d) > 0
       then Inl (ErrRaceInUse ''race is in use in a session and cannot be deleted'')
     else if sql_count (\<lambda>r. Ra_ID r = raceID) (races d) = 0
       then Inl (ErrRaceNotFound (''race not found with ID: '' @ raceID))
     else Inr ((), delete_races (\<lambda>r. Ra_ID r = raceID) d, [PublishRaceDelete raceID]))"

definition RaceDelete_Handle :: "id \<Rightarrow> id \<Rightarrow> Principal \<Rightarrow> db \<Rightarrow> unit reply" where
  "RaceDelete_Handle uid raceID pr d =
    respond [case_forbidden, case_not_found, case_conflict] 204 d (RaceDelete_handle uid raceID pr d)"

definition RaceRead_handle :: "id \<Rightarrow> id \<Rightarrow> Principal \<Rightarrow> db \<Rightarrow> RaceDB tx" where
  "RaceRead_handle uid raceID pr d =
    (if \<not> race_Authorize uid pr then Inl ErrForbidden
     else case sql_first (\<lambda>r. Ra_ID r = raceID) (races d) of
       None \<Rightarrow> Inl (ErrRaceNotFound (''race not found with ID: '' @ raceID))
     | Some r \<Rightarrow> Inr (r, d, []))"

definition RaceRead_Handle :: "id \<Rightarrow> id \<Rightarrow> Principal \<Rightarrow> db \<Rightarrow> RaceDB reply" where
  "RaceRead_Handle uid raceID pr d =
    respond [case_forbidden, case_not_found, case_invalid] 200 d (RaceRead_handle uid raceID pr d)"

text \<open>
  \<open>ORDER BY\<close> on a text column sorts by the collation of the database, a parameter: the sort key of a
  text.
\<close>

definition RacesList_handle :: "(string \<Rightarrow> string) \<Rightarrow> id \<Rightarrow> Principal \<Rightarrow> db \<Rightarrow> RaceDB list tx" where
  "RacesList_handle collate uid pr d =
    (if \<not> race_Authorize uid pr then Inl ErrForbidden
     else Inr (order_by (\<lambda>r. collate (Ra_NameSingular r)) (sql_select (\<lambda>r. Ra_UserID r = uid) (races d)), d, []))"

definition RacesList_Handle :: "(string \<Rightarrow> string) \<Rightarrow> id \<Rightarrow> Principal \<Rightarrow> db \<Rightarrow> RaceDB list reply" where
  "RacesList_Handle collate uid pr d = respond [case_forbidden] 200 d (RacesList_handle collate uid pr d)"

subsection \<open>The request contract\<close>

lemma RaceCreate_keeps:
  "db_ok d \<Longrightarrow> RaceCreate_handle hs popts opts uuid uid data pr d = Inr (x, d', ns) \<Longrightarrow> db_ok d'"
  by (auto simp: RaceCreate_handle_def and_then_eq_Inr Let_def split: if_splits prod.splits intro: insert_race_ok)

lemma RaceCreate_authorized:
  "RaceCreate_handle hs popts opts uuid uid data pr d = Inr (x, d', ns) \<Longrightarrow> race_Authorize uid pr"
  by (simp add: RaceCreate_handle_def split: if_splits)

lemma RaceDelete_keeps: "db_ok d \<Longrightarrow> RaceDelete_handle uid raceID pr d = Inr (x, d', ns) \<Longrightarrow> db_ok d'"
  by (auto simp: RaceDelete_handle_def split: if_splits intro: delete_races_ok)

lemma RaceDelete_authorized: "RaceDelete_handle uid raceID pr d = Inr (x, d', ns) \<Longrightarrow> race_Authorize uid pr"
  by (simp add: RaceDelete_handle_def split: if_splits)

interpretation race_create_req: guarded_request
  "\<lambda>(hs, popts, opts, uuid, uid, data, pr). RaceCreate_handle hs popts opts uuid uid data pr"
  "\<lambda>(hs, popts, opts, uuid, uid, data, pr). RaceCreate_Handle hs popts opts uuid uid data pr" db_ok
  "\<lambda>(hs, popts, opts, uuid, uid, data, pr) d. race_Authorize uid pr"
  by unfold_locales (auto simp: RaceCreate_Handle_def dest: RaceCreate_keeps RaceCreate_authorized)

interpretation race_delete_req: guarded_request
  "\<lambda>(uid, raceID, pr). RaceDelete_handle uid raceID pr" "\<lambda>(uid, raceID, pr). RaceDelete_Handle uid raceID pr" db_ok
  "\<lambda>(uid, raceID, pr) d. race_Authorize uid pr"
  by unfold_locales (auto simp: RaceDelete_Handle_def dest: RaceDelete_keeps RaceDelete_authorized)

interpretation race_read_req: guarded_request
  "\<lambda>(uid, raceID, pr). RaceRead_handle uid raceID pr" "\<lambda>(uid, raceID, pr). RaceRead_Handle uid raceID pr" db_ok
  "\<lambda>(uid, raceID, pr) d. race_Authorize uid pr"
  by unfold_locales (auto simp: RaceRead_Handle_def RaceRead_handle_def split: if_splits option.splits)

interpretation races_list_req: guarded_request
  "\<lambda>(collate, uid, pr). RacesList_handle collate uid pr" "\<lambda>(collate, uid, pr). RacesList_Handle collate uid pr" db_ok
  "\<lambda>(collate, uid, pr) d. race_Authorize uid pr"
  by unfold_locales (auto simp: RacesList_Handle_def RacesList_handle_def split: if_splits)

subsection \<open>What is stored\<close>

lemma parse_blocks_keeps: "parse_blocks bl race = Inr race' \<Longrightarrow>
    Ra_Data race' = Ra_Data race \<and> Ra_ID race' = Ra_ID race \<and> Ra_UserID race' = Ra_UserID race"
proof (induction bl race rule: parse_blocks.induct)
  case (2 valid plural singular bl race)
  then show ?case by (cases valid) simp_all
qed simp_all

text \<open>The stored text decodes to the processed file, whether the file was changed or not.\<close>

lemma RaceFromString_Inr:
  assumes "RaceFromString hs data opts = Inr (race, a)"
  shows "\<exists>raw. B64Decode data = Inr raw \<and> B64Decode (Ra_Data race) = Inr (fst (ProcessData hs raw opts))"
proof -
  obtain raw where raw: "RawData (empty_race\<lparr>Ra_Data := data\<rparr>) = Inr raw"
    using assms by (auto simp: RaceFromString_def and_then_eq_Inr Let_def)
  obtain processed a' where p': "ProcessData hs raw opts = (processed, a')" by fastforce
  have parse: "ParseRaceData hs (if WasRepaired a \<or> PasswordStripped a
        then empty_race\<lparr>Ra_Data := B64Encode processed\<rparr> else empty_race\<lparr>Ra_Data := data\<rparr>) processed = Inr race"
    and p: "ProcessData hs raw opts = (processed, a)"
    using assms raw p' by (auto simp: RaceFromString_def and_then_eq_Inr Let_def)
  have decoded: "B64Decode data = Inr raw"
    using raw by (simp add: RawData_def B64Decode_def)
  have kept: "Ra_Data race = (if WasRepaired a \<or> PasswordStripped a then B64Encode processed else data)"
    using parse by (auto simp: ParseRaceData_def and_then_eq_Inr dest!: parse_blocks_keeps split: if_splits)
  show ?thesis
  proof (cases "WasRepaired a \<or> PasswordStripped a")
    case True
    then show ?thesis using kept decoded p by simp
  next
    case False
    then have "processed = raw"
      using p ProcessData_only_what_was_asked [where hs = hs and data = raw and opts = opts] by simp
    then show ?thesis using False kept decoded p by simp
  qed
qed

text \<open>
  A race is stored for the caller, whatever user the path names, as the processed form of what was
  sent: repaired and without its password as far as the options ask for it, accepted by the validation.
  Nothing else changes, and afterwards the caller has no more races than his limit allows.
\<close>

lemma RaceCreate_correct:
  assumes "RaceCreate_handle hs popts opts uuid uid data pr d = Inr (race, d', ns)"
  shows "race_Authorize uid pr \<and> Ra_ID race = uuid \<and> Ra_UserID race = Subject pr \<and>
    d' = d\<lparr>races := races d @ [race]\<rparr> \<and> ns = [PublishRaceCreate uuid] \<and>
    (\<exists>raw. B64Decode data = Inr raw \<and> B64Decode (Ra_Data race) = Inr (fst (ProcessData hs raw popts)) \<and>
      ValidateRaceData hs (fst (ProcessData hs raw popts)) = []) \<and>
    (\<forall>o'. opts = Some o' \<longrightarrow> sql_count (\<lambda>r. Ra_UserID r = Subject pr) (races d') \<le>
      (if IsPending pr then PendingUserLimit o' else ApprovedUserLimit o'))"
proof -
  obtain race0 a rawData where auth: "race_Authorize uid pr" and below: "\<not> race_limit_reached opts pr d"
    and parsed: "RaceFromString hs data popts = Inr (race0, a)" and raw: "B64Decode (Ra_Data race0) = Inr rawData"
    and valid: "ValidateRaceData hs rawData = []" and race: "race = race0\<lparr>Ra_ID := uuid, Ra_UserID := Subject pr\<rparr>"
    and ins: "insert_race race d = Inr d'" and ns: "ns = [PublishRaceCreate uuid]"
    using assms by (auto simp: RaceCreate_handle_def race_failed_def and_then_eq_Inr Let_def
        split: if_splits prod.splits sum.splits)
  have d': "d' = d\<lparr>races := races d @ [race]\<rparr>"
    using ins by (simp add: insert_race_def enforce_Inr sql_insert_def)
  have limit: "sql_count (\<lambda>r. Ra_UserID r = Subject pr) (races d') \<le>
      (if IsPending pr then PendingUserLimit o' else ApprovedUserLimit o')" if "opts = Some o'" for o'
    using below that by (auto simp: race_limit_reached_def Let_def d' sql_count_def race)
  show ?thesis
    using auth raw valid race d' ns limit RaceFromString_Inr [OF parsed] by auto
qed

lemma RaceCreate_correct_witness:
  "\<exists>race d'. RaceCreate_handle example_houston \<lparr>StripPassword = False, FixCorrupted = True\<rparr> (Some race_NewOptions)
      ''new'' ''u'' '''' (example_principal ''u'') (example_db Pending True) = Inr (race, d', [PublishRaceCreate ''new'']) \<and>
    Ra_NamePlural race = ''Hobbits'' \<and> Ra_Data race = ''AQ=='' \<and> Ra_UserID race = ''u''"
proof -
  let ?run = "RaceCreate_handle example_houston \<lparr>StripPassword = False, FixCorrupted = True\<rparr> (Some race_NewOptions)
      ''new'' ''u'' '''' (example_principal ''u'') (example_db Pending True)"
  have "case_sum (\<lambda>e. False) (\<lambda>(race, d, ns). Ra_NamePlural race = ''Hobbits'' \<and> Ra_Data race = ''AQ=='') ?run"
    by code_simp
  then obtain race d' ns where run: "?run = Inr (race, d', ns)" and "Ra_NamePlural race = ''Hobbits''" "Ra_Data race = ''AQ==''"
    by (cases ?run) auto
  then show ?thesis using RaceCreate_correct [OF run] by (auto simp: example_principal_def)
qed

text \<open>Deleting removes exactly the race and no player, since no player uses it.\<close>

lemma RaceDelete_Inr:
  assumes "db_ok d" "RaceDelete_handle uid raceID pr d = Inr (x, d', ns)"
  shows "\<exists>race \<in> set (races d). Ra_ID race = raceID \<and> raceID \<notin> P_RaceID ` set (sprs d) \<and>
    d' = d\<lparr>races := sql_delete (\<lambda>r. Ra_ID r = raceID) (races d)\<rparr>"
proof -
  have used: "\<not> sql_count (\<lambda>p. P_RaceID p = raceID) (sprs d) > 0"
    and there: "sql_count (\<lambda>r. Ra_ID r = raceID) (races d) \<noteq> 0"
    and d': "d' = delete_races (\<lambda>r. Ra_ID r = raceID) d"
    using assms(2) by (auto simp: RaceDelete_handle_def split: if_splits)
  obtain race where race: "race \<in> set (races d)" "Ra_ID race = raceID" using there by (auto simp: sql_count_zero)
  have unused: "\<forall>p \<in> set (sprs d). P_RaceID p \<noteq> raceID" using used by (simp add: sql_count_pos)
  then have "sql_delete (\<lambda>p. P_RaceID p \<in> set (map Ra_ID (sql_select (\<lambda>r. Ra_ID r = raceID) (races d)))) (sprs d) = sprs d"
    by (auto simp: sql_delete_def filter_id_conv)
  then show ?thesis using race unused by (auto simp: d' delete_races_def Let_def)
qed

text \<open>
  The handlers that delete and read a race look at the user in the path and not at the owner of the
  race: a caller who puts himself in the path can read every race and delete every one that is not in use.
\<close>

lemma RaceDelete_any_owner:
  assumes "race \<in> set (races d)" "Ra_ID race \<notin> P_RaceID ` set (sprs d)"
  shows "RaceDelete_handle (Subject pr) (Ra_ID race) pr d =
    Inr ((), delete_races (\<lambda>r. Ra_ID r = Ra_ID race) d, [PublishRaceDelete (Ra_ID race)])"
proof -
  have "sql_count (\<lambda>p. P_RaceID p = Ra_ID race) (sprs d) = 0" using assms(2) by (force simp: sql_count_zero)
  moreover have "sql_count (\<lambda>r. Ra_ID r = Ra_ID race) (races d) \<noteq> 0" using assms(1) by (auto simp: sql_count_zero)
  ultimately show ?thesis by (simp add: RaceDelete_handle_def race_Authorize_def)
qed

lemma RaceRead_any_owner:
  assumes "db_ok d" "race \<in> set (races d)"
  shows "RaceRead_handle (Subject pr) (Ra_ID race) pr d = Inr (race, d, [])"
  using sql_first_key [of Ra_ID "races d" race] assms by (simp add: RaceRead_handle_def race_Authorize_def db_ok_parts)

end
