(* ===== verification/Licences.thy ===== *)
theory Licences
  imports Invitations
begin

section \<open>Serial keys\<close>

text \<open>
  \<open>lib/serial/serial.go\<close>: the pool of serial keys of the game, from which every user gets one. The
  assignment is written twice, in the row of the key and in the row of the user. The embedded file is
  a parameter, given as the lines the scanner reads.
\<close>

subsection \<open>The operations\<close>

fun nonempty_keys :: "string list \<Rightarrow> string list" where
  "nonempty_keys [] = []"
| "nonempty_keys (key # lines) = (if key \<noteq> '''' then key # nonempty_keys lines else nonempty_keys lines)"

text \<open>The first line is a header.\<close>

definition LoadKeys :: "string list \<Rightarrow> string list" where
  "LoadKeys file_lines = nonempty_keys (drop 1 file_lines)"

text \<open>One \<open>COPY\<close> in its own transaction: all keys of the batch or none.\<close>

fun insertKeyBatch :: "string list \<Rightarrow> db \<Rightarrow> err + db" where
  "insertKeyBatch [] d = Inr d"
| "insertKeyBatch (key # keys) d =
    and_then (insert_serial \<lparr>K_Key = key, K_UserProfileID = None\<rparr> d) (\<lambda>d1. insertKeyBatch keys d1)"

definition batchSize :: nat where
  "batchSize = 50000"

text \<open>
  The loop over the batches. Each batch commits, so an error leaves the batches before it in the
  database; then the next start of the command finds a non-empty table and skips the rest.
\<close>

function load_batches :: "string list \<Rightarrow> db \<Rightarrow> err option \<times> db" where
  "load_batches keys d =
    (if keys = [] then (None, d)
     else case insertKeyBatch (take batchSize keys) d of
       Inl e \<Rightarrow> (Some e, d)
     | Inr d1 \<Rightarrow> load_batches (drop batchSize keys) d1)"
  by pat_completeness auto
termination by (relation "measure (\<lambda>(keys, d). length keys)") (auto simp: batchSize_def)

declare load_batches.simps [simp del]

definition LoadKeysIntoDB :: "string list \<Rightarrow> db \<Rightarrow> err option \<times> db" where
  "LoadKeysIntoDB file_lines d =
    (let keys = LoadKeys file_lines in
     if sql_count (\<lambda>k. True) (serials d) > 0 then (None, d)
     else load_batches keys d)"

text \<open>
  \<open>AssignKeyToUserTx\<close>: three statements in the transaction of the caller. The errors are wrapped with
  a message that is only logged.
\<close>

definition update_serial_key :: "string \<Rightarrow> id \<Rightarrow> db \<Rightarrow> err + db" where
  "update_serial_key key uid d =
    (case sql_first (\<lambda>u. U_ID u = uid) (users d) of
       None \<Rightarrow> Inr d
     | Some u \<Rightarrow> update_user_row (u\<lparr>U_SerialKey := Some key\<rparr>) d)"

definition AssignKeyToUserTx :: "id \<Rightarrow> db \<Rightarrow> err + string \<times> db" where
  "AssignKeyToUserTx uid d =
    and_then (get_row (sql_select (\<lambda>k. K_UserProfileID k = None) (serials d))) (\<lambda>row.
    and_then (update_serials (\<lambda>k. K_Key k = K_Key row) (Some uid) d) (\<lambda>d1.
    and_then (update_serial_key (K_Key row) uid d1) (\<lambda>d2.
    Inr (K_Key row, d2))))"

text \<open>\<open>AssignKeyToUser\<close>: the same in a transaction of its own, which an error rolls back.\<close>

definition AssignKeyToUser :: "id \<Rightarrow> db \<Rightarrow> (err + string) \<times> db" where
  "AssignKeyToUser uid d = (case AssignKeyToUserTx uid d of
     Inl e \<Rightarrow> (Inl e, d)
   | Inr (key, d') \<Rightarrow> (Inr key, d'))"

definition GetAvailableKeyCount :: "db \<Rightarrow> int" where
  "GetAvailableKeyCount d = sql_count (\<lambda>k. K_UserProfileID k = None) (serials d)"

definition GetAssignedKeyCount :: "db \<Rightarrow> int" where
  "GetAssignedKeyCount d = sql_count (\<lambda>k. K_UserProfileID k \<noteq> None) (serials d)"

text \<open>
  Where a caller goes on after a failed assignment: without a row the transaction is intact, after
  a refused statement PostgreSQL has aborted it and \<open>Commit\<close> reports so.
\<close>

definition commit_after :: "err \<Rightarrow> db \<Rightarrow> err + db" where
  "commit_after e d = (case e of
     PqError c k \<Rightarrow> Inl (OtherErr ''pq: Could not complete operation in a failed transaction'')
   | _ \<Rightarrow> Inr d)"

definition try_assign_and_commit :: "id \<Rightarrow> db \<Rightarrow> err + db" where
  "try_assign_and_commit uid d = (case AssignKeyToUserTx uid d of
     Inl e \<Rightarrow> commit_after e d
   | Inr (key, d') \<Rightarrow> Inr d')"

subsection \<open>Integrity\<close>

lemma insertKeyBatch_ok: "db_ok d \<Longrightarrow> insertKeyBatch keys d = Inr d' \<Longrightarrow> db_ok d'"
proof (induction keys d rule: insertKeyBatch.induct)
  case (2 key keys d)
  obtain d1 where d1: "insert_serial \<lparr>K_Key = key, K_UserProfileID = None\<rparr> d = Inr d1"
    and rest: "insertKeyBatch keys d1 = Inr d'"
    using 2(3) by (auto simp: and_then_eq_Inr)
  show ?case by (rule 2(1) [OF insert_serial_ok [OF 2(2) d1] rest])
qed simp

lemma update_serial_key_ok: "db_ok d \<Longrightarrow> update_serial_key key uid d = Inr d' \<Longrightarrow> db_ok d'"
  by (auto simp: update_serial_key_def split: option.splits intro: update_user_row_ok)

lemma AssignKeyToUserTx_ok: "db_ok d \<Longrightarrow> AssignKeyToUserTx uid d = Inr (key, d') \<Longrightarrow> db_ok d'"
  by (auto simp: AssignKeyToUserTx_def and_then_eq_Inr intro: update_serial_key_ok update_serials_ok)

lemma try_assign_ok [ok_intros]: "db_ok d \<Longrightarrow> try_assign_and_commit uid d = Inr d' \<Longrightarrow> db_ok d'"
  by (auto simp: try_assign_and_commit_def commit_after_def intro: AssignKeyToUserTx_ok split: sum.splits err.splits)

subsection \<open>No key is used by two users\<close>

text \<open>
  The invariant that ties the two places together: the key in the row of a user is a key whose row
  names this user.
\<close>

definition licences_ok :: "db \<Rightarrow> bool" where
  "licences_ok d = (\<forall>u \<in> set (users d). \<forall>key. U_SerialKey u = Some key \<longrightarrow>
     \<lparr>K_Key = key, K_UserProfileID = Some (U_ID u)\<rparr> \<in> set (serials d))"

lemma licences_unique:
  assumes "db_ok d" "licences_ok d" "u \<in> set (users d)" "v \<in> set (users d)"
    and "U_SerialKey u = Some key" "U_SerialKey v = Some key"
  shows "u = v"
proof -
  have "distinct (map K_Key (serials d))" "distinct (map U_ID (users d))" using assms(1) by (simp_all add: db_ok_parts)
  moreover have "\<lparr>K_Key = key, K_UserProfileID = Some (U_ID u)\<rparr> \<in> set (serials d)"
    "\<lparr>K_Key = key, K_UserProfileID = Some (U_ID v)\<rparr> \<in> set (serials d)"
    using assms by (auto simp: licences_ok_def)
  ultimately have "U_ID u = U_ID v"
    using distinct_key_eq [of K_Key "serials d" "\<lparr>K_Key = key, K_UserProfileID = Some (U_ID u)\<rparr>"
        "\<lparr>K_Key = key, K_UserProfileID = Some (U_ID v)\<rparr>"] by simp
  then show ?thesis using distinct_key_eq [of U_ID "users d" u v] assms(1,3,4) by (simp add: db_ok_parts)
qed

lemma AssignKeyToUserTx_Inr:
  assumes "db_ok d" "AssignKeyToUserTx uid d = Inr (key, d')"
  obtains "\<lparr>K_Key = key, K_UserProfileID = None\<rparr> \<in> set (serials d)" "uid \<in> U_ID ` set (users d)"
    "d' = d\<lparr>serials := sql_update (\<lambda>k. K_Key k = key) (\<lambda>k. k\<lparr>K_UserProfileID := Some uid\<rparr>) (serials d),
            users := sql_update (\<lambda>u. U_ID u = uid) (\<lambda>u. u\<lparr>U_SerialKey := Some key\<rparr>) (users d)\<rparr>"
proof -
  obtain row d1 where row: "row \<in> set (serials d)" "K_UserProfileID row = None" and key: "key = K_Key row"
    and up1: "update_serials (\<lambda>k. K_Key k = K_Key row) (Some uid) d = Inr d1"
    and up2: "update_serial_key (K_Key row) uid d1 = Inr d'"
    using assms(2) by (auto simp: AssignKeyToUserTx_def and_then_eq_Inr dest!: get_row_Inr)
  have user: "uid \<in> U_ID ` set (users d)"
    and d1: "d1 = d\<lparr>serials := sql_update (\<lambda>k. K_Key k = K_Key row) (\<lambda>k. k\<lparr>K_UserProfileID := Some uid\<rparr>) (serials d)\<rparr>"
    using up1 row(1) by (auto simp: update_serials_def enforce_Inr occurs_iff sql_select_def filter_empty_conv)
  obtain u where u: "u \<in> set (users d)" "U_ID u = uid" using user by auto
  have dist: "distinct (map U_ID (users d))" using assms(1) by (simp add: db_ok_parts)
  have "sql_first (\<lambda>x. U_ID x = uid) (users d1) = Some u" using sql_first_key [OF dist u(1)] u(2) d1 by simp
  then have d': "d' = d1\<lparr>users := sql_update (\<lambda>r. U_ID r = uid) (\<lambda>_. u\<lparr>U_SerialKey := Some key\<rparr>) (users d1)\<rparr>"
    using up2 u(2) by (simp add: update_serial_key_def update_user_row_def enforce_Inr Let_def key)
  have same: "sql_update (\<lambda>r. U_ID r = uid) (\<lambda>_. u\<lparr>U_SerialKey := Some key\<rparr>) (users d) =
      sql_update (\<lambda>r. U_ID r = uid) (\<lambda>r. r\<lparr>U_SerialKey := Some key\<rparr>) (users d)"
    using distinct_key_eq [OF dist _ u(1)] u(2) by (auto simp: sql_update_def)
  have "row = \<lparr>K_Key = key, K_UserProfileID = None\<rparr>" using row(2) key by (cases row) simp
  with row(1) have free: "\<lparr>K_Key = key, K_UserProfileID = None\<rparr> \<in> set (serials d)" by simp
  show ?thesis by (rule that [OF free user]) (simp add: d' same d1 key [symmetric])
qed

lemma AssignKeyToUserTx_licences:
  assumes "db_ok d" "licences_ok d" "AssignKeyToUserTx uid d = Inr (key, d')"
  shows "licences_ok d'"
proof (rule AssignKeyToUserTx_Inr [OF assms(1,3)])
  assume free: "\<lparr>K_Key = key, K_UserProfileID = None\<rparr> \<in> set (serials d)"
    and d': "d' = d\<lparr>serials := sql_update (\<lambda>k. K_Key k = key) (\<lambda>k. k\<lparr>K_UserProfileID := Some uid\<rparr>) (serials d),
            users := sql_update (\<lambda>u. U_ID u = uid) (\<lambda>u. u\<lparr>U_SerialKey := Some key\<rparr>) (users d)\<rparr>"
  have dist: "distinct (map K_Key (serials d))" using assms(1) by (simp add: db_ok_parts)
  have assigned: "\<lparr>K_Key = key, K_UserProfileID = Some uid\<rparr> \<in> set (serials d')"
    using free by (force simp: d' set_sql_update)
  have kept: "\<lparr>K_Key = k, K_UserProfileID = Some v\<rparr> \<in> set (serials d')"
    if "\<lparr>K_Key = k, K_UserProfileID = Some v\<rparr> \<in> set (serials d)" for k v
  proof -
    have "k \<noteq> key" using distinct_key_eq [OF dist that free] by auto
    then show ?thesis using that by (auto simp: d' intro!: sql_update_other)
  qed
  show ?thesis
    unfolding licences_ok_def
  proof (intro ballI allI impI)
    fix v k
    assume v: "v \<in> set (users d')" "U_SerialKey v = Some k"
    then obtain u where u: "u \<in> set (users d)" and vu: "v = (if U_ID u = uid then u\<lparr>U_SerialKey := Some key\<rparr> else u)"
      by (auto simp: d' set_sql_update)
    show "\<lparr>K_Key = k, K_UserProfileID = Some (U_ID v)\<rparr> \<in> set (serials d')"
    proof (cases "U_ID u = uid")
      case True
      then show ?thesis using v(2) vu assigned by simp
    next
      case False
      then show ?thesis using v(2) vu u assms(2) kept by (simp add: licences_ok_def)
    qed
  qed
qed

lemma try_assign_licences:
  "db_ok d \<Longrightarrow> licences_ok d \<Longrightarrow> try_assign_and_commit uid d = Inr d' \<Longrightarrow> licences_ok d'"
  by (auto simp: try_assign_and_commit_def commit_after_def intro: AssignKeyToUserTx_licences split: sum.splits err.splits)

text \<open>A fresh user has no key; a deleted user gives his key back.\<close>

lemma insert_user_licences:
  "licences_ok d \<Longrightarrow> U_SerialKey u = None \<Longrightarrow> insert_user u d = Inr d' \<Longrightarrow> licences_ok d'"
  by (auto simp: licences_ok_def insert_user_def enforce_Inr)

lemma delete_users_licences:
  assumes "db_ok d" "licences_ok d"
  shows "licences_ok (delete_users p d)"
  unfolding licences_ok_def
proof (intro ballI allI impI)
  fix u key
  assume u: "u \<in> set (users (delete_users p d))" "U_SerialKey u = Some key"
  then have kept: "u \<in> set (users d)" "\<not> p u" by (auto simp: delete_users_def delete_races_def Let_def)
  then have "\<lparr>K_Key = key, K_UserProfileID = Some (U_ID u)\<rparr> \<in> set (serials d)" using assms(2) u(2) by (simp add: licences_ok_def)
  moreover have "U_ID u \<notin> set (map U_ID (sql_select p (users d)))"
    using kept distinct_key_eq [of U_ID "users d"] assms(1) by (auto simp: db_ok_parts)
  ultimately show "\<lparr>K_Key = key, K_UserProfileID = Some (U_ID u)\<rparr> \<in> set (serials (delete_users p d))"
    by (auto simp: delete_users_def delete_races_def Let_def intro!: sql_update_other)
qed

text \<open>An update of a user that keeps the identity and the key.\<close>

lemma update_user_row_licences:
  assumes "licences_ok d" "update_user_row u d = Inr d'" "old \<in> set (users d)" "U_ID u = U_ID old"
    "U_SerialKey u = U_SerialKey old"
  shows "licences_ok d'"
proof -
  have "d' = d\<lparr>users := sql_update (\<lambda>r. U_ID r = U_ID u) (\<lambda>_. u) (users d)\<rparr>"
    using assms(2) by (simp add: update_user_row_def enforce_Inr Let_def)
  then show ?thesis using assms(1,3-5) by (auto simp: licences_ok_def)
qed

subsection \<open>Loading the pool\<close>

lemma insertKeyBatch_append: "insertKeyBatch (xs @ ys) d = and_then (insertKeyBatch xs d) (insertKeyBatch ys)"
proof (induction xs d rule: insertKeyBatch.induct)
  case (2 key keys d)
  then show ?case by (cases "insert_serial \<lparr>K_Key = key, K_UserProfileID = None\<rparr> d") simp_all
qed simp

text \<open>Batching is invisible as long as no batch is refused.\<close>

lemma load_batches_ok: "load_batches keys d = (None, d') \<longleftrightarrow> insertKeyBatch keys d = Inr d'"
proof (induction keys d rule: load_batches.induct)
  case (1 keys d)
  show ?case
  proof (cases "keys = []")
    case True
    then show ?thesis by (auto simp: load_batches.simps [of "[]"])
  next
    case False
    have "insertKeyBatch keys d = and_then (insertKeyBatch (take batchSize keys) d) (insertKeyBatch (drop batchSize keys))"
      using insertKeyBatch_append [of "take batchSize keys" "drop batchSize keys"] by simp
    then show ?thesis using False 1 by (cases "insertKeyBatch (take batchSize keys) d") (auto simp: load_batches.simps [of keys])
  qed
qed

subsection \<open>An assignment succeeds exactly when a key is left\<close>

lemma update_serial_key_succeeds:
  assumes "db_ok d" "key \<in> K_Key ` set (serials d)"
  shows "\<exists>d'. update_serial_key key uid d = Inr d'"
proof (cases "sql_first (\<lambda>x. U_ID x = uid) (users d)")
  case (Some v)
  have v: "v \<in> set (users d)" "U_ID v = uid" using sql_first_Some [OF Some] by auto
  have "distinct (map U_Nickname (users d))" "distinct (map U_Email (users d))" using assms(1) by (simp_all add: db_ok_parts)
  then have "\<not> occurs U_Nickname (U_Nickname v) (sql_delete (\<lambda>x. U_ID x = uid) (users d))"
    "\<not> occurs U_Email (U_Email v) (sql_delete (\<lambda>x. U_ID x = uid) (users d))"
    using v distinct_key_eq by (fastforce simp: occurs_iff)+
  then show ?thesis
    using v assms(2) by (simp add: update_serial_key_def Some update_user_row_def Let_def enforce_Inr occurs_iff)
qed (simp add: update_serial_key_def)

lemma AssignKeyToUserTx_iff:
  assumes "db_ok d" "uid \<in> U_ID ` set (users d)"
  shows "(\<exists>key d'. AssignKeyToUserTx uid d = Inr (key, d')) \<longleftrightarrow> GetAvailableKeyCount d \<noteq> 0"
    and "GetAvailableKeyCount d = 0 \<Longrightarrow> AssignKeyToUserTx uid d = Inl NoRows"
proof -
  have none: "AssignKeyToUserTx uid d = Inl NoRows" if "GetAvailableKeyCount d = 0"
    using that by (simp add: AssignKeyToUserTx_def GetAvailableKeyCount_def sql_count_def sql_select_def get_row_def)
  then show "GetAvailableKeyCount d = 0 \<Longrightarrow> AssignKeyToUserTx uid d = Inl NoRows" .
  show "(\<exists>key d'. AssignKeyToUserTx uid d = Inr (key, d')) \<longleftrightarrow> GetAvailableKeyCount d \<noteq> 0"
  proof (cases "sql_select (\<lambda>k. K_UserProfileID k = None) (serials d)")
    case Nil
    then have "GetAvailableKeyCount d = 0" by (simp add: GetAvailableKeyCount_def sql_count_def sql_select_def)
    then show ?thesis using none by auto
  next
    case (Cons row rest)
    then have row: "row \<in> set (serials d)" "K_UserProfileID row = None"
      by (metis (mono_tags, lifting) list.set_intros(1) mem_Collect_eq set_sql_select)+
    obtain d1 where d1: "update_serials (\<lambda>k. K_Key k = K_Key row) (Some uid) d = Inr d1"
      using assms(2) by (simp add: update_serials_def enforce_Inr occurs_iff)
    have "K_Key row \<in> K_Key ` set (serials d1)"
      using d1 row(1) by (simp add: update_serials_def enforce_Inr image_sql_update)
    then obtain d2 where "update_serial_key (K_Key row) uid d1 = Inr d2"
      using update_serial_key_succeeds update_serials_ok [OF assms(1) d1] by blast
    moreover have "GetAvailableKeyCount d \<noteq> 0"
      using row by (auto simp: GetAvailableKeyCount_def sql_count_zero)
    ultimately show ?thesis using Cons d1 by (simp add: AssignKeyToUserTx_def get_row_def)
  qed
qed

end
