(* ===== verification/Users.thy ===== *)
theory Users
  imports Licences Examples "HOL-Library.Word"
begin

section \<open>User profiles and registration\<close>

text \<open>
  \<open>registration.go\<close>, \<open>registration_pending_list.go\<close>, \<open>registration_pending_approve.go\<close>,
  \<open>registration_pending_reject.go\<close>, the seven \<open>userprofile_*.go\<close>, \<open>userinfo.go\<close>,
  \<open>lib/registration/options.go\<close> and \<open>lib/admin/admin.go\<close>: how a user comes into being, is approved,
  changed and removed, and how he gets his serial key. Random bytes and UUIDs are arguments.
\<close>

subsection \<open>The profile that the API shows\<close>

text \<open>The state is \<open>None\<close> when the Go string is empty, as for a session.\<close>

record UserProfile =
  UP_Email :: string
  UP_ID :: id
  UP_IsManager :: bool
  UP_Nickname :: string
  UP_RegistrationMessage :: "string option"
  UP_State :: "user_state option"

definition profile_of :: "UserProfileDB \<Rightarrow> UserProfile" where
  "profile_of u = \<lparr>UP_Email = U_Email u, UP_ID = U_ID u, UP_IsManager = U_IsManager u,
     UP_Nickname = U_Nickname u, UP_RegistrationMessage = U_RegistrationMessage u, UP_State = Some (U_State u)\<rparr>"

record ApikeyReset =
  AR_Apikey :: string
  AR_UserID :: id

definition manager_Authorize :: "Principal \<Rightarrow> bool" where
  "manager_Authorize pr = (if IsGlobalManager pr then True else False)"

subsection \<open>Strings of the standard library\<close>

text \<open>
  \<open>strings.TrimSpace\<close> on the bytes of a string: the length of the white space rune that it begins or
  ends with, in UTF-8. White space is what \<open>unicode.IsSpace\<close> says: six ASCII characters, U+0085,
  U+00A0, U+1680, U+2000 to U+200A, U+2028, U+2029, U+202F, U+205F and U+3000.
\<close>

definition spaces1 :: "string list" where
  "spaces1 = [[CHR 0x09], [CHR 0x0A], [CHR 0x0B], [CHR 0x0C], [CHR 0x0D], [CHR 0x20]]"

definition spaces2 :: "string list" where
  "spaces2 = [[CHR 0xC2, CHR 0x85], [CHR 0xC2, CHR 0xA0]]"

definition spaces3 :: "string list" where
  "spaces3 = [[CHR 0xE1, CHR 0x9A, CHR 0x80], [CHR 0xE2, CHR 0x80, CHR 0x80], [CHR 0xE2, CHR 0x80, CHR 0x81],
     [CHR 0xE2, CHR 0x80, CHR 0x82], [CHR 0xE2, CHR 0x80, CHR 0x83], [CHR 0xE2, CHR 0x80, CHR 0x84],
     [CHR 0xE2, CHR 0x80, CHR 0x85], [CHR 0xE2, CHR 0x80, CHR 0x86], [CHR 0xE2, CHR 0x80, CHR 0x87],
     [CHR 0xE2, CHR 0x80, CHR 0x88], [CHR 0xE2, CHR 0x80, CHR 0x89], [CHR 0xE2, CHR 0x80, CHR 0x8A],
     [CHR 0xE2, CHR 0x80, CHR 0xA8], [CHR 0xE2, CHR 0x80, CHR 0xA9], [CHR 0xE2, CHR 0x80, CHR 0xAF],
     [CHR 0xE2, CHR 0x81, CHR 0x9F], [CHR 0xE3, CHR 0x80, CHR 0x80]]"

definition space_at :: "(nat \<Rightarrow> string \<Rightarrow> string) \<Rightarrow> string \<Rightarrow> nat" where
  "space_at part s =
    (if part 1 s \<in> set spaces1 then 1 else if part 2 s \<in> set spaces2 then 2
     else if part 3 s \<in> set spaces3 then 3 else 0)"

fun trim_left :: "nat \<Rightarrow> string \<Rightarrow> string" where
  "trim_left 0 s = s"
| "trim_left (Suc fuel) s = (let k = space_at take s in if k = 0 then s else trim_left fuel (drop k s))"

fun trim_right :: "nat \<Rightarrow> string \<Rightarrow> string" where
  "trim_right 0 s = s"
| "trim_right (Suc fuel) s =
    (let k = space_at (\<lambda>n s. drop (length s - n) s) s in if k = 0 then s else trim_right fuel (take (length s - k) s))"

definition TrimSpace :: "string \<Rightarrow> string" where
  "TrimSpace s = (let t = trim_left (length s) s in trim_right (length t) t)"

text \<open>\<open>hex.EncodeToString\<close>, and the key made of 32 random bytes.\<close>

definition hex_digit :: "nat \<Rightarrow> char" where
  "hex_digit n = ''0123456789abcdef'' ! n"

fun hex_EncodeToString :: "8 word list \<Rightarrow> string" where
  "hex_EncodeToString [] = ''''"
| "hex_EncodeToString (b # bs) = hex_digit (unat b div 16) # hex_digit (unat b mod 16) # hex_EncodeToString bs"

definition GenerateAPIKey :: "8 word list \<Rightarrow> string" where
  "GenerateAPIKey rnd = hex_EncodeToString (take 32 rnd)"

subsection \<open>The client of a registration\<close>

text \<open>\<open>net.SplitHostPort\<close>: the host, or nothing where it returns an error.\<close>

definition split_at_last_colon :: "string \<Rightarrow> (string \<times> string) option" where
  "split_at_last_colon s =
    (let r = takeWhile (\<lambda>c. c \<noteq> CHR '':'') (rev s) in
     if length r = length s then None else Some (take (length s - length r - 1) s, rev r))"

definition SplitHost :: "string \<Rightarrow> string option" where
  "SplitHost s = (case split_at_last_colon s of
     None \<Rightarrow> None
   | Some (before, port) \<Rightarrow>
      if s \<noteq> [] \<and> hd s = CHR ''['' then
        (let host = takeWhile (\<lambda>c. c \<noteq> CHR '']'') (List.tl s); end = length host + 1 in
         if end \<ge> length s then None
         else if end + 1 \<noteq> length before then None
         else if CHR ''['' \<in> set (List.tl s) \<or> CHR '']'' \<in> set (drop (end + 1) s) then None
         else Some host)
      else if CHR '':'' \<in> set before then None
      else if CHR ''['' \<in> set s \<or> CHR '']'' \<in> set s then None
      else Some before)"

record http_request =
  XForwardedFor :: string
  XRealIP :: string
  RemoteAddr :: string

definition getClientIP :: "http_request \<Rightarrow> string" where
  "getClientIP r =
    (if XForwardedFor r \<noteq> '''' then
       (if CHR '','' \<in> set (XForwardedFor r)
          then TrimSpace (takeWhile (\<lambda>c. c \<noteq> CHR '','') (XForwardedFor r))
        else TrimSpace (XForwardedFor r))
     else if XRealIP r \<noteq> '''' then TrimSpace (XRealIP r)
     else (case SplitHost (RemoteAddr r) of None \<Rightarrow> RemoteAddr r | Some ip \<Rightarrow> ip))"

subsection \<open>Register\<close>

record registration_Options =
  Enabled :: bool
  NeedApproval :: bool

definition registration_NewOptions :: registration_Options where
  "registration_NewOptions = \<lparr>Enabled = False, NeedApproval = True\<rparr>"

record RegistrationRequest =
  RQ_Email :: string
  RQ_Message :: "string option"
  RQ_Nickname :: string

record RegistrationResult =
  RR_Apikey :: string
  RR_Nickname :: string
  RR_Pending :: bool
  RR_UserID :: id

definition register_error :: "err \<Rightarrow> err" where
  "register_error e = (case e of
     PqError code c \<Rightarrow> if code = ''23505'' then ErrAlreadyExists ''nickname or email already exists'' else e
   | _ \<Rightarrow> e)"

definition map_error :: "(err \<Rightarrow> err) \<Rightarrow> err + 'a \<Rightarrow> err + 'a" where
  "map_error f r = (case r of Inl e \<Rightarrow> Inl (f e) | Inr x \<Rightarrow> Inr x)"

definition registered_user :: "bool \<Rightarrow> 8 word list \<Rightarrow> id \<Rightarrow> RegistrationRequest \<Rightarrow> UserProfileDB" where
  "registered_user needApproval rnd uuid reg =
    \<lparr>U_ID = uuid, U_Email = TrimSpace (RQ_Email reg), U_State = (if needApproval then UserPending else UserActive),
     U_IsManager = False, U_Nickname = TrimSpace (RQ_Nickname reg), U_APIKey = Some (GenerateAPIKey rnd),
     U_SerialKey = None, U_RegistrationMessage = RQ_Message reg\<rparr>"

definition Register_handle ::
    "registration_Options option \<Rightarrow> 8 word list \<Rightarrow> id \<Rightarrow> RegistrationRequest option \<Rightarrow> db \<Rightarrow> RegistrationResult tx" where
  "Register_handle opts rnd uuid registration d = (case registration of
     None \<Rightarrow> Inl (ErrInvalidSomething ''registration data is required'')
   | Some reg \<Rightarrow>
      if TrimSpace (RQ_Nickname reg) = '''' then Inl (ErrInvalidSomething ''nickname is required'')
      else if TrimSpace (RQ_Email reg) = '''' then Inl (ErrInvalidSomething ''email is required'')
      else
        let needApproval = (case opts of None \<Rightarrow> False | Some o' \<Rightarrow> NeedApproval o');
            u = registered_user needApproval rnd uuid reg in
        and_then (map_error register_error (insert_user u d)) (\<lambda>d1.
        Inr (\<lparr>RR_Apikey = GenerateAPIKey rnd, RR_Nickname = U_Nickname u, RR_Pending = needApproval, RR_UserID = uuid\<rparr>,
          d1, if needApproval then [PublishPendingRegistrationCreate uuid] else [])))"

text \<open>
  The limiter, if there is one, answers for the address of the client; the token bucket behind it
  (\<open>x/time/rate\<close>) is a parameter.
\<close>

definition Register_Handle ::
    "registration_Options option \<Rightarrow> (string \<Rightarrow> bool) option \<Rightarrow> http_request \<Rightarrow> 8 word list \<Rightarrow> id \<Rightarrow>
     RegistrationRequest option \<Rightarrow> db \<Rightarrow> RegistrationResult reply" where
  "Register_Handle opts limiter http rnd uuid registration d =
    (if (case opts of None \<Rightarrow> False | Some o' \<Rightarrow> \<not> Enabled o')
       then (Failure 503 (Some ''registration is currently disabled''), d, [])
     else if (case limiter of None \<Rightarrow> False | Some allow \<Rightarrow> \<not> allow (getClientIP http))
       then (Failure 429 (Some ''too many registration attempts, please try again later''), d, [])
     else respond [case_conflict, case_invalid] 201 d (Register_handle opts rnd uuid registration d))"

subsection \<open>Pending registrations\<close>

text \<open>The rows in the collation of the database, a parameter: the sort key of a text.\<close>

definition PendingRegistrationList_handle :: "(string \<Rightarrow> string) \<Rightarrow> Principal \<Rightarrow> db \<Rightarrow> UserProfile list tx" where
  "PendingRegistrationList_handle collate pr d =
    (if \<not> manager_Authorize pr then Inl ErrForbidden
     else and_then (scan_rows (\<lambda>u. if U_APIKey u = None then None else Some (profile_of u))
         (order_by (\<lambda>u. collate (U_Nickname u)) (sql_select (\<lambda>u. U_State u = UserPending) (users d)))) (\<lambda>result.
       Inr (result, d, [])))"

definition PendingRegistrationList_Handle :: "(string \<Rightarrow> string) \<Rightarrow> Principal \<Rightarrow> db \<Rightarrow> UserProfile list reply" where
  "PendingRegistrationList_Handle collate pr d =
    respond [case_forbidden] 200 d (PendingRegistrationList_handle collate pr d)"

text \<open>\<open>GetByPKey\<close> with the error for a missing row, shared by four handlers.\<close>

definition find_user :: "err \<Rightarrow> id \<Rightarrow> db \<Rightarrow> err + UserProfileDB" where
  "find_user missing uid d = (case get_user uid d of
     Inl e \<Rightarrow> (if errors_Is e NoRows then Inl missing else Inl e)
   | Inr u \<Rightarrow> Inr u)"

definition get_pending :: "id \<Rightarrow> db \<Rightarrow> err + UserProfileDB" where
  "get_pending uid d =
    and_then (find_user (NewErrSomethingNotFound ''user profile not found'') uid d) (\<lambda>u.
    if U_State u \<noteq> UserPending then Inl (ErrInvalidSomething ''user profile is not pending approval'') else Inr u)"

definition PendingRegistrationApprove_handle :: "id \<Rightarrow> Principal \<Rightarrow> db \<Rightarrow> ApikeyReset tx" where
  "PendingRegistrationApprove_handle uid pr d =
    (if \<not> manager_Authorize pr then Inl ErrForbidden
     else and_then (get_pending uid d) (\<lambda>u.
       and_then (update_user_row (u\<lparr>U_State := UserActive\<rparr>) d) (\<lambda>d1.
       and_then (try_assign_and_commit uid d1) (\<lambda>d2.
       Inr (\<lparr>AR_Apikey = the (U_APIKey u), AR_UserID = uid\<rparr>, d2,
         [PublishPendingRegistrationApprove uid (U_Nickname u)])))))"

definition PendingRegistrationApprove_Handle :: "id \<Rightarrow> Principal \<Rightarrow> db \<Rightarrow> ApikeyReset reply" where
  "PendingRegistrationApprove_Handle uid pr d =
    respond [case_forbidden, case_not_found, case_invalid] 200 d (PendingRegistrationApprove_handle uid pr d)"

definition PendingRegistrationReject_handle :: "id \<Rightarrow> Principal \<Rightarrow> db \<Rightarrow> unit tx" where
  "PendingRegistrationReject_handle uid pr d =
    (if \<not> manager_Authorize pr then Inl ErrForbidden
     else and_then (get_pending uid d) (\<lambda>u.
       Inr ((), delete_users (\<lambda>x. U_ID x = uid) d, [PublishPendingRegistrationReject uid])))"

definition PendingRegistrationReject_Handle :: "id \<Rightarrow> Principal \<Rightarrow> db \<Rightarrow> unit reply" where
  "PendingRegistrationReject_Handle uid pr d =
    respond [case_forbidden, case_not_found, case_invalid] 204 d (PendingRegistrationReject_handle uid pr d)"

subsection \<open>User profiles\<close>

definition created_user :: "id \<Rightarrow> string \<Rightarrow> string \<Rightarrow> UserProfileDB" where
  "created_user uuid nickname email =
    \<lparr>U_ID = uuid, U_Email = email, U_State = UserActive, U_IsManager = False, U_Nickname = nickname,
     U_APIKey = Some '''', U_SerialKey = None, U_RegistrationMessage = None\<rparr>"

definition UserProfileCreate_handle :: "id \<Rightarrow> string \<Rightarrow> string \<Rightarrow> Principal \<Rightarrow> db \<Rightarrow> UserProfile tx" where
  "UserProfileCreate_handle uuid nickname email pr d =
    (if \<not> manager_Authorize pr then Inl ErrForbidden
     else let u = created_user uuid nickname email in
       and_then (insert_user u d) (\<lambda>d1.
       and_then (try_assign_and_commit uuid d1) (\<lambda>d2. Inr (profile_of u, d2, []))))"

definition UserProfileCreate_Handle :: "id \<Rightarrow> string \<Rightarrow> string \<Rightarrow> Principal \<Rightarrow> db \<Rightarrow> UserProfile reply" where
  "UserProfileCreate_Handle uuid nickname email pr d =
    respond [case_forbidden, case_not_found, case_invalid] 201 d (UserProfileCreate_handle uuid nickname email pr d)"

definition UserProfileDelete_handle :: "id \<Rightarrow> Principal \<Rightarrow> db \<Rightarrow> unit tx" where
  "UserProfileDelete_handle uid pr d =
    (if \<not> manager_Authorize pr then Inl ErrForbidden
     else and_then (find_user (NewErrSomethingNotFound ''user profile not found'') uid d) (\<lambda>u.
       if IsMemberOfAnySession uid d then Inl (ErrAlreadyExists ''user is a member of one or more sessions'')
       else Inr ((), delete_users (\<lambda>x. U_ID x = uid) d, [])))"

definition UserProfileDelete_Handle :: "id \<Rightarrow> Principal \<Rightarrow> db \<Rightarrow> unit reply" where
  "UserProfileDelete_Handle uid pr d =
    respond [case_forbidden, case_not_found, case_conflict] 204 d (UserProfileDelete_handle uid pr d)"

definition SystemUserID :: id where
  "SystemUserID = ''system''"

definition UserProfilesList_handle :: "Principal \<Rightarrow> db \<Rightarrow> UserProfile list tx" where
  "UserProfilesList_handle pr d =
    Inr (map (\<lambda>u. (profile_of u)\<lparr>UP_RegistrationMessage := None\<rparr>)
      (order_by U_ID (sql_select (\<lambda>u. U_ID u \<noteq> SystemUserID) (users d))), d, [])"

definition UserProfilesList_Handle :: "Principal \<Rightarrow> db \<Rightarrow> UserProfile list reply" where
  "UserProfilesList_Handle pr d = respond [] 200 d (UserProfilesList_handle pr d)"

definition UserProfileRead_handle :: "id \<Rightarrow> db \<Rightarrow> UserProfile tx" where
  "UserProfileRead_handle uid d =
    and_then (find_user (ErrUserProfileNotFound (''user_profile not found with ID: '' @ uid)) uid d) (\<lambda>u.
    Inr (profile_of u, d, []))"

definition UserProfileRead_Handle :: "id \<Rightarrow> db \<Rightarrow> UserProfile reply" where
  "UserProfileRead_Handle uid d = respond [case_not_found] 200 d (UserProfileRead_handle uid d)"

definition UserProfileResetApikey_Authorize :: "id \<Rightarrow> Principal \<Rightarrow> bool" where
  "UserProfileResetApikey_Authorize uid pr = (if Subject pr = uid \<or> IsGlobalManager pr then True else False)"

definition UserProfileResetApikey_handle :: "8 word list \<Rightarrow> id \<Rightarrow> Principal \<Rightarrow> db \<Rightarrow> ApikeyReset tx" where
  "UserProfileResetApikey_handle rnd uid pr d =
    (if \<not> UserProfileResetApikey_Authorize uid pr then Inl ErrForbidden
     else and_then (find_user (ErrUserProfileNotFound (''user_profile not found with ID: '' @ uid)) uid d) (\<lambda>u.
       and_then (update_user_row (u\<lparr>U_APIKey := Some (GenerateAPIKey rnd)\<rparr>) d) (\<lambda>d1.
       Inr (\<lparr>AR_Apikey = GenerateAPIKey rnd, AR_UserID = uid\<rparr>, d1, []))))"

definition UserProfileResetApikey_Handle :: "8 word list \<Rightarrow> id \<Rightarrow> Principal \<Rightarrow> db \<Rightarrow> ApikeyReset reply" where
  "UserProfileResetApikey_Handle rnd uid pr d =
    respond [case_not_found, (ErrForbidden, 403, \<lambda>_. ''forbidden'')] 200 d (UserProfileResetApikey_handle rnd uid pr d)"

text \<open>
  \<open>UpdateColumns\<close> writes the columns of the row whose id the body names; the path does not matter
  and nothing is authorised. What the helper of \<open>go-orusapi\<close> answers when no row has this id is a
  parameter. A state that the enum does not have is refused with SQLSTATE 22P02.
\<close>

definition update_user_columns :: "bool \<Rightarrow> UserProfile \<Rightarrow> UserProfileDB \<Rightarrow> UserProfileDB" where
  "update_user_columns manager body u =
    (let u1 = u\<lparr>U_Nickname := UP_Nickname body\<rparr> in
     if manager then u1\<lparr>U_IsManager := UP_IsManager body, U_State := the (UP_State body), U_Email := UP_Email body\<rparr>
     else u1)"

definition UserProfileUpdate_handle :: "err + unit \<Rightarrow> UserProfile \<Rightarrow> Principal \<Rightarrow> db \<Rightarrow> UserProfile tx" where
  "UserProfileUpdate_handle missing body pr d =
    (if IsGlobalManager pr \<and> UP_State body = None then Inl (PqError ''22P02'' '''')
     else case sql_first (\<lambda>u. U_ID u = UP_ID body) (users d) of
       None \<Rightarrow> and_then missing (\<lambda>_. Inr (body, d, []))
     | Some u \<Rightarrow> and_then (update_user_row (update_user_columns (IsGlobalManager pr) body u) d) (\<lambda>d1.
         Inr (body, d1, [])))"

definition UserProfileUpdate_Handle :: "err + unit \<Rightarrow> UserProfile \<Rightarrow> Principal \<Rightarrow> db \<Rightarrow> UserProfile reply" where
  "UserProfileUpdate_Handle missing body pr d =
    respond [case_not_found] 200 d (UserProfileUpdate_handle missing body pr d)"

text \<open>The read-only fields, which the generated binding checks before the handler runs.\<close>

definition ContextValidate_UserProfile :: "UserProfile \<Rightarrow> bool" where
  "ContextValidate_UserProfile p =
    (UP_ID p = '''' \<and> \<not> UP_IsManager p \<and> UP_RegistrationMessage p = None \<and> UP_State p = None)"

subsection \<open>Userinfo\<close>

record Userinfo =
  UI_SerialKey :: string
  UI_ID :: id
  UI_Nickname :: string

text \<open>
  The first call of a user without a key assigns one; if that fails, the transaction is rolled back
  and the answer has no key. The code reads the row with three columns only, so a NULL \<open>apikey\<close> does
  not matter.
\<close>

definition Userinfo_handle :: "Principal \<Rightarrow> db \<Rightarrow> Userinfo tx" where
  "Userinfo_handle pr d =
    (case sql_first (\<lambda>u. U_ID u = Subject pr) (users d) of
       None \<Rightarrow> Inl (OtherErr ''unknown user'')
     | Some u \<Rightarrow> (case U_SerialKey u of
         Some key \<Rightarrow> Inr (\<lparr>UI_SerialKey = key, UI_ID = U_ID u, UI_Nickname = U_Nickname u\<rparr>, d, [])
       | None \<Rightarrow> (case AssignKeyToUserTx (Subject pr) d of
           Inl e \<Rightarrow> Inr (\<lparr>UI_SerialKey = '''', UI_ID = U_ID u, UI_Nickname = U_Nickname u\<rparr>, d, [])
         | Inr (key, d') \<Rightarrow> Inr (\<lparr>UI_SerialKey = key, UI_ID = U_ID u, UI_Nickname = U_Nickname u\<rparr>, d', []))))"

definition Userinfo_Handle :: "Principal \<Rightarrow> db \<Rightarrow> Userinfo reply" where
  "Userinfo_Handle pr d = (case Userinfo_handle pr d of
     Inl e \<Rightarrow> (Failure 500 (Some (Error_msg e)), d, [])
   | Inr (x, d', ns) \<Rightarrow> (Success 200 x, d', ns))"

subsection \<open>The first administrator\<close>

record admin_Options =
  AutocreateAdmin :: bool
  AdminUsername :: string
  AdminEmail :: string
  AdminAPIKey :: string

definition admin_user :: "admin_Options \<Rightarrow> 8 word list \<Rightarrow> id \<Rightarrow> UserProfileDB" where
  "admin_user opts rnd uuid =
    \<lparr>U_ID = uuid, U_Email = (if AdminEmail opts = '''' then AdminUsername opts @ ''@neper.local'' else AdminEmail opts),
     U_State = UserActive, U_IsManager = True, U_Nickname = AdminUsername opts,
     U_APIKey = Some (if AdminAPIKey opts = '''' then hex_EncodeToString (take 32 rnd) else AdminAPIKey opts),
     U_SerialKey = None, U_RegistrationMessage = None\<rparr>"

text \<open>
  Called at every start. The key of the new user, or the empty string. The serial key is assigned in a
  second transaction, whose failure is only logged.
\<close>

definition EnsureAdminUser :: "admin_Options \<Rightarrow> 8 word list \<Rightarrow> id \<Rightarrow> db \<Rightarrow> (err + string) \<times> db" where
  "EnsureAdminUser opts rnd uuid d =
    (if \<not> AutocreateAdmin opts then (Inr '''', d)
     else case (case sql_first (\<lambda>u. U_Nickname u = AdminUsername opts) (users d) of
                  None \<Rightarrow> Inl NoRows | Some u \<Rightarrow> scan_user u) of
       Inr u \<Rightarrow> (Inr '''', d)
     | Inl e \<Rightarrow> if \<not> errors_Is e NoRows then (Inl e, d)
         else let u = admin_user opts rnd uuid in
           (case insert_user u d of
              Inl e \<Rightarrow> (Inl e, d)
            | Inr d1 \<Rightarrow> (Inr (the (U_APIKey u)), snd (AssignKeyToUser uuid d1))))"

subsection \<open>The request contract\<close>

text \<open>The contract of these handlers keeps the schema and the assignment of the serial keys.\<close>

definition users_ok :: "db \<Rightarrow> bool" where
  "users_ok d = (db_ok d \<and> licences_ok d)"

lemma find_user_Inr: "find_user missing uid d = Inr u \<Longrightarrow> u \<in> set (users d) \<and> U_ID u = uid \<and> U_APIKey u \<noteq> None"
  by (auto simp: find_user_def get_user_def scan_user_def split: sum.splits option.splits if_splits dest: sql_first_Some)

lemma get_pending_Inr:
  "get_pending uid d = Inr u \<Longrightarrow> u \<in> set (users d) \<and> U_ID u = uid \<and> U_APIKey u \<noteq> None \<and> U_State u = UserPending"
  by (auto simp: get_pending_def and_then_eq_Inr split: if_splits dest: find_user_Inr)

lemma update_user_users_ok:
  assumes "users_ok d" "update_user_row u d = Inr d'" "old \<in> set (users d)" "U_ID u = U_ID old" "U_SerialKey u = U_SerialKey old"
  shows "users_ok d'"
  using assms update_user_row_ok update_user_row_licences unfolding users_ok_def by blast

lemma try_assign_users_ok: "users_ok d \<Longrightarrow> try_assign_and_commit uid d = Inr d' \<Longrightarrow> users_ok d'"
  unfolding users_ok_def using try_assign_ok try_assign_licences by blast

lemma delete_users_users_ok: "users_ok d \<Longrightarrow> users_ok (delete_users p d)"
  unfolding users_ok_def using delete_users_ok delete_users_licences by blast

lemma insert_user_users_ok: "users_ok d \<Longrightarrow> U_SerialKey u = None \<Longrightarrow> insert_user u d = Inr d' \<Longrightarrow> users_ok d'"
  unfolding users_ok_def using insert_user_ok insert_user_licences by blast

lemma Register_keeps:
  assumes "users_ok d" "Register_handle opts rnd uuid registration d = Inr (x, d', ns)"
  shows "users_ok d'"
proof -
  obtain na reg where "insert_user (registered_user na rnd uuid reg) d = Inr d'"
    using assms(2) by (auto simp: Register_handle_def map_error_def Let_def and_then_eq_Inr split: option.splits if_splits sum.splits)
  then show ?thesis by (rule insert_user_users_ok [OF assms(1), rotated]) (simp add: registered_user_def)
qed

lemma Approve_Inr:
  assumes "PendingRegistrationApprove_handle uid pr d = Inr (r, d', ns)"
  obtains u d1 where "manager_Authorize pr" "get_pending uid d = Inr u" "update_user_row (u\<lparr>U_State := UserActive\<rparr>) d = Inr d1"
    "try_assign_and_commit uid d1 = Inr d'" "r = \<lparr>AR_Apikey = the (U_APIKey u), AR_UserID = uid\<rparr>"
    "ns = [PublishPendingRegistrationApprove uid (U_Nickname u)]"
  using assms that by (auto simp: PendingRegistrationApprove_handle_def and_then_eq_Inr split: if_splits)

lemma Approve_keeps:
  assumes "users_ok d" "PendingRegistrationApprove_handle uid pr d = Inr (r, d', ns)"
  shows "users_ok d'"
proof (rule Approve_Inr [OF assms(2)])
  fix u d1
  assume u: "get_pending uid d = Inr u" and up: "update_user_row (u\<lparr>U_State := UserActive\<rparr>) d = Inr d1"
    and try': "try_assign_and_commit uid d1 = Inr d'"
  have "users_ok d1" by (rule update_user_users_ok [OF assms(1) up, of u]) (use get_pending_Inr [OF u] in auto)
  then show ?thesis by (rule try_assign_users_ok [OF _ try'])
qed

lemma Reject_keeps: "users_ok d \<Longrightarrow> PendingRegistrationReject_handle uid pr d = Inr (r, d', ns) \<Longrightarrow> users_ok d'"
  by (auto simp: PendingRegistrationReject_handle_def and_then_eq_Inr split: if_splits intro: delete_users_users_ok)

lemma UserProfileCreate_keeps:
  assumes "users_ok d" "UserProfileCreate_handle uuid nick email pr d = Inr (r, d', ns)"
  shows "users_ok d'"
proof -
  obtain d1 where ins: "insert_user (created_user uuid nick email) d = Inr d1" and try': "try_assign_and_commit uuid d1 = Inr d'"
    using assms(2) by (auto simp: UserProfileCreate_handle_def Let_def and_then_eq_Inr split: if_splits)
  have "users_ok d1" by (rule insert_user_users_ok [OF assms(1) _ ins]) (simp add: created_user_def)
  then show ?thesis by (rule try_assign_users_ok [OF _ try'])
qed

lemma UserProfileDelete_keeps: "users_ok d \<Longrightarrow> UserProfileDelete_handle uid pr d = Inr (r, d', ns) \<Longrightarrow> users_ok d'"
  by (auto simp: UserProfileDelete_handle_def and_then_eq_Inr split: if_splits intro: delete_users_users_ok)

lemma UserProfileResetApikey_keeps:
  assumes "users_ok d" "UserProfileResetApikey_handle rnd uid pr d = Inr (r, d', ns)"
  shows "users_ok d'"
proof -
  obtain missing u where u: "find_user missing uid d = Inr u"
    and up: "update_user_row (u\<lparr>U_APIKey := Some (GenerateAPIKey rnd)\<rparr>) d = Inr d'"
    using assms(2) by (auto simp: UserProfileResetApikey_handle_def and_then_eq_Inr split: if_splits)
  show ?thesis by (rule update_user_users_ok [OF assms(1) up, of u]) (use find_user_Inr [OF u] in auto)
qed

lemma UserProfileUpdate_keeps:
  assumes "users_ok d" "UserProfileUpdate_handle missing body pr d = Inr (r, d', ns)"
  shows "users_ok d'"
proof (cases "sql_first (\<lambda>u. U_ID u = UP_ID body) (users d)")
  case None
  then show ?thesis using assms by (auto simp: UserProfileUpdate_handle_def and_then_eq_Inr split: if_splits)
next
  case (Some u)
  then have up: "update_user_row (update_user_columns (IsGlobalManager pr) body u) d = Inr d'"
    using assms by (auto simp: UserProfileUpdate_handle_def and_then_eq_Inr split: if_splits)
  show ?thesis
    by (rule update_user_users_ok [OF assms(1) up, of u])
      (use sql_first_Some [OF Some] in \<open>auto simp: update_user_columns_def Let_def\<close>)
qed

lemma Userinfo_keeps:
  assumes "users_ok d" "Userinfo_handle pr d = Inr (r, d', ns)"
  shows "users_ok d'"
  using assms AssignKeyToUserTx_ok [of d "Subject pr"] AssignKeyToUserTx_licences [of d "Subject pr"]
  by (auto simp: Userinfo_handle_def users_ok_def split: option.splits sum.splits)

text \<open>Only the administrator at the start runs outside of a request.\<close>

lemma EnsureAdminUser_keeps: "users_ok d \<Longrightarrow> users_ok (snd (EnsureAdminUser opts rnd uuid d))"
proof -
  assume ok: "users_ok d"
  have "users_ok (snd (AssignKeyToUser uuid d1))" if "users_ok d1" for d1
    using that AssignKeyToUserTx_ok [of d1 uuid] AssignKeyToUserTx_licences [of d1 uuid]
    by (auto simp: AssignKeyToUser_def users_ok_def split: sum.splits)
  moreover have "users_ok d1" if "insert_user (admin_user opts rnd uuid) d = Inr d1" for d1
    by (rule insert_user_users_ok [OF ok _ that]) (simp add: admin_user_def)
  ultimately show ?thesis using ok by (auto simp: EnsureAdminUser_def Let_def split: sum.splits option.splits)
qed

interpretation pending_list_req: guarded_request
  "\<lambda>(c, pr). PendingRegistrationList_handle c pr" "\<lambda>(c, pr). PendingRegistrationList_Handle c pr" users_ok
  "\<lambda>(c, pr) d. manager_Authorize pr"
  by unfold_locales (auto simp: PendingRegistrationList_Handle_def PendingRegistrationList_handle_def and_then_eq_Inr split: if_splits)

interpretation approve_req: guarded_request
  "\<lambda>(uid, pr). PendingRegistrationApprove_handle uid pr" "\<lambda>(uid, pr). PendingRegistrationApprove_Handle uid pr" users_ok
  "\<lambda>(uid, pr) d. manager_Authorize pr"
  by unfold_locales (auto simp: PendingRegistrationApprove_Handle_def dest: Approve_keeps elim: Approve_Inr)

interpretation reject_req: guarded_request
  "\<lambda>(uid, pr). PendingRegistrationReject_handle uid pr" "\<lambda>(uid, pr). PendingRegistrationReject_Handle uid pr" users_ok
  "\<lambda>(uid, pr) d. manager_Authorize pr"
  by unfold_locales (auto simp: PendingRegistrationReject_Handle_def PendingRegistrationReject_handle_def and_then_eq_Inr
      split: if_splits intro: delete_users_users_ok)

interpretation user_create_req: guarded_request
  "\<lambda>(uuid, nick, email, pr). UserProfileCreate_handle uuid nick email pr"
  "\<lambda>(uuid, nick, email, pr). UserProfileCreate_Handle uuid nick email pr" users_ok "\<lambda>(uuid, nick, email, pr) d. manager_Authorize pr"
  by unfold_locales (auto simp: UserProfileCreate_Handle_def UserProfileCreate_handle_def dest: UserProfileCreate_keeps split: if_splits)

interpretation user_delete_req: guarded_request
  "\<lambda>(uid, pr). UserProfileDelete_handle uid pr" "\<lambda>(uid, pr). UserProfileDelete_Handle uid pr" users_ok
  "\<lambda>(uid, pr) d. manager_Authorize pr"
  by unfold_locales (auto simp: UserProfileDelete_Handle_def UserProfileDelete_handle_def dest: UserProfileDelete_keeps split: if_splits)

interpretation reset_apikey_req: guarded_request
  "\<lambda>(rnd, uid, pr). UserProfileResetApikey_handle rnd uid pr" "\<lambda>(rnd, uid, pr). UserProfileResetApikey_Handle rnd uid pr"
  users_ok "\<lambda>(rnd, uid, pr) d. UserProfileResetApikey_Authorize uid pr"
  by unfold_locales (auto simp: UserProfileResetApikey_Handle_def UserProfileResetApikey_handle_def
      dest: UserProfileResetApikey_keeps split: if_splits)

interpretation user_update_req: request
  "\<lambda>(missing, body, pr). UserProfileUpdate_handle missing body pr" "\<lambda>(missing, body, pr). UserProfileUpdate_Handle missing body pr"
  users_ok
  by unfold_locales (auto simp: UserProfileUpdate_Handle_def dest: UserProfileUpdate_keeps)

interpretation user_read_req: request UserProfileRead_handle UserProfileRead_Handle users_ok
  by unfold_locales (auto simp: UserProfileRead_Handle_def UserProfileRead_handle_def and_then_eq_Inr)

interpretation user_list_req: request UserProfilesList_handle UserProfilesList_Handle users_ok
  by unfold_locales (auto simp: UserProfilesList_Handle_def UserProfilesList_handle_def)

subsection \<open>Registration and approval\<close>

text \<open>
  \<^bold>\<open>C24\<close> Approving a registration is for global managers, and for a user who is pending. The user becomes
  active and keeps the API key he got when he registered, which is what the answer contains. If a serial key is
  available, one that was free is assigned to him, in his row and in the row of the key; otherwise he
  is approved without one. Nothing else in the database changes.
\<close>

theorem PendingRegistrationApprove_correct:
  assumes ok: "users_ok d" and run: "PendingRegistrationApprove_handle uid pr d = Inr (r, d', ns)"
  shows "IsGlobalManager pr \<and> (\<exists>u \<in> set (users d). U_ID u = uid \<and> U_State u = UserPending \<and>
    U_APIKey u = Some (AR_Apikey r) \<and> ns = [PublishPendingRegistrationApprove uid (U_Nickname u)] \<and>
    (if GetAvailableKeyCount d = 0
     then d' = d\<lparr>users := sql_update (\<lambda>x. U_ID x = uid) (\<lambda>x. x\<lparr>U_State := UserActive\<rparr>) (users d)\<rparr>
     else \<exists>key. \<lparr>K_Key = key, K_UserProfileID = None\<rparr> \<in> set (serials d) \<and>
       d' = d\<lparr>users := sql_update (\<lambda>x. U_ID x = uid) (\<lambda>x. x\<lparr>U_State := UserActive, U_SerialKey := Some key\<rparr>) (users d),
              serials := sql_update (\<lambda>k. K_Key k = key) (\<lambda>k. k\<lparr>K_UserProfileID := Some uid\<rparr>) (serials d)\<rparr>))"
proof (rule Approve_Inr [OF run])
  fix u d1
  assume auth: "manager_Authorize pr" and get: "get_pending uid d = Inr u"
    and up: "update_user_row (u\<lparr>U_State := UserActive\<rparr>) d = Inr d1" and try': "try_assign_and_commit uid d1 = Inr d'"
    and r: "r = \<lparr>AR_Apikey = the (U_APIKey u), AR_UserID = uid\<rparr>" and ns: "ns = [PublishPendingRegistrationApprove uid (U_Nickname u)]"
  have u: "u \<in> set (users d)" "U_ID u = uid" "U_APIKey u \<noteq> None" "U_State u = UserPending"
    using get_pending_Inr [OF get] by auto
  have dist: "distinct (map U_ID (users d))" using ok by (simp add: users_ok_def db_ok_parts)
  have "sql_update (\<lambda>x. U_ID x = uid) (\<lambda>_. u\<lparr>U_State := UserActive\<rparr>) (users d) =
      sql_update (\<lambda>x. U_ID x = uid) (\<lambda>x. x\<lparr>U_State := UserActive\<rparr>) (users d)"
    using distinct_key_eq [OF dist _ u(1)] u(2) by (auto simp: sql_update_def)
  then have d1: "d1 = d\<lparr>users := sql_update (\<lambda>x. U_ID x = uid) (\<lambda>x. x\<lparr>U_State := UserActive\<rparr>) (users d)\<rparr>"
    using up u(2) by (simp add: update_user_row_def enforce_Inr Let_def)
  have ok1: "users_ok d1" by (rule update_user_users_ok [OF ok up u(1)]) simp_all
  have db1: "db_ok d1" using ok1 by (simp add: users_ok_def)
  have in1: "uid \<in> U_ID ` set (users d1)" using u by (force simp: d1 image_sql_update)
  have count: "GetAvailableKeyCount d1 = GetAvailableKeyCount d" by (simp add: d1 GetAvailableKeyCount_def)
  show ?thesis
  proof (cases "GetAvailableKeyCount d = 0")
    case True
    then have "d' = d1"
      using try' AssignKeyToUserTx_iff(2) [OF db1 in1] count by (simp add: try_assign_and_commit_def commit_after_def)
    then show ?thesis using True auth u r ns d1 by (auto simp: manager_Authorize_def split: if_splits)
  next
    case False
    then obtain key where key: "AssignKeyToUserTx uid d1 = Inr (key, d')"
      using try' AssignKeyToUserTx_iff(1) [OF db1 in1] count by (auto simp: try_assign_and_commit_def)
    show ?thesis
    proof (rule AssignKeyToUserTx_Inr [OF db1 key])
      assume free: "\<lparr>K_Key = key, K_UserProfileID = None\<rparr> \<in> set (serials d1)"
        and d': "d' = d1\<lparr>serials := sql_update (\<lambda>k. K_Key k = key) (\<lambda>k. k\<lparr>K_UserProfileID := Some uid\<rparr>) (serials d1),
          users := sql_update (\<lambda>u. U_ID u = uid) (\<lambda>u. u\<lparr>U_SerialKey := Some key\<rparr>) (users d1)\<rparr>"
      have "sql_update (\<lambda>u. U_ID u = uid) (\<lambda>u. u\<lparr>U_SerialKey := Some key\<rparr>) (users d1) =
          sql_update (\<lambda>x. U_ID x = uid) (\<lambda>x. x\<lparr>U_State := UserActive, U_SerialKey := Some key\<rparr>) (users d)"
        by (simp add: d1 sql_update_def)
      then have "d' = d\<lparr>users := sql_update (\<lambda>x. U_ID x = uid) (\<lambda>x. x\<lparr>U_State := UserActive, U_SerialKey := Some key\<rparr>) (users d),
          serials := sql_update (\<lambda>k. K_Key k = key) (\<lambda>k. k\<lparr>K_UserProfileID := Some uid\<rparr>) (serials d)\<rparr>"
        unfolding d' by (simp add: d1)
      moreover have "\<lparr>K_Key = key, K_UserProfileID = None\<rparr> \<in> set (serials d)" using free by (simp add: d1)
      moreover have "U_APIKey u = Some (AR_Apikey r)" using u(3) r by auto
      moreover have "IsGlobalManager pr" using auth by (simp add: manager_Authorize_def split: if_splits)
      ultimately show ?thesis unfolding if_not_P [OF False] using u ns by blast
    qed
  qed
qed

text \<open>\<open>w\<close> waits for approval, and there are two keys, the first one taken by \<open>u\<close>.\<close>

definition pending_db :: db where
  "pending_db = (example_db Pending True)\<lparr>
     users := [(example_user ''u'')\<lparr>U_SerialKey := Some ''K1''\<rparr>, example_user ''v'', (example_user ''w'')\<lparr>U_State := UserPending\<rparr>],
     serials := [\<lparr>K_Key = ''K1'', K_UserProfileID = Some ''u''\<rparr>, \<lparr>K_Key = ''K2'', K_UserProfileID = None\<rparr>]\<rparr>"

lemma pending_db_ok: "users_ok pending_db"
proof -
  have "db_ok pending_db \<and> list_all (\<lambda>u. case U_SerialKey u of None \<Rightarrow> True
      | Some key \<Rightarrow> \<lparr>K_Key = key, K_UserProfileID = Some (U_ID u)\<rparr> \<in> set (serials pending_db)) (users pending_db)"
    by code_simp
  then show ?thesis by (auto simp: users_ok_def licences_ok_def list_all_iff)
qed

definition example_manager :: Principal where
  "example_manager = (example_principal ''u'')\<lparr>IsGlobalManager := True\<rparr>"

theorem PendingRegistrationApprove_correct_witness:
  "\<exists>d'. PendingRegistrationApprove_handle ''w'' example_manager pending_db =
     Inr (\<lparr>AR_Apikey = ''w'', AR_UserID = ''w''\<rparr>, d', [PublishPendingRegistrationApprove ''w'' ''w'']) \<and>
     serials d' = [\<lparr>K_Key = ''K1'', K_UserProfileID = Some ''u''\<rparr>, \<lparr>K_Key = ''K2'', K_UserProfileID = Some ''w''\<rparr>]"
proof -
  let ?run = "PendingRegistrationApprove_handle ''w'' example_manager pending_db"
  have "isl ?run = False" by code_simp
  then obtain r d' ns where run: "?run = Inr (r, d', ns)" by (cases ?run) auto
  have r: "AR_UserID r = ''w''" by (rule Approve_Inr [OF run]) simp
  have "GetAvailableKeyCount pending_db \<noteq> 0" by code_simp
  with PendingRegistrationApprove_correct [OF pending_db_ok run]
  show ?thesis using run r
    by (cases r) (auto simp: pending_db_def example_defs sql_update_def)
qed

text \<open>
  \<open>Userinfo\<close> hands out keys to pending users too, and the approval does not look at the key a user already
  has: a second key is assigned, and the first one names the user for ever without being his.
\<close>

lemma approve_strands_a_key:
  assumes ok: "users_ok d" and run: "PendingRegistrationApprove_handle uid pr d = Inr (r, d', ns)"
    and had: "u \<in> set (users d)" "U_ID u = uid" "U_SerialKey u = Some old" and avail: "GetAvailableKeyCount d \<noteq> 0"
  shows "\<lparr>K_Key = old, K_UserProfileID = Some uid\<rparr> \<in> set (serials d') \<and> (\<forall>v \<in> set (users d'). U_SerialKey v \<noteq> Some old)"
proof -
  obtain key where free: "\<lparr>K_Key = key, K_UserProfileID = None\<rparr> \<in> set (serials d)"
    and d': "d' = d\<lparr>users := sql_update (\<lambda>x. U_ID x = uid) (\<lambda>x. x\<lparr>U_State := UserActive, U_SerialKey := Some key\<rparr>) (users d),
              serials := sql_update (\<lambda>k. K_Key k = key) (\<lambda>k. k\<lparr>K_UserProfileID := Some uid\<rparr>) (serials d)\<rparr>"
    using Approve_Inr [OF run] PendingRegistrationApprove_correct [OF ok run] avail by auto
  have own: "\<lparr>K_Key = old, K_UserProfileID = Some uid\<rparr> \<in> set (serials d)"
    using ok had by (auto simp: users_ok_def licences_ok_def)
  have ne: "old \<noteq> key"
    using distinct_key_eq [of K_Key "serials d", OF _ own free] ok by (auto simp: users_ok_def db_ok_parts)
  have "U_SerialKey v \<noteq> Some old" if "v \<in> set (users d)" "U_ID v \<noteq> uid" for v
    using licences_unique [of d v u old] ok had that by (auto simp: users_ok_def)
  then show ?thesis using own ne by (auto simp: d' set_sql_update intro!: sql_update_other)
qed

text \<open>
  Over HTTP the id of the body is empty, so an update of a profile never reaches the row of a user,
  unless there is one with an empty id.
\<close>

lemma UserProfileUpdate_over_http_updates_nothing:
  assumes "ContextValidate_UserProfile body" "'''' \<notin> U_ID ` set (users d)"
  shows "fst (snd (UserProfileUpdate_Handle missing body pr d)) = d"
proof -
  have "sql_first (\<lambda>u. U_ID u = UP_ID body) (users d) = None"
    using assms by (auto simp: sql_first_None ContextValidate_UserProfile_def image_iff)
  then show ?thesis
    by (cases missing) (auto simp: UserProfileUpdate_Handle_def UserProfileUpdate_handle_def)
qed

subsection \<open>Keys and names\<close>

lemma length_hex: "length (hex_EncodeToString bs) = 2 * length bs"
  by (induction bs) simp_all

lemma length_GenerateAPIKey: "length rnd = 32 \<Longrightarrow> length (GenerateAPIKey rnd) = 64"
  by (simp add: GenerateAPIKey_def length_hex)

lemma TrimSpace_example: "TrimSpace ('' '' @ [CHR 0xC2, CHR 0xA0] @ ''Bilbo B.'' @ [CHR 0x0A]) = ''Bilbo B.''"
  by code_simp

lemma getClientIP_examples:
  "getClientIP \<lparr>XForwardedFor = ''1.2.3.4, 5.6.7.8'', XRealIP = '''', RemoteAddr = ''9.9.9.9:80''\<rparr> = ''1.2.3.4''"
  "getClientIP \<lparr>XForwardedFor = '''', XRealIP = '''', RemoteAddr = ''[::1]:443''\<rparr> = ''::1''"
  "getClientIP \<lparr>XForwardedFor = '''', XRealIP = '''', RemoteAddr = ''::1''\<rparr> = ''::1''"
  by code_simp+

lemma Register_failure_changes_nothing:
  "Register_Handle opts limiter http rnd uuid reg d = (Failure st m, d', ns) \<Longrightarrow> d' = d \<and> ns = []"
  by (auto simp: Register_Handle_def respond_Failure split: if_splits)

end
