(* ===== verification/System.thy ===== *)
theory System
  imports Turns Rules Control Races Users
begin

section \<open>The system\<close>

text \<open>
  The handlers together. The state is the database and the games that are being generated: between
  the first and the third phase of \<open>GameCreate\<close> other requests run, so the phases are steps of their
  own, and what the first hands to the third is part of the state. Every other handler is one
  transaction, and transactions are taken one after the other. A request that fails changes nothing
  (the contract of \<open>request\<close>), so only the successful ones are steps.
\<close>

subsection \<open>The life of a session\<close>

definition life :: "db \<Rightarrow> id \<Rightarrow> session_state option" where
  "life d = map_of (map (\<lambda>s. (S_ID s, S_State s)) (sessions d))"

text \<open>The abstract specification: a session that does not exist has no state.\<close>

inductive life_step :: "session_state option \<Rightarrow> session_state option \<Rightarrow> bool" where
  create: "life_step None (Some Pending)"
| start: "life_step (Some Pending) (Some Starting)"
| give_up: "life_step (Some Starting) (Some Pending)"
| started: "life_step (Some Starting) (Some Started)"
| archive: "life_step (Some Started) (Some Archived)"
| delete: "life_step (Some st) None"

inductive_cases life_step_from: "life_step (Some st) x"

definition has_files :: "db \<Rightarrow> id \<Rightarrow> bool" where
  "has_files d sid = list_ex (\<lambda>f. F_SessionID f = sid) (files d)"

text \<open>What a transaction that concerns no session's state leaves alone.\<close>

definition same_life :: "db \<Rightarrow> db \<Rightarrow> bool" where
  "same_life d d' = (life d' = life d \<and> has_files d' = has_files d)"

definition same_users :: "db \<Rightarrow> db \<Rightarrow> bool" where
  "same_users d d' = (users d' = users d \<and> serials d' = serials d)"

definition aside :: "db \<Rightarrow> db \<Rightarrow> bool" where
  "aside d d' = (sessions d' = sessions d \<and> files d' = files d \<and> users d' = users d \<and> serials d' = serials d)"

lemma aside_trans: "aside d d1 \<Longrightarrow> aside d1 d2 \<Longrightarrow> aside d d2"
  by (simp add: aside_def)

lemma aside_refl [simp]: "aside d d"
  by (simp add: aside_def)

lemma aside_life: "aside d d' \<Longrightarrow> same_life d d'"
  by (simp add: aside_def same_life_def life_def fun_eq_iff has_files_def)

lemma aside_users: "aside d d' \<Longrightarrow> same_users d d'"
  by (simp add: aside_def same_users_def)

lemma same_life_refl [simp]: "same_life d d"
  by (simp add: same_life_def)

lemma same_life_trans: "same_life d d1 \<Longrightarrow> same_life d1 d2 \<Longrightarrow> same_life d d2"
  by (simp add: same_life_def)

lemma same_users_licences: "same_users d d' \<Longrightarrow> licences_ok d \<Longrightarrow> licences_ok d'"
  by (simp add: same_users_def licences_ok_def)

subsection \<open>The statements\<close>

lemma statements_aside:
  "insert_rel r d = Inr d' \<Longrightarrow> aside d d'"
  "insert_race ra d = Inr d' \<Longrightarrow> aside d d'"
  "insert_spr p d = Inr d' \<Longrightarrow> aside d d'"
  "insert_invitation i d = Inr d' \<Longrightarrow> aside d d'"
  "insert_ruleset rs d = Inr d' \<Longrightarrow> aside d d'"
  "update_sprs q f d = Inr d' \<Longrightarrow> aside d d'"
  "update_spr_race k race l d = Inr d' \<Longrightarrow> aside d d'"
  "update_spr_row p d = Inr d' \<Longrightarrow> aside d d'"
  "update_ruleset_row rs d = Inr d' \<Longrightarrow> aside d d'"
  "upsert_rels vs d = Inr d' \<Longrightarrow> aside d d'"
  by (auto simp: aside_def insert_rel_def insert_race_def insert_spr_def insert_invitation_def insert_ruleset_def
      update_sprs_def update_spr_race_def update_spr_row_def update_ruleset_row_def update_rulesets_def
      upsert_rels_def enforce_Inr split: if_splits)

lemma deletions_aside [simp]:
  "aside d (delete_rels q d)" "aside d (delete_sprs q' d)" "aside d (delete_invitations q'' d)"
  "aside d (delete_races q3 d)" "aside d (update_rels q4 f d)"
  by (simp_all add: aside_def delete_rels_def delete_sprs_def delete_invitations_def delete_races_def
      update_rels_def Let_def)

lemma InitSession_aside: "InitSession sid vs d = Inr d' \<Longrightarrow> aside d d'"
  by (auto simp: InitSession_def syncUserProfileSessionRelations_def and_then_eq_Inr split: if_splits
      dest: statements_aside(10) intro: aside_trans)

lemma normalize_loop_aside: "normalize_loop i ps d = Inr (qs, d') \<Longrightarrow> aside d d'"
  by (induction i ps d arbitrary: qs d' rule: normalize_loop.induct)
    (auto split: sum.splits if_splits dest!: statements_aside(6) intro: aside_trans)

lemma NormalizePlayerOrders_aside: "NormalizePlayerOrders ps d = Inr (qs, d') \<Longrightarrow> aside d d'"
  by (auto simp: NormalizePlayerOrders_def split: if_splits dest: normalize_loop_aside)

lemma reorder_loop_aside: "reorder_loop ps d = Inr d' \<Longrightarrow> aside d d'"
  by (induction ps arbitrary: d) (auto split: sum.splits dest: statements_aside(6) intro: aside_trans)

subsection \<open>The handlers that leave the sessions alone\<close>

lemma membership_aside:
  "SessionJoin_handle opts sid pr d = Inr (x, d', ns) \<Longrightarrow> aside d d'"
  "SessionQuit_handle sid pr d = Inr (u, d', ns) \<Longrightarrow> aside d d'"
  "SessionPromoteMember_handle sid t pr d = Inr (u, d', ns) \<Longrightarrow> aside d d'"
  subgoal
    by (auto simp: SessionJoin_handle_def Let_def split: if_splits sum.splits option.splits
        dest: statements_aside(1) intro: aside_trans)
  subgoal
    by (auto simp: SessionQuit_handle_def Let_def split: if_splits sum.splits option.splits
        intro: aside_trans [OF deletions_aside(2) deletions_aside(1)])
  subgoal
    by (auto simp: SessionPromoteMember_handle_def split: if_splits sum.splits option.splits)
  done

lemma invitations_aside:
  "InvitationCreate_handle uuid sid body pr d = Inr (x, d', ns) \<Longrightarrow> aside d d'"
  "InvitationAccept_handle iid pr d = Inr (s, d', ns) \<Longrightarrow> aside d d'"
  "InvitationDecline_handle iid pr d = Inr (u, d', ns) \<Longrightarrow> aside d d'"
  subgoal
    by (auto simp: InvitationCreate_handle_def Let_def split: if_splits sum.splits dest: statements_aside(4))
  subgoal
    by (auto simp: InvitationAccept_handle_def Let_def split: if_splits sum.splits
        dest: statements_aside(1) intro: aside_trans)
  subgoal
    by (auto simp: InvitationDecline_handle_def split: if_splits option.splits)
  done

lemma players_aside:
  "SessionPlayerRaceCreate_handle uuid sid body pr d = Inr (x, d', ns) \<Longrightarrow> aside d d'"
  "SessionPlayerRaceDelete_handle sid pid pr d = Inr (u, d', ns) \<Longrightarrow> aside d d'"
  "SessionPlayerRaceSetReady_handle sid ready pr d = Inr (x, d', ns) \<Longrightarrow> aside d d'"
  "ReorderPlayers_handle sid players pr d = Inr (y, d', ns) \<Longrightarrow> aside d d'"
  subgoal
    by (auto simp: SessionPlayerRaceCreate_handle_def spr_update_existing_def spr_create_new_def Let_def
        and_then_eq_Inr split: if_splits sum.splits dest: statements_aside(3,7))
  subgoal
    by (auto simp: SessionPlayerRaceDelete_handle_def Let_def and_then_eq_Inr split: if_splits sum.splits
        intro: aside_trans [OF deletions_aside(2) NormalizePlayerOrders_aside])
  subgoal
    by (auto simp: SessionPlayerRaceSetReady_handle_def Let_def and_then_eq_Inr split: if_splits sum.splits
        dest: statements_aside(8))
  subgoal
    by (auto simp: ReorderPlayers_handle_def and_then_eq_Inr split: if_splits sum.splits dest: reorder_loop_aside)
  done

lemma races_aside:
  "RaceCreate_handle hs popts ropts uuid uid data pr d = Inr (x, d', ns) \<Longrightarrow> aside d d'"
  "RaceDelete_handle uid raceID pr d = Inr (u, d', ns) \<Longrightarrow> aside d d'"
  by (auto simp: RaceCreate_handle_def RaceDelete_handle_def and_then_eq_Inr Let_def split: if_splits prod.splits
      dest: statements_aside(2))

subsection \<open>The handlers that write sessions, files and users\<close>

lemma map_of_replace:
  "map_of (map (\<lambda>s. (S_ID s, S_State s)) (sql_update (\<lambda>r. S_ID r = S_ID s') (\<lambda>_. s') rows)) =
    (if S_ID s' \<in> S_ID ` set rows
     then (map_of (map (\<lambda>s. (S_ID s, S_State s)) rows))(S_ID s' \<mapsto> S_State s')
     else map_of (map (\<lambda>s. (S_ID s, S_State s)) rows))"
  by (induction rows) (auto simp: sql_update_def fun_eq_iff)

lemma update_session_row_life:
  assumes "update_session_row s' d = Inr d'"
  shows "life d' = (if S_ID s' \<in> S_ID ` set (sessions d) then (life d)(S_ID s' \<mapsto> S_State s') else life d)"
    and "has_files d' = has_files d" and "same_users d d'"
  using assms map_of_replace [of s' "sessions d"]
  by (auto simp: update_session_row_def enforce_Inr life_def has_files_def same_users_def fun_eq_iff)

lemma insert_session_life:
  assumes "insert_session s d = Inr d'"
  shows "life d' = (life d)(S_ID s \<mapsto> S_State s)" and "life d (S_ID s) = None"
    and "has_files d' = has_files d" and "same_users d d'"
proof -
  have new: "S_ID s \<notin> S_ID ` set (sessions d)" and d': "d' = d\<lparr>sessions := sql_insert s (sessions d)\<rparr>"
    using assms by (simp_all add: insert_session_def enforce_Inr occurs_iff)
  show none: "life d (S_ID s) = None" using new by (auto simp: life_def map_of_eq_None_iff)
  show "life d' = (life d)(S_ID s \<mapsto> S_State s)"
    using none by (auto simp: d' life_def sql_insert_def map_add_def fun_eq_iff split: option.splits)
  show "has_files d' = has_files d" "same_users d d'"
    by (simp_all add: d' has_files_def same_users_def fun_eq_iff)
qed

lemma map_of_without:
  "map_of (map (\<lambda>s. (S_ID s, S_State s)) (filter (\<lambda>s. S_ID s \<noteq> k) rows)) =
   (map_of (map (\<lambda>s. (S_ID s, S_State s)) rows))(k := None)"
  by (induction rows) (auto simp: fun_eq_iff)

lemma delete_session_life:
  assumes "delete_sessions (\<lambda>r. S_ID r = sid) d = Inr d'" "sid \<in> S_ID ` set (sessions d)"
  shows "life d' = (life d)(sid := None)" and "has_files d' = (has_files d)(sid := False)" and "same_users d d'"
proof -
  have gone: "S_ID ` set (sql_select (\<lambda>r. S_ID r = sid) (sessions d)) = {sid}"
    using assms(2) by (auto simp: sql_select_def)
  have d': "sessions d' = sql_delete (\<lambda>r. S_ID r = sid) (sessions d)"
    "files d' = sql_delete (\<lambda>f. F_SessionID f = sid) (files d)" "users d' = users d" "serials d' = serials d"
    using assms(1) gone by (simp_all add: delete_sessions_def Let_def enforce_Inr)
  show "life d' = (life d)(sid := None)"
    using map_of_without by (simp add: life_def d' sql_delete_def)
  show "has_files d' = (has_files d)(sid := False)"
    by (auto simp: has_files_def d' sql_delete_def list_ex_iff fun_eq_iff)
  show "same_users d d'" using d' by (simp add: same_users_def)
qed

lemma files_life:
  assumes "\<And>r. F_SessionID (f r) = F_SessionID r"
  shows "same_life d (update_files q f d) \<and> same_users d (update_files q f d)"
proof -
  have "list_ex (\<lambda>r. F_SessionID r = sid) (sql_update q f rows) = list_ex (\<lambda>r. F_SessionID r = sid) rows" for sid rows
    by (induction rows) (simp_all add: sql_update_def assms)
  then show ?thesis by (simp add: update_files_def same_life_def same_users_def life_def has_files_def fun_eq_iff)
qed

lemma same_then_aside:
  "same_life d d1 \<and> same_users d d1 \<Longrightarrow> aside d1 d2 \<Longrightarrow> same_life d d2 \<and> same_users d d2"
  using aside_life [of d1 d2] by (auto simp: same_life_def same_users_def aside_def)

lemma insert_file_life:
  assumes "insert_file f d = Inr d'"
  shows "life d' = life d" and "has_files d' = (has_files d)(F_SessionID f := True)" and "same_users d d'"
    and "F_SessionID f \<in> S_ID ` set (sessions d)"
  using assms by (auto simp: insert_file_def enforce_Inr life_def has_files_def same_users_def sql_insert_def
      occurs_iff fun_eq_iff)

lemma life_Some: "s \<in> set (sessions d) \<Longrightarrow> db_ok d \<Longrightarrow> life d (S_ID s) = Some (S_State s)"
  by (auto simp: life_def db_ok_parts o_def intro!: map_of_is_SomeI image_eqI)

lemma life_None: "life d sid = None \<longleftrightarrow> sid \<notin> S_ID ` set (sessions d)"
  by (simp add: life_def map_of_eq_None_iff image_image)

lemma users_life:
  "insert_user u d = Inr d' \<Longrightarrow> same_life d d'"
  "update_user_row u d = Inr d' \<Longrightarrow> same_life d d'"
  "update_serials q k d = Inr d' \<Longrightarrow> same_life d d'"
  "insert_serial sk d = Inr d' \<Longrightarrow> same_life d d'"
  by (auto simp: insert_user_def update_user_row_def update_serials_def insert_serial_def enforce_Inr Let_def
      same_life_def life_def has_files_def fun_eq_iff)

lemma delete_users_life [simp]: "same_life d (delete_users q d)"
  by (simp add: delete_users_def delete_races_def Let_def same_life_def life_def has_files_def fun_eq_iff)

lemma AssignKeyToUserTx_life: "AssignKeyToUserTx uid d = Inr (key, d') \<Longrightarrow> same_life d d'"
  by (auto simp: AssignKeyToUserTx_def update_serial_key_def and_then_eq_Inr split: option.splits
      dest: users_life intro: same_life_trans)

lemma try_assign_life: "try_assign_and_commit uid d = Inr d' \<Longrightarrow> same_life d d'"
  by (auto simp: try_assign_and_commit_def commit_after_def split: sum.splits err.splits dest: AssignKeyToUserTx_life)

lemma profiles_life:
  "Register_handle ropts rnd uuid reg d = Inr (x, d', ns) \<Longrightarrow> same_life d d'"
  "PendingRegistrationApprove_handle uid pr d = Inr (y, d', ns) \<Longrightarrow> same_life d d'"
  "PendingRegistrationReject_handle uid pr d = Inr (z, d', ns) \<Longrightarrow> same_life d d'"
  "UserProfileCreate_handle uuid nick email pr d = Inr (p, d', ns) \<Longrightarrow> same_life d d'"
  "UserProfileDelete_handle uid pr d = Inr (z, d', ns) \<Longrightarrow> same_life d d'"
  "UserProfileResetApikey_handle rnd uid pr d = Inr (y, d', ns) \<Longrightarrow> same_life d d'"
  "UserProfileUpdate_handle missing body pr d = Inr (p, d', ns) \<Longrightarrow> same_life d d'"
  "Userinfo_handle pr d = Inr (i, d', ns) \<Longrightarrow> same_life d d'"
  subgoal
    by (auto simp: Register_handle_def map_error_def Let_def and_then_eq_Inr split: option.splits if_splits sum.splits
        dest: users_life(1))
  subgoal by (erule Approve_Inr) (blast dest: users_life(2) try_assign_life intro: same_life_trans)
  subgoal by (auto simp: PendingRegistrationReject_handle_def and_then_eq_Inr split: if_splits)
  subgoal
    by (auto simp: UserProfileCreate_handle_def Let_def and_then_eq_Inr split: if_splits
        dest!: users_life(1) try_assign_life intro: same_life_trans)
  subgoal by (auto simp: UserProfileDelete_handle_def and_then_eq_Inr split: if_splits)
  subgoal
    by (auto simp: UserProfileResetApikey_handle_def and_then_eq_Inr split: if_splits dest: users_life(2))
  subgoal
    by (auto simp: UserProfileUpdate_handle_def and_then_eq_Inr split: if_splits option.splits dest: users_life(2))
  subgoal
    by (auto simp: Userinfo_handle_def split: option.splits sum.splits dest: AssignKeyToUserTx_life)
  done

lemma EnsureAdminUser_life: "same_life d (snd (EnsureAdminUser aopts rnd uuid d))"
  by (auto simp: EnsureAdminUser_def AssignKeyToUser_def Let_def split: sum.splits option.splits
      dest!: users_life(1) AssignKeyToUserTx_life intro: same_life_trans)

lemma game_files_life:
  "TurnSubmit_handle hs sid year b64 pr d = Inr (x, d', ns) \<Longrightarrow> same_life d d' \<and> same_users d d'"
  "SwitchToAI_handle pc sid k ai pr d = Inr (y, d', ns) \<Longrightarrow> same_life d d' \<and> same_users d d'"
  "SwitchToHuman_handle pc sid k pr d = Inr (z, d', ns) \<Longrightarrow> same_life d d' \<and> same_users d d'"
  subgoal by (erule TurnSubmit_Inr) (simp add: files_life)
  subgoal premises ai
  proof -
    obtain sf' rows where y: "y = (sf', rows)" by (cases y)
    obtain sf hst where "updateAIControlType sid k (Some ai) (update_host_file sf hst d) = Inr d'"
      using ai unfolding y by (rule SwitchToAI_Inr)
    then have "aside (update_host_file sf hst d) d'"
      by (auto simp: updateAIControlType_def and_then_eq_Inr dest: statements_aside(6))
    then show ?thesis unfolding update_host_file_def by (rule same_then_aside [OF files_life, rotated]) simp
  qed
  subgoal premises human
  proof -
    obtain sf hst q f where "update_sprs q f (update_host_file sf hst d) = Inr d'"
      using human by (rule SwitchToHuman_Inr)
    then show ?thesis unfolding update_host_file_def
      by (rule same_then_aside [OF files_life statements_aside(6), rotated]) simp
  qed
  done

lemma RulesCreate_life:
  assumes "db_ok d" "RulesCreate_handle uuid sid body pr d = Inr (x, d', ns)"
  shows "same_life d d' \<and> same_users d d'"
proof (rule RulesCreate_Inr [OF assms(2)], elim disjE exE conjE)
  fix old assume "update_ruleset_row \<lparr>RS_ID = RS_ID old, RS_SessionID = sid, RS_Ruleset = x\<rparr> d = Inr d'"
  then show ?thesis using statements_aside(9) aside_life aside_users by blast
next
  fix s d1
  assume s: "s \<in> set (sessions d)" "S_ID s = sid" and
    ins: "insert_ruleset \<lparr>RS_ID = uuid, RS_SessionID = sid, RS_Ruleset = x\<rparr> d = Inr d1" and
    up: "update_session_row (s\<lparr>S_RulesIsSet := True, S_RulesetID := Some uuid\<rparr>) d1 = Inr d'"
  have a: "aside d d1" by (rule statements_aside(5) [OF ins])
  then have "life d1 = life d" "has_files d1 = has_files d" using aside_life by (simp_all add: same_life_def)
  moreover have "life d (S_ID s) = Some (S_State s)" by (rule life_Some [OF s(1) assms(1)])
  moreover note update_session_row_life [OF up]
  ultimately show ?thesis
    using a s by (auto simp: same_life_def same_users_def aside_def fun_eq_iff)
qed

subsection \<open>The transactions\<close>

text \<open>
  Every successful request that is one transaction, and the start of the server. \<open>busy\<close> holds the
  sessions whose games are being generated: the id of a new session is a fresh UUID, hence none of
  these and not empty. The body of a session update has passed \<open>ContextValidate\<close>.
\<close>

inductive transaction :: "id set \<Rightarrow> db \<Rightarrow> db \<Rightarrow> bool" for busy where
  session_create: "SessionCreate_handle opts uuid body pr d = Inr (x, d', ns) \<Longrightarrow> uuid \<notin> busy \<Longrightarrow> transaction busy d d'"
| session_update: "SessionUpdate_handle sid body pr d = Inr (x, d', ns) \<Longrightarrow> ContextValidate_Session body \<Longrightarrow>
    transaction busy d d'"
| session_delete: "SessionDelete_handle sid pr d = Inr (u, d', ns) \<Longrightarrow> transaction busy d d'"
| session_archive: "SessionArchive_handle sid pr d = Inr (x, d', ns) \<Longrightarrow> transaction busy d d'"
| session_join: "SessionJoin_handle opts sid pr d = Inr (x, d', ns) \<Longrightarrow> transaction busy d d'"
| session_quit: "SessionQuit_handle sid pr d = Inr (u, d', ns) \<Longrightarrow> transaction busy d d'"
| session_promote: "SessionPromoteMember_handle sid t pr d = Inr (u, d', ns) \<Longrightarrow> transaction busy d d'"
| invitation_create: "InvitationCreate_handle uuid sid offer pr d = Inr (i, d', ns) \<Longrightarrow> transaction busy d d'"
| invitation_accept: "InvitationAccept_handle iid pr d = Inr (x, d', ns) \<Longrightarrow> transaction busy d d'"
| invitation_decline: "InvitationDecline_handle iid pr d = Inr (u, d', ns) \<Longrightarrow> transaction busy d d'"
| player_create: "SessionPlayerRaceCreate_handle uuid sid player pr d = Inr (p, d', ns) \<Longrightarrow> transaction busy d d'"
| player_delete: "SessionPlayerRaceDelete_handle sid pid pr d = Inr (u, d', ns) \<Longrightarrow> transaction busy d d'"
| player_ready: "SessionPlayerRaceSetReady_handle sid ready pr d = Inr (p, d', ns) \<Longrightarrow> transaction busy d d'"
| players_reorder: "ReorderPlayers_handle sid players pr d = Inr (ps, d', ns) \<Longrightarrow> transaction busy d d'"
| rules_create: "RulesCreate_handle uuid sid rules pr d = Inr (rs, d', ns) \<Longrightarrow> transaction busy d d'"
| race_create: "RaceCreate_handle hs popts ropts uuid uid data pr d = Inr (r, d', ns) \<Longrightarrow> transaction busy d d'"
| race_delete: "RaceDelete_handle uid raceID pr d = Inr (u, d', ns) \<Longrightarrow> transaction busy d d'"
| turn_submit: "TurnSubmit_handle hs sid year b64 pr d = Inr (td, d', ns) \<Longrightarrow> transaction busy d d'"
| switch_to_ai: "SwitchToAI_handle pc sid k ai pr d = Inr (sw, d', ns) \<Longrightarrow> transaction busy d d'"
| switch_to_human: "SwitchToHuman_handle pc sid k pr d = Inr (u, d', ns) \<Longrightarrow> transaction busy d d'"
| register: "Register_handle regopts rnd uuid reg d = Inr (rr, d', ns) \<Longrightarrow> transaction busy d d'"
| approve: "PendingRegistrationApprove_handle uid pr d = Inr (ar, d', ns) \<Longrightarrow> transaction busy d d'"
| reject: "PendingRegistrationReject_handle uid pr d = Inr (u, d', ns) \<Longrightarrow> transaction busy d d'"
| profile_create: "UserProfileCreate_handle uuid nick email pr d = Inr (up, d', ns) \<Longrightarrow> transaction busy d d'"
| profile_delete: "UserProfileDelete_handle uid pr d = Inr (u, d', ns) \<Longrightarrow> transaction busy d d'"
| profile_reset: "UserProfileResetApikey_handle rnd uid pr d = Inr (ar, d', ns) \<Longrightarrow> transaction busy d d'"
| profile_update: "UserProfileUpdate_handle missing profile pr d = Inr (up, d', ns) \<Longrightarrow> transaction busy d d'"
| userinfo: "Userinfo_handle pr d = Inr (ui, d', ns) \<Longrightarrow> transaction busy d d'"
| admin: "EnsureAdminUser aopts rnd uuid d = (res, d') \<Longrightarrow> transaction busy d d'"

text \<open>The integrity of the database, over all of them.\<close>

lemma users_ok_frame: "users_ok d \<Longrightarrow> db_ok d' \<Longrightarrow> same_users d d' \<Longrightarrow> users_ok d'"
  using same_users_licences by (simp add: users_ok_def)

lemma users_ok_aside: "users_ok d \<Longrightarrow> db_ok d' \<Longrightarrow> aside d d' \<Longrightarrow> users_ok d'"
  using aside_users users_ok_frame by blast

lemma sessions_same_users:
  "SessionCreate_handle opts uuid body pr d = Inr (x, d', ns) \<Longrightarrow> same_users d d'"
  "SessionUpdate_handle sid body pr d = Inr (x, d', ns) \<Longrightarrow> same_users d d'"
  "SessionDelete_handle sid pr d = Inr (u, d', ns) \<Longrightarrow> same_users d d'"
  "SessionArchive_handle sid pr d = Inr (x, d', ns) \<Longrightarrow> same_users d d'"
  subgoal
    by (auto simp: SessionCreate_handle_def Let_def and_then_eq_Inr aside_def same_users_def split: if_splits
        dest!: InitSession_aside insert_session_life(4))
  subgoal
    by (auto simp: SessionUpdate_handle_def upsert_session_def Let_def and_then_eq_Inr aside_def same_users_def
        split: if_splits option.splits dest!: InitSession_aside insert_session_life(4) update_session_row_life(3))
  subgoal
    by (auto simp: SessionDelete_handle_def delete_sessions_def enforce_Inr Let_def and_then_eq_Inr same_users_def
        split: if_splits sum.splits)
  subgoal
    by (auto simp: SessionArchive_handle_def Let_def and_then_eq_Inr split: if_splits sum.splits
        dest: update_session_row_life(3))
  done

lemmas handlers_keep = SessionCreate_keeps SessionUpdate_keeps SessionDelete_keeps SessionArchive_keeps
  SessionJoin_keeps SessionQuit_keeps SessionPromoteMember_keeps InvitationCreate_keeps InvitationAccept_keeps
  InvitationDecline_keeps SessionPlayerRaceCreate_keeps SessionPlayerRaceDelete_keeps
  SessionPlayerRaceSetReady_keeps ReorderPlayers_keeps RulesCreate_keeps RaceCreate_keeps RaceDelete_keeps
  TurnSubmit_keeps SwitchToAI_keeps SwitchToHuman_keeps

lemmas handlers_aside = membership_aside invitations_aside players_aside races_aside

lemma transaction_ok:
  assumes "users_ok d" "transaction busy d d'"
  shows "users_ok d'"
proof -
  have db: "db_ok d" using assms(1) by (simp add: users_ok_def)
  show ?thesis
    using assms(2)
  proof cases
    case (admin aopts rnd uuid res)
    then show ?thesis using EnsureAdminUser_keeps [OF assms(1), of aopts rnd uuid] by simp
  next
    case (rules_create uuid sid rules pr rs ns)
    then show ?thesis using RulesCreate_life [OF db] RulesCreate_keeps [OF db] users_ok_frame [OF assms(1)] by blast
  qed (use assms(1) users_ok_frame [OF assms(1)] users_ok_aside [OF assms(1)] in
    \<open>blast dest: handlers_keep [OF db] sessions_same_users handlers_aside game_files_life
       Register_keeps Approve_keeps Reject_keeps UserProfileCreate_keeps UserProfileDelete_keeps
       UserProfileResetApikey_keeps UserProfileUpdate_keeps Userinfo_keeps\<close>)+
qed

subsection \<open>What a transaction does to one session\<close>

text \<open>
  A session keeps its state and its files; or it is created, as pending; or it is archived; or it is
  deleted. The empty id is no session of the API: \<open>SessionUpdate\<close> can write such a row.
\<close>

definition moved :: "id set \<Rightarrow> db \<Rightarrow> db \<Rightarrow> id \<Rightarrow> bool" where
  "moved busy d d' sid =
    (life d' sid = life d sid \<and> (has_files d sid \<longrightarrow> has_files d' sid) \<or>
     life d sid = None \<and> life d' sid = Some Pending \<and> sid \<notin> busy \<or>
     life d sid = Some Started \<and> life d' sid = Some Archived \<and> has_files d' sid = has_files d sid \<or>
     life d' sid = None)"

lemma same_life_moved: "same_life d d' \<Longrightarrow> moved busy d d' sid"
  by (simp add: same_life_def moved_def)

lemma SessionCreate_moved:
  assumes "SessionCreate_handle opts uuid body pr d = Inr (x, d', ns)" "uuid \<notin> busy"
  shows "moved busy d d' sid"
proof -
  obtain d1 where ins: "insert_session (to_SessionDB (prepare_session pr uuid body) Pending) d = Inr d1"
    and init: "aside d1 d'"
    using assms(1) by (auto simp: SessionCreate_handle_def Let_def and_then_eq_Inr split: if_splits dest: InitSession_aside)
  have "life d' = life d1" "has_files d' = has_files d1" using aside_life [OF init] by (simp_all add: same_life_def)
  then show ?thesis
    using insert_session_life [OF ins] assms(2) by (auto simp: moved_def to_SessionDB_def prepare_session_def)
qed

lemma SessionUpdate_moved:
  assumes "SessionUpdate_handle sid0 body pr d = Inr (x, d', ns)" "ContextValidate_Session body" "sid \<noteq> ''''"
  shows "moved busy d d' sid"
proof -
  obtain d1 where up: "upsert_session body d = Inr d1" and init: "aside d1 d'"
    using assms(1) by (auto simp: SessionUpdate_handle_def and_then_eq_Inr split: if_splits dest: InitSession_aside)
  have "life d' = life d1" "has_files d' = has_files d1" using aside_life [OF init] by (simp_all add: same_life_def)
  moreover have "life d1 sid = life d sid \<and> has_files d1 = has_files d"
    using up assms(2,3)
    by (auto simp: upsert_session_def to_SessionDB_def ContextValidate_Session_def update_session_row_life
        insert_session_life split: option.splits if_splits)
  ultimately show ?thesis by (simp add: moved_def)
qed

lemma SessionDelete_moved:
  assumes "SessionDelete_handle k pr d = Inr (u, d', ns)"
  shows "moved busy d d' sid"
proof -
  have del: "delete_sessions (\<lambda>r. S_ID r = k) d = Inr d'" and mem: "k \<in> S_ID ` set (sessions d)"
    using assms get_session_Inr
    by (fastforce simp: SessionDelete_handle_def Let_def and_then_eq_Inr split: if_splits sum.splits)+
  show ?thesis using delete_session_life [OF del mem] by (simp add: moved_def)
qed

lemma SessionArchive_moved:
  assumes "db_ok d" "SessionArchive_handle k pr d = Inr (x, d', ns)"
  shows "moved busy d d' sid"
proof -
  obtain s where s: "get_session k d = Inr s" "S_State s = Started"
    and up: "update_session_row (s\<lparr>S_State := Archived\<rparr>) d = Inr d'"
    using assms(2) by (auto simp: SessionArchive_handle_def Let_def and_then_eq_Inr split: if_splits sum.splits)
  have "life d (S_ID s) = Some Started" using life_Some [OF _ assms(1)] get_session_Inr [OF s(1)] s(2) by auto
  then show ?thesis using update_session_row_life [OF up] by (simp add: moved_def)
qed

lemma transaction_moved:
  assumes "db_ok d" "transaction busy d d'" "sid \<noteq> ''''"
  shows "moved busy d d' sid"
  using assms(2)
proof cases
  case (admin aopts rnd uuid res)
  then show ?thesis using same_life_moved [OF EnsureAdminUser_life [of d aopts rnd uuid]] by simp
next
  case (rules_create uuid sid rules pr rs ns)
  then show ?thesis using RulesCreate_life [OF assms(1)] same_life_moved by blast
qed (use assms(3) in \<open>blast intro: same_life_moved aside_life SessionCreate_moved SessionUpdate_moved SessionDelete_moved
       SessionArchive_moved [OF assms(1)] dest: handlers_aside game_files_life profiles_life\<close>)+

subsection \<open>The steps\<close>

record world =
  W_db :: db
  W_games :: "generation list"

definition game_id :: "generation \<Rightarrow> id" where
  "game_id g = S_ID (Gen_Session g)"

text \<open>
  Apart from the transactions: a game begins with phase 1; its phase 2 runs in a save directory \<open>f\<close> of
  any content; phase 3 stores the files, or the failure of phase 2 or 3 is followed by the revert, which
  does nothing when the context of the request is cancelled, or nothing follows, after a panic or when the
  server stops. The turn generator stores the files
  of a turn that it computed from what it read before. The router matches no empty session id.
\<close>

inductive step :: "world \<Rightarrow> world \<Rightarrow> bool" where
  request: "transaction (set (map game_id gs)) d d' \<Longrightarrow>
    step \<lparr>W_db = d, W_games = gs\<rparr> \<lparr>W_db = d', W_games = gs\<rparr>"
| game_begin: "GameCreate_Authorize sid pr d \<Longrightarrow> GameCreate_phase1 hs sid d = Inr (g, d') \<Longrightarrow> sid \<noteq> '''' \<Longrightarrow>
    step \<lparr>W_db = d, W_games = gs\<rparr> \<lparr>W_db = d', W_games = g # gs\<rparr>"
| game_store: "g \<in> set gs \<Longrightarrow> GameCreate_phase2 hs opts wine (game_id g) g f = (Inr sf, f') \<Longrightarrow>
    GameCreate_phase3 cancelled uuid (game_id g) g sf d = Inr (sf1, d') \<Longrightarrow>
    step \<lparr>W_db = d, W_games = gs\<rparr> \<lparr>W_db = d', W_games = remove1 g gs\<rparr>"
| game_failed: "g \<in> set gs \<Longrightarrow> GameCreate_phase2 hs opts wine (game_id g) g f = (Inl e, f') \<Longrightarrow> e \<noteq> Panic \<Longrightarrow>
    step \<lparr>W_db = d, W_games = gs\<rparr>
      \<lparr>W_db = revertSessionState live (game_id g) Pending d, W_games = remove1 g gs\<rparr>"
| game_not_stored: "g \<in> set gs \<Longrightarrow> GameCreate_phase3 cancelled uuid (game_id g) g sf d0 = Inl e \<Longrightarrow>
    step \<lparr>W_db = d, W_games = gs\<rparr>
      \<lparr>W_db = revertSessionState live (game_id g) Pending d, W_games = remove1 g gs\<rparr>"
| game_lost: "g \<in> set gs \<Longrightarrow> GameCreate_phase2 hs opts wine (game_id g) g f = (Inl Panic, f') \<Longrightarrow>
    step \<lparr>W_db = d, W_games = gs\<rparr> \<lparr>W_db = d, W_games = remove1 g gs\<rparr>"
| server_stops: "step \<lparr>W_db = d, W_games = gs\<rparr> \<lparr>W_db = d, W_games = []\<rparr>"
| turn_store: "GenTurn wine sid gf0 ps f = (Inr gf, f') \<Longrightarrow> HydrateSessionFiles hs gf empty_session_files = Inr sf \<Longrightarrow>
    insert_file (sf\<lparr>F_ID := uuid, F_SessionID := sid\<rparr>) d = Inr d' \<Longrightarrow>
    step \<lparr>W_db = d, W_games = gs\<rparr> \<lparr>W_db = d', W_games = gs\<rparr>"

text \<open>The server starts on a database that satisfies the schema and has no sessions.\<close>

inductive reachable :: "world \<Rightarrow> bool" where
  init: "users_ok d \<Longrightarrow> sessions d = [] \<Longrightarrow> reachable \<lparr>W_db = d, W_games = []\<rparr>"
| step: "reachable w \<Longrightarrow> step w w' \<Longrightarrow> reachable w'"

text \<open>The handlers run through these steps.\<close>

lemma GameCreate_handle_steps:
  assumes "GameCreate_handle hs opts preserve wine ctx uuid sid pr (d, f) = (r, d', f', ns)" "sid \<noteq> ''''"
  shows "d' = d \<or> step\<^sup>*\<^sup>* \<lparr>W_db = d, W_games = gs\<rparr> \<lparr>W_db = d', W_games = gs\<rparr>"
proof (cases "GameCreate_Authorize sid pr d \<and> \<not> isl (GameCreate_phase1 hs sid d)")
  case True
  then obtain g d1 where p1: "GameCreate_phase1 hs sid d = Inr (g, d1)" by (cases "GameCreate_phase1 hs sid d") auto
  have id: "game_id g = sid" by (rule GameCreate_phase1_Inr [OF p1]) (simp add: game_id_def)
  have begin_step: "step \<lparr>W_db = d, W_games = gs\<rparr> \<lparr>W_db = d1, W_games = g # gs\<rparr>"
    using True p1 assms(2) by (blast intro: game_begin)
  have fin: "GameCreate_finish preserve ctx uuid sid pr g (GameCreate_phase2 hs opts wine sid g f) d1 = (r, d', f', ns)"
    using assms(1) True p1 by (simp add: GameCreate_handle_def)
  have "step \<lparr>W_db = d1, W_games = g # gs\<rparr> \<lparr>W_db = d', W_games = gs\<rparr>"
  proof (cases "GameCreate_phase2 hs opts wine sid g f")
    case (Pair p2 f2)
    then show ?thesis
      using fin game_store [of g "g # gs" hs opts wine f _ f2 "Ctx_store ctx" uuid d1] game_failed [of g "g # gs" hs opts wine f _ f2 d1 "Ctx_revert ctx"]
        game_not_stored [of g "g # gs" "Ctx_store ctx" uuid _ d1 _ d1 "Ctx_revert ctx"] game_lost [of g "g # gs" hs opts wine f f2 d1]
      by (auto simp: GameCreate_finish_def id split: sum.splits prod.splits if_splits)
  qed
  with begin_step show ?thesis by (meson converse_rtranclp_into_rtranclp r_into_rtranclp)
next
  case False
  then show ?thesis using assms(1) by (auto simp: GameCreate_handle_def isl_def split: if_splits sum.splits)
qed

lemma genTurn_steps:
  assumes "genTurn hs preserve wine uuid sid year (d, f) = (r, d', f')"
  shows "d' = d \<or> step \<lparr>W_db = d, W_games = gs\<rparr> \<lparr>W_db = d', W_games = gs\<rparr>"
  using assms by (auto simp: genTurn_def and_then_eq_Inr split: sum.splits prod.splits intro: turn_store)

subsection \<open>The invariant\<close>

text \<open>
  The database satisfies the schema and the assignment of the serial keys; at most one game is being
  generated per session, whose state is \<open>Starting\<close> unless it was deleted; a session that was started
  has files.
\<close>

definition games_ok :: "db \<Rightarrow> generation list \<Rightarrow> bool" where
  "games_ok d gs = (distinct (map game_id gs) \<and> '''' \<notin> set (map game_id gs) \<and>
    (\<forall>g \<in> set gs. life d (game_id g) = None \<or> life d (game_id g) = Some Starting))"

definition stored :: "db \<Rightarrow> bool" where
  "stored d = (\<forall>sid. sid \<noteq> '''' \<longrightarrow> life d sid = Some Started \<or> life d sid = Some Archived \<longrightarrow> has_files d sid)"

definition world_ok :: "world \<Rightarrow> bool" where
  "world_ok w = (users_ok (W_db w) \<and> games_ok (W_db w) (W_games w) \<and> stored (W_db w))"

lemma phase1_life:
  assumes "db_ok d" "GameCreate_phase1 hs sid d = Inr (g, d')"
  shows "game_id g = sid" and "life d sid = Some Pending" and "life d' = (life d)(sid \<mapsto> Starting)"
    and "has_files d' = has_files d" and "same_users d d'"
proof -
  obtain s ps d1 where s: "s \<in> set (sessions d)" "S_ID s = sid" "S_State s = Pending"
    and norm: "NormalizePlayerOrders (SessionPlayerRaces sid d) d = Inr (ps, d1)"
    and g: "Gen_Session g = s\<lparr>S_State := Starting\<rparr>" and up: "update_session_row (s\<lparr>S_State := Starting\<rparr>) d1 = Inr d'"
    by (rule GameCreate_phase1_Inr [OF assms(2)])
  note a = NormalizePlayerOrders_aside [OF norm] and upd = update_session_row_life [OF up]
  show "game_id g = sid" by (simp add: game_id_def g s)
  show "life d sid = Some Pending" using life_Some [OF s(1) assms(1)] s by simp
  show "life d' = (life d)(sid \<mapsto> Starting)" "has_files d' = has_files d" "same_users d d'"
    using upd a aside_life [OF a] s by (auto simp: same_life_def aside_def same_users_def)
qed

lemma phase3_life:
  assumes "GameCreate_phase3 cancelled uuid (game_id g) g sf d = Inr (sf1, d')"
  shows "life d (game_id g) \<noteq> None" and "life d' = (life d)(game_id g \<mapsto> Started)"
    and "has_files d' = (has_files d)(game_id g := True)" and "same_users d d'"
proof -
  obtain d1 where ins: "insert_file sf1 d = Inr d1" and sf1: "F_SessionID sf1 = game_id g"
    and up: "update_session_row ((Gen_Session g)\<lparr>S_State := Started\<rparr>) d1 = Inr d'"
    using assms by (auto simp: GameCreate_phase3_def Let_def and_then_eq_Inr split: option.splits)
  note i = insert_file_life [OF ins] and u = update_session_row_life [OF up]
  show "life d (game_id g) \<noteq> None" using i(4) sf1 by (simp add: life_None)
  then show "life d' = (life d)(game_id g \<mapsto> Started)"
    using u(1) i(1) life_None [of d1 "game_id g"] by (simp add: game_id_def split: if_splits)
  show "has_files d' = (has_files d)(game_id g := True)" "same_users d d'"
    using u i sf1 by (simp_all add: same_users_def)
qed

lemma revert_life:
  "(life (revertSessionState live sid Pending d) = life d \<or>
    life d sid \<noteq> None \<and> life (revertSessionState live sid Pending d) = (life d)(sid \<mapsto> Pending)) \<and>
   has_files (revertSessionState live sid Pending d) = has_files d \<and> same_users d (revertSessionState live sid Pending d)"
proof (cases "get_session sid d")
  case (Inr s)
  note s = get_session_Inr [OF Inr]
  then have "life d sid \<noteq> None" using life_None by auto
  then show ?thesis
    using s Inr update_session_row_life [of "s\<lparr>S_State := Pending\<rparr>" d]
    by (auto simp: revertSessionState_def same_users_def split: sum.splits)
qed (simp add: revertSessionState_def same_users_def)

lemma moved_games:
  assumes "\<And>sid. sid \<noteq> '''' \<Longrightarrow> moved (set (map game_id gs)) d d' sid" "games_ok d gs" "stored d"
  shows "games_ok d' gs \<and> stored d'"
proof
  have "life d' (game_id g) = None \<or> life d' (game_id g) = Some Starting" if "g \<in> set gs" for g
  proof -
    have "game_id g \<noteq> ''''" "life d (game_id g) = None \<or> life d (game_id g) = Some Starting"
      using that assms(2) by (force simp: games_ok_def)+
    then show ?thesis using assms(1) [of "game_id g"] that by (auto simp: moved_def)
  qed
  then show "games_ok d' gs" using assms(2) by (simp add: games_ok_def)
  have "has_files d' sid" if "sid \<noteq> ''''" "life d' sid = Some Started \<or> life d' sid = Some Archived" for sid
    using assms(1) [OF that(1)] assms(3) that by (auto simp: moved_def stored_def)
  then show "stored d'" by (simp add: stored_def)
qed

text \<open>After a game left the list, its session may have any state; the others keep theirs.\<close>

lemma games_ok_remove1:
  assumes "games_ok d gs" "g \<in> set gs" "\<And>sid. sid \<noteq> game_id g \<Longrightarrow> life d' sid = life d sid"
  shows "games_ok d' (remove1 g gs)"
proof -
  have "distinct gs" "inj_on game_id (set gs)" using assms(1) by (simp_all add: games_ok_def distinct_map)
  then have "game_id x \<noteq> game_id g" if "x \<in> set (remove1 g gs)" for x
    using that assms(2) by (auto simp: inj_on_def)
  then show ?thesis
    using assms by (auto simp: games_ok_def distinct_map inj_on_def dest: notin_set_remove1)
qed

lemma world_ok_revert:
  assumes "world_ok \<lparr>W_db = d, W_games = gs\<rparr>" "g \<in> set gs"
  shows "world_ok \<lparr>W_db = revertSessionState live (game_id g) Pending d, W_games = remove1 g gs\<rparr>"
proof -
  have ok: "users_ok d" "games_ok d gs" "stored d" "db_ok d" using assms(1) by (simp_all add: world_ok_def users_ok_def)
  note r = revert_life [of live "game_id g" d]
  have "users_ok (revertSessionState live (game_id g) Pending d)"
    using users_ok_frame [OF ok(1) revertSessionState_ok [OF ok(4)]] r by blast
  moreover have "games_ok (revertSessionState live (game_id g) Pending d) (remove1 g gs)"
    by (rule games_ok_remove1 [OF ok(2) assms(2)]) (use r in auto)
  moreover have "stored (revertSessionState live (game_id g) Pending d)" using r ok(3) by (auto simp: stored_def split: if_splits)
  ultimately show ?thesis by (simp add: world_ok_def)
qed

lemma world_ok_step:
  assumes "step w w'" "world_ok w"
  shows "world_ok w'"
  using assms
proof (induction rule: step.induct)
  case (request gs d d')
  then have ok: "users_ok d" "games_ok d gs" "stored d" "db_ok d" by (simp_all add: world_ok_def users_ok_def)
  then show ?case
    using transaction_ok [OF ok(1) request(1)] moved_games [OF transaction_moved [OF ok(4) request(1)] ok(2,3)]
    by (simp add: world_ok_def)
next
  case (game_begin sid pr d hs g d' gs)
  then have ok: "users_ok d" "games_ok d gs" "stored d" "db_ok d" by (simp_all add: world_ok_def users_ok_def)
  note p = phase1_life [OF ok(4) game_begin(2)]
  have "users_ok d'" using users_ok_frame [OF ok(1) GameCreate_phase1_ok [OF ok(4) game_begin(2)] p(5)] .
  moreover have "sid \<notin> set (map game_id gs)" using ok(2) p(2) by (auto simp: games_ok_def)
  ultimately show ?case
    using ok p game_begin(3) by (auto simp: world_ok_def games_ok_def stored_def)
next
  case (game_store g gs hs opts wine f sf f' cancelled uuid d sf1 d')
  then have ok: "users_ok d" "games_ok d gs" "stored d" "db_ok d" by (simp_all add: world_ok_def users_ok_def)
  note p = phase3_life [OF game_store(3)]
  have "users_ok d'" using users_ok_frame [OF ok(1) GameCreate_phase3_ok [OF ok(4) game_store(3)] p(4)] .
  moreover have "games_ok d' (remove1 g gs)" by (rule games_ok_remove1 [OF ok(2) game_store(1)]) (simp add: p)
  ultimately show ?case using ok(3) p by (auto simp: world_ok_def stored_def)
next
  case (turn_store wine sid gf0 ps f gf f' hs sf uuid d d' gs)
  then have ok: "users_ok d" "games_ok d gs" "stored d" "db_ok d" by (simp_all add: world_ok_def users_ok_def)
  note i = insert_file_life [OF turn_store(3)]
  have "users_ok d'" using users_ok_frame [OF ok(1) insert_file_ok [OF ok(4) turn_store(3)] i(3)] .
  then show ?case using ok i by (simp add: world_ok_def games_ok_def stored_def)
next
  case (game_lost g gs hs opts wine f f' d)
  then show ?case by (auto simp: world_ok_def intro: games_ok_remove1)
next
  case (server_stops d gs)
  then show ?case by (simp add: world_ok_def games_ok_def)
next
  case (game_failed g gs hs opts wine f e f' d live)
  then show ?case using world_ok_revert by blast
next
  case (game_not_stored g gs cancelled uuid sf d0 e d live)
  then show ?case using world_ok_revert by blast
qed

lemma reachable_world_ok: "reachable w \<Longrightarrow> world_ok w"
proof (induction rule: reachable.induct)
  case (init d)
  then show ?case by (simp add: world_ok_def games_ok_def stored_def life_def)
qed (rule world_ok_step)

lemma revert_follows_life:
  assumes "world_ok \<lparr>W_db = d, W_games = gs\<rparr>" "g \<in> set gs"
  shows "life (W_db \<lparr>W_db = revertSessionState live (game_id g) Pending d, W_games = remove1 g gs\<rparr>) sid =
      life (W_db \<lparr>W_db = d, W_games = gs\<rparr>) sid \<or>
    life_step (life (W_db \<lparr>W_db = d, W_games = gs\<rparr>) sid)
      (life (W_db \<lparr>W_db = revertSessionState live (game_id g) Pending d, W_games = remove1 g gs\<rparr>) sid)"
proof -
  have "life d (game_id g) = None \<or> life d (game_id g) = Some Starting"
    using assms by (simp add: world_ok_def games_ok_def)
  then show ?thesis using revert_life [of live "game_id g" d] give_up by auto
qed

lemma in_set_remove1D: "x \<in> set (remove1 g gs) \<Longrightarrow> x \<in> set gs"
  using set_remove1_subset by fastforce

text \<open>A step does not start a session for which no generation runs.\<close>

lemma interrupted_step:
  assumes "step v v'" "reachable v" "life (W_db v) sid = Some Starting" "sid \<notin> set (map game_id (W_games v))"
    "sid \<noteq> ''''" "life (W_db v') sid \<noteq> None"
  shows "life (W_db v') sid = Some Starting \<and> sid \<notin> set (map game_id (W_games v'))"
  using assms(1) reachable_world_ok [OF assms(2)] assms(3-6)
proof (induction rule: step.induct)
  case (request gs d d')
  then have "db_ok d" by (simp add: world_ok_def users_ok_def)
  from transaction_moved [OF this request(1) assms(5)] show ?case using request by (auto simp: moved_def)
next
  case (game_begin k pr d hs g d' gs)
  then have "db_ok d" by (simp add: world_ok_def users_ok_def)
  from phase1_life [OF this game_begin(2)] show ?case using game_begin by auto
next
  case (game_store g gs hs opts wine f sf f' cancelled uuid d sf1 d')
  then show ?case using phase3_life(2) [OF game_store(3)] by (auto dest: in_set_remove1D)
next
  case (turn_store wine k gf0 ps f gf f' hs sf uuid d d' gs)
  then show ?case using insert_file_life(1) [OF turn_store(3)] by simp
next
  case (game_failed g gs hs opts wine f e f' d live)
  then show ?case using revert_life [of live "game_id g" d] by (auto dest: in_set_remove1D split: if_splits)
next
  case (game_not_stored g gs cancelled uuid sf d0 e d live)
  then show ?case using revert_life [of live "game_id g" d] by (auto dest: in_set_remove1D split: if_splits)
next
  case (game_lost g gs hs opts wine f f' d)
  then show ?case by (auto dest: in_set_remove1D)
qed simp

subsection \<open>A run\<close>

text \<open>The database after a committed transaction, and a short run of the system.\<close>

definition committed :: "'a tx \<Rightarrow> db" where
  "committed r = (case r of Inl e \<Rightarrow> empty_db | Inr (x, d, ns) \<Rightarrow> d)"

lemma committed_Inr: "\<not> isl r \<Longrightarrow> \<exists>x ns. r = Inr (x, committed r, ns)"
  by (cases r) (auto simp: committed_def)

definition first_db :: db where
  "first_db = empty_db\<lparr>users := [example_user ''u'']\<rparr>"

definition new_session :: Session where
  "new_session = \<lparr>ID = '''', Name = ''game'', Private = True, RulesIsSet = False, State = None,
     Members = [], Managers = [], Players = [], PendingInvitation = False\<rparr>"

definition created_db :: db where
  "created_db = committed (SessionCreate_handle (Some 3) ''s'' new_session (example_principal ''u'') first_db)"

definition ruled_db :: db where
  "ruled_db = committed (RulesCreate_handle ''q'' ''s'' shire_ruleset (example_principal ''u'') created_db)"

definition begun :: "generation \<times> db" where
  "begun = projr (GameCreate_phase1 example_houston ''s'' ruled_db)"

definition begun_world :: world where
  "begun_world = \<lparr>W_db = snd begun, W_games = [fst begun]\<rparr>"

definition stopped_world :: world where
  "stopped_world = \<lparr>W_db = snd begun, W_games = []\<rparr>"

lemma first_reachable: "reachable \<lparr>W_db = first_db, W_games = []\<rparr>"
proof (rule init)
  have "db_ok first_db" by code_simp
  then show "users_ok first_db" by (simp add: users_ok_def licences_ok_def first_db_def example_defs)
  show "sessions first_db = []" by code_simp
qed

lemma created_step: "step \<lparr>W_db = first_db, W_games = []\<rparr> \<lparr>W_db = created_db, W_games = []\<rparr>"
proof -
  have "\<not> isl (SessionCreate_handle (Some 3) ''s'' new_session (example_principal ''u'') first_db)" by code_simp
  from committed_Inr [OF this] show ?thesis
    by (fold created_db_def) (elim exE, rule request, erule session_create, simp)
qed

lemma ruled_step: "step \<lparr>W_db = created_db, W_games = []\<rparr> \<lparr>W_db = ruled_db, W_games = []\<rparr>"
proof -
  have "\<not> isl (RulesCreate_handle ''q'' ''s'' shire_ruleset (example_principal ''u'') created_db)" by code_simp
  from committed_Inr [OF this] show ?thesis
    by (fold ruled_db_def) (elim exE, rule request, erule rules_create)
qed

lemma begun_step: "step \<lparr>W_db = ruled_db, W_games = []\<rparr> begun_world"
proof -
  have "\<not> isl (GameCreate_phase1 example_houston ''s'' ruled_db)" by code_simp
  then have "GameCreate_phase1 example_houston ''s'' ruled_db = Inr (fst begun, snd begun)"
    by (cases "GameCreate_phase1 example_houston ''s'' ruled_db") (auto simp: begun_def)
  moreover have "GameCreate_Authorize ''s'' (example_principal ''u'') ruled_db" by code_simp
  ultimately show ?thesis unfolding begun_world_def by (blast intro: game_begin)
qed

lemma begun_reachable: "reachable begun_world"
  using first_reachable created_step ruled_step begun_step by (blast intro: reachable.step)

lemma stopped_reachable: "reachable stopped_world"
  using reachable.step [OF begun_reachable] server_stops unfolding begun_world_def stopped_world_def by blast

subsection \<open>Properties\<close>

text \<open>
  \<^bold>\<open>C1\<close>: the invariant of the whole program. Whatever requests are served and however they are
  interleaved with the generation of games, with failures, panics and stops of the server, the
  database satisfies the schema and no two users hold the same serial key; no two generations run
  for one session, and the session of a running one is in the state \<open>Starting\<close> unless it was deleted;
  every session with a non-empty identifier that was started has its game files. (The row with the empty
  identifier is an exception: \<open>SessionUpdate\<close> takes the identifier from the body, where the schema makes it
  read-only, so over HTTP it upserts that row, in any state and without files.)
\<close>

theorem reachable_worlds_are_consistent:
  assumes "reachable w"
  shows "db_ok (W_db w) \<and> licences_ok (W_db w) \<and> distinct (map game_id (W_games w)) \<and>
    (\<forall>g \<in> set (W_games w). life (W_db w) (game_id g) = None \<or> life (W_db w) (game_id g) = Some Starting) \<and>
    (\<forall>s \<in> set (sessions (W_db w)). S_ID s \<noteq> '''' \<and> (S_State s = Started \<or> S_State s = Archived) \<longrightarrow>
      (\<exists>f \<in> set (files (W_db w)). F_SessionID f = S_ID s))"
proof -
  have ok: "world_ok w" by (rule reachable_world_ok [OF assms])
  then have db: "db_ok (W_db w)" by (simp add: world_ok_def users_ok_def)
  have "\<exists>f \<in> set (files (W_db w)). F_SessionID f = S_ID s"
    if "s \<in> set (sessions (W_db w))" "S_ID s \<noteq> ''''" "S_State s = Started \<or> S_State s = Archived" for s
    using ok life_Some [OF that(1) db] that(2,3)
    by (auto simp: world_ok_def stored_def has_files_def list_ex_iff)
  then show ?thesis using ok by (auto simp: world_ok_def users_ok_def games_ok_def)
qed

theorem reachable_worlds_are_consistent_witness:
  "db_ok (W_db begun_world) \<and> W_games begun_world \<noteq> [] \<and>
   life (W_db begun_world) (game_id (hd (W_games begun_world))) = Some Starting"
proof -
  have "W_games begun_world \<noteq> []" by (simp add: begun_world_def)
  moreover have "life (W_db begun_world) (game_id (hd (W_games begun_world))) \<noteq> None" by code_simp
  ultimately show ?thesis
    using reachable_worlds_are_consistent [OF begun_reachable] by (cases "W_games begun_world") auto
qed

text \<open>
  \<^bold>\<open>C2\<close>: the steps implement the life of a session with a non-empty identifier (\<open>SessionUpdate\<close> upserts
  the row with the empty one in any state). In every reachable state, a step leaves the
  state of such a session as it is or moves it along the specification: created as pending, from
  pending to starting, from there back or to started, from started to archived, and deleted from
  anywhere. In particular no request reopens a started session, and only a generation starts one.
\<close>

theorem sessions_follow_their_life:
  assumes "reachable w" "step w w'" "sid \<noteq> ''''"
  shows "life (W_db w') sid = life (W_db w) sid \<or> life_step (life (W_db w) sid) (life (W_db w') sid)"
  using assms(2) reachable_world_ok [OF assms(1)]
proof (induction rule: step.induct)
  case (request gs d d')
  then have "db_ok d" by (simp add: world_ok_def users_ok_def)
  from transaction_moved [OF this request(1) assms(3)] show ?case
    by (cases "life d sid") (auto simp: moved_def intro: life_step.intros)
next
  case (game_begin k pr d hs g d' gs)
  then have "db_ok d" by (simp add: world_ok_def users_ok_def)
  from phase1_life [OF this game_begin(2)] show ?case by (auto intro: life_step.intros)
next
  case (game_store g gs hs opts wine f sf f' cancelled uuid d sf1 d')
  then have "life d (game_id g) = Some Starting"
    using phase3_life(1) [OF game_store(3)] by (auto simp: world_ok_def games_ok_def)
  then show ?case using phase3_life(2) [OF game_store(3)] by (auto intro: life_step.intros)
next
  case (turn_store wine k gf0 ps f gf f' hs sf uuid d d' gs)
  then show ?case using insert_file_life(1) [OF turn_store(3)] by simp
next
  case (game_failed g gs hs opts wine f e f' d live)
  then show ?case by (intro revert_follows_life)
next
  case (game_not_stored g gs cancelled uuid sf d0 e d live)
  then show ?case by (intro revert_follows_life)
qed simp_all

theorem sessions_follow_their_life_witness:
  "life ruled_db ''s'' = Some Pending \<and> life_step (Some Pending) (life (W_db begun_world) ''s'')"
proof -
  have "reachable \<lparr>W_db = ruled_db, W_games = []\<rparr>"
    using first_reachable created_step ruled_step by (blast intro: reachable.step)
  moreover have "life ruled_db ''s'' = Some Pending" "life (W_db begun_world) ''s'' \<noteq> life ruled_db ''s''" by code_simp+
  ultimately show ?thesis using sessions_follow_their_life [OF _ begun_step, of "''s''"] by simp
qed

text \<open>
  \<^bold>\<open>C5\<close>: a start that is interrupted is never resumed. Once a session is \<open>Starting\<close> and no generation
  runs for it, which a panic or a stop of the server brings about, it stays so in every run in which
  it is not deleted: it cannot be started again, and not be archived.
\<close>

theorem interrupted_start_is_final:
  assumes "reachable w" "life (W_db w) sid = Some Starting" "sid \<notin> set (map game_id (W_games w))" "sid \<noteq> ''''"
    and "(\<lambda>v v'. step v v' \<and> life (W_db v') sid \<noteq> None)\<^sup>*\<^sup>* w w'"
  shows "life (W_db w') sid = Some Starting"
proof -
  have "reachable w' \<and> life (W_db w') sid = Some Starting \<and> sid \<notin> set (map game_id (W_games w'))"
    using assms(5)
  proof (induction rule: rtranclp_induct)
    case (step v v')
    then show ?case using interrupted_step [of v v' sid] assms(4) reachable.step by blast
  qed (use assms(1-3) in simp)
  then show ?thesis by simp
qed

theorem interrupted_start_is_final_witness:
  "life (W_db stopped_world) ''s'' = Some Starting"
proof -
  have "life (W_db stopped_world) ''s'' = Some Starting" by code_simp
  then show ?thesis
    by (rule interrupted_start_is_final [OF stopped_reachable]) (simp_all add: stopped_world_def)
qed

end
