(* ===== verification/Validation.thy ===== *)
theory Validation
  imports Rules Control Races Users
begin

section \<open>Validation of requests\<close>

text \<open>
  \<open>models/*.go\<close> and \<open>restapi/operations/*_parameters.go\<close>: before a handler runs, its parameters are
  bound: the body is read, its fields are checked by \<open>Validate\<close> and its read-only fields by
  \<open>ContextValidate\<close>. The checks of \<open>go-openapi/validate\<close> and the conversion of path parameters
  are parameters of the model; what they are documented to do is \<open>validator_ok\<close>. \<open>ReadOnly\<close> gets
  whether the value is the zero value of its type.
\<close>

datatype verr = Invalid string | Required string | ParseError string | Composite "verr list"

record validator =
  MinimumInt :: "string \<Rightarrow> int \<Rightarrow> int \<Rightarrow> verr option"
  MaximumInt :: "string \<Rightarrow> int \<Rightarrow> int \<Rightarrow> verr option"
  RequiredString :: "string \<Rightarrow> string \<Rightarrow> verr option"
  EnumCase :: "string \<Rightarrow> string \<Rightarrow> string list \<Rightarrow> verr option"
  ReadOnly :: "string \<Rightarrow> bool \<Rightarrow> verr option"
  ConvertInt64 :: "string \<Rightarrow> int option"

definition validator_ok :: "validator \<Rightarrow> bool" where
  "validator_ok V =
    ((\<forall>n x m. MinimumInt V n x m = None \<longleftrightarrow> m \<le> x) \<and> (\<forall>n x m. MaximumInt V n x m = None \<longleftrightarrow> x \<le> m) \<and>
     (\<forall>n s. RequiredString V n s = None \<longleftrightarrow> s \<noteq> '''') \<and> (\<forall>n s es. EnumCase V n s es = None \<longleftrightarrow> s \<in> set es) \<and>
     (\<forall>n zero. ReadOnly V n zero = None \<longleftrightarrow> zero))"

text \<open>The errors of the fields in the order of the checks, as one composite error.\<close>

fun collect :: "verr option list \<Rightarrow> verr list" where
  "collect [] = []"
| "collect (None # cs) = collect cs"
| "collect (Some e # cs) = e # collect cs"

definition composite :: "verr option list \<Rightarrow> verr option" where
  "composite cs = (let res = collect cs in if res \<noteq> [] then Some (Composite res) else None)"

fun first_error :: "verr option list \<Rightarrow> verr option" where
  "first_error [] = None"
| "first_error (None # cs) = first_error cs"
| "first_error (Some e # cs) = Some e"

subsection \<open>Rules\<close>

text \<open>An integer field that is not required: the zero value is not checked.\<close>

definition check_range :: "validator \<Rightarrow> string \<Rightarrow> int \<Rightarrow> int \<Rightarrow> int \<Rightarrow> verr option" where
  "check_range V name x lo hi =
    (if x = 0 then None else first_error [MinimumInt V name x lo, MaximumInt V name x hi])"

definition validateDensity :: "validator \<Rightarrow> Ruleset \<Rightarrow> verr option" where
  "validateDensity V m = check_range V ''density'' (Density m) 0 3"

definition validateStartingDistance :: "validator \<Rightarrow> Ruleset \<Rightarrow> verr option" where
  "validateStartingDistance V m = check_range V ''starting_distance'' (StartingDistance m) 0 3"

definition validateUniverseSize :: "validator \<Rightarrow> Ruleset \<Rightarrow> verr option" where
  "validateUniverseSize V m = check_range V ''universe_size'' (UniverseSize m) 0 4"

definition validateVcAtLeastxYears :: "validator \<Rightarrow> Ruleset \<Rightarrow> verr option" where
  "validateVcAtLeastxYears V m =
    check_range V ''vc_at_least_x_years_must_pass_before_a_winner_is_declared'' (VcAtLeastxYears m) 30 500"

definition validateVcAttainTechFields :: "validator \<Rightarrow> Ruleset \<Rightarrow> verr option" where
  "validateVcAttainTechFields V m =
    check_range V ''vc_attain_tech_X_in_Y_field_fields_value'' (VcAttainTechFieldsValue m) 2 6"

definition validateVcAttainTechTech :: "validator \<Rightarrow> Ruleset \<Rightarrow> verr option" where
  "validateVcAttainTechTech V m =
    check_range V ''vc_attain_tech_X_in_Y_field_tech_value'' (VcAttainTechTechValue m) 8 26"

definition validateVcExceedNextPlayerScore :: "validator \<Rightarrow> Ruleset \<Rightarrow> verr option" where
  "validateVcExceedNextPlayerScore V m =
    check_range V ''vc_exceed_next_player_score_by_x_value'' (VcExceedNextPlayerScoreValue m) 20 300"

definition validateVcExceedScore :: "validator \<Rightarrow> Ruleset \<Rightarrow> verr option" where
  "validateVcExceedScore V m = check_range V ''vc_exceed_score_of_x_value'' (VcExceedScoreValue m) 1000 20000"

definition validateVcHasProductionCapacity :: "validator \<Rightarrow> Ruleset \<Rightarrow> verr option" where
  "validateVcHasProductionCapacity V m =
    check_range V ''vc_has_production_capacity_of_x_thousand_value'' (VcHasProductionCapacityValue m) 10 500"

definition validateVcHaveHighestScore :: "validator \<Rightarrow> Ruleset \<Rightarrow> verr option" where
  "validateVcHaveHighestScore V m =
    check_range V ''vc_have_highest_score_after_x_years_value'' (VcHaveHighestScoreValue m) 30 900"

definition validateVcOwnsCapitalShips :: "validator \<Rightarrow> Ruleset \<Rightarrow> verr option" where
  "validateVcOwnsCapitalShips V m =
    check_range V ''vc_owns_x_capital_ships_value'' (VcOwnsCapitalShipsValue m) 10 300"

definition validateVcOwnsPercentOfPlanets :: "validator \<Rightarrow> Ruleset \<Rightarrow> verr option" where
  "validateVcOwnsPercentOfPlanets V m =
    check_range V ''vc_owns_x_percent_of_planets_value'' (VcOwnsPercentOfPlanetsValue m) 20 100"

definition validateVcWinnerMustMeet :: "validator \<Rightarrow> Ruleset \<Rightarrow> verr option" where
  "validateVcWinnerMustMeet V m = check_range V ''vc_winner_must_meet_x_of_the_above'' (VcWinnerMustMeet m) 0 7"

definition Validate_Ruleset :: "validator \<Rightarrow> Ruleset \<Rightarrow> verr option" where
  "Validate_Ruleset V m = composite
    [validateDensity V m, validateStartingDistance V m, validateUniverseSize V m, validateVcAtLeastxYears V m,
     validateVcAttainTechFields V m, validateVcAttainTechTech V m, validateVcExceedNextPlayerScore V m,
     validateVcExceedScore V m, validateVcHasProductionCapacity V m, validateVcHaveHighestScore V m,
     validateVcOwnsCapitalShips V m, validateVcOwnsPercentOfPlanets V m, validateVcWinnerMustMeet V m]"

subsection \<open>Players\<close>

text \<open>The level is a pointer: only nil is not checked.\<close>

definition validateBotLevel :: "validator \<Rightarrow> int option \<Rightarrow> verr option" where
  "validateBotLevel V level = (case level of
     None \<Rightarrow> None
   | Some l \<Rightarrow> first_error [MinimumInt V ''bot_level'' l 0, MaximumInt V ''bot_level'' l 4])"

definition validatePlayerOrder :: "validator \<Rightarrow> int \<Rightarrow> verr option" where
  "validatePlayerOrder V k = check_range V ''player_order'' k 0 15"

definition Validate_SessionPlayerRace :: "validator \<Rightarrow> SessionPlayerRaceDB \<Rightarrow> verr option" where
  "Validate_SessionPlayerRace V m =
    composite [validateBotLevel V (P_BotLevel m), validatePlayerOrder V (P_PlayerOrder m)]"

definition ContextValidate_SessionPlayerRace :: "validator \<Rightarrow> SessionPlayerRaceDB \<Rightarrow> verr option" where
  "ContextValidate_SessionPlayerRace V m =
    composite [ReadOnly V ''session_id'' (P_SessionID m = ''''), ReadOnly V ''user_profile_id'' (P_UserProfileID m = '''')]"

definition Validate_SessionPlayer :: "validator \<Rightarrow> SessionPlayer \<Rightarrow> verr option" where
  "Validate_SessionPlayer V m =
    composite [validateBotLevel V (SP_BotLevel m), validatePlayerOrder V (SP_PlayerOrder m)]"

definition Validate_PlayerOrder :: "validator \<Rightarrow> PlayerOrderReq \<Rightarrow> verr option" where
  "Validate_PlayerOrder V m = composite [validatePlayerOrder V (PO_PlayerOrder m)]"

subsection \<open>Sessions\<close>

text \<open>The state is checked as the client wrote it; the empty string is not checked.\<close>

definition sessionTypeStatePropEnum :: "string list" where
  "sessionTypeStatePropEnum = [''pending'', ''starting'', ''started'', ''archived'']"

definition validateState :: "validator \<Rightarrow> string \<Rightarrow> verr option" where
  "validateState V state = (if state = '''' then None else EnumCase V ''state'' state sessionTypeStatePropEnum)"

text \<open>The loop over the players stops at the first error.\<close>

definition validatePlayers :: "validator \<Rightarrow> SessionPlayer list \<Rightarrow> verr option" where
  "validatePlayers V ps = first_error (map (Validate_SessionPlayer V) ps)"

definition Validate_Session :: "validator \<Rightarrow> string \<Rightarrow> Session \<Rightarrow> verr option" where
  "Validate_Session V state m =
    composite [RequiredString V ''name'' (Name m), validatePlayers V (Players m), validateState V state]"

definition contextValidate_Session :: "validator \<Rightarrow> Session \<Rightarrow> verr option" where
  "contextValidate_Session V m = composite
    [ReadOnly V ''id'' (ID m = ''''), ReadOnly V ''pending_invitation'' (\<not> PendingInvitation m),
     ReadOnly V ''players'' (Players m = [])]"

subsection \<open>Users, races, invitations, orders\<close>

definition userProfileTypeStatePropEnum :: "string list" where
  "userProfileTypeStatePropEnum = [''pending'', ''active'', ''inactive'']"

definition validateUserState :: "validator \<Rightarrow> string \<Rightarrow> verr option" where
  "validateUserState V state = (if state = '''' then None else EnumCase V ''state'' state userProfileTypeStatePropEnum)"

definition Validate_UserProfile :: "validator \<Rightarrow> string \<Rightarrow> UserProfile \<Rightarrow> verr option" where
  "Validate_UserProfile V state m = composite
    [RequiredString V ''email'' (UP_Email m),
     validateUserState V state]"

definition contextValidate_UserProfile :: "validator \<Rightarrow> UserProfile \<Rightarrow> verr option" where
  "contextValidate_UserProfile V m = composite
    [ReadOnly V ''id'' (UP_ID m = ''''), ReadOnly V ''is_manager'' (\<not> UP_IsManager m),
     ReadOnly V ''registration_message'' (UP_RegistrationMessage m = None), ReadOnly V ''state'' (UP_State m = None)]"

definition Validate_RegistrationRequest :: "validator \<Rightarrow> RegistrationRequest \<Rightarrow> verr option" where
  "Validate_RegistrationRequest V m =
    composite [RequiredString V ''email'' (RQ_Email m), RequiredString V ''nickname'' (RQ_Nickname m)]"

record UserProfileCreateRequest =
  UC_Email :: string
  UC_Nickname :: string

definition Validate_UserProfileCreateRequest :: "validator \<Rightarrow> UserProfileCreateRequest \<Rightarrow> verr option" where
  "Validate_UserProfileCreateRequest V m =
    composite [RequiredString V ''email'' (UC_Email m), RequiredString V ''nickname'' (UC_Nickname m)]"

definition ContextValidate_Race :: "validator \<Rightarrow> RaceDB \<Rightarrow> verr option" where
  "ContextValidate_Race V m = composite
    [ReadOnly V ''id'' (Ra_ID m = ''''), ReadOnly V ''name_plural'' (Ra_NamePlural m = ''''),
     ReadOnly V ''name_singular'' (Ra_NameSingular m = ''''), ReadOnly V ''user_id'' (Ra_UserID m = '''')]"

definition ContextValidate_Invitation :: "validator \<Rightarrow> Invitation \<Rightarrow> verr option" where
  "ContextValidate_Invitation V m = composite
    [ReadOnly V ''id'' (Inv_ID m = ''''), ReadOnly V ''invitee_nickname'' (Inv_InviteeNickname m = ''''),
     ReadOnly V ''inviter_nickname'' (Inv_InviterNickname m = ''''), ReadOnly V ''session_name'' (Inv_SessionName m = '''')]"

definition switchToAiRequestTypeAiTypePropEnum :: "string list" where
  "switchToAiRequestTypeAiTypePropEnum = [''HE'', ''SS'', ''IS'', ''CA'', ''PP'', ''AR'']"

definition validateAiType :: "validator \<Rightarrow> string \<Rightarrow> verr option" where
  "validateAiType V t = first_error
    [RequiredString V ''ai_type'' t, EnumCase V ''ai_type'' t switchToAiRequestTypeAiTypePropEnum]"

definition Validate_SwitchToAiRequest :: "validator \<Rightarrow> string \<Rightarrow> verr option" where
  "Validate_SwitchToAiRequest V t = composite [validateAiType V t]"

definition Validate_Order :: "validator \<Rightarrow> string \<Rightarrow> verr option" where
  "Validate_Order V b64 = composite [RequiredString V ''b64_data'' b64]"

subsection \<open>Binding the body of a request\<close>

text \<open>What the consumer of the body makes of it; an empty body is no parse error where it is required.\<close>

datatype 'a body = NoBody | EmptyBody | Malformed | Parsed 'a

definition bind_body :: "string \<Rightarrow> ('a \<Rightarrow> verr option list) \<Rightarrow> 'a body \<Rightarrow> verr list + 'a option" where
  "bind_body name checks b = (case b of
     NoBody \<Rightarrow> Inr None
   | EmptyBody \<Rightarrow> Inl [ParseError name]
   | Malformed \<Rightarrow> Inl [ParseError name]
   | Parsed x \<Rightarrow> (let res = collect (checks x) in if res = [] then Inr (Some x) else Inl res))"

definition bind_required :: "string \<Rightarrow> ('a \<Rightarrow> verr option list) \<Rightarrow> 'a body \<Rightarrow> verr list + 'a option" where
  "bind_required name checks b = (case b of
     NoBody \<Rightarrow> Inl [Required name]
   | EmptyBody \<Rightarrow> Inl [Required name]
   | Malformed \<Rightarrow> Inl [ParseError name]
   | Parsed x \<Rightarrow> (let res = collect (checks x) in if res = [] then Inr (Some x) else Inl res))"

definition bind_RulesCreate :: "validator \<Rightarrow> Ruleset body \<Rightarrow> verr list + Ruleset option" where
  "bind_RulesCreate V = bind_body ''ruleset'' (\<lambda>m. [Validate_Ruleset V m])"

definition bind_SessionPlayerRaceCreate ::
    "validator \<Rightarrow> SessionPlayerRaceDB body \<Rightarrow> verr list + SessionPlayerRaceDB option" where
  "bind_SessionPlayerRaceCreate V = bind_body ''sessionPlayerRace''
    (\<lambda>m. [Validate_SessionPlayerRace V m, ContextValidate_SessionPlayerRace V m])"

definition bind_InvitationCreate :: "validator \<Rightarrow> Invitation body \<Rightarrow> verr list + Invitation option" where
  "bind_InvitationCreate V = bind_body ''invitation'' (\<lambda>m. [ContextValidate_Invitation V m])"

definition bind_RaceCreate :: "validator \<Rightarrow> RaceDB body \<Rightarrow> verr list + RaceDB option" where
  "bind_RaceCreate V = bind_body ''race'' (\<lambda>m. [ContextValidate_Race V m])"

definition bind_UserProfileCreate ::
    "validator \<Rightarrow> UserProfileCreateRequest body \<Rightarrow> verr list + UserProfileCreateRequest option" where
  "bind_UserProfileCreate V = bind_body ''userProfile'' (\<lambda>m. [Validate_UserProfileCreateRequest V m])"

definition bind_Register :: "validator \<Rightarrow> RegistrationRequest body \<Rightarrow> verr list + RegistrationRequest option" where
  "bind_Register V = bind_required ''registration'' (\<lambda>m. [Validate_RegistrationRequest V m])"

text \<open>The array of \<open>ReorderPlayers\<close>: the first invalid element ends the loop.\<close>

definition bind_ReorderPlayers :: "validator \<Rightarrow> PlayerOrderReq list body \<Rightarrow> verr list + PlayerOrderReq list option" where
  "bind_ReorderPlayers V = bind_body ''players'' (\<lambda>ps. [first_error (map (Validate_PlayerOrder V) ps)])"

text \<open>Path parameters that are numbers, and the operations that have one beside the body.\<close>

definition bind_int64 :: "validator \<Rightarrow> string \<Rightarrow> string \<Rightarrow> verr + int" where
  "bind_int64 V name raw = (case ConvertInt64 V raw of None \<Rightarrow> Inl (Invalid name) | Some x \<Rightarrow> Inr x)"

definition validate_path_order :: "validator \<Rightarrow> int \<Rightarrow> verr option" where
  "validate_path_order V k = first_error [MinimumInt V ''player_order'' k 0, MaximumInt V ''player_order'' k 15]"

definition bind_path_order :: "validator \<Rightarrow> string \<Rightarrow> verr + int" where
  "bind_path_order V raw = (case bind_int64 V ''player_order'' raw of
     Inl e \<Rightarrow> Inl e
   | Inr k \<Rightarrow> (case validate_path_order V k of Some e \<Rightarrow> Inl e | None \<Rightarrow> Inr k))"

text \<open>The errors are in the order in which the parameters are bound.\<close>

definition with_path :: "verr + int \<Rightarrow> verr list + 'a option \<Rightarrow> verr list + 'a option \<times> int" where
  "with_path p b = (case (p, b) of
     (Inr k, Inr x) \<Rightarrow> Inr (x, k)
   | (Inr k, Inl es) \<Rightarrow> Inl es
   | (Inl e, Inr x) \<Rightarrow> Inl [e]
   | (Inl e, Inl es) \<Rightarrow> Inl (e # es))"

definition with_body :: "verr list + 'a option \<Rightarrow> verr + int \<Rightarrow> verr list + 'a option \<times> int" where
  "with_body b p = (case (b, p) of
     (Inr x, Inr k) \<Rightarrow> Inr (x, k)
   | (Inl es, Inr k) \<Rightarrow> Inl es
   | (Inr x, Inl e) \<Rightarrow> Inl [e]
   | (Inl es, Inl e) \<Rightarrow> Inl (es @ [e]))"

definition bind_TurnSubmit :: "validator \<Rightarrow> string \<Rightarrow> string body \<Rightarrow> verr list + string option \<times> int" where
  "bind_TurnSubmit V year b = with_body (bind_body ''turnfile'' (\<lambda>b64. [Validate_Order V b64]) b) (bind_int64 V ''year'' year)"

definition bind_SwitchToAI :: "validator \<Rightarrow> string \<Rightarrow> string body \<Rightarrow> verr list + string option \<times> int" where
  "bind_SwitchToAI V order b = with_path (bind_path_order V order)
    (bind_required ''switchRequest'' (\<lambda>t. [Validate_SwitchToAiRequest V t]) b)"

definition bind_SwitchToHuman :: "validator \<Rightarrow> string \<Rightarrow> verr list + int" where
  "bind_SwitchToHuman V order = (case bind_path_order V order of Inl e \<Rightarrow> Inl [e] | Inr k \<Rightarrow> Inr k)"

definition bind_TurnGet :: "validator \<Rightarrow> string \<Rightarrow> verr list + int" where
  "bind_TurnGet V year = (case bind_int64 V ''year'' year of Inl e \<Rightarrow> Inl [e] | Inr k \<Rightarrow> Inr k)"

text \<open>A body with a read-only state: the text of the state and the parsed body.\<close>

definition bind_SessionCreate :: "validator \<Rightarrow> (string \<times> Session) body \<Rightarrow> verr list + (string \<times> Session) option" where
  "bind_SessionCreate V = bind_body ''session''
    (\<lambda>(state, m). [Validate_Session V state m, contextValidate_Session V m])"

definition bind_SessionUpdate :: "validator \<Rightarrow> (string \<times> Session) body \<Rightarrow> verr list + (string \<times> Session) option" where
  "bind_SessionUpdate V = bind_body ''session''
    (\<lambda>(state, m). [Validate_Session V state m, contextValidate_Session V m])"

definition bind_UserProfileUpdate ::
    "validator \<Rightarrow> (string \<times> UserProfile) body \<Rightarrow> verr list + (string \<times> UserProfile) option" where
  "bind_UserProfileUpdate V = bind_body ''userProfile''
    (\<lambda>(state, m). [Validate_UserProfile V state m, contextValidate_UserProfile V m])"

text \<open>The flag of \<open>SessionPlayerRaceSetReady\<close> is not checked.\<close>

definition bind_SetReady :: "bool body \<Rightarrow> verr list + bool option" where
  "bind_SetReady = bind_required ''ready'' (\<lambda>_. [])"

subsection \<open>What a bound request promises\<close>

lemma collect_Nil: "collect cs = [] \<longleftrightarrow> (\<forall>c \<in> set cs. c = None)"
  by (induction cs rule: collect.induct) auto

lemma composite_None: "composite cs = None \<longleftrightarrow> (\<forall>c \<in> set cs. c = None)"
  using collect_Nil [of cs] by (simp add: composite_def Let_def)

lemma first_error_None: "first_error cs = None \<longleftrightarrow> (\<forall>c \<in> set cs. c = None)"
  by (induction cs rule: first_error.induct) auto

lemma check_range_None: "validator_ok V \<Longrightarrow> check_range V n x lo hi = None \<longleftrightarrow> x = 0 \<or> lo \<le> x \<and> x \<le> hi"
  by (simp add: check_range_def first_error_None validator_ok_def)

lemma bind_body_Some: "bind_body n checks b = Inr (Some x) \<longleftrightarrow> b = Parsed x \<and> (\<forall>c \<in> set (checks x). c = None)"
  by (auto simp: bind_body_def Let_def collect_Nil split: body.splits)

lemma bind_required_never_None: "bind_required n checks b \<noteq> Inr None"
  by (auto simp: bind_required_def Let_def split: body.splits)

lemma bind_required_Some:
  "bind_required n checks b = Inr (Some x) \<longleftrightarrow> b = Parsed x \<and> (\<forall>c \<in> set (checks x). c = None)"
  by (auto simp: bind_required_def Let_def collect_Nil split: body.splits)

lemmas ruleset_validators = validateDensity_def validateStartingDistance_def validateUniverseSize_def
  validateVcAtLeastxYears_def validateVcAttainTechFields_def validateVcAttainTechTech_def
  validateVcExceedNextPlayerScore_def validateVcExceedScore_def validateVcHasProductionCapacity_def
  validateVcHaveHighestScore_def validateVcOwnsCapitalShips_def validateVcOwnsPercentOfPlanets_def
  validateVcWinnerMustMeet_def

text \<open>The ranges of the fields of valid rules. Zero is valid for every field.\<close>

definition in_range :: "int \<Rightarrow> int \<Rightarrow> int \<Rightarrow> bool" where
  "in_range x lo hi = (x = 0 \<or> lo \<le> x \<and> x \<le> hi)"

lemma Validate_Ruleset_None:
  assumes "validator_ok V"
  shows "Validate_Ruleset V m = None \<longleftrightarrow>
    in_range (Density m) 0 3 \<and> in_range (StartingDistance m) 0 3 \<and> in_range (UniverseSize m) 0 4 \<and>
    in_range (VcAtLeastxYears m) 30 500 \<and> in_range (VcAttainTechFieldsValue m) 2 6 \<and>
    in_range (VcAttainTechTechValue m) 8 26 \<and> in_range (VcExceedNextPlayerScoreValue m) 20 300 \<and>
    in_range (VcExceedScoreValue m) 1000 20000 \<and> in_range (VcHasProductionCapacityValue m) 10 500 \<and>
    in_range (VcHaveHighestScoreValue m) 30 900 \<and> in_range (VcOwnsCapitalShipsValue m) 10 300 \<and>
    in_range (VcOwnsPercentOfPlanetsValue m) 20 100 \<and> in_range (VcWinnerMustMeet m) 0 7"
  by (simp add: Validate_Ruleset_def composite_None ruleset_validators check_range_None [OF assms] in_range_def)

text \<open>The read-only fields: the checks of the two bodies that the handlers rely on.\<close>

lemma contextValidate_None:
  assumes "validator_ok V"
  shows "contextValidate_Session V s = None \<longleftrightarrow> ContextValidate_Session s"
    and "contextValidate_UserProfile V p = None \<longleftrightarrow> ContextValidate_UserProfile p"
  using assms
  by (auto simp: contextValidate_Session_def contextValidate_UserProfile_def composite_None validator_ok_def
      ContextValidate_Session_def ContextValidate_UserProfile_def)

lemma bound_bodies_are_context_valid:
  assumes "validator_ok V"
  shows "bind_SessionCreate V b = Inr (Some (st, s)) \<Longrightarrow> ContextValidate_Session s"
    and "bind_SessionUpdate V b = Inr (Some (st, s)) \<Longrightarrow> ContextValidate_Session s"
    and "bind_UserProfileUpdate V b' = Inr (Some (st, p)) \<Longrightarrow> ContextValidate_UserProfile p"
  by (simp_all add: bind_SessionCreate_def bind_SessionUpdate_def bind_UserProfileUpdate_def bind_body_Some
      contextValidate_None [OF assms])

text \<open>A bound player respects the checks of the schema on its level and on its order.\<close>

lemma bound_player_meets_checks:
  assumes "validator_ok V" "bind_SessionPlayerRaceCreate V b = Inr (Some p)"
  shows "spr_check p \<and> 0 \<le> P_PlayerOrder p"
  using assms by (auto simp: bind_SessionPlayerRaceCreate_def bind_body_Some Validate_SessionPlayerRace_def
      composite_None validatePlayerOrder_def check_range_None validateBotLevel_def first_error_None spr_check_def
      validator_ok_def split: option.splits)

text \<open>A bound control type is one of the six.\<close>

lemma bound_ai_type:
  assumes "validator_ok V" "bind_SwitchToAI V order b = Inr (Some t, k)"
  shows "t \<in> set switchToAiRequestTypeAiTypePropEnum \<and> 0 \<le> k \<and> k \<le> 15"
  using assms
  by (auto simp: bind_SwitchToAI_def with_path_def bind_path_order_def validate_path_order_def first_error_None
      bind_required_Some Validate_SwitchToAiRequest_def validateAiType_def composite_None validator_ok_def
      split: sum.splits option.splits)

text \<open>
  The rules of a bound request satisfy the checks of the schema once they are copied. The checks
  for the distance and the size look at the density.
\<close>

lemma bound_ruleset_meets_checks:
  assumes "validator_ok V" "Validate_Ruleset V body = None"
  shows "ruleset_check \<lparr>RS_ID = i, RS_SessionID = sid, RS_Ruleset = copy_ruleset body\<rparr>"
proof -
  have "in_range (Density body) 0 3" using assms(2) by (simp add: Validate_Ruleset_None [OF assms(1)])
  then have "0 \<le> Density body" "Density body \<le> 3" by (auto simp: in_range_def)
  then show ?thesis
    using clamp_capital_ships_range [of "VcOwnsCapitalShipsValue body"]
    by (simp add: ruleset_check_def ruleset_checks_def Let_def copy_ruleset_def)
qed

text \<open>Of the integers of valid rules, only the seed may not fit into its column.\<close>

lemma bound_ruleset_fits:
  assumes "validator_ok V" "Validate_Ruleset V body = None"
  shows "list_all int4 (ruleset_ints (copy_ruleset body)) \<longleftrightarrow> int4 (RandomSeed body)"
proof -
  have fits: "in_range x lo hi \<Longrightarrow> 0 \<le> lo \<Longrightarrow> hi < 2 ^ 31 \<Longrightarrow> int4 x" for x lo hi
    by (auto simp: in_range_def int4_def)
  note r = assms(2) [unfolded Validate_Ruleset_None [OF assms(1)]]
  have "int4 (clamp_capital_ships v)" for v by (simp add: clamp_capital_ships_def int4_def)
  moreover have "int4 (Density body)" "int4 (StartingDistance body)" "int4 (UniverseSize body)"
    "int4 (VcAtLeastxYears body)" "int4 (VcAttainTechFieldsValue body)" "int4 (VcAttainTechTechValue body)"
    "int4 (VcExceedNextPlayerScoreValue body)" "int4 (VcExceedScoreValue body)"
    "int4 (VcHasProductionCapacityValue body)" "int4 (VcHaveHighestScoreValue body)"
    "int4 (VcOwnsPercentOfPlanetsValue body)" "int4 (VcWinnerMustMeet body)"
    by (rule fits, use r in \<open>blast\<close>, simp, simp)+
  ultimately show ?thesis by (simp add: ruleset_ints_def copy_ruleset_def)
qed


definition example_validator :: validator where
  "example_validator = \<lparr>
     MinimumInt = (\<lambda>n x m. if m \<le> x then None else Some (Invalid n)),
     MaximumInt = (\<lambda>n x m. if x \<le> m then None else Some (Invalid n)),
     RequiredString = (\<lambda>n s. if s \<noteq> '''' then None else Some (Required n)),
     EnumCase = (\<lambda>n s es. if s \<in> set es then None else Some (Invalid n)),
     ReadOnly = (\<lambda>n zero. if zero then None else Some (Invalid n)),
     ConvertInt64 = (\<lambda>s. None)\<rparr>"

lemma example_validator_ok: "validator_ok example_validator"
  by (simp add: validator_ok_def example_validator_def)


end
