(* ===== verification/Backup.thy ===== *)
theory Backup
  imports Turns
begin

section \<open>Session files and backups\<close>

text \<open>
  \<open>session_files_get.go\<close> and \<open>historic_backup.go\<close>: a manager can read the latest files of a session,
  and every member with a player can download the history of the game as a ZIP archive. An archive is
  modelled as the list of its entries, names and contents in the order of writing;
  \<open>archive/zip\<close> itself is not.
\<close>

subsection \<open>SessionFilesGet\<close>

definition SessionFilesGet_Authorize :: "id \<Rightarrow> Principal \<Rightarrow> db \<Rightarrow> bool" where
  "SessionFilesGet_Authorize sid pr d =
    (if IsGlobalManager pr then True else IsSessionManager (Subject pr) sid d)"

definition SessionFilesGet_handle :: "id \<Rightarrow> Principal \<Rightarrow> db \<Rightarrow> SessionFilesDB tx" where
  "SessionFilesGet_handle sid pr d =
    (if \<not> SessionFilesGet_Authorize sid pr d then Inl ErrForbidden
     else case get_row (lastSessionFilesQuery sid d) of
       Inl e \<Rightarrow> (if errors_Is e NoRows
         then Inl (NewErrSomethingNotFound (''no session files found for session: '' @ sid)) else Inl e)
     | Inr sf \<Rightarrow> Inr (sf, d, []))"

definition SessionFilesGet_Handle :: "id \<Rightarrow> Principal \<Rightarrow> db \<Rightarrow> SessionFilesDB reply" where
  "SessionFilesGet_Handle sid pr d =
    respond [case_forbidden, case_not_found] 200 d (SessionFilesGet_handle sid pr d)"

subsection \<open>HistoricBackup\<close>

definition HistoricBackup_Authorize :: "id \<Rightarrow> Principal \<Rightarrow> db \<Rightarrow> bool" where
  "HistoricBackup_Authorize sid pr d =
    (if IsGlobalManager pr then True
     else case get_row (userProfileSessionRelationQuery (Subject pr) sid d) of
       Inl e \<Rightarrow> False
     | Inr rel \<Rightarrow> if R_IsManager rel then True
         else (case get_row (sessionPlayerRaceQuery (Subject pr) sid d) of Inl e \<Rightarrow> False | Inr spr \<Rightarrow> True))"

record playerContext =
  isManager :: bool
  playerOrder :: int

definition getPlayerContext :: "id \<Rightarrow> Principal \<Rightarrow> db \<Rightarrow> err + playerContext" where
  "getPlayerContext sid pr d =
    (if IsGlobalManager pr then Inr \<lparr>isManager = True, playerOrder = - 1\<rparr>
     else and_then (get_row (userProfileSessionRelationQuery (Subject pr) sid d)) (\<lambda>rel.
       if R_IsManager rel then Inr \<lparr>isManager = True, playerOrder = - 1\<rparr>
       else and_then (get_row (sessionPlayerRaceQuery (Subject pr) sid d)) (\<lambda>spr.
         Inr \<lparr>isManager = False, playerOrder = P_PlayerOrder spr\<rparr>)))"

definition getAllSessionFiles :: "id \<Rightarrow> db \<Rightarrow> err + SessionFilesDB list" where
  "getAllSessionFiles sid d =
    (let sfs = order_by F_Year (sql_select (\<lambda>f. F_SessionID f = sid) (files d)) in
     if sfs = [] then Inl (NewErrSomethingNotFound (''no session files found for session: '' @ sid)) else Inr sfs)"

record raceFileInfo =
  RF_PlayerOrder :: int
  RF_Data :: string

fun race_file_infos :: "bool \<Rightarrow> id \<Rightarrow> SessionPlayerRaceDB list \<Rightarrow> db \<Rightarrow> raceFileInfo list" where
  "race_file_infos manager uid [] d = []"
| "race_file_infos manager uid (spr # rest) d =
    (if P_IsBot spr then race_file_infos manager uid rest d
     else if \<not> manager \<and> P_UserProfileID spr \<noteq> uid then race_file_infos manager uid rest d
     else (case sql_first (\<lambda>r. Ra_ID r = P_RaceID spr) (races d) of
       None \<Rightarrow> race_file_infos manager uid rest d
     | Some race \<Rightarrow> \<lparr>RF_PlayerOrder = P_PlayerOrder spr, RF_Data = Ra_Data race\<rparr> # race_file_infos manager uid rest d))"

definition getSessionRaceFiles :: "id \<Rightarrow> bool \<Rightarrow> id \<Rightarrow> db \<Rightarrow> raceFileInfo list" where
  "getSessionRaceFiles sid manager uid d = race_file_infos manager uid (SessionPlayerRaces sid d) d"

type_synonym archive = "(string \<times> bytes) list"

text \<open>\<open>base64.StdEncoding.DecodeString\<close> is the decoder of \<open>B64Decode\<close>.\<close>

definition addFileToZip :: "archive \<Rightarrow> string \<Rightarrow> string \<Rightarrow> err + archive" where
  "addFileToZip zw filename b64data = and_then (B64Decode b64data) (\<lambda>data. Inr (zw @ [(filename, data)]))"

fun add_turns :: "bool \<Rightarrow> int \<Rightarrow> int \<Rightarrow> int \<Rightarrow> string list \<Rightarrow> archive \<Rightarrow> err + archive" where
  "add_turns manager order year idx [] zw = Inr zw"
| "add_turns manager order year idx (turn # rest) zw =
    (if turn = '''' then add_turns manager order year (idx + 1) rest zw
     else and_then
       (if manager \<or> idx = order
          then addFileToZip zw (''game-'' @ decimal_int year @ ''.m'' @ decimal_int (idx + 1)) turn
          else Inr zw)
       (\<lambda>zw1. add_turns manager order year (idx + 1) rest zw1))"

definition add_year :: "bool \<Rightarrow> int \<Rightarrow> SessionFilesDB \<Rightarrow> archive \<Rightarrow> err + archive" where
  "add_year manager order sf zw =
    and_then (if F_Universe sf \<noteq> ''''
        then addFileToZip zw (''game-'' @ decimal_int (F_Year sf) @ ''.xy'') (F_Universe sf) else Inr zw) (\<lambda>zw1.
    and_then (if manager \<and> F_HostFile sf \<noteq> ''''
        then addFileToZip zw1 (''game-'' @ decimal_int (F_Year sf) @ ''.hst'') (F_HostFile sf) else Inr zw1) (\<lambda>zw2.
    add_turns manager order (F_Year sf) 0 (F_Turns sf) zw2))"

fun add_years :: "bool \<Rightarrow> int \<Rightarrow> SessionFilesDB list \<Rightarrow> archive \<Rightarrow> err + archive" where
  "add_years manager order [] zw = Inr zw"
| "add_years manager order (sf # rest) zw =
    and_then (add_year manager order sf zw) (\<lambda>zw1. add_years manager order rest zw1)"

fun add_races :: "raceFileInfo list \<Rightarrow> archive \<Rightarrow> err + archive" where
  "add_races [] zw = Inr zw"
| "add_races (rf # rest) zw =
    and_then (addFileToZip zw (''game.r'' @ decimal_int (RF_PlayerOrder rf + 1)) (RF_Data rf)) (\<lambda>zw1.
    add_races rest zw1)"

definition createZipArchive :: "SessionFilesDB list \<Rightarrow> raceFileInfo list \<Rightarrow> bool \<Rightarrow> int \<Rightarrow> err + archive" where
  "createZipArchive sfs rfs manager order =
    and_then (add_years manager order sfs []) (\<lambda>zw. add_races rfs zw)"

definition HistoricBackup_handle :: "id \<Rightarrow> Principal \<Rightarrow> db \<Rightarrow> archive tx" where
  "HistoricBackup_handle sid pr d =
    (if \<not> HistoricBackup_Authorize sid pr d then Inl ErrForbidden
     else and_then (getPlayerContext sid pr d) (\<lambda>pCtx.
       case get_session sid d of
         Inl e \<Rightarrow> (if errors_Is e NoRows
           then Inl (ErrSessionNotFound (''session not found: '' @ sid)) else Inl e)
       | Inr s \<Rightarrow>
          if S_State s = Pending then Inl (ErrSessionNotStarted ''session has not started yet'')
          else and_then (getAllSessionFiles sid d) (\<lambda>sfs.
            and_then (createZipArchive sfs (getSessionRaceFiles sid (isManager pCtx) (Subject pr) d)
                (isManager pCtx) (playerOrder pCtx)) (\<lambda>arch.
            Inr (arch, d, [])))))"

definition HistoricBackup_Handle :: "id \<Rightarrow> Principal \<Rightarrow> db \<Rightarrow> archive reply" where
  "HistoricBackup_Handle sid pr d =
    respond [case_forbidden, case_not_found, case_precondition] 200 d (HistoricBackup_handle sid pr d)"

subsection \<open>The request contract\<close>

lemma SessionFilesGet_reads:
  "SessionFilesGet_handle sid pr d = Inr (x, d', ns) \<Longrightarrow> d' = d \<and> ns = [] \<and> SessionFilesGet_Authorize sid pr d"
  by (auto simp: SessionFilesGet_handle_def split: if_splits sum.splits)

lemma HistoricBackup_reads:
  "HistoricBackup_handle sid pr d = Inr (x, d', ns) \<Longrightarrow> d' = d \<and> ns = [] \<and> HistoricBackup_Authorize sid pr d"
  by (cases "get_session sid d") (auto simp: HistoricBackup_handle_def and_then_eq_Inr split: if_splits)

interpretation session_files_req: guarded_request
  "\<lambda>(sid, pr). SessionFilesGet_handle sid pr" "\<lambda>(sid, pr). SessionFilesGet_Handle sid pr" db_ok
  "\<lambda>(sid, pr) d. SessionFilesGet_Authorize sid pr d"
  by unfold_locales (auto simp: SessionFilesGet_Handle_def dest: SessionFilesGet_reads)

interpretation backup_req: guarded_request
  "\<lambda>(sid, pr). HistoricBackup_handle sid pr" "\<lambda>(sid, pr). HistoricBackup_Handle sid pr" db_ok
  "\<lambda>(sid, pr) d. HistoricBackup_Authorize sid pr d"
  by unfold_locales (auto simp: HistoricBackup_Handle_def dest: HistoricBackup_reads)

subsection \<open>What a backup contains\<close>

text \<open>Each loop adds entries at the end; the new ones come from the stored files it may show.\<close>

lemma addFileToZip_Inr: "addFileToZip zw n b = Inr zw' \<longleftrightarrow> (\<exists>data. B64Decode b = Inr data \<and> zw' = zw @ [(n, data)])"
  by (auto simp: addFileToZip_def and_then_eq_Inr)

lemma add_turns_step:
  assumes "add_turns manager k year idx (turn # rest) zw = Inr zw'"
  shows "\<exists>zw1. (zw1 = zw \<or> (manager \<or> idx = k) \<and> (\<exists>n data. B64Decode turn = Inr data \<and> zw1 = zw @ [(n, data)])) \<and>
    add_turns manager k year (idx + 1) rest zw1 = Inr zw'"
proof (cases "turn = [] \<or> \<not> (manager \<or> idx = k)")
  case True
  then show ?thesis using assms by (intro exI [of _ zw]) (auto simp: and_then_eq_Inr split: if_splits)
next
  case False
  have "add_turns manager k year idx (turn # rest) zw =
      and_then (addFileToZip zw (''game-'' @ decimal_int year @ ''.m'' @ decimal_int (idx + 1)) turn)
        (add_turns manager k year (idx + 1) rest)"
    using False by auto
  then have "and_then (addFileToZip zw (''game-'' @ decimal_int year @ ''.m'' @ decimal_int (idx + 1)) turn)
        (add_turns manager k year (idx + 1) rest) = Inr zw'"
    using assms by simp
  then obtain zw1 where *: "addFileToZip zw (''game-'' @ decimal_int year @ ''.m'' @ decimal_int (idx + 1)) turn = Inr zw1"
      "add_turns manager k year (idx + 1) rest zw1 = Inr zw'"
    unfolding and_then_eq_Inr by blast
  then show ?thesis using False unfolding addFileToZip_Inr by blast
qed

lemma add_turns_Inr:
  assumes "add_turns manager k year idx turns zw = Inr zw'"
  shows "\<exists>new. zw' = zw @ new \<and> (\<forall>(n, data) \<in> set new. \<exists>i < length turns.
    (manager \<or> idx + int i = k) \<and> B64Decode (turns ! i) = Inr data)"
  using assms
proof (induction turns arbitrary: idx zw)
  case (Cons turn rest)
  obtain zw1 where step: "zw1 = zw \<or> (manager \<or> idx = k) \<and> (\<exists>n data. B64Decode turn = Inr data \<and> zw1 = zw @ [(n, data)])"
    and rest: "add_turns manager k year (idx + 1) rest zw1 = Inr zw'"
    using add_turns_step [OF Cons.prems] by blast
  obtain new where new: "zw' = zw1 @ new" "\<forall>(n, data) \<in> set new. \<exists>i < length rest.
      (manager \<or> idx + 1 + int i = k) \<and> B64Decode (rest ! i) = Inr data"
    using Cons.IH [OF rest] by (elim exE conjE) (rule that)
  have later: "\<exists>i < length (turn # rest). (manager \<or> idx + int i = k) \<and> B64Decode ((turn # rest) ! i) = Inr data"
    if entry: "(n, data) \<in> set new" for n data
  proof -
    obtain i where "i < length rest" "manager \<or> idx + 1 + int i = k" "B64Decode (rest ! i) = Inr data"
      using bspec [OF new(2) entry] by auto
    then show ?thesis by (intro exI [of _ "Suc i"]) auto
  qed
  show ?case using step
  proof
    assume "zw1 = zw"
    then show ?thesis using new(1) later by blast
  next
    assume "(manager \<or> idx = k) \<and> (\<exists>n data. B64Decode turn = Inr data \<and> zw1 = zw @ [(n, data)])"
    then obtain n data where *: "manager \<or> idx = k" "B64Decode turn = Inr data" "zw1 = zw @ [(n, data)]" by blast
    then have "\<exists>i < length (turn # rest). (manager \<or> idx + int i = k) \<and> B64Decode ((turn # rest) ! i) = Inr data"
      by (intro exI [of _ 0]) simp
    then show ?thesis using new(1) later * by (intro exI [of _ "(n, data) # new"]) auto
  qed
qed simp

definition shown :: "bool \<Rightarrow> int \<Rightarrow> SessionFilesDB \<Rightarrow> bytes \<Rightarrow> bool" where
  "shown manager k sf data \<longleftrightarrow> B64Decode (F_Universe sf) = Inr data \<or>
     manager \<and> B64Decode (F_HostFile sf) = Inr data \<or>
     (\<exists>i < length (F_Turns sf). (manager \<or> int i = k) \<and> B64Decode (F_Turns sf ! i) = Inr data)"

lemma add_year_Inr:
  assumes "add_year manager k sf zw = Inr zw'"
  shows "\<exists>new. zw' = zw @ new \<and> (\<forall>(n, data) \<in> set new. shown manager k sf data)"
proof -
  obtain zw1 zw2 where add:
      "(if F_Universe sf \<noteq> [] then addFileToZip zw (''game-'' @ decimal_int (F_Year sf) @ ''.xy'') (F_Universe sf)
        else Inr zw) = Inr zw1"
      "(if manager \<and> F_HostFile sf \<noteq> []
        then addFileToZip zw1 (''game-'' @ decimal_int (F_Year sf) @ ''.hst'') (F_HostFile sf) else Inr zw1) = Inr zw2"
    and 3: "add_turns manager k (F_Year sf) 0 (F_Turns sf) zw2 = Inr zw'"
    using assms unfolding add_year_def and_then_eq_Inr by blast
  have 1: "zw1 = zw \<or> (\<exists>n data. B64Decode (F_Universe sf) = Inr data \<and> zw1 = zw @ [(n, data)])"
    and 2: "zw2 = zw1 \<or> manager \<and> (\<exists>n data. B64Decode (F_HostFile sf) = Inr data \<and> zw2 = zw1 @ [(n, data)])"
    using add by (auto simp: addFileToZip_Inr split: if_splits)
  obtain new where new: "zw' = zw2 @ new" "\<forall>(n, data) \<in> set new. shown manager k sf data"
    using add_turns_Inr [OF 3] by (fastforce simp: shown_def)
  obtain new1 where "zw1 = zw @ new1" "\<forall>(n, data) \<in> set new1. shown manager k sf data"
    using 1 by (auto simp: shown_def)
  moreover obtain new2 where "zw2 = zw1 @ new2" "\<forall>(n, data) \<in> set new2. shown manager k sf data"
    using 2 by (auto simp: shown_def)
  ultimately show ?thesis using new by (intro exI [of _ "new1 @ new2 @ new"]) auto
qed

lemma add_years_Inr:
  "add_years manager k sfs zw = Inr zw' \<Longrightarrow>
    \<exists>new. zw' = zw @ new \<and> (\<forall>(n, data) \<in> set new. \<exists>sf \<in> set sfs. shown manager k sf data)"
proof (induction sfs arbitrary: zw)
  case (Cons sf rest)
  obtain zw1 where 1: "add_year manager k sf zw = Inr zw1" and 2: "add_years manager k rest zw1 = Inr zw'"
    using Cons.prems by (auto simp: and_then_eq_Inr)
  obtain new1 new2 where "zw1 = zw @ new1" "\<forall>(n, data) \<in> set new1. shown manager k sf data"
    "zw' = zw1 @ new2" "\<forall>(n, data) \<in> set new2. \<exists>sf \<in> set rest. shown manager k sf data"
    using add_year_Inr [OF 1] Cons.IH [OF 2] by blast
  then show ?case by (intro exI [of _ "new1 @ new2"]) auto
qed simp

lemma add_races_Inr:
  "add_races rfs zw = Inr zw' \<Longrightarrow>
    \<exists>new. zw' = zw @ new \<and> (\<forall>(n, data) \<in> set new. \<exists>rf \<in> set rfs. B64Decode (RF_Data rf) = Inr data)"
proof (induction rfs arbitrary: zw)
  case (Cons rf rest)
  obtain n data where 1: "B64Decode (RF_Data rf) = Inr data" and 2: "add_races rest (zw @ [(n, data)]) = Inr zw'"
    using Cons.prems by (auto simp: and_then_eq_Inr addFileToZip_Inr)
  obtain new where "zw' = (zw @ [(n, data)]) @ new" "\<forall>(n, data) \<in> set new. \<exists>rf \<in> set rest. B64Decode (RF_Data rf) = Inr data"
    using Cons.IH [OF 2] by blast
  then show ?case using 1 by (intro exI [of _ "(n, data) # new"]) auto
qed simp

lemma race_file_infos_iff:
  "rf \<in> set (race_file_infos manager uid ps d) \<longleftrightarrow> (\<exists>p race. p \<in> set ps \<and> \<not> P_IsBot p \<and>
    (manager \<or> P_UserProfileID p = uid) \<and> sql_first (\<lambda>r. Ra_ID r = P_RaceID p) (races d) = Some race \<and>
    rf = \<lparr>RF_PlayerOrder = P_PlayerOrder p, RF_Data = Ra_Data race\<rparr>)"
  by (induction ps) (auto split: option.splits)

text \<open>
  \<^bold>\<open>C23\<close> A backup shows a player nothing of the other players. Whoever is neither a manager of the session nor a
  global manager finds in the archive only universe files, which all players share, turns
  from the slot of a player of his own in this session, and the race file of a player of his own: no host file, no turn and no race of
  anybody else. Making the backup changes nothing.
\<close>

theorem HistoricBackup_is_private:
  assumes run: "HistoricBackup_handle sid pr d = Inr (arch, d', ns)"
    and plain: "\<not> IsGlobalManager pr" "distinct (map rel_key (rels d))" "\<not> IsSessionManager (Subject pr) sid d"
    and entry: "(name, data) \<in> set arch"
  shows "d' = d \<and> IsSessionMember (Subject pr) sid d \<and>
    ((\<exists>sf \<in> set (files d). F_SessionID sf = sid \<and> B64Decode (F_Universe sf) = Inr data) \<or>
     (\<exists>p \<in> set (sprs d). P_SessionID p = sid \<and> P_UserProfileID p = Subject pr \<and>
       ((\<exists>sf \<in> set (files d). F_SessionID sf = sid \<and> 0 \<le> P_PlayerOrder p \<and>
           P_PlayerOrder p < int (length (F_Turns sf)) \<and>
           B64Decode (F_Turns sf ! nat (P_PlayerOrder p)) = Inr data) \<or>
        (\<exists>race \<in> set (races d). Ra_ID race = P_RaceID p \<and> B64Decode (Ra_Data race) = Inr data))))"
proof -
  obtain ctx sfs where auth: "HistoricBackup_Authorize sid pr d" and ctx: "getPlayerContext sid pr d = Inr ctx"
    and sfs: "getAllSessionFiles sid d = Inr sfs"
    and arch: "createZipArchive sfs (getSessionRaceFiles sid (isManager ctx) (Subject pr) d) (isManager ctx) (playerOrder ctx) = Inr arch"
    using run by (cases "get_session sid d") (auto simp: HistoricBackup_handle_def and_then_eq_Inr split: if_splits)
  obtain rel where rel: "get_row (userProfileSessionRelationQuery (Subject pr) sid d) = Inr rel"
    using ctx plain(1) by (auto simp: getPlayerContext_def and_then_eq_Inr)
  then have r: "rel \<in> set (rels d)" "R_UserProfileID rel = Subject pr" "R_SessionID rel = sid"
    using get_row_Inr [OF rel] by (auto simp: userProfileSessionRelationQuery_def)
  have member: "IsSessionMember (Subject pr) sid d"
    using r by (force simp: IsSessionMember_iff rel_key_def)
  have "\<not> R_IsManager rel"
    using IsSessionManagerI [OF plain(2) r(1)] r(2,3) plain(3) by auto
  then obtain p where ctx': "isManager ctx = False" "playerOrder ctx = P_PlayerOrder p"
    and p: "get_row (sessionPlayerRaceQuery (Subject pr) sid d) = Inr p"
    using ctx plain(1) rel by (auto simp: getPlayerContext_def and_then_eq_Inr)
  have pin: "p \<in> set (sprs d)" "P_SessionID p = sid" "P_UserProfileID p = Subject pr"
    using get_row_Inr [OF p] by (auto simp: sessionPlayerRaceQuery_def)
  obtain zw where yrs: "add_years False (P_PlayerOrder p) sfs [] = Inr zw"
    and rcs: "add_races (getSessionRaceFiles sid False (Subject pr) d) zw = Inr arch"
    using arch ctx' by (auto simp: createZipArchive_def and_then_eq_Inr)
  have sfs_in: "sf \<in> set (files d) \<and> F_SessionID sf = sid" if "sf \<in> set sfs" for sf
    using sfs that by (auto simp: getAllSessionFiles_def Let_def order_by_def split: if_splits)
  consider sf where "sf \<in> set sfs" "shown False (P_PlayerOrder p) sf data"
    | rf where "rf \<in> set (getSessionRaceFiles sid False (Subject pr) d)" "B64Decode (RF_Data rf) = Inr data"
  proof -
    obtain new where "arch = zw @ new" "\<forall>(n, data) \<in> set new.
        \<exists>rf \<in> set (getSessionRaceFiles sid False (Subject pr) d). B64Decode (RF_Data rf) = Inr data"
      using add_races_Inr [OF rcs] by blast
    moreover have "\<forall>(n, data) \<in> set zw. \<exists>sf \<in> set sfs. shown False (P_PlayerOrder p) sf data"
      using add_years_Inr [OF yrs] by auto
    ultimately show ?thesis using entry that by fastforce
  qed
  then have "(\<exists>sf \<in> set (files d). F_SessionID sf = sid \<and> B64Decode (F_Universe sf) = Inr data) \<or>
     (\<exists>p \<in> set (sprs d). P_SessionID p = sid \<and> P_UserProfileID p = Subject pr \<and>
       ((\<exists>sf \<in> set (files d). F_SessionID sf = sid \<and> 0 \<le> P_PlayerOrder p \<and>
           P_PlayerOrder p < int (length (F_Turns sf)) \<and>
           B64Decode (F_Turns sf ! nat (P_PlayerOrder p)) = Inr data) \<or>
        (\<exists>race \<in> set (races d). Ra_ID race = P_RaceID p \<and> B64Decode (Ra_Data race) = Inr data)))"
  proof cases
    case 1
    then consider "B64Decode (F_Universe sf) = Inr data"
      | i where "i < length (F_Turns sf)" "int i = P_PlayerOrder p" "B64Decode (F_Turns sf ! i) = Inr data"
      unfolding shown_def by blast
    then show ?thesis
    proof cases
      case 1
      then show ?thesis using sfs_in [OF \<open>sf \<in> set sfs\<close>] by blast
    next
      case (2 i)
      have "nat (P_PlayerOrder p) = i" using 2(2) by simp
      then have "0 \<le> P_PlayerOrder p \<and> P_PlayerOrder p < int (length (F_Turns sf)) \<and>
          B64Decode (F_Turns sf ! nat (P_PlayerOrder p)) = Inr data"
        using 2 by auto
      then show ?thesis using sfs_in [OF \<open>sf \<in> set sfs\<close>] pin by blast
    qed
  next
    case 2
    then obtain q race where "q \<in> set (SessionPlayerRaces sid d)" "P_UserProfileID q = Subject pr"
      "sql_first (\<lambda>r. Ra_ID r = P_RaceID q) (races d) = Some race" "B64Decode (Ra_Data race) = Inr data"
      by (auto simp: getSessionRaceFiles_def race_file_infos_iff)
    then show ?thesis by (intro disjI2 bexI [of _ q])
        (auto simp: SessionPlayerRaces_def order_by_def dest!: sql_first_Some)
  qed
  then show ?thesis using HistoricBackup_reads [OF run] member by blast
qed

text \<open>Here \<open>v\<close> is a plain member who plays; the turn of the archive is the second slot.\<close>

definition backup_db :: db where
  "backup_db = played_db [human, (example_player ''b'' ''v'' 1)\<lparr>P_Ready := True\<rparr>]"

theorem HistoricBackup_is_private_witness:
  "\<exists>arch. HistoricBackup_handle ''s'' (example_principal ''v'') backup_db = Inr (arch, backup_db, []) \<and>
    map fst arch = [''game-2407.xy'', ''game-2407.m2'', ''game.r2''] \<and>
    IsSessionMember ''v'' ''s'' backup_db"
proof -
  let ?run = "HistoricBackup_handle ''s'' (example_principal ''v'') backup_db"
  have "case_sum (\<lambda>e. False) (\<lambda>(arch, d, ns). map fst arch = [''game-2407.xy'', ''game-2407.m2'', ''game.r2'']) ?run"
    by code_simp
  then obtain arch d' ns where run: "?run = Inr (arch, d', ns)"
    and names: "map fst arch = [''game-2407.xy'', ''game-2407.m2'', ''game.r2'']"
    by (cases ?run) auto
  have plain: "\<not> IsGlobalManager (example_principal ''v'')" "distinct (map rel_key (rels backup_db))"
    "\<not> IsSessionManager (Subject (example_principal ''v'')) ''s'' backup_db"
    by code_simp+
  obtain name data where "(name, data) \<in> set arch"
    using names by (cases arch) auto
  from HistoricBackup_is_private [OF run plain this] HistoricBackup_reads [OF run]
  show ?thesis using run names by (simp add: example_principal_def)
qed

end
