(* ===== verification/Auth.thy ===== *)
theory Auth
  imports Users GameFiles
begin

section \<open>Authentication\<close>

text \<open>
  \<open>auth/auth.go\<close>, \<open>restapi/auth_middleware.go\<close>, \<open>authenticate.go\<close>, \<open>refresh_token.go\<close> and
  \<open>user_helper.go\<close>: a user shows his nickname and API key and gets a signed token; every other request carries the
  token, and the middleware decides with which identity the request goes on. Two packages are
  parameters: \<open>jwt-go\<close> (signing claims, and checking a token at a time), and \<open>go-cache\<close> (its state and
  its operations, of which \<open>cache_Get\<close> reads the clock). The prometheus counters and the log
  line of a full cache are left out.
\<close>

record Claims =
  ClaimsPrincipal :: Principal
  ExpiresAt :: int

record jwt =
  SignedString :: "Claims \<Rightarrow> err + string"
  ParseWithClaims :: "int \<Rightarrow> string \<Rightarrow> err + Claims \<times> bool"

record 'c token_cache =
  cache_ItemCount :: "'c \<Rightarrow> int"
  cache_Get :: "int \<Rightarrow> string \<Rightarrow> 'c \<Rightarrow> Claims option"
  cache_Set :: "int \<Rightarrow> string \<Rightarrow> Claims \<Rightarrow> int \<Rightarrow> 'c \<Rightarrow> 'c"
  cache_DeleteExpired :: "int \<Rightarrow> 'c \<Rightarrow> 'c"

record 'c auth_env =
  env_jwt :: jwt
  env_cache :: "'c token_cache"
  cacheMaxSize :: int

definition ErrInvalidCredentials :: err where
  "ErrInvalidCredentials = OtherErr ''invalid credentials''"

subsection \<open>Credentials\<close>

record Credentials =
  Cr_Apikey :: string
  Cr_Nickname :: string

definition SystemUserNickName :: string where
  "SystemUserNickName = ''system''"

definition Authenticate :: "Credentials option \<Rightarrow> db \<Rightarrow> err + Claims" where
  "Authenticate credentials d = (case credentials of
     None \<Rightarrow> Inl ErrInvalidCredentials
   | Some c \<Rightarrow>
      if Cr_Apikey c = '''' \<or> Cr_Nickname c = '''' \<or> Cr_Nickname c = SystemUserNickName
        then Inl ErrInvalidCredentials
      else (case sql_first (\<lambda>u. U_State u \<noteq> UserInactive \<and> U_APIKey u = Some (Cr_Apikey c) \<and> U_Nickname u = Cr_Nickname c) (users d) of
          None \<Rightarrow> Inl ErrInvalidCredentials
        | Some u \<Rightarrow> Inr \<lparr>ClaimsPrincipal = \<lparr>Subject = U_ID u, IsGlobalManager = U_IsManager u,
             IsPending = (U_State u = UserPending), NickName = U_Nickname u\<rparr>, ExpiresAt = 0\<rparr>))"

definition BasicAuth :: "string \<Rightarrow> string \<Rightarrow> db \<Rightarrow> err + Claims" where
  "BasicAuth username password d = Authenticate (Some \<lparr>Cr_Apikey = password, Cr_Nickname = username\<rparr>) d"

text \<open>Whether the profile behind a token still counts, for the renewal of the token.\<close>

definition VerifUserIsValid :: "Principal \<Rightarrow> db \<Rightarrow> err + bool" where
  "VerifUserIsValid pr d = (case sql_first (\<lambda>u. U_ID u = Subject pr) (users d) of
     None \<Rightarrow> Inl ErrInvalidCredentials
   | Some u \<Rightarrow> and_then (scan_user u) (\<lambda>u. Inr (U_APIKey u \<noteq> Some '''' \<and> U_State u \<noteq> UserInactive)))"

subsection \<open>Tokens and their cache\<close>

definition addToCache :: "'c auth_env \<Rightarrow> int \<Rightarrow> string \<Rightarrow> Claims \<Rightarrow> 'c \<Rightarrow> 'c" where
  "addToCache env now token claims c =
    (if cache_ItemCount (env_cache env) c = cacheMaxSize env then c
     else let c1 = cache_Set (env_cache env) now token claims (ExpiresAt claims - now) c in
       if cache_ItemCount (env_cache env) c1 = cacheMaxSize env then cache_DeleteExpired (env_cache env) now c1 else c1)"

text \<open>Five minutes, in the seconds of a Unix time.\<close>

definition MakeToken :: "'c auth_env \<Rightarrow> int \<Rightarrow> Principal \<Rightarrow> 'c \<Rightarrow> (err + string) \<times> 'c" where
  "MakeToken env now pr c =
    (let claims = \<lparr>ClaimsPrincipal = pr, ExpiresAt = now + 300\<rparr> in
     case SignedString (env_jwt env) claims of
       Inl e \<Rightarrow> (Inl e, c)
     | Inr token \<Rightarrow> (Inr token, addToCache env now token claims c))"

definition has_prefix :: "string \<Rightarrow> string \<Rightarrow> bool" where
  "has_prefix p s = (take (length p) s = p)"

definition Auth :: "'c auth_env \<Rightarrow> int \<Rightarrow> string \<Rightarrow> 'c \<Rightarrow> (err + Claims) \<times> 'c" where
  "Auth env now header c =
    (if \<not> has_prefix ''Bearer '' header
       then (Inl (OtherErr (''Invalid Authorization header value. Expects Bearer <token>, got '' @ header)), c)
     else let token = drop 7 header in
       (case cache_Get (env_cache env) now token c of
          Some claims \<Rightarrow> (Inr claims, c)
        | None \<Rightarrow> (case ParseWithClaims (env_jwt env) now token of
            Inl e \<Rightarrow> (Inl (OtherErr (''Invalid token: '' @ Error_msg e)), c)
          | Inr (claims, valid) \<Rightarrow>
             if \<not> valid then (Inl (OtherErr ''Invalid token''), c)
             else (Inr claims, addToCache env now token claims c))))"

subsection \<open>The two handlers\<close>

definition Authenticate_Handle ::
    "'c auth_env \<Rightarrow> int \<Rightarrow> Credentials option \<Rightarrow> db \<Rightarrow> 'c \<Rightarrow> string response \<times> 'c" where
  "Authenticate_Handle env now credentials d c =
    (case (case Authenticate credentials d of
             Inl e \<Rightarrow> (Inl e, c) | Inr claims \<Rightarrow> MakeToken env now (ClaimsPrincipal claims) c) of
       (Inl e, c') \<Rightarrow> (if errors_Is e ErrInvalidCredentials then Failure 401 (Some (Error_msg e))
                      else Failure 500 (Some (Error_msg e)), c')
     | (Inr token, c') \<Rightarrow> (Success 200 token, c'))"

definition RefreshToken_handle :: "'c auth_env \<Rightarrow> int \<Rightarrow> Principal \<Rightarrow> db \<Rightarrow> 'c \<Rightarrow> (err + string) \<times> 'c" where
  "RefreshToken_handle env now pr d c =
    (case VerifUserIsValid pr d of
       Inl e \<Rightarrow> (Inl e, c)
     | Inr valid \<Rightarrow> if \<not> valid then (Inl ErrInvalidCredentials, c) else MakeToken env now pr c)"

definition RefreshToken_Handle :: "'c auth_env \<Rightarrow> int \<Rightarrow> Principal \<Rightarrow> db \<Rightarrow> 'c \<Rightarrow> string response \<times> 'c" where
  "RefreshToken_Handle env now pr d c =
    (case RefreshToken_handle env now pr d c of
       (Inl e, c') \<Rightarrow> (if errors_Is e ErrInvalidCredentials then Failure 403 (Some (Error_msg e))
                      else Failure 500 (Some (Error_msg e)), c')
     | (Inr token, c') \<Rightarrow> (Success 200 token, c'))"

subsection \<open>The middleware\<close>

text \<open>
  The regular expressions are anchored at the start, and some at the end; all else in them is literal but
  for the dot, which matches any rune except a newline. A \<open>None\<close> is a dot. \<open>rune_length\<close> is the number
  of bytes of the first rune in UTF-8; a byte that starts no valid sequence counts as one.
\<close>

definition is_cont :: "nat \<Rightarrow> bool" where
  "is_cont b = (0x80 \<le> b \<and> b \<le> 0xBF)"

definition rune_length :: "nat list \<Rightarrow> nat" where
  "rune_length bs = (case bs of
     b0 # b1 # b2 # b3 # _ \<Rightarrow>
       if 0xC2 \<le> b0 \<and> b0 \<le> 0xDF \<and> is_cont b1 then 2
       else if (b0 = 0xE0 \<and> 0xA0 \<le> b1 \<and> b1 \<le> 0xBF \<or> b0 = 0xED \<and> 0x80 \<le> b1 \<and> b1 \<le> 0x9F \<or>
           0xE1 \<le> b0 \<and> b0 \<le> 0xEF \<and> b0 \<noteq> 0xED \<and> is_cont b1) \<and> is_cont b2 then 3
       else if (b0 = 0xF0 \<and> 0x90 \<le> b1 \<and> b1 \<le> 0xBF \<or> b0 = 0xF4 \<and> 0x80 \<le> b1 \<and> b1 \<le> 0x8F \<or>
           0xF1 \<le> b0 \<and> b0 \<le> 0xF3 \<and> is_cont b1) \<and> is_cont b2 \<and> is_cont b3 then 4
       else 1
   | _ \<Rightarrow> 1)"

datatype path_pattern = Whole "char option list" | Prefix "char option list"

definition literal :: "string \<Rightarrow> char option list" where
  "literal s = map (\<lambda>ch. if ch = CHR ''.'' then None else Some ch) s"

fun match_chars :: "char option list \<Rightarrow> string \<Rightarrow> string option" where
  "match_chars [] s = Some s"
| "match_chars (p # ps) [] = None"
| "match_chars (p # ps) (ch # s) = (case p of
     None \<Rightarrow> if ch = CHR 0x0A then None
       else match_chars ps (drop (rune_length (map of_char (take 4 (ch # s)) @ [0, 0, 0])) (ch # s))
   | Some q \<Rightarrow> if ch = q then match_chars ps s else None)"

fun MatchString :: "path_pattern \<Rightarrow> string \<Rightarrow> bool" where
  "MatchString (Whole ps) s = (match_chars ps s = Some '''')"
| "MatchString (Prefix ps) s = (match_chars ps s \<noteq> None)"

definition publicAccess :: "path_pattern list" where
  "publicAccess = [Whole (literal ''/''), Whole (literal ''/main.js''), Whole (literal ''/reload/reload.js''),
     Prefix (literal ''/dist/''), Prefix (literal ''/sessions''), Prefix (literal ''/sign-in''), Prefix (literal ''/sign-out''),
     Prefix (literal ''/assets''), Prefix (literal ''/favicon.ico''), Whole (literal ''/api/healthz''),
     Whole (literal ''/api/v1/auth/authenticate''), Whole (literal ''/api/v1/auth/register''),
     Prefix (literal ''/assets''), Whole (literal ''/docs''), Whole (literal ''/swagger.json''), Whole (literal ''/metrics'')]"

definition basicAuthAccess :: "path_pattern list" where
  "basicAuthAccess = [Whole (literal ''/swagger.json''), Whole (literal ''/api/docs''), Prefix (literal ''/api/docs/'')]"

definition matchPublicAccess :: "string \<Rightarrow> bool" where
  "matchPublicAccess path = list_ex (\<lambda>r. MatchString r path) publicAccess"

definition matchBasicAuthAccess :: "string \<Rightarrow> bool" where
  "matchBasicAuthAccess path = list_ex (\<lambda>r. MatchString r path) basicAuthAccess"

text \<open>What becomes of a request: refused with 401, or passed on, with an identity in its context or without.\<close>

datatype passage = Unauthorized | Next "Claims option"

definition string_of_bytes :: "8 word list \<Rightarrow> string" where
  "string_of_bytes bs = map (\<lambda>b. char_of (unat b)) bs"

text \<open>The branch for a bearer token, and for a request without an \<open>Authorization\<close> header.\<close>

definition token_access :: "'c auth_env \<Rightarrow> int \<Rightarrow> string \<Rightarrow> string \<Rightarrow> 'c \<Rightarrow> passage \<times> 'c" where
  "token_access env now path header c =
    (if header \<noteq> '''' then
       (case Auth env now header c of
          (Inl e, c') \<Rightarrow> (Unauthorized, c')
        | (Inr claims, c') \<Rightarrow> (Next (Some claims), c'))
     else if matchPublicAccess path then (Next None, c)
     else (Unauthorized, c))"

definition AuthMiddleware :: "'c auth_env \<Rightarrow> int \<Rightarrow> string \<Rightarrow> string \<Rightarrow> db \<Rightarrow> 'c \<Rightarrow> passage \<times> 'c" where
  "AuthMiddleware env now path header d c =
    (if matchBasicAuthAccess path then
       (if has_prefix ''Basic '' header then
          (case B64Decode (drop 6 header) of
             Inl e \<Rightarrow> (Unauthorized, c)
           | Inr bs \<Rightarrow>
              let data = string_of_bytes bs; name = takeWhile (\<lambda>ch. ch \<noteq> CHR '':'') data in
              if length name < length data then
                (case BasicAuth name (drop (length name + 1) data) d of
                   Inl e \<Rightarrow> (Unauthorized, c)
                 | Inr claims \<Rightarrow> (Next (Some claims), c))
              else token_access env now path header c)
        else (Next None, c))
     else token_access env now path header c)"

subsection \<open>Who gets in\<close>

lemma match_literal: "match_chars (map Some p) s = Some t \<longleftrightarrow> s = p @ t"
proof (induction p arbitrary: s)
  case (Cons q p)
  then show ?case by (cases s) auto
qed auto

lemma literal_no_dot: "CHR ''.'' \<notin> set p \<Longrightarrow> literal p = map Some p"
  by (induction p) (auto simp: literal_def)

lemma has_prefix_iff: "has_prefix p s \<longleftrightarrow> (\<exists>t. s = p @ t)"
proof
  assume "has_prefix p s"
  then have "s = p @ drop (length p) s" by (metis append_take_drop_id has_prefix_def)
  then show "\<exists>t. s = p @ t" by blast
qed (auto simp: has_prefix_def)

lemma public_api_paths:
  "matchPublicAccess (''/api/v1/'' @ rest) \<longleftrightarrow> rest = ''auth/authenticate'' \<or> rest = ''auth/register''"
proof -
  have "literal ''/api/v1/auth/authenticate'' = map Some ''/api/v1/auth/authenticate''"
    "literal ''/api/v1/auth/register'' = map Some ''/api/v1/auth/register''"
    by (rule literal_no_dot, simp)+
  then have "MatchString (Whole (literal ''/api/v1/auth/authenticate'')) (''/api/v1/'' @ rest) \<longleftrightarrow>
      ''/api/v1/'' @ rest = ''/api/v1/auth/authenticate'' @ ''''"
    "MatchString (Whole (literal ''/api/v1/auth/register'')) (''/api/v1/'' @ rest) \<longleftrightarrow>
      ''/api/v1/'' @ rest = ''/api/v1/auth/register'' @ ''''"
    by (simp_all only: MatchString.simps match_literal)
  then show ?thesis by (simp add: matchPublicAccess_def publicAccess_def literal_def)
qed

lemma no_basic_api_path: "\<not> matchBasicAuthAccess (''/api/v1/'' @ rest)"
  by (simp add: matchBasicAuthAccess_def basicAuthAccess_def literal_def)

lemma Authenticate_Inr:
  assumes "Authenticate (Some \<lparr>Cr_Apikey = key, Cr_Nickname = nick\<rparr>) d = Inr claims"
  shows "\<exists>u \<in> set (users d). U_State u \<noteq> UserInactive \<and> U_APIKey u = Some key \<and> key \<noteq> '''' \<and> U_Nickname u = nick \<and>
    nick \<noteq> SystemUserNickName \<and> ClaimsPrincipal claims = \<lparr>Subject = U_ID u, IsGlobalManager = U_IsManager u,
      IsPending = (U_State u = UserPending), NickName = nick\<rparr>"
  using assms by (auto simp: Authenticate_def split: if_splits option.splits dest!: sql_first_Some)

text \<open>
  Below \<open>/api/v1/\<close> a request only reaches a handler without an identity on the two paths with which
  one logs in and registers, and only without an \<open>Authorization\<close> header. Everywhere else under this path it needs a
  bearer token that is in the cache or that the token library accepts as valid at this time, and the identity is the one of this
  token. A name and a password never suffice there.
\<close>

lemma AuthMiddleware_guards_the_api:
  assumes "has_prefix ''/api/v1/'' path"
  shows "case fst (AuthMiddleware env now path header d c) of
     Unauthorized \<Rightarrow> True
   | Next None \<Rightarrow> header = '''' \<and> (path = ''/api/v1/auth/authenticate'' \<or> path = ''/api/v1/auth/register'')
   | Next (Some claims) \<Rightarrow> \<exists>token. header = ''Bearer '' @ token \<and>
       (cache_Get (env_cache env) now token c = Some claims \<or> ParseWithClaims (env_jwt env) now token = Inr (claims, True))"
proof -
  obtain rest where path: "path = ''/api/v1/'' @ rest" using assms by (auto simp: has_prefix_iff)
  have public: "matchPublicAccess path \<longleftrightarrow> path = ''/api/v1/auth/authenticate'' \<or> path = ''/api/v1/auth/register''"
    unfolding path public_api_paths by simp
  have access: "AuthMiddleware env now path header d c = token_access env now path header c"
    using no_basic_api_path by (simp add: AuthMiddleware_def path)
  show ?thesis
  proof (cases "header = ''''")
    case True
    then show ?thesis using public unfolding access by (simp add: token_access_def)
  next
    case False
    show ?thesis
    proof (cases "Auth env now header c")
      case (Pair r c')
      show ?thesis
      proof (cases r)
        case (Inr claims)
        then have bearer: "has_prefix ''Bearer '' header" using Pair by (auto simp: Auth_def split: if_splits)
        then obtain token where token: "header = ''Bearer '' @ token" unfolding has_prefix_iff by blast
        have "cache_Get (env_cache env) now token c = Some claims \<or> ParseWithClaims (env_jwt env) now token = Inr (claims, True)"
          using Pair Inr bearer by (auto simp: Auth_def token Let_def split: option.splits sum.splits if_splits)
        moreover have "AuthMiddleware env now path header d c = (Next (Some claims), c')"
          unfolding access using False Pair Inr by (simp add: token_access_def)
        ultimately show ?thesis using token by simp
      qed (use False Pair in \<open>simp add: access token_access_def\<close>)
    qed
  qed
qed

text \<open>An instance: tokens are the claims in clear, with a mark; the cache is an association list that never fills.\<close>

definition example_claims :: "id \<Rightarrow> Claims" where
  "example_claims u = \<lparr>ClaimsPrincipal = example_principal u, ExpiresAt = 1000\<rparr>"

definition example_env :: "(string \<times> Claims) list auth_env" where
  "example_env = \<lparr>
     env_jwt = \<lparr>SignedString = (\<lambda>cl. Inr (''t'' @ Subject (ClaimsPrincipal cl))),
       ParseWithClaims = (\<lambda>now t. case t of ch # u \<Rightarrow> Inr (example_claims u, ch = CHR ''t'' \<and> now < 1000)
         | [] \<Rightarrow> Inl (OtherErr ''no token''))\<rparr>,
     env_cache = \<lparr>cache_ItemCount = (\<lambda>c. int (length c)),
       cache_Get = (\<lambda>now t c. case sql_first (\<lambda>e. fst e = t) c of None \<Rightarrow> None
         | Some e \<Rightarrow> if now < ExpiresAt (snd e) then Some (snd e) else None),
       cache_Set = (\<lambda>now t cl ttl c. (t, cl) # c), cache_DeleteExpired = (\<lambda>now c. c)\<rparr>,
     cacheMaxSize = 10000\<rparr>"

lemma AuthMiddleware_guards_the_api_witness:
  "fst (AuthMiddleware example_env 5 ''/api/v1/sessions'' ''Bearer tu'' (example_db Pending True) []) = Next (Some (example_claims ''u'')) \<and>
   (\<exists>token. ''Bearer tu'' = ''Bearer '' @ token \<and>
     (cache_Get (env_cache example_env) 5 token [] = Some (example_claims ''u'') \<or>
      ParseWithClaims (env_jwt example_env) 5 token = Inr (example_claims ''u'', True)))"
proof -
  have run: "fst (AuthMiddleware example_env 5 ''/api/v1/sessions'' ''Bearer tu'' (example_db Pending True) []) =
      Next (Some (example_claims ''u''))"
    by code_simp
  have "has_prefix ''/api/v1/'' ''/api/v1/sessions''" by code_simp
  from AuthMiddleware_guards_the_api [OF this, where env = example_env and now = 5 and header = "''Bearer tu''"
      and d = "example_db Pending True" and c = "[]"] run
  show ?thesis by simp
qed

subsection \<open>Renewing a token\<close>

text \<open>
  Renewing a token asks the database only whether the user still exists, has an API key and is not
  inactive. The new token repeats the rights of the old one for another five minutes: a global
  manager who was demoted, or a user whose API key was reset, keeps his old rights as long as he renews in time.
\<close>

lemma RefreshToken_keeps_the_old_rights:
  assumes "distinct (map U_ID (users d))" "u \<in> set (users d)" "U_ID u = Subject pr"
    and "U_APIKey u = Some key" "key \<noteq> ''''" "U_State u \<noteq> UserInactive"
    and "SignedString (env_jwt env) \<lparr>ClaimsPrincipal = pr, ExpiresAt = now + 300\<rparr> = Inr token"
  shows "fst (RefreshToken_Handle env now pr d c) = Success 200 token"
proof -
  have "sql_first (\<lambda>x. U_ID x = Subject pr) (users d) = Some u"
    using sql_first_key [OF assms(1,2)] assms(3) by simp
  then have "VerifUserIsValid pr d = Inr True" using assms(4-6) by (simp add: VerifUserIsValid_def scan_user_def)
  then show ?thesis using assms(7) by (simp add: RefreshToken_Handle_def RefreshToken_handle_def MakeToken_def Let_def)
qed

text \<open>\<open>u\<close> is no manager in the database, the token says he is one.\<close>

lemma RefreshToken_keeps_the_old_rights_witness:
  "fst (RefreshToken_Handle example_env 5 ((example_principal ''u'')\<lparr>IsGlobalManager := True\<rparr>) (example_db Pending True) []) =
     Success 200 ''tu'' \<and> \<not> list_ex U_IsManager (users (example_db Pending True))"
proof -
  let ?pr = "(example_principal ''u'')\<lparr>IsGlobalManager := True\<rparr>"
  have dist: "distinct (map U_ID (users (example_db Pending True)))" and state: "U_State (example_user ''u'') \<noteq> UserInactive"
    and sign: "SignedString (env_jwt example_env) \<lparr>ClaimsPrincipal = ?pr, ExpiresAt = 5 + 300\<rparr> = Inr ''tu''"
    and none: "\<not> list_ex U_IsManager (users (example_db Pending True))"
    by code_simp+
  have user: "example_user ''u'' \<in> set (users (example_db Pending True))" "U_ID (example_user ''u'') = Subject ?pr"
    "U_APIKey (example_user ''u'') = Some ''u''" "''u'' \<noteq> ''''"
    by (simp_all add: example_defs)
  show ?thesis using RefreshToken_keeps_the_old_rights [OF dist user state sign] none by blast
qed

text \<open>A login does look at the database: the claims are those of the row.\<close>

lemma BasicAuth_Inr: "BasicAuth nick key d = Inr claims \<Longrightarrow> \<exists>u \<in> set (users d). U_Nickname u = nick \<and> U_APIKey u = Some key \<and>
    IsGlobalManager (ClaimsPrincipal claims) = U_IsManager u \<and> Subject (ClaimsPrincipal claims) = U_ID u"
  unfolding BasicAuth_def by (drule Authenticate_Inr) auto

end
