(* ===== verification/Notifications.thy ===== *)
theory Notifications
  imports Sessions Membership Examples
begin

section \<open>Delivery of notifications\<close>

text \<open>
  \<open>notifications_get.go\<close> and \<open>notifications_responder.go\<close>: a client opens a WebSocket, and each message
  that NATS hands over is sent to it if its user may see the resource. The messages are those of the
  theory \<open>Notify\<close>; the check runs when a message is delivered, on the database of that time. NATS, the
  WebSocket protocol, pings and deadlines are not modelled.
\<close>

subsection \<open>Metadata\<close>

text \<open>
  \<open>ParseMetadata\<close> marshals the metadata and unmarshals it into the wanted type: nothing without metadata,
  and otherwise each field that is there under its JSON name, with the zero value for the others.
\<close>

fun json_member_ids :: "metadata \<Rightarrow> id list" where
  "json_member_ids (SessionDeleteMeta ids priv) = ids"
| "json_member_ids _ = []"

fun json_is_private :: "metadata \<Rightarrow> bool" where
  "json_is_private (SessionDeleteMeta ids priv) = priv"
| "json_is_private (SessionMemberLeftMeta u priv) = priv"
| "json_is_private _ = False"

fun json_left_user_id :: "metadata \<Rightarrow> id" where
  "json_left_user_id (SessionMemberLeftMeta u priv) = u"
| "json_left_user_id _ = ''''"

fun json_user_profile_id :: "metadata \<Rightarrow> id" where
  "json_user_profile_id (InvitationDeleteMeta u) = u"
| "json_user_profile_id (RegistrationApprovalMeta u nick) = u"
| "json_user_profile_id _ = ''''"

fun json_session_id :: "metadata \<Rightarrow> id" where
  "json_session_id (PlayerControlMeta s i ai) = s"
| "json_session_id _ = ''''"

definition ParseMetadata :: "(metadata \<Rightarrow> 'a) \<Rightarrow> ResourceChange \<Rightarrow> 'a option" where
  "ParseMetadata decode change = (if N_Metadata change = NoMeta then None else Some (decode (N_Metadata change)))"

subsection \<open>Access to a message\<close>

definition canAccessDeletedSession :: "Principal \<Rightarrow> ResourceChange \<Rightarrow> bool" where
  "canAccessDeletedSession pr change =
    (case ParseMetadata (\<lambda>m. (json_member_ids m, json_is_private m)) change of
       None \<Rightarrow> False
     | Some (memberIDs, isPrivate) \<Rightarrow>
        if \<not> isPrivate then True else list_ex (\<lambda>memberID. memberID = Subject pr) memberIDs)"

definition canAccessSession :: "Principal \<Rightarrow> id \<Rightarrow> db \<Rightarrow> bool" where
  "canAccessSession pr sid d = CanAccessSession (Subject pr) sid d"

definition canAccessSessionMemberLeft :: "Principal \<Rightarrow> ResourceChange \<Rightarrow> id \<Rightarrow> db \<Rightarrow> bool" where
  "canAccessSessionMemberLeft pr change sid d =
    (case ParseMetadata json_left_user_id change of
       None \<Rightarrow> canAccessSession pr sid d
     | Some leftUserID \<Rightarrow> if leftUserID = Subject pr then True else canAccessSession pr sid d)"

definition canAccessInvitation :: "Principal \<Rightarrow> ResourceChange \<Rightarrow> id \<Rightarrow> resource_action \<Rightarrow> db \<Rightarrow> bool" where
  "canAccessInvitation pr change iid action d =
    (if action = Deleted then
       (case ParseMetadata json_user_profile_id change of None \<Rightarrow> False | Some u \<Rightarrow> u = Subject pr)
     else (case sql_first (\<lambda>i. I_ID i = iid) (invitations d) of
        None \<Rightarrow> False | Some i \<Rightarrow> I_UserProfileID i = Subject pr))"

definition canAccessRace :: "Principal \<Rightarrow> id \<Rightarrow> db \<Rightarrow> bool" where
  "canAccessRace pr raceID d = (case sql_first (\<lambda>r. Ra_ID r = raceID) (races d) of
     None \<Rightarrow> False | Some r \<Rightarrow> Ra_UserID r = Subject pr)"

definition canAccessRuleset :: "Principal \<Rightarrow> id \<Rightarrow> db \<Rightarrow> bool" where
  "canAccessRuleset pr rulesetID d = (case sql_first (\<lambda>s. S_RulesetID s = Some rulesetID) (sessions d) of
     None \<Rightarrow> False | Some s \<Rightarrow> canAccessSession pr (S_ID s) d)"

definition canAccessSessionPlayerRace :: "Principal \<Rightarrow> id \<Rightarrow> db \<Rightarrow> bool" where
  "canAccessSessionPlayerRace pr sprID d = (case sql_first (\<lambda>p. P_ID p = sprID) (sprs d) of
     None \<Rightarrow> False | Some p \<Rightarrow> canAccessSession pr (P_SessionID p) d)"

definition canAccessPendingRegistration :: "Principal \<Rightarrow> ResourceChange \<Rightarrow> bool" where
  "canAccessPendingRegistration pr change = (if N_ID change = '''' then False else N_ID change = Subject pr)"

definition canAccessPlayerControl :: "Principal \<Rightarrow> ResourceChange \<Rightarrow> db \<Rightarrow> bool" where
  "canAccessPlayerControl pr change d =
    (case ParseMetadata json_session_id change of
       None \<Rightarrow> if N_ID change = '''' then False else IsSessionManager (Subject pr) (N_ID change) d
     | Some sid \<Rightarrow> IsSessionManager (Subject pr) sid d)"

definition canAccess :: "Principal \<Rightarrow> ResourceChange \<Rightarrow> db \<Rightarrow> bool" where
  "canAccess pr change d =
    (if IsGlobalManager pr then True
     else case N_Type change of
       TSession \<Rightarrow>
         if N_Action change = Deleted then canAccessDeletedSession pr change
         else if N_Action change = MemberLeft then canAccessSessionMemberLeft pr change (N_ID change) d
         else canAccessSession pr (N_ID change) d
     | TInvitation \<Rightarrow> canAccessInvitation pr change (N_ID change) (N_Action change) d
     | TRace \<Rightarrow> canAccessRace pr (N_ID change) d
     | TRuleset \<Rightarrow> canAccessRuleset pr (N_ID change) d
     | TSessionPlayerRace \<Rightarrow> canAccessSessionPlayerRace pr (N_ID change) d
     | TSessionTurn \<Rightarrow> canAccessSession pr (N_ID change) d
     | TOrderStatus \<Rightarrow> canAccessSession pr (N_ID change) d
     | TPendingRegistration \<Rightarrow> canAccessPendingRegistration pr change
     | TPlayerControl \<Rightarrow> canAccessPlayerControl pr change d)"

text \<open>The loop of a connection: each message with the database at its delivery; what the client receives.\<close>

fun stream :: "Principal \<Rightarrow> (ResourceChange \<times> db) list \<Rightarrow> ResourceChange list" where
  "stream pr [] = []"
| "stream pr ((change, d) # rest) =
    (if \<not> canAccess pr change d then stream pr rest else change # stream pr rest)"

subsection \<open>Opening the connection\<close>

text \<open>\<open>strings.ToLower\<close> on a header, where only ASCII letters matter for the comparisons made.\<close>

definition ToLower :: "string \<Rightarrow> string" where
  "ToLower s = map (\<lambda>c. if CHR ''A'' \<le> c \<and> c \<le> CHR ''Z'' then char_of (of_char c + (32::nat)) else c) s"

fun header_values :: "string \<Rightarrow> (string \<times> string list) list \<Rightarrow> string \<Rightarrow> string" where
  "header_values name [] found = found"
| "header_values name ((k, v) # headers) found =
    header_values name headers (if ToLower k = name then concat v else found)"

definition wantsWebSocket :: "(string \<times> string list) list \<Rightarrow> bool" where
  "wantsWebSocket headers =
    (ToLower (header_values ''connection'' headers '''') = ''upgrade'' \<and>
     header_values ''upgrade'' headers '''' = ''websocket'')"

text \<open>The stream, or the error for a request that is no upgrade.\<close>

definition Notifications_Handle ::
    "(string \<times> string list) list \<Rightarrow> Principal \<Rightarrow> (ResourceChange \<times> db) list \<Rightarrow> (ResourceChange list) response" where
  "Notifications_Handle headers pr changes =
    (if \<not> wantsWebSocket headers then Failure 400 (Some ''This endpoint requires a WebSocket upgrade'')
     else Success 101 (stream pr changes))"

subsection \<open>Who hears of what\<close>

lemma stream_filter: "stream pr changes = map fst (filter (\<lambda>(change, d). canAccess pr change d) changes)"
  by (induction pr changes rule: stream.induct) simp_all

text \<open>
  \<^bold>\<open>C26\<close> The end of a session reaches exactly its audience. When the message that a session was deleted is
  delivered, the session is gone from the database; yet a user who is no global manager receives it exactly if
  before the deletion he could see the session: because it was public, because he was a member, or because he was
  invited. This holds whatever has happened to the database between the deletion and the delivery.
\<close>

theorem deletion_reaches_exactly_the_audience:
  assumes "db_ok d" "SessionDelete_handle sid pr d = Inr (x, d', ns)" "\<not> IsGlobalManager user"
  shows "(\<exists>change. ns = [change] \<and> stream user [(change, later)] =
    (if CanAccessSession (Subject user) sid d then [change] else []))"
proof -
  obtain s where s: "get_session sid d = Inr s"
    and ns: "ns = [PublishSessionDelete sid (getSessionMemberIDs sid d @ GetSessionInviteeIDs sid d) (S_Private s)]"
    using assms(2) by (auto simp: SessionDelete_handle_def Let_def and_then_eq_Inr split: sum.splits if_splits)
  have public: "IsSessionPublic sid d \<longleftrightarrow> \<not> S_Private s"
    using s by (auto simp: IsSessionPublic_def get_session_def split: option.splits)
  have ids: "Subject user \<in> set (getSessionMemberIDs sid d @ GetSessionInviteeIDs sid d) \<longleftrightarrow>
      IsSessionMember (Subject user) sid d \<or> IsInvitedToSession (Subject user) sid d"
    by (auto simp: getSessionMemberIDs_def GetSessionInviteeIDs_def IsSessionMember_iff
        IsInvitedToSession_iff rel_key_def invitation_key_def)
  have "canAccess user (PublishSessionDelete sid (getSessionMemberIDs sid d @ GetSessionInviteeIDs sid d) (S_Private s)) later \<longleftrightarrow>
      CanAccessSession (Subject user) sid d"
    unfolding CanAccessSession_iff public using assms(3) ids
    by (auto simp: canAccess_def PublishSessionDelete_def PublishWithMetadata_def canAccessDeletedSession_def
        ParseMetadata_def list_ex_iff)
  then show ?thesis by (simp add: ns)
qed

theorem deletion_reaches_exactly_the_audience_witness:
  "\<exists>x d' change. SessionDelete_handle ''s'' (example_principal ''u'') (example_db Pending True) = Inr (x, d', [change]) \<and>
    stream (example_principal ''w'') [(change, empty_db)] = [change] \<and>
    stream (example_principal ''z'') [(change, empty_db)] = []"
proof -
  let ?run = "SessionDelete_handle ''s'' (example_principal ''u'') (example_db Pending True)"
  have "isl ?run = False" by code_simp
  then obtain x d' ns where run: "?run = Inr (x, d', ns)" by (cases ?run) auto
  have *: "\<not> IsGlobalManager (example_principal u)" for u by (simp add: example_principal_def)
  have "CanAccessSession ''w'' ''s'' (example_db Pending True)" "\<not> CanAccessSession ''z'' ''s'' (example_db Pending True)"
    by code_simp+
  then have heard: "\<exists>change. ns = [change] \<and> stream (example_principal ''w'') [(change, empty_db)] = [change]"
    "\<exists>change. ns = [change] \<and> stream (example_principal ''z'') [(change, empty_db)] = []"
    using deletion_reaches_exactly_the_audience [OF example_db_ok run * [of "''w''"], of empty_db]
      deletion_reaches_exactly_the_audience [OF example_db_ok run * [of "''z''"], of empty_db]
    by (simp_all add: example_principal_def del: stream.simps)
  then obtain change where "ns = [change]" by blast
  then show ?thesis using run heard by (simp del: stream.simps)
qed

text \<open>The member who left hears of it, even of a private session that he can no longer see.\<close>

lemma leaver_is_told: "canAccess user (PublishSessionMemberLeft sid (Subject user) priv) d"
  by (simp add: canAccess_def PublishSessionMemberLeft_def PublishWithMetadata_def canAccessSessionMemberLeft_def ParseMetadata_def)

text \<open>A change of control is only for managers of the session.\<close>

lemma control_only_for_managers:
  "\<not> IsGlobalManager user \<Longrightarrow> canAccess user (PublishPlayerControlUpdate sid i ai) d \<longleftrightarrow> IsSessionManager (Subject user) sid d"
  by (simp add: canAccess_def PublishPlayerControlUpdate_def PublishWithMetadata_def canAccessPlayerControl_def ParseMetadata_def)

text \<open>
  A removed race cannot be looked up any more, so its owner never hears of the removal; neither do the others of a
  removed player.
\<close>

lemma removed_rows_reach_no_one:
  "\<not> IsGlobalManager user \<Longrightarrow> i \<notin> Ra_ID ` set (races d) \<Longrightarrow> \<not> canAccess user (PublishRaceDelete i) d"
  "\<not> IsGlobalManager user \<Longrightarrow> i \<notin> P_ID ` set (sprs d) \<Longrightarrow> \<not> canAccess user (PublishSessionPlayerRaceDelete i) d"
  by (auto simp: canAccess_def PublishRaceDelete_def PublishSessionPlayerRaceDelete_def Publish_def canAccessRace_def
      canAccessSessionPlayerRace_def split: option.splits dest!: sql_first_Some)

end
