(* ===== verification/DataStream.thy ===== *)
theory DataStream
  imports Prelude
begin

section \<open>The data streams: records as JSON\<close>

text \<open>
  \<open>sync/schemas.go\<close>: the records that the synchronisation messages carry, how each is written
  as a JSON object and read back. A JSON text is its tree. The iterator of
  \<open>github.com/json-iterator/go\<close> is not part of the repository: \<open>json_lib\<close> holds its readers
  as parameters, and \<open>json_lib_ok\<close> what the code relies on. A reader is applied to \<open>Some v\<close>
  where the iterator stands before the value \<open>v\<close>, and to \<open>None\<close> where the value of the field
  has been consumed already and the next token is a comma or a brace. A slice is \<open>None\<close> when it is
  nil, and its elements are pointers, \<open>None\<close> when nil. Records of a stream have the prefix
  \<open>J\<close>, the rows of the database do not.
\<close>

datatype json =
    JNull
  | JBool bool
  | JInt int
  | JStr string
  | JArr "json list"
  | JObj "(string \<times> json) list"

datatype stream_error =
    Not_an_object
  | Not_an_array
  | Is_true string
  | Unreadable string
  | Wrong_type string string
  | Missing string
  | Not_consumed string
  | Unknown_type string
  | Unknown_operation string
  | Unknown_property string
  | Data_not_an_object

record JUserProfileSessionRel =
  jx_IsManager :: bool
  jx_SessionId :: string
  jx_UserProfileId :: string

record json_lib =
  ReadObject :: "json \<Rightarrow> (string \<times> json) list option"
  ReadArray :: "json \<Rightarrow> json list option"
  ReadString :: "json option \<Rightarrow> string option"
  ReadBool :: "json option \<Rightarrow> bool option"
  ReadInt :: "json option \<Rightarrow> int option"
  ReadUint64 :: "json option \<Rightarrow> int option"
  ReadRels :: "json option \<Rightarrow> JUserProfileSessionRel option list option option"
  ReadB64s :: "json option \<Rightarrow> string option list option option"
  WriteRels :: "JUserProfileSessionRel option list option \<Rightarrow> json"
  WriteB64s :: "string option list option \<Rightarrow> json"

definition int64 :: "int \<Rightarrow> bool" where
  "int64 n = (- (2 ^ 63) \<le> n \<and> n < 2 ^ 63)"

text \<open>
  What is relied on: a value is read as a value of its own kind, nothing can be read once the value
  has been consumed, and the two slices of records are read as they were written, as null or an
  array.
\<close>

definition json_lib_ok :: "json_lib \<Rightarrow> bool" where
  "json_lib_ok lib = (
    (\<forall>fs. ReadObject lib (JObj fs) = Some fs) \<and>
    (\<forall>vs. ReadArray lib (JArr vs) = Some vs) \<and>
    (\<forall>x. ReadString lib (Some (JStr x)) = Some x) \<and> ReadString lib None = None \<and>
    (\<forall>b. ReadBool lib (Some (JBool b)) = Some b) \<and> ReadBool lib None = None \<and>
    (\<forall>n. int64 n \<longrightarrow> ReadInt lib (Some (JInt n)) = Some n) \<and> ReadInt lib None = None \<and>
    (\<forall>n. 0 \<le> n \<and> int64 n \<longrightarrow> ReadUint64 lib (Some (JInt n)) = Some n) \<and> ReadUint64 lib None = None \<and>
    (\<forall>x. ReadRels lib (Some (WriteRels lib x)) = Some x) \<and> ReadRels lib None = None \<and>
    (\<forall>x. ReadB64s lib (Some (WriteB64s lib x)) = Some x) \<and> ReadB64s lib None = None \<and>
    (\<forall>x b. WriteRels lib x \<noteq> JBool b) \<and> (\<forall>x b. WriteB64s lib x \<noteq> JBool b))"

subsection \<open>Reading a field\<close>

text \<open>
  Every field that is not a boolean is read after the same prologue: \<open>true\<close> is an error, and
  \<open>false\<close> is consumed, \<open>which we accept and ignore for now\<close>, before the value is read.
\<close>

definition accept_false :: "string \<Rightarrow> json \<Rightarrow> stream_error + json option" where
  "accept_false f v = (case v of
     JBool b \<Rightarrow> if b then Inl (Is_true f) else Inr None
   | _ \<Rightarrow> Inr (Some v))"

definition read_with ::
    "(json option \<Rightarrow> 'a option) \<Rightarrow> string \<Rightarrow> json \<Rightarrow> stream_error + 'a" where
  "read_with rd f v = and_then (accept_false f v) (\<lambda>p.
     case rd p of None \<Rightarrow> Inl (Unreadable f) | Some x \<Rightarrow> Inr x)"

definition read_string :: "json_lib \<Rightarrow> string \<Rightarrow> json \<Rightarrow> stream_error + string" where
  "read_string lib f v = read_with (ReadString lib) f v"

definition read_int :: "json_lib \<Rightarrow> string \<Rightarrow> json \<Rightarrow> stream_error + int" where
  "read_int lib f v = read_with (ReadInt lib) f v"

definition read_rels ::
    "json_lib \<Rightarrow> string \<Rightarrow> json \<Rightarrow> stream_error + JUserProfileSessionRel option list option" where
  "read_rels lib f v = read_with (ReadRels lib) f v"

definition read_b64s :: "json_lib \<Rightarrow> string \<Rightarrow> json \<Rightarrow> stream_error + string option list option" where
  "read_b64s lib f v = read_with (ReadB64s lib) f v"

definition read_bool :: "json_lib \<Rightarrow> string \<Rightarrow> json \<Rightarrow> stream_error + bool" where
  "read_bool lib f v = (case ReadBool lib (Some v) of None \<Rightarrow> Inl (Unreadable f) | Some b \<Rightarrow> Inr b)"

definition read_type :: "json_lib \<Rightarrow> string \<Rightarrow> string \<Rightarrow> json \<Rightarrow> stream_error + string" where
  "read_type lib name f v = and_then (read_string lib f v) (\<lambda>x.
     if x \<noteq> name then Inl (Wrong_type name x) else Inr x)"

subsection \<open>Reading an object\<close>

text \<open>
  The loop \<open>for field := iter.ReadObject(); field != ""; ...\<close>: it ends with the object or at the
  first field with an empty name, and a field that has been read sets its \<open>Received\<close> flag, when it
  has one. The required fields are checked after the loop.
\<close>

definition received :: "string list \<Rightarrow> string \<Rightarrow> string list \<Rightarrow> string list" where
  "received req f flags = (if f \<in> set req then f # flags else flags)"

fun read_object ::
    "(string \<Rightarrow> json \<Rightarrow> 's \<Rightarrow> stream_error + 's) \<Rightarrow> string list \<Rightarrow> (string \<times> json) list \<Rightarrow> 's \<Rightarrow>
     string list \<Rightarrow> stream_error + ('s \<times> string list)" where
  "read_object step req [] s flags = Inr (s, flags)"
| "read_object step req ((f, v) # fs) s flags =
    (if f = '''' then Inr (s, flags)
     else and_then (step f v s) (\<lambda>s'. read_object step req fs s' (received req f flags)))"

definition check_required :: "string list \<Rightarrow> string list \<Rightarrow> 's \<Rightarrow> stream_error + 's" where
  "check_required req flags s = (case List.find (\<lambda>f. f \<notin> set flags) req of
     None \<Rightarrow> Inr s
   | Some f \<Rightarrow> Inl (Missing f))"

definition unmarshal ::
    "json_lib \<Rightarrow> (string \<Rightarrow> json \<Rightarrow> 's \<Rightarrow> stream_error + 's) \<Rightarrow> string list \<Rightarrow> 's \<Rightarrow> json \<Rightarrow>
     stream_error + 's" where
  "unmarshal lib step req z v = (case ReadObject lib v of
     None \<Rightarrow> Inl Not_an_object
   | Some fs \<Rightarrow> and_then (read_object step req fs z []) (\<lambda>(s, flags). check_required req flags s))"

text \<open>A field with \<open>omitempty\<close> is written when it is not the zero of its type.\<close>

definition omit_if :: "bool \<Rightarrow> 'a \<Rightarrow> 'a list" where
  "omit_if b x = (if b then [] else [x])"

subsection \<open>Rules for reading what was written\<close>

declare read_object.simps [simp del]

lemma accept_false_other: "(\<And>b. v \<noteq> JBool b) \<Longrightarrow> accept_false f v = Inr (Some v)"
  by (cases v) (auto simp: accept_false_def)

lemma json_reads:
  assumes "json_lib_ok lib"
  shows "read_string lib f (JStr x) = Inr x"
    "read_bool lib f (JBool b) = Inr b"
    "int64 n \<Longrightarrow> read_int lib f (JInt n) = Inr n"
    "read_rels lib f (WriteRels lib r) = Inr r"
    "read_b64s lib f (WriteB64s lib l) = Inr l"
    "read_type lib name f (JStr name) = Inr name"
proof -
  have "accept_false f (WriteRels lib r) = Inr (Some (WriteRels lib r))"
    "accept_false f (WriteB64s lib l) = Inr (Some (WriteB64s lib l))"
    using assms by (simp_all add: json_lib_ok_def accept_false_other)
  then show "read_rels lib f (WriteRels lib r) = Inr r" "read_b64s lib f (WriteB64s lib l) = Inr l"
    using assms by (simp_all add: json_lib_ok_def read_rels_def read_b64s_def read_with_def)
qed (use assms in \<open>simp_all add: json_lib_ok_def read_string_def read_bool_def read_int_def
    read_type_def read_with_def accept_false_def\<close>)

lemma unmarshalI:
  assumes "json_lib_ok lib" "read_object step req fs z [] = Inr (s, flags)"
    "check_required req flags s = Inr s" "s = s'"
  shows "unmarshal lib step req z (JObj fs) = Inr s'"
  using assms by (simp add: unmarshal_def json_lib_ok_def)

lemma reads_cons:
  assumes "f \<noteq> ''''" "step f v s = Inr s'"
    "read_object step req rest s' (received req f flags) = R"
  shows "read_object step req ([(f, v)] @ rest) s flags = R"
  using assms by (simp add: read_object.simps)

lemma reads_omitted:
  assumes "f \<noteq> ''''" "f \<notin> set req" "step f v s = Inr s'" "b \<Longrightarrow> s' = s"
    "read_object step req rest s' flags = R"
  shows "read_object step req (omit_if b (f, v) @ rest) s flags = R"
  using assms by (cases b) (simp_all add: omit_if_def read_object.simps received_def)

lemma reads_nil: "read_object step req [] s flags = Inr (s, flags)"
  by (simp add: read_object.simps)

subsection \<open>The records\<close>

subsubsection \<open>Sessions\<close>

record JSession =
  js_Id :: string
  js_Members :: "JUserProfileSessionRel option list option"
  js_Name :: string
  js_Private :: bool
  js_RulesIsSet :: bool
  js_State :: string
  js_Type :: string

definition zero_JSession :: JSession where
  "zero_JSession = \<lparr>js_Id = '''', js_Members = None, js_Name = '''', js_Private = False,
     js_RulesIsSet = False, js_State = '''', js_Type = ''''\<rparr>"

definition JSession_field :: "json_lib \<Rightarrow> string \<Rightarrow> json \<Rightarrow> JSession \<Rightarrow> stream_error + JSession" where
  "JSession_field lib f v s =
    (if f = ''id'' then and_then (read_string lib f v) (\<lambda>x. Inr (s\<lparr>js_Id := x\<rparr>))
     else if f = ''members'' then and_then (read_rels lib f v) (\<lambda>x. Inr (s\<lparr>js_Members := x\<rparr>))
     else if f = ''name'' then and_then (read_string lib f v) (\<lambda>x. Inr (s\<lparr>js_Name := x\<rparr>))
     else if f = ''private'' then and_then (read_bool lib f v) (\<lambda>x. Inr (s\<lparr>js_Private := x\<rparr>))
     else if f = ''rules_is_set'' then
       and_then (read_bool lib f v) (\<lambda>x. Inr (s\<lparr>js_RulesIsSet := x\<rparr>))
     else if f = ''state'' then and_then (read_string lib f v) (\<lambda>x. Inr (s\<lparr>js_State := x\<rparr>))
     else if f = ''__type__'' then
       and_then (read_type lib ''session'' f v) (\<lambda>x. Inr (s\<lparr>js_Type := x\<rparr>))
     else Inr s)"

definition JSession_required :: "string list" where
  "JSession_required = [''id'', ''name'', ''__type__'']"

definition JSession_UnmarshalJSON :: "json_lib \<Rightarrow> json \<Rightarrow> stream_error + JSession" where
  "JSession_UnmarshalJSON lib = unmarshal lib (JSession_field lib) JSession_required zero_JSession"

definition JSession_MarshalJSON :: "json_lib \<Rightarrow> JSession \<Rightarrow> json" where
  "JSession_MarshalJSON lib s = JObj
    ([(''id'', JStr (js_Id s))] @
     omit_if (js_Members s = None) (''members'', WriteRels lib (js_Members s)) @
     [(''name'', JStr (js_Name s))] @
     omit_if (\<not> js_Private s) (''private'', JBool (js_Private s)) @
     omit_if (\<not> js_RulesIsSet s) (''rules_is_set'', JBool (js_RulesIsSet s)) @
     omit_if (js_State s = '''') (''state'', JStr (js_State s)) @
     [(''__type__'', JStr (js_Type s))] @ [])"

lemma JSession_round_trip:
  assumes "json_lib_ok lib" "js_Type s = ''session''"
  shows "JSession_UnmarshalJSON lib (JSession_MarshalJSON lib s) = Inr s"
proof -
  note defs = JSession_UnmarshalJSON_def JSession_MarshalJSON_def JSession_required_def zero_JSession_def
  show ?thesis unfolding defs
    by (rule unmarshalI [OF assms(1)],
      (rule reads_cons reads_omitted reads_nil,
        ((simp add: JSession_field_def assms(2) json_reads [OF assms(1)]; fail)+)?)+,
      simp add: check_required_def received_def,
      rule JSession.equality, simp_all add: assms(2))
qed

subsubsection \<open>Races\<close>

record JRace =
  jr_Data :: string
  jr_Id :: string
  jr_NamePlural :: string
  jr_NameSingular :: string
  jr_Type :: string
  jr_UserId :: string

definition zero_JRace :: JRace where
  "zero_JRace = \<lparr>jr_Data = '''', jr_Id = '''', jr_NamePlural = '''', jr_NameSingular = '''',
     jr_Type = '''', jr_UserId = ''''\<rparr>"

definition JRace_field :: "json_lib \<Rightarrow> string \<Rightarrow> json \<Rightarrow> JRace \<Rightarrow> stream_error + JRace" where
  "JRace_field lib f v s =
    (if f = ''data'' then and_then (read_string lib f v) (\<lambda>x. Inr (s\<lparr>jr_Data := x\<rparr>))
     else if f = ''id'' then and_then (read_string lib f v) (\<lambda>x. Inr (s\<lparr>jr_Id := x\<rparr>))
     else if f = ''name_plural'' then
       and_then (read_string lib f v) (\<lambda>x. Inr (s\<lparr>jr_NamePlural := x\<rparr>))
     else if f = ''name_singular'' then
       and_then (read_string lib f v) (\<lambda>x. Inr (s\<lparr>jr_NameSingular := x\<rparr>))
     else if f = ''__type__'' then
       and_then (read_type lib ''race'' f v) (\<lambda>x. Inr (s\<lparr>jr_Type := x\<rparr>))
     else if f = ''user_id'' then and_then (read_string lib f v) (\<lambda>x. Inr (s\<lparr>jr_UserId := x\<rparr>))
     else Inr s)"

definition JRace_required :: "string list" where
  "JRace_required = [''data'', ''id'', ''name_plural'', ''name_singular'', ''__type__'',
     ''user_id'']"

definition JRace_UnmarshalJSON :: "json_lib \<Rightarrow> json \<Rightarrow> stream_error + JRace" where
  "JRace_UnmarshalJSON lib = unmarshal lib (JRace_field lib) JRace_required zero_JRace"

definition JRace_MarshalJSON :: "json_lib \<Rightarrow> JRace \<Rightarrow> json" where
  "JRace_MarshalJSON lib s = JObj
    ([(''data'', JStr (jr_Data s))] @
     [(''id'', JStr (jr_Id s))] @
     [(''name_plural'', JStr (jr_NamePlural s))] @
     [(''name_singular'', JStr (jr_NameSingular s))] @
     [(''__type__'', JStr (jr_Type s))] @
     [(''user_id'', JStr (jr_UserId s))] @ [])"

lemma JRace_round_trip:
  assumes "json_lib_ok lib" "jr_Type s = ''race''"
  shows "JRace_UnmarshalJSON lib (JRace_MarshalJSON lib s) = Inr s"
proof -
  note defs = JRace_UnmarshalJSON_def JRace_MarshalJSON_def JRace_required_def zero_JRace_def
  show ?thesis unfolding defs
    by (rule unmarshalI [OF assms(1)],
      (rule reads_cons reads_omitted reads_nil,
        ((simp add: JRace_field_def assms(2) json_reads [OF assms(1)]; fail)+)?)+,
      simp add: check_required_def received_def,
      rule JRace.equality, simp_all add: assms(2))
qed

subsubsection \<open>User profiles\<close>

record JUserProfile =
  ju_ApiKey :: string
  ju_Email :: string
  ju_Id :: string
  ju_IsManager :: bool
  ju_Nickname :: string
  ju_SerialKey :: string
  ju_SessionList :: "JUserProfileSessionRel option list option"
  ju_State :: string
  ju_Type :: string

definition zero_JUserProfile :: JUserProfile where
  "zero_JUserProfile = \<lparr>ju_ApiKey = '''', ju_Email = '''', ju_Id = '''',
     ju_IsManager = False, ju_Nickname = '''', ju_SerialKey = '''', ju_SessionList = None,
     ju_State = '''', ju_Type = ''''\<rparr>"

definition JUserProfile_field :: "json_lib \<Rightarrow> string \<Rightarrow> json \<Rightarrow> JUserProfile \<Rightarrow> stream_error + JUserProfile" where
  "JUserProfile_field lib f v s =
    (if f = ''api_key'' then and_then (read_string lib f v) (\<lambda>x. Inr (s\<lparr>ju_ApiKey := x\<rparr>))
     else if f = ''email'' then and_then (read_string lib f v) (\<lambda>x. Inr (s\<lparr>ju_Email := x\<rparr>))
     else if f = ''id'' then and_then (read_string lib f v) (\<lambda>x. Inr (s\<lparr>ju_Id := x\<rparr>))
     else if f = ''is_manager'' then and_then (read_bool lib f v) (\<lambda>x. Inr (s\<lparr>ju_IsManager := x\<rparr>))
     else if f = ''nickname'' then and_then (read_string lib f v) (\<lambda>x. Inr (s\<lparr>ju_Nickname := x\<rparr>))
     else if f = ''serial_key'' then
       and_then (read_string lib f v) (\<lambda>x. Inr (s\<lparr>ju_SerialKey := x\<rparr>))
     else if f = ''session_list'' then
       and_then (read_rels lib f v) (\<lambda>x. Inr (s\<lparr>ju_SessionList := x\<rparr>))
     else if f = ''state'' then and_then (read_string lib f v) (\<lambda>x. Inr (s\<lparr>ju_State := x\<rparr>))
     else if f = ''__type__'' then
       and_then (read_type lib ''user_profile'' f v) (\<lambda>x. Inr (s\<lparr>ju_Type := x\<rparr>))
     else Inr s)"

definition JUserProfile_required :: "string list" where
  "JUserProfile_required = [''email'', ''id'', ''state'', ''__type__'']"

definition JUserProfile_UnmarshalJSON :: "json_lib \<Rightarrow> json \<Rightarrow> stream_error + JUserProfile" where
  "JUserProfile_UnmarshalJSON lib = unmarshal lib (JUserProfile_field lib) JUserProfile_required zero_JUserProfile"

definition JUserProfile_MarshalJSON :: "json_lib \<Rightarrow> JUserProfile \<Rightarrow> json" where
  "JUserProfile_MarshalJSON lib s = JObj
    (omit_if (ju_ApiKey s = '''') (''api_key'', JStr (ju_ApiKey s)) @
     [(''email'', JStr (ju_Email s))] @
     [(''id'', JStr (ju_Id s))] @
     omit_if (\<not> ju_IsManager s) (''is_manager'', JBool (ju_IsManager s)) @
     omit_if (ju_Nickname s = '''') (''nickname'', JStr (ju_Nickname s)) @
     omit_if (ju_SerialKey s = '''') (''serial_key'', JStr (ju_SerialKey s)) @
     omit_if (ju_SessionList s = None) (''session_list'', WriteRels lib (ju_SessionList s)) @
     [(''state'', JStr (ju_State s))] @
     [(''__type__'', JStr (ju_Type s))] @ [])"

lemma JUserProfile_round_trip:
  assumes "json_lib_ok lib" "ju_Type s = ''user_profile''"
  shows "JUserProfile_UnmarshalJSON lib (JUserProfile_MarshalJSON lib s) = Inr s"
proof -
  note defs = JUserProfile_UnmarshalJSON_def JUserProfile_MarshalJSON_def JUserProfile_required_def zero_JUserProfile_def
  show ?thesis unfolding defs
    by (rule unmarshalI [OF assms(1)],
      (rule reads_cons reads_omitted reads_nil,
        ((simp add: JUserProfile_field_def assms(2) json_reads [OF assms(1)]; fail)+)?)+,
      simp add: check_required_def received_def,
      rule JUserProfile.equality, simp_all add: assms(2))
qed

subsubsection \<open>Invitations\<close>

record JInvitation =
  ji_Id :: string
  ji_InviterId :: string
  ji_SessionId :: string
  ji_Type :: string
  ji_UserProfileId :: string

definition zero_JInvitation :: JInvitation where
  "zero_JInvitation = \<lparr>ji_Id = '''', ji_InviterId = '''', ji_SessionId = '''',
     ji_Type = '''', ji_UserProfileId = ''''\<rparr>"

definition JInvitation_field :: "json_lib \<Rightarrow> string \<Rightarrow> json \<Rightarrow> JInvitation \<Rightarrow> stream_error + JInvitation" where
  "JInvitation_field lib f v s =
    (if f = ''id'' then and_then (read_string lib f v) (\<lambda>x. Inr (s\<lparr>ji_Id := x\<rparr>))
     else if f = ''inviter_id'' then
       and_then (read_string lib f v) (\<lambda>x. Inr (s\<lparr>ji_InviterId := x\<rparr>))
     else if f = ''session_id'' then
       and_then (read_string lib f v) (\<lambda>x. Inr (s\<lparr>ji_SessionId := x\<rparr>))
     else if f = ''__type__'' then
       and_then (read_type lib ''invitation'' f v) (\<lambda>x. Inr (s\<lparr>ji_Type := x\<rparr>))
     else if f = ''user_profile_id'' then
       and_then (read_string lib f v) (\<lambda>x. Inr (s\<lparr>ji_UserProfileId := x\<rparr>))
     else Inr s)"

definition JInvitation_required :: "string list" where
  "JInvitation_required = [''id'', ''session_id'', ''__type__'', ''user_profile_id'']"

definition JInvitation_UnmarshalJSON :: "json_lib \<Rightarrow> json \<Rightarrow> stream_error + JInvitation" where
  "JInvitation_UnmarshalJSON lib = unmarshal lib (JInvitation_field lib) JInvitation_required zero_JInvitation"

definition JInvitation_MarshalJSON :: "json_lib \<Rightarrow> JInvitation \<Rightarrow> json" where
  "JInvitation_MarshalJSON lib s = JObj
    ([(''id'', JStr (ji_Id s))] @
     omit_if (ji_InviterId s = '''') (''inviter_id'', JStr (ji_InviterId s)) @
     [(''session_id'', JStr (ji_SessionId s))] @
     [(''__type__'', JStr (ji_Type s))] @
     [(''user_profile_id'', JStr (ji_UserProfileId s))] @ [])"

lemma JInvitation_round_trip:
  assumes "json_lib_ok lib" "ji_Type s = ''invitation''"
  shows "JInvitation_UnmarshalJSON lib (JInvitation_MarshalJSON lib s) = Inr s"
proof -
  note defs = JInvitation_UnmarshalJSON_def JInvitation_MarshalJSON_def JInvitation_required_def zero_JInvitation_def
  show ?thesis unfolding defs
    by (rule unmarshalI [OF assms(1)],
      (rule reads_cons reads_omitted reads_nil,
        ((simp add: JInvitation_field_def assms(2) json_reads [OF assms(1)]; fail)+)?)+,
      simp add: check_required_def received_def,
      rule JInvitation.equality, simp_all add: assms(2))
qed

subsubsection \<open>Players\<close>

record JSessionPlayerRace =
  jp_BotLevel :: int
  jp_Id :: string
  jp_IsBot :: bool
  jp_PlayerOrder :: int
  jp_RaceId :: string
  jp_Ready :: bool
  jp_SessionId :: string
  jp_Type :: string
  jp_UserProfileId :: string

definition zero_JSessionPlayerRace :: JSessionPlayerRace where
  "zero_JSessionPlayerRace = \<lparr>jp_BotLevel = 0, jp_Id = '''', jp_IsBot = False,
     jp_PlayerOrder = 0, jp_RaceId = '''', jp_Ready = False, jp_SessionId = '''', jp_Type = '''',
     jp_UserProfileId = ''''\<rparr>"

definition JSessionPlayerRace_field :: "json_lib \<Rightarrow> string \<Rightarrow> json \<Rightarrow> JSessionPlayerRace \<Rightarrow> stream_error + JSessionPlayerRace" where
  "JSessionPlayerRace_field lib f v s =
    (if f = ''bot_level'' then and_then (read_int lib f v) (\<lambda>x. Inr (s\<lparr>jp_BotLevel := x\<rparr>))
     else if f = ''id'' then and_then (read_string lib f v) (\<lambda>x. Inr (s\<lparr>jp_Id := x\<rparr>))
     else if f = ''is_bot'' then and_then (read_bool lib f v) (\<lambda>x. Inr (s\<lparr>jp_IsBot := x\<rparr>))
     else if f = ''player_order'' then
       and_then (read_int lib f v) (\<lambda>x. Inr (s\<lparr>jp_PlayerOrder := x\<rparr>))
     else if f = ''race_id'' then and_then (read_string lib f v) (\<lambda>x. Inr (s\<lparr>jp_RaceId := x\<rparr>))
     else if f = ''ready'' then and_then (read_bool lib f v) (\<lambda>x. Inr (s\<lparr>jp_Ready := x\<rparr>))
     else if f = ''session_id'' then
       and_then (read_string lib f v) (\<lambda>x. Inr (s\<lparr>jp_SessionId := x\<rparr>))
     else if f = ''__type__'' then
       and_then (read_type lib ''session_player_race'' f v) (\<lambda>x. Inr (s\<lparr>jp_Type := x\<rparr>))
     else if f = ''user_profile_id'' then
       and_then (read_string lib f v) (\<lambda>x. Inr (s\<lparr>jp_UserProfileId := x\<rparr>))
     else Inr s)"

definition JSessionPlayerRace_required :: "string list" where
  "JSessionPlayerRace_required = [''id'', ''is_bot'', ''player_order'', ''race_id'', ''session_id'',
     ''__type__'', ''user_profile_id'']"

definition JSessionPlayerRace_UnmarshalJSON :: "json_lib \<Rightarrow> json \<Rightarrow> stream_error + JSessionPlayerRace" where
  "JSessionPlayerRace_UnmarshalJSON lib = unmarshal lib (JSessionPlayerRace_field lib) JSessionPlayerRace_required zero_JSessionPlayerRace"

definition JSessionPlayerRace_MarshalJSON :: "json_lib \<Rightarrow> JSessionPlayerRace \<Rightarrow> json" where
  "JSessionPlayerRace_MarshalJSON lib s = JObj
    (omit_if (jp_BotLevel s = 0) (''bot_level'', JInt (jp_BotLevel s)) @
     [(''id'', JStr (jp_Id s))] @
     [(''is_bot'', JBool (jp_IsBot s))] @
     [(''player_order'', JInt (jp_PlayerOrder s))] @
     [(''race_id'', JStr (jp_RaceId s))] @
     omit_if (\<not> jp_Ready s) (''ready'', JBool (jp_Ready s)) @
     [(''session_id'', JStr (jp_SessionId s))] @
     [(''__type__'', JStr (jp_Type s))] @
     [(''user_profile_id'', JStr (jp_UserProfileId s))] @ [])"

definition JSessionPlayerRace_int64 :: "JSessionPlayerRace \<Rightarrow> bool" where
  "JSessionPlayerRace_int64 s = list_all (\<lambda>f. int64 (f s)) [jp_BotLevel, jp_PlayerOrder]"

lemma JSessionPlayerRace_round_trip:
  assumes "json_lib_ok lib" "jp_Type s = ''session_player_race''" "JSessionPlayerRace_int64 s"
  shows "JSessionPlayerRace_UnmarshalJSON lib (JSessionPlayerRace_MarshalJSON lib s) = Inr s"
proof -
  note defs = JSessionPlayerRace_UnmarshalJSON_def JSessionPlayerRace_MarshalJSON_def JSessionPlayerRace_required_def zero_JSessionPlayerRace_def
  note ints = assms(3) [unfolded JSessionPlayerRace_int64_def list.pred_inject]
  show ?thesis unfolding defs
    by (rule unmarshalI [OF assms(1)],
      (rule reads_cons reads_omitted reads_nil,
        ((simp add: JSessionPlayerRace_field_def assms(2) json_reads [OF assms(1)] ints; fail)+)?)+,
      simp add: check_required_def received_def,
      rule JSessionPlayerRace.equality, simp_all add: assms(2))
qed

subsubsection \<open>Session files\<close>

record JSessionFiles =
  jf_Hostfile :: string
  jf_Id :: string
  jf_Orders :: "string option list option"
  jf_SessionId :: string
  jf_Turns :: "string option list option"
  jf_Type :: string
  jf_Universe :: string
  jf_Year :: int

definition zero_JSessionFiles :: JSessionFiles where
  "zero_JSessionFiles = \<lparr>jf_Hostfile = '''', jf_Id = '''', jf_Orders = None,
     jf_SessionId = '''', jf_Turns = None, jf_Type = '''', jf_Universe = '''', jf_Year = 0\<rparr>"

definition JSessionFiles_field :: "json_lib \<Rightarrow> string \<Rightarrow> json \<Rightarrow> JSessionFiles \<Rightarrow> stream_error + JSessionFiles" where
  "JSessionFiles_field lib f v s =
    (if f = ''hostfile'' then and_then (read_string lib f v) (\<lambda>x. Inr (s\<lparr>jf_Hostfile := x\<rparr>))
     else if f = ''id'' then and_then (read_string lib f v) (\<lambda>x. Inr (s\<lparr>jf_Id := x\<rparr>))
     else if f = ''orders'' then and_then (read_b64s lib f v) (\<lambda>x. Inr (s\<lparr>jf_Orders := x\<rparr>))
     else if f = ''session_id'' then
       and_then (read_string lib f v) (\<lambda>x. Inr (s\<lparr>jf_SessionId := x\<rparr>))
     else if f = ''turns'' then and_then (read_b64s lib f v) (\<lambda>x. Inr (s\<lparr>jf_Turns := x\<rparr>))
     else if f = ''__type__'' then
       and_then (read_type lib ''session_files'' f v) (\<lambda>x. Inr (s\<lparr>jf_Type := x\<rparr>))
     else if f = ''universe'' then and_then (read_string lib f v) (\<lambda>x. Inr (s\<lparr>jf_Universe := x\<rparr>))
     else if f = ''year'' then and_then (read_int lib f v) (\<lambda>x. Inr (s\<lparr>jf_Year := x\<rparr>))
     else Inr s)"

definition JSessionFiles_required :: "string list" where
  "JSessionFiles_required = [''hostfile'', ''id'', ''orders'', ''session_id'', ''turns'',
     ''__type__'', ''universe'', ''year'']"

definition JSessionFiles_UnmarshalJSON :: "json_lib \<Rightarrow> json \<Rightarrow> stream_error + JSessionFiles" where
  "JSessionFiles_UnmarshalJSON lib = unmarshal lib (JSessionFiles_field lib) JSessionFiles_required zero_JSessionFiles"

definition JSessionFiles_MarshalJSON :: "json_lib \<Rightarrow> JSessionFiles \<Rightarrow> json" where
  "JSessionFiles_MarshalJSON lib s = JObj
    ([(''hostfile'', JStr (jf_Hostfile s))] @
     [(''id'', JStr (jf_Id s))] @
     [(''orders'', WriteB64s lib (jf_Orders s))] @
     [(''session_id'', JStr (jf_SessionId s))] @
     [(''turns'', WriteB64s lib (jf_Turns s))] @
     [(''__type__'', JStr (jf_Type s))] @
     [(''universe'', JStr (jf_Universe s))] @
     [(''year'', JInt (jf_Year s))] @ [])"

definition JSessionFiles_int64 :: "JSessionFiles \<Rightarrow> bool" where
  "JSessionFiles_int64 s = list_all (\<lambda>f. int64 (f s)) [jf_Year]"

lemma JSessionFiles_round_trip:
  assumes "json_lib_ok lib" "jf_Type s = ''session_files''" "JSessionFiles_int64 s"
  shows "JSessionFiles_UnmarshalJSON lib (JSessionFiles_MarshalJSON lib s) = Inr s"
proof -
  note defs = JSessionFiles_UnmarshalJSON_def JSessionFiles_MarshalJSON_def JSessionFiles_required_def zero_JSessionFiles_def
  note ints = assms(3) [unfolded JSessionFiles_int64_def list.pred_inject]
  show ?thesis unfolding defs
    by (rule unmarshalI [OF assms(1)],
      (rule reads_cons reads_omitted reads_nil,
        ((simp add: JSessionFiles_field_def assms(2) json_reads [OF assms(1)] ints; fail)+)?)+,
      simp add: check_required_def received_def,
      rule JSessionFiles.equality, simp_all add: assms(2))
qed

subsubsection \<open>Rules\<close>

record JRuleset =
  jrs_AcceleratedBbsPlay :: bool
  jrs_ComputerPlayersFormAlliances :: bool
  jrs_Density :: int
  jrs_GalaxyClumping :: bool
  jrs_Id :: string
  jrs_MaximumMinerals :: bool
  jrs_NoRandomEvents :: bool
  jrs_PublicPlayerScores :: bool
  jrs_RandomSeed :: int
  jrs_SessionId :: string
  jrs_SlowerTechAdvances :: bool
  jrs_StartingDistance :: int
  jrs_Type :: string
  jrs_UniverseSize :: int
  jrs_VcAtLeastXYearsMustPassBeforeAWinnerIsDeclared :: int
  jrs_VcAttainTechXInYField :: bool
  jrs_VcAttainTechXInYFieldFieldsValue :: int
  jrs_VcAttainTechXInYFieldTechValue :: int
  jrs_VcExceedNextPlayerScoreByX :: bool
  jrs_VcExceedNextPlayerScoreByXValue :: int
  jrs_VcExceedScoreOfX :: bool
  jrs_VcExceedScoreOfXValue :: int
  jrs_VcHasProductionCapacityOfXThousand :: bool
  jrs_VcHasProductionCapacityOfXThousandValue :: int
  jrs_VcHaveHighestScoreAfterXYears :: bool
  jrs_VcHaveHighestScoreAfterXYearsValue :: int
  jrs_VcOwnsXCapitalShips :: bool
  jrs_VcOwnsXCapitalShipsValue :: int
  jrs_VcOwnsXPercentOfPlanets :: bool
  jrs_VcOwnsXPercentOfPlanetsValue :: int
  jrs_VcWinnerMustMeetXOfTheAbove :: int

definition zero_JRuleset :: JRuleset where
  "zero_JRuleset = \<lparr>jrs_AcceleratedBbsPlay = False, jrs_ComputerPlayersFormAlliances = False,
     jrs_Density = 0, jrs_GalaxyClumping = False, jrs_Id = '''', jrs_MaximumMinerals = False,
     jrs_NoRandomEvents = False, jrs_PublicPlayerScores = False, jrs_RandomSeed = 0,
     jrs_SessionId = '''', jrs_SlowerTechAdvances = False, jrs_StartingDistance = 0,
     jrs_Type = '''', jrs_UniverseSize = 0, jrs_VcAtLeastXYearsMustPassBeforeAWinnerIsDeclared = 0,
     jrs_VcAttainTechXInYField = False, jrs_VcAttainTechXInYFieldFieldsValue = 0,
     jrs_VcAttainTechXInYFieldTechValue = 0, jrs_VcExceedNextPlayerScoreByX = False,
     jrs_VcExceedNextPlayerScoreByXValue = 0, jrs_VcExceedScoreOfX = False,
     jrs_VcExceedScoreOfXValue = 0, jrs_VcHasProductionCapacityOfXThousand = False,
     jrs_VcHasProductionCapacityOfXThousandValue = 0, jrs_VcHaveHighestScoreAfterXYears = False,
     jrs_VcHaveHighestScoreAfterXYearsValue = 0, jrs_VcOwnsXCapitalShips = False,
     jrs_VcOwnsXCapitalShipsValue = 0, jrs_VcOwnsXPercentOfPlanets = False,
     jrs_VcOwnsXPercentOfPlanetsValue = 0, jrs_VcWinnerMustMeetXOfTheAbove = 0\<rparr>"

definition JRuleset_field_3 :: "json_lib \<Rightarrow> string \<Rightarrow> json \<Rightarrow> JRuleset \<Rightarrow> stream_error + JRuleset" where
  "JRuleset_field_3 lib f v s =
    (if f = ''vc_owns_x_percent_of_planets'' then
       and_then (read_bool lib f v) (\<lambda>x. Inr (s\<lparr>jrs_VcOwnsXPercentOfPlanets := x\<rparr>))
     else if f = ''vc_owns_x_percent_of_planets_value'' then
       and_then (read_int lib f v) (\<lambda>x. Inr (s\<lparr>jrs_VcOwnsXPercentOfPlanetsValue := x\<rparr>))
     else if f = ''vc_winner_must_meet_x_of_the_above'' then
       and_then (read_int lib f v) (\<lambda>x. Inr (s\<lparr>jrs_VcWinnerMustMeetXOfTheAbove := x\<rparr>))
     else Inr s)"

definition JRuleset_field_2 :: "json_lib \<Rightarrow> string \<Rightarrow> json \<Rightarrow> JRuleset \<Rightarrow> stream_error + JRuleset" where
  "JRuleset_field_2 lib f v s =
    (if f = ''universe_size'' then
       and_then (read_int lib f v) (\<lambda>x. Inr (s\<lparr>jrs_UniverseSize := x\<rparr>))
     else if f = ''vc_at_least_x_years_must_pass_before_a_winner_is_declared'' then
       and_then (read_int lib f v) (\<lambda>x. Inr (s\<lparr>jrs_VcAtLeastXYearsMustPassBeforeAWinnerIsDeclared := x\<rparr>))
     else if f = ''vc_attain_tech_X_in_Y_field'' then
       and_then (read_bool lib f v) (\<lambda>x. Inr (s\<lparr>jrs_VcAttainTechXInYField := x\<rparr>))
     else if f = ''vc_attain_tech_X_in_Y_field_fields_value'' then
       and_then (read_int lib f v) (\<lambda>x. Inr (s\<lparr>jrs_VcAttainTechXInYFieldFieldsValue := x\<rparr>))
     else if f = ''vc_attain_tech_X_in_Y_field_tech_value'' then
       and_then (read_int lib f v) (\<lambda>x. Inr (s\<lparr>jrs_VcAttainTechXInYFieldTechValue := x\<rparr>))
     else if f = ''vc_exceed_next_player_score_by_x'' then
       and_then (read_bool lib f v) (\<lambda>x. Inr (s\<lparr>jrs_VcExceedNextPlayerScoreByX := x\<rparr>))
     else if f = ''vc_exceed_next_player_score_by_x_value'' then
       and_then (read_int lib f v) (\<lambda>x. Inr (s\<lparr>jrs_VcExceedNextPlayerScoreByXValue := x\<rparr>))
     else if f = ''vc_exceed_score_of_x'' then
       and_then (read_bool lib f v) (\<lambda>x. Inr (s\<lparr>jrs_VcExceedScoreOfX := x\<rparr>))
     else if f = ''vc_exceed_score_of_x_value'' then
       and_then (read_int lib f v) (\<lambda>x. Inr (s\<lparr>jrs_VcExceedScoreOfXValue := x\<rparr>))
     else if f = ''vc_has_production_capacity_of_x_thousand'' then
       and_then (read_bool lib f v) (\<lambda>x. Inr (s\<lparr>jrs_VcHasProductionCapacityOfXThousand := x\<rparr>))
     else if f = ''vc_has_production_capacity_of_x_thousand_value'' then
       and_then (read_int lib f v) (\<lambda>x. Inr (s\<lparr>jrs_VcHasProductionCapacityOfXThousandValue := x\<rparr>))
     else if f = ''vc_have_highest_score_after_x_years'' then
       and_then (read_bool lib f v) (\<lambda>x. Inr (s\<lparr>jrs_VcHaveHighestScoreAfterXYears := x\<rparr>))
     else if f = ''vc_have_highest_score_after_x_years_value'' then
       and_then (read_int lib f v) (\<lambda>x. Inr (s\<lparr>jrs_VcHaveHighestScoreAfterXYearsValue := x\<rparr>))
     else if f = ''vc_owns_x_capital_ships'' then
       and_then (read_bool lib f v) (\<lambda>x. Inr (s\<lparr>jrs_VcOwnsXCapitalShips := x\<rparr>))
     else if f = ''vc_owns_x_capital_ships_value'' then
       and_then (read_int lib f v) (\<lambda>x. Inr (s\<lparr>jrs_VcOwnsXCapitalShipsValue := x\<rparr>))
     else JRuleset_field_3 lib f v s)"

definition JRuleset_field :: "json_lib \<Rightarrow> string \<Rightarrow> json \<Rightarrow> JRuleset \<Rightarrow> stream_error + JRuleset" where
  "JRuleset_field lib f v s =
    (if f = ''accelerated_bbs_play'' then
       and_then (read_bool lib f v) (\<lambda>x. Inr (s\<lparr>jrs_AcceleratedBbsPlay := x\<rparr>))
     else if f = ''computer_players_form_alliances'' then
       and_then (read_bool lib f v) (\<lambda>x. Inr (s\<lparr>jrs_ComputerPlayersFormAlliances := x\<rparr>))
     else if f = ''density'' then and_then (read_int lib f v) (\<lambda>x. Inr (s\<lparr>jrs_Density := x\<rparr>))
     else if f = ''galaxy_clumping'' then
       and_then (read_bool lib f v) (\<lambda>x. Inr (s\<lparr>jrs_GalaxyClumping := x\<rparr>))
     else if f = ''id'' then and_then (read_string lib f v) (\<lambda>x. Inr (s\<lparr>jrs_Id := x\<rparr>))
     else if f = ''maximum_minerals'' then
       and_then (read_bool lib f v) (\<lambda>x. Inr (s\<lparr>jrs_MaximumMinerals := x\<rparr>))
     else if f = ''no_random_events'' then
       and_then (read_bool lib f v) (\<lambda>x. Inr (s\<lparr>jrs_NoRandomEvents := x\<rparr>))
     else if f = ''public_player_scores'' then
       and_then (read_bool lib f v) (\<lambda>x. Inr (s\<lparr>jrs_PublicPlayerScores := x\<rparr>))
     else if f = ''random_seed'' then
       and_then (read_int lib f v) (\<lambda>x. Inr (s\<lparr>jrs_RandomSeed := x\<rparr>))
     else if f = ''session_id'' then
       and_then (read_string lib f v) (\<lambda>x. Inr (s\<lparr>jrs_SessionId := x\<rparr>))
     else if f = ''slower_tech_advances'' then
       and_then (read_bool lib f v) (\<lambda>x. Inr (s\<lparr>jrs_SlowerTechAdvances := x\<rparr>))
     else if f = ''starting_distance'' then
       and_then (read_int lib f v) (\<lambda>x. Inr (s\<lparr>jrs_StartingDistance := x\<rparr>))
     else if f = ''__type__'' then
       and_then (read_type lib ''ruleset'' f v) (\<lambda>x. Inr (s\<lparr>jrs_Type := x\<rparr>))
     else JRuleset_field_2 lib f v s)"

definition JRuleset_required :: "string list" where
  "JRuleset_required = [''accelerated_bbs_play'', ''computer_players_form_alliances'', ''density'',
     ''galaxy_clumping'', ''id'', ''maximum_minerals'', ''no_random_events'',
     ''public_player_scores'', ''session_id'', ''slower_tech_advances'', ''starting_distance'',
     ''__type__'', ''universe_size'', ''vc_at_least_x_years_must_pass_before_a_winner_is_declared'',
     ''vc_attain_tech_X_in_Y_field'', ''vc_exceed_next_player_score_by_x'',
     ''vc_has_production_capacity_of_x_thousand'', ''vc_have_highest_score_after_x_years'',
     ''vc_owns_x_capital_ships'', ''vc_owns_x_percent_of_planets'',
     ''vc_winner_must_meet_x_of_the_above'']"

definition JRuleset_UnmarshalJSON :: "json_lib \<Rightarrow> json \<Rightarrow> stream_error + JRuleset" where
  "JRuleset_UnmarshalJSON lib = unmarshal lib (JRuleset_field lib) JRuleset_required zero_JRuleset"

definition JRuleset_MarshalJSON_2 :: "JRuleset \<Rightarrow> (string \<times> json) list" where
  "JRuleset_MarshalJSON_2 s =
     [(''vc_attain_tech_X_in_Y_field'', JBool (jrs_VcAttainTechXInYField s))] @
     omit_if (jrs_VcAttainTechXInYFieldFieldsValue s = 0)
       (''vc_attain_tech_X_in_Y_field_fields_value'', JInt (jrs_VcAttainTechXInYFieldFieldsValue s)) @
     omit_if (jrs_VcAttainTechXInYFieldTechValue s = 0)
       (''vc_attain_tech_X_in_Y_field_tech_value'', JInt (jrs_VcAttainTechXInYFieldTechValue s)) @
     [(''vc_exceed_next_player_score_by_x'', JBool (jrs_VcExceedNextPlayerScoreByX s))] @
     omit_if (jrs_VcExceedNextPlayerScoreByXValue s = 0)
       (''vc_exceed_next_player_score_by_x_value'', JInt (jrs_VcExceedNextPlayerScoreByXValue s)) @
     omit_if (\<not> jrs_VcExceedScoreOfX s)
       (''vc_exceed_score_of_x'', JBool (jrs_VcExceedScoreOfX s)) @
     omit_if (jrs_VcExceedScoreOfXValue s = 0)
       (''vc_exceed_score_of_x_value'', JInt (jrs_VcExceedScoreOfXValue s)) @
     [(''vc_has_production_capacity_of_x_thousand'',
       JBool (jrs_VcHasProductionCapacityOfXThousand s))] @
     omit_if (jrs_VcHasProductionCapacityOfXThousandValue s = 0)
       (''vc_has_production_capacity_of_x_thousand_value'', JInt (jrs_VcHasProductionCapacityOfXThousandValue s)) @
     [(''vc_have_highest_score_after_x_years'', JBool (jrs_VcHaveHighestScoreAfterXYears s))] @
     omit_if (jrs_VcHaveHighestScoreAfterXYearsValue s = 0)
       (''vc_have_highest_score_after_x_years_value'', JInt (jrs_VcHaveHighestScoreAfterXYearsValue s)) @
     [(''vc_owns_x_capital_ships'', JBool (jrs_VcOwnsXCapitalShips s))] @
     omit_if (jrs_VcOwnsXCapitalShipsValue s = 0)
       (''vc_owns_x_capital_ships_value'', JInt (jrs_VcOwnsXCapitalShipsValue s)) @
     [(''vc_owns_x_percent_of_planets'', JBool (jrs_VcOwnsXPercentOfPlanets s))] @
     omit_if (jrs_VcOwnsXPercentOfPlanetsValue s = 0)
       (''vc_owns_x_percent_of_planets_value'', JInt (jrs_VcOwnsXPercentOfPlanetsValue s)) @
     [(''vc_winner_must_meet_x_of_the_above'', JInt (jrs_VcWinnerMustMeetXOfTheAbove s))] @ []"

definition JRuleset_MarshalJSON :: "json_lib \<Rightarrow> JRuleset \<Rightarrow> json" where
  "JRuleset_MarshalJSON lib s = JObj
    ([(''accelerated_bbs_play'', JBool (jrs_AcceleratedBbsPlay s))] @
     [(''computer_players_form_alliances'', JBool (jrs_ComputerPlayersFormAlliances s))] @
     [(''density'', JInt (jrs_Density s))] @
     [(''galaxy_clumping'', JBool (jrs_GalaxyClumping s))] @
     [(''id'', JStr (jrs_Id s))] @
     [(''maximum_minerals'', JBool (jrs_MaximumMinerals s))] @
     [(''no_random_events'', JBool (jrs_NoRandomEvents s))] @
     [(''public_player_scores'', JBool (jrs_PublicPlayerScores s))] @
     omit_if (jrs_RandomSeed s = 0) (''random_seed'', JInt (jrs_RandomSeed s)) @
     [(''session_id'', JStr (jrs_SessionId s))] @
     [(''slower_tech_advances'', JBool (jrs_SlowerTechAdvances s))] @
     [(''starting_distance'', JInt (jrs_StartingDistance s))] @
     [(''__type__'', JStr (jrs_Type s))] @
     [(''universe_size'', JInt (jrs_UniverseSize s))] @
     [(''vc_at_least_x_years_must_pass_before_a_winner_is_declared'',
       JInt (jrs_VcAtLeastXYearsMustPassBeforeAWinnerIsDeclared s))] @ JRuleset_MarshalJSON_2 s)"

definition JRuleset_int64 :: "JRuleset \<Rightarrow> bool" where
  "JRuleset_int64 s = list_all (\<lambda>f. int64 (f s)) [jrs_Density, jrs_RandomSeed,
     jrs_StartingDistance, jrs_UniverseSize, jrs_VcAtLeastXYearsMustPassBeforeAWinnerIsDeclared,
     jrs_VcAttainTechXInYFieldFieldsValue, jrs_VcAttainTechXInYFieldTechValue,
     jrs_VcExceedNextPlayerScoreByXValue, jrs_VcExceedScoreOfXValue,
     jrs_VcHasProductionCapacityOfXThousandValue, jrs_VcHaveHighestScoreAfterXYearsValue,
     jrs_VcOwnsXCapitalShipsValue, jrs_VcOwnsXPercentOfPlanetsValue,
     jrs_VcWinnerMustMeetXOfTheAbove]"

lemma JRuleset_round_trip:
  assumes "json_lib_ok lib" "jrs_Type s = ''ruleset''" "JRuleset_int64 s"
  shows "JRuleset_UnmarshalJSON lib (JRuleset_MarshalJSON lib s) = Inr s"
proof -
  note defs = JRuleset_UnmarshalJSON_def JRuleset_MarshalJSON_def JRuleset_required_def zero_JRuleset_def
    JRuleset_MarshalJSON_2_def append_assoc
  note ints = assms(3) [unfolded JRuleset_int64_def list.pred_inject]
  show ?thesis unfolding defs
    by (rule unmarshalI [OF assms(1)],
      (rule reads_cons reads_omitted reads_nil,
        ((simp add: JRuleset_field_def JRuleset_field_2_def JRuleset_field_3_def assms(2) json_reads [OF assms(1)] ints; fail)+)?)+,
      simp add: check_required_def received_def,
      rule JRuleset.equality, simp_all add: assms(2))
qed

end
