(* ===== verification/Broadcast.thy ===== *)
theory Broadcast
  imports DataStream
begin

section \<open>Broadcasts: changes of any type\<close>

text \<open>
  The rest of \<open>sync/schemas.go\<close>: \<open>DataType\<close>, the \<open>oneOf\<close> of the seven records,
  \<open>ChangesItems\<close> and \<open>ReferentialSync\<close>, the message that a broadcast is. The lemmas show that
  a record is read as the type that it names, and that a message is read as it was written.
\<close>

subsection \<open>The data of a change\<close>

text \<open>
  \<open>DataType\<close> holds one of the seven records. It is read by trying each of them in turn; a value
  that is not an object leaves it unset, without an error.
\<close>

datatype DataTypeEnum =
    EnumNotSet
  | EnumSession
  | EnumRace
  | EnumUserProfile
  | EnumInvitation
  | EnumSessionPlayerRace
  | EnumSessionFiles
  | EnumRuleset

datatype DataType =
    NotSet
  | DSession JSession
  | DRace JRace
  | DUserProfile JUserProfile
  | DInvitation JInvitation
  | DSessionPlayerRace JSessionPlayerRace
  | DSessionFiles JSessionFiles
  | DRuleset JRuleset

fun DataType_Type :: "DataType \<Rightarrow> DataTypeEnum" where
  "DataType_Type NotSet = EnumNotSet"
| "DataType_Type (DSession _) = EnumSession"
| "DataType_Type (DRace _) = EnumRace"
| "DataType_Type (DUserProfile _) = EnumUserProfile"
| "DataType_Type (DInvitation _) = EnumInvitation"
| "DataType_Type (DSessionPlayerRace _) = EnumSessionPlayerRace"
| "DataType_Type (DSessionFiles _) = EnumSessionFiles"
| "DataType_Type (DRuleset _) = EnumRuleset"

text \<open>\<open>None\<close> is the empty output that an unset value produces.\<close>

fun DataType_MarshalJSON :: "json_lib \<Rightarrow> DataType \<Rightarrow> json option" where
  "DataType_MarshalJSON lib NotSet = None"
| "DataType_MarshalJSON lib (DSession x) = Some (JSession_MarshalJSON lib x)"
| "DataType_MarshalJSON lib (DRace x) = Some (JRace_MarshalJSON lib x)"
| "DataType_MarshalJSON lib (DUserProfile x) = Some (JUserProfile_MarshalJSON lib x)"
| "DataType_MarshalJSON lib (DInvitation x) = Some (JInvitation_MarshalJSON lib x)"
| "DataType_MarshalJSON lib (DSessionPlayerRace x) = Some (JSessionPlayerRace_MarshalJSON lib x)"
| "DataType_MarshalJSON lib (DSessionFiles x) = Some (JSessionFiles_MarshalJSON lib x)"
| "DataType_MarshalJSON lib (DRuleset x) = Some (JRuleset_MarshalJSON lib x)"

definition attempt :: "('a \<Rightarrow> DataType) \<Rightarrow> stream_error + 'a \<Rightarrow> stream_error + DataType \<Rightarrow> stream_error + DataType" where
  "attempt c r next_attempt = (case r of Inr x \<Rightarrow> Inr (c x) | Inl e \<Rightarrow> next_attempt)"

definition DataType_UnmarshalJSON :: "json_lib \<Rightarrow> json \<Rightarrow> stream_error + DataType" where
  "DataType_UnmarshalJSON lib v = (case v of
     JObj fs \<Rightarrow>
       attempt DSession (JSession_UnmarshalJSON lib v)
       (attempt DRace (JRace_UnmarshalJSON lib v)
       (attempt DUserProfile (JUserProfile_UnmarshalJSON lib v)
       (attempt DInvitation (JInvitation_UnmarshalJSON lib v)
       (attempt DSessionPlayerRace (JSessionPlayerRace_UnmarshalJSON lib v)
       (attempt DSessionFiles (JSessionFiles_UnmarshalJSON lib v)
       (map_sum id DRuleset (JRuleset_UnmarshalJSON lib v)))))))
   | _ \<Rightarrow> Inr NotSet)"

text \<open>The values that the machine can hold and whose record names its own type.\<close>

fun DataType_ok :: "DataType \<Rightarrow> bool" where
  "DataType_ok NotSet = False"
| "DataType_ok (DSession x) = (js_Type x = ''session'')"
| "DataType_ok (DRace x) = (jr_Type x = ''race'')"
| "DataType_ok (DUserProfile x) = (ju_Type x = ''user_profile'')"
| "DataType_ok (DInvitation x) = (ji_Type x = ''invitation'')"
| "DataType_ok (DSessionPlayerRace x) = (jp_Type x = ''session_player_race'' \<and> JSessionPlayerRace_int64 x)"
| "DataType_ok (DSessionFiles x) = (jf_Type x = ''session_files'' \<and> JSessionFiles_int64 x)"
| "DataType_ok (DRuleset x) = (jrs_Type x = ''ruleset'' \<and> JRuleset_int64 x)"

subsection \<open>The type that a record names\<close>

text \<open>
  A record that was read has a field \<open>__type__\<close> before any field with an empty name, and all such
  fields hold the name of its type. \<open>types_are\<close> is this property of the fields of an object.
\<close>

fun types_are :: "json_lib \<Rightarrow> string \<Rightarrow> (string \<times> json) list \<Rightarrow> bool" where
  "types_are lib name [] = False"
| "types_are lib name ((f, v) # fs) =
    (if f = '''' then False
     else if f = ''__type__'' then ReadString lib (Some v) = Some name
     else types_are lib name fs)"

lemma read_type_Inr:
  "json_lib_ok lib \<Longrightarrow> read_type lib name f v = Inr x \<Longrightarrow> x = name \<and> ReadString lib (Some v) = Some name"
  by (auto simp: read_type_def read_string_def read_with_def accept_false_def and_then_eq_Inr
      json_lib_ok_def split: json.splits if_splits option.splits)

lemma read_object_types:
  assumes "\<And>v s s'. step ''__type__'' v s = Inr s' \<Longrightarrow> ReadString lib (Some v) = Some name"
  shows "read_object step req fs s flags = Inr (s', flags') \<Longrightarrow> ''__type__'' \<in> set flags' \<Longrightarrow>
    ''__type__'' \<in> set flags \<or> types_are lib name fs"
proof (induction fs arbitrary: s flags)
  case Nil
  then show ?case by (simp add: read_object.simps)
next
  case (Cons p fs)
  obtain f v where p: "p = (f, v)" by (cases p)
  show ?case
  proof (cases "f = ''''")
    case True
    then show ?thesis using Cons.prems by (simp add: p read_object.simps)
  next
    case False
    then obtain s1 where s1: "step f v s = Inr s1"
      and rest: "read_object step req fs s1 (received req f flags) = Inr (s', flags')"
      using Cons.prems(1) by (auto simp: p read_object.simps and_then_eq_Inr)
    show ?thesis
    proof (cases "f = ''__type__''")
      case True
      then show ?thesis using assms s1 by (simp add: p)
    next
      case other: False
      then have "''__type__'' \<in> set (received req f flags) \<longleftrightarrow> ''__type__'' \<in> set flags"
        by (simp add: received_def)
      then show ?thesis using Cons.IH [OF rest Cons.prems(2)] False other by (simp add: p)
    qed
  qed
qed

lemma unmarshal_types:
  assumes "json_lib_ok lib" "unmarshal lib step req z (JObj fs) = Inr x" "''__type__'' \<in> set req"
    "\<And>v s s'. step ''__type__'' v s = Inr s' \<Longrightarrow> ReadString lib (Some v) = Some name"
  shows "types_are lib name fs"
proof -
  obtain s flags where r: "read_object step req fs z [] = Inr (s, flags)"
    and c: "check_required req flags s = Inr x"
    using assms(1,2) by (auto simp: unmarshal_def json_lib_ok_def and_then_eq_Inr)
  have "''__type__'' \<in> set flags"
    using c assms(3) by (auto simp: check_required_def find_None_iff split: option.splits)
  from read_object_types [OF assms(4) r this] show ?thesis by simp
qed

lemma types_are_unique: "types_are lib a fs \<Longrightarrow> types_are lib b fs \<Longrightarrow> a = b"
  by (induction fs rule: types_are.induct) (auto split: if_splits)

lemmas unmarshal_defs = JSession_UnmarshalJSON_def JRace_UnmarshalJSON_def
  JUserProfile_UnmarshalJSON_def JInvitation_UnmarshalJSON_def
  JSessionPlayerRace_UnmarshalJSON_def JSessionFiles_UnmarshalJSON_def JRuleset_UnmarshalJSON_def

lemmas field_defs = JSession_field_def JRace_field_def JUserProfile_field_def JInvitation_field_def
  JSessionPlayerRace_field_def JSessionFiles_field_def JRuleset_field_def

lemmas required_defs = JSession_required_def JRace_required_def JUserProfile_required_def
  JInvitation_required_def JSessionPlayerRace_required_def JSessionFiles_required_def
  JRuleset_required_def

lemma record_types:
  assumes "json_lib_ok lib"
  shows "JSession_UnmarshalJSON lib (JObj fs) = Inr s \<Longrightarrow> types_are lib ''session'' fs"
    "JRace_UnmarshalJSON lib (JObj fs) = Inr r \<Longrightarrow> types_are lib ''race'' fs"
    "JUserProfile_UnmarshalJSON lib (JObj fs) = Inr u \<Longrightarrow> types_are lib ''user_profile'' fs"
    "JInvitation_UnmarshalJSON lib (JObj fs) = Inr i \<Longrightarrow> types_are lib ''invitation'' fs"
    "JSessionPlayerRace_UnmarshalJSON lib (JObj fs) = Inr p \<Longrightarrow> types_are lib ''session_player_race'' fs"
    "JSessionFiles_UnmarshalJSON lib (JObj fs) = Inr f \<Longrightarrow> types_are lib ''session_files'' fs"
    "JRuleset_UnmarshalJSON lib (JObj fs) = Inr rs \<Longrightarrow> types_are lib ''ruleset'' fs"
  unfolding unmarshal_defs
  by (erule unmarshal_types [OF assms],
      (simp add: required_defs; fail),
      (auto simp: field_defs and_then_eq_Inr dest!: read_type_Inr [OF assms]; fail))+


subsection \<open>Changes and broadcasts\<close>

text \<open>The generated reader of a whole message. A nil change is a null in the array.\<close>

record JChangesItems =
  jc_Data :: DataType
  jc_Operation :: string

record JReferentialSync =
  jb_Changes :: "JChangesItems option list option"
  jb_Version :: int

definition read_data :: "json_lib \<Rightarrow> string \<Rightarrow> json \<Rightarrow> stream_error + DataType" where
  "read_data lib f v = and_then (accept_false f v) (\<lambda>p. case p of
     None \<Rightarrow> Inl (Unreadable f)
   | Some w \<Rightarrow> DataType_UnmarshalJSON lib w)"

definition JChangesItems_field ::
    "json_lib \<Rightarrow> string \<Rightarrow> json \<Rightarrow> JChangesItems \<Rightarrow> stream_error + JChangesItems" where
  "JChangesItems_field lib f v s =
    (if f = ''data'' then and_then (read_data lib f v) (\<lambda>x. Inr (s\<lparr>jc_Data := x\<rparr>))
     else if f = ''operation'' then and_then (read_string lib f v) (\<lambda>x. Inr (s\<lparr>jc_Operation := x\<rparr>))
     else Inr s)"

definition JChangesItems_UnmarshalJSON :: "json_lib \<Rightarrow> json \<Rightarrow> stream_error + JChangesItems" where
  "JChangesItems_UnmarshalJSON lib = unmarshal lib (JChangesItems_field lib) [''data'', ''operation'']
     \<lparr>jc_Data = NotSet, jc_Operation = ''''\<rparr>"

definition JChangesItems_MarshalJSON :: "json_lib \<Rightarrow> JChangesItems \<Rightarrow> json option" where
  "JChangesItems_MarshalJSON lib s = map_option
     (\<lambda>v. JObj ([(''data'', v)] @ [(''operation'', JStr (jc_Operation s))] @ []))
     (DataType_MarshalJSON lib (jc_Data s))"

fun read_all :: "('v \<Rightarrow> 'e + 'a) \<Rightarrow> 'v list \<Rightarrow> 'e + 'a list" where
  "read_all rd [] = Inr []"
| "read_all rd (v # vs) = and_then (rd v) (\<lambda>x. and_then (read_all rd vs) (\<lambda>xs. Inr (x # xs)))"

definition nullable :: "(json \<Rightarrow> 'e + 'a) \<Rightarrow> json \<Rightarrow> 'e + 'a option" where
  "nullable rd v = (if v = JNull then Inr None else map_sum id Some (rd v))"

definition read_changes ::
    "json_lib \<Rightarrow> string \<Rightarrow> json \<Rightarrow> stream_error + JChangesItems option list option" where
  "read_changes lib f v = and_then (accept_false f v) (\<lambda>p. case p of
     None \<Rightarrow> Inl (Unreadable f)
   | Some w \<Rightarrow> nullable (\<lambda>w. case ReadArray lib w of
       None \<Rightarrow> Inl (Unreadable f)
     | Some vs \<Rightarrow> read_all (nullable (JChangesItems_UnmarshalJSON lib)) vs) w)"

definition JReferentialSync_field ::
    "json_lib \<Rightarrow> string \<Rightarrow> json \<Rightarrow> JReferentialSync \<Rightarrow> stream_error + JReferentialSync" where
  "JReferentialSync_field lib f v s =
    (if f = ''changes'' then and_then (read_changes lib f v) (\<lambda>x. Inr (s\<lparr>jb_Changes := x\<rparr>))
     else if f = ''version'' then and_then (read_int lib f v) (\<lambda>x. Inr (s\<lparr>jb_Version := x\<rparr>))
     else Inr s)"

definition JReferentialSync_UnmarshalJSON :: "json_lib \<Rightarrow> json \<Rightarrow> stream_error + JReferentialSync" where
  "JReferentialSync_UnmarshalJSON lib = unmarshal lib (JReferentialSync_field lib) [''changes'']
     \<lparr>jb_Changes = None, jb_Version = 0\<rparr>"

fun marshal_change :: "json_lib \<Rightarrow> JChangesItems option \<Rightarrow> json option" where
  "marshal_change lib None = Some JNull"
| "marshal_change lib (Some c) = JChangesItems_MarshalJSON lib c"

definition JReferentialSync_MarshalJSON :: "json_lib \<Rightarrow> JReferentialSync \<Rightarrow> json option" where
  "JReferentialSync_MarshalJSON lib s = map_option
     (\<lambda>v. JObj ([(''changes'', v)] @
       omit_if (jb_Version s = 0) (''version'', JInt (jb_Version s)) @ []))
     (case jb_Changes s of None \<Rightarrow> Some JNull
      | Some cs \<Rightarrow> map_option JArr (those (map (marshal_change lib) cs)))"

subsection \<open>The round trip of a broadcast\<close>

fun type_name :: "DataType \<Rightarrow> string" where
  "type_name NotSet = ''''"
| "type_name (DSession _) = ''session''"
| "type_name (DRace _) = ''race''"
| "type_name (DUserProfile _) = ''user_profile''"
| "type_name (DInvitation _) = ''invitation''"
| "type_name (DSessionPlayerRace _) = ''session_player_race''"
| "type_name (DSessionFiles _) = ''session_files''"
| "type_name (DRuleset _) = ''ruleset''"

lemma attempt_Inr: "attempt c (Inr x) k = Inr (c x)"
  by (simp add: attempt_def)

lemma attempt_other: "(\<And>y. r = Inr y \<Longrightarrow> False) \<Longrightarrow> attempt c r k = k"
  by (cases r) (auto simp: attempt_def)

text \<open>A record that names one type is read as no other.\<close>

lemma typed_reads:
  assumes "json_lib_ok lib" "types_are lib n fs"
  shows "n \<noteq> ''session'' \<Longrightarrow> attempt DSession (JSession_UnmarshalJSON lib (JObj fs)) k = k"
    "n \<noteq> ''race'' \<Longrightarrow> attempt DRace (JRace_UnmarshalJSON lib (JObj fs)) k = k"
    "n \<noteq> ''user_profile'' \<Longrightarrow> attempt DUserProfile (JUserProfile_UnmarshalJSON lib (JObj fs)) k = k"
    "n \<noteq> ''invitation'' \<Longrightarrow> attempt DInvitation (JInvitation_UnmarshalJSON lib (JObj fs)) k = k"
    "n \<noteq> ''session_player_race'' \<Longrightarrow>
      attempt DSessionPlayerRace (JSessionPlayerRace_UnmarshalJSON lib (JObj fs)) k = k"
    "n \<noteq> ''session_files'' \<Longrightarrow>
      attempt DSessionFiles (JSessionFiles_UnmarshalJSON lib (JObj fs)) k = k"
  by (rule attempt_other, erule notE,
      rule types_are_unique [OF assms(2)], erule record_types [OF assms(1)])+

text \<open>One record: written, it names its type and is read as itself, whatever is attempted first.\<close>

definition reads_as :: "json_lib \<Rightarrow> DataType \<Rightarrow> json \<Rightarrow> bool" where
  "reads_as lib x v = (\<exists>fs. v = JObj fs \<and> types_are lib (type_name x) fs \<and>
     DataType_UnmarshalJSON lib v = Inr x)"

lemma reads_asI:
  assumes "v = JObj fs" "types_are lib (type_name x) fs"
    "types_are lib (type_name x) fs \<Longrightarrow> DataType_UnmarshalJSON lib (JObj fs) = Inr x"
  shows "reads_as lib x v"
  using assms by (auto simp: reads_as_def)

lemmas marshal_defs = JSession_MarshalJSON_def JRace_MarshalJSON_def JUserProfile_MarshalJSON_def
  JInvitation_MarshalJSON_def JSessionPlayerRace_MarshalJSON_def JSessionFiles_MarshalJSON_def
  JRuleset_MarshalJSON_def

lemma marshal_is_object:
  "\<exists>fs. JSession_MarshalJSON lib s = JObj fs" "\<exists>fs. JRace_MarshalJSON lib r = JObj fs"
  "\<exists>fs. JUserProfile_MarshalJSON lib u = JObj fs" "\<exists>fs. JInvitation_MarshalJSON lib i = JObj fs"
  "\<exists>fs. JSessionPlayerRace_MarshalJSON lib p = JObj fs"
  "\<exists>fs. JSessionFiles_MarshalJSON lib f = JObj fs" "\<exists>fs. JRuleset_MarshalJSON lib rs = JObj fs"
  by (simp_all only: marshal_defs, blast+)

lemma reads_back:
  assumes "json_lib_ok lib"
  shows "JSession_MarshalJSON lib s = v \<Longrightarrow> js_Type s = ''session'' \<Longrightarrow>
      JSession_UnmarshalJSON lib v = Inr s"
    "JRace_MarshalJSON lib r = v \<Longrightarrow> jr_Type r = ''race'' \<Longrightarrow> JRace_UnmarshalJSON lib v = Inr r"
    "JUserProfile_MarshalJSON lib u = v \<Longrightarrow> ju_Type u = ''user_profile'' \<Longrightarrow>
      JUserProfile_UnmarshalJSON lib v = Inr u"
    "JInvitation_MarshalJSON lib i = v \<Longrightarrow> ji_Type i = ''invitation'' \<Longrightarrow>
      JInvitation_UnmarshalJSON lib v = Inr i"
    "JSessionPlayerRace_MarshalJSON lib p = v \<Longrightarrow> jp_Type p = ''session_player_race'' \<Longrightarrow>
      JSessionPlayerRace_int64 p \<Longrightarrow> JSessionPlayerRace_UnmarshalJSON lib v = Inr p"
    "JSessionFiles_MarshalJSON lib f = v \<Longrightarrow> jf_Type f = ''session_files'' \<Longrightarrow>
      JSessionFiles_int64 f \<Longrightarrow> JSessionFiles_UnmarshalJSON lib v = Inr f"
    "JRuleset_MarshalJSON lib rs = v \<Longrightarrow> jrs_Type rs = ''ruleset'' \<Longrightarrow> JRuleset_int64 rs \<Longrightarrow>
      JRuleset_UnmarshalJSON lib v = Inr rs"
  using assms JSession_round_trip JRace_round_trip JUserProfile_round_trip JInvitation_round_trip
    JSessionPlayerRace_round_trip JSessionFiles_round_trip JRuleset_round_trip by blast+

lemma DataType_round_trip:
  assumes "json_lib_ok lib" "DataType_ok x" "DataType_MarshalJSON lib x = Some v"
  shows "reads_as lib x v"
proof -
  obtain fs where v: "v = JObj fs"
    using assms(3) marshal_is_object by (cases x) (simp_all, (metis)+)
  note rt = reads_back [OF assms(1)]
  show ?thesis
  proof (rule reads_asI [OF v])
    show "types_are lib (type_name x) fs"
      using assms(2,3) v by (cases x) (auto intro: record_types [OF assms(1)] rt)
    assume ty: "types_are lib (type_name x) fs"
    show "DataType_UnmarshalJSON lib (JObj fs) = Inr x"
      using assms(2,3) v typed_reads [OF assms(1) ty]
      by (cases x) (auto simp: DataType_UnmarshalJSON_def attempt_Inr rt)
  qed
qed

lemma read_data_marshal:
  assumes "json_lib_ok lib" "DataType_ok x" "DataType_MarshalJSON lib x = Some v"
  shows "read_data lib f v = Inr x"
  using DataType_round_trip [OF assms]
  by (auto simp: reads_as_def read_data_def accept_false_def)

lemma JChangesItems_round_trip:
  assumes "json_lib_ok lib" "DataType_ok (jc_Data c)" "JChangesItems_MarshalJSON lib c = Some v"
  shows "JChangesItems_UnmarshalJSON lib v = Inr c"
proof -
  obtain w where w: "DataType_MarshalJSON lib (jc_Data c) = Some w"
    and v: "v = JObj ([(''data'', w)] @ [(''operation'', JStr (jc_Operation c))] @ [])"
    using assms(3) by (auto simp: JChangesItems_MarshalJSON_def)
  show ?thesis unfolding JChangesItems_UnmarshalJSON_def v
    by (rule unmarshalI [OF assms(1)],
      (rule reads_cons reads_omitted reads_nil,
        ((simp add: JChangesItems_field_def json_reads [OF assms(1)]
            read_data_marshal [OF assms(1,2) w]; fail)+)?)+,
      simp add: check_required_def received_def,
      rule JChangesItems.equality, simp_all)
qed

definition change_ok :: "JChangesItems option \<Rightarrow> bool" where
  "change_ok c = (case c of None \<Rightarrow> True | Some i \<Rightarrow> DataType_ok (jc_Data i))"

lemma read_marshalled_change:
  assumes "json_lib_ok lib" "change_ok c" "marshal_change lib c = Some v"
  shows "nullable (JChangesItems_UnmarshalJSON lib) v = Inr c"
proof (cases c)
  case None
  then show ?thesis using assms by (simp add: nullable_def)
next
  case (Some i)
  then have "JChangesItems_UnmarshalJSON lib v = Inr i" "v \<noteq> JNull"
    using assms JChangesItems_round_trip by (auto simp: change_ok_def JChangesItems_MarshalJSON_def)
  then show ?thesis by (simp add: nullable_def Some)
qed

lemma read_all_marshalled:
  assumes "json_lib_ok lib"
  shows "list_all change_ok cs \<Longrightarrow> those (map (marshal_change lib) cs) = Some vs \<Longrightarrow>
    read_all (nullable (JChangesItems_UnmarshalJSON lib)) vs = Inr cs"
  by (induction cs arbitrary: vs)
    (auto split: option.splits simp: read_marshalled_change [OF assms])

text \<open>The messages that a sender builds: every change names the type of its data.\<close>

definition message_ok :: "JReferentialSync \<Rightarrow> bool" where
  "message_ok r = (int64 (jb_Version r) \<and>
     (case jb_Changes r of None \<Rightarrow> True | Some cs \<Rightarrow> list_all change_ok cs))"

lemma marshal_change_Some: "change_ok c \<Longrightarrow> \<exists>v. marshal_change lib c = Some v"
proof (cases c)
  case (Some i)
  assume "change_ok c"
  then show ?thesis using Some
    by (cases "jc_Data i") (simp_all add: change_ok_def JChangesItems_MarshalJSON_def)
qed simp

lemma those_marshalled: "list_all change_ok cs \<Longrightarrow> \<exists>vs. those (map (marshal_change lib) cs) = Some vs"
proof (induction cs)
  case (Cons c cs)
  then show ?case using marshal_change_Some [of c lib] by auto
qed simp

text \<open>
  \<^bold>\<open>C30\<close>: Every message that a sender can build is written, and is read as the message that was
  written: each record as the type that it names, with every field, the omitted ones as zeros.
\<close>

theorem broadcast_round_trip:
  assumes "json_lib_ok lib" "message_ok r"
  shows "\<exists>v. JReferentialSync_MarshalJSON lib r = Some v \<and> JReferentialSync_UnmarshalJSON lib v = Inr r"
proof -
  obtain w where w: "(case jb_Changes r of None \<Rightarrow> Some JNull
      | Some cs \<Rightarrow> map_option JArr (those (map (marshal_change lib) cs))) = Some w"
    and read: "read_changes lib ''changes'' w = Inr (jb_Changes r)"
  proof (cases "jb_Changes r")
    case None
    then show ?thesis by (intro that [of JNull]) (simp_all add: read_changes_def accept_false_def nullable_def)
  next
    case (Some cs)
    then have ok: "list_all change_ok cs" using assms(2) by (simp add: message_ok_def)
    from those_marshalled [OF this] obtain vs where vs: "those (map (marshal_change lib) cs) = Some vs"
      by blast
    have "ReadArray lib (JArr vs) = Some vs" using assms(1) by (simp add: json_lib_ok_def)
    then show ?thesis
      using read_all_marshalled [OF assms(1) ok vs] vs Some
      by (intro that [of "JArr vs"]) (simp_all add: read_changes_def accept_false_def nullable_def)
  qed
  have int: "int64 (jb_Version r)" using assms(2) by (simp add: message_ok_def)
  let ?v = "JObj ([(''changes'', w)] @
    omit_if (jb_Version r = 0) (''version'', JInt (jb_Version r)) @ [])"
  have "JReferentialSync_UnmarshalJSON lib ?v = Inr r"
    unfolding JReferentialSync_UnmarshalJSON_def
    by (rule unmarshalI [OF assms(1)],
      (rule reads_cons reads_omitted reads_nil,
        ((simp add: JReferentialSync_field_def json_reads [OF assms(1)] read int; fail)+)?)+,
      simp add: check_required_def received_def,
      rule JReferentialSync.equality, simp_all)
  then show ?thesis by (simp add: JReferentialSync_MarshalJSON_def w)
qed

subsection \<open>The comment that is not true\<close>

text \<open>
  The value \<open>false\<close>, \<open>which we accept and ignore for now\<close>, is consumed and then the reader of the
  field is applied where no value is left: every field but the booleans refuses it.
\<close>

lemma false_is_refused:
  assumes "json_lib_ok lib"
  shows "read_string lib f (JBool False) = Inl (Unreadable f)"
    "read_int lib f (JBool False) = Inl (Unreadable f)"
    "read_rels lib f (JBool False) = Inl (Unreadable f)"
    "read_b64s lib f (JBool False) = Inl (Unreadable f)"
  using assms
  by (simp_all add: json_lib_ok_def read_string_def read_int_def read_rels_def read_b64s_def
      read_with_def accept_false_def)

subsection \<open>An instance of the library\<close>

text \<open>Readers on which the witnesses apply the properties: each reads its own kind and null.\<close>

fun example_rel_json :: "JUserProfileSessionRel option \<Rightarrow> json" where
  "example_rel_json None = JNull"
| "example_rel_json (Some r) = JObj [(''is_manager'', JBool (jx_IsManager r)),
     (''session_id'', JStr (jx_SessionId r)), (''user_profile_id'', JStr (jx_UserProfileId r))]"

fun example_read_rel :: "json \<Rightarrow> JUserProfileSessionRel option option" where
  "example_read_rel JNull = Some None"
| "example_read_rel (JObj [(_, JBool m), (_, JStr s), (_, JStr u)]) =
     Some (Some \<lparr>jx_IsManager = m, jx_SessionId = s, jx_UserProfileId = u\<rparr>)"
| "example_read_rel _ = None"

fun example_b64_json :: "string option \<Rightarrow> json" where
  "example_b64_json None = JNull"
| "example_b64_json (Some s) = JObj [(''b64_data'', JStr s)]"

fun example_read_b64 :: "json \<Rightarrow> string option option" where
  "example_read_b64 JNull = Some None"
| "example_read_b64 (JObj [(_, JStr s)]) = Some (Some s)"
| "example_read_b64 _ = None"

definition slice_json :: "('a \<Rightarrow> json) \<Rightarrow> 'a list option \<Rightarrow> json" where
  "slice_json w xs = (case xs of None \<Rightarrow> JNull | Some ys \<Rightarrow> JArr (map w ys))"

fun read_slice :: "(json \<Rightarrow> 'a option) \<Rightarrow> json option \<Rightarrow> 'a list option option" where
  "read_slice rd (Some JNull) = Some None"
| "read_slice rd (Some (JArr vs)) = map_option Some (those (map rd vs))"
| "read_slice rd _ = None"

lemma read_slice_json: "(\<And>x. rd (w x) = Some x) \<Longrightarrow> read_slice rd (Some (slice_json w xs)) = Some xs"
proof -
  assume "\<And>x. rd (w x) = Some x"
  then have "those (map rd (map w ys)) = Some ys" for ys by (induction ys) simp_all
  then show ?thesis by (cases xs) (simp_all add: slice_json_def)
qed

definition example_json_lib :: json_lib where
  "example_json_lib = \<lparr>
     ReadObject = (\<lambda>v. case v of JObj fs \<Rightarrow> Some fs | JNull \<Rightarrow> Some [] | _ \<Rightarrow> None),
     ReadArray = (\<lambda>v. case v of JArr vs \<Rightarrow> Some vs | JNull \<Rightarrow> Some [] | _ \<Rightarrow> None),
     ReadString = (\<lambda>p. case p of Some (JStr s) \<Rightarrow> Some s | Some JNull \<Rightarrow> Some '''' | _ \<Rightarrow> None),
     ReadBool = (\<lambda>p. case p of Some (JBool b) \<Rightarrow> Some b | _ \<Rightarrow> None),
     ReadInt = (\<lambda>p. case p of Some (JInt n) \<Rightarrow> if int64 n then Some n else None | _ \<Rightarrow> None),
     ReadUint64 = (\<lambda>p. case p of Some (JInt n) \<Rightarrow> if 0 \<le> n then Some n else None | _ \<Rightarrow> None),
     ReadRels = read_slice example_read_rel,
     ReadB64s = read_slice example_read_b64,
     WriteRels = slice_json example_rel_json,
     WriteB64s = slice_json example_b64_json\<rparr>"

lemma slice_json_not_bool [simp]: "slice_json w x \<noteq> JBool b"
  by (simp add: slice_json_def split: option.splits)

lemma example_json_lib_ok: "json_lib_ok example_json_lib"
proof -
  have "example_read_rel (example_rel_json r) = Some r" for r by (cases r) simp_all
  then have rels: "read_slice example_read_rel (Some (slice_json example_rel_json x)) = Some x" for x
    by (rule read_slice_json)
  have "example_read_b64 (example_b64_json s) = Some s" for s by (cases s) simp_all
  then have b64s: "read_slice example_read_b64 (Some (slice_json example_b64_json x)) = Some x" for x
    by (rule read_slice_json)
  show ?thesis by (simp add: json_lib_ok_def example_json_lib_def rels b64s)
qed

text \<open>A message with a session, an omitted version and a nil change.\<close>

definition example_message :: JReferentialSync where
  "example_message = \<lparr>jb_Changes = Some [Some \<lparr>jc_Data = DSession (zero_JSession\<lparr>js_Id := ''s'',
     js_Type := ''session'', js_Private := True\<rparr>), jc_Operation = ''update''\<rparr>, None], jb_Version = 0\<rparr>"

theorem broadcast_round_trip_witness:
  "\<exists>v. JReferentialSync_MarshalJSON example_json_lib example_message = Some v \<and>
    JReferentialSync_UnmarshalJSON example_json_lib v = Inr example_message"
  by (rule broadcast_round_trip [OF example_json_lib_ok])
    (simp add: message_ok_def example_message_def change_ok_def int64_def)

end
