(* ===== verification/Sync.thy ===== *)
theory Sync
  imports Relations Broadcast
begin

section \<open>Data synchronisation\<close>

text \<open>
  The package \<open>sync\<close>: a worker that receives a broadcast, a list of changes to records of any
  type, and applies it to the database in one transaction. \<open>syncSession\<close>, \<open>syncRace\<close>, \<dots> write
  one record; \<open>readChange\<close> and \<open>guessDataType\<close> read a change from the stream;
  \<open>handleNeperReferentialBroadcast\<close> runs over the message while it reads it, so that the changes
  before an error have been executed when it is found, and are rolled back. A nil pointer that is
  followed is a panic, which rolls back as well.
\<close>

datatype sync_error =
    Stream stream_error
  | Db err
  | Unknown_data_type DataTypeEnum
  | Unknown_message_type string
  | Nil_pointer

datatype Operation = OpNone | OpCreate | OpUpdate | OpNoChange

abbreviation in_db :: "err + 'a \<Rightarrow> sync_error + 'a" where
  "in_db r \<equiv> map_sum Db id r"

subsection \<open>Insert or update by the primary key\<close>

text \<open>
  \<open>sql.Upsert\<close> of \<open>go-orusapi/database\<close>: \<open>INSERT ... ON CONFLICT (pkey) DO UPDATE\<close> of every
  column. An integer that the column cannot hold is SQLSTATE 22003, a value that an enum does not
  have 22P02.
\<close>

definition invalid_enum :: err where
  "invalid_enum = PqError ''22P02'' ''''"

definition upsert_session_row :: "SessionDB \<Rightarrow> db \<Rightarrow> err + db" where
  "upsert_session_row r d =
    (if occurs S_ID (S_ID r) (sessions d) then update_session_row r d else insert_session r d)"

definition upsert_user_row :: "UserProfileDB \<Rightarrow> db \<Rightarrow> err + db" where
  "upsert_user_row r d =
    (if occurs U_ID (U_ID r) (users d) then update_user_row r d else insert_user r d)"

definition replace_race :: "RaceDB \<Rightarrow> db \<Rightarrow> err + db" where
  "replace_race r d = enforce
    [(occurs U_ID (Ra_UserID r) (users d), foreign_key_violation ''race_user_id_fkey'')]
    (d\<lparr>races := sql_update (\<lambda>x. Ra_ID x = Ra_ID r) (\<lambda>_. r) (races d)\<rparr>)"

definition upsert_race_row :: "RaceDB \<Rightarrow> db \<Rightarrow> err + db" where
  "upsert_race_row r d =
    (if occurs Ra_ID (Ra_ID r) (races d) then replace_race r d else insert_race r d)"

definition replace_spr :: "SessionPlayerRaceDB \<Rightarrow> db \<Rightarrow> err + db" where
  "replace_spr r d = enforce
    [(case P_BotLevel r of None \<Rightarrow> True | Some l \<Rightarrow> l \<le> 4,
       check_violation ''bot_level_should_be_lower_or_equal_to_4''),
     (P_PlayerOrder r \<le> 15, check_violation ''player_order_should_be_lower_or_equal_to_15''),
     (occurs U_ID (P_UserProfileID r) (users d),
       foreign_key_violation ''session_player_race_user_profile_id_fkey''),
     (occurs S_ID (P_SessionID r) (sessions d),
       foreign_key_violation ''session_player_race_session_id_fkey''),
     (occurs Ra_ID (P_RaceID r) (races d),
       foreign_key_violation ''session_player_race_race_id_fkey'')]
    (d\<lparr>sprs := sql_update (\<lambda>x. P_ID x = P_ID r) (\<lambda>_. r) (sprs d)\<rparr>)"

definition upsert_spr_row :: "SessionPlayerRaceDB \<Rightarrow> db \<Rightarrow> err + db" where
  "upsert_spr_row r d =
    (if \<not> list_all int4 (P_PlayerOrder r # (case P_BotLevel r of None \<Rightarrow> [] | Some l \<Rightarrow> [l]))
     then Inl out_of_range
     else if occurs P_ID (P_ID r) (sprs d) then replace_spr r d else insert_spr r d)"

definition replace_ruleset :: "RulesetDB \<Rightarrow> db \<Rightarrow> err + db" where
  "replace_ruleset r d = enforce
    (ruleset_checks r @
     [(occurs S_ID (RS_SessionID r) (sessions d), foreign_key_violation ''ruleset_session_id_fkey'')])
    (d\<lparr>rulesets := sql_update (\<lambda>x. RS_ID x = RS_ID r) (\<lambda>_. r) (rulesets d)\<rparr>)"

definition upsert_ruleset_row :: "RulesetDB \<Rightarrow> db \<Rightarrow> err + db" where
  "upsert_ruleset_row r d =
    (if \<not> list_all int4 (ruleset_ints (RS_Ruleset r)) then Inl out_of_range
     else if occurs RS_ID (RS_ID r) (rulesets d) then replace_ruleset r d else insert_ruleset r d)"

definition replace_file :: "SessionFilesDB \<Rightarrow> db \<Rightarrow> err + db" where
  "replace_file r d = enforce
    [(2400 \<le> F_Year r, check_violation ''check_year_min''),
     (\<not> occurs file_key (file_key r) (sql_delete (\<lambda>x. F_ID x = F_ID r) (files d)),
       unique_violation ''session_file_session_id_year_key''),
     (occurs S_ID (F_SessionID r) (sessions d),
       foreign_key_violation ''session_file_session_id_fkey'')]
    (d\<lparr>files := sql_update (\<lambda>x. F_ID x = F_ID r) (\<lambda>_. r) (files d)\<rparr>)"

definition upsert_file_row :: "SessionFilesDB \<Rightarrow> db \<Rightarrow> err + db" where
  "upsert_file_row r d =
    (if \<not> int4 (F_Year r) then Inl out_of_range
     else if occurs F_ID (F_ID r) (files d) then replace_file r d else insert_file r d)"

subsection \<open>One change\<close>

fun session_state_of :: "string \<Rightarrow> session_state option" where
  "session_state_of s = (if s = ''pending'' then Some Pending else if s = ''starting'' then Some Starting
     else if s = ''started'' then Some Started else if s = ''archived'' then Some Archived else None)"

fun user_state_of :: "string \<Rightarrow> user_state option" where
  "user_state_of s = (if s = ''pending'' then Some UserPending else if s = ''active'' then Some UserActive
     else if s = ''inactive'' then Some UserInactive else None)"

declare session_state_of.simps [simp del] user_state_of.simps [simp del]

text \<open>The elements of a slice of pointers, in a loop that follows each of them.\<close>

definition deref_all :: "'a option list option \<Rightarrow> sync_error + 'a list" where
  "deref_all xs = (case those (case xs of None \<Rightarrow> [] | Some ys \<Rightarrow> ys) of
     None \<Rightarrow> Inl Nil_pointer | Some ys \<Rightarrow> Inr ys)"

definition writes :: "Operation \<Rightarrow> bool" where
  "writes op = (op = OpCreate \<or> op = OpUpdate)"

definition syncSession :: "Operation \<Rightarrow> JSession \<Rightarrow> db \<Rightarrow> sync_error + db" where
  "syncSession op data d =
    (if writes op then
       (case session_state_of (js_State data) of
          None \<Rightarrow> Inl (Db invalid_enum)
        | Some st \<Rightarrow>
          and_then (in_db (upsert_session_row
             \<lparr>S_ID = js_Id data, S_Name = js_Name data, S_Private = js_Private data,
              S_RulesIsSet = js_RulesIsSet data, S_State = st, S_RulesetID = None\<rparr> d)) (\<lambda>d1.
          and_then (deref_all (js_Members data)) (\<lambda>members.
          in_db (InitSession (js_Id data) (map (\<lambda>m. \<lparr>R_UserProfileID = jx_UserProfileId m,
              R_SessionID = js_Id data, R_IsManager = jx_IsManager m\<rparr>) members) d1))))
     else Inr d)"

definition syncRace :: "Operation \<Rightarrow> JRace \<Rightarrow> db \<Rightarrow> sync_error + db" where
  "syncRace op data d =
    (if writes op then in_db (upsert_race_row
       \<lparr>Ra_ID = jr_Id data, Ra_NamePlural = jr_NamePlural data, Ra_NameSingular = jr_NameSingular data,
        Ra_UserID = jr_UserId data, Ra_Data = jr_Data data\<rparr> d)
     else Inr d)"

definition InitUserProfile :: "id \<Rightarrow> UserProfileSessionRelDB list \<Rightarrow> db \<Rightarrow> err + db" where
  "InitUserProfile uid relations d =
    syncUserProfileSessionRelations UserProfileIDColumn SessionIDColumn uid relations d"

definition syncUserProfile :: "Operation \<Rightarrow> JUserProfile \<Rightarrow> db \<Rightarrow> sync_error + db" where
  "syncUserProfile op data d =
    (if writes op then
       (case user_state_of (ju_State data) of
          None \<Rightarrow> Inl (Db invalid_enum)
        | Some st \<Rightarrow>
          and_then (in_db (upsert_user_row
             \<lparr>U_ID = ju_Id data, U_Email = ju_Email data, U_State = st, U_IsManager = ju_IsManager data,
              U_Nickname = ju_Nickname data, U_APIKey = Some (ju_ApiKey data),
              U_SerialKey = (if ju_SerialKey data \<noteq> '''' then Some (ju_SerialKey data) else None),
              U_RegistrationMessage = None\<rparr> d)) (\<lambda>d1.
          and_then (deref_all (ju_SessionList data)) (\<lambda>list.
          in_db (InitUserProfile (ju_Id data) (map (\<lambda>s. \<lparr>R_UserProfileID = ju_Id data,
              R_SessionID = jx_SessionId s, R_IsManager = jx_IsManager s\<rparr>) list) d1))))
     else Inr d)"

definition syncSessionPlayerRace :: "Operation \<Rightarrow> JSessionPlayerRace \<Rightarrow> db \<Rightarrow> sync_error + db" where
  "syncSessionPlayerRace op data d =
    (if writes op then in_db (upsert_spr_row
       \<lparr>P_ID = jp_Id data, P_SessionID = jp_SessionId data, P_UserProfileID = jp_UserProfileId data,
        P_RaceID = jp_RaceId data, P_IsBot = jp_IsBot data,
        P_BotLevel = (if jp_IsBot data then Some (jp_BotLevel data) else None),
        P_PlayerOrder = jp_PlayerOrder data, P_Ready = jp_Ready data, P_AIControlType = None\<rparr> d)
     else Inr d)"

text \<open>\<open>dataTurnsToModelTurns\<close> and \<open>dataOrdersToModelOrders\<close> follow the pointers before the statement.\<close>

definition syncSessionFiles :: "Operation \<Rightarrow> JSessionFiles \<Rightarrow> db \<Rightarrow> sync_error + db" where
  "syncSessionFiles op data d =
    (if writes op then
       and_then (deref_all (jf_Turns data)) (\<lambda>turns.
       and_then (deref_all (jf_Orders data)) (\<lambda>orders.
       in_db (upsert_file_row
         \<lparr>F_ID = jf_Id data, F_SessionID = jf_SessionId data, F_Year = jf_Year data,
          F_Universe = jf_Universe data, F_HostFile = jf_Hostfile data, F_Turns = turns,
          F_Orders = orders\<rparr> d)))
     else Inr d)"

definition ruleset_of :: "JRuleset \<Rightarrow> Ruleset" where
  "ruleset_of data =
     \<lparr>AcceleratedBbsPlay = jrs_AcceleratedBbsPlay data,
      ComputerPlayersFormAlliances = jrs_ComputerPlayersFormAlliances data,
      Density = jrs_Density data, GalaxyClumping = jrs_GalaxyClumping data,
      MaximumMinerals = jrs_MaximumMinerals data, NoRandomEvents = jrs_NoRandomEvents data,
      PublicPlayerScores = jrs_PublicPlayerScores data, RandomSeed = jrs_RandomSeed data,
      SlowerTechAdvances = jrs_SlowerTechAdvances data, StartingDistance = jrs_StartingDistance data,
      UniverseSize = jrs_UniverseSize data,
      VcAtLeastxYears = jrs_VcAtLeastXYearsMustPassBeforeAWinnerIsDeclared data,
      VcAttainTech = jrs_VcAttainTechXInYField data,
      VcAttainTechFieldsValue = jrs_VcAttainTechXInYFieldFieldsValue data,
      VcAttainTechTechValue = jrs_VcAttainTechXInYFieldTechValue data,
      VcExceedNextPlayerScore = jrs_VcExceedNextPlayerScoreByX data,
      VcExceedNextPlayerScoreValue = jrs_VcExceedNextPlayerScoreByXValue data,
      VcExceedScore = jrs_VcExceedScoreOfX data, VcExceedScoreValue = jrs_VcExceedScoreOfXValue data,
      VcHasProductionCapacity = jrs_VcHasProductionCapacityOfXThousand data,
      VcHasProductionCapacityValue = jrs_VcHasProductionCapacityOfXThousandValue data,
      VcHaveHighestScore = jrs_VcHaveHighestScoreAfterXYears data,
      VcHaveHighestScoreValue = jrs_VcHaveHighestScoreAfterXYearsValue data,
      VcOwnsCapitalShips = jrs_VcOwnsXCapitalShips data,
      VcOwnsCapitalShipsValue = jrs_VcOwnsXCapitalShipsValue data,
      VcOwnsPercentOfPlanets = jrs_VcOwnsXPercentOfPlanets data,
      VcOwnsPercentOfPlanetsValue = jrs_VcOwnsXPercentOfPlanetsValue data,
      VcWinnerMustMeet = jrs_VcWinnerMustMeetXOfTheAbove data\<rparr>"

definition syncRuleset :: "Operation \<Rightarrow> JRuleset \<Rightarrow> db \<Rightarrow> sync_error + db" where
  "syncRuleset op data d =
    (if writes op then in_db (upsert_ruleset_row
       \<lparr>RS_ID = jrs_Id data, RS_SessionID = jrs_SessionId data, RS_Ruleset = ruleset_of data\<rparr> d)
     else Inr d)"

subsection \<open>Reading a change\<close>

definition data_type_named :: "string \<Rightarrow> stream_error + DataTypeEnum" where
  "data_type_named x =
    (if x = ''session'' then Inr EnumSession
     else if x = ''session_files'' then Inr EnumSessionFiles
     else if x = ''race'' then Inr EnumRace
     else if x = ''user_profile'' then Inr EnumUserProfile
     else if x = ''invitation'' then Inr EnumInvitation
     else if x = ''session_player_race'' then Inr EnumSessionPlayerRace
     else if x = ''ruleset'' then Inr EnumRuleset
     else Inl (Unknown_type x))"

text \<open>The callback stops at the first field \<open>__type__\<close>; without one the type stays unset.\<close>

fun guess_fields :: "json_lib \<Rightarrow> (string \<times> json) list \<Rightarrow> stream_error + DataTypeEnum" where
  "guess_fields lib [] = Inr EnumNotSet"
| "guess_fields lib ((f, v) # fs) =
    (if f \<noteq> ''__type__'' then guess_fields lib fs
     else case ReadString lib (Some v) of
       None \<Rightarrow> Inl (Unreadable f)
     | Some x \<Rightarrow> data_type_named x)"

definition guessDataType :: "json_lib \<Rightarrow> json \<Rightarrow> stream_error + DataTypeEnum" where
  "guessDataType lib data = (case ReadObject lib data of
     None \<Rightarrow> Inl Not_an_object
   | Some fs \<Rightarrow> guess_fields lib fs)"

definition operation_named :: "string \<Rightarrow> stream_error + Operation" where
  "operation_named x =
    (if x = ''create'' then Inr OpCreate
     else if x = ''update'' then Inr OpUpdate
     else if x = ''no_change'' then Inr OpNoChange
     else Inl (Unknown_operation x))"

record change =
  c_op :: Operation
  c_type :: DataTypeEnum
  c_data :: json

text \<open>
  The callback of \<open>readChange\<close>. A field that is neither the operation nor the data is left unread,
  and the iteration cannot go on after it.
\<close>

definition change_field :: "json_lib \<Rightarrow> string \<Rightarrow> json \<Rightarrow> change \<Rightarrow> stream_error + change" where
  "change_field lib f v c =
    (if f = ''operation'' then
       (case ReadString lib (Some v) of
          None \<Rightarrow> Inl (Unreadable f)
        | Some x \<Rightarrow> and_then (operation_named x) (\<lambda>op. Inr (c\<lparr>c_op := op\<rparr>)))
     else if f = ''data'' then
       (case v of
          JObj fs \<Rightarrow> and_then (guessDataType lib v) (\<lambda>dt. Inr (c\<lparr>c_type := dt, c_data := v\<rparr>))
        | _ \<Rightarrow> Inl Data_not_an_object)
     else Inl (Not_consumed f))"

fun fold_fields :: "(string \<Rightarrow> json \<Rightarrow> 's \<Rightarrow> 'e + 's) \<Rightarrow> (string \<times> json) list \<Rightarrow> 's \<Rightarrow> 'e + 's" where
  "fold_fields cb [] s = Inr s"
| "fold_fields cb ((f, v) # fs) s = and_then (cb f v s) (fold_fields cb fs)"

definition readChange :: "json_lib \<Rightarrow> json \<Rightarrow> stream_error + change" where
  "readChange lib v = (case ReadObject lib v of
     None \<Rightarrow> Inl Not_an_object
   | Some fs \<Rightarrow> fold_fields (change_field lib) fs \<lparr>c_op = OpNone, c_type = EnumNotSet, c_data = JNull\<rparr>)"

subsection \<open>The worker\<close>

definition in_stream :: "stream_error + 'a \<Rightarrow> sync_error + 'a" where
  "in_stream r = map_sum Stream id r"

definition apply_change :: "json_lib \<Rightarrow> change \<Rightarrow> db \<Rightarrow> sync_error + db" where
  "apply_change lib c d = (let buf = c_data c; op = c_op c in case c_type c of
     EnumSession \<Rightarrow> and_then (in_stream (JSession_UnmarshalJSON lib buf)) (\<lambda>x. syncSession op x d)
   | EnumRace \<Rightarrow> and_then (in_stream (JRace_UnmarshalJSON lib buf)) (\<lambda>x. syncRace op x d)
   | EnumUserProfile \<Rightarrow> and_then (in_stream (JUserProfile_UnmarshalJSON lib buf)) (\<lambda>x. syncUserProfile op x d)
   | EnumSessionPlayerRace \<Rightarrow>
       and_then (in_stream (JSessionPlayerRace_UnmarshalJSON lib buf)) (\<lambda>x. syncSessionPlayerRace op x d)
   | EnumSessionFiles \<Rightarrow> and_then (in_stream (JSessionFiles_UnmarshalJSON lib buf)) (\<lambda>x. syncSessionFiles op x d)
   | EnumRuleset \<Rightarrow> and_then (in_stream (JRuleset_UnmarshalJSON lib buf)) (\<lambda>x. syncRuleset op x d)
   | dt \<Rightarrow> Inl (Unknown_data_type dt))"

text \<open>
  The state while a message is read: the error that the iterator holds (the first one reported
  stays), whether a statement has failed, after which the transaction is aborted and no statement
  has an effect, and the database that the transaction sees.
\<close>

record run =
  r_error :: "sync_error option"
  r_aborted :: bool
  r_db :: db

definition report :: "sync_error \<Rightarrow> run \<Rightarrow> run" where
  "report e r = r\<lparr>r_error := (case r_error r of None \<Rightarrow> Some e | Some e0 \<Rightarrow> Some e0)\<rparr>"

text \<open>
  Over the array of changes: an error of the callback is reported and the next change is read; an
  error of the reader ends the iteration (\<open>False\<close>). \<open>Inl\<close> is a panic.
\<close>

definition is_statement :: "sync_error \<Rightarrow> bool" where
  "is_statement e = (case e of Db _ \<Rightarrow> True | _ \<Rightarrow> False)"

definition run_change :: "json_lib \<Rightarrow> json \<Rightarrow> run \<Rightarrow> sync_error + (bool \<times> run)" where
  "run_change lib v r = (case readChange lib v of
     Inl e \<Rightarrow> Inr (False, report (Stream e) r)
   | Inr c \<Rightarrow>
       if r_aborted r then Inr (True, r)
       else (case apply_change lib c (r_db r) of
         Inr d \<Rightarrow> Inr (True, r\<lparr>r_db := d\<rparr>)
       | Inl e \<Rightarrow> if e = Nil_pointer then Inl Nil_pointer
           else Inr (True, report e (r\<lparr>r_aborted := is_statement e\<rparr>))))"

fun run_changes :: "json_lib \<Rightarrow> json list \<Rightarrow> run \<Rightarrow> sync_error + (bool \<times> run)" where
  "run_changes lib [] r = Inr (True, r)"
| "run_changes lib (v # vs) r = and_then (run_change lib v r) (\<lambda>(continue, r').
     if continue then run_changes lib vs r' else Inr (False, r'))"

fun run_message :: "json_lib \<Rightarrow> (string \<times> json) list \<Rightarrow> run \<Rightarrow> sync_error + run" where
  "run_message lib [] r = Inr r"
| "run_message lib ((f, v) # fs) r =
    (if f = ''version'' then
       (case ReadUint64 lib (Some v) of
          None \<Rightarrow> Inr (report (Stream (Unreadable f)) r)
        | Some _ \<Rightarrow> if r_error r \<noteq> None then Inr r else run_message lib fs r)
     else if f = ''changes'' then
       (case ReadArray lib v of
          None \<Rightarrow> Inr (report (Stream Not_an_array) r)
        | Some vs \<Rightarrow> and_then (run_changes lib vs r) (\<lambda>(continue, r').
            if continue then run_message lib fs r' else Inr r'))
     else Inr (report (Stream (Unknown_property f)) r))"

definition handleNeperReferentialBroadcast :: "json_lib \<Rightarrow> json \<Rightarrow> db \<Rightarrow> sync_error + db" where
  "handleNeperReferentialBroadcast lib data d = (case ReadObject lib data of
     None \<Rightarrow> Inl (Stream Not_an_object)
   | Some fs \<Rightarrow> and_then (run_message lib fs \<lparr>r_error = None, r_aborted = False, r_db = d\<rparr>) (\<lambda>r.
       case r_error r of Some e \<Rightarrow> Inl e | None \<Rightarrow> Inr (r_db r)))"

definition DispatchMessage :: "json_lib \<Rightarrow> string \<Rightarrow> json \<Rightarrow> db \<Rightarrow> sync_error + db" where
  "DispatchMessage lib msgType data d =
    (if msgType = ''neper-referential-broadcast'' then handleNeperReferentialBroadcast lib data d
     else Inl (Unknown_message_type msgType))"

subsection \<open>Synchronisation keeps the integrity of the database\<close>

lemma replace_race_ok: "db_ok d \<Longrightarrow> replace_race r d = Inr d' \<Longrightarrow> db_ok d'"
  by (simp add: replace_race_def enforce_Inr db_ok_parts map_replace_keys fkey_replace_target
      occurs_iff fkey_replace_row)

lemma replace_spr_ok: "db_ok d \<Longrightarrow> replace_spr r d = Inr d' \<Longrightarrow> db_ok d'"
  by (simp add: replace_spr_def enforce_Inr db_ok_parts map_replace_keys occurs_iff fkey_replace_row
      spr_check_def)

lemma replace_ruleset_ok: "db_ok d \<Longrightarrow> replace_ruleset r d = Inr d' \<Longrightarrow> db_ok d'"
  by (simp add: replace_ruleset_def enforce_Inr db_ok_parts map_replace_keys occurs_iff
      fkey_replace_row fkey_opt_replace_target ruleset_check_iff)

lemma replace_file_ok: "db_ok d \<Longrightarrow> replace_file r d = Inr d' \<Longrightarrow> db_ok d'"
  by (simp add: replace_file_def enforce_Inr db_ok_parts map_replace_keys occurs_iff
      fkey_replace_row distinct_replace_row del: set_sql_delete)

lemma upserts_ok [ok_intros]:
  assumes "db_ok d"
  shows "upsert_session_row s d = Inr d' \<Longrightarrow> db_ok d'" "upsert_user_row u d = Inr d' \<Longrightarrow> db_ok d'"
    "upsert_race_row r d = Inr d' \<Longrightarrow> db_ok d'" "upsert_spr_row p d = Inr d' \<Longrightarrow> db_ok d'"
    "upsert_ruleset_row rs d = Inr d' \<Longrightarrow> db_ok d'" "upsert_file_row f d = Inr d' \<Longrightarrow> db_ok d'"
  unfolding upsert_session_row_def upsert_user_row_def upsert_race_row_def upsert_spr_row_def
    upsert_ruleset_row_def upsert_file_row_def
  by (simp_all only: split: if_splits)
    (metis assms insert_session_ok update_session_row_ok insert_user_ok update_user_row_ok
      insert_race_ok replace_race_ok insert_spr_ok replace_spr_ok insert_ruleset_ok
      replace_ruleset_ok insert_file_ok replace_file_ok Inl_Inr_False)+

lemma in_db_Inr: "in_db r = Inr x \<longleftrightarrow> r = Inr x"
  by (cases r) auto

lemma InitUserProfile_ok [ok_intros]: "db_ok d \<Longrightarrow> InitUserProfile uid vs d = Inr d' \<Longrightarrow> db_ok d'"
  unfolding InitUserProfile_def by (rule syncUserProfileSessionRelations_ok)

lemmas sync_defs = syncSession_def syncRace_def syncUserProfile_def syncSessionPlayerRace_def
  syncSessionFiles_def syncRuleset_def

lemma syncs_ok [ok_intros]:
  assumes "db_ok d"
  shows "syncSession op s d = Inr d' \<Longrightarrow> db_ok d'" "syncRace op r d = Inr d' \<Longrightarrow> db_ok d'"
    "syncUserProfile op u d = Inr d' \<Longrightarrow> db_ok d'" "syncSessionPlayerRace op p d = Inr d' \<Longrightarrow> db_ok d'"
    "syncSessionFiles op f d = Inr d' \<Longrightarrow> db_ok d'" "syncRuleset op rs d = Inr d' \<Longrightarrow> db_ok d'"
  using assms
  by (auto simp: sync_defs in_db_Inr and_then_eq_Inr split: if_splits option.splits
      intro: upserts_ok InitSession_ok InitUserProfile_ok)

lemma apply_change_ok [ok_intros]: "db_ok d \<Longrightarrow> apply_change lib c d = Inr d' \<Longrightarrow> db_ok d'"
  by (auto simp: apply_change_def Let_def and_then_eq_Inr split: DataTypeEnum.splits
      intro: syncs_ok)

lemma report_simps [simp]: "r_db (report e r) = r_db r" "r_aborted (report e r) = r_aborted r"
  "r_error (report e r) \<noteq> None"
  by (simp_all add: report_def split: option.splits)

lemma run_change_ok: "run_change lib v r = Inr (b, r') \<Longrightarrow> db_ok (r_db r) \<Longrightarrow> db_ok (r_db r')"
  by (auto simp: run_change_def split: sum.splits if_splits intro: apply_change_ok)

lemma run_changes_ok: "run_changes lib vs r = Inr (b, r') \<Longrightarrow> db_ok (r_db r) \<Longrightarrow> db_ok (r_db r')"
  by (induction vs arbitrary: r)
    (auto simp: and_then_eq_Inr split: if_splits dest: run_change_ok)

lemma run_message_ok: "run_message lib fs r = Inr r' \<Longrightarrow> db_ok (r_db r) \<Longrightarrow> db_ok (r_db r')"
  by (induction lib fs r rule: run_message.induct)
    (auto simp: and_then_eq_Inr split: option.splits if_splits dest: run_changes_ok)

lemma DispatchMessage_ok [ok_intros]:
  "db_ok d \<Longrightarrow> DispatchMessage lib ty data d = Inr d' \<Longrightarrow> db_ok d'"
  by (auto simp: DispatchMessage_def handleNeperReferentialBroadcast_def and_then_eq_Inr
      split: option.splits if_splits dest: run_message_ok)

subsection \<open>A change that was applied can be applied again\<close>

lemma replace_same:
  "(\<And>x. x \<in> set rows \<Longrightarrow> k x = k r \<Longrightarrow> x = r) \<Longrightarrow> sql_update (\<lambda>x. k x = k r) (\<lambda>_. r) rows = rows"
  by (induction rows) (auto simp: sql_update_def)

lemma replace_twice:
  "sql_update (\<lambda>x. k x = k r) (\<lambda>_. r) (sql_update (\<lambda>x. k x = k r) (\<lambda>_. r) rows) =
   sql_update (\<lambda>x. k x = k r) (\<lambda>_. r) rows"
  by (simp add: sql_update_def)

lemma replace_inserted:
  "k r \<notin> k ` set rows \<Longrightarrow> sql_update (\<lambda>x. k x = k r) (\<lambda>_. r) (sql_insert r rows) = sql_insert r rows"
  by (rule replace_same) (auto simp: image_iff)

lemma occurs_replace: "occurs k (k r) (sql_update (\<lambda>x. k x = k r) (\<lambda>_. r) rows) \<longleftrightarrow> occurs k (k r) rows"
  by (auto simp: occurs_def list_ex_iff)

lemma occurs_insert: "occurs k (k r) (sql_insert r rows)"
  by (simp add: occurs_iff)

lemma delete_replace:
  "sql_delete (\<lambda>x. k x = k r) (sql_update (\<lambda>x. k x = k r) (\<lambda>_. r) rows) = sql_delete (\<lambda>x. k x = k r) rows"
  by (induction rows) (auto simp: sql_delete_def sql_update_def)

lemma delete_inserted: "k r \<notin> k ` set rows \<Longrightarrow> sql_delete (\<lambda>x. k x = k r) (sql_insert r rows) = rows"
  by (auto simp: sql_delete_def sql_insert_def image_iff intro!: filter_True)

lemmas again_simps = replace_twice replace_inserted occurs_replace occurs_insert delete_replace
  delete_inserted

lemma upsert_session_again:
  "upsert_session_row r d = Inr d' \<Longrightarrow> S_RulesetID r = None \<Longrightarrow> upsert_session_row r d' = Inr d'"
  by (auto simp: upsert_session_row_def update_session_row_def insert_session_def enforce_Inr
      again_simps occurs_iff [symmetric] split: if_splits)

lemma upsert_race_again: "upsert_race_row r d = Inr d' \<Longrightarrow> upsert_race_row r d' = Inr d'"
  by (auto simp: upsert_race_row_def replace_race_def insert_race_def enforce_Inr again_simps
      occurs_iff [symmetric] split: if_splits)

lemma upsert_spr_again: "upsert_spr_row r d = Inr d' \<Longrightarrow> upsert_spr_row r d' = Inr d'"
  by (auto simp: upsert_spr_row_def replace_spr_def insert_spr_def enforce_Inr again_simps
      occurs_iff [symmetric] split: if_splits)

lemma upsert_ruleset_again: "upsert_ruleset_row r d = Inr d' \<Longrightarrow> upsert_ruleset_row r d' = Inr d'"
  by (auto simp: upsert_ruleset_row_def replace_ruleset_def insert_ruleset_def enforce_Inr again_simps
      occurs_iff [symmetric] split: if_splits)

lemma upsert_file_again: "upsert_file_row r d = Inr d' \<Longrightarrow> upsert_file_row r d' = Inr d'"
  by (auto simp: upsert_file_row_def replace_file_def insert_file_def enforce_Inr again_simps
      occurs_iff [symmetric] split: if_splits)

lemma upsert_user_again: "upsert_user_row r d = Inr d' \<Longrightarrow> upsert_user_row r d' = Inr d'"
  by (auto simp: upsert_user_row_def update_user_row_def insert_user_def Let_def enforce_Inr again_simps
      occurs_iff [symmetric] split: if_splits)

text \<open>The relations: the rows that are wanted are there, and no other row of the column.\<close>

lemma fold_upsert_same:
  "(\<And>w. w \<in> set ws \<Longrightarrow> w \<in> set rows) \<Longrightarrow>
   (\<And>w r. w \<in> set ws \<Longrightarrow> r \<in> set rows \<Longrightarrow> rel_key r = rel_key w \<Longrightarrow> r = w) \<Longrightarrow>
   fold upsert_rel ws rows = rows"
proof (induction ws)
  case (Cons w ws)
  have "sql_update (\<lambda>r. rel_key r = rel_key w) (\<lambda>r. r\<lparr>R_IsManager := R_IsManager w\<rparr>) rows = rows"
  proof -
    have "(if rel_key r = rel_key w then r\<lparr>R_IsManager := R_IsManager w\<rparr> else r) = r"
      if "r \<in> set rows" for r
      using Cons.prems(2) [of w r] that by auto
    then show ?thesis by (simp add: sql_update_def map_idI)
  qed
  then have "upsert_rel w rows = rows"
    using Cons.prems(1) [of w] by (simp add: upsert_rel_def occurs_iff)
  moreover have "fold upsert_rel ws rows = rows"
    by (rule Cons.IH) (use Cons.prems in \<open>meson list.set_intros(2)\<close>)+
  ultimately show ?case by simp
qed simp

lemma column_value_set [simp]: "column_value c (set_column c k r) = k"
  by (cases c) simp_all

lemma column_value_set_other: "c \<noteq> c' \<Longrightarrow> column_value c' (set_column c k r) = column_value c' r"
  by (cases c; cases c') simp_all

lemma relations_again:
  assumes "syncUserProfileSessionRelations a b k vs d = Inr d'" "a \<noteq> b"
  shows "syncUserProfileSessionRelations a b k vs d' = Inr d'"
proof -
  let ?ws = "map (set_column a k) vs"
  let ?p = "\<lambda>r. column_value a r = k \<and> list_all (\<lambda>v. column_value b r \<noteq> column_value b v) vs"
  show ?thesis
  proof (cases "vs = []")
    case True
    then show ?thesis using assms(1)
      by (auto simp: syncUserProfileSessionRelations_def delete_rels_def sql_delete_def)
  next
    case False
    then obtain d1 where d1: "upsert_rels ?ws d = Inr d1" and d': "d' = delete_rels ?p d1"
      using assms(1) by (auto simp: syncUserProfileSessionRelations_def and_then_eq_Inr)
    have keys: "distinct (map rel_key ?ws)"
      and fk: "list_all (\<lambda>v. occurs U_ID (R_UserProfileID v) (users d)) ?ws"
        "list_all (\<lambda>v. occurs S_ID (R_SessionID v) (sessions d)) ?ws"
      and rows1: "d1 = d\<lparr>rels := fold upsert_rel ?ws (rels d)\<rparr>"
      using d1 by (simp_all add: upsert_rels_def enforce_Inr)
    have set1: "set (rels d1) = set ?ws \<union> {r \<in> set (rels d). rel_key r \<notin> rel_key ` set ?ws}"
      using set_fold_upsert [OF keys] by (simp add: rows1)
    have kept: "w \<in> set (rels d')" if "w \<in> set ?ws" for w
    proof -
      have "w \<in> set (rels d1)" using that set1 by blast
      moreover have "\<not> ?p w" using that assms(2) by (auto simp: list_all_iff column_value_set_other)
      ultimately show ?thesis by (simp add: d' delete_rels_def)
    qed
    have unique: "r = w" if "w \<in> set ?ws" "r \<in> set (rels d')" "rel_key r = rel_key w" for r w
    proof -
      have "r \<in> set (rels d1)" using that(2) by (simp add: d' delete_rels_def)
      then have "r \<in> set ?ws" using that(1,3) set1 by auto
      then show ?thesis using that(1,3) keys by (meson distinct_key_eq)
    qed
    have "fold upsert_rel ?ws (rels d') = rels d'"
      by (rule fold_upsert_same) (use kept unique in blast)+
    then have "upsert_rels ?ws d' = Inr d'"
      using keys fk by (simp add: upsert_rels_def enforce_Inr d' rows1 delete_rels_def)
    moreover have "delete_rels ?p d' = d'" by (simp add: d' delete_rels_def sql_delete_def)
    ultimately show ?thesis
      using False by (simp add: syncUserProfileSessionRelations_def)
  qed
qed

lemma enforce_map: "enforce cs (f d) = map_sum id f (enforce cs d)"
  by (induction cs d rule: enforce.induct) (auto simp: enforce.simps)

lemma rows_and_rels:
  "upsert_session_row s (d\<lparr>rels := x\<rparr>) = map_sum id (\<lambda>d. d\<lparr>rels := x\<rparr>) (upsert_session_row s d)"
  "upsert_user_row u (d\<lparr>rels := x\<rparr>) = map_sum id (\<lambda>d. d\<lparr>rels := x\<rparr>) (upsert_user_row u d)"
  by (cases d, simp add: upsert_session_row_def update_session_row_def insert_session_def
      upsert_user_row_def update_user_row_def insert_user_def Let_def enforce_map [symmetric])+

lemma relations_only: 
  "syncUserProfileSessionRelations a b k vs d = Inr d' \<Longrightarrow> d' = d\<lparr>rels := rels d'\<rparr>"
  by (auto simp: syncUserProfileSessionRelations_def and_then_eq_Inr upsert_rels_def enforce_Inr
      delete_rels_def split: if_splits)

lemma row_then_relations_again:
  assumes "and_then (up d) (\<lambda>d1. syncUserProfileSessionRelations a b k vs d1) = Inr d'" "a \<noteq> b"
    "\<And>d d'. up d = Inr d' \<Longrightarrow> up d' = Inr d'"
    "\<And>d x. up (d\<lparr>rels := x\<rparr>) = map_sum id (\<lambda>d. d\<lparr>rels := x\<rparr>) (up d)"
  shows "and_then (up d') (\<lambda>d1. syncUserProfileSessionRelations a b k vs d1) = Inr d'"
proof -
  obtain d1 where d1: "up d = Inr d1" and s: "syncUserProfileSessionRelations a b k vs d1 = Inr d'"
    using assms(1) by (auto simp: and_then_eq_Inr)
  have "up d' = map_sum id (\<lambda>d. d\<lparr>rels := rels d'\<rparr>) (up d1)"
    using assms(4) [where d = d1 and x = "rels d'"] relations_only [OF s] by simp
  also have "\<dots> = Inr (d1\<lparr>rels := rels d'\<rparr>)" using assms(3) [OF d1] by simp
  finally have "up d' = Inr d'" using relations_only [OF s] by simp
  then show ?thesis using relations_again [OF s assms(2)] by simp
qed

lemma in_db_and_then: "and_then (in_db m) (\<lambda>x. in_db (f x)) = in_db (and_then m f)"
  by (cases m) auto

lemma syncSession_again: "syncSession op s d = Inr d' \<Longrightarrow> syncSession op s d' = Inr d'"
  unfolding syncSession_def InitSession_def
  by (cases "deref_all (js_Members s)")
    (auto simp: in_db_and_then in_db_Inr and_then_eq_Inr [of "in_db _" "\<lambda>x. Inl _"] split: if_splits option.splits
      intro!: row_then_relations_again upsert_session_again rows_and_rels)

lemma syncUserProfile_again: "syncUserProfile op s d = Inr d' \<Longrightarrow> syncUserProfile op s d' = Inr d'"
  unfolding syncUserProfile_def InitUserProfile_def
  by (cases "deref_all (ju_SessionList s)")
    (auto simp: in_db_and_then in_db_Inr and_then_eq_Inr [of "in_db _" "\<lambda>x. Inl _"] split: if_splits option.splits
      intro!: row_then_relations_again upsert_user_again rows_and_rels)

lemma syncs_again:
  "syncRace op r d = Inr d' \<Longrightarrow> syncRace op r d' = Inr d'"
  "syncSessionPlayerRace op p d = Inr d' \<Longrightarrow> syncSessionPlayerRace op p d' = Inr d'"
  "syncSessionFiles op f d = Inr d' \<Longrightarrow> syncSessionFiles op f d' = Inr d'"
  "syncRuleset op rs d = Inr d' \<Longrightarrow> syncRuleset op rs d' = Inr d'"
  by (auto simp: sync_defs in_db_Inr and_then_eq_Inr split: if_splits
      dest: upsert_race_again upsert_spr_again upsert_file_again upsert_ruleset_again)

lemma apply_change_again: "apply_change lib c d = Inr d' \<Longrightarrow> apply_change lib c d' = Inr d'"
  by (auto simp: apply_change_def Let_def and_then_eq_Inr split: DataTypeEnum.splits
      dest: syncs_again syncSession_again syncUserProfile_again)

subsection \<open>What a broadcast does\<close>

text \<open>
  The specification: the records of the message are written one after the other, as their type
  says, and nothing is written when one of them cannot be.
\<close>

fun sync_data :: "Operation \<Rightarrow> DataType \<Rightarrow> db \<Rightarrow> sync_error + db" where
  "sync_data op (DSession x) d = syncSession op x d"
| "sync_data op (DRace x) d = syncRace op x d"
| "sync_data op (DUserProfile x) d = syncUserProfile op x d"
| "sync_data op (DSessionPlayerRace x) d = syncSessionPlayerRace op x d"
| "sync_data op (DSessionFiles x) d = syncSessionFiles op x d"
| "sync_data op (DRuleset x) d = syncRuleset op x d"
| "sync_data op x d = Inl (Unknown_data_type (DataType_Type x))"

fun sync_items :: "(Operation \<times> DataType) list \<Rightarrow> db \<Rightarrow> sync_error + db" where
  "sync_items [] d = Inr d"
| "sync_items ((op, x) # cs) d = and_then (sync_data op x d) (sync_items cs)"

definition operation_name :: "Operation \<Rightarrow> string" where
  "operation_name op = (case op of OpCreate \<Rightarrow> ''create'' | OpUpdate \<Rightarrow> ''update''
     | OpNoChange \<Rightarrow> ''no_change'' | OpNone \<Rightarrow> '''')"

definition message :: "(Operation \<times> DataType) list \<Rightarrow> JReferentialSync" where
  "message cs = \<lparr>jb_Changes = Some (map (\<lambda>(op, x).
     Some \<lparr>jc_Data = x, jc_Operation = operation_name op\<rparr>) cs), jb_Version = 1\<rparr>"

lemma types_are_guess: "types_are lib name fs \<Longrightarrow> guess_fields lib fs = data_type_named name"
  by (induction fs rule: types_are.induct) (auto split: if_splits)

lemma data_type_named_type: "x \<noteq> NotSet \<Longrightarrow> data_type_named (type_name x) = Inr (DataType_Type x)"
  by (cases x) (simp_all add: data_type_named_def)

lemma reads_as_guess:
  assumes "json_lib_ok lib" "reads_as lib x v" "x \<noteq> NotSet"
  shows "guessDataType lib v = Inr (DataType_Type x)"
  using assms types_are_guess data_type_named_type
  by (auto simp: reads_as_def guessDataType_def json_lib_ok_def)

text \<open>The reader of the worker and the generated reader agree on the type of a record.\<close>

lemma attempt_cases:
  "attempt c r k = Inr x \<Longrightarrow> (\<And>y. r = Inr y \<Longrightarrow> x = c y \<Longrightarrow> P) \<Longrightarrow> (k = Inr x \<Longrightarrow> P) \<Longrightarrow> P"
  by (cases r) (auto simp: attempt_def)

lemma map_sum_Inr: "map_sum id c r = Inr x \<longleftrightarrow> (\<exists>y. r = Inr y \<and> x = c y)"
  by (cases r) auto

lemma DataType_read_type:
  assumes "json_lib_ok lib" "DataType_UnmarshalJSON lib (JObj fs) = Inr x"
  shows "types_are lib (type_name x) fs \<and> x \<noteq> NotSet"
  using assms(2) record_types [OF assms(1), of fs]
  by (auto simp: DataType_UnmarshalJSON_def map_sum_Inr elim!: attempt_cases)

lemma guessDataType_agrees:
  assumes "json_lib_ok lib" "DataType_UnmarshalJSON lib (JObj fs) = Inr x"
  shows "guessDataType lib (JObj fs) = Inr (DataType_Type x)"
  using DataType_read_type [OF assms] assms(1) types_are_guess data_type_named_type
  by (auto simp: guessDataType_def json_lib_ok_def)

lemma apply_marshalled:
  assumes "json_lib_ok lib" "DataType_ok x" "DataType_MarshalJSON lib x = Some v"
  shows "apply_change lib \<lparr>c_op = op, c_type = DataType_Type x, c_data = v\<rparr> d = sync_data op x d"
  using assms reads_back [OF assms(1)]
  by (cases x) (auto simp: apply_change_def in_stream_def)

lemma readChange_marshalled:
  assumes "json_lib_ok lib" "DataType_ok x" "DataType_MarshalJSON lib x = Some w"
    "op \<noteq> OpNone"
    "JChangesItems_MarshalJSON lib \<lparr>jc_Data = x, jc_Operation = operation_name op\<rparr> = Some v"
  shows "readChange lib v = Inr \<lparr>c_op = op, c_type = DataType_Type x, c_data = w\<rparr>"
proof -
  have r: "reads_as lib x w" by (rule DataType_round_trip [OF assms(1-3)])
  have "x \<noteq> NotSet" using assms(2) by auto
  from reads_as_guess [OF assms(1) r this] have g: "guessDataType lib w = Inr (DataType_Type x)" .
  obtain fs where w: "w = JObj fs" using r by (auto simp: reads_as_def)
  have v: "v = JObj [(''data'', w), (''operation'', JStr (operation_name op))]"
    using assms(3,5) by (simp add: JChangesItems_MarshalJSON_def)
  have o: "operation_named (operation_name op) = Inr op"
    using assms(4) by (cases op) (simp_all add: operation_named_def operation_name_def)
  have "ReadString lib (Some (JStr y)) = Some y" "ReadObject lib (JObj fs') = Some fs'" for y fs'
    using assms(1) by (simp_all add: json_lib_ok_def)
  then show ?thesis
    using g w by (simp add: v readChange_def change_field_def o)
qed

lemma run_change_error:
  "run_change lib v r = Inr (b, r') \<Longrightarrow> r_error r \<noteq> None \<Longrightarrow> r_error r' \<noteq> None"
  by (auto simp: run_change_def report_def split: sum.splits if_splits option.splits)

lemma run_changes_error:
  "run_changes lib vs r = Inr (b, r') \<Longrightarrow> r_error r \<noteq> None \<Longrightarrow> r_error r' \<noteq> None"
proof (induction vs arbitrary: r)
  case (Cons v vs)
  then obtain c r1 where r1: "run_change lib v r = Inr (c, r1)"
    and rest: "(if c then run_changes lib vs r1 else Inr (False, r1)) = Inr (b, r')"
    by (auto simp: and_then_eq_Inr)
  have "r_error r1 \<noteq> None" using run_change_error [OF r1 Cons.prems(2)] .
  then show ?case using rest Cons.IH by (auto split: if_splits)
qed simp

text \<open>The array of changes: it runs through as the specification does, or ends with an error.\<close>

lemma run_changes_spec:
  assumes "json_lib_ok lib" "\<forall>(op, x) \<in> set cs. op \<noteq> OpNone \<and> DataType_ok x"
    "those (map (\<lambda>(op, x). JChangesItems_MarshalJSON lib
       \<lparr>jc_Data = x, jc_Operation = operation_name op\<rparr>) cs) = Some vs"
    "r_error r = None" "\<not> r_aborted r"
  shows "case sync_items cs (r_db r) of
      Inr d' \<Rightarrow> run_changes lib vs r = Inr (True, r\<lparr>r_db := d'\<rparr>)
    | Inl _ \<Rightarrow> (\<forall>b r'. run_changes lib vs r = Inr (b, r') \<longrightarrow> r_error r' \<noteq> None)"
  using assms(2-5)
proof (induction cs arbitrary: vs r)
  case (Cons p cs)
  obtain op x where p: "p = (op, x)" by (cases p)
  obtain v vs' where v: "JChangesItems_MarshalJSON lib
      \<lparr>jc_Data = x, jc_Operation = operation_name op\<rparr> = Some v"
    and vs': "those (map (\<lambda>(op, x). JChangesItems_MarshalJSON lib
       \<lparr>jc_Data = x, jc_Operation = operation_name op\<rparr>) cs) = Some vs'" and vs: "vs = v # vs'"
    using Cons.prems(2) by (auto simp: p split: option.splits)
  obtain w where w: "DataType_MarshalJSON lib x = Some w"
    using v by (auto simp: JChangesItems_MarshalJSON_def)
  have ok: "op \<noteq> OpNone" "DataType_ok x" using Cons.prems(1) by (auto simp: p)
  have rc: "run_change lib v r = (case sync_data op x (r_db r) of
      Inr d \<Rightarrow> Inr (True, r\<lparr>r_db := d\<rparr>)
    | Inl e \<Rightarrow> if e = Nil_pointer then Inl Nil_pointer
        else Inr (True, report e (r\<lparr>r_aborted := is_statement e\<rparr>)))"
    using readChange_marshalled [OF assms(1) ok(2) w ok(1) v] Cons.prems(4)
    by (simp add: run_change_def apply_marshalled [OF assms(1) ok(2) w])
  show ?case
  proof (cases "sync_data op x (r_db r)")
    case (Inl e)
    then show ?thesis
      using run_changes_error [OF _ report_simps(3)]
      by (simp add: p vs rc and_then_eq_Inr del: report_simps(3)) blast
  next
    case (Inr d)
    then show ?thesis
      using Cons.IH [of vs' "r\<lparr>r_db := d\<rparr>"] Cons.prems vs' by (simp add: p vs rc split: sum.splits)
  qed
qed simp


text \<open>
  \<^bold>\<open>C28\<close>: A broadcast does what its sender wrote. The message that the generated code writes for a
  list of changes is dispatched successfully exactly when the changes, applied in their order, all
  succeed, and then the database is the one after the last of them; otherwise nothing is written.
\<close>

theorem broadcast_applies_changes:
  assumes "json_lib_ok lib" "\<forall>(op, x) \<in> set cs. op \<noteq> OpNone \<and> DataType_ok x"
  shows "\<exists>v. JReferentialSync_MarshalJSON lib (message cs) = Some v \<and>
    (\<forall>d d'. DispatchMessage lib ''neper-referential-broadcast'' v d = Inr d' \<longleftrightarrow>
      sync_items cs d = Inr d')"
proof -
  let ?item = "\<lambda>(op, x). \<lparr>jc_Data = x, jc_Operation = operation_name op\<rparr>"
  let ?m = "\<lambda>(op, x). JChangesItems_MarshalJSON lib \<lparr>jc_Data = x, jc_Operation = operation_name op\<rparr>"
  have m: "map (marshal_change lib) (map (Some \<circ> ?item) cs) = map ?m cs"
    by (simp add: case_prod_beta)
  have "list_all change_ok (map (Some \<circ> ?item) cs)"
    using assms(2) by (auto simp: list_all_iff change_ok_def)
  from those_marshalled [OF this, of lib] obtain vs where vs: "those (map ?m cs) = Some vs"
    unfolding m by blast
  let ?v = "JObj [(''changes'', JArr vs), (''version'', JInt 1)]"
  have "JReferentialSync_MarshalJSON lib (message cs) = Some ?v"
    using vs by (simp add: JReferentialSync_MarshalJSON_def message_def omit_if_def comp_def
        case_prod_unfold)
  moreover have "DispatchMessage lib ''neper-referential-broadcast'' ?v d = Inr d' \<longleftrightarrow>
      sync_items cs d = Inr d'" for d d'
  proof -
    have lib: "ReadArray lib (JArr vs) = Some vs" "ReadObject lib (JObj fs) = Some fs"
      "ReadUint64 lib (Some (JInt 1)) = Some 1" for fs
      using assms(1) by (simp_all add: json_lib_ok_def int64_def)
    let ?r = "\<lparr>r_error = None, r_aborted = False, r_db = d\<rparr>"
    show ?thesis
      using run_changes_spec [OF assms vs, of ?r]
      by (cases "sync_items cs d"; cases "run_changes lib vs ?r")
        (auto simp: DispatchMessage_def handleNeperReferentialBroadcast_def lib and_then_eq_Inr
          split: option.splits if_splits)
  qed
  ultimately show ?thesis by blast
qed

subsection \<open>A synchronised session\<close>

definition synced_session :: "JSession \<Rightarrow> session_state \<Rightarrow> SessionDB" where
  "synced_session s st = \<lparr>S_ID = js_Id s, S_Name = js_Name s, S_Private = js_Private s,
     S_RulesIsSet = js_RulesIsSet s, S_State = st, S_RulesetID = None\<rparr>"

definition synced_member :: "JSession \<Rightarrow> JUserProfileSessionRel \<Rightarrow> UserProfileSessionRelDB" where
  "synced_member s m = \<lparr>R_UserProfileID = jx_UserProfileId m, R_SessionID = js_Id s,
     R_IsManager = jx_IsManager m\<rparr>"

lemma set_replace_key:
  "distinct (map k rows) \<Longrightarrow> k r \<in> k ` set rows \<Longrightarrow>
   set (sql_update (\<lambda>x. k x = k r) (\<lambda>_. r) rows) = insert r {x \<in> set rows. k x \<noteq> k r}"
  by (auto simp: set_sql_update image_iff)

lemma upsert_session_spec:
  assumes "db_ok d" "upsert_session_row r d = Inr d'"
  shows "set (sessions d') = insert r {x \<in> set (sessions d). S_ID x \<noteq> S_ID r} \<and>
    d' = d\<lparr>sessions := sessions d'\<rparr>"
proof (cases "occurs S_ID (S_ID r) (sessions d)")
  case True
  then have "d' = d\<lparr>sessions := sql_update (\<lambda>x. S_ID x = S_ID r) (\<lambda>_. r) (sessions d)\<rparr>"
    using assms(2) by (simp add: upsert_session_row_def update_session_row_def enforce_Inr)
  moreover have "distinct (map S_ID (sessions d))" using assms(1) by (simp add: db_ok_parts)
  ultimately show ?thesis using True by (simp add: set_replace_key occurs_iff)
next
  case False
  then have "d' = d\<lparr>sessions := sql_insert r (sessions d)\<rparr>"
    using assms(2) by (simp add: upsert_session_row_def insert_session_def enforce_Inr)
  then show ?thesis using False by (auto simp: occurs_iff image_iff)
qed

text \<open>
  The session and its members are those of the record, whoever was a member before. The link to the
  rules is lost, as with \<open>SessionUpdate\<close>: the record has no field for it, and the statement writes
  every column.
\<close>

lemma syncSession_correct:
  assumes "db_ok d" "writes op" "syncSession op s d = Inr d'"
  shows "\<exists>st ms. session_state_of (js_State s) = Some st \<and> deref_all (js_Members s) = Inr ms \<and>
    distinct (map jx_UserProfileId ms) \<and>
    set (sessions d') = insert (synced_session s st) {x \<in> set (sessions d). S_ID x \<noteq> js_Id s} \<and>
    set (rels d') = synced_member s ` set ms \<union> {r \<in> set (rels d). R_SessionID r \<noteq> js_Id s} \<and>
    d' = d\<lparr>sessions := sessions d', rels := rels d'\<rparr> \<and> db_ok d'"
proof -
  obtain st d1 ms where st: "session_state_of (js_State s) = Some st"
    and up: "upsert_session_row (synced_session s st) d = Inr d1"
    and ms: "deref_all (js_Members s) = Inr ms"
    and init: "InitSession (js_Id s) (map (synced_member s) ms) d1 = Inr d'"
    using assms(2,3) by (auto simp: syncSession_def in_db_Inr and_then_eq_Inr synced_session_def
        synced_member_def [abs_def] split: option.splits)
  have id: "S_ID (synced_session s st) = js_Id s" by (simp add: synced_session_def)
  note d1 = upsert_session_spec [OF assms(1) up, unfolded id]
  have "\<forall>v \<in> set (map (synced_member s) ms). R_SessionID v = js_Id s"
    by (simp add: synced_member_def)
  moreover have "js_Id s \<in> S_ID ` set (sessions d1)" using d1 id by (auto simp: image_iff)
  ultimately have r: "distinct (map R_UserProfileID (map (synced_member s) ms)) \<and>
      set (rels d') = set (map (synced_member s) ms) \<union> {r \<in> set (rels d1). R_SessionID r \<noteq> js_Id s} \<and>
      d' = d1\<lparr>rels := rels d'\<rparr>"
    using InitSession_Inr [OF init] by blast
  have same: "sessions d' = sessions d1" "rels d1 = rels d"
    by (subst r [THEN conjunct2, THEN conjunct2], simp) (subst d1 [THEN conjunct2], simp)
  have "distinct (map jx_UserProfileId ms)"
    using r by (simp add: synced_member_def comp_def)
  moreover have "d' = d\<lparr>sessions := sessions d', rels := rels d'\<rparr>"
  proof -
    have "d' = (d\<lparr>sessions := sessions d1\<rparr>)\<lparr>rels := rels d'\<rparr>" using r d1 by metis
    then show ?thesis using same by simp
  qed
  ultimately show ?thesis
    using st ms r d1 same syncs_ok(1) [OF assms(1,3)] by simp
qed

subsection \<open>The properties at concrete inputs\<close>

definition example_JSession :: JSession where
  "example_JSession = zero_JSession\<lparr>js_Id := ''s'', js_Name := ''renamed'', js_State := ''pending'',
     js_Type := ''session'', js_Members := Some [Some \<lparr>jx_IsManager = True, jx_SessionId = '''',
       jx_UserProfileId = ''w''\<rparr>]\<rparr>"

definition example_changes :: "(Operation \<times> DataType) list" where
  "example_changes = [(OpUpdate, DSession example_JSession),
     (OpCreate, DRace (zero_JRace\<lparr>jr_Id := ''r2'', jr_UserId := ''v'', jr_Type := ''race''\<rparr>))]"

theorem broadcast_applies_changes_witness:
  "(\<exists>v. JReferentialSync_MarshalJSON example_json_lib (message example_changes) = Some v \<and>
     (\<forall>d d'. DispatchMessage example_json_lib ''neper-referential-broadcast'' v d = Inr d' \<longleftrightarrow>
       sync_items example_changes d = Inr d')) \<and>
   map Ra_ID (case sync_items example_changes (example_db Pending False) of Inl _ \<Rightarrow> [] | Inr d \<Rightarrow> races d) =
     [''r'', ''r2'']"
proof (rule conjI)
  show "\<exists>v. JReferentialSync_MarshalJSON example_json_lib (message example_changes) = Some v \<and>
     (\<forall>d d'. DispatchMessage example_json_lib ''neper-referential-broadcast'' v d = Inr d' \<longleftrightarrow>
       sync_items example_changes d = Inr d')"
    by (rule broadcast_applies_changes [OF example_json_lib_ok])
      (simp add: example_changes_def example_JSession_def)
  show "map Ra_ID (case sync_items example_changes (example_db Pending False) of Inl _ \<Rightarrow> [] | Inr d \<Rightarrow> races d) =
     [''r'', ''r2'']"
    by code_simp
qed

text \<open>
  \<^bold>\<open>C29\<close>: A change that has been applied to a database can be applied again: it succeeds and changes
  nothing, so a message of one change may be delivered twice. The integrity of the database is kept.
\<close>

theorem synchronised_again:
  assumes "db_ok d" "apply_change lib c d = Inr d'"
  shows "db_ok d' \<and> apply_change lib c d' = Inr d'"
  using assms apply_change_ok apply_change_again by blast

definition example_change :: change where
  "example_change = \<lparr>c_op = OpUpdate, c_type = EnumSession,
     c_data = JSession_MarshalJSON example_json_lib example_JSession\<rparr>"

lemma example_synced:
  obtains d' where "syncSession OpUpdate example_JSession (example_db Started False) = Inr d'"
    "map S_Name (sessions d') = [''renamed'']" "map R_UserProfileID (rels d') = [''w'']"
proof -
  let ?d = "syncSession OpUpdate example_JSession (example_db Started False)"
  have "case ?d of Inl _ \<Rightarrow> False
    | Inr d' \<Rightarrow> map S_Name (sessions d') = [''renamed''] \<and> map R_UserProfileID (rels d') = [''w'']"
    by code_simp
  then show ?thesis using that by (cases ?d) auto
qed

theorem synchronised_again_witness:
  "\<exists>d'. apply_change example_json_lib example_change (example_db Started False) = Inr d' \<and>
     db_ok d' \<and> apply_change example_json_lib example_change d' = Inr d' \<and>
     map R_UserProfileID (rels d') = [''w'']"
proof -
  obtain d' where d': "syncSession OpUpdate example_JSession (example_db Started False) = Inr d'"
    "map R_UserProfileID (rels d') = [''w'']"
    by (rule example_synced)
  have "DataType_ok (DSession example_JSession)" by (simp add: example_JSession_def)
  from apply_marshalled [OF example_json_lib_ok this DataType_MarshalJSON.simps(2)]
  have again: "apply_change example_json_lib example_change (example_db Started False) = Inr d'"
    unfolding example_change_def DataType_Type.simps sync_data.simps d'(1) [symmetric] .
  show ?thesis
    by (rule exI [of _ d'], intro conjI synchronised_again [OF example_db_ok again, THEN conjunct1]
      synchronised_again [OF example_db_ok again, THEN conjunct2] again d'(2))
qed

lemma syncSession_correct_witness:
  "\<exists>d'. syncSession OpUpdate example_JSession (example_db Started False) = Inr d' \<and>
     map S_Name (sessions d') = [''renamed''] \<and> synced_session example_JSession Pending \<in> set (sessions d')"
proof -
  obtain d' where d': "syncSession OpUpdate example_JSession (example_db Started False) = Inr d'"
    "map S_Name (sessions d') = [''renamed'']"
    by (rule example_synced)
  have st: "session_state_of (js_State example_JSession) = Some Pending" by code_simp
  have "writes OpUpdate" by (simp add: writes_def)
  from syncSession_correct [OF example_db_ok this d'(1)] st d' show ?thesis by auto
qed

end
