(* ===== verification/Interleaving.thy ===== *)
theory Interleaving
  imports Turns Membership Players
begin

section \<open>Requests that overlap\<close>

text \<open>
  The other theories run a request as one step. Under the default isolation level of PostgreSQL,
  READ COMMITTED, a transaction that only reads before it writes sees the database as it was when it
  read, and its writes are applied to the database as it is when they are executed. Here three
  handlers are split where they stop reading and start writing (\<open>turn_submit.go\<close>,
  \<open>session_player_race_create.go\<close>, \<open>session_quit.go\<close>); of all handlers
  only \<open>game_create.go\<close> locks the row that it changes, with \<open>SELECT ... FOR UPDATE\<close>. The split is coarse: all reads of a
  request at one moment, all its writes at one later moment. It is enough to exhibit what two
  overlapping requests do; it does not list every interleaving of their statements.
\<close>

subsection \<open>A request in two parts\<close>

text \<open>\<open>finish\<close>: the outcome of a transaction and the database that it leaves.\<close>

definition finish :: "'r tx \<Rightarrow> db \<Rightarrow> (err + 'r) \<times> db" where
  "finish t d = (case t of Inl e \<Rightarrow> (Inl e, d) | Inr (x, d', ns) \<Rightarrow> (Inr x, d'))"

text \<open>One request after the other, and two requests that have both read before the first one writes.\<close>

definition one_after_the_other :: "(db \<Rightarrow> 'r tx) \<Rightarrow> (db \<Rightarrow> 's tx) \<Rightarrow> db \<Rightarrow> (err + 'r) \<times> (err + 's) \<times> db" where
  "one_after_the_other a b d = (case finish (a d) d of (xa, d1) \<Rightarrow>
     (case finish (b d1) d1 of (xb, d2) \<Rightarrow> (xa, xb, d2)))"

definition overlapped ::
    "(db \<Rightarrow> err + 'l) \<Rightarrow> ('l \<Rightarrow> db \<Rightarrow> 'r tx) \<Rightarrow> (db \<Rightarrow> err + 'm) \<Rightarrow> ('m \<Rightarrow> db \<Rightarrow> 's tx) \<Rightarrow> db \<Rightarrow>
     (err + 'r) \<times> (err + 's) \<times> db" where
  "overlapped ra wa rb wb d = (case finish (and_then (ra d) (\<lambda>l. wa l d)) d of (xa, d1) \<Rightarrow>
     (case finish (and_then (rb d) (\<lambda>l. wb l d1)) d1 of (xb, d2) \<Rightarrow> (xa, xb, d2)))"

text \<open>
  The interface of a handler that is split: what it reads, what it writes with that, and the law
  that the two make up the handler. An overlap is harmless when the second request reads the same
  after the first one has written.
\<close>

locale split_request =
  fixes whole :: "db \<Rightarrow> 'r tx"
    and reads :: "db \<Rightarrow> err + 'l"
    and writes_with :: "'l \<Rightarrow> db \<Rightarrow> 'r tx"
  assumes whole: "whole d = and_then (reads d) (\<lambda>l. writes_with l d)"
begin

lemma overlapped_unaffected:
  fixes other :: "db \<Rightarrow> 's tx" and other_reads :: "db \<Rightarrow> err + 'm"
    and other_writes :: "'m \<Rightarrow> db \<Rightarrow> 's tx"
  assumes "\<And>d. other d = and_then (other_reads d) (\<lambda>l. other_writes l d)"
    "reads (snd (finish (other d) d)) = reads d"
  shows "overlapped other_reads other_writes reads writes_with d = one_after_the_other other whole d"
proof -
  obtain xa d1 where a: "finish (other d) d = (xa, d1)" by (cases "finish (other d) d")
  then have r: "reads d1 = reads d" using assms(2) by simp
  have "finish (and_then (other_reads d) (\<lambda>l. other_writes l d)) d = (xa, d1)"
    using a by (simp add: assms(1))
  then show ?thesis
    by (simp add: overlapped_def one_after_the_other_def a whole r)
qed

end

subsection \<open>Submitting a turn\<close>

definition TurnSubmit_read ::
    "houston \<Rightarrow> id \<Rightarrow> string \<Rightarrow> Principal \<Rightarrow> db \<Rightarrow> err + file_header \<times> int \<times> SessionFilesDB" where
  "TurnSubmit_read hs sid b64 pr d =
    (if \<not> TurnSubmit_Authorize sid pr d then Inl ErrForbidden
     else and_then (get_row (sessionPlayerRaceQuery (Subject pr) sid d)) (\<lambda>spr.
      case B64Decode b64 of
        Inl e \<Rightarrow> Inl (ErrInvalidSomething (''invalid turn file: '' @ Error_msg e))
      | Inr data \<Rightarrow>
         and_then (FileHeader hs data) (\<lambda>header.
         and_then (check_order_file header (P_PlayerOrder spr)) (\<lambda>_.
         and_then (get_row (lastSessionFilesQuery sid d)) (\<lambda>sf.
         if F_Year sf \<noteq> Year header
           then Inl (ErrInvalidSomething (''turn year is not matching our awaiting year, got ''
             @ decimal_int (Year header) @ '', wanted '' @ decimal_int (F_Year sf)))
         else and_then (store_order b64 (P_PlayerOrder spr) sf) (\<lambda>sf1.
           Inr (header, P_PlayerOrder spr, sf1)))))))"

definition TurnSubmit_write ::
    "id \<Rightarrow> int \<Rightarrow> file_header \<times> int \<times> SessionFilesDB \<Rightarrow> db \<Rightarrow> TurnDetails tx" where
  "TurnSubmit_write sid year l d = (case l of (header, k, sf1) \<Rightarrow>
     let d1 = update_files (\<lambda>f. F_ID f = F_ID sf1) (\<lambda>f. f\<lparr>F_Orders := F_Orders sf1\<rparr>) d in
     and_then (allPlayersReady sid sf1 d1) (\<lambda>ready.
     Inr (\<lparr>TD_SessionID = sid, TD_Year = Year header, TD_PlayerOrder = k,
           TD_Messages = (if ready then [genMsg sid year] else [])\<rparr>,
       d1, [PublishOrderStatusUpdate sid (F_Year sf1)])))"

interpretation turn_submit: split_request "TurnSubmit_handle hs sid year b64 pr"
    "TurnSubmit_read hs sid b64 pr" "TurnSubmit_write sid year"
  by unfold_locales
    (auto simp: TurnSubmit_handle_def TurnSubmit_read_def TurnSubmit_write_def Let_def and_then_def
      split: sum.splits)

lemma store_order_keeps:
  "store_order b64 k sf = Inr sf1 \<Longrightarrow> F_ID sf1 = F_ID sf \<and> F_Turns sf1 = F_Turns sf \<and> F_Year sf1 = F_Year sf"
  by (auto simp: store_order_def and_then_eq_Inr split: if_splits)

lemma TurnSubmit_read_Inr:
  assumes "TurnSubmit_read hs sid b64 pr d = Inr (header, k, sf1)"
  obtains sf where "get_row (lastSessionFilesQuery sid d) = Inr sf" "store_order b64 k sf = Inr sf1"
  using assms by (cases "B64Decode b64") (auto simp: TurnSubmit_read_def and_then_eq_Inr split: if_splits)

text \<open>The flags of readiness depend on the players, not on the files of the database.\<close>

lemma allPlayersReady_files [simp]: "allPlayersReady sid sf (update_files p f d) = allPlayersReady sid sf d"
  by (simp add: allPlayersReady_def sessionPlayerRaceForSessionQuery_def update_files_def Let_def)

lemma update_orders_twice:
  "update_files (\<lambda>f. F_ID f = i) (\<lambda>f. f\<lparr>F_Orders := b\<rparr>) (update_files (\<lambda>f. F_ID f = i) (\<lambda>f. f\<lparr>F_Orders := a\<rparr>) d) =
   update_files (\<lambda>f. F_ID f = i) (\<lambda>f. f\<lparr>F_Orders := b\<rparr>) d"
  by (simp add: update_files_def sql_update_def comp_def)

text \<open>
  \<^bold>\<open>C32\<close>: Orders can be lost. When two submissions for the same session, each of which would be
  accepted alone, overlap, both are accepted, and the database is left as if the first one had never
  been made: the column with the orders of all players is written as a whole from the row that was
  read. The readiness that the second one computes does not count the first one either.
\<close>

theorem overlapping_submissions_lose_one:
  assumes "TurnSubmit_handle hs sid ya a pa d = Inr (xa, da, na)"
    "TurnSubmit_handle hs sid yb b pb d = Inr (xb, db', nb)"
  shows "overlapped (TurnSubmit_read hs sid a pa) (TurnSubmit_write sid ya)
      (TurnSubmit_read hs sid b pb) (TurnSubmit_write sid yb) d = (Inr xa, Inr xb, db')"
proof -
  obtain la where la: "TurnSubmit_read hs sid a pa d = Inr la" and wa: "TurnSubmit_write sid ya la d = Inr (xa, da, na)"
    using assms(1) by (auto simp: turn_submit.whole and_then_eq_Inr)
  obtain lb where lb: "TurnSubmit_read hs sid b pb d = Inr lb" and wb: "TurnSubmit_write sid yb lb d = Inr (xb, db', nb)"
    using assms(2) by (auto simp: turn_submit.whole and_then_eq_Inr)
  obtain ha ka sa where a: "la = (ha, ka, sa)" by (cases la)
  obtain hb kb sb where b: "lb = (hb, kb, sb)" by (cases lb)
  have id: "F_ID sa = F_ID sb"
    using la lb unfolding a b by (metis TurnSubmit_read_Inr store_order_keeps sum.inject(2))
  have da: "da = update_files (\<lambda>f. F_ID f = F_ID sa) (\<lambda>f. f\<lparr>F_Orders := F_Orders sa\<rparr>) d"
    using wa a by (auto simp: TurnSubmit_write_def Let_def and_then_eq_Inr)
  have "TurnSubmit_write sid yb lb da = Inr (xb, db', nb)"
    using wb by (simp add: TurnSubmit_write_def Let_def b da id update_orders_twice)
  then show ?thesis by (simp add: overlapped_def la lb wa finish_def)
qed

theorem overlapping_submissions_lose_one_witness:
  "\<exists>xa xb d'. overlapped
      (TurnSubmit_read example_houston ''s'' example_order (example_principal ''u'')) (TurnSubmit_write ''s'' 2407)
      (TurnSubmit_read example_houston ''s'' example_order (example_principal ''u'')) (TurnSubmit_write ''s'' 2407)
      (played_db [human, bot]) = (Inr xa, Inr xb, d')"
proof -
  let ?run = "TurnSubmit_handle example_houston ''s'' 2407 example_order (example_principal ''u'') (played_db [human, bot])"
  have "isl ?run = False" by code_simp
  then obtain x d' ns where "?run = Inr (x, d', ns)" by (cases ?run) auto
  from overlapping_submissions_lose_one [OF this this] show ?thesis by (intro exI)
qed

subsection \<open>Leaving a session\<close>

definition SessionQuit_read :: "id \<Rightarrow> Principal \<Rightarrow> db \<Rightarrow> err + SessionDB" where
  "SessionQuit_read sid pr d =
    (if \<not> SessionQuit_Authorize pr then Inl ErrForbidden
     else case get_session sid d of
       Inl e \<Rightarrow> (if errors_Is e NoRows
         then Inl (ErrSessionNotFound (''session not found with ID: '' @ sid)) else Inl e)
     | Inr s \<Rightarrow>
        if S_State s \<noteq> Pending
          then Inl (ErrSessionAlreadyStarted ''cannot leave session: session has already started'')
        else case sql_first (\<lambda>r. R_UserProfileID r = Subject pr \<and> R_SessionID r = sid) (rels d) of
          None \<Rightarrow> Inl (NewErrSomethingNotFound ''user is not a member of this session'')
        | Some r \<Rightarrow>
           if R_IsManager r \<and> countOtherManagers sid (Subject pr) d = 0
             then Inl (ErrLastManager ''cannot leave session: you are the only manager'')
           else if IsPlayerReady sid (Subject pr) d
             then Inl (ErrPlayerShouldNotBeReady ''cannot leave session: you are marked as ready'')
           else Inr s)"

definition SessionQuit_write :: "id \<Rightarrow> Principal \<Rightarrow> SessionDB \<Rightarrow> db \<Rightarrow> unit tx" where
  "SessionQuit_write sid pr s d =
    (let d1 = delete_sprs (\<lambda>p. P_UserProfileID p = Subject pr \<and> P_SessionID p = sid) d;
         d2 = delete_rels (\<lambda>x. R_UserProfileID x = Subject pr \<and> R_SessionID x = sid) d1 in
     Inr ((), d2, [PublishSessionMemberLeft sid (Subject pr) (S_Private s)]))"

interpretation quit: split_request "SessionQuit_handle sid pr" "SessionQuit_read sid pr" "SessionQuit_write sid pr"
  by unfold_locales
    (auto simp: SessionQuit_handle_def SessionQuit_read_def SessionQuit_write_def and_then_def Let_def
      split: sum.split option.split)

lemma SessionQuit_read_Inr:
  assumes "SessionQuit_read sid pr d = Inr s"
  obtains r where "r \<in> set (rels d)" "R_UserProfileID r = Subject pr" "R_SessionID r = sid"
    "R_IsManager r \<Longrightarrow> \<exists>m \<in> set (rels d). R_SessionID m = sid \<and> R_IsManager m \<and> R_UserProfileID m \<noteq> Subject pr"
proof -
  obtain r where r: "sql_first (\<lambda>r. R_UserProfileID r = Subject pr \<and> R_SessionID r = sid) (rels d) = Some r"
    and others: "R_IsManager r \<Longrightarrow> countOtherManagers sid (Subject pr) d \<noteq> 0"
    using assms by (auto simp: SessionQuit_read_def split: if_splits sum.splits option.splits)
  show thesis
    by (rule that [of r]) (use sql_first_Some [OF r] others in \<open>auto simp: countOtherManagers_def sql_count_zero\<close>)
qed

lemma SessionQuit_write_rels:
  "SessionQuit_write sid pr s d = Inr (x, d', ns) \<Longrightarrow> sessions d' = sessions d \<and>
    rels d' = filter (\<lambda>r. \<not> (R_UserProfileID r = Subject pr \<and> R_SessionID r = sid)) (rels d)"
  by (auto simp: SessionQuit_write_def Let_def delete_sprs_def delete_rels_def sql_delete_def)

text \<open>
  A session can lose its last manager. When the two managers of a pending session
  leave, the second one is refused if he asks after the first one has left; if the two requests
  overlap, both succeed, and the session stays with no manager at all.
\<close>

lemma overlapping_quits_leave_no_manager:
  assumes "db_ok d" "Subject pa \<noteq> Subject pb"
    "\<And>u. IsSessionManager u sid d \<longleftrightarrow> u = Subject pa \<or> u = Subject pb"
    "SessionQuit_handle sid pa d = Inr (xa, da, na)" "SessionQuit_handle sid pb d = Inr (xb, db', nb)"
  shows "(\<exists>e. fst (snd (one_after_the_other (SessionQuit_handle sid pa) (SessionQuit_handle sid pb) d)) = Inl e) \<and>
    (\<exists>d'. overlapped (SessionQuit_read sid pa) (SessionQuit_write sid pa)
        (SessionQuit_read sid pb) (SessionQuit_write sid pb) d = (Inr xa, Inr xb, d') \<and>
      sessions d' = sessions d \<and> (\<forall>u. \<not> IsSessionManager u sid d'))"
proof -
  have key: "distinct (map rel_key (rels d))" using assms(1) by (simp add: db_ok_parts)
  have managers: "R_UserProfileID r = Subject pa \<or> R_UserProfileID r = Subject pb"
    if "r \<in> set (rels d)" "R_SessionID r = sid" "R_IsManager r" for r
    using IsSessionManagerI [OF key that(1,3)] assms(3) that(2) by metis
  obtain s where rb: "SessionQuit_read sid pb d = Inr s" and wb: "SessionQuit_write sid pb s d = Inr (xb, db', nb)"
    using assms(5) by (auto simp: quit.whole and_then_eq_Inr)
  obtain s' where ra: "SessionQuit_read sid pa d = Inr s'" and wa: "SessionQuit_write sid pa s' d = Inr (xa, da, na)"
    using assms(4) by (auto simp: quit.whole and_then_eq_Inr)
  obtain d' nb' where w: "SessionQuit_write sid pb s da = Inr (xb, d', nb')"
    by (auto simp: SessionQuit_write_def Let_def)
  have rows: "sessions d' = sessions d" "rels d' = filter (\<lambda>r. \<not> (R_UserProfileID r = Subject pb \<and> R_SessionID r = sid))
      (filter (\<lambda>r. \<not> (R_UserProfileID r = Subject pa \<and> R_SessionID r = sid)) (rels d))"
    using SessionQuit_write_rels [OF wa] SessionQuit_write_rels [OF w] by simp_all
  have "distinct (map rel_key (rels d'))" using key by (simp add: rows distinct_map_filter)
  then have none: "\<not> IsSessionManager u sid d'" for u
    by (auto simp: IsSessionManager_iff rows dest!: managers)
  have "\<exists>e. SessionQuit_handle sid pb da = Inl e"
  proof (cases "SessionQuit_read sid pb da")
    case (Inr t)
    obtain r where r: "r \<in> set (rels da)" "R_UserProfileID r = Subject pb" "R_SessionID r = sid"
      "R_IsManager r \<Longrightarrow> \<exists>m \<in> set (rels da). R_SessionID m = sid \<and> R_IsManager m \<and> R_UserProfileID m \<noteq> Subject pb"
      using SessionQuit_read_Inr [OF Inr] by blast
    have da: "rels da = filter (\<lambda>r. \<not> (R_UserProfileID r = Subject pa \<and> R_SessionID r = sid)) (rels d)"
      using SessionQuit_write_rels [OF wa] by simp
    have "\<lparr>R_UserProfileID = Subject pb, R_SessionID = sid, R_IsManager = True\<rparr> \<in> set (rels d)"
      using assms(3) by (simp add: IsSessionManager_iff [OF key, symmetric])
    then have "r = \<lparr>R_UserProfileID = Subject pb, R_SessionID = sid, R_IsManager = True\<rparr>"
      by (intro distinct_key_eq [OF key]) (use r(1,2,3) in \<open>auto simp: da rel_key_def\<close>)
    then show ?thesis using r(4) managers by (auto simp: da)
  qed (simp add: quit.whole and_then_def)
  then show ?thesis
    using none rows(1)
    by (auto simp: one_after_the_other_def overlapped_def finish_def assms(4) ra rb wa w)
qed

text \<open>The example: a second manager beside the first one.\<close>

definition two_managers_db :: db where
  "two_managers_db = (example_db Pending False)\<lparr>rels := [example_rel ''u'' True, example_rel ''v'' True]\<rparr>"

lemma overlapping_quits_leave_no_manager_witness:
  "\<exists>d'. overlapped (SessionQuit_read ''s'' (example_principal ''u'')) (SessionQuit_write ''s'' (example_principal ''u''))
      (SessionQuit_read ''s'' (example_principal ''v'')) (SessionQuit_write ''s'' (example_principal ''v''))
      two_managers_db = (Inr (), Inr (), d') \<and> \<not> IsSessionManager ''u'' ''s'' d' \<and> \<not> IsSessionManager ''v'' ''s'' d'"
proof -
  let ?run = "\<lambda>u. SessionQuit_handle ''s'' (example_principal u) two_managers_db"
  have ok: "db_ok two_managers_db" "isl (?run ''u'') = False" "isl (?run ''v'') = False" by code_simp+
  obtain da na where a: "?run ''u'' = Inr ((), da, na)" using ok(2) by (cases "?run ''u''") auto
  obtain db' nb where b: "?run ''v'' = Inr ((), db', nb)" using ok(3) by (cases "?run ''v''") auto
  have managers: "IsSessionManager u ''s'' two_managers_db \<longleftrightarrow>
      u = Subject (example_principal ''u'') \<or> u = Subject (example_principal ''v'')" for u
    using ok(1) by (auto simp: IsSessionManager_iff db_ok_parts two_managers_db_def example_defs)
  have "Subject (example_principal ''u'') \<noteq> Subject (example_principal ''v'')"
    by (simp add: example_principal_def)
  from overlapping_quits_leave_no_manager [OF ok(1) this managers a b] show ?thesis by blast
qed

subsection \<open>Entering a session\<close>

definition spr_create_read :: "id \<Rightarrow> SessionPlayerRaceDB \<Rightarrow> Principal \<Rightarrow> db \<Rightarrow> err + int" where
  "spr_create_read sid body pr d =
    (if \<not> P_IsBot body \<and>
        0 < sql_count (\<lambda>r. P_SessionID r = sid \<and> P_UserProfileID r = Subject pr) (sprs d)
     then Inl (ErrInvalidSomething ''player already registered in this session'')
     else Inr (getNextPlayerOrder sid d))"

definition spr_create_write ::
    "id \<Rightarrow> id \<Rightarrow> SessionPlayerRaceDB \<Rightarrow> Principal \<Rightarrow> int \<Rightarrow> db \<Rightarrow> SessionPlayerRaceDB tx" where
  "spr_create_write uuid sid body pr nextOrder d =
    (let spr0 = body\<lparr>P_ID := uuid, P_SessionID := sid, P_AIControlType := None\<rparr>;
         spr1 = (if P_IsBot body then spr0\<lparr>P_UserProfileID := SystemUserID, P_Ready := True\<rparr>
                 else spr0\<lparr>P_UserProfileID := Subject pr\<rparr>);
         spr2 = spr1\<lparr>P_PlayerOrder := nextOrder\<rparr> in
     and_then (insert_spr spr2 d) (\<lambda>d1. Inr (spr2, d1, [PublishSessionPlayerRaceCreate uuid])))"

interpretation create: split_request "spr_create_new uuid sid body pr" "spr_create_read sid body pr"
    "spr_create_write uuid sid body pr"
  by unfold_locales
    (simp add: spr_create_new_def spr_create_read_def spr_create_write_def and_then_def Let_def)

lemma spr_create_write_Inr:
  assumes "spr_create_write uuid sid body pr k d = Inr (x, d', ns)"
  shows "d' = d\<lparr>sprs := sprs d @ [x]\<rparr>" "P_ID x = uuid" "P_PlayerOrder x = k" "P_SessionID x = sid"
    "\<not> P_IsBot body \<Longrightarrow> P_UserProfileID x = Subject pr"
  using assms by (auto simp: spr_create_write_def Let_def and_then_eq_Inr insert_spr_def enforce_Inr sql_insert_def)

text \<open>
  Two overlapping requests by which a user enters a session both succeed. He is then a player twice,
  with the same player order, although either request alone refuses a user who is a player already.
\<close>

lemma overlapping_creations_enter_twice:
  assumes "\<not> P_IsBot body" "ua \<noteq> ub"
    "spr_create_new ua sid body pr d = Inr (xa, da, na)" "spr_create_new ub sid body pr d = Inr (xb, db', nb)"
  shows "overlapped (spr_create_read sid body pr) (spr_create_write ua sid body pr)
      (spr_create_read sid body pr) (spr_create_write ub sid body pr) d =
        (Inr xa, Inr xb, d\<lparr>sprs := sprs d @ [xa, xb]\<rparr>) \<and>
    P_UserProfileID xa = P_UserProfileID xb \<and> P_PlayerOrder xa = P_PlayerOrder xb \<and> P_SessionID xa = P_SessionID xb"
proof -
  obtain k where k: "spr_create_read sid body pr d = Inr k" and wa: "spr_create_write ua sid body pr k d = Inr (xa, da, na)"
    using assms(3) by (auto simp: create.whole and_then_eq_Inr)
  have wb: "spr_create_write ub sid body pr k d = Inr (xb, db', nb)"
    using assms(4) k by (auto simp: create.whole and_then_eq_Inr)
  have xa: "da = d\<lparr>sprs := sprs d @ [xa]\<rparr>" "P_ID xa = ua" by (rule spr_create_write_Inr [OF wa])+
  have xb: "db' = d\<lparr>sprs := sprs d @ [xb]\<rparr>" "P_ID xb = ub" by (rule spr_create_write_Inr [OF wb])+
  have "spr_create_write ub sid body pr k da = Inr (xb, d\<lparr>sprs := sprs d @ [xa, xb]\<rparr>, nb)"
    using wb assms(2) by (auto simp: spr_create_write_def Let_def and_then_eq_Inr insert_spr_def enforce_Inr
        sql_insert_def occurs_iff xa)
  then show ?thesis
    using k wa assms(1) spr_create_write_Inr(3-5) [OF wa] spr_create_write_Inr(3-5) [OF wb]
    by (simp add: overlapped_def finish_def)
qed

end
