(* ===== verification/Environment.thy ===== *)
theory Environment
  imports Runner
begin

section \<open>The environment of Stars!\<close>

text \<open>
  \<open>lib/wine/check.go\<close>, \<open>lib/wine/prefix.go\<close> and the set-up of \<open>lib/stars/runner.go\<close>: the X server
  is started, a wine prefix is made, the drive letters \<open>s:\<close> and \<open>x:\<close> are linked to the save
  directory and to the directory of the executable, and \<open>Stars.ini\<close> and \<open>stars.exe\<close> are written.
  The state is a tree of directories, files and symbolic links, by absolute path. A link is followed
  where it is the last component of a path; that a file has two names because a directory on the way
  is a link is left out, as are permissions and failing disks. Programs (\<open>wineboot\<close>, \<open>wineserver\<close>,
  \<open>wine\<close>, \<open>Xvfb\<close>) run in the library go-cmd, a parameter: a run takes the tree to an outcome and a
  tree.
\<close>

subsection \<open>Paths\<close>

text \<open>An absolute path is the list of its components.\<close>

type_synonym path = "string list"

fun split_slash :: "string \<Rightarrow> string \<Rightarrow> string list" where
  "split_slash acc [] = [rev acc]"
| "split_slash acc (c # cs) = (if c = CHR ''/'' then rev acc # split_slash [] cs else split_slash (c # acc) cs)"

definition clean_component :: "string \<Rightarrow> path \<Rightarrow> path" where
  "clean_component c p = (if c = '''' \<or> c = ''.'' then p else if c = ''..'' then butlast p else p @ [c])"

text \<open>\<open>filepath.Abs\<close> with the working directory \<open>wd\<close>; the result of \<open>filepath.Clean\<close> as components.\<close>

definition filepath_Abs :: "path \<Rightarrow> string \<Rightarrow> path" where
  "filepath_Abs wd s = fold clean_component (split_slash [] s) (if take 1 s = ''/'' then [] else wd)"

definition path_string :: "path \<Rightarrow> string" where
  "path_string p = (if p = [] then ''/'' else concat (map (\<lambda>c. CHR ''/'' # c) p))"

subsection \<open>The tree of files\<close>

datatype node = NDir | NFile bytes | NLink string

type_synonym tree = "path \<rightharpoonup> node"

definition node_at :: "tree \<Rightarrow> path \<Rightarrow> node option" where
  "node_at t p = (if p = [] then Some NDir else t p)"

text \<open>Linux gives up after forty links.\<close>

fun follow :: "nat \<Rightarrow> tree \<Rightarrow> path \<Rightarrow> path option" where
  "follow 0 t p = None"
| "follow (Suc n) t p = (case node_at t p of
     Some (NLink target) \<Rightarrow> follow n t (filepath_Abs (butlast p) target)
   | _ \<Rightarrow> Some p)"

definition ELOOP :: err where
  "ELOOP = OtherErr ''too many levels of symbolic links''"

definition ENOTDIR :: err where
  "ENOTDIR = OtherErr ''not a directory''"

definition EISDIR :: err where
  "EISDIR = OtherErr ''is a directory''"

definition EEXIST :: err where
  "EEXIST = OtherErr ''file exists''"

definition is_file :: "node option \<Rightarrow> bool" where
  "is_file n = (case n of Some (NFile _) \<Rightarrow> True | _ \<Rightarrow> False)"

text \<open>Why a path has no node: it leads through a file, or there is none.\<close>

definition missing_error :: "tree \<Rightarrow> path \<Rightarrow> err" where
  "missing_error t p =
    (if list_ex (\<lambda>i. is_file (node_at t (take i p))) [0..<length p] then ENOTDIR else ErrNotExist)"

definition Lstat :: "path \<Rightarrow> tree \<Rightarrow> err + node" where
  "Lstat p t = (case node_at t p of None \<Rightarrow> Inl (missing_error t p) | Some n \<Rightarrow> Inr n)"

definition Stat :: "path \<Rightarrow> tree \<Rightarrow> err + node" where
  "Stat p t = (case follow 41 t p of None \<Rightarrow> Inl ELOOP | Some q \<Rightarrow> Lstat q t)"

text \<open>Operations on the tree: an error or a value, and the tree after it.\<close>

type_synonym 'a os = "tree \<Rightarrow> (err + 'a) \<times> tree"

definition os_then :: "'a os \<Rightarrow> ('a \<Rightarrow> 'b os) \<Rightarrow> 'b os" where
  "os_then m k t = (case m t of (Inl e, t1) \<Rightarrow> (Inl e, t1) | (Inr x, t1) \<Rightarrow> k x t1)"

definition in_directory :: "path \<Rightarrow> tree \<Rightarrow> err + unit" where
  "in_directory p t = (case Stat (butlast p) t of
     Inl e \<Rightarrow> Inl e | Inr NDir \<Rightarrow> Inr () | Inr _ \<Rightarrow> Inl ENOTDIR)"

definition Symlink :: "string \<Rightarrow> path \<Rightarrow> unit os" where
  "Symlink target p t = (case in_directory p t of
     Inl e \<Rightarrow> (Inl e, t)
   | Inr _ \<Rightarrow> (if node_at t p \<noteq> None then (Inl EEXIST, t) else (Inr (), t(p \<mapsto> NLink target))))"

text \<open>\<open>os.Remove\<close> of a link.\<close>

definition Remove :: "path \<Rightarrow> unit os" where
  "Remove p t = (case node_at t p of
     None \<Rightarrow> (Inl (missing_error t p), t)
   | Some _ \<Rightarrow> (Inr (), t(p := None)))"

text \<open>\<open>os.MkdirAll\<close>; the argument is the reversed path.\<close>

fun mkdir_all :: "string list \<Rightarrow> unit os" where
  "mkdir_all [] t = (Inr (), t)"
| "mkdir_all (c # cs) t = (case Stat (rev (c # cs)) t of
     Inr NDir \<Rightarrow> (Inr (), t)
   | Inr _ \<Rightarrow> (Inl ENOTDIR, t)
   | Inl _ \<Rightarrow> (case mkdir_all cs t of
       (Inl e, t1) \<Rightarrow> (Inl e, t1)
     | (Inr _, t1) \<Rightarrow> (if node_at t1 (rev (c # cs)) \<noteq> None then (Inl EEXIST, t1)
                       else (Inr (), t1(rev (c # cs) \<mapsto> NDir)))))"

definition os_MkdirAll :: "path \<Rightarrow> unit os" where
  "os_MkdirAll p = mkdir_all (rev p)"

text \<open>
  Opening a file with \<open>O_RDWR|O_CREATE\<close>, and \<open>O_TRUNC\<close> if \<open>trunc\<close>, and writing \<open>content\<close> from its
  start.
\<close>

definition create_file :: "bool \<Rightarrow> path \<Rightarrow> bytes \<Rightarrow> unit os" where
  "create_file trunc p content t = (case follow 41 t p of
     None \<Rightarrow> (Inl ELOOP, t)
   | Some q \<Rightarrow> (case node_at t q of
       Some NDir \<Rightarrow> (Inl EISDIR, t)
     | Some (NLink _) \<Rightarrow> (Inl ELOOP, t)
     | Some (NFile old) \<Rightarrow> (Inr (), t(q \<mapsto> NFile (if trunc then content else overwrite content old)))
     | None \<Rightarrow> (case in_directory q t of
         Inl e \<Rightarrow> (Inl e, t)
       | Inr _ \<Rightarrow> (Inr (), t(q \<mapsto> NFile content)))))"

subsection \<open>Programs\<close>

record status =
  st_PID :: int
  st_Exit :: int
  st_Error :: "err option"
  st_StopTs :: int
  st_Stdout :: "string list"
  st_Stderr :: "string list"

text \<open>A run either ends within its time, or it is stopped, which may fail.\<close>

datatype outcome = Finished status | Timed_out "err option"

record file_mode =
  fm_IsRegular :: bool
  fm_IsSymlink :: bool
  fm_Executable :: bool

text \<open>
  What surrounds the program: \<open>homedir.Expand\<close>, the working directory, \<open>WINEARCH\<close>, the search in
  \<open>PATH\<close>, the mode of a file and \<open>access(2)\<close>; the run of a command, by name, arguments,
  environment and time in seconds; the status of \<open>Xvfb\<close> three seconds after its start; and the two files
  that are embedded in the executable.
\<close>

record platform =
  homedir_Expand :: "string \<Rightarrow> err + string"
  working_dir :: path
  WINEARCH :: string
  LookPath :: "string \<Rightarrow> err + string"
  Stat_mode :: "string \<Rightarrow> err + file_mode"
  Access_X_OK :: "string \<Rightarrow> bool"
  run_command :: "string \<Rightarrow> string list \<Rightarrow> string list \<Rightarrow> int \<Rightarrow> tree \<Rightarrow> outcome \<times> tree"
  xvfb_after_start :: "string list \<Rightarrow> status"
  starsBin :: bytes
  starsINI :: bytes

definition CheckExecutable :: "platform \<Rightarrow> string \<Rightarrow> bool \<Rightarrow> err + unit" where
  "CheckExecutable pf filename inPath =
    and_then (if inPath then LookPath pf filename else Inr filename) (\<lambda>absoluteFile.
    and_then (Stat_mode pf absoluteFile) (\<lambda>m.
      if \<not> fm_IsRegular m \<and> \<not> fm_IsSymlink m
        then Inl (OtherErr (absoluteFile @ '' is not a regular file or symlink''))
      else if \<not> fm_Executable m then Inl (OtherErr (absoluteFile @ '' is not executable''))
      else if \<not> Access_X_OK pf absoluteFile
        then Inl (OtherErr (absoluteFile @ '' cannot be executed by this user''))
      else Inr ()))"

definition wineBin :: string where
  "wineBin = ''wine''"

definition CheckWine :: "platform \<Rightarrow> err + unit" where
  "CheckWine pf = CheckExecutable pf wineBin True"

definition CheckXvfb :: "platform \<Rightarrow> err + unit" where
  "CheckXvfb pf = CheckExecutable pf ''Xvfb'' True"

subsection \<open>The wine prefix\<close>

record PrefixOptions =
  PrefixPath :: string
  opt_timeout :: int
  opt_display :: string

text \<open>\<open>pr_quiet\<close>: the level of the logger is above debug.\<close>

record Prefix =
  pr_path :: path
  pr_timeout :: int
  pr_display :: string
  pr_quiet :: bool

definition expand :: "platform \<Rightarrow> string \<Rightarrow> err + path" where
  "expand pf input = and_then (homedir_Expand pf input) (\<lambda>expanded.
     Inr (filepath_Abs (working_dir pf) expanded))"

definition NewPrefix :: "platform \<Rightarrow> bool \<Rightarrow> PrefixOptions \<Rightarrow> err + Prefix" where
  "NewPrefix pf quiet opts = and_then (expand pf (PrefixPath opts)) (\<lambda>absPath.
     Inr \<lparr>pr_path = absPath, pr_timeout = (if opt_timeout opts = 0 then 30 else opt_timeout opts),
          pr_display = opt_display opts, pr_quiet = quiet\<rparr>)"

definition Prefix_Env :: "platform \<Rightarrow> Prefix \<Rightarrow> string list" where
  "Prefix_Env pf p = [''WINEPREFIX='' @ path_string (pr_path p)] @
     (if pr_display p \<noteq> '''' then [''DISPLAY='' @ pr_display p] else []) @
     (if pr_quiet p then [''WINEDEBUG=-all''] else []) @
     (if WINEARCH pf \<noteq> '''' then [''WINEARCH='' @ WINEARCH pf] else [])"

text \<open>The output, the error output and the error of a command.\<close>

definition RunCmdWithTimeout ::
    "platform \<Rightarrow> Prefix \<Rightarrow> string \<Rightarrow> string list \<Rightarrow> tree \<Rightarrow> (string list \<times> string list \<times> err option) \<times> tree" where
  "RunCmdWithTimeout pf p name args t = (case run_command pf name args (Prefix_Env pf p) (pr_timeout p) t of
     (Timed_out (Some e), t1) \<Rightarrow> (([], [], Some e), t1)
   | (Timed_out None, t1) \<Rightarrow> (([], [], Some (OtherErr ''command timed out'')), t1)
   | (Finished st, t1) \<Rightarrow>
       (if st_Error st \<noteq> None \<or> st_Exit st > 0 then ((st_Stdout st, st_Stderr st, st_Error st), t1)
        else ((st_Stdout st, st_Stderr st, None), t1)))"

definition RunCommand ::
    "platform \<Rightarrow> Prefix \<Rightarrow> string \<Rightarrow> string list \<Rightarrow> tree \<Rightarrow> (string list \<times> string list \<times> err option) \<times> tree" where
  "RunCommand pf p name args t = RunCmdWithTimeout pf p name args t"

definition RunWine ::
    "platform \<Rightarrow> Prefix \<Rightarrow> string \<Rightarrow> string list \<Rightarrow> tree \<Rightarrow> (string list \<times> string list \<times> err option) \<times> tree" where
  "RunWine pf p program args t = RunCommand pf p wineBin (program # args) t"

text \<open>\<open>wineserver -k\<close>, then, unless that took more than five seconds, \<open>wineserver -w\<close>.\<close>

definition KillWineserver :: "platform \<Rightarrow> Prefix \<Rightarrow> tree \<Rightarrow> tree" where
  "KillWineserver pf p t = (case run_command pf ''wineserver'' [''-k''] (Prefix_Env pf p) 5 t of
     (Timed_out _, t1) \<Rightarrow> t1
   | (Finished _, t1) \<Rightarrow> snd (run_command pf ''wineserver'' [''-w''] (Prefix_Env pf p) 10 t1))"

definition createPrefix :: "platform \<Rightarrow> Prefix \<Rightarrow> unit os" where
  "createPrefix pf p t = (case RunCmdWithTimeout pf p ''wineboot'' [''init''] t of
     ((out, err, e), t1) \<Rightarrow>
       let t2 = KillWineserver pf p t1 in
       (case e of Some e \<Rightarrow> (Inl e, t2) | None \<Rightarrow> (Inr (), t2)))"

definition EnsurePrefix :: "platform \<Rightarrow> Prefix \<Rightarrow> unit os" where
  "EnsurePrefix pf p t = (case Stat (pr_path p) t of
     Inl e \<Rightarrow> (if e = ErrNotExist
       then os_then (os_MkdirAll (butlast (pr_path p))) (\<lambda>_. createPrefix pf p) t
       else (Inl e, t))
   | Inr NDir \<Rightarrow> (Inr (), t)
   | Inr _ \<Rightarrow> (Inl (OtherErr ''wineprefix does not appear to be a directory''), t))"

definition DevicesDir :: "Prefix \<Rightarrow> path" where
  "DevicesDir p = pr_path p @ [''dosdevices'']"

definition WindowsDir :: "Prefix \<Rightarrow> path" where
  "WindowsDir p = pr_path p @ [''drive_c'', ''windows'']"

definition EnsureDriveLetter :: "Prefix \<Rightarrow> string \<Rightarrow> path \<Rightarrow> unit os" where
  "EnsureDriveLetter p letter targetDir t =
    (let linkPath = DevicesDir p @ [letter] in
     case Lstat linkPath t of
       Inl e \<Rightarrow> (if e = ErrNotExist then Symlink (path_string targetDir) linkPath t else (Inl e, t))
     | Inr NDir \<Rightarrow> (Inl (OtherErr (letter @ '' should be a symlink, not a directory'')), t)
     | Inr (NLink target) \<Rightarrow>
         (if target \<noteq> path_string targetDir
          then os_then (Remove linkPath) (\<lambda>_. Symlink (path_string targetDir) linkPath) t
          else (Inr (), t))
     | Inr (NFile _) \<Rightarrow> (Inl (OtherErr (letter @ '' should be a symlink, not a normal file'')), t))"

subsection \<open>The runner\<close>

record RunnerOptions =
  ro_ExecutableDir :: string
  ro_SaveDir :: string
  ro_WinePrefix :: string
  ro_CommandsTimeout :: int
  ro_DisplayNumber :: int
  ro_PreserveSaveFiles :: bool
  ro_StripRacePasswords :: bool
  ro_FixRaceFiles :: bool

record runner =
  rn_ExecutableDir :: path
  rn_SaveDir :: path
  rn_DisplayNumber :: int
  rn_preserveSaveFiles :: bool
  rn_stripRacePasswords :: bool
  rn_fixRaceFiles :: bool
  rn_prefix :: Prefix
  rn_xvfbProcess :: "status option"
  rn_initialized :: bool

definition NewRunner :: "platform \<Rightarrow> bool \<Rightarrow> RunnerOptions \<Rightarrow> err + runner" where
  "NewRunner pf quiet opts =
    and_then (expand pf (ro_ExecutableDir opts)) (\<lambda>absExecutableDir.
    and_then (expand pf (ro_SaveDir opts)) (\<lambda>absSaveDir.
    let display = '':'' @ decimal_int (ro_DisplayNumber opts) in
    and_then (NewPrefix pf quiet \<lparr>PrefixPath = ro_WinePrefix opts, opt_timeout = ro_CommandsTimeout opts,
        opt_display = display\<rparr>) (\<lambda>prefix.
      Inr \<lparr>rn_ExecutableDir = absExecutableDir, rn_SaveDir = absSaveDir,
           rn_DisplayNumber = ro_DisplayNumber opts, rn_preserveSaveFiles = ro_PreserveSaveFiles opts,
           rn_stripRacePasswords = ro_StripRacePasswords opts, rn_fixRaceFiles = ro_FixRaceFiles opts,
           rn_prefix = prefix, rn_xvfbProcess = None, rn_initialized = False\<rparr>)))"

definition displayName :: "runner \<Rightarrow> string" where
  "displayName r = '':'' @ decimal_int (rn_DisplayNumber r)"

definition IsReady :: "runner \<Rightarrow> bool" where
  "IsReady r = rn_initialized r"

definition IsXvfbRunning :: "runner \<Rightarrow> bool" where
  "IsXvfbRunning r = (case rn_xvfbProcess r of
     None \<Rightarrow> False | Some st \<Rightarrow> st_PID st > 0 \<and> st_StopTs st = 0)"

definition preChecks :: "platform \<Rightarrow> err + unit" where
  "preChecks pf = CheckExecutable pf ''Xvfb'' True"

definition initialize :: "platform \<Rightarrow> runner \<Rightarrow> (err + unit) \<times> runner" where
  "initialize pf r =
    (let st = xvfb_after_start pf [displayName r, ''-screen'', ''0'', ''1024x768x16''];
         r1 = r\<lparr>rn_xvfbProcess := Some st\<rparr> in
     if st_PID st \<noteq> 0 then (Inr (), r1)
     else (Inl (OtherErr ''failed to start Xvfb, timed-out''), r1))"

definition ensureDriveLetters :: "runner \<Rightarrow> unit os" where
  "ensureDriveLetters r =
    os_then (EnsureDriveLetter (rn_prefix r) ''s:'' (rn_SaveDir r)) (\<lambda>_.
      EnsureDriveLetter (rn_prefix r) ''x:'' (rn_ExecutableDir r))"

definition ensureSaveDir :: "runner \<Rightarrow> unit os" where
  "ensureSaveDir r = os_MkdirAll (rn_SaveDir r)"

definition starsINIFilePath :: "runner \<Rightarrow> path" where
  "starsINIFilePath r = WindowsDir (rn_prefix r) @ [''Stars.ini'']"

definition starsFilePath :: "runner \<Rightarrow> path" where
  "starsFilePath r = rn_ExecutableDir r @ [''stars.exe'']"

definition ensureStarsINI :: "platform \<Rightarrow> runner \<Rightarrow> unit os" where
  "ensureStarsINI pf r = create_file True (starsINIFilePath r) (starsINI pf)"

definition ensureStars :: "platform \<Rightarrow> runner \<Rightarrow> unit os" where
  "ensureStars pf r = os_then (os_MkdirAll (rn_ExecutableDir r)) (\<lambda>_ t.
     case Stat (starsFilePath r) t of
       Inl e \<Rightarrow> (if e = ErrNotExist then create_file False (starsFilePath r) (starsBin pf) t else (Inl e, t))
     | Inr _ \<Rightarrow> (Inr (), t))"

definition checks :: "platform \<Rightarrow> runner \<Rightarrow> unit os" where
  "checks pf r t = (case CheckWine pf of
     Inl e \<Rightarrow> (Inl e, t)
   | Inr _ \<Rightarrow>
      os_then (EnsurePrefix pf (rn_prefix r)) (\<lambda>_.
      os_then (ensureStarsINI pf r) (\<lambda>_.
      os_then (ensureDriveLetters r) (\<lambda>_.
      os_then (ensureStars pf r) (\<lambda>_.
      ensureSaveDir r)))) t)"

definition runner_Init :: "platform \<Rightarrow> runner \<Rightarrow> tree \<Rightarrow> (err + unit) \<times> runner \<times> tree" where
  "runner_Init pf r t = (case preChecks pf of
     Inl e \<Rightarrow> (Inl e, r, t)
   | Inr _ \<Rightarrow> (case initialize pf r of
       (Inl e, r1) \<Rightarrow> (Inl e, r1, t)
     | (Inr _, r1) \<Rightarrow> (case checks pf r1 t of
         (Inl e, t1) \<Rightarrow> (Inl e, r1, t1)
       | (Inr _, t1) \<Rightarrow> (Inr (), r1\<lparr>rn_initialized := True\<rparr>, t1))))"

text \<open>
  \<open>Shutdown\<close>: \<open>stopped\<close> is the last status of the process, if it arrives within three seconds. The
  answer tells which of its messages is logged.
\<close>

definition runner_Shutdown :: "status option \<Rightarrow> runner \<Rightarrow> string \<times> runner" where
  "runner_Shutdown stopped r = (case rn_xvfbProcess r of
     None \<Rightarrow> ('''', r)
   | Some _ \<Rightarrow> (case stopped of
       None \<Rightarrow> (''error waiting for Xvfb to stop'', r)
     | Some st \<Rightarrow> (if st_StopTs st > 0 then (''Xvfb server down'', r\<lparr>rn_xvfbProcess := Some st\<rparr>)
         else (''Xvfb server may not have shutdown properly, please inspect'', r\<lparr>rn_xvfbProcess := Some st\<rparr>))))"

subsection \<open>What the operations leave behind\<close>

lemma os_then_Inr: "os_then m k t = (Inr y, t2) \<longleftrightarrow> (\<exists>x t1. m t = (Inr x, t1) \<and> k x t1 = (Inr y, t2))"
  by (auto simp: os_then_def split: prod.splits sum.splits)

text \<open>Trees that only grow keep what is found in them.\<close>

lemma node_at_mono: "t \<subseteq>\<^sub>m t' \<Longrightarrow> node_at t p = Some n \<Longrightarrow> node_at t' p = Some n"
  by (cases "p \<in> dom t") (auto simp: node_at_def map_le_def split: if_splits)

lemma follow_mono:
  "t \<subseteq>\<^sub>m t' \<Longrightarrow> follow k t p = Some q \<Longrightarrow> node_at t q = Some n \<Longrightarrow> follow k t' p = Some q"
proof (induction k t p rule: follow.induct)
  case (2 k t p)
  then show ?case
  proof (cases "node_at t p")
    case (Some m)
    then show ?thesis using 2 node_at_mono [OF 2(2) Some] by (cases m) auto
  qed (auto split: option.splits node.splits)
qed simp

lemma Stat_Inr: "Stat p t = Inr n \<longleftrightarrow> (\<exists>q. follow 41 t p = Some q \<and> node_at t q = Some n)"
  by (auto simp: Stat_def Lstat_def split: option.splits)

lemma Stat_mono: "t \<subseteq>\<^sub>m t' \<Longrightarrow> Stat p t = Inr n \<Longrightarrow> Stat p t' = Inr n"
  by (meson Stat_Inr follow_mono node_at_mono)

lemma map_le_new: "node_at t p = None \<Longrightarrow> t \<subseteq>\<^sub>m t(p \<mapsto> n)"
  by (auto simp: node_at_def map_le_def split: if_splits)

lemma mkdir_all_grows: "t \<subseteq>\<^sub>m snd (mkdir_all rp t)"
proof (induction rp t rule: mkdir_all.induct)
  case (2 c cs t)
  have "snd (mkdir_all cs t) \<subseteq>\<^sub>m (snd (mkdir_all cs t))(rev cs @ [c] \<mapsto> NDir)"
    if "node_at (snd (mkdir_all cs t)) (rev cs @ [c]) = None" using that by (rule map_le_new)
  then show ?case
    using 2 by (auto split: sum.splits node.splits prod.splits intro: map_le_trans)
qed simp

lemma Stat_new_dir: "node_at t p = None \<Longrightarrow> p \<noteq> [] \<Longrightarrow> Stat p (t(p \<mapsto> NDir)) = Inr NDir"
  by (simp add: Stat_def Lstat_def node_at_def numeral_eq_Suc)

lemma Stat_root: "Stat [] t = Inr NDir"
  by (simp add: Stat_def Lstat_def node_at_def numeral_eq_Suc)

lemma mkdir_all_Inr: "mkdir_all rp t = (Inr (), t') \<Longrightarrow> Stat (rev rp) t' = Inr NDir \<and> t \<subseteq>\<^sub>m t'"
proof (induction rp t arbitrary: t' rule: mkdir_all.induct)
  case (2 c cs t)
  show ?case
  proof (cases "Stat (rev cs @ [c]) t")
    case (Inr n)
    then show ?thesis using 2(2) by (cases n) auto
  next
    case (Inl e)
    obtain t1 where t1: "mkdir_all cs t = (Inr (), t1)" "node_at t1 (rev cs @ [c]) = None" "t' = t1(rev cs @ [c] \<mapsto> NDir)"
      using 2(2) Inl by (auto split: prod.splits sum.splits if_splits)
    have "t \<subseteq>\<^sub>m t1" using mkdir_all_grows [of t cs] t1(1) by simp
    then show ?thesis
      unfolding t1(3) using Stat_new_dir [OF t1(2)] map_le_new [OF t1(2)] map_le_trans by (metis rev.simps(2) snoc_eq_iff_butlast)
  qed
qed (auto simp: Stat_root)

lemma os_MkdirAll_Inr: "os_MkdirAll p t = (Inr (), t') \<Longrightarrow> Stat p t' = Inr NDir \<and> t \<subseteq>\<^sub>m t'"
  using mkdir_all_Inr [of "rev p"] by (simp add: os_MkdirAll_def)

lemma os_MkdirAll_again: "Stat p t = Inr NDir \<Longrightarrow> os_MkdirAll p t = (Inr (), t)"
  by (cases "rev p") (simp_all add: os_MkdirAll_def rev_swap)

text \<open>A drive letter: what success means, and that nothing else changes.\<close>

lemma Symlink_Inr: "Symlink target p t = (Inr (), t') \<longleftrightarrow>
    in_directory p t = Inr () \<and> node_at t p = None \<and> t' = t(p \<mapsto> NLink target)"
  by (auto simp: Symlink_def split: sum.splits if_splits)

lemma EnsureDriveLetter_Inr:
  assumes "EnsureDriveLetter p letter target t = (Inr (), t')"
  shows "t' = t(DevicesDir p @ [letter] \<mapsto> NLink (path_string target))"
  using assms
  by (auto simp: EnsureDriveLetter_def Let_def Lstat_def os_then_Inr Symlink_Inr Remove_def node_at_def
      split: option.splits node.splits if_splits)

lemma EnsureDriveLetter_frame:
  "q \<noteq> DevicesDir p @ [letter] \<Longrightarrow> snd (EnsureDriveLetter p letter target t) q = t q"
  by (auto simp: EnsureDriveLetter_def Let_def os_then_def Symlink_def Remove_def
      split: sum.splits option.splits node.splits)

lemma EnsureDriveLetter_again:
  assumes "t (DevicesDir p @ [letter]) = Some (NLink (path_string target))"
  shows "EnsureDriveLetter p letter target t = (Inr (), t)"
  using assms by (simp add: EnsureDriveLetter_def Lstat_def node_at_def)

text \<open>A file that is created or truncated holds what was written.\<close>

lemma create_file_Inr:
  assumes "create_file trunc p content t = (Inr (), t')"
  obtains q new where "follow 41 t p = Some q" "t' = t(q \<mapsto> NFile new)" "\<nexists>x. node_at t q = Some (NLink x)"
    "trunc \<or> node_at t q = None \<Longrightarrow> new = content"
proof -
  obtain q where q: "follow 41 t p = Some q" using assms by (auto simp: create_file_def split: option.splits)
  show thesis
  proof (cases "node_at t q")
    case None
    then have "t' = t(q \<mapsto> NFile content)" using assms q by (auto simp: create_file_def split: sum.splits)
    then show thesis using that q None by simp
  next
    case (Some n)
    then obtain old where "n = NFile old" "t' = t(q \<mapsto> NFile (if trunc then content else overwrite content old))"
      using assms q by (auto simp: create_file_def split: node.splits)
    then show thesis using that [OF q, of "if trunc then content else overwrite content old"] Some by simp
  qed
qed

lemma follow_plain: "\<nexists>x. node_at t p = Some (NLink x) \<Longrightarrow> follow (Suc k) t p = Some p"
  by (auto split: option.split node.split)

lemma follow_plain_41: "\<nexists>x. node_at t p = Some (NLink x) \<Longrightarrow> follow 41 t p = Some p"
  using follow_plain [of t p 40] by (simp add: numeral_eq_Suc)

lemma follow_after_write:
  "follow k t p = Some q \<Longrightarrow> \<nexists>x. node_at t q = Some (NLink x) \<Longrightarrow> q \<noteq> [] \<Longrightarrow>
   follow k (t(q \<mapsto> NFile c)) p = Some q"
proof (induction k t p rule: follow.induct)
  case (2 k t p)
  then show ?case
    by (cases "p = q") (auto simp: node_at_def split: option.splits node.splits if_splits)
qed simp

lemma create_file_Stat:
  assumes "create_file trunc p content t = (Inr (), t')"
  obtains new where "Stat p t' = Inr (NFile new)" "trunc \<or> Stat p t = Inl ErrNotExist \<Longrightarrow> new = content"
proof (rule create_file_Inr [OF assms])
  fix q new
  assume q: "follow 41 t p = Some q" "t' = t(q \<mapsto> NFile new)" "\<nexists>x. node_at t q = Some (NLink x)"
    and new: "trunc \<or> node_at t q = None \<Longrightarrow> new = content"
  have "q \<noteq> []" using assms q(1) by (auto simp: create_file_def node_at_def)
  then have "Stat p t' = Inr (NFile new)" using follow_after_write [OF q(1,3)] by (auto simp: Stat_Inr q(2) node_at_def)
  moreover have "node_at t q = None" if "Stat p t = Inl ErrNotExist"
    using that q(1) by (auto simp: Stat_def Lstat_def split: option.splits)
  ultimately show thesis using that new by blast
qed

text \<open>What is found at the place of \<open>stars.exe\<close> stays; where nothing is, the program is written.\<close>

lemma ensureStars_Inr:
  assumes "ensureStars pf r t = (Inr (), t')"
  obtains t1 where "os_MkdirAll (rn_ExecutableDir r) t = (Inr (), t1)" "t \<subseteq>\<^sub>m t'" "Stat (rn_ExecutableDir r) t' = Inr NDir"
    "Stat (starsFilePath r) t' =
      Inr (case Stat (starsFilePath r) t1 of Inr n \<Rightarrow> n | Inl _ \<Rightarrow> NFile (starsBin pf))"
proof -
  obtain t1 where t1: "os_MkdirAll (rn_ExecutableDir r) t = (Inr (), t1)"
    and rest: "(case Stat (starsFilePath r) t1 of
       Inl e \<Rightarrow> (if e = ErrNotExist then create_file False (starsFilePath r) (starsBin pf) t1 else (Inl e, t1))
     | Inr _ \<Rightarrow> (Inr (), t1)) = (Inr (), t')"
    using assms by (auto simp: ensureStars_def os_then_Inr)
  have dir: "Stat (rn_ExecutableDir r) t1 = Inr NDir" "t \<subseteq>\<^sub>m t1" using os_MkdirAll_Inr [OF t1] by simp_all
  have "t1 \<subseteq>\<^sub>m t' \<and> Stat (starsFilePath r) t' =
      Inr (case Stat (starsFilePath r) t1 of Inr n \<Rightarrow> n | Inl _ \<Rightarrow> NFile (starsBin pf))"
  proof (cases "Stat (starsFilePath r) t1")
    case (Inl e)
    then have f: "create_file False (starsFilePath r) (starsBin pf) t1 = (Inr (), t')" "e = ErrNotExist"
      using rest by (auto split: if_splits)
    obtain q new where q: "follow 41 t1 (starsFilePath r) = Some q" "t' = t1(q \<mapsto> NFile new)"
      by (rule create_file_Inr [OF f(1)])
    then have "node_at t1 q = None" using Inl by (auto simp: Stat_def Lstat_def split: option.splits)
    moreover have "Stat (starsFilePath r) t' = Inr (NFile (starsBin pf))"
      by (rule create_file_Stat [OF f(1)]) (use Inl f(2) in simp)
    ultimately show ?thesis using Inl q(2) map_le_new by simp
  qed (use rest in auto)
  then show thesis
    using that [OF t1] dir map_le_trans Stat_mono by blast
qed

subsection \<open>The environment after a successful start\<close>

definition environment_ok :: "platform \<Rightarrow> runner \<Rightarrow> tree \<Rightarrow> bool" where
  "environment_ok pf r t \<longleftrightarrow>
     t (DevicesDir (rn_prefix r) @ [''s:'']) = Some (NLink (path_string (rn_SaveDir r))) \<and>
     t (DevicesDir (rn_prefix r) @ [''x:'']) = Some (NLink (path_string (rn_ExecutableDir r))) \<and>
     t (starsINIFilePath r) = Some (NFile (starsINI pf)) \<and>
     Stat (rn_ExecutableDir r) t = Inr NDir \<and> (\<exists>n. Stat (starsFilePath r) t = Inr n) \<and>
     Stat (rn_SaveDir r) t = Inr NDir"

lemmas environment_paths = starsINIFilePath_def WindowsDir_def DevicesDir_def

lemma written_ini:
  assumes "ensureStarsINI pf r t = (Inr (), t')" "\<nexists>x. t' (starsINIFilePath r) = Some (NLink x)"
  shows "t' (starsINIFilePath r) = Some (NFile (starsINI pf))"
proof -
  obtain q new where q: "follow 41 t (starsINIFilePath r) = Some q" "t' = t(q \<mapsto> NFile new)"
    "\<nexists>x. node_at t q = Some (NLink x)" "True \<or> node_at t q = None \<Longrightarrow> new = starsINI pf"
    using create_file_Inr [OF assms(1) [unfolded ensureStarsINI_def]] by metis
  have "starsINIFilePath r \<noteq> []" by (simp add: environment_paths)
  then have "\<nexists>x. node_at t (starsINIFilePath r) = Some (NLink x)" if "q \<noteq> starsINIFilePath r"
    using assms(2) that by (auto simp: q(2) node_at_def)
  then have "q = starsINIFilePath r" using follow_plain_41 [of t "starsINIFilePath r"] q(1) by auto
  then show ?thesis using q by simp
qed

text \<open>The checks up to the moment when \<open>ensureStars\<close> looks for \<open>stars.exe\<close>.\<close>

definition before_stars :: "platform \<Rightarrow> runner \<Rightarrow> unit os" where
  "before_stars pf r =
    os_then (EnsurePrefix pf (rn_prefix r)) (\<lambda>_.
    os_then (ensureStarsINI pf r) (\<lambda>_.
    os_then (ensureDriveLetters r) (\<lambda>_.
    os_MkdirAll (rn_ExecutableDir r))))"

lemma checks_environment:
  assumes "checks pf r t = (Inr (), t')" "\<nexists>x. t' (starsINIFilePath r) = Some (NLink x)"
  shows "environment_ok pf r t'" and "\<exists>t1. before_stars pf r t = (Inr (), t1) \<and>
    Stat (starsFilePath r) t' = Inr (case Stat (starsFilePath r) t1 of Inr n \<Rightarrow> n | Inl _ \<Rightarrow> NFile (starsBin pf))"
proof -
  let ?s = "DevicesDir (rn_prefix r) @ [''s:'']" and ?x = "DevicesDir (rn_prefix r) @ [''x:'']"
  obtain t1 t2 t3 t4 t5 where prefix: "EnsurePrefix pf (rn_prefix r) t = (Inr (), t1)" and steps: "ensureStarsINI pf r t1 = (Inr (), t2)"
    "EnsureDriveLetter (rn_prefix r) ''s:'' (rn_SaveDir r) t2 = (Inr (), t3)"
    "EnsureDriveLetter (rn_prefix r) ''x:'' (rn_ExecutableDir r) t3 = (Inr (), t4)"
    "ensureStars pf r t4 = (Inr (), t5)" "ensureSaveDir r t5 = (Inr (), t')"
    using assms(1) by (auto simp: checks_def os_then_Inr ensureDriveLetters_def split: sum.splits)
  have t3: "t3 = t2(?s \<mapsto> NLink (path_string (rn_SaveDir r)))" by (rule EnsureDriveLetter_Inr [OF steps(2)])
  have t4: "t4 = t3(?x \<mapsto> NLink (path_string (rn_ExecutableDir r)))" by (rule EnsureDriveLetter_Inr [OF steps(3)])
  obtain t6 where exe: "os_MkdirAll (rn_ExecutableDir r) t4 = (Inr (), t6)" "t4 \<subseteq>\<^sub>m t5" "Stat (rn_ExecutableDir r) t5 = Inr NDir"
    "Stat (starsFilePath r) t5 = Inr (case Stat (starsFilePath r) t6 of Inr n \<Rightarrow> n | Inl _ \<Rightarrow> NFile (starsBin pf))"
    by (rule ensureStars_Inr [OF steps(4)])
  have grows: "t4 \<subseteq>\<^sub>m t'" "t5 \<subseteq>\<^sub>m t'"
    using exe(2) os_MkdirAll_Inr steps(5) by (auto simp: ensureSaveDir_def intro: map_le_trans)
  have keep: "t' p = t4 p" if "t4 p \<noteq> None" for p using grows(1) that by (auto simp: map_le_def dom_def)
  have ini: "t4 (starsINIFilePath r) = t2 (starsINIFilePath r)" by (simp add: t4 t3 environment_paths)
  have plain: "\<nexists>x. t2 (starsINIFilePath r) = Some (NLink x)" using assms(2) keep ini by auto
  have "t' (starsINIFilePath r) = Some (NFile (starsINI pf))"
    using written_ini [OF steps(1) plain] keep ini by auto
  moreover have "t' ?s = Some (NLink (path_string (rn_SaveDir r)))" "t' ?x = Some (NLink (path_string (rn_ExecutableDir r)))"
    using keep [of ?s] keep [of ?x] by (simp_all add: t4 t3)
  moreover have "Stat (rn_ExecutableDir r) t' = Inr NDir" "\<exists>n. Stat (starsFilePath r) t' = Inr n"
    using exe(3,4) Stat_mono [OF grows(2)] by blast+
  moreover have "Stat (rn_SaveDir r) t' = Inr NDir" using os_MkdirAll_Inr steps(5) by (simp add: ensureSaveDir_def)
  ultimately show "environment_ok pf r t'" by (simp add: environment_ok_def)
  have "before_stars pf r t = (Inr (), t6)"
    using prefix steps(1-3) exe(1) by (simp add: before_stars_def ensureDriveLetters_def os_then_def)
  then show "\<exists>t1. before_stars pf r t = (Inr (), t1) \<and>
      Stat (starsFilePath r) t' = Inr (case Stat (starsFilePath r) t1 of Inr n \<Rightarrow> n | Inl _ \<Rightarrow> NFile (starsBin pf))"
    using Stat_mono [OF grows(2) exe(4)] by blast
qed

text \<open>Where everything is in place, the checks find nothing to do.\<close>

lemma checks_again:
  assumes "CheckWine pf = Inr ()" "environment_ok pf r t" "Stat (pr_path (rn_prefix r)) t = Inr NDir"
  shows "checks pf r t = (Inr (), t)"
proof -
  note ok = assms(2) [unfolded environment_ok_def]
  have ini: "node_at t (starsINIFilePath r) = Some (NFile (starsINI pf))"
    using ok by (simp add: node_at_def environment_paths)
  then have "follow 41 t (starsINIFilePath r) = Some (starsINIFilePath r)" by (intro follow_plain_41) simp
  then have "ensureStarsINI pf r t = (Inr (), t)"
    using ini ok by (auto simp: ensureStarsINI_def create_file_def fun_upd_idem)
  moreover have "ensureDriveLetters r t = (Inr (), t)"
    using ok by (simp add: ensureDriveLetters_def os_then_def EnsureDriveLetter_again)
  moreover have "ensureStars pf r t = (Inr (), t)"
    using ok by (auto simp: ensureStars_def os_then_def os_MkdirAll_again)
  moreover have "ensureSaveDir r t = (Inr (), t)" using ok by (simp add: ensureSaveDir_def os_MkdirAll_again)
  moreover have "EnsurePrefix pf (rn_prefix r) t = (Inr (), t)" by (simp add: EnsurePrefix_def assms(3))
  ultimately show ?thesis by (simp add: checks_def assms(1) os_then_def)
qed

text \<open>The checks do not look at the X server.\<close>

lemma runner_paths:
  "starsINIFilePath (r\<lparr>rn_xvfbProcess := p\<rparr>) = starsINIFilePath r"
  "starsFilePath (r\<lparr>rn_xvfbProcess := p\<rparr>) = starsFilePath r"
  "rn_prefix (r\<lparr>rn_xvfbProcess := p\<rparr>) = rn_prefix r" "rn_SaveDir (r\<lparr>rn_xvfbProcess := p\<rparr>) = rn_SaveDir r"
  "rn_ExecutableDir (r\<lparr>rn_xvfbProcess := p\<rparr>) = rn_ExecutableDir r"
  by (simp_all add: starsINIFilePath_def starsFilePath_def)

lemma checks_of_runner: "checks pf (r\<lparr>rn_xvfbProcess := p\<rparr>) = checks pf r"
  unfolding checks_def ensureStarsINI_def ensureDriveLetters_def ensureStars_def ensureSaveDir_def runner_paths ..

lemma runner_Init_Inr:
  assumes "runner_Init pf r t = (Inr (), r', t')"
  obtains p where "r' = r\<lparr>rn_xvfbProcess := p, rn_initialized := True\<rparr>" "preChecks pf = Inr ()"
    "initialize pf r = (Inr (), r\<lparr>rn_xvfbProcess := p\<rparr>)" "checks pf r t = (Inr (), t')" "CheckWine pf = Inr ()"
proof -
  obtain r1 where r1: "initialize pf r = (Inr (), r1)" "checks pf r1 t = (Inr (), t')" "r' = r1\<lparr>rn_initialized := True\<rparr>"
    and pre: "preChecks pf = Inr ()"
    using assms by (auto simp: runner_Init_def split: sum.splits prod.splits)
  have r: "r1 = r\<lparr>rn_xvfbProcess := rn_xvfbProcess r1\<rparr>"
    using r1(1) by (auto simp: initialize_def Let_def split: if_splits)
  moreover have "checks pf r t = (Inr (), t')" using r1(2) r checks_of_runner by metis
  moreover have "CheckWine pf = Inr ()" using r1(2) by (cases "CheckWine pf") (auto simp: checks_def)
  ultimately show thesis using that [of "rn_xvfbProcess r1"] pre r1 by metis
qed

lemma environment_ok_runner:
  "environment_ok pf (r\<lparr>rn_xvfbProcess := p\<rparr>) = environment_ok pf r"
  "environment_ok pf (r\<lparr>rn_initialized := i\<rparr>) = environment_ok pf r"
  by (auto simp: fun_eq_iff environment_ok_def environment_paths starsFilePath_def)

lemma runner_Init_environment:
  assumes "runner_Init pf r t = (Inr (), r', t')" "\<nexists>x. t' (starsINIFilePath r) = Some (NLink x)"
  shows "environment_ok pf r t' \<and> environment_ok pf r' t' \<and> IsReady r'"
proof (rule runner_Init_Inr [OF assms(1)])
  fix p assume "r' = r\<lparr>rn_xvfbProcess := p, rn_initialized := True\<rparr>" "checks pf r t = (Inr (), t')"
  then show ?thesis
    using checks_environment(1) [of pf r t t'] assms(2) by (simp add: environment_ok_runner IsReady_def)
qed

text \<open>
  \<^bold>\<open>C33\<close>: a successful start prepares what a generation needs, where the place of \<open>Stars.ini\<close> is not a
  symbolic link afterwards: the drive \<open>s:\<close> is a link to the
  directory of the games and \<open>x:\<close> one to the directory of the program, both directories exist, and
  \<open>Stars.ini\<close> has exactly the embedded content. \<open>stars.exe\<close> is the embedded program if nothing was found
  at its place when the start looked there, and is what was found otherwise. Only then is the runner
  ready. When the server is started again on what it has prepared, and the wine prefix is a directory there,
  the start succeeds with the same result and changes no file.
\<close>

theorem runner_Init_correct:
  assumes "runner_Init pf r t = (Inr (), r', t')" "\<nexists>x. t' (starsINIFilePath r) = Some (NLink x)"
  shows "environment_ok pf r t' \<and> IsReady r' \<and>
    (\<exists>t1. before_stars pf r t = (Inr (), t1) \<and>
      Stat (starsFilePath r) t' = Inr (case Stat (starsFilePath r) t1 of Inr n \<Rightarrow> n | Inl _ \<Rightarrow> NFile (starsBin pf))) \<and>
    (Stat (pr_path (rn_prefix r)) t' = Inr NDir \<longrightarrow> runner_Init pf r t' = (Inr (), r', t'))"
proof (rule runner_Init_Inr [OF assms(1)])
  fix p
  assume r': "r' = r\<lparr>rn_xvfbProcess := p, rn_initialized := True\<rparr>" and pre: "preChecks pf = Inr ()"
    and i: "initialize pf r = (Inr (), r\<lparr>rn_xvfbProcess := p\<rparr>)" and c: "checks pf r t = (Inr (), t')"
    and wine: "CheckWine pf = Inr ()"
  note env = runner_Init_environment [OF assms]
  have "checks pf (r\<lparr>rn_xvfbProcess := p\<rparr>) t' = (Inr (), t')" if "Stat (pr_path (rn_prefix r)) t' = Inr NDir"
    unfolding checks_of_runner using checks_again [OF wine _ that] env by simp
  then show ?thesis
    using env checks_environment(2) [OF c assms(2)] by (simp add: runner_Init_def pre i r')
qed

text \<open>The example: a first start in an empty tree, where \<open>wineboot\<close> makes the directories of the prefix.\<close>

definition example_prefix_dirs :: "path list" where
  "example_prefix_dirs = [[''w''], [''w'', ''dosdevices''], [''w'', ''drive_c''], [''w'', ''drive_c'', ''windows'']]"

definition example_status :: status where
  "example_status = \<lparr>st_PID = 7, st_Exit = 0, st_Error = None, st_StopTs = 0, st_Stdout = [], st_Stderr = []\<rparr>"

definition example_platform :: platform where
  "example_platform = \<lparr>homedir_Expand = Inr, working_dir = [], WINEARCH = ''win32'',
     LookPath = (\<lambda>f. Inr (''/bin/'' @ f)), Stat_mode = (\<lambda>f. Inr \<lparr>fm_IsRegular = True, fm_IsSymlink = False, fm_Executable = True\<rparr>),
     Access_X_OK = (\<lambda>f. True),
     run_command = (\<lambda>name args env timeout t. (Finished example_status,
       if name = ''wineboot'' then fold (\<lambda>p t. t(p \<mapsto> NDir)) example_prefix_dirs t else t)),
     xvfb_after_start = (\<lambda>args. example_status), starsBin = [1, 2], starsINI = [3]\<rparr>"

definition example_runner :: runner where
  "example_runner = \<lparr>rn_ExecutableDir = [''e''], rn_SaveDir = [''g''], rn_DisplayNumber = 99,
     rn_preserveSaveFiles = False, rn_stripRacePasswords = False, rn_fixRaceFiles = False,
     rn_prefix = \<lparr>pr_path = [''w''], pr_timeout = 30, pr_display = '':99'', pr_quiet = True\<rparr>,
     rn_xvfbProcess = None, rn_initialized = False\<rparr>"

theorem runner_Init_correct_witness:
  "\<exists>r t. runner_Init example_platform example_runner Map.empty = (Inr (), r, t) \<and>
     environment_ok example_platform example_runner t \<and> IsReady r \<and>
     Stat (starsFilePath example_runner) t = Inr (NFile [1, 2]) \<and>
     runner_Init example_platform example_runner t = (Inr (), r, t)"
proof -
  let ?run = "runner_Init example_platform example_runner Map.empty"
  have finished: "fst ?run = Inr ()" and ini: "snd (snd ?run) (starsINIFilePath example_runner) = Some (NFile [3])"
    and prefix: "Stat (pr_path (rn_prefix example_runner)) (snd (snd ?run)) = Inr NDir"
    and none: "isl (Stat (starsFilePath example_runner) (snd (before_stars example_platform example_runner Map.empty)))"
    and exe: "starsBin example_platform = [1, 2]" by code_simp+
  obtain r t where run: "?run = (Inr (), r, t)" using finished by (cases ?run) auto
  then have "\<nexists>x. t (starsINIFilePath example_runner) = Some (NLink x)" using ini by auto
  from runner_Init_correct [OF run this] show ?thesis using run prefix none exe by (auto simp: isl_def)
qed

subsection \<open>Failures that are not seen\<close>

text \<open>
  go-cmd reports a program that exits with a code other than zero without an error; \<open>RunCmdWithTimeout\<close>
  looks at the code and then returns the error that is not there.
\<close>

lemma exit_codes_are_ignored:
  assumes "run_command pf name args (Prefix_Env pf p) (pr_timeout p) t = (Finished st, t')" "st_Error st = None"
  shows "snd (snd (fst (RunCmdWithTimeout pf p name args t))) = None"
  using assms by (simp add: RunCmdWithTimeout_def)

lemma failed_wineboot_is_success:
  assumes "\<And>name args env n t. run_command pf name args env n t = (Finished (st name), t)"
    "st ''wineboot'' = example_status\<lparr>st_Exit := 1\<rparr>"
  shows "createPrefix pf p t = (Inr (), t)"
  using assms by (simp add: createPrefix_def RunCmdWithTimeout_def KillWineserver_def example_status_def Let_def)

text \<open>The identifier of a process stays after it has ended: an X server that dies at once passes.\<close>

lemma dead_Xvfb_is_accepted:
  assumes "\<And>args. xvfb_after_start pf args = st" "st_PID st > 0" "st_StopTs st \<noteq> 0"
  shows "\<exists>r'. initialize pf r = (Inr (), r') \<and> \<not> IsXvfbRunning r'"
  using assms by (simp add: initialize_def IsXvfbRunning_def)

text \<open>
  Whatever is at the place of \<open>stars.exe\<close> is taken for it: the rest of an interrupted copy stays.
\<close>

lemma partial_stars_exe_stays:
  assumes "Stat (rn_ExecutableDir r) t = Inr NDir" "Stat (starsFilePath r) t = Inr n"
  shows "ensureStars pf r t = (Inr (), t)"
  using assms by (simp add: ensureStars_def os_then_def os_MkdirAll_again)

end
