(* ===== verification/Generator.thy ===== *)
theory Generator
  imports Turns
begin

section \<open>The life of the turn generator\<close>

text \<open>
  \<open>TurnGenerator\<close> of \<open>lib/stars/newturn.go\<close>: the goroutine \<open>Run\<close>, the subscription that feeds it,
  and the operations by which the server waits for it and stops it. A step of the relation is one
  action of the goroutine (subscribing, receiving a message in the \<open>select\<close>, handling it with
  \<open>needsGeneration\<close>, leaving on the cancelled context) or of its surroundings (a message
  published, the context cancelled, the database changed by a request). The goroutine has no \<open>recover\<close>: a panic while a message is
  handled ends the process.

  \<open>Run\<close> subscribes with \<open>ChanSubscribe\<close> and a channel without a buffer. The documented behaviour of the
  library is that it never waits for the receiver: a message that the channel cannot take at once is
  dropped. So a message is delivered only when the goroutine is parked in its \<open>select\<close> with a live context;
  one that is published while another is handled, before the subscription or after it, is lost. Whether
  the goroutine is already parked when it is about to receive is up to the scheduler.
\<close>

subsection \<open>State\<close>

datatype phase =
    Idle
  | Subscribing
  | Selecting
  | Handling NeedsGenerationMsg
  | Exited
  | Crashed

text \<open>
  \<open>ready\<close> and \<open>done\<close> are closed channels, \<open>cancelled\<close> is the context. \<open>tg_seen\<close>, \<open>tg_lost\<close> and
  \<open>tg_handled\<close> are history: the messages that were delivered to the goroutine, those that were dropped, and
  those whose handling has ended.
\<close>

record generator =
  tg_phase :: phase
  tg_running :: bool
  tg_cancelled :: bool
  tg_ready :: bool
  tg_done :: bool
  tg_world :: "db \<times> fs"
  tg_sent :: "ResourceChange list"
  tg_seen :: "NeedsGenerationMsg list"
  tg_lost :: "NeedsGenerationMsg list"
  tg_handled :: "NeedsGenerationMsg list"

definition NewTurnGenerator :: "db \<times> fs \<Rightarrow> generator" where
  "NewTurnGenerator w = \<lparr>tg_phase = Idle, tg_running = False, tg_cancelled = False,
     tg_ready = False, tg_done = False, tg_world = w, tg_sent = [], tg_seen = [], tg_lost = [],
     tg_handled = []\<rparr>"

text \<open>What \<open>needsGeneration\<close> does to the world; the \<open>n\<close>-th message gets the \<open>n\<close>-th identifier.\<close>

record environment =
  e_houston :: houston
  e_preserve :: bool
  e_wine :: wine
  e_uuids :: "nat \<Rightarrow> id"

definition handle_message ::
    "environment \<Rightarrow> nat \<Rightarrow> NeedsGenerationMsg \<Rightarrow> db \<times> fs \<Rightarrow>
     (err + unit) \<times> db \<times> fs \<times> ResourceChange list" where
  "handle_message e n msg w = needsGeneration (e_houston e) (e_preserve e) (e_wine e) (e_uuids e n) msg w"

subsection \<open>Steps of the goroutine\<close>

definition signalReady :: "generator \<Rightarrow> generator" where
  "signalReady g = g\<lparr>tg_ready := True\<rparr>"

definition signalDone :: "generator \<Rightarrow> generator" where
  "signalDone g = g\<lparr>tg_done := True\<rparr>"

definition handled :: "environment \<Rightarrow> NeedsGenerationMsg \<Rightarrow> generator \<Rightarrow> generator" where
  "handled e msg g = (case handle_message e (length (tg_handled g)) msg (tg_world g) of (r, d, f, ns) \<Rightarrow>
     g\<lparr>tg_phase := (if r = Inl Panic then Crashed else Selecting),
       tg_world := (d, f), tg_sent := tg_sent g @ ns, tg_handled := tg_handled g @ [msg]\<rparr>)"

inductive own_step :: "environment \<Rightarrow> generator \<Rightarrow> generator \<Rightarrow> bool" for e where
  subscribe_fails: "tg_phase g = Subscribing \<Longrightarrow>
    own_step e g (signalDone (signalReady (g\<lparr>tg_phase := Exited\<rparr>)))"
| subscribe: "tg_phase g = Subscribing \<Longrightarrow>
    own_step e g (signalReady (g\<lparr>tg_phase := Selecting, tg_running := True\<rparr>))"
| handle: "tg_phase g = Handling msg \<Longrightarrow> own_step e g (handled e msg g)"
| leave: "tg_phase g = Selecting \<Longrightarrow> tg_cancelled g \<Longrightarrow>
    own_step e g (signalDone (g\<lparr>tg_phase := Exited, tg_running := False\<rparr>))"

text \<open>
  A message arrives: the goroutine that is parked in its \<open>select\<close> takes it and goes on with it, any other
  loses it.
\<close>

definition publish :: "bool \<Rightarrow> NeedsGenerationMsg \<Rightarrow> generator \<Rightarrow> generator" where
  "publish parked msg g =
    (if parked \<and> tg_phase g = Selecting \<and> \<not> tg_cancelled g
     then g\<lparr>tg_phase := Handling msg, tg_seen := tg_seen g @ [msg]\<rparr>
     else g\<lparr>tg_lost := tg_lost g @ [msg]\<rparr>)"

text \<open>
  \<open>Shutdown\<close> returns at once on a generator that does not run; otherwise it cancels the context and
  waits for \<open>done\<close>.
\<close>

definition Shutdown :: "generator \<Rightarrow> generator" where
  "Shutdown g = (if \<not> tg_running g then g else g\<lparr>tg_cancelled := True\<rparr>)"

definition Shutdown_returns :: "generator \<Rightarrow> generator \<Rightarrow> bool" where
  "Shutdown_returns called now = (\<not> tg_running called \<or> tg_done now)"

inductive gen_step :: "environment \<Rightarrow> generator \<Rightarrow> generator \<Rightarrow> bool" for e where
  go: "tg_phase g = Idle \<Longrightarrow> gen_step e g (g\<lparr>tg_phase := Subscribing\<rparr>)"
| own: "own_step e g g' \<Longrightarrow> gen_step e g g'"
| request: "db_ok d \<Longrightarrow> gen_step e g (g\<lparr>tg_world := (d, snd (tg_world g))\<rparr>)"
| submit: "gen_step e g (publish parked msg g)"
| cancel: "tg_phase g \<noteq> Idle \<Longrightarrow> gen_step e g (g\<lparr>tg_cancelled := True\<rparr>)"
| shutdown: "gen_step e g (Shutdown g)"

abbreviation gen_steps :: "environment \<Rightarrow> generator \<Rightarrow> generator \<Rightarrow> bool" where
  "gen_steps e \<equiv> (gen_step e)\<^sup>*\<^sup>*"

inductive_cases own_stepE: "own_step e g g'"

subsection \<open>The invariant\<close>

text \<open>
  The channels and the flag say what they are meant to say, and every message that was delivered is
  handled or being handled, once and in its order.
\<close>

definition current :: "generator \<Rightarrow> NeedsGenerationMsg list" where
  "current g = (case tg_phase g of Handling msg \<Rightarrow> [msg] | _ \<Rightarrow> [])"

definition generator_ok :: "generator \<Rightarrow> bool" where
  "generator_ok g = (
     (tg_done g \<longleftrightarrow> tg_phase g = Exited) \<and>
     (tg_ready g \<longleftrightarrow> tg_phase g \<noteq> Idle \<and> tg_phase g \<noteq> Subscribing) \<and>
     (tg_phase g = Idle \<or> tg_phase g = Subscribing \<longrightarrow> \<not> tg_running g \<and> tg_seen g = []) \<and>
     (tg_phase g = Selecting \<or> current g \<noteq> [] \<longrightarrow> tg_running g) \<and>
     (tg_phase g = Exited \<longrightarrow> \<not> tg_running g) \<and>
     (tg_phase g = Idle \<longrightarrow> \<not> tg_cancelled g) \<and>
     tg_handled g @ current g = tg_seen g \<and>
     db_ok (fst (tg_world g)))"

lemmas generator_defs = generator_ok_def current_def signalReady_def signalDone_def

lemma needsGeneration_ok:
  "db_ok d \<Longrightarrow> needsGeneration hs p wine u msg (d, f) = (r, d', f', ns) \<Longrightarrow> db_ok d'"
  by (auto simp: needsGeneration_def split: sum.splits prod.splits dest: genTurn_ok)

lemma handled_ok: "generator_ok g \<Longrightarrow> tg_phase g = Handling msg \<Longrightarrow> generator_ok (handled e msg g)"
  by (cases "tg_world g")
    (auto simp: generator_defs handled_def handle_message_def split: prod.splits dest: needsGeneration_ok)

lemma own_step_ok: "own_step e g g' \<Longrightarrow> generator_ok g \<Longrightarrow> generator_ok g'"
proof (induction rule: own_step.induct)
  case (handle g msg)
  then show ?case by (intro handled_ok)
qed (auto simp: generator_defs)

lemma gen_step_ok: "gen_step e g g' \<Longrightarrow> generator_ok g \<Longrightarrow> generator_ok g'"
  by (induction rule: gen_step.induct)
    (auto simp: own_step_ok, auto simp: generator_defs publish_def Shutdown_def split: phase.splits)

lemma gen_steps_ok: "gen_steps e g g' \<Longrightarrow> generator_ok g \<Longrightarrow> generator_ok g'"
  by (induction rule: rtranclp_induct) (auto intro: gen_step_ok)

lemma NewTurnGenerator_ok: "db_ok d \<Longrightarrow> generator_ok (NewTurnGenerator (d, f))"
  by (simp add: generator_defs NewTurnGenerator_def)


subsection \<open>Stopping\<close>

text \<open>How many steps of its own the goroutine can still take, when nothing more is delivered.\<close>

definition steps_left :: "generator \<Rightarrow> nat" where
  "steps_left g = (case tg_phase g of Subscribing \<Rightarrow> 2 | Selecting \<Rightarrow> 1 | Handling _ \<Rightarrow> 2 | _ \<Rightarrow> 0)"

lemma steps_left_handled: "tg_phase g = Handling msg \<Longrightarrow> steps_left (handled e msg g) < steps_left g"
  by (auto simp: handled_def steps_left_def split: prod.splits)

lemma steps_left_decreases: "own_step e g g' \<Longrightarrow> steps_left g' < steps_left g"
proof (induction rule: own_step.induct)
  case (handle g msg)
  then show ?case by (rule steps_left_handled)
qed (auto simp: steps_left_def signalReady_def signalDone_def)

lemma own_steps_terminate: "wf {(g', g). own_step e g g'}"
  by (rule wf_subset [OF wf_measure [of steps_left]]) (auto dest: steps_left_decreases)

lemma own_step_cancelled: "own_step e g g' \<Longrightarrow> tg_cancelled g' = tg_cancelled g"
  by (induction rule: own_step.induct)
    (auto simp: handled_def signalReady_def signalDone_def split: prod.splits)

lemma own_step_phase: "own_step e g g' \<Longrightarrow> tg_phase g' \<noteq> Idle"
  by (induction rule: own_step.induct)
    (auto simp: handled_def signalReady_def signalDone_def split: prod.splits)

lemma stuck_phase:
  assumes "tg_cancelled g" "\<nexists>g'. own_step e g g'"
  shows "tg_phase g \<in> {Idle, Exited, Crashed}"
  using assms by (cases "tg_phase g") (auto intro: own_step.intros)

lemma own_steps_end:
  assumes "tg_cancelled g" "tg_phase g \<noteq> Idle"
  shows "\<exists>g'. (own_step e)\<^sup>*\<^sup>* g g' \<and> tg_phase g' \<in> {Exited, Crashed}"
  using own_steps_terminate [of e] assms
proof (induction g rule: wf_induct_rule)
  case (less g)
  show ?case
  proof (cases "\<exists>g'. own_step e g g'")
    case True
    then obtain g1 where g1: "own_step e g g1" by blast
    then have "\<exists>g'. (own_step e)\<^sup>*\<^sup>* g1 g' \<and> tg_phase g' \<in> {Exited, Crashed}"
      using less own_step_cancelled own_step_phase by (metis case_prodI mem_Collect_eq)
    then show ?thesis using g1 by (meson converse_rtranclp_into_rtranclp)
  next
    case False
    then have "tg_phase g \<in> {Idle, Exited, Crashed}" by (rule stuck_phase [OF less.prems(1)])
    then show ?thesis using less.prems(2) by blast
  qed
qed

lemma own_steps_steps: "(own_step e)\<^sup>*\<^sup>* g g' \<Longrightarrow> gen_steps e g g'"
  by (induction rule: rtranclp_induct) (auto intro: rtranclp.rtrancl_into_rtrancl own)

lemma own_steps_cancelled: "(own_step e)\<^sup>*\<^sup>* g g' \<Longrightarrow> tg_cancelled g' = tg_cancelled g"
  by (induction rule: rtranclp_induct) (auto dest: own_step_cancelled)

lemma own_steps_not_idle: "(own_step e)\<^sup>*\<^sup>* g g' \<Longrightarrow> tg_phase g \<noteq> Idle \<Longrightarrow> tg_phase g' \<noteq> Idle"
  by (induction rule: rtranclp_induct) (auto dest: own_step_phase)

lemma own_steps_bound: "(own_step e ^^ n) g g' \<Longrightarrow> n + steps_left g' \<le> steps_left g"
proof (induction n arbitrary: g')
  case (Suc n)
  then obtain g1 where "(own_step e ^^ n) g g1" "own_step e g1 g'" by auto
  then show ?case using Suc.IH [of g1] steps_left_decreases [of e g1 g'] by simp
qed simp

lemma steps_left_le: "steps_left g \<le> 2"
  by (simp add: steps_left_def split: phase.splits)

text \<open>A cancelled context stays cancelled, and a goroutine that was started stays so.\<close>

lemma gen_step_cancelled: "gen_step e g g' \<Longrightarrow> tg_cancelled g \<Longrightarrow> tg_cancelled g'"
  by (induction rule: gen_step.induct) (auto simp: own_step_cancelled publish_def Shutdown_def)

lemma gen_steps_cancelled: "gen_steps e g g' \<Longrightarrow> tg_cancelled g \<Longrightarrow> tg_cancelled g'"
  by (induction rule: rtranclp_induct) (auto dest: gen_step_cancelled)

text \<open>Once the context is cancelled, no step but those of the goroutine moves it.\<close>

lemma gen_step_steps_left:
  "gen_step e g g' \<Longrightarrow> tg_cancelled g \<Longrightarrow> tg_phase g \<noteq> Idle \<Longrightarrow> steps_left g' \<le> steps_left g \<and> tg_phase g' \<noteq> Idle"
  by (induction rule: gen_step.induct)
    (auto dest: steps_left_decreases own_step_phase, auto simp: steps_left_def publish_def Shutdown_def split: if_splits)

lemma gen_steps_not_idle: "gen_steps e g g' \<Longrightarrow> tg_cancelled g \<Longrightarrow> tg_phase g \<noteq> Idle \<Longrightarrow> tg_phase g' \<noteq> Idle"
  by (induction rule: rtranclp_induct) (auto dest: gen_step_steps_left gen_steps_cancelled)

text \<open>
  \<^bold>\<open>C31\<close>: \<open>Shutdown\<close> stops the generator. It is called in any state that the generator can reach, and
  then anything may happen: messages are published, it is called again. If the generator was running, then
  at any later time the goroutine can take at most two more steps of its own, and where it can take none,
  it has left, so that the call of \<open>Shutdown\<close> that waits for \<open>done\<close> returns, unless the generation that
  was in progress has panicked. Every message that was delivered has been handled, once and in its order, and
  the integrity of the database is kept. If it was not running, \<open>Shutdown\<close> returns at once and changes
  nothing.
\<close>

theorem generator_stops:
  assumes "gen_steps e (NewTurnGenerator (d, f)) g" "db_ok d"
  shows "if \<not> tg_running g then Shutdown g = g \<and> Shutdown_returns g g
    else (\<forall>g1. gen_steps e (Shutdown g) g1 \<longrightarrow>
      (\<forall>n g2. (own_step e ^^ n) g1 g2 \<longrightarrow> n \<le> 2) \<and>
      ((\<nexists>g2. own_step e g1 g2) \<longrightarrow> (tg_phase g1 = Crashed \<or> Shutdown_returns g g1 \<and> \<not> tg_running g1) \<and>
        tg_handled g1 = tg_seen g1 \<and> db_ok (fst (tg_world g1))))"
proof (cases "tg_running g")
  case False
  then show ?thesis by (simp add: Shutdown_def Shutdown_returns_def)
next
  case True
  have ok: "generator_ok g" by (rule gen_steps_ok [OF assms(1) NewTurnGenerator_ok [OF assms(2)]])
  then have started: "tg_phase g \<noteq> Idle" "tg_cancelled (Shutdown g)" "tg_phase (Shutdown g) \<noteq> Idle"
    using True by (auto simp: generator_ok_def Shutdown_def)
  have bound: "n \<le> 2" if "(own_step e ^^ n) g1 g2" for n g1 g2
    using own_steps_bound [OF that] steps_left_le [of g1] by linarith
  have left: "(tg_phase g1 = Crashed \<or> Shutdown_returns g g1 \<and> \<not> tg_running g1) \<and>
      tg_handled g1 = tg_seen g1 \<and> db_ok (fst (tg_world g1))"
    if g1: "gen_steps e (Shutdown g) g1" and no_step: "\<nexists>g2. own_step e g1 g2" for g1
  proof -
    have "tg_phase g1 \<in> {Exited, Crashed}"
      using stuck_phase [OF gen_steps_cancelled [OF g1 started(2)] no_step] gen_steps_not_idle [OF g1 started(2,3)] by blast
    moreover have "generator_ok g1"
      using gen_steps_ok [OF g1] gen_step_ok [OF shutdown ok] by blast
    ultimately show ?thesis by (auto simp: generator_ok_def current_def Shutdown_returns_def)
  qed
  from True bound left show ?thesis by auto
qed

text \<open>The example: a generator that has taken a message.\<close>

definition example_environment :: environment where
  "example_environment = \<lparr>e_houston = example_houston, e_preserve = False, e_wine = example_wine,
     e_uuids = (\<lambda>n. decimal (n))\<rparr>"

definition busy_generator :: "NeedsGenerationMsg \<Rightarrow> generator" where
  "busy_generator msg = (NewTurnGenerator (played_db [human, bot], Map.empty))
     \<lparr>tg_phase := Handling msg, tg_running := True, tg_ready := True, tg_seen := [msg]\<rparr>"

lemma busy_generator_reachable:
  "gen_steps example_environment (NewTurnGenerator (played_db [human, bot], Map.empty)) (busy_generator msg)"
proof -
  let ?g0 = "NewTurnGenerator (played_db [human, bot], Map.empty)"
  let ?g1 = "?g0\<lparr>tg_phase := Subscribing\<rparr>"
  let ?g2 = "signalReady (?g1\<lparr>tg_phase := Selecting, tg_running := True\<rparr>)"
  have "gen_step example_environment ?g0 ?g1" by (rule go) (simp add: NewTurnGenerator_def)
  moreover have "gen_step example_environment ?g1 ?g2" by (rule own, rule subscribe) simp
  moreover have "gen_step example_environment ?g2 (publish True msg ?g2)" by (rule submit)
  moreover have "publish True msg ?g2 = busy_generator msg"
    by (simp add: publish_def signalReady_def NewTurnGenerator_def busy_generator_def)
  ultimately show ?thesis
    by (metis (no_types, lifting) rtranclp.rtrancl_into_rtrancl rtranclp.rtrancl_refl)
qed

theorem generator_stops_witness:
  "tg_phase (busy_generator (genMsg ''s'' 2407)) = Handling (genMsg ''s'' 2407) \<and>
   (\<nexists>g2. (own_step example_environment ^^ 3) (Shutdown (busy_generator (genMsg ''s'' 2407))) g2) \<and>
   (\<exists>g1. gen_steps example_environment (Shutdown (busy_generator (genMsg ''s'' 2407))) g1 \<and>
     (tg_phase g1 = Crashed \<or> Shutdown_returns (busy_generator (genMsg ''s'' 2407)) g1) \<and> tg_handled g1 = tg_seen g1)"
proof -
  let ?g = "busy_generator (genMsg ''s'' 2407)"
  note stops = generator_stops [OF busy_generator_reachable played_db_ok(1), of "genMsg ''s'' 2407"]
  have g: "tg_running ?g" "tg_phase ?g = Handling (genMsg ''s'' 2407)" by (simp_all add: busy_generator_def)
  then have "tg_cancelled (Shutdown ?g)" "tg_phase (Shutdown ?g) \<noteq> Idle" by (simp_all add: Shutdown_def)
  from own_steps_end [OF this] obtain g1 where
    g1: "(own_step example_environment)\<^sup>*\<^sup>* (Shutdown ?g) g1" "tg_phase g1 \<in> {Exited, Crashed}" by blast
  have "\<nexists>g2. own_step example_environment g1 g2" using g1(2) by (auto elim: own_stepE)
  then have final: "(tg_phase g1 = Crashed \<or> Shutdown_returns ?g g1) \<and> tg_handled g1 = tg_seen g1"
    using stops g(1) own_steps_steps [OF g1(1)] by auto
  have "\<nexists>g2. (own_step example_environment ^^ 3) (Shutdown ?g) g2"
  proof
    assume "\<exists>g2. (own_step example_environment ^^ 3) (Shutdown ?g) g2"
    then obtain g2 where "(own_step example_environment ^^ 3) (Shutdown ?g) g2" by blast
    moreover have "gen_steps example_environment (Shutdown ?g) (Shutdown ?g)" by simp
    moreover have "\<not> \<not> tg_running ?g" using g(1) by simp
    ultimately have "(3::nat) \<le> 2" using stops [unfolded if_not_P [OF \<open>\<not> \<not> tg_running ?g\<close>]] by blast
    then show False by simp
  qed
  then show ?thesis using final g own_steps_steps [OF g1(1)] by blast
qed

subsection \<open>Messages that are lost\<close>

text \<open>How often a message was published; nothing takes back a delivery or a loss.\<close>

definition published :: "NeedsGenerationMsg \<Rightarrow> generator \<Rightarrow> nat" where
  "published msg g = count_list (tg_seen g) msg + count_list (tg_lost g) msg"

lemma own_step_history: "own_step e g g' \<Longrightarrow> tg_seen g' = tg_seen g \<and> tg_lost g' = tg_lost g"
  by (induction rule: own_step.induct) (auto simp: handled_def signalReady_def signalDone_def split: prod.splits)

lemma gen_step_history:
  "gen_step e g g' \<Longrightarrow> count_list (tg_seen g) msg \<le> count_list (tg_seen g') msg \<and>
     count_list (tg_lost g) msg \<le> count_list (tg_lost g') msg"
  by (induction rule: gen_step.induct) (auto simp: own_step_history publish_def Shutdown_def)

lemma gen_steps_history:
  "gen_steps e g g' \<Longrightarrow> count_list (tg_seen g) msg \<le> count_list (tg_seen g') msg \<and>
     count_list (tg_lost g) msg \<le> count_list (tg_lost g') msg"
proof (induction rule: rtranclp_induct)
  case (step g1 g2)
  then show ?case using gen_step_history [of e g1 g2 msg] by linarith
qed simp

lemma not_published_again:
  assumes "gen_steps e g g'" "published msg g' = published msg g" "generator_ok g'"
  shows "count_list (tg_handled g') msg \<le> count_list (tg_seen g) msg"
proof -
  have "count_list (tg_seen g') msg = count_list (tg_seen g) msg"
    using gen_steps_history [OF assms(1), of msg] assms(2) by (simp add: published_def)
  moreover have "tg_seen g' = tg_handled g' @ current g'" using assms(3) by (simp add: generator_ok_def)
  ultimately show ?thesis by (simp add: count_list_append)
qed



end
