(* ===== verification/Commands.thy ===== *)
theory Commands
  imports Auth
begin

section \<open>The command line\<close>

text \<open>
  \<open>cmd/neper/cmd\<close>: the commands \<open>create-user\<close> and \<open>load-serials\<close>, which work on the database of
  the server, \<open>serve\<close> as the order in which it takes and returns its resources, the exit code of the
  program, and the generation of secrets. Connections to the database are taken to succeed where the
  code only reports the failure; random bytes and UUIDs are arguments, as are the results of the
  option parser and of the library nkeys.
\<close>

subsection \<open>create-user\<close>

record CreateUserCmd =
  cu_Username :: string
  cu_Email :: string
  cu_IsManager :: bool

definition create_user_row :: "CreateUserCmd \<Rightarrow> 8 word list \<Rightarrow> id \<Rightarrow> UserProfileDB" where
  "create_user_row cmd rnd userID =
    \<lparr>U_ID = userID,
     U_Email = (if cu_Email cmd = '''' then cu_Username cmd @ ''@neper.local'' else cu_Email cmd),
     U_State = UserActive, U_IsManager = cu_IsManager cmd, U_Nickname = cu_Username cmd,
     U_APIKey = Some (hex_EncodeToString (take 32 rnd)), U_SerialKey = None, U_RegistrationMessage = None\<rparr>"

text \<open>
  The printed API key and the serial key, empty if none could be assigned: the second transaction may
  fail, which is only logged.
\<close>

definition CreateUser_Execute :: "CreateUserCmd \<Rightarrow> 8 word list \<Rightarrow> id \<Rightarrow> db \<Rightarrow> (err + string \<times> string) \<times> db" where
  "CreateUser_Execute cmd rnd userID d =
    (case insert_user (create_user_row cmd rnd userID) d of
       Inl e \<Rightarrow> (Inl (OtherErr (''failed to create user: '' @ Error_msg e)), d)
     | Inr d1 \<Rightarrow> (case AssignKeyToUser userID d1 of
         (Inl e, d2) \<Rightarrow> (Inr (hex_EncodeToString (take 32 rnd), ''''), d2)
       | (Inr serialKey, d2) \<Rightarrow> (Inr (hex_EncodeToString (take 32 rnd), serialKey), d2)))"

lemma AssignKeyToUser_users:
  assumes "db_ok d"
  shows "\<exists>f. (\<forall>u. U_ID (f u) = U_ID u \<and> U_Nickname (f u) = U_Nickname u \<and> U_APIKey (f u) = U_APIKey u \<and>
      U_State (f u) = U_State u \<and> U_IsManager (f u) = U_IsManager u) \<and>
    users (snd (AssignKeyToUser uid d)) = map f (users d)"
proof (cases "AssignKeyToUserTx uid d")
  case (Inl e)
  then show ?thesis by (intro exI [of _ id]) (simp add: AssignKeyToUser_def)
next
  case (Inr r)
  obtain key d' where r: "r = (key, d')" by (cases r)
  have "users d' = map (\<lambda>u. if U_ID u = uid then u\<lparr>U_SerialKey := Some key\<rparr> else u) (users d)"
    by (rule AssignKeyToUserTx_Inr [OF assms, of uid key d']) (use Inr r in \<open>simp_all add: sql_update_def\<close>)
  then show ?thesis
    using Inr r by (intro exI [of _ "\<lambda>u. if U_ID u = uid then u\<lparr>U_SerialKey := Some key\<rparr> else u"])
      (simp add: AssignKeyToUser_def)
qed

lemma AssignKeyToUser_keeps: "users_ok d \<Longrightarrow> users_ok (snd (AssignKeyToUser uid d))"
  using AssignKeyToUserTx_ok [of d uid] AssignKeyToUserTx_licences [of d uid]
  by (auto simp: AssignKeyToUser_def users_ok_def split: sum.splits)

lemma CreateUser_Execute_Inr:
  assumes "CreateUser_Execute cmd rnd uid d = (Inr (apikey, key), d')"
  obtains d1 where "insert_user (create_user_row cmd rnd uid) d = Inr d1" "d' = snd (AssignKeyToUser uid d1)"
    "apikey = hex_EncodeToString (take 32 rnd)"
    "key = (case fst (AssignKeyToUser uid d1) of Inl e \<Rightarrow> '''' | Inr k \<Rightarrow> k)"
  using assms by (auto simp: CreateUser_Execute_def split: sum.splits prod.splits)

lemma CreateUser_Execute_keeps:
  assumes "users_ok d"
  shows "users_ok (snd (CreateUser_Execute cmd rnd uid d))"
proof (cases "insert_user (create_user_row cmd rnd uid) d")
  case (Inr d1)
  have "users_ok d1" by (rule insert_user_users_ok [OF assms _ Inr]) (simp add: create_user_row_def)
  then have "users_ok (snd (AssignKeyToUser uid d1))" by (rule AssignKeyToUser_keeps)
  then show ?thesis by (auto simp: CreateUser_Execute_def Inr split: sum.splits prod.splits)
qed (simp add: CreateUser_Execute_def assms)

text \<open>
  \<^bold>\<open>C34\<close>: the user that the command creates can log in with the key that it prints, and is who the
  command line says: his name, a global manager or not, and not pending. Nobody else's access
  changes, and the serial key that is printed was free and is his, if there was one.
\<close>

theorem created_user_can_log_in:
  assumes "users_ok d" "CreateUser_Execute cmd rnd uid d = (Inr (apikey, key), d')"
    "cu_Username cmd \<noteq> ''''" "cu_Username cmd \<noteq> SystemUserNickName" "rnd \<noteq> []"
  shows "Authenticate (Some \<lparr>Cr_Apikey = apikey, Cr_Nickname = cu_Username cmd\<rparr>) d' =
      Inr \<lparr>ClaimsPrincipal = \<lparr>Subject = uid, IsGlobalManager = cu_IsManager cmd, IsPending = False,
           NickName = cu_Username cmd\<rparr>, ExpiresAt = 0\<rparr> \<and>
    (\<forall>c. Cr_Nickname c \<noteq> cu_Username cmd \<longrightarrow> Authenticate (Some c) d' = Authenticate (Some c) d) \<and>
    (if GetAvailableKeyCount d = 0 then key = ''''
     else \<lparr>K_Key = key, K_UserProfileID = None\<rparr> \<in> set (serials d) \<and>
       \<lparr>K_Key = key, K_UserProfileID = Some uid\<rparr> \<in> set (serials d')) \<and>
    users_ok d'"
proof -
  let ?u = "create_user_row cmd rnd uid"
  obtain d1 where d1: "insert_user ?u d = Inr d1" "d' = snd (AssignKeyToUser uid d1)"
    "apikey = hex_EncodeToString (take 32 rnd)"
    and key: "key = (case fst (AssignKeyToUser uid d1) of Inl e \<Rightarrow> '''' | Inr k \<Rightarrow> k)"
    by (rule CreateUser_Execute_Inr [OF assms(2)])
  have ins: "d1 = d\<lparr>users := users d @ [?u]\<rparr>" "cu_Username cmd \<notin> U_Nickname ` set (users d)"
    using d1(1) by (auto simp: insert_user_def enforce_Inr sql_insert_def occurs_iff create_user_row_def)
  have ok: "db_ok d1" using assms(1) d1(1) insert_user_ok by (auto simp: users_ok_def)
  obtain f where f: "\<forall>u. U_ID (f u) = U_ID u \<and> U_Nickname (f u) = U_Nickname u \<and> U_APIKey (f u) = U_APIKey u \<and>
      U_State (f u) = U_State u \<and> U_IsManager (f u) = U_IsManager u" "users d' = map f (users d1)"
    using AssignKeyToUser_users [OF ok, of uid] d1(2) by blast
  have find: "sql_first (\<lambda>u. U_State u \<noteq> UserInactive \<and> U_APIKey u = a \<and> U_Nickname u = n) (map f us) =
      map_option f (sql_first (\<lambda>u. U_State u \<noteq> UserInactive \<and> U_APIKey u = a \<and> U_Nickname u = n) us)" for a n us
    by (induction us) (auto simp: f(1))
  have row: "U_ID ?u = uid" "U_Nickname ?u = cu_Username cmd" "U_APIKey ?u = Some apikey" "U_State ?u = UserActive"
    "U_IsManager ?u = cu_IsManager cmd"
    by (simp_all add: create_user_row_def d1(3))
  have none: "sql_first (\<lambda>u. U_State u \<noteq> UserInactive \<and> U_APIKey u = Some apikey \<and> U_Nickname u = cu_Username cmd) (users d) = None"
    using ins(2) by (auto simp: sql_first_None image_iff)
  have "apikey \<noteq> ''''" using assms(5) by (cases rnd) (auto simp: d1(3))
  then have "Authenticate (Some \<lparr>Cr_Apikey = apikey, Cr_Nickname = cu_Username cmd\<rparr>) d' =
      Inr \<lparr>ClaimsPrincipal = \<lparr>Subject = uid, IsGlobalManager = cu_IsManager cmd, IsPending = False,
           NickName = cu_Username cmd\<rparr>, ExpiresAt = 0\<rparr>"
    using assms(3,4) none f(1) by (simp add: Authenticate_def f(2) find ins(1) sql_first_append row del: map_append)
  moreover have "Authenticate (Some c) d' = Authenticate (Some c) d" if "Cr_Nickname c \<noteq> cu_Username cmd" for c
    using that f(1) by (auto simp: Authenticate_def f(2) find ins(1) sql_first_append row simp del: map_append split: option.split)
  moreover have "if GetAvailableKeyCount d = 0 then key = ''''
     else \<lparr>K_Key = key, K_UserProfileID = None\<rparr> \<in> set (serials d) \<and>
       \<lparr>K_Key = key, K_UserProfileID = Some uid\<rparr> \<in> set (serials d')"
  proof -
    have count: "GetAvailableKeyCount d1 = GetAvailableKeyCount d" by (simp add: ins(1) GetAvailableKeyCount_def)
    have uid: "uid \<in> U_ID ` set (users d1)" by (simp add: ins(1) create_user_row_def)
    show ?thesis
    proof (cases "GetAvailableKeyCount d = 0")
      case True
      then show ?thesis using AssignKeyToUserTx_iff(2) [OF ok uid] by (simp add: count key AssignKeyToUser_def)
    next
      case False
      then obtain k d2 where tx: "AssignKeyToUserTx uid d1 = Inr (k, d2)"
        using AssignKeyToUserTx_iff(1) [OF ok uid] by (auto simp: count)
      then have k: "key = k" "d' = d2" using key d1(2) by (simp_all add: AssignKeyToUser_def)
      have free: "\<lparr>K_Key = k, K_UserProfileID = None\<rparr> \<in> set (serials d1)"
        and "serials d2 = sql_update (\<lambda>x. K_Key x = k) (\<lambda>x. x\<lparr>K_UserProfileID := Some uid\<rparr>) (serials d1)"
        by (rule AssignKeyToUserTx_Inr [OF ok tx], simp)+
      then show ?thesis using False ins(1) k by (force simp: set_sql_update)
    qed
  qed
  moreover have "users_ok d'" using CreateUser_Execute_keeps [OF assms(1), of cmd rnd uid] assms(2) by simp
  ultimately show ?thesis by blast
qed

text \<open>The example: a database with one free serial key.\<close>

theorem created_user_can_log_in_witness:
  "\<exists>apikey key d'. CreateUser_Execute \<lparr>cu_Username = ''frodo'', cu_Email = '''', cu_IsManager = True\<rparr> (replicate 32 7) ''n''
      ((example_db Pending False)\<lparr>serials := [\<lparr>K_Key = ''k'', K_UserProfileID = None\<rparr>]\<rparr>) = (Inr (apikey, key), d') \<and>
    (\<exists>c. Authenticate (Some \<lparr>Cr_Apikey = apikey, Cr_Nickname = ''frodo''\<rparr>) d' = Inr c \<and> IsGlobalManager (ClaimsPrincipal c)) \<and>
    \<lparr>K_Key = key, K_UserProfileID = Some ''n''\<rparr> \<in> set (serials d')"
proof -
  let ?cmd = "\<lparr>cu_Username = ''frodo'', cu_Email = '''', cu_IsManager = True\<rparr>" and ?rnd = "replicate 32 (7 :: 8 word)"
  let ?d = "(example_db Pending False)\<lparr>serials := [\<lparr>K_Key = ''k'', K_UserProfileID = None\<rparr>]\<rparr>"
  let ?run = "CreateUser_Execute ?cmd ?rnd ''n'' ?d"
  have ok: "db_ok ?d" "isl (fst ?run) = False" "GetAvailableKeyCount ?d = 1" by code_simp+
  have "licences_ok ?d" by (simp add: licences_ok_def example_db_def example_user_def)
  then have users: "users_ok ?d" using ok(1) by (simp add: users_ok_def)
  obtain apikey key d' where run: "?run = (Inr (apikey, key), d')" using ok(2) by (cases ?run; cases "fst ?run") auto
  have "cu_Username ?cmd \<noteq> ''''" "cu_Username ?cmd \<noteq> SystemUserNickName" "?rnd \<noteq> []"
    by (simp_all add: SystemUserNickName_def)
  from created_user_can_log_in [OF users run this] show ?thesis using run ok(3) by auto
qed

subsection \<open>load-serials\<close>

text \<open>The counts that are logged: the free keys and the assigned ones.\<close>

definition LoadSerials_Execute :: "string list \<Rightarrow> db \<Rightarrow> (err + int \<times> int) \<times> db" where
  "LoadSerials_Execute file_lines d = (case LoadKeysIntoDB file_lines d of
     (Some e, d1) \<Rightarrow> (Inl e, d1)
   | (None, d1) \<Rightarrow> (Inr (GetAvailableKeyCount d1, GetAssignedKeyCount d1), d1))"

lemma insertKeyBatch_serials:
  "insertKeyBatch keys d = Inr d' \<Longrightarrow>
   serials d' = serials d @ map (\<lambda>k. \<lparr>K_Key = k, K_UserProfileID = None\<rparr>) keys"
  by (induction keys d rule: insertKeyBatch.induct)
    (auto simp: and_then_eq_Inr insert_serial_def enforce_Inr sql_insert_def)

lemma LoadKeysIntoDB_serials:
  assumes "LoadKeysIntoDB file_lines d = (None, d')"
  shows "d' = d \<and> serials d \<noteq> [] \<or>
    serials d = [] \<and> serials d' = map (\<lambda>k. \<lparr>K_Key = k, K_UserProfileID = None\<rparr>) (LoadKeys file_lines)"
proof (cases "serials d")
  case Nil
  then have "load_batches (LoadKeys file_lines) d = (None, d')"
    using assms by (simp add: LoadKeysIntoDB_def Let_def sql_count_def)
  then show ?thesis using insertKeyBatch_serials Nil by (simp add: load_batches_ok)
next
  case (Cons k ks)
  then have "0 < sql_count (\<lambda>k. True) (serials d)" by (simp add: sql_count_def)
  then show ?thesis using assms Cons by (simp add: LoadKeysIntoDB_def Let_def)
qed

lemma counts_partition: "GetAvailableKeyCount d + GetAssignedKeyCount d = int (length (serials d))"
proof -
  have "length (filter (\<lambda>k. K_UserProfileID k = None) xs) + length (filter (\<lambda>k. K_UserProfileID k \<noteq> None) xs) = length xs" for xs
    by (rule sum_length_filter_compl)
  from arg_cong [OF this, of int] show ?thesis
    by (simp only: GetAvailableKeyCount_def GetAssignedKeyCount_def sql_count_def of_nat_add)
qed

text \<open>Running the command a second time loads nothing and reports the same.\<close>

lemma LoadSerials_again:
  assumes "LoadSerials_Execute file_lines d = (Inr (available, assigned), d')" "LoadKeys file_lines \<noteq> []"
  shows "available + assigned = int (length (serials d')) \<and>
    LoadSerials_Execute file_lines d' = (Inr (available, assigned), d')"
proof -
  have load: "LoadKeysIntoDB file_lines d = (None, d')" and counts: "available = GetAvailableKeyCount d'" "assigned = GetAssignedKeyCount d'"
    using assms(1) by (auto simp: LoadSerials_Execute_def split: prod.splits option.splits)
  have "serials d' \<noteq> []" using LoadKeysIntoDB_serials [OF load] assms(2) by auto
  then have "0 < sql_count (\<lambda>k. True) (serials d')" by (simp add: sql_count_def)
  then have "LoadKeysIntoDB file_lines d' = (None, d')" by (simp add: LoadKeysIntoDB_def Let_def)
  then show ?thesis using counts counts_partition [of d'] by (simp add: LoadSerials_Execute_def)
qed

subsection \<open>Secrets\<close>

text \<open>The library nkeys: a key pair of a kind has a seed and a public key, or an error.\<close>

record 'k nkeys =
  nk_Create :: "string \<Rightarrow> err + 'k"
  nk_Seed :: "'k \<Rightarrow> err + string"
  nk_PublicKey :: "'k \<Rightarrow> err + string"
  nk_ParseDecorated :: "string \<Rightarrow> err + 'k"
  nk_Sign :: "'k \<Rightarrow> string \<Rightarrow> err + string"

definition wrap :: "string \<Rightarrow> err + 'a \<Rightarrow> err + 'a" where
  "wrap msg r = (case r of Inl e \<Rightarrow> Inl (OtherErr (msg @ '': '' @ Error_msg e)) | Inr x \<Rightarrow> Inr x)"

text \<open>The printed seed and public key.\<close>

definition GenerateNkey_Execute :: "'k nkeys \<Rightarrow> string \<Rightarrow> err + string \<times> string" where
  "GenerateNkey_Execute lib type =
    (if type \<in> {''user'', ''account'', ''operator'', ''server'', ''cluster''}
     then and_then (wrap (''failed to create '' @ type @ '' key'') (nk_Create lib type)) (\<lambda>kp.
       and_then (wrap ''failed to get seed'' (nk_Seed lib kp)) (\<lambda>seed.
       and_then (wrap ''failed to get public key'' (nk_PublicKey lib kp)) (\<lambda>pub.
       Inr (seed, pub))))
     else Inl (OtherErr (''unknown key type: '' @ type)))"

definition GenerateTokenSecret_Execute :: "8 word list \<Rightarrow> string" where
  "GenerateTokenSecret_Execute rnd = ''token-secret '' @ hex_EncodeToString (take 32 rnd)"

subsection \<open>The exit code\<close>

datatype parse_result = Parsed | Help_wanted | Parse_error err

text \<open>
  \<open>Run\<close>: the results of the bootstrap parser, of the configuration file if one is named, and of the
  parser, which executes the command; the error of a command is the error of its parser.
\<close>

definition Run :: "err option \<Rightarrow> err option option \<Rightarrow> parse_result \<Rightarrow> int" where
  "Run bootstrap configfile parse =
    (if bootstrap \<noteq> None then 1
     else if (case configfile of None \<Rightarrow> False | Some e \<Rightarrow> e \<noteq> None) then 1
     else (case parse of Parsed \<Rightarrow> 0 | Help_wanted \<Rightarrow> 0 | Parse_error _ \<Rightarrow> 1))"

subsection \<open>serve\<close>

text \<open>
  \<open>Execute\<close> of the command \<open>serve\<close> as the sequence of its actions, with the deferred ones at the
  end; the arguments are the errors of the single actions.
\<close>

datatype action =
    Auto_migrate | Check_schema | DB_Open | DB_Ping | Register_info | Register_stats
  | Setup_config | Configure_API | Serve_requests
  | Server_Shutdown | Unregister_stats | Unregister_info | DB_Close

record serve_env =
  sv_AutoMigrate :: bool
  sv_Prometheus :: bool
  sv_error :: "action \<Rightarrow> err option"

type_synonym run_trace = "err option \<times> action list"

definition attempt_action :: "serve_env \<Rightarrow> action \<Rightarrow> run_trace \<Rightarrow> run_trace" where
  "attempt_action e a rest = (case sv_error e a of
     Some x \<Rightarrow> (Some x, [a]) | None \<Rightarrow> (fst rest, a # snd rest))"

definition deferred :: "action \<Rightarrow> run_trace \<Rightarrow> run_trace" where
  "deferred a r = (fst r, snd r @ [a])"

definition with_metrics :: "serve_env \<Rightarrow> run_trace \<Rightarrow> run_trace" where
  "with_metrics e rest = (if \<not> sv_Prometheus e then rest else
     attempt_action e Register_info (deferred Unregister_info (
     attempt_action e Register_stats (deferred Unregister_stats rest))))"

definition Serve_Execute :: "serve_env \<Rightarrow> run_trace" where
  "Serve_Execute e =
     attempt_action e (if sv_AutoMigrate e then Auto_migrate else Check_schema) (
     attempt_action e DB_Open (deferred DB_Close (
     attempt_action e DB_Ping (
     with_metrics e (
     attempt_action e Setup_config (
     attempt_action e Configure_API (deferred Server_Shutdown (
     attempt_action e Serve_requests (None, [])))))))))"

lemma attempt_trace [simp]:
  "x \<in> set (snd (attempt_action e a r)) \<longleftrightarrow> x = a \<or> (sv_error e a = None \<and> x \<in> set (snd r))"
  "distinct (snd (attempt_action e a r)) \<longleftrightarrow> sv_error e a \<noteq> None \<or> (a \<notin> set (snd r) \<and> distinct (snd r))"
  "last (snd (attempt_action e a r)) = (if sv_error e a = None \<and> snd r \<noteq> [] then last (snd r) else a)"
  "snd (attempt_action e a r) \<noteq> []"
  "fst (attempt_action e a r) = None \<longleftrightarrow> sv_error e a = None \<and> fst r = None"
  by (auto simp: attempt_action_def split: option.split)

lemma deferred_trace [simp]:
  "x \<in> set (snd (deferred a r)) \<longleftrightarrow> x = a \<or> x \<in> set (snd r)"
  "distinct (snd (deferred a r)) \<longleftrightarrow> a \<notin> set (snd r) \<and> distinct (snd r)"
  "last (snd (deferred a r)) = a" "snd (deferred a r) \<noteq> []" "fst (deferred a r) = fst r"
  by (auto simp: deferred_def)

lemmas serve_defs = Serve_Execute_def with_metrics_def

text \<open>
  Every resource that was taken is given back, once: the database that was opened is closed as the
  very last action, metrics that were registered are unregistered, and the server is shut down when
  the API was configured. What \<open>setupServeConfig\<close> has started is only stopped by the server: where
  the set-up or the configuration fails, nobody shuts it down.
\<close>

lemma Serve_Execute_releases:
  "distinct (snd (Serve_Execute e)) \<and>
   (DB_Close \<in> set (snd (Serve_Execute e)) \<longleftrightarrow> DB_Open \<in> set (snd (Serve_Execute e)) \<and> sv_error e DB_Open = None) \<and>
   (DB_Close \<in> set (snd (Serve_Execute e)) \<longrightarrow> last (snd (Serve_Execute e)) = DB_Close) \<and>
   (Unregister_info \<in> set (snd (Serve_Execute e)) \<longleftrightarrow>
      Register_info \<in> set (snd (Serve_Execute e)) \<and> sv_error e Register_info = None) \<and>
   (Unregister_stats \<in> set (snd (Serve_Execute e)) \<longleftrightarrow>
      Register_stats \<in> set (snd (Serve_Execute e)) \<and> sv_error e Register_stats = None) \<and>
   (Server_Shutdown \<in> set (snd (Serve_Execute e)) \<longleftrightarrow>
      Configure_API \<in> set (snd (Serve_Execute e)) \<and> sv_error e Configure_API = None)"
  by (cases "sv_AutoMigrate e"; cases "sv_Prometheus e"; auto simp: serve_defs)

lemma Serve_Execute_ok:
  "fst (Serve_Execute e) = None \<Longrightarrow> {Serve_requests, Server_Shutdown, DB_Close} \<subseteq> set (snd (Serve_Execute e))"
  by (cases "sv_AutoMigrate e"; cases "sv_Prometheus e"; simp add: serve_defs)

end
