(* ===== verification/Limiter.thy ===== *)
theory Limiter
  imports Users Complex_Main
begin

section \<open>The limit on registrations\<close>

text \<open>
  \<open>RateLimiter\<close> of \<open>lib/registration/options.go\<close>, which the handler of the registration asks before
  it does anything: one token bucket per address, made at its first request, and a goroutine that
  throws all buckets away every ten minutes. The bucket is \<open>rate.Limiter\<close> of \<open>x/time/rate\<close>, a
  parameter; times are nanoseconds. The mutex makes each operation one step. The rate is a rational
  number; the rounding of \<open>float64\<close> is left out.
\<close>

subsection \<open>The buckets\<close>

record 'l rate_lib =
  NewLimiter :: "rat \<Rightarrow> int \<Rightarrow> 'l"
  Limiter_Allow :: "int \<Rightarrow> 'l \<Rightarrow> bool \<times> 'l"

record limiter_Options = registration_Options +
  RateLimitPerMinute :: rat
  RateLimitBurst :: int

definition limiter_NewOptions :: limiter_Options where
  "limiter_NewOptions = \<lparr>Enabled = False, NeedApproval = True, RateLimitPerMinute = 5, RateLimitBurst = 10\<rparr>"

text \<open>\<open>rl_cleaning\<close>: the goroutine \<open>cleanup\<close> has not been stopped.\<close>

record 'l RateLimiter =
  rl_limiters :: "string \<rightharpoonup> 'l"
  rl_rate :: rat
  rl_burst :: int
  rl_cleaning :: bool

definition NewRateLimiter :: "limiter_Options \<Rightarrow> 'l RateLimiter" where
  "NewRateLimiter opts = \<lparr>rl_limiters = Map.empty, rl_rate = RateLimitPerMinute opts / 60,
     rl_burst = RateLimitBurst opts, rl_cleaning = True\<rparr>"

definition RateLimiter_Allow :: "'l rate_lib \<Rightarrow> int \<Rightarrow> string \<Rightarrow> 'l RateLimiter \<Rightarrow> bool \<times> 'l RateLimiter" where
  "RateLimiter_Allow lib now ip rl =
    (let limiter = (case rl_limiters rl ip of
           None \<Rightarrow> NewLimiter lib (rl_rate rl) (rl_burst rl) | Some l \<Rightarrow> l);
         (allowed, limiter') = Limiter_Allow lib now limiter in
     (allowed, rl\<lparr>rl_limiters := (rl_limiters rl)(ip \<mapsto> limiter')\<rparr>))"

definition RateLimiter_tick :: "'l RateLimiter \<Rightarrow> 'l RateLimiter" where
  "RateLimiter_tick rl = (if rl_cleaning rl then rl\<lparr>rl_limiters := Map.empty\<rparr> else rl)"

text \<open>Closing the channel a second time panics.\<close>

definition RateLimiter_Close :: "'l RateLimiter \<Rightarrow> err + 'l RateLimiter" where
  "RateLimiter_Close rl = (if rl_cleaning rl then Inr (rl\<lparr>rl_cleaning := False\<rparr>) else Inl Panic)"

subsection \<open>Addresses do not disturb each other\<close>

datatype limiter_event = Attempt string int | Tick

fun answers :: "'l rate_lib \<Rightarrow> 'l RateLimiter \<Rightarrow> limiter_event list \<Rightarrow> (string \<times> bool) list" where
  "answers lib rl [] = []"
| "answers lib rl (Attempt ip now # es) = (case RateLimiter_Allow lib now ip rl of
     (allowed, rl') \<Rightarrow> (ip, allowed) # answers lib rl' es)"
| "answers lib rl (Tick # es) = answers lib (RateLimiter_tick rl) es"

definition concerns :: "string \<Rightarrow> limiter_event \<Rightarrow> bool" where
  "concerns ip e = (case e of Attempt i _ \<Rightarrow> i = ip | Tick \<Rightarrow> True)"

text \<open>The reference: a single bucket, or none yet, that is renewed by every tick.\<close>

fun own_answers :: "'l rate_lib \<Rightarrow> rat \<Rightarrow> int \<Rightarrow> 'l option \<Rightarrow> limiter_event list \<Rightarrow> bool list" where
  "own_answers lib r b l [] = []"
| "own_answers lib r b l (Attempt ip now # es) =
    (case Limiter_Allow lib now (case l of None \<Rightarrow> NewLimiter lib r b | Some x \<Rightarrow> x) of
       (allowed, l') \<Rightarrow> allowed # own_answers lib r b (Some l') es)"
| "own_answers lib r b l (Tick # es) = own_answers lib r b None es"

definition answers_to :: "string \<Rightarrow> (string \<times> bool) list \<Rightarrow> bool list" where
  "answers_to ip xs = map snd (filter (\<lambda>x. fst x = ip) xs)"

lemma answers_own:
  "rl_cleaning rl \<Longrightarrow> answers_to ip (answers lib rl es) =
     own_answers lib (rl_rate rl) (rl_burst rl) (rl_limiters rl ip) (filter (concerns ip) es)"
proof (induction es arbitrary: rl)
  case (Cons e es)
  show ?case
  proof (cases e)
    case (Attempt i now)
    obtain allowed l' where step: "Limiter_Allow lib now (case rl_limiters rl i of
        None \<Rightarrow> NewLimiter lib (rl_rate rl) (rl_burst rl) | Some l \<Rightarrow> l) = (allowed, l')"
      by (cases "Limiter_Allow lib now (case rl_limiters rl i of
        None \<Rightarrow> NewLimiter lib (rl_rate rl) (rl_burst rl) | Some l \<Rightarrow> l)")
    have "RateLimiter_Allow lib now i rl = (allowed, rl\<lparr>rl_limiters := (rl_limiters rl)(i \<mapsto> l')\<rparr>)"
      by (simp add: RateLimiter_Allow_def step)
    then show ?thesis
      using Cons.IH [of "rl\<lparr>rl_limiters := (rl_limiters rl)(i \<mapsto> l')\<rparr>"] Cons.prems step Attempt
      by (auto simp: answers_to_def concerns_def)
  next
    case Tick
    then show ?thesis
      using Cons.IH [of "rl\<lparr>rl_limiters := Map.empty\<rparr>"] Cons.prems
      by (simp add: RateLimiter_tick_def concerns_def)
  qed
qed (simp add: answers_to_def)

text \<open>
  The limit is one per address: what an address is answered is what a bucket of its own
  answers that sees only the attempts of this address and the renewals, whatever the other
  addresses do.
\<close>

lemma limiter_is_per_address:
  "answers_to ip (answers lib (NewRateLimiter opts) es) =
   own_answers lib (RateLimitPerMinute opts / 60) (RateLimitBurst opts) None (filter (concerns ip) es)"
  using answers_own [of "NewRateLimiter opts" ip lib es] by (simp add: NewRateLimiter_def)

subsection \<open>The address is the one that the client names\<close>

text \<open>The law of the library: a bucket that holds at least one token lets its first request pass.\<close>

definition fresh_allows :: "'l rate_lib \<Rightarrow> bool" where
  "fresh_allows lib = (\<forall>r b now. 1 \<le> b \<longrightarrow> fst (Limiter_Allow lib now (NewLimiter lib r b)))"

text \<open>A request for a registration, with what it needs: its time, random bytes and a fresh identifier.\<close>

type_synonym registration_request = "http_request \<times> int \<times> 8 word list \<times> id \<times> RegistrationRequest option"

fun register_requests ::
    "'l rate_lib \<Rightarrow> limiter_Options \<Rightarrow> registration_request list \<Rightarrow> 'l RateLimiter \<Rightarrow> db \<Rightarrow>
     RegistrationResult reply list" where
  "register_requests lib opts [] rl d = []"
| "register_requests lib opts ((http, now, rnd, uuid, reg) # rs) rl d =
    (let (allowed, rl') = RateLimiter_Allow lib now (getClientIP http) rl;
         reply = Register_Handle (Some (registration_Options.truncate opts)) (Some (\<lambda>_. allowed)) http rnd uuid reg d in
     reply # register_requests lib opts rs
       (if Enabled opts then rl' else rl) (fst (snd reply)))"

definition refused :: "'a reply \<Rightarrow> bool" where
  "refused r = (case fst r of Failure st _ \<Rightarrow> st = 429 | Success _ _ \<Rightarrow> False)"

lemma first_request_passes:
  assumes "fresh_allows lib" "1 \<le> rl_burst rl" "rl_limiters rl ip = None"
  shows "fst (RateLimiter_Allow lib now ip rl)"
  using assms by (auto simp: RateLimiter_Allow_def fresh_allows_def Let_def case_prod_beta)

lemma allowed_is_not_refused:
  "\<not> refused (Register_Handle opts (Some (\<lambda>_. True)) http rnd uuid reg d)"
proof (cases "Register_handle opts rnd uuid reg d")
  case (Inl e)
  then show ?thesis
    by (simp add: Register_Handle_def refused_def InternalError_def)
next
  case (Inr r)
  then show ?thesis by (cases r) (simp add: Register_Handle_def refused_def)
qed

lemma register_requests_pass:
  assumes "fresh_allows lib"
  shows "1 \<le> rl_burst rl \<Longrightarrow> distinct (map (getClientIP \<circ> fst) rs) \<Longrightarrow>
    (\<forall>r \<in> set rs. rl_limiters rl (getClientIP (fst r)) = None) \<Longrightarrow>
    list_all (\<lambda>r. \<not> refused r) (register_requests lib opts rs rl d)"
proof (induction rs arbitrary: rl d)
  case (Cons r rs)
  obtain http now rnd uuid reg where r: "r = (http, now, rnd, uuid, reg)" by (cases r)
  obtain allowed rl' where a: "RateLimiter_Allow lib now (getClientIP http) rl = (allowed, rl')"
    by (cases "RateLimiter_Allow lib now (getClientIP http) rl")
  have allowed using first_request_passes [OF assms Cons.prems(1), of "getClientIP http" now] Cons.prems(3) a r by simp
  moreover have "rl_burst rl' = rl_burst rl" "\<And>i. i \<noteq> getClientIP http \<Longrightarrow> rl_limiters rl' i = rl_limiters rl i"
    using a by (auto simp: RateLimiter_Allow_def Let_def split: prod.splits)
  moreover have "\<forall>x \<in> set rs. getClientIP (fst x) \<noteq> getClientIP http"
  proof
    fix x assume x: "x \<in> set rs"
    have "getClientIP http \<notin> (getClientIP \<circ> fst) ` set rs" using Cons.prems(2) by (simp add: r)
    moreover have "(getClientIP \<circ> fst) x \<in> (getClientIP \<circ> fst) ` set rs" using x by (rule imageI)
    ultimately show "getClientIP (fst x) \<noteq> getClientIP http" by (metis comp_apply)
  qed
  ultimately have "\<forall>x \<in> set rs. rl_limiters rl' (getClientIP (fst x)) = None" "1 \<le> rl_burst rl'" allowed
    using Cons.prems by simp_all
  moreover have "distinct (map (getClientIP \<circ> fst) rs)" "\<forall>x \<in> set rs. rl_limiters rl (getClientIP (fst x)) = None"
    using Cons.prems by (simp_all add: comp_def)
  ultimately show ?case
    using Cons.IH [of rl'] Cons.IH [of rl] Cons.prems(1) by (simp add: r a allowed_is_not_refused Let_def comp_def)
qed simp

text \<open>
  The limit does not hold against a client who names his own address. Requests whose
  header \<open>X-Forwarded-For\<close> differs each time are all admitted, however many they are and although
  they come from one address: none of them is answered 429.
\<close>

lemma forwarded_addresses_are_never_limited:
  assumes "fresh_allows lib" "1 \<le> RateLimitBurst opts" "distinct (map (getClientIP \<circ> fst) rs)"
  shows "list_all (\<lambda>r. \<not> refused r) (register_requests lib opts rs (NewRateLimiter opts) d)"
  using register_requests_pass [OF assms(1), of "NewRateLimiter opts"] assms(2,3) by (simp add: NewRateLimiter_def)

text \<open>The example: a bucket that is never refilled, two requests from one address with one token.\<close>

definition example_rate_lib :: "int rate_lib" where
  "example_rate_lib = \<lparr>NewLimiter = (\<lambda>r b. b), Limiter_Allow = (\<lambda>now l. if 1 \<le> l then (True, l - 1) else (False, l))\<rparr>"

definition example_limiter_Options :: limiter_Options where
  "example_limiter_Options = \<lparr>Enabled = True, NeedApproval = False, RateLimitPerMinute = 5, RateLimitBurst = 1\<rparr>"

definition example_registration :: "string \<Rightarrow> id \<Rightarrow> registration_request" where
  "example_registration forwarded name = (\<lparr>XForwardedFor = forwarded, XRealIP = '''', RemoteAddr = ''9.9.9.9:80''\<rparr>,
     0, replicate 32 0, name, Some \<lparr>RQ_Email = name, RQ_Message = None, RQ_Nickname = name\<rparr>)"

lemma forwarded_addresses_are_never_limited_witness:
  "list_all (\<lambda>r. \<not> refused r) (register_requests example_rate_lib example_limiter_Options
      [example_registration ''1.1.1.1'' ''a'', example_registration ''2.2.2.2'' ''b''] (NewRateLimiter example_limiter_Options)
      (example_db Pending False)) \<and>
   map refused (register_requests example_rate_lib example_limiter_Options
      [example_registration '''' ''a'', example_registration '''' ''b''] (NewRateLimiter example_limiter_Options)
      (example_db Pending False)) = [False, True]"
proof
  have "distinct (map (getClientIP \<circ> fst) [example_registration ''1.1.1.1'' ''a'', example_registration ''2.2.2.2'' ''b''])"
    by code_simp
  moreover have "fresh_allows example_rate_lib" by (simp add: fresh_allows_def example_rate_lib_def)
  moreover have "1 \<le> RateLimitBurst example_limiter_Options" by (simp add: example_limiter_Options_def)
  ultimately show "list_all (\<lambda>r. \<not> refused r) (register_requests example_rate_lib example_limiter_Options
      [example_registration ''1.1.1.1'' ''a'', example_registration ''2.2.2.2'' ''b''] (NewRateLimiter example_limiter_Options)
      (example_db Pending False))"
    using forwarded_addresses_are_never_limited by blast
qed code_simp

end
