(* ===== verification/Startup.thy ===== *)
theory Startup
  imports Environment Generator Commands Limiter
begin

section \<open>Starting and stopping the server\<close>

text \<open>
  \<open>setupServeConfig\<close> of \<open>cmd/neper/cmd/serve_config.go\<close>, the embedded NATS server and its client
  (\<open>lib/embeddednats\<close>), the health check, and the shutdown callbacks of
  \<open>restapi/configure_neper.go\<close>. The set-up starts a goroutine that loads the serial keys, makes the
  administrator and initialises the runner, and goes on itself; the two share the configuration, so
  their steps interleave. NATS and nkeys are parameters.
\<close>

subsection \<open>The message bus\<close>

definition NPrivateKey :: "'k nkeys \<Rightarrow> string \<Rightarrow> err + string" where
  "NPrivateKey lib nPrivkey =
    (if nPrivkey \<noteq> '''' then Inr nPrivkey
     else and_then (wrap ''failed to create key'' (nk_Create lib ''user'')) (\<lambda>kp.
       wrap ''failed to get seed'' (nk_Seed lib kp)))"

record 'k ClientSigHandler =
  sh_kp :: 'k
  sh_pubKey :: string

definition NewClientSigHandler :: "'k nkeys \<Rightarrow> string \<Rightarrow> err + 'k ClientSigHandler" where
  "NewClientSigHandler lib nkey =
    and_then (nk_ParseDecorated lib nkey) (\<lambda>kp.
    and_then (nk_PublicKey lib kp) (\<lambda>pub.
    Inr \<lparr>sh_kp = kp, sh_pubKey = pub\<rparr>))"

definition ClientSigHandler_Sign :: "'k nkeys \<Rightarrow> 'k ClientSigHandler \<Rightarrow> string \<Rightarrow> err + string" where
  "ClientSigHandler_Sign lib sh nonce = nk_Sign lib (sh_kp sh) nonce"

text \<open>The server accepts the clients whose key is in its list.\<close>

record EmbeddedNats =
  en_Nkeys :: "string list"
  en_running :: bool
  en_started :: bool

definition NewEmbeddedServer :: "string \<Rightarrow> EmbeddedNats" where
  "NewEmbeddedServer nKey = \<lparr>en_Nkeys = [nKey], en_running = False, en_started = False\<rparr>"

definition EmbeddedNats_Run :: "EmbeddedNats \<Rightarrow> EmbeddedNats" where
  "EmbeddedNats_Run en = en\<lparr>en_running := True, en_started := True\<rparr>"

definition EmbeddedNats_Shutdown :: "EmbeddedNats \<Rightarrow> EmbeddedNats" where
  "EmbeddedNats_Shutdown en = (if \<not> en_started en then en else en\<lparr>en_running := False\<rparr>)"

record 'k nats_env =
  ne_nkeys :: "'k nkeys"
  ne_NPrivkey :: string
  ne_NoNatsServer :: bool
  ne_WaitReady :: bool
  ne_Connect :: "string \<Rightarrow> err option"

text \<open>The server, if one is embedded, and the handler with which the client identifies itself.\<close>

definition setup_nats :: "'k nats_env \<Rightarrow> err + EmbeddedNats option \<times> 'k ClientSigHandler" where
  "setup_nats e =
    and_then (NPrivateKey (ne_nkeys e) (ne_NPrivkey e)) (\<lambda>privKey.
    and_then (NewClientSigHandler (ne_nkeys e) privKey) (\<lambda>signatureHandler.
    and_then (if ne_NoNatsServer e then Inr None
        else let ns = EmbeddedNats_Run (NewEmbeddedServer (sh_pubKey signatureHandler)) in
          if \<not> ne_WaitReady e then Inl (OtherErr ''NATS server failed to start within timeout'')
          else Inr (Some ns)) (\<lambda>natsServer.
    case ne_Connect e (sh_pubKey signatureHandler) of
      Some err \<Rightarrow> Inl err
    | None \<Rightarrow> Inr (natsServer, signatureHandler))))"

text \<open>The embedded server runs and accepts the client of the program, and nobody else.\<close>

lemma setup_nats_Inr:
  "setup_nats e = Inr (Some ns, sh) \<Longrightarrow> en_Nkeys ns = [sh_pubKey sh] \<and> en_running ns \<and> \<not> en_running (EmbeddedNats_Shutdown ns)"
  by (auto simp: setup_nats_def and_then_eq_Inr NewEmbeddedServer_def EmbeddedNats_Run_def
      EmbeddedNats_Shutdown_def Let_def split: if_splits option.splits)

subsection \<open>The set-up and its goroutine\<close>

record 'k boot =
  bo_platform :: platform
  bo_quiet :: bool
  bo_RunnerOptions :: RunnerOptions
  bo_serials :: "string list"
  bo_AdminOptions :: admin_Options
  bo_random :: "8 word list"
  bo_uuid :: id
  bo_nats :: "'k nats_env"

datatype main_pc = Main_runner | Main_nats | Main_generator | Serving | Failed err

datatype background_pc = Bg_serials | Bg_admin | Bg_runner | Bg_init | Bg_done

text \<open>\<open>InitDone\<close> is closed when the goroutine is done.\<close>

record startup =
  su_main :: main_pc
  su_background :: background_pc
  su_StarsRunner :: "runner option"
  su_db :: db
  su_tree :: tree

definition first_startup :: "db \<Rightarrow> tree \<Rightarrow> startup" where
  "first_startup d t = \<lparr>su_main = Main_runner, su_background = Bg_serials, su_StarsRunner = None,
     su_db = d, su_tree = t\<rparr>"

definition background_init :: "'k boot \<Rightarrow> runner \<Rightarrow> startup \<Rightarrow> startup" where
  "background_init b r s = (case runner_Init (bo_platform b) r (su_tree s) of (res, r', t') \<Rightarrow>
     s\<lparr>su_background := Bg_done, su_StarsRunner := Some r', su_tree := t'\<rparr>)"

inductive startup_step :: "'k boot \<Rightarrow> startup \<Rightarrow> startup \<Rightarrow> bool" for b where
  serials: "su_background s = Bg_serials \<Longrightarrow>
    startup_step b s (s\<lparr>su_background := Bg_admin, su_db := snd (LoadKeysIntoDB (bo_serials b) (su_db s))\<rparr>)"
| admin: "su_background s = Bg_admin \<Longrightarrow>
    startup_step b s (s\<lparr>su_background := Bg_runner,
      su_db := snd (EnsureAdminUser (bo_AdminOptions b) (bo_random b) (bo_uuid b) (su_db s))\<rparr>)"
| no_runner: "su_background s = Bg_runner \<Longrightarrow> su_StarsRunner s = None \<Longrightarrow>
    startup_step b s (s\<lparr>su_background := Bg_done\<rparr>)"
| a_runner: "su_background s = Bg_runner \<Longrightarrow> su_StarsRunner s = Some r \<Longrightarrow>
    startup_step b s (s\<lparr>su_background := Bg_init\<rparr>)"
| init: "su_background s = Bg_init \<Longrightarrow> su_StarsRunner s = Some r \<Longrightarrow>
    startup_step b s (background_init b r s)"
| new_runner: "su_main s = Main_runner \<Longrightarrow> NewRunner (bo_platform b) (bo_quiet b) (bo_RunnerOptions b) = Inr r \<Longrightarrow>
    startup_step b s (s\<lparr>su_main := Main_nats, su_StarsRunner := Some r\<rparr>)"
| new_runner_fails: "su_main s = Main_runner \<Longrightarrow> NewRunner (bo_platform b) (bo_quiet b) (bo_RunnerOptions b) = Inl e \<Longrightarrow>
    startup_step b s (s\<lparr>su_main := Failed e\<rparr>)"
| nats: "su_main s = Main_nats \<Longrightarrow> setup_nats (bo_nats b) = Inr n \<Longrightarrow>
    startup_step b s (s\<lparr>su_main := Main_generator\<rparr>)"
| nats_fails: "su_main s = Main_nats \<Longrightarrow> setup_nats (bo_nats b) = Inl e \<Longrightarrow>
    startup_step b s (s\<lparr>su_main := Failed e\<rparr>)"
| generator: "su_main s = Main_generator \<Longrightarrow> startup_step b s (s\<lparr>su_main := Serving\<rparr>)"
| generator_fails: "su_main s = Main_generator \<Longrightarrow>
    startup_step b s (s\<lparr>su_main := Failed (OtherErr ''TurnGenerator failed to start'')\<rparr>)"

abbreviation startup_steps :: "'k boot \<Rightarrow> startup \<Rightarrow> startup \<Rightarrow> bool" where
  "startup_steps b \<equiv> (startup_step b)\<^sup>*\<^sup>*"

inductive_cases startup_stepE: "startup_step b s s'"

lemma startup_finished: "startup_step b s s' \<Longrightarrow> su_main s = Serving \<Longrightarrow> su_background s \<noteq> Bg_done"
  by (erule startup_stepE) auto

subsection \<open>The health check\<close>

definition HealthCheck :: "bool \<Rightarrow> startup \<Rightarrow> string response" where
  "HealthCheck database_answers s =
    (if \<not> database_answers then Failure 503 (Some ''database unavailable'')
     else if su_background s = Bg_done then
       (case su_StarsRunner s of
          None \<Rightarrow> Success 200 ''ok''
        | Some r \<Rightarrow> if \<not> IsReady r then Success 200 ''ok (stars runner not ready)'' else Success 200 ''ok'')
     else Success 200 ''ok (initializing)'')"

text \<open>
  The runner is ready only after the goroutine has initialised it, from the configured options and on the tree
  \<open>t\<close> that the program found; until then nothing has touched that tree.
\<close>

definition startup_ok :: "'k boot \<Rightarrow> tree \<Rightarrow> startup \<Rightarrow> bool" where
  "startup_ok b t s = (
     (su_main s = Main_runner \<longrightarrow> su_StarsRunner s = None) \<and>
     (su_main s \<in> {Main_nats, Main_generator, Serving} \<longrightarrow> su_StarsRunner s \<noteq> None) \<and>
     (su_background s = Bg_init \<longrightarrow> su_StarsRunner s \<noteq> None) \<and>
     (\<forall>r. su_StarsRunner s = Some r \<longrightarrow> IsReady r \<longrightarrow> su_background s = Bg_done \<and>
        (\<exists>r0. NewRunner (bo_platform b) (bo_quiet b) (bo_RunnerOptions b) = Inr r0 \<and>
          runner_Init (bo_platform b) r0 t = (Inr (), r, su_tree s))) \<and>
     (su_background s \<noteq> Bg_done \<longrightarrow> su_tree s = t \<and>
        (\<forall>r. su_StarsRunner s = Some r \<longrightarrow> NewRunner (bo_platform b) (bo_quiet b) (bo_RunnerOptions b) = Inr r)) \<and>
     users_ok (su_db s))"

lemma NewRunner_not_ready: "NewRunner pf quiet opts = Inr r \<Longrightarrow> \<not> IsReady r"
  by (auto simp: NewRunner_def and_then_eq_Inr IsReady_def Let_def)

lemma runner_Init_ready:
  assumes "runner_Init pf r t = (res, r', t')" "\<not> IsReady r"
  shows "(IsReady r' \<longleftrightarrow> res = Inr ()) \<and> starsINIFilePath r' = starsINIFilePath r"
proof (cases "preChecks pf")
  case Inl
  then show ?thesis using assms by (auto simp: runner_Init_def)
next
  case Inr
  obtain i r1 where i: "initialize pf r = (i, r1)" by (cases "initialize pf r")
  obtain c t1 where c: "checks pf r1 t = (c, t1)" by (cases "checks pf r1 t")
  have "\<not> IsReady r1 \<and> starsINIFilePath r1 = starsINIFilePath r"
    using i assms(2) by (auto simp: initialize_def IsReady_def Let_def environment_paths split: if_splits)
  then show ?thesis
    using assms(1) Inr i c by (cases i; cases c) (auto simp: runner_Init_def IsReady_def environment_paths)
qed

lemma runner_Init_IsReady: "runner_Init pf r0 t = (Inr (), r, t') \<Longrightarrow> IsReady r"
  by (erule runner_Init_Inr) (simp add: IsReady_def)

lemma insertKeyBatch_users_ok: "users_ok d \<Longrightarrow> insertKeyBatch keys d = Inr d' \<Longrightarrow> users_ok d'"
proof (induction keys d rule: insertKeyBatch.induct)
  case (2 key keys d)
  then obtain d1 where d1: "insert_serial \<lparr>K_Key = key, K_UserProfileID = None\<rparr> d = Inr d1" "insertKeyBatch keys d1 = Inr d'"
    by (auto simp: and_then_eq_Inr)
  have "db_ok d1" using 2(2) d1(1) insert_serial_ok by (auto simp: users_ok_def)
  moreover have "d1 = d\<lparr>serials := serials d @ [\<lparr>K_Key = key, K_UserProfileID = None\<rparr>]\<rparr>"
    using d1(1) by (auto simp: insert_serial_def enforce_Inr sql_insert_def)
  ultimately have "users_ok d1" using 2(2) by (auto simp: users_ok_def licences_ok_def)
  then show ?case using 2(1) d1 by blast
qed simp

lemma load_batches_users_ok: "users_ok d \<Longrightarrow> users_ok (snd (load_batches keys d))"
proof (induction keys d rule: load_batches.induct)
  case (1 keys d)
  then show ?case
    by (subst load_batches.simps) (auto split: sum.splits intro: insertKeyBatch_users_ok)
qed

lemma LoadKeysIntoDB_keeps: "users_ok d \<Longrightarrow> users_ok (snd (LoadKeysIntoDB file_lines d))"
  by (auto simp: LoadKeysIntoDB_def Let_def load_batches_users_ok)

lemma startup_step_ok: "startup_step b s s' \<Longrightarrow> startup_ok b t s \<Longrightarrow> startup_ok b t s'"
proof (induction rule: startup_step.induct)
  case (init s r)
  obtain res r' t' where run: "runner_Init (bo_platform b) r (su_tree s) = (res, r', t')" by (cases "runner_Init (bo_platform b) r (su_tree s)")
  have new: "NewRunner (bo_platform b) (bo_quiet b) (bo_RunnerOptions b) = Inr r" "su_tree s = t"
    using init by (auto simp: startup_ok_def)
  have "IsReady r' \<longrightarrow> res = Inr ()" using runner_Init_ready [OF run NewRunner_not_ready [OF new(1)]] by simp
  then show ?case
    using init run new by (auto simp: startup_ok_def background_init_def)
qed (auto simp: startup_ok_def LoadKeysIntoDB_keeps EnsureAdminUser_keeps NewRunner_not_ready)

lemma startup_steps_ok: "startup_steps b s s' \<Longrightarrow> startup_ok b t s \<Longrightarrow> startup_ok b t s'"
  by (induction rule: rtranclp_induct) (auto intro: startup_step_ok)

lemma first_startup_ok: "users_ok d \<Longrightarrow> startup_ok b t (first_startup d t)"
  by (simp add: startup_ok_def first_startup_def)

text \<open>Once the goroutine is done and the runner is there, nothing that the health check looks at changes.\<close>

lemma startup_settled:
  assumes "startup_steps b s s'" "su_background s = Bg_done" "su_main s \<noteq> Main_runner"
  shows "su_background s' = Bg_done \<and> su_main s' \<noteq> Main_runner \<and> su_StarsRunner s' = su_StarsRunner s \<and> su_tree s' = su_tree s"
  using assms
proof (induction rule: rtranclp_induct)
  case (step s1 s2)
  then have "su_background s1 = Bg_done" "su_main s1 \<noteq> Main_runner" by simp_all
  with step(2) have "su_background s2 = Bg_done \<and> su_main s2 \<noteq> Main_runner \<and>
      su_StarsRunner s2 = su_StarsRunner s1 \<and> su_tree s2 = su_tree s1"
    by (cases rule: startup_step.cases) auto
  then show ?case using step by simp
qed simp

text \<open>
  \<^bold>\<open>C35\<close>: the health check tells the truth, in whatever order the set-up and its goroutine take their steps.
  In a serving program it answers \<open>ok\<close> exactly when the database answers and the goroutine has
  initialised, with success, the runner that was made from the options, on the tree of files as the program found
  it. Then the environment of Stars! is in place (unless \<open>Stars.ini\<close> is a symbolic link), and
  the answer can change only with the database. The users and serial keys satisfy their invariants.
\<close>

theorem HealthCheck_is_truthful:
  assumes "startup_steps b (first_startup d t) s" "users_ok d" "su_main s = Serving"
  shows "users_ok (su_db s) \<and>
    (HealthCheck database_answers s = Success 200 ''ok'' \<longleftrightarrow> database_answers \<and>
      (\<exists>r0 r. NewRunner (bo_platform b) (bo_quiet b) (bo_RunnerOptions b) = Inr r0 \<and>
        runner_Init (bo_platform b) r0 t = (Inr (), r, su_tree s) \<and> su_StarsRunner s = Some r)) \<and>
    (HealthCheck database_answers s = Success 200 ''ok'' \<longrightarrow>
      (\<exists>r. su_StarsRunner s = Some r \<and> ((\<nexists>x. su_tree s (starsINIFilePath r) = Some (NLink x)) \<longrightarrow>
         environment_ok (bo_platform b) r (su_tree s))) \<and>
      (\<forall>s' later. startup_steps b s s' \<longrightarrow> (HealthCheck later s' = Success 200 ''ok'' \<longleftrightarrow> later)))"
proof -
  have ok: "startup_ok b t s" using startup_steps_ok [OF assms(1)] first_startup_ok [OF assms(2)] by blast
  then obtain r where r: "su_StarsRunner s = Some r" using assms(3) by (auto simp: startup_ok_def)
  have answer: "HealthCheck p s' = Success 200 ''ok'' \<longleftrightarrow> p \<and> su_background s' = Bg_done \<and> IsReady r"
    if "su_StarsRunner s' = Some r" for p s' using that by (auto simp: HealthCheck_def)
  have ready: "IsReady r \<longleftrightarrow> (\<exists>r0. NewRunner (bo_platform b) (bo_quiet b) (bo_RunnerOptions b) = Inr r0 \<and>
        runner_Init (bo_platform b) r0 t = (Inr (), r, su_tree s))"
    using ok r runner_Init_IsReady by (auto simp: startup_ok_def)
  have settled: "IsReady r \<longrightarrow> su_background s = Bg_done" using ok r by (auto simp: startup_ok_def)
  have "environment_ok (bo_platform b) r (su_tree s)" if init: "IsReady r" "\<nexists>x. su_tree s (starsINIFilePath r) = Some (NLink x)"
  proof -
    obtain r0 where "NewRunner (bo_platform b) (bo_quiet b) (bo_RunnerOptions b) = Inr r0"
      and r0: "runner_Init (bo_platform b) r0 t = (Inr (), r, su_tree s)" using ready init(1) by blast
    then have "starsINIFilePath r = starsINIFilePath r0" using runner_Init_ready NewRunner_not_ready by blast
    then show ?thesis using runner_Init_environment [OF r0] init(2) by simp
  qed
  moreover have "HealthCheck later s' = Success 200 ''ok'' \<longleftrightarrow> later"
    if "startup_steps b s s'" "IsReady r" for s' later
    using startup_settled [OF that(1)] that(2) settled assms(3) r answer by auto
  moreover have "users_ok (su_db s)" using ok by (simp add: startup_ok_def)
  ultimately show ?thesis using r answer [OF r] ready settled by auto
qed

subsection \<open>The goroutine may come too early\<close>

text \<open>
  The runner may never be initialised. The goroutine is started before the configuration
  has its runner, and takes a missing runner for none to initialise. If it gets there first, the
  set-up still succeeds and the server serves, but from then on the health check answers that the
  runner is not ready, whatever happens.
\<close>

lemma runner_may_never_be_initialised:
  assumes "NewRunner (bo_platform b) (bo_quiet b) (bo_RunnerOptions b) = Inr r" "setup_nats (bo_nats b) = Inr n"
  shows "\<exists>s. startup_steps b (first_startup d t) s \<and> su_main s = Serving \<and> su_tree s = t \<and>
    (\<forall>s'. startup_steps b s s' \<longrightarrow> HealthCheck True s' = Success 200 ''ok (stars runner not ready)'')"
proof -
  define s1 where "s1 = (first_startup d t)\<lparr>su_background := Bg_admin,
    su_db := snd (LoadKeysIntoDB (bo_serials b) (su_db (first_startup d t)))\<rparr>"
  define s2 where "s2 = s1\<lparr>su_background := Bg_runner,
    su_db := snd (EnsureAdminUser (bo_AdminOptions b) (bo_random b) (bo_uuid b) (su_db s1))\<rparr>"
  define s3 where "s3 = s2\<lparr>su_background := Bg_done\<rparr>"
  define s4 where "s4 = s3\<lparr>su_main := Main_nats, su_StarsRunner := Some r\<rparr>"
  define s5 where "s5 = s4\<lparr>su_main := Main_generator\<rparr>"
  define e where "e = s5\<lparr>su_main := Serving\<rparr>"
  note states = s1_def s2_def s3_def s4_def s5_def e_def first_startup_def
  have "startup_step b (first_startup d t) s1" unfolding s1_def by (rule serials) (simp add: states)
  moreover have "startup_step b s1 s2" unfolding s2_def by (rule admin) (simp add: states)
  moreover have "startup_step b s2 s3" unfolding s3_def by (rule no_runner) (simp_all add: states)
  moreover have "startup_step b s3 s4" unfolding s4_def by (rule new_runner) (simp_all add: states assms)
  moreover have "startup_step b s4 s5" unfolding s5_def by (rule nats [OF _ assms(2)]) (simp add: states)
  moreover have "startup_step b s5 e" unfolding e_def by (rule generator) (simp add: states)
  ultimately have e: "startup_steps b (first_startup d t) e" by (meson converse_rtranclp_into_rtranclp rtranclp.rtrancl_refl)
  have at: "su_main e = Serving" "su_background e = Bg_done" "su_StarsRunner e = Some r" "su_tree e = t"
    by (simp_all add: states)
  have "s' = e" if "startup_steps b e s'" for s'
    using that by (rule converse_rtranclpE) (use startup_finished at(1,2) in blast)+
  moreover have "HealthCheck True e = Success 200 ''ok (stars runner not ready)''"
    using NewRunner_not_ready [OF assms(1)] at by (simp add: HealthCheck_def)
  ultimately show ?thesis using e at by blast
qed

text \<open>
  The example: the platform and the runner of the theory Environment. In the first run the goroutine
  comes after the set-up, in the second one before it.
\<close>

definition example_nkeys :: "string nkeys" where
  "example_nkeys = \<lparr>nk_Create = Inr, nk_Seed = Inr, nk_PublicKey = Inr, nk_ParseDecorated = Inr, nk_Sign = (\<lambda>k n. Inr n)\<rparr>"

definition example_boot :: "string boot" where
  "example_boot = \<lparr>bo_platform = example_platform, bo_quiet = True,
     bo_RunnerOptions = \<lparr>ro_ExecutableDir = ''/e'', ro_SaveDir = ''/g'', ro_WinePrefix = ''/w'', ro_CommandsTimeout = 30,
       ro_DisplayNumber = 99, ro_PreserveSaveFiles = False, ro_StripRacePasswords = False, ro_FixRaceFiles = False\<rparr>,
     bo_serials = [], bo_AdminOptions = \<lparr>AutocreateAdmin = False, AdminUsername = '''', AdminEmail = '''', AdminAPIKey = ''''\<rparr>,
     bo_random = [], bo_uuid = ''a'',
     bo_nats = \<lparr>ne_nkeys = example_nkeys, ne_NPrivkey = '''', ne_NoNatsServer = False, ne_WaitReady = True,
       ne_Connect = (\<lambda>_. None)\<rparr>\<rparr>"

lemma example_boot_runs:
  "NewRunner (bo_platform example_boot) (bo_quiet example_boot) (bo_RunnerOptions example_boot) = Inr example_runner"
  "isl (setup_nats (bo_nats example_boot)) = False"
  by code_simp+

lemma example_users_ok: "users_ok (example_db Pending False)"
  using example_db_ok by (simp add: users_ok_def licences_ok_def example_db_def example_user_def)

lemma runner_may_never_be_initialised_witness:
  "\<exists>s. startup_steps example_boot (first_startup (example_db Pending False) Map.empty) s \<and> su_main s = Serving \<and>
    HealthCheck True s = Success 200 ''ok (stars runner not ready)''"
proof -
  obtain n where "setup_nats (bo_nats example_boot) = Inr n"
    using example_boot_runs(2) by (cases "setup_nats (bo_nats example_boot)") auto
  from runner_may_never_be_initialised [OF example_boot_runs(1) this] show ?thesis
    by (metis rtranclp.rtrancl_refl)
qed

text \<open>The steps of the set-up, then those of the goroutine.\<close>

lemma set_up_first:
  assumes "NewRunner (bo_platform b) (bo_quiet b) (bo_RunnerOptions b) = Inr r" "setup_nats (bo_nats b) = Inr n"
  shows "\<exists>s. startup_steps b (first_startup d t) s \<and> su_main s = Serving \<and> su_background s = Bg_serials \<and>
    su_StarsRunner s = Some r \<and> su_tree s = t"
proof -
  define s1 where "s1 = (first_startup d t)\<lparr>su_main := Main_nats, su_StarsRunner := Some r\<rparr>"
  define s2 where "s2 = s1\<lparr>su_main := Main_generator\<rparr>"
  define s where "s = s2\<lparr>su_main := Serving\<rparr>"
  note states = s1_def s2_def s_def first_startup_def
  have "startup_step b (first_startup d t) s1" unfolding s1_def by (rule new_runner) (simp_all add: first_startup_def assms)
  moreover have "startup_step b s1 s2" unfolding s2_def by (rule nats [OF _ assms(2)]) (simp add: states)
  moreover have "startup_step b s2 s" unfolding s_def by (rule generator) (simp add: states)
  ultimately have "startup_steps b (first_startup d t) s" by (meson converse_rtranclp_into_rtranclp rtranclp.rtrancl_refl)
  then show ?thesis by (intro exI [of _ s]) (simp add: states)
qed

lemma goroutine_after_set_up:
  assumes "su_background s = Bg_serials" "su_StarsRunner s = Some r"
  shows "\<exists>s'. startup_steps b s s' \<and> su_main s' = su_main s \<and> su_background s' = Bg_done \<and>
    (su_StarsRunner s', su_tree s') = (case runner_Init (bo_platform b) r (su_tree s) of (res, r', t') \<Rightarrow> (Some r', t'))"
proof -
  define s1 where "s1 = s\<lparr>su_background := Bg_admin, su_db := snd (LoadKeysIntoDB (bo_serials b) (su_db s))\<rparr>"
  define s2 where "s2 = s1\<lparr>su_background := Bg_runner,
    su_db := snd (EnsureAdminUser (bo_AdminOptions b) (bo_random b) (bo_uuid b) (su_db s1))\<rparr>"
  define s3 where "s3 = s2\<lparr>su_background := Bg_init\<rparr>"
  define s' where "s' = background_init b r s3"
  note states = s1_def s2_def s3_def s'_def
  have "startup_step b s s1" unfolding s1_def by (rule serials [OF assms(1)])
  moreover have "startup_step b s1 s2" unfolding s2_def by (rule admin) (simp add: states)
  moreover have "startup_step b s2 s3" unfolding s3_def by (rule a_runner) (simp_all add: states assms(2))
  moreover have "startup_step b s3 s'" unfolding s'_def by (rule init) (simp_all add: states assms(2))
  ultimately have "startup_steps b s s'" by (meson converse_rtranclp_into_rtranclp rtranclp.rtrancl_refl)
  then show ?thesis by (intro exI [of _ s']) (simp add: states background_init_def split: prod.split)
qed

theorem HealthCheck_is_truthful_witness:
  "\<exists>s r. startup_steps example_boot (first_startup (example_db Pending False) Map.empty) s \<and>
    HealthCheck True s = Success 200 ''ok'' \<and> su_StarsRunner s = Some r \<and>
    environment_ok example_platform r (su_tree s)"
proof -
  let ?init = "runner_Init example_platform example_runner Map.empty"
  obtain n where "setup_nats (bo_nats example_boot) = Inr n"
    using example_boot_runs(2) by (cases "setup_nats (bo_nats example_boot)") auto
  from set_up_first [OF example_boot_runs(1) this, of "example_db Pending False" Map.empty] obtain s0 where
    s0: "startup_steps example_boot (first_startup (example_db Pending False) Map.empty) s0" "su_main s0 = Serving"
    "su_background s0 = Bg_serials" "su_StarsRunner s0 = Some example_runner" "su_tree s0 = Map.empty"
    by blast
  have "IsReady (fst (snd ?init))" "(snd (snd ?init)) (starsINIFilePath (fst (snd ?init))) = Some (NFile [3])" by code_simp+
  then obtain res r t where init: "?init = (res, r, t)" "IsReady r" "t (starsINIFilePath r) = Some (NFile [3])"
    by (cases ?init) auto
  obtain s where s: "startup_steps example_boot s0 s" "su_main s = Serving" "su_background s = Bg_done"
    "su_StarsRunner s = Some r" "su_tree s = t"
    using goroutine_after_set_up [OF s0(3,4), of example_boot] s0(2,5) init(1) by (auto simp: example_boot_def)
  have steps: "startup_steps example_boot (first_startup (example_db Pending False) Map.empty) s"
    using s0(1) s(1) by (rule rtranclp_trans)
  have answer: "HealthCheck True s = Success 200 ''ok''" using s(3,4) init(2) by (simp add: HealthCheck_def)
  have "environment_ok (bo_platform example_boot) r (su_tree s)"
    using HealthCheck_is_truthful [OF steps example_users_ok s(2), of True] answer s(4,5) init(3) by auto
  moreover have "bo_platform example_boot = example_platform" by (simp add: example_boot_def)
  ultimately show ?thesis using steps answer s(4) by auto
qed

subsection \<open>The API and its shutdown\<close>

datatype callback =
    Authenticator_Close | StarsRunner_Shutdown | TurnGenerator_Shutdown | NatsClientConn_Close | NatsServer_Shutdown

definition OnShutdown :: "callback \<Rightarrow> callback list \<Rightarrow> callback list" where
  "OnShutdown cb cbs = cbs @ [cb]"

definition ConfigureAPI_callbacks :: "bool \<Rightarrow> bool \<Rightarrow> callback list" where
  "ConfigureAPI_callbacks has_client has_server =
    (let cbs1 = OnShutdown TurnGenerator_Shutdown (OnShutdown StarsRunner_Shutdown (OnShutdown Authenticator_Close []));
         cbs2 = (if has_client then OnShutdown NatsClientConn_Close cbs1 else cbs1) in
     if has_server then OnShutdown NatsServer_Shutdown cbs2 else cbs2)"

definition ServerShutdown :: "callback list \<Rightarrow> callback list" where
  "ServerShutdown cbs = (let lSize = length cbs in map (\<lambda>i. cbs ! (lSize - i - 1)) [0..<lSize])"

lemma ServerShutdown_rev: "ServerShutdown cbs = rev cbs"
  by (rule nth_equalityI) (simp_all add: ServerShutdown_def rev_nth Let_def)

text \<open>
  The server of the message bus goes down before its client, and before the turn generator that
  listens to it, although the client is registered first in order to be closed first.
\<close>

lemma nats_server_goes_down_first:
  "ServerShutdown (ConfigureAPI_callbacks True True) =
    [NatsServer_Shutdown, NatsClientConn_Close, TurnGenerator_Shutdown, StarsRunner_Shutdown, Authenticator_Close]"
  by (simp add: ServerShutdown_rev ConfigureAPI_callbacks_def OnShutdown_def Let_def)

definition base_url :: "string \<Rightarrow> string list \<Rightarrow> string \<Rightarrow> int \<Rightarrow> string" where
  "base_url configured listeners host port =
    (if configured \<noteq> '''' then configured
     else let scheme = (if listeners \<noteq> [] then hd listeners else ''https'') in
       scheme @ ''://'' @ host @ '':'' @ decimal_int port)"

datatype log_level = DebugLevel | InfoLevel | WarnLevel | ErrorLevel

definition pathAwareAccessHandler :: "log_level \<Rightarrow> string \<Rightarrow> int \<Rightarrow> log_level" where
  "pathAwareAccessHandler status4XXLogLevel path st =
    (if 500 \<le> st then ErrorLevel else if 400 \<le> st then status4XXLogLevel
     else if path = ''/api/healthz'' then DebugLevel else InfoLevel)"

end
