(* ===== verification/Columns.thy ===== *)
theory Columns
  imports Rules Licences
begin

section \<open>Rows and their columns\<close>

text \<open>
  The first half of \<open>models/db_helpers.go\<close>: for each type of a row the names of its table, of its
  primary key and of its columns, and the methods by which the database library reads a row, a
  \<open>switch\<close> from the name of a column to a field. The interface is \<open>Mapped\<close>; the locale of that name
  states what the library relies on, and every type of a row interprets it. A value is a Go
  \<open>interface{}\<close>: \<open>VNil\<close> is the value of a column that the \<open>switch\<close> does not know. The same helpers of
  the types of the API, which have no table, are in ApiColumns.
\<close>

subsection \<open>The interface\<close>

datatype sql_value =
    VNil
  | VText string
  | VOptText "string option"
  | VInt int
  | VOptInt "int option"
  | VBool bool
  | VTexts "string list"
  | VTime "int option"
  | VSessionState session_state
  | VUserState user_state

text \<open>A serial key with the time of its assignment, which the other theories leave out.\<close>

record SerialKeyRow = SerialKeyDB +
  K_AssignedAt :: "int option"

text \<open>A \<open>switch\<close> over the name of a column, as a table of its cases.\<close>

primrec switch :: "(string \<times> 'a) list \<Rightarrow> 'a \<Rightarrow> string \<Rightarrow> 'a" where
  "switch [] d column = d"
| "switch (kv # cases) d column = (if column = fst kv then snd kv else switch cases d column)"

primrec switch_map :: "(string \<times> 'a) list \<Rightarrow> string \<Rightarrow> (string \<rightharpoonup> 'a) \<Rightarrow> (string \<rightharpoonup> 'a)" where
  "switch_map [] column values = values"
| "switch_map (kv # cases) column values =
    (if column = fst kv then values(fst kv \<mapsto> snd kv) else switch_map cases column values)"

lemma switch_unknown: "c \<notin> fst ` set cases \<Longrightarrow> switch cases d c = d"
  by (induction cases) auto

lemma switch_map_apply:
  "switch_map cases c m x = (if x = c \<and> c \<in> fst ` set cases then Some (switch cases d c) else m x)"
proof (induction cases)
  case (Cons kv cases)
  then show ?case by (cases "c = fst kv") (simp_all del: fun_upd_apply add: fun_upd_def)
qed simp

lemma switch_eqs:
  "switch [] d = (\<lambda>column. d)"
  "switch (kv # cases) d = (\<lambda>column. if column = fst kv then snd kv else switch cases d column)"
  by (simp_all add: fun_eq_iff)

lemma switch_map_eqs:
  "switch_map [] = (\<lambda>column values. values)"
  "switch_map (kv # cases) = (\<lambda>column values.
     if column = fst kv then values(fst kv \<mapsto> snd kv) else switch_map cases column values)"
  by (simp_all add: fun_eq_iff)

lemma fold_switch_map:
  "fold (switch_map cases) cs m x =
    (if x \<in> set cs \<inter> fst ` set cases then Some (switch cases d x) else m x)"
  by (induction cs arbitrary: m) (auto simp: switch_map_apply [where d = d])

lemma switch_keys:
  assumes "distinct (map fst cases)"
  shows "map (switch cases d) (map fst cases) = map snd cases"
  using assms
proof (induction cases)
  case (Cons kv cases)
  then have "x \<in> set (map fst cases) \<Longrightarrow> switch (kv # cases) d x = switch cases d x" for x
    by (metis distinct.simps(2) list.simps(9) switch.simps(2))
  then have "map (switch (kv # cases) d) (map fst cases) = map (switch cases d) (map fst cases)"
    by (intro map_cong refl) blast
  with Cons show ?case by simp
qed simp

locale mapped =
  fixes PKeyColumn :: string
    and Columns :: "bool \<Rightarrow> string list"
    and Values :: "'r \<Rightarrow> string list \<Rightarrow> sql_value list"
    and ValuesMap :: "'r \<Rightarrow> string list \<Rightarrow> (string \<rightharpoonup> sql_value)"
  assumes pkey: "Columns True = PKeyColumn # Columns False"
    and distinct: "distinct (Columns True)"
    and pointwise: "Values r cs = map (\<lambda>c. hd (Values r [c])) cs"
    and unknown: "c \<notin> set (Columns True) \<Longrightarrow> Values r [c] = [VNil]"
    and as_map: "ValuesMap r cs c =
      (if c \<in> set cs \<inter> set (Columns True) then Some (hd (Values r [c])) else None)"
    and complete: "Values r (Columns True) = Values s (Columns True) \<Longrightarrow> r = s"
begin

text \<open>The row as the database has it.\<close>

definition stored :: "'r \<Rightarrow> (string \<rightharpoonup> sql_value)" where
  "stored r = ValuesMap r (Columns True)"

lemma dom_stored: "dom (stored r) = set (Columns True)"
  by (auto simp: stored_def dom_def as_map)

lemma stored_inj: "stored r = stored s \<Longrightarrow> r = s"
proof (rule complete)
  assume eq: "stored r = stored s"
  have "hd (Values r [c]) = hd (Values s [c])" if "c \<in> set (Columns True)" for c
    using fun_cong [OF eq, of c] that by (simp add: stored_def as_map)
  then show "Values r (Columns True) = Values s (Columns True)"
    by (subst (1 2) pointwise) simp
qed

text \<open>
  A statement \<open>UPDATE ... SET\<close> of some columns writes their values over those of the stored row. It
  stores the row that the code has in memory exactly when this row agrees with the stored one in
  the other columns.
\<close>

lemma update_columns:
  "stored old ++ ValuesMap r cs = stored new \<longleftrightarrow>
   (\<forall>c \<in> set (Columns True). hd (Values new [c]) = hd (Values (if c \<in> set cs then r else old) [c]))"
proof -
  have "stored old ++ ValuesMap r cs = stored new \<longleftrightarrow>
      (\<forall>c. (stored old ++ ValuesMap r cs) c = stored new c)" by (simp add: fun_eq_iff)
  then show ?thesis by (auto simp: map_add_def stored_def as_map split: option.splits if_splits)
qed

lemma update_all: "stored old ++ ValuesMap r (Columns True) = stored r"
  by (simp add: update_columns)

end

text \<open>The methods of every type of a row are the same \<open>switch\<close>, over the fields of the row.\<close>

locale switched =
  fixes PKeyColumn :: string
    and Columns :: "bool \<Rightarrow> string list"
    and Values :: "'r \<Rightarrow> string list \<Rightarrow> sql_value list"
    and ValuesMap :: "'r \<Rightarrow> string list \<Rightarrow> (string \<rightharpoonup> sql_value)"
    and fields :: "'r \<Rightarrow> (string \<times> sql_value) list"
  assumes key_first: "Columns True = PKeyColumn # Columns False"
    and distinct_columns: "distinct (Columns True)"
    and all_fields: "set (Columns True) = fst ` set (fields r)"
    and same_names: "map fst (fields r) = map fst (fields s)"
    and number_of_fields: "length (Columns True) = length (fields r)"
    and Values_switch: "Values r cs = map (switch (fields r) VNil) cs"
    and ValuesMap_switch: "ValuesMap r cs = fold (switch_map (fields r)) cs Map.empty"
    and fields_determine: "map snd (fields r) = map snd (fields s) \<Longrightarrow> r = s"
begin

lemma distinct_fields: "distinct (map fst (fields r))"
proof (rule card_distinct)
  have "card (set (map fst (fields r))) = card (set (Columns True))" by (simp add: all_fields [of r])
  also have "\<dots> = length (map fst (fields r))"
    using distinct_columns distinct_card number_of_fields [of r] by fastforce
  finally show "card (set (map fst (fields r))) = length (map fst (fields r))" .
qed

end

sublocale switched \<subseteq> mapped PKeyColumn Columns Values ValuesMap
proof unfold_locales
  fix r s and cs c
  show "Columns True = PKeyColumn # Columns False" by (rule key_first)
  show "distinct (Columns True)" by (rule distinct_columns)
  show "Values r cs = map (\<lambda>c. hd (Values r [c])) cs" by (simp add: Values_switch)
  show "Values r [c] = [VNil]" if "c \<notin> set (Columns True)"
    using that by (simp add: Values_switch switch_unknown all_fields [of r])
  show "ValuesMap r cs c =
      (if c \<in> set cs \<inter> set (Columns True) then Some (hd (Values r [c])) else None)"
    by (simp add: Values_switch ValuesMap_switch fold_switch_map [where d = VNil] all_fields [of r])
  show "r = s" if "Values r (Columns True) = Values s (Columns True)"
  proof (rule fields_determine)
    have *: "switch (fields r) VNil x = switch (fields s) VNil x" if "x \<in> set (Columns True)" for x
      using that \<open>Values r (Columns True) = Values s (Columns True)\<close> by (simp add: Values_switch)
    have "map (switch (fields r) VNil) (map fst (fields r)) = map (switch (fields s) VNil) (map fst (fields r))"
      by (intro map_cong refl *) (simp add: all_fields [of r])
    then show "map snd (fields r) = map snd (fields s)"
      using distinct_fields by (metis same_names switch_keys)
  qed
qed

text \<open>The two forms of \<open>Columns\<close>, and \<open>Table\<close> and \<open>PKeyColumn\<close>, are constants of each type.\<close>

subsection \<open>InvitationDB\<close>

definition InvitationDBTable :: string where
  "InvitationDBTable = ''invitation''"

definition InvitationDBIDColumn :: string where
  "InvitationDBIDColumn = ''id''"

definition InvitationDBInviterIDColumn :: string where
  "InvitationDBInviterIDColumn = ''inviter_id''"

definition InvitationDBSessionIDColumn :: string where
  "InvitationDBSessionIDColumn = ''session_id''"

definition InvitationDBUserProfileIDColumn :: string where
  "InvitationDBUserProfileIDColumn = ''user_profile_id''"

definition InvitationDBPKeyColumn :: string where
  "InvitationDBPKeyColumn = InvitationDBIDColumn"

definition InvitationDBDataColumns :: "string list" where
  "InvitationDBDataColumns = [InvitationDBInviterIDColumn,
     InvitationDBSessionIDColumn,
     InvitationDBUserProfileIDColumn]"

definition InvitationDB_AllColumns :: "string list" where
  "InvitationDB_AllColumns = [InvitationDBIDColumn] @ InvitationDBDataColumns"

definition InvitationDB_Columns :: "bool \<Rightarrow> string list" where
  "InvitationDB_Columns withPKey = (if withPKey then InvitationDB_AllColumns else InvitationDBDataColumns)"

definition InvitationDB_Values :: "InvitationDB \<Rightarrow> string list \<Rightarrow> sql_value list" where
  "InvitationDB_Values s columns = map (\<lambda>column.
     if column = ''id'' then VText (I_ID s)
     else if column = ''inviter_id'' then VText (I_InviterID s)
     else if column = ''session_id'' then VText (I_SessionID s)
     else if column = ''user_profile_id'' then VText (I_UserProfileID s)
     else VNil) columns"

definition InvitationDB_ValuesMap :: "InvitationDB \<Rightarrow> string list \<Rightarrow> (string \<rightharpoonup> sql_value)" where
  "InvitationDB_ValuesMap s columns = fold (\<lambda>column values.
     if column = ''id'' then values(''id'' \<mapsto> VText (I_ID s))
     else if column = ''inviter_id'' then values(''inviter_id'' \<mapsto> VText (I_InviterID s))
     else if column = ''session_id'' then values(''session_id'' \<mapsto> VText (I_SessionID s))
     else if column = ''user_profile_id'' then values(''user_profile_id'' \<mapsto> VText (I_UserProfileID s))
     else values) columns Map.empty"

lemmas InvitationDB_columns = InvitationDBTable_def InvitationDBIDColumn_def InvitationDBInviterIDColumn_def InvitationDBSessionIDColumn_def InvitationDBUserProfileIDColumn_def InvitationDBPKeyColumn_def InvitationDBDataColumns_def InvitationDB_AllColumns_def InvitationDB_Columns_def

definition InvitationDB_fields :: "InvitationDB \<Rightarrow> (string \<times> sql_value) list" where
  "InvitationDB_fields s = [(''id'', VText (I_ID s)),
     (''inviter_id'', VText (I_InviterID s)),
     (''session_id'', VText (I_SessionID s)),
     (''user_profile_id'', VText (I_UserProfileID s))]"

interpretation invitation_row: switched InvitationDBPKeyColumn InvitationDB_Columns InvitationDB_Values InvitationDB_ValuesMap InvitationDB_fields
proof unfold_locales
  fix r s :: InvitationDB and cs c m
  show "InvitationDB_Columns True = InvitationDBPKeyColumn # InvitationDB_Columns False" by (simp add: InvitationDB_columns)
  show "distinct (InvitationDB_Columns True)" by code_simp
  show "set (InvitationDB_Columns True) = fst ` set (InvitationDB_fields r)"
    by (simp add: InvitationDB_columns InvitationDB_fields_def insert_commute)
  show "map fst (InvitationDB_fields r) = map fst (InvitationDB_fields s)" by (simp add: InvitationDB_fields_def)
  show "length (InvitationDB_Columns True) = length (InvitationDB_fields r)"
    by (simp add: InvitationDB_columns InvitationDB_fields_def)
  show "InvitationDB_Values r cs = map (switch (InvitationDB_fields r) VNil) cs"
    by (simp only: InvitationDB_Values_def InvitationDB_fields_def switch_eqs fst_conv snd_conv)
  show "InvitationDB_ValuesMap r cs = fold (switch_map (InvitationDB_fields r)) cs Map.empty"
    by (simp only: InvitationDB_ValuesMap_def InvitationDB_fields_def switch_map_eqs fst_conv snd_conv)
  show "r = s" if "map snd (InvitationDB_fields r) = map snd (InvitationDB_fields s)"
    using that by (cases r; cases s; simp add: InvitationDB_fields_def)
qed

subsection \<open>RaceDB\<close>

definition RaceDBTable :: string where
  "RaceDBTable = ''race''"

definition RaceDBDataColumn :: string where
  "RaceDBDataColumn = ''data''"

definition RaceDBIDColumn :: string where
  "RaceDBIDColumn = ''id''"

definition RaceDBNamePluralColumn :: string where
  "RaceDBNamePluralColumn = ''name_plural''"

definition RaceDBNameSingularColumn :: string where
  "RaceDBNameSingularColumn = ''name_singular''"

definition RaceDBUserIDColumn :: string where
  "RaceDBUserIDColumn = ''user_id''"

definition RaceDBPKeyColumn :: string where
  "RaceDBPKeyColumn = RaceDBIDColumn"

definition RaceDBDataColumns :: "string list" where
  "RaceDBDataColumns = [RaceDBDataColumn,
     RaceDBNamePluralColumn,
     RaceDBNameSingularColumn,
     RaceDBUserIDColumn]"

definition RaceDB_AllColumns :: "string list" where
  "RaceDB_AllColumns = [RaceDBIDColumn] @ RaceDBDataColumns"

definition RaceDB_Columns :: "bool \<Rightarrow> string list" where
  "RaceDB_Columns withPKey = (if withPKey then RaceDB_AllColumns else RaceDBDataColumns)"

definition RaceDB_Values :: "RaceDB \<Rightarrow> string list \<Rightarrow> sql_value list" where
  "RaceDB_Values s columns = map (\<lambda>column.
     if column = ''data'' then VText (Ra_Data s)
     else if column = ''id'' then VText (Ra_ID s)
     else if column = ''name_plural'' then VText (Ra_NamePlural s)
     else if column = ''name_singular'' then VText (Ra_NameSingular s)
     else if column = ''user_id'' then VText (Ra_UserID s)
     else VNil) columns"

definition RaceDB_ValuesMap :: "RaceDB \<Rightarrow> string list \<Rightarrow> (string \<rightharpoonup> sql_value)" where
  "RaceDB_ValuesMap s columns = fold (\<lambda>column values.
     if column = ''data'' then values(''data'' \<mapsto> VText (Ra_Data s))
     else if column = ''id'' then values(''id'' \<mapsto> VText (Ra_ID s))
     else if column = ''name_plural'' then values(''name_plural'' \<mapsto> VText (Ra_NamePlural s))
     else if column = ''name_singular'' then values(''name_singular'' \<mapsto> VText (Ra_NameSingular s))
     else if column = ''user_id'' then values(''user_id'' \<mapsto> VText (Ra_UserID s))
     else values) columns Map.empty"

lemmas RaceDB_columns = RaceDBTable_def RaceDBDataColumn_def RaceDBIDColumn_def RaceDBNamePluralColumn_def RaceDBNameSingularColumn_def RaceDBUserIDColumn_def RaceDBPKeyColumn_def RaceDBDataColumns_def RaceDB_AllColumns_def RaceDB_Columns_def

definition RaceDB_fields :: "RaceDB \<Rightarrow> (string \<times> sql_value) list" where
  "RaceDB_fields s = [(''data'', VText (Ra_Data s)),
     (''id'', VText (Ra_ID s)),
     (''name_plural'', VText (Ra_NamePlural s)),
     (''name_singular'', VText (Ra_NameSingular s)),
     (''user_id'', VText (Ra_UserID s))]"

interpretation race_row: switched RaceDBPKeyColumn RaceDB_Columns RaceDB_Values RaceDB_ValuesMap RaceDB_fields
proof unfold_locales
  fix r s :: RaceDB and cs c m
  show "RaceDB_Columns True = RaceDBPKeyColumn # RaceDB_Columns False" by (simp add: RaceDB_columns)
  show "distinct (RaceDB_Columns True)" by code_simp
  show "set (RaceDB_Columns True) = fst ` set (RaceDB_fields r)"
    by (simp add: RaceDB_columns RaceDB_fields_def insert_commute)
  show "map fst (RaceDB_fields r) = map fst (RaceDB_fields s)" by (simp add: RaceDB_fields_def)
  show "length (RaceDB_Columns True) = length (RaceDB_fields r)"
    by (simp add: RaceDB_columns RaceDB_fields_def)
  show "RaceDB_Values r cs = map (switch (RaceDB_fields r) VNil) cs"
    by (simp only: RaceDB_Values_def RaceDB_fields_def switch_eqs fst_conv snd_conv)
  show "RaceDB_ValuesMap r cs = fold (switch_map (RaceDB_fields r)) cs Map.empty"
    by (simp only: RaceDB_ValuesMap_def RaceDB_fields_def switch_map_eqs fst_conv snd_conv)
  show "r = s" if "map snd (RaceDB_fields r) = map snd (RaceDB_fields s)"
    using that by (cases r; cases s; simp add: RaceDB_fields_def)
qed

subsection \<open>RulesetDB\<close>

definition RulesetDBTable :: string where
  "RulesetDBTable = ''ruleset''"

definition RulesetDBAcceleratedBbsPlayColumn :: string where
  "RulesetDBAcceleratedBbsPlayColumn = ''accelerated_bbs_play''"

definition RulesetDBComputerPlayersFormAlliancesColumn :: string where
  "RulesetDBComputerPlayersFormAlliancesColumn = ''computer_players_form_alliances''"

definition RulesetDBDensityColumn :: string where
  "RulesetDBDensityColumn = ''density''"

definition RulesetDBGalaxyClumpingColumn :: string where
  "RulesetDBGalaxyClumpingColumn = ''galaxy_clumping''"

definition RulesetDBMaximumMineralsColumn :: string where
  "RulesetDBMaximumMineralsColumn = ''maximum_minerals''"

definition RulesetDBNoRandomEventsColumn :: string where
  "RulesetDBNoRandomEventsColumn = ''no_random_events''"

definition RulesetDBPublicPlayerScoresColumn :: string where
  "RulesetDBPublicPlayerScoresColumn = ''public_player_scores''"

definition RulesetDBRandomSeedColumn :: string where
  "RulesetDBRandomSeedColumn = ''random_seed''"

definition RulesetDBSlowerTechAdvancesColumn :: string where
  "RulesetDBSlowerTechAdvancesColumn = ''slower_tech_advances''"

definition RulesetDBStartingDistanceColumn :: string where
  "RulesetDBStartingDistanceColumn = ''starting_distance''"

definition RulesetDBUniverseSizeColumn :: string where
  "RulesetDBUniverseSizeColumn = ''universe_size''"

definition RulesetDBVcAtLeastxYearsMustPassBeforeaWinnerIsDeclaredColumn :: string where
  "RulesetDBVcAtLeastxYearsMustPassBeforeaWinnerIsDeclaredColumn = ''vc_at_least_x_years_must_pass_before_a_winner_is_declared''"

definition RulesetDBVcAttainTechXInYFieldColumn :: string where
  "RulesetDBVcAttainTechXInYFieldColumn = ''vc_attain_tech_x_in_y_field''"

definition RulesetDBVcAttainTechXInYFieldFieldsValueColumn :: string where
  "RulesetDBVcAttainTechXInYFieldFieldsValueColumn = ''vc_attain_tech_x_in_y_field_fields_value''"

definition RulesetDBVcAttainTechXInYFieldTechValueColumn :: string where
  "RulesetDBVcAttainTechXInYFieldTechValueColumn = ''vc_attain_tech_x_in_y_field_tech_value''"

definition RulesetDBVcExceedNextPlayerScoreByxColumn :: string where
  "RulesetDBVcExceedNextPlayerScoreByxColumn = ''vc_exceed_next_player_score_by_x''"

definition RulesetDBVcExceedNextPlayerScoreByxValueColumn :: string where
  "RulesetDBVcExceedNextPlayerScoreByxValueColumn = ''vc_exceed_next_player_score_by_x_value''"

definition RulesetDBVcExceedScoreOfxColumn :: string where
  "RulesetDBVcExceedScoreOfxColumn = ''vc_exceed_score_of_x''"

definition RulesetDBVcExceedScoreOfxValueColumn :: string where
  "RulesetDBVcExceedScoreOfxValueColumn = ''vc_exceed_score_of_x_value''"

definition RulesetDBVcHasProductionCapacityOfxThousandColumn :: string where
  "RulesetDBVcHasProductionCapacityOfxThousandColumn = ''vc_has_production_capacity_of_x_thousand''"

definition RulesetDBVcHasProductionCapacityOfxThousandValueColumn :: string where
  "RulesetDBVcHasProductionCapacityOfxThousandValueColumn = ''vc_has_production_capacity_of_x_thousand_value''"

definition RulesetDBVcHaveHighestScoreAfterxYearsColumn :: string where
  "RulesetDBVcHaveHighestScoreAfterxYearsColumn = ''vc_have_highest_score_after_x_years''"

definition RulesetDBVcHaveHighestScoreAfterxYearsValueColumn :: string where
  "RulesetDBVcHaveHighestScoreAfterxYearsValueColumn = ''vc_have_highest_score_after_x_years_value''"

definition RulesetDBVcOwnsxCapitalShipsColumn :: string where
  "RulesetDBVcOwnsxCapitalShipsColumn = ''vc_owns_x_capital_ships''"

definition RulesetDBVcOwnsxCapitalShipsValueColumn :: string where
  "RulesetDBVcOwnsxCapitalShipsValueColumn = ''vc_owns_x_capital_ships_value''"

definition RulesetDBVcOwnsxPercentOfPlanetsColumn :: string where
  "RulesetDBVcOwnsxPercentOfPlanetsColumn = ''vc_owns_x_percent_of_planets''"

definition RulesetDBVcOwnsxPercentOfPlanetsValueColumn :: string where
  "RulesetDBVcOwnsxPercentOfPlanetsValueColumn = ''vc_owns_x_percent_of_planets_value''"

definition RulesetDBVcWinnerMustMeetxOfTheAboveColumn :: string where
  "RulesetDBVcWinnerMustMeetxOfTheAboveColumn = ''vc_winner_must_meet_x_of_the_above''"

definition RulesetDBIDColumn :: string where
  "RulesetDBIDColumn = ''id''"

definition RulesetDBSessionIDColumn :: string where
  "RulesetDBSessionIDColumn = ''session_id''"

definition RulesetDBPKeyColumn :: string where
  "RulesetDBPKeyColumn = RulesetDBIDColumn"

definition RulesetDBDataColumns :: "string list" where
  "RulesetDBDataColumns = [RulesetDBAcceleratedBbsPlayColumn,
     RulesetDBComputerPlayersFormAlliancesColumn,
     RulesetDBDensityColumn,
     RulesetDBGalaxyClumpingColumn,
     RulesetDBMaximumMineralsColumn,
     RulesetDBNoRandomEventsColumn,
     RulesetDBPublicPlayerScoresColumn,
     RulesetDBRandomSeedColumn,
     RulesetDBSlowerTechAdvancesColumn,
     RulesetDBStartingDistanceColumn,
     RulesetDBUniverseSizeColumn,
     RulesetDBVcAtLeastxYearsMustPassBeforeaWinnerIsDeclaredColumn,
     RulesetDBVcAttainTechXInYFieldColumn,
     RulesetDBVcAttainTechXInYFieldFieldsValueColumn,
     RulesetDBVcAttainTechXInYFieldTechValueColumn,
     RulesetDBVcExceedNextPlayerScoreByxColumn,
     RulesetDBVcExceedNextPlayerScoreByxValueColumn,
     RulesetDBVcExceedScoreOfxColumn,
     RulesetDBVcExceedScoreOfxValueColumn,
     RulesetDBVcHasProductionCapacityOfxThousandColumn,
     RulesetDBVcHasProductionCapacityOfxThousandValueColumn,
     RulesetDBVcHaveHighestScoreAfterxYearsColumn,
     RulesetDBVcHaveHighestScoreAfterxYearsValueColumn,
     RulesetDBVcOwnsxCapitalShipsColumn,
     RulesetDBVcOwnsxCapitalShipsValueColumn,
     RulesetDBVcOwnsxPercentOfPlanetsColumn,
     RulesetDBVcOwnsxPercentOfPlanetsValueColumn,
     RulesetDBVcWinnerMustMeetxOfTheAboveColumn,
     RulesetDBSessionIDColumn]"

definition RulesetDB_AllColumns :: "string list" where
  "RulesetDB_AllColumns = [RulesetDBIDColumn] @ RulesetDBDataColumns"

definition RulesetDB_Columns :: "bool \<Rightarrow> string list" where
  "RulesetDB_Columns withPKey = (if withPKey then RulesetDB_AllColumns else RulesetDBDataColumns)"

definition RulesetDB_Values :: "RulesetDB \<Rightarrow> string list \<Rightarrow> sql_value list" where
  "RulesetDB_Values s columns = map (\<lambda>column.
     if column = ''accelerated_bbs_play'' then VBool (AcceleratedBbsPlay (RS_Ruleset s))
     else if column = ''computer_players_form_alliances'' then VBool (ComputerPlayersFormAlliances (RS_Ruleset s))
     else if column = ''density'' then VInt (Density (RS_Ruleset s))
     else if column = ''galaxy_clumping'' then VBool (GalaxyClumping (RS_Ruleset s))
     else if column = ''maximum_minerals'' then VBool (MaximumMinerals (RS_Ruleset s))
     else if column = ''no_random_events'' then VBool (NoRandomEvents (RS_Ruleset s))
     else if column = ''public_player_scores'' then VBool (PublicPlayerScores (RS_Ruleset s))
     else if column = ''random_seed'' then VInt (RandomSeed (RS_Ruleset s))
     else if column = ''slower_tech_advances'' then VBool (SlowerTechAdvances (RS_Ruleset s))
     else if column = ''starting_distance'' then VInt (StartingDistance (RS_Ruleset s))
     else if column = ''universe_size'' then VInt (UniverseSize (RS_Ruleset s))
     else if column = ''vc_at_least_x_years_must_pass_before_a_winner_is_declared'' then VInt (VcAtLeastxYears (RS_Ruleset s))
     else if column = ''vc_attain_tech_x_in_y_field'' then VBool (VcAttainTech (RS_Ruleset s))
     else if column = ''vc_attain_tech_x_in_y_field_fields_value'' then VInt (VcAttainTechFieldsValue (RS_Ruleset s))
     else if column = ''vc_attain_tech_x_in_y_field_tech_value'' then VInt (VcAttainTechTechValue (RS_Ruleset s))
     else if column = ''vc_exceed_next_player_score_by_x'' then VBool (VcExceedNextPlayerScore (RS_Ruleset s))
     else if column = ''vc_exceed_next_player_score_by_x_value'' then VInt (VcExceedNextPlayerScoreValue (RS_Ruleset s))
     else if column = ''vc_exceed_score_of_x'' then VBool (VcExceedScore (RS_Ruleset s))
     else if column = ''vc_exceed_score_of_x_value'' then VInt (VcExceedScoreValue (RS_Ruleset s))
     else if column = ''vc_has_production_capacity_of_x_thousand'' then VBool (VcHasProductionCapacity (RS_Ruleset s))
     else if column = ''vc_has_production_capacity_of_x_thousand_value'' then VInt (VcHasProductionCapacityValue (RS_Ruleset s))
     else if column = ''vc_have_highest_score_after_x_years'' then VBool (VcHaveHighestScore (RS_Ruleset s))
     else if column = ''vc_have_highest_score_after_x_years_value'' then VInt (VcHaveHighestScoreValue (RS_Ruleset s))
     else if column = ''vc_owns_x_capital_ships'' then VBool (VcOwnsCapitalShips (RS_Ruleset s))
     else if column = ''vc_owns_x_capital_ships_value'' then VInt (VcOwnsCapitalShipsValue (RS_Ruleset s))
     else if column = ''vc_owns_x_percent_of_planets'' then VBool (VcOwnsPercentOfPlanets (RS_Ruleset s))
     else if column = ''vc_owns_x_percent_of_planets_value'' then VInt (VcOwnsPercentOfPlanetsValue (RS_Ruleset s))
     else if column = ''vc_winner_must_meet_x_of_the_above'' then VInt (VcWinnerMustMeet (RS_Ruleset s))
     else if column = ''id'' then VText (RS_ID s)
     else if column = ''session_id'' then VText (RS_SessionID s)
     else VNil) columns"

definition RulesetDB_ValuesMap :: "RulesetDB \<Rightarrow> string list \<Rightarrow> (string \<rightharpoonup> sql_value)" where
  "RulesetDB_ValuesMap s columns = fold (\<lambda>column values.
     if column = ''accelerated_bbs_play'' then values(''accelerated_bbs_play'' \<mapsto> VBool (AcceleratedBbsPlay (RS_Ruleset s)))
     else if column = ''computer_players_form_alliances'' then values(''computer_players_form_alliances'' \<mapsto> VBool (ComputerPlayersFormAlliances (RS_Ruleset s)))
     else if column = ''density'' then values(''density'' \<mapsto> VInt (Density (RS_Ruleset s)))
     else if column = ''galaxy_clumping'' then values(''galaxy_clumping'' \<mapsto> VBool (GalaxyClumping (RS_Ruleset s)))
     else if column = ''maximum_minerals'' then values(''maximum_minerals'' \<mapsto> VBool (MaximumMinerals (RS_Ruleset s)))
     else if column = ''no_random_events'' then values(''no_random_events'' \<mapsto> VBool (NoRandomEvents (RS_Ruleset s)))
     else if column = ''public_player_scores'' then values(''public_player_scores'' \<mapsto> VBool (PublicPlayerScores (RS_Ruleset s)))
     else if column = ''random_seed'' then values(''random_seed'' \<mapsto> VInt (RandomSeed (RS_Ruleset s)))
     else if column = ''slower_tech_advances'' then values(''slower_tech_advances'' \<mapsto> VBool (SlowerTechAdvances (RS_Ruleset s)))
     else if column = ''starting_distance'' then values(''starting_distance'' \<mapsto> VInt (StartingDistance (RS_Ruleset s)))
     else if column = ''universe_size'' then values(''universe_size'' \<mapsto> VInt (UniverseSize (RS_Ruleset s)))
     else if column = ''vc_at_least_x_years_must_pass_before_a_winner_is_declared'' then values(''vc_at_least_x_years_must_pass_before_a_winner_is_declared'' \<mapsto> VInt (VcAtLeastxYears (RS_Ruleset s)))
     else if column = ''vc_attain_tech_x_in_y_field'' then values(''vc_attain_tech_x_in_y_field'' \<mapsto> VBool (VcAttainTech (RS_Ruleset s)))
     else if column = ''vc_attain_tech_x_in_y_field_fields_value'' then values(''vc_attain_tech_x_in_y_field_fields_value'' \<mapsto> VInt (VcAttainTechFieldsValue (RS_Ruleset s)))
     else if column = ''vc_attain_tech_x_in_y_field_tech_value'' then values(''vc_attain_tech_x_in_y_field_tech_value'' \<mapsto> VInt (VcAttainTechTechValue (RS_Ruleset s)))
     else if column = ''vc_exceed_next_player_score_by_x'' then values(''vc_exceed_next_player_score_by_x'' \<mapsto> VBool (VcExceedNextPlayerScore (RS_Ruleset s)))
     else if column = ''vc_exceed_next_player_score_by_x_value'' then values(''vc_exceed_next_player_score_by_x_value'' \<mapsto> VInt (VcExceedNextPlayerScoreValue (RS_Ruleset s)))
     else if column = ''vc_exceed_score_of_x'' then values(''vc_exceed_score_of_x'' \<mapsto> VBool (VcExceedScore (RS_Ruleset s)))
     else if column = ''vc_exceed_score_of_x_value'' then values(''vc_exceed_score_of_x_value'' \<mapsto> VInt (VcExceedScoreValue (RS_Ruleset s)))
     else if column = ''vc_has_production_capacity_of_x_thousand'' then values(''vc_has_production_capacity_of_x_thousand'' \<mapsto> VBool (VcHasProductionCapacity (RS_Ruleset s)))
     else if column = ''vc_has_production_capacity_of_x_thousand_value'' then values(''vc_has_production_capacity_of_x_thousand_value'' \<mapsto> VInt (VcHasProductionCapacityValue (RS_Ruleset s)))
     else if column = ''vc_have_highest_score_after_x_years'' then values(''vc_have_highest_score_after_x_years'' \<mapsto> VBool (VcHaveHighestScore (RS_Ruleset s)))
     else if column = ''vc_have_highest_score_after_x_years_value'' then values(''vc_have_highest_score_after_x_years_value'' \<mapsto> VInt (VcHaveHighestScoreValue (RS_Ruleset s)))
     else if column = ''vc_owns_x_capital_ships'' then values(''vc_owns_x_capital_ships'' \<mapsto> VBool (VcOwnsCapitalShips (RS_Ruleset s)))
     else if column = ''vc_owns_x_capital_ships_value'' then values(''vc_owns_x_capital_ships_value'' \<mapsto> VInt (VcOwnsCapitalShipsValue (RS_Ruleset s)))
     else if column = ''vc_owns_x_percent_of_planets'' then values(''vc_owns_x_percent_of_planets'' \<mapsto> VBool (VcOwnsPercentOfPlanets (RS_Ruleset s)))
     else if column = ''vc_owns_x_percent_of_planets_value'' then values(''vc_owns_x_percent_of_planets_value'' \<mapsto> VInt (VcOwnsPercentOfPlanetsValue (RS_Ruleset s)))
     else if column = ''vc_winner_must_meet_x_of_the_above'' then values(''vc_winner_must_meet_x_of_the_above'' \<mapsto> VInt (VcWinnerMustMeet (RS_Ruleset s)))
     else if column = ''id'' then values(''id'' \<mapsto> VText (RS_ID s))
     else if column = ''session_id'' then values(''session_id'' \<mapsto> VText (RS_SessionID s))
     else values) columns Map.empty"

lemmas RulesetDB_columns = RulesetDBTable_def RulesetDBAcceleratedBbsPlayColumn_def RulesetDBComputerPlayersFormAlliancesColumn_def RulesetDBDensityColumn_def RulesetDBGalaxyClumpingColumn_def RulesetDBMaximumMineralsColumn_def RulesetDBNoRandomEventsColumn_def RulesetDBPublicPlayerScoresColumn_def RulesetDBRandomSeedColumn_def RulesetDBSlowerTechAdvancesColumn_def RulesetDBStartingDistanceColumn_def RulesetDBUniverseSizeColumn_def RulesetDBVcAtLeastxYearsMustPassBeforeaWinnerIsDeclaredColumn_def RulesetDBVcAttainTechXInYFieldColumn_def RulesetDBVcAttainTechXInYFieldFieldsValueColumn_def RulesetDBVcAttainTechXInYFieldTechValueColumn_def RulesetDBVcExceedNextPlayerScoreByxColumn_def RulesetDBVcExceedNextPlayerScoreByxValueColumn_def RulesetDBVcExceedScoreOfxColumn_def RulesetDBVcExceedScoreOfxValueColumn_def RulesetDBVcHasProductionCapacityOfxThousandColumn_def RulesetDBVcHasProductionCapacityOfxThousandValueColumn_def RulesetDBVcHaveHighestScoreAfterxYearsColumn_def RulesetDBVcHaveHighestScoreAfterxYearsValueColumn_def RulesetDBVcOwnsxCapitalShipsColumn_def RulesetDBVcOwnsxCapitalShipsValueColumn_def RulesetDBVcOwnsxPercentOfPlanetsColumn_def RulesetDBVcOwnsxPercentOfPlanetsValueColumn_def RulesetDBVcWinnerMustMeetxOfTheAboveColumn_def RulesetDBIDColumn_def RulesetDBSessionIDColumn_def RulesetDBPKeyColumn_def RulesetDBDataColumns_def RulesetDB_AllColumns_def RulesetDB_Columns_def

definition RulesetDB_fields :: "RulesetDB \<Rightarrow> (string \<times> sql_value) list" where
  "RulesetDB_fields s = [(''accelerated_bbs_play'', VBool (AcceleratedBbsPlay (RS_Ruleset s))),
     (''computer_players_form_alliances'', VBool (ComputerPlayersFormAlliances (RS_Ruleset s))),
     (''density'', VInt (Density (RS_Ruleset s))),
     (''galaxy_clumping'', VBool (GalaxyClumping (RS_Ruleset s))),
     (''maximum_minerals'', VBool (MaximumMinerals (RS_Ruleset s))),
     (''no_random_events'', VBool (NoRandomEvents (RS_Ruleset s))),
     (''public_player_scores'', VBool (PublicPlayerScores (RS_Ruleset s))),
     (''random_seed'', VInt (RandomSeed (RS_Ruleset s))),
     (''slower_tech_advances'', VBool (SlowerTechAdvances (RS_Ruleset s))),
     (''starting_distance'', VInt (StartingDistance (RS_Ruleset s))),
     (''universe_size'', VInt (UniverseSize (RS_Ruleset s))),
     (''vc_at_least_x_years_must_pass_before_a_winner_is_declared'', VInt (VcAtLeastxYears (RS_Ruleset s))),
     (''vc_attain_tech_x_in_y_field'', VBool (VcAttainTech (RS_Ruleset s))),
     (''vc_attain_tech_x_in_y_field_fields_value'', VInt (VcAttainTechFieldsValue (RS_Ruleset s))),
     (''vc_attain_tech_x_in_y_field_tech_value'', VInt (VcAttainTechTechValue (RS_Ruleset s))),
     (''vc_exceed_next_player_score_by_x'', VBool (VcExceedNextPlayerScore (RS_Ruleset s))),
     (''vc_exceed_next_player_score_by_x_value'', VInt (VcExceedNextPlayerScoreValue (RS_Ruleset s))),
     (''vc_exceed_score_of_x'', VBool (VcExceedScore (RS_Ruleset s))),
     (''vc_exceed_score_of_x_value'', VInt (VcExceedScoreValue (RS_Ruleset s))),
     (''vc_has_production_capacity_of_x_thousand'', VBool (VcHasProductionCapacity (RS_Ruleset s))),
     (''vc_has_production_capacity_of_x_thousand_value'', VInt (VcHasProductionCapacityValue (RS_Ruleset s))),
     (''vc_have_highest_score_after_x_years'', VBool (VcHaveHighestScore (RS_Ruleset s))),
     (''vc_have_highest_score_after_x_years_value'', VInt (VcHaveHighestScoreValue (RS_Ruleset s))),
     (''vc_owns_x_capital_ships'', VBool (VcOwnsCapitalShips (RS_Ruleset s))),
     (''vc_owns_x_capital_ships_value'', VInt (VcOwnsCapitalShipsValue (RS_Ruleset s))),
     (''vc_owns_x_percent_of_planets'', VBool (VcOwnsPercentOfPlanets (RS_Ruleset s))),
     (''vc_owns_x_percent_of_planets_value'', VInt (VcOwnsPercentOfPlanetsValue (RS_Ruleset s))),
     (''vc_winner_must_meet_x_of_the_above'', VInt (VcWinnerMustMeet (RS_Ruleset s))),
     (''id'', VText (RS_ID s)),
     (''session_id'', VText (RS_SessionID s))]"

interpretation ruleset_row: switched RulesetDBPKeyColumn RulesetDB_Columns RulesetDB_Values RulesetDB_ValuesMap RulesetDB_fields
proof unfold_locales
  fix r s :: RulesetDB and cs c m
  show "RulesetDB_Columns True = RulesetDBPKeyColumn # RulesetDB_Columns False" by (simp add: RulesetDB_columns)
  show "distinct (RulesetDB_Columns True)" by code_simp
  show "set (RulesetDB_Columns True) = fst ` set (RulesetDB_fields r)"
    by (simp add: RulesetDB_columns RulesetDB_fields_def insert_commute)
  show "map fst (RulesetDB_fields r) = map fst (RulesetDB_fields s)" by (simp add: RulesetDB_fields_def)
  show "length (RulesetDB_Columns True) = length (RulesetDB_fields r)"
    by (simp add: RulesetDB_columns RulesetDB_fields_def)
  show "RulesetDB_Values r cs = map (switch (RulesetDB_fields r) VNil) cs"
    by (simp only: RulesetDB_Values_def RulesetDB_fields_def switch_eqs fst_conv snd_conv)
  show "RulesetDB_ValuesMap r cs = fold (switch_map (RulesetDB_fields r)) cs Map.empty"
    by (simp only: RulesetDB_ValuesMap_def RulesetDB_fields_def switch_map_eqs fst_conv snd_conv)
  show "r = s" if "map snd (RulesetDB_fields r) = map snd (RulesetDB_fields s)"
    using that by (cases "RS_Ruleset r"; cases "RS_Ruleset s"; cases r; cases s; simp add: RulesetDB_fields_def)
qed

subsection \<open>SerialKeyDB\<close>

definition SerialKeyDBTable :: string where
  "SerialKeyDBTable = ''serial_key''"

definition SerialKeyDBKeyColumn :: string where
  "SerialKeyDBKeyColumn = ''key''"

definition SerialKeyDBUserProfileIDColumn :: string where
  "SerialKeyDBUserProfileIDColumn = ''user_profile_id''"

definition SerialKeyDBAssignedAtColumn :: string where
  "SerialKeyDBAssignedAtColumn = ''assigned_at''"

definition SerialKeyDBPKeyColumn :: string where
  "SerialKeyDBPKeyColumn = SerialKeyDBKeyColumn"

definition SerialKeyDBDataColumns :: "string list" where
  "SerialKeyDBDataColumns = [SerialKeyDBUserProfileIDColumn,
     SerialKeyDBAssignedAtColumn]"

definition SerialKeyDB_AllColumns :: "string list" where
  "SerialKeyDB_AllColumns = [SerialKeyDBKeyColumn] @ SerialKeyDBDataColumns"

definition SerialKeyDB_Columns :: "bool \<Rightarrow> string list" where
  "SerialKeyDB_Columns withPKey = (if withPKey then SerialKeyDB_AllColumns else SerialKeyDBDataColumns)"

definition SerialKeyDB_Values :: "SerialKeyRow \<Rightarrow> string list \<Rightarrow> sql_value list" where
  "SerialKeyDB_Values s columns = map (\<lambda>column.
     if column = ''key'' then VText (K_Key s)
     else if column = ''user_profile_id'' then VOptText (K_UserProfileID s)
     else if column = ''assigned_at'' then VTime (K_AssignedAt s)
     else VNil) columns"

definition SerialKeyDB_ValuesMap :: "SerialKeyRow \<Rightarrow> string list \<Rightarrow> (string \<rightharpoonup> sql_value)" where
  "SerialKeyDB_ValuesMap s columns = fold (\<lambda>column values.
     if column = ''key'' then values(''key'' \<mapsto> VText (K_Key s))
     else if column = ''user_profile_id'' then values(''user_profile_id'' \<mapsto> VOptText (K_UserProfileID s))
     else if column = ''assigned_at'' then values(''assigned_at'' \<mapsto> VTime (K_AssignedAt s))
     else values) columns Map.empty"

lemmas SerialKeyDB_columns = SerialKeyDBTable_def SerialKeyDBKeyColumn_def SerialKeyDBUserProfileIDColumn_def SerialKeyDBAssignedAtColumn_def SerialKeyDBPKeyColumn_def SerialKeyDBDataColumns_def SerialKeyDB_AllColumns_def SerialKeyDB_Columns_def

definition SerialKeyDB_fields :: "SerialKeyRow \<Rightarrow> (string \<times> sql_value) list" where
  "SerialKeyDB_fields s = [(''key'', VText (K_Key s)),
     (''user_profile_id'', VOptText (K_UserProfileID s)),
     (''assigned_at'', VTime (K_AssignedAt s))]"

interpretation serial_key_row: switched SerialKeyDBPKeyColumn SerialKeyDB_Columns SerialKeyDB_Values SerialKeyDB_ValuesMap SerialKeyDB_fields
proof unfold_locales
  fix r s :: SerialKeyRow and cs c m
  show "SerialKeyDB_Columns True = SerialKeyDBPKeyColumn # SerialKeyDB_Columns False" by (simp add: SerialKeyDB_columns)
  show "distinct (SerialKeyDB_Columns True)" by code_simp
  show "set (SerialKeyDB_Columns True) = fst ` set (SerialKeyDB_fields r)"
    by (simp add: SerialKeyDB_columns SerialKeyDB_fields_def insert_commute)
  show "map fst (SerialKeyDB_fields r) = map fst (SerialKeyDB_fields s)" by (simp add: SerialKeyDB_fields_def)
  show "length (SerialKeyDB_Columns True) = length (SerialKeyDB_fields r)"
    by (simp add: SerialKeyDB_columns SerialKeyDB_fields_def)
  show "SerialKeyDB_Values r cs = map (switch (SerialKeyDB_fields r) VNil) cs"
    by (simp only: SerialKeyDB_Values_def SerialKeyDB_fields_def switch_eqs fst_conv snd_conv)
  show "SerialKeyDB_ValuesMap r cs = fold (switch_map (SerialKeyDB_fields r)) cs Map.empty"
    by (simp only: SerialKeyDB_ValuesMap_def SerialKeyDB_fields_def switch_map_eqs fst_conv snd_conv)
  show "r = s" if "map snd (SerialKeyDB_fields r) = map snd (SerialKeyDB_fields s)"
    using that by (cases r; cases s; simp add: SerialKeyDB_fields_def)
qed

subsection \<open>SessionDB\<close>

definition SessionDBTable :: string where
  "SessionDBTable = ''session''"

definition SessionDBIDColumn :: string where
  "SessionDBIDColumn = ''id''"

definition SessionDBNameColumn :: string where
  "SessionDBNameColumn = ''name''"

definition SessionDBPrivateColumn :: string where
  "SessionDBPrivateColumn = ''private''"

definition SessionDBRulesIsSetColumn :: string where
  "SessionDBRulesIsSetColumn = ''rules_is_set''"

definition SessionDBStateColumn :: string where
  "SessionDBStateColumn = ''state''"

definition SessionDBRulesetIDColumn :: string where
  "SessionDBRulesetIDColumn = ''ruleset_id''"

definition SessionDBPKeyColumn :: string where
  "SessionDBPKeyColumn = SessionDBIDColumn"

definition SessionDBDataColumns :: "string list" where
  "SessionDBDataColumns = [SessionDBNameColumn,
     SessionDBPrivateColumn,
     SessionDBRulesIsSetColumn,
     SessionDBStateColumn,
     SessionDBRulesetIDColumn]"

definition SessionDB_AllColumns :: "string list" where
  "SessionDB_AllColumns = [SessionDBIDColumn] @ SessionDBDataColumns"

definition SessionDB_Columns :: "bool \<Rightarrow> string list" where
  "SessionDB_Columns withPKey = (if withPKey then SessionDB_AllColumns else SessionDBDataColumns)"

definition SessionDB_Values :: "SessionDB \<Rightarrow> string list \<Rightarrow> sql_value list" where
  "SessionDB_Values s columns = map (\<lambda>column.
     if column = ''id'' then VText (S_ID s)
     else if column = ''name'' then VText (S_Name s)
     else if column = ''private'' then VBool (S_Private s)
     else if column = ''rules_is_set'' then VBool (S_RulesIsSet s)
     else if column = ''state'' then VSessionState (S_State s)
     else if column = ''ruleset_id'' then VOptText (S_RulesetID s)
     else VNil) columns"

definition SessionDB_ValuesMap :: "SessionDB \<Rightarrow> string list \<Rightarrow> (string \<rightharpoonup> sql_value)" where
  "SessionDB_ValuesMap s columns = fold (\<lambda>column values.
     if column = ''id'' then values(''id'' \<mapsto> VText (S_ID s))
     else if column = ''name'' then values(''name'' \<mapsto> VText (S_Name s))
     else if column = ''private'' then values(''private'' \<mapsto> VBool (S_Private s))
     else if column = ''rules_is_set'' then values(''rules_is_set'' \<mapsto> VBool (S_RulesIsSet s))
     else if column = ''state'' then values(''state'' \<mapsto> VSessionState (S_State s))
     else if column = ''ruleset_id'' then values(''ruleset_id'' \<mapsto> VOptText (S_RulesetID s))
     else values) columns Map.empty"

lemmas SessionDB_columns = SessionDBTable_def SessionDBIDColumn_def SessionDBNameColumn_def SessionDBPrivateColumn_def SessionDBRulesIsSetColumn_def SessionDBStateColumn_def SessionDBRulesetIDColumn_def SessionDBPKeyColumn_def SessionDBDataColumns_def SessionDB_AllColumns_def SessionDB_Columns_def

definition SessionDB_fields :: "SessionDB \<Rightarrow> (string \<times> sql_value) list" where
  "SessionDB_fields s = [(''id'', VText (S_ID s)),
     (''name'', VText (S_Name s)),
     (''private'', VBool (S_Private s)),
     (''rules_is_set'', VBool (S_RulesIsSet s)),
     (''state'', VSessionState (S_State s)),
     (''ruleset_id'', VOptText (S_RulesetID s))]"

interpretation session_row: switched SessionDBPKeyColumn SessionDB_Columns SessionDB_Values SessionDB_ValuesMap SessionDB_fields
proof unfold_locales
  fix r s :: SessionDB and cs c m
  show "SessionDB_Columns True = SessionDBPKeyColumn # SessionDB_Columns False" by (simp add: SessionDB_columns)
  show "distinct (SessionDB_Columns True)" by code_simp
  show "set (SessionDB_Columns True) = fst ` set (SessionDB_fields r)"
    by (simp add: SessionDB_columns SessionDB_fields_def insert_commute)
  show "map fst (SessionDB_fields r) = map fst (SessionDB_fields s)" by (simp add: SessionDB_fields_def)
  show "length (SessionDB_Columns True) = length (SessionDB_fields r)"
    by (simp add: SessionDB_columns SessionDB_fields_def)
  show "SessionDB_Values r cs = map (switch (SessionDB_fields r) VNil) cs"
    by (simp only: SessionDB_Values_def SessionDB_fields_def switch_eqs fst_conv snd_conv)
  show "SessionDB_ValuesMap r cs = fold (switch_map (SessionDB_fields r)) cs Map.empty"
    by (simp only: SessionDB_ValuesMap_def SessionDB_fields_def switch_map_eqs fst_conv snd_conv)
  show "r = s" if "map snd (SessionDB_fields r) = map snd (SessionDB_fields s)"
    using that by (cases r; cases s; simp add: SessionDB_fields_def)
qed

subsection \<open>SessionFilesDB\<close>

definition SessionFilesDBTable :: string where
  "SessionFilesDBTable = ''session_file''"

definition SessionFilesDBHostFileColumn :: string where
  "SessionFilesDBHostFileColumn = ''hostfile''"

definition SessionFilesDBIDColumn :: string where
  "SessionFilesDBIDColumn = ''id''"

definition SessionFilesDBOrdersColumn :: string where
  "SessionFilesDBOrdersColumn = ''orders''"

definition SessionFilesDBSessionIDColumn :: string where
  "SessionFilesDBSessionIDColumn = ''session_id''"

definition SessionFilesDBTurnsColumn :: string where
  "SessionFilesDBTurnsColumn = ''turns''"

definition SessionFilesDBUniverseColumn :: string where
  "SessionFilesDBUniverseColumn = ''universe''"

definition SessionFilesDBYearColumn :: string where
  "SessionFilesDBYearColumn = ''year''"

definition SessionFilesDBPKeyColumn :: string where
  "SessionFilesDBPKeyColumn = SessionFilesDBIDColumn"

definition SessionFilesDBDataColumns :: "string list" where
  "SessionFilesDBDataColumns = [SessionFilesDBHostFileColumn,
     SessionFilesDBOrdersColumn,
     SessionFilesDBSessionIDColumn,
     SessionFilesDBTurnsColumn,
     SessionFilesDBUniverseColumn,
     SessionFilesDBYearColumn]"

definition SessionFilesDB_AllColumns :: "string list" where
  "SessionFilesDB_AllColumns = [SessionFilesDBIDColumn] @ SessionFilesDBDataColumns"

definition SessionFilesDB_Columns :: "bool \<Rightarrow> string list" where
  "SessionFilesDB_Columns withPKey = (if withPKey then SessionFilesDB_AllColumns else SessionFilesDBDataColumns)"

definition SessionFilesDB_Values :: "SessionFilesDB \<Rightarrow> string list \<Rightarrow> sql_value list" where
  "SessionFilesDB_Values s columns = map (\<lambda>column.
     if column = ''hostfile'' then VText (F_HostFile s)
     else if column = ''id'' then VText (F_ID s)
     else if column = ''orders'' then VTexts (F_Orders s)
     else if column = ''session_id'' then VText (F_SessionID s)
     else if column = ''turns'' then VTexts (F_Turns s)
     else if column = ''universe'' then VText (F_Universe s)
     else if column = ''year'' then VInt (F_Year s)
     else VNil) columns"

definition SessionFilesDB_ValuesMap :: "SessionFilesDB \<Rightarrow> string list \<Rightarrow> (string \<rightharpoonup> sql_value)" where
  "SessionFilesDB_ValuesMap s columns = fold (\<lambda>column values.
     if column = ''hostfile'' then values(''hostfile'' \<mapsto> VText (F_HostFile s))
     else if column = ''id'' then values(''id'' \<mapsto> VText (F_ID s))
     else if column = ''orders'' then values(''orders'' \<mapsto> VTexts (F_Orders s))
     else if column = ''session_id'' then values(''session_id'' \<mapsto> VText (F_SessionID s))
     else if column = ''turns'' then values(''turns'' \<mapsto> VTexts (F_Turns s))
     else if column = ''universe'' then values(''universe'' \<mapsto> VText (F_Universe s))
     else if column = ''year'' then values(''year'' \<mapsto> VInt (F_Year s))
     else values) columns Map.empty"

lemmas SessionFilesDB_columns = SessionFilesDBTable_def SessionFilesDBHostFileColumn_def SessionFilesDBIDColumn_def SessionFilesDBOrdersColumn_def SessionFilesDBSessionIDColumn_def SessionFilesDBTurnsColumn_def SessionFilesDBUniverseColumn_def SessionFilesDBYearColumn_def SessionFilesDBPKeyColumn_def SessionFilesDBDataColumns_def SessionFilesDB_AllColumns_def SessionFilesDB_Columns_def

definition SessionFilesDB_fields :: "SessionFilesDB \<Rightarrow> (string \<times> sql_value) list" where
  "SessionFilesDB_fields s = [(''hostfile'', VText (F_HostFile s)),
     (''id'', VText (F_ID s)),
     (''orders'', VTexts (F_Orders s)),
     (''session_id'', VText (F_SessionID s)),
     (''turns'', VTexts (F_Turns s)),
     (''universe'', VText (F_Universe s)),
     (''year'', VInt (F_Year s))]"

interpretation session_files_row: switched SessionFilesDBPKeyColumn SessionFilesDB_Columns SessionFilesDB_Values SessionFilesDB_ValuesMap SessionFilesDB_fields
proof unfold_locales
  fix r s :: SessionFilesDB and cs c m
  show "SessionFilesDB_Columns True = SessionFilesDBPKeyColumn # SessionFilesDB_Columns False" by (simp add: SessionFilesDB_columns)
  show "distinct (SessionFilesDB_Columns True)" by code_simp
  show "set (SessionFilesDB_Columns True) = fst ` set (SessionFilesDB_fields r)"
    by (simp add: SessionFilesDB_columns SessionFilesDB_fields_def insert_commute)
  show "map fst (SessionFilesDB_fields r) = map fst (SessionFilesDB_fields s)" by (simp add: SessionFilesDB_fields_def)
  show "length (SessionFilesDB_Columns True) = length (SessionFilesDB_fields r)"
    by (simp add: SessionFilesDB_columns SessionFilesDB_fields_def)
  show "SessionFilesDB_Values r cs = map (switch (SessionFilesDB_fields r) VNil) cs"
    by (simp only: SessionFilesDB_Values_def SessionFilesDB_fields_def switch_eqs fst_conv snd_conv)
  show "SessionFilesDB_ValuesMap r cs = fold (switch_map (SessionFilesDB_fields r)) cs Map.empty"
    by (simp only: SessionFilesDB_ValuesMap_def SessionFilesDB_fields_def switch_map_eqs fst_conv snd_conv)
  show "r = s" if "map snd (SessionFilesDB_fields r) = map snd (SessionFilesDB_fields s)"
    using that by (cases r; cases s; simp add: SessionFilesDB_fields_def)
qed

subsection \<open>SessionPlayerRaceDB\<close>

definition SessionPlayerRaceDBTable :: string where
  "SessionPlayerRaceDBTable = ''session_player_race''"

definition SessionPlayerRaceDBBotLevelColumn :: string where
  "SessionPlayerRaceDBBotLevelColumn = ''bot_level''"

definition SessionPlayerRaceDBIDColumn :: string where
  "SessionPlayerRaceDBIDColumn = ''id''"

definition SessionPlayerRaceDBIsBotColumn :: string where
  "SessionPlayerRaceDBIsBotColumn = ''is_bot''"

definition SessionPlayerRaceDBPlayerOrderColumn :: string where
  "SessionPlayerRaceDBPlayerOrderColumn = ''player_order''"

definition SessionPlayerRaceDBRaceIDColumn :: string where
  "SessionPlayerRaceDBRaceIDColumn = ''race_id''"

definition SessionPlayerRaceDBReadyColumn :: string where
  "SessionPlayerRaceDBReadyColumn = ''ready''"

definition SessionPlayerRaceDBSessionIDColumn :: string where
  "SessionPlayerRaceDBSessionIDColumn = ''session_id''"

definition SessionPlayerRaceDBUserProfileIDColumn :: string where
  "SessionPlayerRaceDBUserProfileIDColumn = ''user_profile_id''"

definition SessionPlayerRaceDBAIControlTypeColumn :: string where
  "SessionPlayerRaceDBAIControlTypeColumn = ''ai_control_type''"

definition SessionPlayerRaceDBPKeyColumn :: string where
  "SessionPlayerRaceDBPKeyColumn = SessionPlayerRaceDBIDColumn"

definition SessionPlayerRaceDBDataColumns :: "string list" where
  "SessionPlayerRaceDBDataColumns = [SessionPlayerRaceDBBotLevelColumn,
     SessionPlayerRaceDBIsBotColumn,
     SessionPlayerRaceDBPlayerOrderColumn,
     SessionPlayerRaceDBRaceIDColumn,
     SessionPlayerRaceDBReadyColumn,
     SessionPlayerRaceDBSessionIDColumn,
     SessionPlayerRaceDBUserProfileIDColumn,
     SessionPlayerRaceDBAIControlTypeColumn]"

definition SessionPlayerRaceDB_AllColumns :: "string list" where
  "SessionPlayerRaceDB_AllColumns = [SessionPlayerRaceDBIDColumn] @ SessionPlayerRaceDBDataColumns"

definition SessionPlayerRaceDB_Columns :: "bool \<Rightarrow> string list" where
  "SessionPlayerRaceDB_Columns withPKey = (if withPKey then SessionPlayerRaceDB_AllColumns else SessionPlayerRaceDBDataColumns)"

definition SessionPlayerRaceDB_Values :: "SessionPlayerRaceDB \<Rightarrow> string list \<Rightarrow> sql_value list" where
  "SessionPlayerRaceDB_Values s columns = map (\<lambda>column.
     if column = ''bot_level'' then VOptInt (P_BotLevel s)
     else if column = ''id'' then VText (P_ID s)
     else if column = ''is_bot'' then VBool (P_IsBot s)
     else if column = ''player_order'' then VInt (P_PlayerOrder s)
     else if column = ''race_id'' then VText (P_RaceID s)
     else if column = ''ready'' then VBool (P_Ready s)
     else if column = ''session_id'' then VText (P_SessionID s)
     else if column = ''user_profile_id'' then VText (P_UserProfileID s)
     else if column = ''ai_control_type'' then VOptText (P_AIControlType s)
     else VNil) columns"

definition SessionPlayerRaceDB_ValuesMap :: "SessionPlayerRaceDB \<Rightarrow> string list \<Rightarrow> (string \<rightharpoonup> sql_value)" where
  "SessionPlayerRaceDB_ValuesMap s columns = fold (\<lambda>column values.
     if column = ''bot_level'' then values(''bot_level'' \<mapsto> VOptInt (P_BotLevel s))
     else if column = ''id'' then values(''id'' \<mapsto> VText (P_ID s))
     else if column = ''is_bot'' then values(''is_bot'' \<mapsto> VBool (P_IsBot s))
     else if column = ''player_order'' then values(''player_order'' \<mapsto> VInt (P_PlayerOrder s))
     else if column = ''race_id'' then values(''race_id'' \<mapsto> VText (P_RaceID s))
     else if column = ''ready'' then values(''ready'' \<mapsto> VBool (P_Ready s))
     else if column = ''session_id'' then values(''session_id'' \<mapsto> VText (P_SessionID s))
     else if column = ''user_profile_id'' then values(''user_profile_id'' \<mapsto> VText (P_UserProfileID s))
     else if column = ''ai_control_type'' then values(''ai_control_type'' \<mapsto> VOptText (P_AIControlType s))
     else values) columns Map.empty"

lemmas SessionPlayerRaceDB_columns = SessionPlayerRaceDBTable_def SessionPlayerRaceDBBotLevelColumn_def SessionPlayerRaceDBIDColumn_def SessionPlayerRaceDBIsBotColumn_def SessionPlayerRaceDBPlayerOrderColumn_def SessionPlayerRaceDBRaceIDColumn_def SessionPlayerRaceDBReadyColumn_def SessionPlayerRaceDBSessionIDColumn_def SessionPlayerRaceDBUserProfileIDColumn_def SessionPlayerRaceDBAIControlTypeColumn_def SessionPlayerRaceDBPKeyColumn_def SessionPlayerRaceDBDataColumns_def SessionPlayerRaceDB_AllColumns_def SessionPlayerRaceDB_Columns_def

definition SessionPlayerRaceDB_fields :: "SessionPlayerRaceDB \<Rightarrow> (string \<times> sql_value) list" where
  "SessionPlayerRaceDB_fields s = [(''bot_level'', VOptInt (P_BotLevel s)),
     (''id'', VText (P_ID s)),
     (''is_bot'', VBool (P_IsBot s)),
     (''player_order'', VInt (P_PlayerOrder s)),
     (''race_id'', VText (P_RaceID s)),
     (''ready'', VBool (P_Ready s)),
     (''session_id'', VText (P_SessionID s)),
     (''user_profile_id'', VText (P_UserProfileID s)),
     (''ai_control_type'', VOptText (P_AIControlType s))]"

interpretation session_player_race_row: switched SessionPlayerRaceDBPKeyColumn SessionPlayerRaceDB_Columns SessionPlayerRaceDB_Values SessionPlayerRaceDB_ValuesMap SessionPlayerRaceDB_fields
proof unfold_locales
  fix r s :: SessionPlayerRaceDB and cs c m
  show "SessionPlayerRaceDB_Columns True = SessionPlayerRaceDBPKeyColumn # SessionPlayerRaceDB_Columns False" by (simp add: SessionPlayerRaceDB_columns)
  show "distinct (SessionPlayerRaceDB_Columns True)" by code_simp
  show "set (SessionPlayerRaceDB_Columns True) = fst ` set (SessionPlayerRaceDB_fields r)"
    by (simp add: SessionPlayerRaceDB_columns SessionPlayerRaceDB_fields_def insert_commute)
  show "map fst (SessionPlayerRaceDB_fields r) = map fst (SessionPlayerRaceDB_fields s)" by (simp add: SessionPlayerRaceDB_fields_def)
  show "length (SessionPlayerRaceDB_Columns True) = length (SessionPlayerRaceDB_fields r)"
    by (simp add: SessionPlayerRaceDB_columns SessionPlayerRaceDB_fields_def)
  show "SessionPlayerRaceDB_Values r cs = map (switch (SessionPlayerRaceDB_fields r) VNil) cs"
    by (simp only: SessionPlayerRaceDB_Values_def SessionPlayerRaceDB_fields_def switch_eqs fst_conv snd_conv)
  show "SessionPlayerRaceDB_ValuesMap r cs = fold (switch_map (SessionPlayerRaceDB_fields r)) cs Map.empty"
    by (simp only: SessionPlayerRaceDB_ValuesMap_def SessionPlayerRaceDB_fields_def switch_map_eqs fst_conv snd_conv)
  show "r = s" if "map snd (SessionPlayerRaceDB_fields r) = map snd (SessionPlayerRaceDB_fields s)"
    using that by (cases r; cases s; simp add: SessionPlayerRaceDB_fields_def)
qed

subsection \<open>UserProfileDB\<close>

definition UserProfileDBTable :: string where
  "UserProfileDBTable = ''user_profile''"

definition UserProfileDBEmailColumn :: string where
  "UserProfileDBEmailColumn = ''email''"

definition UserProfileDBIDColumn :: string where
  "UserProfileDBIDColumn = ''id''"

definition UserProfileDBIsManagerColumn :: string where
  "UserProfileDBIsManagerColumn = ''is_manager''"

definition UserProfileDBNicknameColumn :: string where
  "UserProfileDBNicknameColumn = ''nickname''"

definition UserProfileDBRegistrationMessageColumn :: string where
  "UserProfileDBRegistrationMessageColumn = ''registration_message''"

definition UserProfileDBStateColumn :: string where
  "UserProfileDBStateColumn = ''state''"

definition UserProfileDBAPIKeyColumn :: string where
  "UserProfileDBAPIKeyColumn = ''apikey''"

definition UserProfileDBSerialKeyColumn :: string where
  "UserProfileDBSerialKeyColumn = ''serial_key''"

definition UserProfileDBPKeyColumn :: string where
  "UserProfileDBPKeyColumn = UserProfileDBIDColumn"

definition UserProfileDBDataColumns :: "string list" where
  "UserProfileDBDataColumns = [UserProfileDBEmailColumn,
     UserProfileDBIsManagerColumn,
     UserProfileDBNicknameColumn,
     UserProfileDBRegistrationMessageColumn,
     UserProfileDBStateColumn,
     UserProfileDBAPIKeyColumn,
     UserProfileDBSerialKeyColumn]"

definition UserProfileDB_AllColumns :: "string list" where
  "UserProfileDB_AllColumns = [UserProfileDBIDColumn] @ UserProfileDBDataColumns"

definition UserProfileDB_Columns :: "bool \<Rightarrow> string list" where
  "UserProfileDB_Columns withPKey = (if withPKey then UserProfileDB_AllColumns else UserProfileDBDataColumns)"

definition UserProfileDB_Values :: "UserProfileDB \<Rightarrow> string list \<Rightarrow> sql_value list" where
  "UserProfileDB_Values s columns = map (\<lambda>column.
     if column = ''email'' then VText (U_Email s)
     else if column = ''id'' then VText (U_ID s)
     else if column = ''is_manager'' then VBool (U_IsManager s)
     else if column = ''nickname'' then VText (U_Nickname s)
     else if column = ''registration_message'' then VOptText (U_RegistrationMessage s)
     else if column = ''state'' then VUserState (U_State s)
     else if column = ''apikey'' then VOptText (U_APIKey s)
     else if column = ''serial_key'' then VOptText (U_SerialKey s)
     else VNil) columns"

definition UserProfileDB_ValuesMap :: "UserProfileDB \<Rightarrow> string list \<Rightarrow> (string \<rightharpoonup> sql_value)" where
  "UserProfileDB_ValuesMap s columns = fold (\<lambda>column values.
     if column = ''email'' then values(''email'' \<mapsto> VText (U_Email s))
     else if column = ''id'' then values(''id'' \<mapsto> VText (U_ID s))
     else if column = ''is_manager'' then values(''is_manager'' \<mapsto> VBool (U_IsManager s))
     else if column = ''nickname'' then values(''nickname'' \<mapsto> VText (U_Nickname s))
     else if column = ''registration_message'' then values(''registration_message'' \<mapsto> VOptText (U_RegistrationMessage s))
     else if column = ''state'' then values(''state'' \<mapsto> VUserState (U_State s))
     else if column = ''apikey'' then values(''apikey'' \<mapsto> VOptText (U_APIKey s))
     else if column = ''serial_key'' then values(''serial_key'' \<mapsto> VOptText (U_SerialKey s))
     else values) columns Map.empty"

lemmas UserProfileDB_columns = UserProfileDBTable_def UserProfileDBEmailColumn_def UserProfileDBIDColumn_def UserProfileDBIsManagerColumn_def UserProfileDBNicknameColumn_def UserProfileDBRegistrationMessageColumn_def UserProfileDBStateColumn_def UserProfileDBAPIKeyColumn_def UserProfileDBSerialKeyColumn_def UserProfileDBPKeyColumn_def UserProfileDBDataColumns_def UserProfileDB_AllColumns_def UserProfileDB_Columns_def

definition UserProfileDB_fields :: "UserProfileDB \<Rightarrow> (string \<times> sql_value) list" where
  "UserProfileDB_fields s = [(''email'', VText (U_Email s)),
     (''id'', VText (U_ID s)),
     (''is_manager'', VBool (U_IsManager s)),
     (''nickname'', VText (U_Nickname s)),
     (''registration_message'', VOptText (U_RegistrationMessage s)),
     (''state'', VUserState (U_State s)),
     (''apikey'', VOptText (U_APIKey s)),
     (''serial_key'', VOptText (U_SerialKey s))]"

interpretation user_profile_row: switched UserProfileDBPKeyColumn UserProfileDB_Columns UserProfileDB_Values UserProfileDB_ValuesMap UserProfileDB_fields
proof unfold_locales
  fix r s :: UserProfileDB and cs c m
  show "UserProfileDB_Columns True = UserProfileDBPKeyColumn # UserProfileDB_Columns False" by (simp add: UserProfileDB_columns)
  show "distinct (UserProfileDB_Columns True)" by code_simp
  show "set (UserProfileDB_Columns True) = fst ` set (UserProfileDB_fields r)"
    by (simp add: UserProfileDB_columns UserProfileDB_fields_def insert_commute)
  show "map fst (UserProfileDB_fields r) = map fst (UserProfileDB_fields s)" by (simp add: UserProfileDB_fields_def)
  show "length (UserProfileDB_Columns True) = length (UserProfileDB_fields r)"
    by (simp add: UserProfileDB_columns UserProfileDB_fields_def)
  show "UserProfileDB_Values r cs = map (switch (UserProfileDB_fields r) VNil) cs"
    by (simp only: UserProfileDB_Values_def UserProfileDB_fields_def switch_eqs fst_conv snd_conv)
  show "UserProfileDB_ValuesMap r cs = fold (switch_map (UserProfileDB_fields r)) cs Map.empty"
    by (simp only: UserProfileDB_ValuesMap_def UserProfileDB_fields_def switch_map_eqs fst_conv snd_conv)
  show "r = s" if "map snd (UserProfileDB_fields r) = map snd (UserProfileDB_fields s)"
    using that by (cases r; cases s; simp add: UserProfileDB_fields_def)
qed

subsection \<open>UserProfileSessionRelDB\<close>

definition UserProfileSessionRelDBTable :: string where
  "UserProfileSessionRelDBTable = ''user_profile_session_rel''"

definition UserProfileSessionRelDBUserProfileIDColumn :: string where
  "UserProfileSessionRelDBUserProfileIDColumn = ''user_profile_id''"

definition UserProfileSessionRelDBSessionIDColumn :: string where
  "UserProfileSessionRelDBSessionIDColumn = ''session_id''"

definition UserProfileSessionRelDBIsManagerColumn :: string where
  "UserProfileSessionRelDBIsManagerColumn = ''is_manager''"

definition UserProfileSessionRelDBPKeyColumn :: string where
  "UserProfileSessionRelDBPKeyColumn = UserProfileSessionRelDBUserProfileIDColumn"

definition UserProfileSessionRelDBDataColumns :: "string list" where
  "UserProfileSessionRelDBDataColumns = [UserProfileSessionRelDBSessionIDColumn,
     UserProfileSessionRelDBIsManagerColumn]"

definition UserProfileSessionRelDB_AllColumns :: "string list" where
  "UserProfileSessionRelDB_AllColumns = [UserProfileSessionRelDBUserProfileIDColumn] @ UserProfileSessionRelDBDataColumns"

definition UserProfileSessionRelDB_Columns :: "bool \<Rightarrow> string list" where
  "UserProfileSessionRelDB_Columns withPKey = (if withPKey then UserProfileSessionRelDB_AllColumns else UserProfileSessionRelDBDataColumns)"

definition UserProfileSessionRelDB_Values :: "UserProfileSessionRelDB \<Rightarrow> string list \<Rightarrow> sql_value list" where
  "UserProfileSessionRelDB_Values s columns = map (\<lambda>column.
     if column = ''user_profile_id'' then VText (R_UserProfileID s)
     else if column = ''session_id'' then VText (R_SessionID s)
     else if column = ''is_manager'' then VBool (R_IsManager s)
     else VNil) columns"

definition UserProfileSessionRelDB_ValuesMap :: "UserProfileSessionRelDB \<Rightarrow> string list \<Rightarrow> (string \<rightharpoonup> sql_value)" where
  "UserProfileSessionRelDB_ValuesMap s columns = fold (\<lambda>column values.
     if column = ''user_profile_id'' then values(''user_profile_id'' \<mapsto> VText (R_UserProfileID s))
     else if column = ''session_id'' then values(''session_id'' \<mapsto> VText (R_SessionID s))
     else if column = ''is_manager'' then values(''is_manager'' \<mapsto> VBool (R_IsManager s))
     else values) columns Map.empty"

lemmas UserProfileSessionRelDB_columns = UserProfileSessionRelDBTable_def UserProfileSessionRelDBUserProfileIDColumn_def UserProfileSessionRelDBSessionIDColumn_def UserProfileSessionRelDBIsManagerColumn_def UserProfileSessionRelDBPKeyColumn_def UserProfileSessionRelDBDataColumns_def UserProfileSessionRelDB_AllColumns_def UserProfileSessionRelDB_Columns_def

definition UserProfileSessionRelDB_fields :: "UserProfileSessionRelDB \<Rightarrow> (string \<times> sql_value) list" where
  "UserProfileSessionRelDB_fields s = [(''user_profile_id'', VText (R_UserProfileID s)),
     (''session_id'', VText (R_SessionID s)),
     (''is_manager'', VBool (R_IsManager s))]"

interpretation user_profile_session_rel_row: switched UserProfileSessionRelDBPKeyColumn UserProfileSessionRelDB_Columns UserProfileSessionRelDB_Values UserProfileSessionRelDB_ValuesMap UserProfileSessionRelDB_fields
proof unfold_locales
  fix r s :: UserProfileSessionRelDB and cs c m
  show "UserProfileSessionRelDB_Columns True = UserProfileSessionRelDBPKeyColumn # UserProfileSessionRelDB_Columns False" by (simp add: UserProfileSessionRelDB_columns)
  show "distinct (UserProfileSessionRelDB_Columns True)" by code_simp
  show "set (UserProfileSessionRelDB_Columns True) = fst ` set (UserProfileSessionRelDB_fields r)"
    by (simp add: UserProfileSessionRelDB_columns UserProfileSessionRelDB_fields_def insert_commute)
  show "map fst (UserProfileSessionRelDB_fields r) = map fst (UserProfileSessionRelDB_fields s)" by (simp add: UserProfileSessionRelDB_fields_def)
  show "length (UserProfileSessionRelDB_Columns True) = length (UserProfileSessionRelDB_fields r)"
    by (simp add: UserProfileSessionRelDB_columns UserProfileSessionRelDB_fields_def)
  show "UserProfileSessionRelDB_Values r cs = map (switch (UserProfileSessionRelDB_fields r) VNil) cs"
    by (simp only: UserProfileSessionRelDB_Values_def UserProfileSessionRelDB_fields_def switch_eqs fst_conv snd_conv)
  show "UserProfileSessionRelDB_ValuesMap r cs = fold (switch_map (UserProfileSessionRelDB_fields r)) cs Map.empty"
    by (simp only: UserProfileSessionRelDB_ValuesMap_def UserProfileSessionRelDB_fields_def switch_map_eqs fst_conv snd_conv)
  show "r = s" if "map snd (UserProfileSessionRelDB_fields r) = map snd (UserProfileSessionRelDB_fields s)"
    using that by (cases r; cases s; simp add: UserProfileSessionRelDB_fields_def)
qed

end
