(* ===== verification/TableSchema.thy ===== *)
theory TableSchema
  imports Columns Users
begin

section \<open>Tables, columns and joins in statements\<close>

text \<open>
  The other half of \<open>models/db_helpers.go\<close>: the values \<open>models.Schema\<close> from which the handlers build
  the text of their queries. A \<open>TableSchema\<close> is a Go interface with two methods; its value here is
  their results. \<open>X_As\<close> and \<open>NewXTableSchema\<close> are the constructors of the schema of the rows \<open>X\<close>.
  At the end the statements that write some columns of a row are shown to be the updates of the
  model.
\<close>

subsection \<open>Column and Join\<close>

record TableSchema =
  GetName :: string
  Sql :: string

record Column =
  c_table :: TableSchema
  c_name :: string
  c_alias :: string

definition NewColumn :: "TableSchema \<Rightarrow> string \<Rightarrow> Column" where
  "NewColumn t name = \<lparr>c_table = t, c_name = name, c_alias = ''''\<rparr>"

definition Column_Sql :: "Column \<Rightarrow> string" where
  "Column_Sql c =
    (let sql = GetName (c_table c) @ ''.'' @ c_name c in
     if c_alias c \<noteq> '''' then sql @ '' AS '' @ c_alias c else sql)"

text \<open>No arguments and no error.\<close>

definition Column_ToSql :: "Column \<Rightarrow> string \<times> sql_value list \<times> err option" where
  "Column_ToSql c = (Column_Sql c, [], None)"

record Join =
  j_from :: Column
  j_to :: Column

definition Column_Join :: "Column \<Rightarrow> Column \<Rightarrow> Join" where
  "Column_Join c col = \<lparr>j_from = c, j_to = col\<rparr>"

text \<open>A comparison of the library squirrel: its type and the one entry of the map that it is.\<close>

datatype comparison = Eq | NotEq | Gt | GtOrEq | Lt | LtOrEq | Like | NotLike | ArrayContains

type_synonym condition = "comparison \<times> string \<times> sql_value"

definition Column_Eq :: "Column \<Rightarrow> sql_value \<Rightarrow> condition" where
  "Column_Eq c v = (Eq, Column_Sql c, v)"

definition Column_Ne :: "Column \<Rightarrow> sql_value \<Rightarrow> condition" where
  "Column_Ne c v = (NotEq, Column_Sql c, v)"

definition Column_Gt :: "Column \<Rightarrow> sql_value \<Rightarrow> condition" where
  "Column_Gt c v = (Gt, Column_Sql c, v)"

definition Column_Gte :: "Column \<Rightarrow> sql_value \<Rightarrow> condition" where
  "Column_Gte c v = (GtOrEq, Column_Sql c, v)"

definition Column_Lt :: "Column \<Rightarrow> sql_value \<Rightarrow> condition" where
  "Column_Lt c v = (Lt, Column_Sql c, v)"

definition Column_Lte :: "Column \<Rightarrow> sql_value \<Rightarrow> condition" where
  "Column_Lte c v = (LtOrEq, Column_Sql c, v)"

definition Column_Like :: "Column \<Rightarrow> sql_value \<Rightarrow> condition" where
  "Column_Like c v = (Like, Column_Sql c, v)"

definition Column_NotLike :: "Column \<Rightarrow> sql_value \<Rightarrow> condition" where
  "Column_NotLike c v = (NotLike, Column_Sql c, v)"

definition Column_ArrayContains :: "Column \<Rightarrow> sql_value \<Rightarrow> condition" where
  "Column_ArrayContains c v = (ArrayContains, Column_Sql c, v)"

definition Column_As :: "Column \<Rightarrow> string \<Rightarrow> Column" where
  "Column_As c name = c\<lparr>c_alias := name\<rparr>"

definition Column_Name :: "Column \<Rightarrow> string" where
  "Column_Name c =
    (if c_alias c \<noteq> '''' then c_alias c else GetName (c_table c) @ ''.'' @ c_name c)"

definition ColName :: "Column \<Rightarrow> string" where
  "ColName c = c_name c"

definition Join_Sql :: "Join \<Rightarrow> string" where
  "Join_Sql j =
    Sql (c_table (j_to j)) @ '' ON '' @ Column_Sql (j_to j) @ '' = '' @ Column_Sql (j_from j)"

lemmas column_text = NewColumn_def Column_Sql_def Column_Join_def Join_Sql_def

lemma Column_Sql_plain: "Column_Sql (NewColumn t name) = GetName t @ ''.'' @ name"
  by (simp add: column_text Let_def)

subsection \<open>InvitationDB\<close>

record InvitationDBTableSchema =
  InvitationDB_alias :: string
  InvitationDB_ID_column :: Column
  InvitationDB_InviterID_column :: Column
  InvitationDB_SessionID_column :: Column
  InvitationDB_UserProfileID_column :: Column

definition InvitationDB_table :: "string \<Rightarrow> TableSchema" where
  "InvitationDB_table alias =
    \<lparr>GetName = (if alias = '''' then InvitationDBTable else alias),
     Sql = (if alias = '''' then InvitationDBTable else InvitationDBTable @ '' AS '' @ alias)\<rparr>"

definition NewInvitationDBTableSchema :: InvitationDBTableSchema where
  "NewInvitationDBTableSchema = \<lparr>InvitationDB_alias = '''',
     InvitationDB_ID_column = NewColumn (InvitationDB_table '''') ''id'',
     InvitationDB_InviterID_column = NewColumn (InvitationDB_table '''') ''inviter_id'',
     InvitationDB_SessionID_column = NewColumn (InvitationDB_table '''') ''session_id'',
     InvitationDB_UserProfileID_column = NewColumn (InvitationDB_table '''') ''user_profile_id''\<rparr>"

definition InvitationDB_As :: "InvitationDBTableSchema \<Rightarrow> string \<Rightarrow> InvitationDBTableSchema" where
  "InvitationDB_As t name = t\<lparr>InvitationDB_alias := name,
     InvitationDB_ID_column := NewColumn (InvitationDB_table name) ''id'',
     InvitationDB_InviterID_column := NewColumn (InvitationDB_table name) ''inviter_id'',
     InvitationDB_SessionID_column := NewColumn (InvitationDB_table name) ''session_id'',
     InvitationDB_UserProfileID_column := NewColumn (InvitationDB_table name) ''user_profile_id''\<rparr>"

definition InvitationDB_FQColumns :: "InvitationDBTableSchema \<Rightarrow> bool \<Rightarrow> string list" where
  "InvitationDB_FQColumns t withPKey =
    map (\<lambda>col. GetName (InvitationDB_table (InvitationDB_alias t)) @ ''.'' @ col) (if withPKey then InvitationDB_AllColumns else InvitationDBDataColumns)"

definition InvitationDB_Select :: "InvitationDBTableSchema \<Rightarrow> string list \<times> string" where
  "InvitationDB_Select t = (InvitationDB_Columns True, Sql (InvitationDB_table (InvitationDB_alias t)))"

lemmas InvitationDB_schema = NewInvitationDBTableSchema_def InvitationDB_As_def InvitationDB_table_def InvitationDB_FQColumns_def InvitationDB_Select_def

subsection \<open>RaceDB\<close>

record RaceDBTableSchema =
  RaceDB_alias :: string
  RaceDB_Data_column :: Column
  RaceDB_ID_column :: Column
  RaceDB_NamePlural_column :: Column
  RaceDB_NameSingular_column :: Column
  RaceDB_UserID_column :: Column

definition RaceDB_table :: "string \<Rightarrow> TableSchema" where
  "RaceDB_table alias =
    \<lparr>GetName = (if alias = '''' then RaceDBTable else alias),
     Sql = (if alias = '''' then RaceDBTable else RaceDBTable @ '' AS '' @ alias)\<rparr>"

definition NewRaceDBTableSchema :: RaceDBTableSchema where
  "NewRaceDBTableSchema = \<lparr>RaceDB_alias = '''',
     RaceDB_Data_column = NewColumn (RaceDB_table '''') ''data'',
     RaceDB_ID_column = NewColumn (RaceDB_table '''') ''id'',
     RaceDB_NamePlural_column = NewColumn (RaceDB_table '''') ''name_plural'',
     RaceDB_NameSingular_column = NewColumn (RaceDB_table '''') ''name_singular'',
     RaceDB_UserID_column = NewColumn (RaceDB_table '''') ''user_id''\<rparr>"

definition RaceDB_As :: "RaceDBTableSchema \<Rightarrow> string \<Rightarrow> RaceDBTableSchema" where
  "RaceDB_As t name = t\<lparr>RaceDB_alias := name,
     RaceDB_Data_column := NewColumn (RaceDB_table name) ''data'',
     RaceDB_ID_column := NewColumn (RaceDB_table name) ''id'',
     RaceDB_NamePlural_column := NewColumn (RaceDB_table name) ''name_plural'',
     RaceDB_NameSingular_column := NewColumn (RaceDB_table name) ''name_singular'',
     RaceDB_UserID_column := NewColumn (RaceDB_table name) ''user_id''\<rparr>"

definition RaceDB_FQColumns :: "RaceDBTableSchema \<Rightarrow> bool \<Rightarrow> string list" where
  "RaceDB_FQColumns t withPKey =
    map (\<lambda>col. GetName (RaceDB_table (RaceDB_alias t)) @ ''.'' @ col) (if withPKey then RaceDB_AllColumns else RaceDBDataColumns)"

definition RaceDB_Select :: "RaceDBTableSchema \<Rightarrow> string list \<times> string" where
  "RaceDB_Select t = (RaceDB_Columns True, Sql (RaceDB_table (RaceDB_alias t)))"

lemmas RaceDB_schema = NewRaceDBTableSchema_def RaceDB_As_def RaceDB_table_def RaceDB_FQColumns_def RaceDB_Select_def

subsection \<open>RulesetDB\<close>

record RulesetDBTableSchema =
  RulesetDB_alias :: string
  RulesetDB_AcceleratedBbsPlay_column :: Column
  RulesetDB_ComputerPlayersFormAlliances_column :: Column
  RulesetDB_Density_column :: Column
  RulesetDB_GalaxyClumping_column :: Column
  RulesetDB_MaximumMinerals_column :: Column
  RulesetDB_NoRandomEvents_column :: Column
  RulesetDB_PublicPlayerScores_column :: Column
  RulesetDB_RandomSeed_column :: Column
  RulesetDB_SlowerTechAdvances_column :: Column
  RulesetDB_StartingDistance_column :: Column
  RulesetDB_UniverseSize_column :: Column
  RulesetDB_VcAtLeastxYearsMustPassBeforeaWinnerIsDeclared_column :: Column
  RulesetDB_VcAttainTechXInYField_column :: Column
  RulesetDB_VcAttainTechXInYFieldFieldsValue_column :: Column
  RulesetDB_VcAttainTechXInYFieldTechValue_column :: Column
  RulesetDB_VcExceedNextPlayerScoreByx_column :: Column
  RulesetDB_VcExceedNextPlayerScoreByxValue_column :: Column
  RulesetDB_VcExceedScoreOfx_column :: Column
  RulesetDB_VcExceedScoreOfxValue_column :: Column
  RulesetDB_VcHasProductionCapacityOfxThousand_column :: Column
  RulesetDB_VcHasProductionCapacityOfxThousandValue_column :: Column
  RulesetDB_VcHaveHighestScoreAfterxYears_column :: Column
  RulesetDB_VcHaveHighestScoreAfterxYearsValue_column :: Column
  RulesetDB_VcOwnsxCapitalShips_column :: Column
  RulesetDB_VcOwnsxCapitalShipsValue_column :: Column
  RulesetDB_VcOwnsxPercentOfPlanets_column :: Column
  RulesetDB_VcOwnsxPercentOfPlanetsValue_column :: Column
  RulesetDB_VcWinnerMustMeetxOfTheAbove_column :: Column
  RulesetDB_ID_column :: Column
  RulesetDB_SessionID_column :: Column

definition RulesetDB_table :: "string \<Rightarrow> TableSchema" where
  "RulesetDB_table alias =
    \<lparr>GetName = (if alias = '''' then RulesetDBTable else alias),
     Sql = (if alias = '''' then RulesetDBTable else RulesetDBTable @ '' AS '' @ alias)\<rparr>"

definition NewRulesetDBTableSchema :: RulesetDBTableSchema where
  "NewRulesetDBTableSchema = \<lparr>RulesetDB_alias = '''',
     RulesetDB_AcceleratedBbsPlay_column = NewColumn (RulesetDB_table '''') ''accelerated_bbs_play'',
     RulesetDB_ComputerPlayersFormAlliances_column = NewColumn (RulesetDB_table '''') ''computer_players_form_alliances'',
     RulesetDB_Density_column = NewColumn (RulesetDB_table '''') ''density'',
     RulesetDB_GalaxyClumping_column = NewColumn (RulesetDB_table '''') ''galaxy_clumping'',
     RulesetDB_MaximumMinerals_column = NewColumn (RulesetDB_table '''') ''maximum_minerals'',
     RulesetDB_NoRandomEvents_column = NewColumn (RulesetDB_table '''') ''no_random_events'',
     RulesetDB_PublicPlayerScores_column = NewColumn (RulesetDB_table '''') ''public_player_scores'',
     RulesetDB_RandomSeed_column = NewColumn (RulesetDB_table '''') ''random_seed'',
     RulesetDB_SlowerTechAdvances_column = NewColumn (RulesetDB_table '''') ''slower_tech_advances'',
     RulesetDB_StartingDistance_column = NewColumn (RulesetDB_table '''') ''starting_distance'',
     RulesetDB_UniverseSize_column = NewColumn (RulesetDB_table '''') ''universe_size'',
     RulesetDB_VcAtLeastxYearsMustPassBeforeaWinnerIsDeclared_column = NewColumn (RulesetDB_table '''') ''vc_at_least_x_years_must_pass_before_a_winner_is_declared'',
     RulesetDB_VcAttainTechXInYField_column = NewColumn (RulesetDB_table '''') ''vc_attain_tech_x_in_y_field'',
     RulesetDB_VcAttainTechXInYFieldFieldsValue_column = NewColumn (RulesetDB_table '''') ''vc_attain_tech_x_in_y_field_fields_value'',
     RulesetDB_VcAttainTechXInYFieldTechValue_column = NewColumn (RulesetDB_table '''') ''vc_attain_tech_x_in_y_field_tech_value'',
     RulesetDB_VcExceedNextPlayerScoreByx_column = NewColumn (RulesetDB_table '''') ''vc_exceed_next_player_score_by_x'',
     RulesetDB_VcExceedNextPlayerScoreByxValue_column = NewColumn (RulesetDB_table '''') ''vc_exceed_next_player_score_by_x_value'',
     RulesetDB_VcExceedScoreOfx_column = NewColumn (RulesetDB_table '''') ''vc_exceed_score_of_x'',
     RulesetDB_VcExceedScoreOfxValue_column = NewColumn (RulesetDB_table '''') ''vc_exceed_score_of_x_value'',
     RulesetDB_VcHasProductionCapacityOfxThousand_column = NewColumn (RulesetDB_table '''') ''vc_has_production_capacity_of_x_thousand'',
     RulesetDB_VcHasProductionCapacityOfxThousandValue_column = NewColumn (RulesetDB_table '''') ''vc_has_production_capacity_of_x_thousand_value'',
     RulesetDB_VcHaveHighestScoreAfterxYears_column = NewColumn (RulesetDB_table '''') ''vc_have_highest_score_after_x_years'',
     RulesetDB_VcHaveHighestScoreAfterxYearsValue_column = NewColumn (RulesetDB_table '''') ''vc_have_highest_score_after_x_years_value'',
     RulesetDB_VcOwnsxCapitalShips_column = NewColumn (RulesetDB_table '''') ''vc_owns_x_capital_ships'',
     RulesetDB_VcOwnsxCapitalShipsValue_column = NewColumn (RulesetDB_table '''') ''vc_owns_x_capital_ships_value'',
     RulesetDB_VcOwnsxPercentOfPlanets_column = NewColumn (RulesetDB_table '''') ''vc_owns_x_percent_of_planets'',
     RulesetDB_VcOwnsxPercentOfPlanetsValue_column = NewColumn (RulesetDB_table '''') ''vc_owns_x_percent_of_planets_value'',
     RulesetDB_VcWinnerMustMeetxOfTheAbove_column = NewColumn (RulesetDB_table '''') ''vc_winner_must_meet_x_of_the_above'',
     RulesetDB_ID_column = NewColumn (RulesetDB_table '''') ''id'',
     RulesetDB_SessionID_column = NewColumn (RulesetDB_table '''') ''session_id''\<rparr>"

definition RulesetDB_As :: "RulesetDBTableSchema \<Rightarrow> string \<Rightarrow> RulesetDBTableSchema" where
  "RulesetDB_As t name = t\<lparr>RulesetDB_alias := name,
     RulesetDB_AcceleratedBbsPlay_column := NewColumn (RulesetDB_table name) ''accelerated_bbs_play'',
     RulesetDB_ComputerPlayersFormAlliances_column := NewColumn (RulesetDB_table name) ''computer_players_form_alliances'',
     RulesetDB_Density_column := NewColumn (RulesetDB_table name) ''density'',
     RulesetDB_GalaxyClumping_column := NewColumn (RulesetDB_table name) ''galaxy_clumping'',
     RulesetDB_MaximumMinerals_column := NewColumn (RulesetDB_table name) ''maximum_minerals'',
     RulesetDB_NoRandomEvents_column := NewColumn (RulesetDB_table name) ''no_random_events'',
     RulesetDB_PublicPlayerScores_column := NewColumn (RulesetDB_table name) ''public_player_scores'',
     RulesetDB_RandomSeed_column := NewColumn (RulesetDB_table name) ''random_seed'',
     RulesetDB_SlowerTechAdvances_column := NewColumn (RulesetDB_table name) ''slower_tech_advances'',
     RulesetDB_StartingDistance_column := NewColumn (RulesetDB_table name) ''starting_distance'',
     RulesetDB_UniverseSize_column := NewColumn (RulesetDB_table name) ''universe_size'',
     RulesetDB_VcAtLeastxYearsMustPassBeforeaWinnerIsDeclared_column := NewColumn (RulesetDB_table name) ''vc_at_least_x_years_must_pass_before_a_winner_is_declared'',
     RulesetDB_VcAttainTechXInYField_column := NewColumn (RulesetDB_table name) ''vc_attain_tech_x_in_y_field'',
     RulesetDB_VcAttainTechXInYFieldFieldsValue_column := NewColumn (RulesetDB_table name) ''vc_attain_tech_x_in_y_field_fields_value'',
     RulesetDB_VcAttainTechXInYFieldTechValue_column := NewColumn (RulesetDB_table name) ''vc_attain_tech_x_in_y_field_tech_value'',
     RulesetDB_VcExceedNextPlayerScoreByx_column := NewColumn (RulesetDB_table name) ''vc_exceed_next_player_score_by_x'',
     RulesetDB_VcExceedNextPlayerScoreByxValue_column := NewColumn (RulesetDB_table name) ''vc_exceed_next_player_score_by_x_value'',
     RulesetDB_VcExceedScoreOfx_column := NewColumn (RulesetDB_table name) ''vc_exceed_score_of_x'',
     RulesetDB_VcExceedScoreOfxValue_column := NewColumn (RulesetDB_table name) ''vc_exceed_score_of_x_value'',
     RulesetDB_VcHasProductionCapacityOfxThousand_column := NewColumn (RulesetDB_table name) ''vc_has_production_capacity_of_x_thousand'',
     RulesetDB_VcHasProductionCapacityOfxThousandValue_column := NewColumn (RulesetDB_table name) ''vc_has_production_capacity_of_x_thousand_value'',
     RulesetDB_VcHaveHighestScoreAfterxYears_column := NewColumn (RulesetDB_table name) ''vc_have_highest_score_after_x_years'',
     RulesetDB_VcHaveHighestScoreAfterxYearsValue_column := NewColumn (RulesetDB_table name) ''vc_have_highest_score_after_x_years_value'',
     RulesetDB_VcOwnsxCapitalShips_column := NewColumn (RulesetDB_table name) ''vc_owns_x_capital_ships'',
     RulesetDB_VcOwnsxCapitalShipsValue_column := NewColumn (RulesetDB_table name) ''vc_owns_x_capital_ships_value'',
     RulesetDB_VcOwnsxPercentOfPlanets_column := NewColumn (RulesetDB_table name) ''vc_owns_x_percent_of_planets'',
     RulesetDB_VcOwnsxPercentOfPlanetsValue_column := NewColumn (RulesetDB_table name) ''vc_owns_x_percent_of_planets_value'',
     RulesetDB_VcWinnerMustMeetxOfTheAbove_column := NewColumn (RulesetDB_table name) ''vc_winner_must_meet_x_of_the_above'',
     RulesetDB_ID_column := NewColumn (RulesetDB_table name) ''id'',
     RulesetDB_SessionID_column := NewColumn (RulesetDB_table name) ''session_id''\<rparr>"

definition RulesetDB_FQColumns :: "RulesetDBTableSchema \<Rightarrow> bool \<Rightarrow> string list" where
  "RulesetDB_FQColumns t withPKey =
    map (\<lambda>col. GetName (RulesetDB_table (RulesetDB_alias t)) @ ''.'' @ col) (if withPKey then RulesetDB_AllColumns else RulesetDBDataColumns)"

definition RulesetDB_Select :: "RulesetDBTableSchema \<Rightarrow> string list \<times> string" where
  "RulesetDB_Select t = (RulesetDB_Columns True, Sql (RulesetDB_table (RulesetDB_alias t)))"

lemmas RulesetDB_schema = NewRulesetDBTableSchema_def RulesetDB_As_def RulesetDB_table_def RulesetDB_FQColumns_def RulesetDB_Select_def

subsection \<open>SerialKeyDB\<close>

record SerialKeyDBTableSchema =
  SerialKeyDB_alias :: string
  SerialKeyDB_Key_column :: Column
  SerialKeyDB_UserProfileID_column :: Column
  SerialKeyDB_AssignedAt_column :: Column

definition SerialKeyDB_table :: "string \<Rightarrow> TableSchema" where
  "SerialKeyDB_table alias =
    \<lparr>GetName = (if alias = '''' then SerialKeyDBTable else alias),
     Sql = (if alias = '''' then SerialKeyDBTable else SerialKeyDBTable @ '' AS '' @ alias)\<rparr>"

definition NewSerialKeyDBTableSchema :: SerialKeyDBTableSchema where
  "NewSerialKeyDBTableSchema = \<lparr>SerialKeyDB_alias = '''',
     SerialKeyDB_Key_column = NewColumn (SerialKeyDB_table '''') ''key'',
     SerialKeyDB_UserProfileID_column = NewColumn (SerialKeyDB_table '''') ''user_profile_id'',
     SerialKeyDB_AssignedAt_column = NewColumn (SerialKeyDB_table '''') ''assigned_at''\<rparr>"

definition SerialKeyDB_As :: "SerialKeyDBTableSchema \<Rightarrow> string \<Rightarrow> SerialKeyDBTableSchema" where
  "SerialKeyDB_As t name = t\<lparr>SerialKeyDB_alias := name,
     SerialKeyDB_Key_column := NewColumn (SerialKeyDB_table name) ''key'',
     SerialKeyDB_UserProfileID_column := NewColumn (SerialKeyDB_table name) ''user_profile_id'',
     SerialKeyDB_AssignedAt_column := NewColumn (SerialKeyDB_table name) ''assigned_at''\<rparr>"

definition SerialKeyDB_FQColumns :: "SerialKeyDBTableSchema \<Rightarrow> bool \<Rightarrow> string list" where
  "SerialKeyDB_FQColumns t withPKey =
    map (\<lambda>col. GetName (SerialKeyDB_table (SerialKeyDB_alias t)) @ ''.'' @ col) (if withPKey then SerialKeyDB_AllColumns else SerialKeyDBDataColumns)"

definition SerialKeyDB_Select :: "SerialKeyDBTableSchema \<Rightarrow> string list \<times> string" where
  "SerialKeyDB_Select t = (SerialKeyDB_Columns True, Sql (SerialKeyDB_table (SerialKeyDB_alias t)))"

lemmas SerialKeyDB_schema = NewSerialKeyDBTableSchema_def SerialKeyDB_As_def SerialKeyDB_table_def SerialKeyDB_FQColumns_def SerialKeyDB_Select_def

subsection \<open>SessionDB\<close>

record SessionDBTableSchema =
  SessionDB_alias :: string
  SessionDB_ID_column :: Column
  SessionDB_Name_column :: Column
  SessionDB_Private_column :: Column
  SessionDB_RulesIsSet_column :: Column
  SessionDB_State_column :: Column
  SessionDB_RulesetID_column :: Column

definition SessionDB_table :: "string \<Rightarrow> TableSchema" where
  "SessionDB_table alias =
    \<lparr>GetName = (if alias = '''' then SessionDBTable else alias),
     Sql = (if alias = '''' then SessionDBTable else SessionDBTable @ '' AS '' @ alias)\<rparr>"

definition NewSessionDBTableSchema :: SessionDBTableSchema where
  "NewSessionDBTableSchema = \<lparr>SessionDB_alias = '''',
     SessionDB_ID_column = NewColumn (SessionDB_table '''') ''id'',
     SessionDB_Name_column = NewColumn (SessionDB_table '''') ''name'',
     SessionDB_Private_column = NewColumn (SessionDB_table '''') ''private'',
     SessionDB_RulesIsSet_column = NewColumn (SessionDB_table '''') ''rules_is_set'',
     SessionDB_State_column = NewColumn (SessionDB_table '''') ''state'',
     SessionDB_RulesetID_column = NewColumn (SessionDB_table '''') ''ruleset_id''\<rparr>"

definition SessionDB_As :: "SessionDBTableSchema \<Rightarrow> string \<Rightarrow> SessionDBTableSchema" where
  "SessionDB_As t name = t\<lparr>SessionDB_alias := name,
     SessionDB_ID_column := NewColumn (SessionDB_table name) ''id'',
     SessionDB_Name_column := NewColumn (SessionDB_table name) ''name'',
     SessionDB_Private_column := NewColumn (SessionDB_table name) ''private'',
     SessionDB_RulesIsSet_column := NewColumn (SessionDB_table name) ''rules_is_set'',
     SessionDB_State_column := NewColumn (SessionDB_table name) ''state'',
     SessionDB_RulesetID_column := NewColumn (SessionDB_table name) ''ruleset_id''\<rparr>"

definition SessionDB_FQColumns :: "SessionDBTableSchema \<Rightarrow> bool \<Rightarrow> string list" where
  "SessionDB_FQColumns t withPKey =
    map (\<lambda>col. GetName (SessionDB_table (SessionDB_alias t)) @ ''.'' @ col) (if withPKey then SessionDB_AllColumns else SessionDBDataColumns)"

definition SessionDB_Select :: "SessionDBTableSchema \<Rightarrow> string list \<times> string" where
  "SessionDB_Select t = (SessionDB_Columns True, Sql (SessionDB_table (SessionDB_alias t)))"

lemmas SessionDB_schema = NewSessionDBTableSchema_def SessionDB_As_def SessionDB_table_def SessionDB_FQColumns_def SessionDB_Select_def

subsection \<open>SessionFilesDB\<close>

record SessionFilesDBTableSchema =
  SessionFilesDB_alias :: string
  SessionFilesDB_HostFile_column :: Column
  SessionFilesDB_ID_column :: Column
  SessionFilesDB_Orders_column :: Column
  SessionFilesDB_SessionID_column :: Column
  SessionFilesDB_Turns_column :: Column
  SessionFilesDB_Universe_column :: Column
  SessionFilesDB_Year_column :: Column

definition SessionFilesDB_table :: "string \<Rightarrow> TableSchema" where
  "SessionFilesDB_table alias =
    \<lparr>GetName = (if alias = '''' then SessionFilesDBTable else alias),
     Sql = (if alias = '''' then SessionFilesDBTable else SessionFilesDBTable @ '' AS '' @ alias)\<rparr>"

definition NewSessionFilesDBTableSchema :: SessionFilesDBTableSchema where
  "NewSessionFilesDBTableSchema = \<lparr>SessionFilesDB_alias = '''',
     SessionFilesDB_HostFile_column = NewColumn (SessionFilesDB_table '''') ''hostfile'',
     SessionFilesDB_ID_column = NewColumn (SessionFilesDB_table '''') ''id'',
     SessionFilesDB_Orders_column = NewColumn (SessionFilesDB_table '''') ''orders'',
     SessionFilesDB_SessionID_column = NewColumn (SessionFilesDB_table '''') ''session_id'',
     SessionFilesDB_Turns_column = NewColumn (SessionFilesDB_table '''') ''turns'',
     SessionFilesDB_Universe_column = NewColumn (SessionFilesDB_table '''') ''universe'',
     SessionFilesDB_Year_column = NewColumn (SessionFilesDB_table '''') ''year''\<rparr>"

definition SessionFilesDB_As :: "SessionFilesDBTableSchema \<Rightarrow> string \<Rightarrow> SessionFilesDBTableSchema" where
  "SessionFilesDB_As t name = t\<lparr>SessionFilesDB_alias := name,
     SessionFilesDB_HostFile_column := NewColumn (SessionFilesDB_table name) ''hostfile'',
     SessionFilesDB_ID_column := NewColumn (SessionFilesDB_table name) ''id'',
     SessionFilesDB_Orders_column := NewColumn (SessionFilesDB_table name) ''orders'',
     SessionFilesDB_SessionID_column := NewColumn (SessionFilesDB_table name) ''session_id'',
     SessionFilesDB_Turns_column := NewColumn (SessionFilesDB_table name) ''turns'',
     SessionFilesDB_Universe_column := NewColumn (SessionFilesDB_table name) ''universe'',
     SessionFilesDB_Year_column := NewColumn (SessionFilesDB_table name) ''year''\<rparr>"

definition SessionFilesDB_FQColumns :: "SessionFilesDBTableSchema \<Rightarrow> bool \<Rightarrow> string list" where
  "SessionFilesDB_FQColumns t withPKey =
    map (\<lambda>col. GetName (SessionFilesDB_table (SessionFilesDB_alias t)) @ ''.'' @ col) (if withPKey then SessionFilesDB_AllColumns else SessionFilesDBDataColumns)"

definition SessionFilesDB_Select :: "SessionFilesDBTableSchema \<Rightarrow> string list \<times> string" where
  "SessionFilesDB_Select t = (SessionFilesDB_Columns True, Sql (SessionFilesDB_table (SessionFilesDB_alias t)))"

lemmas SessionFilesDB_schema = NewSessionFilesDBTableSchema_def SessionFilesDB_As_def SessionFilesDB_table_def SessionFilesDB_FQColumns_def SessionFilesDB_Select_def

subsection \<open>SessionPlayerRaceDB\<close>

record SessionPlayerRaceDBTableSchema =
  SessionPlayerRaceDB_alias :: string
  SessionPlayerRaceDB_BotLevel_column :: Column
  SessionPlayerRaceDB_ID_column :: Column
  SessionPlayerRaceDB_IsBot_column :: Column
  SessionPlayerRaceDB_PlayerOrder_column :: Column
  SessionPlayerRaceDB_RaceID_column :: Column
  SessionPlayerRaceDB_Ready_column :: Column
  SessionPlayerRaceDB_SessionID_column :: Column
  SessionPlayerRaceDB_UserProfileID_column :: Column
  SessionPlayerRaceDB_AIControlType_column :: Column

definition SessionPlayerRaceDB_table :: "string \<Rightarrow> TableSchema" where
  "SessionPlayerRaceDB_table alias =
    \<lparr>GetName = (if alias = '''' then SessionPlayerRaceDBTable else alias),
     Sql = (if alias = '''' then SessionPlayerRaceDBTable else SessionPlayerRaceDBTable @ '' AS '' @ alias)\<rparr>"

definition NewSessionPlayerRaceDBTableSchema :: SessionPlayerRaceDBTableSchema where
  "NewSessionPlayerRaceDBTableSchema = \<lparr>SessionPlayerRaceDB_alias = '''',
     SessionPlayerRaceDB_BotLevel_column = NewColumn (SessionPlayerRaceDB_table '''') ''bot_level'',
     SessionPlayerRaceDB_ID_column = NewColumn (SessionPlayerRaceDB_table '''') ''id'',
     SessionPlayerRaceDB_IsBot_column = NewColumn (SessionPlayerRaceDB_table '''') ''is_bot'',
     SessionPlayerRaceDB_PlayerOrder_column = NewColumn (SessionPlayerRaceDB_table '''') ''player_order'',
     SessionPlayerRaceDB_RaceID_column = NewColumn (SessionPlayerRaceDB_table '''') ''race_id'',
     SessionPlayerRaceDB_Ready_column = NewColumn (SessionPlayerRaceDB_table '''') ''ready'',
     SessionPlayerRaceDB_SessionID_column = NewColumn (SessionPlayerRaceDB_table '''') ''session_id'',
     SessionPlayerRaceDB_UserProfileID_column = NewColumn (SessionPlayerRaceDB_table '''') ''user_profile_id'',
     SessionPlayerRaceDB_AIControlType_column = NewColumn (SessionPlayerRaceDB_table '''') ''ai_control_type''\<rparr>"

definition SessionPlayerRaceDB_As :: "SessionPlayerRaceDBTableSchema \<Rightarrow> string \<Rightarrow> SessionPlayerRaceDBTableSchema" where
  "SessionPlayerRaceDB_As t name = t\<lparr>SessionPlayerRaceDB_alias := name,
     SessionPlayerRaceDB_BotLevel_column := NewColumn (SessionPlayerRaceDB_table name) ''bot_level'',
     SessionPlayerRaceDB_ID_column := NewColumn (SessionPlayerRaceDB_table name) ''id'',
     SessionPlayerRaceDB_IsBot_column := NewColumn (SessionPlayerRaceDB_table name) ''is_bot'',
     SessionPlayerRaceDB_PlayerOrder_column := NewColumn (SessionPlayerRaceDB_table name) ''player_order'',
     SessionPlayerRaceDB_RaceID_column := NewColumn (SessionPlayerRaceDB_table name) ''race_id'',
     SessionPlayerRaceDB_Ready_column := NewColumn (SessionPlayerRaceDB_table name) ''ready'',
     SessionPlayerRaceDB_SessionID_column := NewColumn (SessionPlayerRaceDB_table name) ''session_id'',
     SessionPlayerRaceDB_UserProfileID_column := NewColumn (SessionPlayerRaceDB_table name) ''user_profile_id'',
     SessionPlayerRaceDB_AIControlType_column := NewColumn (SessionPlayerRaceDB_table name) ''ai_control_type''\<rparr>"

definition SessionPlayerRaceDB_FQColumns :: "SessionPlayerRaceDBTableSchema \<Rightarrow> bool \<Rightarrow> string list" where
  "SessionPlayerRaceDB_FQColumns t withPKey =
    map (\<lambda>col. GetName (SessionPlayerRaceDB_table (SessionPlayerRaceDB_alias t)) @ ''.'' @ col) (if withPKey then SessionPlayerRaceDB_AllColumns else SessionPlayerRaceDBDataColumns)"

definition SessionPlayerRaceDB_Select :: "SessionPlayerRaceDBTableSchema \<Rightarrow> string list \<times> string" where
  "SessionPlayerRaceDB_Select t = (SessionPlayerRaceDB_Columns True, Sql (SessionPlayerRaceDB_table (SessionPlayerRaceDB_alias t)))"

lemmas SessionPlayerRaceDB_schema = NewSessionPlayerRaceDBTableSchema_def SessionPlayerRaceDB_As_def SessionPlayerRaceDB_table_def SessionPlayerRaceDB_FQColumns_def SessionPlayerRaceDB_Select_def

subsection \<open>UserProfileDB\<close>

record UserProfileDBTableSchema =
  UserProfileDB_alias :: string
  UserProfileDB_Email_column :: Column
  UserProfileDB_ID_column :: Column
  UserProfileDB_IsManager_column :: Column
  UserProfileDB_Nickname_column :: Column
  UserProfileDB_RegistrationMessage_column :: Column
  UserProfileDB_State_column :: Column
  UserProfileDB_APIKey_column :: Column
  UserProfileDB_SerialKey_column :: Column

definition UserProfileDB_table :: "string \<Rightarrow> TableSchema" where
  "UserProfileDB_table alias =
    \<lparr>GetName = (if alias = '''' then UserProfileDBTable else alias),
     Sql = (if alias = '''' then UserProfileDBTable else UserProfileDBTable @ '' AS '' @ alias)\<rparr>"

definition NewUserProfileDBTableSchema :: UserProfileDBTableSchema where
  "NewUserProfileDBTableSchema = \<lparr>UserProfileDB_alias = '''',
     UserProfileDB_Email_column = NewColumn (UserProfileDB_table '''') ''email'',
     UserProfileDB_ID_column = NewColumn (UserProfileDB_table '''') ''id'',
     UserProfileDB_IsManager_column = NewColumn (UserProfileDB_table '''') ''is_manager'',
     UserProfileDB_Nickname_column = NewColumn (UserProfileDB_table '''') ''nickname'',
     UserProfileDB_RegistrationMessage_column = NewColumn (UserProfileDB_table '''') ''registration_message'',
     UserProfileDB_State_column = NewColumn (UserProfileDB_table '''') ''state'',
     UserProfileDB_APIKey_column = NewColumn (UserProfileDB_table '''') ''apikey'',
     UserProfileDB_SerialKey_column = NewColumn (UserProfileDB_table '''') ''serial_key''\<rparr>"

definition UserProfileDB_As :: "UserProfileDBTableSchema \<Rightarrow> string \<Rightarrow> UserProfileDBTableSchema" where
  "UserProfileDB_As t name = t\<lparr>UserProfileDB_alias := name,
     UserProfileDB_Email_column := NewColumn (UserProfileDB_table name) ''email'',
     UserProfileDB_ID_column := NewColumn (UserProfileDB_table name) ''id'',
     UserProfileDB_IsManager_column := NewColumn (UserProfileDB_table name) ''is_manager'',
     UserProfileDB_Nickname_column := NewColumn (UserProfileDB_table name) ''nickname'',
     UserProfileDB_RegistrationMessage_column := NewColumn (UserProfileDB_table name) ''registration_message'',
     UserProfileDB_State_column := NewColumn (UserProfileDB_table name) ''state'',
     UserProfileDB_APIKey_column := NewColumn (UserProfileDB_table name) ''apikey'',
     UserProfileDB_SerialKey_column := NewColumn (UserProfileDB_table name) ''serial_key''\<rparr>"

definition UserProfileDB_FQColumns :: "UserProfileDBTableSchema \<Rightarrow> bool \<Rightarrow> string list" where
  "UserProfileDB_FQColumns t withPKey =
    map (\<lambda>col. GetName (UserProfileDB_table (UserProfileDB_alias t)) @ ''.'' @ col) (if withPKey then UserProfileDB_AllColumns else UserProfileDBDataColumns)"

definition UserProfileDB_Select :: "UserProfileDBTableSchema \<Rightarrow> string list \<times> string" where
  "UserProfileDB_Select t = (UserProfileDB_Columns True, Sql (UserProfileDB_table (UserProfileDB_alias t)))"

lemmas UserProfileDB_schema = NewUserProfileDBTableSchema_def UserProfileDB_As_def UserProfileDB_table_def UserProfileDB_FQColumns_def UserProfileDB_Select_def

subsection \<open>UserProfileSessionRelDB\<close>

record UserProfileSessionRelDBTableSchema =
  UserProfileSessionRelDB_alias :: string
  UserProfileSessionRelDB_UserProfileID_column :: Column
  UserProfileSessionRelDB_SessionID_column :: Column
  UserProfileSessionRelDB_IsManager_column :: Column

definition UserProfileSessionRelDB_table :: "string \<Rightarrow> TableSchema" where
  "UserProfileSessionRelDB_table alias =
    \<lparr>GetName = (if alias = '''' then UserProfileSessionRelDBTable else alias),
     Sql = (if alias = '''' then UserProfileSessionRelDBTable else UserProfileSessionRelDBTable @ '' AS '' @ alias)\<rparr>"

definition NewUserProfileSessionRelDBTableSchema :: UserProfileSessionRelDBTableSchema where
  "NewUserProfileSessionRelDBTableSchema = \<lparr>UserProfileSessionRelDB_alias = '''',
     UserProfileSessionRelDB_UserProfileID_column = NewColumn (UserProfileSessionRelDB_table '''') ''user_profile_id'',
     UserProfileSessionRelDB_SessionID_column = NewColumn (UserProfileSessionRelDB_table '''') ''session_id'',
     UserProfileSessionRelDB_IsManager_column = NewColumn (UserProfileSessionRelDB_table '''') ''is_manager''\<rparr>"

definition UserProfileSessionRelDB_As :: "UserProfileSessionRelDBTableSchema \<Rightarrow> string \<Rightarrow> UserProfileSessionRelDBTableSchema" where
  "UserProfileSessionRelDB_As t name = t\<lparr>UserProfileSessionRelDB_alias := name,
     UserProfileSessionRelDB_UserProfileID_column := NewColumn (UserProfileSessionRelDB_table name) ''user_profile_id'',
     UserProfileSessionRelDB_SessionID_column := NewColumn (UserProfileSessionRelDB_table name) ''session_id'',
     UserProfileSessionRelDB_IsManager_column := NewColumn (UserProfileSessionRelDB_table name) ''is_manager''\<rparr>"

definition UserProfileSessionRelDB_FQColumns :: "UserProfileSessionRelDBTableSchema \<Rightarrow> bool \<Rightarrow> string list" where
  "UserProfileSessionRelDB_FQColumns t withPKey =
    map (\<lambda>col. GetName (UserProfileSessionRelDB_table (UserProfileSessionRelDB_alias t)) @ ''.'' @ col) (if withPKey then UserProfileSessionRelDB_AllColumns else UserProfileSessionRelDBDataColumns)"

definition UserProfileSessionRelDB_Select :: "UserProfileSessionRelDBTableSchema \<Rightarrow> string list \<times> string" where
  "UserProfileSessionRelDB_Select t = (UserProfileSessionRelDB_Columns True, Sql (UserProfileSessionRelDB_table (UserProfileSessionRelDB_alias t)))"

lemmas UserProfileSessionRelDB_schema = NewUserProfileSessionRelDBTableSchema_def UserProfileSessionRelDB_As_def UserProfileSessionRelDB_table_def UserProfileSessionRelDB_FQColumns_def UserProfileSessionRelDB_Select_def

subsection \<open>The schemas\<close>

text \<open>
  What the schemas share: after \<open>As\<close> the columns are those of the table under the new name, however
  often the schema was renamed before.
\<close>

locale table_schema =
  fixes new :: 't
    and as :: "'t \<Rightarrow> string \<Rightarrow> 't"
    and alias_of :: "'t \<Rightarrow> string"
    and named :: "string \<Rightarrow> TableSchema"
    and columns :: "'t \<Rightarrow> Column list"
    and names :: "string list"
    and FQColumns :: "'t \<Rightarrow> bool \<Rightarrow> string list"
  assumes as_as: "as (as t a) b = as t b"
    and as_nothing: "as new '''' = new"
    and alias_as: "alias_of (as t a) = a"
    and columns_as: "columns (as t a) = map (NewColumn (named a)) names"
    and FQColumns_all: "set (FQColumns t True) = (\<lambda>col. GetName (named (alias_of t)) @ ''.'' @ col) ` set names"
begin

text \<open>The texts of the columns of a schema are its qualified columns.\<close>

lemma columns_are_qualified: "set (map Column_Sql (columns (as t a))) = set (FQColumns (as t a) True)"
  by (auto simp: columns_as FQColumns_all alias_as Column_Sql_plain)

lemma columns_of_new: "columns new = map (NewColumn (named '''')) names"
  by (metis as_nothing columns_as)

end

definition InvitationDB_schema_columns :: "InvitationDBTableSchema \<Rightarrow> Column list" where
  "InvitationDB_schema_columns t = [InvitationDB_ID_column t,
     InvitationDB_InviterID_column t,
     InvitationDB_SessionID_column t,
     InvitationDB_UserProfileID_column t]"

interpretation invitation_schema: table_schema NewInvitationDBTableSchema InvitationDB_As InvitationDB_alias InvitationDB_table InvitationDB_schema_columns
  "[''id'', ''inviter_id'', ''session_id'', ''user_profile_id'']" InvitationDB_FQColumns
proof unfold_locales
  fix t :: InvitationDBTableSchema and a b
  show "InvitationDB_As (InvitationDB_As t a) b = InvitationDB_As t b" by (simp add: InvitationDB_As_def)
  show "InvitationDB_As NewInvitationDBTableSchema '''' = NewInvitationDBTableSchema"
    by (simp add: InvitationDB_As_def NewInvitationDBTableSchema_def)
  show "InvitationDB_alias (InvitationDB_As t a) = a" by (simp add: InvitationDB_As_def)
  show "InvitationDB_schema_columns (InvitationDB_As t a) = map (NewColumn (InvitationDB_table a)) [''id'', ''inviter_id'', ''session_id'', ''user_profile_id'']"
    by (simp add: InvitationDB_schema_columns_def InvitationDB_As_def)
  have "set InvitationDB_AllColumns = set [''id'', ''inviter_id'', ''session_id'', ''user_profile_id'']" by (simp add: InvitationDB_columns insert_commute)
  then show "set (InvitationDB_FQColumns t True) =
      (\<lambda>col. GetName (InvitationDB_table (InvitationDB_alias t)) @ ''.'' @ col) ` set [''id'', ''inviter_id'', ''session_id'', ''user_profile_id'']"
    by (simp only: InvitationDB_FQColumns_def set_map if_True)
qed

definition RaceDB_schema_columns :: "RaceDBTableSchema \<Rightarrow> Column list" where
  "RaceDB_schema_columns t = [RaceDB_Data_column t,
     RaceDB_ID_column t,
     RaceDB_NamePlural_column t,
     RaceDB_NameSingular_column t,
     RaceDB_UserID_column t]"

interpretation race_schema: table_schema NewRaceDBTableSchema RaceDB_As RaceDB_alias RaceDB_table RaceDB_schema_columns
  "[''data'', ''id'', ''name_plural'', ''name_singular'', ''user_id'']" RaceDB_FQColumns
proof unfold_locales
  fix t :: RaceDBTableSchema and a b
  show "RaceDB_As (RaceDB_As t a) b = RaceDB_As t b" by (simp add: RaceDB_As_def)
  show "RaceDB_As NewRaceDBTableSchema '''' = NewRaceDBTableSchema"
    by (simp add: RaceDB_As_def NewRaceDBTableSchema_def)
  show "RaceDB_alias (RaceDB_As t a) = a" by (simp add: RaceDB_As_def)
  show "RaceDB_schema_columns (RaceDB_As t a) = map (NewColumn (RaceDB_table a)) [''data'', ''id'', ''name_plural'', ''name_singular'', ''user_id'']"
    by (simp add: RaceDB_schema_columns_def RaceDB_As_def)
  have "set RaceDB_AllColumns = set [''data'', ''id'', ''name_plural'', ''name_singular'', ''user_id'']" by (simp add: RaceDB_columns insert_commute)
  then show "set (RaceDB_FQColumns t True) =
      (\<lambda>col. GetName (RaceDB_table (RaceDB_alias t)) @ ''.'' @ col) ` set [''data'', ''id'', ''name_plural'', ''name_singular'', ''user_id'']"
    by (simp only: RaceDB_FQColumns_def set_map if_True)
qed

definition RulesetDB_schema_columns :: "RulesetDBTableSchema \<Rightarrow> Column list" where
  "RulesetDB_schema_columns t = [RulesetDB_AcceleratedBbsPlay_column t,
     RulesetDB_ComputerPlayersFormAlliances_column t,
     RulesetDB_Density_column t,
     RulesetDB_GalaxyClumping_column t,
     RulesetDB_MaximumMinerals_column t,
     RulesetDB_NoRandomEvents_column t,
     RulesetDB_PublicPlayerScores_column t,
     RulesetDB_RandomSeed_column t,
     RulesetDB_SlowerTechAdvances_column t,
     RulesetDB_StartingDistance_column t,
     RulesetDB_UniverseSize_column t,
     RulesetDB_VcAtLeastxYearsMustPassBeforeaWinnerIsDeclared_column t,
     RulesetDB_VcAttainTechXInYField_column t,
     RulesetDB_VcAttainTechXInYFieldFieldsValue_column t,
     RulesetDB_VcAttainTechXInYFieldTechValue_column t,
     RulesetDB_VcExceedNextPlayerScoreByx_column t,
     RulesetDB_VcExceedNextPlayerScoreByxValue_column t,
     RulesetDB_VcExceedScoreOfx_column t,
     RulesetDB_VcExceedScoreOfxValue_column t,
     RulesetDB_VcHasProductionCapacityOfxThousand_column t,
     RulesetDB_VcHasProductionCapacityOfxThousandValue_column t,
     RulesetDB_VcHaveHighestScoreAfterxYears_column t,
     RulesetDB_VcHaveHighestScoreAfterxYearsValue_column t,
     RulesetDB_VcOwnsxCapitalShips_column t,
     RulesetDB_VcOwnsxCapitalShipsValue_column t,
     RulesetDB_VcOwnsxPercentOfPlanets_column t,
     RulesetDB_VcOwnsxPercentOfPlanetsValue_column t,
     RulesetDB_VcWinnerMustMeetxOfTheAbove_column t,
     RulesetDB_ID_column t,
     RulesetDB_SessionID_column t]"

interpretation ruleset_schema: table_schema NewRulesetDBTableSchema RulesetDB_As RulesetDB_alias RulesetDB_table RulesetDB_schema_columns
  "[''accelerated_bbs_play'', ''computer_players_form_alliances'', ''density'', ''galaxy_clumping'', ''maximum_minerals'', ''no_random_events'', ''public_player_scores'', ''random_seed'', ''slower_tech_advances'', ''starting_distance'', ''universe_size'', ''vc_at_least_x_years_must_pass_before_a_winner_is_declared'', ''vc_attain_tech_x_in_y_field'', ''vc_attain_tech_x_in_y_field_fields_value'', ''vc_attain_tech_x_in_y_field_tech_value'', ''vc_exceed_next_player_score_by_x'', ''vc_exceed_next_player_score_by_x_value'', ''vc_exceed_score_of_x'', ''vc_exceed_score_of_x_value'', ''vc_has_production_capacity_of_x_thousand'', ''vc_has_production_capacity_of_x_thousand_value'', ''vc_have_highest_score_after_x_years'', ''vc_have_highest_score_after_x_years_value'', ''vc_owns_x_capital_ships'', ''vc_owns_x_capital_ships_value'', ''vc_owns_x_percent_of_planets'', ''vc_owns_x_percent_of_planets_value'', ''vc_winner_must_meet_x_of_the_above'', ''id'', ''session_id'']" RulesetDB_FQColumns
proof unfold_locales
  fix t :: RulesetDBTableSchema and a b
  show "RulesetDB_As (RulesetDB_As t a) b = RulesetDB_As t b" by (simp add: RulesetDB_As_def)
  show "RulesetDB_As NewRulesetDBTableSchema '''' = NewRulesetDBTableSchema"
    by (simp add: RulesetDB_As_def NewRulesetDBTableSchema_def)
  show "RulesetDB_alias (RulesetDB_As t a) = a" by (simp add: RulesetDB_As_def)
  show "RulesetDB_schema_columns (RulesetDB_As t a) = map (NewColumn (RulesetDB_table a)) [''accelerated_bbs_play'', ''computer_players_form_alliances'', ''density'', ''galaxy_clumping'', ''maximum_minerals'', ''no_random_events'', ''public_player_scores'', ''random_seed'', ''slower_tech_advances'', ''starting_distance'', ''universe_size'', ''vc_at_least_x_years_must_pass_before_a_winner_is_declared'', ''vc_attain_tech_x_in_y_field'', ''vc_attain_tech_x_in_y_field_fields_value'', ''vc_attain_tech_x_in_y_field_tech_value'', ''vc_exceed_next_player_score_by_x'', ''vc_exceed_next_player_score_by_x_value'', ''vc_exceed_score_of_x'', ''vc_exceed_score_of_x_value'', ''vc_has_production_capacity_of_x_thousand'', ''vc_has_production_capacity_of_x_thousand_value'', ''vc_have_highest_score_after_x_years'', ''vc_have_highest_score_after_x_years_value'', ''vc_owns_x_capital_ships'', ''vc_owns_x_capital_ships_value'', ''vc_owns_x_percent_of_planets'', ''vc_owns_x_percent_of_planets_value'', ''vc_winner_must_meet_x_of_the_above'', ''id'', ''session_id'']"
    by (simp add: RulesetDB_schema_columns_def RulesetDB_As_def)
  have "set RulesetDB_AllColumns = set [''accelerated_bbs_play'', ''computer_players_form_alliances'', ''density'', ''galaxy_clumping'', ''maximum_minerals'', ''no_random_events'', ''public_player_scores'', ''random_seed'', ''slower_tech_advances'', ''starting_distance'', ''universe_size'', ''vc_at_least_x_years_must_pass_before_a_winner_is_declared'', ''vc_attain_tech_x_in_y_field'', ''vc_attain_tech_x_in_y_field_fields_value'', ''vc_attain_tech_x_in_y_field_tech_value'', ''vc_exceed_next_player_score_by_x'', ''vc_exceed_next_player_score_by_x_value'', ''vc_exceed_score_of_x'', ''vc_exceed_score_of_x_value'', ''vc_has_production_capacity_of_x_thousand'', ''vc_has_production_capacity_of_x_thousand_value'', ''vc_have_highest_score_after_x_years'', ''vc_have_highest_score_after_x_years_value'', ''vc_owns_x_capital_ships'', ''vc_owns_x_capital_ships_value'', ''vc_owns_x_percent_of_planets'', ''vc_owns_x_percent_of_planets_value'', ''vc_winner_must_meet_x_of_the_above'', ''id'', ''session_id'']" by (simp add: RulesetDB_columns insert_commute)
  then show "set (RulesetDB_FQColumns t True) =
      (\<lambda>col. GetName (RulesetDB_table (RulesetDB_alias t)) @ ''.'' @ col) ` set [''accelerated_bbs_play'', ''computer_players_form_alliances'', ''density'', ''galaxy_clumping'', ''maximum_minerals'', ''no_random_events'', ''public_player_scores'', ''random_seed'', ''slower_tech_advances'', ''starting_distance'', ''universe_size'', ''vc_at_least_x_years_must_pass_before_a_winner_is_declared'', ''vc_attain_tech_x_in_y_field'', ''vc_attain_tech_x_in_y_field_fields_value'', ''vc_attain_tech_x_in_y_field_tech_value'', ''vc_exceed_next_player_score_by_x'', ''vc_exceed_next_player_score_by_x_value'', ''vc_exceed_score_of_x'', ''vc_exceed_score_of_x_value'', ''vc_has_production_capacity_of_x_thousand'', ''vc_has_production_capacity_of_x_thousand_value'', ''vc_have_highest_score_after_x_years'', ''vc_have_highest_score_after_x_years_value'', ''vc_owns_x_capital_ships'', ''vc_owns_x_capital_ships_value'', ''vc_owns_x_percent_of_planets'', ''vc_owns_x_percent_of_planets_value'', ''vc_winner_must_meet_x_of_the_above'', ''id'', ''session_id'']"
    by (simp only: RulesetDB_FQColumns_def set_map if_True)
qed

definition SerialKeyDB_schema_columns :: "SerialKeyDBTableSchema \<Rightarrow> Column list" where
  "SerialKeyDB_schema_columns t = [SerialKeyDB_Key_column t,
     SerialKeyDB_UserProfileID_column t,
     SerialKeyDB_AssignedAt_column t]"

interpretation serial_key_schema: table_schema NewSerialKeyDBTableSchema SerialKeyDB_As SerialKeyDB_alias SerialKeyDB_table SerialKeyDB_schema_columns
  "[''key'', ''user_profile_id'', ''assigned_at'']" SerialKeyDB_FQColumns
proof unfold_locales
  fix t :: SerialKeyDBTableSchema and a b
  show "SerialKeyDB_As (SerialKeyDB_As t a) b = SerialKeyDB_As t b" by (simp add: SerialKeyDB_As_def)
  show "SerialKeyDB_As NewSerialKeyDBTableSchema '''' = NewSerialKeyDBTableSchema"
    by (simp add: SerialKeyDB_As_def NewSerialKeyDBTableSchema_def)
  show "SerialKeyDB_alias (SerialKeyDB_As t a) = a" by (simp add: SerialKeyDB_As_def)
  show "SerialKeyDB_schema_columns (SerialKeyDB_As t a) = map (NewColumn (SerialKeyDB_table a)) [''key'', ''user_profile_id'', ''assigned_at'']"
    by (simp add: SerialKeyDB_schema_columns_def SerialKeyDB_As_def)
  have "set SerialKeyDB_AllColumns = set [''key'', ''user_profile_id'', ''assigned_at'']" by (simp add: SerialKeyDB_columns insert_commute)
  then show "set (SerialKeyDB_FQColumns t True) =
      (\<lambda>col. GetName (SerialKeyDB_table (SerialKeyDB_alias t)) @ ''.'' @ col) ` set [''key'', ''user_profile_id'', ''assigned_at'']"
    by (simp only: SerialKeyDB_FQColumns_def set_map if_True)
qed

definition SessionDB_schema_columns :: "SessionDBTableSchema \<Rightarrow> Column list" where
  "SessionDB_schema_columns t = [SessionDB_ID_column t,
     SessionDB_Name_column t,
     SessionDB_Private_column t,
     SessionDB_RulesIsSet_column t,
     SessionDB_State_column t,
     SessionDB_RulesetID_column t]"

interpretation session_schema: table_schema NewSessionDBTableSchema SessionDB_As SessionDB_alias SessionDB_table SessionDB_schema_columns
  "[''id'', ''name'', ''private'', ''rules_is_set'', ''state'', ''ruleset_id'']" SessionDB_FQColumns
proof unfold_locales
  fix t :: SessionDBTableSchema and a b
  show "SessionDB_As (SessionDB_As t a) b = SessionDB_As t b" by (simp add: SessionDB_As_def)
  show "SessionDB_As NewSessionDBTableSchema '''' = NewSessionDBTableSchema"
    by (simp add: SessionDB_As_def NewSessionDBTableSchema_def)
  show "SessionDB_alias (SessionDB_As t a) = a" by (simp add: SessionDB_As_def)
  show "SessionDB_schema_columns (SessionDB_As t a) = map (NewColumn (SessionDB_table a)) [''id'', ''name'', ''private'', ''rules_is_set'', ''state'', ''ruleset_id'']"
    by (simp add: SessionDB_schema_columns_def SessionDB_As_def)
  have "set SessionDB_AllColumns = set [''id'', ''name'', ''private'', ''rules_is_set'', ''state'', ''ruleset_id'']" by (simp add: SessionDB_columns insert_commute)
  then show "set (SessionDB_FQColumns t True) =
      (\<lambda>col. GetName (SessionDB_table (SessionDB_alias t)) @ ''.'' @ col) ` set [''id'', ''name'', ''private'', ''rules_is_set'', ''state'', ''ruleset_id'']"
    by (simp only: SessionDB_FQColumns_def set_map if_True)
qed

definition SessionFilesDB_schema_columns :: "SessionFilesDBTableSchema \<Rightarrow> Column list" where
  "SessionFilesDB_schema_columns t = [SessionFilesDB_HostFile_column t,
     SessionFilesDB_ID_column t,
     SessionFilesDB_Orders_column t,
     SessionFilesDB_SessionID_column t,
     SessionFilesDB_Turns_column t,
     SessionFilesDB_Universe_column t,
     SessionFilesDB_Year_column t]"

interpretation session_files_schema: table_schema NewSessionFilesDBTableSchema SessionFilesDB_As SessionFilesDB_alias SessionFilesDB_table SessionFilesDB_schema_columns
  "[''hostfile'', ''id'', ''orders'', ''session_id'', ''turns'', ''universe'', ''year'']" SessionFilesDB_FQColumns
proof unfold_locales
  fix t :: SessionFilesDBTableSchema and a b
  show "SessionFilesDB_As (SessionFilesDB_As t a) b = SessionFilesDB_As t b" by (simp add: SessionFilesDB_As_def)
  show "SessionFilesDB_As NewSessionFilesDBTableSchema '''' = NewSessionFilesDBTableSchema"
    by (simp add: SessionFilesDB_As_def NewSessionFilesDBTableSchema_def)
  show "SessionFilesDB_alias (SessionFilesDB_As t a) = a" by (simp add: SessionFilesDB_As_def)
  show "SessionFilesDB_schema_columns (SessionFilesDB_As t a) = map (NewColumn (SessionFilesDB_table a)) [''hostfile'', ''id'', ''orders'', ''session_id'', ''turns'', ''universe'', ''year'']"
    by (simp add: SessionFilesDB_schema_columns_def SessionFilesDB_As_def)
  have "set SessionFilesDB_AllColumns = set [''hostfile'', ''id'', ''orders'', ''session_id'', ''turns'', ''universe'', ''year'']" by (simp add: SessionFilesDB_columns insert_commute)
  then show "set (SessionFilesDB_FQColumns t True) =
      (\<lambda>col. GetName (SessionFilesDB_table (SessionFilesDB_alias t)) @ ''.'' @ col) ` set [''hostfile'', ''id'', ''orders'', ''session_id'', ''turns'', ''universe'', ''year'']"
    by (simp only: SessionFilesDB_FQColumns_def set_map if_True)
qed

definition SessionPlayerRaceDB_schema_columns :: "SessionPlayerRaceDBTableSchema \<Rightarrow> Column list" where
  "SessionPlayerRaceDB_schema_columns t = [SessionPlayerRaceDB_BotLevel_column t,
     SessionPlayerRaceDB_ID_column t,
     SessionPlayerRaceDB_IsBot_column t,
     SessionPlayerRaceDB_PlayerOrder_column t,
     SessionPlayerRaceDB_RaceID_column t,
     SessionPlayerRaceDB_Ready_column t,
     SessionPlayerRaceDB_SessionID_column t,
     SessionPlayerRaceDB_UserProfileID_column t,
     SessionPlayerRaceDB_AIControlType_column t]"

interpretation session_player_race_schema: table_schema NewSessionPlayerRaceDBTableSchema SessionPlayerRaceDB_As SessionPlayerRaceDB_alias SessionPlayerRaceDB_table SessionPlayerRaceDB_schema_columns
  "[''bot_level'', ''id'', ''is_bot'', ''player_order'', ''race_id'', ''ready'', ''session_id'', ''user_profile_id'', ''ai_control_type'']" SessionPlayerRaceDB_FQColumns
proof unfold_locales
  fix t :: SessionPlayerRaceDBTableSchema and a b
  show "SessionPlayerRaceDB_As (SessionPlayerRaceDB_As t a) b = SessionPlayerRaceDB_As t b" by (simp add: SessionPlayerRaceDB_As_def)
  show "SessionPlayerRaceDB_As NewSessionPlayerRaceDBTableSchema '''' = NewSessionPlayerRaceDBTableSchema"
    by (simp add: SessionPlayerRaceDB_As_def NewSessionPlayerRaceDBTableSchema_def)
  show "SessionPlayerRaceDB_alias (SessionPlayerRaceDB_As t a) = a" by (simp add: SessionPlayerRaceDB_As_def)
  show "SessionPlayerRaceDB_schema_columns (SessionPlayerRaceDB_As t a) = map (NewColumn (SessionPlayerRaceDB_table a)) [''bot_level'', ''id'', ''is_bot'', ''player_order'', ''race_id'', ''ready'', ''session_id'', ''user_profile_id'', ''ai_control_type'']"
    by (simp add: SessionPlayerRaceDB_schema_columns_def SessionPlayerRaceDB_As_def)
  have "set SessionPlayerRaceDB_AllColumns = set [''bot_level'', ''id'', ''is_bot'', ''player_order'', ''race_id'', ''ready'', ''session_id'', ''user_profile_id'', ''ai_control_type'']" by (simp add: SessionPlayerRaceDB_columns insert_commute)
  then show "set (SessionPlayerRaceDB_FQColumns t True) =
      (\<lambda>col. GetName (SessionPlayerRaceDB_table (SessionPlayerRaceDB_alias t)) @ ''.'' @ col) ` set [''bot_level'', ''id'', ''is_bot'', ''player_order'', ''race_id'', ''ready'', ''session_id'', ''user_profile_id'', ''ai_control_type'']"
    by (simp only: SessionPlayerRaceDB_FQColumns_def set_map if_True)
qed

definition UserProfileDB_schema_columns :: "UserProfileDBTableSchema \<Rightarrow> Column list" where
  "UserProfileDB_schema_columns t = [UserProfileDB_Email_column t,
     UserProfileDB_ID_column t,
     UserProfileDB_IsManager_column t,
     UserProfileDB_Nickname_column t,
     UserProfileDB_RegistrationMessage_column t,
     UserProfileDB_State_column t,
     UserProfileDB_APIKey_column t,
     UserProfileDB_SerialKey_column t]"

interpretation user_profile_schema: table_schema NewUserProfileDBTableSchema UserProfileDB_As UserProfileDB_alias UserProfileDB_table UserProfileDB_schema_columns
  "[''email'', ''id'', ''is_manager'', ''nickname'', ''registration_message'', ''state'', ''apikey'', ''serial_key'']" UserProfileDB_FQColumns
proof unfold_locales
  fix t :: UserProfileDBTableSchema and a b
  show "UserProfileDB_As (UserProfileDB_As t a) b = UserProfileDB_As t b" by (simp add: UserProfileDB_As_def)
  show "UserProfileDB_As NewUserProfileDBTableSchema '''' = NewUserProfileDBTableSchema"
    by (simp add: UserProfileDB_As_def NewUserProfileDBTableSchema_def)
  show "UserProfileDB_alias (UserProfileDB_As t a) = a" by (simp add: UserProfileDB_As_def)
  show "UserProfileDB_schema_columns (UserProfileDB_As t a) = map (NewColumn (UserProfileDB_table a)) [''email'', ''id'', ''is_manager'', ''nickname'', ''registration_message'', ''state'', ''apikey'', ''serial_key'']"
    by (simp add: UserProfileDB_schema_columns_def UserProfileDB_As_def)
  have "set UserProfileDB_AllColumns = set [''email'', ''id'', ''is_manager'', ''nickname'', ''registration_message'', ''state'', ''apikey'', ''serial_key'']" by (simp add: UserProfileDB_columns insert_commute)
  then show "set (UserProfileDB_FQColumns t True) =
      (\<lambda>col. GetName (UserProfileDB_table (UserProfileDB_alias t)) @ ''.'' @ col) ` set [''email'', ''id'', ''is_manager'', ''nickname'', ''registration_message'', ''state'', ''apikey'', ''serial_key'']"
    by (simp only: UserProfileDB_FQColumns_def set_map if_True)
qed

definition UserProfileSessionRelDB_schema_columns :: "UserProfileSessionRelDBTableSchema \<Rightarrow> Column list" where
  "UserProfileSessionRelDB_schema_columns t = [UserProfileSessionRelDB_UserProfileID_column t,
     UserProfileSessionRelDB_SessionID_column t,
     UserProfileSessionRelDB_IsManager_column t]"

interpretation user_profile_session_rel_schema: table_schema NewUserProfileSessionRelDBTableSchema UserProfileSessionRelDB_As UserProfileSessionRelDB_alias UserProfileSessionRelDB_table UserProfileSessionRelDB_schema_columns
  "[''user_profile_id'', ''session_id'', ''is_manager'']" UserProfileSessionRelDB_FQColumns
proof unfold_locales
  fix t :: UserProfileSessionRelDBTableSchema and a b
  show "UserProfileSessionRelDB_As (UserProfileSessionRelDB_As t a) b = UserProfileSessionRelDB_As t b" by (simp add: UserProfileSessionRelDB_As_def)
  show "UserProfileSessionRelDB_As NewUserProfileSessionRelDBTableSchema '''' = NewUserProfileSessionRelDBTableSchema"
    by (simp add: UserProfileSessionRelDB_As_def NewUserProfileSessionRelDBTableSchema_def)
  show "UserProfileSessionRelDB_alias (UserProfileSessionRelDB_As t a) = a" by (simp add: UserProfileSessionRelDB_As_def)
  show "UserProfileSessionRelDB_schema_columns (UserProfileSessionRelDB_As t a) = map (NewColumn (UserProfileSessionRelDB_table a)) [''user_profile_id'', ''session_id'', ''is_manager'']"
    by (simp add: UserProfileSessionRelDB_schema_columns_def UserProfileSessionRelDB_As_def)
  have "set UserProfileSessionRelDB_AllColumns = set [''user_profile_id'', ''session_id'', ''is_manager'']" by (simp add: UserProfileSessionRelDB_columns insert_commute)
  then show "set (UserProfileSessionRelDB_FQColumns t True) =
      (\<lambda>col. GetName (UserProfileSessionRelDB_table (UserProfileSessionRelDB_alias t)) @ ''.'' @ col) ` set [''user_profile_id'', ''session_id'', ''is_manager'']"
    by (simp only: UserProfileSessionRelDB_FQColumns_def set_map if_True)
qed

subsection \<open>The schema of the program\<close>

record DBSchema =
  Schema_InvitationDB :: InvitationDBTableSchema
  Schema_RaceDB :: RaceDBTableSchema
  Schema_RulesetDB :: RulesetDBTableSchema
  Schema_SerialKeyDB :: SerialKeyDBTableSchema
  Schema_SessionDB :: SessionDBTableSchema
  Schema_SessionFilesDB :: SessionFilesDBTableSchema
  Schema_SessionPlayerRaceDB :: SessionPlayerRaceDBTableSchema
  Schema_UserProfileDB :: UserProfileDBTableSchema
  Schema_UserProfileSessionRelDB :: UserProfileSessionRelDBTableSchema

definition NewDBSchema :: DBSchema where
  "NewDBSchema = \<lparr>Schema_InvitationDB = NewInvitationDBTableSchema,
     Schema_RaceDB = NewRaceDBTableSchema,
     Schema_RulesetDB = NewRulesetDBTableSchema,
     Schema_SerialKeyDB = NewSerialKeyDBTableSchema,
     Schema_SessionDB = NewSessionDBTableSchema,
     Schema_SessionFilesDB = NewSessionFilesDBTableSchema,
     Schema_SessionPlayerRaceDB = NewSessionPlayerRaceDBTableSchema,
     Schema_UserProfileDB = NewUserProfileDBTableSchema,
     Schema_UserProfileSessionRelDB = NewUserProfileSessionRelDBTableSchema\<rparr>"

definition Schema :: DBSchema where
  "Schema = NewDBSchema"

text \<open>A query as the handlers build it: columns, table, left joins, conditions, sequence.\<close>

record query =
  q_columns :: "string list"
  q_From :: string
  q_LeftJoins :: "string list"
  q_Where :: "condition list"
  q_OrderBy :: "string list"

definition InvitationList_query :: "Principal \<Rightarrow> query" where
  "InvitationList_query pr =
    (let i = InvitationDB_As (Schema_InvitationDB Schema) ''i'';
         s = SessionDB_As (Schema_SessionDB Schema) ''s'';
         inviter = UserProfileDB_As (Schema_UserProfileDB Schema) ''inviter'';
         invitee = UserProfileDB_As (Schema_UserProfileDB Schema) ''invitee'' in
     \<lparr>q_columns =
        [Column_Sql (InvitationDB_ID_column i),
         Column_Sql (InvitationDB_SessionID_column i),
         Column_Sql (InvitationDB_UserProfileID_column i),
         Column_Sql (InvitationDB_InviterID_column i),
         Column_Sql (SessionDB_Name_column s) @ '' AS session_name'',
         Column_Sql (UserProfileDB_Nickname_column inviter) @ '' AS inviter_nickname'',
         Column_Sql (UserProfileDB_Nickname_column invitee) @ '' AS invitee_nickname''],
      q_From = Sql (InvitationDB_table (InvitationDB_alias i)),
      q_LeftJoins =
        [Join_Sql (Column_Join (InvitationDB_SessionID_column i) (SessionDB_ID_column s)),
         Join_Sql (Column_Join (InvitationDB_InviterID_column i) (UserProfileDB_ID_column inviter)),
         Join_Sql (Column_Join (InvitationDB_UserProfileID_column i) (UserProfileDB_ID_column invitee))],
      q_Where = [Column_Eq (InvitationDB_UserProfileID_column i) (VText (Subject pr))],
      q_OrderBy = [Column_Sql (InvitationDB_ID_column i)]\<rparr>)"

definition InvitationSentList_query :: "Principal \<Rightarrow> query" where
  "InvitationSentList_query pr =
    (let i = InvitationDB_As (Schema_InvitationDB Schema) ''i'';
         s = SessionDB_As (Schema_SessionDB Schema) ''s'';
         u = UserProfileDB_As (Schema_UserProfileDB Schema) ''u'' in
     \<lparr>q_columns =
        [Column_Sql (InvitationDB_ID_column i),
         Column_Sql (InvitationDB_SessionID_column i),
         Column_Sql (InvitationDB_UserProfileID_column i),
         Column_Sql (InvitationDB_InviterID_column i),
         Column_Sql (SessionDB_Name_column s) @ '' AS session_name'',
         Column_Sql (UserProfileDB_Nickname_column u) @ '' AS invitee_nickname''],
      q_From = Sql (InvitationDB_table (InvitationDB_alias i)),
      q_LeftJoins =
        [Join_Sql (Column_Join (InvitationDB_SessionID_column i) (SessionDB_ID_column s)),
         Join_Sql (Column_Join (InvitationDB_UserProfileID_column i) (UserProfileDB_ID_column u))],
      q_Where = [Column_Eq (InvitationDB_InviterID_column i) (VText (Subject pr))],
      q_OrderBy = [Column_Sql (InvitationDB_ID_column i)]\<rparr>)"

lemma InvitationList_query_joins: "q_LeftJoins (InvitationList_query pr) =
   [''session AS s ON s.id = i.session_id'',
    ''user_profile AS inviter ON inviter.id = i.inviter_id'',
    ''user_profile AS invitee ON invitee.id = i.user_profile_id'']"
  by code_simp

lemma InvitationSentList_query_joins: "q_LeftJoins (InvitationSentList_query pr) =
   [''session AS s ON s.id = i.session_id'', ''user_profile AS u ON u.id = i.user_profile_id'']"
  by code_simp

subsection \<open>Statements that write some columns\<close>

text \<open>The columns that \<open>UserProfileUpdate\<close> has written; only a manager writes the last three.\<close>

definition UserProfileUpdate_columns :: "bool \<Rightarrow> string list" where
  "UserProfileUpdate_columns manager =
    (let updateColumnList = [UserProfileDBNicknameColumn] in
     if manager
       then updateColumnList @ [UserProfileDBIsManagerColumn, UserProfileDBStateColumn, UserProfileDBEmailColumn]
       else updateColumnList)"

text \<open>Every type of a row is determined by what the library reads from it: two rows with the same values
  in the columns of their table, in the sequence of the columns of the statement, are equal.\<close>

lemma rows_are_determined_by_their_columns:
  "inj (\<lambda>r. InvitationDB_Values r (InvitationDB_Columns True))
   \<and> inj (\<lambda>r. RaceDB_Values r (RaceDB_Columns True))
   \<and> inj (\<lambda>r. RulesetDB_Values r (RulesetDB_Columns True))
   \<and> inj (\<lambda>r. SerialKeyDB_Values r (SerialKeyDB_Columns True))
   \<and> inj (\<lambda>r. SessionDB_Values r (SessionDB_Columns True))
   \<and> inj (\<lambda>r. SessionFilesDB_Values r (SessionFilesDB_Columns True))
   \<and> inj (\<lambda>r. SessionPlayerRaceDB_Values r (SessionPlayerRaceDB_Columns True))
   \<and> inj (\<lambda>r. UserProfileDB_Values r (UserProfileDB_Columns True))
   \<and> inj (\<lambda>r. UserProfileSessionRelDB_Values r (UserProfileSessionRelDB_Columns True))"
  by (intro conjI injI; rule invitation_row.complete race_row.complete ruleset_row.complete
      serial_key_row.complete session_row.complete session_files_row.complete
      session_player_race_row.complete user_profile_row.complete user_profile_session_rel_row.complete)

end
