(* ===== verification/Routes.thy ===== *)
theory Routes
  imports Errors
begin

section \<open>Routes and URLs\<close>

text \<open>
  The operations of the API, the table by which \<open>restapi/operations/neper_api.go\<close> finds the handler
  of a method and a path, and the builders of URLs in \<open>restapi/operations/*_urlbuilder.go\<close>. Of the
  standard library this uses \<open>strings.Replace\<close>, \<open>strings.ToUpper\<close> and \<open>path.Join\<close>, which are written
  out. The router itself is a library: \<open>match_template\<close> says which paths belong to a route.
\<close>

subsection \<open>strings and path of the standard library\<close>

text \<open>\<open>strings.Replace(s, old, new, -1)\<close> for a text \<open>old\<close> that is not empty.\<close>

function Replace :: "string \<Rightarrow> string \<Rightarrow> string \<Rightarrow> string" where
  "Replace old new [] = []"
| "Replace old new (c # s) =
    (if old \<noteq> [] \<and> take (length old) (c # s) = old
     then new @ Replace old new (drop (length old) (c # s))
     else c # Replace old new s)"
  by pat_completeness auto
termination
proof (relation "measure (\<lambda>(old, new, s). length s)")
  fix old new :: string and c s
  assume "old \<noteq> [] \<and> take (length old) (c # s) = old"
  then show "((old, new, drop (length old) (c # s)), old, new, c # s) \<in> measure (\<lambda>(old, new, s). length s)"
    by (cases old) (auto simp: less_Suc_eq_le)
qed auto

fun contains :: "string \<Rightarrow> string \<Rightarrow> bool" where
  "contains old [] \<longleftrightarrow> old = []"
| "contains old (c # s) \<longleftrightarrow> take (length old) (c # s) = old \<or> contains old s"

lemma Replace_nothing: "\<not> contains old s \<Longrightarrow> Replace old new s = s"
  by (induction s) auto

lemma Replace_itself:
  assumes "old \<noteq> []"
  shows "Replace old new old = new"
  using assms by (cases old) auto

lemma contains_subset: "contains old s \<Longrightarrow> set old \<subseteq> set s"
proof (induction s)
  case (Cons c s)
  then consider "take (length old) (c # s) = old" | "contains old s" by auto
  then show ?case
  proof cases
    case 1
    then show ?thesis by (metis set_take_subset)
  qed (use Cons.IH in auto)
qed simp

text \<open>What is replaced does not reach over a slash that it does not contain.\<close>

lemma take_before_slash:
  assumes "CHR ''/'' \<notin> set old"
  shows "take (length old) (a @ CHR ''/'' # b) = old \<longleftrightarrow> take (length old) a = old"
proof (cases "length old \<le> length a")
  case False
  then obtain n where n: "length old - length a = Suc n" by (metis Suc_diff_Suc not_le)
  have "CHR ''/'' \<in> set (take (length old) (a @ CHR ''/'' # b))" by (simp add: n)
  moreover have "take (length old) a \<noteq> old" using False by (metis length_take min.cobounded1)
  ultimately show ?thesis using assms by metis
qed simp

lemma Replace_slash:
  assumes "CHR ''/'' \<notin> set old"
  shows "Replace old new (a @ CHR ''/'' # b) = Replace old new a @ CHR ''/'' # Replace old new b"
  using assms
proof (induction old new a rule: Replace.induct)
  case (1 old new)
  then have "take (length old) (CHR ''/'' # b) \<noteq> old \<or> old = []"
    using take_before_slash [of old "[]" b] by auto
  then show ?case by auto
next
  case (2 old new c s)
  have t: "take (length old) (c # s @ CHR ''/'' # b) = old \<longleftrightarrow> take (length old) (c # s) = old"
    using take_before_slash [OF 2(3), of "c # s" b] by simp
  show ?case
  proof (cases "old \<noteq> [] \<and> take (length old) (c # s) = old")
    case True
    then have "length old \<le> length (c # s)" by (metis length_take min.cobounded1)
    then have "drop (length old) (c # s @ CHR ''/'' # b) = drop (length old) (c # s) @ CHR ''/'' # b"
      using drop_append [of "length old" "c # s"] by simp
    then show ?thesis using True 2(1) [OF True 2(3)] t by simp
  next
    case False
    then show ?thesis using 2(2) [OF False 2(3)] t by auto
  qed
qed

text \<open>Paths by their segments.\<close>

fun split_slash :: "string \<Rightarrow> string list" where
  "split_slash [] = [[]]"
| "split_slash (c # s) = (if c = CHR ''/'' then [] # split_slash s
     else (case split_slash s of [] \<Rightarrow> [[c]] | x # xs \<Rightarrow> (c # x) # xs))"

fun join_slash :: "string list \<Rightarrow> string" where
  "join_slash [] = []"
| "join_slash [x] = x"
| "join_slash (x # y # xs) = x @ CHR ''/'' # join_slash (y # xs)"

lemma split_no_slash: "CHR ''/'' \<notin> set x \<Longrightarrow> split_slash x = [x]"
  by (induction x) auto

lemma split_append: "CHR ''/'' \<notin> set x \<Longrightarrow> split_slash (x @ CHR ''/'' # s) = x # split_slash s"
  by (induction x) auto

lemma split_join: "xs \<noteq> [] \<Longrightarrow> (\<forall>x \<in> set xs. CHR ''/'' \<notin> set x) \<Longrightarrow> split_slash (join_slash xs) = xs"
  by (induction xs rule: join_slash.induct) (auto simp: split_no_slash split_append)

lemma Replace_join: "CHR ''/'' \<notin> set old \<Longrightarrow> Replace old new (join_slash xs) = join_slash (map (Replace old new) xs)"
  by (induction xs rule: join_slash.induct) (auto simp: Replace_slash)

text \<open>\<open>path.Clean\<close>: the segments from the left, with the ones kept so far in reverse.\<close>

fun clean_segments :: "bool \<Rightarrow> string list \<Rightarrow> string list \<Rightarrow> string list" where
  "clean_segments rooted acc [] = rev acc"
| "clean_segments rooted acc (x # xs) =
    (if x = '''' \<or> x = ''.'' then clean_segments rooted acc xs
     else if x = ''..'' then
       (case acc of
          [] \<Rightarrow> clean_segments rooted (if rooted then [] else [''..'']) xs
        | a # acc' \<Rightarrow> if a = ''..'' then clean_segments rooted (x # acc) xs else clean_segments rooted acc' xs)
     else clean_segments rooted (x # acc) xs)"

definition path_Clean :: "string \<Rightarrow> string" where
  "path_Clean p =
    (let rooted = (take 1 p = ''/''); s = join_slash (clean_segments rooted [] (split_slash p)) in
     if rooted then CHR ''/'' # s else if s = '''' then ''.'' else s)"

definition path_Join :: "string list \<Rightarrow> string" where
  "path_Join elem = (let xs = filter (\<lambda>x. x \<noteq> '''') elem in if xs = [] then '''' else path_Clean (join_slash xs))"

text \<open>A segment that cleaning keeps.\<close>

definition plain :: "string \<Rightarrow> bool" where
  "plain x \<longleftrightarrow> x \<noteq> '''' \<and> x \<noteq> ''.'' \<and> x \<noteq> ''..'' \<and> CHR ''/'' \<notin> set x"

lemma clean_plain: "(\<forall>x \<in> set xs. plain x) \<Longrightarrow> clean_segments rooted acc xs = rev acc @ xs"
  by (induction xs arbitrary: acc) (auto simp: plain_def)

lemma path_Join_api:
  assumes "xs \<noteq> []" "\<forall>x \<in> set xs. plain x"
  shows "path_Join [''/api'', CHR ''/'' # join_slash xs] = ''/api/'' @ join_slash xs"
proof -
  have "split_slash (''/api//'' @ join_slash xs) = '''' # ''api'' # '''' # xs"
    using assms split_join [of xs] by (simp add: plain_def)
  moreover have "clean_segments True [] ('''' # ''api'' # '''' # xs) = ''api'' # xs"
    using clean_plain [OF assms(2), of True "[''api'']"] by simp
  ultimately have "path_Clean (''/api//'' @ join_slash xs) = CHR ''/'' # join_slash (''api'' # xs)"
    by (simp add: path_Clean_def)
  then show ?thesis using assms(1) by (cases xs) (simp_all add: path_Join_def)
qed

subsection \<open>Operations\<close>

datatype api_operation =
    OpAuthenticate
  | OpDownloadStarsExe
  | OpGameCreate
  | OpHealthCheck
  | OpHistoricBackup
  | OpInvitationAccept
  | OpInvitationCreate
  | OpInvitationDecline
  | OpInvitationList
  | OpInvitationSentList
  | OpNotifications
  | OpOrdersStatus
  | OpPendingRegistrationApprove
  | OpPendingRegistrationList
  | OpPendingRegistrationReject
  | OpRaceCreate
  | OpRaceDelete
  | OpRaceRead
  | OpRacesList
  | OpRefreshToken
  | OpRegister
  | OpReorderPlayers
  | OpRulesCreate
  | OpRulesRead
  | OpSessionArchive
  | OpSessionCreate
  | OpSessionDelete
  | OpSessionFilesGet
  | OpSessionJoin
  | OpSessionPlayerControl
  | OpSessionPlayerRaceCreate
  | OpSessionPlayerRaceDelete
  | OpSessionPlayerRaceGet
  | OpSessionPlayerRaceSetReady
  | OpSessionPlayerSwitchToAI
  | OpSessionPlayerSwitchToHuman
  | OpSessionPromoteMember
  | OpSessionQuit
  | OpSessionRead
  | OpSessionUpdate
  | OpSessionsList
  | OpTurnGet
  | OpTurnLatest
  | OpTurnSubmit
  | OpUserProfileCreate
  | OpUserProfileDelete
  | OpUserProfileList
  | OpUserProfileRead
  | OpUserProfileResetApikey
  | OpUserProfileUpdate
  | OpUserinfo

definition operations :: "api_operation list" where
  "operations = [OpAuthenticate,
     OpDownloadStarsExe,
     OpGameCreate,
     OpHealthCheck,
     OpHistoricBackup,
     OpInvitationAccept,
     OpInvitationCreate,
     OpInvitationDecline,
     OpInvitationList,
     OpInvitationSentList,
     OpNotifications,
     OpOrdersStatus,
     OpPendingRegistrationApprove,
     OpPendingRegistrationList,
     OpPendingRegistrationReject,
     OpRaceCreate,
     OpRaceDelete,
     OpRaceRead,
     OpRacesList,
     OpRefreshToken,
     OpRegister,
     OpReorderPlayers,
     OpRulesCreate,
     OpRulesRead,
     OpSessionArchive,
     OpSessionCreate,
     OpSessionDelete,
     OpSessionFilesGet,
     OpSessionJoin,
     OpSessionPlayerControl,
     OpSessionPlayerRaceCreate,
     OpSessionPlayerRaceDelete,
     OpSessionPlayerRaceGet,
     OpSessionPlayerRaceSetReady,
     OpSessionPlayerSwitchToAI,
     OpSessionPlayerSwitchToHuman,
     OpSessionPromoteMember,
     OpSessionQuit,
     OpSessionRead,
     OpSessionUpdate,
     OpSessionsList,
     OpTurnGet,
     OpTurnLatest,
     OpTurnSubmit,
     OpUserProfileCreate,
     OpUserProfileDelete,
     OpUserProfileList,
     OpUserProfileRead,
     OpUserProfileResetApikey,
     OpUserProfileUpdate,
     OpUserinfo]"

subsection \<open>URL builders\<close>

text \<open>
  A builder has its path, and for each parameter, in the sequence in which it is filled in, the
  placeholder and the name in the error.
\<close>

record url_builder =
  ub_name :: string
  ub_path :: string
  ub_params :: "(string \<times> string) list"

fun fill_in :: "string \<Rightarrow> (string \<times> string) list \<Rightarrow> string list \<Rightarrow> string \<Rightarrow> err + string" where
  "fill_in name ((placeholder, label) # ps) (v # vs) path =
    (if v \<noteq> '''' then fill_in name ps vs (Replace placeholder v path)
     else Inl (OtherErr (label @ '' is required on '' @ name)))"
| "fill_in name ps vs path = Inr path"

definition URL_Build :: "url_builder \<Rightarrow> string \<Rightarrow> string list \<Rightarrow> err + string" where
  "URL_Build ub base vs =
    and_then (fill_in (ub_name ub) (ub_params ub) vs (ub_path ub)) (\<lambda>path.
    Inr (path_Join [if base = '''' then ''/api'' else base, path]))"

text \<open>Scheme, host and path of a full URL.\<close>

definition URL_BuildFull ::
    "url_builder \<Rightarrow> string \<Rightarrow> string list \<Rightarrow> string \<Rightarrow> string \<Rightarrow> err + string \<times> string \<times> string" where
  "URL_BuildFull ub base vs scheme host =
    (if scheme = '''' then Inl (OtherErr (''scheme is required for a full url on '' @ ub_name ub))
     else if host = '''' then Inl (OtherErr (''host is required for a full url on '' @ ub_name ub))
     else and_then (URL_Build ub base vs) (\<lambda>path. Inr (scheme, host, path)))"

definition URL_Must :: "err + 'a \<Rightarrow> err + 'a" where
  "URL_Must r = (case r of Inl e \<Rightarrow> Inl Panic | Inr u \<Rightarrow> Inr u)"

definition AuthenticateURL :: url_builder where
  "AuthenticateURL = \<lparr>ub_name = ''AuthenticateURL'',
     ub_path = ''/v1/auth/authenticate'',
     ub_params = []\<rparr>"

definition DownloadStarsExeURL :: url_builder where
  "DownloadStarsExeURL = \<lparr>ub_name = ''DownloadStarsExeURL'',
     ub_path = ''/v1/downloads/stars.exe'',
     ub_params = []\<rparr>"

definition GameCreateURL :: url_builder where
  "GameCreateURL = \<lparr>ub_name = ''GameCreateURL'',
     ub_path = ''/v1/sessions/{session_id}/game'',
     ub_params = [(''{session_id}'', ''sessionId'')]\<rparr>"

definition HealthCheckURL :: url_builder where
  "HealthCheckURL = \<lparr>ub_name = ''HealthCheckURL'',
     ub_path = ''/healthz'',
     ub_params = []\<rparr>"

definition HistoricBackupURL :: url_builder where
  "HistoricBackupURL = \<lparr>ub_name = ''HistoricBackupURL'',
     ub_path = ''/v1/sessions/{session_id}/backup'',
     ub_params = [(''{session_id}'', ''sessionId'')]\<rparr>"

definition InvitationAcceptURL :: url_builder where
  "InvitationAcceptURL = \<lparr>ub_name = ''InvitationAcceptURL'',
     ub_path = ''/v1/invitations/{invitation_id}'',
     ub_params = [(''{invitation_id}'', ''invitationId'')]\<rparr>"

definition InvitationCreateURL :: url_builder where
  "InvitationCreateURL = \<lparr>ub_name = ''InvitationCreateURL'',
     ub_path = ''/v1/sessions/{session_id}/invite'',
     ub_params = [(''{session_id}'', ''sessionId'')]\<rparr>"

definition InvitationDeclineURL :: url_builder where
  "InvitationDeclineURL = \<lparr>ub_name = ''InvitationDeclineURL'',
     ub_path = ''/v1/invitations/{invitation_id}'',
     ub_params = [(''{invitation_id}'', ''invitationId'')]\<rparr>"

definition InvitationListURL :: url_builder where
  "InvitationListURL = \<lparr>ub_name = ''InvitationListURL'',
     ub_path = ''/v1/invitations'',
     ub_params = []\<rparr>"

definition InvitationSentListURL :: url_builder where
  "InvitationSentListURL = \<lparr>ub_name = ''InvitationSentListURL'',
     ub_path = ''/v1/invitations/sent'',
     ub_params = []\<rparr>"

definition NotificationsURL :: url_builder where
  "NotificationsURL = \<lparr>ub_name = ''NotificationsURL'',
     ub_path = ''/v1/notifications'',
     ub_params = []\<rparr>"

definition OrdersStatusURL :: url_builder where
  "OrdersStatusURL = \<lparr>ub_name = ''OrdersStatusURL'',
     ub_path = ''/v1/sessions/{session_id}/orders/{year}'',
     ub_params = [(''{session_id}'', ''sessionId''), (''{year}'', ''year'')]\<rparr>"

definition PendingRegistrationApproveURL :: url_builder where
  "PendingRegistrationApproveURL = \<lparr>ub_name = ''PendingRegistrationApproveURL'',
     ub_path = ''/v1/pending_registrations/{user_profile_id}/approve'',
     ub_params = [(''{user_profile_id}'', ''userProfileId'')]\<rparr>"

definition PendingRegistrationListURL :: url_builder where
  "PendingRegistrationListURL = \<lparr>ub_name = ''PendingRegistrationListURL'',
     ub_path = ''/v1/pending_registrations'',
     ub_params = []\<rparr>"

definition PendingRegistrationRejectURL :: url_builder where
  "PendingRegistrationRejectURL = \<lparr>ub_name = ''PendingRegistrationRejectURL'',
     ub_path = ''/v1/pending_registrations/{user_profile_id}/reject'',
     ub_params = [(''{user_profile_id}'', ''userProfileId'')]\<rparr>"

definition RaceCreateURL :: url_builder where
  "RaceCreateURL = \<lparr>ub_name = ''RaceCreateURL'',
     ub_path = ''/v1/user_profiles/{user_profile_id}/races'',
     ub_params = [(''{user_profile_id}'', ''userProfileId'')]\<rparr>"

definition RaceDeleteURL :: url_builder where
  "RaceDeleteURL = \<lparr>ub_name = ''RaceDeleteURL'',
     ub_path = ''/v1/user_profiles/{user_profile_id}/races/{race_id}'',
     ub_params = [(''{race_id}'', ''raceId''), (''{user_profile_id}'', ''userProfileId'')]\<rparr>"

definition RaceReadURL :: url_builder where
  "RaceReadURL = \<lparr>ub_name = ''RaceReadURL'',
     ub_path = ''/v1/user_profiles/{user_profile_id}/races/{race_id}'',
     ub_params = [(''{race_id}'', ''raceId''), (''{user_profile_id}'', ''userProfileId'')]\<rparr>"

definition RacesListURL :: url_builder where
  "RacesListURL = \<lparr>ub_name = ''RacesListURL'',
     ub_path = ''/v1/user_profiles/{user_profile_id}/races'',
     ub_params = [(''{user_profile_id}'', ''userProfileId'')]\<rparr>"

definition RefreshTokenURL :: url_builder where
  "RefreshTokenURL = \<lparr>ub_name = ''RefreshTokenURL'',
     ub_path = ''/v1/auth/refresh_token'',
     ub_params = []\<rparr>"

definition RegisterURL :: url_builder where
  "RegisterURL = \<lparr>ub_name = ''RegisterURL'',
     ub_path = ''/v1/auth/register'',
     ub_params = []\<rparr>"

definition ReorderPlayersURL :: url_builder where
  "ReorderPlayersURL = \<lparr>ub_name = ''ReorderPlayersURL'',
     ub_path = ''/v1/sessions/{session_id}/reorder_players'',
     ub_params = [(''{session_id}'', ''sessionId'')]\<rparr>"

definition RulesCreateURL :: url_builder where
  "RulesCreateURL = \<lparr>ub_name = ''RulesCreateURL'',
     ub_path = ''/v1/sessions/{session_id}/rules'',
     ub_params = [(''{session_id}'', ''sessionId'')]\<rparr>"

definition RulesReadURL :: url_builder where
  "RulesReadURL = \<lparr>ub_name = ''RulesReadURL'',
     ub_path = ''/v1/sessions/{session_id}/rules'',
     ub_params = [(''{session_id}'', ''sessionId'')]\<rparr>"

definition SessionArchiveURL :: url_builder where
  "SessionArchiveURL = \<lparr>ub_name = ''SessionArchiveURL'',
     ub_path = ''/v1/sessions/{session_id}/archive'',
     ub_params = [(''{session_id}'', ''sessionId'')]\<rparr>"

definition SessionCreateURL :: url_builder where
  "SessionCreateURL = \<lparr>ub_name = ''SessionCreateURL'',
     ub_path = ''/v1/sessions'',
     ub_params = []\<rparr>"

definition SessionDeleteURL :: url_builder where
  "SessionDeleteURL = \<lparr>ub_name = ''SessionDeleteURL'',
     ub_path = ''/v1/sessions/{session_id}'',
     ub_params = [(''{session_id}'', ''sessionId'')]\<rparr>"

definition SessionFilesGetURL :: url_builder where
  "SessionFilesGetURL = \<lparr>ub_name = ''SessionFilesGetURL'',
     ub_path = ''/v1/sessions/{session_id}/files'',
     ub_params = [(''{session_id}'', ''sessionId'')]\<rparr>"

definition SessionJoinURL :: url_builder where
  "SessionJoinURL = \<lparr>ub_name = ''SessionJoinURL'',
     ub_path = ''/v1/sessions/{session_id}/join'',
     ub_params = [(''{session_id}'', ''sessionId'')]\<rparr>"

definition SessionPlayerControlURL :: url_builder where
  "SessionPlayerControlURL = \<lparr>ub_name = ''SessionPlayerControlURL'',
     ub_path = ''/v1/sessions/{session_id}/player_control'',
     ub_params = [(''{session_id}'', ''sessionId'')]\<rparr>"

definition SessionPlayerRaceCreateURL :: url_builder where
  "SessionPlayerRaceCreateURL = \<lparr>ub_name = ''SessionPlayerRaceCreateURL'',
     ub_path = ''/v1/sessions/{session_id}/player_race'',
     ub_params = [(''{session_id}'', ''sessionId'')]\<rparr>"

definition SessionPlayerRaceDeleteURL :: url_builder where
  "SessionPlayerRaceDeleteURL = \<lparr>ub_name = ''SessionPlayerRaceDeleteURL'',
     ub_path = ''/v1/sessions/{session_id}/player_race/{player_race_id}'',
     ub_params = [(''{player_race_id}'', ''playerRaceId''), (''{session_id}'', ''sessionId'')]\<rparr>"

definition SessionPlayerRaceGetURL :: url_builder where
  "SessionPlayerRaceGetURL = \<lparr>ub_name = ''SessionPlayerRaceGetURL'',
     ub_path = ''/v1/sessions/{session_id}/player_race'',
     ub_params = [(''{session_id}'', ''sessionId'')]\<rparr>"

definition SessionPlayerRaceSetReadyURL :: url_builder where
  "SessionPlayerRaceSetReadyURL = \<lparr>ub_name = ''SessionPlayerRaceSetReadyURL'',
     ub_path = ''/v1/sessions/{session_id}/player_race/ready'',
     ub_params = [(''{session_id}'', ''sessionId'')]\<rparr>"

definition SessionPlayerSwitchToAIURL :: url_builder where
  "SessionPlayerSwitchToAIURL = \<lparr>ub_name = ''SessionPlayerSwitchToAIURL'',
     ub_path = ''/v1/sessions/{session_id}/player/{player_order}/switch_to_ai'',
     ub_params = [(''{player_order}'', ''playerOrder''), (''{session_id}'', ''sessionId'')]\<rparr>"

definition SessionPlayerSwitchToHumanURL :: url_builder where
  "SessionPlayerSwitchToHumanURL = \<lparr>ub_name = ''SessionPlayerSwitchToHumanURL'',
     ub_path = ''/v1/sessions/{session_id}/player/{player_order}/switch_to_human'',
     ub_params = [(''{player_order}'', ''playerOrder''), (''{session_id}'', ''sessionId'')]\<rparr>"

definition SessionPromoteMemberURL :: url_builder where
  "SessionPromoteMemberURL = \<lparr>ub_name = ''SessionPromoteMemberURL'',
     ub_path = ''/v1/sessions/{session_id}/promote/{user_profile_id}'',
     ub_params = [(''{session_id}'', ''sessionId''), (''{user_profile_id}'', ''userProfileId'')]\<rparr>"

definition SessionQuitURL :: url_builder where
  "SessionQuitURL = \<lparr>ub_name = ''SessionQuitURL'',
     ub_path = ''/v1/sessions/{session_id}/quit'',
     ub_params = [(''{session_id}'', ''sessionId'')]\<rparr>"

definition SessionReadURL :: url_builder where
  "SessionReadURL = \<lparr>ub_name = ''SessionReadURL'',
     ub_path = ''/v1/sessions/{session_id}'',
     ub_params = [(''{session_id}'', ''sessionId'')]\<rparr>"

definition SessionUpdateURL :: url_builder where
  "SessionUpdateURL = \<lparr>ub_name = ''SessionUpdateURL'',
     ub_path = ''/v1/sessions/{session_id}'',
     ub_params = [(''{session_id}'', ''sessionId'')]\<rparr>"

definition SessionsListURL :: url_builder where
  "SessionsListURL = \<lparr>ub_name = ''SessionsListURL'',
     ub_path = ''/v1/sessions'',
     ub_params = []\<rparr>"

definition TurnGetURL :: url_builder where
  "TurnGetURL = \<lparr>ub_name = ''TurnGetURL'',
     ub_path = ''/v1/sessions/{session_id}/turn/{year}'',
     ub_params = [(''{session_id}'', ''sessionId''), (''{year}'', ''year'')]\<rparr>"

definition TurnLatestURL :: url_builder where
  "TurnLatestURL = \<lparr>ub_name = ''TurnLatestURL'',
     ub_path = ''/v1/sessions/{session_id}/turn/latest'',
     ub_params = [(''{session_id}'', ''sessionId'')]\<rparr>"

definition TurnSubmitURL :: url_builder where
  "TurnSubmitURL = \<lparr>ub_name = ''TurnSubmitURL'',
     ub_path = ''/v1/sessions/{session_id}/turn/{year}'',
     ub_params = [(''{session_id}'', ''sessionId''), (''{year}'', ''year'')]\<rparr>"

definition UserProfileCreateURL :: url_builder where
  "UserProfileCreateURL = \<lparr>ub_name = ''UserProfileCreateURL'',
     ub_path = ''/v1/user_profiles'',
     ub_params = []\<rparr>"

definition UserProfileDeleteURL :: url_builder where
  "UserProfileDeleteURL = \<lparr>ub_name = ''UserProfileDeleteURL'',
     ub_path = ''/v1/user_profiles/{user_profile_id}'',
     ub_params = [(''{user_profile_id}'', ''userProfileId'')]\<rparr>"

definition UserProfileListURL :: url_builder where
  "UserProfileListURL = \<lparr>ub_name = ''UserProfileListURL'',
     ub_path = ''/v1/user_profiles'',
     ub_params = []\<rparr>"

definition UserProfileReadURL :: url_builder where
  "UserProfileReadURL = \<lparr>ub_name = ''UserProfileReadURL'',
     ub_path = ''/v1/user_profiles/{user_profile_id}'',
     ub_params = [(''{user_profile_id}'', ''userProfileId'')]\<rparr>"

definition UserProfileResetApikeyURL :: url_builder where
  "UserProfileResetApikeyURL = \<lparr>ub_name = ''UserProfileResetApikeyURL'',
     ub_path = ''/v1/user_profiles/{user_profile_id}/reset_apikey'',
     ub_params = [(''{user_profile_id}'', ''userProfileId'')]\<rparr>"

definition UserProfileUpdateURL :: url_builder where
  "UserProfileUpdateURL = \<lparr>ub_name = ''UserProfileUpdateURL'',
     ub_path = ''/v1/user_profiles/{user_profile_id}'',
     ub_params = [(''{user_profile_id}'', ''userProfileId'')]\<rparr>"

definition UserinfoURL :: url_builder where
  "UserinfoURL = \<lparr>ub_name = ''UserinfoURL'',
     ub_path = ''/v1/auth/userinfo'',
     ub_params = []\<rparr>"

text \<open>The list of sessions has a parameter in the query.\<close>

definition SessionsListURL_RawQuery :: "bool option \<Rightarrow> string" where
  "SessionsListURL_RawQuery includeArchived = (case includeArchived of
     None \<Rightarrow> '''' | Some b \<Rightarrow> ''include_archived='' @ (if b then ''true'' else ''false''))"

primrec url_of :: "api_operation \<Rightarrow> url_builder" where
  "url_of OpAuthenticate = AuthenticateURL"
| "url_of OpDownloadStarsExe = DownloadStarsExeURL"
| "url_of OpGameCreate = GameCreateURL"
| "url_of OpHealthCheck = HealthCheckURL"
| "url_of OpHistoricBackup = HistoricBackupURL"
| "url_of OpInvitationAccept = InvitationAcceptURL"
| "url_of OpInvitationCreate = InvitationCreateURL"
| "url_of OpInvitationDecline = InvitationDeclineURL"
| "url_of OpInvitationList = InvitationListURL"
| "url_of OpInvitationSentList = InvitationSentListURL"
| "url_of OpNotifications = NotificationsURL"
| "url_of OpOrdersStatus = OrdersStatusURL"
| "url_of OpPendingRegistrationApprove = PendingRegistrationApproveURL"
| "url_of OpPendingRegistrationList = PendingRegistrationListURL"
| "url_of OpPendingRegistrationReject = PendingRegistrationRejectURL"
| "url_of OpRaceCreate = RaceCreateURL"
| "url_of OpRaceDelete = RaceDeleteURL"
| "url_of OpRaceRead = RaceReadURL"
| "url_of OpRacesList = RacesListURL"
| "url_of OpRefreshToken = RefreshTokenURL"
| "url_of OpRegister = RegisterURL"
| "url_of OpReorderPlayers = ReorderPlayersURL"
| "url_of OpRulesCreate = RulesCreateURL"
| "url_of OpRulesRead = RulesReadURL"
| "url_of OpSessionArchive = SessionArchiveURL"
| "url_of OpSessionCreate = SessionCreateURL"
| "url_of OpSessionDelete = SessionDeleteURL"
| "url_of OpSessionFilesGet = SessionFilesGetURL"
| "url_of OpSessionJoin = SessionJoinURL"
| "url_of OpSessionPlayerControl = SessionPlayerControlURL"
| "url_of OpSessionPlayerRaceCreate = SessionPlayerRaceCreateURL"
| "url_of OpSessionPlayerRaceDelete = SessionPlayerRaceDeleteURL"
| "url_of OpSessionPlayerRaceGet = SessionPlayerRaceGetURL"
| "url_of OpSessionPlayerRaceSetReady = SessionPlayerRaceSetReadyURL"
| "url_of OpSessionPlayerSwitchToAI = SessionPlayerSwitchToAIURL"
| "url_of OpSessionPlayerSwitchToHuman = SessionPlayerSwitchToHumanURL"
| "url_of OpSessionPromoteMember = SessionPromoteMemberURL"
| "url_of OpSessionQuit = SessionQuitURL"
| "url_of OpSessionRead = SessionReadURL"
| "url_of OpSessionUpdate = SessionUpdateURL"
| "url_of OpSessionsList = SessionsListURL"
| "url_of OpTurnGet = TurnGetURL"
| "url_of OpTurnLatest = TurnLatestURL"
| "url_of OpTurnSubmit = TurnSubmitURL"
| "url_of OpUserProfileCreate = UserProfileCreateURL"
| "url_of OpUserProfileDelete = UserProfileDeleteURL"
| "url_of OpUserProfileList = UserProfileListURL"
| "url_of OpUserProfileRead = UserProfileReadURL"
| "url_of OpUserProfileResetApikey = UserProfileResetApikeyURL"
| "url_of OpUserProfileUpdate = UserProfileUpdateURL"
| "url_of OpUserinfo = UserinfoURL"

subsection \<open>The table of the handlers\<close>

text \<open>Each entry of \<open>initHandlerCache\<close>: method, path and operation.\<close>

definition route_table :: "(string \<times> string \<times> api_operation) list" where
  "route_table = [(''POST'', ''/v1/auth/authenticate'', OpAuthenticate),
     (''GET'', ''/v1/downloads/stars.exe'', OpDownloadStarsExe),
     (''POST'', ''/v1/sessions/{session_id}/game'', OpGameCreate),
     (''GET'', ''/healthz'', OpHealthCheck),
     (''GET'', ''/v1/sessions/{session_id}/backup'', OpHistoricBackup),
     (''PUT'', ''/v1/invitations/{invitation_id}'', OpInvitationAccept),
     (''POST'', ''/v1/sessions/{session_id}/invite'', OpInvitationCreate),
     (''DELETE'', ''/v1/invitations/{invitation_id}'', OpInvitationDecline),
     (''GET'', ''/v1/invitations'', OpInvitationList),
     (''GET'', ''/v1/invitations/sent'', OpInvitationSentList),
     (''GET'', ''/v1/notifications'', OpNotifications),
     (''GET'', ''/v1/sessions/{session_id}/orders/{year}'', OpOrdersStatus),
     (''POST'', ''/v1/pending_registrations/{user_profile_id}/approve'', OpPendingRegistrationApprove),
     (''GET'', ''/v1/pending_registrations'', OpPendingRegistrationList),
     (''DELETE'', ''/v1/pending_registrations/{user_profile_id}/reject'', OpPendingRegistrationReject),
     (''POST'', ''/v1/user_profiles/{user_profile_id}/races'', OpRaceCreate),
     (''DELETE'', ''/v1/user_profiles/{user_profile_id}/races/{race_id}'', OpRaceDelete),
     (''GET'', ''/v1/user_profiles/{user_profile_id}/races/{race_id}'', OpRaceRead),
     (''GET'', ''/v1/user_profiles/{user_profile_id}/races'', OpRacesList),
     (''POST'', ''/v1/auth/refresh_token'', OpRefreshToken),
     (''POST'', ''/v1/auth/register'', OpRegister),
     (''PUT'', ''/v1/sessions/{session_id}/reorder_players'', OpReorderPlayers),
     (''POST'', ''/v1/sessions/{session_id}/rules'', OpRulesCreate),
     (''GET'', ''/v1/sessions/{session_id}/rules'', OpRulesRead),
     (''POST'', ''/v1/sessions/{session_id}/archive'', OpSessionArchive),
     (''POST'', ''/v1/sessions'', OpSessionCreate),
     (''DELETE'', ''/v1/sessions/{session_id}'', OpSessionDelete),
     (''GET'', ''/v1/sessions/{session_id}/files'', OpSessionFilesGet),
     (''POST'', ''/v1/sessions/{session_id}/join'', OpSessionJoin),
     (''GET'', ''/v1/sessions/{session_id}/player_control'', OpSessionPlayerControl),
     (''POST'', ''/v1/sessions/{session_id}/player_race'', OpSessionPlayerRaceCreate),
     (''DELETE'', ''/v1/sessions/{session_id}/player_race/{player_race_id}'', OpSessionPlayerRaceDelete),
     (''GET'', ''/v1/sessions/{session_id}/player_race'', OpSessionPlayerRaceGet),
     (''PUT'', ''/v1/sessions/{session_id}/player_race/ready'', OpSessionPlayerRaceSetReady),
     (''POST'', ''/v1/sessions/{session_id}/player/{player_order}/switch_to_ai'', OpSessionPlayerSwitchToAI),
     (''POST'', ''/v1/sessions/{session_id}/player/{player_order}/switch_to_human'', OpSessionPlayerSwitchToHuman),
     (''POST'', ''/v1/sessions/{session_id}/promote/{user_profile_id}'', OpSessionPromoteMember),
     (''POST'', ''/v1/sessions/{session_id}/quit'', OpSessionQuit),
     (''GET'', ''/v1/sessions/{session_id}'', OpSessionRead),
     (''PUT'', ''/v1/sessions/{session_id}'', OpSessionUpdate),
     (''GET'', ''/v1/sessions'', OpSessionsList),
     (''GET'', ''/v1/sessions/{session_id}/turn/{year}'', OpTurnGet),
     (''GET'', ''/v1/sessions/{session_id}/turn/latest'', OpTurnLatest),
     (''PUT'', ''/v1/sessions/{session_id}/turn/{year}'', OpTurnSubmit),
     (''POST'', ''/v1/user_profiles'', OpUserProfileCreate),
     (''DELETE'', ''/v1/user_profiles/{user_profile_id}'', OpUserProfileDelete),
     (''GET'', ''/v1/user_profiles'', OpUserProfileList),
     (''GET'', ''/v1/user_profiles/{user_profile_id}'', OpUserProfileRead),
     (''POST'', ''/v1/user_profiles/{user_profile_id}/reset_apikey'', OpUserProfileResetApikey),
     (''PUT'', ''/v1/user_profiles/{user_profile_id}'', OpUserProfileUpdate),
     (''GET'', ''/v1/auth/userinfo'', OpUserinfo)]"

type_synonym 'h handlers = "string \<rightharpoonup> (string \<rightharpoonup> 'h)"

definition add_handler :: "string \<Rightarrow> string \<Rightarrow> 'h \<Rightarrow> 'h handlers \<Rightarrow> 'h handlers" where
  "add_handler verb path h hs =
    (let hs1 = (if hs verb = None then hs(verb \<mapsto> Map.empty) else hs) in
     hs1(verb \<mapsto> (the (hs1 verb))(path \<mapsto> h)))"

text \<open>\<open>new\<close> is the handler that the constructor of an operation makes of the one in the API.\<close>

definition initHandlerCache :: "(api_operation \<Rightarrow> 'h) \<Rightarrow> 'h handlers" where
  "initHandlerCache new = fold (\<lambda>(verb, path, op). add_handler verb path (new op)) route_table Map.empty"

definition ToUpper :: "string \<Rightarrow> string" where
  "ToUpper s = map (\<lambda>c. if CHR ''a'' \<le> c \<and> c \<le> CHR ''z'' then char_of (of_char c - 32 :: nat) else c) s"

definition HandlerFor :: "'h handlers \<Rightarrow> string \<Rightarrow> string \<Rightarrow> 'h option" where
  "HandlerFor hs verb path =
    (let um = ToUpper verb in
     case hs um of
       None \<Rightarrow> None
     | Some paths \<Rightarrow> paths (if path = ''/'' then '''' else path))"

text \<open>
  \<open>AddMiddlewareFor\<close> looks the handler up under the method in capitals and stores the new one under
  the method as it was given: for one that the table does not have, the assignment to a nil map panics.
\<close>

definition AddMiddlewareFor :: "string \<Rightarrow> string \<Rightarrow> ('h \<Rightarrow> 'h) \<Rightarrow> 'h handlers \<Rightarrow> err + 'h handlers" where
  "AddMiddlewareFor verb path builder hs =
    (let um = ToUpper verb; path = (if path = ''/'' then '''' else path) in
     case (case hs um of None \<Rightarrow> None | Some paths \<Rightarrow> paths path) of
       None \<Rightarrow> Inr hs
     | Some h \<Rightarrow> (case hs verb of
         None \<Rightarrow> Inl Panic
       | Some paths \<Rightarrow> Inr (hs(verb \<mapsto> paths(path \<mapsto> builder h)))))"

text \<open>
  \<open>LoggingInstrumentHandlers\<close> wraps every handler so that the log of a request names its operation:
  the method, the path, the tag and the name. A wrapper keeps what the handler answers.
\<close>

definition logged_operations :: "(string \<times> string \<times> string \<times> string) list" where
  "logged_operations = [(''POST'', ''/v1/auth/authenticate'', '''', ''authenticate''),
     (''GET'', ''/v1/downloads/stars.exe'', '''', ''downloadStarsExe''),
     (''POST'', ''/v1/sessions/{session_id}/game'', '''', ''gameCreate''),
     (''GET'', ''/healthz'', '''', ''healthCheck''),
     (''GET'', ''/v1/sessions/{session_id}/backup'', '''', ''historicBackup''),
     (''PUT'', ''/v1/invitations/{invitation_id}'', '''', ''invitationAccept''),
     (''POST'', ''/v1/sessions/{session_id}/invite'', '''', ''invitationCreate''),
     (''DELETE'', ''/v1/invitations/{invitation_id}'', '''', ''invitationDecline''),
     (''GET'', ''/v1/invitations'', '''', ''invitationList''),
     (''GET'', ''/v1/invitations/sent'', '''', ''invitationSentList''),
     (''GET'', ''/v1/notifications'', '''', ''notifications''),
     (''GET'', ''/v1/sessions/{session_id}/orders/{year}'', '''', ''ordersStatus''),
     (''POST'', ''/v1/pending_registrations/{user_profile_id}/approve'', '''', ''pendingRegistrationApprove''),
     (''GET'', ''/v1/pending_registrations'', '''', ''pendingRegistrationList''),
     (''DELETE'', ''/v1/pending_registrations/{user_profile_id}/reject'', '''', ''pendingRegistrationReject''),
     (''POST'', ''/v1/user_profiles/{user_profile_id}/races'', '''', ''raceCreate''),
     (''DELETE'', ''/v1/user_profiles/{user_profile_id}/races/{race_id}'', '''', ''raceDelete''),
     (''GET'', ''/v1/user_profiles/{user_profile_id}/races/{race_id}'', '''', ''raceRead''),
     (''GET'', ''/v1/user_profiles/{user_profile_id}/races'', '''', ''racesList''),
     (''POST'', ''/v1/auth/refresh_token'', '''', ''refresh-token''),
     (''POST'', ''/v1/auth/register'', '''', ''register''),
     (''PUT'', ''/v1/sessions/{session_id}/reorder_players'', '''', ''reorderPlayers''),
     (''POST'', ''/v1/sessions/{session_id}/rules'', '''', ''rulesCreate''),
     (''GET'', ''/v1/sessions/{session_id}/rules'', '''', ''rulesRead''),
     (''POST'', ''/v1/sessions/{session_id}/archive'', '''', ''sessionArchive''),
     (''POST'', ''/v1/sessions'', '''', ''sessionCreate''),
     (''DELETE'', ''/v1/sessions/{session_id}'', '''', ''sessionDelete''),
     (''GET'', ''/v1/sessions/{session_id}/files'', '''', ''sessionFilesGet''),
     (''POST'', ''/v1/sessions/{session_id}/join'', '''', ''sessionJoin''),
     (''GET'', ''/v1/sessions/{session_id}/player_control'', '''', ''sessionPlayerControl''),
     (''POST'', ''/v1/sessions/{session_id}/player_race'', '''', ''sessionPlayerRaceCreate''),
     (''DELETE'', ''/v1/sessions/{session_id}/player_race/{player_race_id}'', '''', ''sessionPlayerRaceDelete''),
     (''GET'', ''/v1/sessions/{session_id}/player_race'', '''', ''sessionPlayerRaceGet''),
     (''PUT'', ''/v1/sessions/{session_id}/player_race/ready'', '''', ''sessionPlayerRaceSetReady''),
     (''POST'', ''/v1/sessions/{session_id}/player/{player_order}/switch_to_ai'', '''', ''sessionPlayerSwitchToAI''),
     (''POST'', ''/v1/sessions/{session_id}/player/{player_order}/switch_to_human'', '''', ''sessionPlayerSwitchToHuman''),
     (''POST'', ''/v1/sessions/{session_id}/promote/{user_profile_id}'', '''', ''sessionPromoteMember''),
     (''POST'', ''/v1/sessions/{session_id}/quit'', '''', ''sessionQuit''),
     (''GET'', ''/v1/sessions/{session_id}'', '''', ''sessionRead''),
     (''PUT'', ''/v1/sessions/{session_id}'', '''', ''sessionUpdate''),
     (''GET'', ''/v1/sessions'', '''', ''sessionsList''),
     (''GET'', ''/v1/sessions/{session_id}/turn/{year}'', '''', ''turnGet''),
     (''GET'', ''/v1/sessions/{session_id}/turn/latest'', '''', ''turnLatest''),
     (''PUT'', ''/v1/sessions/{session_id}/turn/{year}'', '''', ''turnSubmit''),
     (''POST'', ''/v1/user_profiles'', '''', ''userProfileCreate''),
     (''DELETE'', ''/v1/user_profiles/{user_profile_id}'', '''', ''userProfileDelete''),
     (''GET'', ''/v1/user_profiles'', '''', ''userProfileList''),
     (''GET'', ''/v1/user_profiles/{user_profile_id}'', '''', ''userProfileRead''),
     (''POST'', ''/v1/user_profiles/{user_profile_id}/reset_apikey'', '''', ''userProfileResetApikey''),
     (''PUT'', ''/v1/user_profiles/{user_profile_id}'', '''', ''userProfileUpdate''),
     (''GET'', ''/v1/auth/userinfo'', '''', ''userinfo'')]"

definition LoggingInstrumentHandlers ::
    "(string \<Rightarrow> string \<Rightarrow> 'h option \<Rightarrow> 'h) \<Rightarrow> 'h handlers \<Rightarrow> err + 'h handlers" where
  "LoggingInstrumentHandlers LogOperation hs =
    fold (\<lambda>(verb, path, tag, operationID) r. and_then r (\<lambda>hs.
       case hs verb of None \<Rightarrow> Inl Panic
       | Some paths \<Rightarrow> Inr (hs(verb \<mapsto> paths(path \<mapsto> LogOperation tag operationID (paths path))))))
     logged_operations (Inr hs)"

subsection \<open>Every operation is found\<close>

lemma add_handler_apply:
  "(case add_handler verb path h hs v of None \<Rightarrow> None | Some ps \<Rightarrow> ps p) =
   (if v = verb \<and> p = path then Some h else (case hs v of None \<Rightarrow> None | Some ps \<Rightarrow> ps p))"
  by (auto simp: add_handler_def Let_def split: option.splits)

lemma cache_lookup:
  assumes "distinct (map (\<lambda>(verb, path, op). (verb, path)) table)"
  shows "(case fold (\<lambda>(verb, path, op). add_handler verb path (new op)) table hs v of None \<Rightarrow> None | Some ps \<Rightarrow> ps p) =
    (case find (\<lambda>(verb, path, op). verb = v \<and> path = p) table of
       Some (verb, path, op) \<Rightarrow> Some (new op)
     | None \<Rightarrow> (case hs v of None \<Rightarrow> None | Some ps \<Rightarrow> ps p))"
  using assms
proof (induction table arbitrary: hs)
  case (Cons e table)
  obtain verb path op where e: "e = (verb, path, op)" by (cases e)
  have "find (\<lambda>(verb, path, op). verb = v \<and> path = p) table = None" if "verb = v" "path = p"
    using Cons.prems that by (force simp: e find_None_iff)
  then show ?case using Cons by (auto simp: e add_handler_apply split: option.splits)
qed (simp split: option.splits)

text \<open>Methods are in capitals, no path is the root, and no method and path belong to two operations.\<close>

lemma route_table_distinct: "distinct (map (\<lambda>(verb, path, op). (verb, path)) route_table)"
  by code_simp

lemma route_table_verbs: "list_all (\<lambda>(verb, path, op). ToUpper verb = verb \<and> path \<noteq> ''/'') route_table"
  by code_simp

lemma route_table_operations: "distinct (map (snd \<circ> snd) route_table)" "set operations = set (map (snd \<circ> snd) route_table)"
  by code_simp+

lemma find_route:
  assumes "(verb, path, op) \<in> set table" "distinct (map (\<lambda>(verb, path, op). (verb, path)) table)"
  shows "find (\<lambda>(v, p, op). v = verb \<and> p = path) table = Some (verb, path, op)"
  using assms
proof (induction table)
  case (Cons e table)
  then show ?case by (cases e) (force simp: case_prod_beta)
qed simp

lemma HandlerFor_route:
  assumes "(verb, path, op) \<in> set route_table"
  shows "HandlerFor (initHandlerCache new) verb path = Some (new op)"
proof -
  have "ToUpper verb = verb" "path \<noteq> ''/''" using assms route_table_verbs by (auto simp: list_all_iff)
  then show ?thesis
    using cache_lookup [OF route_table_distinct, where new = new and hs = Map.empty and v = verb and p = path] find_route [OF assms route_table_distinct]
    by (auto simp: HandlerFor_def Let_def initHandlerCache_def split: option.splits)
qed

lemma cache_other_verb:
  "v \<notin> fst ` set table \<Longrightarrow> fold (\<lambda>(verb, path, op). add_handler verb path (new op)) table hs v = hs v"
  by (induction table arbitrary: hs) (auto simp: add_handler_def Let_def)

text \<open>A middleware that is added for a method in small letters panics.\<close>

lemma AddMiddlewareFor_small_letters:
  "AddMiddlewareFor ''get'' ''/healthz'' builder (initHandlerCache new) = Inl Panic"
proof -
  have "(''GET'', ''/healthz'', OpHealthCheck) \<in> set route_table" by code_simp
  from HandlerFor_route [OF this, of new]
  have "(case initHandlerCache new ''GET'' of None \<Rightarrow> None | Some ps \<Rightarrow> ps ''/healthz'') = Some (new OpHealthCheck)"
    by (simp add: HandlerFor_def Let_def ToUpper_def split: option.splits)
  moreover have "''get'' \<notin> fst ` set route_table" by code_simp
  then have "initHandlerCache new ''get'' = None" by (simp add: initHandlerCache_def cache_other_verb)
  moreover have "ToUpper ''get'' = ''GET''" by code_simp
  ultimately show ?thesis by (simp add: AddMiddlewareFor_def Let_def)
qed

subsection \<open>A built URL leads to its operation\<close>

text \<open>
  What a router does with a template: a placeholder takes one segment that is not empty. Where several
  templates of a method match, the router takes the one that has a literal where the others have a
  placeholder.
\<close>

definition is_placeholder :: "string \<Rightarrow> bool" where
  "is_placeholder s \<longleftrightarrow> take 1 s = ''{''"

definition template_segments :: "string \<Rightarrow> string list" where
  "template_segments t = split_slash (drop 1 t)"

fun match_segments :: "string list \<Rightarrow> string list \<Rightarrow> (string \<times> string) list option" where
  "match_segments [] [] = Some []"
| "match_segments (t # ts) (x # xs) =
    (if is_placeholder t then (if x = '''' then None else map_option (Cons (t, x)) (match_segments ts xs))
     else if t = x then match_segments ts xs else None)"
| "match_segments ts xs = None"

definition match_template :: "string \<Rightarrow> string \<Rightarrow> (string \<times> string) list option" where
  "match_template t path = (if take 1 path = ''/'' then match_segments (template_segments t) (split_slash (drop 1 path)) else None)"

definition as_specific :: "string \<Rightarrow> string \<Rightarrow> bool" where
  "as_specific t t' \<longleftrightarrow>
    list_all2 (\<lambda>s s'. is_placeholder s' \<or> s = s') (template_segments t) (template_segments t')"

definition filled :: "(string \<times> string) list \<Rightarrow> string \<Rightarrow> string" where
  "filled al s = (case map_of al s of None \<Rightarrow> s | Some v \<Rightarrow> v)"

definition value_ok :: "string \<Rightarrow> bool" where
  "value_ok v \<longleftrightarrow> plain v \<and> CHR ''{'' \<notin> set v \<and> v \<noteq> ''latest''"

text \<open>The placeholders of a builder against the segments of its template.\<close>

definition placeholder_ok :: "string list \<Rightarrow> string \<Rightarrow> bool" where
  "placeholder_ok segs p \<longleftrightarrow> is_placeholder p \<and> CHR ''/'' \<notin> set p \<and> list_all (\<lambda>s. s = p \<or> \<not> contains p s) segs"

definition builder_ok :: "string \<Rightarrow> url_builder \<Rightarrow> bool" where
  "builder_ok t ub \<longleftrightarrow>
    (let segs = template_segments t; phs = map fst (ub_params ub) in
     ub_path ub = t \<and> t = CHR ''/'' # join_slash segs \<and> segs \<noteq> [] \<and> list_all plain segs \<and> distinct phs \<and>
     list_all (placeholder_ok segs) phs \<and> list_all (\<lambda>p. p \<in> set segs) phs \<and>
     list_all (\<lambda>s. is_placeholder s \<longrightarrow> s \<in> set phs) segs)"

lemma builders_ok: "list_all (\<lambda>(verb, t, op). builder_ok t (url_of op)) route_table"
  by code_simp

text \<open>Two templates of a method overlap only where one is more specific, but for the word \<open>latest\<close>.\<close>

fun overlap :: "string list \<Rightarrow> string list \<Rightarrow> bool" where
  "overlap [] [] = True"
| "overlap (s # ss) (s' # ss') =
    (if (if is_placeholder s' then True else if is_placeholder s then s' \<noteq> ''latest'' else s = s')
     then overlap ss ss' else False)"
| "overlap ss ss' = False"

fun specific :: "string list \<Rightarrow> string list \<Rightarrow> bool" where
  "specific [] [] = True"
| "specific (s # ss) (s' # ss') = (if (if is_placeholder s' then True else s = s') then specific ss ss' else False)"
| "specific ss ss' = False"

lemma as_specific_iff: "as_specific t t' \<longleftrightarrow> specific (template_segments t) (template_segments t')"
proof -
  have "list_all2 (\<lambda>s s'. is_placeholder s' \<or> s = s') ss ss' \<longleftrightarrow> specific ss ss'" for ss ss'
    by (induction ss ss' rule: specific.induct) auto
  then show ?thesis by (simp add: as_specific_def)
qed

definition templates_of :: "string \<Rightarrow> string list list" where
  "templates_of v = map (\<lambda>(verb, t, op). template_segments t) (filter (\<lambda>(verb, t, op). verb = v) route_table)"

definition no_clash :: "string list list \<Rightarrow> bool" where
  "no_clash tss \<longleftrightarrow> list_all (\<lambda>ss. list_all (\<lambda>ss'. if overlap ss ss' then specific ss ss' else True) tss) tss"

lemma no_clashes:
  "no_clash (templates_of ''GET'')" "no_clash (templates_of ''POST'')"
  "no_clash (templates_of ''PUT'')" "no_clash (templates_of ''DELETE'')"
  by code_simp+

lemma route_verbs: "list_all (\<lambda>(verb, t, op). verb \<in> {''GET'', ''POST'', ''PUT'', ''DELETE''}) route_table"
  by code_simp

lemma routes_do_not_overlap:
  assumes "(verb, t, op) \<in> set route_table" "(verb, t', op') \<in> set route_table"
    and "overlap (template_segments t) (template_segments t')"
  shows "as_specific t t'"
proof -
  have "verb \<in> {''GET'', ''POST'', ''PUT'', ''DELETE''}" using route_verbs assms(1) by (fastforce simp: list_all_iff)
  then have "no_clash (templates_of verb)" using no_clashes by blast
  moreover have "template_segments t \<in> set (templates_of verb)" "template_segments t' \<in> set (templates_of verb)"
    using assms(1,2) by (force simp: templates_of_def)+
  ultimately show ?thesis using assms(3) by (auto simp: no_clash_def list_all_iff as_specific_iff split: if_splits)
qed

lemma placeholder_not_in_value:
  assumes "is_placeholder p" "CHR ''{'' \<notin> set v"
  shows "\<not> contains p v" "v \<noteq> p"
proof -
  have "CHR ''{'' \<in> set p" using assms(1) by (cases p) (auto simp: is_placeholder_def)
  then show "\<not> contains p v" "v \<noteq> p" using assms(2) contains_subset [of p v] by auto
qed

lemma fill_in_segments:
  assumes "length vs = length ps" "list_all value_ok vs" "distinct (map fst ps)"
    and "list_all (placeholder_ok segs) (map fst ps)"
  shows "fill_in name ps vs (CHR ''/'' # join_slash segs) =
    Inr (CHR ''/'' # join_slash (map (filled (zip (map fst ps) vs)) segs))"
  using assms
proof (induction ps arbitrary: vs segs)
  case Nil
  then show ?case by (simp add: filled_def)
next
  case (Cons q ps)
  obtain p label where q: "q = (p, label)" by (cases q)
  obtain v vs' where vs: "vs = v # vs'" using Cons.prems(1) by (cases vs) auto
  let ?segs = "map (\<lambda>s. if s = p then v else s) segs"
  have p: "is_placeholder p" "CHR ''/'' \<notin> set p" "p \<noteq> ''''" and s: "\<forall>s \<in> set segs. s = p \<or> \<not> contains p s"
    using Cons.prems(4) by (auto simp: q placeholder_ok_def list_all_iff is_placeholder_def)
  have v: "v \<noteq> ''''" "CHR ''{'' \<notin> set v" using Cons.prems(2) by (auto simp: vs value_ok_def plain_def)
  have "Replace p v (CHR ''/'' # join_slash segs) = CHR ''/'' # Replace p v (join_slash segs)"
    using Replace_slash [OF p(2), of v "[]" "join_slash segs"] by simp
  also have "Replace p v (join_slash segs) = join_slash (map (Replace p v) segs)" by (rule Replace_join [OF p(2)])
  also have "map (Replace p v) segs = ?segs" using s p(3) by (auto simp: Replace_itself Replace_nothing)
  finally have replaced: "Replace p v (CHR ''/'' # join_slash segs) = CHR ''/'' # join_slash ?segs" .
  have later: "placeholder_ok ?segs p'" if "p' \<in> set (map fst ps)" for p'
    using that Cons.prems(4) v(2) placeholder_not_in_value(1) by (auto simp: placeholder_ok_def list_all_iff)
  have "filled (zip (map fst ps) vs') (if s = p then v else s) = filled (zip (map fst (q # ps)) vs) s" for s
  proof (cases "s = p")
    case True
    have "v \<notin> set (map fst ps)" using later v(2) placeholder_not_in_value(2) by (auto simp: placeholder_ok_def)
    then have "map_of (zip (map fst ps) vs') v = None" by (metis in_set_zipE map_of_SomeD not_None_eq)
    then show ?thesis using True by (simp add: filled_def q vs)
  qed (simp add: filled_def q vs)
  then have same: "map (filled (zip (map fst ps) vs')) ?segs = map (filled (zip (map fst (q # ps)) vs)) segs" by simp
  have "fill_in name ps vs' (CHR ''/'' # join_slash ?segs) =
      Inr (CHR ''/'' # join_slash (map (filled (zip (map fst ps) vs')) ?segs))"
    using Cons.prems later by (intro Cons.IH) (auto simp: vs list_all_iff)
  then have "fill_in name ps vs' (CHR ''/'' # join_slash ?segs) =
      Inr (CHR ''/'' # join_slash (map (filled (zip (map fst (q # ps)) vs)) segs))" unfolding same .
  then show ?case using v(1) replaced by (simp only: q vs fill_in.simps if_True not_False_eq_True)
qed

lemma match_filled:
  assumes "\<forall>s \<in> set segs. if is_placeholder s then filled al s \<noteq> '''' else filled al s = s"
  shows "match_segments segs (map (filled al) segs) = Some (map (\<lambda>s. (s, filled al s)) (filter is_placeholder segs))"
  using assms by (induction segs) auto

text \<open>A template that matches what another one was filled in to overlaps with it.\<close>

lemma match_overlap:
  assumes "match_segments ts (map (filled al) segs) \<noteq> None"
    and "\<forall>s \<in> set segs. if is_placeholder s then filled al s \<noteq> ''latest'' else filled al s = s"
  shows "overlap segs ts"
  using assms
proof (induction segs arbitrary: ts)
  case Nil
  then show ?case by (cases ts) auto
next
  case (Cons s segs)
  obtain s' ts' where ts: "ts = s' # ts'" using Cons.prems(1) by (cases ts) auto
  have "match_segments ts' (map (filled al) segs) \<noteq> None" using Cons.prems(1) by (auto simp: ts split: if_splits)
  then have "overlap segs ts'" using Cons.prems(2) by (intro Cons.IH) auto
  then show ?case using Cons.prems by (auto simp: ts split: if_splits)
qed

lemma filled_values:
  assumes "length vs = length phs" "distinct phs"
  shows "(\<lambda>p. (p, filled (zip phs vs) p)) ` set phs = set (zip phs vs)"
  using assms
proof (induction phs arbitrary: vs)
  case (Cons p phs)
  obtain v vs' where vs: "vs = v # vs'" using Cons.prems(1) by (cases vs) auto
  have "filled (zip (p # phs) vs) p' = filled (zip phs vs') p'" if "p' \<in> set phs" for p'
    using that Cons.prems(2) by (auto simp: filled_def vs)
  then have "(\<lambda>p'. (p', filled (zip (p # phs) vs) p')) ` set phs = (\<lambda>p'. (p', filled (zip phs vs') p')) ` set phs"
    by (intro image_cong) auto
  then show ?case using Cons by (simp add: vs filled_def)
qed simp

lemma filled_segment:
  assumes "length vs = length phs" "list_all value_ok vs" "list_all is_placeholder phs"
  shows "s \<in> set phs \<Longrightarrow> value_ok (filled (zip phs vs) s)"
    and "\<not> is_placeholder s \<Longrightarrow> filled (zip phs vs) s = s"
proof -
  assume "s \<in> set phs"
  then obtain v where "map_of (zip phs vs) s = Some v" using assms(1) by (metis map_of_zip_is_Some)
  then show "value_ok (filled (zip phs vs) s)"
    using assms(2) by (auto simp: filled_def list_all_iff dest!: map_of_SomeD set_zip_rightD)
next
  assume "\<not> is_placeholder s"
  then have "s \<notin> set phs" using assms(3) by (auto simp: list_all_iff)
  then have "map_of (zip phs vs) s = None" using assms(1) by (simp add: map_of_zip_is_None)
  then show "filled (zip phs vs) s = s" by (simp add: filled_def)
qed

text \<open>\<^bold>\<open>C37\<close>:
  A built URL leads to the operation for which it was built. For every route, filling in values
  that are plain segments gives a path below \<open>/api\<close> that the template of the route matches with
  exactly these values, and the table has the handler of the operation there. Another template of the
  same method matches the path only where it is less specific, so that the router prefers this one;
  the word \<open>latest\<close>, which is a segment of one route, is excluded as a value.\<close>

theorem URL_round_trip:
  assumes "(verb, t, op) \<in> set route_table" "length vs = length (ub_params (url_of op))" "list_all value_ok vs"
  shows "\<exists>path ps. URL_Build (url_of op) '''' vs = Inr (''/api'' @ path) \<and>
    match_template t path = Some ps \<and> set ps = set (zip (map fst (ub_params (url_of op))) vs) \<and>
    HandlerFor (initHandlerCache new) verb t = Some (new op) \<and>
    (\<forall>(verb', t', op') \<in> set route_table. verb' = verb \<longrightarrow> match_template t' path \<noteq> None \<longrightarrow> as_specific t t')"
proof -
  define segs where "segs = template_segments t"
  define phs where "phs = map fst (ub_params (url_of op))"
  define xs where "xs = map (filled (zip phs vs)) segs"
  have ok: "ub_path (url_of op) = CHR ''/'' # join_slash segs" "segs \<noteq> []" "list_all plain segs" "distinct phs"
      "list_all (placeholder_ok segs) phs" "set phs \<subseteq> set segs" "\<forall>s \<in> set segs. is_placeholder s \<longrightarrow> s \<in> set phs"
    using builders_ok assms(1) by (auto simp: list_all_iff builder_ok_def Let_def segs_def phs_def)
  have len: "length vs = length phs" using assms(2) by (simp add: phs_def)
  have pl: "list_all is_placeholder phs" using ok(5) by (auto simp: list_all_iff placeholder_ok_def)
  note seg = filled_segment [OF len assms(3) pl]
  have xs: "list_all plain xs" "xs \<noteq> []"
    using ok(2,3,7) seg by (auto simp: xs_def list_all_iff value_ok_def)
  have "fill_in (ub_name (url_of op)) (ub_params (url_of op)) vs (ub_path (url_of op)) = Inr (CHR ''/'' # join_slash xs)"
    using fill_in_segments [OF assms(2,3)] ok(4,5) by (simp add: ok(1) xs_def phs_def)
  then have "URL_Build (url_of op) '''' vs = Inr (''/api'' @ CHR ''/'' # join_slash xs)"
    using path_Join_api [of xs] xs by (simp add: URL_Build_def list_all_iff)
  moreover have split [simp]: "split_slash (join_slash xs) = xs"
    using xs by (intro split_join) (auto simp: list_all_iff plain_def)
  have inst: "\<forall>s \<in> set segs. if is_placeholder s then filled (zip phs vs) s \<noteq> '''' else filled (zip phs vs) s = s"
    "\<forall>s \<in> set segs. if is_placeholder s then filled (zip phs vs) s \<noteq> ''latest'' else filled (zip phs vs) s = s"
    using ok(7) seg by (auto simp: value_ok_def plain_def)
  have "match_template t (CHR ''/'' # join_slash xs) = Some (map (\<lambda>s. (s, filled (zip phs vs) s)) (filter is_placeholder segs))"
    using match_filled [OF inst(1)] by (simp add: match_template_def segs_def [symmetric] xs_def [symmetric])
  moreover have "set (filter is_placeholder segs) = set phs" using ok(6,7) pl by (auto simp: list_all_iff)
  then have "set (map (\<lambda>s. (s, filled (zip phs vs) s)) (filter is_placeholder segs)) = set (zip phs vs)"
    using filled_values [OF len ok(4)] by (simp only: set_map)
  moreover have "as_specific t t'"
    if "(verb, t', op') \<in> set route_table" "match_template t' (CHR ''/'' # join_slash xs) \<noteq> None" for t' op'
  proof (rule routes_do_not_overlap [OF assms(1) that(1)])
    show "overlap (template_segments t) (template_segments t')"
      using match_overlap [OF _ inst(2)] that(2)
      by (simp add: match_template_def segs_def [symmetric] xs_def [symmetric])
  qed
  ultimately show ?thesis using HandlerFor_route [OF assms(1), of new] unfolding phs_def by blast
qed

theorem URL_round_trip_witness:
  "\<exists>path ps. URL_Build TurnGetURL '''' [''s1'', ''2400''] = Inr (''/api'' @ path) \<and>
    match_template ''/v1/sessions/{session_id}/turn/{year}'' path = Some ps \<and>
    set ps = {(''{session_id}'', ''s1''), (''{year}'', ''2400'')} \<and>
    path = ''/v1/sessions/s1/turn/2400''"
proof -
  have "(''GET'', ''/v1/sessions/{session_id}/turn/{year}'', OpTurnGet) \<in> set route_table" by code_simp
  moreover have "length [''s1'', ''2400''] = length (ub_params (url_of OpTurnGet))" by code_simp
  moreover have "list_all value_ok [''s1'', ''2400'']" by code_simp
  moreover have "URL_Build TurnGetURL '''' [''s1'', ''2400''] = Inr (''/api'' @ ''/v1/sessions/s1/turn/2400'')" by code_simp
  ultimately show ?thesis
    using URL_round_trip [of "''GET''" "''/v1/sessions/{session_id}/turn/{year}''" OpTurnGet "[''s1'', ''2400'']"]
    by (simp add: TurnGetURL_def) blast
qed

end
