(* ===== verification/Serving.thy ===== *)
theory Serving
  imports Routes Validation Auth
begin

section \<open>Serving an operation\<close>

text \<open>
  \<open>ServeHTTP\<close> of the generated operations: the library authorises the request, the parameters are
  bound and validated, and only then the handler runs. What the library go-openapi answers to
  \<open>Authorize\<close> and to its check of the content type are fields of the request here, its decoders of
  bodies and the conversion of flags a record \<open>formats\<close>. Bodies that the theory Validation
  binds are bound as there; what a handler gets is a tuple, the texts of the path first.
\<close>

subsection \<open>Parameters\<close>

text \<open>The values that a router has found for the placeholders, or of the query of the URL.\<close>

type_synonym path_params = "string \<rightharpoonup> string list"

definition path_value :: "string \<Rightarrow> path_params \<Rightarrow> string" where
  "path_value name ps = (case ps name of None \<Rightarrow> '''' | Some raw \<Rightarrow> if raw = [] then '''' else last raw)"

text \<open>The decoders of the bodies, applied to the bytes of a request of the type \<open>'j\<close>.\<close>

record 'j formats =
  fm_validator :: validator
  fm_bool :: "string \<Rightarrow> bool option"
  fm_credentials :: "'j \<Rightarrow> Credentials body"
  fm_invitation :: "'j \<Rightarrow> Invitation body"
  fm_order :: "'j \<Rightarrow> string body"
  fm_players :: "'j \<Rightarrow> PlayerOrderReq list body"
  fm_race :: "'j \<Rightarrow> RaceDB body"
  fm_ready :: "'j \<Rightarrow> bool body"
  fm_registration :: "'j \<Rightarrow> RegistrationRequest body"
  fm_ruleset :: "'j \<Rightarrow> Ruleset body"
  fm_session :: "'j \<Rightarrow> (string \<times> Session) body"
  fm_session_player_race :: "'j \<Rightarrow> SessionPlayerRaceDB body"
  fm_switch_request :: "'j \<Rightarrow> string body"
  fm_user_profile :: "'j \<Rightarrow> (string \<times> UserProfile) body"
  fm_user_profile_create :: "'j \<Rightarrow> UserProfileCreateRequest body"

record 'j incoming =
  in_Authorize :: "err + Principal option"
  in_content_type :: "verr option"
  in_params :: path_params
  in_query :: path_params
  in_body :: 'j

definition with_value :: "string \<Rightarrow> 'j incoming \<Rightarrow> verr list + 'p \<Rightarrow> verr list + string \<times> 'p" where
  "with_value name r bound = map_sum id (\<lambda>p. (path_value name (in_params r), p)) bound"

text \<open>Credentials are not validated; the flag of the query has the default false.\<close>

definition bind_Authenticate :: "Credentials body \<Rightarrow> verr list + Credentials option" where
  "bind_Authenticate = bind_body ''credentials'' (\<lambda>_. [])"

definition bind_SessionsList :: "(string \<Rightarrow> bool option) \<Rightarrow> string \<Rightarrow> verr list + bool option" where
  "bind_SessionsList ConvertBool raw =
    (if raw = '''' then Inr (Some False)
     else case ConvertBool raw of None \<Rightarrow> Inl [Invalid ''include_archived''] | Some b \<Rightarrow> Inr (Some b))"

definition bind_OrdersStatus :: "validator \<Rightarrow> string \<Rightarrow> verr list + int" where
  "bind_OrdersStatus V year = (case bind_int64 V ''year'' year of Inl e \<Rightarrow> Inl [e] | Inr k \<Rightarrow> Inr k)"

text \<open>The other operations have no parameters but texts in the path, which the router provides.\<close>

definition bind_DownloadStarsExe :: "path_params \<Rightarrow> verr list + unit" where
  "bind_DownloadStarsExe ps = Inr ()"

definition bind_GameCreate :: "path_params \<Rightarrow> verr list + string" where
  "bind_GameCreate ps = Inr (path_value ''session_id'' ps)"

definition bind_HealthCheck :: "path_params \<Rightarrow> verr list + unit" where
  "bind_HealthCheck ps = Inr ()"

definition bind_HistoricBackup :: "path_params \<Rightarrow> verr list + string" where
  "bind_HistoricBackup ps = Inr (path_value ''session_id'' ps)"

definition bind_InvitationAccept :: "path_params \<Rightarrow> verr list + string" where
  "bind_InvitationAccept ps = Inr (path_value ''invitation_id'' ps)"

definition bind_InvitationDecline :: "path_params \<Rightarrow> verr list + string" where
  "bind_InvitationDecline ps = Inr (path_value ''invitation_id'' ps)"

definition bind_InvitationList :: "path_params \<Rightarrow> verr list + unit" where
  "bind_InvitationList ps = Inr ()"

definition bind_InvitationSentList :: "path_params \<Rightarrow> verr list + unit" where
  "bind_InvitationSentList ps = Inr ()"

definition bind_Notifications :: "path_params \<Rightarrow> verr list + unit" where
  "bind_Notifications ps = Inr ()"

definition bind_PendingRegistrationApprove :: "path_params \<Rightarrow> verr list + string" where
  "bind_PendingRegistrationApprove ps = Inr (path_value ''user_profile_id'' ps)"

definition bind_PendingRegistrationList :: "path_params \<Rightarrow> verr list + unit" where
  "bind_PendingRegistrationList ps = Inr ()"

definition bind_PendingRegistrationReject :: "path_params \<Rightarrow> verr list + string" where
  "bind_PendingRegistrationReject ps = Inr (path_value ''user_profile_id'' ps)"

definition bind_RaceDelete :: "path_params \<Rightarrow> verr list + (string \<times> string)" where
  "bind_RaceDelete ps = Inr ((path_value ''user_profile_id'' ps, path_value ''race_id'' ps))"

definition bind_RaceRead :: "path_params \<Rightarrow> verr list + (string \<times> string)" where
  "bind_RaceRead ps = Inr ((path_value ''user_profile_id'' ps, path_value ''race_id'' ps))"

definition bind_RacesList :: "path_params \<Rightarrow> verr list + string" where
  "bind_RacesList ps = Inr (path_value ''user_profile_id'' ps)"

definition bind_RefreshToken :: "path_params \<Rightarrow> verr list + unit" where
  "bind_RefreshToken ps = Inr ()"

definition bind_RulesRead :: "path_params \<Rightarrow> verr list + string" where
  "bind_RulesRead ps = Inr (path_value ''session_id'' ps)"

definition bind_SessionArchive :: "path_params \<Rightarrow> verr list + string" where
  "bind_SessionArchive ps = Inr (path_value ''session_id'' ps)"

definition bind_SessionDelete :: "path_params \<Rightarrow> verr list + string" where
  "bind_SessionDelete ps = Inr (path_value ''session_id'' ps)"

definition bind_SessionFilesGet :: "path_params \<Rightarrow> verr list + string" where
  "bind_SessionFilesGet ps = Inr (path_value ''session_id'' ps)"

definition bind_SessionJoin :: "path_params \<Rightarrow> verr list + string" where
  "bind_SessionJoin ps = Inr (path_value ''session_id'' ps)"

definition bind_SessionPlayerControl :: "path_params \<Rightarrow> verr list + string" where
  "bind_SessionPlayerControl ps = Inr (path_value ''session_id'' ps)"

definition bind_SessionPlayerRaceDelete :: "path_params \<Rightarrow> verr list + (string \<times> string)" where
  "bind_SessionPlayerRaceDelete ps = Inr ((path_value ''session_id'' ps, path_value ''player_race_id'' ps))"

definition bind_SessionPlayerRaceGet :: "path_params \<Rightarrow> verr list + string" where
  "bind_SessionPlayerRaceGet ps = Inr (path_value ''session_id'' ps)"

definition bind_SessionPromoteMember :: "path_params \<Rightarrow> verr list + (string \<times> string)" where
  "bind_SessionPromoteMember ps = Inr ((path_value ''session_id'' ps, path_value ''user_profile_id'' ps))"

definition bind_SessionQuit :: "path_params \<Rightarrow> verr list + string" where
  "bind_SessionQuit ps = Inr (path_value ''session_id'' ps)"

definition bind_SessionRead :: "path_params \<Rightarrow> verr list + string" where
  "bind_SessionRead ps = Inr (path_value ''session_id'' ps)"

definition bind_TurnLatest :: "path_params \<Rightarrow> verr list + string" where
  "bind_TurnLatest ps = Inr (path_value ''session_id'' ps)"

definition bind_UserProfileDelete :: "path_params \<Rightarrow> verr list + string" where
  "bind_UserProfileDelete ps = Inr (path_value ''user_profile_id'' ps)"

definition bind_UserProfileList :: "path_params \<Rightarrow> verr list + unit" where
  "bind_UserProfileList ps = Inr ()"

definition bind_UserProfileRead :: "path_params \<Rightarrow> verr list + string" where
  "bind_UserProfileRead ps = Inr (path_value ''user_profile_id'' ps)"

definition bind_UserProfileResetApikey :: "path_params \<Rightarrow> verr list + string" where
  "bind_UserProfileResetApikey ps = Inr (path_value ''user_profile_id'' ps)"

definition bind_Userinfo :: "path_params \<Rightarrow> verr list + unit" where
  "bind_Userinfo ps = Inr ()"

subsection \<open>ServeHTTP\<close>

datatype 'r outcome = AuthError err | BindError "verr list" | Handled 'r

text \<open>\<open>BindValidRequest\<close>: the check of the content type, and the parameters if it has passed.\<close>

definition BindValidRequest :: "'j incoming \<Rightarrow> verr list + 'p \<Rightarrow> verr list + 'p" where
  "BindValidRequest r bound = (case in_content_type r of Some e \<Rightarrow> Inl [e] | None \<Rightarrow> bound)"

definition for_everyone :: "'j incoming \<Rightarrow> verr list + 'p \<Rightarrow> ('p \<Rightarrow> 'r) \<Rightarrow> 'r outcome" where
  "for_everyone r bound Handle = (case BindValidRequest r bound of
     Inl es \<Rightarrow> BindError es
   | Inr params \<Rightarrow> Handled (Handle params))"

definition with_principal ::
    "'j incoming \<Rightarrow> verr list + 'p \<Rightarrow> ('p \<Rightarrow> Principal option \<Rightarrow> 'r) \<Rightarrow> 'r outcome" where
  "with_principal r bound Handle = (case in_Authorize r of
     Inl e \<Rightarrow> AuthError e
   | Inr pr \<Rightarrow> (case BindValidRequest r bound of
       Inl es \<Rightarrow> BindError es
     | Inr params \<Rightarrow> Handled (Handle params pr)))"

definition Authenticate_ServeHTTP :: "(Credentials option \<Rightarrow> 'r) \<Rightarrow> 'j formats \<Rightarrow> 'j incoming \<Rightarrow> 'r outcome" where
  "Authenticate_ServeHTTP Handle fm r = for_everyone r (bind_Authenticate (fm_credentials fm (in_body r))) Handle"

definition DownloadStarsExe_ServeHTTP :: "(unit \<Rightarrow> Principal option \<Rightarrow> 'r) \<Rightarrow> 'j formats \<Rightarrow> 'j incoming \<Rightarrow> 'r outcome" where
  "DownloadStarsExe_ServeHTTP Handle fm r = with_principal r (bind_DownloadStarsExe (in_params r)) Handle"

definition GameCreate_ServeHTTP :: "(string \<Rightarrow> Principal option \<Rightarrow> 'r) \<Rightarrow> 'j formats \<Rightarrow> 'j incoming \<Rightarrow> 'r outcome" where
  "GameCreate_ServeHTTP Handle fm r = with_principal r (bind_GameCreate (in_params r)) Handle"

definition HealthCheck_ServeHTTP :: "(unit \<Rightarrow> 'r) \<Rightarrow> 'j formats \<Rightarrow> 'j incoming \<Rightarrow> 'r outcome" where
  "HealthCheck_ServeHTTP Handle fm r = for_everyone r (bind_HealthCheck (in_params r)) Handle"

definition HistoricBackup_ServeHTTP :: "(string \<Rightarrow> Principal option \<Rightarrow> 'r) \<Rightarrow> 'j formats \<Rightarrow> 'j incoming \<Rightarrow> 'r outcome" where
  "HistoricBackup_ServeHTTP Handle fm r = with_principal r (bind_HistoricBackup (in_params r)) Handle"

definition InvitationAccept_ServeHTTP :: "(string \<Rightarrow> Principal option \<Rightarrow> 'r) \<Rightarrow> 'j formats \<Rightarrow> 'j incoming \<Rightarrow> 'r outcome" where
  "InvitationAccept_ServeHTTP Handle fm r = with_principal r (bind_InvitationAccept (in_params r)) Handle"

definition InvitationCreate_ServeHTTP :: "((string \<times> Invitation option) \<Rightarrow> Principal option \<Rightarrow> 'r) \<Rightarrow> 'j formats \<Rightarrow> 'j incoming \<Rightarrow> 'r outcome" where
  "InvitationCreate_ServeHTTP Handle fm r = with_principal r (with_value ''session_id'' r (bind_InvitationCreate (fm_validator fm) (fm_invitation fm (in_body r)))) Handle"

definition InvitationDecline_ServeHTTP :: "(string \<Rightarrow> Principal option \<Rightarrow> 'r) \<Rightarrow> 'j formats \<Rightarrow> 'j incoming \<Rightarrow> 'r outcome" where
  "InvitationDecline_ServeHTTP Handle fm r = with_principal r (bind_InvitationDecline (in_params r)) Handle"

definition InvitationList_ServeHTTP :: "(unit \<Rightarrow> Principal option \<Rightarrow> 'r) \<Rightarrow> 'j formats \<Rightarrow> 'j incoming \<Rightarrow> 'r outcome" where
  "InvitationList_ServeHTTP Handle fm r = with_principal r (bind_InvitationList (in_params r)) Handle"

definition InvitationSentList_ServeHTTP :: "(unit \<Rightarrow> Principal option \<Rightarrow> 'r) \<Rightarrow> 'j formats \<Rightarrow> 'j incoming \<Rightarrow> 'r outcome" where
  "InvitationSentList_ServeHTTP Handle fm r = with_principal r (bind_InvitationSentList (in_params r)) Handle"

definition Notifications_ServeHTTP :: "(unit \<Rightarrow> Principal option \<Rightarrow> 'r) \<Rightarrow> 'j formats \<Rightarrow> 'j incoming \<Rightarrow> 'r outcome" where
  "Notifications_ServeHTTP Handle fm r = with_principal r (bind_Notifications (in_params r)) Handle"

definition OrdersStatus_ServeHTTP :: "((string \<times> int) \<Rightarrow> Principal option \<Rightarrow> 'r) \<Rightarrow> 'j formats \<Rightarrow> 'j incoming \<Rightarrow> 'r outcome" where
  "OrdersStatus_ServeHTTP Handle fm r = with_principal r (with_value ''session_id'' r (bind_OrdersStatus (fm_validator fm) (path_value ''year'' (in_params r)))) Handle"

definition PendingRegistrationApprove_ServeHTTP :: "(string \<Rightarrow> Principal option \<Rightarrow> 'r) \<Rightarrow> 'j formats \<Rightarrow> 'j incoming \<Rightarrow> 'r outcome" where
  "PendingRegistrationApprove_ServeHTTP Handle fm r = with_principal r (bind_PendingRegistrationApprove (in_params r)) Handle"

definition PendingRegistrationList_ServeHTTP :: "(unit \<Rightarrow> Principal option \<Rightarrow> 'r) \<Rightarrow> 'j formats \<Rightarrow> 'j incoming \<Rightarrow> 'r outcome" where
  "PendingRegistrationList_ServeHTTP Handle fm r = with_principal r (bind_PendingRegistrationList (in_params r)) Handle"

definition PendingRegistrationReject_ServeHTTP :: "(string \<Rightarrow> Principal option \<Rightarrow> 'r) \<Rightarrow> 'j formats \<Rightarrow> 'j incoming \<Rightarrow> 'r outcome" where
  "PendingRegistrationReject_ServeHTTP Handle fm r = with_principal r (bind_PendingRegistrationReject (in_params r)) Handle"

definition RaceCreate_ServeHTTP :: "((string \<times> RaceDB option) \<Rightarrow> Principal option \<Rightarrow> 'r) \<Rightarrow> 'j formats \<Rightarrow> 'j incoming \<Rightarrow> 'r outcome" where
  "RaceCreate_ServeHTTP Handle fm r = with_principal r (with_value ''user_profile_id'' r (bind_RaceCreate (fm_validator fm) (fm_race fm (in_body r)))) Handle"

definition RaceDelete_ServeHTTP :: "((string \<times> string) \<Rightarrow> Principal option \<Rightarrow> 'r) \<Rightarrow> 'j formats \<Rightarrow> 'j incoming \<Rightarrow> 'r outcome" where
  "RaceDelete_ServeHTTP Handle fm r = with_principal r (bind_RaceDelete (in_params r)) Handle"

definition RaceRead_ServeHTTP :: "((string \<times> string) \<Rightarrow> Principal option \<Rightarrow> 'r) \<Rightarrow> 'j formats \<Rightarrow> 'j incoming \<Rightarrow> 'r outcome" where
  "RaceRead_ServeHTTP Handle fm r = with_principal r (bind_RaceRead (in_params r)) Handle"

definition RacesList_ServeHTTP :: "(string \<Rightarrow> Principal option \<Rightarrow> 'r) \<Rightarrow> 'j formats \<Rightarrow> 'j incoming \<Rightarrow> 'r outcome" where
  "RacesList_ServeHTTP Handle fm r = with_principal r (bind_RacesList (in_params r)) Handle"

definition RefreshToken_ServeHTTP :: "(unit \<Rightarrow> Principal option \<Rightarrow> 'r) \<Rightarrow> 'j formats \<Rightarrow> 'j incoming \<Rightarrow> 'r outcome" where
  "RefreshToken_ServeHTTP Handle fm r = with_principal r (bind_RefreshToken (in_params r)) Handle"

definition Register_ServeHTTP :: "(RegistrationRequest option \<Rightarrow> 'r) \<Rightarrow> 'j formats \<Rightarrow> 'j incoming \<Rightarrow> 'r outcome" where
  "Register_ServeHTTP Handle fm r = for_everyone r (bind_Register (fm_validator fm) (fm_registration fm (in_body r))) Handle"

definition ReorderPlayers_ServeHTTP :: "((string \<times> PlayerOrderReq list option) \<Rightarrow> Principal option \<Rightarrow> 'r) \<Rightarrow> 'j formats \<Rightarrow> 'j incoming \<Rightarrow> 'r outcome" where
  "ReorderPlayers_ServeHTTP Handle fm r = with_principal r (with_value ''session_id'' r (bind_ReorderPlayers (fm_validator fm) (fm_players fm (in_body r)))) Handle"

definition RulesCreate_ServeHTTP :: "((string \<times> Ruleset option) \<Rightarrow> Principal option \<Rightarrow> 'r) \<Rightarrow> 'j formats \<Rightarrow> 'j incoming \<Rightarrow> 'r outcome" where
  "RulesCreate_ServeHTTP Handle fm r = with_principal r (with_value ''session_id'' r (bind_RulesCreate (fm_validator fm) (fm_ruleset fm (in_body r)))) Handle"

definition RulesRead_ServeHTTP :: "(string \<Rightarrow> Principal option \<Rightarrow> 'r) \<Rightarrow> 'j formats \<Rightarrow> 'j incoming \<Rightarrow> 'r outcome" where
  "RulesRead_ServeHTTP Handle fm r = with_principal r (bind_RulesRead (in_params r)) Handle"

definition SessionArchive_ServeHTTP :: "(string \<Rightarrow> Principal option \<Rightarrow> 'r) \<Rightarrow> 'j formats \<Rightarrow> 'j incoming \<Rightarrow> 'r outcome" where
  "SessionArchive_ServeHTTP Handle fm r = with_principal r (bind_SessionArchive (in_params r)) Handle"

definition SessionCreate_ServeHTTP :: "(((string \<times> Session) option) \<Rightarrow> Principal option \<Rightarrow> 'r) \<Rightarrow> 'j formats \<Rightarrow> 'j incoming \<Rightarrow> 'r outcome" where
  "SessionCreate_ServeHTTP Handle fm r = with_principal r (bind_SessionCreate (fm_validator fm) (fm_session fm (in_body r))) Handle"

definition SessionDelete_ServeHTTP :: "(string \<Rightarrow> Principal option \<Rightarrow> 'r) \<Rightarrow> 'j formats \<Rightarrow> 'j incoming \<Rightarrow> 'r outcome" where
  "SessionDelete_ServeHTTP Handle fm r = with_principal r (bind_SessionDelete (in_params r)) Handle"

definition SessionFilesGet_ServeHTTP :: "(string \<Rightarrow> Principal option \<Rightarrow> 'r) \<Rightarrow> 'j formats \<Rightarrow> 'j incoming \<Rightarrow> 'r outcome" where
  "SessionFilesGet_ServeHTTP Handle fm r = with_principal r (bind_SessionFilesGet (in_params r)) Handle"

definition SessionJoin_ServeHTTP :: "(string \<Rightarrow> Principal option \<Rightarrow> 'r) \<Rightarrow> 'j formats \<Rightarrow> 'j incoming \<Rightarrow> 'r outcome" where
  "SessionJoin_ServeHTTP Handle fm r = with_principal r (bind_SessionJoin (in_params r)) Handle"

definition SessionPlayerControl_ServeHTTP :: "(string \<Rightarrow> Principal option \<Rightarrow> 'r) \<Rightarrow> 'j formats \<Rightarrow> 'j incoming \<Rightarrow> 'r outcome" where
  "SessionPlayerControl_ServeHTTP Handle fm r = with_principal r (bind_SessionPlayerControl (in_params r)) Handle"

definition SessionPlayerRaceCreate_ServeHTTP :: "((string \<times> SessionPlayerRaceDB option) \<Rightarrow> Principal option \<Rightarrow> 'r) \<Rightarrow> 'j formats \<Rightarrow> 'j incoming \<Rightarrow> 'r outcome" where
  "SessionPlayerRaceCreate_ServeHTTP Handle fm r = with_principal r (with_value ''session_id'' r (bind_SessionPlayerRaceCreate (fm_validator fm) (fm_session_player_race fm (in_body r)))) Handle"

definition SessionPlayerRaceDelete_ServeHTTP :: "((string \<times> string) \<Rightarrow> Principal option \<Rightarrow> 'r) \<Rightarrow> 'j formats \<Rightarrow> 'j incoming \<Rightarrow> 'r outcome" where
  "SessionPlayerRaceDelete_ServeHTTP Handle fm r = with_principal r (bind_SessionPlayerRaceDelete (in_params r)) Handle"

definition SessionPlayerRaceGet_ServeHTTP :: "(string \<Rightarrow> Principal option \<Rightarrow> 'r) \<Rightarrow> 'j formats \<Rightarrow> 'j incoming \<Rightarrow> 'r outcome" where
  "SessionPlayerRaceGet_ServeHTTP Handle fm r = with_principal r (bind_SessionPlayerRaceGet (in_params r)) Handle"

definition SessionPlayerRaceSetReady_ServeHTTP :: "((string \<times> bool option) \<Rightarrow> Principal option \<Rightarrow> 'r) \<Rightarrow> 'j formats \<Rightarrow> 'j incoming \<Rightarrow> 'r outcome" where
  "SessionPlayerRaceSetReady_ServeHTTP Handle fm r = with_principal r (with_value ''session_id'' r (bind_SetReady (fm_ready fm (in_body r)))) Handle"

definition SessionPlayerSwitchToAI_ServeHTTP :: "((string \<times> string option \<times> int) \<Rightarrow> Principal option \<Rightarrow> 'r) \<Rightarrow> 'j formats \<Rightarrow> 'j incoming \<Rightarrow> 'r outcome" where
  "SessionPlayerSwitchToAI_ServeHTTP Handle fm r = with_principal r (with_value ''session_id'' r (bind_SwitchToAI (fm_validator fm) (path_value ''player_order'' (in_params r)) (fm_switch_request fm (in_body r)))) Handle"

definition SessionPlayerSwitchToHuman_ServeHTTP :: "((string \<times> int) \<Rightarrow> Principal option \<Rightarrow> 'r) \<Rightarrow> 'j formats \<Rightarrow> 'j incoming \<Rightarrow> 'r outcome" where
  "SessionPlayerSwitchToHuman_ServeHTTP Handle fm r = with_principal r (with_value ''session_id'' r (bind_SwitchToHuman (fm_validator fm) (path_value ''player_order'' (in_params r)))) Handle"

definition SessionPromoteMember_ServeHTTP :: "((string \<times> string) \<Rightarrow> Principal option \<Rightarrow> 'r) \<Rightarrow> 'j formats \<Rightarrow> 'j incoming \<Rightarrow> 'r outcome" where
  "SessionPromoteMember_ServeHTTP Handle fm r = with_principal r (bind_SessionPromoteMember (in_params r)) Handle"

definition SessionQuit_ServeHTTP :: "(string \<Rightarrow> Principal option \<Rightarrow> 'r) \<Rightarrow> 'j formats \<Rightarrow> 'j incoming \<Rightarrow> 'r outcome" where
  "SessionQuit_ServeHTTP Handle fm r = with_principal r (bind_SessionQuit (in_params r)) Handle"

definition SessionRead_ServeHTTP :: "(string \<Rightarrow> Principal option \<Rightarrow> 'r) \<Rightarrow> 'j formats \<Rightarrow> 'j incoming \<Rightarrow> 'r outcome" where
  "SessionRead_ServeHTTP Handle fm r = with_principal r (bind_SessionRead (in_params r)) Handle"

definition SessionUpdate_ServeHTTP :: "((string \<times> (string \<times> Session) option) \<Rightarrow> Principal option \<Rightarrow> 'r) \<Rightarrow> 'j formats \<Rightarrow> 'j incoming \<Rightarrow> 'r outcome" where
  "SessionUpdate_ServeHTTP Handle fm r = with_principal r (with_value ''session_id'' r (bind_SessionUpdate (fm_validator fm) (fm_session fm (in_body r)))) Handle"

definition SessionsList_ServeHTTP :: "(bool option \<Rightarrow> Principal option \<Rightarrow> 'r) \<Rightarrow> 'j formats \<Rightarrow> 'j incoming \<Rightarrow> 'r outcome" where
  "SessionsList_ServeHTTP Handle fm r = with_principal r (bind_SessionsList (fm_bool fm) (path_value ''include_archived'' (in_query r))) Handle"

definition TurnGet_ServeHTTP :: "((string \<times> int) \<Rightarrow> Principal option \<Rightarrow> 'r) \<Rightarrow> 'j formats \<Rightarrow> 'j incoming \<Rightarrow> 'r outcome" where
  "TurnGet_ServeHTTP Handle fm r = with_principal r (with_value ''session_id'' r (bind_TurnGet (fm_validator fm) (path_value ''year'' (in_params r)))) Handle"

definition TurnLatest_ServeHTTP :: "(string \<Rightarrow> Principal option \<Rightarrow> 'r) \<Rightarrow> 'j formats \<Rightarrow> 'j incoming \<Rightarrow> 'r outcome" where
  "TurnLatest_ServeHTTP Handle fm r = with_principal r (bind_TurnLatest (in_params r)) Handle"

definition TurnSubmit_ServeHTTP :: "((string \<times> string option \<times> int) \<Rightarrow> Principal option \<Rightarrow> 'r) \<Rightarrow> 'j formats \<Rightarrow> 'j incoming \<Rightarrow> 'r outcome" where
  "TurnSubmit_ServeHTTP Handle fm r = with_principal r (with_value ''session_id'' r (bind_TurnSubmit (fm_validator fm) (path_value ''year'' (in_params r)) (fm_order fm (in_body r)))) Handle"

definition UserProfileCreate_ServeHTTP :: "(UserProfileCreateRequest option \<Rightarrow> Principal option \<Rightarrow> 'r) \<Rightarrow> 'j formats \<Rightarrow> 'j incoming \<Rightarrow> 'r outcome" where
  "UserProfileCreate_ServeHTTP Handle fm r = with_principal r (bind_UserProfileCreate (fm_validator fm) (fm_user_profile_create fm (in_body r))) Handle"

definition UserProfileDelete_ServeHTTP :: "(string \<Rightarrow> Principal option \<Rightarrow> 'r) \<Rightarrow> 'j formats \<Rightarrow> 'j incoming \<Rightarrow> 'r outcome" where
  "UserProfileDelete_ServeHTTP Handle fm r = with_principal r (bind_UserProfileDelete (in_params r)) Handle"

definition UserProfileList_ServeHTTP :: "(unit \<Rightarrow> Principal option \<Rightarrow> 'r) \<Rightarrow> 'j formats \<Rightarrow> 'j incoming \<Rightarrow> 'r outcome" where
  "UserProfileList_ServeHTTP Handle fm r = with_principal r (bind_UserProfileList (in_params r)) Handle"

definition UserProfileRead_ServeHTTP :: "(string \<Rightarrow> Principal option \<Rightarrow> 'r) \<Rightarrow> 'j formats \<Rightarrow> 'j incoming \<Rightarrow> 'r outcome" where
  "UserProfileRead_ServeHTTP Handle fm r = with_principal r (bind_UserProfileRead (in_params r)) Handle"

definition UserProfileResetApikey_ServeHTTP :: "(string \<Rightarrow> Principal option \<Rightarrow> 'r) \<Rightarrow> 'j formats \<Rightarrow> 'j incoming \<Rightarrow> 'r outcome" where
  "UserProfileResetApikey_ServeHTTP Handle fm r = with_principal r (bind_UserProfileResetApikey (in_params r)) Handle"

definition UserProfileUpdate_ServeHTTP :: "((string \<times> (string \<times> UserProfile) option) \<Rightarrow> Principal option \<Rightarrow> 'r) \<Rightarrow> 'j formats \<Rightarrow> 'j incoming \<Rightarrow> 'r outcome" where
  "UserProfileUpdate_ServeHTTP Handle fm r = with_principal r (with_value ''user_profile_id'' r (bind_UserProfileUpdate (fm_validator fm) (fm_user_profile fm (in_body r)))) Handle"

definition Userinfo_ServeHTTP :: "(unit \<Rightarrow> Principal option \<Rightarrow> 'r) \<Rightarrow> 'j formats \<Rightarrow> 'j incoming \<Rightarrow> 'r outcome" where
  "Userinfo_ServeHTTP Handle fm r = with_principal r (bind_Userinfo (in_params r)) Handle"

text \<open>The handlers that the API holds; the result of a handler is a responder.\<close>

record 'r NeperAPI =
  AuthenticateHandler :: "Credentials option \<Rightarrow> 'r"
  DownloadStarsExeHandler :: "unit \<Rightarrow> Principal option \<Rightarrow> 'r"
  GameCreateHandler :: "string \<Rightarrow> Principal option \<Rightarrow> 'r"
  HealthCheckHandler :: "unit \<Rightarrow> 'r"
  HistoricBackupHandler :: "string \<Rightarrow> Principal option \<Rightarrow> 'r"
  InvitationAcceptHandler :: "string \<Rightarrow> Principal option \<Rightarrow> 'r"
  InvitationCreateHandler :: "(string \<times> Invitation option) \<Rightarrow> Principal option \<Rightarrow> 'r"
  InvitationDeclineHandler :: "string \<Rightarrow> Principal option \<Rightarrow> 'r"
  InvitationListHandler :: "unit \<Rightarrow> Principal option \<Rightarrow> 'r"
  InvitationSentListHandler :: "unit \<Rightarrow> Principal option \<Rightarrow> 'r"
  NotificationsHandler :: "unit \<Rightarrow> Principal option \<Rightarrow> 'r"
  OrdersStatusHandler :: "(string \<times> int) \<Rightarrow> Principal option \<Rightarrow> 'r"
  PendingRegistrationApproveHandler :: "string \<Rightarrow> Principal option \<Rightarrow> 'r"
  PendingRegistrationListHandler :: "unit \<Rightarrow> Principal option \<Rightarrow> 'r"
  PendingRegistrationRejectHandler :: "string \<Rightarrow> Principal option \<Rightarrow> 'r"
  RaceCreateHandler :: "(string \<times> RaceDB option) \<Rightarrow> Principal option \<Rightarrow> 'r"
  RaceDeleteHandler :: "(string \<times> string) \<Rightarrow> Principal option \<Rightarrow> 'r"
  RaceReadHandler :: "(string \<times> string) \<Rightarrow> Principal option \<Rightarrow> 'r"
  RacesListHandler :: "string \<Rightarrow> Principal option \<Rightarrow> 'r"
  RefreshTokenHandler :: "unit \<Rightarrow> Principal option \<Rightarrow> 'r"
  RegisterHandler :: "RegistrationRequest option \<Rightarrow> 'r"
  ReorderPlayersHandler :: "(string \<times> PlayerOrderReq list option) \<Rightarrow> Principal option \<Rightarrow> 'r"
  RulesCreateHandler :: "(string \<times> Ruleset option) \<Rightarrow> Principal option \<Rightarrow> 'r"
  RulesReadHandler :: "string \<Rightarrow> Principal option \<Rightarrow> 'r"
  SessionArchiveHandler :: "string \<Rightarrow> Principal option \<Rightarrow> 'r"
  SessionCreateHandler :: "((string \<times> Session) option) \<Rightarrow> Principal option \<Rightarrow> 'r"
  SessionDeleteHandler :: "string \<Rightarrow> Principal option \<Rightarrow> 'r"
  SessionFilesGetHandler :: "string \<Rightarrow> Principal option \<Rightarrow> 'r"
  SessionJoinHandler :: "string \<Rightarrow> Principal option \<Rightarrow> 'r"
  SessionPlayerControlHandler :: "string \<Rightarrow> Principal option \<Rightarrow> 'r"
  SessionPlayerRaceCreateHandler :: "(string \<times> SessionPlayerRaceDB option) \<Rightarrow> Principal option \<Rightarrow> 'r"
  SessionPlayerRaceDeleteHandler :: "(string \<times> string) \<Rightarrow> Principal option \<Rightarrow> 'r"
  SessionPlayerRaceGetHandler :: "string \<Rightarrow> Principal option \<Rightarrow> 'r"
  SessionPlayerRaceSetReadyHandler :: "(string \<times> bool option) \<Rightarrow> Principal option \<Rightarrow> 'r"
  SessionPlayerSwitchToAIHandler :: "(string \<times> string option \<times> int) \<Rightarrow> Principal option \<Rightarrow> 'r"
  SessionPlayerSwitchToHumanHandler :: "(string \<times> int) \<Rightarrow> Principal option \<Rightarrow> 'r"
  SessionPromoteMemberHandler :: "(string \<times> string) \<Rightarrow> Principal option \<Rightarrow> 'r"
  SessionQuitHandler :: "string \<Rightarrow> Principal option \<Rightarrow> 'r"
  SessionReadHandler :: "string \<Rightarrow> Principal option \<Rightarrow> 'r"
  SessionUpdateHandler :: "(string \<times> (string \<times> Session) option) \<Rightarrow> Principal option \<Rightarrow> 'r"
  SessionsListHandler :: "bool option \<Rightarrow> Principal option \<Rightarrow> 'r"
  TurnGetHandler :: "(string \<times> int) \<Rightarrow> Principal option \<Rightarrow> 'r"
  TurnLatestHandler :: "string \<Rightarrow> Principal option \<Rightarrow> 'r"
  TurnSubmitHandler :: "(string \<times> string option \<times> int) \<Rightarrow> Principal option \<Rightarrow> 'r"
  UserProfileCreateHandler :: "UserProfileCreateRequest option \<Rightarrow> Principal option \<Rightarrow> 'r"
  UserProfileDeleteHandler :: "string \<Rightarrow> Principal option \<Rightarrow> 'r"
  UserProfileListHandler :: "unit \<Rightarrow> Principal option \<Rightarrow> 'r"
  UserProfileReadHandler :: "string \<Rightarrow> Principal option \<Rightarrow> 'r"
  UserProfileResetApikeyHandler :: "string \<Rightarrow> Principal option \<Rightarrow> 'r"
  UserProfileUpdateHandler :: "(string \<times> (string \<times> UserProfile) option) \<Rightarrow> Principal option \<Rightarrow> 'r"
  UserinfoHandler :: "unit \<Rightarrow> Principal option \<Rightarrow> 'r"

fun ServeHTTP :: "api_operation \<Rightarrow> 'r NeperAPI \<Rightarrow> 'j formats \<Rightarrow> 'j incoming \<Rightarrow> 'r outcome" where
  "ServeHTTP OpAuthenticate api = Authenticate_ServeHTTP (AuthenticateHandler api)"
| "ServeHTTP OpDownloadStarsExe api = DownloadStarsExe_ServeHTTP (DownloadStarsExeHandler api)"
| "ServeHTTP OpGameCreate api = GameCreate_ServeHTTP (GameCreateHandler api)"
| "ServeHTTP OpHealthCheck api = HealthCheck_ServeHTTP (HealthCheckHandler api)"
| "ServeHTTP OpHistoricBackup api = HistoricBackup_ServeHTTP (HistoricBackupHandler api)"
| "ServeHTTP OpInvitationAccept api = InvitationAccept_ServeHTTP (InvitationAcceptHandler api)"
| "ServeHTTP OpInvitationCreate api = InvitationCreate_ServeHTTP (InvitationCreateHandler api)"
| "ServeHTTP OpInvitationDecline api = InvitationDecline_ServeHTTP (InvitationDeclineHandler api)"
| "ServeHTTP OpInvitationList api = InvitationList_ServeHTTP (InvitationListHandler api)"
| "ServeHTTP OpInvitationSentList api = InvitationSentList_ServeHTTP (InvitationSentListHandler api)"
| "ServeHTTP OpNotifications api = Notifications_ServeHTTP (NotificationsHandler api)"
| "ServeHTTP OpOrdersStatus api = OrdersStatus_ServeHTTP (OrdersStatusHandler api)"
| "ServeHTTP OpPendingRegistrationApprove api = PendingRegistrationApprove_ServeHTTP (PendingRegistrationApproveHandler api)"
| "ServeHTTP OpPendingRegistrationList api = PendingRegistrationList_ServeHTTP (PendingRegistrationListHandler api)"
| "ServeHTTP OpPendingRegistrationReject api = PendingRegistrationReject_ServeHTTP (PendingRegistrationRejectHandler api)"
| "ServeHTTP OpRaceCreate api = RaceCreate_ServeHTTP (RaceCreateHandler api)"
| "ServeHTTP OpRaceDelete api = RaceDelete_ServeHTTP (RaceDeleteHandler api)"
| "ServeHTTP OpRaceRead api = RaceRead_ServeHTTP (RaceReadHandler api)"
| "ServeHTTP OpRacesList api = RacesList_ServeHTTP (RacesListHandler api)"
| "ServeHTTP OpRefreshToken api = RefreshToken_ServeHTTP (RefreshTokenHandler api)"
| "ServeHTTP OpRegister api = Register_ServeHTTP (RegisterHandler api)"
| "ServeHTTP OpReorderPlayers api = ReorderPlayers_ServeHTTP (ReorderPlayersHandler api)"
| "ServeHTTP OpRulesCreate api = RulesCreate_ServeHTTP (RulesCreateHandler api)"
| "ServeHTTP OpRulesRead api = RulesRead_ServeHTTP (RulesReadHandler api)"
| "ServeHTTP OpSessionArchive api = SessionArchive_ServeHTTP (SessionArchiveHandler api)"
| "ServeHTTP OpSessionCreate api = SessionCreate_ServeHTTP (SessionCreateHandler api)"
| "ServeHTTP OpSessionDelete api = SessionDelete_ServeHTTP (SessionDeleteHandler api)"
| "ServeHTTP OpSessionFilesGet api = SessionFilesGet_ServeHTTP (SessionFilesGetHandler api)"
| "ServeHTTP OpSessionJoin api = SessionJoin_ServeHTTP (SessionJoinHandler api)"
| "ServeHTTP OpSessionPlayerControl api = SessionPlayerControl_ServeHTTP (SessionPlayerControlHandler api)"
| "ServeHTTP OpSessionPlayerRaceCreate api = SessionPlayerRaceCreate_ServeHTTP (SessionPlayerRaceCreateHandler api)"
| "ServeHTTP OpSessionPlayerRaceDelete api = SessionPlayerRaceDelete_ServeHTTP (SessionPlayerRaceDeleteHandler api)"
| "ServeHTTP OpSessionPlayerRaceGet api = SessionPlayerRaceGet_ServeHTTP (SessionPlayerRaceGetHandler api)"
| "ServeHTTP OpSessionPlayerRaceSetReady api = SessionPlayerRaceSetReady_ServeHTTP (SessionPlayerRaceSetReadyHandler api)"
| "ServeHTTP OpSessionPlayerSwitchToAI api = SessionPlayerSwitchToAI_ServeHTTP (SessionPlayerSwitchToAIHandler api)"
| "ServeHTTP OpSessionPlayerSwitchToHuman api = SessionPlayerSwitchToHuman_ServeHTTP (SessionPlayerSwitchToHumanHandler api)"
| "ServeHTTP OpSessionPromoteMember api = SessionPromoteMember_ServeHTTP (SessionPromoteMemberHandler api)"
| "ServeHTTP OpSessionQuit api = SessionQuit_ServeHTTP (SessionQuitHandler api)"
| "ServeHTTP OpSessionRead api = SessionRead_ServeHTTP (SessionReadHandler api)"
| "ServeHTTP OpSessionUpdate api = SessionUpdate_ServeHTTP (SessionUpdateHandler api)"
| "ServeHTTP OpSessionsList api = SessionsList_ServeHTTP (SessionsListHandler api)"
| "ServeHTTP OpTurnGet api = TurnGet_ServeHTTP (TurnGetHandler api)"
| "ServeHTTP OpTurnLatest api = TurnLatest_ServeHTTP (TurnLatestHandler api)"
| "ServeHTTP OpTurnSubmit api = TurnSubmit_ServeHTTP (TurnSubmitHandler api)"
| "ServeHTTP OpUserProfileCreate api = UserProfileCreate_ServeHTTP (UserProfileCreateHandler api)"
| "ServeHTTP OpUserProfileDelete api = UserProfileDelete_ServeHTTP (UserProfileDeleteHandler api)"
| "ServeHTTP OpUserProfileList api = UserProfileList_ServeHTTP (UserProfileListHandler api)"
| "ServeHTTP OpUserProfileRead api = UserProfileRead_ServeHTTP (UserProfileReadHandler api)"
| "ServeHTTP OpUserProfileResetApikey api = UserProfileResetApikey_ServeHTTP (UserProfileResetApikeyHandler api)"
| "ServeHTTP OpUserProfileUpdate api = UserProfileUpdate_ServeHTTP (UserProfileUpdateHandler api)"
| "ServeHTTP OpUserinfo api = Userinfo_ServeHTTP (UserinfoHandler api)"

lemmas serve_defs = Authenticate_ServeHTTP_def DownloadStarsExe_ServeHTTP_def GameCreate_ServeHTTP_def HealthCheck_ServeHTTP_def HistoricBackup_ServeHTTP_def InvitationAccept_ServeHTTP_def InvitationCreate_ServeHTTP_def InvitationDecline_ServeHTTP_def InvitationList_ServeHTTP_def InvitationSentList_ServeHTTP_def Notifications_ServeHTTP_def OrdersStatus_ServeHTTP_def PendingRegistrationApprove_ServeHTTP_def PendingRegistrationList_ServeHTTP_def PendingRegistrationReject_ServeHTTP_def RaceCreate_ServeHTTP_def RaceDelete_ServeHTTP_def RaceRead_ServeHTTP_def RacesList_ServeHTTP_def RefreshToken_ServeHTTP_def Register_ServeHTTP_def ReorderPlayers_ServeHTTP_def RulesCreate_ServeHTTP_def RulesRead_ServeHTTP_def SessionArchive_ServeHTTP_def SessionCreate_ServeHTTP_def SessionDelete_ServeHTTP_def SessionFilesGet_ServeHTTP_def SessionJoin_ServeHTTP_def SessionPlayerControl_ServeHTTP_def SessionPlayerRaceCreate_ServeHTTP_def SessionPlayerRaceDelete_ServeHTTP_def SessionPlayerRaceGet_ServeHTTP_def SessionPlayerRaceSetReady_ServeHTTP_def SessionPlayerSwitchToAI_ServeHTTP_def SessionPlayerSwitchToHuman_ServeHTTP_def SessionPromoteMember_ServeHTTP_def SessionQuit_ServeHTTP_def SessionRead_ServeHTTP_def SessionUpdate_ServeHTTP_def SessionsList_ServeHTTP_def TurnGet_ServeHTTP_def TurnLatest_ServeHTTP_def TurnSubmit_ServeHTTP_def UserProfileCreate_ServeHTTP_def UserProfileDelete_ServeHTTP_def UserProfileList_ServeHTTP_def UserProfileRead_ServeHTTP_def UserProfileResetApikey_ServeHTTP_def UserProfileUpdate_ServeHTTP_def Userinfo_ServeHTTP_def

subsection \<open>Which handler runs, and for whom\<close>

lemma for_everyone_Handled: "for_everyone r bound Handle = Handled x \<longleftrightarrow> (\<exists>ps. BindValidRequest r bound = Inr ps \<and> x = Handle ps)"
  by (auto simp: for_everyone_def split: sum.splits)

lemma with_principal_Handled:
  "with_principal r bound Handle = Handled x \<longleftrightarrow>
    (\<exists>pr ps. in_Authorize r = Inr pr \<and> BindValidRequest r bound = Inr ps \<and> x = Handle ps pr)"
  by (auto simp: with_principal_def split: sum.splits)

text \<open>Handlers that answer with the operation they are for and the principal they are given.\<close>

definition recording_api :: "(api_operation \<times> Principal option) NeperAPI" where
  "recording_api = \<lparr>
     AuthenticateHandler = (\<lambda>ps. (OpAuthenticate, None)),
     DownloadStarsExeHandler = (\<lambda>ps pr. (OpDownloadStarsExe, pr)),
     GameCreateHandler = (\<lambda>ps pr. (OpGameCreate, pr)),
     HealthCheckHandler = (\<lambda>ps. (OpHealthCheck, None)),
     HistoricBackupHandler = (\<lambda>ps pr. (OpHistoricBackup, pr)),
     InvitationAcceptHandler = (\<lambda>ps pr. (OpInvitationAccept, pr)),
     InvitationCreateHandler = (\<lambda>ps pr. (OpInvitationCreate, pr)),
     InvitationDeclineHandler = (\<lambda>ps pr. (OpInvitationDecline, pr)),
     InvitationListHandler = (\<lambda>ps pr. (OpInvitationList, pr)),
     InvitationSentListHandler = (\<lambda>ps pr. (OpInvitationSentList, pr)),
     NotificationsHandler = (\<lambda>ps pr. (OpNotifications, pr)),
     OrdersStatusHandler = (\<lambda>ps pr. (OpOrdersStatus, pr)),
     PendingRegistrationApproveHandler = (\<lambda>ps pr. (OpPendingRegistrationApprove, pr)),
     PendingRegistrationListHandler = (\<lambda>ps pr. (OpPendingRegistrationList, pr)),
     PendingRegistrationRejectHandler = (\<lambda>ps pr. (OpPendingRegistrationReject, pr)),
     RaceCreateHandler = (\<lambda>ps pr. (OpRaceCreate, pr)),
     RaceDeleteHandler = (\<lambda>ps pr. (OpRaceDelete, pr)),
     RaceReadHandler = (\<lambda>ps pr. (OpRaceRead, pr)),
     RacesListHandler = (\<lambda>ps pr. (OpRacesList, pr)),
     RefreshTokenHandler = (\<lambda>ps pr. (OpRefreshToken, pr)),
     RegisterHandler = (\<lambda>ps. (OpRegister, None)),
     ReorderPlayersHandler = (\<lambda>ps pr. (OpReorderPlayers, pr)),
     RulesCreateHandler = (\<lambda>ps pr. (OpRulesCreate, pr)),
     RulesReadHandler = (\<lambda>ps pr. (OpRulesRead, pr)),
     SessionArchiveHandler = (\<lambda>ps pr. (OpSessionArchive, pr)),
     SessionCreateHandler = (\<lambda>ps pr. (OpSessionCreate, pr)),
     SessionDeleteHandler = (\<lambda>ps pr. (OpSessionDelete, pr)),
     SessionFilesGetHandler = (\<lambda>ps pr. (OpSessionFilesGet, pr)),
     SessionJoinHandler = (\<lambda>ps pr. (OpSessionJoin, pr)),
     SessionPlayerControlHandler = (\<lambda>ps pr. (OpSessionPlayerControl, pr)),
     SessionPlayerRaceCreateHandler = (\<lambda>ps pr. (OpSessionPlayerRaceCreate, pr)),
     SessionPlayerRaceDeleteHandler = (\<lambda>ps pr. (OpSessionPlayerRaceDelete, pr)),
     SessionPlayerRaceGetHandler = (\<lambda>ps pr. (OpSessionPlayerRaceGet, pr)),
     SessionPlayerRaceSetReadyHandler = (\<lambda>ps pr. (OpSessionPlayerRaceSetReady, pr)),
     SessionPlayerSwitchToAIHandler = (\<lambda>ps pr. (OpSessionPlayerSwitchToAI, pr)),
     SessionPlayerSwitchToHumanHandler = (\<lambda>ps pr. (OpSessionPlayerSwitchToHuman, pr)),
     SessionPromoteMemberHandler = (\<lambda>ps pr. (OpSessionPromoteMember, pr)),
     SessionQuitHandler = (\<lambda>ps pr. (OpSessionQuit, pr)),
     SessionReadHandler = (\<lambda>ps pr. (OpSessionRead, pr)),
     SessionUpdateHandler = (\<lambda>ps pr. (OpSessionUpdate, pr)),
     SessionsListHandler = (\<lambda>ps pr. (OpSessionsList, pr)),
     TurnGetHandler = (\<lambda>ps pr. (OpTurnGet, pr)),
     TurnLatestHandler = (\<lambda>ps pr. (OpTurnLatest, pr)),
     TurnSubmitHandler = (\<lambda>ps pr. (OpTurnSubmit, pr)),
     UserProfileCreateHandler = (\<lambda>ps pr. (OpUserProfileCreate, pr)),
     UserProfileDeleteHandler = (\<lambda>ps pr. (OpUserProfileDelete, pr)),
     UserProfileListHandler = (\<lambda>ps pr. (OpUserProfileList, pr)),
     UserProfileReadHandler = (\<lambda>ps pr. (OpUserProfileRead, pr)),
     UserProfileResetApikeyHandler = (\<lambda>ps pr. (OpUserProfileResetApikey, pr)),
     UserProfileUpdateHandler = (\<lambda>ps pr. (OpUserProfileUpdate, pr)),
     UserinfoHandler = (\<lambda>ps pr. (OpUserinfo, pr))\<rparr>"

definition public_operations :: "api_operation list" where
  "public_operations = [OpAuthenticate, OpHealthCheck, OpRegister]"

lemma ServeHTTP_recording:
  assumes "ServeHTTP op recording_api fm r = Handled (op', pr)"
  shows "op' = op \<and> (if op \<in> set public_operations then pr = None else in_Authorize r = Inr pr)"
  using assms
  by (cases op) (simp_all add: public_operations_def recording_api_def for_everyone_Handled with_principal_Handled serve_defs)

end
