(* ===== verification/Responses.thy ===== *)
theory Responses
  imports Backup Control GameCreate Invitations Membership Races Rules Turns Users
begin

section \<open>Responses on the wire\<close>

text \<open>
  The responders: the generated files \<open>restapi/operations/*_responses.go\<close>, one type for each
  operation and status, and the two of \<open>restapi/handlers/errors.go\<close>. A responder writes the status
  and gives its payload to a producer, which encodes it; the producer is chosen by the library and
  may fail, and then the responder panics after the status has been sent. For each generated type
  there is one definition, the value that \<open>NewX().WithPayload(p)\<close> makes as what its
  \<open>WriteResponse\<close> does. Pointers in a slice are not nil, since no handler puts one there. A payload of the type
  \<open>PlayerControlList\<close> is its only field.
\<close>

subsection \<open>Writing a response\<close>

record ApiError =
  E_Code :: int
  E_Message :: "string option"

definition NewError :: "int \<Rightarrow> string \<Rightarrow> ApiError" where
  "NewError code msg = \<lparr>E_Code = code, E_Message = Some msg\<rparr>"

text \<open>The errors of the handlers are not values of \<open>models.Error\<close>, so the code of the body stays 0.\<close>

definition FromError :: "err \<Rightarrow> ApiError" where
  "FromError e = \<lparr>E_Code = 0, E_Message = Some (Error_msg e)\<rparr>"

text \<open>What has reached the client, and whether the responder panicked.\<close>

record 'p http_out =
  out_status :: int
  out_no_content_type :: bool
  out_body :: "'p option"
  out_panic :: bool

type_synonym 'p producer = "'p \<Rightarrow> err option"

type_synonym 'p responder = "'p producer \<Rightarrow> 'p http_out"

definition produce_body :: "int \<Rightarrow> 'p \<Rightarrow> 'p responder" where
  "produce_body code p produce = (case produce p of
     None \<Rightarrow> \<lparr>out_status = code, out_no_content_type = False, out_body = Some p, out_panic = False\<rparr>
   | Some e \<Rightarrow> \<lparr>out_status = code, out_no_content_type = False, out_body = None, out_panic = True\<rparr>)"

definition WriteResponse_pointer :: "int \<Rightarrow> 'p option \<Rightarrow> 'p responder" where
  "WriteResponse_pointer code q produce = (case q of
     None \<Rightarrow> \<lparr>out_status = code, out_no_content_type = False, out_body = None, out_panic = False\<rparr>
   | Some p \<Rightarrow> produce_body code p produce)"

text \<open>A nil slice is written as the empty array.\<close>

definition WriteResponse_slice :: "int \<Rightarrow> 'p list option \<Rightarrow> 'p list responder" where
  "WriteResponse_slice code ps produce =
    produce_body code (case ps of None \<Rightarrow> [] | Some qs \<Rightarrow> qs) produce"

definition WriteResponse_empty :: "int \<Rightarrow> unit responder" where
  "WriteResponse_empty code produce =
    \<lparr>out_status = code, out_no_content_type = True, out_body = None, out_panic = False\<rparr>"

text \<open>The constructor of a default response.\<close>

definition default_status :: "int \<Rightarrow> int" where
  "default_status code = (if code \<le> 0 then 500 else code)"

text \<open>\<open>ErrorResponder\<close> and \<open>InternalErrorResponder\<close>, which do not belong to an operation.\<close>

definition ErrorResponder_WriteResponse :: "int \<Rightarrow> ApiError option \<Rightarrow> ApiError responder" where
  "ErrorResponder_WriteResponse code err = WriteResponse_pointer code err"

definition InternalErrorResponder_WriteResponse :: "err option \<Rightarrow> bool \<Rightarrow> ApiError responder" where
  "InternalErrorResponder_WriteResponse err debug =
    WriteResponse_pointer 500 (if debug then map_option FromError err else None)"

definition error_responder :: "int \<Rightarrow> string \<Rightarrow> ApiError responder" where
  "error_responder code msg = ErrorResponder_WriteResponse code (Some (NewError code msg))"

definition NotFound :: "string \<Rightarrow> ApiError responder" where
  "NotFound msg = error_responder 404 msg"

definition BadRequest :: "string \<Rightarrow> ApiError responder" where
  "BadRequest msg = error_responder 400 msg"

definition BadRequestErr :: "err \<Rightarrow> ApiError responder" where
  "BadRequestErr e = ErrorResponder_WriteResponse 400 (Some (FromError e))"

definition Conflict :: "string \<Rightarrow> ApiError responder" where
  "Conflict msg = error_responder 409 msg"

definition PreconditionFailed :: "string \<Rightarrow> ApiError responder" where
  "PreconditionFailed msg = error_responder 412 msg"

lemmas responders = produce_body_def WriteResponse_pointer_def WriteResponse_slice_def WriteResponse_empty_def

text \<open>The status is sent before the producer runs, so a failing producer does not change it.\<close>

lemma responder_status [simp]:
  "out_status (produce_body code p produce) = code"
  "out_status (WriteResponse_pointer code q produce) = code"
  "out_status (WriteResponse_slice code ps produce') = code"
  "out_status (WriteResponse_empty code produce'') = code"
  by (simp_all add: responders split: option.splits)

lemma responder_panics:
  "out_panic (produce_body code p produce) \<longleftrightarrow> produce p \<noteq> None"
  "out_panic (WriteResponse_pointer code q produce) \<longleftrightarrow> (\<exists>p. q = Some p \<and> produce p \<noteq> None)"
  by (auto simp: responders split: option.splits)

subsection \<open>The responses of the operations\<close>

definition AuthenticateOK :: "string \<Rightarrow> string responder" where
  "AuthenticateOK p = produce_body 200 p"

definition AuthenticateUnauthorized :: "ApiError option \<Rightarrow> ApiError responder" where
  "AuthenticateUnauthorized p = WriteResponse_pointer 401 p"

definition AuthenticateDefault :: "int \<Rightarrow> ApiError option \<Rightarrow> ApiError responder" where
  "AuthenticateDefault code p = WriteResponse_pointer (default_status code) p"

definition DownloadStarsExeOK :: "bytes \<Rightarrow> bytes responder" where
  "DownloadStarsExeOK p = produce_body 200 p"

definition DownloadStarsExeUnauthorized :: "ApiError option \<Rightarrow> ApiError responder" where
  "DownloadStarsExeUnauthorized p = WriteResponse_pointer 401 p"

definition DownloadStarsExeDefault :: "int \<Rightarrow> ApiError option \<Rightarrow> ApiError responder" where
  "DownloadStarsExeDefault code p = WriteResponse_pointer (default_status code) p"

definition GameCreateCreated :: "TurnFiles option \<Rightarrow> TurnFiles responder" where
  "GameCreateCreated p = WriteResponse_pointer 201 p"

definition GameCreateBadRequest :: "ApiError option \<Rightarrow> ApiError responder" where
  "GameCreateBadRequest p = WriteResponse_pointer 400 p"

definition GameCreateUnauthorized :: "ApiError option \<Rightarrow> ApiError responder" where
  "GameCreateUnauthorized p = WriteResponse_pointer 401 p"

definition GameCreateForbidden :: "ApiError option \<Rightarrow> ApiError responder" where
  "GameCreateForbidden p = WriteResponse_pointer 403 p"

definition GameCreatePreconditionFailed :: "ApiError option \<Rightarrow> ApiError responder" where
  "GameCreatePreconditionFailed p = WriteResponse_pointer 412 p"

definition GameCreateDefault :: "int \<Rightarrow> ApiError option \<Rightarrow> ApiError responder" where
  "GameCreateDefault code p = WriteResponse_pointer (default_status code) p"

definition HealthCheckOK :: "string \<Rightarrow> string responder" where
  "HealthCheckOK p = produce_body 200 p"

definition HealthCheckServiceUnavailable :: "string \<Rightarrow> string responder" where
  "HealthCheckServiceUnavailable p = produce_body 503 p"

definition HistoricBackupOK :: "bytes \<Rightarrow> bytes responder" where
  "HistoricBackupOK p = produce_body 200 p"

definition HistoricBackupUnauthorized :: "ApiError option \<Rightarrow> ApiError responder" where
  "HistoricBackupUnauthorized p = WriteResponse_pointer 401 p"

definition HistoricBackupForbidden :: "ApiError option \<Rightarrow> ApiError responder" where
  "HistoricBackupForbidden p = WriteResponse_pointer 403 p"

definition HistoricBackupNotFound :: "ApiError option \<Rightarrow> ApiError responder" where
  "HistoricBackupNotFound p = WriteResponse_pointer 404 p"

definition HistoricBackupPreconditionFailed :: "ApiError option \<Rightarrow> ApiError responder" where
  "HistoricBackupPreconditionFailed p = WriteResponse_pointer 412 p"

definition HistoricBackupDefault :: "int \<Rightarrow> ApiError option \<Rightarrow> ApiError responder" where
  "HistoricBackupDefault code p = WriteResponse_pointer (default_status code) p"

definition InvitationAcceptOK :: "Session option \<Rightarrow> Session responder" where
  "InvitationAcceptOK p = WriteResponse_pointer 200 p"

definition InvitationAcceptUnauthorized :: "ApiError option \<Rightarrow> ApiError responder" where
  "InvitationAcceptUnauthorized p = WriteResponse_pointer 401 p"

definition InvitationAcceptForbidden :: "ApiError option \<Rightarrow> ApiError responder" where
  "InvitationAcceptForbidden p = WriteResponse_pointer 403 p"

definition InvitationAcceptNotFound :: "ApiError option \<Rightarrow> ApiError responder" where
  "InvitationAcceptNotFound p = WriteResponse_pointer 404 p"

definition InvitationAcceptConflict :: "ApiError option \<Rightarrow> ApiError responder" where
  "InvitationAcceptConflict p = WriteResponse_pointer 409 p"

definition InvitationAcceptPreconditionFailed :: "ApiError option \<Rightarrow> ApiError responder" where
  "InvitationAcceptPreconditionFailed p = WriteResponse_pointer 412 p"

definition InvitationAcceptDefault :: "int \<Rightarrow> ApiError option \<Rightarrow> ApiError responder" where
  "InvitationAcceptDefault code p = WriteResponse_pointer (default_status code) p"

definition InvitationCreateCreated :: "Invitation option \<Rightarrow> Invitation responder" where
  "InvitationCreateCreated p = WriteResponse_pointer 201 p"

definition InvitationCreateBadRequest :: "ApiError option \<Rightarrow> ApiError responder" where
  "InvitationCreateBadRequest p = WriteResponse_pointer 400 p"

definition InvitationCreateUnauthorized :: "ApiError option \<Rightarrow> ApiError responder" where
  "InvitationCreateUnauthorized p = WriteResponse_pointer 401 p"

definition InvitationCreateForbidden :: "ApiError option \<Rightarrow> ApiError responder" where
  "InvitationCreateForbidden p = WriteResponse_pointer 403 p"

definition InvitationCreateConflict :: "ApiError option \<Rightarrow> ApiError responder" where
  "InvitationCreateConflict p = WriteResponse_pointer 409 p"

definition InvitationCreateDefault :: "int \<Rightarrow> ApiError option \<Rightarrow> ApiError responder" where
  "InvitationCreateDefault code p = WriteResponse_pointer (default_status code) p"

definition InvitationDeclineNoContent :: "unit responder" where
  "InvitationDeclineNoContent = WriteResponse_empty 204"

definition InvitationDeclineUnauthorized :: "ApiError option \<Rightarrow> ApiError responder" where
  "InvitationDeclineUnauthorized p = WriteResponse_pointer 401 p"

definition InvitationDeclineForbidden :: "ApiError option \<Rightarrow> ApiError responder" where
  "InvitationDeclineForbidden p = WriteResponse_pointer 403 p"

definition InvitationDeclineNotFound :: "ApiError option \<Rightarrow> ApiError responder" where
  "InvitationDeclineNotFound p = WriteResponse_pointer 404 p"

definition InvitationDeclineDefault :: "int \<Rightarrow> ApiError option \<Rightarrow> ApiError responder" where
  "InvitationDeclineDefault code p = WriteResponse_pointer (default_status code) p"

definition InvitationListOK :: "Invitation list option \<Rightarrow> Invitation list responder" where
  "InvitationListOK p = WriteResponse_slice 200 p"

definition InvitationListUnauthorized :: "ApiError option \<Rightarrow> ApiError responder" where
  "InvitationListUnauthorized p = WriteResponse_pointer 401 p"

definition InvitationListForbidden :: "ApiError option \<Rightarrow> ApiError responder" where
  "InvitationListForbidden p = WriteResponse_pointer 403 p"

definition InvitationListDefault :: "int \<Rightarrow> ApiError option \<Rightarrow> ApiError responder" where
  "InvitationListDefault code p = WriteResponse_pointer (default_status code) p"

definition InvitationSentListOK :: "Invitation list option \<Rightarrow> Invitation list responder" where
  "InvitationSentListOK p = WriteResponse_slice 200 p"

definition InvitationSentListUnauthorized :: "ApiError option \<Rightarrow> ApiError responder" where
  "InvitationSentListUnauthorized p = WriteResponse_pointer 401 p"

definition InvitationSentListDefault :: "int \<Rightarrow> ApiError option \<Rightarrow> ApiError responder" where
  "InvitationSentListDefault code p = WriteResponse_pointer (default_status code) p"

definition NotificationsSwitchingProtocols :: "unit responder" where
  "NotificationsSwitchingProtocols = WriteResponse_empty 101"

definition NotificationsUnauthorized :: "ApiError option \<Rightarrow> ApiError responder" where
  "NotificationsUnauthorized p = WriteResponse_pointer 401 p"

definition NotificationsDefault :: "int \<Rightarrow> ApiError option \<Rightarrow> ApiError responder" where
  "NotificationsDefault code p = WriteResponse_pointer (default_status code) p"

definition OrdersStatusOK :: "PlayerOrderStatus list option \<Rightarrow> PlayerOrderStatus list responder" where
  "OrdersStatusOK p = WriteResponse_slice 200 p"

definition OrdersStatusUnauthorized :: "ApiError option \<Rightarrow> ApiError responder" where
  "OrdersStatusUnauthorized p = WriteResponse_pointer 401 p"

definition OrdersStatusForbidden :: "ApiError option \<Rightarrow> ApiError responder" where
  "OrdersStatusForbidden p = WriteResponse_pointer 403 p"

definition OrdersStatusNotFound :: "ApiError option \<Rightarrow> ApiError responder" where
  "OrdersStatusNotFound p = WriteResponse_pointer 404 p"

definition OrdersStatusDefault :: "int \<Rightarrow> ApiError option \<Rightarrow> ApiError responder" where
  "OrdersStatusDefault code p = WriteResponse_pointer (default_status code) p"

definition PendingRegistrationApproveOK :: "ApikeyReset option \<Rightarrow> ApikeyReset responder" where
  "PendingRegistrationApproveOK p = WriteResponse_pointer 200 p"

definition PendingRegistrationApproveUnauthorized :: "ApiError option \<Rightarrow> ApiError responder" where
  "PendingRegistrationApproveUnauthorized p = WriteResponse_pointer 401 p"

definition PendingRegistrationApproveForbidden :: "ApiError option \<Rightarrow> ApiError responder" where
  "PendingRegistrationApproveForbidden p = WriteResponse_pointer 403 p"

definition PendingRegistrationApproveNotFound :: "ApiError option \<Rightarrow> ApiError responder" where
  "PendingRegistrationApproveNotFound p = WriteResponse_pointer 404 p"

definition PendingRegistrationApproveDefault :: "int \<Rightarrow> ApiError option \<Rightarrow> ApiError responder" where
  "PendingRegistrationApproveDefault code p = WriteResponse_pointer (default_status code) p"

definition PendingRegistrationListOK :: "UserProfile list option \<Rightarrow> UserProfile list responder" where
  "PendingRegistrationListOK p = WriteResponse_slice 200 p"

definition PendingRegistrationListUnauthorized :: "ApiError option \<Rightarrow> ApiError responder" where
  "PendingRegistrationListUnauthorized p = WriteResponse_pointer 401 p"

definition PendingRegistrationListForbidden :: "ApiError option \<Rightarrow> ApiError responder" where
  "PendingRegistrationListForbidden p = WriteResponse_pointer 403 p"

definition PendingRegistrationListDefault :: "int \<Rightarrow> ApiError option \<Rightarrow> ApiError responder" where
  "PendingRegistrationListDefault code p = WriteResponse_pointer (default_status code) p"

definition PendingRegistrationRejectNoContent :: "unit responder" where
  "PendingRegistrationRejectNoContent = WriteResponse_empty 204"

definition PendingRegistrationRejectUnauthorized :: "ApiError option \<Rightarrow> ApiError responder" where
  "PendingRegistrationRejectUnauthorized p = WriteResponse_pointer 401 p"

definition PendingRegistrationRejectForbidden :: "ApiError option \<Rightarrow> ApiError responder" where
  "PendingRegistrationRejectForbidden p = WriteResponse_pointer 403 p"

definition PendingRegistrationRejectNotFound :: "ApiError option \<Rightarrow> ApiError responder" where
  "PendingRegistrationRejectNotFound p = WriteResponse_pointer 404 p"

definition PendingRegistrationRejectDefault :: "int \<Rightarrow> ApiError option \<Rightarrow> ApiError responder" where
  "PendingRegistrationRejectDefault code p = WriteResponse_pointer (default_status code) p"

definition RaceCreateCreated :: "RaceDB option \<Rightarrow> RaceDB responder" where
  "RaceCreateCreated p = WriteResponse_pointer 201 p"

definition RaceCreateBadRequest :: "ApiError option \<Rightarrow> ApiError responder" where
  "RaceCreateBadRequest p = WriteResponse_pointer 400 p"

definition RaceCreateUnauthorized :: "ApiError option \<Rightarrow> ApiError responder" where
  "RaceCreateUnauthorized p = WriteResponse_pointer 401 p"

definition RaceCreateForbidden :: "ApiError option \<Rightarrow> ApiError responder" where
  "RaceCreateForbidden p = WriteResponse_pointer 403 p"

definition RaceCreateTooManyRequests :: "ApiError option \<Rightarrow> ApiError responder" where
  "RaceCreateTooManyRequests p = WriteResponse_pointer 429 p"

definition RaceCreateDefault :: "int \<Rightarrow> ApiError option \<Rightarrow> ApiError responder" where
  "RaceCreateDefault code p = WriteResponse_pointer (default_status code) p"

definition RaceDeleteNoContent :: "unit responder" where
  "RaceDeleteNoContent = WriteResponse_empty 204"

definition RaceDeleteUnauthorized :: "ApiError option \<Rightarrow> ApiError responder" where
  "RaceDeleteUnauthorized p = WriteResponse_pointer 401 p"

definition RaceDeleteForbidden :: "ApiError option \<Rightarrow> ApiError responder" where
  "RaceDeleteForbidden p = WriteResponse_pointer 403 p"

definition RaceDeleteNotFound :: "ApiError option \<Rightarrow> ApiError responder" where
  "RaceDeleteNotFound p = WriteResponse_pointer 404 p"

definition RaceDeleteConflict :: "ApiError option \<Rightarrow> ApiError responder" where
  "RaceDeleteConflict p = WriteResponse_pointer 409 p"

definition RaceDeleteDefault :: "int \<Rightarrow> ApiError option \<Rightarrow> ApiError responder" where
  "RaceDeleteDefault code p = WriteResponse_pointer (default_status code) p"

definition RaceReadOK :: "RaceDB option \<Rightarrow> RaceDB responder" where
  "RaceReadOK p = WriteResponse_pointer 200 p"

definition RaceReadUnauthorized :: "ApiError option \<Rightarrow> ApiError responder" where
  "RaceReadUnauthorized p = WriteResponse_pointer 401 p"

definition RaceReadForbidden :: "ApiError option \<Rightarrow> ApiError responder" where
  "RaceReadForbidden p = WriteResponse_pointer 403 p"

definition RacesListOK :: "RaceDB list option \<Rightarrow> RaceDB list responder" where
  "RacesListOK p = WriteResponse_slice 200 p"

definition RacesListUnauthorized :: "ApiError option \<Rightarrow> ApiError responder" where
  "RacesListUnauthorized p = WriteResponse_pointer 401 p"

definition RacesListForbidden :: "ApiError option \<Rightarrow> ApiError responder" where
  "RacesListForbidden p = WriteResponse_pointer 403 p"

definition RacesListDefault :: "int \<Rightarrow> ApiError option \<Rightarrow> ApiError responder" where
  "RacesListDefault code p = WriteResponse_pointer (default_status code) p"

definition RefreshTokenOK :: "string \<Rightarrow> string responder" where
  "RefreshTokenOK p = produce_body 200 p"

definition RefreshTokenDefault :: "int \<Rightarrow> ApiError option \<Rightarrow> ApiError responder" where
  "RefreshTokenDefault code p = WriteResponse_pointer (default_status code) p"

definition RegisterCreated :: "RegistrationResult option \<Rightarrow> RegistrationResult responder" where
  "RegisterCreated p = WriteResponse_pointer 201 p"

definition RegisterBadRequest :: "ApiError option \<Rightarrow> ApiError responder" where
  "RegisterBadRequest p = WriteResponse_pointer 400 p"

definition RegisterConflict :: "ApiError option \<Rightarrow> ApiError responder" where
  "RegisterConflict p = WriteResponse_pointer 409 p"

definition RegisterTooManyRequests :: "ApiError option \<Rightarrow> ApiError responder" where
  "RegisterTooManyRequests p = WriteResponse_pointer 429 p"

definition RegisterServiceUnavailable :: "ApiError option \<Rightarrow> ApiError responder" where
  "RegisterServiceUnavailable p = WriteResponse_pointer 503 p"

definition RegisterDefault :: "int \<Rightarrow> ApiError option \<Rightarrow> ApiError responder" where
  "RegisterDefault code p = WriteResponse_pointer (default_status code) p"

definition ReorderPlayersOK :: "PlayerOrderReq list option \<Rightarrow> PlayerOrderReq list responder" where
  "ReorderPlayersOK p = WriteResponse_slice 200 p"

definition ReorderPlayersUnauthorized :: "ApiError option \<Rightarrow> ApiError responder" where
  "ReorderPlayersUnauthorized p = WriteResponse_pointer 401 p"

definition ReorderPlayersForbidden :: "ApiError option \<Rightarrow> ApiError responder" where
  "ReorderPlayersForbidden p = WriteResponse_pointer 403 p"

definition ReorderPlayersDefault :: "int \<Rightarrow> ApiError option \<Rightarrow> ApiError responder" where
  "ReorderPlayersDefault code p = WriteResponse_pointer (default_status code) p"

definition RulesCreateOK :: "Ruleset option \<Rightarrow> Ruleset responder" where
  "RulesCreateOK p = WriteResponse_pointer 200 p"

definition RulesCreateBadRequest :: "ApiError option \<Rightarrow> ApiError responder" where
  "RulesCreateBadRequest p = WriteResponse_pointer 400 p"

definition RulesCreateUnauthorized :: "ApiError option \<Rightarrow> ApiError responder" where
  "RulesCreateUnauthorized p = WriteResponse_pointer 401 p"

definition RulesCreateForbidden :: "ApiError option \<Rightarrow> ApiError responder" where
  "RulesCreateForbidden p = WriteResponse_pointer 403 p"

definition RulesCreatePreconditionFailed :: "ApiError option \<Rightarrow> ApiError responder" where
  "RulesCreatePreconditionFailed p = WriteResponse_pointer 412 p"

definition RulesCreateDefault :: "int \<Rightarrow> ApiError option \<Rightarrow> ApiError responder" where
  "RulesCreateDefault code p = WriteResponse_pointer (default_status code) p"

definition RulesReadOK :: "Ruleset option \<Rightarrow> Ruleset responder" where
  "RulesReadOK p = WriteResponse_pointer 200 p"

definition RulesReadUnauthorized :: "ApiError option \<Rightarrow> ApiError responder" where
  "RulesReadUnauthorized p = WriteResponse_pointer 401 p"

definition RulesReadForbidden :: "ApiError option \<Rightarrow> ApiError responder" where
  "RulesReadForbidden p = WriteResponse_pointer 403 p"

definition RulesReadDefault :: "int \<Rightarrow> ApiError option \<Rightarrow> ApiError responder" where
  "RulesReadDefault code p = WriteResponse_pointer (default_status code) p"

definition SessionArchiveOK :: "Session option \<Rightarrow> Session responder" where
  "SessionArchiveOK p = WriteResponse_pointer 200 p"

definition SessionArchiveUnauthorized :: "ApiError option \<Rightarrow> ApiError responder" where
  "SessionArchiveUnauthorized p = WriteResponse_pointer 401 p"

definition SessionArchiveForbidden :: "ApiError option \<Rightarrow> ApiError responder" where
  "SessionArchiveForbidden p = WriteResponse_pointer 403 p"

definition SessionArchiveNotFound :: "ApiError option \<Rightarrow> ApiError responder" where
  "SessionArchiveNotFound p = WriteResponse_pointer 404 p"

definition SessionArchivePreconditionFailed :: "ApiError option \<Rightarrow> ApiError responder" where
  "SessionArchivePreconditionFailed p = WriteResponse_pointer 412 p"

definition SessionArchiveDefault :: "int \<Rightarrow> ApiError option \<Rightarrow> ApiError responder" where
  "SessionArchiveDefault code p = WriteResponse_pointer (default_status code) p"

definition SessionCreateCreated :: "Session option \<Rightarrow> Session responder" where
  "SessionCreateCreated p = WriteResponse_pointer 201 p"

definition SessionCreateUnauthorized :: "ApiError option \<Rightarrow> ApiError responder" where
  "SessionCreateUnauthorized p = WriteResponse_pointer 401 p"

definition SessionCreateForbidden :: "ApiError option \<Rightarrow> ApiError responder" where
  "SessionCreateForbidden p = WriteResponse_pointer 403 p"

definition SessionCreateTooManyRequests :: "ApiError option \<Rightarrow> ApiError responder" where
  "SessionCreateTooManyRequests p = WriteResponse_pointer 429 p"

definition SessionCreateDefault :: "int \<Rightarrow> ApiError option \<Rightarrow> ApiError responder" where
  "SessionCreateDefault code p = WriteResponse_pointer (default_status code) p"

definition SessionDeleteNoContent :: "unit responder" where
  "SessionDeleteNoContent = WriteResponse_empty 204"

definition SessionDeleteUnauthorized :: "ApiError option \<Rightarrow> ApiError responder" where
  "SessionDeleteUnauthorized p = WriteResponse_pointer 401 p"

definition SessionDeleteForbidden :: "ApiError option \<Rightarrow> ApiError responder" where
  "SessionDeleteForbidden p = WriteResponse_pointer 403 p"

definition SessionDeleteNotFound :: "ApiError option \<Rightarrow> ApiError responder" where
  "SessionDeleteNotFound p = WriteResponse_pointer 404 p"

definition SessionDeleteDefault :: "int \<Rightarrow> ApiError option \<Rightarrow> ApiError responder" where
  "SessionDeleteDefault code p = WriteResponse_pointer (default_status code) p"

definition SessionFilesGetOK :: "SessionFilesDB option \<Rightarrow> SessionFilesDB responder" where
  "SessionFilesGetOK p = WriteResponse_pointer 200 p"

definition SessionFilesGetUnauthorized :: "ApiError option \<Rightarrow> ApiError responder" where
  "SessionFilesGetUnauthorized p = WriteResponse_pointer 401 p"

definition SessionFilesGetForbidden :: "ApiError option \<Rightarrow> ApiError responder" where
  "SessionFilesGetForbidden p = WriteResponse_pointer 403 p"

definition SessionFilesGetNotFound :: "ApiError option \<Rightarrow> ApiError responder" where
  "SessionFilesGetNotFound p = WriteResponse_pointer 404 p"

definition SessionFilesGetDefault :: "int \<Rightarrow> ApiError option \<Rightarrow> ApiError responder" where
  "SessionFilesGetDefault code p = WriteResponse_pointer (default_status code) p"

definition SessionJoinOK :: "Session option \<Rightarrow> Session responder" where
  "SessionJoinOK p = WriteResponse_pointer 200 p"

definition SessionJoinBadRequest :: "ApiError option \<Rightarrow> ApiError responder" where
  "SessionJoinBadRequest p = WriteResponse_pointer 400 p"

definition SessionJoinUnauthorized :: "ApiError option \<Rightarrow> ApiError responder" where
  "SessionJoinUnauthorized p = WriteResponse_pointer 401 p"

definition SessionJoinForbidden :: "ApiError option \<Rightarrow> ApiError responder" where
  "SessionJoinForbidden p = WriteResponse_pointer 403 p"

definition SessionJoinPreconditionFailed :: "ApiError option \<Rightarrow> ApiError responder" where
  "SessionJoinPreconditionFailed p = WriteResponse_pointer 412 p"

definition SessionJoinTooManyRequests :: "ApiError option \<Rightarrow> ApiError responder" where
  "SessionJoinTooManyRequests p = WriteResponse_pointer 429 p"

definition SessionJoinDefault :: "int \<Rightarrow> ApiError option \<Rightarrow> ApiError responder" where
  "SessionJoinDefault code p = WriteResponse_pointer (default_status code) p"

definition SessionPlayerControlOK :: "(PlayerControlStatus list) option \<Rightarrow> (PlayerControlStatus list) responder" where
  "SessionPlayerControlOK p = WriteResponse_pointer 200 p"

definition SessionPlayerControlUnauthorized :: "ApiError option \<Rightarrow> ApiError responder" where
  "SessionPlayerControlUnauthorized p = WriteResponse_pointer 401 p"

definition SessionPlayerControlForbidden :: "ApiError option \<Rightarrow> ApiError responder" where
  "SessionPlayerControlForbidden p = WriteResponse_pointer 403 p"

definition SessionPlayerControlNotFound :: "ApiError option \<Rightarrow> ApiError responder" where
  "SessionPlayerControlNotFound p = WriteResponse_pointer 404 p"

definition SessionPlayerControlDefault :: "int \<Rightarrow> ApiError option \<Rightarrow> ApiError responder" where
  "SessionPlayerControlDefault code p = WriteResponse_pointer (default_status code) p"

definition SessionPlayerRaceCreateOK :: "SessionPlayerRaceDB option \<Rightarrow> SessionPlayerRaceDB responder" where
  "SessionPlayerRaceCreateOK p = WriteResponse_pointer 200 p"

definition SessionPlayerRaceCreateBadRequest :: "ApiError option \<Rightarrow> ApiError responder" where
  "SessionPlayerRaceCreateBadRequest p = WriteResponse_pointer 400 p"

definition SessionPlayerRaceCreateUnauthorized :: "ApiError option \<Rightarrow> ApiError responder" where
  "SessionPlayerRaceCreateUnauthorized p = WriteResponse_pointer 401 p"

definition SessionPlayerRaceCreateForbidden :: "ApiError option \<Rightarrow> ApiError responder" where
  "SessionPlayerRaceCreateForbidden p = WriteResponse_pointer 403 p"

definition SessionPlayerRaceCreateDefault :: "int \<Rightarrow> ApiError option \<Rightarrow> ApiError responder" where
  "SessionPlayerRaceCreateDefault code p = WriteResponse_pointer (default_status code) p"

definition SessionPlayerRaceDeleteNoContent :: "unit responder" where
  "SessionPlayerRaceDeleteNoContent = WriteResponse_empty 204"

definition SessionPlayerRaceDeleteBadRequest :: "ApiError option \<Rightarrow> ApiError responder" where
  "SessionPlayerRaceDeleteBadRequest p = WriteResponse_pointer 400 p"

definition SessionPlayerRaceDeleteUnauthorized :: "ApiError option \<Rightarrow> ApiError responder" where
  "SessionPlayerRaceDeleteUnauthorized p = WriteResponse_pointer 401 p"

definition SessionPlayerRaceDeleteForbidden :: "ApiError option \<Rightarrow> ApiError responder" where
  "SessionPlayerRaceDeleteForbidden p = WriteResponse_pointer 403 p"

definition SessionPlayerRaceDeleteNotFound :: "ApiError option \<Rightarrow> ApiError responder" where
  "SessionPlayerRaceDeleteNotFound p = WriteResponse_pointer 404 p"

definition SessionPlayerRaceDeleteDefault :: "int \<Rightarrow> ApiError option \<Rightarrow> ApiError responder" where
  "SessionPlayerRaceDeleteDefault code p = WriteResponse_pointer (default_status code) p"

definition SessionPlayerRaceGetOK :: "RaceDB option \<Rightarrow> RaceDB responder" where
  "SessionPlayerRaceGetOK p = WriteResponse_pointer 200 p"

definition SessionPlayerRaceGetUnauthorized :: "ApiError option \<Rightarrow> ApiError responder" where
  "SessionPlayerRaceGetUnauthorized p = WriteResponse_pointer 401 p"

definition SessionPlayerRaceGetForbidden :: "ApiError option \<Rightarrow> ApiError responder" where
  "SessionPlayerRaceGetForbidden p = WriteResponse_pointer 403 p"

definition SessionPlayerRaceGetNotFound :: "ApiError option \<Rightarrow> ApiError responder" where
  "SessionPlayerRaceGetNotFound p = WriteResponse_pointer 404 p"

definition SessionPlayerRaceGetDefault :: "int \<Rightarrow> ApiError option \<Rightarrow> ApiError responder" where
  "SessionPlayerRaceGetDefault code p = WriteResponse_pointer (default_status code) p"

definition SessionPlayerRaceSetReadyOK :: "SessionPlayerRaceDB option \<Rightarrow> SessionPlayerRaceDB responder" where
  "SessionPlayerRaceSetReadyOK p = WriteResponse_pointer 200 p"

definition SessionPlayerRaceSetReadyBadRequest :: "ApiError option \<Rightarrow> ApiError responder" where
  "SessionPlayerRaceSetReadyBadRequest p = WriteResponse_pointer 400 p"

definition SessionPlayerRaceSetReadyUnauthorized :: "ApiError option \<Rightarrow> ApiError responder" where
  "SessionPlayerRaceSetReadyUnauthorized p = WriteResponse_pointer 401 p"

definition SessionPlayerRaceSetReadyForbidden :: "ApiError option \<Rightarrow> ApiError responder" where
  "SessionPlayerRaceSetReadyForbidden p = WriteResponse_pointer 403 p"

definition SessionPlayerRaceSetReadyDefault :: "int \<Rightarrow> ApiError option \<Rightarrow> ApiError responder" where
  "SessionPlayerRaceSetReadyDefault code p = WriteResponse_pointer (default_status code) p"

definition SessionPlayerSwitchToAINoContent :: "unit responder" where
  "SessionPlayerSwitchToAINoContent = WriteResponse_empty 204"

definition SessionPlayerSwitchToAIBadRequest :: "ApiError option \<Rightarrow> ApiError responder" where
  "SessionPlayerSwitchToAIBadRequest p = WriteResponse_pointer 400 p"

definition SessionPlayerSwitchToAIUnauthorized :: "ApiError option \<Rightarrow> ApiError responder" where
  "SessionPlayerSwitchToAIUnauthorized p = WriteResponse_pointer 401 p"

definition SessionPlayerSwitchToAIForbidden :: "ApiError option \<Rightarrow> ApiError responder" where
  "SessionPlayerSwitchToAIForbidden p = WriteResponse_pointer 403 p"

definition SessionPlayerSwitchToAINotFound :: "ApiError option \<Rightarrow> ApiError responder" where
  "SessionPlayerSwitchToAINotFound p = WriteResponse_pointer 404 p"

definition SessionPlayerSwitchToAIPreconditionFailed :: "ApiError option \<Rightarrow> ApiError responder" where
  "SessionPlayerSwitchToAIPreconditionFailed p = WriteResponse_pointer 412 p"

definition SessionPlayerSwitchToAIDefault :: "int \<Rightarrow> ApiError option \<Rightarrow> ApiError responder" where
  "SessionPlayerSwitchToAIDefault code p = WriteResponse_pointer (default_status code) p"

definition SessionPlayerSwitchToHumanNoContent :: "unit responder" where
  "SessionPlayerSwitchToHumanNoContent = WriteResponse_empty 204"

definition SessionPlayerSwitchToHumanUnauthorized :: "ApiError option \<Rightarrow> ApiError responder" where
  "SessionPlayerSwitchToHumanUnauthorized p = WriteResponse_pointer 401 p"

definition SessionPlayerSwitchToHumanForbidden :: "ApiError option \<Rightarrow> ApiError responder" where
  "SessionPlayerSwitchToHumanForbidden p = WriteResponse_pointer 403 p"

definition SessionPlayerSwitchToHumanNotFound :: "ApiError option \<Rightarrow> ApiError responder" where
  "SessionPlayerSwitchToHumanNotFound p = WriteResponse_pointer 404 p"

definition SessionPlayerSwitchToHumanPreconditionFailed :: "ApiError option \<Rightarrow> ApiError responder" where
  "SessionPlayerSwitchToHumanPreconditionFailed p = WriteResponse_pointer 412 p"

definition SessionPlayerSwitchToHumanDefault :: "int \<Rightarrow> ApiError option \<Rightarrow> ApiError responder" where
  "SessionPlayerSwitchToHumanDefault code p = WriteResponse_pointer (default_status code) p"

definition SessionPromoteMemberNoContent :: "unit responder" where
  "SessionPromoteMemberNoContent = WriteResponse_empty 204"

definition SessionPromoteMemberUnauthorized :: "ApiError option \<Rightarrow> ApiError responder" where
  "SessionPromoteMemberUnauthorized p = WriteResponse_pointer 401 p"

definition SessionPromoteMemberForbidden :: "ApiError option \<Rightarrow> ApiError responder" where
  "SessionPromoteMemberForbidden p = WriteResponse_pointer 403 p"

definition SessionPromoteMemberNotFound :: "ApiError option \<Rightarrow> ApiError responder" where
  "SessionPromoteMemberNotFound p = WriteResponse_pointer 404 p"

definition SessionPromoteMemberPreconditionFailed :: "ApiError option \<Rightarrow> ApiError responder" where
  "SessionPromoteMemberPreconditionFailed p = WriteResponse_pointer 412 p"

definition SessionPromoteMemberDefault :: "int \<Rightarrow> ApiError option \<Rightarrow> ApiError responder" where
  "SessionPromoteMemberDefault code p = WriteResponse_pointer (default_status code) p"

definition SessionQuitNoContent :: "unit responder" where
  "SessionQuitNoContent = WriteResponse_empty 204"

definition SessionQuitUnauthorized :: "ApiError option \<Rightarrow> ApiError responder" where
  "SessionQuitUnauthorized p = WriteResponse_pointer 401 p"

definition SessionQuitForbidden :: "ApiError option \<Rightarrow> ApiError responder" where
  "SessionQuitForbidden p = WriteResponse_pointer 403 p"

definition SessionQuitNotFound :: "ApiError option \<Rightarrow> ApiError responder" where
  "SessionQuitNotFound p = WriteResponse_pointer 404 p"

definition SessionQuitPreconditionFailed :: "ApiError option \<Rightarrow> ApiError responder" where
  "SessionQuitPreconditionFailed p = WriteResponse_pointer 412 p"

definition SessionQuitDefault :: "int \<Rightarrow> ApiError option \<Rightarrow> ApiError responder" where
  "SessionQuitDefault code p = WriteResponse_pointer (default_status code) p"

definition SessionReadOK :: "Session option \<Rightarrow> Session responder" where
  "SessionReadOK p = WriteResponse_pointer 200 p"

definition SessionReadUnauthorized :: "ApiError option \<Rightarrow> ApiError responder" where
  "SessionReadUnauthorized p = WriteResponse_pointer 401 p"

definition SessionReadForbidden :: "ApiError option \<Rightarrow> ApiError responder" where
  "SessionReadForbidden p = WriteResponse_pointer 403 p"

definition SessionReadDefault :: "int \<Rightarrow> ApiError option \<Rightarrow> ApiError responder" where
  "SessionReadDefault code p = WriteResponse_pointer (default_status code) p"

definition SessionUpdateOK :: "Session option \<Rightarrow> Session responder" where
  "SessionUpdateOK p = WriteResponse_pointer 200 p"

definition SessionUpdateUnauthorized :: "ApiError option \<Rightarrow> ApiError responder" where
  "SessionUpdateUnauthorized p = WriteResponse_pointer 401 p"

definition SessionUpdateForbidden :: "ApiError option \<Rightarrow> ApiError responder" where
  "SessionUpdateForbidden p = WriteResponse_pointer 403 p"

definition SessionUpdateDefault :: "int \<Rightarrow> ApiError option \<Rightarrow> ApiError responder" where
  "SessionUpdateDefault code p = WriteResponse_pointer (default_status code) p"

definition SessionsListOK :: "Session list option \<Rightarrow> Session list responder" where
  "SessionsListOK p = WriteResponse_slice 200 p"

definition SessionsListUnauthorized :: "ApiError option \<Rightarrow> ApiError responder" where
  "SessionsListUnauthorized p = WriteResponse_pointer 401 p"

definition SessionsListForbidden :: "ApiError option \<Rightarrow> ApiError responder" where
  "SessionsListForbidden p = WriteResponse_pointer 403 p"

definition SessionsListDefault :: "int \<Rightarrow> ApiError option \<Rightarrow> ApiError responder" where
  "SessionsListDefault code p = WriteResponse_pointer (default_status code) p"

definition TurnGetOK :: "TurnFiles option \<Rightarrow> TurnFiles responder" where
  "TurnGetOK p = WriteResponse_pointer 200 p"

definition TurnGetUnauthorized :: "ApiError option \<Rightarrow> ApiError responder" where
  "TurnGetUnauthorized p = WriteResponse_pointer 401 p"

definition TurnGetForbidden :: "ApiError option \<Rightarrow> ApiError responder" where
  "TurnGetForbidden p = WriteResponse_pointer 403 p"

definition TurnLatestOK :: "TurnFiles option \<Rightarrow> TurnFiles responder" where
  "TurnLatestOK p = WriteResponse_pointer 200 p"

definition TurnLatestUnauthorized :: "ApiError option \<Rightarrow> ApiError responder" where
  "TurnLatestUnauthorized p = WriteResponse_pointer 401 p"

definition TurnLatestForbidden :: "ApiError option \<Rightarrow> ApiError responder" where
  "TurnLatestForbidden p = WriteResponse_pointer 403 p"

definition TurnLatestNotFound :: "ApiError option \<Rightarrow> ApiError responder" where
  "TurnLatestNotFound p = WriteResponse_pointer 404 p"

definition TurnLatestDefault :: "int \<Rightarrow> ApiError option \<Rightarrow> ApiError responder" where
  "TurnLatestDefault code p = WriteResponse_pointer (default_status code) p"

definition TurnSubmitOK :: "unit responder" where
  "TurnSubmitOK = WriteResponse_empty 200"

definition TurnSubmitBadRequest :: "ApiError option \<Rightarrow> ApiError responder" where
  "TurnSubmitBadRequest p = WriteResponse_pointer 400 p"

definition TurnSubmitUnauthorized :: "ApiError option \<Rightarrow> ApiError responder" where
  "TurnSubmitUnauthorized p = WriteResponse_pointer 401 p"

definition TurnSubmitForbidden :: "ApiError option \<Rightarrow> ApiError responder" where
  "TurnSubmitForbidden p = WriteResponse_pointer 403 p"

definition TurnSubmitConflict :: "ApiError option \<Rightarrow> ApiError responder" where
  "TurnSubmitConflict p = WriteResponse_pointer 409 p"

definition TurnSubmitUnprocessableEntity :: "ApiError option \<Rightarrow> ApiError responder" where
  "TurnSubmitUnprocessableEntity p = WriteResponse_pointer 422 p"

definition TurnSubmitDefault :: "int \<Rightarrow> ApiError option \<Rightarrow> ApiError responder" where
  "TurnSubmitDefault code p = WriteResponse_pointer (default_status code) p"

definition UserProfileCreateCreated :: "UserProfile option \<Rightarrow> UserProfile responder" where
  "UserProfileCreateCreated p = WriteResponse_pointer 201 p"

definition UserProfileCreateUnauthorized :: "ApiError option \<Rightarrow> ApiError responder" where
  "UserProfileCreateUnauthorized p = WriteResponse_pointer 401 p"

definition UserProfileCreateForbidden :: "ApiError option \<Rightarrow> ApiError responder" where
  "UserProfileCreateForbidden p = WriteResponse_pointer 403 p"

definition UserProfileDeleteNoContent :: "unit responder" where
  "UserProfileDeleteNoContent = WriteResponse_empty 204"

definition UserProfileDeleteUnauthorized :: "ApiError option \<Rightarrow> ApiError responder" where
  "UserProfileDeleteUnauthorized p = WriteResponse_pointer 401 p"

definition UserProfileDeleteForbidden :: "ApiError option \<Rightarrow> ApiError responder" where
  "UserProfileDeleteForbidden p = WriteResponse_pointer 403 p"

definition UserProfileDeleteNotFound :: "ApiError option \<Rightarrow> ApiError responder" where
  "UserProfileDeleteNotFound p = WriteResponse_pointer 404 p"

definition UserProfileDeleteConflict :: "ApiError option \<Rightarrow> ApiError responder" where
  "UserProfileDeleteConflict p = WriteResponse_pointer 409 p"

definition UserProfileDeleteDefault :: "int \<Rightarrow> ApiError option \<Rightarrow> ApiError responder" where
  "UserProfileDeleteDefault code p = WriteResponse_pointer (default_status code) p"

definition UserProfileListOK :: "UserProfile list option \<Rightarrow> UserProfile list responder" where
  "UserProfileListOK p = WriteResponse_slice 200 p"

definition UserProfileListUnauthorized :: "ApiError option \<Rightarrow> ApiError responder" where
  "UserProfileListUnauthorized p = WriteResponse_pointer 401 p"

definition UserProfileListForbidden :: "ApiError option \<Rightarrow> ApiError responder" where
  "UserProfileListForbidden p = WriteResponse_pointer 403 p"

definition UserProfileReadOK :: "UserProfile option \<Rightarrow> UserProfile responder" where
  "UserProfileReadOK p = WriteResponse_pointer 200 p"

definition UserProfileReadUnauthorized :: "ApiError option \<Rightarrow> ApiError responder" where
  "UserProfileReadUnauthorized p = WriteResponse_pointer 401 p"

definition UserProfileReadForbidden :: "ApiError option \<Rightarrow> ApiError responder" where
  "UserProfileReadForbidden p = WriteResponse_pointer 403 p"

definition UserProfileResetApikeyOK :: "ApikeyReset option \<Rightarrow> ApikeyReset responder" where
  "UserProfileResetApikeyOK p = WriteResponse_pointer 200 p"

definition UserProfileResetApikeyUnauthorized :: "ApiError option \<Rightarrow> ApiError responder" where
  "UserProfileResetApikeyUnauthorized p = WriteResponse_pointer 401 p"

definition UserProfileResetApikeyForbidden :: "ApiError option \<Rightarrow> ApiError responder" where
  "UserProfileResetApikeyForbidden p = WriteResponse_pointer 403 p"

definition UserProfileResetApikeyNotFound :: "ApiError option \<Rightarrow> ApiError responder" where
  "UserProfileResetApikeyNotFound p = WriteResponse_pointer 404 p"

definition UserProfileResetApikeyDefault :: "int \<Rightarrow> ApiError option \<Rightarrow> ApiError responder" where
  "UserProfileResetApikeyDefault code p = WriteResponse_pointer (default_status code) p"

definition UserProfileUpdateOK :: "UserProfile option \<Rightarrow> UserProfile responder" where
  "UserProfileUpdateOK p = WriteResponse_pointer 200 p"

definition UserProfileUpdateUnauthorized :: "ApiError option \<Rightarrow> ApiError responder" where
  "UserProfileUpdateUnauthorized p = WriteResponse_pointer 401 p"

definition UserProfileUpdateForbidden :: "ApiError option \<Rightarrow> ApiError responder" where
  "UserProfileUpdateForbidden p = WriteResponse_pointer 403 p"

definition UserinfoOK :: "Userinfo option \<Rightarrow> Userinfo responder" where
  "UserinfoOK p = WriteResponse_pointer 200 p"

definition UserinfoDefault :: "int \<Rightarrow> ApiError option \<Rightarrow> ApiError responder" where
  "UserinfoDefault code p = WriteResponse_pointer (default_status code) p"

end
