(* ===== verification/ApiSpec.thy ===== *)
theory ApiSpec
  imports Serving Responses
begin

section \<open>The specification of the API and the generated code\<close>

text \<open>
  The document \<open>FlatSwaggerJSON\<close> of \<open>restapi/embedded_spec.go\<close>, from which the library routes,
  authorises and chooses formats while the server runs: one record for each operation, with its
  method, path, name, security, formats, parameters and responses, and the parameters that a path
  has for all its operations. Texts for readers and the schemas of the models are left out; of a
  schema in a response or a body there is its name. The other document of the file is the same
  with references.
\<close>

record spec_parameter =
  sp_name :: string
  sp_in :: string
  sp_required :: bool
  sp_type :: string

text \<open>A security of \<open>None\<close> means the one of the document; the status \<open>None\<close> of a response is \<open>default\<close>.\<close>

record spec_operation =
  so_method :: string
  so_path :: string
  so_id :: string
  so_security :: "string list option"
  so_produces :: "string list option"
  so_parameters :: "spec_parameter list"
  so_responses :: "(int option \<times> string) list"

definition spec_security :: "string list" where
  "spec_security = [''key'']"

definition spec_produces :: "string list" where
  "spec_produces = [''application/json'']"

subsection \<open>The operations\<close>

definition spec_HealthCheck :: spec_operation where
  "spec_HealthCheck = \<lparr>so_method = ''get'', so_path = ''/healthz'', so_id = ''healthCheck'',
     so_security = Some [], so_produces = Some [''text/plain''],
     so_parameters = [],
     so_responses = [(Some 200, ''string''), (Some 503, ''string'')]\<rparr>"

definition spec_Authenticate :: spec_operation where
  "spec_Authenticate = \<lparr>so_method = ''post'', so_path = ''/v1/auth/authenticate'', so_id = ''authenticate'',
     so_security = Some [], so_produces = None,
     so_parameters = [\<lparr>sp_name = ''credentials'', sp_in = ''body'', sp_required = False, sp_type = ''credentials''\<rparr>],
     so_responses = [(Some 200, ''string''), (Some 401, ''error''), (None, ''error'')]\<rparr>"

definition spec_RefreshToken :: spec_operation where
  "spec_RefreshToken = \<lparr>so_method = ''post'', so_path = ''/v1/auth/refresh_token'', so_id = ''refresh-token'',
     so_security = None, so_produces = None,
     so_parameters = [],
     so_responses = [(Some 200, ''string''), (None, ''error'')]\<rparr>"

definition spec_Register :: spec_operation where
  "spec_Register = \<lparr>so_method = ''post'', so_path = ''/v1/auth/register'', so_id = ''register'',
     so_security = Some [], so_produces = None,
     so_parameters = [\<lparr>sp_name = ''registration'', sp_in = ''body'', sp_required = True, sp_type = ''registrationRequest''\<rparr>],
     so_responses = [(Some 201, ''registrationResult''), (Some 400, ''error''), (Some 409, ''error''), (Some 429, ''error''), (Some 503, ''error''), (None, ''error'')]\<rparr>"

definition spec_Userinfo :: spec_operation where
  "spec_Userinfo = \<lparr>so_method = ''get'', so_path = ''/v1/auth/userinfo'', so_id = ''userinfo'',
     so_security = None, so_produces = None,
     so_parameters = [],
     so_responses = [(Some 200, ''userinfo''), (None, ''error'')]\<rparr>"

definition spec_DownloadStarsExe :: spec_operation where
  "spec_DownloadStarsExe = \<lparr>so_method = ''get'', so_path = ''/v1/downloads/stars.exe'', so_id = ''downloadStarsExe'',
     so_security = None, so_produces = Some [''application/octet-stream''],
     so_parameters = [],
     so_responses = [(Some 200, ''file''), (Some 401, ''error''), (None, ''error'')]\<rparr>"

definition spec_InvitationList :: spec_operation where
  "spec_InvitationList = \<lparr>so_method = ''get'', so_path = ''/v1/invitations'', so_id = ''invitationList'',
     so_security = None, so_produces = None,
     so_parameters = [],
     so_responses = [(Some 200, ''array of invitation''), (Some 401, ''error''), (Some 403, ''error''), (None, ''error'')]\<rparr>"

definition spec_InvitationSentList :: spec_operation where
  "spec_InvitationSentList = \<lparr>so_method = ''get'', so_path = ''/v1/invitations/sent'', so_id = ''invitationSentList'',
     so_security = None, so_produces = None,
     so_parameters = [],
     so_responses = [(Some 200, ''array of invitation''), (Some 401, ''error''), (None, ''error'')]\<rparr>"

definition spec_InvitationAccept :: spec_operation where
  "spec_InvitationAccept = \<lparr>so_method = ''put'', so_path = ''/v1/invitations/{invitation_id}'', so_id = ''invitationAccept'',
     so_security = None, so_produces = None,
     so_parameters = [],
     so_responses = [(Some 200, ''session''), (Some 401, ''error''), (Some 403, ''error''), (Some 404, ''error''), (Some 409, ''error''), (Some 412, ''error''), (None, ''error'')]\<rparr>"

definition spec_InvitationDecline :: spec_operation where
  "spec_InvitationDecline = \<lparr>so_method = ''delete'', so_path = ''/v1/invitations/{invitation_id}'', so_id = ''invitationDecline'',
     so_security = None, so_produces = None,
     so_parameters = [],
     so_responses = [(Some 204, ''''), (Some 401, ''error''), (Some 403, ''error''), (Some 404, ''error''), (None, ''error'')]\<rparr>"

definition path_parameters_0 :: "string \<times> spec_parameter list" where
  "path_parameters_0 = (''/v1/invitations/{invitation_id}'',
     [\<lparr>sp_name = ''invitation_id'', sp_in = ''path'', sp_required = True, sp_type = ''string''\<rparr>])"

definition spec_Notifications :: spec_operation where
  "spec_Notifications = \<lparr>so_method = ''get'', so_path = ''/v1/notifications'', so_id = ''notifications'',
     so_security = None, so_produces = None,
     so_parameters = [],
     so_responses = [(Some 101, ''''), (Some 401, ''error''), (None, ''error'')]\<rparr>"

definition spec_PendingRegistrationList :: spec_operation where
  "spec_PendingRegistrationList = \<lparr>so_method = ''get'', so_path = ''/v1/pending_registrations'', so_id = ''pendingRegistrationList'',
     so_security = None, so_produces = None,
     so_parameters = [],
     so_responses = [(Some 200, ''array of userProfile''), (Some 401, ''error''), (Some 403, ''error''), (None, ''error'')]\<rparr>"

definition spec_PendingRegistrationApprove :: spec_operation where
  "spec_PendingRegistrationApprove = \<lparr>so_method = ''post'', so_path = ''/v1/pending_registrations/{user_profile_id}/approve'', so_id = ''pendingRegistrationApprove'',
     so_security = None, so_produces = None,
     so_parameters = [\<lparr>sp_name = ''user_profile_id'', sp_in = ''path'', sp_required = True, sp_type = ''string''\<rparr>],
     so_responses = [(Some 200, ''apikeyReset''), (Some 401, ''error''), (Some 403, ''error''), (Some 404, ''error''), (None, ''error'')]\<rparr>"

definition spec_PendingRegistrationReject :: spec_operation where
  "spec_PendingRegistrationReject = \<lparr>so_method = ''delete'', so_path = ''/v1/pending_registrations/{user_profile_id}/reject'', so_id = ''pendingRegistrationReject'',
     so_security = None, so_produces = None,
     so_parameters = [\<lparr>sp_name = ''user_profile_id'', sp_in = ''path'', sp_required = True, sp_type = ''string''\<rparr>],
     so_responses = [(Some 204, ''''), (Some 401, ''error''), (Some 403, ''error''), (Some 404, ''error''), (None, ''error'')]\<rparr>"

definition spec_SessionsList :: spec_operation where
  "spec_SessionsList = \<lparr>so_method = ''get'', so_path = ''/v1/sessions'', so_id = ''sessionsList'',
     so_security = None, so_produces = None,
     so_parameters = [\<lparr>sp_name = ''include_archived'', sp_in = ''query'', sp_required = False, sp_type = ''boolean''\<rparr>],
     so_responses = [(Some 200, ''array of session''), (Some 401, ''error''), (Some 403, ''error''), (None, ''error'')]\<rparr>"

definition spec_SessionCreate :: spec_operation where
  "spec_SessionCreate = \<lparr>so_method = ''post'', so_path = ''/v1/sessions'', so_id = ''sessionCreate'',
     so_security = None, so_produces = None,
     so_parameters = [\<lparr>sp_name = ''session'', sp_in = ''body'', sp_required = False, sp_type = ''session''\<rparr>],
     so_responses = [(Some 201, ''session''), (Some 401, ''error''), (Some 403, ''error''), (Some 429, ''error''), (None, ''error'')]\<rparr>"

definition spec_SessionRead :: spec_operation where
  "spec_SessionRead = \<lparr>so_method = ''get'', so_path = ''/v1/sessions/{session_id}'', so_id = ''sessionRead'',
     so_security = None, so_produces = None,
     so_parameters = [],
     so_responses = [(Some 200, ''session''), (Some 401, ''error''), (Some 403, ''error''), (None, ''error'')]\<rparr>"

definition spec_SessionUpdate :: spec_operation where
  "spec_SessionUpdate = \<lparr>so_method = ''put'', so_path = ''/v1/sessions/{session_id}'', so_id = ''sessionUpdate'',
     so_security = None, so_produces = None,
     so_parameters = [\<lparr>sp_name = ''session'', sp_in = ''body'', sp_required = False, sp_type = ''session''\<rparr>],
     so_responses = [(Some 200, ''session''), (Some 401, ''error''), (Some 403, ''error''), (None, ''error'')]\<rparr>"

definition spec_SessionDelete :: spec_operation where
  "spec_SessionDelete = \<lparr>so_method = ''delete'', so_path = ''/v1/sessions/{session_id}'', so_id = ''sessionDelete'',
     so_security = None, so_produces = None,
     so_parameters = [],
     so_responses = [(Some 204, ''''), (Some 401, ''error''), (Some 403, ''error''), (Some 404, ''error''), (None, ''error'')]\<rparr>"

definition path_parameters_1 :: "string \<times> spec_parameter list" where
  "path_parameters_1 = (''/v1/sessions/{session_id}'',
     [\<lparr>sp_name = ''session_id'', sp_in = ''path'', sp_required = True, sp_type = ''string''\<rparr>])"

definition spec_SessionArchive :: spec_operation where
  "spec_SessionArchive = \<lparr>so_method = ''post'', so_path = ''/v1/sessions/{session_id}/archive'', so_id = ''sessionArchive'',
     so_security = None, so_produces = None,
     so_parameters = [],
     so_responses = [(Some 200, ''session''), (Some 401, ''error''), (Some 403, ''error''), (Some 404, ''error''), (Some 412, ''error''), (None, ''error'')]\<rparr>"

definition path_parameters_2 :: "string \<times> spec_parameter list" where
  "path_parameters_2 = (''/v1/sessions/{session_id}/archive'',
     [\<lparr>sp_name = ''session_id'', sp_in = ''path'', sp_required = True, sp_type = ''string''\<rparr>])"

definition spec_HistoricBackup :: spec_operation where
  "spec_HistoricBackup = \<lparr>so_method = ''get'', so_path = ''/v1/sessions/{session_id}/backup'', so_id = ''historicBackup'',
     so_security = None, so_produces = Some [''application/zip''],
     so_parameters = [\<lparr>sp_name = ''session_id'', sp_in = ''path'', sp_required = True, sp_type = ''string''\<rparr>],
     so_responses = [(Some 200, ''file''), (Some 401, ''error''), (Some 403, ''error''), (Some 404, ''error''), (Some 412, ''error''), (None, ''error'')]\<rparr>"

definition spec_SessionFilesGet :: spec_operation where
  "spec_SessionFilesGet = \<lparr>so_method = ''get'', so_path = ''/v1/sessions/{session_id}/files'', so_id = ''sessionFilesGet'',
     so_security = None, so_produces = None,
     so_parameters = [\<lparr>sp_name = ''session_id'', sp_in = ''path'', sp_required = True, sp_type = ''string''\<rparr>],
     so_responses = [(Some 200, ''sessionFiles''), (Some 401, ''error''), (Some 403, ''error''), (Some 404, ''error''), (None, ''error'')]\<rparr>"

definition spec_GameCreate :: spec_operation where
  "spec_GameCreate = \<lparr>so_method = ''post'', so_path = ''/v1/sessions/{session_id}/game'', so_id = ''gameCreate'',
     so_security = None, so_produces = None,
     so_parameters = [\<lparr>sp_name = ''session_id'', sp_in = ''path'', sp_required = True, sp_type = ''string''\<rparr>],
     so_responses = [(Some 201, ''turnFiles''), (Some 400, ''error''), (Some 401, ''error''), (Some 403, ''error''), (Some 412, ''error''), (None, ''error'')]\<rparr>"

definition spec_InvitationCreate :: spec_operation where
  "spec_InvitationCreate = \<lparr>so_method = ''post'', so_path = ''/v1/sessions/{session_id}/invite'', so_id = ''invitationCreate'',
     so_security = None, so_produces = None,
     so_parameters = [\<lparr>sp_name = ''invitation'', sp_in = ''body'', sp_required = False, sp_type = ''invitation''\<rparr>],
     so_responses = [(Some 201, ''invitation''), (Some 400, ''error''), (Some 401, ''error''), (Some 403, ''error''), (Some 409, ''error''), (None, ''error'')]\<rparr>"

definition path_parameters_3 :: "string \<times> spec_parameter list" where
  "path_parameters_3 = (''/v1/sessions/{session_id}/invite'',
     [\<lparr>sp_name = ''session_id'', sp_in = ''path'', sp_required = True, sp_type = ''string''\<rparr>])"

definition spec_SessionJoin :: spec_operation where
  "spec_SessionJoin = \<lparr>so_method = ''post'', so_path = ''/v1/sessions/{session_id}/join'', so_id = ''sessionJoin'',
     so_security = None, so_produces = None,
     so_parameters = [],
     so_responses = [(Some 200, ''session''), (Some 400, ''error''), (Some 401, ''error''), (Some 403, ''error''), (Some 412, ''error''), (Some 429, ''error''), (None, ''error'')]\<rparr>"

definition path_parameters_4 :: "string \<times> spec_parameter list" where
  "path_parameters_4 = (''/v1/sessions/{session_id}/join'',
     [\<lparr>sp_name = ''session_id'', sp_in = ''path'', sp_required = True, sp_type = ''string''\<rparr>])"

definition spec_OrdersStatus :: spec_operation where
  "spec_OrdersStatus = \<lparr>so_method = ''get'', so_path = ''/v1/sessions/{session_id}/orders/{year}'', so_id = ''ordersStatus'',
     so_security = None, so_produces = None,
     so_parameters = [\<lparr>sp_name = ''session_id'', sp_in = ''path'', sp_required = True, sp_type = ''string''\<rparr>,
       \<lparr>sp_name = ''year'', sp_in = ''path'', sp_required = True, sp_type = ''integer''\<rparr>],
     so_responses = [(Some 200, ''array of playerOrderStatus''), (Some 401, ''error''), (Some 403, ''error''), (Some 404, ''error''), (None, ''error'')]\<rparr>"

definition spec_SessionPlayerSwitchToAI :: spec_operation where
  "spec_SessionPlayerSwitchToAI = \<lparr>so_method = ''post'', so_path = ''/v1/sessions/{session_id}/player/{player_order}/switch_to_ai'', so_id = ''sessionPlayerSwitchToAI'',
     so_security = None, so_produces = None,
     so_parameters = [\<lparr>sp_name = ''switch_request'', sp_in = ''body'', sp_required = True, sp_type = ''switchToAiRequest''\<rparr>],
     so_responses = [(Some 204, ''''), (Some 400, ''error''), (Some 401, ''error''), (Some 403, ''error''), (Some 404, ''error''), (Some 412, ''error''), (None, ''error'')]\<rparr>"

definition path_parameters_5 :: "string \<times> spec_parameter list" where
  "path_parameters_5 = (''/v1/sessions/{session_id}/player/{player_order}/switch_to_ai'',
     [\<lparr>sp_name = ''session_id'', sp_in = ''path'', sp_required = True, sp_type = ''string''\<rparr>,
      \<lparr>sp_name = ''player_order'', sp_in = ''path'', sp_required = True, sp_type = ''integer''\<rparr>])"

definition spec_SessionPlayerSwitchToHuman :: spec_operation where
  "spec_SessionPlayerSwitchToHuman = \<lparr>so_method = ''post'', so_path = ''/v1/sessions/{session_id}/player/{player_order}/switch_to_human'', so_id = ''sessionPlayerSwitchToHuman'',
     so_security = None, so_produces = None,
     so_parameters = [],
     so_responses = [(Some 204, ''''), (Some 401, ''error''), (Some 403, ''error''), (Some 404, ''error''), (Some 412, ''error''), (None, ''error'')]\<rparr>"

definition path_parameters_6 :: "string \<times> spec_parameter list" where
  "path_parameters_6 = (''/v1/sessions/{session_id}/player/{player_order}/switch_to_human'',
     [\<lparr>sp_name = ''session_id'', sp_in = ''path'', sp_required = True, sp_type = ''string''\<rparr>,
      \<lparr>sp_name = ''player_order'', sp_in = ''path'', sp_required = True, sp_type = ''integer''\<rparr>])"

definition spec_SessionPlayerControl :: spec_operation where
  "spec_SessionPlayerControl = \<lparr>so_method = ''get'', so_path = ''/v1/sessions/{session_id}/player_control'', so_id = ''sessionPlayerControl'',
     so_security = None, so_produces = None,
     so_parameters = [],
     so_responses = [(Some 200, ''playerControlList''), (Some 401, ''error''), (Some 403, ''error''), (Some 404, ''error''), (None, ''error'')]\<rparr>"

definition path_parameters_7 :: "string \<times> spec_parameter list" where
  "path_parameters_7 = (''/v1/sessions/{session_id}/player_control'',
     [\<lparr>sp_name = ''session_id'', sp_in = ''path'', sp_required = True, sp_type = ''string''\<rparr>])"

definition spec_SessionPlayerRaceGet :: spec_operation where
  "spec_SessionPlayerRaceGet = \<lparr>so_method = ''get'', so_path = ''/v1/sessions/{session_id}/player_race'', so_id = ''sessionPlayerRaceGet'',
     so_security = None, so_produces = None,
     so_parameters = [],
     so_responses = [(Some 200, ''race''), (Some 401, ''error''), (Some 403, ''error''), (Some 404, ''error''), (None, ''error'')]\<rparr>"

definition spec_SessionPlayerRaceCreate :: spec_operation where
  "spec_SessionPlayerRaceCreate = \<lparr>so_method = ''post'', so_path = ''/v1/sessions/{session_id}/player_race'', so_id = ''sessionPlayerRaceCreate'',
     so_security = None, so_produces = None,
     so_parameters = [\<lparr>sp_name = ''session_id'', sp_in = ''path'', sp_required = True, sp_type = ''string''\<rparr>,
       \<lparr>sp_name = ''session_player_race'', sp_in = ''body'', sp_required = False, sp_type = ''sessionPlayerRace''\<rparr>],
     so_responses = [(Some 200, ''sessionPlayerRace''), (Some 400, ''error''), (Some 401, ''error''), (Some 403, ''error''), (None, ''error'')]\<rparr>"

definition path_parameters_8 :: "string \<times> spec_parameter list" where
  "path_parameters_8 = (''/v1/sessions/{session_id}/player_race'',
     [\<lparr>sp_name = ''session_id'', sp_in = ''path'', sp_required = True, sp_type = ''string''\<rparr>])"

definition spec_SessionPlayerRaceSetReady :: spec_operation where
  "spec_SessionPlayerRaceSetReady = \<lparr>so_method = ''put'', so_path = ''/v1/sessions/{session_id}/player_race/ready'', so_id = ''sessionPlayerRaceSetReady'',
     so_security = None, so_produces = None,
     so_parameters = [\<lparr>sp_name = ''ready'', sp_in = ''body'', sp_required = True, sp_type = ''boolean''\<rparr>],
     so_responses = [(Some 200, ''sessionPlayerRace''), (Some 400, ''error''), (Some 401, ''error''), (Some 403, ''error''), (None, ''error'')]\<rparr>"

definition path_parameters_9 :: "string \<times> spec_parameter list" where
  "path_parameters_9 = (''/v1/sessions/{session_id}/player_race/ready'',
     [\<lparr>sp_name = ''session_id'', sp_in = ''path'', sp_required = True, sp_type = ''string''\<rparr>])"

definition spec_SessionPlayerRaceDelete :: spec_operation where
  "spec_SessionPlayerRaceDelete = \<lparr>so_method = ''delete'', so_path = ''/v1/sessions/{session_id}/player_race/{player_race_id}'', so_id = ''sessionPlayerRaceDelete'',
     so_security = None, so_produces = None,
     so_parameters = [],
     so_responses = [(Some 204, ''''), (Some 400, ''error''), (Some 401, ''error''), (Some 403, ''error''), (Some 404, ''error''), (None, ''error'')]\<rparr>"

definition path_parameters_10 :: "string \<times> spec_parameter list" where
  "path_parameters_10 = (''/v1/sessions/{session_id}/player_race/{player_race_id}'',
     [\<lparr>sp_name = ''session_id'', sp_in = ''path'', sp_required = True, sp_type = ''string''\<rparr>,
      \<lparr>sp_name = ''player_race_id'', sp_in = ''path'', sp_required = True, sp_type = ''string''\<rparr>])"

definition spec_SessionPromoteMember :: spec_operation where
  "spec_SessionPromoteMember = \<lparr>so_method = ''post'', so_path = ''/v1/sessions/{session_id}/promote/{user_profile_id}'', so_id = ''sessionPromoteMember'',
     so_security = None, so_produces = None,
     so_parameters = [],
     so_responses = [(Some 204, ''''), (Some 401, ''error''), (Some 403, ''error''), (Some 404, ''error''), (Some 412, ''error''), (None, ''error'')]\<rparr>"

definition path_parameters_11 :: "string \<times> spec_parameter list" where
  "path_parameters_11 = (''/v1/sessions/{session_id}/promote/{user_profile_id}'',
     [\<lparr>sp_name = ''session_id'', sp_in = ''path'', sp_required = True, sp_type = ''string''\<rparr>,
      \<lparr>sp_name = ''user_profile_id'', sp_in = ''path'', sp_required = True, sp_type = ''string''\<rparr>])"

definition spec_SessionQuit :: spec_operation where
  "spec_SessionQuit = \<lparr>so_method = ''post'', so_path = ''/v1/sessions/{session_id}/quit'', so_id = ''sessionQuit'',
     so_security = None, so_produces = None,
     so_parameters = [],
     so_responses = [(Some 204, ''''), (Some 401, ''error''), (Some 403, ''error''), (Some 404, ''error''), (Some 412, ''error''), (None, ''error'')]\<rparr>"

definition path_parameters_12 :: "string \<times> spec_parameter list" where
  "path_parameters_12 = (''/v1/sessions/{session_id}/quit'',
     [\<lparr>sp_name = ''session_id'', sp_in = ''path'', sp_required = True, sp_type = ''string''\<rparr>])"

definition spec_ReorderPlayers :: spec_operation where
  "spec_ReorderPlayers = \<lparr>so_method = ''put'', so_path = ''/v1/sessions/{session_id}/reorder_players'', so_id = ''reorderPlayers'',
     so_security = None, so_produces = None,
     so_parameters = [\<lparr>sp_name = ''players'', sp_in = ''body'', sp_required = False, sp_type = ''array of playerOrder''\<rparr>],
     so_responses = [(Some 200, ''array of playerOrder''), (Some 401, ''error''), (Some 403, ''error''), (None, ''error'')]\<rparr>"

definition path_parameters_13 :: "string \<times> spec_parameter list" where
  "path_parameters_13 = (''/v1/sessions/{session_id}/reorder_players'',
     [\<lparr>sp_name = ''session_id'', sp_in = ''path'', sp_required = True, sp_type = ''string''\<rparr>])"

definition spec_RulesRead :: spec_operation where
  "spec_RulesRead = \<lparr>so_method = ''get'', so_path = ''/v1/sessions/{session_id}/rules'', so_id = ''rulesRead'',
     so_security = None, so_produces = None,
     so_parameters = [\<lparr>sp_name = ''session_id'', sp_in = ''path'', sp_required = True, sp_type = ''string''\<rparr>],
     so_responses = [(Some 200, ''ruleset''), (Some 401, ''error''), (Some 403, ''error''), (None, ''error'')]\<rparr>"

definition spec_RulesCreate :: spec_operation where
  "spec_RulesCreate = \<lparr>so_method = ''post'', so_path = ''/v1/sessions/{session_id}/rules'', so_id = ''rulesCreate'',
     so_security = None, so_produces = None,
     so_parameters = [\<lparr>sp_name = ''session_id'', sp_in = ''path'', sp_required = True, sp_type = ''string''\<rparr>,
       \<lparr>sp_name = ''ruleset'', sp_in = ''body'', sp_required = False, sp_type = ''ruleset''\<rparr>],
     so_responses = [(Some 200, ''ruleset''), (Some 400, ''error''), (Some 401, ''error''), (Some 403, ''error''), (Some 412, ''error''), (None, ''error'')]\<rparr>"

definition spec_TurnLatest :: spec_operation where
  "spec_TurnLatest = \<lparr>so_method = ''get'', so_path = ''/v1/sessions/{session_id}/turn/latest'', so_id = ''turnLatest'',
     so_security = None, so_produces = None,
     so_parameters = [\<lparr>sp_name = ''session_id'', sp_in = ''path'', sp_required = True, sp_type = ''string''\<rparr>],
     so_responses = [(Some 200, ''turnFiles''), (Some 401, ''error''), (Some 403, ''error''), (Some 404, ''error''), (None, ''error'')]\<rparr>"

definition spec_TurnGet :: spec_operation where
  "spec_TurnGet = \<lparr>so_method = ''get'', so_path = ''/v1/sessions/{session_id}/turn/{year}'', so_id = ''turnGet'',
     so_security = None, so_produces = None,
     so_parameters = [\<lparr>sp_name = ''session_id'', sp_in = ''path'', sp_required = True, sp_type = ''string''\<rparr>,
       \<lparr>sp_name = ''year'', sp_in = ''path'', sp_required = True, sp_type = ''integer''\<rparr>],
     so_responses = [(Some 200, ''turnFiles''), (Some 401, ''error''), (Some 403, ''error'')]\<rparr>"

definition spec_TurnSubmit :: spec_operation where
  "spec_TurnSubmit = \<lparr>so_method = ''put'', so_path = ''/v1/sessions/{session_id}/turn/{year}'', so_id = ''turnSubmit'',
     so_security = None, so_produces = None,
     so_parameters = [\<lparr>sp_name = ''session_id'', sp_in = ''path'', sp_required = True, sp_type = ''string''\<rparr>,
       \<lparr>sp_name = ''year'', sp_in = ''path'', sp_required = True, sp_type = ''integer''\<rparr>,
       \<lparr>sp_name = ''turnfile'', sp_in = ''body'', sp_required = False, sp_type = ''order''\<rparr>],
     so_responses = [(Some 200, ''''), (Some 400, ''error''), (Some 401, ''error''), (Some 403, ''error''), (Some 409, ''error''), (Some 422, ''error''), (None, ''error'')]\<rparr>"

definition spec_UserProfileList :: spec_operation where
  "spec_UserProfileList = \<lparr>so_method = ''get'', so_path = ''/v1/user_profiles'', so_id = ''userProfileList'',
     so_security = None, so_produces = None,
     so_parameters = [],
     so_responses = [(Some 200, ''array of userProfile''), (Some 401, ''error''), (Some 403, ''error'')]\<rparr>"

definition spec_UserProfileCreate :: spec_operation where
  "spec_UserProfileCreate = \<lparr>so_method = ''post'', so_path = ''/v1/user_profiles'', so_id = ''userProfileCreate'',
     so_security = None, so_produces = None,
     so_parameters = [\<lparr>sp_name = ''user_profile'', sp_in = ''body'', sp_required = False, sp_type = ''userProfileCreateRequest''\<rparr>],
     so_responses = [(Some 201, ''userProfile''), (Some 401, ''error''), (Some 403, ''error'')]\<rparr>"

definition spec_UserProfileRead :: spec_operation where
  "spec_UserProfileRead = \<lparr>so_method = ''get'', so_path = ''/v1/user_profiles/{user_profile_id}'', so_id = ''userProfileRead'',
     so_security = None, so_produces = None,
     so_parameters = [],
     so_responses = [(Some 200, ''userProfile''), (Some 401, ''error''), (Some 403, ''error'')]\<rparr>"

definition spec_UserProfileUpdate :: spec_operation where
  "spec_UserProfileUpdate = \<lparr>so_method = ''put'', so_path = ''/v1/user_profiles/{user_profile_id}'', so_id = ''userProfileUpdate'',
     so_security = None, so_produces = None,
     so_parameters = [\<lparr>sp_name = ''user_profile'', sp_in = ''body'', sp_required = False, sp_type = ''userProfile''\<rparr>],
     so_responses = [(Some 200, ''userProfile''), (Some 401, ''error''), (Some 403, ''error'')]\<rparr>"

definition spec_UserProfileDelete :: spec_operation where
  "spec_UserProfileDelete = \<lparr>so_method = ''delete'', so_path = ''/v1/user_profiles/{user_profile_id}'', so_id = ''userProfileDelete'',
     so_security = None, so_produces = None,
     so_parameters = [],
     so_responses = [(Some 204, ''''), (Some 401, ''error''), (Some 403, ''error''), (Some 404, ''error''), (Some 409, ''error''), (None, ''error'')]\<rparr>"

definition path_parameters_14 :: "string \<times> spec_parameter list" where
  "path_parameters_14 = (''/v1/user_profiles/{user_profile_id}'',
     [\<lparr>sp_name = ''user_profile_id'', sp_in = ''path'', sp_required = True, sp_type = ''string''\<rparr>])"

definition spec_RacesList :: spec_operation where
  "spec_RacesList = \<lparr>so_method = ''get'', so_path = ''/v1/user_profiles/{user_profile_id}/races'', so_id = ''racesList'',
     so_security = None, so_produces = None,
     so_parameters = [\<lparr>sp_name = ''user_profile_id'', sp_in = ''path'', sp_required = True, sp_type = ''string''\<rparr>],
     so_responses = [(Some 200, ''array of race''), (Some 401, ''error''), (Some 403, ''error''), (None, ''error'')]\<rparr>"

definition spec_RaceCreate :: spec_operation where
  "spec_RaceCreate = \<lparr>so_method = ''post'', so_path = ''/v1/user_profiles/{user_profile_id}/races'', so_id = ''raceCreate'',
     so_security = None, so_produces = None,
     so_parameters = [\<lparr>sp_name = ''user_profile_id'', sp_in = ''path'', sp_required = True, sp_type = ''string''\<rparr>,
       \<lparr>sp_name = ''race'', sp_in = ''body'', sp_required = False, sp_type = ''race''\<rparr>],
     so_responses = [(Some 201, ''race''), (Some 400, ''error''), (Some 401, ''error''), (Some 403, ''error''), (Some 429, ''error''), (None, ''error'')]\<rparr>"

definition spec_RaceRead :: spec_operation where
  "spec_RaceRead = \<lparr>so_method = ''get'', so_path = ''/v1/user_profiles/{user_profile_id}/races/{race_id}'', so_id = ''raceRead'',
     so_security = None, so_produces = None,
     so_parameters = [],
     so_responses = [(Some 200, ''race''), (Some 401, ''error''), (Some 403, ''error'')]\<rparr>"

definition spec_RaceDelete :: spec_operation where
  "spec_RaceDelete = \<lparr>so_method = ''delete'', so_path = ''/v1/user_profiles/{user_profile_id}/races/{race_id}'', so_id = ''raceDelete'',
     so_security = None, so_produces = None,
     so_parameters = [],
     so_responses = [(Some 204, ''''), (Some 401, ''error''), (Some 403, ''error''), (Some 404, ''error''), (Some 409, ''error''), (None, ''error'')]\<rparr>"

definition path_parameters_15 :: "string \<times> spec_parameter list" where
  "path_parameters_15 = (''/v1/user_profiles/{user_profile_id}/races/{race_id}'',
     [\<lparr>sp_name = ''user_profile_id'', sp_in = ''path'', sp_required = True, sp_type = ''string''\<rparr>,
      \<lparr>sp_name = ''race_id'', sp_in = ''path'', sp_required = True, sp_type = ''string''\<rparr>])"

definition spec_UserProfileResetApikey :: spec_operation where
  "spec_UserProfileResetApikey = \<lparr>so_method = ''post'', so_path = ''/v1/user_profiles/{user_profile_id}/reset_apikey'', so_id = ''userProfileResetApikey'',
     so_security = None, so_produces = None,
     so_parameters = [],
     so_responses = [(Some 200, ''apikeyReset''), (Some 401, ''error''), (Some 403, ''error''), (Some 404, ''error''), (None, ''error'')]\<rparr>"

definition path_parameters_16 :: "string \<times> spec_parameter list" where
  "path_parameters_16 = (''/v1/user_profiles/{user_profile_id}/reset_apikey'',
     [\<lparr>sp_name = ''user_profile_id'', sp_in = ''path'', sp_required = True, sp_type = ''string''\<rparr>])"

definition path_parameters :: "(string \<times> spec_parameter list) list" where
  "path_parameters = [path_parameters_0, path_parameters_1, path_parameters_2, path_parameters_3, path_parameters_4, path_parameters_5, path_parameters_6, path_parameters_7, path_parameters_8, path_parameters_9, path_parameters_10, path_parameters_11, path_parameters_12, path_parameters_13, path_parameters_14, path_parameters_15, path_parameters_16]"

primrec spec_of :: "api_operation \<Rightarrow> spec_operation" where
  "spec_of OpAuthenticate = spec_Authenticate"
| "spec_of OpDownloadStarsExe = spec_DownloadStarsExe"
| "spec_of OpGameCreate = spec_GameCreate"
| "spec_of OpHealthCheck = spec_HealthCheck"
| "spec_of OpHistoricBackup = spec_HistoricBackup"
| "spec_of OpInvitationAccept = spec_InvitationAccept"
| "spec_of OpInvitationCreate = spec_InvitationCreate"
| "spec_of OpInvitationDecline = spec_InvitationDecline"
| "spec_of OpInvitationList = spec_InvitationList"
| "spec_of OpInvitationSentList = spec_InvitationSentList"
| "spec_of OpNotifications = spec_Notifications"
| "spec_of OpOrdersStatus = spec_OrdersStatus"
| "spec_of OpPendingRegistrationApprove = spec_PendingRegistrationApprove"
| "spec_of OpPendingRegistrationList = spec_PendingRegistrationList"
| "spec_of OpPendingRegistrationReject = spec_PendingRegistrationReject"
| "spec_of OpRaceCreate = spec_RaceCreate"
| "spec_of OpRaceDelete = spec_RaceDelete"
| "spec_of OpRaceRead = spec_RaceRead"
| "spec_of OpRacesList = spec_RacesList"
| "spec_of OpRefreshToken = spec_RefreshToken"
| "spec_of OpRegister = spec_Register"
| "spec_of OpReorderPlayers = spec_ReorderPlayers"
| "spec_of OpRulesCreate = spec_RulesCreate"
| "spec_of OpRulesRead = spec_RulesRead"
| "spec_of OpSessionArchive = spec_SessionArchive"
| "spec_of OpSessionCreate = spec_SessionCreate"
| "spec_of OpSessionDelete = spec_SessionDelete"
| "spec_of OpSessionFilesGet = spec_SessionFilesGet"
| "spec_of OpSessionJoin = spec_SessionJoin"
| "spec_of OpSessionPlayerControl = spec_SessionPlayerControl"
| "spec_of OpSessionPlayerRaceCreate = spec_SessionPlayerRaceCreate"
| "spec_of OpSessionPlayerRaceDelete = spec_SessionPlayerRaceDelete"
| "spec_of OpSessionPlayerRaceGet = spec_SessionPlayerRaceGet"
| "spec_of OpSessionPlayerRaceSetReady = spec_SessionPlayerRaceSetReady"
| "spec_of OpSessionPlayerSwitchToAI = spec_SessionPlayerSwitchToAI"
| "spec_of OpSessionPlayerSwitchToHuman = spec_SessionPlayerSwitchToHuman"
| "spec_of OpSessionPromoteMember = spec_SessionPromoteMember"
| "spec_of OpSessionQuit = spec_SessionQuit"
| "spec_of OpSessionRead = spec_SessionRead"
| "spec_of OpSessionUpdate = spec_SessionUpdate"
| "spec_of OpSessionsList = spec_SessionsList"
| "spec_of OpTurnGet = spec_TurnGet"
| "spec_of OpTurnLatest = spec_TurnLatest"
| "spec_of OpTurnSubmit = spec_TurnSubmit"
| "spec_of OpUserProfileCreate = spec_UserProfileCreate"
| "spec_of OpUserProfileDelete = spec_UserProfileDelete"
| "spec_of OpUserProfileList = spec_UserProfileList"
| "spec_of OpUserProfileRead = spec_UserProfileRead"
| "spec_of OpUserProfileResetApikey = spec_UserProfileResetApikey"
| "spec_of OpUserProfileUpdate = spec_UserProfileUpdate"
| "spec_of OpUserinfo = spec_Userinfo"


definition security_of :: "api_operation \<Rightarrow> string list" where
  "security_of op = (case so_security (spec_of op) of None \<Rightarrow> spec_security | Some s \<Rightarrow> s)"

definition produces_of :: "api_operation \<Rightarrow> string list" where
  "produces_of op = (case so_produces (spec_of op) of None \<Rightarrow> spec_produces | Some p \<Rightarrow> p)"

definition path_placeholders :: "api_operation \<Rightarrow> string list" where
  "path_placeholders op =
    (let s = spec_of op;
         ps = so_parameters s @ (case map_of path_parameters (so_path s) of None \<Rightarrow> [] | Some ps \<Rightarrow> ps) in
     map (\<lambda>p. ''{'' @ sp_name p @ ''}'') (filter (\<lambda>p. sp_in p = ''path'' \<and> sp_required p) ps))"

subsection \<open>The responses of the code\<close>

text \<open>The statuses of the responders of an operation, as they write them.\<close>

definition status_of :: "'p responder \<Rightarrow> int" where
  "status_of r = out_status (r (\<lambda>_. None))"

primrec statuses :: "api_operation \<Rightarrow> int option list" where
  "statuses OpAuthenticate = [Some (status_of (AuthenticateOK [])), Some (status_of (AuthenticateUnauthorized None)), None]"
| "statuses OpDownloadStarsExe = [Some (status_of (DownloadStarsExeOK [])), Some (status_of (DownloadStarsExeUnauthorized None)), None]"
| "statuses OpGameCreate = [Some (status_of (GameCreateCreated None)), Some (status_of (GameCreateBadRequest None)), Some (status_of (GameCreateUnauthorized None)), Some (status_of (GameCreateForbidden None)), Some (status_of (GameCreatePreconditionFailed None)), None]"
| "statuses OpHealthCheck = [Some (status_of (HealthCheckOK [])), Some (status_of (HealthCheckServiceUnavailable []))]"
| "statuses OpHistoricBackup = [Some (status_of (HistoricBackupOK [])), Some (status_of (HistoricBackupUnauthorized None)), Some (status_of (HistoricBackupForbidden None)), Some (status_of (HistoricBackupNotFound None)), Some (status_of (HistoricBackupPreconditionFailed None)), None]"
| "statuses OpInvitationAccept = [Some (status_of (InvitationAcceptOK None)), Some (status_of (InvitationAcceptUnauthorized None)), Some (status_of (InvitationAcceptForbidden None)), Some (status_of (InvitationAcceptNotFound None)), Some (status_of (InvitationAcceptConflict None)), Some (status_of (InvitationAcceptPreconditionFailed None)), None]"
| "statuses OpInvitationCreate = [Some (status_of (InvitationCreateCreated None)), Some (status_of (InvitationCreateBadRequest None)), Some (status_of (InvitationCreateUnauthorized None)), Some (status_of (InvitationCreateForbidden None)), Some (status_of (InvitationCreateConflict None)), None]"
| "statuses OpInvitationDecline = [Some (status_of InvitationDeclineNoContent), Some (status_of (InvitationDeclineUnauthorized None)), Some (status_of (InvitationDeclineForbidden None)), Some (status_of (InvitationDeclineNotFound None)), None]"
| "statuses OpInvitationList = [Some (status_of (InvitationListOK None)), Some (status_of (InvitationListUnauthorized None)), Some (status_of (InvitationListForbidden None)), None]"
| "statuses OpInvitationSentList = [Some (status_of (InvitationSentListOK None)), Some (status_of (InvitationSentListUnauthorized None)), None]"
| "statuses OpNotifications = [Some (status_of NotificationsSwitchingProtocols), Some (status_of (NotificationsUnauthorized None)), None]"
| "statuses OpOrdersStatus = [Some (status_of (OrdersStatusOK None)), Some (status_of (OrdersStatusUnauthorized None)), Some (status_of (OrdersStatusForbidden None)), Some (status_of (OrdersStatusNotFound None)), None]"
| "statuses OpPendingRegistrationApprove = [Some (status_of (PendingRegistrationApproveOK None)), Some (status_of (PendingRegistrationApproveUnauthorized None)), Some (status_of (PendingRegistrationApproveForbidden None)), Some (status_of (PendingRegistrationApproveNotFound None)), None]"
| "statuses OpPendingRegistrationList = [Some (status_of (PendingRegistrationListOK None)), Some (status_of (PendingRegistrationListUnauthorized None)), Some (status_of (PendingRegistrationListForbidden None)), None]"
| "statuses OpPendingRegistrationReject = [Some (status_of PendingRegistrationRejectNoContent), Some (status_of (PendingRegistrationRejectUnauthorized None)), Some (status_of (PendingRegistrationRejectForbidden None)), Some (status_of (PendingRegistrationRejectNotFound None)), None]"
| "statuses OpRaceCreate = [Some (status_of (RaceCreateCreated None)), Some (status_of (RaceCreateBadRequest None)), Some (status_of (RaceCreateUnauthorized None)), Some (status_of (RaceCreateForbidden None)), Some (status_of (RaceCreateTooManyRequests None)), None]"
| "statuses OpRaceDelete = [Some (status_of RaceDeleteNoContent), Some (status_of (RaceDeleteUnauthorized None)), Some (status_of (RaceDeleteForbidden None)), Some (status_of (RaceDeleteNotFound None)), Some (status_of (RaceDeleteConflict None)), None]"
| "statuses OpRaceRead = [Some (status_of (RaceReadOK None)), Some (status_of (RaceReadUnauthorized None)), Some (status_of (RaceReadForbidden None))]"
| "statuses OpRacesList = [Some (status_of (RacesListOK None)), Some (status_of (RacesListUnauthorized None)), Some (status_of (RacesListForbidden None)), None]"
| "statuses OpRefreshToken = [Some (status_of (RefreshTokenOK [])), None]"
| "statuses OpRegister = [Some (status_of (RegisterCreated None)), Some (status_of (RegisterBadRequest None)), Some (status_of (RegisterConflict None)), Some (status_of (RegisterTooManyRequests None)), Some (status_of (RegisterServiceUnavailable None)), None]"
| "statuses OpReorderPlayers = [Some (status_of (ReorderPlayersOK None)), Some (status_of (ReorderPlayersUnauthorized None)), Some (status_of (ReorderPlayersForbidden None)), None]"
| "statuses OpRulesCreate = [Some (status_of (RulesCreateOK None)), Some (status_of (RulesCreateBadRequest None)), Some (status_of (RulesCreateUnauthorized None)), Some (status_of (RulesCreateForbidden None)), Some (status_of (RulesCreatePreconditionFailed None)), None]"
| "statuses OpRulesRead = [Some (status_of (RulesReadOK None)), Some (status_of (RulesReadUnauthorized None)), Some (status_of (RulesReadForbidden None)), None]"
| "statuses OpSessionArchive = [Some (status_of (SessionArchiveOK None)), Some (status_of (SessionArchiveUnauthorized None)), Some (status_of (SessionArchiveForbidden None)), Some (status_of (SessionArchiveNotFound None)), Some (status_of (SessionArchivePreconditionFailed None)), None]"
| "statuses OpSessionCreate = [Some (status_of (SessionCreateCreated None)), Some (status_of (SessionCreateUnauthorized None)), Some (status_of (SessionCreateForbidden None)), Some (status_of (SessionCreateTooManyRequests None)), None]"
| "statuses OpSessionDelete = [Some (status_of SessionDeleteNoContent), Some (status_of (SessionDeleteUnauthorized None)), Some (status_of (SessionDeleteForbidden None)), Some (status_of (SessionDeleteNotFound None)), None]"
| "statuses OpSessionFilesGet = [Some (status_of (SessionFilesGetOK None)), Some (status_of (SessionFilesGetUnauthorized None)), Some (status_of (SessionFilesGetForbidden None)), Some (status_of (SessionFilesGetNotFound None)), None]"
| "statuses OpSessionJoin = [Some (status_of (SessionJoinOK None)), Some (status_of (SessionJoinBadRequest None)), Some (status_of (SessionJoinUnauthorized None)), Some (status_of (SessionJoinForbidden None)), Some (status_of (SessionJoinPreconditionFailed None)), Some (status_of (SessionJoinTooManyRequests None)), None]"
| "statuses OpSessionPlayerControl = [Some (status_of (SessionPlayerControlOK None)), Some (status_of (SessionPlayerControlUnauthorized None)), Some (status_of (SessionPlayerControlForbidden None)), Some (status_of (SessionPlayerControlNotFound None)), None]"
| "statuses OpSessionPlayerRaceCreate = [Some (status_of (SessionPlayerRaceCreateOK None)), Some (status_of (SessionPlayerRaceCreateBadRequest None)), Some (status_of (SessionPlayerRaceCreateUnauthorized None)), Some (status_of (SessionPlayerRaceCreateForbidden None)), None]"
| "statuses OpSessionPlayerRaceDelete = [Some (status_of SessionPlayerRaceDeleteNoContent), Some (status_of (SessionPlayerRaceDeleteBadRequest None)), Some (status_of (SessionPlayerRaceDeleteUnauthorized None)), Some (status_of (SessionPlayerRaceDeleteForbidden None)), Some (status_of (SessionPlayerRaceDeleteNotFound None)), None]"
| "statuses OpSessionPlayerRaceGet = [Some (status_of (SessionPlayerRaceGetOK None)), Some (status_of (SessionPlayerRaceGetUnauthorized None)), Some (status_of (SessionPlayerRaceGetForbidden None)), Some (status_of (SessionPlayerRaceGetNotFound None)), None]"
| "statuses OpSessionPlayerRaceSetReady = [Some (status_of (SessionPlayerRaceSetReadyOK None)), Some (status_of (SessionPlayerRaceSetReadyBadRequest None)), Some (status_of (SessionPlayerRaceSetReadyUnauthorized None)), Some (status_of (SessionPlayerRaceSetReadyForbidden None)), None]"
| "statuses OpSessionPlayerSwitchToAI = [Some (status_of SessionPlayerSwitchToAINoContent), Some (status_of (SessionPlayerSwitchToAIBadRequest None)), Some (status_of (SessionPlayerSwitchToAIUnauthorized None)), Some (status_of (SessionPlayerSwitchToAIForbidden None)), Some (status_of (SessionPlayerSwitchToAINotFound None)), Some (status_of (SessionPlayerSwitchToAIPreconditionFailed None)), None]"
| "statuses OpSessionPlayerSwitchToHuman = [Some (status_of SessionPlayerSwitchToHumanNoContent), Some (status_of (SessionPlayerSwitchToHumanUnauthorized None)), Some (status_of (SessionPlayerSwitchToHumanForbidden None)), Some (status_of (SessionPlayerSwitchToHumanNotFound None)), Some (status_of (SessionPlayerSwitchToHumanPreconditionFailed None)), None]"
| "statuses OpSessionPromoteMember = [Some (status_of SessionPromoteMemberNoContent), Some (status_of (SessionPromoteMemberUnauthorized None)), Some (status_of (SessionPromoteMemberForbidden None)), Some (status_of (SessionPromoteMemberNotFound None)), Some (status_of (SessionPromoteMemberPreconditionFailed None)), None]"
| "statuses OpSessionQuit = [Some (status_of SessionQuitNoContent), Some (status_of (SessionQuitUnauthorized None)), Some (status_of (SessionQuitForbidden None)), Some (status_of (SessionQuitNotFound None)), Some (status_of (SessionQuitPreconditionFailed None)), None]"
| "statuses OpSessionRead = [Some (status_of (SessionReadOK None)), Some (status_of (SessionReadUnauthorized None)), Some (status_of (SessionReadForbidden None)), None]"
| "statuses OpSessionUpdate = [Some (status_of (SessionUpdateOK None)), Some (status_of (SessionUpdateUnauthorized None)), Some (status_of (SessionUpdateForbidden None)), None]"
| "statuses OpSessionsList = [Some (status_of (SessionsListOK None)), Some (status_of (SessionsListUnauthorized None)), Some (status_of (SessionsListForbidden None)), None]"
| "statuses OpTurnGet = [Some (status_of (TurnGetOK None)), Some (status_of (TurnGetUnauthorized None)), Some (status_of (TurnGetForbidden None))]"
| "statuses OpTurnLatest = [Some (status_of (TurnLatestOK None)), Some (status_of (TurnLatestUnauthorized None)), Some (status_of (TurnLatestForbidden None)), Some (status_of (TurnLatestNotFound None)), None]"
| "statuses OpTurnSubmit = [Some (status_of TurnSubmitOK), Some (status_of (TurnSubmitBadRequest None)), Some (status_of (TurnSubmitUnauthorized None)), Some (status_of (TurnSubmitForbidden None)), Some (status_of (TurnSubmitConflict None)), Some (status_of (TurnSubmitUnprocessableEntity None)), None]"
| "statuses OpUserProfileCreate = [Some (status_of (UserProfileCreateCreated None)), Some (status_of (UserProfileCreateUnauthorized None)), Some (status_of (UserProfileCreateForbidden None))]"
| "statuses OpUserProfileDelete = [Some (status_of UserProfileDeleteNoContent), Some (status_of (UserProfileDeleteUnauthorized None)), Some (status_of (UserProfileDeleteForbidden None)), Some (status_of (UserProfileDeleteNotFound None)), Some (status_of (UserProfileDeleteConflict None)), None]"
| "statuses OpUserProfileList = [Some (status_of (UserProfileListOK None)), Some (status_of (UserProfileListUnauthorized None)), Some (status_of (UserProfileListForbidden None))]"
| "statuses OpUserProfileRead = [Some (status_of (UserProfileReadOK None)), Some (status_of (UserProfileReadUnauthorized None)), Some (status_of (UserProfileReadForbidden None))]"
| "statuses OpUserProfileResetApikey = [Some (status_of (UserProfileResetApikeyOK None)), Some (status_of (UserProfileResetApikeyUnauthorized None)), Some (status_of (UserProfileResetApikeyForbidden None)), Some (status_of (UserProfileResetApikeyNotFound None)), None]"
| "statuses OpUserProfileUpdate = [Some (status_of (UserProfileUpdateOK None)), Some (status_of (UserProfileUpdateUnauthorized None)), Some (status_of (UserProfileUpdateForbidden None))]"
| "statuses OpUserinfo = [Some (status_of (UserinfoOK None)), None]"

subsection \<open>The code agrees with the document\<close>

definition spec_route :: "api_operation \<Rightarrow> string \<times> string \<times> api_operation" where
  "spec_route op = (ToUpper (so_method (spec_of op)), so_path (spec_of op), op)"

definition spec_log :: "api_operation \<Rightarrow> string \<times> string \<times> string \<times> string" where
  "spec_log op = (ToUpper (so_method (spec_of op)), so_path (spec_of op), '''', so_id (spec_of op))"

text \<open>The generated code does what the document says, for all operations: the table of the handlers has
  exactly the methods and paths of the document, the logs name the operations as it does, the
  responders of an operation write exactly the statuses that it declares, the URL builders have its
  path and its path parameters, and the operations without a principal are those that it opens to
  everyone.\<close>

lemma code_agrees_with_spec:
  "map spec_route operations = route_table \<and> map spec_log operations = logged_operations
   \<and> map statuses operations = map (\<lambda>op. map fst (so_responses (spec_of op))) operations
   \<and> map (\<lambda>op. ub_path (url_of op)) operations = map (\<lambda>op. so_path (spec_of op)) operations
   \<and> list_all (\<lambda>op. list_all (\<lambda>p. p \<in> set (path_placeholders op)) (map fst (ub_params (url_of op)))) operations
   \<and> list_all (\<lambda>op. list_all (\<lambda>p. p \<in> set (map fst (ub_params (url_of op)))) (path_placeholders op)) operations
   \<and> filter (\<lambda>op. security_of op = []) operations = public_operations"
proof (intro conjI)
  show "map spec_route operations = route_table" by code_simp
  show "map spec_log operations = logged_operations" by code_simp
  show "map statuses operations = map (\<lambda>op. map fst (so_responses (spec_of op))) operations" by code_simp
  show "map (\<lambda>op. ub_path (url_of op)) operations = map (\<lambda>op. so_path (spec_of op)) operations" by code_simp
  show "list_all (\<lambda>op. list_all (\<lambda>p. p \<in> set (path_placeholders op)) (map fst (ub_params (url_of op)))) operations"
    by code_simp
  show "list_all (\<lambda>op. list_all (\<lambda>p. p \<in> set (map fst (ub_params (url_of op)))) (path_placeholders op)) operations" by code_simp
  show "filter (\<lambda>op. security_of op = []) operations = public_operations" by code_simp
qed

end
