(* ===== verification/Pipeline.thy ===== *)
theory Pipeline
  imports ApiSpec
begin

section \<open>A request from the middleware to the client\<close>

text \<open>
  What becomes of a request: the middleware of \<open>restapi/auth_middleware.go\<close>, the router, the table
  of the handlers and \<open>ServeHTTP\<close> of the operation. The router and the authorisation by the security
  of a route are the library go-openapi, record \<open>openapi\<close>; nothing is assumed of the router. At the
  end, the answers of \<open>restapi/handlers/historic_backup.go\<close> down to the producer of their format.
\<close>

subsection \<open>Who reaches a handler\<close>

record openapi =
  Lookup :: "string \<Rightarrow> string \<Rightarrow> (string \<times> path_params) option"
  Authorize :: "string list \<Rightarrow> string \<Rightarrow> (string \<Rightarrow> err + Principal) \<Rightarrow> err + Principal option"
  CheckContentType :: "string list \<Rightarrow> verr option"

text \<open>
  The documented behaviour of the library: a route without security is open, one with the scheme
  \<open>key\<close> is refused without the header, and otherwise the registered function decides on the header.
\<close>

definition authorizes :: "openapi \<Rightarrow> bool" where
  "authorizes lib \<longleftrightarrow> (\<forall>header KeyAuth.
     Authorize lib [] header KeyAuth = Inr None \<and>
     (header = '''' \<longrightarrow> (\<exists>e. Authorize lib [''key''] header KeyAuth = Inl e)) \<and>
     (header \<noteq> '''' \<longrightarrow> Authorize lib [''key''] header KeyAuth = map_sum id Some (KeyAuth header)))"

lemma authorizes_header:
  assumes "authorizes lib"
  shows "\<exists>e. Authorize lib [''key''] '''' k = Inl e"
    and "header \<noteq> '''' \<Longrightarrow> Authorize lib [''key''] header k = map_sum id Some (k header)"
  using assms unfolding authorizes_def by blast+

text \<open>\<open>AuthenticatorsFor\<close> registers \<open>KeyAuth\<close> for the scheme \<open>key\<close>: the method \<open>Auth\<close> of the authenticator.\<close>

definition KeyAuth :: "'c auth_env \<Rightarrow> int \<Rightarrow> 'c \<Rightarrow> string \<Rightarrow> err + Principal" where
  "KeyAuth env now c token = map_sum id ClaimsPrincipal (fst (Auth env now token c))"

datatype 'r served = Refused | No_route | Served "'r outcome"

record 'j http_message =
  hm_method :: string
  hm_path :: string
  hm_Authorization :: string
  hm_query :: path_params
  hm_content_type :: "string list"
  hm_body :: 'j

definition serve_operation ::
    "'c auth_env \<Rightarrow> openapi \<Rightarrow> 'j formats \<Rightarrow> 'r NeperAPI \<Rightarrow> int \<Rightarrow> 'j http_message \<Rightarrow> 'c \<Rightarrow> 'r served" where
  "serve_operation env lib fm api now m c =
    (case Lookup lib (hm_method m) (hm_path m) of
       None \<Rightarrow> No_route
     | Some (template, params) \<Rightarrow>
         (case HandlerFor (initHandlerCache (\<lambda>op. op)) (hm_method m) template of
            None \<Rightarrow> No_route
          | Some op \<Rightarrow> Served (ServeHTTP op api fm
              \<lparr>in_Authorize = Authorize lib (security_of op) (hm_Authorization m) (KeyAuth env now c),
               in_content_type = CheckContentType lib (hm_content_type m),
               in_params = params, in_query = hm_query m, in_body = hm_body m\<rparr>)))"

definition serve_api ::
    "'c auth_env \<Rightarrow> openapi \<Rightarrow> 'j formats \<Rightarrow> 'r NeperAPI \<Rightarrow> int \<Rightarrow> 'j http_message \<Rightarrow> db \<Rightarrow> 'c \<Rightarrow> 'r served" where
  "serve_api env lib fm api now m d c =
    (case AuthMiddleware env now (hm_path m) (hm_Authorization m) d c of
       (Unauthorized, c') \<Rightarrow> Refused
     | (Next identity, c') \<Rightarrow> serve_operation env lib fm api now m c')"

lemma all_operations: "op \<in> set operations"
  by (cases op) (simp_all add: operations_def)

lemma security_list:
  "list_all (\<lambda>op. security_of op = (if op \<in> set public_operations then [] else [''key''])) operations"
  by code_simp

lemma security_cases: "security_of op = (if op \<in> set public_operations then [] else [''key''])"
  using security_list all_operations [of op] unfolding list_all_iff by blast

lemma Auth_Inr:
  assumes "fst (Auth env now header c) = Inr claims"
  shows "\<exists>token. header = ''Bearer '' @ token \<and>
    (cache_Get (env_cache env) now token c = Some claims \<or> ParseWithClaims (env_jwt env) now token = Inr (claims, True))"
  using assms
  by (auto simp: Auth_def has_prefix_iff Let_def split: option.splits sum.splits if_splits)

text \<open>\<^bold>\<open>C25\<close>:
  Only three operations run without a principal: the login, the registration and the health check.
  Every other handler that runs gets the principal of a bearer token which is in the cache or which the
  token library accepts as valid. This holds whatever the router makes of the path, so also for
  paths that the middleware takes for public ones.\<close>

theorem handlers_run_for_a_principal:
  assumes "authorizes lib" "serve_api env lib fm recording_api now m d c = Served (Handled (op, pr))"
  shows "if op \<in> {OpAuthenticate, OpRegister, OpHealthCheck} then pr = None
    else \<exists>token claims. hm_Authorization m = ''Bearer '' @ token \<and> pr = Some (ClaimsPrincipal claims) \<and>
      (cache_Get (env_cache env) now token (snd (AuthMiddleware env now (hm_path m) (hm_Authorization m) d c)) = Some claims
       \<or> ParseWithClaims (env_jwt env) now token = Inr (claims, True))"
proof -
  define h c' where "h = hm_Authorization m" and "c' = snd (AuthMiddleware env now (hm_path m) h d c)"
  have "serve_operation env lib fm recording_api now m c' = Served (Handled (op, pr))"
    using assms(2) by (auto simp: serve_api_def h_def c'_def split: prod.splits passage.splits)
  then obtain op' r where run: "ServeHTTP op' recording_api fm r = Handled (op, pr)"
      and r: "in_Authorize r = Authorize lib (security_of op') h (KeyAuth env now c')"
    by (auto simp: serve_operation_def h_def split: option.splits prod.splits)
  have op: "op' = op" "if op \<in> set public_operations then pr = None else in_Authorize r = Inr pr"
    using ServeHTTP_recording [OF run] by auto
  show ?thesis
  proof (cases "op \<in> set public_operations")
    case True
    then show ?thesis using op by (auto simp: public_operations_def)
  next
    case False
    then have a: "Authorize lib [''key''] h (KeyAuth env now c') = Inr pr"
      using op r by (simp add: security_cases)
    have h: "h \<noteq> ''''" using authorizes_header(1) [OF assms(1)] a by (metis sum.distinct(1))
    then have "map_sum id Some (KeyAuth env now c' h) = Inr pr" using authorizes_header(2) [OF assms(1) h] a by simp
    then obtain claims where claims: "fst (Auth env now h c') = Inr claims" "pr = Some (ClaimsPrincipal claims)"
      by (cases "fst (Auth env now h c')") (auto simp: KeyAuth_def)
    obtain token where token: "h = ''Bearer '' @ token"
        "cache_Get (env_cache env) now token c' = Some claims \<or> ParseWithClaims (env_jwt env) now token = Inr (claims, True)"
      using Auth_Inr [OF claims(1)] by blast
    have "op \<notin> {OpAuthenticate, OpRegister, OpHealthCheck}" using False by (auto simp: public_operations_def)
    then have no: "(if op \<in> {OpAuthenticate, OpRegister, OpHealthCheck} then P else Q) = Q" for P Q by (rule if_not_P)
    show ?thesis
      unfolding no h_def [symmetric] c'_def [symmetric]
      by (intro exI [of _ token] exI [of _ claims] conjI token claims(2))
  qed
qed

text \<open>The example: a router that cleans paths, decoders that find no body, the token library of Auth.\<close>

definition example_openapi :: openapi where
  "example_openapi = \<lparr>
     Lookup = (\<lambda>verb path. if verb = ''GET'' \<and> path_Clean path = ''/api/v1/invitations''
       then Some (''/v1/invitations'', Map.empty) else None),
     Authorize = (\<lambda>security header k. if security = [] then Inr None
       else if header = '''' then Inl (OtherErr ''unauthenticated'') else map_sum id Some (k header)),
     CheckContentType = (\<lambda>_. None)\<rparr>"

definition example_formats :: "unit formats" where
  "example_formats = \<lparr>fm_validator = example_validator, fm_bool = (\<lambda>_. None),
     fm_credentials = (\<lambda>_. NoBody), fm_invitation = (\<lambda>_. NoBody), fm_order = (\<lambda>_. NoBody),
     fm_players = (\<lambda>_. NoBody), fm_race = (\<lambda>_. NoBody), fm_ready = (\<lambda>_. NoBody),
     fm_registration = (\<lambda>_. NoBody), fm_ruleset = (\<lambda>_. NoBody), fm_session = (\<lambda>_. NoBody),
     fm_session_player_race = (\<lambda>_. NoBody), fm_switch_request = (\<lambda>_. NoBody),
     fm_user_profile = (\<lambda>_. NoBody), fm_user_profile_create = (\<lambda>_. NoBody)\<rparr>"

definition example_message :: "string \<Rightarrow> string \<Rightarrow> unit http_message" where
  "example_message path header = \<lparr>hm_method = ''GET'', hm_path = path, hm_Authorization = header,
     hm_query = Map.empty, hm_content_type = [], hm_body = ()\<rparr>"

lemma example_openapi_authorizes: "authorizes example_openapi"
  by (simp add: authorizes_def example_openapi_def)

theorem handlers_run_for_a_principal_witness:
  "serve_api example_env example_openapi example_formats recording_api 5
     (example_message ''/api/v1/invitations'' ''Bearer tu'') (example_db Pending True) [] =
     Served (Handled (OpInvitationList, Some (ClaimsPrincipal (example_claims ''u'')))) \<and>
   (\<exists>token claims. ''Bearer tu'' = ''Bearer '' @ token \<and>
     Some (ClaimsPrincipal (example_claims ''u'')) = Some (ClaimsPrincipal claims) \<and>
     (cache_Get (env_cache example_env) 5 token
        (snd (AuthMiddleware example_env 5 ''/api/v1/invitations'' ''Bearer tu'' (example_db Pending True) [])) = Some claims
      \<or> ParseWithClaims (env_jwt example_env) 5 token = Inr (claims, True)))"
proof (rule conjI)
  let ?m = "example_message ''/api/v1/invitations'' ''Bearer tu''"
  show run: "serve_api example_env example_openapi example_formats recording_api 5 ?m (example_db Pending True) [] =
     Served (Handled (OpInvitationList, Some (ClaimsPrincipal (example_claims ''u''))))"
    by code_simp
  have message: "hm_Authorization ?m = ''Bearer tu''" "hm_path ?m = ''/api/v1/invitations''" by (simp_all add: example_message_def)
  have no: "(if OpInvitationList \<in> {OpAuthenticate, OpRegister, OpHealthCheck} then P else Q) = Q" for P Q by simp
  show "\<exists>token claims. ''Bearer tu'' = ''Bearer '' @ token \<and>
     Some (ClaimsPrincipal (example_claims ''u'')) = Some (ClaimsPrincipal claims) \<and>
     (cache_Get (env_cache example_env) 5 token
        (snd (AuthMiddleware example_env 5 ''/api/v1/invitations'' ''Bearer tu'' (example_db Pending True) [])) = Some claims
      \<or> ParseWithClaims (env_jwt example_env) 5 token = Inr (claims, True))"
    using handlers_run_for_a_principal [OF example_openapi_authorizes run] unfolding no message .
qed

text \<open>
  The middleware alone would not do: it compares the path as it is, the router the cleaned one. A path
  that starts like a page of the front end passes the middleware without a header and is routed to
  an operation; the authorisation of the route refuses it.
\<close>

lemma public_prefix_is_refused_by_the_route:
  "fst (AuthMiddleware example_env 5 ''/sessions/../api/v1/invitations'' '''' (example_db Pending True) []) = Next None"
  "serve_api example_env example_openapi example_formats recording_api 5
     (example_message ''/sessions/../api/v1/invitations'' '''') (example_db Pending True) [] =
     Served (AuthError (OtherErr ''unauthenticated''))"
  by code_simp+

subsection \<open>Producers\<close>

text \<open>The encoders that the API holds for the media types; the one for archives is not implemented.\<close>

record 'p api_producers =
  defaultProduces :: string
  ApplicationZipProducer :: "'p producer"
  BinProducer :: "'p producer"
  JSONProducer :: "'p producer"
  TxtProducer :: "'p producer"
  customProducers :: "string \<rightharpoonup> 'p producer"

definition NewNeperAPI :: "'p producer \<Rightarrow> 'p producer \<Rightarrow> 'p producer \<Rightarrow> 'p api_producers" where
  "NewNeperAPI bytes_producer json_producer text_producer = \<lparr>
     defaultProduces = ''application/json'',
     ApplicationZipProducer = (\<lambda>_. Some (OtherErr ''applicationZip producer has not yet been implemented'')),
     BinProducer = bytes_producer, JSONProducer = json_producer, TxtProducer = text_producer,
     customProducers = Map.empty\<rparr>"

definition ProducersFor :: "'p api_producers \<Rightarrow> string list \<Rightarrow> (string \<rightharpoonup> 'p producer)" where
  "ProducersFor api mediaTypes = fold (\<lambda>mt result.
     let result1 =
       (if mt = ''application/zip'' then result(''application/zip'' \<mapsto> ApplicationZipProducer api)
        else if mt = ''application/octet-stream'' then result(''application/octet-stream'' \<mapsto> BinProducer api)
        else if mt = ''application/json'' then result(''application/json'' \<mapsto> JSONProducer api)
        else if mt = ''text/plain'' then result(''text/plain'' \<mapsto> TxtProducer api)
        else result) in
     (case customProducers api mt of Some p \<Rightarrow> result1(mt \<mapsto> p) | None \<Rightarrow> result1)) mediaTypes Map.empty"

subsection \<open>The errors of the backup\<close>

text \<open>The switch of \<open>Handle\<close>, by the status of the reply. An internal error has no body.\<close>

definition HistoricBackup_error :: "nat \<Rightarrow> string option \<Rightarrow> ApiError responder" where
  "HistoricBackup_error st msg =
    (if st = 403 then HistoricBackupForbidden (Some \<lparr>E_Code = 403, E_Message = msg\<rparr>)
     else if st = 404 then HistoricBackupNotFound (Some \<lparr>E_Code = 0, E_Message = msg\<rparr>)
     else if st = 412 then HistoricBackupPreconditionFailed (Some \<lparr>E_Code = 0, E_Message = msg\<rparr>)
     else InternalErrorResponder_WriteResponse None False)"

lemma HistoricBackup_statuses:
  "fst (HistoricBackup_Handle sid pr d) = Failure st msg \<Longrightarrow> st \<in> {403, 404, 412, 500}"
  by (auto simp: HistoricBackup_Handle_def respond_def InternalError_def split: sum.splits if_splits)

lemma HistoricBackup_error_text:
  assumes "st \<in> {403, 404, 412}"
  shows "\<exists>e. E_Message e = msg \<and> HistoricBackup_error st msg = produce_body (int st) e"
proof -
  note errors = HistoricBackup_error_def HistoricBackupForbidden_def HistoricBackupNotFound_def
    HistoricBackupPreconditionFailed_def WriteResponse_pointer_def
  consider "st = 403" | "st = 404" | "st = 412" using assms by blast
  then show ?thesis
  proof cases
    case 1
    then show ?thesis by (intro exI [of _ "\<lparr>E_Code = 403, E_Message = msg\<rparr>"]) (simp add: fun_eq_iff errors)
  next
    case 2
    then show ?thesis by (intro exI [of _ "\<lparr>E_Code = 0, E_Message = msg\<rparr>"]) (simp add: fun_eq_iff errors)
  next
    case 3
    then show ?thesis by (intro exI [of _ "\<lparr>E_Code = 0, E_Message = msg\<rparr>"]) (simp add: fun_eq_iff errors)
  qed
qed

text \<open>
  \<^bold>\<open>C39\<close>: what a client learns of a refused backup depends on the format that was negotiated. The
  middleware picks one of the formats of the operation, which are those of the document and, last, the default
  one of the API, and takes its producer among the producers of these formats; a client that asks for no
  format in particular gets the first one, \<open>application/zip\<close>. In that format the API has the producer that
  is not implemented, and the generated responders use it for their errors too: the status is sent, then
  the responder panics, and the text of the error is lost. Only a client that asks for
  \<open>application/json\<close> is sent the error. An internal error has no body in either format.
\<close>

theorem backup_errors_panic:
  assumes "fst (HistoricBackup_Handle sid pr d) = Failure st msg"
    and "ProducersFor (NewNeperAPI bytes_producer json_producer text_producer)
      (produces_of OpHistoricBackup @ [defaultProduces (NewNeperAPI bytes_producer json_producer text_producer)]) format =
      Some produce"
  shows "out_status (HistoricBackup_error st msg produce) = int st \<and>
    (format = ''application/zip'' \<or> format = ''application/json'') \<and>
    (if st = 500 then HistoricBackup_error st msg produce =
       \<lparr>out_status = 500, out_no_content_type = False, out_body = None, out_panic = False\<rparr>
     else if format = ''application/zip'' then out_body (HistoricBackup_error st msg produce) = None \<and>
       out_panic (HistoricBackup_error st msg produce)
     else \<exists>e. E_Message e = msg \<and> HistoricBackup_error st msg produce = produce_body (int st) e json_producer)"
proof -
  have "produces_of OpHistoricBackup = [''application/zip'']" by code_simp
  then have "ProducersFor (NewNeperAPI bytes_producer json_producer text_producer)
      (produces_of OpHistoricBackup @ [defaultProduces (NewNeperAPI bytes_producer json_producer text_producer)]) =
      [''application/zip'' \<mapsto> (\<lambda>_. Some (OtherErr ''applicationZip producer has not yet been implemented'')),
       ''application/json'' \<mapsto> json_producer]"
    by (simp add: ProducersFor_def NewNeperAPI_def)
  from assms(2) [unfolded this]
  have format: "format = ''application/zip'' \<and> produce = (\<lambda>_. Some (OtherErr ''applicationZip producer has not yet been implemented'')) \<or>
      format = ''application/json'' \<and> produce = json_producer"
    by (simp add: fun_upd_apply split: if_splits)
  have "st \<in> {403, 404, 412} \<or> st = 500" using HistoricBackup_statuses [OF assms(1)] by blast
  then show ?thesis
  proof
    assume st: "st \<in> {403, 404, 412}"
    from HistoricBackup_error_text [OF this, of msg] obtain e where
      e: "E_Message e = msg" "HistoricBackup_error st msg = produce_body (int st) e" by blast
    have "st \<noteq> 500" using st by auto
    then show ?thesis using format e by (auto simp: produce_body_def split: option.split)
  next
    assume "st = 500"
    then show ?thesis
      using format by (auto simp: HistoricBackup_error_def InternalErrorResponder_WriteResponse_def WriteResponse_pointer_def)
  qed
qed

theorem backup_errors_panic_witness:
  "fst (HistoricBackup_Handle ''s'' (example_principal ''x'') (example_db Pending True)) = Failure 403 (Some verbotten) \<and>
   out_panic (HistoricBackup_error 403 (Some verbotten) (\<lambda>_. Some (OtherErr ''applicationZip producer has not yet been implemented'')))"
proof -
  have run: "fst (HistoricBackup_Handle ''s'' (example_principal ''x'') (example_db Pending True)) = Failure 403 (Some verbotten)"
    by code_simp
  let ?api = "NewNeperAPI (\<lambda>_. None) (\<lambda>_. None) (\<lambda>_. None) :: ApiError api_producers"
  have zip: "produces_of OpHistoricBackup = [''application/zip'']" by code_simp
  have "ProducersFor ?api (produces_of OpHistoricBackup @ [defaultProduces ?api]) ''application/zip'' =
      Some (\<lambda>_. Some (OtherErr ''applicationZip producer has not yet been implemented''))"
    using zip by (simp add: ProducersFor_def NewNeperAPI_def)
  from backup_errors_panic [OF run this] show ?thesis using run by simp
qed

end
