(* ===== verification/Configured.thy ===== *)
theory Configured
  imports Pipeline System Backup Notifications Startup
begin

section \<open>The configured API\<close>

text \<open>
  \<open>restapi/configure_neper.go\<close>, \<open>ConfigureAPI\<close>: the handlers of the other theories as the handlers of
  the generated API, so that a request goes from the middleware to the database and back. A
  handler here takes what the generated code has bound and answers with the status, the state after
  it and what it has sent to the message bus; the payload is the subject of Responses. The
  theorems join the two halves of the development: every request is a step of System, and an answer
  with an error leaves everything as it was.
\<close>

subsection \<open>Downloads\<close>

text \<open>\<open>restapi/handlers/download_stars_exe.go\<close>: the embedded file, with its own headers.\<close>

record download =
  dl_headers :: "(string \<times> string) list"
  dl_status :: nat
  dl_body :: "bytes option"

definition DownloadStarsExe_WriteResponse :: "bytes option \<Rightarrow> download" where
  "DownloadStarsExe_WriteResponse exe_payload = \<lparr>
     dl_headers = [(''Content-Type'', ''application/octet-stream''),
       (''Content-Disposition'', ''attachment; filename=\"stars.exe\"'')],
     dl_status = 200,
     dl_body = exe_payload\<rparr>"

definition DownloadStarsExe_Handle :: "bytes \<Rightarrow> download" where
  "DownloadStarsExe_Handle exeBytes = DownloadStarsExe_WriteResponse (Some exeBytes)"

subsection \<open>State and configuration\<close>

record 'c server =
  sv_db :: db
  sv_cache :: 'c
  sv_fs :: fs

record 'c Config =
  cf_Authenticator :: "'c auth_env"
  cf_houston :: houston
  cf_playerchanger :: playerchanger
  cf_wine :: wine
  cf_SessionOptions :: session_options
  cf_RegistrationOptions :: "registration_Options option"
  cf_RaceProcessor :: ProcessorOptions
  cf_RaceOptions :: "race_Options option"
  cf_PreserveSaveDirs :: bool
  cf_collate :: "string \<Rightarrow> string"
  cf_executable :: bytes

text \<open>What differs from one request to the next: the clock, fresh values, and the world around.\<close>

record chance =
  ch_now :: int
  ch_uuid :: id
  ch_random :: "8 word list"
  ch_client :: http_request
  ch_limiter :: "(string \<Rightarrow> bool) option"
  ch_headers :: "(string \<times> string list) list"
  ch_changes :: "(ResourceChange \<times> db) list"
  ch_missing_profile :: "err + unit"
  ch_ping :: bool
  ch_startup :: startup
  ch_context :: request_context

text \<open>
  \<open>Nil\<close>: the request has no body or no principal, and the handler goes through the nil pointer: it
  ends with a refusal or with a panic, in any case before its transaction is committed.
\<close>

datatype 'c effect =
  Effect (ef_status: nat) (ef_after: "'c server") (ef_changes: "ResourceChange list") (ef_generate: "NeedsGenerationMsg list")
| Nil

definition reads :: "'c server \<Rightarrow> 'a response \<Rightarrow> 'c effect" where
  "reads s r = Effect (status r) s [] []"

definition replies :: "'c server \<Rightarrow> 'a reply \<Rightarrow> 'c effect" where
  "replies s r = (case r of (resp, d', ns) \<Rightarrow> Effect (status resp) (s\<lparr>sv_db := d'\<rparr>) ns [])"

definition tokens :: "'c server \<Rightarrow> string response \<times> 'c \<Rightarrow> 'c effect" where
  "tokens s r = (case r of (resp, c') \<Rightarrow> Effect (status resp) (s\<lparr>sv_cache := c'\<rparr>) [] [])"

definition with_messages :: "'c server \<Rightarrow> 'a reply \<Rightarrow> NeedsGenerationMsg list \<Rightarrow> 'c effect" where
  "with_messages s r msgs = (case r of (resp, d', ns) \<Rightarrow> Effect (status resp) (s\<lparr>sv_db := d'\<rparr>) ns msgs)"

definition starts :: "'c server \<Rightarrow> 'a response \<times> db \<times> fs \<times> ResourceChange list \<Rightarrow> 'c effect" where
  "starts s r = (case r of (resp, d', f', ns) \<Rightarrow> Effect (status resp) (s\<lparr>sv_db := d', sv_fs := f'\<rparr>) ns [])"

definition the_body :: "'b option \<Rightarrow> ('b \<Rightarrow> 'c effect) \<Rightarrow> 'c effect" where
  "the_body b k = (case b of None \<Rightarrow> Nil | Some x \<Rightarrow> k x)"

definition the_principal :: "Principal option \<Rightarrow> (Principal \<Rightarrow> 'c effect) \<Rightarrow> 'c effect" where
  "the_principal = the_body"

definition submitted :: "TurnDetails response \<Rightarrow> NeedsGenerationMsg list" where
  "submitted r = (case r of Success c td \<Rightarrow> TD_Messages td | Failure c msg \<Rightarrow> [])"

definition listed :: "err + 'a \<Rightarrow> 'a response" where
  "listed r = (case r of Inl e \<Rightarrow> Failure 500 (Some (Error_msg e)) | Inr x \<Rightarrow> Success 200 x)"

subsection \<open>ConfigureAPI\<close>

definition configured_api :: "'c Config \<Rightarrow> chance \<Rightarrow> 'c server \<Rightarrow> 'c effect NeperAPI" where
  "configured_api cf ch s = \<lparr>
     AuthenticateHandler = (\<lambda>credentials. tokens s (Authenticate_Handle (cf_Authenticator cf) (ch_now ch) credentials (sv_db s) (sv_cache s))),
     DownloadStarsExeHandler = (\<lambda>_ pr. Effect (dl_status (DownloadStarsExe_Handle (cf_executable cf))) s [] []),
     GameCreateHandler = (\<lambda>sid pr. the_principal pr (\<lambda>p. starts s (GameCreate_Handle (cf_houston cf) (cf_RaceProcessor cf) (cf_PreserveSaveDirs cf) (cf_wine cf)
       (ch_context ch) (ch_uuid ch) sid p (sv_db s, sv_fs s)))),
     HealthCheckHandler = (\<lambda>_. reads s (HealthCheck (ch_ping ch) (ch_startup ch))),
     HistoricBackupHandler = (\<lambda>sid pr. the_principal pr (\<lambda>p. replies s (HistoricBackup_Handle sid p (sv_db s)))),
     InvitationAcceptHandler = (\<lambda>iid pr. the_principal pr (\<lambda>p. replies s (InvitationAccept_Handle iid p (sv_db s)))),
     InvitationCreateHandler = (\<lambda>(sid, b) pr. the_principal pr (\<lambda>p. the_body b (\<lambda>body.
       replies s (InvitationCreate_Handle (ch_uuid ch) sid body p (sv_db s))))),
     InvitationDeclineHandler = (\<lambda>iid pr. the_principal pr (\<lambda>p. replies s (InvitationDecline_Handle iid p (sv_db s)))),
     InvitationListHandler = (\<lambda>_ pr. the_principal pr (\<lambda>p. reads s (listed (InvitationList_handle p (sv_db s))))),
     InvitationSentListHandler = (\<lambda>_ pr. the_principal pr (\<lambda>p. reads s (listed (InvitationSentList_handle p (sv_db s))))),
     NotificationsHandler = (\<lambda>_ pr. the_principal pr (\<lambda>p. reads s (Notifications_Handle (ch_headers ch) p (ch_changes ch)))),
     OrdersStatusHandler = (\<lambda>(sid, year) pr. the_principal pr (\<lambda>p. replies s (OrdersStatus_Handle sid year p (sv_db s)))),
     PendingRegistrationApproveHandler = (\<lambda>uid pr. the_principal pr (\<lambda>p. replies s (PendingRegistrationApprove_Handle uid p (sv_db s)))),
     PendingRegistrationListHandler = (\<lambda>_ pr. the_principal pr (\<lambda>p. replies s (PendingRegistrationList_Handle (cf_collate cf) p (sv_db s)))),
     PendingRegistrationRejectHandler = (\<lambda>uid pr. the_principal pr (\<lambda>p. replies s (PendingRegistrationReject_Handle uid p (sv_db s)))),
     RaceCreateHandler = (\<lambda>(uid, b) pr. the_principal pr (\<lambda>p. the_body b (\<lambda>body. replies s
       (RaceCreate_Handle (cf_houston cf) (cf_RaceProcessor cf) (cf_RaceOptions cf) (ch_uuid ch) uid (Ra_Data body) p (sv_db s))))),
     RaceDeleteHandler = (\<lambda>(uid, raceID) pr. the_principal pr (\<lambda>p. replies s (RaceDelete_Handle uid raceID p (sv_db s)))),
     RaceReadHandler = (\<lambda>(uid, raceID) pr. the_principal pr (\<lambda>p. replies s (RaceRead_Handle uid raceID p (sv_db s)))),
     RacesListHandler = (\<lambda>uid pr. the_principal pr (\<lambda>p. replies s (RacesList_Handle (cf_collate cf) uid p (sv_db s)))),
     RefreshTokenHandler = (\<lambda>_ pr. the_principal pr (\<lambda>p. tokens s (RefreshToken_Handle (cf_Authenticator cf) (ch_now ch) p (sv_db s) (sv_cache s)))),
     RegisterHandler = (\<lambda>b. replies s (Register_Handle (cf_RegistrationOptions cf) (ch_limiter ch) (ch_client ch) (ch_random ch) (ch_uuid ch)
       b (sv_db s))),
     ReorderPlayersHandler = (\<lambda>(sid, b) pr. the_principal pr (\<lambda>p. replies s (ReorderPlayers_Handle sid (case b of None \<Rightarrow> [] | Some ps \<Rightarrow> ps) p (sv_db s)))),
     RulesCreateHandler = (\<lambda>(sid, b) pr. the_principal pr (\<lambda>p. the_body b (\<lambda>body.
       replies s (RulesCreate_Handle (ch_uuid ch) sid body p (sv_db s))))),
     RulesReadHandler = (\<lambda>sid pr. the_principal pr (\<lambda>p. replies s (RulesRead_Handle sid p (sv_db s)))),
     SessionArchiveHandler = (\<lambda>sid pr. the_principal pr (\<lambda>p. replies s (SessionArchive_Handle sid p (sv_db s)))),
     SessionCreateHandler = (\<lambda>b pr. the_principal pr (\<lambda>p. the_body b (\<lambda>(state, body).
       replies s (SessionCreate_Handle (cf_SessionOptions cf) (ch_uuid ch) body p (sv_db s))))),
     SessionDeleteHandler = (\<lambda>sid pr. the_principal pr (\<lambda>p. replies s (SessionDelete_Handle sid p (sv_db s)))),
     SessionFilesGetHandler = (\<lambda>sid pr. the_principal pr (\<lambda>p. replies s (SessionFilesGet_Handle sid p (sv_db s)))),
     SessionJoinHandler = (\<lambda>sid pr. the_principal pr (\<lambda>p. replies s (SessionJoin_Handle (cf_SessionOptions cf) sid p (sv_db s)))),
     SessionPlayerControlHandler = (\<lambda>sid pr. the_principal pr (\<lambda>p. replies s (SessionPlayerControl_Handle sid p (sv_db s)))),
     SessionPlayerRaceCreateHandler = (\<lambda>(sid, b) pr. the_principal pr (\<lambda>p. the_body b (\<lambda>body.
       replies s (SessionPlayerRaceCreate_Handle (ch_uuid ch) sid body p (sv_db s))))),
     SessionPlayerRaceDeleteHandler = (\<lambda>(sid, pid) pr. the_principal pr (\<lambda>p. replies s (SessionPlayerRaceDelete_Handle sid pid p (sv_db s)))),
     SessionPlayerRaceGetHandler = (\<lambda>sid pr. the_principal pr (\<lambda>p. replies s (SessionPlayerRaceGet_Handle sid p (sv_db s)))),
     SessionPlayerRaceSetReadyHandler = (\<lambda>(sid, b) pr. the_principal pr (\<lambda>p. the_body b (\<lambda>ready.
       replies s (SessionPlayerRaceSetReady_Handle sid ready p (sv_db s))))),
     SessionPlayerSwitchToAIHandler = (\<lambda>(sid, b, order) pr. the_principal pr (\<lambda>p. the_body b (\<lambda>aiType.
       case SwitchToAI_Handle (cf_playerchanger cf) sid order aiType p (sv_db s) of (r, msgs) \<Rightarrow> with_messages s r msgs))),
     SessionPlayerSwitchToHumanHandler = (\<lambda>(sid, order) pr. the_principal pr (\<lambda>p. replies s (SwitchToHuman_Handle (cf_playerchanger cf) sid order p (sv_db s)))),
     SessionPromoteMemberHandler = (\<lambda>(sid, target) pr. the_principal pr (\<lambda>p. replies s (SessionPromoteMember_Handle sid target p (sv_db s)))),
     SessionQuitHandler = (\<lambda>sid pr. the_principal pr (\<lambda>p. replies s (SessionQuit_Handle sid p (sv_db s)))),
     SessionReadHandler = (\<lambda>sid pr. the_principal pr (\<lambda>p. replies s (SessionRead_Handle sid p (sv_db s)))),
     SessionUpdateHandler = (\<lambda>(sid, b) pr. the_principal pr (\<lambda>p. the_body b (\<lambda>(state, body).
       replies s (SessionUpdate_Handle sid body p (sv_db s))))),
     SessionsListHandler = (\<lambda>b pr. the_principal pr (\<lambda>p. reads s (Success 200 (SessionsList_handle (b = Some True) p (sv_db s))))),
     TurnGetHandler = (\<lambda>(sid, year) pr. the_principal pr (\<lambda>p. replies s (TurnGet_Handle sid year p (sv_db s)))),
     TurnLatestHandler = (\<lambda>sid pr. the_principal pr (\<lambda>p. replies s (TurnLatest_Handle sid p (sv_db s)))),
     TurnSubmitHandler = (\<lambda>(sid, b, year) pr. the_principal pr (\<lambda>p. the_body b (\<lambda>b64.
       case TurnSubmit_Handle (cf_houston cf) sid year b64 p (sv_db s) of r \<Rightarrow> with_messages s r (submitted (fst r))))),
     UserProfileCreateHandler = (\<lambda>b pr. the_principal pr (\<lambda>p. the_body b (\<lambda>body. replies s
       (UserProfileCreate_Handle (ch_uuid ch) (UC_Nickname body) (UC_Email body) p (sv_db s))))),
     UserProfileDeleteHandler = (\<lambda>uid pr. the_principal pr (\<lambda>p. replies s (UserProfileDelete_Handle uid p (sv_db s)))),
     UserProfileListHandler = (\<lambda>_ pr. the_principal pr (\<lambda>p. replies s (UserProfilesList_Handle p (sv_db s)))),
     UserProfileReadHandler = (\<lambda>uid pr. replies s (UserProfileRead_Handle uid (sv_db s))),
     UserProfileResetApikeyHandler = (\<lambda>uid pr. the_principal pr (\<lambda>p. replies s (UserProfileResetApikey_Handle (ch_random ch) uid p (sv_db s)))),
     UserProfileUpdateHandler = (\<lambda>(uid, b) pr. the_principal pr (\<lambda>p. the_body b (\<lambda>(state, body).
       replies s (UserProfileUpdate_Handle (ch_missing_profile ch) body p (sv_db s))))),
     UserinfoHandler = (\<lambda>_ pr. the_principal pr (\<lambda>p. replies s (Userinfo_Handle p (sv_db s))))\<rparr>"

subsection \<open>Each handler is a step\<close>

text \<open>
  What every reply promises: its database is the old one or the one after a transaction of System; and
  an error has changed nothing and published nothing.
\<close>

definition lawful :: "id set \<Rightarrow> db \<Rightarrow> 'a reply \<Rightarrow> bool" where
  "lawful busy d r = (case r of (resp, d', ns) \<Rightarrow>
     (d' = d \<or> transaction busy d d') \<and> (status resp \<ge> 400 \<longrightarrow> d' = d \<and> ns = []))"

lemma lawful_respond:
  assumes "\<And>x d' ns. t = Inr (x, d', ns) \<Longrightarrow> d' = d \<or> transaction busy d d'" "c < 400"
  shows "lawful busy d (respond cs c d t)"
  using assms by (cases t) (auto simp: lawful_def)

lemma lawful_same: "lawful busy d (resp, d, [])"
  by (simp add: lawful_def)

lemma reading_handlers:
  "HistoricBackup_handle sid pr d = Inr (x1, d', ns) \<Longrightarrow> d' = d"
  "OrdersStatus_handle sid year pr d = Inr (x2, d', ns) \<Longrightarrow> d' = d"
  "PendingRegistrationList_handle collate pr d = Inr (x3, d', ns) \<Longrightarrow> d' = d"
  "RaceRead_handle uid rid pr d = Inr (x4, d', ns) \<Longrightarrow> d' = d"
  "RacesList_handle collate uid pr d = Inr (x5, d', ns) \<Longrightarrow> d' = d"
  "RulesRead_handle sid pr d = Inr (x6, d', ns) \<Longrightarrow> d' = d"
  "SessionFilesGet_handle sid pr d = Inr (x7, d', ns) \<Longrightarrow> d' = d"
  "SessionPlayerControl_handle sid pr d = Inr (x8, d', ns) \<Longrightarrow> d' = d"
  "SessionPlayerRaceGet_handle sid pr d = Inr (x9, d', ns) \<Longrightarrow> d' = d"
  "SessionRead_handle sid pr d = Inr (x10, d', ns) \<Longrightarrow> d' = d"
  "TurnGet_handle sid year pr k d = Inr (x11, d', ns) \<Longrightarrow> d' = d"
  "TurnLatest_handle sid pr d = Inr (x12, d', ns) \<Longrightarrow> d' = d"
  "UserProfilesList_handle pr d = Inr (x13, d', ns) \<Longrightarrow> d' = d"
  "UserProfileRead_handle uid d = Inr (x14, d', ns) \<Longrightarrow> d' = d"
  subgoal by (blast dest: HistoricBackup_reads)
  subgoal by (auto simp: OrdersStatus_handle_def and_then_eq_Inr Let_def split: if_splits sum.splits)
  subgoal by (auto simp: PendingRegistrationList_handle_def and_then_eq_Inr split: if_splits)
  subgoal by (auto simp: RaceRead_handle_def and_then_eq_Inr split: if_splits sum.splits option.splits)
  subgoal by (auto simp: RacesList_handle_def split: if_splits)
  subgoal by (blast dest: RulesRead_reads)
  subgoal by (blast dest: SessionFilesGet_reads)
  subgoal by (blast dest: SessionPlayerControl_reads)
  subgoal by (auto simp: SessionPlayerRaceGet_handle_def and_then_eq_Inr split: if_splits sum.splits)
  subgoal by (auto simp: SessionRead_handle_def Let_def split: if_splits sum.splits)
  subgoal by (auto simp: TurnGet_handle_def and_then_eq_Inr split: if_splits sum.splits)
  subgoal by (auto simp: TurnLatest_handle_def and_then_eq_Inr split: if_splits sum.splits)
  subgoal by (auto simp: UserProfilesList_handle_def)
  subgoal by (auto simp: UserProfileRead_handle_def and_then_eq_Inr)
  done

lemma reading_replies:
  "lawful busy d (HistoricBackup_Handle sid pr d)"
  "lawful busy d (OrdersStatus_Handle sid year pr d)"
  "lawful busy d (PendingRegistrationList_Handle collate pr d)"
  "lawful busy d (RaceRead_Handle uid rid pr d)"
  "lawful busy d (RacesList_Handle collate uid pr d)"
  "lawful busy d (RulesRead_Handle sid pr d)"
  "lawful busy d (SessionFilesGet_Handle sid pr d)"
  "lawful busy d (SessionPlayerControl_Handle sid pr d)"
  "lawful busy d (SessionPlayerRaceGet_Handle sid pr d)"
  "lawful busy d (SessionRead_Handle sid pr d)"
  "lawful busy d (TurnLatest_Handle sid pr d)"
  "lawful busy d (UserProfilesList_Handle pr d)"
  "lawful busy d (UserProfileRead_Handle uid d)"
  unfolding HistoricBackup_Handle_def OrdersStatus_Handle_def PendingRegistrationList_Handle_def RaceRead_Handle_def
    RacesList_Handle_def RulesRead_Handle_def SessionFilesGet_Handle_def SessionPlayerControl_Handle_def
    SessionPlayerRaceGet_Handle_def SessionRead_Handle_def TurnLatest_Handle_def UserProfilesList_Handle_def
    UserProfileRead_Handle_def
  by - (rule lawful_respond, blast dest: reading_handlers, simp)+

lemma TurnGet_lawful: "lawful busy d (TurnGet_Handle sid year pr d)"
  unfolding TurnGet_Handle_def
  by (auto intro!: lawful_respond split: sum.splits dest: reading_handlers(11)) (simp_all add: lawful_def)

lemma writing_replies:
  "lawful busy d (SessionDelete_Handle sid pr d)"
  "lawful busy d (SessionArchive_Handle sid pr d)"
  "lawful busy d (SessionJoin_Handle opts sid pr d)"
  "lawful busy d (SessionQuit_Handle sid pr d)"
  "lawful busy d (SessionPromoteMember_Handle sid target pr d)"
  "lawful busy d (InvitationCreate_Handle uuid sid offer pr d)"
  "lawful busy d (InvitationAccept_Handle iid pr d)"
  "lawful busy d (InvitationDecline_Handle iid pr d)"
  "lawful busy d (SessionPlayerRaceCreate_Handle uuid sid player pr d)"
  "lawful busy d (SessionPlayerRaceDelete_Handle sid pid pr d)"
  "lawful busy d (SessionPlayerRaceSetReady_Handle sid ready pr d)"
  "lawful busy d (ReorderPlayers_Handle sid players pr d)"
  "lawful busy d (RulesCreate_Handle uuid sid rules pr d)"
  "lawful busy d (RaceCreate_Handle hs popts ropts uuid uid data pr d)"
  "lawful busy d (RaceDelete_Handle uid rid pr d)"
  "lawful busy d (TurnSubmit_Handle hs sid year b64 pr d)"
  "lawful busy d (SwitchToHuman_Handle pc sid k pr d)"
  "lawful busy d (PendingRegistrationApprove_Handle uid pr d)"
  "lawful busy d (PendingRegistrationReject_Handle uid pr d)"
  "lawful busy d (UserProfileCreate_Handle uuid nick email pr d)"
  "lawful busy d (UserProfileDelete_Handle uid pr d)"
  "lawful busy d (UserProfileResetApikey_Handle rnd uid pr d)"
  "lawful busy d (UserProfileUpdate_Handle missing profile pr d)"
  unfolding SessionDelete_Handle_def SessionArchive_Handle_def SessionJoin_Handle_def SessionQuit_Handle_def
    SessionPromoteMember_Handle_def InvitationCreate_Handle_def InvitationAccept_Handle_def InvitationDecline_Handle_def
    SessionPlayerRaceCreate_Handle_def SessionPlayerRaceDelete_Handle_def SessionPlayerRaceSetReady_Handle_def
    ReorderPlayers_Handle_def RulesCreate_Handle_def RaceCreate_Handle_def RaceDelete_Handle_def TurnSubmit_Handle_def
    SwitchToHuman_Handle_def PendingRegistrationApprove_Handle_def PendingRegistrationReject_Handle_def
    UserProfileCreate_Handle_def UserProfileDelete_Handle_def UserProfileResetApikey_Handle_def UserProfileUpdate_Handle_def
  by - (rule lawful_respond, blast intro: transaction.intros, simp)+

lemma SessionCreate_lawful: "uuid \<notin> busy \<Longrightarrow> lawful busy d (SessionCreate_Handle opts uuid body pr d)"
  unfolding SessionCreate_Handle_def by (rule lawful_respond) (blast intro: session_create, simp)

lemma SessionUpdate_lawful: "ContextValidate_Session body \<Longrightarrow> lawful busy d (SessionUpdate_Handle sid body pr d)"
  unfolding SessionUpdate_Handle_def by (rule lawful_respond) (blast intro: session_update, simp)

lemma Register_lawful: "lawful busy d (Register_Handle opts limiter http rnd uuid reg d)"
  unfolding Register_Handle_def
  by (auto intro!: lawful_respond intro: register split: option.splits) (simp_all add: lawful_def)

lemma Userinfo_lawful: "lawful busy d (Userinfo_Handle pr d)"
  unfolding Userinfo_Handle_def lawful_def by (auto split: sum.splits prod.splits intro: userinfo)

subsection \<open>Every request is a step\<close>

text \<open>
  The promise for the effect of an operation. Only two operations may answer with an error after they have
  changed something: the start of a game, which undoes its first phase, and the switch of a player to
  the computer, which checks after its commit whether the turn is complete.
\<close>

definition lawful_effect :: "id set \<Rightarrow> 'c server \<Rightarrow> 'c effect \<Rightarrow> bool" where
  "lawful_effect busy s e = (case e of Nil \<Rightarrow> True
   | Effect st s' ns msgs \<Rightarrow>
      (sv_db s' = sv_db s \<or> transaction busy (sv_db s) (sv_db s')) \<and> sv_fs s' = sv_fs s \<and>
      (st \<ge> 400 \<longrightarrow> sv_db s' = sv_db s \<and> ns = [] \<and> msgs = []))"

lemma replies_lawful: "lawful_effect busy s (replies s r) = lawful busy (sv_db s) r"
  by (auto simp: lawful_effect_def replies_def lawful_def split: prod.splits)

lemma Nil_lawful [simp]: "lawful_effect busy s Nil"
  by (simp add: lawful_effect_def)

lemma reads_lawful [simp]: "lawful_effect busy s (reads s r)"
  by (simp add: lawful_effect_def reads_def)

lemma download_lawful [simp]: "lawful_effect busy s (Effect st s [] [])"
  by (simp add: lawful_effect_def)

lemma tokens_lawful [simp]: "lawful_effect busy s (tokens s r)"
  by (auto simp: lawful_effect_def tokens_def split: prod.splits)

lemma the_body_lawful: "(\<And>x. b = Some x \<Longrightarrow> lawful_effect busy s (k x)) \<Longrightarrow> lawful_effect busy s (the_body b k)"
  by (cases b) (simp_all add: the_body_def)

lemma the_principal_lawful: "(\<And>x. lawful_effect busy s (k x)) \<Longrightarrow> lawful_effect busy s (the_principal pr k)"
  by (cases pr) (simp_all add: the_body_def the_principal_def)

lemma TurnSubmit_effect_lawful:
  "lawful_effect busy s (case TurnSubmit_Handle hs sid year b64 pr (sv_db s) of r \<Rightarrow> with_messages s r (submitted (fst r)))"
  using writing_replies(16) [of busy "sv_db s" hs sid year b64 pr]
  by (cases "TurnSubmit_handle hs sid year b64 pr (sv_db s)")
    (auto simp: lawful_effect_def lawful_def TurnSubmit_Handle_def with_messages_def submitted_def split: prod.splits response.splits)

lemmas effects_lawful = the_body_lawful the_principal_lawful reading_replies TurnGet_lawful writing_replies
  Register_lawful Userinfo_lawful TurnSubmit_effect_lawful

lemma with_value_Inr: "with_value name r bound = Inr (v, x) \<Longrightarrow> bound = Inr x"
  by (cases bound) (simp_all add: with_value_def)

lemma BindValid_Inr: "BindValidRequest r bound = Inr ps \<Longrightarrow> bound = Inr ps"
  by (simp add: BindValidRequest_def split: option.splits)

lemma handled_effects:
  assumes "validator_ok (fm_validator fm)" "ch_uuid ch \<notin> busy"
    and "ServeHTTP op (configured_api cf ch s) fm r = Handled e"
    and "op \<noteq> OpGameCreate" "op \<noteq> OpSessionPlayerSwitchToAI"
  shows "lawful_effect busy s e"
proof -
  have create: "ContextValidate_Session b" if "BindValidRequest r (bind_SessionCreate (fm_validator fm) x) = Inr (Some (st, b))" for x st b
    using bound_bodies_are_context_valid(1) [OF assms(1)] BindValid_Inr [OF that] by blast
  have update: "ContextValidate_Session b"
    if "BindValidRequest r (with_value n r (bind_SessionUpdate (fm_validator fm) x)) = Inr (sid, Some (st, b))" for n x sid st b
    using bound_bodies_are_context_valid(2) [OF assms(1)] with_value_Inr [OF BindValid_Inr [OF that]] by blast
  show ?thesis
    using assms(3-)
    by (cases op)
      (auto simp: configured_api_def for_everyone_Handled with_principal_Handled Serving.serve_defs replies_lawful
        intro!: effects_lawful SessionCreate_lawful [OF assms(2)] SessionUpdate_lawful dest: update)
qed

lemma SwitchToAI_effect:
  assumes "(case SwitchToAI_Handle pc sid k ai pr (sv_db s) of (r, ms) \<Rightarrow> with_messages s r ms) = Effect st s' ns msgs"
  shows "sv_db s' = sv_db s \<or> transaction busy (sv_db s) (sv_db s')"
  using assms
  by (auto simp: SwitchToAI_Handle_def with_messages_def split: sum.splits prod.splits intro: switch_to_ai)

subsection \<open>The router\<close>

text \<open>
  The documented behaviour of the router on which the start of a game relies: a placeholder of the
  template stands for a segment that is not empty. \<open>routed\<close> is the operation that a message reaches.
\<close>

definition matches_segments :: "openapi \<Rightarrow> bool" where
  "matches_segments lib \<longleftrightarrow> (\<forall>verb path t params name. Lookup lib verb path = Some (t, params) \<longrightarrow>
     ''{'' @ name @ ''}'' \<in> set (Routes.split_slash t) \<longrightarrow> path_value name params \<noteq> '''')"

definition routed :: "openapi \<Rightarrow> 'j http_message \<Rightarrow> api_operation option" where
  "routed lib m = (case Lookup lib (hm_method m) (hm_path m) of
     None \<Rightarrow> None
   | Some (template, params) \<Rightarrow> HandlerFor (initHandlerCache (\<lambda>op. op)) (hm_method m) template)"

lemma HandlerFor_in_table:
  assumes "HandlerFor (initHandlerCache (\<lambda>op. op)) verb t = Some op"
  shows "(ToUpper verb, if t = ''/'' then '''' else t, op) \<in> set route_table"
  using assms cache_lookup [OF route_table_distinct, where new = "\<lambda>op. op" and hs = Map.empty
      and v = "ToUpper verb" and p = "if t = ''/'' then '''' else t"]
  by (auto simp: HandlerFor_def Let_def initHandlerCache_def find_Some_iff in_set_conv_nth split: option.splits if_splits prod.splits)

lemma game_route: "list_all (\<lambda>(verb, path, op). op = OpGameCreate \<longrightarrow> ''{session_id}'' \<in> set (Routes.split_slash path)) route_table"
  by code_simp

lemma serve_api_Served:
  assumes "serve_api env lib fm api now m d c = Served out"
  obtains op t params c' where "routed lib m = Some op" "Lookup lib (hm_method m) (hm_path m) = Some (t, params)"
    "HandlerFor (initHandlerCache (\<lambda>op. op)) (hm_method m) t = Some op"
    "out = ServeHTTP op api fm
       \<lparr>in_Authorize = Authorize lib (security_of op) (hm_Authorization m) (KeyAuth env now c'),
        in_content_type = CheckContentType lib (hm_content_type m),
        in_params = params, in_query = hm_query m, in_body = hm_body m\<rparr>"
  using assms
  by (auto simp: serve_api_def serve_operation_def routed_def split: prod.splits passage.splits option.splits)

lemma game_effect:
  assumes "starts s (GameCreate_Handle hs popts preserve wine ctx uuid sid pr (sv_db s, sv_fs s)) = Effect st s' ns msgs" "sid \<noteq> ''''"
  shows "sv_db s' = sv_db s \<or> step\<^sup>*\<^sup>* \<lparr>W_db = sv_db s, W_games = gs\<rparr> \<lparr>W_db = sv_db s', W_games = gs\<rparr>"
proof -
  obtain r d' f' ns' where run: "GameCreate_handle hs popts preserve wine ctx uuid sid pr (sv_db s, sv_fs s) = (r, d', f', ns')"
    using prod_cases4 by blast
  have "sv_db s' = d'" using assms(1) by (auto simp: run starts_def GameCreate_Handle_def split: sum.splits)
  then show ?thesis using GameCreate_handle_steps [OF run assms(2)] by simp
qed

lemma sid_of_game:
  assumes "matches_segments lib" "Lookup lib verb path = Some (t, params)"
    and "HandlerFor (initHandlerCache (\<lambda>op. op)) verb t = Some OpGameCreate"
  shows "path_value ''session_id'' params \<noteq> ''''"
proof -
  have "''{session_id}'' \<in> set (Routes.split_slash (if t = ''/'' then '''' else t))"
    using HandlerFor_in_table [OF assms(3)] game_route by (auto simp: list_all_iff)
  moreover have "''{session_id}'' \<notin> set (Routes.split_slash '''')" by code_simp
  ultimately have "''{'' @ ''session_id'' @ ''}'' \<in> set (Routes.split_slash t)" by (auto split: if_splits)
  then show ?thesis using assms(1,2) unfolding matches_segments_def by blast
qed

lemma bodies_Effect:
  "the_body b k = Effect st s' ns msgs \<longleftrightarrow> (\<exists>x. b = Some x \<and> k x = Effect st s' ns msgs)"
  "the_principal pr k' = Effect st s' ns msgs \<longleftrightarrow> (\<exists>p. pr = Some p \<and> k' p = Effect st s' ns msgs)"
  by (cases b; cases pr; simp add: the_principal_def the_body_def)+

lemma served_game:
  assumes "ServeHTTP OpGameCreate (configured_api cf ch s) fm r = Handled (Effect st s' ns msgs)"
  shows "\<exists>pr. starts s (GameCreate_Handle (cf_houston cf) (cf_RaceProcessor cf) (cf_PreserveSaveDirs cf) (cf_wine cf)
    (ch_context ch) (ch_uuid ch) (path_value ''session_id'' (in_params r)) pr (sv_db s, sv_fs s)) = Effect st s' ns msgs"
proof -
  obtain pr where "Effect st s' ns msgs = the_principal pr (\<lambda>p. starts s (GameCreate_Handle (cf_houston cf)
      (cf_RaceProcessor cf) (cf_PreserveSaveDirs cf) (cf_wine cf) (ch_context ch) (ch_uuid ch) (path_value ''session_id'' (in_params r)) p
      (sv_db s, sv_fs s)))" (is "_ = ?e")
    using assms
    by (auto simp: configured_api_def with_principal_Handled GameCreate_ServeHTTP_def bind_GameCreate_def dest!: BindValid_Inr)
  then have "?e = Effect st s' ns msgs" by (rule sym)
  then show ?thesis unfolding bodies_Effect by blast
qed

lemma served_switch:
  assumes "ServeHTTP OpSessionPlayerSwitchToAI (configured_api cf ch s) fm r = Handled (Effect st s' ns msgs)"
  shows "sv_db s' = sv_db s \<or> transaction busy (sv_db s) (sv_db s')"
proof -
  obtain sid b k pr where "Effect st s' ns msgs = the_principal pr (\<lambda>p. the_body b (\<lambda>aiType.
      case SwitchToAI_Handle (cf_playerchanger cf) sid k aiType p (sv_db s) of (r, ms) \<Rightarrow> with_messages s r ms))" (is "_ = ?e")
    using assms by (auto simp: configured_api_def with_principal_Handled SessionPlayerSwitchToAI_ServeHTTP_def)
  then have "?e = Effect st s' ns msgs" by (rule sym)
  then show ?thesis unfolding bodies_Effect by (elim exE conjE) (rule SwitchToAI_effect)
qed

text \<open>The example: the manager of a session archives it, when it is started and before.\<close>

definition example_config :: "(string \<times> Claims) list Config" where
  "example_config = \<lparr>cf_Authenticator = example_env, cf_houston = example_houston, cf_playerchanger = example_changer,
     cf_wine = example_wine, cf_SessionOptions = None, cf_RegistrationOptions = None,
     cf_RaceProcessor = example_opts, cf_RaceOptions = None, cf_PreserveSaveDirs = False, cf_collate = (\<lambda>x. x),
     cf_executable = []\<rparr>"

definition example_chance :: chance where
  "example_chance = \<lparr>ch_now = 5, ch_uuid = ''n'', ch_random = [], ch_client = \<lparr>XForwardedFor = '''', XRealIP = '''', RemoteAddr = ''''\<rparr>,
     ch_limiter = None, ch_headers = [], ch_changes = [], ch_missing_profile = Inr (), ch_ping = True,
     ch_startup = \<lparr>su_main = Serving, su_background = Bg_done, su_StarsRunner = None, su_db = empty_db, su_tree = Map.empty\<rparr>,
     ch_context = live_context\<rparr>"

definition archive_openapi :: openapi where
  "archive_openapi = example_openapi\<lparr>Lookup := (\<lambda>verb path.
     if verb = ''POST'' \<and> path = ''/api/v1/sessions/s/archive''
     then Some (''/v1/sessions/{session_id}/archive'', [''session_id'' \<mapsto> [''s'']]) else None)\<rparr>"

definition archive_message :: "unit http_message" where
  "archive_message = (example_message ''/api/v1/sessions/s/archive'' ''Bearer tu'')\<lparr>hm_method := ''POST''\<rparr>"

definition example_server :: "session_state \<Rightarrow> (string \<times> Claims) list server" where
  "example_server st = \<lparr>sv_db = example_db st True, sv_cache = [], sv_fs = Map.empty\<rparr>"

lemma archive_openapi_segments: "matches_segments archive_openapi"
proof -
  have "Routes.split_slash ''/v1/sessions/{session_id}/archive'' = ['''', ''v1'', ''sessions'', ''{session_id}'', ''archive'']"
    by code_simp
  then show ?thesis by (auto simp: matches_segments_def archive_openapi_def path_value_def)
qed

lemma archive_served:
  "list_all (\<lambda>st. (case serve_api example_env archive_openapi example_formats
       (configured_api example_config example_chance (example_server st)) 5 archive_message (example_db st True) [] of
       Served (Handled (Effect code s' ns msgs)) \<Rightarrow>
         (if st = Started then code = 200 \<and> sv_db s' = example_db Archived True else code = 412)
     | _ \<Rightarrow> False)) [Started, Pending]"
  by code_simp

lemma archive_effect:
  assumes "st \<in> {Started, Pending}"
  obtains code s' ns msgs where
    "serve_api (cf_Authenticator example_config) archive_openapi example_formats
       (configured_api example_config example_chance (example_server st)) (ch_now example_chance) archive_message
       (sv_db (example_server st)) (sv_cache (example_server st)) = Served (Handled (Effect code s' ns msgs))"
    "if st = Started then code = 200 \<and> sv_db s' = example_db Archived True else code = 412"
proof -
  have same: "cf_Authenticator example_config = example_env" "ch_now example_chance = 5"
    "sv_db (example_server st) = example_db st True" "sv_cache (example_server st) = []"
    by (simp_all add: example_config_def example_chance_def example_server_def)
  have "case serve_api example_env archive_openapi example_formats
       (configured_api example_config example_chance (example_server st)) 5 archive_message (example_db st True) [] of
       Served (Handled (Effect code s' ns msgs)) \<Rightarrow>
         (if st = Started then code = 200 \<and> sv_db s' = example_db Archived True else code = 412)
     | _ \<Rightarrow> False"
    using assms archive_served by (auto simp only: list.pred_inject insert_iff empty_iff)
  then show thesis
    using that unfolding same by (auto split: served.split_asm Serving.outcome.split_asm effect.split_asm)
qed
text \<open>\<^bold>\<open>C3\<close>:
  The server refines the system: whatever a client sends, once the middleware, the router, the
  generated code and the handler have run, the database is one that System reaches by its steps from the
  one before, or the same. So what is shown of all reachable states holds of the server that listens.\<close>

theorem requests_are_steps:
  assumes "validator_ok (fm_validator fm)" "matches_segments lib" "ch_uuid ch \<notin> set (map game_id gs)"
    and "serve_api (cf_Authenticator cf) lib fm (configured_api cf ch s) (ch_now ch) m (sv_db s) (sv_cache s) =
      Served (Handled (Effect st s' ns msgs))"
  shows "step\<^sup>*\<^sup>* \<lparr>W_db = sv_db s, W_games = gs\<rparr> \<lparr>W_db = sv_db s', W_games = gs\<rparr>"
proof -
  obtain op t params c' where op: "Lookup lib (hm_method m) (hm_path m) = Some (t, params)"
      "HandlerFor (initHandlerCache (\<lambda>op. op)) (hm_method m) t = Some op"
    and run: "Handled (Effect st s' ns msgs) = ServeHTTP op (configured_api cf ch s) fm
       \<lparr>in_Authorize = Authorize lib (security_of op) (hm_Authorization m) (KeyAuth (cf_Authenticator cf) (ch_now ch) c'),
        in_content_type = CheckContentType lib (hm_content_type m),
        in_params = params, in_query = hm_query m, in_body = hm_body m\<rparr>"
    using serve_api_Served [OF assms(4)] by metis
  have one: "step\<^sup>*\<^sup>* \<lparr>W_db = sv_db s, W_games = gs\<rparr> \<lparr>W_db = sv_db s', W_games = gs\<rparr>"
    if "sv_db s' = sv_db s \<or> transaction (set (map game_id gs)) (sv_db s) (sv_db s')"
    using that step.request by (metis (no_types) r_into_rtranclp rtranclp.rtrancl_refl)
  consider "op = OpGameCreate" | "op = OpSessionPlayerSwitchToAI" | "op \<noteq> OpGameCreate" "op \<noteq> OpSessionPlayerSwitchToAI"
    by blast
  then show ?thesis
  proof cases
    case 1
    have "path_value ''session_id'' params \<noteq> ''''" by (rule sid_of_game [OF assms(2) op(1) op(2) [unfolded 1]])
    then show ?thesis using served_game [OF run [symmetric, unfolded 1]] game_effect by fastforce
  next
    case 2
    show ?thesis by (rule one [OF served_switch [OF run [symmetric, unfolded 2]]])
  next
    case 3
    show ?thesis
      using handled_effects [OF assms(1,3) run [symmetric] 3] by (intro one) (simp add: lawful_effect_def)
  qed
qed

theorem requests_are_steps_witness:
  "step\<^sup>*\<^sup>* \<lparr>W_db = example_db Started True, W_games = []\<rparr> \<lparr>W_db = example_db Archived True, W_games = []\<rparr>"
proof (rule archive_effect [of Started])
  fix code s' ns msgs
  assume run: "serve_api (cf_Authenticator example_config) archive_openapi example_formats
       (configured_api example_config example_chance (example_server Started)) (ch_now example_chance) archive_message
       (sv_db (example_server Started)) (sv_cache (example_server Started)) = Served (Handled (Effect code s' ns msgs))"
    and s': "if Started = Started then code = 200 \<and> sv_db s' = example_db Archived True else code = 412"
  have V: "validator_ok (fm_validator example_formats)" by (simp add: example_formats_def example_validator_ok)
  have new: "ch_uuid example_chance \<notin> set (map game_id [])" by simp
  have "sv_db s' = example_db Archived True" "sv_db (example_server Started) = example_db Started True"
    using s' by (simp_all add: example_server_def)
  then show ?thesis using requests_are_steps [OF V archive_openapi_segments new run] by simp
qed simp

end
