(* ===== verification/Metrics.thy ===== *)
theory Metrics
  imports Routes
begin

section \<open>Metrics of the operations\<close>

text \<open>
  The metrics of \<open>restapi/operations\<close>: \<open>*_prometheus.go\<close> declares for each operation a summary
  of the durations and a gauge of the running requests, \<open>prometheus.go\<close> wraps the handlers with
  them, \<open>prometheus_register.go\<close> registers them when the program starts, where a conflict would
  be a panic. \<open>ConfigureAPI\<close> puts the logging around it. The collectors themselves are the library
  of Prometheus: what a collector is for it is its descriptor, and a wrapped handler is a term that
  names its wrappers.
\<close>

datatype collector_kind = SummaryVec | Gauge

record collector =
  co_kind :: collector_kind
  co_name :: string
  co_help :: string
  co_labels :: "(string \<times> string) list"
  co_variable :: "string list"

text \<open>A handler with its wrappers; \<open>No_handler\<close> is the nil value of a missing entry.\<close>

datatype 'h wrapped =
  No_handler
| Bare 'h
| InFlight collector "'h wrapped"
| Duration collector "'h wrapped"
| Logged string string "'h wrapped"

fun innermost :: "'h wrapped \<Rightarrow> 'h option" where
  "innermost No_handler = None"
| "innermost (Bare h) = Some h"
| "innermost (InFlight c h) = innermost h"
| "innermost (Duration c h) = innermost h"
| "innermost (Logged tag operationID h) = innermost h"

subsection \<open>The collectors and the wrapper of each operation\<close>

definition authenticateHandlerDuration :: collector where
  "authenticateHandlerDuration = \<lparr>co_kind = SummaryVec, co_name = ''orus_api_handler'',
     co_help = ''The handlers duration and count.'', co_labels = [(''service'', ''authenticate'')], co_variable = [''code'']\<rparr>"

definition authenticateHandlerInFlight :: collector where
  "authenticateHandlerInFlight = \<lparr>co_kind = Gauge, co_name = ''orus_api_handler_in_flight'',
     co_help = ''The number of handlers currently running.'', co_labels = [(''service'', ''authenticate'')], co_variable = []\<rparr>"

definition AuthenticateInstrumentHandler :: "'h wrapped \<Rightarrow> 'h wrapped" where
  "AuthenticateInstrumentHandler handler = InFlight authenticateHandlerInFlight (Duration authenticateHandlerDuration handler)"

definition downloadStarsExeHandlerDuration :: collector where
  "downloadStarsExeHandlerDuration = \<lparr>co_kind = SummaryVec, co_name = ''orus_api_handler'',
     co_help = ''The handlers duration and count.'', co_labels = [(''service'', ''downloadStarsExe'')], co_variable = [''code'']\<rparr>"

definition downloadStarsExeHandlerInFlight :: collector where
  "downloadStarsExeHandlerInFlight = \<lparr>co_kind = Gauge, co_name = ''orus_api_handler_in_flight'',
     co_help = ''The number of handlers currently running.'', co_labels = [(''service'', ''downloadStarsExe'')], co_variable = []\<rparr>"

definition DownloadStarsExeInstrumentHandler :: "'h wrapped \<Rightarrow> 'h wrapped" where
  "DownloadStarsExeInstrumentHandler handler = InFlight downloadStarsExeHandlerInFlight (Duration downloadStarsExeHandlerDuration handler)"

definition gameCreateHandlerDuration :: collector where
  "gameCreateHandlerDuration = \<lparr>co_kind = SummaryVec, co_name = ''orus_api_handler'',
     co_help = ''The handlers duration and count.'', co_labels = [(''service'', ''gameCreate'')], co_variable = [''code'']\<rparr>"

definition gameCreateHandlerInFlight :: collector where
  "gameCreateHandlerInFlight = \<lparr>co_kind = Gauge, co_name = ''orus_api_handler_in_flight'',
     co_help = ''The number of handlers currently running.'', co_labels = [(''service'', ''gameCreate'')], co_variable = []\<rparr>"

definition GameCreateInstrumentHandler :: "'h wrapped \<Rightarrow> 'h wrapped" where
  "GameCreateInstrumentHandler handler = InFlight gameCreateHandlerInFlight (Duration gameCreateHandlerDuration handler)"

definition healthCheckHandlerDuration :: collector where
  "healthCheckHandlerDuration = \<lparr>co_kind = SummaryVec, co_name = ''orus_api_handler'',
     co_help = ''The handlers duration and count.'', co_labels = [(''service'', ''healthCheck'')], co_variable = [''code'']\<rparr>"

definition healthCheckHandlerInFlight :: collector where
  "healthCheckHandlerInFlight = \<lparr>co_kind = Gauge, co_name = ''orus_api_handler_in_flight'',
     co_help = ''The number of handlers currently running.'', co_labels = [(''service'', ''healthCheck'')], co_variable = []\<rparr>"

definition HealthCheckInstrumentHandler :: "'h wrapped \<Rightarrow> 'h wrapped" where
  "HealthCheckInstrumentHandler handler = InFlight healthCheckHandlerInFlight (Duration healthCheckHandlerDuration handler)"

definition historicBackupHandlerDuration :: collector where
  "historicBackupHandlerDuration = \<lparr>co_kind = SummaryVec, co_name = ''orus_api_handler'',
     co_help = ''The handlers duration and count.'', co_labels = [(''service'', ''historicBackup'')], co_variable = [''code'']\<rparr>"

definition historicBackupHandlerInFlight :: collector where
  "historicBackupHandlerInFlight = \<lparr>co_kind = Gauge, co_name = ''orus_api_handler_in_flight'',
     co_help = ''The number of handlers currently running.'', co_labels = [(''service'', ''historicBackup'')], co_variable = []\<rparr>"

definition HistoricBackupInstrumentHandler :: "'h wrapped \<Rightarrow> 'h wrapped" where
  "HistoricBackupInstrumentHandler handler = InFlight historicBackupHandlerInFlight (Duration historicBackupHandlerDuration handler)"

definition invitationAcceptHandlerDuration :: collector where
  "invitationAcceptHandlerDuration = \<lparr>co_kind = SummaryVec, co_name = ''orus_api_handler'',
     co_help = ''The handlers duration and count.'', co_labels = [(''service'', ''invitationAccept'')], co_variable = [''code'']\<rparr>"

definition invitationAcceptHandlerInFlight :: collector where
  "invitationAcceptHandlerInFlight = \<lparr>co_kind = Gauge, co_name = ''orus_api_handler_in_flight'',
     co_help = ''The number of handlers currently running.'', co_labels = [(''service'', ''invitationAccept'')], co_variable = []\<rparr>"

definition InvitationAcceptInstrumentHandler :: "'h wrapped \<Rightarrow> 'h wrapped" where
  "InvitationAcceptInstrumentHandler handler = InFlight invitationAcceptHandlerInFlight (Duration invitationAcceptHandlerDuration handler)"

definition invitationCreateHandlerDuration :: collector where
  "invitationCreateHandlerDuration = \<lparr>co_kind = SummaryVec, co_name = ''orus_api_handler'',
     co_help = ''The handlers duration and count.'', co_labels = [(''service'', ''invitationCreate'')], co_variable = [''code'']\<rparr>"

definition invitationCreateHandlerInFlight :: collector where
  "invitationCreateHandlerInFlight = \<lparr>co_kind = Gauge, co_name = ''orus_api_handler_in_flight'',
     co_help = ''The number of handlers currently running.'', co_labels = [(''service'', ''invitationCreate'')], co_variable = []\<rparr>"

definition InvitationCreateInstrumentHandler :: "'h wrapped \<Rightarrow> 'h wrapped" where
  "InvitationCreateInstrumentHandler handler = InFlight invitationCreateHandlerInFlight (Duration invitationCreateHandlerDuration handler)"

definition invitationDeclineHandlerDuration :: collector where
  "invitationDeclineHandlerDuration = \<lparr>co_kind = SummaryVec, co_name = ''orus_api_handler'',
     co_help = ''The handlers duration and count.'', co_labels = [(''service'', ''invitationDecline'')], co_variable = [''code'']\<rparr>"

definition invitationDeclineHandlerInFlight :: collector where
  "invitationDeclineHandlerInFlight = \<lparr>co_kind = Gauge, co_name = ''orus_api_handler_in_flight'',
     co_help = ''The number of handlers currently running.'', co_labels = [(''service'', ''invitationDecline'')], co_variable = []\<rparr>"

definition InvitationDeclineInstrumentHandler :: "'h wrapped \<Rightarrow> 'h wrapped" where
  "InvitationDeclineInstrumentHandler handler = InFlight invitationDeclineHandlerInFlight (Duration invitationDeclineHandlerDuration handler)"

definition invitationListHandlerDuration :: collector where
  "invitationListHandlerDuration = \<lparr>co_kind = SummaryVec, co_name = ''orus_api_handler'',
     co_help = ''The handlers duration and count.'', co_labels = [(''service'', ''invitationList'')], co_variable = [''code'']\<rparr>"

definition invitationListHandlerInFlight :: collector where
  "invitationListHandlerInFlight = \<lparr>co_kind = Gauge, co_name = ''orus_api_handler_in_flight'',
     co_help = ''The number of handlers currently running.'', co_labels = [(''service'', ''invitationList'')], co_variable = []\<rparr>"

definition InvitationListInstrumentHandler :: "'h wrapped \<Rightarrow> 'h wrapped" where
  "InvitationListInstrumentHandler handler = InFlight invitationListHandlerInFlight (Duration invitationListHandlerDuration handler)"

definition invitationSentListHandlerDuration :: collector where
  "invitationSentListHandlerDuration = \<lparr>co_kind = SummaryVec, co_name = ''orus_api_handler'',
     co_help = ''The handlers duration and count.'', co_labels = [(''service'', ''invitationSentList'')], co_variable = [''code'']\<rparr>"

definition invitationSentListHandlerInFlight :: collector where
  "invitationSentListHandlerInFlight = \<lparr>co_kind = Gauge, co_name = ''orus_api_handler_in_flight'',
     co_help = ''The number of handlers currently running.'', co_labels = [(''service'', ''invitationSentList'')], co_variable = []\<rparr>"

definition InvitationSentListInstrumentHandler :: "'h wrapped \<Rightarrow> 'h wrapped" where
  "InvitationSentListInstrumentHandler handler = InFlight invitationSentListHandlerInFlight (Duration invitationSentListHandlerDuration handler)"

definition notificationsHandlerDuration :: collector where
  "notificationsHandlerDuration = \<lparr>co_kind = SummaryVec, co_name = ''orus_api_handler'',
     co_help = ''The handlers duration and count.'', co_labels = [(''service'', ''notifications'')], co_variable = [''code'']\<rparr>"

definition notificationsHandlerInFlight :: collector where
  "notificationsHandlerInFlight = \<lparr>co_kind = Gauge, co_name = ''orus_api_handler_in_flight'',
     co_help = ''The number of handlers currently running.'', co_labels = [(''service'', ''notifications'')], co_variable = []\<rparr>"

definition NotificationsInstrumentHandler :: "'h wrapped \<Rightarrow> 'h wrapped" where
  "NotificationsInstrumentHandler handler = InFlight notificationsHandlerInFlight (Duration notificationsHandlerDuration handler)"

definition ordersStatusHandlerDuration :: collector where
  "ordersStatusHandlerDuration = \<lparr>co_kind = SummaryVec, co_name = ''orus_api_handler'',
     co_help = ''The handlers duration and count.'', co_labels = [(''service'', ''ordersStatus'')], co_variable = [''code'']\<rparr>"

definition ordersStatusHandlerInFlight :: collector where
  "ordersStatusHandlerInFlight = \<lparr>co_kind = Gauge, co_name = ''orus_api_handler_in_flight'',
     co_help = ''The number of handlers currently running.'', co_labels = [(''service'', ''ordersStatus'')], co_variable = []\<rparr>"

definition OrdersStatusInstrumentHandler :: "'h wrapped \<Rightarrow> 'h wrapped" where
  "OrdersStatusInstrumentHandler handler = InFlight ordersStatusHandlerInFlight (Duration ordersStatusHandlerDuration handler)"

definition pendingRegistrationApproveHandlerDuration :: collector where
  "pendingRegistrationApproveHandlerDuration = \<lparr>co_kind = SummaryVec, co_name = ''orus_api_handler'',
     co_help = ''The handlers duration and count.'', co_labels = [(''service'', ''pendingRegistrationApprove'')], co_variable = [''code'']\<rparr>"

definition pendingRegistrationApproveHandlerInFlight :: collector where
  "pendingRegistrationApproveHandlerInFlight = \<lparr>co_kind = Gauge, co_name = ''orus_api_handler_in_flight'',
     co_help = ''The number of handlers currently running.'', co_labels = [(''service'', ''pendingRegistrationApprove'')], co_variable = []\<rparr>"

definition PendingRegistrationApproveInstrumentHandler :: "'h wrapped \<Rightarrow> 'h wrapped" where
  "PendingRegistrationApproveInstrumentHandler handler = InFlight pendingRegistrationApproveHandlerInFlight (Duration pendingRegistrationApproveHandlerDuration handler)"

definition pendingRegistrationListHandlerDuration :: collector where
  "pendingRegistrationListHandlerDuration = \<lparr>co_kind = SummaryVec, co_name = ''orus_api_handler'',
     co_help = ''The handlers duration and count.'', co_labels = [(''service'', ''pendingRegistrationList'')], co_variable = [''code'']\<rparr>"

definition pendingRegistrationListHandlerInFlight :: collector where
  "pendingRegistrationListHandlerInFlight = \<lparr>co_kind = Gauge, co_name = ''orus_api_handler_in_flight'',
     co_help = ''The number of handlers currently running.'', co_labels = [(''service'', ''pendingRegistrationList'')], co_variable = []\<rparr>"

definition PendingRegistrationListInstrumentHandler :: "'h wrapped \<Rightarrow> 'h wrapped" where
  "PendingRegistrationListInstrumentHandler handler = InFlight pendingRegistrationListHandlerInFlight (Duration pendingRegistrationListHandlerDuration handler)"

definition pendingRegistrationRejectHandlerDuration :: collector where
  "pendingRegistrationRejectHandlerDuration = \<lparr>co_kind = SummaryVec, co_name = ''orus_api_handler'',
     co_help = ''The handlers duration and count.'', co_labels = [(''service'', ''pendingRegistrationReject'')], co_variable = [''code'']\<rparr>"

definition pendingRegistrationRejectHandlerInFlight :: collector where
  "pendingRegistrationRejectHandlerInFlight = \<lparr>co_kind = Gauge, co_name = ''orus_api_handler_in_flight'',
     co_help = ''The number of handlers currently running.'', co_labels = [(''service'', ''pendingRegistrationReject'')], co_variable = []\<rparr>"

definition PendingRegistrationRejectInstrumentHandler :: "'h wrapped \<Rightarrow> 'h wrapped" where
  "PendingRegistrationRejectInstrumentHandler handler = InFlight pendingRegistrationRejectHandlerInFlight (Duration pendingRegistrationRejectHandlerDuration handler)"

definition raceCreateHandlerDuration :: collector where
  "raceCreateHandlerDuration = \<lparr>co_kind = SummaryVec, co_name = ''orus_api_handler'',
     co_help = ''The handlers duration and count.'', co_labels = [(''service'', ''raceCreate'')], co_variable = [''code'']\<rparr>"

definition raceCreateHandlerInFlight :: collector where
  "raceCreateHandlerInFlight = \<lparr>co_kind = Gauge, co_name = ''orus_api_handler_in_flight'',
     co_help = ''The number of handlers currently running.'', co_labels = [(''service'', ''raceCreate'')], co_variable = []\<rparr>"

definition RaceCreateInstrumentHandler :: "'h wrapped \<Rightarrow> 'h wrapped" where
  "RaceCreateInstrumentHandler handler = InFlight raceCreateHandlerInFlight (Duration raceCreateHandlerDuration handler)"

definition raceDeleteHandlerDuration :: collector where
  "raceDeleteHandlerDuration = \<lparr>co_kind = SummaryVec, co_name = ''orus_api_handler'',
     co_help = ''The handlers duration and count.'', co_labels = [(''service'', ''raceDelete'')], co_variable = [''code'']\<rparr>"

definition raceDeleteHandlerInFlight :: collector where
  "raceDeleteHandlerInFlight = \<lparr>co_kind = Gauge, co_name = ''orus_api_handler_in_flight'',
     co_help = ''The number of handlers currently running.'', co_labels = [(''service'', ''raceDelete'')], co_variable = []\<rparr>"

definition RaceDeleteInstrumentHandler :: "'h wrapped \<Rightarrow> 'h wrapped" where
  "RaceDeleteInstrumentHandler handler = InFlight raceDeleteHandlerInFlight (Duration raceDeleteHandlerDuration handler)"

definition raceReadHandlerDuration :: collector where
  "raceReadHandlerDuration = \<lparr>co_kind = SummaryVec, co_name = ''orus_api_handler'',
     co_help = ''The handlers duration and count.'', co_labels = [(''service'', ''raceRead'')], co_variable = [''code'']\<rparr>"

definition raceReadHandlerInFlight :: collector where
  "raceReadHandlerInFlight = \<lparr>co_kind = Gauge, co_name = ''orus_api_handler_in_flight'',
     co_help = ''The number of handlers currently running.'', co_labels = [(''service'', ''raceRead'')], co_variable = []\<rparr>"

definition RaceReadInstrumentHandler :: "'h wrapped \<Rightarrow> 'h wrapped" where
  "RaceReadInstrumentHandler handler = InFlight raceReadHandlerInFlight (Duration raceReadHandlerDuration handler)"

definition racesListHandlerDuration :: collector where
  "racesListHandlerDuration = \<lparr>co_kind = SummaryVec, co_name = ''orus_api_handler'',
     co_help = ''The handlers duration and count.'', co_labels = [(''service'', ''racesList'')], co_variable = [''code'']\<rparr>"

definition racesListHandlerInFlight :: collector where
  "racesListHandlerInFlight = \<lparr>co_kind = Gauge, co_name = ''orus_api_handler_in_flight'',
     co_help = ''The number of handlers currently running.'', co_labels = [(''service'', ''racesList'')], co_variable = []\<rparr>"

definition RacesListInstrumentHandler :: "'h wrapped \<Rightarrow> 'h wrapped" where
  "RacesListInstrumentHandler handler = InFlight racesListHandlerInFlight (Duration racesListHandlerDuration handler)"

definition refreshTokenHandlerDuration :: collector where
  "refreshTokenHandlerDuration = \<lparr>co_kind = SummaryVec, co_name = ''orus_api_handler'',
     co_help = ''The handlers duration and count.'', co_labels = [(''service'', ''refresh-token'')], co_variable = [''code'']\<rparr>"

definition refreshTokenHandlerInFlight :: collector where
  "refreshTokenHandlerInFlight = \<lparr>co_kind = Gauge, co_name = ''orus_api_handler_in_flight'',
     co_help = ''The number of handlers currently running.'', co_labels = [(''service'', ''refresh-token'')], co_variable = []\<rparr>"

definition RefreshTokenInstrumentHandler :: "'h wrapped \<Rightarrow> 'h wrapped" where
  "RefreshTokenInstrumentHandler handler = InFlight refreshTokenHandlerInFlight (Duration refreshTokenHandlerDuration handler)"

definition registerHandlerDuration :: collector where
  "registerHandlerDuration = \<lparr>co_kind = SummaryVec, co_name = ''orus_api_handler'',
     co_help = ''The handlers duration and count.'', co_labels = [(''service'', ''register'')], co_variable = [''code'']\<rparr>"

definition registerHandlerInFlight :: collector where
  "registerHandlerInFlight = \<lparr>co_kind = Gauge, co_name = ''orus_api_handler_in_flight'',
     co_help = ''The number of handlers currently running.'', co_labels = [(''service'', ''register'')], co_variable = []\<rparr>"

definition RegisterInstrumentHandler :: "'h wrapped \<Rightarrow> 'h wrapped" where
  "RegisterInstrumentHandler handler = InFlight registerHandlerInFlight (Duration registerHandlerDuration handler)"

definition reorderPlayersHandlerDuration :: collector where
  "reorderPlayersHandlerDuration = \<lparr>co_kind = SummaryVec, co_name = ''orus_api_handler'',
     co_help = ''The handlers duration and count.'', co_labels = [(''service'', ''reorderPlayers'')], co_variable = [''code'']\<rparr>"

definition reorderPlayersHandlerInFlight :: collector where
  "reorderPlayersHandlerInFlight = \<lparr>co_kind = Gauge, co_name = ''orus_api_handler_in_flight'',
     co_help = ''The number of handlers currently running.'', co_labels = [(''service'', ''reorderPlayers'')], co_variable = []\<rparr>"

definition ReorderPlayersInstrumentHandler :: "'h wrapped \<Rightarrow> 'h wrapped" where
  "ReorderPlayersInstrumentHandler handler = InFlight reorderPlayersHandlerInFlight (Duration reorderPlayersHandlerDuration handler)"

definition rulesCreateHandlerDuration :: collector where
  "rulesCreateHandlerDuration = \<lparr>co_kind = SummaryVec, co_name = ''orus_api_handler'',
     co_help = ''The handlers duration and count.'', co_labels = [(''service'', ''rulesCreate'')], co_variable = [''code'']\<rparr>"

definition rulesCreateHandlerInFlight :: collector where
  "rulesCreateHandlerInFlight = \<lparr>co_kind = Gauge, co_name = ''orus_api_handler_in_flight'',
     co_help = ''The number of handlers currently running.'', co_labels = [(''service'', ''rulesCreate'')], co_variable = []\<rparr>"

definition RulesCreateInstrumentHandler :: "'h wrapped \<Rightarrow> 'h wrapped" where
  "RulesCreateInstrumentHandler handler = InFlight rulesCreateHandlerInFlight (Duration rulesCreateHandlerDuration handler)"

definition rulesReadHandlerDuration :: collector where
  "rulesReadHandlerDuration = \<lparr>co_kind = SummaryVec, co_name = ''orus_api_handler'',
     co_help = ''The handlers duration and count.'', co_labels = [(''service'', ''rulesRead'')], co_variable = [''code'']\<rparr>"

definition rulesReadHandlerInFlight :: collector where
  "rulesReadHandlerInFlight = \<lparr>co_kind = Gauge, co_name = ''orus_api_handler_in_flight'',
     co_help = ''The number of handlers currently running.'', co_labels = [(''service'', ''rulesRead'')], co_variable = []\<rparr>"

definition RulesReadInstrumentHandler :: "'h wrapped \<Rightarrow> 'h wrapped" where
  "RulesReadInstrumentHandler handler = InFlight rulesReadHandlerInFlight (Duration rulesReadHandlerDuration handler)"

definition sessionArchiveHandlerDuration :: collector where
  "sessionArchiveHandlerDuration = \<lparr>co_kind = SummaryVec, co_name = ''orus_api_handler'',
     co_help = ''The handlers duration and count.'', co_labels = [(''service'', ''sessionArchive'')], co_variable = [''code'']\<rparr>"

definition sessionArchiveHandlerInFlight :: collector where
  "sessionArchiveHandlerInFlight = \<lparr>co_kind = Gauge, co_name = ''orus_api_handler_in_flight'',
     co_help = ''The number of handlers currently running.'', co_labels = [(''service'', ''sessionArchive'')], co_variable = []\<rparr>"

definition SessionArchiveInstrumentHandler :: "'h wrapped \<Rightarrow> 'h wrapped" where
  "SessionArchiveInstrumentHandler handler = InFlight sessionArchiveHandlerInFlight (Duration sessionArchiveHandlerDuration handler)"

definition sessionCreateHandlerDuration :: collector where
  "sessionCreateHandlerDuration = \<lparr>co_kind = SummaryVec, co_name = ''orus_api_handler'',
     co_help = ''The handlers duration and count.'', co_labels = [(''service'', ''sessionCreate'')], co_variable = [''code'']\<rparr>"

definition sessionCreateHandlerInFlight :: collector where
  "sessionCreateHandlerInFlight = \<lparr>co_kind = Gauge, co_name = ''orus_api_handler_in_flight'',
     co_help = ''The number of handlers currently running.'', co_labels = [(''service'', ''sessionCreate'')], co_variable = []\<rparr>"

definition SessionCreateInstrumentHandler :: "'h wrapped \<Rightarrow> 'h wrapped" where
  "SessionCreateInstrumentHandler handler = InFlight sessionCreateHandlerInFlight (Duration sessionCreateHandlerDuration handler)"

definition sessionDeleteHandlerDuration :: collector where
  "sessionDeleteHandlerDuration = \<lparr>co_kind = SummaryVec, co_name = ''orus_api_handler'',
     co_help = ''The handlers duration and count.'', co_labels = [(''service'', ''sessionDelete'')], co_variable = [''code'']\<rparr>"

definition sessionDeleteHandlerInFlight :: collector where
  "sessionDeleteHandlerInFlight = \<lparr>co_kind = Gauge, co_name = ''orus_api_handler_in_flight'',
     co_help = ''The number of handlers currently running.'', co_labels = [(''service'', ''sessionDelete'')], co_variable = []\<rparr>"

definition SessionDeleteInstrumentHandler :: "'h wrapped \<Rightarrow> 'h wrapped" where
  "SessionDeleteInstrumentHandler handler = InFlight sessionDeleteHandlerInFlight (Duration sessionDeleteHandlerDuration handler)"

definition sessionFilesGetHandlerDuration :: collector where
  "sessionFilesGetHandlerDuration = \<lparr>co_kind = SummaryVec, co_name = ''orus_api_handler'',
     co_help = ''The handlers duration and count.'', co_labels = [(''service'', ''sessionFilesGet'')], co_variable = [''code'']\<rparr>"

definition sessionFilesGetHandlerInFlight :: collector where
  "sessionFilesGetHandlerInFlight = \<lparr>co_kind = Gauge, co_name = ''orus_api_handler_in_flight'',
     co_help = ''The number of handlers currently running.'', co_labels = [(''service'', ''sessionFilesGet'')], co_variable = []\<rparr>"

definition SessionFilesGetInstrumentHandler :: "'h wrapped \<Rightarrow> 'h wrapped" where
  "SessionFilesGetInstrumentHandler handler = InFlight sessionFilesGetHandlerInFlight (Duration sessionFilesGetHandlerDuration handler)"

definition sessionJoinHandlerDuration :: collector where
  "sessionJoinHandlerDuration = \<lparr>co_kind = SummaryVec, co_name = ''orus_api_handler'',
     co_help = ''The handlers duration and count.'', co_labels = [(''service'', ''sessionJoin'')], co_variable = [''code'']\<rparr>"

definition sessionJoinHandlerInFlight :: collector where
  "sessionJoinHandlerInFlight = \<lparr>co_kind = Gauge, co_name = ''orus_api_handler_in_flight'',
     co_help = ''The number of handlers currently running.'', co_labels = [(''service'', ''sessionJoin'')], co_variable = []\<rparr>"

definition SessionJoinInstrumentHandler :: "'h wrapped \<Rightarrow> 'h wrapped" where
  "SessionJoinInstrumentHandler handler = InFlight sessionJoinHandlerInFlight (Duration sessionJoinHandlerDuration handler)"

definition sessionPlayerControlHandlerDuration :: collector where
  "sessionPlayerControlHandlerDuration = \<lparr>co_kind = SummaryVec, co_name = ''orus_api_handler'',
     co_help = ''The handlers duration and count.'', co_labels = [(''service'', ''sessionPlayerControl'')], co_variable = [''code'']\<rparr>"

definition sessionPlayerControlHandlerInFlight :: collector where
  "sessionPlayerControlHandlerInFlight = \<lparr>co_kind = Gauge, co_name = ''orus_api_handler_in_flight'',
     co_help = ''The number of handlers currently running.'', co_labels = [(''service'', ''sessionPlayerControl'')], co_variable = []\<rparr>"

definition SessionPlayerControlInstrumentHandler :: "'h wrapped \<Rightarrow> 'h wrapped" where
  "SessionPlayerControlInstrumentHandler handler = InFlight sessionPlayerControlHandlerInFlight (Duration sessionPlayerControlHandlerDuration handler)"

definition sessionPlayerRaceCreateHandlerDuration :: collector where
  "sessionPlayerRaceCreateHandlerDuration = \<lparr>co_kind = SummaryVec, co_name = ''orus_api_handler'',
     co_help = ''The handlers duration and count.'', co_labels = [(''service'', ''sessionPlayerRaceCreate'')], co_variable = [''code'']\<rparr>"

definition sessionPlayerRaceCreateHandlerInFlight :: collector where
  "sessionPlayerRaceCreateHandlerInFlight = \<lparr>co_kind = Gauge, co_name = ''orus_api_handler_in_flight'',
     co_help = ''The number of handlers currently running.'', co_labels = [(''service'', ''sessionPlayerRaceCreate'')], co_variable = []\<rparr>"

definition SessionPlayerRaceCreateInstrumentHandler :: "'h wrapped \<Rightarrow> 'h wrapped" where
  "SessionPlayerRaceCreateInstrumentHandler handler = InFlight sessionPlayerRaceCreateHandlerInFlight (Duration sessionPlayerRaceCreateHandlerDuration handler)"

definition sessionPlayerRaceDeleteHandlerDuration :: collector where
  "sessionPlayerRaceDeleteHandlerDuration = \<lparr>co_kind = SummaryVec, co_name = ''orus_api_handler'',
     co_help = ''The handlers duration and count.'', co_labels = [(''service'', ''sessionPlayerRaceDelete'')], co_variable = [''code'']\<rparr>"

definition sessionPlayerRaceDeleteHandlerInFlight :: collector where
  "sessionPlayerRaceDeleteHandlerInFlight = \<lparr>co_kind = Gauge, co_name = ''orus_api_handler_in_flight'',
     co_help = ''The number of handlers currently running.'', co_labels = [(''service'', ''sessionPlayerRaceDelete'')], co_variable = []\<rparr>"

definition SessionPlayerRaceDeleteInstrumentHandler :: "'h wrapped \<Rightarrow> 'h wrapped" where
  "SessionPlayerRaceDeleteInstrumentHandler handler = InFlight sessionPlayerRaceDeleteHandlerInFlight (Duration sessionPlayerRaceDeleteHandlerDuration handler)"

definition sessionPlayerRaceGetHandlerDuration :: collector where
  "sessionPlayerRaceGetHandlerDuration = \<lparr>co_kind = SummaryVec, co_name = ''orus_api_handler'',
     co_help = ''The handlers duration and count.'', co_labels = [(''service'', ''sessionPlayerRaceGet'')], co_variable = [''code'']\<rparr>"

definition sessionPlayerRaceGetHandlerInFlight :: collector where
  "sessionPlayerRaceGetHandlerInFlight = \<lparr>co_kind = Gauge, co_name = ''orus_api_handler_in_flight'',
     co_help = ''The number of handlers currently running.'', co_labels = [(''service'', ''sessionPlayerRaceGet'')], co_variable = []\<rparr>"

definition SessionPlayerRaceGetInstrumentHandler :: "'h wrapped \<Rightarrow> 'h wrapped" where
  "SessionPlayerRaceGetInstrumentHandler handler = InFlight sessionPlayerRaceGetHandlerInFlight (Duration sessionPlayerRaceGetHandlerDuration handler)"

definition sessionPlayerRaceSetReadyHandlerDuration :: collector where
  "sessionPlayerRaceSetReadyHandlerDuration = \<lparr>co_kind = SummaryVec, co_name = ''orus_api_handler'',
     co_help = ''The handlers duration and count.'', co_labels = [(''service'', ''sessionPlayerRaceSetReady'')], co_variable = [''code'']\<rparr>"

definition sessionPlayerRaceSetReadyHandlerInFlight :: collector where
  "sessionPlayerRaceSetReadyHandlerInFlight = \<lparr>co_kind = Gauge, co_name = ''orus_api_handler_in_flight'',
     co_help = ''The number of handlers currently running.'', co_labels = [(''service'', ''sessionPlayerRaceSetReady'')], co_variable = []\<rparr>"

definition SessionPlayerRaceSetReadyInstrumentHandler :: "'h wrapped \<Rightarrow> 'h wrapped" where
  "SessionPlayerRaceSetReadyInstrumentHandler handler = InFlight sessionPlayerRaceSetReadyHandlerInFlight (Duration sessionPlayerRaceSetReadyHandlerDuration handler)"

definition sessionPlayerSwitchToAIHandlerDuration :: collector where
  "sessionPlayerSwitchToAIHandlerDuration = \<lparr>co_kind = SummaryVec, co_name = ''orus_api_handler'',
     co_help = ''The handlers duration and count.'', co_labels = [(''service'', ''sessionPlayerSwitchToAI'')], co_variable = [''code'']\<rparr>"

definition sessionPlayerSwitchToAIHandlerInFlight :: collector where
  "sessionPlayerSwitchToAIHandlerInFlight = \<lparr>co_kind = Gauge, co_name = ''orus_api_handler_in_flight'',
     co_help = ''The number of handlers currently running.'', co_labels = [(''service'', ''sessionPlayerSwitchToAI'')], co_variable = []\<rparr>"

definition SessionPlayerSwitchToAIInstrumentHandler :: "'h wrapped \<Rightarrow> 'h wrapped" where
  "SessionPlayerSwitchToAIInstrumentHandler handler = InFlight sessionPlayerSwitchToAIHandlerInFlight (Duration sessionPlayerSwitchToAIHandlerDuration handler)"

definition sessionPlayerSwitchToHumanHandlerDuration :: collector where
  "sessionPlayerSwitchToHumanHandlerDuration = \<lparr>co_kind = SummaryVec, co_name = ''orus_api_handler'',
     co_help = ''The handlers duration and count.'', co_labels = [(''service'', ''sessionPlayerSwitchToHuman'')], co_variable = [''code'']\<rparr>"

definition sessionPlayerSwitchToHumanHandlerInFlight :: collector where
  "sessionPlayerSwitchToHumanHandlerInFlight = \<lparr>co_kind = Gauge, co_name = ''orus_api_handler_in_flight'',
     co_help = ''The number of handlers currently running.'', co_labels = [(''service'', ''sessionPlayerSwitchToHuman'')], co_variable = []\<rparr>"

definition SessionPlayerSwitchToHumanInstrumentHandler :: "'h wrapped \<Rightarrow> 'h wrapped" where
  "SessionPlayerSwitchToHumanInstrumentHandler handler = InFlight sessionPlayerSwitchToHumanHandlerInFlight (Duration sessionPlayerSwitchToHumanHandlerDuration handler)"

definition sessionPromoteMemberHandlerDuration :: collector where
  "sessionPromoteMemberHandlerDuration = \<lparr>co_kind = SummaryVec, co_name = ''orus_api_handler'',
     co_help = ''The handlers duration and count.'', co_labels = [(''service'', ''sessionPromoteMember'')], co_variable = [''code'']\<rparr>"

definition sessionPromoteMemberHandlerInFlight :: collector where
  "sessionPromoteMemberHandlerInFlight = \<lparr>co_kind = Gauge, co_name = ''orus_api_handler_in_flight'',
     co_help = ''The number of handlers currently running.'', co_labels = [(''service'', ''sessionPromoteMember'')], co_variable = []\<rparr>"

definition SessionPromoteMemberInstrumentHandler :: "'h wrapped \<Rightarrow> 'h wrapped" where
  "SessionPromoteMemberInstrumentHandler handler = InFlight sessionPromoteMemberHandlerInFlight (Duration sessionPromoteMemberHandlerDuration handler)"

definition sessionQuitHandlerDuration :: collector where
  "sessionQuitHandlerDuration = \<lparr>co_kind = SummaryVec, co_name = ''orus_api_handler'',
     co_help = ''The handlers duration and count.'', co_labels = [(''service'', ''sessionQuit'')], co_variable = [''code'']\<rparr>"

definition sessionQuitHandlerInFlight :: collector where
  "sessionQuitHandlerInFlight = \<lparr>co_kind = Gauge, co_name = ''orus_api_handler_in_flight'',
     co_help = ''The number of handlers currently running.'', co_labels = [(''service'', ''sessionQuit'')], co_variable = []\<rparr>"

definition SessionQuitInstrumentHandler :: "'h wrapped \<Rightarrow> 'h wrapped" where
  "SessionQuitInstrumentHandler handler = InFlight sessionQuitHandlerInFlight (Duration sessionQuitHandlerDuration handler)"

definition sessionReadHandlerDuration :: collector where
  "sessionReadHandlerDuration = \<lparr>co_kind = SummaryVec, co_name = ''orus_api_handler'',
     co_help = ''The handlers duration and count.'', co_labels = [(''service'', ''sessionRead'')], co_variable = [''code'']\<rparr>"

definition sessionReadHandlerInFlight :: collector where
  "sessionReadHandlerInFlight = \<lparr>co_kind = Gauge, co_name = ''orus_api_handler_in_flight'',
     co_help = ''The number of handlers currently running.'', co_labels = [(''service'', ''sessionRead'')], co_variable = []\<rparr>"

definition SessionReadInstrumentHandler :: "'h wrapped \<Rightarrow> 'h wrapped" where
  "SessionReadInstrumentHandler handler = InFlight sessionReadHandlerInFlight (Duration sessionReadHandlerDuration handler)"

definition sessionUpdateHandlerDuration :: collector where
  "sessionUpdateHandlerDuration = \<lparr>co_kind = SummaryVec, co_name = ''orus_api_handler'',
     co_help = ''The handlers duration and count.'', co_labels = [(''service'', ''sessionUpdate'')], co_variable = [''code'']\<rparr>"

definition sessionUpdateHandlerInFlight :: collector where
  "sessionUpdateHandlerInFlight = \<lparr>co_kind = Gauge, co_name = ''orus_api_handler_in_flight'',
     co_help = ''The number of handlers currently running.'', co_labels = [(''service'', ''sessionUpdate'')], co_variable = []\<rparr>"

definition SessionUpdateInstrumentHandler :: "'h wrapped \<Rightarrow> 'h wrapped" where
  "SessionUpdateInstrumentHandler handler = InFlight sessionUpdateHandlerInFlight (Duration sessionUpdateHandlerDuration handler)"

definition sessionsListHandlerDuration :: collector where
  "sessionsListHandlerDuration = \<lparr>co_kind = SummaryVec, co_name = ''orus_api_handler'',
     co_help = ''The handlers duration and count.'', co_labels = [(''service'', ''sessionsList'')], co_variable = [''code'']\<rparr>"

definition sessionsListHandlerInFlight :: collector where
  "sessionsListHandlerInFlight = \<lparr>co_kind = Gauge, co_name = ''orus_api_handler_in_flight'',
     co_help = ''The number of handlers currently running.'', co_labels = [(''service'', ''sessionsList'')], co_variable = []\<rparr>"

definition SessionsListInstrumentHandler :: "'h wrapped \<Rightarrow> 'h wrapped" where
  "SessionsListInstrumentHandler handler = InFlight sessionsListHandlerInFlight (Duration sessionsListHandlerDuration handler)"

definition turnGetHandlerDuration :: collector where
  "turnGetHandlerDuration = \<lparr>co_kind = SummaryVec, co_name = ''orus_api_handler'',
     co_help = ''The handlers duration and count.'', co_labels = [(''service'', ''turnGet'')], co_variable = [''code'']\<rparr>"

definition turnGetHandlerInFlight :: collector where
  "turnGetHandlerInFlight = \<lparr>co_kind = Gauge, co_name = ''orus_api_handler_in_flight'',
     co_help = ''The number of handlers currently running.'', co_labels = [(''service'', ''turnGet'')], co_variable = []\<rparr>"

definition TurnGetInstrumentHandler :: "'h wrapped \<Rightarrow> 'h wrapped" where
  "TurnGetInstrumentHandler handler = InFlight turnGetHandlerInFlight (Duration turnGetHandlerDuration handler)"

definition turnLatestHandlerDuration :: collector where
  "turnLatestHandlerDuration = \<lparr>co_kind = SummaryVec, co_name = ''orus_api_handler'',
     co_help = ''The handlers duration and count.'', co_labels = [(''service'', ''turnLatest'')], co_variable = [''code'']\<rparr>"

definition turnLatestHandlerInFlight :: collector where
  "turnLatestHandlerInFlight = \<lparr>co_kind = Gauge, co_name = ''orus_api_handler_in_flight'',
     co_help = ''The number of handlers currently running.'', co_labels = [(''service'', ''turnLatest'')], co_variable = []\<rparr>"

definition TurnLatestInstrumentHandler :: "'h wrapped \<Rightarrow> 'h wrapped" where
  "TurnLatestInstrumentHandler handler = InFlight turnLatestHandlerInFlight (Duration turnLatestHandlerDuration handler)"

definition turnSubmitHandlerDuration :: collector where
  "turnSubmitHandlerDuration = \<lparr>co_kind = SummaryVec, co_name = ''orus_api_handler'',
     co_help = ''The handlers duration and count.'', co_labels = [(''service'', ''turnSubmit'')], co_variable = [''code'']\<rparr>"

definition turnSubmitHandlerInFlight :: collector where
  "turnSubmitHandlerInFlight = \<lparr>co_kind = Gauge, co_name = ''orus_api_handler_in_flight'',
     co_help = ''The number of handlers currently running.'', co_labels = [(''service'', ''turnSubmit'')], co_variable = []\<rparr>"

definition TurnSubmitInstrumentHandler :: "'h wrapped \<Rightarrow> 'h wrapped" where
  "TurnSubmitInstrumentHandler handler = InFlight turnSubmitHandlerInFlight (Duration turnSubmitHandlerDuration handler)"

definition userProfileCreateHandlerDuration :: collector where
  "userProfileCreateHandlerDuration = \<lparr>co_kind = SummaryVec, co_name = ''orus_api_handler'',
     co_help = ''The handlers duration and count.'', co_labels = [(''service'', ''userProfileCreate'')], co_variable = [''code'']\<rparr>"

definition userProfileCreateHandlerInFlight :: collector where
  "userProfileCreateHandlerInFlight = \<lparr>co_kind = Gauge, co_name = ''orus_api_handler_in_flight'',
     co_help = ''The number of handlers currently running.'', co_labels = [(''service'', ''userProfileCreate'')], co_variable = []\<rparr>"

definition UserProfileCreateInstrumentHandler :: "'h wrapped \<Rightarrow> 'h wrapped" where
  "UserProfileCreateInstrumentHandler handler = InFlight userProfileCreateHandlerInFlight (Duration userProfileCreateHandlerDuration handler)"

definition userProfileDeleteHandlerDuration :: collector where
  "userProfileDeleteHandlerDuration = \<lparr>co_kind = SummaryVec, co_name = ''orus_api_handler'',
     co_help = ''The handlers duration and count.'', co_labels = [(''service'', ''userProfileDelete'')], co_variable = [''code'']\<rparr>"

definition userProfileDeleteHandlerInFlight :: collector where
  "userProfileDeleteHandlerInFlight = \<lparr>co_kind = Gauge, co_name = ''orus_api_handler_in_flight'',
     co_help = ''The number of handlers currently running.'', co_labels = [(''service'', ''userProfileDelete'')], co_variable = []\<rparr>"

definition UserProfileDeleteInstrumentHandler :: "'h wrapped \<Rightarrow> 'h wrapped" where
  "UserProfileDeleteInstrumentHandler handler = InFlight userProfileDeleteHandlerInFlight (Duration userProfileDeleteHandlerDuration handler)"

definition userProfileListHandlerDuration :: collector where
  "userProfileListHandlerDuration = \<lparr>co_kind = SummaryVec, co_name = ''orus_api_handler'',
     co_help = ''The handlers duration and count.'', co_labels = [(''service'', ''userProfileList'')], co_variable = [''code'']\<rparr>"

definition userProfileListHandlerInFlight :: collector where
  "userProfileListHandlerInFlight = \<lparr>co_kind = Gauge, co_name = ''orus_api_handler_in_flight'',
     co_help = ''The number of handlers currently running.'', co_labels = [(''service'', ''userProfileList'')], co_variable = []\<rparr>"

definition UserProfileListInstrumentHandler :: "'h wrapped \<Rightarrow> 'h wrapped" where
  "UserProfileListInstrumentHandler handler = InFlight userProfileListHandlerInFlight (Duration userProfileListHandlerDuration handler)"

definition userProfileReadHandlerDuration :: collector where
  "userProfileReadHandlerDuration = \<lparr>co_kind = SummaryVec, co_name = ''orus_api_handler'',
     co_help = ''The handlers duration and count.'', co_labels = [(''service'', ''userProfileRead'')], co_variable = [''code'']\<rparr>"

definition userProfileReadHandlerInFlight :: collector where
  "userProfileReadHandlerInFlight = \<lparr>co_kind = Gauge, co_name = ''orus_api_handler_in_flight'',
     co_help = ''The number of handlers currently running.'', co_labels = [(''service'', ''userProfileRead'')], co_variable = []\<rparr>"

definition UserProfileReadInstrumentHandler :: "'h wrapped \<Rightarrow> 'h wrapped" where
  "UserProfileReadInstrumentHandler handler = InFlight userProfileReadHandlerInFlight (Duration userProfileReadHandlerDuration handler)"

definition userProfileResetApikeyHandlerDuration :: collector where
  "userProfileResetApikeyHandlerDuration = \<lparr>co_kind = SummaryVec, co_name = ''orus_api_handler'',
     co_help = ''The handlers duration and count.'', co_labels = [(''service'', ''userProfileResetApikey'')], co_variable = [''code'']\<rparr>"

definition userProfileResetApikeyHandlerInFlight :: collector where
  "userProfileResetApikeyHandlerInFlight = \<lparr>co_kind = Gauge, co_name = ''orus_api_handler_in_flight'',
     co_help = ''The number of handlers currently running.'', co_labels = [(''service'', ''userProfileResetApikey'')], co_variable = []\<rparr>"

definition UserProfileResetApikeyInstrumentHandler :: "'h wrapped \<Rightarrow> 'h wrapped" where
  "UserProfileResetApikeyInstrumentHandler handler = InFlight userProfileResetApikeyHandlerInFlight (Duration userProfileResetApikeyHandlerDuration handler)"

definition userProfileUpdateHandlerDuration :: collector where
  "userProfileUpdateHandlerDuration = \<lparr>co_kind = SummaryVec, co_name = ''orus_api_handler'',
     co_help = ''The handlers duration and count.'', co_labels = [(''service'', ''userProfileUpdate'')], co_variable = [''code'']\<rparr>"

definition userProfileUpdateHandlerInFlight :: collector where
  "userProfileUpdateHandlerInFlight = \<lparr>co_kind = Gauge, co_name = ''orus_api_handler_in_flight'',
     co_help = ''The number of handlers currently running.'', co_labels = [(''service'', ''userProfileUpdate'')], co_variable = []\<rparr>"

definition UserProfileUpdateInstrumentHandler :: "'h wrapped \<Rightarrow> 'h wrapped" where
  "UserProfileUpdateInstrumentHandler handler = InFlight userProfileUpdateHandlerInFlight (Duration userProfileUpdateHandlerDuration handler)"

definition userinfoHandlerDuration :: collector where
  "userinfoHandlerDuration = \<lparr>co_kind = SummaryVec, co_name = ''orus_api_handler'',
     co_help = ''The handlers duration and count.'', co_labels = [(''service'', ''userinfo'')], co_variable = [''code'']\<rparr>"

definition userinfoHandlerInFlight :: collector where
  "userinfoHandlerInFlight = \<lparr>co_kind = Gauge, co_name = ''orus_api_handler_in_flight'',
     co_help = ''The number of handlers currently running.'', co_labels = [(''service'', ''userinfo'')], co_variable = []\<rparr>"

definition UserinfoInstrumentHandler :: "'h wrapped \<Rightarrow> 'h wrapped" where
  "UserinfoInstrumentHandler handler = InFlight userinfoHandlerInFlight (Duration userinfoHandlerDuration handler)"

subsection \<open>Wrapping\<close>

text \<open>An assignment to the entry of a method that has no map is a panic.\<close>

definition rewrap ::
    "string \<Rightarrow> string \<Rightarrow> ('h wrapped \<Rightarrow> 'h wrapped) \<Rightarrow> 'h wrapped handlers \<Rightarrow> err + 'h wrapped handlers" where
  "rewrap verb path f hs = (case hs verb of
     None \<Rightarrow> Inl Panic
   | Some paths \<Rightarrow> Inr (hs(verb \<mapsto> paths(path \<mapsto> f (case paths path of None \<Rightarrow> No_handler | Some h \<Rightarrow> h)))))"

fun rewrap_all ::
    "(string \<times> string \<times> ('h wrapped \<Rightarrow> 'h wrapped)) list \<Rightarrow> 'h wrapped handlers \<Rightarrow> err + 'h wrapped handlers" where
  "rewrap_all [] hs = Inr hs"
| "rewrap_all ((verb, path, f) # ws) hs = and_then (rewrap verb path f hs) (rewrap_all ws)"

definition prometheus_wrappers :: "(string \<times> string \<times> ('h wrapped \<Rightarrow> 'h wrapped)) list" where
  "prometheus_wrappers = [
     (''POST'', ''/v1/auth/authenticate'', AuthenticateInstrumentHandler),
     (''GET'', ''/v1/downloads/stars.exe'', DownloadStarsExeInstrumentHandler),
     (''POST'', ''/v1/sessions/{session_id}/game'', GameCreateInstrumentHandler),
     (''GET'', ''/healthz'', HealthCheckInstrumentHandler),
     (''GET'', ''/v1/sessions/{session_id}/backup'', HistoricBackupInstrumentHandler),
     (''PUT'', ''/v1/invitations/{invitation_id}'', InvitationAcceptInstrumentHandler),
     (''POST'', ''/v1/sessions/{session_id}/invite'', InvitationCreateInstrumentHandler),
     (''DELETE'', ''/v1/invitations/{invitation_id}'', InvitationDeclineInstrumentHandler),
     (''GET'', ''/v1/invitations'', InvitationListInstrumentHandler),
     (''GET'', ''/v1/invitations/sent'', InvitationSentListInstrumentHandler),
     (''GET'', ''/v1/notifications'', NotificationsInstrumentHandler),
     (''GET'', ''/v1/sessions/{session_id}/orders/{year}'', OrdersStatusInstrumentHandler),
     (''POST'', ''/v1/pending_registrations/{user_profile_id}/approve'', PendingRegistrationApproveInstrumentHandler),
     (''GET'', ''/v1/pending_registrations'', PendingRegistrationListInstrumentHandler),
     (''DELETE'', ''/v1/pending_registrations/{user_profile_id}/reject'', PendingRegistrationRejectInstrumentHandler),
     (''POST'', ''/v1/user_profiles/{user_profile_id}/races'', RaceCreateInstrumentHandler),
     (''DELETE'', ''/v1/user_profiles/{user_profile_id}/races/{race_id}'', RaceDeleteInstrumentHandler),
     (''GET'', ''/v1/user_profiles/{user_profile_id}/races/{race_id}'', RaceReadInstrumentHandler),
     (''GET'', ''/v1/user_profiles/{user_profile_id}/races'', RacesListInstrumentHandler),
     (''POST'', ''/v1/auth/refresh_token'', RefreshTokenInstrumentHandler),
     (''POST'', ''/v1/auth/register'', RegisterInstrumentHandler),
     (''PUT'', ''/v1/sessions/{session_id}/reorder_players'', ReorderPlayersInstrumentHandler),
     (''POST'', ''/v1/sessions/{session_id}/rules'', RulesCreateInstrumentHandler),
     (''GET'', ''/v1/sessions/{session_id}/rules'', RulesReadInstrumentHandler),
     (''POST'', ''/v1/sessions/{session_id}/archive'', SessionArchiveInstrumentHandler),
     (''POST'', ''/v1/sessions'', SessionCreateInstrumentHandler),
     (''DELETE'', ''/v1/sessions/{session_id}'', SessionDeleteInstrumentHandler),
     (''GET'', ''/v1/sessions/{session_id}/files'', SessionFilesGetInstrumentHandler),
     (''POST'', ''/v1/sessions/{session_id}/join'', SessionJoinInstrumentHandler),
     (''GET'', ''/v1/sessions/{session_id}/player_control'', SessionPlayerControlInstrumentHandler),
     (''POST'', ''/v1/sessions/{session_id}/player_race'', SessionPlayerRaceCreateInstrumentHandler),
     (''DELETE'', ''/v1/sessions/{session_id}/player_race/{player_race_id}'', SessionPlayerRaceDeleteInstrumentHandler),
     (''GET'', ''/v1/sessions/{session_id}/player_race'', SessionPlayerRaceGetInstrumentHandler),
     (''PUT'', ''/v1/sessions/{session_id}/player_race/ready'', SessionPlayerRaceSetReadyInstrumentHandler),
     (''POST'', ''/v1/sessions/{session_id}/player/{player_order}/switch_to_ai'', SessionPlayerSwitchToAIInstrumentHandler),
     (''POST'', ''/v1/sessions/{session_id}/player/{player_order}/switch_to_human'', SessionPlayerSwitchToHumanInstrumentHandler),
     (''POST'', ''/v1/sessions/{session_id}/promote/{user_profile_id}'', SessionPromoteMemberInstrumentHandler),
     (''POST'', ''/v1/sessions/{session_id}/quit'', SessionQuitInstrumentHandler),
     (''GET'', ''/v1/sessions/{session_id}'', SessionReadInstrumentHandler),
     (''PUT'', ''/v1/sessions/{session_id}'', SessionUpdateInstrumentHandler),
     (''GET'', ''/v1/sessions'', SessionsListInstrumentHandler),
     (''GET'', ''/v1/sessions/{session_id}/turn/{year}'', TurnGetInstrumentHandler),
     (''GET'', ''/v1/sessions/{session_id}/turn/latest'', TurnLatestInstrumentHandler),
     (''PUT'', ''/v1/sessions/{session_id}/turn/{year}'', TurnSubmitInstrumentHandler),
     (''POST'', ''/v1/user_profiles'', UserProfileCreateInstrumentHandler),
     (''DELETE'', ''/v1/user_profiles/{user_profile_id}'', UserProfileDeleteInstrumentHandler),
     (''GET'', ''/v1/user_profiles'', UserProfileListInstrumentHandler),
     (''GET'', ''/v1/user_profiles/{user_profile_id}'', UserProfileReadInstrumentHandler),
     (''POST'', ''/v1/user_profiles/{user_profile_id}/reset_apikey'', UserProfileResetApikeyInstrumentHandler),
     (''PUT'', ''/v1/user_profiles/{user_profile_id}'', UserProfileUpdateInstrumentHandler),
     (''GET'', ''/v1/auth/userinfo'', UserinfoInstrumentHandler)]"

definition PrometheusInstrumentHandlers :: "'h wrapped handlers \<Rightarrow> err + 'h wrapped handlers" where
  "PrometheusInstrumentHandlers hs = rewrap_all prometheus_wrappers hs"

definition LogOperation :: "string \<Rightarrow> string \<Rightarrow> 'h wrapped option \<Rightarrow> 'h wrapped" where
  "LogOperation tag operationID nxt = Logged tag operationID (case nxt of None \<Rightarrow> No_handler | Some h \<Rightarrow> h)"

text \<open>The end of \<open>ConfigureAPI\<close>; the metrics are an option of the server.\<close>

definition instrument :: "bool \<Rightarrow> 'h wrapped handlers \<Rightarrow> err + 'h wrapped handlers" where
  "instrument prometheus hs =
    and_then (if prometheus then PrometheusInstrumentHandlers hs else Inr hs) (LoggingInstrumentHandlers LogOperation)"

subsection \<open>Registration\<close>

definition registration_labels :: "(string \<times> string) list" where
  "registration_labels = [(''api_name'', ''Neper''), (''api_title'', ''Neper API''), (''api_version'', ''1.0.0'')]"

definition registered_collectors :: "collector list list" where
  "registered_collectors = [
     [authenticateHandlerDuration, authenticateHandlerInFlight],
     [downloadStarsExeHandlerDuration, downloadStarsExeHandlerInFlight],
     [gameCreateHandlerDuration, gameCreateHandlerInFlight],
     [healthCheckHandlerDuration, healthCheckHandlerInFlight],
     [historicBackupHandlerDuration, historicBackupHandlerInFlight],
     [invitationAcceptHandlerDuration, invitationAcceptHandlerInFlight],
     [invitationCreateHandlerDuration, invitationCreateHandlerInFlight],
     [invitationDeclineHandlerDuration, invitationDeclineHandlerInFlight],
     [invitationListHandlerDuration, invitationListHandlerInFlight],
     [invitationSentListHandlerDuration, invitationSentListHandlerInFlight],
     [notificationsHandlerDuration, notificationsHandlerInFlight],
     [ordersStatusHandlerDuration, ordersStatusHandlerInFlight],
     [pendingRegistrationApproveHandlerDuration, pendingRegistrationApproveHandlerInFlight],
     [pendingRegistrationListHandlerDuration, pendingRegistrationListHandlerInFlight],
     [pendingRegistrationRejectHandlerDuration, pendingRegistrationRejectHandlerInFlight],
     [raceCreateHandlerDuration, raceCreateHandlerInFlight],
     [raceDeleteHandlerDuration, raceDeleteHandlerInFlight],
     [raceReadHandlerDuration, raceReadHandlerInFlight],
     [racesListHandlerDuration, racesListHandlerInFlight],
     [refreshTokenHandlerDuration, refreshTokenHandlerInFlight],
     [registerHandlerDuration, registerHandlerInFlight],
     [reorderPlayersHandlerDuration, reorderPlayersHandlerInFlight],
     [rulesCreateHandlerDuration, rulesCreateHandlerInFlight],
     [rulesReadHandlerDuration, rulesReadHandlerInFlight],
     [sessionArchiveHandlerDuration, sessionArchiveHandlerInFlight],
     [sessionCreateHandlerDuration, sessionCreateHandlerInFlight],
     [sessionDeleteHandlerDuration, sessionDeleteHandlerInFlight],
     [sessionFilesGetHandlerDuration, sessionFilesGetHandlerInFlight],
     [sessionJoinHandlerDuration, sessionJoinHandlerInFlight],
     [sessionPlayerControlHandlerDuration, sessionPlayerControlHandlerInFlight],
     [sessionPlayerRaceCreateHandlerDuration, sessionPlayerRaceCreateHandlerInFlight],
     [sessionPlayerRaceDeleteHandlerDuration, sessionPlayerRaceDeleteHandlerInFlight],
     [sessionPlayerRaceGetHandlerDuration, sessionPlayerRaceGetHandlerInFlight],
     [sessionPlayerRaceSetReadyHandlerDuration, sessionPlayerRaceSetReadyHandlerInFlight],
     [sessionPlayerSwitchToAIHandlerDuration, sessionPlayerSwitchToAIHandlerInFlight],
     [sessionPlayerSwitchToHumanHandlerDuration, sessionPlayerSwitchToHumanHandlerInFlight],
     [sessionPromoteMemberHandlerDuration, sessionPromoteMemberHandlerInFlight],
     [sessionQuitHandlerDuration, sessionQuitHandlerInFlight],
     [sessionReadHandlerDuration, sessionReadHandlerInFlight],
     [sessionUpdateHandlerDuration, sessionUpdateHandlerInFlight],
     [sessionsListHandlerDuration, sessionsListHandlerInFlight],
     [turnGetHandlerDuration, turnGetHandlerInFlight],
     [turnLatestHandlerDuration, turnLatestHandlerInFlight],
     [turnSubmitHandlerDuration, turnSubmitHandlerInFlight],
     [userProfileCreateHandlerDuration, userProfileCreateHandlerInFlight],
     [userProfileDeleteHandlerDuration, userProfileDeleteHandlerInFlight],
     [userProfileListHandlerDuration, userProfileListHandlerInFlight],
     [userProfileReadHandlerDuration, userProfileReadHandlerInFlight],
     [userProfileResetApikeyHandlerDuration, userProfileResetApikeyHandlerInFlight],
     [userProfileUpdateHandlerDuration, userProfileUpdateHandlerInFlight],
     [userinfoHandlerDuration, userinfoHandlerInFlight]]"

text \<open>
  \<open>MustRegister\<close> panics when the registry refuses a collector; the registry is a parameter, a function
  of the collectors it holds and of the new one. The wrapped registerer adds its labels to those of a collector.
\<close>

definition wrap_labels :: "(string \<times> string) list \<Rightarrow> collector \<Rightarrow> collector" where
  "wrap_labels labels c = c\<lparr>co_labels := co_labels c @ labels\<rparr>"

fun MustRegister :: "(collector list \<Rightarrow> collector \<Rightarrow> bool) \<Rightarrow> collector list \<Rightarrow> collector list \<Rightarrow> err + collector list" where
  "MustRegister accepts [] reg = Inr reg"
| "MustRegister accepts (c # cs) reg =
    (if accepts reg c then MustRegister accepts cs (reg @ [c]) else Inl Panic)"

fun RegisterPrometheus ::
    "(collector list \<Rightarrow> collector \<Rightarrow> bool) \<Rightarrow> collector list list \<Rightarrow> collector list \<Rightarrow> err + collector list" where
  "RegisterPrometheus accepts [] reg = Inr reg"
| "RegisterPrometheus accepts (cs # rest) reg =
    and_then (MustRegister accepts (map (wrap_labels registration_labels) cs) reg) (RegisterPrometheus accepts rest)"

text \<open>
  The documented rules of the registry: a collector is accepted if no other has the same name and
  the same constant labels, and those of the same name have the same help and the same names of labels.
\<close>

definition compatible :: "collector \<Rightarrow> collector \<Rightarrow> bool" where
  "compatible c c' = (co_name c = co_name c' \<longrightarrow>
     co_labels c \<noteq> co_labels c' \<and> co_help c = co_help c' \<and> map fst (co_labels c) = map fst (co_labels c') \<and>
     co_variable c = co_variable c')"

definition accepts_compatible :: "(collector list \<Rightarrow> collector \<Rightarrow> bool) \<Rightarrow> bool" where
  "accepts_compatible accepts = (\<forall>reg c. list_all (compatible c) reg \<longrightarrow> accepts reg c)"

subsection \<open>The collectors of an operation\<close>

fun duration_of :: "api_operation \<Rightarrow> collector" where
  "duration_of OpAuthenticate = authenticateHandlerDuration"
| "duration_of OpDownloadStarsExe = downloadStarsExeHandlerDuration"
| "duration_of OpGameCreate = gameCreateHandlerDuration"
| "duration_of OpHealthCheck = healthCheckHandlerDuration"
| "duration_of OpHistoricBackup = historicBackupHandlerDuration"
| "duration_of OpInvitationAccept = invitationAcceptHandlerDuration"
| "duration_of OpInvitationCreate = invitationCreateHandlerDuration"
| "duration_of OpInvitationDecline = invitationDeclineHandlerDuration"
| "duration_of OpInvitationList = invitationListHandlerDuration"
| "duration_of OpInvitationSentList = invitationSentListHandlerDuration"
| "duration_of OpNotifications = notificationsHandlerDuration"
| "duration_of OpOrdersStatus = ordersStatusHandlerDuration"
| "duration_of OpPendingRegistrationApprove = pendingRegistrationApproveHandlerDuration"
| "duration_of OpPendingRegistrationList = pendingRegistrationListHandlerDuration"
| "duration_of OpPendingRegistrationReject = pendingRegistrationRejectHandlerDuration"
| "duration_of OpRaceCreate = raceCreateHandlerDuration"
| "duration_of OpRaceDelete = raceDeleteHandlerDuration"
| "duration_of OpRaceRead = raceReadHandlerDuration"
| "duration_of OpRacesList = racesListHandlerDuration"
| "duration_of OpRefreshToken = refreshTokenHandlerDuration"
| "duration_of OpRegister = registerHandlerDuration"
| "duration_of OpReorderPlayers = reorderPlayersHandlerDuration"
| "duration_of OpRulesCreate = rulesCreateHandlerDuration"
| "duration_of OpRulesRead = rulesReadHandlerDuration"
| "duration_of OpSessionArchive = sessionArchiveHandlerDuration"
| "duration_of OpSessionCreate = sessionCreateHandlerDuration"
| "duration_of OpSessionDelete = sessionDeleteHandlerDuration"
| "duration_of OpSessionFilesGet = sessionFilesGetHandlerDuration"
| "duration_of OpSessionJoin = sessionJoinHandlerDuration"
| "duration_of OpSessionPlayerControl = sessionPlayerControlHandlerDuration"
| "duration_of OpSessionPlayerRaceCreate = sessionPlayerRaceCreateHandlerDuration"
| "duration_of OpSessionPlayerRaceDelete = sessionPlayerRaceDeleteHandlerDuration"
| "duration_of OpSessionPlayerRaceGet = sessionPlayerRaceGetHandlerDuration"
| "duration_of OpSessionPlayerRaceSetReady = sessionPlayerRaceSetReadyHandlerDuration"
| "duration_of OpSessionPlayerSwitchToAI = sessionPlayerSwitchToAIHandlerDuration"
| "duration_of OpSessionPlayerSwitchToHuman = sessionPlayerSwitchToHumanHandlerDuration"
| "duration_of OpSessionPromoteMember = sessionPromoteMemberHandlerDuration"
| "duration_of OpSessionQuit = sessionQuitHandlerDuration"
| "duration_of OpSessionRead = sessionReadHandlerDuration"
| "duration_of OpSessionUpdate = sessionUpdateHandlerDuration"
| "duration_of OpSessionsList = sessionsListHandlerDuration"
| "duration_of OpTurnGet = turnGetHandlerDuration"
| "duration_of OpTurnLatest = turnLatestHandlerDuration"
| "duration_of OpTurnSubmit = turnSubmitHandlerDuration"
| "duration_of OpUserProfileCreate = userProfileCreateHandlerDuration"
| "duration_of OpUserProfileDelete = userProfileDeleteHandlerDuration"
| "duration_of OpUserProfileList = userProfileListHandlerDuration"
| "duration_of OpUserProfileRead = userProfileReadHandlerDuration"
| "duration_of OpUserProfileResetApikey = userProfileResetApikeyHandlerDuration"
| "duration_of OpUserProfileUpdate = userProfileUpdateHandlerDuration"
| "duration_of OpUserinfo = userinfoHandlerDuration"

fun in_flight_of :: "api_operation \<Rightarrow> collector" where
  "in_flight_of OpAuthenticate = authenticateHandlerInFlight"
| "in_flight_of OpDownloadStarsExe = downloadStarsExeHandlerInFlight"
| "in_flight_of OpGameCreate = gameCreateHandlerInFlight"
| "in_flight_of OpHealthCheck = healthCheckHandlerInFlight"
| "in_flight_of OpHistoricBackup = historicBackupHandlerInFlight"
| "in_flight_of OpInvitationAccept = invitationAcceptHandlerInFlight"
| "in_flight_of OpInvitationCreate = invitationCreateHandlerInFlight"
| "in_flight_of OpInvitationDecline = invitationDeclineHandlerInFlight"
| "in_flight_of OpInvitationList = invitationListHandlerInFlight"
| "in_flight_of OpInvitationSentList = invitationSentListHandlerInFlight"
| "in_flight_of OpNotifications = notificationsHandlerInFlight"
| "in_flight_of OpOrdersStatus = ordersStatusHandlerInFlight"
| "in_flight_of OpPendingRegistrationApprove = pendingRegistrationApproveHandlerInFlight"
| "in_flight_of OpPendingRegistrationList = pendingRegistrationListHandlerInFlight"
| "in_flight_of OpPendingRegistrationReject = pendingRegistrationRejectHandlerInFlight"
| "in_flight_of OpRaceCreate = raceCreateHandlerInFlight"
| "in_flight_of OpRaceDelete = raceDeleteHandlerInFlight"
| "in_flight_of OpRaceRead = raceReadHandlerInFlight"
| "in_flight_of OpRacesList = racesListHandlerInFlight"
| "in_flight_of OpRefreshToken = refreshTokenHandlerInFlight"
| "in_flight_of OpRegister = registerHandlerInFlight"
| "in_flight_of OpReorderPlayers = reorderPlayersHandlerInFlight"
| "in_flight_of OpRulesCreate = rulesCreateHandlerInFlight"
| "in_flight_of OpRulesRead = rulesReadHandlerInFlight"
| "in_flight_of OpSessionArchive = sessionArchiveHandlerInFlight"
| "in_flight_of OpSessionCreate = sessionCreateHandlerInFlight"
| "in_flight_of OpSessionDelete = sessionDeleteHandlerInFlight"
| "in_flight_of OpSessionFilesGet = sessionFilesGetHandlerInFlight"
| "in_flight_of OpSessionJoin = sessionJoinHandlerInFlight"
| "in_flight_of OpSessionPlayerControl = sessionPlayerControlHandlerInFlight"
| "in_flight_of OpSessionPlayerRaceCreate = sessionPlayerRaceCreateHandlerInFlight"
| "in_flight_of OpSessionPlayerRaceDelete = sessionPlayerRaceDeleteHandlerInFlight"
| "in_flight_of OpSessionPlayerRaceGet = sessionPlayerRaceGetHandlerInFlight"
| "in_flight_of OpSessionPlayerRaceSetReady = sessionPlayerRaceSetReadyHandlerInFlight"
| "in_flight_of OpSessionPlayerSwitchToAI = sessionPlayerSwitchToAIHandlerInFlight"
| "in_flight_of OpSessionPlayerSwitchToHuman = sessionPlayerSwitchToHumanHandlerInFlight"
| "in_flight_of OpSessionPromoteMember = sessionPromoteMemberHandlerInFlight"
| "in_flight_of OpSessionQuit = sessionQuitHandlerInFlight"
| "in_flight_of OpSessionRead = sessionReadHandlerInFlight"
| "in_flight_of OpSessionUpdate = sessionUpdateHandlerInFlight"
| "in_flight_of OpSessionsList = sessionsListHandlerInFlight"
| "in_flight_of OpTurnGet = turnGetHandlerInFlight"
| "in_flight_of OpTurnLatest = turnLatestHandlerInFlight"
| "in_flight_of OpTurnSubmit = turnSubmitHandlerInFlight"
| "in_flight_of OpUserProfileCreate = userProfileCreateHandlerInFlight"
| "in_flight_of OpUserProfileDelete = userProfileDeleteHandlerInFlight"
| "in_flight_of OpUserProfileList = userProfileListHandlerInFlight"
| "in_flight_of OpUserProfileRead = userProfileReadHandlerInFlight"
| "in_flight_of OpUserProfileResetApikey = userProfileResetApikeyHandlerInFlight"
| "in_flight_of OpUserProfileUpdate = userProfileUpdateHandlerInFlight"
| "in_flight_of OpUserinfo = userinfoHandlerInFlight"

lemmas collector_defs = authenticateHandlerDuration_def authenticateHandlerInFlight_def downloadStarsExeHandlerDuration_def downloadStarsExeHandlerInFlight_def gameCreateHandlerDuration_def gameCreateHandlerInFlight_def healthCheckHandlerDuration_def healthCheckHandlerInFlight_def historicBackupHandlerDuration_def historicBackupHandlerInFlight_def invitationAcceptHandlerDuration_def invitationAcceptHandlerInFlight_def invitationCreateHandlerDuration_def invitationCreateHandlerInFlight_def invitationDeclineHandlerDuration_def invitationDeclineHandlerInFlight_def invitationListHandlerDuration_def invitationListHandlerInFlight_def invitationSentListHandlerDuration_def invitationSentListHandlerInFlight_def notificationsHandlerDuration_def notificationsHandlerInFlight_def ordersStatusHandlerDuration_def ordersStatusHandlerInFlight_def pendingRegistrationApproveHandlerDuration_def pendingRegistrationApproveHandlerInFlight_def pendingRegistrationListHandlerDuration_def pendingRegistrationListHandlerInFlight_def pendingRegistrationRejectHandlerDuration_def pendingRegistrationRejectHandlerInFlight_def raceCreateHandlerDuration_def raceCreateHandlerInFlight_def raceDeleteHandlerDuration_def raceDeleteHandlerInFlight_def raceReadHandlerDuration_def raceReadHandlerInFlight_def racesListHandlerDuration_def racesListHandlerInFlight_def refreshTokenHandlerDuration_def refreshTokenHandlerInFlight_def registerHandlerDuration_def registerHandlerInFlight_def reorderPlayersHandlerDuration_def reorderPlayersHandlerInFlight_def rulesCreateHandlerDuration_def rulesCreateHandlerInFlight_def rulesReadHandlerDuration_def rulesReadHandlerInFlight_def sessionArchiveHandlerDuration_def sessionArchiveHandlerInFlight_def sessionCreateHandlerDuration_def sessionCreateHandlerInFlight_def sessionDeleteHandlerDuration_def sessionDeleteHandlerInFlight_def sessionFilesGetHandlerDuration_def sessionFilesGetHandlerInFlight_def sessionJoinHandlerDuration_def sessionJoinHandlerInFlight_def sessionPlayerControlHandlerDuration_def sessionPlayerControlHandlerInFlight_def sessionPlayerRaceCreateHandlerDuration_def sessionPlayerRaceCreateHandlerInFlight_def sessionPlayerRaceDeleteHandlerDuration_def sessionPlayerRaceDeleteHandlerInFlight_def sessionPlayerRaceGetHandlerDuration_def sessionPlayerRaceGetHandlerInFlight_def sessionPlayerRaceSetReadyHandlerDuration_def sessionPlayerRaceSetReadyHandlerInFlight_def sessionPlayerSwitchToAIHandlerDuration_def sessionPlayerSwitchToAIHandlerInFlight_def sessionPlayerSwitchToHumanHandlerDuration_def sessionPlayerSwitchToHumanHandlerInFlight_def sessionPromoteMemberHandlerDuration_def sessionPromoteMemberHandlerInFlight_def sessionQuitHandlerDuration_def sessionQuitHandlerInFlight_def sessionReadHandlerDuration_def sessionReadHandlerInFlight_def sessionUpdateHandlerDuration_def sessionUpdateHandlerInFlight_def sessionsListHandlerDuration_def sessionsListHandlerInFlight_def turnGetHandlerDuration_def turnGetHandlerInFlight_def turnLatestHandlerDuration_def turnLatestHandlerInFlight_def turnSubmitHandlerDuration_def turnSubmitHandlerInFlight_def userProfileCreateHandlerDuration_def userProfileCreateHandlerInFlight_def userProfileDeleteHandlerDuration_def userProfileDeleteHandlerInFlight_def userProfileListHandlerDuration_def userProfileListHandlerInFlight_def userProfileReadHandlerDuration_def userProfileReadHandlerInFlight_def userProfileResetApikeyHandlerDuration_def userProfileResetApikeyHandlerInFlight_def userProfileUpdateHandlerDuration_def userProfileUpdateHandlerInFlight_def userinfoHandlerDuration_def userinfoHandlerInFlight_def

lemmas wrapper_defs = AuthenticateInstrumentHandler_def DownloadStarsExeInstrumentHandler_def GameCreateInstrumentHandler_def HealthCheckInstrumentHandler_def HistoricBackupInstrumentHandler_def InvitationAcceptInstrumentHandler_def InvitationCreateInstrumentHandler_def InvitationDeclineInstrumentHandler_def InvitationListInstrumentHandler_def InvitationSentListInstrumentHandler_def NotificationsInstrumentHandler_def OrdersStatusInstrumentHandler_def PendingRegistrationApproveInstrumentHandler_def PendingRegistrationListInstrumentHandler_def PendingRegistrationRejectInstrumentHandler_def RaceCreateInstrumentHandler_def RaceDeleteInstrumentHandler_def RaceReadInstrumentHandler_def RacesListInstrumentHandler_def RefreshTokenInstrumentHandler_def RegisterInstrumentHandler_def ReorderPlayersInstrumentHandler_def RulesCreateInstrumentHandler_def RulesReadInstrumentHandler_def SessionArchiveInstrumentHandler_def SessionCreateInstrumentHandler_def SessionDeleteInstrumentHandler_def SessionFilesGetInstrumentHandler_def SessionJoinInstrumentHandler_def SessionPlayerControlInstrumentHandler_def SessionPlayerRaceCreateInstrumentHandler_def SessionPlayerRaceDeleteInstrumentHandler_def SessionPlayerRaceGetInstrumentHandler_def SessionPlayerRaceSetReadyInstrumentHandler_def SessionPlayerSwitchToAIInstrumentHandler_def SessionPlayerSwitchToHumanInstrumentHandler_def SessionPromoteMemberInstrumentHandler_def SessionQuitInstrumentHandler_def SessionReadInstrumentHandler_def SessionUpdateInstrumentHandler_def SessionsListInstrumentHandler_def TurnGetInstrumentHandler_def TurnLatestInstrumentHandler_def TurnSubmitInstrumentHandler_def UserProfileCreateInstrumentHandler_def UserProfileDeleteInstrumentHandler_def UserProfileListInstrumentHandler_def UserProfileReadInstrumentHandler_def UserProfileResetApikeyInstrumentHandler_def UserProfileUpdateInstrumentHandler_def UserinfoInstrumentHandler_def

subsection \<open>Every operation is measured under its own name\<close>

definition entry :: "'h handlers \<Rightarrow> string \<Rightarrow> string \<Rightarrow> 'h option" where
  "entry hs v p = (case hs v of None \<Rightarrow> None | Some paths \<Rightarrow> paths p)"

lemma rewrap_entry:
  assumes "entry hs verb path = Some h"
  shows "\<exists>hs'. rewrap verb path f hs = Inr hs' \<and> (\<forall>v p. entry hs' v p = (if v = verb \<and> p = path then Some (f h) else entry hs v p))"
  using assms by (auto simp: rewrap_def entry_def split: option.splits)

lemma rewrap_all_entries:
  assumes "distinct (map (\<lambda>(v, p, f). (v, p)) ws)" "\<forall>(v, p, f) \<in> set ws. entry hs v p \<noteq> None"
  shows "\<exists>hs'. rewrap_all ws hs = Inr hs' \<and> (\<forall>v p. entry hs' v p = (case find (\<lambda>(v', p', f). v' = v \<and> p' = p) ws of
    None \<Rightarrow> entry hs v p | Some (v', p', f) \<Rightarrow> map_option f (entry hs v p)))"
  using assms
proof (induction ws arbitrary: hs)
  case (Cons w ws)
  obtain verb path f where w: "w = (verb, path, f)" by (cases w)
  obtain h where h: "entry hs verb path = Some h" using Cons.prems(2) by (auto simp: w)
  obtain hs1 where hs1: "rewrap verb path f hs = Inr hs1"
      "entry hs1 v p = (if v = verb \<and> p = path then Some (f h) else entry hs v p)" for v p
    using rewrap_entry [OF h] by blast
  have notin: "(verb, path) \<notin> (\<lambda>(v, p, f). (v, p)) ` set ws" using Cons.prems(1) by (simp add: w)
  have none: "find (\<lambda>(v', p', f). v' = verb \<and> p' = path) ws = None"
    using notin by (force simp: find_None_iff)
  have "\<forall>(v, p, f) \<in> set ws. entry hs1 v p \<noteq> None" using Cons.prems(2) by (auto simp: hs1(2))
  then obtain hs' where hs': "rewrap_all ws hs1 = Inr hs'"
      "entry hs' v p = (case find (\<lambda>(v', p', f). v' = v \<and> p' = p) ws of
         None \<Rightarrow> entry hs1 v p | Some (v', p', f) \<Rightarrow> map_option f (entry hs1 v p))" for v p
    using Cons.IH [of hs1] Cons.prems(1) by auto
  have "entry hs' v p = (case find (\<lambda>(v', p', f). v' = v \<and> p' = p) (w # ws) of
      None \<Rightarrow> entry hs v p | Some (v', p', f) \<Rightarrow> map_option f (entry hs v p))" for v p
    using none h by (auto simp: hs' hs1(2) w split: option.splits)
  then show ?case using hs1(1) hs'(1) by (auto simp: w)
qed simp

lemma logging_is_rewrap:
  "LoggingInstrumentHandlers LogOperation hs =
    rewrap_all (map (\<lambda>(v, p, tag, operationID). (v, p, Logged tag operationID)) logged_operations) hs"
proof -
  have err: "fold (\<lambda>(verb, path, tag, operationID) r. and_then r (\<lambda>hs. case hs verb of None \<Rightarrow> Inl Panic
      | Some paths \<Rightarrow> Inr (hs(verb \<mapsto> paths(path \<mapsto> LogOperation tag operationID (paths path)))))) xs (Inl e) = Inl e" for xs e
    by (induction xs) auto
  have "fold (\<lambda>(verb, path, tag, operationID) r. and_then r (\<lambda>hs. case hs verb of None \<Rightarrow> Inl Panic
      | Some paths \<Rightarrow> Inr (hs(verb \<mapsto> paths(path \<mapsto> LogOperation tag operationID (paths path)))))) xs (Inr hs) =
    rewrap_all (map (\<lambda>(v, p, tag, operationID). (v, p, Logged tag operationID)) xs) hs" for xs
    by (induction xs arbitrary: hs) (auto simp: rewrap_def LogOperation_def err split: option.splits)
  then show ?thesis by (simp add: LoggingInstrumentHandlers_def)
qed

definition service_of :: "api_operation \<Rightarrow> string" where
  "service_of op = snd (hd (co_labels (duration_of op)))"

lemma wrappers_of_routes:
  "prometheus_wrappers = map (\<lambda>(v, p, op). (v, p, \<lambda>h. InFlight (in_flight_of op) (Duration (duration_of op) h))) route_table"
  by (simp add: prometheus_wrappers_def route_table_def wrapper_defs fun_eq_iff)

lemma logged_services: "logged_operations = map (\<lambda>(v, p, op). (v, p, '''', service_of op)) route_table"
  by (simp add: logged_operations_def route_table_def service_of_def collector_defs)

lemma duration_shape: "duration_of op = \<lparr>co_kind = SummaryVec, co_name = ''orus_api_handler'',
    co_help = ''The handlers duration and count.'', co_labels = [(''service'', service_of op)], co_variable = [''code'']\<rparr>"
  by (cases op) (simp_all add: service_of_def collector_defs)

lemma in_flight_shape: "in_flight_of op = \<lparr>co_kind = Gauge, co_name = ''orus_api_handler_in_flight'',
    co_help = ''The number of handlers currently running.'', co_labels = [(''service'', service_of op)], co_variable = []\<rparr>"
  by (cases op) (simp_all add: service_of_def collector_defs)

lemma services_distinct: "distinct (map service_of operations)"
  by (simp add: operations_def service_of_def collector_defs)

lemma registered_in_order:
  "registered_collectors = map (\<lambda>op. [duration_of op, in_flight_of op]) operations"
  by (simp add: registered_collectors_def operations_def)

definition collectors_of :: "api_operation \<Rightarrow> collector list" where
  "collectors_of op = map (wrap_labels registration_labels) [duration_of op, in_flight_of op]"

lemma other_collectors:
  assumes "service_of op' \<noteq> service_of op" "c \<in> set (collectors_of op')"
  shows "compatible (wrap_labels registration_labels (duration_of op)) c"
    and "compatible (wrap_labels registration_labels (in_flight_of op)) c"
  using assms by (auto simp: collectors_of_def compatible_def wrap_labels_def duration_shape in_flight_shape)

lemma own_collectors:
  "compatible (wrap_labels registration_labels (in_flight_of op)) (wrap_labels registration_labels (duration_of op))"
  by (simp add: compatible_def wrap_labels_def duration_shape in_flight_shape)

lemma RegisterPrometheus_accepts:
  assumes "accepts_compatible accepts" "distinct (map service_of ops)"
    and "\<forall>c \<in> set reg. \<exists>op. service_of op \<notin> service_of ` set ops \<and> c \<in> set (collectors_of op)"
  shows "RegisterPrometheus accepts (map (\<lambda>op. [duration_of op, in_flight_of op]) ops) reg =
    Inr (reg @ concat (map collectors_of ops))"
  using assms(2,3)
proof (induction ops arbitrary: reg)
  case (Cons op ops)
  let ?d = "wrap_labels registration_labels (duration_of op)" and ?g = "wrap_labels registration_labels (in_flight_of op)"
  have "compatible ?d c \<and> compatible ?g c" if "c \<in> set reg" for c
    using Cons.prems(2) that other_collectors [of _ op c] by fastforce
  then have ok: "accepts reg ?d" "accepts (reg @ [?d]) ?g"
    using assms(1) own_collectors [of op] unfolding accepts_compatible_def by (simp_all add: list_all_iff)
  have "\<exists>op'. service_of op' \<notin> service_of ` set ops \<and> c \<in> set (collectors_of op')" if "c \<in> set (reg @ collectors_of op)" for c
    using that Cons.prems by simp blast
  then have "RegisterPrometheus accepts (map (\<lambda>op. [duration_of op, in_flight_of op]) ops) (reg @ collectors_of op) =
      Inr ((reg @ collectors_of op) @ concat (map collectors_of ops))"
    using Cons.prems(1) by (intro Cons.IH) auto
  then show ?case using ok by (simp add: collectors_of_def [abs_def])
qed simp

text \<open>
  The collectors are registered when the program starts without a conflict, so that the
  start does not panic.
\<close>

lemma registration_succeeds:
  assumes "accepts_compatible accepts"
  shows "RegisterPrometheus accepts registered_collectors [] =
    Inr (map (wrap_labels registration_labels) (concat registered_collectors))"
  using RegisterPrometheus_accepts [OF assms services_distinct, of "[]"]
  by (simp add: registered_in_order map_concat o_def collectors_of_def [abs_def])

lemma entry_HandlerFor: "(v, p, op) \<in> set route_table \<Longrightarrow> HandlerFor hs v p = entry hs v p"
  using route_table_verbs by (auto simp: list_all_iff HandlerFor_def entry_def Let_def split: option.splits)

lemma find_entry:
  "(v, p, x) \<in> set ws \<Longrightarrow> distinct (map (\<lambda>(v, p, f). (v, p)) ws) \<Longrightarrow>
   find (\<lambda>(v', p', g). v' = v \<and> p' = p) ws = Some (v, p, x)"
  by (induction ws) (auto simp: rev_image_eqI)

lemma rewrap_routes:
  assumes "\<forall>(v, p, op) \<in> set route_table. entry hs v p = Some (h op)"
  shows "\<exists>hs'. rewrap_all (map (\<lambda>(v, p, op). (v, p, f op)) route_table) hs = Inr hs' \<and>
    (\<forall>(v, p, op) \<in> set route_table. entry hs' v p = Some (f op (h op)))"
proof -
  let ?ws = "map (\<lambda>(v, p, op). (v, p, f op)) route_table"
  have keys: "distinct (map (\<lambda>(v, p, g). (v, p)) ?ws)"
    using route_table_distinct by (simp add: split_beta' comp_def)
  have "\<forall>(v, p, g) \<in> set ?ws. entry hs v p \<noteq> None" using assms by fastforce
  then obtain hs' where hs': "rewrap_all ?ws hs = Inr hs'"
      "entry hs' v p = (case find (\<lambda>(v', p', g). v' = v \<and> p' = p) ?ws of
         None \<Rightarrow> entry hs v p | Some (v', p', g) \<Rightarrow> map_option g (entry hs v p))" for v p
    using rewrap_all_entries [OF keys] by blast
  have "entry hs' v p = Some (f op (h op))" if "(v, p, op) \<in> set route_table" for v p op
  proof -
    have "(v, p, f op) \<in> set ?ws" using that by force
    then have "find (\<lambda>(v', p', g). v' = v \<and> p' = p) ?ws = Some (v, p, f op)" by (rule find_entry [OF _ keys])
    then show ?thesis using assms that by (auto simp: hs'(2))
  qed
  then show ?thesis using hs'(1) by auto
qed

text \<open>
  Every operation is measured and logged under its own name, whether metrics are on or not, and its own
  handler stays innermost: the wrappers that are kept in two long lists beside the table of the
  handlers name the same methods, paths and operations as the table, so that no assignment panics and none
  wraps the handler of another operation.\<close>

lemma operations_are_instrumented:
  "\<exists>hs. instrument metrics (initHandlerCache (\<lambda>op. Bare (new op))) = Inr hs \<and>
    map (\<lambda>(verb, path, op). HandlerFor hs verb path) route_table =
    map (\<lambda>(verb, path, op). Some (Logged '''' (service_of op)
      (if metrics then InFlight (in_flight_of op) (Duration (duration_of op) (Bare (new op))) else Bare (new op)))) route_table"
proof -
  let ?hs = "initHandlerCache (\<lambda>op. Bare (new op))"
  let ?timed = "\<lambda>op h. InFlight (in_flight_of op) (Duration (duration_of op) h)"
  let ?inner = "\<lambda>op. if metrics then ?timed op (Bare (new op)) else Bare (new op)"
  have start: "\<forall>(v, p, op) \<in> set route_table. entry ?hs v p = Some (Bare (new op))"
  proof clarify
    fix v p op assume "(v, p, op) \<in> set route_table"
    then show "entry ?hs v p = Some (Bare (new op))"
      using HandlerFor_route [of v p op "\<lambda>op. Bare (new op)"] entry_HandlerFor [of v p op ?hs] by simp
  qed
  obtain hs1 where hs1: "(if metrics then PrometheusInstrumentHandlers ?hs else Inr ?hs) = Inr hs1"
      "\<forall>(v, p, op) \<in> set route_table. entry hs1 v p = Some (?inner op)"
  proof (cases metrics)
    case True
    then show thesis
      using that rewrap_routes [OF start, of ?timed] by (auto simp: PrometheusInstrumentHandlers_def wrappers_of_routes)
  qed (use that start in simp)
  obtain hs2 where hs2: "LoggingInstrumentHandlers LogOperation hs1 = Inr hs2"
      "\<forall>(v, p, op) \<in> set route_table. entry hs2 v p = Some (Logged '''' (service_of op) (?inner op))"
    using rewrap_routes [OF hs1(2), of "\<lambda>op. Logged '''' (service_of op)"]
    by (auto simp: logging_is_rewrap logged_services split_beta' comp_def)
  have "instrument metrics ?hs = Inr hs2" using hs1(1) hs2(1) by (simp add: instrument_def)
  moreover have "HandlerFor hs2 v p = Some (Logged '''' (service_of op) (?inner op))" if "(v, p, op) \<in> set route_table" for v p op
    using bspec [OF hs2(2) that] entry_HandlerFor [OF that, of hs2] by simp
  ultimately show ?thesis by (intro exI [of _ hs2]) auto
qed

end
