(* ===== verification/ApiSetup.thy ===== *)
theory ApiSetup
  imports Routes
begin

section \<open>Filling the API\<close>

text \<open>
  \<open>restapi/operations/neper_api.go\<close>, \<open>NewNeperAPI\<close> and \<open>Validate\<close>, and the assignments of
  \<open>ConfigureAPI\<close>: which handlers, consumers and producers an API holds. Of a consumer or producer only
  matters here whether it is set.
\<close>

datatype handler_impl = NotImplemented string | Constructed string

record api_slots =
  sl_JSONConsumer :: bool
  sl_ApplicationZipProducer :: bool
  sl_BinProducer :: bool
  sl_JSONProducer :: bool
  sl_TxtProducer :: bool
  sl_KeyAuth :: bool
  sl_handler :: "api_operation \<Rightarrow> handler_impl option"

text \<open>The handler of a new API answers every request with the status 501 and this text.\<close>

primrec default_message :: "api_operation \<Rightarrow> string" where
  "default_message OpAuthenticate = ''operation Authenticate has not yet been implemented''"
| "default_message OpDownloadStarsExe = ''operation DownloadStarsExe has not yet been implemented''"
| "default_message OpGameCreate = ''operation GameCreate has not yet been implemented''"
| "default_message OpHealthCheck = ''operation HealthCheck has not yet been implemented''"
| "default_message OpHistoricBackup = ''operation HistoricBackup has not yet been implemented''"
| "default_message OpInvitationAccept = ''operation InvitationAccept has not yet been implemented''"
| "default_message OpInvitationCreate = ''operation InvitationCreate has not yet been implemented''"
| "default_message OpInvitationDecline = ''operation InvitationDecline has not yet been implemented''"
| "default_message OpInvitationList = ''operation InvitationList has not yet been implemented''"
| "default_message OpInvitationSentList = ''operation InvitationSentList has not yet been implemented''"
| "default_message OpNotifications = ''operation Notifications has not yet been implemented''"
| "default_message OpOrdersStatus = ''operation OrdersStatus has not yet been implemented''"
| "default_message OpPendingRegistrationApprove = ''operation PendingRegistrationApprove has not yet been implemented''"
| "default_message OpPendingRegistrationList = ''operation PendingRegistrationList has not yet been implemented''"
| "default_message OpPendingRegistrationReject = ''operation PendingRegistrationReject has not yet been implemented''"
| "default_message OpRaceCreate = ''operation RaceCreate has not yet been implemented''"
| "default_message OpRaceDelete = ''operation RaceDelete has not yet been implemented''"
| "default_message OpRaceRead = ''operation RaceRead has not yet been implemented''"
| "default_message OpRacesList = ''operation RacesList has not yet been implemented''"
| "default_message OpRefreshToken = ''operation RefreshToken has not yet been implemented''"
| "default_message OpRegister = ''operation Register has not yet been implemented''"
| "default_message OpReorderPlayers = ''operation ReorderPlayers has not yet been implemented''"
| "default_message OpRulesCreate = ''operation RulesCreate has not yet been implemented''"
| "default_message OpRulesRead = ''operation RulesRead has not yet been implemented''"
| "default_message OpSessionArchive = ''operation SessionArchive has not yet been implemented''"
| "default_message OpSessionCreate = ''operation SessionCreate has not yet been implemented''"
| "default_message OpSessionDelete = ''operation SessionDelete has not yet been implemented''"
| "default_message OpSessionFilesGet = ''operation SessionFilesGet has not yet been implemented''"
| "default_message OpSessionJoin = ''operation SessionJoin has not yet been implemented''"
| "default_message OpSessionPlayerControl = ''operation SessionPlayerControl has not yet been implemented''"
| "default_message OpSessionPlayerRaceCreate = ''operation SessionPlayerRaceCreate has not yet been implemented''"
| "default_message OpSessionPlayerRaceDelete = ''operation SessionPlayerRaceDelete has not yet been implemented''"
| "default_message OpSessionPlayerRaceGet = ''operation SessionPlayerRaceGet has not yet been implemented''"
| "default_message OpSessionPlayerRaceSetReady = ''operation SessionPlayerRaceSetReady has not yet been implemented''"
| "default_message OpSessionPlayerSwitchToAI = ''operation SessionPlayerSwitchToAI has not yet been implemented''"
| "default_message OpSessionPlayerSwitchToHuman = ''operation SessionPlayerSwitchToHuman has not yet been implemented''"
| "default_message OpSessionPromoteMember = ''operation SessionPromoteMember has not yet been implemented''"
| "default_message OpSessionQuit = ''operation SessionQuit has not yet been implemented''"
| "default_message OpSessionRead = ''operation SessionRead has not yet been implemented''"
| "default_message OpSessionUpdate = ''operation SessionUpdate has not yet been implemented''"
| "default_message OpSessionsList = ''operation SessionsList has not yet been implemented''"
| "default_message OpTurnGet = ''operation TurnGet has not yet been implemented''"
| "default_message OpTurnLatest = ''operation TurnLatest has not yet been implemented''"
| "default_message OpTurnSubmit = ''operation TurnSubmit has not yet been implemented''"
| "default_message OpUserProfileCreate = ''operation UserProfileCreate has not yet been implemented''"
| "default_message OpUserProfileDelete = ''operation UserProfileDelete has not yet been implemented''"
| "default_message OpUserProfileList = ''operation UserProfileList has not yet been implemented''"
| "default_message OpUserProfileRead = ''operation UserProfileRead has not yet been implemented''"
| "default_message OpUserProfileResetApikey = ''operation UserProfileResetApikey has not yet been implemented''"
| "default_message OpUserProfileUpdate = ''operation UserProfileUpdate has not yet been implemented''"
| "default_message OpUserinfo = ''operation Userinfo has not yet been implemented''"

definition required_handlers :: "(api_operation \<times> string) list" where
  "required_handlers = [
     (OpAuthenticate, ''AuthenticateHandler''),
     (OpDownloadStarsExe, ''DownloadStarsExeHandler''),
     (OpGameCreate, ''GameCreateHandler''),
     (OpHealthCheck, ''HealthCheckHandler''),
     (OpHistoricBackup, ''HistoricBackupHandler''),
     (OpInvitationAccept, ''InvitationAcceptHandler''),
     (OpInvitationCreate, ''InvitationCreateHandler''),
     (OpInvitationDecline, ''InvitationDeclineHandler''),
     (OpInvitationList, ''InvitationListHandler''),
     (OpInvitationSentList, ''InvitationSentListHandler''),
     (OpNotifications, ''NotificationsHandler''),
     (OpOrdersStatus, ''OrdersStatusHandler''),
     (OpPendingRegistrationApprove, ''PendingRegistrationApproveHandler''),
     (OpPendingRegistrationList, ''PendingRegistrationListHandler''),
     (OpPendingRegistrationReject, ''PendingRegistrationRejectHandler''),
     (OpRaceCreate, ''RaceCreateHandler''),
     (OpRaceDelete, ''RaceDeleteHandler''),
     (OpRaceRead, ''RaceReadHandler''),
     (OpRacesList, ''RacesListHandler''),
     (OpRefreshToken, ''RefreshTokenHandler''),
     (OpRegister, ''RegisterHandler''),
     (OpReorderPlayers, ''ReorderPlayersHandler''),
     (OpRulesCreate, ''RulesCreateHandler''),
     (OpRulesRead, ''RulesReadHandler''),
     (OpSessionArchive, ''SessionArchiveHandler''),
     (OpSessionCreate, ''SessionCreateHandler''),
     (OpSessionDelete, ''SessionDeleteHandler''),
     (OpSessionFilesGet, ''SessionFilesGetHandler''),
     (OpSessionJoin, ''SessionJoinHandler''),
     (OpSessionPlayerControl, ''SessionPlayerControlHandler''),
     (OpSessionPlayerRaceCreate, ''SessionPlayerRaceCreateHandler''),
     (OpSessionPlayerRaceDelete, ''SessionPlayerRaceDeleteHandler''),
     (OpSessionPlayerRaceGet, ''SessionPlayerRaceGetHandler''),
     (OpSessionPlayerRaceSetReady, ''SessionPlayerRaceSetReadyHandler''),
     (OpSessionPlayerSwitchToAI, ''SessionPlayerSwitchToAIHandler''),
     (OpSessionPlayerSwitchToHuman, ''SessionPlayerSwitchToHumanHandler''),
     (OpSessionPromoteMember, ''SessionPromoteMemberHandler''),
     (OpSessionQuit, ''SessionQuitHandler''),
     (OpSessionRead, ''SessionReadHandler''),
     (OpSessionUpdate, ''SessionUpdateHandler''),
     (OpSessionsList, ''SessionsListHandler''),
     (OpTurnGet, ''TurnGetHandler''),
     (OpTurnLatest, ''TurnLatestHandler''),
     (OpTurnSubmit, ''TurnSubmitHandler''),
     (OpUserProfileCreate, ''UserProfileCreateHandler''),
     (OpUserProfileDelete, ''UserProfileDeleteHandler''),
     (OpUserProfileList, ''UserProfileListHandler''),
     (OpUserProfileRead, ''UserProfileReadHandler''),
     (OpUserProfileResetApikey, ''UserProfileResetApikeyHandler''),
     (OpUserProfileUpdate, ''UserProfileUpdateHandler''),
     (OpUserinfo, ''UserinfoHandler'')]"

definition configured_handlers :: "(api_operation \<times> string) list" where
  "configured_handlers = [
     (OpHealthCheck, ''NewHealthCheckHandler''),
     (OpAuthenticate, ''NewAuthenticateHandler''),
     (OpRefreshToken, ''NewRefreshTokenHandler''),
     (OpRegister, ''NewRegisterHandler''),
     (OpPendingRegistrationList, ''NewPendingRegistrationListHandler''),
     (OpPendingRegistrationApprove, ''NewPendingRegistrationApproveHandler''),
     (OpPendingRegistrationReject, ''NewPendingRegistrationRejectHandler''),
     (OpSessionsList, ''NewSessionsListHandler''),
     (OpSessionRead, ''NewSessionReadHandler''),
     (OpSessionCreate, ''NewSessionCreateHandler''),
     (OpSessionUpdate, ''NewSessionUpdateHandler''),
     (OpSessionDelete, ''NewSessionDeleteHandler''),
     (OpSessionJoin, ''NewSessionJoinHandler''),
     (OpSessionQuit, ''NewSessionQuitHandler''),
     (OpSessionPromoteMember, ''NewSessionPromoteMemberHandler''),
     (OpSessionArchive, ''NewSessionArchiveHandler''),
     (OpUserProfileCreate, ''NewUserProfileCreateHandler''),
     (OpUserProfileRead, ''NewUserProfileReadHandler''),
     (OpUserProfileList, ''NewUserProfilesListHandler''),
     (OpUserProfileUpdate, ''NewUserProfileUpdateHandler''),
     (OpUserProfileDelete, ''NewUserProfileDeleteHandler''),
     (OpUserProfileResetApikey, ''NewUserProfileResetApikeyHandler''),
     (OpRaceCreate, ''NewRaceCreateHandler''),
     (OpRacesList, ''NewRacesListHandler''),
     (OpRaceRead, ''NewRaceReadHandler''),
     (OpRaceDelete, ''NewRaceDeleteHandler''),
     (OpInvitationCreate, ''NewInvitationCreateHandler''),
     (OpInvitationList, ''NewInvitationListHandler''),
     (OpInvitationSentList, ''NewInvitationSentListHandler''),
     (OpInvitationAccept, ''NewInvitationAcceptHandler''),
     (OpInvitationDecline, ''NewInvitationDeclineHandler''),
     (OpSessionPlayerRaceCreate, ''NewSessionPlayerRaceCreateHandler''),
     (OpSessionPlayerRaceGet, ''NewSessionPlayerRaceGetHandler''),
     (OpSessionPlayerRaceSetReady, ''NewSessionPlayerRaceSetReadyHandler''),
     (OpSessionPlayerRaceDelete, ''NewSessionPlayerRaceDeleteHandler''),
     (OpReorderPlayers, ''NewReorderPlayersHandler''),
     (OpRulesCreate, ''NewRulesCreateHandler''),
     (OpRulesRead, ''NewRulesReadHandler''),
     (OpGameCreate, ''NewGameCreateHandler''),
     (OpTurnGet, ''NewTurnGetHandler''),
     (OpTurnLatest, ''NewTurnLatestHandler''),
     (OpSessionFilesGet, ''NewSessionFilesGetHandler''),
     (OpSessionPlayerSwitchToAI, ''NewSessionPlayerSwitchToAIHandler''),
     (OpSessionPlayerSwitchToHuman, ''NewSessionPlayerSwitchToHumanHandler''),
     (OpSessionPlayerControl, ''NewSessionPlayerControlHandler''),
     (OpTurnSubmit, ''NewTurnSubmitHandler''),
     (OpOrdersStatus, ''NewOrdersStatusHandler''),
     (OpUserinfo, ''NewUserinfoHandler''),
     (OpNotifications, ''NewNotificationsHandler''),
     (OpDownloadStarsExe, ''NewDownloadStarsExeHandler''),
     (OpHistoricBackup, ''NewHistoricBackupHandler'')]"

definition new_slots :: api_slots where
  "new_slots = \<lparr>sl_JSONConsumer = True, sl_ApplicationZipProducer = True, sl_BinProducer = True,
     sl_JSONProducer = True, sl_TxtProducer = True, sl_KeyAuth = True,
     sl_handler = (\<lambda>op. Some (NotImplemented (default_message op)))\<rparr>"

fun strings_Join :: "string list \<Rightarrow> string \<Rightarrow> string" where
  "strings_Join [] sep = ''''"
| "strings_Join [x] sep = x"
| "strings_Join (x # y # xs) sep = x @ sep @ strings_Join (y # xs) sep"

definition missing_registration :: "string list \<Rightarrow> err + unit" where
  "missing_registration unregistered =
    (if unregistered \<noteq> [] then Inl (OtherErr (''missing registration: '' @ strings_Join unregistered '', ''))
     else Inr ())"

definition missing_parts :: "api_slots \<Rightarrow> string list" where
  "missing_parts sl =
    (if sl_JSONConsumer sl then [] else [''JSONConsumer'']) @
    (if sl_ApplicationZipProducer sl then [] else [''ApplicationZipProducer'']) @
    (if sl_BinProducer sl then [] else [''BinProducer'']) @
    (if sl_JSONProducer sl then [] else [''JSONProducer'']) @
    (if sl_TxtProducer sl then [] else [''TxtProducer'']) @
    (if sl_KeyAuth sl then [] else [''AuthorizationAuth''])"

definition Validate_API :: "api_slots \<Rightarrow> err + unit" where
  "Validate_API sl = missing_registration
    (missing_parts sl @ map snd (filter (\<lambda>(op, name). sl_handler sl op = None) required_handlers))"

definition ConfigureAPI_handlers :: "api_slots \<Rightarrow> api_slots" where
  "ConfigureAPI_handlers sl =
    fold (\<lambda>(op, new) sl. sl\<lparr>sl_handler := (sl_handler sl)(op \<mapsto> Constructed new)\<rparr>) configured_handlers sl"

subsection \<open>What validation finds\<close>

lemma required_operations: "map fst required_handlers = operations"
  by (simp add: required_handlers_def operations_def)

lemma operation_listed: "op \<in> set operations"
  by (cases op) (simp_all add: operations_def)

text \<open>\<open>Validate\<close> asks for every operation that the API has, and for nothing else.\<close>

lemma Validate_complete:
  "Validate_API sl = Inr () \<longleftrightarrow> missing_parts sl = [] \<and> (\<forall>op. sl_handler sl op \<noteq> None)"
proof -
  have "filter (\<lambda>(op, name). sl_handler sl op = None) required_handlers = [] \<longleftrightarrow>
      (\<forall>op \<in> fst ` set required_handlers. sl_handler sl op \<noteq> None)"
    by (auto simp: filter_empty_conv)
  moreover have "fst ` set required_handlers = UNIV"
    using operation_listed required_operations by (metis UNIV_eq_I list.set_map)
  ultimately show ?thesis by (auto simp: Validate_API_def missing_registration_def)
qed

text \<open>
  But a new API passes already: its handlers are not nil, they only say that they are not implemented.
  So a forgotten assignment in \<open>ConfigureAPI\<close> would not be found at the start of the server.
\<close>

lemma Validate_finds_nothing:
  "Validate_API new_slots = Inr ()"
  "Validate_API (new_slots\<lparr>sl_handler := (sl_handler new_slots)(op := Some (NotImplemented text))\<rparr>) = Inr ()"
  by (auto simp: Validate_complete new_slots_def missing_parts_def)

text \<open>None is forgotten: each operation has the handler that is constructed for it, once.\<close>

lemma configured_operations: "distinct (map fst configured_handlers)" "set (map fst configured_handlers) = set operations"
  by (simp_all add: configured_handlers_def operations_def insert_commute)

lemma ConfigureAPI_sets:
  "distinct (map fst hs) \<Longrightarrow>
   sl_handler (fold (\<lambda>(op, new) sl. sl\<lparr>sl_handler := (sl_handler sl)(op \<mapsto> Constructed new)\<rparr>) hs sl) op =
   (case map_of hs op of Some new \<Rightarrow> Some (Constructed new) | None \<Rightarrow> sl_handler sl op)"
proof (induction hs arbitrary: sl)
  case (Cons h hs)
  obtain o' new where h: "h = (o', new)" by (cases h)
  have "map_of hs o' = None" using Cons.prems by (auto simp: h map_of_eq_None_iff)
  then show ?case using Cons by (auto simp: h split: option.splits)
qed simp

lemma ConfigureAPI_implements_all:
  "\<exists>new. (op, new) \<in> set configured_handlers \<and> sl_handler (ConfigureAPI_handlers sl) op = Some (Constructed new)"
proof -
  have "op \<in> fst ` set configured_handlers" using configured_operations(2) operation_listed [of op] by simp
  then obtain new where new: "(op, new) \<in> set configured_handlers" by auto
  then have "map_of configured_handlers op = Some new" using configured_operations(1) by simp
  then have "sl_handler (ConfigureAPI_handlers sl) op = Some (Constructed new)"
    using ConfigureAPI_sets [OF configured_operations(1), of sl op] by (simp add: ConfigureAPI_handlers_def)
  with new show ?thesis by blast
qed

end
