(* ===== verification/Schemas.thy ===== *)
theory Schemas
  imports ApiSpec Validation
begin

section \<open>The models of the specification and their validation\<close>

text \<open>
  The definitions of \<open>FlatSwaggerJSON\<close> in \<open>restapi/embedded_spec.go\<close> as data, without the texts for
  readers and the tags for Go, and what they demand of the body of a request, read as JSON schemas. The
  generated \<open>Validate\<close> and \<open>ContextValidate\<close> of \<open>models\<close>, which are the subject of Validation, are
  compared with that: they see the struct into which the body was decoded, where a property that is
  missing is zero. The comparison goes through a table-driven form of the generated checks.
\<close>

record spec_property =
  pr_type :: string
  pr_nullable :: "bool option"
  pr_readOnly :: bool
  pr_range :: "(int \<times> int) option"
  pr_enum :: "string list"

record spec_model =
  sm_type :: string
  sm_required :: "string list"
  sm_items :: "string option"
  sm_properties :: "(string \<times> spec_property) list"

subsection \<open>The definitions\<close>

definition model_apikeyReset :: spec_model where
  "model_apikeyReset = \<lparr>sm_type = ''object'', sm_required = [], sm_items = None, sm_properties = [
      (''apikey'', \<lparr>pr_type = ''string'', pr_nullable = None, pr_readOnly = False, pr_range = None, pr_enum = []\<rparr>),
      (''user_id'', \<lparr>pr_type = ''string'', pr_nullable = None, pr_readOnly = False, pr_range = None, pr_enum = []\<rparr>)]\<rparr>"

definition model_credentials :: spec_model where
  "model_credentials = \<lparr>sm_type = ''object'', sm_required = [], sm_items = None, sm_properties = [
      (''apikey'', \<lparr>pr_type = ''string'', pr_nullable = None, pr_readOnly = False, pr_range = None, pr_enum = []\<rparr>),
      (''nickname'', \<lparr>pr_type = ''string'', pr_nullable = None, pr_readOnly = False, pr_range = None, pr_enum = []\<rparr>)]\<rparr>"

definition model_error :: spec_model where
  "model_error = \<lparr>sm_type = ''object'', sm_required = [''message''], sm_items = None, sm_properties = [
      (''code'', \<lparr>pr_type = ''integer'', pr_nullable = None, pr_readOnly = False, pr_range = None, pr_enum = []\<rparr>),
      (''message'', \<lparr>pr_type = ''string'', pr_nullable = None, pr_readOnly = False, pr_range = None, pr_enum = []\<rparr>)]\<rparr>"

definition model_invitation :: spec_model where
  "model_invitation = \<lparr>sm_type = ''object'', sm_required = [], sm_items = None, sm_properties = [
      (''id'', \<lparr>pr_type = ''string'', pr_nullable = Some False, pr_readOnly = True, pr_range = None, pr_enum = []\<rparr>),
      (''invitee_nickname'', \<lparr>pr_type = ''string'', pr_nullable = Some False, pr_readOnly = True, pr_range = None, pr_enum = []\<rparr>),
      (''inviter_id'', \<lparr>pr_type = ''string'', pr_nullable = Some False, pr_readOnly = False, pr_range = None, pr_enum = []\<rparr>),
      (''inviter_nickname'', \<lparr>pr_type = ''string'', pr_nullable = Some False, pr_readOnly = True, pr_range = None, pr_enum = []\<rparr>),
      (''session_id'', \<lparr>pr_type = ''string'', pr_nullable = Some False, pr_readOnly = False, pr_range = None, pr_enum = []\<rparr>),
      (''session_name'', \<lparr>pr_type = ''string'', pr_nullable = Some False, pr_readOnly = True, pr_range = None, pr_enum = []\<rparr>),
      (''user_profile_id'', \<lparr>pr_type = ''string'', pr_nullable = Some False, pr_readOnly = False, pr_range = None, pr_enum = []\<rparr>)]\<rparr>"

definition model_order :: spec_model where
  "model_order = \<lparr>sm_type = ''object'', sm_required = [''b64_data''], sm_items = None, sm_properties = [
      (''b64_data'', \<lparr>pr_type = ''string'', pr_nullable = Some False, pr_readOnly = False, pr_range = None, pr_enum = []\<rparr>)]\<rparr>"

definition model_orderList :: spec_model where
  "model_orderList = \<lparr>sm_type = ''array'', sm_required = [], sm_items = Some ''order'', sm_properties = []\<rparr>"

definition model_playerControlList :: spec_model where
  "model_playerControlList = \<lparr>sm_type = ''object'', sm_required = [], sm_items = None, sm_properties = [
      (''players'', \<lparr>pr_type = ''array of playerControlStatus'', pr_nullable = None, pr_readOnly = False, pr_range = None, pr_enum = []\<rparr>)]\<rparr>"

definition model_playerControlStatus :: spec_model where
  "model_playerControlStatus = \<lparr>sm_type = ''object'', sm_required = [], sm_items = None, sm_properties = [
      (''ai_control_type'', \<lparr>pr_type = ''string'', pr_nullable = Some True, pr_readOnly = False, pr_range = None, pr_enum = [''HE'', ''SS'', ''IS'', ''CA'', ''PP'', ''AR'']\<rparr>),
      (''control_status'', \<lparr>pr_type = ''string'', pr_nullable = Some False, pr_readOnly = False, pr_range = None, pr_enum = [''human'', ''ai'']\<rparr>),
      (''is_bot'', \<lparr>pr_type = ''boolean'', pr_nullable = Some False, pr_readOnly = False, pr_range = None, pr_enum = []\<rparr>),
      (''nickname'', \<lparr>pr_type = ''string'', pr_nullable = Some False, pr_readOnly = False, pr_range = None, pr_enum = []\<rparr>),
      (''player_order'', \<lparr>pr_type = ''integer'', pr_nullable = Some False, pr_readOnly = False, pr_range = Some (0, 15), pr_enum = []\<rparr>),
      (''user_profile_id'', \<lparr>pr_type = ''string'', pr_nullable = Some False, pr_readOnly = False, pr_range = None, pr_enum = []\<rparr>)]\<rparr>"

definition model_playerOrder :: spec_model where
  "model_playerOrder = \<lparr>sm_type = ''object'', sm_required = [], sm_items = None, sm_properties = [
      (''player_order'', \<lparr>pr_type = ''integer'', pr_nullable = Some False, pr_readOnly = False, pr_range = Some (0, 15), pr_enum = []\<rparr>),
      (''user_profile_id'', \<lparr>pr_type = ''string'', pr_nullable = None, pr_readOnly = False, pr_range = None, pr_enum = []\<rparr>)]\<rparr>"

definition model_playerOrderStatus :: spec_model where
  "model_playerOrderStatus = \<lparr>sm_type = ''object'', sm_required = [], sm_items = None, sm_properties = [
      (''ai_control_type'', \<lparr>pr_type = ''string'', pr_nullable = Some True, pr_readOnly = False, pr_range = None, pr_enum = [''HE'', ''SS'', ''IS'', ''CA'', ''PP'', ''AR'']\<rparr>),
      (''is_bot'', \<lparr>pr_type = ''boolean'', pr_nullable = None, pr_readOnly = False, pr_range = None, pr_enum = []\<rparr>),
      (''nickname'', \<lparr>pr_type = ''string'', pr_nullable = None, pr_readOnly = False, pr_range = None, pr_enum = []\<rparr>),
      (''player_order'', \<lparr>pr_type = ''integer'', pr_nullable = None, pr_readOnly = False, pr_range = None, pr_enum = []\<rparr>),
      (''submitted'', \<lparr>pr_type = ''boolean'', pr_nullable = None, pr_readOnly = False, pr_range = None, pr_enum = []\<rparr>)]\<rparr>"

definition model_playerTurn :: spec_model where
  "model_playerTurn = \<lparr>sm_type = ''object'', sm_required = [], sm_items = None, sm_properties = [
      (''turn'', \<lparr>pr_type = ''string'', pr_nullable = Some False, pr_readOnly = True, pr_range = None, pr_enum = []\<rparr>),
      (''universe'', \<lparr>pr_type = ''string'', pr_nullable = Some False, pr_readOnly = True, pr_range = None, pr_enum = []\<rparr>)]\<rparr>"

definition model_race :: spec_model where
  "model_race = \<lparr>sm_type = ''object'', sm_required = [], sm_items = None, sm_properties = [
      (''data'', \<lparr>pr_type = ''string'', pr_nullable = Some False, pr_readOnly = False, pr_range = None, pr_enum = []\<rparr>),
      (''id'', \<lparr>pr_type = ''string'', pr_nullable = Some False, pr_readOnly = True, pr_range = None, pr_enum = []\<rparr>),
      (''name_plural'', \<lparr>pr_type = ''string'', pr_nullable = Some False, pr_readOnly = True, pr_range = None, pr_enum = []\<rparr>),
      (''name_singular'', \<lparr>pr_type = ''string'', pr_nullable = Some False, pr_readOnly = True, pr_range = None, pr_enum = []\<rparr>),
      (''user_id'', \<lparr>pr_type = ''string'', pr_nullable = Some False, pr_readOnly = True, pr_range = None, pr_enum = []\<rparr>)]\<rparr>"

definition model_registrationRequest :: spec_model where
  "model_registrationRequest = \<lparr>sm_type = ''object'', sm_required = [''nickname'', ''email''], sm_items = None, sm_properties = [
      (''email'', \<lparr>pr_type = ''string'', pr_nullable = Some False, pr_readOnly = False, pr_range = None, pr_enum = []\<rparr>),
      (''message'', \<lparr>pr_type = ''string'', pr_nullable = Some True, pr_readOnly = False, pr_range = None, pr_enum = []\<rparr>),
      (''nickname'', \<lparr>pr_type = ''string'', pr_nullable = Some False, pr_readOnly = False, pr_range = None, pr_enum = []\<rparr>)]\<rparr>"

definition model_registrationResult :: spec_model where
  "model_registrationResult = \<lparr>sm_type = ''object'', sm_required = [], sm_items = None, sm_properties = [
      (''apikey'', \<lparr>pr_type = ''string'', pr_nullable = None, pr_readOnly = False, pr_range = None, pr_enum = []\<rparr>),
      (''nickname'', \<lparr>pr_type = ''string'', pr_nullable = None, pr_readOnly = False, pr_range = None, pr_enum = []\<rparr>),
      (''pending'', \<lparr>pr_type = ''boolean'', pr_nullable = None, pr_readOnly = False, pr_range = None, pr_enum = []\<rparr>),
      (''user_id'', \<lparr>pr_type = ''string'', pr_nullable = None, pr_readOnly = False, pr_range = None, pr_enum = []\<rparr>)]\<rparr>"

definition model_ruleset :: spec_model where
  "model_ruleset = \<lparr>sm_type = ''object'', sm_required = [], sm_items = None, sm_properties = [
      (''accelerated_bbs_play'', \<lparr>pr_type = ''boolean'', pr_nullable = None, pr_readOnly = False, pr_range = None, pr_enum = []\<rparr>),
      (''computer_players_form_alliances'', \<lparr>pr_type = ''boolean'', pr_nullable = None, pr_readOnly = False, pr_range = None, pr_enum = []\<rparr>),
      (''density'', \<lparr>pr_type = ''integer'', pr_nullable = Some False, pr_readOnly = False, pr_range = Some (0, 3), pr_enum = []\<rparr>),
      (''galaxy_clumping'', \<lparr>pr_type = ''boolean'', pr_nullable = None, pr_readOnly = False, pr_range = None, pr_enum = []\<rparr>),
      (''maximum_minerals'', \<lparr>pr_type = ''boolean'', pr_nullable = None, pr_readOnly = False, pr_range = None, pr_enum = []\<rparr>),
      (''no_random_events'', \<lparr>pr_type = ''boolean'', pr_nullable = None, pr_readOnly = False, pr_range = None, pr_enum = []\<rparr>),
      (''public_player_scores'', \<lparr>pr_type = ''boolean'', pr_nullable = None, pr_readOnly = False, pr_range = None, pr_enum = []\<rparr>),
      (''random_seed'', \<lparr>pr_type = ''integer'', pr_nullable = Some False, pr_readOnly = False, pr_range = None, pr_enum = []\<rparr>),
      (''slower_tech_advances'', \<lparr>pr_type = ''boolean'', pr_nullable = None, pr_readOnly = False, pr_range = None, pr_enum = []\<rparr>),
      (''starting_distance'', \<lparr>pr_type = ''integer'', pr_nullable = Some False, pr_readOnly = False, pr_range = Some (0, 3), pr_enum = []\<rparr>),
      (''universe_size'', \<lparr>pr_type = ''integer'', pr_nullable = Some False, pr_readOnly = False, pr_range = Some (0, 4), pr_enum = []\<rparr>),
      (''vc_at_least_x_years_must_pass_before_a_winner_is_declared'', \<lparr>pr_type = ''integer'', pr_nullable = Some False, pr_readOnly = False, pr_range = Some (30, 500), pr_enum = []\<rparr>),
      (''vc_attain_tech_X_in_Y_field'', \<lparr>pr_type = ''boolean'', pr_nullable = Some False, pr_readOnly = False, pr_range = None, pr_enum = []\<rparr>),
      (''vc_attain_tech_X_in_Y_field_fields_value'', \<lparr>pr_type = ''integer'', pr_nullable = None, pr_readOnly = False, pr_range = Some (2, 6), pr_enum = []\<rparr>),
      (''vc_attain_tech_X_in_Y_field_tech_value'', \<lparr>pr_type = ''integer'', pr_nullable = None, pr_readOnly = False, pr_range = Some (8, 26), pr_enum = []\<rparr>),
      (''vc_exceed_next_player_score_by_x'', \<lparr>pr_type = ''boolean'', pr_nullable = Some False, pr_readOnly = False, pr_range = None, pr_enum = []\<rparr>),
      (''vc_exceed_next_player_score_by_x_value'', \<lparr>pr_type = ''integer'', pr_nullable = None, pr_readOnly = False, pr_range = Some (20, 300), pr_enum = []\<rparr>),
      (''vc_exceed_score_of_x'', \<lparr>pr_type = ''boolean'', pr_nullable = Some False, pr_readOnly = False, pr_range = None, pr_enum = []\<rparr>),
      (''vc_exceed_score_of_x_value'', \<lparr>pr_type = ''integer'', pr_nullable = None, pr_readOnly = False, pr_range = Some (1000, 20000), pr_enum = []\<rparr>),
      (''vc_has_production_capacity_of_x_thousand'', \<lparr>pr_type = ''boolean'', pr_nullable = Some False, pr_readOnly = False, pr_range = None, pr_enum = []\<rparr>),
      (''vc_has_production_capacity_of_x_thousand_value'', \<lparr>pr_type = ''integer'', pr_nullable = None, pr_readOnly = False, pr_range = Some (10, 500), pr_enum = []\<rparr>),
      (''vc_have_highest_score_after_x_years'', \<lparr>pr_type = ''boolean'', pr_nullable = Some False, pr_readOnly = False, pr_range = None, pr_enum = []\<rparr>),
      (''vc_have_highest_score_after_x_years_value'', \<lparr>pr_type = ''integer'', pr_nullable = None, pr_readOnly = False, pr_range = Some (30, 900), pr_enum = []\<rparr>),
      (''vc_owns_x_capital_ships'', \<lparr>pr_type = ''boolean'', pr_nullable = Some False, pr_readOnly = False, pr_range = None, pr_enum = []\<rparr>),
      (''vc_owns_x_capital_ships_value'', \<lparr>pr_type = ''integer'', pr_nullable = None, pr_readOnly = False, pr_range = Some (10, 300), pr_enum = []\<rparr>),
      (''vc_owns_x_percent_of_planets'', \<lparr>pr_type = ''boolean'', pr_nullable = Some False, pr_readOnly = False, pr_range = None, pr_enum = []\<rparr>),
      (''vc_owns_x_percent_of_planets_value'', \<lparr>pr_type = ''integer'', pr_nullable = None, pr_readOnly = False, pr_range = Some (20, 100), pr_enum = []\<rparr>),
      (''vc_winner_must_meet_x_of_the_above'', \<lparr>pr_type = ''integer'', pr_nullable = Some False, pr_readOnly = False, pr_range = Some (0, 7), pr_enum = []\<rparr>)]\<rparr>"

definition model_session :: spec_model where
  "model_session = \<lparr>sm_type = ''object'', sm_required = [''name''], sm_items = None, sm_properties = [
      (''id'', \<lparr>pr_type = ''string'', pr_nullable = Some False, pr_readOnly = True, pr_range = None, pr_enum = []\<rparr>),
      (''managers'', \<lparr>pr_type = ''array of string'', pr_nullable = None, pr_readOnly = False, pr_range = None, pr_enum = []\<rparr>),
      (''members'', \<lparr>pr_type = ''array of string'', pr_nullable = None, pr_readOnly = False, pr_range = None, pr_enum = []\<rparr>),
      (''name'', \<lparr>pr_type = ''string'', pr_nullable = Some False, pr_readOnly = False, pr_range = None, pr_enum = []\<rparr>),
      (''pending_invitation'', \<lparr>pr_type = ''boolean'', pr_nullable = Some False, pr_readOnly = True, pr_range = None, pr_enum = []\<rparr>),
      (''players'', \<lparr>pr_type = ''array of sessionPlayer'', pr_nullable = None, pr_readOnly = True, pr_range = None, pr_enum = []\<rparr>),
      (''private'', \<lparr>pr_type = ''boolean'', pr_nullable = Some False, pr_readOnly = False, pr_range = None, pr_enum = []\<rparr>),
      (''rules_is_set'', \<lparr>pr_type = ''boolean'', pr_nullable = Some False, pr_readOnly = False, pr_range = None, pr_enum = []\<rparr>),
      (''state'', \<lparr>pr_type = ''string'', pr_nullable = Some False, pr_readOnly = False, pr_range = None, pr_enum = [''pending'', ''starting'', ''started'', ''archived'']\<rparr>)]\<rparr>"

definition model_sessionFiles :: spec_model where
  "model_sessionFiles = \<lparr>sm_type = ''object'', sm_required = [], sm_items = None, sm_properties = [
      (''host_file'', \<lparr>pr_type = ''string'', pr_nullable = Some False, pr_readOnly = True, pr_range = None, pr_enum = []\<rparr>),
      (''id'', \<lparr>pr_type = ''string'', pr_nullable = Some False, pr_readOnly = True, pr_range = None, pr_enum = []\<rparr>),
      (''orders'', \<lparr>pr_type = ''orderList'', pr_nullable = None, pr_readOnly = False, pr_range = None, pr_enum = []\<rparr>),
      (''session_id'', \<lparr>pr_type = ''string'', pr_nullable = Some False, pr_readOnly = True, pr_range = None, pr_enum = []\<rparr>),
      (''turns'', \<lparr>pr_type = ''turnList'', pr_nullable = None, pr_readOnly = False, pr_range = None, pr_enum = []\<rparr>),
      (''universe'', \<lparr>pr_type = ''string'', pr_nullable = Some False, pr_readOnly = True, pr_range = None, pr_enum = []\<rparr>),
      (''year'', \<lparr>pr_type = ''integer'', pr_nullable = Some False, pr_readOnly = True, pr_range = None, pr_enum = []\<rparr>)]\<rparr>"

definition model_sessionPlayer :: spec_model where
  "model_sessionPlayer = \<lparr>sm_type = ''object'', sm_required = [], sm_items = None, sm_properties = [
      (''bot_level'', \<lparr>pr_type = ''integer'', pr_nullable = Some True, pr_readOnly = False, pr_range = Some (0, 4), pr_enum = []\<rparr>),
      (''bot_race_name'', \<lparr>pr_type = ''string'', pr_nullable = Some True, pr_readOnly = False, pr_range = None, pr_enum = []\<rparr>),
      (''id'', \<lparr>pr_type = ''string'', pr_nullable = Some False, pr_readOnly = False, pr_range = None, pr_enum = []\<rparr>),
      (''is_bot'', \<lparr>pr_type = ''boolean'', pr_nullable = Some False, pr_readOnly = False, pr_range = None, pr_enum = []\<rparr>),
      (''player_order'', \<lparr>pr_type = ''integer'', pr_nullable = Some False, pr_readOnly = False, pr_range = Some (0, 15), pr_enum = []\<rparr>),
      (''ready'', \<lparr>pr_type = ''boolean'', pr_nullable = Some False, pr_readOnly = False, pr_range = None, pr_enum = []\<rparr>),
      (''user_profile_id'', \<lparr>pr_type = ''string'', pr_nullable = Some False, pr_readOnly = False, pr_range = None, pr_enum = []\<rparr>)]\<rparr>"

definition model_sessionPlayerRace :: spec_model where
  "model_sessionPlayerRace = \<lparr>sm_type = ''object'', sm_required = [], sm_items = None, sm_properties = [
      (''bot_level'', \<lparr>pr_type = ''integer'', pr_nullable = Some True, pr_readOnly = False, pr_range = Some (0, 4), pr_enum = []\<rparr>),
      (''id'', \<lparr>pr_type = ''string'', pr_nullable = Some False, pr_readOnly = False, pr_range = None, pr_enum = []\<rparr>),
      (''is_bot'', \<lparr>pr_type = ''boolean'', pr_nullable = None, pr_readOnly = False, pr_range = None, pr_enum = []\<rparr>),
      (''player_order'', \<lparr>pr_type = ''integer'', pr_nullable = Some False, pr_readOnly = False, pr_range = Some (0, 15), pr_enum = []\<rparr>),
      (''race_id'', \<lparr>pr_type = ''string'', pr_nullable = Some False, pr_readOnly = False, pr_range = None, pr_enum = []\<rparr>),
      (''ready'', \<lparr>pr_type = ''boolean'', pr_nullable = Some False, pr_readOnly = False, pr_range = None, pr_enum = []\<rparr>),
      (''session_id'', \<lparr>pr_type = ''string'', pr_nullable = Some False, pr_readOnly = True, pr_range = None, pr_enum = []\<rparr>),
      (''user_profile_id'', \<lparr>pr_type = ''string'', pr_nullable = Some False, pr_readOnly = True, pr_range = None, pr_enum = []\<rparr>)]\<rparr>"

definition model_switchToAiRequest :: spec_model where
  "model_switchToAiRequest = \<lparr>sm_type = ''object'', sm_required = [''ai_type''], sm_items = None, sm_properties = [
      (''ai_type'', \<lparr>pr_type = ''string'', pr_nullable = Some False, pr_readOnly = False, pr_range = None, pr_enum = [''HE'', ''SS'', ''IS'', ''CA'', ''PP'', ''AR'']\<rparr>)]\<rparr>"

definition model_turn :: spec_model where
  "model_turn = \<lparr>sm_type = ''object'', sm_required = [''b64_data''], sm_items = None, sm_properties = [
      (''b64_data'', \<lparr>pr_type = ''string'', pr_nullable = Some False, pr_readOnly = False, pr_range = None, pr_enum = []\<rparr>)]\<rparr>"

definition model_turnFiles :: spec_model where
  "model_turnFiles = \<lparr>sm_type = ''object'', sm_required = [], sm_items = None, sm_properties = [
      (''id'', \<lparr>pr_type = ''string'', pr_nullable = Some False, pr_readOnly = True, pr_range = None, pr_enum = []\<rparr>),
      (''session_id'', \<lparr>pr_type = ''string'', pr_nullable = Some False, pr_readOnly = True, pr_range = None, pr_enum = []\<rparr>),
      (''turn'', \<lparr>pr_type = ''playerTurn'', pr_nullable = None, pr_readOnly = False, pr_range = None, pr_enum = []\<rparr>),
      (''year'', \<lparr>pr_type = ''integer'', pr_nullable = Some False, pr_readOnly = True, pr_range = None, pr_enum = []\<rparr>)]\<rparr>"

definition model_turnList :: spec_model where
  "model_turnList = \<lparr>sm_type = ''array'', sm_required = [], sm_items = Some ''turn'', sm_properties = []\<rparr>"

definition model_user :: spec_model where
  "model_user = \<lparr>sm_type = ''object'', sm_required = [], sm_items = None, sm_properties = [
      (''id'', \<lparr>pr_type = ''string'', pr_nullable = None, pr_readOnly = False, pr_range = None, pr_enum = []\<rparr>),
      (''nickname'', \<lparr>pr_type = ''string'', pr_nullable = None, pr_readOnly = False, pr_range = None, pr_enum = []\<rparr>)]\<rparr>"

definition model_userProfile :: spec_model where
  "model_userProfile = \<lparr>sm_type = ''object'', sm_required = [''firstname'', ''lastname'', ''email''], sm_items = None, sm_properties = [
      (''email'', \<lparr>pr_type = ''string'', pr_nullable = Some False, pr_readOnly = False, pr_range = None, pr_enum = []\<rparr>),
      (''id'', \<lparr>pr_type = ''string'', pr_nullable = Some False, pr_readOnly = True, pr_range = None, pr_enum = []\<rparr>),
      (''is_manager'', \<lparr>pr_type = ''boolean'', pr_nullable = Some False, pr_readOnly = True, pr_range = None, pr_enum = []\<rparr>),
      (''nickname'', \<lparr>pr_type = ''string'', pr_nullable = Some False, pr_readOnly = False, pr_range = None, pr_enum = []\<rparr>),
      (''registration_message'', \<lparr>pr_type = ''string'', pr_nullable = Some True, pr_readOnly = True, pr_range = None, pr_enum = []\<rparr>),
      (''state'', \<lparr>pr_type = ''string'', pr_nullable = Some False, pr_readOnly = True, pr_range = None, pr_enum = [''pending'', ''active'', ''inactive'']\<rparr>)]\<rparr>"

definition model_userProfileCreateRequest :: spec_model where
  "model_userProfileCreateRequest = \<lparr>sm_type = ''object'', sm_required = [''nickname'', ''email''], sm_items = None, sm_properties = [
      (''email'', \<lparr>pr_type = ''string'', pr_nullable = Some False, pr_readOnly = False, pr_range = None, pr_enum = []\<rparr>),
      (''nickname'', \<lparr>pr_type = ''string'', pr_nullable = Some False, pr_readOnly = False, pr_range = None, pr_enum = []\<rparr>)]\<rparr>"

definition model_userinfo :: spec_model where
  "model_userinfo = \<lparr>sm_type = ''object'', sm_required = [], sm_items = None, sm_properties = [
      (''serial_key'', \<lparr>pr_type = ''string'', pr_nullable = None, pr_readOnly = False, pr_range = None, pr_enum = []\<rparr>),
      (''user'', \<lparr>pr_type = ''user'', pr_nullable = None, pr_readOnly = False, pr_range = None, pr_enum = []\<rparr>)]\<rparr>"

definition spec_models :: "(string \<times> spec_model) list" where
  "spec_models = [(''apikeyReset'', model_apikeyReset),
     (''credentials'', model_credentials),
     (''error'', model_error),
     (''invitation'', model_invitation),
     (''order'', model_order),
     (''orderList'', model_orderList),
     (''playerControlList'', model_playerControlList),
     (''playerControlStatus'', model_playerControlStatus),
     (''playerOrder'', model_playerOrder),
     (''playerOrderStatus'', model_playerOrderStatus),
     (''playerTurn'', model_playerTurn),
     (''race'', model_race),
     (''registrationRequest'', model_registrationRequest),
     (''registrationResult'', model_registrationResult),
     (''ruleset'', model_ruleset),
     (''session'', model_session),
     (''sessionFiles'', model_sessionFiles),
     (''sessionPlayer'', model_sessionPlayer),
     (''sessionPlayerRace'', model_sessionPlayerRace),
     (''switchToAiRequest'', model_switchToAiRequest),
     (''turn'', model_turn),
     (''turnFiles'', model_turnFiles),
     (''turnList'', model_turnList),
     (''user'', model_user),
     (''userProfile'', model_userProfile),
     (''userProfileCreateRequest'', model_userProfileCreateRequest),
     (''userinfo'', model_userinfo)]"

subsection \<open>The generated checks as a table\<close>

text \<open>
  The value of a field: pointers are options, and of an array of models there is the list of the
  results that its elements have by themselves.
\<close>

datatype field =
  BoolF bool | IntF int | IntP "int option" | TextF string | TextP "string option" | ListF "string list"
| ArrayF "verr option list"

fun is_zero :: "field \<Rightarrow> bool" where
  "is_zero (BoolF b) = (\<not> b)"
| "is_zero (IntF x) = (x = 0)"
| "is_zero (IntP x) = (x = None)"
| "is_zero (TextF s) = (s = '''')"
| "is_zero (TextP s) = (s = None)"
| "is_zero (ListF xs) = (xs = [])"
| "is_zero (ArrayF rs) = (rs = [])"

definition range_checks :: "validator \<Rightarrow> string \<Rightarrow> int \<Rightarrow> (int \<times> int) option \<Rightarrow> verr option list" where
  "range_checks V name x bounds = (case bounds of
     None \<Rightarrow> []
   | Some (lo, hi) \<Rightarrow> [MinimumInt V name x lo, MaximumInt V name x hi])"

definition enum_checks :: "validator \<Rightarrow> string \<Rightarrow> string \<Rightarrow> string list \<Rightarrow> verr option list" where
  "enum_checks V name s values = (if values = [] then [] else [EnumCase V name s values])"

text \<open>
  The pattern of the generated code: a value that is not required is not checked when it is zero, and a pointer
  when it is nil; properties are checked, required names without a property are not.
\<close>

fun check_property :: "validator \<Rightarrow> bool \<Rightarrow> string \<Rightarrow> spec_property \<Rightarrow> field \<Rightarrow> verr option" where
  "check_property V required name p (IntF x) =
    (if \<not> required \<and> x = 0 then None else first_error (range_checks V name x (pr_range p)))"
| "check_property V required name p (IntP x) =
    (case x of None \<Rightarrow> None | Some k \<Rightarrow> first_error (range_checks V name k (pr_range p)))"
| "check_property V required name p (TextF s) =
    (if required then first_error (RequiredString V name s # enum_checks V name s (pr_enum p))
     else if s = '''' then None else first_error (enum_checks V name s (pr_enum p)))"
| "check_property V required name p (ArrayF rs) = first_error rs"
| "check_property V required name p v = None"

definition validate_by :: "validator \<Rightarrow> spec_model \<Rightarrow> (string \<times> field) list \<Rightarrow> verr option" where
  "validate_by V model values = composite (map (\<lambda>(name, p). case map_of values name of
     None \<Rightarrow> None
   | Some v \<Rightarrow> check_property V (name \<in> set (sm_required model)) name p v) (sm_properties model))"

text \<open>In a request, a property that is only read must be missing.\<close>

definition context_by :: "validator \<Rightarrow> spec_model \<Rightarrow> (string \<times> field) list \<Rightarrow> verr option" where
  "context_by V model values = composite (map (\<lambda>(name, p). case map_of values name of
     None \<Rightarrow> None
   | Some v \<Rightarrow> if pr_readOnly p then ReadOnly V name (is_zero v) else None) (sm_properties model))"

subsection \<open>The fields of the structs\<close>

definition ruleset_fields :: "Ruleset \<Rightarrow> (string \<times> field) list" where
  "ruleset_fields m = [
     (''accelerated_bbs_play'', BoolF (AcceleratedBbsPlay m)),
     (''computer_players_form_alliances'', BoolF (ComputerPlayersFormAlliances m)),
     (''density'', IntF (Density m)),
     (''galaxy_clumping'', BoolF (GalaxyClumping m)),
     (''maximum_minerals'', BoolF (MaximumMinerals m)),
     (''no_random_events'', BoolF (NoRandomEvents m)),
     (''public_player_scores'', BoolF (PublicPlayerScores m)),
     (''random_seed'', IntF (RandomSeed m)),
     (''slower_tech_advances'', BoolF (SlowerTechAdvances m)),
     (''starting_distance'', IntF (StartingDistance m)),
     (''universe_size'', IntF (UniverseSize m)),
     (''vc_at_least_x_years_must_pass_before_a_winner_is_declared'', IntF (VcAtLeastxYears m)),
     (''vc_attain_tech_X_in_Y_field'', BoolF (VcAttainTech m)),
     (''vc_attain_tech_X_in_Y_field_fields_value'', IntF (VcAttainTechFieldsValue m)),
     (''vc_attain_tech_X_in_Y_field_tech_value'', IntF (VcAttainTechTechValue m)),
     (''vc_exceed_next_player_score_by_x'', BoolF (VcExceedNextPlayerScore m)),
     (''vc_exceed_next_player_score_by_x_value'', IntF (VcExceedNextPlayerScoreValue m)),
     (''vc_exceed_score_of_x'', BoolF (VcExceedScore m)),
     (''vc_exceed_score_of_x_value'', IntF (VcExceedScoreValue m)),
     (''vc_has_production_capacity_of_x_thousand'', BoolF (VcHasProductionCapacity m)),
     (''vc_has_production_capacity_of_x_thousand_value'', IntF (VcHasProductionCapacityValue m)),
     (''vc_have_highest_score_after_x_years'', BoolF (VcHaveHighestScore m)),
     (''vc_have_highest_score_after_x_years_value'', IntF (VcHaveHighestScoreValue m)),
     (''vc_owns_x_capital_ships'', BoolF (VcOwnsCapitalShips m)),
     (''vc_owns_x_capital_ships_value'', IntF (VcOwnsCapitalShipsValue m)),
     (''vc_owns_x_percent_of_planets'', BoolF (VcOwnsPercentOfPlanets m)),
     (''vc_owns_x_percent_of_planets_value'', IntF (VcOwnsPercentOfPlanetsValue m)),
     (''vc_winner_must_meet_x_of_the_above'', IntF (VcWinnerMustMeet m))]"

definition sessionPlayerRace_fields :: "SessionPlayerRaceDB \<Rightarrow> (string \<times> field) list" where
  "sessionPlayerRace_fields m = [
     (''bot_level'', IntP (P_BotLevel m)),
     (''id'', TextF (P_ID m)),
     (''is_bot'', BoolF (P_IsBot m)),
     (''player_order'', IntF (P_PlayerOrder m)),
     (''race_id'', TextF (P_RaceID m)),
     (''ready'', BoolF (P_Ready m)),
     (''session_id'', TextF (P_SessionID m)),
     (''user_profile_id'', TextF (P_UserProfileID m))]"

definition sessionPlayer_fields :: "SessionPlayer \<Rightarrow> (string \<times> field) list" where
  "sessionPlayer_fields m = [
     (''bot_level'', IntP (SP_BotLevel m)),
     (''bot_race_name'', TextP (SP_BotRaceName m)),
     (''id'', TextF (SP_ID m)),
     (''is_bot'', BoolF (SP_IsBot m)),
     (''player_order'', IntF (SP_PlayerOrder m)),
     (''ready'', BoolF (SP_Ready m)),
     (''user_profile_id'', TextF (SP_UserProfileID m))]"

definition playerOrder_fields :: "PlayerOrderReq \<Rightarrow> (string \<times> field) list" where
  "playerOrder_fields m = [
     (''player_order'', IntF (PO_PlayerOrder m)),
     (''user_profile_id'', TextF (PO_UserProfileID m))]"

definition session_fields :: "validator \<Rightarrow> string \<Rightarrow> Session \<Rightarrow> (string \<times> field) list" where
  "session_fields V state m = [
     (''id'', TextF (ID m)),
     (''managers'', ListF (Managers m)),
     (''members'', ListF (Members m)),
     (''name'', TextF (Name m)),
     (''pending_invitation'', BoolF (PendingInvitation m)),
     (''players'', ArrayF (map (Validate_SessionPlayer V) (Players m))),
     (''private'', BoolF (Private m)),
     (''rules_is_set'', BoolF (RulesIsSet m)),
     (''state'', TextF state)]"

definition userProfile_fields :: "string \<Rightarrow> UserProfile \<Rightarrow> (string \<times> field) list" where
  "userProfile_fields state m = [
     (''email'', TextF (UP_Email m)),
     (''id'', TextF (UP_ID m)),
     (''is_manager'', BoolF (UP_IsManager m)),
     (''nickname'', TextF (UP_Nickname m)),
     (''registration_message'', TextP (UP_RegistrationMessage m)),
     (''state'', TextF state)]"

definition registrationRequest_fields :: "RegistrationRequest \<Rightarrow> (string \<times> field) list" where
  "registrationRequest_fields m = [
     (''email'', TextF (RQ_Email m)),
     (''message'', TextP (RQ_Message m)),
     (''nickname'', TextF (RQ_Nickname m))]"

definition userProfileCreateRequest_fields :: "UserProfileCreateRequest \<Rightarrow> (string \<times> field) list" where
  "userProfileCreateRequest_fields m = [
     (''email'', TextF (UC_Email m)),
     (''nickname'', TextF (UC_Nickname m))]"

definition race_fields :: "RaceDB \<Rightarrow> (string \<times> field) list" where
  "race_fields m = [
     (''data'', TextF (Ra_Data m)),
     (''id'', TextF (Ra_ID m)),
     (''name_plural'', TextF (Ra_NamePlural m)),
     (''name_singular'', TextF (Ra_NameSingular m)),
     (''user_id'', TextF (Ra_UserID m))]"

definition invitation_fields :: "Invitation \<Rightarrow> (string \<times> field) list" where
  "invitation_fields m = [
     (''id'', TextF (Inv_ID m)),
     (''invitee_nickname'', TextF (Inv_InviteeNickname m)),
     (''inviter_id'', TextF (Inv_InviterID m)),
     (''inviter_nickname'', TextF (Inv_InviterNickname m)),
     (''session_id'', TextF (Inv_SessionID m)),
     (''session_name'', TextF (Inv_SessionName m)),
     (''user_profile_id'', TextF (Inv_UserProfileID m))]"

fun user_state_text :: "user_state option \<Rightarrow> string" where
  "user_state_text None = ''''"
| "user_state_text (Some UserPending) = ''pending''"
| "user_state_text (Some UserActive) = ''active''"
| "user_state_text (Some UserInactive) = ''inactive''"

definition switchToAiRequest_fields :: "string \<Rightarrow> (string \<times> field) list" where
  "switchToAiRequest_fields t = [(''ai_type'', TextF t)]"

definition order_fields :: "string \<Rightarrow> (string \<times> field) list" where
  "order_fields b64 = [(''b64_data'', TextF b64)]"

lemmas field_defs = ruleset_fields_def sessionPlayerRace_fields_def sessionPlayer_fields_def playerOrder_fields_def
  session_fields_def userProfile_fields_def registrationRequest_fields_def userProfileCreateRequest_fields_def
  race_fields_def invitation_fields_def switchToAiRequest_fields_def order_fields_def

lemmas model_defs = model_ruleset_def model_sessionPlayerRace_def model_sessionPlayer_def model_playerOrder_def
  model_session_def model_userProfile_def model_registrationRequest_def model_userProfileCreateRequest_def
  model_race_def model_invitation_def model_switchToAiRequest_def model_order_def

subsection \<open>The structs have the fields of the document\<close>

lemma field_names:
  "map fst (ruleset_fields r) = map fst (sm_properties model_ruleset)"
  "map fst (sessionPlayerRace_fields p) = map fst (sm_properties model_sessionPlayerRace)"
  "map fst (sessionPlayer_fields sp) = map fst (sm_properties model_sessionPlayer)"
  "map fst (playerOrder_fields po) = map fst (sm_properties model_playerOrder)"
  "map fst (session_fields V st s) = map fst (sm_properties model_session)"
  "map fst (userProfile_fields st' u) = map fst (sm_properties model_userProfile)"
  "map fst (registrationRequest_fields rq) = map fst (sm_properties model_registrationRequest)"
  "map fst (userProfileCreateRequest_fields uc) = map fst (sm_properties model_userProfileCreateRequest)"
  "map fst (race_fields ra) = map fst (sm_properties model_race)"
  "map fst (invitation_fields i) = map fst (sm_properties model_invitation)"
  "map fst (switchToAiRequest_fields t) = map fst (sm_properties model_switchToAiRequest)"
  "map fst (order_fields b64) = map fst (sm_properties model_order)"
  by (simp_all add: field_defs model_defs)

fun option_list :: "'a option \<Rightarrow> 'a list" where
  "option_list None = []"
| "option_list (Some x) = [x]"

lemma collect_option_lists: "collect cs = concat (map option_list cs)"
  by (induction cs rule: collect.induct) simp_all

lemma composite_collect: "collect cs = collect cs' \<Longrightarrow> composite cs = composite cs'"
  by (simp add: composite_def)

lemma optional_int:
  "check_property V False n p (IntF x) = (case pr_range p of None \<Rightarrow> None | Some (lo, hi) \<Rightarrow> check_range V n x lo hi)"
  by (simp add: range_checks_def check_range_def split: option.splits prod.splits)

lemma first_error_single [simp]: "first_error [c] = c"
  by (cases c) simp_all

lemma optional_text:
  "check_property V False n p (TextF s) =
    (if s = '''' \<or> pr_enum p = [] then None else EnumCase V n s (pr_enum p))"
  by (simp add: enum_checks_def)

lemma required_text:
  "pr_enum p = [] \<Longrightarrow> check_property V True n p (TextF s) = RequiredString V n s"
  by (simp add: enum_checks_def)

lemma optional_pointer:
  "check_property V False n p (IntP x) =
    (case x of None \<Rightarrow> None | Some k \<Rightarrow> (case pr_range p of None \<Rightarrow> None
       | Some (lo, hi) \<Rightarrow> first_error [MinimumInt V n k lo, MaximumInt V n k hi]))"
  by (simp add: range_checks_def split: option.splits)

lemma other_fields:
  "check_property V q n p (BoolF b) = None" "check_property V q n p (TextP t) = None"
  "check_property V q n p (ListF xs) = None" "check_property V q n p (ArrayF rs) = first_error rs"
  by simp_all

lemmas checks = other_fields optional_int optional_text required_text optional_pointer collect_option_lists

lemma ruleset_agrees: "Validate_Ruleset V r = validate_by V model_ruleset (ruleset_fields r)"
  unfolding Validate_Ruleset_def validate_by_def
  by (rule composite_collect)
    (simp add: checks ruleset_fields_def model_ruleset_def validateDensity_def validateStartingDistance_def
      validateUniverseSize_def validateVcAtLeastxYears_def validateVcAttainTechFields_def validateVcAttainTechTech_def
      validateVcExceedNextPlayerScore_def validateVcExceedScore_def validateVcHasProductionCapacity_def
      validateVcHaveHighestScore_def validateVcOwnsCapitalShips_def validateVcOwnsPercentOfPlanets_def
      validateVcWinnerMustMeet_def del: check_property.simps)

lemma players_agree:
  "Validate_SessionPlayerRace V p = validate_by V model_sessionPlayerRace (sessionPlayerRace_fields p)"
  "Validate_SessionPlayer V sp = validate_by V model_sessionPlayer (sessionPlayer_fields sp)"
  "Validate_PlayerOrder V po = validate_by V model_playerOrder (playerOrder_fields po)"
  unfolding Validate_SessionPlayerRace_def Validate_SessionPlayer_def Validate_PlayerOrder_def validate_by_def
  by - (rule composite_collect, simp add: checks field_defs model_defs validateBotLevel_def validatePlayerOrder_def
      del: check_property.simps split: option.split)+

lemma sessions_agree:
  "Validate_Session V st s = validate_by V model_session (session_fields V st s)"
  "contextValidate_Session V s = context_by V model_session (session_fields V st s)"
  unfolding Validate_Session_def contextValidate_Session_def validate_by_def context_by_def
  by - (rule composite_collect, simp add: checks session_fields_def model_session_def validatePlayers_def validateState_def
      sessionTypeStatePropEnum_def del: check_property.simps)+

lemma users_agree:
  "Validate_UserProfile V text u = validate_by V model_userProfile (userProfile_fields text u)"
  "contextValidate_UserProfile V u = context_by V model_userProfile (userProfile_fields (user_state_text (UP_State u)) u)"
  "Validate_RegistrationRequest V rq = validate_by V model_registrationRequest (registrationRequest_fields rq)"
  "Validate_UserProfileCreateRequest V uc = validate_by V model_userProfileCreateRequest (userProfileCreateRequest_fields uc)"
proof -
  have zero: "user_state_text x = '''' \<longleftrightarrow> x = None" for x by (cases x rule: user_state_text.cases) simp_all
  show "Validate_UserProfile V text u = validate_by V model_userProfile (userProfile_fields text u)"
    "contextValidate_UserProfile V u = context_by V model_userProfile (userProfile_fields (user_state_text (UP_State u)) u)"
    "Validate_RegistrationRequest V rq = validate_by V model_registrationRequest (registrationRequest_fields rq)"
    "Validate_UserProfileCreateRequest V uc = validate_by V model_userProfileCreateRequest (userProfileCreateRequest_fields uc)"
    unfolding Validate_UserProfile_def contextValidate_UserProfile_def Validate_RegistrationRequest_def
      Validate_UserProfileCreateRequest_def validate_by_def context_by_def
    by - (rule composite_collect, simp add: checks zero field_defs model_defs validateUserState_def
        userProfileTypeStatePropEnum_def del: check_property.simps)+
qed

lemma bodies_agree:
  "Validate_SwitchToAiRequest V t = validate_by V model_switchToAiRequest (switchToAiRequest_fields t)"
  "Validate_Order V b64 = validate_by V model_order (order_fields b64)"
  "ContextValidate_Race V ra = context_by V model_race (race_fields ra)"
  "ContextValidate_Invitation V i = context_by V model_invitation (invitation_fields i)"
  "ContextValidate_SessionPlayerRace V p = context_by V model_sessionPlayerRace (sessionPlayerRace_fields p)"
  unfolding Validate_SwitchToAiRequest_def Validate_Order_def ContextValidate_Race_def ContextValidate_Invitation_def
    ContextValidate_SessionPlayerRace_def validate_by_def context_by_def
  by - (rule composite_collect, simp add: collect_option_lists enum_checks_def field_defs model_defs validateAiType_def
      switchToAiRequestTypeAiTypePropEnum_def)+

text \<open>A property is a pointer in Go exactly if the document says that it may be null.\<close>

fun is_pointer :: "field \<Rightarrow> bool" where
  "is_pointer (IntP x) = True"
| "is_pointer (TextP s) = True"
| "is_pointer v = False"

definition pointers_agree :: "spec_model \<Rightarrow> (string \<times> field) list \<Rightarrow> bool" where
  "pointers_agree model values =
    (map (\<lambda>(name, p). pr_nullable p = Some True) (sm_properties model) = map (\<lambda>(name, v). is_pointer v) values)"

lemma nullable_fields:
  "pointers_agree model_ruleset (ruleset_fields r)"
  "pointers_agree model_sessionPlayerRace (sessionPlayerRace_fields p)"
  "pointers_agree model_sessionPlayer (sessionPlayer_fields sp)"
  "pointers_agree model_playerOrder (playerOrder_fields po)"
  "pointers_agree model_session (session_fields V st s)"
  "pointers_agree model_userProfile (userProfile_fields st' u)"
  "pointers_agree model_registrationRequest (registrationRequest_fields rq)"
  "pointers_agree model_userProfileCreateRequest (userProfileCreateRequest_fields uc)"
  "pointers_agree model_race (race_fields ra)"
  "pointers_agree model_invitation (invitation_fields i)"
  by (simp_all add: pointers_agree_def field_defs model_defs)

text \<open>
  The profile of a user is the one model that requires properties which it does not have: the first
  and the last name. No request can satisfy the document; the code does not ask for them.
\<close>

definition missing_properties :: "spec_model \<Rightarrow> string list" where
  "missing_properties m = filter (\<lambda>name. name \<notin> set (map fst (sm_properties m))) (sm_required m)"

lemma required_without_property:
  "map (\<lambda>(name, m). (name, missing_properties m)) (filter (\<lambda>(name, m). missing_properties m \<noteq> []) spec_models) =
    [(''userProfile'', [''firstname'', ''lastname''])]"
  by code_simp

text \<open>Every model that an operation names is defined.\<close>

definition primitive_types :: "string list" where
  "primitive_types = ['''', ''string'', ''integer'', ''boolean'', ''file'', ''array of string'']"

definition defined_type :: "string \<Rightarrow> bool" where
  "defined_type t = (t \<in> set primitive_types \<or> t \<in> set (map fst spec_models) \<or>
     t \<in> set (map (\<lambda>(name, m). ''array of '' @ name) spec_models))"

lemma referenced_models_are_defined:
  "list_all (\<lambda>op. list_all (\<lambda>(code, t). defined_type t) (so_responses (spec_of op)) \<and>
     list_all (\<lambda>q. defined_type (sp_type q)) (so_parameters (spec_of op))) operations"
  "list_all (\<lambda>(name, m). list_all (\<lambda>(n, p). defined_type (pr_type p)) (sm_properties m)) spec_models"
  by code_simp+

subsection \<open>What the schema demands\<close>

text \<open>
  The properties that a client sent. A value conforms to its property when it is in the range, or one of the
  enumeration, and null only where that is allowed; a document is valid when all its values conform and
  every required name is there.
\<close>

type_synonym document = "string \<rightharpoonup> field"

definition in_bounds :: "(int \<times> int) option \<Rightarrow> int \<Rightarrow> bool" where
  "in_bounds bounds x = (case bounds of None \<Rightarrow> True | Some (lo, hi) \<Rightarrow> lo \<le> x \<and> x \<le> hi)"

fun conforms :: "spec_property \<Rightarrow> field \<Rightarrow> bool" where
  "conforms p (IntF x) = in_bounds (pr_range p) x"
| "conforms p (IntP x) = (case x of None \<Rightarrow> pr_nullable p = Some True | Some k \<Rightarrow> in_bounds (pr_range p) k)"
| "conforms p (TextF s) = (pr_enum p = [] \<or> s \<in> set (pr_enum p))"
| "conforms p (TextP s) = (case s of None \<Rightarrow> pr_nullable p = Some True | Some t \<Rightarrow> pr_enum p = [] \<or> t \<in> set (pr_enum p))"
| "conforms p (ArrayF rs) = list_all (\<lambda>r. r = None) rs"
| "conforms p v = True"

definition valid_document :: "spec_model \<Rightarrow> document \<Rightarrow> bool" where
  "valid_document model sent =
    ((\<forall>name \<in> set (sm_required model). sent name \<noteq> None) \<and>
     (\<forall>(name, p) \<in> set (sm_properties model). \<forall>v. sent name = Some v \<longrightarrow> conforms p v))"

text \<open>The struct after decoding: what was sent, and zero elsewhere.\<close>

definition decodes :: "document \<Rightarrow> (string \<times> field) list \<Rightarrow> bool" where
  "decodes sent values = list_all (\<lambda>(name, v). case sent name of None \<Rightarrow> is_zero v | Some w \<Rightarrow> w = v) values"

text \<open>What passes: every property that is not zero conforms, and no required property is missing or zero.\<close>

definition accepted :: "spec_model \<Rightarrow> document \<Rightarrow> bool" where
  "accepted model sent = (\<forall>(name, p) \<in> set (sm_properties model). case sent name of
     None \<Rightarrow> name \<notin> set (sm_required model)
   | Some v \<Rightarrow> if is_zero v then name \<notin> set (sm_required model) else conforms p v)"

text \<open>The properties that are only read are missing or zero.\<close>

definition writable :: "spec_model \<Rightarrow> document \<Rightarrow> bool" where
  "writable model sent = (\<forall>(name, p) \<in> set (sm_properties model). \<forall>v.
     pr_readOnly p \<and> sent name = Some v \<longrightarrow> is_zero v)"

text \<open>
  The two sides meet but for zeros: a valid document whose required values are not zero is accepted, and an
  accepted one is valid unless it sends a zero that does not conform or a required name has no property.
\<close>

lemma valid_is_accepted:
  assumes "valid_document model sent" "\<forall>name \<in> set (sm_required model). \<forall>v. sent name = Some v \<longrightarrow> \<not> is_zero v"
  shows "accepted model sent"
  using assms unfolding valid_document_def accepted_def by (fastforce split: option.split)

definition zero_exceptions :: "spec_model \<Rightarrow> document \<Rightarrow> bool" where
  "zero_exceptions model sent =
    (\<exists>(name, p) \<in> set (sm_properties model). \<exists>v. sent name = Some v \<and> is_zero v \<and> \<not> conforms p v)"

lemma accepted_is_valid:
  assumes "accepted model sent"
  shows "valid_document model sent \<or> missing_properties model \<noteq> [] \<or> zero_exceptions model sent"
proof (rule ccontr)
  assume "\<not> ?thesis"
  then have none: "missing_properties model = []" "\<not> zero_exceptions model sent" and bad: "\<not> valid_document model sent"
    by simp_all
  have "sent name \<noteq> None" if "name \<in> set (sm_required model)" for name
  proof -
    have "name \<in> fst ` set (sm_properties model)"
      using none(1) that by (auto simp: missing_properties_def filter_empty_conv)
    then obtain p where "(name, p) \<in> set (sm_properties model)" by force
    then show ?thesis using assms that by (force simp: accepted_def split: option.splits)
  qed
  moreover have "conforms p v" if "(name, p) \<in> set (sm_properties model)" "sent name = Some v" for name p v
    using assms none(2) that by (fastforce simp: accepted_def zero_exceptions_def split: if_splits)
  ultimately show False using bad by (auto simp: valid_document_def)
qed

subsection \<open>The checks decide what is accepted\<close>

lemma check_property_None:
  assumes "validator_ok V" "required \<Longrightarrow> \<exists>s. v = TextF s" "\<And>t. v = TextP (Some t) \<Longrightarrow> pr_enum p = []"
  shows "check_property V required name p v = None \<longleftrightarrow> (if is_zero v then \<not> required else conforms p v)"
proof -
  have range: "(\<forall>c \<in> set (range_checks V name x (pr_range p)). c = None) \<longleftrightarrow> in_bounds (pr_range p) x" for x
    using assms(1) by (auto simp: range_checks_def in_bounds_def validator_ok_def split: option.splits)
  have enum: "(\<forall>c \<in> set (enum_checks V name x (pr_enum p)). c = None) \<longleftrightarrow> pr_enum p = [] \<or> x \<in> set (pr_enum p)" for x
    using assms(1) by (auto simp: enum_checks_def validator_ok_def)
  have req: "RequiredString V name x = None \<longleftrightarrow> x \<noteq> ''''" for x using assms(1) by (simp add: validator_ok_def)
  show ?thesis
  proof (cases v)
    case (IntP x)
    then show ?thesis using assms(2) by (cases x) (auto simp: first_error_None range)
  next
    case (TextP x)
    then show ?thesis using assms(2,3) by (cases x) auto
  qed (use assms(2) in \<open>auto simp: first_error_None range enum req list_all_iff\<close>)
qed

definition texts_required :: "spec_model \<Rightarrow> (string \<times> field) list \<Rightarrow> bool" where
  "texts_required model values =
    (map fst values = map fst (sm_properties model) \<and> distinct (map fst values) \<and>
     list_all2 (\<lambda>(name, v) (_, p). (name \<in> set (sm_required model) \<longrightarrow> (\<exists>s. v = TextF s)) \<and>
       (\<forall>t. v = TextP (Some t) \<longrightarrow> pr_enum p = [])) values (sm_properties model))"

lemma texts_required_field:
  assumes "texts_required model values" "(name, p) \<in> set (sm_properties model)"
  obtains v where "(name, v) \<in> set values" "map_of values name = Some v"
    "name \<in> set (sm_required model) \<Longrightarrow> \<exists>s. v = TextF s" "\<And>t. v = TextP (Some t) \<Longrightarrow> pr_enum p = []"
proof -
  obtain k where k: "k < length (sm_properties model)" "sm_properties model ! k = (name, p)"
    using assms(2) by (auto simp: in_set_conv_nth)
  have len: "length values = length (sm_properties model)"
    using assms(1) map_eq_imp_length_eq by (auto simp: texts_required_def)
  have "fst (values ! k) = name"
    using assms(1) k len unfolding texts_required_def by (metis fst_conv nth_map)
  then obtain v where v: "values ! k = (name, v)" by (cases "values ! k") auto
  then have m: "(name, v) \<in> set values" using k len by (metis nth_mem)
  moreover have "(name \<in> set (sm_required model) \<longrightarrow> (\<exists>s. v = TextF s)) \<and> (\<forall>t. v = TextP (Some t) \<longrightarrow> pr_enum p = [])"
    using assms(1) k len v by (auto simp: texts_required_def list_all2_conv_all_nth dest!: spec [of _ k])
  moreover have "map_of values name = Some v"
    using m assms(1) by (intro map_of_is_SomeI) (auto simp: texts_required_def)
  ultimately show thesis using that by blast
qed

lemma decodes_field:
  "decodes sent values \<Longrightarrow> (name, v) \<in> set values \<Longrightarrow> (case sent name of None \<Rightarrow> is_zero v | Some w \<Rightarrow> w = v)"
  by (auto simp: decodes_def list_all_iff)

lemma validate_by_accepts:
  assumes "validator_ok V" "texts_required model values" "decodes sent values"
  shows "validate_by V model values = None \<longleftrightarrow> accepted model sent"
proof -
  have "(case map_of values name of None \<Rightarrow> None
        | Some v \<Rightarrow> check_property V (name \<in> set (sm_required model)) name p v) = None \<longleftrightarrow>
      (case sent name of None \<Rightarrow> name \<notin> set (sm_required model)
       | Some v \<Rightarrow> if is_zero v then name \<notin> set (sm_required model) else conforms p v)"
    if p: "(name, p) \<in> set (sm_properties model)" for name p
  proof (rule texts_required_field [OF assms(2) p])
    fix v
    assume v: "(name, v) \<in> set values" "map_of values name = Some v"
      and "name \<in> set (sm_required model) \<Longrightarrow> \<exists>s. v = TextF s" "\<And>t. v = TextP (Some t) \<Longrightarrow> pr_enum p = []"
    then show ?thesis
      using check_property_None [OF assms(1), of "name \<in> set (sm_required model)" v p name]
        decodes_field [OF assms(3) v(1)] by (auto split: option.splits)
  qed
  then have "((case c of (name, p) \<Rightarrow> case map_of values name of None \<Rightarrow> None
        | Some v \<Rightarrow> check_property V (name \<in> set (sm_required model)) name p v) = None) \<longleftrightarrow>
      (case c of (name, p) \<Rightarrow> case sent name of None \<Rightarrow> name \<notin> set (sm_required model)
       | Some v \<Rightarrow> if is_zero v then name \<notin> set (sm_required model) else conforms p v)"
    if "c \<in> set (sm_properties model)" for c
    using that by (cases c) (simp only: prod.case)
  then show ?thesis by (simp only: validate_by_def composite_None accepted_def set_map ball_simps cong: ball_cong)
qed

lemma context_by_writable:
  assumes "validator_ok V" "texts_required model values" "decodes sent values"
  shows "context_by V model values = None \<longleftrightarrow> writable model sent"
proof -
  have "(case map_of values name of None \<Rightarrow> None
        | Some v \<Rightarrow> if pr_readOnly p then ReadOnly V name (is_zero v) else None) = None \<longleftrightarrow>
      (\<forall>v. pr_readOnly p \<and> sent name = Some v \<longrightarrow> is_zero v)"
    if p: "(name, p) \<in> set (sm_properties model)" for name p
  proof (rule texts_required_field [OF assms(2) p])
    fix v
    assume v: "(name, v) \<in> set values" "map_of values name = Some v"
    then show ?thesis
      using assms(1) decodes_field [OF assms(3) v(1)] by (auto simp: validator_ok_def split: option.splits)
  qed
  then have "((case c of (name, p) \<Rightarrow> case map_of values name of None \<Rightarrow> None
        | Some v \<Rightarrow> if pr_readOnly p then ReadOnly V name (is_zero v) else None) = None) \<longleftrightarrow>
      (case c of (name, p) \<Rightarrow> \<forall>v. pr_readOnly p \<and> sent name = Some v \<longrightarrow> is_zero v)"
    if "c \<in> set (sm_properties model)" for c
    using that by (cases c) (simp only: prod.case)
  then show ?thesis by (simp only: context_by_def composite_None writable_def set_map ball_simps cong: ball_cong)
qed

lemma all_texts_required:
  "texts_required model_ruleset (ruleset_fields r)"
  "texts_required model_sessionPlayerRace (sessionPlayerRace_fields p)"
  "texts_required model_playerOrder (playerOrder_fields po)"
  "texts_required model_session (session_fields V st s)"
  "texts_required model_userProfile (userProfile_fields text u)"
  "texts_required model_registrationRequest (registrationRequest_fields rq)"
  "texts_required model_userProfileCreateRequest (userProfileCreateRequest_fields uc)"
  "texts_required model_race (race_fields ra)"
  "texts_required model_invitation (invitation_fields i)"
  "texts_required model_switchToAiRequest (switchToAiRequest_fields t)"
  "texts_required model_order (order_fields b64)"
  by (simp_all add: texts_required_def field_defs model_defs)

text \<open>
  A validation enforces a model if, for whatever body was decoded into the struct, it succeeds exactly
  on the accepted ones; and one that guards the read-only properties succeeds exactly where nothing but
  zeros was sent for them.
\<close>

definition enforces :: "('m \<Rightarrow> verr option) \<Rightarrow> spec_model \<Rightarrow> ('m \<Rightarrow> (string \<times> field) list) \<Rightarrow> bool" where
  "enforces validate model of_struct =
    (\<forall>m sent. decodes sent (of_struct m) \<longrightarrow> (validate m = None \<longleftrightarrow> accepted model sent))"

definition guards :: "('m \<Rightarrow> verr option) \<Rightarrow> spec_model \<Rightarrow> ('m \<Rightarrow> (string \<times> field) list) \<Rightarrow> bool" where
  "guards validate model of_struct =
    (\<forall>m sent. decodes sent (of_struct m) \<longrightarrow> (validate m = None \<longleftrightarrow> writable model sent))"

lemma enforcesI:
  assumes "validator_ok V" "\<And>m. validate m = validate_by V model (of_struct m)" "\<And>m. texts_required model (of_struct m)"
  shows "enforces validate model of_struct"
  using validate_by_accepts [OF assms(1,3)] assms(2) by (simp add: enforces_def)

lemma guardsI:
  assumes "validator_ok V" "\<And>m. validate m = context_by V model (of_struct m)" "\<And>m. texts_required model (of_struct m)"
  shows "guards validate model of_struct"
  using context_by_writable [OF assms(1,3)] assms(2) by (simp add: guards_def)

lemma profile_alone:
  assumes "(name, model) \<in> set spec_models" "missing_properties model \<noteq> []"
  shows "name = ''userProfile''"
proof -
  have "(name, missing_properties model) \<in> set [(''userProfile'', [''firstname'', ''lastname''])]"
    unfolding required_without_property [symmetric] using assms by force
  then show ?thesis by simp
qed


lemma decodes_itself: "distinct (map fst values) \<Longrightarrow> decodes (map_of values) values"
  by (auto simp: decodes_def list_all_iff)


end
