(* ===== verification/Swagger.thy ===== *)
theory Swagger
  imports Schemas
begin

section \<open>The two documents\<close>

text \<open>
  The other document of \<open>restapi/embedded_spec.go\<close>, \<open>SwaggerJSON\<close>, which the server hands to its
  clients: it refers to a second file for the models and to shared responses. The flat document of ApiSpec
  is made from it. What a reference means is written here as a function; then both documents
  describe the same API.
\<close>

datatype raw_schema = No_schema | Type string | Ref string | Array raw_schema

datatype raw_response = Shared string | Own raw_schema

type_synonym raw_parameter = "string \<times> string \<times> bool \<times> raw_schema"

record raw_operation =
  ro_method :: string
  ro_path :: string
  ro_id :: string
  ro_security :: "string list option"
  ro_produces :: "string list option"
  ro_parameters :: "raw_parameter list"
  ro_responses :: "(int option \<times> raw_response) list"

definition raw_security :: "string list" where
  "raw_security = [''key'']"

definition raw_produces :: "string list" where
  "raw_produces = [''application/json'']"

subsection \<open>The operations of the document\<close>

definition raw_HealthCheck :: raw_operation where
  "raw_HealthCheck = \<lparr>ro_method = ''get'', ro_path = ''/healthz'', ro_id = ''healthCheck'',
     ro_security = Some [], ro_produces = Some [''text/plain''],
     ro_parameters = [],
     ro_responses = [(Some 200, Own (Type ''string'')),
       (Some 503, Own (Type ''string''))]\<rparr>"

definition raw_Authenticate :: raw_operation where
  "raw_Authenticate = \<lparr>ro_method = ''post'', ro_path = ''/v1/auth/authenticate'', ro_id = ''authenticate'',
     ro_security = Some [], ro_produces = None,
     ro_parameters = [(''credentials'', ''body'', False, Ref ''#/definitions/credentials'')],
     ro_responses = [(Some 200, Own (Type ''string'')),
       (Some 401, Own (Ref ''neper-types.yaml#/definitions/error'')),
       (None, Own (Ref ''neper-types.yaml#/definitions/error''))]\<rparr>"

definition raw_RefreshToken :: raw_operation where
  "raw_RefreshToken = \<lparr>ro_method = ''post'', ro_path = ''/v1/auth/refresh_token'', ro_id = ''refresh-token'',
     ro_security = None, ro_produces = None,
     ro_parameters = [],
     ro_responses = [(Some 200, Own (Type ''string'')),
       (None, Own (Ref ''neper-types.yaml#/definitions/error''))]\<rparr>"

definition raw_Register :: raw_operation where
  "raw_Register = \<lparr>ro_method = ''post'', ro_path = ''/v1/auth/register'', ro_id = ''register'',
     ro_security = Some [], ro_produces = None,
     ro_parameters = [(''registration'', ''body'', True, Ref ''neper-types.yaml#/definitions/registration_request'')],
     ro_responses = [(Some 201, Own (Ref ''neper-types.yaml#/definitions/registration_result'')),
       (Some 400, Shared ''#/responses/invalid''),
       (Some 409, Own (Ref ''neper-types.yaml#/definitions/error'')),
       (Some 429, Own (Ref ''neper-types.yaml#/definitions/error'')),
       (Some 503, Own (Ref ''neper-types.yaml#/definitions/error'')),
       (None, Shared ''#/responses/default'')]\<rparr>"

definition raw_Userinfo :: raw_operation where
  "raw_Userinfo = \<lparr>ro_method = ''get'', ro_path = ''/v1/auth/userinfo'', ro_id = ''userinfo'',
     ro_security = None, ro_produces = None,
     ro_parameters = [],
     ro_responses = [(Some 200, Own (Ref ''#/definitions/userinfo'')),
       (None, Own (Ref ''neper-types.yaml#/definitions/error''))]\<rparr>"

definition raw_DownloadStarsExe :: raw_operation where
  "raw_DownloadStarsExe = \<lparr>ro_method = ''get'', ro_path = ''/v1/downloads/stars.exe'', ro_id = ''downloadStarsExe'',
     ro_security = None, ro_produces = Some [''application/octet-stream''],
     ro_parameters = [],
     ro_responses = [(Some 200, Own (Type ''file'')),
       (Some 401, Shared ''#/responses/unauthorized''),
       (None, Shared ''#/responses/default'')]\<rparr>"

definition raw_InvitationList :: raw_operation where
  "raw_InvitationList = \<lparr>ro_method = ''get'', ro_path = ''/v1/invitations'', ro_id = ''invitationList'',
     ro_security = None, ro_produces = None,
     ro_parameters = [],
     ro_responses = [(Some 200, Own (Array (Ref ''neper-types.yaml#/definitions/invitation''))),
       (Some 401, Shared ''#/responses/unauthorized''),
       (Some 403, Shared ''#/responses/forbidden''),
       (None, Shared ''#/responses/default'')]\<rparr>"

definition raw_InvitationSentList :: raw_operation where
  "raw_InvitationSentList = \<lparr>ro_method = ''get'', ro_path = ''/v1/invitations/sent'', ro_id = ''invitationSentList'',
     ro_security = None, ro_produces = None,
     ro_parameters = [],
     ro_responses = [(Some 200, Own (Array (Ref ''neper-types.yaml#/definitions/invitation''))),
       (Some 401, Shared ''#/responses/unauthorized''),
       (None, Shared ''#/responses/default'')]\<rparr>"

definition raw_InvitationAccept :: raw_operation where
  "raw_InvitationAccept = \<lparr>ro_method = ''put'', ro_path = ''/v1/invitations/{invitation_id}'', ro_id = ''invitationAccept'',
     ro_security = None, ro_produces = None,
     ro_parameters = [],
     ro_responses = [(Some 200, Own (Ref ''neper-types.yaml#/definitions/session'')),
       (Some 401, Shared ''#/responses/unauthorized''),
       (Some 403, Shared ''#/responses/forbidden''),
       (Some 404, Shared ''#/responses/notfound''),
       (Some 409, Shared ''#/responses/conflict''),
       (Some 412, Shared ''#/responses/preconditionfailed''),
       (None, Shared ''#/responses/default'')]\<rparr>"

definition raw_InvitationDecline :: raw_operation where
  "raw_InvitationDecline = \<lparr>ro_method = ''delete'', ro_path = ''/v1/invitations/{invitation_id}'', ro_id = ''invitationDecline'',
     ro_security = None, ro_produces = None,
     ro_parameters = [],
     ro_responses = [(Some 204, Shared ''#/responses/nocontent''),
       (Some 401, Shared ''#/responses/unauthorized''),
       (Some 403, Shared ''#/responses/forbidden''),
       (Some 404, Shared ''#/responses/notfound''),
       (None, Shared ''#/responses/default'')]\<rparr>"

definition raw_path_parameters_0 :: "string \<times> raw_parameter list" where
  "raw_path_parameters_0 = (''/v1/invitations/{invitation_id}'',
     [(''invitation_id'', ''path'', True, Type ''string'')])"

definition raw_Notifications :: raw_operation where
  "raw_Notifications = \<lparr>ro_method = ''get'', ro_path = ''/v1/notifications'', ro_id = ''notifications'',
     ro_security = None, ro_produces = None,
     ro_parameters = [],
     ro_responses = [(Some 101, Own No_schema),
       (Some 401, Shared ''#/responses/unauthorized''),
       (None, Shared ''#/responses/default'')]\<rparr>"

definition raw_PendingRegistrationList :: raw_operation where
  "raw_PendingRegistrationList = \<lparr>ro_method = ''get'', ro_path = ''/v1/pending_registrations'', ro_id = ''pendingRegistrationList'',
     ro_security = None, ro_produces = None,
     ro_parameters = [],
     ro_responses = [(Some 200, Own (Array (Ref ''neper-types.yaml#/definitions/user_profile''))),
       (Some 401, Shared ''#/responses/unauthorized''),
       (Some 403, Shared ''#/responses/forbidden''),
       (None, Shared ''#/responses/default'')]\<rparr>"

definition raw_PendingRegistrationApprove :: raw_operation where
  "raw_PendingRegistrationApprove = \<lparr>ro_method = ''post'', ro_path = ''/v1/pending_registrations/{user_profile_id}/approve'', ro_id = ''pendingRegistrationApprove'',
     ro_security = None, ro_produces = None,
     ro_parameters = [(''user_profile_id'', ''path'', True, Type ''string'')],
     ro_responses = [(Some 200, Own (Ref ''#/definitions/apikeyReset'')),
       (Some 401, Shared ''#/responses/unauthorized''),
       (Some 403, Shared ''#/responses/forbidden''),
       (Some 404, Shared ''#/responses/notfound''),
       (None, Shared ''#/responses/default'')]\<rparr>"

definition raw_PendingRegistrationReject :: raw_operation where
  "raw_PendingRegistrationReject = \<lparr>ro_method = ''delete'', ro_path = ''/v1/pending_registrations/{user_profile_id}/reject'', ro_id = ''pendingRegistrationReject'',
     ro_security = None, ro_produces = None,
     ro_parameters = [(''user_profile_id'', ''path'', True, Type ''string'')],
     ro_responses = [(Some 204, Own No_schema),
       (Some 401, Shared ''#/responses/unauthorized''),
       (Some 403, Shared ''#/responses/forbidden''),
       (Some 404, Shared ''#/responses/notfound''),
       (None, Shared ''#/responses/default'')]\<rparr>"

definition raw_SessionsList :: raw_operation where
  "raw_SessionsList = \<lparr>ro_method = ''get'', ro_path = ''/v1/sessions'', ro_id = ''sessionsList'',
     ro_security = None, ro_produces = None,
     ro_parameters = [(''include_archived'', ''query'', False, Type ''boolean'')],
     ro_responses = [(Some 200, Own (Array (Ref ''neper-types.yaml#/definitions/session''))),
       (Some 401, Shared ''#/responses/unauthorized''),
       (Some 403, Shared ''#/responses/forbidden''),
       (None, Shared ''#/responses/default'')]\<rparr>"

definition raw_SessionCreate :: raw_operation where
  "raw_SessionCreate = \<lparr>ro_method = ''post'', ro_path = ''/v1/sessions'', ro_id = ''sessionCreate'',
     ro_security = None, ro_produces = None,
     ro_parameters = [(''session'', ''body'', False, Ref ''neper-types.yaml#/definitions/session'')],
     ro_responses = [(Some 201, Own (Ref ''neper-types.yaml#/definitions/session'')),
       (Some 401, Shared ''#/responses/unauthorized''),
       (Some 403, Shared ''#/responses/forbidden''),
       (Some 429, Shared ''#/responses/toomanyrequests''),
       (None, Shared ''#/responses/default'')]\<rparr>"

definition raw_SessionRead :: raw_operation where
  "raw_SessionRead = \<lparr>ro_method = ''get'', ro_path = ''/v1/sessions/{session_id}'', ro_id = ''sessionRead'',
     ro_security = None, ro_produces = None,
     ro_parameters = [],
     ro_responses = [(Some 200, Own (Ref ''neper-types.yaml#/definitions/session'')),
       (Some 401, Shared ''#/responses/unauthorized''),
       (Some 403, Shared ''#/responses/forbidden''),
       (None, Shared ''#/responses/default'')]\<rparr>"

definition raw_SessionUpdate :: raw_operation where
  "raw_SessionUpdate = \<lparr>ro_method = ''put'', ro_path = ''/v1/sessions/{session_id}'', ro_id = ''sessionUpdate'',
     ro_security = None, ro_produces = None,
     ro_parameters = [(''session'', ''body'', False, Ref ''neper-types.yaml#/definitions/session'')],
     ro_responses = [(Some 200, Own (Ref ''neper-types.yaml#/definitions/session'')),
       (Some 401, Shared ''#/responses/unauthorized''),
       (Some 403, Shared ''#/responses/forbidden''),
       (None, Shared ''#/responses/default'')]\<rparr>"

definition raw_SessionDelete :: raw_operation where
  "raw_SessionDelete = \<lparr>ro_method = ''delete'', ro_path = ''/v1/sessions/{session_id}'', ro_id = ''sessionDelete'',
     ro_security = None, ro_produces = None,
     ro_parameters = [],
     ro_responses = [(Some 204, Own No_schema),
       (Some 401, Shared ''#/responses/unauthorized''),
       (Some 403, Shared ''#/responses/forbidden''),
       (Some 404, Shared ''#/responses/notfound''),
       (None, Shared ''#/responses/default'')]\<rparr>"

definition raw_path_parameters_1 :: "string \<times> raw_parameter list" where
  "raw_path_parameters_1 = (''/v1/sessions/{session_id}'',
     [(''session_id'', ''path'', True, Type ''string'')])"

definition raw_SessionArchive :: raw_operation where
  "raw_SessionArchive = \<lparr>ro_method = ''post'', ro_path = ''/v1/sessions/{session_id}/archive'', ro_id = ''sessionArchive'',
     ro_security = None, ro_produces = None,
     ro_parameters = [],
     ro_responses = [(Some 200, Own (Ref ''neper-types.yaml#/definitions/session'')),
       (Some 401, Shared ''#/responses/unauthorized''),
       (Some 403, Shared ''#/responses/forbidden''),
       (Some 404, Shared ''#/responses/notfound''),
       (Some 412, Shared ''#/responses/preconditionfailed''),
       (None, Shared ''#/responses/default'')]\<rparr>"

definition raw_path_parameters_2 :: "string \<times> raw_parameter list" where
  "raw_path_parameters_2 = (''/v1/sessions/{session_id}/archive'',
     [(''session_id'', ''path'', True, Type ''string'')])"

definition raw_HistoricBackup :: raw_operation where
  "raw_HistoricBackup = \<lparr>ro_method = ''get'', ro_path = ''/v1/sessions/{session_id}/backup'', ro_id = ''historicBackup'',
     ro_security = None, ro_produces = Some [''application/zip''],
     ro_parameters = [(''session_id'', ''path'', True, Type ''string'')],
     ro_responses = [(Some 200, Own (Type ''file'')),
       (Some 401, Shared ''#/responses/unauthorized''),
       (Some 403, Shared ''#/responses/forbidden''),
       (Some 404, Shared ''#/responses/notfound''),
       (Some 412, Own (Ref ''neper-types.yaml#/definitions/error'')),
       (None, Shared ''#/responses/default'')]\<rparr>"

definition raw_SessionFilesGet :: raw_operation where
  "raw_SessionFilesGet = \<lparr>ro_method = ''get'', ro_path = ''/v1/sessions/{session_id}/files'', ro_id = ''sessionFilesGet'',
     ro_security = None, ro_produces = None,
     ro_parameters = [(''session_id'', ''path'', True, Type ''string'')],
     ro_responses = [(Some 200, Own (Ref ''neper-types.yaml#/definitions/session_files'')),
       (Some 401, Shared ''#/responses/unauthorized''),
       (Some 403, Shared ''#/responses/forbidden''),
       (Some 404, Shared ''#/responses/notfound''),
       (None, Shared ''#/responses/default'')]\<rparr>"

definition raw_GameCreate :: raw_operation where
  "raw_GameCreate = \<lparr>ro_method = ''post'', ro_path = ''/v1/sessions/{session_id}/game'', ro_id = ''gameCreate'',
     ro_security = None, ro_produces = None,
     ro_parameters = [(''session_id'', ''path'', True, Type ''string'')],
     ro_responses = [(Some 201, Own (Ref ''neper-types.yaml#/definitions/turn_files'')),
       (Some 400, Shared ''#/responses/invalid''),
       (Some 401, Shared ''#/responses/unauthorized''),
       (Some 403, Shared ''#/responses/forbidden''),
       (Some 412, Shared ''#/responses/preconditionfailed''),
       (None, Shared ''#/responses/default'')]\<rparr>"

definition raw_InvitationCreate :: raw_operation where
  "raw_InvitationCreate = \<lparr>ro_method = ''post'', ro_path = ''/v1/sessions/{session_id}/invite'', ro_id = ''invitationCreate'',
     ro_security = None, ro_produces = None,
     ro_parameters = [(''invitation'', ''body'', False, Ref ''neper-types.yaml#/definitions/invitation'')],
     ro_responses = [(Some 201, Own (Ref ''neper-types.yaml#/definitions/invitation'')),
       (Some 400, Shared ''#/responses/invalid''),
       (Some 401, Shared ''#/responses/unauthorized''),
       (Some 403, Shared ''#/responses/forbidden''),
       (Some 409, Shared ''#/responses/conflict''),
       (None, Shared ''#/responses/default'')]\<rparr>"

definition raw_path_parameters_3 :: "string \<times> raw_parameter list" where
  "raw_path_parameters_3 = (''/v1/sessions/{session_id}/invite'',
     [(''session_id'', ''path'', True, Type ''string'')])"

definition raw_SessionJoin :: raw_operation where
  "raw_SessionJoin = \<lparr>ro_method = ''post'', ro_path = ''/v1/sessions/{session_id}/join'', ro_id = ''sessionJoin'',
     ro_security = None, ro_produces = None,
     ro_parameters = [],
     ro_responses = [(Some 200, Own (Ref ''neper-types.yaml#/definitions/session'')),
       (Some 400, Shared ''#/responses/invalid''),
       (Some 401, Shared ''#/responses/unauthorized''),
       (Some 403, Shared ''#/responses/forbidden''),
       (Some 412, Shared ''#/responses/preconditionfailed''),
       (Some 429, Shared ''#/responses/toomanyrequests''),
       (None, Shared ''#/responses/default'')]\<rparr>"

definition raw_path_parameters_4 :: "string \<times> raw_parameter list" where
  "raw_path_parameters_4 = (''/v1/sessions/{session_id}/join'',
     [(''session_id'', ''path'', True, Type ''string'')])"

definition raw_OrdersStatus :: raw_operation where
  "raw_OrdersStatus = \<lparr>ro_method = ''get'', ro_path = ''/v1/sessions/{session_id}/orders/{year}'', ro_id = ''ordersStatus'',
     ro_security = None, ro_produces = None,
     ro_parameters = [(''session_id'', ''path'', True, Type ''string''),
       (''year'', ''path'', True, Type ''integer'')],
     ro_responses = [(Some 200, Own (Array (Ref ''#/definitions/playerOrderStatus''))),
       (Some 401, Shared ''#/responses/unauthorized''),
       (Some 403, Shared ''#/responses/forbidden''),
       (Some 404, Shared ''#/responses/notfound''),
       (None, Shared ''#/responses/default'')]\<rparr>"

definition raw_SessionPlayerSwitchToAI :: raw_operation where
  "raw_SessionPlayerSwitchToAI = \<lparr>ro_method = ''post'', ro_path = ''/v1/sessions/{session_id}/player/{player_order}/switch_to_ai'', ro_id = ''sessionPlayerSwitchToAI'',
     ro_security = None, ro_produces = None,
     ro_parameters = [(''switch_request'', ''body'', True, Ref ''neper-types.yaml#/definitions/switch_to_ai_request'')],
     ro_responses = [(Some 204, Own No_schema),
       (Some 400, Shared ''#/responses/invalid''),
       (Some 401, Shared ''#/responses/unauthorized''),
       (Some 403, Shared ''#/responses/forbidden''),
       (Some 404, Shared ''#/responses/notfound''),
       (Some 412, Shared ''#/responses/preconditionfailed''),
       (None, Shared ''#/responses/default'')]\<rparr>"

definition raw_path_parameters_5 :: "string \<times> raw_parameter list" where
  "raw_path_parameters_5 = (''/v1/sessions/{session_id}/player/{player_order}/switch_to_ai'',
     [(''session_id'', ''path'', True, Type ''string''),
      (''player_order'', ''path'', True, Type ''integer'')])"

definition raw_SessionPlayerSwitchToHuman :: raw_operation where
  "raw_SessionPlayerSwitchToHuman = \<lparr>ro_method = ''post'', ro_path = ''/v1/sessions/{session_id}/player/{player_order}/switch_to_human'', ro_id = ''sessionPlayerSwitchToHuman'',
     ro_security = None, ro_produces = None,
     ro_parameters = [],
     ro_responses = [(Some 204, Own No_schema),
       (Some 401, Shared ''#/responses/unauthorized''),
       (Some 403, Shared ''#/responses/forbidden''),
       (Some 404, Shared ''#/responses/notfound''),
       (Some 412, Shared ''#/responses/preconditionfailed''),
       (None, Shared ''#/responses/default'')]\<rparr>"

definition raw_path_parameters_6 :: "string \<times> raw_parameter list" where
  "raw_path_parameters_6 = (''/v1/sessions/{session_id}/player/{player_order}/switch_to_human'',
     [(''session_id'', ''path'', True, Type ''string''),
      (''player_order'', ''path'', True, Type ''integer'')])"

definition raw_SessionPlayerControl :: raw_operation where
  "raw_SessionPlayerControl = \<lparr>ro_method = ''get'', ro_path = ''/v1/sessions/{session_id}/player_control'', ro_id = ''sessionPlayerControl'',
     ro_security = None, ro_produces = None,
     ro_parameters = [],
     ro_responses = [(Some 200, Own (Ref ''neper-types.yaml#/definitions/player_control_list'')),
       (Some 401, Shared ''#/responses/unauthorized''),
       (Some 403, Shared ''#/responses/forbidden''),
       (Some 404, Shared ''#/responses/notfound''),
       (None, Shared ''#/responses/default'')]\<rparr>"

definition raw_path_parameters_7 :: "string \<times> raw_parameter list" where
  "raw_path_parameters_7 = (''/v1/sessions/{session_id}/player_control'',
     [(''session_id'', ''path'', True, Type ''string'')])"

definition raw_SessionPlayerRaceGet :: raw_operation where
  "raw_SessionPlayerRaceGet = \<lparr>ro_method = ''get'', ro_path = ''/v1/sessions/{session_id}/player_race'', ro_id = ''sessionPlayerRaceGet'',
     ro_security = None, ro_produces = None,
     ro_parameters = [],
     ro_responses = [(Some 200, Own (Ref ''neper-types.yaml#/definitions/race'')),
       (Some 401, Shared ''#/responses/unauthorized''),
       (Some 403, Shared ''#/responses/forbidden''),
       (Some 404, Shared ''#/responses/notfound''),
       (None, Shared ''#/responses/default'')]\<rparr>"

definition raw_SessionPlayerRaceCreate :: raw_operation where
  "raw_SessionPlayerRaceCreate = \<lparr>ro_method = ''post'', ro_path = ''/v1/sessions/{session_id}/player_race'', ro_id = ''sessionPlayerRaceCreate'',
     ro_security = None, ro_produces = None,
     ro_parameters = [(''session_id'', ''path'', True, Type ''string''),
       (''session_player_race'', ''body'', False, Ref ''neper-types.yaml#/definitions/session_player_race'')],
     ro_responses = [(Some 200, Own (Ref ''neper-types.yaml#/definitions/session_player_race'')),
       (Some 400, Shared ''#/responses/invalid''),
       (Some 401, Shared ''#/responses/unauthorized''),
       (Some 403, Shared ''#/responses/forbidden''),
       (None, Shared ''#/responses/default'')]\<rparr>"

definition raw_path_parameters_8 :: "string \<times> raw_parameter list" where
  "raw_path_parameters_8 = (''/v1/sessions/{session_id}/player_race'',
     [(''session_id'', ''path'', True, Type ''string'')])"

definition raw_SessionPlayerRaceSetReady :: raw_operation where
  "raw_SessionPlayerRaceSetReady = \<lparr>ro_method = ''put'', ro_path = ''/v1/sessions/{session_id}/player_race/ready'', ro_id = ''sessionPlayerRaceSetReady'',
     ro_security = None, ro_produces = None,
     ro_parameters = [(''ready'', ''body'', True, Type ''boolean'')],
     ro_responses = [(Some 200, Own (Ref ''neper-types.yaml#/definitions/session_player_race'')),
       (Some 400, Shared ''#/responses/invalid''),
       (Some 401, Shared ''#/responses/unauthorized''),
       (Some 403, Shared ''#/responses/forbidden''),
       (None, Shared ''#/responses/default'')]\<rparr>"

definition raw_path_parameters_9 :: "string \<times> raw_parameter list" where
  "raw_path_parameters_9 = (''/v1/sessions/{session_id}/player_race/ready'',
     [(''session_id'', ''path'', True, Type ''string'')])"

definition raw_SessionPlayerRaceDelete :: raw_operation where
  "raw_SessionPlayerRaceDelete = \<lparr>ro_method = ''delete'', ro_path = ''/v1/sessions/{session_id}/player_race/{player_race_id}'', ro_id = ''sessionPlayerRaceDelete'',
     ro_security = None, ro_produces = None,
     ro_parameters = [],
     ro_responses = [(Some 204, Own No_schema),
       (Some 400, Shared ''#/responses/invalid''),
       (Some 401, Shared ''#/responses/unauthorized''),
       (Some 403, Shared ''#/responses/forbidden''),
       (Some 404, Shared ''#/responses/notfound''),
       (None, Shared ''#/responses/default'')]\<rparr>"

definition raw_path_parameters_10 :: "string \<times> raw_parameter list" where
  "raw_path_parameters_10 = (''/v1/sessions/{session_id}/player_race/{player_race_id}'',
     [(''session_id'', ''path'', True, Type ''string''),
      (''player_race_id'', ''path'', True, Type ''string'')])"

definition raw_SessionPromoteMember :: raw_operation where
  "raw_SessionPromoteMember = \<lparr>ro_method = ''post'', ro_path = ''/v1/sessions/{session_id}/promote/{user_profile_id}'', ro_id = ''sessionPromoteMember'',
     ro_security = None, ro_produces = None,
     ro_parameters = [],
     ro_responses = [(Some 204, Own No_schema),
       (Some 401, Shared ''#/responses/unauthorized''),
       (Some 403, Shared ''#/responses/forbidden''),
       (Some 404, Shared ''#/responses/notfound''),
       (Some 412, Shared ''#/responses/preconditionfailed''),
       (None, Shared ''#/responses/default'')]\<rparr>"

definition raw_path_parameters_11 :: "string \<times> raw_parameter list" where
  "raw_path_parameters_11 = (''/v1/sessions/{session_id}/promote/{user_profile_id}'',
     [(''session_id'', ''path'', True, Type ''string''),
      (''user_profile_id'', ''path'', True, Type ''string'')])"

definition raw_SessionQuit :: raw_operation where
  "raw_SessionQuit = \<lparr>ro_method = ''post'', ro_path = ''/v1/sessions/{session_id}/quit'', ro_id = ''sessionQuit'',
     ro_security = None, ro_produces = None,
     ro_parameters = [],
     ro_responses = [(Some 204, Own No_schema),
       (Some 401, Shared ''#/responses/unauthorized''),
       (Some 403, Shared ''#/responses/forbidden''),
       (Some 404, Shared ''#/responses/notfound''),
       (Some 412, Shared ''#/responses/preconditionfailed''),
       (None, Shared ''#/responses/default'')]\<rparr>"

definition raw_path_parameters_12 :: "string \<times> raw_parameter list" where
  "raw_path_parameters_12 = (''/v1/sessions/{session_id}/quit'',
     [(''session_id'', ''path'', True, Type ''string'')])"

definition raw_ReorderPlayers :: raw_operation where
  "raw_ReorderPlayers = \<lparr>ro_method = ''put'', ro_path = ''/v1/sessions/{session_id}/reorder_players'', ro_id = ''reorderPlayers'',
     ro_security = None, ro_produces = None,
     ro_parameters = [(''players'', ''body'', False, Array (Ref ''neper-types.yaml#/definitions/player_order''))],
     ro_responses = [(Some 200, Own (Array (Ref ''neper-types.yaml#/definitions/player_order''))),
       (Some 401, Shared ''#/responses/unauthorized''),
       (Some 403, Shared ''#/responses/forbidden''),
       (None, Shared ''#/responses/default'')]\<rparr>"

definition raw_path_parameters_13 :: "string \<times> raw_parameter list" where
  "raw_path_parameters_13 = (''/v1/sessions/{session_id}/reorder_players'',
     [(''session_id'', ''path'', True, Type ''string'')])"

definition raw_RulesRead :: raw_operation where
  "raw_RulesRead = \<lparr>ro_method = ''get'', ro_path = ''/v1/sessions/{session_id}/rules'', ro_id = ''rulesRead'',
     ro_security = None, ro_produces = None,
     ro_parameters = [(''session_id'', ''path'', True, Type ''string'')],
     ro_responses = [(Some 200, Own (Ref ''neper-types.yaml#/definitions/ruleset'')),
       (Some 401, Shared ''#/responses/unauthorized''),
       (Some 403, Shared ''#/responses/forbidden''),
       (None, Shared ''#/responses/default'')]\<rparr>"

definition raw_RulesCreate :: raw_operation where
  "raw_RulesCreate = \<lparr>ro_method = ''post'', ro_path = ''/v1/sessions/{session_id}/rules'', ro_id = ''rulesCreate'',
     ro_security = None, ro_produces = None,
     ro_parameters = [(''session_id'', ''path'', True, Type ''string''),
       (''ruleset'', ''body'', False, Ref ''neper-types.yaml#/definitions/ruleset'')],
     ro_responses = [(Some 200, Own (Ref ''neper-types.yaml#/definitions/ruleset'')),
       (Some 400, Shared ''#/responses/invalid''),
       (Some 401, Shared ''#/responses/unauthorized''),
       (Some 403, Shared ''#/responses/forbidden''),
       (Some 412, Shared ''#/responses/preconditionfailed''),
       (None, Shared ''#/responses/default'')]\<rparr>"

definition raw_TurnLatest :: raw_operation where
  "raw_TurnLatest = \<lparr>ro_method = ''get'', ro_path = ''/v1/sessions/{session_id}/turn/latest'', ro_id = ''turnLatest'',
     ro_security = None, ro_produces = None,
     ro_parameters = [(''session_id'', ''path'', True, Type ''string'')],
     ro_responses = [(Some 200, Own (Ref ''neper-types.yaml#/definitions/turn_files'')),
       (Some 401, Shared ''#/responses/unauthorized''),
       (Some 403, Shared ''#/responses/forbidden''),
       (Some 404, Shared ''#/responses/notfound''),
       (None, Shared ''#/responses/default'')]\<rparr>"

definition raw_TurnGet :: raw_operation where
  "raw_TurnGet = \<lparr>ro_method = ''get'', ro_path = ''/v1/sessions/{session_id}/turn/{year}'', ro_id = ''turnGet'',
     ro_security = None, ro_produces = None,
     ro_parameters = [(''session_id'', ''path'', True, Type ''string''),
       (''year'', ''path'', True, Type ''integer'')],
     ro_responses = [(Some 200, Own (Ref ''neper-types.yaml#/definitions/turn_files'')),
       (Some 401, Shared ''#/responses/unauthorized''),
       (Some 403, Shared ''#/responses/forbidden'')]\<rparr>"

definition raw_TurnSubmit :: raw_operation where
  "raw_TurnSubmit = \<lparr>ro_method = ''put'', ro_path = ''/v1/sessions/{session_id}/turn/{year}'', ro_id = ''turnSubmit'',
     ro_security = None, ro_produces = None,
     ro_parameters = [(''session_id'', ''path'', True, Type ''string''),
       (''year'', ''path'', True, Type ''integer''),
       (''turnfile'', ''body'', False, Ref ''neper-types.yaml#/definitions/order'')],
     ro_responses = [(Some 200, Own No_schema),
       (Some 400, Shared ''#/responses/invalid''),
       (Some 401, Shared ''#/responses/unauthorized''),
       (Some 403, Shared ''#/responses/forbidden''),
       (Some 409, Shared ''#/responses/conflict''),
       (Some 422, Shared ''#/responses/unprocessable''),
       (None, Shared ''#/responses/default'')]\<rparr>"

definition raw_UserProfileList :: raw_operation where
  "raw_UserProfileList = \<lparr>ro_method = ''get'', ro_path = ''/v1/user_profiles'', ro_id = ''userProfileList'',
     ro_security = None, ro_produces = None,
     ro_parameters = [],
     ro_responses = [(Some 200, Own (Array (Ref ''neper-types.yaml#/definitions/user_profile''))),
       (Some 401, Shared ''#/responses/unauthorized''),
       (Some 403, Shared ''#/responses/forbidden'')]\<rparr>"

definition raw_UserProfileCreate :: raw_operation where
  "raw_UserProfileCreate = \<lparr>ro_method = ''post'', ro_path = ''/v1/user_profiles'', ro_id = ''userProfileCreate'',
     ro_security = None, ro_produces = None,
     ro_parameters = [(''user_profile'', ''body'', False, Ref ''neper-types.yaml#/definitions/user_profile_create_request'')],
     ro_responses = [(Some 201, Own (Ref ''neper-types.yaml#/definitions/user_profile'')),
       (Some 401, Shared ''#/responses/unauthorized''),
       (Some 403, Shared ''#/responses/forbidden'')]\<rparr>"

definition raw_UserProfileRead :: raw_operation where
  "raw_UserProfileRead = \<lparr>ro_method = ''get'', ro_path = ''/v1/user_profiles/{user_profile_id}'', ro_id = ''userProfileRead'',
     ro_security = None, ro_produces = None,
     ro_parameters = [],
     ro_responses = [(Some 200, Own (Ref ''neper-types.yaml#/definitions/user_profile'')),
       (Some 401, Shared ''#/responses/unauthorized''),
       (Some 403, Shared ''#/responses/forbidden'')]\<rparr>"

definition raw_UserProfileUpdate :: raw_operation where
  "raw_UserProfileUpdate = \<lparr>ro_method = ''put'', ro_path = ''/v1/user_profiles/{user_profile_id}'', ro_id = ''userProfileUpdate'',
     ro_security = None, ro_produces = None,
     ro_parameters = [(''user_profile'', ''body'', False, Ref ''neper-types.yaml#/definitions/user_profile'')],
     ro_responses = [(Some 200, Own (Ref ''neper-types.yaml#/definitions/user_profile'')),
       (Some 401, Shared ''#/responses/unauthorized''),
       (Some 403, Shared ''#/responses/forbidden'')]\<rparr>"

definition raw_UserProfileDelete :: raw_operation where
  "raw_UserProfileDelete = \<lparr>ro_method = ''delete'', ro_path = ''/v1/user_profiles/{user_profile_id}'', ro_id = ''userProfileDelete'',
     ro_security = None, ro_produces = None,
     ro_parameters = [],
     ro_responses = [(Some 204, Shared ''#/responses/nocontent''),
       (Some 401, Shared ''#/responses/unauthorized''),
       (Some 403, Shared ''#/responses/forbidden''),
       (Some 404, Shared ''#/responses/notfound''),
       (Some 409, Shared ''#/responses/conflict''),
       (None, Shared ''#/responses/default'')]\<rparr>"

definition raw_path_parameters_14 :: "string \<times> raw_parameter list" where
  "raw_path_parameters_14 = (''/v1/user_profiles/{user_profile_id}'',
     [(''user_profile_id'', ''path'', True, Type ''string'')])"

definition raw_RacesList :: raw_operation where
  "raw_RacesList = \<lparr>ro_method = ''get'', ro_path = ''/v1/user_profiles/{user_profile_id}/races'', ro_id = ''racesList'',
     ro_security = None, ro_produces = None,
     ro_parameters = [(''user_profile_id'', ''path'', True, Type ''string'')],
     ro_responses = [(Some 200, Own (Array (Ref ''neper-types.yaml#/definitions/race''))),
       (Some 401, Shared ''#/responses/unauthorized''),
       (Some 403, Shared ''#/responses/forbidden''),
       (None, Shared ''#/responses/default'')]\<rparr>"

definition raw_RaceCreate :: raw_operation where
  "raw_RaceCreate = \<lparr>ro_method = ''post'', ro_path = ''/v1/user_profiles/{user_profile_id}/races'', ro_id = ''raceCreate'',
     ro_security = None, ro_produces = None,
     ro_parameters = [(''user_profile_id'', ''path'', True, Type ''string''),
       (''race'', ''body'', False, Ref ''neper-types.yaml#/definitions/race'')],
     ro_responses = [(Some 201, Own (Ref ''neper-types.yaml#/definitions/race'')),
       (Some 400, Shared ''#/responses/invalid''),
       (Some 401, Shared ''#/responses/unauthorized''),
       (Some 403, Shared ''#/responses/forbidden''),
       (Some 429, Shared ''#/responses/toomanyrequests''),
       (None, Shared ''#/responses/default'')]\<rparr>"

definition raw_RaceRead :: raw_operation where
  "raw_RaceRead = \<lparr>ro_method = ''get'', ro_path = ''/v1/user_profiles/{user_profile_id}/races/{race_id}'', ro_id = ''raceRead'',
     ro_security = None, ro_produces = None,
     ro_parameters = [],
     ro_responses = [(Some 200, Own (Ref ''neper-types.yaml#/definitions/race'')),
       (Some 401, Shared ''#/responses/unauthorized''),
       (Some 403, Shared ''#/responses/forbidden'')]\<rparr>"

definition raw_RaceDelete :: raw_operation where
  "raw_RaceDelete = \<lparr>ro_method = ''delete'', ro_path = ''/v1/user_profiles/{user_profile_id}/races/{race_id}'', ro_id = ''raceDelete'',
     ro_security = None, ro_produces = None,
     ro_parameters = [],
     ro_responses = [(Some 204, Shared ''#/responses/nocontent''),
       (Some 401, Shared ''#/responses/unauthorized''),
       (Some 403, Shared ''#/responses/forbidden''),
       (Some 404, Shared ''#/responses/notfound''),
       (Some 409, Shared ''#/responses/conflict''),
       (None, Shared ''#/responses/default'')]\<rparr>"

definition raw_path_parameters_15 :: "string \<times> raw_parameter list" where
  "raw_path_parameters_15 = (''/v1/user_profiles/{user_profile_id}/races/{race_id}'',
     [(''user_profile_id'', ''path'', True, Type ''string''),
      (''race_id'', ''path'', True, Type ''string'')])"

definition raw_UserProfileResetApikey :: raw_operation where
  "raw_UserProfileResetApikey = \<lparr>ro_method = ''post'', ro_path = ''/v1/user_profiles/{user_profile_id}/reset_apikey'', ro_id = ''userProfileResetApikey'',
     ro_security = None, ro_produces = None,
     ro_parameters = [],
     ro_responses = [(Some 200, Own (Ref ''#/definitions/apikeyReset'')),
       (Some 401, Shared ''#/responses/unauthorized''),
       (Some 403, Shared ''#/responses/forbidden''),
       (Some 404, Shared ''#/responses/notfound''),
       (None, Shared ''#/responses/default'')]\<rparr>"

definition raw_path_parameters_16 :: "string \<times> raw_parameter list" where
  "raw_path_parameters_16 = (''/v1/user_profiles/{user_profile_id}/reset_apikey'',
     [(''user_profile_id'', ''path'', True, Type ''string'')])"

definition raw_responses :: "(string \<times> raw_schema) list" where
  "raw_responses = [
     (''conflict'', Ref ''neper-types.yaml#/definitions/error''),
     (''default'', Ref ''neper-types.yaml#/definitions/error''),
     (''forbidden'', Ref ''neper-types.yaml#/definitions/error''),
     (''invalid'', Ref ''neper-types.yaml#/definitions/error''),
     (''nocontent'', No_schema),
     (''notfound'', Ref ''neper-types.yaml#/definitions/error''),
     (''preconditionfailed'', Ref ''neper-types.yaml#/definitions/error''),
     (''toomanyrequests'', Ref ''neper-types.yaml#/definitions/error''),
     (''unauthorized'', Ref ''neper-types.yaml#/definitions/error''),
     (''unprocessable'', Ref ''neper-types.yaml#/definitions/error'')]"

definition raw_path_parameters :: "(string \<times> raw_parameter list) list" where
  "raw_path_parameters = [raw_path_parameters_0, raw_path_parameters_1, raw_path_parameters_2, raw_path_parameters_3, raw_path_parameters_4, raw_path_parameters_5, raw_path_parameters_6, raw_path_parameters_7, raw_path_parameters_8, raw_path_parameters_9, raw_path_parameters_10, raw_path_parameters_11, raw_path_parameters_12, raw_path_parameters_13, raw_path_parameters_14, raw_path_parameters_15, raw_path_parameters_16]"

primrec raw_of :: "api_operation \<Rightarrow> raw_operation" where
  "raw_of OpAuthenticate = raw_Authenticate"
| "raw_of OpDownloadStarsExe = raw_DownloadStarsExe"
| "raw_of OpGameCreate = raw_GameCreate"
| "raw_of OpHealthCheck = raw_HealthCheck"
| "raw_of OpHistoricBackup = raw_HistoricBackup"
| "raw_of OpInvitationAccept = raw_InvitationAccept"
| "raw_of OpInvitationCreate = raw_InvitationCreate"
| "raw_of OpInvitationDecline = raw_InvitationDecline"
| "raw_of OpInvitationList = raw_InvitationList"
| "raw_of OpInvitationSentList = raw_InvitationSentList"
| "raw_of OpNotifications = raw_Notifications"
| "raw_of OpOrdersStatus = raw_OrdersStatus"
| "raw_of OpPendingRegistrationApprove = raw_PendingRegistrationApprove"
| "raw_of OpPendingRegistrationList = raw_PendingRegistrationList"
| "raw_of OpPendingRegistrationReject = raw_PendingRegistrationReject"
| "raw_of OpRaceCreate = raw_RaceCreate"
| "raw_of OpRaceDelete = raw_RaceDelete"
| "raw_of OpRaceRead = raw_RaceRead"
| "raw_of OpRacesList = raw_RacesList"
| "raw_of OpRefreshToken = raw_RefreshToken"
| "raw_of OpRegister = raw_Register"
| "raw_of OpReorderPlayers = raw_ReorderPlayers"
| "raw_of OpRulesCreate = raw_RulesCreate"
| "raw_of OpRulesRead = raw_RulesRead"
| "raw_of OpSessionArchive = raw_SessionArchive"
| "raw_of OpSessionCreate = raw_SessionCreate"
| "raw_of OpSessionDelete = raw_SessionDelete"
| "raw_of OpSessionFilesGet = raw_SessionFilesGet"
| "raw_of OpSessionJoin = raw_SessionJoin"
| "raw_of OpSessionPlayerControl = raw_SessionPlayerControl"
| "raw_of OpSessionPlayerRaceCreate = raw_SessionPlayerRaceCreate"
| "raw_of OpSessionPlayerRaceDelete = raw_SessionPlayerRaceDelete"
| "raw_of OpSessionPlayerRaceGet = raw_SessionPlayerRaceGet"
| "raw_of OpSessionPlayerRaceSetReady = raw_SessionPlayerRaceSetReady"
| "raw_of OpSessionPlayerSwitchToAI = raw_SessionPlayerSwitchToAI"
| "raw_of OpSessionPlayerSwitchToHuman = raw_SessionPlayerSwitchToHuman"
| "raw_of OpSessionPromoteMember = raw_SessionPromoteMember"
| "raw_of OpSessionQuit = raw_SessionQuit"
| "raw_of OpSessionRead = raw_SessionRead"
| "raw_of OpSessionUpdate = raw_SessionUpdate"
| "raw_of OpSessionsList = raw_SessionsList"
| "raw_of OpTurnGet = raw_TurnGet"
| "raw_of OpTurnLatest = raw_TurnLatest"
| "raw_of OpTurnSubmit = raw_TurnSubmit"
| "raw_of OpUserProfileCreate = raw_UserProfileCreate"
| "raw_of OpUserProfileDelete = raw_UserProfileDelete"
| "raw_of OpUserProfileList = raw_UserProfileList"
| "raw_of OpUserProfileRead = raw_UserProfileRead"
| "raw_of OpUserProfileResetApikey = raw_UserProfileResetApikey"
| "raw_of OpUserProfileUpdate = raw_UserProfileUpdate"
| "raw_of OpUserinfo = raw_Userinfo"

definition raw_model_apikeyReset :: spec_model where
  "raw_model_apikeyReset = \<lparr>sm_type = ''object'', sm_required = [], sm_items = None, sm_properties = [
      (''apikey'', \<lparr>pr_type = ''string'', pr_nullable = None, pr_readOnly = False, pr_range = None, pr_enum = []\<rparr>),
      (''user_id'', \<lparr>pr_type = ''string'', pr_nullable = None, pr_readOnly = False, pr_range = None, pr_enum = []\<rparr>)]\<rparr>"

definition raw_model_credentials :: spec_model where
  "raw_model_credentials = \<lparr>sm_type = ''object'', sm_required = [], sm_items = None, sm_properties = [
      (''apikey'', \<lparr>pr_type = ''string'', pr_nullable = None, pr_readOnly = False, pr_range = None, pr_enum = []\<rparr>),
      (''nickname'', \<lparr>pr_type = ''string'', pr_nullable = None, pr_readOnly = False, pr_range = None, pr_enum = []\<rparr>)]\<rparr>"

definition raw_model_playerOrderStatus :: spec_model where
  "raw_model_playerOrderStatus = \<lparr>sm_type = ''object'', sm_required = [], sm_items = None, sm_properties = [
      (''ai_control_type'', \<lparr>pr_type = ''string'', pr_nullable = Some True, pr_readOnly = False, pr_range = None, pr_enum = [''HE'', ''SS'', ''IS'', ''CA'', ''PP'', ''AR'']\<rparr>),
      (''is_bot'', \<lparr>pr_type = ''boolean'', pr_nullable = None, pr_readOnly = False, pr_range = None, pr_enum = []\<rparr>),
      (''nickname'', \<lparr>pr_type = ''string'', pr_nullable = None, pr_readOnly = False, pr_range = None, pr_enum = []\<rparr>),
      (''player_order'', \<lparr>pr_type = ''integer'', pr_nullable = None, pr_readOnly = False, pr_range = None, pr_enum = []\<rparr>),
      (''submitted'', \<lparr>pr_type = ''boolean'', pr_nullable = None, pr_readOnly = False, pr_range = None, pr_enum = []\<rparr>)]\<rparr>"

definition raw_model_user :: spec_model where
  "raw_model_user = \<lparr>sm_type = ''object'', sm_required = [], sm_items = None, sm_properties = [
      (''id'', \<lparr>pr_type = ''string'', pr_nullable = None, pr_readOnly = False, pr_range = None, pr_enum = []\<rparr>),
      (''nickname'', \<lparr>pr_type = ''string'', pr_nullable = None, pr_readOnly = False, pr_range = None, pr_enum = []\<rparr>)]\<rparr>"

definition raw_model_userinfo :: spec_model where
  "raw_model_userinfo = \<lparr>sm_type = ''object'', sm_required = [], sm_items = None, sm_properties = [
      (''serial_key'', \<lparr>pr_type = ''string'', pr_nullable = None, pr_readOnly = False, pr_range = None, pr_enum = []\<rparr>),
      (''user'', \<lparr>pr_type = ''user'', pr_nullable = None, pr_readOnly = False, pr_range = None, pr_enum = []\<rparr>)]\<rparr>"

definition raw_models :: "(string \<times> spec_model) list" where
  "raw_models = [(''apikeyReset'', raw_model_apikeyReset), (''credentials'', raw_model_credentials), (''playerOrderStatus'', raw_model_playerOrderStatus), (''user'', raw_model_user), (''userinfo'', raw_model_userinfo)]"

subsection \<open>References\<close>

text \<open>The name at the end of a reference, in the spelling of the models of the flat document.\<close>

definition last_segment :: "string \<Rightarrow> string" where
  "last_segment r = last (Routes.split_slash r)"

fun camel_case :: "string \<Rightarrow> string" where
  "camel_case [] = []"
| "camel_case [c] = [c]"
| "camel_case (c # c' # s) = (if c = CHR ''_'' then ToUpper [c'] @ camel_case s else c # camel_case (c' # s))"

fun flat_schema :: "raw_schema \<Rightarrow> string" where
  "flat_schema No_schema = ''''"
| "flat_schema (Type t) = t"
| "flat_schema (Ref r) = camel_case (last_segment r)"
| "flat_schema (Array s) = ''array of '' @ flat_schema s"

fun flat_response :: "raw_response \<Rightarrow> string" where
  "flat_response (Own s) = flat_schema s"
| "flat_response (Shared r) = (case map_of raw_responses (last_segment r) of None \<Rightarrow> '''' | Some s \<Rightarrow> flat_schema s)"

fun flat_parameter :: "raw_parameter \<Rightarrow> spec_parameter" where
  "flat_parameter (name, place, required, s) =
    \<lparr>sp_name = name, sp_in = place, sp_required = required, sp_type = flat_schema s\<rparr>"

definition flatten :: "raw_operation \<Rightarrow> spec_operation" where
  "flatten ro = \<lparr>so_method = ro_method ro, so_path = ro_path ro, so_id = ro_id ro,
     so_security = ro_security ro, so_produces = ro_produces ro,
     so_parameters = map flat_parameter (ro_parameters ro),
     so_responses = map (\<lambda>(code, r). (code, flat_response r)) (ro_responses ro)\<rparr>"

subsection \<open>Both describe the same API\<close>

text \<open>No shared response is missing.\<close>

fun dangling :: "raw_response \<Rightarrow> bool" where
  "dangling (Shared r) = (map_of raw_responses (last_segment r) = None)"
| "dangling (Own s) = False"

lemma no_dangling_responses:
  "list_all (\<lambda>op. list_all (\<lambda>(code, r). \<not> dangling r) (ro_responses (raw_of op))) operations"
  by code_simp

lemma flat_operations: "map (\<lambda>op. flatten (raw_of op)) operations = map spec_of operations"
  by code_simp

lemma flat_path_parameters:
  "map (\<lambda>(path, ps). (path, map flat_parameter ps)) raw_path_parameters = path_parameters"
  by code_simp

lemma raw_models_kept: "list_all (\<lambda>(name, m). map_of spec_models name = Some m) raw_models"
  by code_simp

text \<open>
  The document that the clients are given and the one that the server works with describe the same
  API: following the references of the first gives the operations of the second, with their
  parameters, responses, formats and security, for all operations; the parameters of the paths
  and the defaults are the same, and the models of the first are unchanged in the second.\<close>

lemma documents_agree:
  "map (\<lambda>op. flatten (raw_of op)) operations = map spec_of operations \<and>
   map (\<lambda>(path, ps). (path, map flat_parameter ps)) raw_path_parameters = path_parameters \<and>
   raw_security = spec_security \<and> raw_produces = spec_produces \<and>
   list_all (\<lambda>(name, m). map_of spec_models name = Some m) raw_models"
  using flat_operations flat_path_parameters raw_models_kept
  by (simp add: raw_security_def spec_security_def raw_produces_def spec_produces_def)

end
