(* ===== verification/Jsonb.thy ===== *)
theory Jsonb
  imports Validation
begin

section \<open>Lists and numbers in columns\<close>

text \<open>
  \<open>models/types\<close>: the lists of orders and of turns in columns of the type JSONB, and decimal numbers.
  A nil slice is \<open>None\<close>. The encoding by \<open>pgtype\<close> and the parser of decimal numbers are parameters; what a
  driver hands over for NULL is \<open>None\<close>.
\<close>

datatype 'j jsonb = Jsonb_null | Jsonb_present 'j

record ('d, 'j) pgtype =
  pg_Scan :: "'d \<Rightarrow> err + 'j jsonb"
  pg_AssignTo :: "'j \<Rightarrow> err + string list"
  pg_Set :: "string list \<Rightarrow> err + 'j"
  pg_Value :: "'j \<Rightarrow> err + 'd"

text \<open>The documented behaviour of the library: what was written is read back.\<close>

definition pgtype_ok :: "('d, 'j) pgtype \<Rightarrow> bool" where
  "pgtype_ok pg = ((\<forall>xs j. pg_Set pg xs = Inr j \<longrightarrow> pg_AssignTo pg j = Inr xs) \<and>
     (\<forall>j s. pg_Value pg j = Inr s \<longrightarrow> pg_Scan pg s = Inr (Jsonb_present j)))"

subsection \<open>Orders\<close>

definition OrderList_Scan :: "('d, 'j) pgtype \<Rightarrow> 'd option \<Rightarrow> err + string list" where
  "OrderList_Scan pg src = (case src of
     None \<Rightarrow> Inl (OtherErr ''scan of Order: cannot scan NULL value'')
   | Some s \<Rightarrow> and_then (pg_Scan pg s) (\<lambda>data. case data of
       Jsonb_null \<Rightarrow> Inl (OtherErr ''scan of Order: cannot scan NULL value'')
     | Jsonb_present j \<Rightarrow> pg_AssignTo pg j))"

definition OrderList_Value :: "('d, 'j) pgtype \<Rightarrow> string list option \<Rightarrow> err + 'd" where
  "OrderList_Value pg a =
    (let v = (case a of None \<Rightarrow> [] | Some xs \<Rightarrow> xs) in and_then (pg_Set pg v) (pg_Value pg))"

text \<open>The loop returns the first error.\<close>

definition OrderList_Validate :: "validator \<Rightarrow> string list \<Rightarrow> verr option" where
  "OrderList_Validate V orders = first_error (map (Validate_Order V) orders)"

subsection \<open>Turns\<close>

definition Validate_Turn :: "validator \<Rightarrow> string \<Rightarrow> verr option" where
  "Validate_Turn V b64 = composite [RequiredString V ''b64_data'' b64]"

definition TurnList_Scan :: "('d, 'j) pgtype \<Rightarrow> 'd option \<Rightarrow> err + string list" where
  "TurnList_Scan pg src = (case src of
     None \<Rightarrow> Inl (OtherErr ''scan of Turn: cannot scan NULL value'')
   | Some s \<Rightarrow> and_then (pg_Scan pg s) (\<lambda>data. case data of
       Jsonb_null \<Rightarrow> Inl (OtherErr ''scan of Turn: cannot scan NULL value'')
     | Jsonb_present j \<Rightarrow> pg_AssignTo pg j))"

definition TurnList_Value :: "('d, 'j) pgtype \<Rightarrow> string list option \<Rightarrow> err + 'd" where
  "TurnList_Value pg a =
    (let v = (case a of None \<Rightarrow> [] | Some xs \<Rightarrow> xs) in and_then (pg_Set pg v) (pg_Value pg))"

definition TurnList_Validate :: "validator \<Rightarrow> string list \<Rightarrow> verr option" where
  "TurnList_Validate V turns = first_error (map (Validate_Turn V) turns)"

subsection \<open>Decimal numbers\<close>

text \<open>The first and the last character are read before anything is known of the length.\<close>

definition Decimal_UnmarshalJSON :: "(string \<Rightarrow> err + 'n) \<Rightarrow> string \<Rightarrow> err + 'n" where
  "Decimal_UnmarshalJSON UnmarshalText data =
    (if data = [] then Inl Panic
     else if hd data = CHR 0x22 \<and> last data = CHR 0x22
       then (if length data = 1 then Inl Panic else UnmarshalText (butlast (tl data)))
     else UnmarshalText data)"

definition Decimal_MarshalJSON :: "('n \<Rightarrow> err + string) \<Rightarrow> 'n \<Rightarrow> err + string" where
  "Decimal_MarshalJSON MarshalText d = MarshalText d"

text \<open>The receiver after a call that succeeds, or the error. The number is read into the receiver, then a variable that nothing
  was read into is copied over it. The zero of the type is a parameter.\<close>

definition Decimal_UnmarshalBinary :: "(string \<Rightarrow> err + 'n) \<Rightarrow> 'n \<Rightarrow> string \<Rightarrow> err + 'n" where
  "Decimal_UnmarshalBinary UnmarshalText zero b =
    and_then (Decimal_UnmarshalJSON UnmarshalText b) (\<lambda>d. let res = zero in Inr res)"

subsection \<open>What is stored is read back\<close>

lemma list_round_trip:
  assumes "pgtype_ok pg"
  shows "OrderList_Value pg a = Inr s \<Longrightarrow> OrderList_Scan pg (Some s) = Inr (case a of None \<Rightarrow> [] | Some xs \<Rightarrow> xs)"
    and "TurnList_Value pg a = Inr s \<Longrightarrow> TurnList_Scan pg (Some s) = Inr (case a of None \<Rightarrow> [] | Some xs \<Rightarrow> xs)"
  using assms
  by (auto simp: pgtype_ok_def OrderList_Value_def OrderList_Scan_def TurnList_Value_def TurnList_Scan_def and_then_eq_Inr)

text \<open>So a nil slice comes back as the empty list and NULL is never written; it is refused when read.\<close>

lemma null_is_refused:
  "OrderList_Scan pg None = Inl (OtherErr ''scan of Order: cannot scan NULL value'')"
  "pg_Scan pg s = Inr Jsonb_null \<Longrightarrow> OrderList_Scan pg (Some s) = OrderList_Scan pg None"
  "TurnList_Scan pg None = Inl (OtherErr ''scan of Turn: cannot scan NULL value'')"
  "pg_Scan pg s = Inr Jsonb_null \<Longrightarrow> TurnList_Scan pg (Some s) = TurnList_Scan pg None"
  by (simp_all add: OrderList_Scan_def TurnList_Scan_def)

lemma valid_lists:
  assumes "validator_ok V"
  shows "OrderList_Validate V xs = None \<longleftrightarrow> '''' \<notin> set xs" and "TurnList_Validate V xs = None \<longleftrightarrow> '''' \<notin> set xs"
proof -
  have "Validate_Order V b = None \<longleftrightarrow> b \<noteq> ''''" "Validate_Turn V b = None \<longleftrightarrow> b \<noteq> ''''" for b
    using assms by (simp_all add: Validate_Order_def Validate_Turn_def composite_None validator_ok_def)
  then show "OrderList_Validate V xs = None \<longleftrightarrow> '''' \<notin> set xs" "TurnList_Validate V xs = None \<longleftrightarrow> '''' \<notin> set xs"
    by (auto simp: OrderList_Validate_def TurnList_Validate_def first_error_None)
qed

text \<open>A number is read with or without quotes, and a lone quote is a panic.\<close>

lemma Decimal_quotes:
  assumes "text \<noteq> []" "hd text \<noteq> CHR 0x22"
  shows "Decimal_UnmarshalJSON f text = f text" and "Decimal_UnmarshalJSON f (CHR 0x22 # text @ [CHR 0x22]) = f text"
  using assms by (simp_all add: Decimal_UnmarshalJSON_def)

lemma Decimal_round_trip:
  assumes "Decimal_MarshalJSON m d = Inr text" "f text = Inr d" "text \<noteq> []" "hd text \<noteq> CHR 0x22"
  shows "Decimal_UnmarshalJSON f text = Inr d"
  using Decimal_quotes(1) [OF assms(3,4), of f] assms(2) by simp

lemma Decimal_panics: "Decimal_UnmarshalJSON f [] = Inl Panic" "Decimal_UnmarshalJSON f [CHR 0x22] = Inl Panic"
  by (simp_all add: Decimal_UnmarshalJSON_def)

text \<open>Whatever number is read this way, the receiver is zero.\<close>

lemma Decimal_UnmarshalBinary_loses_the_number:
  "Decimal_UnmarshalBinary f zero b = Inr d \<Longrightarrow> d = zero"
  by (simp add: Decimal_UnmarshalBinary_def and_then_eq_Inr)

end
