(* ===== verification/ApiColumns.thy ===== *)
theory ApiColumns
  imports Columns
begin

section \<open>The columns of the types of the API\<close>

text \<open>
  The rest of \<open>models/db_helpers.go\<close>: the types of the API have no table, but a query can select their
  columns into them. A type of a row embeds the type of the API, so \<open>Values\<close> of the latter takes the row
  of the model, of which it reads the embedded fields. Both types name their columns on their own;
  \<open>embedded_values\<close> says that they agree.
\<close>

text \<open>The types that no row embeds, by their fields with a column.\<close>

record PendingUserProfile =
  PU_CreatedAt :: int
  PU_Email :: string
  PU_ID :: id
  PU_Message :: "string option"
  PU_Nickname :: string

record TurnFilesRow =
  T_ID :: id
  T_SessionID :: id
  T_Year :: int

record User =
  Us_ID :: id
  Us_Nickname :: string

record sessionPlayerInfo =
  SPI_ID :: id
  SPI_UserProfileID :: id
  SPI_Ready :: bool
  SPI_PlayerOrder :: int
  SPI_IsBot :: bool
  SPI_BotLevel :: "int option"
  SPI_RaceName :: "string option"

subsection \<open>The interface\<close>

locale columned =
  fixes Columns :: "string list"
    and Values :: "'r \<Rightarrow> string list \<Rightarrow> sql_value list"
    and ValuesMap :: "'r \<Rightarrow> string list \<Rightarrow> (string \<rightharpoonup> sql_value)"
    and fields :: "'r \<Rightarrow> (string \<times> sql_value) list"
  assumes all_fields: "set Columns = fst ` set (fields r)"
    and Values_switch: "Values r cs = map (switch (fields r) VNil) cs"
    and ValuesMap_switch: "ValuesMap r cs = fold (switch_map (fields r)) cs Map.empty"
begin

lemma unknown: "c \<notin> set Columns \<Longrightarrow> Values r [c] = [VNil]"
  by (simp add: Values_switch switch_unknown all_fields [of r])

lemma as_map:
  "ValuesMap r cs c = (if c \<in> set cs \<inter> set Columns then Some (hd (Values r [c])) else None)"
  by (simp add: Values_switch ValuesMap_switch fold_switch_map [where d = VNil] all_fields [of r])

lemma dom_map: "dom (ValuesMap r cs) = set cs \<inter> set Columns"
  by (auto simp: dom_def as_map)

text \<open>A list of values pairs with the list of columns that it was asked for.\<close>

lemma values_of_map:
  assumes "set cs \<subseteq> set Columns"
  shows "map Some (Values r cs) = map (ValuesMap r cs) cs"
  using assms by (auto simp: Values_switch as_map)

end

text \<open>One \<open>switch\<close> extends another when it has its cases.\<close>

lemma switch_extends:
  assumes "distinct (map fst larger)" "set smaller \<subseteq> set larger" "c \<in> fst ` set smaller"
  shows "switch smaller d c = switch larger d c"
proof -
  have lookup: "switch cases d c = (case map_of cases c of None \<Rightarrow> d | Some v \<Rightarrow> v)" for cases
    by (induction cases) auto
  obtain v where v: "map_of smaller c = Some v" using assms(3) by (meson map_of_eq_None_iff not_Some_eq)
  then have "(c, v) \<in> set larger" using assms(2) map_of_SomeD by fastforce
  then show ?thesis using v assms(1) by (simp add: lookup)
qed

lemma map_switch_extends:
  assumes "distinct (map fst larger)" "set smaller \<subseteq> set larger" "set cs \<subseteq> fst ` set smaller"
  shows "map (switch smaller d) cs = map (switch larger d) cs"
  using assms by (intro map_cong refl switch_extends) auto

subsection \<open>Invitation\<close>

definition InvitationIDColumn :: string where
  "InvitationIDColumn = ''id''"

definition InvitationInviterIDColumn :: string where
  "InvitationInviterIDColumn = ''inviter_id''"

definition InvitationSessionIDColumn :: string where
  "InvitationSessionIDColumn = ''session_id''"

definition InvitationUserProfileIDColumn :: string where
  "InvitationUserProfileIDColumn = ''user_profile_id''"

definition InvitationColumns :: "string list" where
  "InvitationColumns = [InvitationIDColumn,
     InvitationInviterIDColumn,
     InvitationSessionIDColumn,
     InvitationUserProfileIDColumn]"

definition Invitation_Columns :: "string list" where
  "Invitation_Columns = InvitationColumns"

definition Invitation_Values :: "InvitationDB \<Rightarrow> string list \<Rightarrow> sql_value list" where
  "Invitation_Values s columns = map (\<lambda>column.
     if column = ''id'' then VText (I_ID s)
     else if column = ''inviter_id'' then VText (I_InviterID s)
     else if column = ''session_id'' then VText (I_SessionID s)
     else if column = ''user_profile_id'' then VText (I_UserProfileID s)
     else VNil) columns"

definition Invitation_ValuesMap :: "InvitationDB \<Rightarrow> string list \<Rightarrow> (string \<rightharpoonup> sql_value)" where
  "Invitation_ValuesMap s columns = fold (\<lambda>column values.
     if column = ''id'' then values(''id'' \<mapsto> VText (I_ID s))
     else if column = ''inviter_id'' then values(''inviter_id'' \<mapsto> VText (I_InviterID s))
     else if column = ''session_id'' then values(''session_id'' \<mapsto> VText (I_SessionID s))
     else if column = ''user_profile_id'' then values(''user_profile_id'' \<mapsto> VText (I_UserProfileID s))
     else values) columns Map.empty"

lemmas Invitation_columns = InvitationIDColumn_def InvitationInviterIDColumn_def InvitationSessionIDColumn_def InvitationUserProfileIDColumn_def InvitationColumns_def Invitation_Columns_def

definition Invitation_fields :: "InvitationDB \<Rightarrow> (string \<times> sql_value) list" where
  "Invitation_fields s = [(''id'', VText (I_ID s)),
     (''inviter_id'', VText (I_InviterID s)),
     (''session_id'', VText (I_SessionID s)),
     (''user_profile_id'', VText (I_UserProfileID s))]"

interpretation invitation_columned: columned Invitation_Columns Invitation_Values Invitation_ValuesMap Invitation_fields
proof unfold_locales
  fix r :: InvitationDB and cs
  show "set Invitation_Columns = fst ` set (Invitation_fields r)"
    by (simp add: Invitation_columns Invitation_fields_def)
  show "Invitation_Values r cs = map (switch (Invitation_fields r) VNil) cs"
    by (simp only: Invitation_Values_def Invitation_fields_def switch_eqs fst_conv snd_conv)
  show "Invitation_ValuesMap r cs = fold (switch_map (Invitation_fields r)) cs Map.empty"
    by (simp only: Invitation_ValuesMap_def Invitation_fields_def switch_map_eqs fst_conv snd_conv)
qed

subsection \<open>Race\<close>

definition RaceDataColumn :: string where
  "RaceDataColumn = ''data''"

definition RaceIDColumn :: string where
  "RaceIDColumn = ''id''"

definition RaceNamePluralColumn :: string where
  "RaceNamePluralColumn = ''name_plural''"

definition RaceNameSingularColumn :: string where
  "RaceNameSingularColumn = ''name_singular''"

definition RaceUserIDColumn :: string where
  "RaceUserIDColumn = ''user_id''"

definition RaceColumns :: "string list" where
  "RaceColumns = [RaceDataColumn,
     RaceIDColumn,
     RaceNamePluralColumn,
     RaceNameSingularColumn,
     RaceUserIDColumn]"

definition Race_Columns :: "string list" where
  "Race_Columns = RaceColumns"

definition Race_Values :: "RaceDB \<Rightarrow> string list \<Rightarrow> sql_value list" where
  "Race_Values s columns = map (\<lambda>column.
     if column = ''data'' then VText (Ra_Data s)
     else if column = ''id'' then VText (Ra_ID s)
     else if column = ''name_plural'' then VText (Ra_NamePlural s)
     else if column = ''name_singular'' then VText (Ra_NameSingular s)
     else if column = ''user_id'' then VText (Ra_UserID s)
     else VNil) columns"

definition Race_ValuesMap :: "RaceDB \<Rightarrow> string list \<Rightarrow> (string \<rightharpoonup> sql_value)" where
  "Race_ValuesMap s columns = fold (\<lambda>column values.
     if column = ''data'' then values(''data'' \<mapsto> VText (Ra_Data s))
     else if column = ''id'' then values(''id'' \<mapsto> VText (Ra_ID s))
     else if column = ''name_plural'' then values(''name_plural'' \<mapsto> VText (Ra_NamePlural s))
     else if column = ''name_singular'' then values(''name_singular'' \<mapsto> VText (Ra_NameSingular s))
     else if column = ''user_id'' then values(''user_id'' \<mapsto> VText (Ra_UserID s))
     else values) columns Map.empty"

lemmas Race_columns = RaceDataColumn_def RaceIDColumn_def RaceNamePluralColumn_def RaceNameSingularColumn_def RaceUserIDColumn_def RaceColumns_def Race_Columns_def

definition Race_fields :: "RaceDB \<Rightarrow> (string \<times> sql_value) list" where
  "Race_fields s = [(''data'', VText (Ra_Data s)),
     (''id'', VText (Ra_ID s)),
     (''name_plural'', VText (Ra_NamePlural s)),
     (''name_singular'', VText (Ra_NameSingular s)),
     (''user_id'', VText (Ra_UserID s))]"

interpretation race_columned: columned Race_Columns Race_Values Race_ValuesMap Race_fields
proof unfold_locales
  fix r :: RaceDB and cs
  show "set Race_Columns = fst ` set (Race_fields r)"
    by (simp add: Race_columns Race_fields_def)
  show "Race_Values r cs = map (switch (Race_fields r) VNil) cs"
    by (simp only: Race_Values_def Race_fields_def switch_eqs fst_conv snd_conv)
  show "Race_ValuesMap r cs = fold (switch_map (Race_fields r)) cs Map.empty"
    by (simp only: Race_ValuesMap_def Race_fields_def switch_map_eqs fst_conv snd_conv)
qed

subsection \<open>Ruleset\<close>

definition RulesetAcceleratedBbsPlayColumn :: string where
  "RulesetAcceleratedBbsPlayColumn = ''accelerated_bbs_play''"

definition RulesetComputerPlayersFormAlliancesColumn :: string where
  "RulesetComputerPlayersFormAlliancesColumn = ''computer_players_form_alliances''"

definition RulesetDensityColumn :: string where
  "RulesetDensityColumn = ''density''"

definition RulesetGalaxyClumpingColumn :: string where
  "RulesetGalaxyClumpingColumn = ''galaxy_clumping''"

definition RulesetMaximumMineralsColumn :: string where
  "RulesetMaximumMineralsColumn = ''maximum_minerals''"

definition RulesetNoRandomEventsColumn :: string where
  "RulesetNoRandomEventsColumn = ''no_random_events''"

definition RulesetPublicPlayerScoresColumn :: string where
  "RulesetPublicPlayerScoresColumn = ''public_player_scores''"

definition RulesetRandomSeedColumn :: string where
  "RulesetRandomSeedColumn = ''random_seed''"

definition RulesetSlowerTechAdvancesColumn :: string where
  "RulesetSlowerTechAdvancesColumn = ''slower_tech_advances''"

definition RulesetStartingDistanceColumn :: string where
  "RulesetStartingDistanceColumn = ''starting_distance''"

definition RulesetUniverseSizeColumn :: string where
  "RulesetUniverseSizeColumn = ''universe_size''"

definition RulesetVcAtLeastxYearsMustPassBeforeaWinnerIsDeclaredColumn :: string where
  "RulesetVcAtLeastxYearsMustPassBeforeaWinnerIsDeclaredColumn = ''vc_at_least_x_years_must_pass_before_a_winner_is_declared''"

definition RulesetVcAttainTechXInYFieldColumn :: string where
  "RulesetVcAttainTechXInYFieldColumn = ''vc_attain_tech_x_in_y_field''"

definition RulesetVcAttainTechXInYFieldFieldsValueColumn :: string where
  "RulesetVcAttainTechXInYFieldFieldsValueColumn = ''vc_attain_tech_x_in_y_field_fields_value''"

definition RulesetVcAttainTechXInYFieldTechValueColumn :: string where
  "RulesetVcAttainTechXInYFieldTechValueColumn = ''vc_attain_tech_x_in_y_field_tech_value''"

definition RulesetVcExceedNextPlayerScoreByxColumn :: string where
  "RulesetVcExceedNextPlayerScoreByxColumn = ''vc_exceed_next_player_score_by_x''"

definition RulesetVcExceedNextPlayerScoreByxValueColumn :: string where
  "RulesetVcExceedNextPlayerScoreByxValueColumn = ''vc_exceed_next_player_score_by_x_value''"

definition RulesetVcExceedScoreOfxColumn :: string where
  "RulesetVcExceedScoreOfxColumn = ''vc_exceed_score_of_x''"

definition RulesetVcExceedScoreOfxValueColumn :: string where
  "RulesetVcExceedScoreOfxValueColumn = ''vc_exceed_score_of_x_value''"

definition RulesetVcHasProductionCapacityOfxThousandColumn :: string where
  "RulesetVcHasProductionCapacityOfxThousandColumn = ''vc_has_production_capacity_of_x_thousand''"

definition RulesetVcHasProductionCapacityOfxThousandValueColumn :: string where
  "RulesetVcHasProductionCapacityOfxThousandValueColumn = ''vc_has_production_capacity_of_x_thousand_value''"

definition RulesetVcHaveHighestScoreAfterxYearsColumn :: string where
  "RulesetVcHaveHighestScoreAfterxYearsColumn = ''vc_have_highest_score_after_x_years''"

definition RulesetVcHaveHighestScoreAfterxYearsValueColumn :: string where
  "RulesetVcHaveHighestScoreAfterxYearsValueColumn = ''vc_have_highest_score_after_x_years_value''"

definition RulesetVcOwnsxCapitalShipsColumn :: string where
  "RulesetVcOwnsxCapitalShipsColumn = ''vc_owns_x_capital_ships''"

definition RulesetVcOwnsxCapitalShipsValueColumn :: string where
  "RulesetVcOwnsxCapitalShipsValueColumn = ''vc_owns_x_capital_ships_value''"

definition RulesetVcOwnsxPercentOfPlanetsColumn :: string where
  "RulesetVcOwnsxPercentOfPlanetsColumn = ''vc_owns_x_percent_of_planets''"

definition RulesetVcOwnsxPercentOfPlanetsValueColumn :: string where
  "RulesetVcOwnsxPercentOfPlanetsValueColumn = ''vc_owns_x_percent_of_planets_value''"

definition RulesetVcWinnerMustMeetxOfTheAboveColumn :: string where
  "RulesetVcWinnerMustMeetxOfTheAboveColumn = ''vc_winner_must_meet_x_of_the_above''"

definition RulesetColumns :: "string list" where
  "RulesetColumns = [RulesetAcceleratedBbsPlayColumn,
     RulesetComputerPlayersFormAlliancesColumn,
     RulesetDensityColumn,
     RulesetGalaxyClumpingColumn,
     RulesetMaximumMineralsColumn,
     RulesetNoRandomEventsColumn,
     RulesetPublicPlayerScoresColumn,
     RulesetRandomSeedColumn,
     RulesetSlowerTechAdvancesColumn,
     RulesetStartingDistanceColumn,
     RulesetUniverseSizeColumn,
     RulesetVcAtLeastxYearsMustPassBeforeaWinnerIsDeclaredColumn,
     RulesetVcAttainTechXInYFieldColumn,
     RulesetVcAttainTechXInYFieldFieldsValueColumn,
     RulesetVcAttainTechXInYFieldTechValueColumn,
     RulesetVcExceedNextPlayerScoreByxColumn,
     RulesetVcExceedNextPlayerScoreByxValueColumn,
     RulesetVcExceedScoreOfxColumn,
     RulesetVcExceedScoreOfxValueColumn,
     RulesetVcHasProductionCapacityOfxThousandColumn,
     RulesetVcHasProductionCapacityOfxThousandValueColumn,
     RulesetVcHaveHighestScoreAfterxYearsColumn,
     RulesetVcHaveHighestScoreAfterxYearsValueColumn,
     RulesetVcOwnsxCapitalShipsColumn,
     RulesetVcOwnsxCapitalShipsValueColumn,
     RulesetVcOwnsxPercentOfPlanetsColumn,
     RulesetVcOwnsxPercentOfPlanetsValueColumn,
     RulesetVcWinnerMustMeetxOfTheAboveColumn]"

definition Ruleset_Columns :: "string list" where
  "Ruleset_Columns = RulesetColumns"

definition Ruleset_Values :: "Ruleset \<Rightarrow> string list \<Rightarrow> sql_value list" where
  "Ruleset_Values s columns = map (\<lambda>column.
     if column = ''accelerated_bbs_play'' then VBool (AcceleratedBbsPlay s)
     else if column = ''computer_players_form_alliances'' then VBool (ComputerPlayersFormAlliances s)
     else if column = ''density'' then VInt (Density s)
     else if column = ''galaxy_clumping'' then VBool (GalaxyClumping s)
     else if column = ''maximum_minerals'' then VBool (MaximumMinerals s)
     else if column = ''no_random_events'' then VBool (NoRandomEvents s)
     else if column = ''public_player_scores'' then VBool (PublicPlayerScores s)
     else if column = ''random_seed'' then VInt (RandomSeed s)
     else if column = ''slower_tech_advances'' then VBool (SlowerTechAdvances s)
     else if column = ''starting_distance'' then VInt (StartingDistance s)
     else if column = ''universe_size'' then VInt (UniverseSize s)
     else if column = ''vc_at_least_x_years_must_pass_before_a_winner_is_declared'' then VInt (VcAtLeastxYears s)
     else if column = ''vc_attain_tech_x_in_y_field'' then VBool (VcAttainTech s)
     else if column = ''vc_attain_tech_x_in_y_field_fields_value'' then VInt (VcAttainTechFieldsValue s)
     else if column = ''vc_attain_tech_x_in_y_field_tech_value'' then VInt (VcAttainTechTechValue s)
     else if column = ''vc_exceed_next_player_score_by_x'' then VBool (VcExceedNextPlayerScore s)
     else if column = ''vc_exceed_next_player_score_by_x_value'' then VInt (VcExceedNextPlayerScoreValue s)
     else if column = ''vc_exceed_score_of_x'' then VBool (VcExceedScore s)
     else if column = ''vc_exceed_score_of_x_value'' then VInt (VcExceedScoreValue s)
     else if column = ''vc_has_production_capacity_of_x_thousand'' then VBool (VcHasProductionCapacity s)
     else if column = ''vc_has_production_capacity_of_x_thousand_value'' then VInt (VcHasProductionCapacityValue s)
     else if column = ''vc_have_highest_score_after_x_years'' then VBool (VcHaveHighestScore s)
     else if column = ''vc_have_highest_score_after_x_years_value'' then VInt (VcHaveHighestScoreValue s)
     else if column = ''vc_owns_x_capital_ships'' then VBool (VcOwnsCapitalShips s)
     else if column = ''vc_owns_x_capital_ships_value'' then VInt (VcOwnsCapitalShipsValue s)
     else if column = ''vc_owns_x_percent_of_planets'' then VBool (VcOwnsPercentOfPlanets s)
     else if column = ''vc_owns_x_percent_of_planets_value'' then VInt (VcOwnsPercentOfPlanetsValue s)
     else if column = ''vc_winner_must_meet_x_of_the_above'' then VInt (VcWinnerMustMeet s)
     else VNil) columns"

definition Ruleset_ValuesMap :: "Ruleset \<Rightarrow> string list \<Rightarrow> (string \<rightharpoonup> sql_value)" where
  "Ruleset_ValuesMap s columns = fold (\<lambda>column values.
     if column = ''accelerated_bbs_play'' then values(''accelerated_bbs_play'' \<mapsto> VBool (AcceleratedBbsPlay s))
     else if column = ''computer_players_form_alliances'' then values(''computer_players_form_alliances'' \<mapsto> VBool (ComputerPlayersFormAlliances s))
     else if column = ''density'' then values(''density'' \<mapsto> VInt (Density s))
     else if column = ''galaxy_clumping'' then values(''galaxy_clumping'' \<mapsto> VBool (GalaxyClumping s))
     else if column = ''maximum_minerals'' then values(''maximum_minerals'' \<mapsto> VBool (MaximumMinerals s))
     else if column = ''no_random_events'' then values(''no_random_events'' \<mapsto> VBool (NoRandomEvents s))
     else if column = ''public_player_scores'' then values(''public_player_scores'' \<mapsto> VBool (PublicPlayerScores s))
     else if column = ''random_seed'' then values(''random_seed'' \<mapsto> VInt (RandomSeed s))
     else if column = ''slower_tech_advances'' then values(''slower_tech_advances'' \<mapsto> VBool (SlowerTechAdvances s))
     else if column = ''starting_distance'' then values(''starting_distance'' \<mapsto> VInt (StartingDistance s))
     else if column = ''universe_size'' then values(''universe_size'' \<mapsto> VInt (UniverseSize s))
     else if column = ''vc_at_least_x_years_must_pass_before_a_winner_is_declared'' then values(''vc_at_least_x_years_must_pass_before_a_winner_is_declared'' \<mapsto> VInt (VcAtLeastxYears s))
     else if column = ''vc_attain_tech_x_in_y_field'' then values(''vc_attain_tech_x_in_y_field'' \<mapsto> VBool (VcAttainTech s))
     else if column = ''vc_attain_tech_x_in_y_field_fields_value'' then values(''vc_attain_tech_x_in_y_field_fields_value'' \<mapsto> VInt (VcAttainTechFieldsValue s))
     else if column = ''vc_attain_tech_x_in_y_field_tech_value'' then values(''vc_attain_tech_x_in_y_field_tech_value'' \<mapsto> VInt (VcAttainTechTechValue s))
     else if column = ''vc_exceed_next_player_score_by_x'' then values(''vc_exceed_next_player_score_by_x'' \<mapsto> VBool (VcExceedNextPlayerScore s))
     else if column = ''vc_exceed_next_player_score_by_x_value'' then values(''vc_exceed_next_player_score_by_x_value'' \<mapsto> VInt (VcExceedNextPlayerScoreValue s))
     else if column = ''vc_exceed_score_of_x'' then values(''vc_exceed_score_of_x'' \<mapsto> VBool (VcExceedScore s))
     else if column = ''vc_exceed_score_of_x_value'' then values(''vc_exceed_score_of_x_value'' \<mapsto> VInt (VcExceedScoreValue s))
     else if column = ''vc_has_production_capacity_of_x_thousand'' then values(''vc_has_production_capacity_of_x_thousand'' \<mapsto> VBool (VcHasProductionCapacity s))
     else if column = ''vc_has_production_capacity_of_x_thousand_value'' then values(''vc_has_production_capacity_of_x_thousand_value'' \<mapsto> VInt (VcHasProductionCapacityValue s))
     else if column = ''vc_have_highest_score_after_x_years'' then values(''vc_have_highest_score_after_x_years'' \<mapsto> VBool (VcHaveHighestScore s))
     else if column = ''vc_have_highest_score_after_x_years_value'' then values(''vc_have_highest_score_after_x_years_value'' \<mapsto> VInt (VcHaveHighestScoreValue s))
     else if column = ''vc_owns_x_capital_ships'' then values(''vc_owns_x_capital_ships'' \<mapsto> VBool (VcOwnsCapitalShips s))
     else if column = ''vc_owns_x_capital_ships_value'' then values(''vc_owns_x_capital_ships_value'' \<mapsto> VInt (VcOwnsCapitalShipsValue s))
     else if column = ''vc_owns_x_percent_of_planets'' then values(''vc_owns_x_percent_of_planets'' \<mapsto> VBool (VcOwnsPercentOfPlanets s))
     else if column = ''vc_owns_x_percent_of_planets_value'' then values(''vc_owns_x_percent_of_planets_value'' \<mapsto> VInt (VcOwnsPercentOfPlanetsValue s))
     else if column = ''vc_winner_must_meet_x_of_the_above'' then values(''vc_winner_must_meet_x_of_the_above'' \<mapsto> VInt (VcWinnerMustMeet s))
     else values) columns Map.empty"

lemmas Ruleset_columns = RulesetAcceleratedBbsPlayColumn_def RulesetComputerPlayersFormAlliancesColumn_def RulesetDensityColumn_def RulesetGalaxyClumpingColumn_def RulesetMaximumMineralsColumn_def RulesetNoRandomEventsColumn_def RulesetPublicPlayerScoresColumn_def RulesetRandomSeedColumn_def RulesetSlowerTechAdvancesColumn_def RulesetStartingDistanceColumn_def RulesetUniverseSizeColumn_def RulesetVcAtLeastxYearsMustPassBeforeaWinnerIsDeclaredColumn_def RulesetVcAttainTechXInYFieldColumn_def RulesetVcAttainTechXInYFieldFieldsValueColumn_def RulesetVcAttainTechXInYFieldTechValueColumn_def RulesetVcExceedNextPlayerScoreByxColumn_def RulesetVcExceedNextPlayerScoreByxValueColumn_def RulesetVcExceedScoreOfxColumn_def RulesetVcExceedScoreOfxValueColumn_def RulesetVcHasProductionCapacityOfxThousandColumn_def RulesetVcHasProductionCapacityOfxThousandValueColumn_def RulesetVcHaveHighestScoreAfterxYearsColumn_def RulesetVcHaveHighestScoreAfterxYearsValueColumn_def RulesetVcOwnsxCapitalShipsColumn_def RulesetVcOwnsxCapitalShipsValueColumn_def RulesetVcOwnsxPercentOfPlanetsColumn_def RulesetVcOwnsxPercentOfPlanetsValueColumn_def RulesetVcWinnerMustMeetxOfTheAboveColumn_def RulesetColumns_def Ruleset_Columns_def

definition Ruleset_fields :: "Ruleset \<Rightarrow> (string \<times> sql_value) list" where
  "Ruleset_fields s = [(''accelerated_bbs_play'', VBool (AcceleratedBbsPlay s)),
     (''computer_players_form_alliances'', VBool (ComputerPlayersFormAlliances s)),
     (''density'', VInt (Density s)),
     (''galaxy_clumping'', VBool (GalaxyClumping s)),
     (''maximum_minerals'', VBool (MaximumMinerals s)),
     (''no_random_events'', VBool (NoRandomEvents s)),
     (''public_player_scores'', VBool (PublicPlayerScores s)),
     (''random_seed'', VInt (RandomSeed s)),
     (''slower_tech_advances'', VBool (SlowerTechAdvances s)),
     (''starting_distance'', VInt (StartingDistance s)),
     (''universe_size'', VInt (UniverseSize s)),
     (''vc_at_least_x_years_must_pass_before_a_winner_is_declared'', VInt (VcAtLeastxYears s)),
     (''vc_attain_tech_x_in_y_field'', VBool (VcAttainTech s)),
     (''vc_attain_tech_x_in_y_field_fields_value'', VInt (VcAttainTechFieldsValue s)),
     (''vc_attain_tech_x_in_y_field_tech_value'', VInt (VcAttainTechTechValue s)),
     (''vc_exceed_next_player_score_by_x'', VBool (VcExceedNextPlayerScore s)),
     (''vc_exceed_next_player_score_by_x_value'', VInt (VcExceedNextPlayerScoreValue s)),
     (''vc_exceed_score_of_x'', VBool (VcExceedScore s)),
     (''vc_exceed_score_of_x_value'', VInt (VcExceedScoreValue s)),
     (''vc_has_production_capacity_of_x_thousand'', VBool (VcHasProductionCapacity s)),
     (''vc_has_production_capacity_of_x_thousand_value'', VInt (VcHasProductionCapacityValue s)),
     (''vc_have_highest_score_after_x_years'', VBool (VcHaveHighestScore s)),
     (''vc_have_highest_score_after_x_years_value'', VInt (VcHaveHighestScoreValue s)),
     (''vc_owns_x_capital_ships'', VBool (VcOwnsCapitalShips s)),
     (''vc_owns_x_capital_ships_value'', VInt (VcOwnsCapitalShipsValue s)),
     (''vc_owns_x_percent_of_planets'', VBool (VcOwnsPercentOfPlanets s)),
     (''vc_owns_x_percent_of_planets_value'', VInt (VcOwnsPercentOfPlanetsValue s)),
     (''vc_winner_must_meet_x_of_the_above'', VInt (VcWinnerMustMeet s))]"

interpretation ruleset_columned: columned Ruleset_Columns Ruleset_Values Ruleset_ValuesMap Ruleset_fields
proof unfold_locales
  fix r :: Ruleset and cs
  show "set Ruleset_Columns = fst ` set (Ruleset_fields r)"
    by (simp add: Ruleset_columns Ruleset_fields_def)
  show "Ruleset_Values r cs = map (switch (Ruleset_fields r) VNil) cs"
    by (simp only: Ruleset_Values_def Ruleset_fields_def switch_eqs fst_conv snd_conv)
  show "Ruleset_ValuesMap r cs = fold (switch_map (Ruleset_fields r)) cs Map.empty"
    by (simp only: Ruleset_ValuesMap_def Ruleset_fields_def switch_map_eqs fst_conv snd_conv)
qed

subsection \<open>Session\<close>

definition SessionIDColumn :: string where
  "SessionIDColumn = ''id''"

definition SessionNameColumn :: string where
  "SessionNameColumn = ''name''"

definition SessionPrivateColumn :: string where
  "SessionPrivateColumn = ''private''"

definition SessionRulesIsSetColumn :: string where
  "SessionRulesIsSetColumn = ''rules_is_set''"

definition SessionStateColumn :: string where
  "SessionStateColumn = ''state''"

definition SessionColumns :: "string list" where
  "SessionColumns = [SessionIDColumn,
     SessionNameColumn,
     SessionPrivateColumn,
     SessionRulesIsSetColumn,
     SessionStateColumn]"

definition Session_Columns :: "string list" where
  "Session_Columns = SessionColumns"

definition Session_Values :: "SessionDB \<Rightarrow> string list \<Rightarrow> sql_value list" where
  "Session_Values s columns = map (\<lambda>column.
     if column = ''id'' then VText (S_ID s)
     else if column = ''name'' then VText (S_Name s)
     else if column = ''private'' then VBool (S_Private s)
     else if column = ''rules_is_set'' then VBool (S_RulesIsSet s)
     else if column = ''state'' then VSessionState (S_State s)
     else VNil) columns"

definition Session_ValuesMap :: "SessionDB \<Rightarrow> string list \<Rightarrow> (string \<rightharpoonup> sql_value)" where
  "Session_ValuesMap s columns = fold (\<lambda>column values.
     if column = ''id'' then values(''id'' \<mapsto> VText (S_ID s))
     else if column = ''name'' then values(''name'' \<mapsto> VText (S_Name s))
     else if column = ''private'' then values(''private'' \<mapsto> VBool (S_Private s))
     else if column = ''rules_is_set'' then values(''rules_is_set'' \<mapsto> VBool (S_RulesIsSet s))
     else if column = ''state'' then values(''state'' \<mapsto> VSessionState (S_State s))
     else values) columns Map.empty"

lemmas Session_columns = SessionIDColumn_def SessionNameColumn_def SessionPrivateColumn_def SessionRulesIsSetColumn_def SessionStateColumn_def SessionColumns_def Session_Columns_def

definition Session_fields :: "SessionDB \<Rightarrow> (string \<times> sql_value) list" where
  "Session_fields s = [(''id'', VText (S_ID s)),
     (''name'', VText (S_Name s)),
     (''private'', VBool (S_Private s)),
     (''rules_is_set'', VBool (S_RulesIsSet s)),
     (''state'', VSessionState (S_State s))]"

interpretation session_columned: columned Session_Columns Session_Values Session_ValuesMap Session_fields
proof unfold_locales
  fix r :: SessionDB and cs
  show "set Session_Columns = fst ` set (Session_fields r)"
    by (simp add: Session_columns Session_fields_def)
  show "Session_Values r cs = map (switch (Session_fields r) VNil) cs"
    by (simp only: Session_Values_def Session_fields_def switch_eqs fst_conv snd_conv)
  show "Session_ValuesMap r cs = fold (switch_map (Session_fields r)) cs Map.empty"
    by (simp only: Session_ValuesMap_def Session_fields_def switch_map_eqs fst_conv snd_conv)
qed

subsection \<open>SessionFiles\<close>

definition SessionFilesHostFileColumn :: string where
  "SessionFilesHostFileColumn = ''hostfile''"

definition SessionFilesIDColumn :: string where
  "SessionFilesIDColumn = ''id''"

definition SessionFilesOrdersColumn :: string where
  "SessionFilesOrdersColumn = ''orders''"

definition SessionFilesSessionIDColumn :: string where
  "SessionFilesSessionIDColumn = ''session_id''"

definition SessionFilesTurnsColumn :: string where
  "SessionFilesTurnsColumn = ''turns''"

definition SessionFilesUniverseColumn :: string where
  "SessionFilesUniverseColumn = ''universe''"

definition SessionFilesYearColumn :: string where
  "SessionFilesYearColumn = ''year''"

definition SessionFilesColumns :: "string list" where
  "SessionFilesColumns = [SessionFilesHostFileColumn,
     SessionFilesIDColumn,
     SessionFilesOrdersColumn,
     SessionFilesSessionIDColumn,
     SessionFilesTurnsColumn,
     SessionFilesUniverseColumn,
     SessionFilesYearColumn]"

definition SessionFiles_Columns :: "string list" where
  "SessionFiles_Columns = SessionFilesColumns"

definition SessionFiles_Values :: "SessionFilesDB \<Rightarrow> string list \<Rightarrow> sql_value list" where
  "SessionFiles_Values s columns = map (\<lambda>column.
     if column = ''hostfile'' then VText (F_HostFile s)
     else if column = ''id'' then VText (F_ID s)
     else if column = ''orders'' then VTexts (F_Orders s)
     else if column = ''session_id'' then VText (F_SessionID s)
     else if column = ''turns'' then VTexts (F_Turns s)
     else if column = ''universe'' then VText (F_Universe s)
     else if column = ''year'' then VInt (F_Year s)
     else VNil) columns"

definition SessionFiles_ValuesMap :: "SessionFilesDB \<Rightarrow> string list \<Rightarrow> (string \<rightharpoonup> sql_value)" where
  "SessionFiles_ValuesMap s columns = fold (\<lambda>column values.
     if column = ''hostfile'' then values(''hostfile'' \<mapsto> VText (F_HostFile s))
     else if column = ''id'' then values(''id'' \<mapsto> VText (F_ID s))
     else if column = ''orders'' then values(''orders'' \<mapsto> VTexts (F_Orders s))
     else if column = ''session_id'' then values(''session_id'' \<mapsto> VText (F_SessionID s))
     else if column = ''turns'' then values(''turns'' \<mapsto> VTexts (F_Turns s))
     else if column = ''universe'' then values(''universe'' \<mapsto> VText (F_Universe s))
     else if column = ''year'' then values(''year'' \<mapsto> VInt (F_Year s))
     else values) columns Map.empty"

lemmas SessionFiles_columns = SessionFilesHostFileColumn_def SessionFilesIDColumn_def SessionFilesOrdersColumn_def SessionFilesSessionIDColumn_def SessionFilesTurnsColumn_def SessionFilesUniverseColumn_def SessionFilesYearColumn_def SessionFilesColumns_def SessionFiles_Columns_def

definition SessionFiles_fields :: "SessionFilesDB \<Rightarrow> (string \<times> sql_value) list" where
  "SessionFiles_fields s = [(''hostfile'', VText (F_HostFile s)),
     (''id'', VText (F_ID s)),
     (''orders'', VTexts (F_Orders s)),
     (''session_id'', VText (F_SessionID s)),
     (''turns'', VTexts (F_Turns s)),
     (''universe'', VText (F_Universe s)),
     (''year'', VInt (F_Year s))]"

interpretation session_files_columned: columned SessionFiles_Columns SessionFiles_Values SessionFiles_ValuesMap SessionFiles_fields
proof unfold_locales
  fix r :: SessionFilesDB and cs
  show "set SessionFiles_Columns = fst ` set (SessionFiles_fields r)"
    by (simp add: SessionFiles_columns SessionFiles_fields_def)
  show "SessionFiles_Values r cs = map (switch (SessionFiles_fields r) VNil) cs"
    by (simp only: SessionFiles_Values_def SessionFiles_fields_def switch_eqs fst_conv snd_conv)
  show "SessionFiles_ValuesMap r cs = fold (switch_map (SessionFiles_fields r)) cs Map.empty"
    by (simp only: SessionFiles_ValuesMap_def SessionFiles_fields_def switch_map_eqs fst_conv snd_conv)
qed

subsection \<open>SessionPlayerRace\<close>

definition SessionPlayerRaceBotLevelColumn :: string where
  "SessionPlayerRaceBotLevelColumn = ''bot_level''"

definition SessionPlayerRaceIDColumn :: string where
  "SessionPlayerRaceIDColumn = ''id''"

definition SessionPlayerRaceIsBotColumn :: string where
  "SessionPlayerRaceIsBotColumn = ''is_bot''"

definition SessionPlayerRacePlayerOrderColumn :: string where
  "SessionPlayerRacePlayerOrderColumn = ''player_order''"

definition SessionPlayerRaceRaceIDColumn :: string where
  "SessionPlayerRaceRaceIDColumn = ''race_id''"

definition SessionPlayerRaceReadyColumn :: string where
  "SessionPlayerRaceReadyColumn = ''ready''"

definition SessionPlayerRaceSessionIDColumn :: string where
  "SessionPlayerRaceSessionIDColumn = ''session_id''"

definition SessionPlayerRaceUserProfileIDColumn :: string where
  "SessionPlayerRaceUserProfileIDColumn = ''user_profile_id''"

definition SessionPlayerRaceColumns :: "string list" where
  "SessionPlayerRaceColumns = [SessionPlayerRaceBotLevelColumn,
     SessionPlayerRaceIDColumn,
     SessionPlayerRaceIsBotColumn,
     SessionPlayerRacePlayerOrderColumn,
     SessionPlayerRaceRaceIDColumn,
     SessionPlayerRaceReadyColumn,
     SessionPlayerRaceSessionIDColumn,
     SessionPlayerRaceUserProfileIDColumn]"

definition SessionPlayerRace_Columns :: "string list" where
  "SessionPlayerRace_Columns = SessionPlayerRaceColumns"

definition SessionPlayerRace_Values :: "SessionPlayerRaceDB \<Rightarrow> string list \<Rightarrow> sql_value list" where
  "SessionPlayerRace_Values s columns = map (\<lambda>column.
     if column = ''bot_level'' then VOptInt (P_BotLevel s)
     else if column = ''id'' then VText (P_ID s)
     else if column = ''is_bot'' then VBool (P_IsBot s)
     else if column = ''player_order'' then VInt (P_PlayerOrder s)
     else if column = ''race_id'' then VText (P_RaceID s)
     else if column = ''ready'' then VBool (P_Ready s)
     else if column = ''session_id'' then VText (P_SessionID s)
     else if column = ''user_profile_id'' then VText (P_UserProfileID s)
     else VNil) columns"

definition SessionPlayerRace_ValuesMap :: "SessionPlayerRaceDB \<Rightarrow> string list \<Rightarrow> (string \<rightharpoonup> sql_value)" where
  "SessionPlayerRace_ValuesMap s columns = fold (\<lambda>column values.
     if column = ''bot_level'' then values(''bot_level'' \<mapsto> VOptInt (P_BotLevel s))
     else if column = ''id'' then values(''id'' \<mapsto> VText (P_ID s))
     else if column = ''is_bot'' then values(''is_bot'' \<mapsto> VBool (P_IsBot s))
     else if column = ''player_order'' then values(''player_order'' \<mapsto> VInt (P_PlayerOrder s))
     else if column = ''race_id'' then values(''race_id'' \<mapsto> VText (P_RaceID s))
     else if column = ''ready'' then values(''ready'' \<mapsto> VBool (P_Ready s))
     else if column = ''session_id'' then values(''session_id'' \<mapsto> VText (P_SessionID s))
     else if column = ''user_profile_id'' then values(''user_profile_id'' \<mapsto> VText (P_UserProfileID s))
     else values) columns Map.empty"

lemmas SessionPlayerRace_columns = SessionPlayerRaceBotLevelColumn_def SessionPlayerRaceIDColumn_def SessionPlayerRaceIsBotColumn_def SessionPlayerRacePlayerOrderColumn_def SessionPlayerRaceRaceIDColumn_def SessionPlayerRaceReadyColumn_def SessionPlayerRaceSessionIDColumn_def SessionPlayerRaceUserProfileIDColumn_def SessionPlayerRaceColumns_def SessionPlayerRace_Columns_def

definition SessionPlayerRace_fields :: "SessionPlayerRaceDB \<Rightarrow> (string \<times> sql_value) list" where
  "SessionPlayerRace_fields s = [(''bot_level'', VOptInt (P_BotLevel s)),
     (''id'', VText (P_ID s)),
     (''is_bot'', VBool (P_IsBot s)),
     (''player_order'', VInt (P_PlayerOrder s)),
     (''race_id'', VText (P_RaceID s)),
     (''ready'', VBool (P_Ready s)),
     (''session_id'', VText (P_SessionID s)),
     (''user_profile_id'', VText (P_UserProfileID s))]"

interpretation session_player_race_columned: columned SessionPlayerRace_Columns SessionPlayerRace_Values SessionPlayerRace_ValuesMap SessionPlayerRace_fields
proof unfold_locales
  fix r :: SessionPlayerRaceDB and cs
  show "set SessionPlayerRace_Columns = fst ` set (SessionPlayerRace_fields r)"
    by (simp add: SessionPlayerRace_columns SessionPlayerRace_fields_def)
  show "SessionPlayerRace_Values r cs = map (switch (SessionPlayerRace_fields r) VNil) cs"
    by (simp only: SessionPlayerRace_Values_def SessionPlayerRace_fields_def switch_eqs fst_conv snd_conv)
  show "SessionPlayerRace_ValuesMap r cs = fold (switch_map (SessionPlayerRace_fields r)) cs Map.empty"
    by (simp only: SessionPlayerRace_ValuesMap_def SessionPlayerRace_fields_def switch_map_eqs fst_conv snd_conv)
qed

subsection \<open>UserProfile\<close>

definition UserProfileEmailColumn :: string where
  "UserProfileEmailColumn = ''email''"

definition UserProfileIDColumn :: string where
  "UserProfileIDColumn = ''id''"

definition UserProfileIsManagerColumn :: string where
  "UserProfileIsManagerColumn = ''is_manager''"

definition UserProfileNicknameColumn :: string where
  "UserProfileNicknameColumn = ''nickname''"

definition UserProfileRegistrationMessageColumn :: string where
  "UserProfileRegistrationMessageColumn = ''registration_message''"

definition UserProfileStateColumn :: string where
  "UserProfileStateColumn = ''state''"

definition UserProfileColumns :: "string list" where
  "UserProfileColumns = [UserProfileEmailColumn,
     UserProfileIDColumn,
     UserProfileIsManagerColumn,
     UserProfileNicknameColumn,
     UserProfileRegistrationMessageColumn,
     UserProfileStateColumn]"

definition UserProfile_Columns :: "string list" where
  "UserProfile_Columns = UserProfileColumns"

definition UserProfile_Values :: "UserProfileDB \<Rightarrow> string list \<Rightarrow> sql_value list" where
  "UserProfile_Values s columns = map (\<lambda>column.
     if column = ''email'' then VText (U_Email s)
     else if column = ''id'' then VText (U_ID s)
     else if column = ''is_manager'' then VBool (U_IsManager s)
     else if column = ''nickname'' then VText (U_Nickname s)
     else if column = ''registration_message'' then VOptText (U_RegistrationMessage s)
     else if column = ''state'' then VUserState (U_State s)
     else VNil) columns"

definition UserProfile_ValuesMap :: "UserProfileDB \<Rightarrow> string list \<Rightarrow> (string \<rightharpoonup> sql_value)" where
  "UserProfile_ValuesMap s columns = fold (\<lambda>column values.
     if column = ''email'' then values(''email'' \<mapsto> VText (U_Email s))
     else if column = ''id'' then values(''id'' \<mapsto> VText (U_ID s))
     else if column = ''is_manager'' then values(''is_manager'' \<mapsto> VBool (U_IsManager s))
     else if column = ''nickname'' then values(''nickname'' \<mapsto> VText (U_Nickname s))
     else if column = ''registration_message'' then values(''registration_message'' \<mapsto> VOptText (U_RegistrationMessage s))
     else if column = ''state'' then values(''state'' \<mapsto> VUserState (U_State s))
     else values) columns Map.empty"

lemmas UserProfile_columns = UserProfileEmailColumn_def UserProfileIDColumn_def UserProfileIsManagerColumn_def UserProfileNicknameColumn_def UserProfileRegistrationMessageColumn_def UserProfileStateColumn_def UserProfileColumns_def UserProfile_Columns_def

definition UserProfile_fields :: "UserProfileDB \<Rightarrow> (string \<times> sql_value) list" where
  "UserProfile_fields s = [(''email'', VText (U_Email s)),
     (''id'', VText (U_ID s)),
     (''is_manager'', VBool (U_IsManager s)),
     (''nickname'', VText (U_Nickname s)),
     (''registration_message'', VOptText (U_RegistrationMessage s)),
     (''state'', VUserState (U_State s))]"

interpretation user_profile_columned: columned UserProfile_Columns UserProfile_Values UserProfile_ValuesMap UserProfile_fields
proof unfold_locales
  fix r :: UserProfileDB and cs
  show "set UserProfile_Columns = fst ` set (UserProfile_fields r)"
    by (simp add: UserProfile_columns UserProfile_fields_def)
  show "UserProfile_Values r cs = map (switch (UserProfile_fields r) VNil) cs"
    by (simp only: UserProfile_Values_def UserProfile_fields_def switch_eqs fst_conv snd_conv)
  show "UserProfile_ValuesMap r cs = fold (switch_map (UserProfile_fields r)) cs Map.empty"
    by (simp only: UserProfile_ValuesMap_def UserProfile_fields_def switch_map_eqs fst_conv snd_conv)
qed

subsection \<open>PendingUserProfile\<close>

definition PendingUserProfileCreatedAtColumn :: string where
  "PendingUserProfileCreatedAtColumn = ''created_at''"

definition PendingUserProfileEmailColumn :: string where
  "PendingUserProfileEmailColumn = ''email''"

definition PendingUserProfileIDColumn :: string where
  "PendingUserProfileIDColumn = ''id''"

definition PendingUserProfileMessageColumn :: string where
  "PendingUserProfileMessageColumn = ''message''"

definition PendingUserProfileNicknameColumn :: string where
  "PendingUserProfileNicknameColumn = ''nickname''"

definition PendingUserProfileColumns :: "string list" where
  "PendingUserProfileColumns = [PendingUserProfileCreatedAtColumn,
     PendingUserProfileEmailColumn,
     PendingUserProfileIDColumn,
     PendingUserProfileMessageColumn,
     PendingUserProfileNicknameColumn]"

definition PendingUserProfile_Columns :: "string list" where
  "PendingUserProfile_Columns = PendingUserProfileColumns"

definition PendingUserProfile_Values :: "PendingUserProfile \<Rightarrow> string list \<Rightarrow> sql_value list" where
  "PendingUserProfile_Values s columns = map (\<lambda>column.
     if column = ''created_at'' then VTime (Some (PU_CreatedAt s))
     else if column = ''email'' then VText (PU_Email s)
     else if column = ''id'' then VText (PU_ID s)
     else if column = ''message'' then VOptText (PU_Message s)
     else if column = ''nickname'' then VText (PU_Nickname s)
     else VNil) columns"

definition PendingUserProfile_ValuesMap :: "PendingUserProfile \<Rightarrow> string list \<Rightarrow> (string \<rightharpoonup> sql_value)" where
  "PendingUserProfile_ValuesMap s columns = fold (\<lambda>column values.
     if column = ''created_at'' then values(''created_at'' \<mapsto> VTime (Some (PU_CreatedAt s)))
     else if column = ''email'' then values(''email'' \<mapsto> VText (PU_Email s))
     else if column = ''id'' then values(''id'' \<mapsto> VText (PU_ID s))
     else if column = ''message'' then values(''message'' \<mapsto> VOptText (PU_Message s))
     else if column = ''nickname'' then values(''nickname'' \<mapsto> VText (PU_Nickname s))
     else values) columns Map.empty"

lemmas PendingUserProfile_columns = PendingUserProfileCreatedAtColumn_def PendingUserProfileEmailColumn_def PendingUserProfileIDColumn_def PendingUserProfileMessageColumn_def PendingUserProfileNicknameColumn_def PendingUserProfileColumns_def PendingUserProfile_Columns_def

definition PendingUserProfile_fields :: "PendingUserProfile \<Rightarrow> (string \<times> sql_value) list" where
  "PendingUserProfile_fields s = [(''created_at'', VTime (Some (PU_CreatedAt s))),
     (''email'', VText (PU_Email s)),
     (''id'', VText (PU_ID s)),
     (''message'', VOptText (PU_Message s)),
     (''nickname'', VText (PU_Nickname s))]"

interpretation pending_user_profile_columned: columned PendingUserProfile_Columns PendingUserProfile_Values PendingUserProfile_ValuesMap PendingUserProfile_fields
proof unfold_locales
  fix r :: PendingUserProfile and cs
  show "set PendingUserProfile_Columns = fst ` set (PendingUserProfile_fields r)"
    by (simp add: PendingUserProfile_columns PendingUserProfile_fields_def)
  show "PendingUserProfile_Values r cs = map (switch (PendingUserProfile_fields r) VNil) cs"
    by (simp only: PendingUserProfile_Values_def PendingUserProfile_fields_def switch_eqs fst_conv snd_conv)
  show "PendingUserProfile_ValuesMap r cs = fold (switch_map (PendingUserProfile_fields r)) cs Map.empty"
    by (simp only: PendingUserProfile_ValuesMap_def PendingUserProfile_fields_def switch_map_eqs fst_conv snd_conv)
qed

subsection \<open>TurnFiles\<close>

definition TurnFilesIDColumn :: string where
  "TurnFilesIDColumn = ''id''"

definition TurnFilesSessionIDColumn :: string where
  "TurnFilesSessionIDColumn = ''session_id''"

definition TurnFilesYearColumn :: string where
  "TurnFilesYearColumn = ''year''"

definition TurnFilesColumns :: "string list" where
  "TurnFilesColumns = [TurnFilesIDColumn,
     TurnFilesSessionIDColumn,
     TurnFilesYearColumn]"

definition TurnFiles_Columns :: "string list" where
  "TurnFiles_Columns = TurnFilesColumns"

definition TurnFiles_Values :: "TurnFilesRow \<Rightarrow> string list \<Rightarrow> sql_value list" where
  "TurnFiles_Values s columns = map (\<lambda>column.
     if column = ''id'' then VText (T_ID s)
     else if column = ''session_id'' then VText (T_SessionID s)
     else if column = ''year'' then VInt (T_Year s)
     else VNil) columns"

definition TurnFiles_ValuesMap :: "TurnFilesRow \<Rightarrow> string list \<Rightarrow> (string \<rightharpoonup> sql_value)" where
  "TurnFiles_ValuesMap s columns = fold (\<lambda>column values.
     if column = ''id'' then values(''id'' \<mapsto> VText (T_ID s))
     else if column = ''session_id'' then values(''session_id'' \<mapsto> VText (T_SessionID s))
     else if column = ''year'' then values(''year'' \<mapsto> VInt (T_Year s))
     else values) columns Map.empty"

lemmas TurnFiles_columns = TurnFilesIDColumn_def TurnFilesSessionIDColumn_def TurnFilesYearColumn_def TurnFilesColumns_def TurnFiles_Columns_def

definition TurnFiles_fields :: "TurnFilesRow \<Rightarrow> (string \<times> sql_value) list" where
  "TurnFiles_fields s = [(''id'', VText (T_ID s)),
     (''session_id'', VText (T_SessionID s)),
     (''year'', VInt (T_Year s))]"

interpretation turn_files_columned: columned TurnFiles_Columns TurnFiles_Values TurnFiles_ValuesMap TurnFiles_fields
proof unfold_locales
  fix r :: TurnFilesRow and cs
  show "set TurnFiles_Columns = fst ` set (TurnFiles_fields r)"
    by (simp add: TurnFiles_columns TurnFiles_fields_def)
  show "TurnFiles_Values r cs = map (switch (TurnFiles_fields r) VNil) cs"
    by (simp only: TurnFiles_Values_def TurnFiles_fields_def switch_eqs fst_conv snd_conv)
  show "TurnFiles_ValuesMap r cs = fold (switch_map (TurnFiles_fields r)) cs Map.empty"
    by (simp only: TurnFiles_ValuesMap_def TurnFiles_fields_def switch_map_eqs fst_conv snd_conv)
qed

subsection \<open>User\<close>

definition UserIDColumn :: string where
  "UserIDColumn = ''id''"

definition UserNicknameColumn :: string where
  "UserNicknameColumn = ''nickname''"

definition UserColumns :: "string list" where
  "UserColumns = [UserIDColumn,
     UserNicknameColumn]"

definition User_Columns :: "string list" where
  "User_Columns = UserColumns"

definition User_Values :: "User \<Rightarrow> string list \<Rightarrow> sql_value list" where
  "User_Values s columns = map (\<lambda>column.
     if column = ''id'' then VText (Us_ID s)
     else if column = ''nickname'' then VText (Us_Nickname s)
     else VNil) columns"

definition User_ValuesMap :: "User \<Rightarrow> string list \<Rightarrow> (string \<rightharpoonup> sql_value)" where
  "User_ValuesMap s columns = fold (\<lambda>column values.
     if column = ''id'' then values(''id'' \<mapsto> VText (Us_ID s))
     else if column = ''nickname'' then values(''nickname'' \<mapsto> VText (Us_Nickname s))
     else values) columns Map.empty"

lemmas User_columns = UserIDColumn_def UserNicknameColumn_def UserColumns_def User_Columns_def

definition User_fields :: "User \<Rightarrow> (string \<times> sql_value) list" where
  "User_fields s = [(''id'', VText (Us_ID s)),
     (''nickname'', VText (Us_Nickname s))]"

interpretation user_columned: columned User_Columns User_Values User_ValuesMap User_fields
proof unfold_locales
  fix r :: User and cs
  show "set User_Columns = fst ` set (User_fields r)"
    by (simp add: User_columns User_fields_def)
  show "User_Values r cs = map (switch (User_fields r) VNil) cs"
    by (simp only: User_Values_def User_fields_def switch_eqs fst_conv snd_conv)
  show "User_ValuesMap r cs = fold (switch_map (User_fields r)) cs Map.empty"
    by (simp only: User_ValuesMap_def User_fields_def switch_map_eqs fst_conv snd_conv)
qed

subsection \<open>sessionPlayerInfo\<close>

definition sessionPlayerInfoIDColumn :: string where
  "sessionPlayerInfoIDColumn = ''id''"

definition sessionPlayerInfoUserProfileIDColumn :: string where
  "sessionPlayerInfoUserProfileIDColumn = ''user_profile_id''"

definition sessionPlayerInfoReadyColumn :: string where
  "sessionPlayerInfoReadyColumn = ''ready''"

definition sessionPlayerInfoPlayerOrderColumn :: string where
  "sessionPlayerInfoPlayerOrderColumn = ''player_order''"

definition sessionPlayerInfoIsBotColumn :: string where
  "sessionPlayerInfoIsBotColumn = ''is_bot''"

definition sessionPlayerInfoBotLevelColumn :: string where
  "sessionPlayerInfoBotLevelColumn = ''bot_level''"

definition sessionPlayerInfoRaceNameColumn :: string where
  "sessionPlayerInfoRaceNameColumn = ''race_name''"

definition sessionPlayerInfoColumns :: "string list" where
  "sessionPlayerInfoColumns = [sessionPlayerInfoIDColumn,
     sessionPlayerInfoUserProfileIDColumn,
     sessionPlayerInfoReadyColumn,
     sessionPlayerInfoPlayerOrderColumn,
     sessionPlayerInfoIsBotColumn,
     sessionPlayerInfoBotLevelColumn,
     sessionPlayerInfoRaceNameColumn]"

definition sessionPlayerInfo_Columns :: "string list" where
  "sessionPlayerInfo_Columns = sessionPlayerInfoColumns"

definition sessionPlayerInfo_Values :: "sessionPlayerInfo \<Rightarrow> string list \<Rightarrow> sql_value list" where
  "sessionPlayerInfo_Values s columns = map (\<lambda>column.
     if column = ''id'' then VText (SPI_ID s)
     else if column = ''user_profile_id'' then VText (SPI_UserProfileID s)
     else if column = ''ready'' then VBool (SPI_Ready s)
     else if column = ''player_order'' then VInt (SPI_PlayerOrder s)
     else if column = ''is_bot'' then VBool (SPI_IsBot s)
     else if column = ''bot_level'' then VOptInt (SPI_BotLevel s)
     else if column = ''race_name'' then VOptText (SPI_RaceName s)
     else VNil) columns"

definition sessionPlayerInfo_ValuesMap :: "sessionPlayerInfo \<Rightarrow> string list \<Rightarrow> (string \<rightharpoonup> sql_value)" where
  "sessionPlayerInfo_ValuesMap s columns = fold (\<lambda>column values.
     if column = ''id'' then values(''id'' \<mapsto> VText (SPI_ID s))
     else if column = ''user_profile_id'' then values(''user_profile_id'' \<mapsto> VText (SPI_UserProfileID s))
     else if column = ''ready'' then values(''ready'' \<mapsto> VBool (SPI_Ready s))
     else if column = ''player_order'' then values(''player_order'' \<mapsto> VInt (SPI_PlayerOrder s))
     else if column = ''is_bot'' then values(''is_bot'' \<mapsto> VBool (SPI_IsBot s))
     else if column = ''bot_level'' then values(''bot_level'' \<mapsto> VOptInt (SPI_BotLevel s))
     else if column = ''race_name'' then values(''race_name'' \<mapsto> VOptText (SPI_RaceName s))
     else values) columns Map.empty"

lemmas sessionPlayerInfo_columns = sessionPlayerInfoIDColumn_def sessionPlayerInfoUserProfileIDColumn_def sessionPlayerInfoReadyColumn_def sessionPlayerInfoPlayerOrderColumn_def sessionPlayerInfoIsBotColumn_def sessionPlayerInfoBotLevelColumn_def sessionPlayerInfoRaceNameColumn_def sessionPlayerInfoColumns_def sessionPlayerInfo_Columns_def

definition sessionPlayerInfo_fields :: "sessionPlayerInfo \<Rightarrow> (string \<times> sql_value) list" where
  "sessionPlayerInfo_fields s = [(''id'', VText (SPI_ID s)),
     (''user_profile_id'', VText (SPI_UserProfileID s)),
     (''ready'', VBool (SPI_Ready s)),
     (''player_order'', VInt (SPI_PlayerOrder s)),
     (''is_bot'', VBool (SPI_IsBot s)),
     (''bot_level'', VOptInt (SPI_BotLevel s)),
     (''race_name'', VOptText (SPI_RaceName s))]"

interpretation session_player_info_columned: columned sessionPlayerInfo_Columns sessionPlayerInfo_Values sessionPlayerInfo_ValuesMap sessionPlayerInfo_fields
proof unfold_locales
  fix r :: sessionPlayerInfo and cs
  show "set sessionPlayerInfo_Columns = fst ` set (sessionPlayerInfo_fields r)"
    by (simp add: sessionPlayerInfo_columns sessionPlayerInfo_fields_def)
  show "sessionPlayerInfo_Values r cs = map (switch (sessionPlayerInfo_fields r) VNil) cs"
    by (simp only: sessionPlayerInfo_Values_def sessionPlayerInfo_fields_def switch_eqs fst_conv snd_conv)
  show "sessionPlayerInfo_ValuesMap r cs = fold (switch_map (sessionPlayerInfo_fields r)) cs Map.empty"
    by (simp only: sessionPlayerInfo_ValuesMap_def sessionPlayerInfo_fields_def switch_map_eqs fst_conv snd_conv)
qed

subsection \<open>A row and the type that it embeds\<close>

lemma embedded_columns:
  "set InvitationColumns = set (InvitationDB_Columns True)"
  "set RaceColumns = set (RaceDB_Columns True)"
  "set RulesetColumns \<union> {''id'', ''session_id''} = set (RulesetDB_Columns True)"
  "set SessionColumns \<union> {''ruleset_id''} = set (SessionDB_Columns True)"
  "set SessionFilesColumns = set (SessionFilesDB_Columns True)"
  "set SessionPlayerRaceColumns \<union> {''ai_control_type''} = set (SessionPlayerRaceDB_Columns True)"
  "set UserProfileColumns \<union> {''apikey'', ''serial_key''} = set (UserProfileDB_Columns True)"
  by (auto simp: Invitation_columns InvitationDB_columns Race_columns RaceDB_columns Ruleset_columns RulesetDB_columns Session_columns SessionDB_columns SessionFiles_columns SessionFilesDB_columns SessionPlayerRace_columns SessionPlayerRaceDB_columns UserProfile_columns UserProfileDB_columns)

lemma hidden_columns:
  "{''apikey'', ''serial_key''} \<inter> set UserProfileColumns = {}" "''ai_control_type'' \<notin> set SessionPlayerRaceColumns"
  by (simp_all add: UserProfile_columns SessionPlayerRace_columns)

lemmas some_of_the_fields = list.set insert_subset empty_subsetI insert_iff simp_thms

text \<open>
  A query for the columns of the API never reads the API key, the serial key or the reason why a player
  plays by computer; and what it reads is what the row has.
\<close>

lemma embedded_values:
  "set cs \<subseteq> set InvitationColumns \<Longrightarrow> Invitation_Values i cs = InvitationDB_Values i cs"
  "set cs \<subseteq> set RaceColumns \<Longrightarrow> Race_Values ra cs = RaceDB_Values ra cs"
  "set cs \<subseteq> set RulesetColumns \<Longrightarrow> Ruleset_Values (RS_Ruleset rs) cs = RulesetDB_Values rs cs"
  "set cs \<subseteq> set SessionColumns \<Longrightarrow> Session_Values s cs = SessionDB_Values s cs"
  "set cs \<subseteq> set SessionFilesColumns \<Longrightarrow> SessionFiles_Values f cs = SessionFilesDB_Values f cs"
  "set cs \<subseteq> set SessionPlayerRaceColumns \<Longrightarrow> SessionPlayerRace_Values p cs = SessionPlayerRaceDB_Values p cs"
  "set cs \<subseteq> set UserProfileColumns \<Longrightarrow> UserProfile_Values u cs = UserProfileDB_Values u cs"
proof -
  show "Invitation_Values i cs = InvitationDB_Values i cs" if "set cs \<subseteq> set InvitationColumns"
    unfolding invitation_columned.Values_switch invitation_row.Values_switch
  proof (rule map_switch_extends [OF invitation_row.distinct_fields])
    show "set (Invitation_fields i) \<subseteq> set (InvitationDB_fields i)"
      by (simp only: Invitation_fields_def InvitationDB_fields_def some_of_the_fields)
    show "set cs \<subseteq> fst ` set (Invitation_fields i)"
      using that invitation_columned.all_fields by (simp add: Invitation_Columns_def)
  qed
  show "Race_Values ra cs = RaceDB_Values ra cs" if "set cs \<subseteq> set RaceColumns"
    unfolding race_columned.Values_switch race_row.Values_switch
  proof (rule map_switch_extends [OF race_row.distinct_fields])
    show "set (Race_fields ra) \<subseteq> set (RaceDB_fields ra)"
      by (simp only: Race_fields_def RaceDB_fields_def some_of_the_fields)
    show "set cs \<subseteq> fst ` set (Race_fields ra)"
      using that race_columned.all_fields by (simp add: Race_Columns_def)
  qed
  show "Ruleset_Values (RS_Ruleset rs) cs = RulesetDB_Values rs cs" if "set cs \<subseteq> set RulesetColumns"
    unfolding ruleset_columned.Values_switch ruleset_row.Values_switch
  proof (rule map_switch_extends [OF ruleset_row.distinct_fields])
    show "set (Ruleset_fields (RS_Ruleset rs)) \<subseteq> set (RulesetDB_fields rs)"
      by (simp only: Ruleset_fields_def RulesetDB_fields_def some_of_the_fields)
    show "set cs \<subseteq> fst ` set (Ruleset_fields (RS_Ruleset rs))"
      using that ruleset_columned.all_fields by (simp add: Ruleset_Columns_def)
  qed
  show "Session_Values s cs = SessionDB_Values s cs" if "set cs \<subseteq> set SessionColumns"
    unfolding session_columned.Values_switch session_row.Values_switch
  proof (rule map_switch_extends [OF session_row.distinct_fields])
    show "set (Session_fields s) \<subseteq> set (SessionDB_fields s)"
      by (simp only: Session_fields_def SessionDB_fields_def some_of_the_fields)
    show "set cs \<subseteq> fst ` set (Session_fields s)"
      using that session_columned.all_fields by (simp add: Session_Columns_def)
  qed
  show "SessionFiles_Values f cs = SessionFilesDB_Values f cs" if "set cs \<subseteq> set SessionFilesColumns"
    unfolding session_files_columned.Values_switch session_files_row.Values_switch
  proof (rule map_switch_extends [OF session_files_row.distinct_fields])
    show "set (SessionFiles_fields f) \<subseteq> set (SessionFilesDB_fields f)"
      by (simp only: SessionFiles_fields_def SessionFilesDB_fields_def some_of_the_fields)
    show "set cs \<subseteq> fst ` set (SessionFiles_fields f)"
      using that session_files_columned.all_fields by (simp add: SessionFiles_Columns_def)
  qed
  show "SessionPlayerRace_Values p cs = SessionPlayerRaceDB_Values p cs" if "set cs \<subseteq> set SessionPlayerRaceColumns"
    unfolding session_player_race_columned.Values_switch session_player_race_row.Values_switch
  proof (rule map_switch_extends [OF session_player_race_row.distinct_fields])
    show "set (SessionPlayerRace_fields p) \<subseteq> set (SessionPlayerRaceDB_fields p)"
      by (simp only: SessionPlayerRace_fields_def SessionPlayerRaceDB_fields_def some_of_the_fields)
    show "set cs \<subseteq> fst ` set (SessionPlayerRace_fields p)"
      using that session_player_race_columned.all_fields by (simp add: SessionPlayerRace_Columns_def)
  qed
  show "UserProfile_Values u cs = UserProfileDB_Values u cs" if "set cs \<subseteq> set UserProfileColumns"
    unfolding user_profile_columned.Values_switch user_profile_row.Values_switch
  proof (rule map_switch_extends [OF user_profile_row.distinct_fields])
    show "set (UserProfile_fields u) \<subseteq> set (UserProfileDB_fields u)"
      by (simp only: UserProfile_fields_def UserProfileDB_fields_def some_of_the_fields)
    show "set cs \<subseteq> fst ` set (UserProfile_fields u)"
      using that user_profile_columned.all_fields by (simp add: UserProfile_Columns_def)
  qed
qed

end
