(* ===== verification/ReplyModels.thy ===== *)
theory ReplyModels
  imports Jsonb Turns ApiColumns
begin

section \<open>The models of replies\<close>

text \<open>
  \<open>models/player_control_status.go\<close>, \<open>player_control_list.go\<close>, \<open>player_order_status.go\<close>, \<open>session_files.go\<close>,
  \<open>turn_files.go\<close>, \<open>player_turn.go\<close> and \<open>pending_user_profile.go\<close>: the checks of the models that only the
  server sends. No handler runs them; the lemmas at the end say which of its replies would pass. A nil pointer
  is \<open>None\<close>. An error of a nested model is a composite one, so it gets no other name.
\<close>

subsection \<open>The control of players\<close>

definition playerControlStatusTypeAiControlTypePropEnum :: "string list" where
  "playerControlStatusTypeAiControlTypePropEnum = [''HE'', ''SS'', ''IS'', ''CA'', ''PP'', ''AR'']"

definition validateAiControlType :: "validator \<Rightarrow> string option \<Rightarrow> verr option" where
  "validateAiControlType V ai = (case ai of
     None \<Rightarrow> None
   | Some t \<Rightarrow> EnumCase V ''ai_control_type'' t playerControlStatusTypeAiControlTypePropEnum)"

definition playerControlStatusTypeControlStatusPropEnum :: "string list" where
  "playerControlStatusTypeControlStatusPropEnum = [''human'', ''ai'']"

definition validateControlStatus :: "validator \<Rightarrow> string \<Rightarrow> verr option" where
  "validateControlStatus V st = (if st = '''' then None
     else EnumCase V ''control_status'' st playerControlStatusTypeControlStatusPropEnum)"

definition validatePlayerOrder_control :: "validator \<Rightarrow> PlayerControlStatus \<Rightarrow> verr option" where
  "validatePlayerOrder_control V m = check_range V ''player_order'' (PC_PlayerOrder m) 0 15"

definition Validate_PlayerControlStatus :: "validator \<Rightarrow> PlayerControlStatus \<Rightarrow> verr option" where
  "Validate_PlayerControlStatus V m = composite
    [validateAiControlType V (PC_AiControlType m), validateControlStatus V (PC_ControlStatus m),
     validatePlayerOrder_control V m]"

definition ContextValidate_PlayerControlStatus :: "validator \<Rightarrow> PlayerControlStatus \<Rightarrow> verr option" where
  "ContextValidate_PlayerControlStatus V m = None"

definition validatePlayers_control :: "validator \<Rightarrow> PlayerControlStatus option list \<Rightarrow> verr option" where
  "validatePlayers_control V ps = first_error (map (\<lambda>p. case p of
     None \<Rightarrow> None
   | Some m \<Rightarrow> Validate_PlayerControlStatus V m) ps)"

definition Validate_PlayerControlList :: "validator \<Rightarrow> PlayerControlStatus option list \<Rightarrow> verr option" where
  "Validate_PlayerControlList V ps = composite [validatePlayers_control V ps]"

definition contextValidatePlayers_control :: "validator \<Rightarrow> PlayerControlStatus option list \<Rightarrow> verr option" where
  "contextValidatePlayers_control V ps = first_error (map (\<lambda>p. case p of
     None \<Rightarrow> None
   | Some m \<Rightarrow> ContextValidate_PlayerControlStatus V m) ps)"

definition ContextValidate_PlayerControlList :: "validator \<Rightarrow> PlayerControlStatus option list \<Rightarrow> verr option" where
  "ContextValidate_PlayerControlList V ps = composite [contextValidatePlayers_control V ps]"

subsection \<open>The state of the orders\<close>

definition playerOrderStatusTypeAiControlTypePropEnum :: "string list" where
  "playerOrderStatusTypeAiControlTypePropEnum = [''HE'', ''SS'', ''IS'', ''CA'', ''PP'', ''AR'']"

definition validateAiControlType_order :: "validator \<Rightarrow> PlayerOrderStatus \<Rightarrow> verr option" where
  "validateAiControlType_order V m = (case PS_AiControlType m of
     None \<Rightarrow> None
   | Some t \<Rightarrow> EnumCase V ''ai_control_type'' t playerOrderStatusTypeAiControlTypePropEnum)"

definition Validate_PlayerOrderStatus :: "validator \<Rightarrow> PlayerOrderStatus \<Rightarrow> verr option" where
  "Validate_PlayerOrderStatus V m = composite [validateAiControlType_order V m]"

subsection \<open>Files\<close>

definition validateOrders :: "validator \<Rightarrow> SessionFilesDB \<Rightarrow> verr option" where
  "validateOrders V m = (if F_Orders m = [] then None else OrderList_Validate V (F_Orders m))"

definition validateTurns :: "validator \<Rightarrow> SessionFilesDB \<Rightarrow> verr option" where
  "validateTurns V m = (if F_Turns m = [] then None else TurnList_Validate V (F_Turns m))"

definition Validate_SessionFiles :: "validator \<Rightarrow> SessionFilesDB \<Rightarrow> verr option" where
  "Validate_SessionFiles V m = composite [validateOrders V m, validateTurns V m]"

text \<open>The two lists have no read-only part.\<close>

definition List_ContextValidate :: "string list \<Rightarrow> verr option" where
  "List_ContextValidate xs = None"

definition ContextValidate_SessionFiles :: "validator \<Rightarrow> SessionFilesDB \<Rightarrow> verr option" where
  "ContextValidate_SessionFiles V m = composite
    [ReadOnly V ''host_file'' (F_HostFile m = ''''), ReadOnly V ''id'' (F_ID m = ''''),
     List_ContextValidate (F_Orders m), ReadOnly V ''session_id'' (F_SessionID m = ''''),
     List_ContextValidate (F_Turns m), ReadOnly V ''universe'' (F_Universe m = ''''),
     ReadOnly V ''year'' (F_Year m = 0)]"

record PlayerTurn =
  PT_Turn :: string
  PT_Universe :: string

record TurnFilesModel = TurnFilesRow +
  T_Turn :: "PlayerTurn option"

definition Validate_PlayerTurn :: "validator \<Rightarrow> PlayerTurn \<Rightarrow> verr option" where
  "Validate_PlayerTurn V m = None"

definition ContextValidate_PlayerTurn :: "validator \<Rightarrow> PlayerTurn \<Rightarrow> verr option" where
  "ContextValidate_PlayerTurn V m = composite
    [ReadOnly V ''turn'' (PT_Turn m = ''''), ReadOnly V ''universe'' (PT_Universe m = '''')]"

definition Validate_TurnFiles :: "validator \<Rightarrow> TurnFilesModel \<Rightarrow> verr option" where
  "Validate_TurnFiles V m = composite
    [case T_Turn m of None \<Rightarrow> None | Some t \<Rightarrow> Validate_PlayerTurn V t]"

definition ContextValidate_TurnFiles :: "validator \<Rightarrow> TurnFilesModel \<Rightarrow> verr option" where
  "ContextValidate_TurnFiles V m = composite
    [ReadOnly V ''id'' (T_ID m = ''''), ReadOnly V ''session_id'' (T_SessionID m = ''''),
     case T_Turn m of None \<Rightarrow> None | Some t \<Rightarrow> ContextValidate_PlayerTurn V t,
     ReadOnly V ''year'' (T_Year m = 0)]"

subsection \<open>Pending registrations\<close>

text \<open>The time is checked as a text; the check of its format and the zero of its type are arguments.\<close>

definition validateCreatedAt :: "(string \<Rightarrow> string \<Rightarrow> int \<Rightarrow> verr option) \<Rightarrow> int \<Rightarrow> PendingUserProfile \<Rightarrow> verr option" where
  "validateCreatedAt FormatOf zero m =
    (if PU_CreatedAt m = zero then None else FormatOf ''created_at'' ''date-time'' (PU_CreatedAt m))"

definition Validate_PendingUserProfile ::
    "validator \<Rightarrow> (string \<Rightarrow> string \<Rightarrow> int \<Rightarrow> verr option) \<Rightarrow> int \<Rightarrow> PendingUserProfile \<Rightarrow> verr option" where
  "Validate_PendingUserProfile V FormatOf zero m = composite
    [validateCreatedAt FormatOf zero m, RequiredString V ''email'' (PU_Email m),
     RequiredString V ''nickname'' (PU_Nickname m)]"

definition ContextValidate_PendingUserProfile :: "validator \<Rightarrow> int \<Rightarrow> PendingUserProfile \<Rightarrow> verr option" where
  "ContextValidate_PendingUserProfile V zero m = composite
    [ReadOnly V ''created_at'' (PU_CreatedAt m = zero), ReadOnly V ''id'' (PU_ID m = '''')]"

subsection \<open>The replies of the handlers\<close>

text \<open>
  The columns of a player row as the schema and the validation of requests leave them: the order is one of
  sixteen, the control type a value of the enumeration \<open>ai_expert_type\<close>.
\<close>

definition typed_player :: "SessionPlayerRaceDB \<Rightarrow> bool" where
  "typed_player p = (0 \<le> P_PlayerOrder p \<and> P_PlayerOrder p \<le> 15 \<and>
     (case P_AIControlType p of None \<Rightarrow> True | Some t \<Rightarrow> t \<in> set playerControlStatusTypeAiControlTypePropEnum))"

lemma control_rows_valid:
  assumes "validator_ok V" "\<forall>p \<in> set ps. typed_player p" "control_rows d ps = Inr cs" "c \<in> set cs"
  shows "Validate_PlayerControlStatus V c = None"
  using assms(2-)
proof (induction ps arbitrary: cs)
  case (Cons p ps)
  from Cons.prems(2) obtain n rest where rest: "control_rows d ps = Inr rest"
    and cs: "cs = \<lparr>PC_PlayerOrder = P_PlayerOrder p, PC_UserProfileID = P_UserProfileID p,
      PC_Nickname = n, PC_IsBot = P_IsBot p, PC_AiControlType = P_AIControlType p,
      PC_ControlStatus = control_status (P_AIControlType p)\<rparr> # rest"
    by (auto simp: and_then_eq_Inr split: option.splits)
  have V: "EnumCase V n s es = None \<longleftrightarrow> s \<in> set es" for n s es
    using assms(1) by (simp add: validator_ok_def)
  have "typed_player p" using Cons.prems(1) by simp
  then show ?case
    using Cons.IH [OF _ rest] Cons.prems(1,3)
    by (auto simp: cs Validate_PlayerControlStatus_def composite_None validateAiControlType_def V
        validateControlStatus_def control_status_def playerControlStatusTypeControlStatusPropEnum_def
        validatePlayerOrder_control_def check_range_None [OF assms(1)] typed_player_def split: option.splits)
qed simp

lemma SessionPlayerControl_sends_valid_models:
  assumes "validator_ok V" "\<forall>p \<in> set (sprs d). typed_player p"
    and "SessionPlayerControl_handle sid pr d = Inr (cs, d', ns)"
  shows "Validate_PlayerControlList V (map Some cs) = None"
proof -
  from assms(3) obtain players where "control_rows d (SessionPlayerRaces sid d) = Inr cs"
    by (auto simp: SessionPlayerControl_handle_def and_then_eq_Inr split: if_splits sum.splits)
  moreover have "\<forall>p \<in> set (SessionPlayerRaces sid d). typed_player p"
    using assms(2) by (auto simp: SessionPlayerRaces_def)
  ultimately show ?thesis
    using control_rows_valid [OF assms(1)]
    by (auto simp: Validate_PlayerControlList_def validatePlayers_control_def composite_None first_error_None)
qed

lemma order_statuses_valid:
  assumes "validator_ok V" "\<forall>p \<in> set ps. typed_player p" "order_statuses d ready ps = Inr cs" "c \<in> set cs"
  shows "Validate_PlayerOrderStatus V c = None"
  using assms(2-)
proof (induction ps arbitrary: cs)
  case (Cons p ps)
  then show ?case
    using assms(1)
    by (auto simp: and_then_eq_Inr Validate_PlayerOrderStatus_def composite_None validateAiControlType_order_def
        validator_ok_def typed_player_def playerOrderStatusTypeAiControlTypePropEnum_def
        playerControlStatusTypeAiControlTypePropEnum_def split: option.splits)
qed simp

lemma OrdersStatus_sends_valid_models:
  assumes "validator_ok V" "\<forall>p \<in> set (sprs d). typed_player p"
    and "OrdersStatus_handle sid year pr d = Inr (cs, d', ns)" "c \<in> set cs"
  shows "Validate_PlayerOrderStatus V c = None"
proof -
  from assms(3) obtain sf where "order_statuses d (ReadyPlayers sf) (SessionPlayerRaces sid d) = Inr cs"
    by (auto simp: OrdersStatus_handle_def and_then_eq_Inr split: if_splits sum.splits)
  moreover have "\<forall>p \<in> set (SessionPlayerRaces sid d). typed_player p"
    using assms(2) by (auto simp: SessionPlayerRaces_def)
  ultimately show ?thesis using order_statuses_valid [OF assms(1)] assms(4) by blast
qed

text \<open>
  The files of a turn that still waits for orders do not pass the check of their own model, which
  requires the data of every order.
\<close>

lemma waiting_files_are_not_valid:
  assumes "validator_ok V"
  shows "Validate_SessionFiles V sf = None \<longleftrightarrow> list_all id (ReadyPlayers sf) \<and> '''' \<notin> set (F_Turns sf)"
  by (auto simp: Validate_SessionFiles_def composite_None validateOrders_def validateTurns_def
      valid_lists [OF assms] ReadyPlayers_def list_all_iff)

end
