(* ===== verification/AuthSetup.thy ===== *)
theory AuthSetup
  imports Commands
begin

section \<open>Setting up the authentication\<close>

text \<open>
  The options and the constructor of \<open>auth/auth.go\<close>. The secret that signs the tokens comes in hexadecimal
  digits or from the random source. The only instance is kept in a global variable, because its metrics can be
  registered once only. A registry of metrics is the list of their names; \<open>cache_New\<close> makes an empty cache of
  \<open>go-cache\<close>, and the library of tokens is a function of the secret.
\<close>

subsection \<open>Hexadecimal digits\<close>

text \<open>\<open>encoding/hex\<close>: both cases are read. An odd number of digits is an error, after all pairs are read.\<close>

definition fromHexChar :: "char \<Rightarrow> nat option" where
  "fromHexChar c = (let n = of_char c in
     if 48 \<le> n \<and> n \<le> 57 then Some (n - 48)
     else if 97 \<le> n \<and> n \<le> 102 then Some (n - 87)
     else if 65 \<le> n \<and> n \<le> 70 then Some (n - 55) else None)"

fun hex_DecodeString :: "string \<Rightarrow> err + 8 word list" where
  "hex_DecodeString [] = Inr []"
| "hex_DecodeString [c] = (case fromHexChar c of
     None \<Rightarrow> Inl (OtherErr ''encoding/hex: invalid byte'')
   | Some _ \<Rightarrow> Inl (OtherErr ''encoding/hex: odd length hex string''))"
| "hex_DecodeString (c1 # c2 # cs) = (case (fromHexChar c1, fromHexChar c2) of
     (Some a, Some b) \<Rightarrow> and_then (hex_DecodeString cs) (\<lambda>bs. Inr (word_of_nat (16 * a + b) # bs))
   | _ \<Rightarrow> Inl (OtherErr ''encoding/hex: invalid byte''))"

subsection \<open>Options\<close>

record TokenOptions =
  TO_Secret :: string
  TO_Expiration :: int
  TO_CacheMaxSize :: int
  TO_CachePurgeDelay :: int

definition NewTokenOptions :: TokenOptions where
  "NewTokenOptions = \<lparr>TO_Secret = '''', TO_Expiration = 0, TO_CacheMaxSize = 0, TO_CachePurgeDelay = 0\<rparr>"

text \<open>Setting an option that is a duration: the parser of durations is an argument, \<open>assign\<close> the target.\<close>

definition durationOption :: "(string \<Rightarrow> err + int) \<Rightarrow> (int \<Rightarrow> 'o \<Rightarrow> 'o) \<Rightarrow> string \<Rightarrow> 'o \<Rightarrow> err + 'o" where
  "durationOption ParseDuration assign duration options =
    and_then (ParseDuration duration) (\<lambda>d. Inr (assign d options))"

definition ExpirationOpt :: "(string \<Rightarrow> err + int) \<Rightarrow> string \<Rightarrow> TokenOptions \<Rightarrow> err + TokenOptions" where
  "ExpirationOpt ParseDuration = durationOption ParseDuration (\<lambda>d opts. opts\<lparr>TO_Expiration := d\<rparr>)"

definition CachePurgeDelayOpt :: "(string \<Rightarrow> err + int) \<Rightarrow> string \<Rightarrow> TokenOptions \<Rightarrow> err + TokenOptions" where
  "CachePurgeDelayOpt ParseDuration = durationOption ParseDuration (\<lambda>d opts. opts\<lparr>TO_CachePurgeDelay := d\<rparr>)"

subsection \<open>The instance\<close>

record 'c authenticator =
  au_secret :: "8 word list"
  au_cacheMaxSize :: int
  au_cache :: 'c
  au_collectors :: "string list"

record 'c auth_global =
  authSingleton :: "'c authenticator option"
  registry :: "string list"

fun MustRegister :: "string list \<Rightarrow> string list \<Rightarrow> err + string list" where
  "MustRegister [] reg = Inr reg"
| "MustRegister (c # cs) reg = (if c \<in> set reg then Inl Panic else MustRegister cs (c # reg))"

definition auth_collectors :: "string list" where
  "auth_collectors = [''neper_api_auth_token_cache_size'', ''neper_api_auth_token_cache_size_max'',
     ''neper_api_auth_token_cache_hit'', ''neper_api_auth_token_cache_miss'']"

text \<open>
  The secret: \<open>rnd\<close> are 32 random bytes or the error of the source. Every error is a panic. A panic ends the
  start of the server, so that the registry it leaves does not matter.
\<close>

definition auth_secret :: "err + 8 word list \<Rightarrow> TokenOptions \<Rightarrow> err + 8 word list" where
  "auth_secret rnd options =
    (case (if TO_Secret options = '''' then rnd else hex_DecodeString (TO_Secret options)) of
       Inl e \<Rightarrow> Inl Panic
     | Inr secret \<Rightarrow> Inr secret)"

definition NewAuth ::
    "(int \<Rightarrow> int \<Rightarrow> 'c) \<Rightarrow> err + 8 word list \<Rightarrow> TokenOptions \<Rightarrow> 'c auth_global \<Rightarrow> err + 'c authenticator \<times> 'c auth_global" where
  "NewAuth cache_New rnd options g = (case authSingleton g of
     Some auth \<Rightarrow> Inr (auth, g)
   | None \<Rightarrow>
       and_then (auth_secret rnd options) (\<lambda>secret.
       let auth = \<lparr>au_secret = secret, au_cacheMaxSize = TO_CacheMaxSize options,
         au_cache = cache_New (TO_Expiration options) (TO_CachePurgeDelay options),
         au_collectors = auth_collectors\<rparr> in
       and_then (MustRegister (au_collectors auth) (registry g)) (\<lambda>reg.
       Inr (auth, g\<lparr>authSingleton := Some auth, registry := reg\<rparr>))))"

text \<open>\<open>Close\<close> leaves the singleton in place.\<close>

definition Auth_Close :: "'c authenticator \<Rightarrow> 'c auth_global \<Rightarrow> 'c auth_global" where
  "Auth_Close auth g = g\<lparr>registry := filter (\<lambda>c. c \<notin> set (au_collectors auth)) (registry g)\<rparr>"

text \<open>What the methods of the instance work with.\<close>

definition auth_env_of :: "(8 word list \<Rightarrow> jwt) \<Rightarrow> 'c token_cache \<Rightarrow> 'c authenticator \<Rightarrow> 'c auth_env" where
  "auth_env_of lib cache auth =
    \<lparr>env_jwt = lib (au_secret auth), env_cache = cache, cacheMaxSize = au_cacheMaxSize auth\<rparr>"

subsection \<open>The secret\<close>

lemma fromHexChar_digit: "n < 16 \<Longrightarrow> fromHexChar (hex_digit n) = Some n"
proof -
  have "list_all (\<lambda>n. fromHexChar (hex_digit n) = Some n) [0..<16]" by code_simp
  then show "n < 16 \<Longrightarrow> fromHexChar (hex_digit n) = Some n" by (simp add: list_all_iff)
qed

lemma hex_round_trip: "hex_DecodeString (hex_EncodeToString bs) = Inr bs"
proof (induction bs)
  case (Cons b bs)
  have b: "unat b < 256" using unsigned_less [of b] by simp
  then have "unat b div 16 < 16" by simp
  then show ?case using Cons by (simp add: fromHexChar_digit)
qed simp

lemma hex_EncodeToString_nonempty: "bs \<noteq> [] \<Longrightarrow> hex_EncodeToString bs \<noteq> ''''"
  by (cases bs) simp_all

text \<open>What the command \<open>generate-token-secret\<close> prints is read as the bytes that it was made of.\<close>

lemma generated_secret_is_read:
  assumes "rnd \<noteq> []" "GenerateTokenSecret_Execute rnd = ''token-secret '' @ TO_Secret options"
  shows "auth_secret r options = Inr (take 32 rnd)"
proof -
  have secret: "TO_Secret options = hex_EncodeToString (take 32 rnd)"
    using assms(2) by (simp add: GenerateTokenSecret_Execute_def)
  have "hex_EncodeToString (take 32 rnd) \<noteq> ''''" by (rule hex_EncodeToString_nonempty) (simp add: assms(1))
  then show ?thesis by (simp add: auth_secret_def secret hex_round_trip)
qed

lemma odd_secret_panics:
  assumes "odd (length (TO_Secret options))" shows "auth_secret r options = Inl Panic"
proof -
  have "odd (length s) \<Longrightarrow> \<exists>e. hex_DecodeString s = Inl e" for s
  proof (induction s rule: induct_list012)
    case (3 c1 c2 cs)
    then obtain e where "hex_DecodeString cs = Inl e" by auto
    then show ?case by (auto simp: and_then_def split: option.splits)
  qed (auto split: option.splits)
  then obtain e where "hex_DecodeString (TO_Secret options) = Inl e" using assms by blast
  moreover have "TO_Secret options \<noteq> ''''" using assms by auto
  ultimately show ?thesis by (simp add: auth_secret_def)
qed

text \<open>The help of the option speaks of at most 32 bytes; any length is taken, as the empty one is random.\<close>

lemma any_secret_is_taken: "secret \<noteq> [] \<Longrightarrow> TO_Secret options = hex_EncodeToString secret \<Longrightarrow> auth_secret r options = Inr secret"
  using hex_EncodeToString_nonempty by (simp add: auth_secret_def hex_round_trip)

subsection \<open>Tokens\<close>

text \<open>
  The library: a token that was signed with a secret is valid under the same secret until it expires.
\<close>

definition jwt_ok :: "jwt \<Rightarrow> bool" where
  "jwt_ok j = (\<forall>claims token now. SignedString j claims = Inr token \<longrightarrow>
     (if now \<le> ExpiresAt claims then ParseWithClaims j now token = Inr (claims, True)
      else \<exists>e. ParseWithClaims j now token = Inl e))"

lemma NewAuth_Inr:
  assumes "NewAuth cache_New rnd options g = Inr (auth, g')" "authSingleton g = None"
  shows "auth_secret rnd options = Inr (au_secret auth)" "au_cacheMaxSize auth = TO_CacheMaxSize options"
    "authSingleton g' = Some auth"
  using assms by (auto simp: NewAuth_def and_then_eq_Inr Let_def)

lemma first_NewAuth_registers:
  assumes "auth_secret rnd options = Inr secret" "authSingleton g = None"
    and "set auth_collectors \<inter> set (registry g) = {}"
  shows "\<exists>auth g'. NewAuth cache_New rnd options g = Inr (auth, g') \<and> set auth_collectors \<subseteq> set (registry g')"
  using assms by (simp add: NewAuth_def and_then_def Let_def auth_collectors_def)


text \<open>A library that signs the claims of one principal, and no cache.\<close>

definition signing_jwt :: "8 word list \<Rightarrow> jwt" where
  "signing_jwt secret = \<lparr>
     SignedString = (\<lambda>claims. if claims = example_claims ''u'' then Inr (hex_EncodeToString secret) else Inl (OtherErr ''not this one'')),
     ParseWithClaims = (\<lambda>now token. if token = hex_EncodeToString secret \<and> now \<le> 1000 then Inr (example_claims ''u'', True)
       else Inl (OtherErr ''invalid''))\<rparr>"

definition no_cache :: "unit token_cache" where
  "no_cache = \<lparr>cache_ItemCount = (\<lambda>c. 0), cache_Get = (\<lambda>now t c. None), cache_Set = (\<lambda>now t cl ttl c. c),
     cache_DeleteExpired = (\<lambda>now c. c)\<rparr>"

definition secret_options :: TokenOptions where
  "secret_options = NewTokenOptions\<lparr>TO_Secret := ''0aff''\<rparr>"


text \<open>The option for the expiration of tokens only reaches the cache: a token is valid for five minutes.\<close>

lemma expiration_has_no_effect:
  assumes "NewAuth cache_New rnd options g = Inr (auth, g1)" "authSingleton g = None"
    and "NewAuth cache_New rnd (options\<lparr>TO_Expiration := e\<rparr>) g = Inr (auth', g1')"
  shows "MakeToken (auth_env_of lib cache auth') now pr c = MakeToken (auth_env_of lib cache auth) now pr c"
proof -
  have "auth_secret rnd (options\<lparr>TO_Expiration := e\<rparr>) = auth_secret rnd options" by (simp add: auth_secret_def)
  then show ?thesis
    using NewAuth_Inr [OF assms(1,2)] NewAuth_Inr [OF assms(3,2)] by (simp add: auth_env_of_def)
qed

text \<open>A second call answers with the first instance, whatever the options; after \<open>Close\<close> it is still the first
  one, but its metrics are no longer registered.\<close>

lemma NewAuth_again:
  assumes "NewAuth cache_New rnd options g = Inr (auth, g')" "authSingleton g = None"
  shows "NewAuth cache_New rnd' options' g' = Inr (auth, g')"
    and "NewAuth cache_New rnd' options' (Auth_Close auth g') = Inr (auth, Auth_Close auth g')"
    and "set (au_collectors auth) \<inter> set (registry (Auth_Close auth g')) = {}"
  using NewAuth_Inr(3) [OF assms] by (auto simp: NewAuth_def Auth_Close_def)


end
