(* ===== verification/Spec2Isabelle.thy ===== *)
theory Spec2Isabelle
  imports System Validation Backup Auth Notifications Sync Interleaving Startup TableSchema Configured Metrics ApiSetup Swagger ReplyModels AuthSetup
begin

text \<open>
  Verification of the neper server: the HTTP server that hosts games of Stars!. Users upload races,
  open sessions, invite each other, choose rules; a manager starts the game, players submit their
  orders each turn, and the server runs the original game binary to generate the next year.

  The program and its model.

  The state of the program is a PostgreSQL database, the save directories of the running games,
  and little else. A handler in \<open>restapi/handlers\<close> has a method \<open>handle\<close>, which runs one
  transaction, and a method \<open>Handle\<close>, which turns its result into a response. The model has the same
  two: \<open>X_handle\<close> takes the database to an error or to a value, a new database and the notifications
  that are published after the commit (type \<open>tx\<close>), and \<open>X_Handle\<close> makes the reply by the cases of the
  handler's \<open>switch\<close>. A transaction that fails leaves the database as it was. Transactions are taken
  one after the other; for three handlers Interleaving shows what happens when they overlap.

  Theories, in the order of the dependencies:

  Prelude: lists as tables (\<open>sql_select\<close>, \<open>sql_update\<close>, ...), results, the shared automation.
  Errors: \<open>lib/errors\<close> and \<open>handlers/errors.go\<close>, with \<open>errors.Is\<close> along the wrapped errors.
  Database: \<open>migration/scripts\<close> at the last migration and the rows of \<open>models/*_db.go\<close>; every
  statement with its constraints and cascades. \<open>db_ok\<close> is the schema: keys, checks, references.
  Notify: \<open>lib/notify\<close>, the messages; replies; the locales \<open>request\<close> and \<open>guarded_request\<close>, the
  contract of a handler (a failed request changes nothing and publishes nothing, an invariant is
  kept by any sequence of requests, only authorised callers succeed), which every handler
  interprets in its own theory.
  Access: \<open>handlers/query_helpers.go\<close>, \<open>models/session_db.go\<close>: who is a member, may see a session.
  Examples: small databases for the concrete instances.
  PlayerOrder: \<open>NormalizePlayerOrders\<close> and \<open>ValidatePlayerOrder\<close>.
  Relations: \<open>lib/relations.go\<close>, \<open>lib/session.go\<close>: members and managers.
  Sessions, Membership, Invitations, Players, Rules, Races: the handlers \<open>session_*\<close>,
  \<open>invitation_*\<close>, \<open>session_player_race_*\<close>, \<open>reorder_players\<close>, \<open>rules_*\<close>, \<open>race_*\<close>.
  Base64, GameFiles, Runner: \<open>lib/stars/gamefiles.go\<close>, \<open>hostfile.go\<close>, \<open>gameinput.go\<close>, \<open>newgame.go\<close>,
  \<open>newturn.go\<close>, \<open>lib/racefiles\<close>: the game files, the definition of a game, the save directory.
  GameCreate: \<open>game_create.go\<close>, three phases of which the second runs outside of a transaction.
  Turns: \<open>turn_submit.go\<close>, \<open>turn_get.go\<close>, \<open>turn_latest.go\<close>, \<open>orders_status.go\<close> and the generator.
  Control: \<open>session_player_switch_to_ai.go\<close> and its two neighbours.
  Backup: \<open>session_files_get.go\<close>, \<open>historic_backup.go\<close>.
  Licences, Users: \<open>lib/serial\<close>, \<open>lib/admin\<close>, \<open>registration*.go\<close>, \<open>userprofile_*.go\<close>, \<open>userinfo.go\<close>.
  Auth: \<open>auth/auth.go\<close>, \<open>restapi/auth_middleware.go\<close>, \<open>authenticate.go\<close>, \<open>refresh_token.go\<close>.
  Notifications: \<open>notifications_responder.go\<close>, who receives which message.
  Validation: \<open>Validate\<close> and \<open>ContextValidate\<close> of \<open>models\<close>, the binding of requests.
  System: all handlers together as a step relation.
  Interleaving: three handlers split into their reads and their writes, as READ COMMITTED lets them
  run.
  DataStream, Broadcast, Sync: the package \<open>sync\<close>, which applies a stream of changes from a partner:
  the JSON of the records (over trees), the messages, the worker and the upsert of each record.
  Generator: the goroutine of \<open>lib/stars/newturn.go\<close> with its subscription, which loses the messages that
  find it busy, and its shutdown, as a step relation.
  Environment: \<open>lib/wine\<close> and \<open>lib/stars/runner.go\<close>, what is set up on disk before Stars! can run.
  Limiter: \<open>lib/registration/options.go\<close>, the limit on registrations per address.
  AuthSetup: \<open>NewAuth\<close> and the options of \<open>auth/auth.go\<close>: the secret of the tokens, its only instance.
  Commands: \<open>cmd/neper/cmd\<close>, the commands \<open>create-user\<close>, \<open>load-serials\<close>, \<open>serve\<close> and the keys.
  Startup: \<open>cmd/neper/cmd/serve_config.go\<close>, \<open>lib/embeddednats\<close>, \<open>restapi/configure_neper.go\<close>: the
  set-up and its goroutine as a step relation, the health check, the sequence of the shutdown.
  Columns, TableSchema: \<open>models/db_helpers.go\<close>: names and values of columns (the locale \<open>mapped\<close> is the
  Go interface \<open>Mapped\<close>, interpreted by each type of a row), the schemas that queries are built from;
  ApiColumns: the columns of the types of the API that the rows embed.
  Jsonb: \<open>models/types\<close>, the lists in columns of the type JSONB and decimal numbers.
  ReplyModels: the checks of the models that only the server sends, and which replies pass them.
  Responses: \<open>restapi/operations/*_responses.go\<close>, all responders on a writer of HTTP (status,
  headers, body, panic).
  Routes: \<open>restapi/operations/neper_api.go\<close>, \<open>logging.go\<close>, \<open>*_urlbuilder.go\<close>: the operations, the
  table of the handlers, the names in the logs, the URLs of the operations.
  Serving: \<open>restapi/operations/*.go\<close> and \<open>*_parameters.go\<close>: \<open>ServeHTTP\<close> of each operation, that is its
  authorisation, the binding of its parameters and the call of its handler.
  ApiSpec: the operations of \<open>restapi/embedded_spec.go\<close>, as data, and how the code agrees with them.
  Schemas: the models of \<open>restapi/embedded_spec.go\<close>, read as JSON schemas, against the validation of \<open>models\<close>.
  Swagger: the other document of that file, with its references, and how the flat one comes from it.
  ApiSetup, Metrics: \<open>NewNeperAPI\<close>, \<open>Validate\<close>, the assignments of \<open>ConfigureAPI\<close>; the collectors and
  wrappers of \<open>*_prometheus.go\<close>, \<open>prometheus.go\<close>, \<open>prometheus_register.go\<close>.
  Pipeline: a request from the middleware over the router to the handler; producers and consumers.
  Configured: \<open>ConfigureAPI\<close>: the handlers of all theories behind the generated code, on one state.

  What is shown.

  Each theory shows what its operations do on every branch that matters: the rows they change and
  the ones they leave, the errors and the status codes, the messages. Across components, System
  shows that every reachable state satisfies the schema, assigns no serial key twice, generates at
  most one game per session and has the files of every started session; that the steps refine the
  life of a session (pending, starting, started, archived), both for sessions with a non-empty
  identifier; and that an interrupted start is never resumed. Control, Turns and GameCreate follow a game through the file formats (the
  orders that reach the game binary are those the players submitted), Auth and Access bound who gets
  at what, Notifications shows that a deletion reaches exactly those who saw the session. Sync shows
  that a broadcast has the effect of its changes or none, and that a second one changes nothing;
  Generator that \<open>Shutdown\<close> stops the generator, by a measure on the work left, and that a busy one loses the
  turn it is asked for; Environment and Startup
  that a server that reports to be healthy has what the game needs, and when it never gets there;
  AuthSetup that tokens survive a restart. Around the handlers,
  ApiSpec shows that the generated code is that of the specification for all operations, Routes that a
  built URL leads back to its operation with the same values, Schemas in which cases the validation differs from
  the document, Metrics that every operation is measured under its own name, Pipeline that a handler runs
  without a principal only for the three operations that are open to everyone, and in which format a refused
  backup is answered. Configured joins the
  halves: whatever a client sends, the server does steps of System or nothing, so that what holds of
  the reachable states holds of the server.
  Several theorems state behaviour that is a defect: they are the precise reports of it, and say so
  in their text.

  Parameters.

  Code outside of the repository is an argument, with what is assumed of it as a hypothesis: the
  file parser \<open>houston\<close> (record \<open>houston\<close>), the player changer of the same library (record
  \<open>playerchanger\<close>), the game binary run by wine (\<open>wine\<close>, a function on the save directory that
  may do anything), signed tokens and the cache (\<open>jwt\<close>, \<open>token_cache\<close>), the checks of
  \<open>go-openapi/validate\<close> (\<open>validator\<close>), the collation of the database, random bytes and fresh UUIDs.
  Bytes are \<open>8 word\<close>, Base64 is computed on them; Go's \<open>int\<close> and \<open>int64\<close> are unbounded integers,
  since no operation on them comes near their bounds (years, orders below 16, counts of rows), but for the
  integers of the rules, whose columns have 32 bits (\<open>int4\<close>). When the context of a request is cancelled is an
  argument of the start of a game (\<open>request_context\<close>). The
  iterator of json-iterator (\<open>json_lib\<close>), go-cmd and the programs that it runs (\<open>platform\<close>), nkeys
  and NATS, and the token bucket of \<open>x/time/rate\<close> (\<open>rate_lib\<close>) are parameters in the same way, as are the
  runtime of go-openapi (\<open>openapi\<close>: how it matches a route, authorises and binds a body) and its
  formats (\<open>formats\<close>), and \<open>pgtype\<close> for values of the type JSONB.
  An index out of range of a slice is the error \<open>Panic\<close>.

  Recursion follows the data, except \<open>load_batches\<close>, whose measure is the number of keys left, and
  \<open>TrimSpace\<close>, whose fuel is the length of the text: each step removes a character.

  Not modelled.

  Interleavings of single statements (Interleaving splits a request once), lost connections and
  retries of the database, cancelled requests other than the start of a game, where they only undo a
  transaction; the delivery of notifications by NATS, which are values in the order of
  publication; the parser of options, the writing of logs and the collection of metrics; the JSON
  of the API; the encoding of ZIP archives, of which the list of entries is modelled, and of values of the type
  JSONB; the arithmetic of decimal numbers; tests and tools.
\<close>

end
